(* ===== verification/Prelude.thy ===== *)
theory Prelude
  imports Complex_Main "HOL-Library.AList"
begin

text \<open>
  Shared vocabulary of the development: Go's 64-bit integers written as \<open>int\<close> with the
  wrap-around explicit, tables as association lists keyed by their primary key, and the
  generic facts about them that every component uses.
\<close>

named_theorems go_simps \<open>evaluation rules of the Go integer operations\<close>

section \<open>Go integers\<close>

text \<open>
  Go's \<open>int64\<close> (and \<open>int\<close> on the 64-bit targets of this server) is two's complement and
  wraps silently. A Go expression over \<open>int64\<close> operands is written as the exact integer
  expression under \<open>wrap64\<close>.
\<close>

definition in64 :: "int \<Rightarrow> bool" where
  "in64 x \<longleftrightarrow> - (2 ^ 63) \<le> x \<and> x < 2 ^ 63"

definition wrap64 :: "int \<Rightarrow> int" where
  "wrap64 x = (x + 2 ^ 63) mod 2 ^ 64 - 2 ^ 63"

text \<open>Go's integer division truncates towards zero.\<close>

definition go_div :: "int \<Rightarrow> int \<Rightarrow> int" where
  "go_div a b = sgn a * sgn b * (\<bar>a\<bar> div \<bar>b\<bar>)"

lemma wrap64_id [go_simps]: "in64 x \<Longrightarrow> wrap64 x = x"
  by (simp add: in64_def wrap64_def)

lemma in64_wrap64 [simp]: "in64 (wrap64 x)"
proof -
  have "0 \<le> (x + 2 ^ 63) mod 2 ^ 64" and "(x + 2 ^ 63) mod 2 ^ 64 < (2::int) ^ 64"
    by simp_all
  then show ?thesis by (simp add: in64_def wrap64_def)
qed

lemma wrap64_idem [simp]: "wrap64 (wrap64 x) = wrap64 x"
  by (rule wrap64_id) simp

lemma in64_between: "in64 a \<Longrightarrow> in64 c \<Longrightarrow> a \<le> b \<Longrightarrow> b \<le> c \<Longrightarrow> in64 b"
  by (simp add: in64_def)

lemma in64_nonneg_le: "in64 b \<Longrightarrow> 0 \<le> a \<Longrightarrow> a \<le> b \<Longrightarrow> in64 a"
  by (simp add: in64_def)

lemma in64_zero [simp]: "in64 0"
  by (simp add: in64_def)

lemma in64_uminus: "in64 x \<Longrightarrow> 0 \<le> x \<Longrightarrow> in64 (- x)"
  by (simp add: in64_def)

lemma go_div_nonneg [go_simps]: "0 \<le> a \<Longrightarrow> 0 < b \<Longrightarrow> go_div a b = a div b"
  by (cases "a = 0") (simp_all add: go_div_def)

section \<open>Tables\<close>

text \<open>
  A database table is an association list from its primary key to the rest of the row, in
  the order the rows were inserted. \<open>map_of\<close> reads a row, \<open>AList.update\<close> writes one in
  place (or appends it), \<open>AList.delete\<close> removes it.
\<close>

type_synonym ('k, 'v) table = "('k \<times> 'v) list"

definition keys :: "('k, 'v) table \<Rightarrow> 'k list" where
  "keys t = map fst t"

definition tbl_wf :: "('k, 'v) table \<Rightarrow> bool" where
  "tbl_wf t \<longleftrightarrow> distinct (keys t)"

text \<open>The sum of a column over a table.\<close>

definition tsum :: "('k \<Rightarrow> 'v \<Rightarrow> int) \<Rightarrow> ('k, 'v) table \<Rightarrow> int" where
  "tsum f t = sum_list (map (\<lambda>(k, v). f k v) t)"

lemma tsum_Nil [simp]: "tsum f [] = 0"
  and tsum_Cons [simp]: "tsum f ((k, v) # t) = f k v + tsum f t"
  by (simp_all add: tsum_def)

lemma tbl_wf_Nil [simp]: "tbl_wf []"
  by (simp add: tbl_wf_def keys_def)

lemma tbl_wf_update [simp]: "tbl_wf t \<Longrightarrow> tbl_wf (AList.update k v t)"
  by (simp add: tbl_wf_def keys_def distinct_update)

lemma tbl_wf_delete [simp]: "tbl_wf t \<Longrightarrow> tbl_wf (AList.delete k t)"
  by (simp add: tbl_wf_def keys_def distinct_delete)

lemma tbl_wf_filter [simp]: "tbl_wf t \<Longrightarrow> tbl_wf (filter P t)"
  by (simp add: tbl_wf_def keys_def distinct_map_filter)

lemma map_of_update [simp]: "map_of (AList.update k v t) = (map_of t)(k \<mapsto> v)"
  by (rule update_conv')

lemma map_of_delete [simp]: "map_of (AList.delete k t) = (map_of t)(k := None)"
  by (rule delete_conv')

lemma tsum_update_Some:
  "map_of t k = Some v \<Longrightarrow> tsum f (AList.update k w t) = tsum f t - f k v + f k w"
  by (induction t) (auto split: if_splits)

lemma tsum_update_None:
  "map_of t k = None \<Longrightarrow> tsum f (AList.update k w t) = tsum f t + f k w"
  by (induction t) (auto split: if_splits)

lemma delete_absent: "map_of t k = None \<Longrightarrow> AList.delete k t = t"
  by (simp add: map_of_eq_None_iff delete_id)

lemma tsum_delete_Some:
  "tbl_wf t \<Longrightarrow> map_of t k = Some v \<Longrightarrow> tsum f (AList.delete k t) = tsum f t - f k v"
proof (induction t)
  case Nil
  then show ?case by simp
next
  case (Cons a t)
  obtain k' v' where a: "a = (k', v')" by (cases a)
  show ?case
  proof (cases "k' = k")
    case True
    with Cons.prems a have "map_of t k = None" and "v' = v"
      by (auto simp: tbl_wf_def keys_def map_of_eq_None_iff)
    with True a show ?thesis by (simp add: delete_absent)
  next
    case False
    with Cons a show ?thesis by (simp add: tbl_wf_def keys_def)
  qed
qed

lemmas tsum_table = tsum_update_Some tsum_update_None tsum_delete_Some

lemma tsum_cong: "(\<And>k v. (k, v) \<in> set t \<Longrightarrow> f k v = g k v) \<Longrightarrow> tsum f t = tsum g t"
  unfolding tsum_def by (rule arg_cong [of _ _ sum_list]) auto

lemma tsum_nonneg: "(\<And>k v. (k, v) \<in> set t \<Longrightarrow> 0 \<le> f k v) \<Longrightarrow> 0 \<le> tsum f t"
  by (induction t) (auto simp: add_nonneg_nonneg)

lemma map_of_memD: "map_of t k = Some v \<Longrightarrow> (k, v) \<in> set t"
  by (rule map_of_SomeD)

lemma set_update_cases:
  "(k', v') \<in> set (AList.update k v t) \<Longrightarrow> (k', v') = (k, v) \<or> (k', v') \<in> set t"
  by (induction t) (auto split: if_splits)

lemma set_delete_subset: "set (AList.delete k t) \<subseteq> set t"
  by (auto simp: AList.delete_eq)

text \<open>Properties of every row, and how the writes keep them.\<close>

definition all_rows :: "('k \<Rightarrow> 'v \<Rightarrow> bool) \<Rightarrow> ('k, 'v) table \<Rightarrow> bool" where
  "all_rows P t \<longleftrightarrow> (\<forall>(k, v) \<in> set t. P k v)"

lemma all_rows_Nil [simp]: "all_rows P []"
  by (simp add: all_rows_def)

lemma all_rowsD: "all_rows P t \<Longrightarrow> map_of t k = Some v \<Longrightarrow> P k v"
  by (auto simp: all_rows_def dest: map_of_SomeD)

lemma all_rows_update [intro]: "all_rows P t \<Longrightarrow> P k v \<Longrightarrow> all_rows P (AList.update k v t)"
  by (auto simp: all_rows_def dest!: set_update_cases)

lemma all_rows_delete [simp, intro]: "all_rows P t \<Longrightarrow> all_rows P (AList.delete k t)"
  using set_delete_subset by (fastforce simp: all_rows_def)

text \<open>The first row that satisfies a condition, as \<open>QueryRow\<close> returns it.\<close>

definition find_row :: "('k \<Rightarrow> 'v \<Rightarrow> bool) \<Rightarrow> ('k, 'v) table \<Rightarrow> ('k \<times> 'v) option" where
  "find_row P t = List.find (\<lambda>(k, v). P k v) t"

lemma find_row_SomeD: "find_row P t = Some (k, v) \<Longrightarrow> (k, v) \<in> set t \<and> P k v"
  unfolding find_row_def find_Some_iff by (metis case_prod_conv nth_mem)

lemma find_row_None_iff: "find_row P t = None \<longleftrightarrow> (\<forall>(k, v) \<in> set t. \<not> P k v)"
  by (auto simp: find_row_def find_None_iff)

lemma tbl_wf_map_of: "tbl_wf t \<Longrightarrow> (k, v) \<in> set t \<Longrightarrow> map_of t k = Some v"
  by (simp add: tbl_wf_def keys_def)

lemma distinct_map_eq_key: "distinct (map f xs) \<Longrightarrow> x \<in> set xs \<Longrightarrow> y \<in> set xs \<Longrightarrow> f x = f y \<Longrightarrow> x = y"
  by (simp add: distinct_map inj_on_def)

lemma update_new: "map_of t k = None \<Longrightarrow> AList.update k v t = t @ [(k, v)]"
  by (induction t) auto

lemma row_iff: "tbl_wf t \<Longrightarrow> map_of t k = Some v \<longleftrightarrow> (k, v) \<in> set t"
  by (auto intro: tbl_wf_map_of dest: map_of_SomeD)

lemma all_rows_lookup: "tbl_wf t \<Longrightarrow> all_rows P t \<longleftrightarrow> (\<forall>k v. map_of t k = Some v \<longrightarrow> P k v)"
  by (auto simp: all_rows_def row_iff)

lemma lookup_filter: "tbl_wf t \<Longrightarrow> map_of (filter P t) k = Some v \<longleftrightarrow> map_of t k = Some v \<and> P (k, v)"
  by (simp add: row_iff)

section \<open>Loops over maps\<close>

text \<open>
  A loop over a Go map that rewrites at most the entry at hand and logs the keys it touched:
  over distinct keys, in any order, it acts on every entry independently.
\<close>

definition touchEntry :: "('v \<Rightarrow> bool) \<Rightarrow> ('v \<Rightarrow> 'v) \<Rightarrow> ('k \<Rightarrow> 'h) \<Rightarrow> 'k \<Rightarrow> ('k \<rightharpoonup> 'v) \<times> 'h list \<Rightarrow> ('k \<rightharpoonup> 'v) \<times> 'h list" where
  "touchEntry P f g k st = (case st of (m, hits) \<Rightarrow>
     (case m k of None \<Rightarrow> (m, hits) | Some v \<Rightarrow> if P v then (m(k \<mapsto> f v), hits @ [g k]) else (m, hits)))"

definition touched :: "('v \<Rightarrow> bool) \<Rightarrow> ('k \<rightharpoonup> 'v) \<Rightarrow> 'k \<Rightarrow> bool" where
  "touched P m k \<longleftrightarrow> (case m k of None \<Rightarrow> False | Some v \<Rightarrow> P v)"

lemma fold_touchEntry:
  "distinct ks \<Longrightarrow> fold (touchEntry P f g) ks (m, hits) =
     (\<lambda>k. if k \<in> set ks \<and> touched P m k then map_option f (m k) else m k, hits @ map g (filter (touched P m) ks))"
proof (induction ks arbitrary: m hits)
  case (Cons k ks)
  define m' where "m' = (if touched P m k then m(k := map_option f (m k)) else m)"
  have step: "touchEntry P f g k (m, hits) = (m', hits @ (if touched P m k then [g k] else []))"
    by (auto simp: touchEntry_def touched_def m'_def split: option.splits)
  have same: "j \<noteq> k \<Longrightarrow> touched P m' j = touched P m j \<and> m' j = m j" for j
    by (simp add: m'_def touched_def)
  then have "filter (touched P m') ks = filter (touched P m) ks"
    using Cons.prems same by (intro filter_cong refl) (metis distinct.simps(2))
  moreover have "(\<lambda>j. if j \<in> set ks \<and> touched P m' j then map_option f (m' j) else m' j) =
      (\<lambda>j. if j \<in> set (k # ks) \<and> touched P m j then map_option f (m j) else m j)"
  proof (rule ext)
    fix j
    show "(if j \<in> set ks \<and> touched P m' j then map_option f (m' j) else m' j) =
        (if j \<in> set (k # ks) \<and> touched P m j then map_option f (m j) else m j)"
      using Cons.prems same [of j] by (cases "j = k") (auto simp: m'_def)
  qed
  ultimately show ?case using Cons step by simp
qed simp

lemma touched_dom:
  "dom m \<subseteq> K \<Longrightarrow> (if k \<in> K \<and> touched P m k then map_option f (m k) else m k) =
     map_option (\<lambda>v. if P v then f v else v) (m k)"
  by (auto simp: touched_def split: option.splits)

section \<open>Sorting by a given order\<close>

text \<open>
  An \<open>ORDER BY\<close> over text depends on the collation of the database: the order is a parameter,
  \<open>le x y\<close> says that \<open>x\<close> may stand before \<open>y\<close>.
\<close>

fun insertBy :: "('a \<Rightarrow> 'a \<Rightarrow> bool) \<Rightarrow> 'a \<Rightarrow> 'a list \<Rightarrow> 'a list" where
  "insertBy le x [] = [x]"
| "insertBy le x (y # ys) = (if le x y then x # y # ys else y # insertBy le x ys)"

definition sortBy :: "('a \<Rightarrow> 'a \<Rightarrow> bool) \<Rightarrow> 'a list \<Rightarrow> 'a list" where
  "sortBy le xs = foldr (insertBy le) xs []"

lemma set_insertBy [simp]: "set (insertBy le x xs) = insert x (set xs)"
  by (induction xs) auto

lemma sortBy_simps [simp]: "sortBy le [] = []" "sortBy le (x # xs) = insertBy le x (sortBy le xs)"
  by (simp_all add: sortBy_def)

lemma set_sortBy [simp]: "set (sortBy le xs) = set xs"
  by (induction xs) simp_all

lemma distinct_insertBy: "distinct (map f (insertBy le x xs)) \<longleftrightarrow> f x \<notin> f ` set xs \<and> distinct (map f xs)"
  by (induction xs) auto

lemma distinct_sortBy [simp]: "distinct (map f (sortBy le xs)) \<longleftrightarrow> distinct (map f xs)"
  by (induction xs) (auto simp: distinct_insertBy)

section \<open>Relations kept by every step\<close>

locale preorder_rel =
  fixes R :: "'s \<Rightarrow> 's \<Rightarrow> bool"
  assumes refl: "R s s"
    and trans: "R s t \<Longrightarrow> R t u \<Longrightarrow> R s u"
begin

lemma fold_kept: "(\<And>x s. x \<in> set xs \<Longrightarrow> R s (f x s)) \<Longrightarrow> R s (fold f xs s)"
proof (induction xs arbitrary: s)
  case (Cons x xs)
  then have "R (f x s) (fold f xs (f x s))" by simp
  moreover have "R s (f x s)" using Cons.prems by simp
  ultimately show ?case using trans by simp
qed (simp add: refl)

end

end
