(* ===== verification/Entities.thy ===== *)
theory Entities
  imports Prelude
begin

text \<open>
  What the components share to talk about each other's objects (\<open>internal/domain\<close>): the
  polymorphic entity reference and its kinds, and player-chosen text.
\<close>

section \<open>References\<close>

record entity_ref =
  ref_kind :: int
  ref_id :: int

abbreviation EntityRef :: "int \<Rightarrow> int \<Rightarrow> entity_ref" where
  "EntityRef k i \<equiv> \<lparr>ref_kind = k, ref_id = i\<rparr>"

abbreviation (input) EntityKindShip :: int where "EntityKindShip \<equiv> 1"
abbreviation (input) EntityKindStation :: int where "EntityKindStation \<equiv> 2"
abbreviation (input) EntityKindShipyard :: int where "EntityKindShipyard \<equiv> 3"
abbreviation (input) EntityKindTradeStation :: int where "EntityKindTradeStation \<equiv> 4"
abbreviation (input) EntityKindPirbase :: int where "EntityKindPirbase \<equiv> 5"
abbreviation (input) EntityKindPlayer :: int where "EntityKindPlayer \<equiv> 9"
abbreviation (input) EntityKindClan :: int where "EntityKindClan \<equiv> 10"

definition PlayerRef :: "int \<Rightarrow> entity_ref" where
  "PlayerRef p = EntityRef EntityKindPlayer p"

definition ClanRef :: "int \<Rightarrow> entity_ref" where
  "ClanRef c = EntityRef EntityKindClan c"

section \<open>Text\<close>

text \<open>
  Names that players choose are Go strings in UTF-8 (the JSON decoder and PostgreSQL admit nothing else);
  the code looks at them only as sequences of code points, which is how they are represented.
\<close>

type_synonym runes = "int list"

definition runes_of :: "string \<Rightarrow> runes" where
  "runes_of cs = map of_char cs"

end
