(* ===== verification/Float64.thy ===== *)
theory Float64
  imports Prelude
begin

text \<open>
  IEEE-754 binary64, the type behind Go's \<open>float64\<close> and PostgreSQL's \<open>double precision\<close>:
  finite values are rationals, every operation is the exact result rounded to the nearest
  representable value, ties to even, with gradual underflow and overflow to infinity. The
  two zeros are identified: no code of the repository observes the sign of a zero.
\<close>

section \<open>Rounding\<close>

definition pow2 :: "int \<Rightarrow> rat" where
  "pow2 e = (if 0 \<le> e then of_int (2 ^ nat e) else 1 / of_int (2 ^ nat (- e)))"

fun ilog2_int :: "int \<Rightarrow> int" where
  "ilog2_int n = (if n \<le> 1 then 0 else 1 + ilog2_int (n div 2))"

declare ilog2_int.simps [simp del]

text \<open>The binary exponent of a positive rational: \<open>pow2 (ilog2 q) \<le> q < pow2 (ilog2 q + 1)\<close>.\<close>

definition ilog2 :: "rat \<Rightarrow> int" where
  "ilog2 q = (case quotient_of q of (a, b) \<Rightarrow>
     (let k = ilog2_int a - ilog2_int b in if pow2 k \<le> q then k else k - 1))"

text \<open>Round to the nearest integer, ties to even.\<close>

definition rne :: "rat \<Rightarrow> int" where
  "rne x = (let n = \<lfloor>x\<rfloor>; d = x - of_int n in
     if d < 1 / 2 then n else if 1 / 2 < d then n + 1 else if even n then n else n + 1)"

text \<open>The exponent of the last place of the binade of \<open>q\<close>: 53 significant bits, at least \<open>-1074\<close>.\<close>

definition ulp_exp :: "rat \<Rightarrow> int" where
  "ulp_exp q = max (ilog2 \<bar>q\<bar> - 52) (- 1074)"

definition rnd :: "rat \<Rightarrow> rat" where
  "rnd q = (if q = 0 then 0 else of_int (rne (q / pow2 (ulp_exp q))) * pow2 (ulp_exp q))"

section \<open>Values and operations\<close>

datatype float64 = NaN | PInf | NInf | Fin rat

definition mk_float :: "rat \<Rightarrow> float64" where
  "mk_float q = (let r = rnd q in
     if of_int (2 ^ 1024) \<le> r then PInf else if r \<le> - of_int (2 ^ 1024) then NInf else Fin r)"

fun f_neg :: "float64 \<Rightarrow> float64" where
  "f_neg NaN = NaN"
| "f_neg PInf = NInf"
| "f_neg NInf = PInf"
| "f_neg (Fin x) = Fin (- x)"

fun f_add :: "float64 \<Rightarrow> float64 \<Rightarrow> float64" where
  "f_add (Fin x) (Fin y) = mk_float (x + y)"
| "f_add NaN _ = NaN"
| "f_add _ NaN = NaN"
| "f_add PInf NInf = NaN"
| "f_add NInf PInf = NaN"
| "f_add PInf _ = PInf"
| "f_add _ PInf = PInf"
| "f_add NInf _ = NInf"
| "f_add _ NInf = NInf"

definition f_sub :: "float64 \<Rightarrow> float64 \<Rightarrow> float64" where
  "f_sub x y = f_add x (f_neg y)"

definition signed_inf :: "rat \<Rightarrow> float64" where
  "signed_inf s = (if 0 < s then PInf else if s < 0 then NInf else NaN)"

fun f_mul :: "float64 \<Rightarrow> float64 \<Rightarrow> float64" where
  "f_mul (Fin x) (Fin y) = mk_float (x * y)"
| "f_mul NaN _ = NaN"
| "f_mul _ NaN = NaN"
| "f_mul PInf (Fin y) = signed_inf y"
| "f_mul NInf (Fin y) = signed_inf (- y)"
| "f_mul (Fin x) PInf = signed_inf x"
| "f_mul (Fin x) NInf = signed_inf (- x)"
| "f_mul PInf PInf = PInf"
| "f_mul NInf NInf = PInf"
| "f_mul PInf NInf = NInf"
| "f_mul NInf PInf = NInf"

fun f_div :: "float64 \<Rightarrow> float64 \<Rightarrow> float64" where
  "f_div (Fin x) (Fin y) = (if y = 0 then signed_inf x else mk_float (x / y))"
| "f_div NaN _ = NaN"
| "f_div _ NaN = NaN"
| "f_div (Fin _) PInf = Fin 0"
| "f_div (Fin _) NInf = Fin 0"
| "f_div PInf (Fin y) = (if 0 \<le> y then PInf else NInf)"
| "f_div NInf (Fin y) = (if 0 \<le> y then NInf else PInf)"
| "f_div PInf _ = NaN"
| "f_div NInf _ = NaN"

fun f_le :: "float64 \<Rightarrow> float64 \<Rightarrow> bool" where
  "f_le (Fin x) (Fin y) = (x \<le> y)"
| "f_le NaN _ = False"
| "f_le _ NaN = False"
| "f_le NInf _ = True"
| "f_le _ PInf = True"
| "f_le PInf _ = False"
| "f_le _ NInf = False"

fun f_lt :: "float64 \<Rightarrow> float64 \<Rightarrow> bool" where
  "f_lt (Fin x) (Fin y) = (x < y)"
| "f_lt NaN _ = False"
| "f_lt _ NaN = False"
| "f_lt PInf _ = False"
| "f_lt _ NInf = False"
| "f_lt NInf _ = True"
| "f_lt _ PInf = True"

text \<open>\<open>float64(n)\<close> for an integer, and \<open>int64(x)\<close>, which truncates towards zero; out of
  range the amd64 conversion yields the minimal integer.\<close>

definition f_of_int :: "int \<Rightarrow> float64" where
  "f_of_int n = mk_float (of_int n)"

definition trunc_rat :: "rat \<Rightarrow> int" where
  "trunc_rat x = (if 0 \<le> x then \<lfloor>x\<rfloor> else - \<lfloor>- x\<rfloor>)"

fun f_to_int64 :: "float64 \<Rightarrow> int" where
  "f_to_int64 (Fin x) = (if in64 (trunc_rat x) then trunc_rat x else - (2 ^ 63))"
| "f_to_int64 _ = - (2 ^ 63)"

section \<open>Properties of rounding\<close>

lemma pow2_powi: "pow2 e = 2 powi e"
  by (simp add: pow2_def power_int_def field_simps)

lemma pow2_pos [simp]: "0 < pow2 e" by (simp add: pow2_powi)

lemma pow2_nonzero [simp]: "pow2 e \<noteq> 0" by (simp add: pow2_powi)

lemma pow2_nonneg [simp]: "0 \<le> pow2 e" by (simp add: less_imp_le)

lemma abs_pow2 [simp]: "\<bar>pow2 e\<bar> = pow2 e" by (simp add: less_imp_le)

lemma pow2_add: "pow2 (a + b) = pow2 a * pow2 b" by (simp add: pow2_powi power_int_add)

lemma pow2_0 [simp]: "pow2 0 = 1" by (simp add: pow2_powi)

lemma pow2_1 [simp]: "pow2 1 = 2" by (simp add: pow2_powi)

lemma pow2_nat: "pow2 (int n) = 2 ^ n" by (simp add: pow2_powi)

lemma pow2_mono: "a \<le> b \<Longrightarrow> pow2 a \<le> pow2 b" by (simp add: pow2_powi power_int_increasing)

lemma pow2_strict_mono: "a < b \<Longrightarrow> pow2 a < pow2 b" by (simp add: pow2_powi power_int_strict_increasing)

lemma pow2_le_iff [simp]: "pow2 a \<le> pow2 b \<longleftrightarrow> a \<le> b"
  using pow2_mono pow2_strict_mono by (meson not_le)

lemma pow2_less_iff [simp]: "pow2 a < pow2 b \<longleftrightarrow> a < b"
  using pow2_le_iff by (meson not_le)

lemma ilog2_int_bounds: "0 < n \<Longrightarrow> 0 \<le> ilog2_int n \<and> 2 ^ nat (ilog2_int n) \<le> n \<and> n < 2 * 2 ^ nat (ilog2_int n)"
proof (induction n rule: ilog2_int.induct)
  case (1 n)
  show ?case
  proof (cases "n \<le> 1")
    case True
    with 1 show ?thesis by (simp add: ilog2_int.simps)
  next
    case False
    let ?m = "n div 2"
    from False 1(1) have IH: "0 \<le> ilog2_int ?m" "2 ^ nat (ilog2_int ?m) \<le> ?m" "?m < 2 * 2 ^ nat (ilog2_int ?m)"
      by (auto simp: pos_imp_zdiv_pos_iff)
    have "nat (1 + ilog2_int ?m) = Suc (nat (ilog2_int ?m))" using IH(1) by simp
    moreover have "2 * ?m \<le> n" "n \<le> 2 * ?m + 1" by auto
    ultimately show ?thesis using False IH by (subst (1 2 3) ilog2_int.simps) auto
  qed
qed

lemma ilog2_int_pow2: 
  assumes "0 < n" shows "pow2 (ilog2_int n) \<le> of_int n" "of_int n < 2 * pow2 (ilog2_int n)"
proof -
  note b = ilog2_int_bounds [OF assms]
  have p: "pow2 (ilog2_int n) = of_int (2 ^ nat (ilog2_int n))" using b by (simp add: pow2_def)
  show "pow2 (ilog2_int n) \<le> of_int n" using b p by (simp only: of_int_le_iff)
  have "of_int n < (of_int (2 * 2 ^ nat (ilog2_int n)) :: rat)" using b by (simp only: of_int_less_iff)
  then show "of_int n < 2 * pow2 (ilog2_int n)" using p by simp
qed

lemma ilog2_bounds:
  assumes "0 < q" shows "pow2 (ilog2 q) \<le> q" "q < pow2 (ilog2 q + 1)"
proof -
  obtain a b where ab: "quotient_of q = (a, b)" by (cases "quotient_of q")
  then have b: "0 < b" and q: "q = of_int a / of_int b"
    by (simp_all add: quotient_of_denom_pos quotient_of_div)
  with assms have a: "0 < a" by (simp add: zero_less_divide_iff)
  let ?k = "ilog2_int a - ilog2_int b"
  note A = ilog2_int_pow2 [OF a] and B = ilog2_int_pow2 [OF b]
  have k: "pow2 ?k * pow2 (ilog2_int b) = pow2 (ilog2_int a)" by (simp flip: pow2_add)
  have bpos: "(0::rat) < of_int b" using b by simp
  have "q * of_int b = of_int a" using q b by simp
  have up: "q < 2 * pow2 ?k"
  proof -
    have "of_int a < 2 * pow2 ?k * pow2 (ilog2_int b)" using A(2) k by simp
    also have "\<dots> \<le> 2 * pow2 ?k * of_int b" using B(1) by simp
    finally show ?thesis using q bpos by (simp add: pos_divide_less_eq)
  qed
  have lo: "pow2 ?k < 2 * q"
  proof -
    have "pow2 ?k * of_int b < pow2 ?k * (2 * pow2 (ilog2_int b))" using B(2) by simp
    also have "\<dots> = 2 * pow2 (ilog2_int a)" using k by simp
    also have "\<dots> \<le> 2 * of_int a" using A(1) by simp
    finally show ?thesis using q bpos by (simp add: pos_less_divide_eq)
  qed
  have h: "2 * pow2 (?k - 1) = pow2 ?k" using pow2_add [of 1 "?k - 1"] by simp
  have t: "pow2 (?k + 1) = 2 * pow2 ?k" by (simp add: pow2_add)
  show "pow2 (ilog2 q) \<le> q" "q < pow2 (ilog2 q + 1)"
    using up lo h t by (auto simp: ilog2_def ab Let_def)
qed

lemma ilog2_unique: "0 < q \<Longrightarrow> pow2 k \<le> q \<Longrightarrow> q < pow2 (k + 1) \<Longrightarrow> ilog2 q = k"
proof -
  assume q: "0 < q" and k: "pow2 k \<le> q" "q < pow2 (k + 1)"
  note b = ilog2_bounds [OF q]
  from k(1) b(2) have "pow2 k < pow2 (ilog2 q + 1)" by (rule le_less_trans)
  moreover from b(1) k(2) have "pow2 (ilog2 q) < pow2 (k + 1)" by (rule le_less_trans)
  ultimately show "ilog2 q = k" by simp
qed

lemma ilog2_mono: "0 < x \<Longrightarrow> x \<le> y \<Longrightarrow> ilog2 x \<le> ilog2 y"
proof -
  assume x: "0 < x" and xy: "x \<le> y"
  then have "pow2 (ilog2 x) \<le> y" "y < pow2 (ilog2 y + 1)"
    using ilog2_bounds [of x] ilog2_bounds [of y] by auto
  then have "pow2 (ilog2 x) < pow2 (ilog2 y + 1)" by (rule le_less_trans)
  then show ?thesis by simp
qed

lemma rne_of_int [simp]: "rne (of_int n) = n"
  by (simp add: rne_def)

lemma rne_error: "\<bar>of_int (rne x) - x\<bar> \<le> 1 / 2"
proof -
  have "of_int \<lfloor>x\<rfloor> \<le> x" "x < of_int \<lfloor>x\<rfloor> + 1" by linarith+
  then show ?thesis by (auto simp: rne_def Let_def abs_le_iff)
qed

lemma rne_cases: "rne x = \<lfloor>x\<rfloor> \<or> rne x = \<lfloor>x\<rfloor> + 1"
  by (auto simp: rne_def Let_def)

lemma rne_mono: "x \<le> y \<Longrightarrow> rne x \<le> rne y"
proof -
  assume xy: "x \<le> y"
  then have fl: "\<lfloor>x\<rfloor> \<le> \<lfloor>y\<rfloor>" by (rule floor_mono)
  show ?thesis
  proof (cases "\<lfloor>x\<rfloor> = \<lfloor>y\<rfloor>")
    case True
    then show ?thesis using xy by (auto simp: rne_def Let_def)
  next
    case False
    with fl have "\<lfloor>x\<rfloor> + 1 \<le> \<lfloor>y\<rfloor>" by simp
    then show ?thesis using rne_cases [of x] rne_cases [of y] by auto
  qed
qed

lemma rne_neg: "rne (- x) = - rne x"
proof (cases "x \<in> \<int>")
  case True
  then obtain n where "x = of_int n" by (auto elim: Ints_cases)
  then show ?thesis by (metis of_int_minus rne_of_int)
next
  case False
  then have "x \<noteq> of_int \<lfloor>x\<rfloor>" by (metis Ints_of_int)
  then have "- \<lfloor>- x\<rfloor> = \<lfloor>x\<rfloor> + 1"
    using ceiling_altdef [of x] by (simp add: ceiling_def)
  then have c: "\<lfloor>- x\<rfloor> = - \<lfloor>x\<rfloor> - 1" by linarith
  then have "- x - of_int \<lfloor>- x\<rfloor> = 1 - (x - of_int \<lfloor>x\<rfloor>)" by simp
  then show ?thesis unfolding rne_def Let_def c by auto
qed

lemma rnd_0 [simp]: "rnd 0 = 0" by (simp add: rnd_def)

lemma rnd_neg: "rnd (- q) = - rnd q"
  by (simp add: rnd_def ulp_exp_def rne_neg)

text \<open>The result is within half a unit in the last place.\<close>

lemma rnd_error: "\<bar>rnd q - q\<bar> \<le> pow2 (ulp_exp q) / 2"
proof (cases "q = 0")
  case False
  let ?u = "pow2 (ulp_exp q)"
  have u: "0 < ?u" by simp
  have "rnd q - q = (of_int (rne (q / ?u)) - q / ?u) * ?u"
    using False by (simp add: rnd_def left_diff_distrib)
  then have "\<bar>rnd q - q\<bar> = \<bar>of_int (rne (q / ?u)) - q / ?u\<bar> * ?u"
    by (simp add: abs_mult)
  also have "\<dots> \<le> (1 / 2) * ?u"
    by (rule mult_right_mono [OF rne_error]) simp
  finally show ?thesis by simp
qed simp

text \<open>Representable values are unchanged.\<close>

lemma rnd_multiple: "q / pow2 (ulp_exp q) = of_int k \<Longrightarrow> rnd q = q"
proof (cases "q = 0")
  case False
  assume k: "q / pow2 (ulp_exp q) = of_int k"
  then have "rnd q = of_int k * pow2 (ulp_exp q)" using False by (simp add: rnd_def)
  also have "\<dots> = q" by (simp flip: k)
  finally show ?thesis .
qed simp

lemma rnd_exact:
  assumes q: "q = of_int m * pow2 e" and m: "\<bar>m\<bar> \<le> 2 ^ 53" and e: "- 1074 \<le> e"
  shows "rnd q = q"
proof (cases "q = 0")
  case False
  with q have m0: "m \<noteq> 0" by auto
  let ?u = "ulp_exp q"
  have absq: "\<bar>q\<bar> = of_int \<bar>m\<bar> * pow2 e" by (simp add: q abs_mult)
  consider (sub) "?u \<le> e" | (big) "e < ?u" by linarith
  then show ?thesis
  proof cases
    case sub
    then have "pow2 e = of_int (2 ^ nat (e - ?u)) * pow2 ?u"
      using pow2_add [of "e - ?u" ?u] by (simp add: pow2_def)
    then have "q = of_int (m * 2 ^ nat (e - ?u)) * pow2 ?u"
      using q by simp
    then have "q / pow2 ?u = of_int (m * 2 ^ nat (e - ?u))"
      by (metis nonzero_mult_div_cancel_right pow2_nonzero)
    then show ?thesis by (rule rnd_multiple)
  next
    case big
    with e have u: "?u = ilog2 \<bar>q\<bar> - 52" by (simp add: ulp_exp_def)
    have p53: "pow2 53 = of_int (2 ^ 53)" by (simp add: pow2_def)
    have "pow2 (ilog2 \<bar>q\<bar>) \<le> \<bar>q\<bar>" using False by (intro ilog2_bounds) simp
    also have "\<dots> \<le> pow2 53 * pow2 e"
      unfolding absq p53 using m by (intro mult_right_mono) (simp_all only: of_int_le_iff pow2_nonneg)
    also have "\<dots> = pow2 (53 + e)" by (simp add: pow2_add)
    finally have "ilog2 \<bar>q\<bar> \<le> 53 + e" by simp
    with big u have eu: "?u = e + 1" and il: "ilog2 \<bar>q\<bar> = 53 + e" by auto
    have "pow2 (53 + e) \<le> of_int \<bar>m\<bar> * pow2 e"
      using ilog2_bounds(1) [of "\<bar>q\<bar>"] False il absq by simp
    then have "pow2 53 \<le> of_int \<bar>m\<bar>" by (simp add: pow2_add)
    then have "2 ^ 53 \<le> \<bar>m\<bar>" by (simp only: p53 of_int_le_iff)
    with m have "\<bar>m\<bar> = 2 * 2 ^ 52" by simp
    then obtain k where k: "m = 2 * k" by (cases "m < 0") (auto intro: that [of "- (2 ^ 52)"] that [of "2 ^ 52"])
    have "q / pow2 ?u = q / (pow2 e * 2)" unfolding eu by (simp add: pow2_add)
    also have "\<dots> = of_int k" by (simp add: q k)
    finally have "q / pow2 ?u = of_int k" .
    then show ?thesis by (rule rnd_multiple)
  qed
qed simp

corollary rnd_of_int: "\<bar>n\<bar> \<le> 2 ^ 53 \<Longrightarrow> rnd (of_int n) = of_int n"
  by (rule rnd_exact [of _ n 0]) simp_all

text \<open>Rounding is monotone.\<close>

lemma rnd_nonneg: "0 \<le> q \<Longrightarrow> 0 \<le> rnd q"
proof -
  assume "0 \<le> q"
  then have "rne 0 \<le> rne (q / pow2 (ulp_exp q))" by (intro rne_mono) simp
  then show ?thesis using rne_of_int [of 0] by (simp add: rnd_def zero_le_mult_iff less_imp_le)
qed

lemma ulp_exp_mono: "0 < x \<Longrightarrow> x \<le> y \<Longrightarrow> ulp_exp x \<le> ulp_exp y"
  using ilog2_mono [of x y] by (simp add: ulp_exp_def max_def)

lemma rnd_le_binade:
  assumes "0 < x" and "ulp_exp x < e" and "x < pow2 (e + 52)"
  shows "rnd x \<le> pow2 (e + 52)"
proof -
  let ?u = "ulp_exp x"
  have "x / pow2 ?u \<le> of_int (2 ^ nat (e + 52 - ?u))"
    using assms pow2_add [of "e + 52 - ?u" ?u] by (simp add: pow2_def field_simps)
  then have "rne (x / pow2 ?u) \<le> 2 ^ nat (e + 52 - ?u)"
    using rne_mono rne_of_int by metis
  then have "of_int (rne (x / pow2 ?u)) \<le> (of_int (2 ^ nat (e + 52 - ?u)) :: rat)"
    by (simp only: of_int_le_iff)
  then have "rnd x \<le> of_int (2 ^ nat (e + 52 - ?u)) * pow2 ?u"
    using assms(1) by (simp add: rnd_def)
  also have "\<dots> = pow2 (e + 52)"
    using assms(2) pow2_add [of "e + 52 - ?u" ?u] by (simp add: pow2_def)
  finally show ?thesis .
qed

lemma rnd_ge_binade:
  assumes "0 < y" and "pow2 (ulp_exp y + 52) \<le> y"
  shows "pow2 (ulp_exp y + 52) \<le> rnd y"
proof -
  let ?u = "ulp_exp y"
  have "of_int (2 ^ 52) \<le> y / pow2 ?u"
    using assms by (simp add: pow2_add pos_le_divide_eq) (simp add: pow2_def mult.commute)
  then have "2 ^ 52 \<le> rne (y / pow2 ?u)"
    using rne_mono rne_of_int by metis
  then have "(of_int (2 ^ 52) :: rat) \<le> of_int (rne (y / pow2 ?u))"
    by (simp only: of_int_le_iff)
  then show ?thesis using assms(1) by (simp add: rnd_def pow2_add) (simp add: pow2_def mult.commute)
qed

lemma rnd_mono_pos:
  assumes "0 < x" and "x \<le> y" shows "rnd x \<le> rnd y"
proof (cases "ulp_exp x = ulp_exp y")
  case True
  have "rne (x / pow2 (ulp_exp x)) \<le> rne (y / pow2 (ulp_exp x))"
    using assms by (intro rne_mono divide_right_mono) (simp_all add: less_imp_le)
  then show ?thesis using assms True by (simp add: rnd_def)
next
  case False
  with ulp_exp_mono [OF assms] have lt: "ulp_exp x < ulp_exp y" by simp
  then have uy: "ulp_exp y = ilog2 y - 52" using assms by (auto simp: ulp_exp_def max_def split: if_splits)
  have "pow2 (ulp_exp y + 52) \<le> y" using uy ilog2_bounds(1) [of y] assms by simp
  then have hi: "pow2 (ulp_exp y + 52) \<le> rnd y" using assms by (intro rnd_ge_binade) auto
  have "ilog2 x - 52 \<le> ulp_exp x" using assms by (simp add: ulp_exp_def)
  with lt have "ilog2 x + 1 \<le> ulp_exp y + 52" by simp
  then have "x < pow2 (ulp_exp y + 52)"
    using ilog2_bounds(2) [OF assms(1)] by (meson less_le_trans pow2_mono)
  then have "rnd x \<le> pow2 (ulp_exp y + 52)" using rnd_le_binade [OF assms(1) lt] by simp
  with hi show ?thesis by simp
qed

lemma rnd_mono: "x \<le> y \<Longrightarrow> rnd x \<le> rnd y"
proof -
  assume xy: "x \<le> y"
  consider "0 < x" | "x \<le> 0" "0 \<le> y" | "y < 0" by linarith
  then show ?thesis
  proof cases
    case 1
    then show ?thesis using xy by (rule rnd_mono_pos)
  next
    case 2
    then have "0 \<le> rnd y" "0 \<le> rnd (- x)" by (simp_all add: rnd_nonneg)
    then show ?thesis by (simp add: rnd_neg)
  next
    case 3
    then have "rnd (- y) \<le> rnd (- x)" using xy by (intro rnd_mono_pos) simp_all
    then show ?thesis by (simp add: rnd_neg)
  qed
qed

text \<open>Above the subnormal range the relative error is at most \<open>2 ^ -53\<close>.\<close>

lemma rnd_rel_error:
  assumes "pow2 (- 1022) \<le> q" shows "\<bar>rnd q - q\<bar> \<le> q * pow2 (- 53)"
proof -
  have q: "0 < q" using assms pow2_pos [of "- 1022"] by linarith
  then have "- 1022 < ilog2 q + 1"
    using le_less_trans [OF assms ilog2_bounds(2) [OF q]] by simp
  then have u: "ulp_exp q = ilog2 q - 52" using q by (simp add: ulp_exp_def)
  have "\<bar>rnd q - q\<bar> \<le> pow2 (ilog2 q - 52) / 2" using rnd_error [of q] u by simp
  also have "\<dots> = pow2 (ilog2 q) * pow2 (- 53)"
    using pow2_add [of "ilog2 q" "- 53"] pow2_add [of 1 "ilog2 q - 53"] by simp
  also have "\<dots> \<le> q * pow2 (- 53)" using ilog2_bounds(1) [OF q] by simp
  finally show ?thesis .
qed

section \<open>Integers within 53 bits\<close>

abbreviation int53 :: "int \<Rightarrow> bool" where
  "int53 n \<equiv> \<bar>n\<bar> \<le> 2 ^ 53"

lemma limit_large: "int53 n \<Longrightarrow> \<bar>of_int n\<bar> < (of_int (2 ^ 1024) :: rat)"
proof -
  assume "int53 n"
  also have "(2::int) ^ 53 < 2 ^ 1024" by simp
  finally show ?thesis by (simp only: of_int_less_iff flip: of_int_abs)
qed

lemma mk_float_int [simp]: "int53 n \<Longrightarrow> mk_float (of_int n) = Fin (of_int n)"
  using limit_large [of n] by (simp add: mk_float_def rnd_of_int Let_def abs_less_iff)

lemma f_of_int_exact [simp]: "int53 n \<Longrightarrow> f_of_int n = Fin (of_int n)"
  by (simp add: f_of_int_def)

lemma f_add_exact: "int53 (a + b) \<Longrightarrow> f_add (Fin (of_int a)) (Fin (of_int b)) = Fin (of_int (a + b))"
  using mk_float_int [of "a + b"] by simp

lemma f_sub_exact: "int53 (a - b) \<Longrightarrow> f_sub (Fin (of_int a)) (Fin (of_int b)) = Fin (of_int (a - b))"
  using mk_float_int [of "a - b"] by (simp add: f_sub_def)

lemma f_mul_exact: "int53 (a * b) \<Longrightarrow> f_mul (Fin (of_int a)) (Fin (of_int b)) = Fin (of_int (a * b))"
  using mk_float_int [of "a * b"] by simp

lemmas f_exact = f_of_int_exact f_add_exact f_sub_exact f_mul_exact

lemma f_lt_le: "x \<noteq> NaN \<Longrightarrow> y \<noteq> NaN \<Longrightarrow> f_lt x y \<longleftrightarrow> \<not> f_le y x"
  by (cases x; cases y) auto

text \<open>
  The quotient of two integers below \<open>2 ^ 53\<close>, rounded and truncated, is the integer quotient:
  the rounding error is smaller than the distance to the next integer.
\<close>

lemma rnd_quotient_floor:
  assumes d: "0 \<le> d" "d < 2 ^ 53" and m: "0 < m" "m \<le> 2 ^ 53"
  shows "of_int (d div m) \<le> rnd (of_int d / of_int m)" and "rnd (of_int d / of_int m) < of_int (d div m) + 1"
proof -
  let ?x = "of_int d / of_int m :: rat"
  have k: "0 \<le> d div m" "d div m \<le> d" using d m zdiv_mono2 [of d 1 m] by (auto simp: pos_imp_zdiv_nonneg_iff)
  have dm: "d = d div m * m + d mod m" "d mod m < m" "0 \<le> d mod m" using m by auto
  have rm: "(0::rat) < of_int m" using m by simp
  have "of_int (d div m) * of_int m \<le> (of_int d :: rat)"
    using dm by (metis add_increasing2 of_int_le_iff of_int_mult order_refl)
  then have lo: "of_int (d div m) \<le> ?x" using rm by (simp add: pos_le_divide_eq)
  have "rnd (of_int (d div m)) \<le> rnd ?x" by (rule rnd_mono [OF lo])
  then show "of_int (d div m) \<le> rnd ?x" using k d by (simp add: rnd_of_int)
  have "d + 1 \<le> (d div m + 1) * m" unfolding distrib_right using dm by linarith
  then have "(of_int d + 1 :: rat) \<le> (of_int (d div m) + 1) * of_int m"
    by (metis of_int_1 of_int_add of_int_le_iff of_int_mult)
  then have hi: "?x + 1 / of_int m \<le> of_int (d div m) + 1"
    using rm by (simp add: pos_divide_le_eq flip: add_divide_distrib)
  show "rnd ?x < of_int (d div m) + 1"
  proof (cases "d = 0")
    case False
    then have "(1::rat) \<le> of_int d" using d by simp
    moreover have "of_int m \<le> pow2 53" using m by (simp add: pow2_def)
    ultimately have "1 / pow2 53 \<le> ?x" using rm by (intro frac_le) auto
    moreover have "pow2 (- 1022) \<le> 1 / pow2 53"
      using pow2_add [of "- 1022" 53] pow2_mono [of "- 969" 0] by (simp add: field_simps)
    ultimately have "\<bar>rnd ?x - ?x\<bar> \<le> ?x * pow2 (- 53)" by (intro rnd_rel_error) linarith
    moreover have "?x * pow2 (- 53) < 1 / of_int m"
    proof -
      have "of_int d < pow2 53" using d by (simp add: pow2_def)
      then have "of_int d * pow2 (- 53) < 1"
        using pow2_add [of "- 53" 53] by (simp add: field_simps)
          (metis mult.commute mult_less_cancel_right_disj pow2_pos)
      then show ?thesis using rm by (simp add: divide_strict_right_mono field_simps)
    qed
    ultimately show ?thesis using hi by linarith
  qed simp
qed

lemma f_div_floor:
  assumes d: "0 \<le> d" "d < 2 ^ 53" and m: "0 < m" "m \<le> 2 ^ 53"
  shows "f_to_int64 (f_div (Fin (of_int d)) (Fin (of_int m))) = d div m"
proof -
  let ?r = "rnd (of_int d / of_int m)"
  note b = rnd_quotient_floor [OF assms]
  have k: "0 \<le> d div m" "d div m \<le> d" using d m zdiv_mono2 [of d 1 m] by (auto simp: pos_imp_zdiv_nonneg_iff)
  then have "\<bar>of_int (d div m + 1)\<bar> < (of_int (2 ^ 1024) :: rat)" using d by (intro limit_large) auto
  then have "?r < of_int (2 ^ 1024)" using b k by simp
  moreover have "0 \<le> ?r" using b(1) k by (meson of_int_0_le_iff order_trans)
  ultimately have "f_div (Fin (of_int d)) (Fin (of_int m)) = Fin ?r"
    using m by (simp add: mk_float_def Let_def)
  moreover have "trunc_rat ?r = d div m"
    using b \<open>0 \<le> ?r\<close> by (simp add: trunc_rat_def floor_eq_iff)
  ultimately show ?thesis using k d by (simp add: in64_def)
qed
lemma f_to_int64_nonpos: "q \<le> 0 \<Longrightarrow> f_to_int64 (mk_float q) \<le> 0"
  using rnd_nonneg [of "- q"] by (auto simp: mk_float_def Let_def rnd_neg trunc_rat_def)

end
