(* ===== verification/Domain.thy ===== *)
theory Domain
  imports Entities Float64
begin

text \<open>
  The entities a sector worker keeps in memory (\<open>internal/domain\<close>): plane vectors, ships and
  their modules, projectiles, containers, asteroids, gates and the destructible statics, with
  the shared damage rule. A Go pointer that may be nil is an \<open>option\<close>; an instant is an
  integer number of nanoseconds, and the zero \<open>time.Time\<close>, where the code asks for it, is
  \<open>None\<close>.
\<close>

section \<open>Floating-point helpers of the standard library\<close>

text \<open>Equality of floats: NaN differs from itself.\<close>

fun f_eq :: "float64 \<Rightarrow> float64 \<Rightarrow> bool" where
  "f_eq NaN _ = False"
| "f_eq _ NaN = False"
| "f_eq x y = (x = y)"

fun f_abs :: "float64 \<Rightarrow> float64" where
  "f_abs NaN = NaN"
| "f_abs PInf = PInf"
| "f_abs NInf = PInf"
| "f_abs (Fin q) = Fin \<bar>q\<bar>"

text \<open>The integer square root, four bits at a time of the argument.\<close>

fun isqrt :: "int \<Rightarrow> int" where
  "isqrt n = (if n \<le> 0 then 0 else
     let r = 2 * isqrt (n div 4) in if (r + 1) * (r + 1) \<le> n then r + 1 else r)"

declare isqrt.simps [simp del]

text \<open>
  \<open>math.Sqrt\<close> is correctly rounded. At the exponent of its last place the root of a positive
  finite value is an integer part and a remainder; the root of a 53-bit number is never half
  way between two representable values, so comparing with the half decides.
\<close>

definition sqrt_exp :: "rat \<Rightarrow> int" where
  "sqrt_exp q = ilog2 q div 2 - 52"

definition sqrt_rnd :: "rat \<Rightarrow> rat" where
  "sqrt_rnd q = (let e = sqrt_exp q; x = q / (pow2 e * pow2 e); n = isqrt \<lfloor>x\<rfloor> in
     of_int (if (of_int n + 1 / 2) * (of_int n + 1 / 2) < x then n + 1 else n) * pow2 e)"

fun f_sqrt :: "float64 \<Rightarrow> float64" where
  "f_sqrt NaN = NaN"
| "f_sqrt PInf = PInf"
| "f_sqrt NInf = NaN"
| "f_sqrt (Fin q) = (if q < 0 then NaN else if q = 0 then Fin 0 else Fin (sqrt_rnd q))"

text \<open>\<open>math.Hypot\<close>: scale by the larger operand.\<close>

definition f_hypot :: "float64 \<Rightarrow> float64 \<Rightarrow> float64" where
  "f_hypot p q = (let p = f_abs p; q = f_abs q in
     if p = PInf \<or> q = PInf then PInf
     else if p = NaN \<or> q = NaN then NaN
     else (let (p, q) = (if f_lt p q then (q, p) else (p, q)) in
       if p = Fin 0 then Fin 0
       else (let r = f_div q p in f_mul p (f_sqrt (f_add (Fin 1) (f_mul r r))))))"

text \<open>
  \<open>math.Cos\<close> and \<open>math.Sin\<close> are specified only up to their accuracy and differ between
  architectures; the definitions that use them take them as an argument.
\<close>

record gomath =
  m_Cos :: "float64 \<Rightarrow> float64"
  m_Sin :: "float64 \<Rightarrow> float64"

text \<open>\<open>math.Pi\<close>, an untyped constant of 62 decimals.\<close>

definition Pi_const :: rat where
  "Pi_const = 314159265358979323846264338327950288419716939937510582097494459 / 10 ^ 62"

definition f_Pi :: float64 where "f_Pi = mk_float Pi_const"

text \<open>A decimal constant of the source, rounded to the nearest \<open>float64\<close>.\<close>

definition f_lit :: "rat \<Rightarrow> float64" where "f_lit q = mk_float q"

section \<open>Vectors\<close>

record vec2 =
  vX :: float64
  vY :: float64

abbreviation Vec2 :: "float64 \<Rightarrow> float64 \<Rightarrow> vec2" where
  "Vec2 x y \<equiv> \<lparr>vX = x, vY = y\<rparr>"

definition zeroVec :: vec2 where "zeroVec = Vec2 (Fin 0) (Fin 0)"

definition vAdd :: "vec2 \<Rightarrow> vec2 \<Rightarrow> vec2" where
  "vAdd v w = Vec2 (f_add (vX v) (vX w)) (f_add (vY v) (vY w))"

definition vSub :: "vec2 \<Rightarrow> vec2 \<Rightarrow> vec2" where
  "vSub v w = Vec2 (f_sub (vX v) (vX w)) (f_sub (vY v) (vY w))"

definition vScale :: "vec2 \<Rightarrow> float64 \<Rightarrow> vec2" where
  "vScale v k = Vec2 (f_mul (vX v) k) (f_mul (vY v) k)"

definition vLength :: "vec2 \<Rightarrow> float64" where
  "vLength v = f_hypot (vX v) (vY v)"

definition vIsZero :: "vec2 \<Rightarrow> bool" where
  "vIsZero v \<longleftrightarrow> f_eq (vX v) (Fin 0) \<and> f_eq (vY v) (Fin 0)"

text \<open>Go's \<open>==\<close> on two vectors.\<close>

definition vEq :: "vec2 \<Rightarrow> vec2 \<Rightarrow> bool" where
  "vEq v w \<longleftrightarrow> f_eq (vX v) (vX w) \<and> f_eq (vY v) (vY w)"

section \<open>Kinds of entities\<close>

abbreviation (input) EntityKindUnknown :: int where "EntityKindUnknown \<equiv> 0"
abbreviation (input) EntityKindDrone :: int where "EntityKindDrone \<equiv> 6"
abbreviation (input) EntityKindLaserTower :: int where "EntityKindLaserTower \<equiv> 7"
abbreviation (input) EntityKindContainer :: int where "EntityKindContainer \<equiv> 8"
abbreviation (input) EntityKindSatellite :: int where "EntityKindSatellite \<equiv> 11"
abbreviation (input) EntityKindTorpedo :: int where "EntityKindTorpedo \<equiv> 12"
abbreviation (input) EntityKindJammer :: int where "EntityKindJammer \<equiv> 13"
abbreviation (input) EntityKindGate :: int where "EntityKindGate \<equiv> 14"

section \<open>Ships\<close>

record course =
  crs_Sector :: int
  crs_Pos :: vec2
  crs_Approach :: "entity_ref option"

record external_dock =
  xd_Target :: entity_ref
  xd_TurnsLeft :: int

record installed_equipment =
  eq_EquipmentID :: int
  eq_Type :: string
  eq_Level :: int

record ship =
  s_ID :: int
  s_PlayerID :: int
  s_ShipClassID :: int
  s_Race :: int
  s_Name :: runes
  s_SectorID :: int
  s_Pos :: vec2
  s_Vel :: vec2
  s_LastStep :: vec2
  s_MaxSpeed :: float64
  s_Acceleration :: float64
  s_TurnRate :: float64
  s_Direction :: vec2
  s_Target :: "vec2 option"
  s_FinalTarget :: "course option"
  s_HP :: int
  s_MaxHP :: int
  s_Shield :: int
  s_MaxShield :: int
  s_ShieldRecharge :: int
  s_Energy :: int
  s_MaxEnergy :: int
  s_EnergyRecharge :: int
  s_EnergyDelta :: int
  s_LaserDamage :: int
  s_LaserRange :: float64
  s_LaserEnergyCost :: int
  s_RadarRange :: float64
  s_CargoBay :: float64
  s_IsHidden :: bool
  s_MissileJustFired :: bool
  s_AttackTarget :: "entity_ref option"
  s_Docked :: "entity_ref option"
  s_ExternalDock :: "external_dock option"
  s_MiningTarget :: "int option"
  s_CurrentTargetRef :: "entity_ref option"
  s_Passengers :: int
  s_Equipment :: "installed_equipment list"
  s_IsSpacesuit :: bool
  s_LastAttacker :: int
  s_IsOpen :: bool
  s_PassengerPlayers :: "int list"
  s_ShieldGeneratorDestroyed :: bool
  s_LastJumpAt :: "int option"

text \<open>The zero value of the struct.\<close>

definition zeroShip :: ship where
  "zeroShip = \<lparr>s_ID = 0, s_PlayerID = 0, s_ShipClassID = 0, s_Race = 0, s_Name = [], s_SectorID = 0,
     s_Pos = zeroVec, s_Vel = zeroVec, s_LastStep = zeroVec, s_MaxSpeed = Fin 0, s_Acceleration = Fin 0,
     s_TurnRate = Fin 0, s_Direction = zeroVec, s_Target = None, s_FinalTarget = None, s_HP = 0, s_MaxHP = 0,
     s_Shield = 0, s_MaxShield = 0, s_ShieldRecharge = 0, s_Energy = 0, s_MaxEnergy = 0, s_EnergyRecharge = 0,
     s_EnergyDelta = 0, s_LaserDamage = 0, s_LaserRange = Fin 0, s_LaserEnergyCost = 0, s_RadarRange = Fin 0,
     s_CargoBay = Fin 0, s_IsHidden = False, s_MissileJustFired = False, s_AttackTarget = None, s_Docked = None,
     s_ExternalDock = None, s_MiningTarget = None, s_CurrentTargetRef = None, s_Passengers = 0, s_Equipment = [],
     s_IsSpacesuit = False, s_LastAttacker = 0, s_IsOpen = False, s_PassengerPlayers = [],
     s_ShieldGeneratorDestroyed = False, s_LastJumpAt = None\<rparr>"

section \<open>Projectiles and loot\<close>

record missile =
  m_ID :: int
  m_SectorID :: int
  m_OwnerShipID :: int
  m_PlayerID :: int
  m_Pos :: vec2
  m_Vel :: vec2
  m_Direction :: vec2
  m_Target :: entity_ref
  m_LastTargetPos :: vec2
  m_Damage :: int
  m_Speed :: float64
  m_Accel :: float64
  m_TurnRate :: float64
  m_HitRadius :: float64
  m_ExpiresAt :: int

record drone =
  d_ID :: int
  d_SectorID :: int
  d_OwnerShipID :: int
  d_PlayerID :: int
  d_Pos :: vec2
  d_Vel :: vec2
  d_Direction :: vec2
  d_Target :: entity_ref
  d_HP :: int
  d_Damage :: int
  d_ExpiresAt :: int

record torpedo =
  t_ID :: int
  t_SectorID :: int
  t_OwnerShipID :: int
  t_PlayerID :: int
  t_Pos :: vec2
  t_Vel :: vec2
  t_Direction :: vec2
  t_Target :: entity_ref
  t_LastTargetPos :: vec2
  t_Class :: int
  t_Damage :: int
  t_Speed :: float64
  t_Accel :: float64
  t_TurnRate :: float64
  t_HitRadius :: float64
  t_SplashRadius :: float64
  t_HP :: int
  t_ExpiresAt :: int

record container =
  c_ID :: int
  c_SectorID :: int
  c_Pos :: vec2
  c_ExpiresAt :: "int option"
  c_HP :: int

record container_drop =
  cd_Pos :: vec2
  cd_ExpiresAt :: int
  cd_GoodsType :: int
  cd_Quantity :: int

record asteroid =
  a_ID :: int
  a_SectorID :: int
  a_Pos :: vec2
  a_Mass :: int
  a_OreType :: int

section \<open>Statics\<close>

text \<open>
  The seven kinds of static object share one record here; the list of \<open>SectorStatics\<close> an
  object stands in gives its kind. \<open>so_Type\<close> is meaningful for the kinds that have a type,
  \<open>so_OwnerID\<close> for all but pirate bases. The angle of a pirate base (display only) and the
  production state of a station (theory \<open>Production\<close>) are not part of it.
\<close>

record static_obj =
  so_ID :: int
  so_OwnerID :: "int option"
  so_Type :: int
  so_SectorID :: int
  so_Pos :: vec2
  so_HP :: int
  so_Shield :: int
  so_MaxShield :: int
  so_ShieldRecharge :: int
  so_Race :: int
  so_Built :: bool

record sector_statics =
  Stations :: "static_obj list"
  Shipyards :: "static_obj list"
  TradeStations :: "static_obj list"
  Pirbases :: "static_obj list"
  LaserTowers :: "static_obj list"
  Satellites :: "static_obj list"
  Jammers :: "static_obj list"

record destructible_static =
  ds_Ref :: entity_ref
  ds_Pos :: vec2
  ds_OwnerID :: "int option"
  ds_HP :: int
  ds_Shield :: int
  ds_MaxShield :: int
  ds_ShieldRecharge :: int

definition destructible :: "int \<Rightarrow> static_obj \<Rightarrow> destructible_static" where
  "destructible k x = \<lparr>ds_Ref = EntityRef k (so_ID x), ds_Pos = so_Pos x, ds_OwnerID = so_OwnerID x,
     ds_HP = so_HP x, ds_Shield = so_Shield x, ds_MaxShield = so_MaxShield x,
     ds_ShieldRecharge = so_ShieldRecharge x\<rparr>"

text \<open>A pirate base has no owner field.\<close>

definition DestructiblesFromStatics :: "sector_statics \<Rightarrow> destructible_static list" where
  "DestructiblesFromStatics s =
     map (destructible EntityKindStation) (Stations s) @
     map (destructible EntityKindShipyard) (Shipyards s) @
     map (destructible EntityKindTradeStation) (TradeStations s) @
     map (\<lambda>x. (destructible EntityKindPirbase x)\<lparr>ds_OwnerID := None\<rparr>) (Pirbases s) @
     map (destructible EntityKindLaserTower) (LaserTowers s) @
     map (destructible EntityKindSatellite) (Satellites s) @
     map (destructible EntityKindJammer) (Jammers s)"

section \<open>Damage\<close>

record damage_result =
  ShieldAbsorbed :: int
  HPAbsorbed :: int
  Overkill :: int
  Killed :: bool

definition no_damage :: damage_result where
  "no_damage = \<lparr>ShieldAbsorbed = 0, HPAbsorbed = 0, Overkill = 0, Killed = False\<rparr>"

text \<open>The hull part of \<open>applyDamage\<close>: what is left of the hit after the shield.\<close>

definition damageHull :: "bool \<Rightarrow> int \<Rightarrow> int \<Rightarrow> int \<Rightarrow> int \<Rightarrow> (int \<times> int) \<times> damage_result" where
  "damageHull wasAlive absorbed hp shield dmg =
     (if dmg \<le> hp then
        ((hp - dmg, shield), \<lparr>ShieldAbsorbed = absorbed, HPAbsorbed = dmg, Overkill = 0,
           Killed = wasAlive \<and> hp - dmg = 0\<rparr>)
      else
        ((0, shield), \<lparr>ShieldAbsorbed = absorbed, HPAbsorbed = hp, Overkill = wrap64 (dmg - hp),
           Killed = wasAlive\<rparr>))"

definition applyDamage :: "int \<Rightarrow> int \<Rightarrow> int \<Rightarrow> (int \<times> int) \<times> damage_result" where
  "applyDamage hp shield dmg =
     (if dmg \<le> 0 then ((hp, shield), no_damage)
      else if 0 < shield then
        (if dmg \<le> shield then ((hp, shield - dmg), no_damage\<lparr>ShieldAbsorbed := dmg\<rparr>)
         else damageHull (0 < hp) shield hp 0 (dmg - shield))
      else damageHull (0 < hp) 0 hp shield dmg)"

definition ship_TakeDamage :: "ship \<Rightarrow> int \<Rightarrow> ship \<times> damage_result" where
  "ship_TakeDamage s dmg = (case applyDamage (s_HP s) (s_Shield s) dmg of
     ((hp, sh), res) \<Rightarrow> (s\<lparr>s_HP := hp, s_Shield := sh\<rparr>, res))"

definition static_TakeDamage :: "destructible_static \<Rightarrow> int \<Rightarrow> destructible_static \<times> damage_result" where
  "static_TakeDamage d dmg = (case applyDamage (ds_HP d) (ds_Shield d) dmg of
     ((hp, sh), res) \<Rightarrow> (d\<lparr>ds_HP := hp, ds_Shield := sh\<rparr>, res))"

definition container_TakeDamage :: "container \<Rightarrow> int \<Rightarrow> container \<times> damage_result" where
  "container_TakeDamage c dmg = (case applyDamage (c_HP c) 0 dmg of
     ((hp, _), res) \<Rightarrow> (c\<lparr>c_HP := hp\<rparr>, res))"

definition torpedo_TakeDamage :: "torpedo \<Rightarrow> int \<Rightarrow> torpedo \<times> damage_result" where
  "torpedo_TakeDamage t dmg = (case applyDamage (t_HP t) 0 dmg of
     ((hp, _), res) \<Rightarrow> (t\<lparr>t_HP := hp\<rparr>, res))"

definition static_ChargeShield :: "destructible_static \<Rightarrow> destructible_static \<times> bool" where
  "static_ChargeShield d =
     (if ds_MaxShield d \<le> 0 \<or> ds_MaxShield d \<le> ds_Shield d then
        (if ds_MaxShield d < ds_Shield d then (d\<lparr>ds_Shield := ds_MaxShield d\<rparr>, True) else (d, False))
      else
        (let sh = wrap64 (ds_Shield d + ds_ShieldRecharge d) in
         (d\<lparr>ds_Shield := if ds_MaxShield d < sh then ds_MaxShield d else sh\<rparr>, True)))"

lemma applyDamage_cases:
  assumes "applyDamage hp sh dmg = ((hp', sh'), res)" "0 \<le> hp" "0 \<le> sh"
  shows "0 \<le> hp' \<and> hp' \<le> hp \<and> 0 \<le> sh' \<and> sh' \<le> sh \<and>
    hp' = hp - HPAbsorbed res \<and> sh' = sh - ShieldAbsorbed res \<and>
    (Killed res \<longleftrightarrow> 0 < hp \<and> hp' = 0) \<and> (0 < HPAbsorbed res \<longrightarrow> sh' = 0)"
  using assms
  by (auto simp: applyDamage_def damageHull_def no_damage_def split: if_splits)

text \<open>Every point of a hit is accounted for: absorbed by the shield, by the hull, or overkill.\<close>

lemma applyDamage_total:
  assumes "applyDamage hp sh dmg = (hs, res)" "0 \<le> hp" "0 \<le> sh" "0 < dmg" "in64 dmg"
  shows "ShieldAbsorbed res + HPAbsorbed res + Overkill res = dmg"
proof -
  have "wrap64 (dmg - hp) = dmg - hp" "wrap64 (dmg - sh - hp) = dmg - sh - hp" if "hp \<le> dmg - sh"
    using that assms by (intro wrap64_id; simp add: in64_def)+
  moreover have "wrap64 (dmg - hp) = dmg - hp"  if "hp \<le> dmg"
    using that assms by (intro wrap64_id) (simp add: in64_def)
  ultimately show ?thesis using assms
    by (auto simp: applyDamage_def damageHull_def no_damage_def split: if_splits)
qed

text \<open>Two hits in a row, in either order, leave the same hull and shield.\<close>

lemma applyDamage_state:
  "0 \<le> hp \<Longrightarrow> 0 \<le> sh \<Longrightarrow> 0 \<le> dmg \<Longrightarrow>
   fst (applyDamage hp sh dmg) = (hp - min hp (max 0 (dmg - sh)), sh - min sh dmg)"
  by (auto simp: applyDamage_def damageHull_def min_def max_def)

lemma applyDamage_order:
  assumes "0 \<le> hp" "0 \<le> sh" "0 \<le> a" "0 \<le> b"
  shows "(case fst (applyDamage hp sh a) of (h, s) \<Rightarrow> fst (applyDamage h s b)) =
         (case fst (applyDamage hp sh b) of (h, s) \<Rightarrow> fst (applyDamage h s a))"
  using assms by (simp add: applyDamage_state min_def max_def)

lemma static_ChargeShield_same [simp]:
  "ds_Ref (fst (static_ChargeShield d)) = ds_Ref d" "ds_HP (fst (static_ChargeShield d)) = ds_HP d"
  "ds_Pos (fst (static_ChargeShield d)) = ds_Pos d" "ds_OwnerID (fst (static_ChargeShield d)) = ds_OwnerID d"
  "ds_MaxShield (fst (static_ChargeShield d)) = ds_MaxShield d"
  by (auto simp: static_ChargeShield_def Let_def)

end
