(* ===== verification/Combat.thy ===== *)
theory Combat
  imports Domain "HOL-Library.While_Combinator" "HOL-Library.Multiset"
begin

text \<open>
  The per-tick combat rules (\<open>internal/combat\<close>): shield and energy recharge, the laser, the
  analytical energy simulation, tower target selection, module knock-off and the loot of a
  destroyed ship. Anything a weapon can hit is a \<open>Damageable\<close>: the locale \<open>damageable\<close> states
  what its \<open>TakeDamage\<close> promises, and ships, statics, containers and torpedoes interpret it.
\<close>

section \<open>The random source\<close>

text \<open>\<open>RNG.Float64\<close>: the values still to be drawn.\<close>

type_synonym rng = "nat \<Rightarrow> float64"

definition draw :: "rng \<Rightarrow> float64 \<times> rng" where
  "draw r = (r 0, \<lambda>n. r (Suc n))"

section \<open>Damage, shields, energy\<close>

definition ApplyDamage :: "('a \<Rightarrow> int \<Rightarrow> 'a \<times> damage_result) \<Rightarrow> 'a \<Rightarrow> int \<Rightarrow> 'a \<times> damage_result" where
  "ApplyDamage TakeDamage target dmg =
     (if dmg \<le> 0 then (target, no_damage) else TakeDamage target dmg)"

definition ChargeShield :: "ship \<Rightarrow> ship \<times> bool" where
  "ChargeShield s =
     (if s_MaxShield s \<le> 0 then (s, False)
      else if s_MaxShield s \<le> s_Shield s then
        (if s_MaxShield s < s_Shield s then (s\<lparr>s_Shield := s_MaxShield s\<rparr>, True) else (s, False))
      else
        (let sh = wrap64 (s_Shield s + s_ShieldRecharge s) in
         (s\<lparr>s_Shield := if s_MaxShield s < sh then s_MaxShield s else sh\<rparr>, True)))"

definition ChargeEnergy :: "ship \<Rightarrow> ship \<times> bool" where
  "ChargeEnergy s =
     (if s_MaxEnergy s \<le> 0 then (s, False)
      else
        (let e = wrap64 (s_Energy s + wrap64 (s_EnergyRecharge s + s_EnergyDelta s));
             e = (if s_MaxEnergy s < e then s_MaxEnergy s else e);
             e = (if e < 0 then 0 else e)
         in (s\<lparr>s_Energy := e\<rparr>, e \<noteq> s_Energy s)))"

section \<open>Lasers\<close>

record laser_beam =
  lb_AttackerShipID :: int
  lb_Target :: entity_ref
  lb_From :: vec2
  lb_To :: vec2
  lb_DamageDealt :: int
  lb_Killed :: bool

text \<open>The three guards of \<open>FireLaserAt\<close>: a laser and a living target, energy, range.\<close>

definition FireLaserAt ::
  "('a \<Rightarrow> int \<Rightarrow> 'a \<times> damage_result) \<Rightarrow> ship \<Rightarrow> entity_ref \<Rightarrow> vec2 \<Rightarrow> int \<Rightarrow> 'a \<Rightarrow> (ship \<times> 'a) \<times> laser_beam option" where
  "FireLaserAt TakeDamage attacker targetRef targetPos targetHP target =
     (if s_LaserDamage attacker \<le> 0 \<or> targetHP \<le> 0 then ((attacker, target), None)
      else if s_Energy attacker < s_LaserEnergyCost attacker then ((attacker, target), None)
      else if f_lt (s_LaserRange attacker) (vLength (vSub targetPos (s_Pos attacker))) then ((attacker, target), None)
      else
        (let attacker' = attacker\<lparr>s_Energy := wrap64 (s_Energy attacker - s_LaserEnergyCost attacker)\<rparr>;
             (target', res) = ApplyDamage TakeDamage target (s_LaserDamage attacker)
         in ((attacker', target'),
             Some \<lparr>lb_AttackerShipID = s_ID attacker, lb_Target = targetRef, lb_From = s_Pos attacker,
                lb_To = targetPos, lb_DamageDealt = wrap64 (ShieldAbsorbed res + HPAbsorbed res),
                lb_Killed = Killed res\<rparr>)))"

definition FireLaser :: "ship \<Rightarrow> ship \<Rightarrow> (ship \<times> ship) \<times> laser_beam option" where
  "FireLaser attacker target =
     FireLaserAt ship_TakeDamage attacker (EntityRef EntityKindShip (s_ID target)) (s_Pos target) (s_HP target) target"

section \<open>The energy simulation\<close>

abbreviation SustainedFire :: int where "SustainedFire \<equiv> - 1"

text \<open>One turn of the loop of \<open>SimulateFireTicks\<close>: the pool, the tick count, and the result once it returns.\<close>

definition fireTurn :: "int \<Rightarrow> int \<Rightarrow> int \<Rightarrow> int \<times> int \<times> int option \<Rightarrow> int \<times> int \<times> int option" where
  "fireTurn cap net laserCost st = (case st of (energy, ticks, _) \<Rightarrow>
     let energy = wrap64 (energy + net);
         energy = (if cap < energy then cap else energy)
     in if energy < laserCost then (energy, ticks, Some ticks)
        else if laserCost \<le> net then (energy, ticks, Some SustainedFire)
        else (energy - laserCost, wrap64 (ticks + 1), None))"

definition SimulateFireTicks :: "int \<Rightarrow> int \<Rightarrow> int \<Rightarrow> int \<Rightarrow> int option" where
  "SimulateFireTicks cap recharge energyDelta laserCost =
     (if cap \<le> 0 \<or> laserCost \<le> 0 then Some 0
      else Option.bind (while_option (\<lambda>(_, _, r). r = None)
              (fireTurn cap (wrap64 (recharge + energyDelta)) laserCost) (cap, 0, None))
             (\<lambda>(_, _, r). r))"

definition recoverTurn :: "int \<Rightarrow> int \<Rightarrow> int \<times> int \<times> int option \<Rightarrow> int \<times> int \<times> int option" where
  "recoverTurn cap net st = (case st of (energy, ticks, _) \<Rightarrow>
     let energy = wrap64 (energy + net) in
     if cap \<le> energy then (energy, ticks, Some ticks) else (energy, wrap64 (ticks + 1), None))"

definition SimulateIdleRecoverTicks :: "int \<Rightarrow> int \<Rightarrow> int \<Rightarrow> (int \<times> bool) option" where
  "SimulateIdleRecoverTicks cap recharge energyDelta =
     (let net = wrap64 (recharge + energyDelta) in
      if cap \<le> 0 \<or> net \<le> 0 then Some (0, 0 < net)
      else Option.bind (while_option (\<lambda>(_, _, r). r = None) (recoverTurn cap net) (0, 1, None))
             (\<lambda>(_, _, r). map_option (\<lambda>t. (t, True)) r))"

section \<open>Towers\<close>

record tower_spec =
  tw_Range :: float64
  tw_Damage :: int

definition DefaultTowerSpec :: tower_spec where
  "DefaultTowerSpec = \<lparr>tw_Range = Fin 150, tw_Damage = 20\<rparr>"

text \<open>
  \<open>SelectTowerTarget\<close> ranges over the ships in the order the map yields them; the best so far
  travels with its distance.
\<close>

definition towerStep :: "static_obj \<Rightarrow> tower_spec \<Rightarrow> (int option \<Rightarrow> ship \<Rightarrow> bool) \<Rightarrow> ship \<Rightarrow> (ship \<times> float64) option \<Rightarrow> (ship \<times> float64) option" where
  "towerStep t spec hostile ship best =
     (if s_HP ship \<le> 0 then best
      else (let dist = vLength (vSub (s_Pos ship) (so_Pos t)) in
        if f_lt (tw_Range spec) dist then best
        else if \<not> hostile (so_OwnerID t) ship then best
        else (case best of None \<Rightarrow> Some (ship, dist)
              | Some (_, bestDist) \<Rightarrow> if f_lt dist bestDist then Some (ship, dist) else best)))"

definition SelectTowerTarget :: "static_obj \<Rightarrow> ship list \<Rightarrow> tower_spec \<Rightarrow> (int option \<Rightarrow> ship \<Rightarrow> bool) \<Rightarrow> ship option" where
  "SelectTowerTarget t ships spec hostile =
     map_option fst (fold (towerStep t spec hostile) ships None)"

section \<open>Knocking modules off\<close>

record knock_config =
  kc_CriticalShieldCharge :: float64
  kc_CriticalHullIntegrity :: float64
  kc_ExternalBase :: float64
  kc_InternalBase :: float64
  kc_Positions :: "string \<Rightarrow> int"

definition DefaultKnockConfig :: knock_config where
  "DefaultKnockConfig = \<lparr>kc_CriticalShieldCharge = f_lit (2 / 10), kc_CriticalHullIntegrity = f_lit (7 / 10),
     kc_ExternalBase = f_lit (2 / 10), kc_InternalBase = f_lit (1 / 10), kc_Positions = (\<lambda>_. 0)\<rparr>"

definition pickByPosition :: "installed_equipment list \<Rightarrow> int \<Rightarrow> (string \<Rightarrow> int) \<Rightarrow> rng \<Rightarrow> nat option \<times> rng" where
  "pickByPosition eq pos positions rng =
     (let idxs = filter (\<lambda>i. positions (eq_Type (eq ! i)) = pos) [0..<length eq] in
      if idxs = [] then (None, rng)
      else (let (x, rng) = draw rng;
                k = f_to_int64 (f_mul x (f_of_int (int (length idxs))));
                k = (if int (length idxs) \<le> k then int (length idxs) - 1 else k)
            in (Some (idxs ! nat k), rng)))"

definition knockRoll :: "installed_equipment list \<Rightarrow> int \<Rightarrow> (string \<Rightarrow> int) \<Rightarrow> float64 \<Rightarrow> rng \<Rightarrow> nat option \<times> rng" where
  "knockRoll eq pos positions chance rng =
     (let (x, rng) = draw rng in
      if f_lt x chance then pickByPosition eq pos positions rng else (None, rng))"

definition KnockModule :: "ship \<Rightarrow> float64 \<Rightarrow> float64 \<Rightarrow> rng \<Rightarrow> knock_config \<Rightarrow> (ship \<times> installed_equipment list) \<times> rng" where
  "KnockModule ship shieldFrac hullFrac rng cfg =
     (if f_le (kc_CriticalShieldCharge cfg) (Fin 0) \<or> s_Equipment ship = [] then ((ship, []), rng)
      else if f_lt (kc_CriticalShieldCharge cfg) shieldFrac then ((ship, []), rng)
      else
        (let eq = s_Equipment ship;
             extChance = f_mul (f_sub (Fin 1) (f_div shieldFrac (kc_CriticalShieldCharge cfg))) (kc_ExternalBase cfg);
             (i, rng) = knockRoll eq 2 (kc_Positions cfg) extChance rng;
             (j, rng) =
               (if f_lt (Fin 0) (kc_CriticalHullIntegrity cfg) \<and> f_le hullFrac (kc_CriticalHullIntegrity cfg) then
                  knockRoll eq 1 (kc_Positions cfg)
                    (f_mul (f_sub (Fin 1) (f_div hullFrac (kc_CriticalHullIntegrity cfg))) (kc_InternalBase cfg)) rng
                else (None, rng));
             remove = {n. i = Some n \<or> j = Some n}
         in if i = None \<and> j = None then ((ship, []), rng)
            else ((ship\<lparr>s_Equipment := nths eq (- remove)\<rparr>, nths eq remove), rng)))"

section \<open>Loot\<close>

record drop =
  dr_GoodsType :: int
  dr_Quantity :: int

text \<open>\<open>math.Round\<close>: half away from zero.\<close>

fun f_Round :: "float64 \<Rightarrow> float64" where
  "f_Round (Fin q) = Fin (of_int (if 0 \<le> q then \<lfloor>q + 1 / 2\<rfloor> else - \<lfloor>1 / 2 - q\<rfloor>))"
| "f_Round x = x"

definition missileThrow :: "int \<Rightarrow> rng \<Rightarrow> int option \<times> rng" where
  "missileThrow cnt rng =
     (let (x, rng) = draw rng;
          chance = f_to_int64 (f_Round (f_mul (Fin 16) x))
      in if chance < 12 then (None, rng)
         else (let throw = cnt div 2 ^ nat chance in
               if throw < 5 then (None, rng) else (Some throw, rng)))"

definition isMissileGoods :: "int \<Rightarrow> int list \<Rightarrow> bool" where
  "isMissileGoods g missileTypes \<longleftrightarrow> g \<in> set missileTypes"

text \<open>A cargo item is a goods type with its quantity.\<close>

fun PlanShipDrops :: "(int \<times> int) list \<Rightarrow> int list \<Rightarrow> rng \<Rightarrow> drop list \<times> rng" where
  "PlanShipDrops [] missileTypes rng = ([], rng)"
| "PlanShipDrops ((g, q) # items) missileTypes rng =
     (if q \<le> 0 then PlanShipDrops items missileTypes rng
      else if isMissileGoods g missileTypes then
        (let (t, rng) = missileThrow q rng;
             (drops, rng) = PlanShipDrops items missileTypes rng
         in (case t of Some n \<Rightarrow> \<lparr>dr_GoodsType = g, dr_Quantity = n\<rparr> # drops | None \<Rightarrow> drops, rng))
      else
        (let (drops, rng) = PlanShipDrops items missileTypes rng
         in (\<lparr>dr_GoodsType = g, dr_Quantity = q\<rparr> # drops, rng)))"

definition PlanSlavesDrop :: "int \<Rightarrow> rng \<Rightarrow> int option \<times> rng" where
  "PlanSlavesDrop passengers rng =
     (if passengers \<le> 0 then (None, rng)
      else
        (let (x, rng) = draw rng;
             pct = wrap64 (20 + f_to_int64 (f_mul x (f_of_int 31)));
             pct = (if 50 < pct then 50 else pct);
             cnt = go_div (wrap64 (passengers * pct)) 100
         in if cnt \<le> 0 then (None, rng) else (Some cnt, rng)))"

section \<open>Damageable objects\<close>

locale damageable =
  fixes hp :: "'a \<Rightarrow> int" and shield :: "'a \<Rightarrow> int"
    and TakeDamage :: "'a \<Rightarrow> int \<Rightarrow> 'a \<times> damage_result"
  assumes hp_after: "hp (fst (TakeDamage x d)) = fst (fst (applyDamage (hp x) (shield x) d))"
    and shield_after: "shield (fst (TakeDamage x d)) = snd (fst (applyDamage (hp x) (shield x) d))"
    and result: "snd (TakeDamage x d) = snd (applyDamage (hp x) (shield x) d)"
begin

lemma apply_damage:
  assumes "ApplyDamage TakeDamage x d = (x', res)" "0 \<le> hp x" "0 \<le> shield x"
  shows "0 \<le> hp x' \<and> 0 \<le> shield x' \<and> hp x' = hp x - HPAbsorbed res \<and> shield x' = shield x - ShieldAbsorbed res"
    and "0 \<le> HPAbsorbed res \<and> 0 \<le> ShieldAbsorbed res"
    and "Killed res \<longleftrightarrow> 0 < hp x \<and> hp x' = 0"
proof -
  obtain h k r where a: "applyDamage (hp x) (shield x) d = ((h, k), r)"
    by (metis prod.exhaust)
  show "0 \<le> hp x' \<and> 0 \<le> shield x' \<and> hp x' = hp x - HPAbsorbed res \<and> shield x' = shield x - ShieldAbsorbed res"
    "0 \<le> HPAbsorbed res \<and> 0 \<le> ShieldAbsorbed res" "Killed res \<longleftrightarrow> 0 < hp x \<and> hp x' = 0"
    using assms applyDamage_cases [OF a] hp_after [of x d] shield_after [of x d] result [of x d] a
    by (auto simp: ApplyDamage_def no_damage_def split: if_splits)
qed

lemma fire_iff:
  "snd (FireLaserAt TakeDamage s ref p h x) \<noteq> None \<longleftrightarrow>
   0 < s_LaserDamage s \<and> 0 < h \<and> s_LaserEnergyCost s \<le> s_Energy s \<and>
   \<not> f_lt (s_LaserRange s) (vLength (vSub p (s_Pos s)))"
  by (auto simp: FireLaserAt_def Let_def split: prod.splits)

lemma fire_miss:
  "FireLaserAt TakeDamage s ref p h x = ((s', x'), None) \<Longrightarrow> s' = s \<and> x' = x"
  by (auto simp: FireLaserAt_def Let_def split: prod.splits if_splits)

lemma fire_hit:
  assumes "FireLaserAt TakeDamage s ref p h x = ((s', x'), Some b)"
  shows "s' = s\<lparr>s_Energy := wrap64 (s_Energy s - s_LaserEnergyCost s)\<rparr>"
    and "x' = fst (ApplyDamage TakeDamage x (s_LaserDamage s))"
    and "lb_Killed b = Killed (snd (ApplyDamage TakeDamage x (s_LaserDamage s)))"
    and "lb_Target b = ref \<and> lb_AttackerShipID b = s_ID s"
  using assms by (auto simp: FireLaserAt_def Let_def split: prod.splits if_splits)

end

interpretation ship_dmg: damageable s_HP s_Shield ship_TakeDamage
  by unfold_locales (auto simp: ship_TakeDamage_def split: prod.splits)

interpretation static_dmg: damageable ds_HP ds_Shield static_TakeDamage
  by unfold_locales (auto simp: static_TakeDamage_def split: prod.splits)

lemma applyDamage_unshielded: "snd (fst (applyDamage h 0 d)) = 0"
  by (simp add: applyDamage_def damageHull_def)

interpretation container_dmg: damageable c_HP "\<lambda>_. 0" container_TakeDamage
  by unfold_locales (auto simp: container_TakeDamage_def applyDamage_unshielded split: prod.splits)

interpretation torpedo_dmg: damageable t_HP "\<lambda>_. 0" torpedo_TakeDamage
  by unfold_locales (auto simp: torpedo_TakeDamage_def applyDamage_unshielded split: prod.splits)

section \<open>Recharge\<close>

lemma ChargeShield_only: "\<exists>sh. fst (ChargeShield s) = s\<lparr>s_Shield := sh\<rparr>"
  by (rule exI [of _ "s_Shield (fst (ChargeShield s))"]) (auto simp: ChargeShield_def Let_def)

lemma ChargeEnergy_only: "\<exists>e. fst (ChargeEnergy s) = s\<lparr>s_Energy := e\<rparr>"
  by (rule exI [of _ "s_Energy (fst (ChargeEnergy s))"]) (auto simp: ChargeEnergy_def Let_def)

lemma ChargeShield_bounds:
  assumes "0 \<le> s_Shield s" "0 \<le> s_ShieldRecharge s" "in64 (s_MaxShield s + s_ShieldRecharge s)" "0 \<le> s_MaxShield s"
  shows "0 \<le> s_Shield (fst (ChargeShield s))"
    and "0 < s_MaxShield s \<Longrightarrow> s_Shield (fst (ChargeShield s)) = min (s_MaxShield s) (s_Shield s + s_ShieldRecharge s)"
proof -
  have w: "s_Shield s \<le> s_MaxShield s \<Longrightarrow> wrap64 (s_Shield s + s_ShieldRecharge s) = s_Shield s + s_ShieldRecharge s"
    using assms by (intro wrap64_id) (simp add: in64_def)
  show "0 \<le> s_Shield (fst (ChargeShield s))"
    using assms w by (auto simp: ChargeShield_def Let_def)
  show "0 < s_MaxShield s \<Longrightarrow> s_Shield (fst (ChargeShield s)) = min (s_MaxShield s) (s_Shield s + s_ShieldRecharge s)"
    using assms w by (auto simp: ChargeShield_def Let_def min_def)
qed

lemma ChargeEnergy_bounds:
  "0 < s_MaxEnergy s \<Longrightarrow> 0 \<le> s_Energy (fst (ChargeEnergy s)) \<and> s_Energy (fst (ChargeEnergy s)) \<le> s_MaxEnergy s"
  by (auto simp: ChargeEnergy_def Let_def)

section \<open>The simulation against the runtime\<close>

text \<open>
  The runtime a simulation claims to replay: every tick the ship is recharged and then fires
  at a target that stays alive and in reach.
\<close>

definition duelTick :: "destructible_static \<Rightarrow> ship \<Rightarrow> ship \<times> bool" where
  "duelTick d s = (case FireLaserAt static_TakeDamage (fst (ChargeEnergy s)) (ds_Ref d) (ds_Pos d) (ds_HP d) d of
     ((s', _), beam) \<Rightarrow> (s', beam \<noteq> None))"

fun duel :: "destructible_static \<Rightarrow> nat \<Rightarrow> ship \<Rightarrow> bool list" where
  "duel d 0 s = []"
| "duel d (Suc n) s = (case duelTick d s of (s', hit) \<Rightarrow> hit # duel d n s')"

definition in_reach :: "ship \<Rightarrow> destructible_static \<Rightarrow> bool" where
  "in_reach s d \<longleftrightarrow> 0 < s_LaserDamage s \<and> 0 < ds_HP d \<and>
     \<not> f_lt (s_LaserRange s) (vLength (vSub (ds_Pos d) (s_Pos s)))"

lemma in_reach_energy [simp]: "in_reach (s\<lparr>s_Energy := e\<rparr>) d = in_reach s d"
  by (simp add: in_reach_def)

text \<open>The charged pool of one tick, as the simulation computes it.\<close>

definition charged :: "int \<Rightarrow> int \<Rightarrow> int \<Rightarrow> int" where
  "charged cap net e = (let e = wrap64 (e + net) in if cap < e then cap else e)"

lemma duelTick_energy:
  assumes "in_reach s d" "0 < s_MaxEnergy s" "in64 (s_MaxEnergy s)" "0 < s_LaserEnergyCost s"
  defines "e \<equiv> charged (s_MaxEnergy s) (wrap64 (s_EnergyRecharge s + s_EnergyDelta s)) (s_Energy s)"
  shows "duelTick d s =
    (if s_LaserEnergyCost s \<le> e then (s\<lparr>s_Energy := e - s_LaserEnergyCost s\<rparr>, True)
     else (s\<lparr>s_Energy := max 0 e\<rparr>, False))"
proof -
  have charge: "fst (ChargeEnergy s) = s\<lparr>s_Energy := max 0 e\<rparr>"
    using assms by (auto simp: ChargeEnergy_def charged_def e_def Let_def max_def)
  have "e \<le> s_MaxEnergy s" by (simp add: e_def charged_def Let_def)
  then have w: "s_LaserEnergyCost s \<le> e \<Longrightarrow> wrap64 (e - s_LaserEnergyCost s) = e - s_LaserEnergyCost s"
    using assms by (intro wrap64_id) (simp add: in64_def)
  show ?thesis
  proof (cases "s_LaserEnergyCost s \<le> e")
    case True
    then have "max 0 e = e" using assms(4) by simp
    then show ?thesis using True assms(1,4) w charge
      by (auto simp: duelTick_def FireLaserAt_def in_reach_def Let_def split: prod.splits)
  next
    case False
    then show ?thesis using assms(1,4) charge
      by (auto simp: duelTick_def FireLaserAt_def in_reach_def Let_def split: prod.splits)
  qed
qed

lemma charged_step:
  assumes "0 \<le> e" "e \<le> cap" "in64 cap" "in64 net" "0 < cost" "cost \<le> charged cap net e" "net < cost"
  shows "0 \<le> charged cap net e - cost \<and> charged cap net e - cost < e"
proof -
  have "wrap64 (e + net) \<le> e + net"
  proof (cases "in64 (e + net)")
    case False
    then have "2 ^ 63 \<le> e + net" using assms by (auto simp: in64_def)
    then have "wrap64 (e + net) = e + net - 2 ^ 64"
      using assms unfolding wrap64_def in64_def by (subst mod_pos_geq) auto
    then show ?thesis by simp
  qed (simp add: wrap64_id)
  then show ?thesis using assms by (auto simp: charged_def Let_def split: if_splits)
qed

lemma fire_loop:
  assumes "0 \<le> e" "e \<le> cap" "in64 cap" "in64 net" "0 < cost" "net < cost" "0 \<le> t" "t + e \<le> cap"
    and s: "in_reach s d" "s_MaxEnergy s = cap" "0 < cap" "s_LaserEnergyCost s = cost" "s_Energy s = e"
      "wrap64 (s_EnergyRecharge s + s_EnergyDelta s) = net"
  shows "\<exists>n e'. while_option (\<lambda>(_, _, r). r = None) (fireTurn cap net cost) (e, t, None) = Some (e', t + int n, Some (t + int n)) \<and>
    duel d (Suc n) s = replicate n True @ [False]"
  using assms
proof (induction "nat e" arbitrary: e t s rule: less_induct)
  case less
  note tick = duelTick_energy [OF less.prems(9), unfolded less.prems(10,12,13,14), OF less.prems(11,3,5)]
  show ?case
  proof (cases "cost \<le> charged cap net e")
    case False
    then have "duel d (Suc 0) s = replicate 0 True @ [False]" by (simp add: tick)
    moreover have "while_option (\<lambda>(_, _, r). r = None) (fireTurn cap net cost) (e, t, None) =
      Some (charged cap net e, t + int 0, Some (t + int 0))"
      using False by (subst while_option_unfold, subst while_option_unfold) (auto simp: fireTurn_def charged_def Let_def)
    ultimately show ?thesis by blast
  next
    case True
    define e' where "e' = charged cap net e - cost"
    have e': "0 \<le> e'" "e' < e" using charged_step [OF less.prems(1-5) True less.prems(6)] by (simp_all add: e'_def)
    define s' where "s' = s\<lparr>s_Energy := e'\<rparr>"
    have turn: "fireTurn cap net cost (e, t, None) = (e', t + 1, None)"
      using True less.prems(3,6,7,8) e' by (auto simp: fireTurn_def charged_def e'_def Let_def in64_def intro!: wrap64_id)
    have "\<exists>n e''. while_option (\<lambda>(_, _, r). r = None) (fireTurn cap net cost) (e', t + 1, None) = Some (e'', t + 1 + int n, Some (t + 1 + int n)) \<and>
      duel d (Suc n) s' = replicate n True @ [False]"
      by (rule less.hyps) (use less.prems e' in \<open>auto simp: s'_def\<close>)
    then obtain n e'' where n: "while_option (\<lambda>(_, _, r). r = None) (fireTurn cap net cost) (e', t + 1, None) =
        Some (e'', t + 1 + int n, Some (t + 1 + int n))"
      "duel d (Suc n) s' = replicate n True @ [False]" by blast
    have "duel d (Suc (Suc n)) s = True # duel d (Suc n) s'"
      using True by (simp add: tick s'_def e'_def del: duel.simps) (simp add: tick)
    then have "duel d (Suc (Suc n)) s = replicate (Suc n) True @ [False]" using n(2) by simp
    moreover have "while_option (\<lambda>(_, _, r). r = None) (fireTurn cap net cost) (e, t, None) =
        Some (e'', t + int (Suc n), Some (t + int (Suc n)))"
      using n(1) turn by (subst while_option_unfold) (simp add: algebra_simps)
    ultimately show ?thesis by blast
  qed
qed

lemma duel_sustained:
  assumes "in_reach s d" "0 < s_MaxEnergy s" "in64 (s_MaxEnergy s)" "0 < s_LaserEnergyCost s"
    "in64 (s_MaxEnergy s + wrap64 (s_EnergyRecharge s + s_EnergyDelta s))"
    "s_LaserEnergyCost s \<le> wrap64 (s_EnergyRecharge s + s_EnergyDelta s)" "s_LaserEnergyCost s \<le> s_MaxEnergy s"
    "s_MaxEnergy s - s_LaserEnergyCost s \<le> s_Energy s" "s_Energy s \<le> s_MaxEnergy s"
  shows "duel d k s = replicate k True"
  using assms
proof (induction k arbitrary: s)
  case (Suc k)
  let ?net = "wrap64 (s_EnergyRecharge s + s_EnergyDelta s)"
  have "wrap64 (s_Energy s + ?net) = s_Energy s + ?net"
    using Suc.prems by (intro wrap64_id) (simp add: in64_def)
  then have "charged (s_MaxEnergy s) ?net (s_Energy s) = s_MaxEnergy s"
    using Suc.prems by (simp add: charged_def Let_def)
  then have "duelTick d s = (s\<lparr>s_Energy := s_MaxEnergy s - s_LaserEnergyCost s\<rparr>, True)"
    using Suc.prems by (simp add: duelTick_energy)
  moreover have "duel d k (s\<lparr>s_Energy := s_MaxEnergy s - s_LaserEnergyCost s\<rparr>) = replicate k True"
    by (rule Suc.IH) (use Suc.prems in auto)
  ultimately show ?case by simp
qed simp

lemma charged_full:
  assumes "0 < cap" "in64 cap" "in64 net" "0 < cost" "cost \<le> net" "cost \<le> charged cap net cap"
  shows "in64 (cap + net) \<and> charged cap net cap = cap \<and> cost \<le> cap"
proof -
  have "in64 (cap + net)"
  proof (rule ccontr)
    assume "\<not> ?thesis"
    then have "2 ^ 63 \<le> cap + net" using assms by (auto simp: in64_def)
    then have "wrap64 (cap + net) = cap + net - 2 ^ 64"
      using assms unfolding wrap64_def in64_def by (subst mod_pos_geq) auto
    then show False using assms by (auto simp: charged_def in64_def Let_def split: if_splits)
  qed
  then show ?thesis using assms by (auto simp: charged_def wrap64_id Let_def split: if_splits)
qed

text \<open>
  C39: The energy calibration helper replays the runtime exactly. For a ship with a full pool
  and a paid laser against a target in reach, \<open>SimulateFireTicks\<close> always returns; a number
  \<open>n\<close> means that in the runtime (recharge, then fire, each tick) exactly the first \<open>n\<close>
  ticks fire and the next does not, and \<open>SustainedFire\<close> means that every tick fires, for ever.
\<close>

theorem fire_simulation_exact:
  assumes "in_reach s d" "0 < s_MaxEnergy s" "in64 (s_MaxEnergy s)" "s_Energy s = s_MaxEnergy s"
    "0 < s_LaserEnergyCost s"
  shows "\<exists>n. SimulateFireTicks (s_MaxEnergy s) (s_EnergyRecharge s) (s_EnergyDelta s) (s_LaserEnergyCost s) = Some n \<and>
    (if n = SustainedFire then \<forall>k. duel d k s = replicate k True
     else 0 \<le> n \<and> duel d (Suc (nat n)) s = replicate (nat n) True @ [False])"
proof -
  let ?net = "wrap64 (s_EnergyRecharge s + s_EnergyDelta s)"
  let ?cap = "s_MaxEnergy s" and ?cost = "s_LaserEnergyCost s"
  let ?loop = "while_option (\<lambda>(_, _, r). r = None) (fireTurn ?cap ?net ?cost) (?cap, 0, None)"
  have sim: "SimulateFireTicks ?cap (s_EnergyRecharge s) (s_EnergyDelta s) ?cost = Option.bind ?loop (\<lambda>(_, _, r). r)"
    using assms(2,5) by (simp add: SimulateFireTicks_def)
  consider "?net < ?cost" | "?cost \<le> ?net" "charged ?cap ?net ?cap < ?cost"
    | "?cost \<le> ?net" "?cost \<le> charged ?cap ?net ?cap" by linarith
  then show ?thesis
  proof cases
    case 1
    obtain n e' where "?loop = Some (e', int n, Some (int n))" "duel d (Suc n) s = replicate n True @ [False]"
      using fire_loop [of ?cap ?cap ?net ?cost 0 s d] 1 assms by auto
    then show ?thesis using sim by (intro exI [of _ "int n"]) simp
  next
    case 2
    have "?loop = Some (charged ?cap ?net ?cap, 0, Some 0)"
      using 2 by (subst while_option_unfold, subst while_option_unfold) (auto simp: fireTurn_def charged_def Let_def)
    moreover have "duelTick d s = (s\<lparr>s_Energy := max 0 (charged ?cap ?net ?cap)\<rparr>, False)"
      using duelTick_energy [OF assms(1,2,3,5)] 2 assms(4) by simp
    ultimately show ?thesis using sim by (intro exI [of _ 0]) simp
  next
    case 3
    have full: "in64 (?cap + ?net)" "?cost \<le> ?cap" using charged_full [of ?cap ?net ?cost] 3 assms by auto
    have "?loop = Some (charged ?cap ?net ?cap, 0, Some SustainedFire)"
      using 3 by (subst while_option_unfold, subst while_option_unfold) (auto simp: fireTurn_def charged_def Let_def)
    moreover have "duel d k s = replicate k True" for k
      using duel_sustained [OF assms(1,2,3,5) full(1) 3(1) full(2)] assms by simp
    ultimately show ?thesis using sim by (intro exI [of _ SustainedFire]) simp
  qed
qed

definition gunboat :: ship where
  "gunboat = zeroShip\<lparr>s_Energy := 10, s_MaxEnergy := 10, s_EnergyRecharge := 2, s_EnergyDelta := - 1,
     s_LaserDamage := 5, s_LaserRange := Fin 100, s_LaserEnergyCost := 4\<rparr>"

definition practice_target :: destructible_static where
  "practice_target = \<lparr>ds_Ref = EntityRef EntityKindStation 1, ds_Pos = zeroVec, ds_OwnerID = None, ds_HP = 1000,
     ds_Shield = 0, ds_MaxShield = 0, ds_ShieldRecharge = 0\<rparr>"

lemma practice_reach: "in_reach gunboat practice_target"
  by (simp add: in_reach_def gunboat_def practice_target_def zeroShip_def zeroVec_def vSub_def vLength_def f_hypot_def
      f_sub_def mk_float_def Let_def)

theorem fire_simulation_exact_witness:
  "\<exists>n. SimulateFireTicks 10 2 (- 1) 4 = Some n \<and>
    (if n = SustainedFire then \<forall>k. duel practice_target k gunboat = replicate k True
     else 0 \<le> n \<and> duel practice_target (Suc (nat n)) gunboat = replicate (nat n) True @ [False])"
  using fire_simulation_exact [OF practice_reach]
  by (simp add: gunboat_def zeroShip_def in64_def)

section \<open>Recovery from an empty pool\<close>

lemma recover_loop:
  assumes "0 < net" "0 \<le> e" "e < cap" "in64 (cap + net)" "1 \<le> t" "t + (cap - e) \<le> cap + 1" "in64 cap"
  shows "\<exists>n e'. while_option (\<lambda>(_, _, r). r = None) (recoverTurn cap net) (e, t, None) =
      Some (e', t + int n, Some (t + int n)) \<and> e + int n * net < cap \<and> cap \<le> e + (int n + 1) * net"
  using assms
proof (induction "nat (cap - e)" arbitrary: e t rule: less_induct)
  case less
  have w: "wrap64 (e + net) = e + net" using less.prems by (intro wrap64_id) (simp add: in64_def)
  show ?case
  proof (cases "cap \<le> e + net")
    case True
    have "while_option (\<lambda>(_, _, r). r = None) (recoverTurn cap net) (e, t, None) = Some (e + net, t + int 0, Some (t + int 0))"
      using True w by (subst while_option_unfold, subst while_option_unfold) (simp add: recoverTurn_def)
    then show ?thesis using True less.prems by (intro exI [of _ 0] exI [of _ "e + net"]) simp
  next
    case False
    have t: "wrap64 (t + 1) = t + 1" using less.prems False by (intro wrap64_id) (simp add: in64_def)
    obtain n e' where n: "while_option (\<lambda>(_, _, r). r = None) (recoverTurn cap net) (e + net, t + 1, None) =
        Some (e', t + 1 + int n, Some (t + 1 + int n))"
      "e + net + int n * net < cap" "cap \<le> e + net + (int n + 1) * net"
      using less.hyps [of "e + net" "t + 1"] less.prems False by auto
    have "while_option (\<lambda>(_, _, r). r = None) (recoverTurn cap net) (e, t, None) =
        Some (e', t + int (Suc n), Some (t + int (Suc n)))"
      using n(1) w t False by (subst while_option_unfold) (simp add: recoverTurn_def algebra_simps)
    then show ?thesis using n(2,3) by (intro exI [of _ "Suc n"] exI [of _ e']) (simp add: algebra_simps)
  qed
qed

lemma recover_returns:
  assumes "0 < cap" "in64 cap" "0 < wrap64 (r + d)" "in64 (cap + wrap64 (r + d))"
  shows "\<exists>n. SimulateIdleRecoverTicks cap r d = Some (int n, True) \<and> 0 < n \<and>
    (int n - 1) * wrap64 (r + d) < cap \<and> cap \<le> int n * wrap64 (r + d)"
proof -
  obtain n e' where "while_option (\<lambda>(_, _, r). r = None) (recoverTurn cap (wrap64 (r + d))) (0, 1, None) =
      Some (e', 1 + int n, Some (1 + int n))" "int n * wrap64 (r + d) < cap" "cap \<le> (int n + 1) * wrap64 (r + d)"
    using recover_loop [OF assms(3), of 0 cap 1] assms by auto
  then show ?thesis using assms by (intro exI [of _ "Suc n"]) (simp add: SimulateIdleRecoverTicks_def algebra_simps)
qed

section \<open>Tower targets\<close>

definition towerCandidate :: "static_obj \<Rightarrow> tower_spec \<Rightarrow> (int option \<Rightarrow> ship \<Rightarrow> bool) \<Rightarrow> ship \<Rightarrow> bool" where
  "towerCandidate t spec hostile ship \<longleftrightarrow> 0 < s_HP ship \<and> hostile (so_OwnerID t) ship \<and>
     \<not> f_lt (tw_Range spec) (vLength (vSub (s_Pos ship) (so_Pos t)))"

lemma f_le_trans: "f_le a b \<Longrightarrow> f_le b c \<Longrightarrow> f_le a c"
  by (cases a; cases b; cases c) auto

lemma f_le_refl: "x \<noteq> NaN \<Longrightarrow> f_le x x"
  by (cases x) auto

lemma f_lt_imp_le: "f_lt x y \<Longrightarrow> f_le x y"
  by (cases x; cases y) auto

lemma f_nlt_le: "x \<noteq> NaN \<Longrightarrow> y \<noteq> NaN \<Longrightarrow> \<not> f_lt x y \<longleftrightarrow> f_le y x"
  by (cases x; cases y) auto

text \<open>A fold that keeps the first smallest candidate.\<close>

lemma tower_fold:
  assumes "\<forall>x \<in> set xs. vLength (vSub (s_Pos x) (so_Pos t)) \<noteq> NaN"
    and "\<And>b db. best = Some (b, db) \<Longrightarrow> db \<noteq> NaN"
  shows "case fold (towerStep t spec hostile) xs best of
      None \<Rightarrow> best = None \<and> (\<forall>x \<in> set xs. \<not> towerCandidate t spec hostile x)
    | Some (y, dy) \<Rightarrow> dy \<noteq> NaN \<and>
        (best = Some (y, dy) \<or> y \<in> set xs \<and> towerCandidate t spec hostile y \<and> dy = vLength (vSub (s_Pos y) (so_Pos t))) \<and>
        (\<forall>x \<in> set xs. towerCandidate t spec hostile x \<longrightarrow> f_le dy (vLength (vSub (s_Pos x) (so_Pos t)))) \<and>
        (\<forall>b db. best = Some (b, db) \<longrightarrow> f_le dy db)"
  using assms
proof (induction xs arbitrary: best)
  case Nil
  then show ?case by (auto split: option.splits simp: f_le_refl)
next
  case (Cons x xs)
  let ?best = "towerStep t spec hostile x best" and ?d = "vLength (vSub (s_Pos x) (so_Pos t))"
  have step: "?best = (if towerCandidate t spec hostile x then
      (case best of None \<Rightarrow> Some (x, ?d) | Some (b, db) \<Rightarrow> if f_lt ?d db then Some (x, ?d) else best) else best)"
    by (auto simp: towerStep_def towerCandidate_def Let_def split: option.splits)
  have nn: "\<And>b db. ?best = Some (b, db) \<Longrightarrow> db \<noteq> NaN"
    using Cons.prems unfolding step by (auto split: if_splits option.splits)
  have IH: "case fold (towerStep t spec hostile) xs ?best of
      None \<Rightarrow> ?best = None \<and> (\<forall>x \<in> set xs. \<not> towerCandidate t spec hostile x)
    | Some (y, dy) \<Rightarrow> dy \<noteq> NaN \<and>
        (?best = Some (y, dy) \<or> y \<in> set xs \<and> towerCandidate t spec hostile y \<and> dy = vLength (vSub (s_Pos y) (so_Pos t))) \<and>
        (\<forall>x \<in> set xs. towerCandidate t spec hostile x \<longrightarrow> f_le dy (vLength (vSub (s_Pos x) (so_Pos t)))) \<and>
        (\<forall>b db. ?best = Some (b, db) \<longrightarrow> f_le dy db)"
    by (rule Cons.IH) (use Cons.prems nn in auto)
  show ?case
  proof (cases "fold (towerStep t spec hostile) xs ?best")
    case None
    then have "?best = None" "\<forall>x \<in> set xs. \<not> towerCandidate t spec hostile x" using IH by simp_all
    moreover from this(1) have "best = None" "\<not> towerCandidate t spec hostile x"
      unfolding step by (auto split: if_splits option.splits)
    ultimately show ?thesis using None by simp
  next
    case (Some p)
    obtain y dy where p: "p = (y, dy)" by (cases p)
    have dn: "?d \<noteq> NaN" using Cons.prems by simp
    have "towerCandidate t spec hostile x \<Longrightarrow> f_le dy ?d"
      using IH Some p Cons.prems dn unfolding step
      by (auto split: if_splits option.splits simp: f_nlt_le dest: f_le_trans)
    moreover have "f_le dy db" if "best = Some (b, db)" for b db
      using IH Some p that unfolding step by (auto split: if_splits dest: f_lt_imp_le f_le_trans)
    moreover have "best = Some (y, dy) \<or> y \<in> set (x # xs) \<and> towerCandidate t spec hostile y \<and> dy = vLength (vSub (s_Pos y) (so_Pos t))"
      using IH Some p unfolding step by (auto split: if_splits option.splits)
    ultimately show ?thesis using IH Some p by auto
  qed
qed

lemma tower_selects_nearest:
  assumes "\<forall>x \<in> set xs. vLength (vSub (s_Pos x) (so_Pos t)) \<noteq> NaN"
  shows "case SelectTowerTarget t xs spec hostile of
      None \<Rightarrow> \<forall>x \<in> set xs. \<not> towerCandidate t spec hostile x
    | Some y \<Rightarrow> y \<in> set xs \<and> towerCandidate t spec hostile y \<and>
        (\<forall>x \<in> set xs. towerCandidate t spec hostile x \<longrightarrow>
           f_le (vLength (vSub (s_Pos y) (so_Pos t))) (vLength (vSub (s_Pos x) (so_Pos t))))"
  using tower_fold [OF assms, of None spec hostile]
  by (auto simp: SelectTowerTarget_def split: option.splits)

section \<open>Knocked modules and loot\<close>

lemma nths_partition: "mset (nths xs A) + mset (nths xs (- A)) = mset xs"
proof (induction xs arbitrary: A)
  case (Cons x xs)
  have "{j. Suc j \<in> - A} = - {j. Suc j \<in> A}" by auto
  with Cons [of "{j. Suc j \<in> A}"] show ?case by (auto simp: nths_Cons)
qed simp

lemma KnockModule_gate:
  "f_lt (kc_CriticalShieldCharge cfg) sf \<Longrightarrow> KnockModule s sf hf r cfg = ((s, []), r)"
  by (simp add: KnockModule_def)

lemma nths_at_most_two: "length (nths xs {n. i = Some n \<or> j = Some n}) \<le> 2"
proof -
  have "{k. k < length xs \<and> (i = Some k \<or> j = Some k)} \<subseteq> set_option i \<union> set_option j" by auto
  then have "card {k. k < length xs \<and> (i = Some k \<or> j = Some k)} \<le> card (set_option i \<union> set_option j)"
    by (intro card_mono) auto
  also have "\<dots> \<le> card (set_option i) + card (set_option j)" by (rule card_Un_le)
  also have "\<dots> \<le> 2" by (cases i; cases j) auto
  finally show ?thesis by (simp add: length_nths)
qed

lemma KnockModule_cases:
  obtains (kept) "fst (KnockModule s sf hf r cfg) = (s, [])"
  | (knocked) i j where "fst (KnockModule s sf hf r cfg) =
      (s\<lparr>s_Equipment := nths (s_Equipment s) (- {n. i = Some n \<or> j = Some n})\<rparr>,
       nths (s_Equipment s) {n. i = Some n \<or> j = Some n})"
proof -
  obtain i r1 where i: "knockRoll (s_Equipment s) 2 (kc_Positions cfg)
      (f_mul (f_sub (Fin 1) (f_div sf (kc_CriticalShieldCharge cfg))) (kc_ExternalBase cfg)) r = (i, r1)" by fastforce
  obtain j r2 where j: "(if f_lt (Fin 0) (kc_CriticalHullIntegrity cfg) \<and> f_le hf (kc_CriticalHullIntegrity cfg) then
      knockRoll (s_Equipment s) 1 (kc_Positions cfg)
        (f_mul (f_sub (Fin 1) (f_div hf (kc_CriticalHullIntegrity cfg))) (kc_InternalBase cfg)) r1
      else (None, r1)) = (j, r2)" by fastforce
  have "fst (KnockModule s sf hf r cfg) = (s, []) \<or> fst (KnockModule s sf hf r cfg) =
      (s\<lparr>s_Equipment := nths (s_Equipment s) (- {n. i = Some n \<or> j = Some n})\<rparr>,
       nths (s_Equipment s) {n. i = Some n \<or> j = Some n})"
    unfolding KnockModule_def Let_def i j prod.case by auto
  then show thesis using kept knocked by blast
qed

lemma KnockModule_partition:
  assumes "fst (KnockModule s sf hf r cfg) = (s', knocked)"
  shows "mset (s_Equipment s) = mset (s_Equipment s') + mset knocked \<and> length knocked \<le> 2 \<and>
    s' = s\<lparr>s_Equipment := s_Equipment s'\<rparr>"
proof (cases rule: KnockModule_cases [of s sf hf r cfg])
  case (knocked i j)
  then show ?thesis
    using assms nths_partition [of "s_Equipment s" "{n. i = Some n \<or> j = Some n}"] nths_at_most_two [of "s_Equipment s" i j]
    by (auto simp: add.commute)
qed (use assms in auto)

text \<open>What a wreck spills of one goods type, and what it carried.\<close>

definition dropped :: "int \<Rightarrow> drop list \<Rightarrow> int" where
  "dropped g ds = sum_list (map dr_Quantity (filter (\<lambda>d. dr_GoodsType d = g) ds))"

definition carried :: "int \<Rightarrow> (int \<times> int) list \<Rightarrow> int" where
  "carried g items = sum_list (map snd (filter (\<lambda>(h, q). h = g \<and> 0 < q) items))"

lemma missileThrow_le: "missileThrow n r = (Some m, r') \<Longrightarrow> 0 < n \<Longrightarrow> 5 \<le> m \<and> m \<le> n"
proof -
  assume "missileThrow n r = (Some m, r')" "0 < n"
  then obtain c where "m = n div 2 ^ c" "5 \<le> m"
    by (auto simp: missileThrow_def draw_def Let_def split: if_splits)
  then show ?thesis using \<open>0 < n\<close> zdiv_mono2 [of n 1 "2 ^ c"] by simp
qed

lemma plan_drops_bounded:
  "dropped g (fst (PlanShipDrops items types r)) \<le> carried g items \<and>
   (\<not> isMissileGoods g types \<longrightarrow> dropped g (fst (PlanShipDrops items types r)) = carried g items) \<and>
   (\<forall>d \<in> set (fst (PlanShipDrops items types r)). 0 < dr_Quantity d)"
proof (induction items types r rule: PlanShipDrops.induct)
  case (2 h q items types r)
  show ?case
  proof (cases "0 < q")
    case True
    obtain t r1 where t: "missileThrow q r = (t, r1)" by fastforce
    have m: "5 \<le> m \<and> m \<le> q" if "t = Some m" for m using missileThrow_le t that True by blast
    show ?thesis using 2 True t m
      by (auto simp: dropped_def carried_def Let_def split: prod.splits option.splits if_splits)
        (fastforce+)?
  next
    case False
    then show ?thesis using 2 by (auto simp: dropped_def carried_def)
  qed
qed (simp add: dropped_def carried_def)

end
