(* ===== verification/Projectiles.thy ===== *)
theory Projectiles
  imports Combat
begin

text \<open>
  Guided weapons (\<open>internal/combat/missile.go\<close>, \<open>drone.go\<close>, \<open>torpedo.go\<close>): the per-class
  profiles, launch, the per-tick integrators and the area damage of a torpedo. The steering
  block that \<open>TickMissile\<close> and \<open>TickTorpedo\<close> spell out alike, and the strafe block that all
  three integrators share, are helpers here; every arithmetic operation is the \<open>float64\<close> one,
  in the order of the source.
\<close>

section \<open>Profiles\<close>

abbreviation (input) Second :: int where "Second \<equiv> 1000000000"

record missile_spec =
  ms_Damage :: int
  ms_Speed :: float64
  ms_Accel :: float64
  ms_TurnRate :: float64
  ms_HitRadius :: float64
  ms_TTL :: int

definition missileTurnRate :: "float64 \<Rightarrow> float64" where
  "missileTurnRate maneuverability =
     f_div (f_div (f_mul (f_mul maneuverability (f_lit (116 / 100))) f_Pi) (Fin 180)) (Fin 3)"

definition missileSpec :: "int \<Rightarrow> rat \<Rightarrow> rat \<Rightarrow> rat \<Rightarrow> int \<Rightarrow> missile_spec" where
  "missileSpec damage speed accel maneuv ttl = \<lparr>ms_Damage = damage, ms_Speed = f_lit speed, ms_Accel = f_lit accel,
     ms_TurnRate = missileTurnRate (f_lit maneuv), ms_HitRadius = Fin 12, ms_TTL = ttl * Second\<rparr>"

definition missileSpecsByClass :: "int \<Rightarrow> missile_spec option" where
  "missileSpecsByClass cls = map_of
     [(1, missileSpec 1000 90 108 320 15),
      (2, missileSpec 2500 78 (702 / 10) 230 18),
      (3, missileSpec 5000 60 48 200 18),
      (4, missileSpec 12000 28 21 140 27),
      (5, missileSpec 25000 22 16 80 30)] cls"

definition DefaultMissileSpec :: "int \<Rightarrow> missile_spec" where
  "DefaultMissileSpec cls = (case missileSpecsByClass cls of Some spec \<Rightarrow> spec | None \<Rightarrow> missileSpec 1000 90 108 320 15)"

record drone_spec =
  dsp_Damage :: int
  dsp_HP :: int
  dsp_FireRange :: float64
  dsp_StandoffRange :: float64
  dsp_Speed :: float64
  dsp_Accel :: float64
  dsp_TurnRate :: float64
  dsp_StrafeK :: float64
  dsp_FrictionK :: float64
  dsp_TTL :: int

definition DefaultDroneSpec :: drone_spec where
  "DefaultDroneSpec = \<lparr>dsp_Damage = 8, dsp_HP = 20, dsp_FireRange = Fin 60, dsp_StandoffRange = Fin 50,
     dsp_Speed = Fin 60, dsp_Accel = Fin 30, dsp_TurnRate = f_Pi, dsp_StrafeK = f_lit (6 / 10),
     dsp_FrictionK = f_lit (1 / 10), dsp_TTL = 120 * Second\<rparr>"

record torpedo_spec =
  tsp_Damage :: int
  tsp_Speed :: float64
  tsp_Accel :: float64
  tsp_TurnRate :: float64
  tsp_HitRadius :: float64
  tsp_SplashRadius :: float64
  tsp_HP :: int
  tsp_TTL :: int

definition torpedoClass2 :: torpedo_spec where
  "torpedoClass2 = \<lparr>tsp_Damage = 150, tsp_Speed = Fin 30, tsp_Accel = Fin 15, tsp_TurnRate = f_lit (Pi_const / 3),
     tsp_HitRadius = Fin 14, tsp_SplashRadius = Fin 40, tsp_HP = 40, tsp_TTL = 30 * Second\<rparr>"

definition torpedoClass3 :: torpedo_spec where
  "torpedoClass3 = \<lparr>tsp_Damage = 600, tsp_Speed = Fin 50, tsp_Accel = Fin 30, tsp_TurnRate = f_lit (Pi_const / 2),
     tsp_HitRadius = Fin 16, tsp_SplashRadius = Fin 70, tsp_HP = 60, tsp_TTL = 60 * Second\<rparr>"

definition torpedoSpecsByClass :: "int \<Rightarrow> torpedo_spec option" where
  "torpedoSpecsByClass cls = map_of [(2, torpedoClass2), (3, torpedoClass3)] cls"

definition DefaultTorpedoSpec :: "int \<Rightarrow> torpedo_spec" where
  "DefaultTorpedoSpec cls = (case torpedoSpecsByClass cls of Some spec \<Rightarrow> spec | None \<Rightarrow> torpedoClass2)"

section \<open>Launch\<close>

definition launchDir :: "ship \<Rightarrow> vec2" where
  "launchDir s = (if vIsZero (s_Direction s) then Vec2 (Fin 1) (Fin 0) else s_Direction s)"

definition LaunchMissile :: "int \<Rightarrow> missile_spec \<Rightarrow> ship \<Rightarrow> entity_ref \<Rightarrow> vec2 \<Rightarrow> int \<Rightarrow> missile" where
  "LaunchMissile mid spec attacker target targetPos now =
     \<lparr>m_ID = mid, m_SectorID = s_SectorID attacker, m_OwnerShipID = s_ID attacker, m_PlayerID = s_PlayerID attacker,
      m_Pos = s_Pos attacker, m_Vel = s_Vel attacker, m_Direction = launchDir attacker, m_Target = target,
      m_LastTargetPos = targetPos, m_Damage = ms_Damage spec, m_Speed = ms_Speed spec, m_Accel = ms_Accel spec,
      m_TurnRate = ms_TurnRate spec, m_HitRadius = ms_HitRadius spec, m_ExpiresAt = now + ms_TTL spec\<rparr>"

definition LaunchDrone :: "int \<Rightarrow> drone_spec \<Rightarrow> ship \<Rightarrow> entity_ref \<Rightarrow> int \<Rightarrow> drone" where
  "LaunchDrone did spec owner target now =
     \<lparr>d_ID = did, d_SectorID = s_SectorID owner, d_OwnerShipID = s_ID owner, d_PlayerID = s_PlayerID owner,
      d_Pos = s_Pos owner, d_Vel = s_Vel owner, d_Direction = launchDir owner, d_Target = target,
      d_HP = dsp_HP spec, d_Damage = dsp_Damage spec, d_ExpiresAt = now + dsp_TTL spec\<rparr>"

definition LaunchTorpedo :: "int \<Rightarrow> int \<Rightarrow> torpedo_spec \<Rightarrow> ship \<Rightarrow> entity_ref \<Rightarrow> vec2 \<Rightarrow> int \<Rightarrow> torpedo" where
  "LaunchTorpedo tid cls spec attacker target targetPos now =
     \<lparr>t_ID = tid, t_SectorID = s_SectorID attacker, t_OwnerShipID = s_ID attacker, t_PlayerID = s_PlayerID attacker,
      t_Pos = s_Pos attacker, t_Vel = s_Vel attacker, t_Direction = launchDir attacker, t_Target = target,
      t_LastTargetPos = targetPos, t_Class = cls, t_Damage = tsp_Damage spec, t_Speed = tsp_Speed spec,
      t_Accel = tsp_Accel spec, t_TurnRate = tsp_TurnRate spec, t_HitRadius = tsp_HitRadius spec,
      t_SplashRadius = tsp_SplashRadius spec, t_HP = tsp_HP spec, t_ExpiresAt = now + tsp_TTL spec\<rparr>"

section \<open>Steering\<close>

definition dot :: "vec2 \<Rightarrow> vec2 \<Rightarrow> float64" where
  "dot v w = f_add (f_mul (vX v) (vX w)) (f_mul (vY v) (vY w))"

text \<open>The component of the target direction across the heading; its sign tells the side.\<close>

definition crossOf :: "vec2 \<Rightarrow> vec2 \<Rightarrow> float64" where
  "crossOf targetDir dir = f_add (f_mul (vX targetDir) (f_neg (vY dir))) (f_mul (vY targetDir) (vX dir))"

definition rotate :: "gomath \<Rightarrow> float64 \<Rightarrow> vec2 \<Rightarrow> vec2" where
  "rotate gm step dir = (let cs = m_Cos gm step; sn = m_Sin gm step in
     Vec2 (f_sub (f_mul cs (vX dir)) (f_mul sn (vY dir))) (f_add (f_mul sn (vX dir)) (f_mul cs (vY dir))))"

text \<open>
  The rotation of \<open>TickMissile\<close> and \<open>TickTorpedo\<close>: the new heading, and whether it is still turning.
\<close>

definition turnToward :: "gomath \<Rightarrow> vec2 \<Rightarrow> vec2 \<Rightarrow> float64 \<Rightarrow> bool \<Rightarrow> vec2 \<times> bool" where
  "turnToward gm dir targetDir radStep noTurn =
     (if noTurn then (dir, False)
      else if f_le f_Pi radStep then (targetDir, False)
      else
        (let ckX = dot targetDir dir; ckY = crossOf targetDir dir in
         if f_lt (f_abs ckY) (f_lit (1 / 100)) \<and> f_lt (Fin 0) ckX then (targetDir, False)
         else
           (let step = (if f_lt ckY (Fin 0) then f_neg radStep else radStep);
                newDir = rotate gm step dir;
                newCkY = crossOf targetDir newDir
            in if f_lt (Fin 0) ckY \<noteq> f_lt (Fin 0) newCkY then (targetDir, False) else (newDir, True))))"

definition rotateDirToward :: "gomath \<Rightarrow> vec2 \<Rightarrow> vec2 \<Rightarrow> float64 \<Rightarrow> bool \<Rightarrow> vec2" where
  "rotateDirToward gm dir targetDir radStep noTurn = fst (turnToward gm dir targetDir radStep noTurn)"

text \<open>Strafe compensation: cancel the drift across the target line, up to \<open>strafeMax\<close>.\<close>

definition strafe :: "vec2 \<Rightarrow> vec2 \<Rightarrow> vec2 \<Rightarrow> float64 \<Rightarrow> vec2" where
  "strafe vel acc targetDir strafeMax =
     (let perp = Vec2 (f_neg (vY targetDir)) (vX targetDir);
          side = f_add (f_mul (f_add (vX vel) (vX acc)) (vX perp)) (f_mul (f_add (vY vel) (vY acc)) (vY perp))
      in if f_lt (f_lit (1 / 1000)) (f_abs side) then
           (let mag = f_abs side;
                mag = (if f_lt strafeMax mag then strafeMax else mag);
                sign = (if f_lt (Fin 0) side then Fin (- 1) else Fin 1)
            in vScale perp (f_mul sign mag))
         else zeroVec)"

text \<open>The last lines of every integrator: sum the contributions and clamp to the top speed.\<close>

definition clampSpeed :: "vec2 \<Rightarrow> float64 \<Rightarrow> vec2" where
  "clampSpeed v speed = (let mag = vLength v in if f_lt speed mag then vScale v (f_div speed mag) else v)"

definition pointSegmentDistance :: "vec2 \<Rightarrow> vec2 \<Rightarrow> vec2 \<Rightarrow> float64" where
  "pointSegmentDistance p a b =
     (let ab = vSub b a;
          abLen2 = f_add (f_mul (vX ab) (vX ab)) (f_mul (vY ab) (vY ab))
      in if f_eq abLen2 (Fin 0) then vLength (vSub p a)
         else
           (let t = f_div (f_add (f_mul (f_sub (vX p) (vX a)) (vX ab)) (f_mul (f_sub (vY p) (vY a)) (vY ab))) abLen2;
                t = (if f_lt t (Fin 0) then Fin 0 else if f_lt (Fin 1) t then Fin 1 else t);
                closest = Vec2 (f_add (vX a) (f_mul (vX ab) t)) (f_add (vY a) (f_mul (vY ab) t))
            in vLength (vSub p closest)))"

section \<open>Missiles\<close>

datatype missile_outcome = MissileKeep | MissileHit | MissileExpired

text \<open>
  The homing step of a missile or a torpedo: from position, velocity, heading, the aim, the
  turn rate, acceleration and top speed to the new position, velocity and heading.
\<close>

definition homingStep ::
  "gomath \<Rightarrow> vec2 \<Rightarrow> vec2 \<Rightarrow> vec2 \<Rightarrow> vec2 \<Rightarrow> float64 \<Rightarrow> float64 \<Rightarrow> float64 \<Rightarrow> float64 \<Rightarrow> vec2 \<times> vec2 \<times> vec2" where
  "homingStep gm pos vel dir aim turnRate accel speed dt =
     (let delta = vSub aim pos;
          rangeEq = vLength delta;
          noTurn = (\<not> f_lt (Fin 1) rangeEq);
          targetDir = (if noTurn then dir else vScale delta (f_div (Fin 1) rangeEq));
          speedEq = vLength vel;
          speedDir = (if f_lt (Fin 1) speedEq then vScale vel (f_div (Fin 1) speedEq) else dir);
          (newDir, turning) = turnToward gm dir targetDir (f_mul turnRate dt) noTurn;
          push = (if turning \<and> f_lt (dot newDir targetDir) (Fin 0)
                  then f_mul (f_add (f_lit (1 / 10)) (f_mul accel (f_lit (1 / 10)))) dt
                  else f_mul accel dt);
          acc = vScale newDir push;
          strafeMax = f_mul (f_mul (f_lit (8 / 10)) accel) dt;
          addStrafe = (if f_lt (Fin 0) strafeMax then strafe vel acc targetDir strafeMax else zeroVec);
          rub = vScale speedDir (f_neg (f_mul (f_mul (f_lit (1 / 10)) speedEq) dt));
          newVel = clampSpeed (vAdd (vAdd (vAdd vel acc) rub) addStrafe) speed
      in (vAdd pos (vScale newVel dt), newVel, newDir))"

definition TickMissile :: "gomath \<Rightarrow> missile \<Rightarrow> vec2 \<Rightarrow> bool \<Rightarrow> float64 \<Rightarrow> int \<Rightarrow> missile \<times> missile_outcome" where
  "TickMissile gm m targetPos targetAlive dt now =
     (if \<not> now < m_ExpiresAt m then (m, MissileExpired)
      else
        (let m = (if targetAlive then m\<lparr>m_LastTargetPos := targetPos\<rparr> else m);
             aim = m_LastTargetPos m;
             (newPos, newVel, newDir) = homingStep gm (m_Pos m) (m_Vel m) (m_Direction m) aim
                (m_TurnRate m) (m_Accel m) (m_Speed m) dt;
             m' = m\<lparr>m_Pos := newPos, m_Vel := newVel, m_Direction := newDir\<rparr>
         in if targetAlive \<and> f_le (pointSegmentDistance aim (m_Pos m) newPos) (m_HitRadius m)
            then (m', MissileHit) else (m', MissileKeep)))"

section \<open>Torpedoes\<close>

datatype torpedo_outcome = TorpedoKeep | TorpedoHit | TorpedoExpired

definition TickTorpedo :: "gomath \<Rightarrow> torpedo \<Rightarrow> vec2 \<Rightarrow> bool \<Rightarrow> float64 \<Rightarrow> int \<Rightarrow> torpedo \<times> torpedo_outcome" where
  "TickTorpedo gm t targetPos targetAlive dt now =
     (if \<not> now < t_ExpiresAt t then (t, TorpedoExpired)
      else
        (let t = (if targetAlive then t\<lparr>t_LastTargetPos := targetPos\<rparr> else t);
             aim = t_LastTargetPos t;
             (newPos, newVel, newDir) = homingStep gm (t_Pos t) (t_Vel t) (t_Direction t) aim
                (t_TurnRate t) (t_Accel t) (t_Speed t) dt;
             t' = t\<lparr>t_Pos := newPos, t_Vel := newVel, t_Direction := newDir\<rparr>
         in if targetAlive \<and> f_le (pointSegmentDistance aim (t_Pos t) newPos) (t_HitRadius t)
            then (t', TorpedoHit) else (t', TorpedoKeep)))"

section \<open>Drones\<close>

datatype drone_outcome = DroneKeep | DroneExpired

definition TickDrone :: "gomath \<Rightarrow> drone \<Rightarrow> vec2 \<Rightarrow> drone_spec \<Rightarrow> float64 \<Rightarrow> int \<Rightarrow> drone \<times> drone_outcome" where
  "TickDrone gm d destPos spec dt now =
     (if \<not> now < d_ExpiresAt d then (d, DroneExpired)
      else
        (let delta = vSub destPos (d_Pos d);
             rng = vLength delta;
             noTurn = (\<not> f_lt (Fin 1) rng);
             targetDir = (if noTurn then d_Direction d else vScale delta (f_div (Fin 1) rng));
             newDir = rotateDirToward gm (d_Direction d) targetDir (f_mul (dsp_TurnRate spec) dt) noTurn;
             speedEq = vLength (d_Vel d);
             speedDir = (if f_lt (Fin 1) speedEq then vScale (d_Vel d) (f_div (Fin 1) speedEq) else newDir);
             acc = (if f_lt (dsp_StandoffRange spec) rng then vScale newDir (f_mul (dsp_Accel spec) dt)
                    else (let brake = f_mul (dsp_Accel spec) dt;
                              brake = (if f_lt speedEq brake then speedEq else brake)
                          in vScale speedDir (f_neg brake)));
             strafeMax = f_mul (f_mul (dsp_StrafeK spec) (dsp_Accel spec)) dt;
             addStrafe = (if f_lt (Fin 0) strafeMax \<and> f_lt (Fin 1) rng
                          then strafe (d_Vel d) acc targetDir strafeMax else zeroVec);
             rub = vScale speedDir (f_mul (f_mul (f_neg (dsp_FrictionK spec)) speedEq) dt);
             newVel = clampSpeed (vAdd (vAdd (vAdd (d_Vel d) acc) rub) addStrafe) (dsp_Speed spec)
         in (d\<lparr>d_Pos := vAdd (d_Pos d) (vScale newVel dt), d_Vel := newVel, d_Direction := newDir\<rparr>, DroneKeep)))"

definition DroneCanFire :: "drone \<Rightarrow> vec2 \<Rightarrow> drone_spec \<Rightarrow> bool" where
  "DroneCanFire d targetPos spec =
     (let delta = vSub targetPos (d_Pos d); rng = vLength delta in
      if f_lt (dsp_FireRange spec) rng then False
      else if f_le rng (Fin 1) then True
      else f_lt (Fin 0) (dot (vScale delta (f_div (Fin 1) rng)) (d_Direction d)))"

section \<open>Area damage\<close>

definition inRadius2 :: "vec2 \<Rightarrow> vec2 \<Rightarrow> float64 \<Rightarrow> bool" where
  "inRadius2 p center r2 =
     (let dx = f_sub (vX p) (vX center); dy = f_sub (vY p) (vY center)
      in f_le (f_add (f_mul dx dx) (f_mul dy dy)) r2)"

text \<open>One step of each loop of \<open>ApplyDamageInRadius\<close>; the map entries come in the given order.\<close>

definition splashShip :: "vec2 \<Rightarrow> float64 \<Rightarrow> int \<Rightarrow> int \<Rightarrow> int \<Rightarrow> (int \<rightharpoonup> ship) \<times> entity_ref list \<Rightarrow> (int \<rightharpoonup> ship) \<times> entity_ref list" where
  "splashShip center r2 damage attacker i st = (case st of (ships, hits) \<Rightarrow>
     (case ships i of
        None \<Rightarrow> (ships, hits)
      | Some ship \<Rightarrow>
          if s_HP ship \<le> 0 \<or> \<not> inRadius2 (s_Pos ship) center r2 then (ships, hits)
          else (ships(i \<mapsto> (fst (ApplyDamage ship_TakeDamage ship damage))\<lparr>s_LastAttacker := attacker\<rparr>),
                hits @ [EntityRef EntityKindShip i])))"

definition splashStatic :: "vec2 \<Rightarrow> float64 \<Rightarrow> int \<Rightarrow> entity_ref \<Rightarrow> (entity_ref \<rightharpoonup> destructible_static) \<times> entity_ref list \<Rightarrow> (entity_ref \<rightharpoonup> destructible_static) \<times> entity_ref list" where
  "splashStatic center r2 damage ref st = (case st of (statics, hits) \<Rightarrow>
     (case statics ref of
        None \<Rightarrow> (statics, hits)
      | Some d \<Rightarrow>
          if ds_HP d \<le> 0 \<or> \<not> inRadius2 (ds_Pos d) center r2 then (statics, hits)
          else (statics(ref \<mapsto> fst (ApplyDamage static_TakeDamage d damage)), hits @ [ref])))"

definition ApplyDamageInRadius ::
  "int list \<Rightarrow> entity_ref list \<Rightarrow> (int \<rightharpoonup> ship) \<Rightarrow> (entity_ref \<rightharpoonup> destructible_static) \<Rightarrow> vec2 \<Rightarrow> float64 \<Rightarrow> int \<Rightarrow> int \<Rightarrow>
   ((int \<rightharpoonup> ship) \<times> (entity_ref \<rightharpoonup> destructible_static)) \<times> entity_ref list" where
  "ApplyDamageInRadius shipOrder staticOrder ships statics center radius damage attacker =
     (if damage \<le> 0 \<or> f_le radius (Fin 0) then ((ships, statics), [])
      else
        (let r2 = f_mul radius radius;
             (ships, hits) = fold (splashShip center r2 damage attacker) shipOrder (ships, []);
             (statics, hits) = fold (splashStatic center r2 damage) staticOrder (statics, hits)
         in ((ships, statics), hits)))"

section \<open>The blast does not depend on the iteration order\<close>

text \<open>What a blast does to one ship and to one static.\<close>

definition blastedShip :: "int \<Rightarrow> int \<Rightarrow> ship \<Rightarrow> ship" where
  "blastedShip damage attacker ship = (fst (ApplyDamage ship_TakeDamage ship damage))\<lparr>s_LastAttacker := attacker\<rparr>"

definition shipInBlast :: "vec2 \<Rightarrow> float64 \<Rightarrow> ship \<Rightarrow> bool" where
  "shipInBlast center radius ship \<longleftrightarrow> 0 < s_HP ship \<and> inRadius2 (s_Pos ship) center (f_mul radius radius)"

definition staticInBlast :: "vec2 \<Rightarrow> float64 \<Rightarrow> destructible_static \<Rightarrow> bool" where
  "staticInBlast center radius d \<longleftrightarrow> 0 < ds_HP d \<and> inRadius2 (ds_Pos d) center (f_mul radius radius)"

lemma splashShip_touch:
  "splashShip center (f_mul radius radius) damage attacker =
   touchEntry (shipInBlast center radius) (blastedShip damage attacker) (EntityRef EntityKindShip)"
  by (auto simp: fun_eq_iff splashShip_def touchEntry_def shipInBlast_def blastedShip_def not_le split: option.splits)

lemma splashStatic_touch:
  "splashStatic center (f_mul radius radius) damage =
   touchEntry (staticInBlast center radius) (\<lambda>d. fst (ApplyDamage static_TakeDamage d damage)) (\<lambda>r. r)"
  by (auto simp: fun_eq_iff splashStatic_def touchEntry_def staticInBlast_def not_le split: option.splits)

text \<open>
  C40: A torpedo blast damages exactly the ships with hull left and the statics with hull left whose
  squared distance to the centre is at most the squared radius, each once, and credits the ships hit to
  the attacker; everything else stays. It reports the hits, ships first, each group in the order the
  maps were visited - and that order changes nothing else.
\<close>

theorem splash_exact:
  assumes "0 < damage" "\<not> f_le radius (Fin 0)"
    and orders: "distinct so" "set so = dom ships" "distinct to" "set to = dom statics"
  shows "ApplyDamageInRadius so to ships statics center radius damage attacker =
    ((\<lambda>i. map_option (\<lambda>x. if shipInBlast center radius x then blastedShip damage attacker x else x) (ships i),
      \<lambda>r. map_option (\<lambda>d. if staticInBlast center radius d then fst (ApplyDamage static_TakeDamage d damage) else d) (statics r)),
     map (EntityRef EntityKindShip) (filter (touched (shipInBlast center radius) ships) so) @
     filter (touched (staticInBlast center radius) statics) to)"
proof -
  have "fold (splashShip center (f_mul radius radius) damage attacker) so (ships, []) =
    (\<lambda>i. map_option (\<lambda>x. if shipInBlast center radius x then blastedShip damage attacker x else x) (ships i),
     map (EntityRef EntityKindShip) (filter (touched (shipInBlast center radius) ships) so))"
    unfolding splashShip_touch fold_touchEntry [OF orders(1)] by (simp add: orders(2) fun_eq_iff touched_dom)
  moreover have "fold (splashStatic center (f_mul radius radius) damage) to (statics, hits) =
    (\<lambda>r. map_option (\<lambda>d. if staticInBlast center radius d then fst (ApplyDamage static_TakeDamage d damage) else d) (statics r),
     hits @ filter (touched (staticInBlast center radius) statics) to)" for hits
    unfolding splashStatic_touch fold_touchEntry [OF orders(3)] by (simp add: orders(4) fun_eq_iff touched_dom)
  ultimately show ?thesis using assms(1,2) by (simp add: ApplyDamageInRadius_def Let_def)
qed

theorem splash_exact_witness:
  "0 < (5 :: int) \<and> \<not> f_le (Fin 10) (Fin 0) \<and>
   (let ships = [1 \<mapsto> zeroShip\<lparr>s_ID := 1, s_HP := 20\<rparr>, 2 \<mapsto> zeroShip\<lparr>s_ID := 2, s_HP := 20, s_Pos := Vec2 (Fin 30) (Fin 0)\<rparr>];
        (after, hits) = ApplyDamageInRadius [2, 1] [] ships Map.empty zeroVec (Fin 10) 5 9
    in map_option s_HP (fst after 1) = Some 15 \<and> map_option s_HP (fst after 2) = Some 20 \<and> hits = [EntityRef EntityKindShip 1])"
proof -
  let ?ships = "[1 \<mapsto> zeroShip\<lparr>s_ID := 1, s_HP := 20\<rparr>, 2 \<mapsto> zeroShip\<lparr>s_ID := 2, s_HP := 20, s_Pos := Vec2 (Fin 30) (Fin 0)\<rparr>]"
  have pre: "0 < (5 :: int)" "\<not> f_le (Fin 10) (Fin 0)" "distinct [2, 1 :: int]" "set [2, 1] = dom ?ships"
    "distinct ([] :: entity_ref list)" "set [] = dom (Map.empty :: entity_ref \<rightharpoonup> destructible_static)"
    by auto
  have near: "shipInBlast zeroVec (Fin 10) (zeroShip\<lparr>s_ID := 1, s_HP := 20\<rparr>)"
    "\<not> shipInBlast zeroVec (Fin 10) (zeroShip\<lparr>s_ID := 2, s_HP := 20, s_Pos := Vec2 (Fin 30) (Fin 0)\<rparr>)"
    by code_simp+
  have hp: "s_HP (blastedShip 5 9 (zeroShip\<lparr>s_ID := 1, s_HP := 20\<rparr>)) = 15"
    by code_simp
  show ?thesis
    unfolding splash_exact [OF pre, of zeroVec 9] Let_def using pre(1,2) near hp by (simp add: touched_def)
qed

end
