(* ===== verification/World.thy ===== *)
theory World
  imports Float64 "HOL-Library.Monad_Syntax"
begin

text \<open>
  \<open>internal/world\<close>: the sector and gate graph (\<open>topology.go\<close>) and the path router with its
  breadth-first searches cached per source sector (\<open>router.go\<close>).

  Go iterates over a map in an unspecified order that may change from call to call. Each search
  therefore takes a parameter \<open>rank\<close>: \<open>neighbours\<close> lists the keys of the adjacency map sorted by it,
  and every order of the keys is the order of some rank. A search runs on one topology: the mutexes make
  the single reads atomic, and a gate destroyed in the middle of a search moves the version past the
  one the result is stored under, so that result is dropped by the next lookup.
\<close>

section \<open>Topology\<close>

record sector =
  sec_ID :: int
  sec_Name :: "int list"
  sec_Bounds :: "(float64 \<times> float64) \<times> (float64 \<times> float64)"
  sec_GridX :: int
  sec_GridY :: int
  sec_Race :: int

record gate =
  gate_ID :: int
  gate_SectorA :: int
  gate_PosA :: "float64 \<times> float64"
  gate_SectorB :: int
  gate_PosB :: "float64 \<times> float64"
  gate_HP :: int
  gate_Shield :: int
  gate_MaxShield :: int
  gate_ShieldRecharge :: int
  gate_Destroyed :: bool

definition EndpointPos :: "gate \<Rightarrow> int \<Rightarrow> (float64 \<times> float64) option" where
  "EndpointPos g sectorID =
     (if sectorID = gate_SectorA g then Some (gate_PosA g)
      else if sectorID = gate_SectorB g then Some (gate_PosB g)
      else None)"

type_synonym adjacency = "(int, (int, gate) table) table"

record topology =
  tp_sectors :: "sector list"
  tp_gates :: "gate list"
  tp_adjacency :: adjacency
  tp_version :: int

definition adjOf :: "adjacency \<Rightarrow> int \<Rightarrow> (int, gate) table" where
  "adjOf adj a = (case map_of adj a of None \<Rightarrow> [] | Some m \<Rightarrow> m)"

definition addLink :: "int \<Rightarrow> int \<Rightarrow> gate \<Rightarrow> adjacency \<Rightarrow> adjacency" where
  "addLink a b g adj = AList.update a (AList.update b g (adjOf adj a)) adj"

definition rebuildAdjacency :: "gate list \<Rightarrow> adjacency" where
  "rebuildAdjacency gs = fold (\<lambda>g adj.
     addLink (gate_SectorB g) (gate_SectorA g) g (addLink (gate_SectorA g) (gate_SectorB g) g adj)) gs []"

definition world_New :: "sector list \<Rightarrow> gate list \<Rightarrow> topology" where
  "world_New sectors gates = \<lparr>tp_sectors = sectors, tp_gates = gates,
     tp_adjacency = rebuildAdjacency gates, tp_version = 0\<rparr>"

definition Sectors :: "topology \<Rightarrow> sector list" where
  "Sectors t = tp_sectors t"

definition Gates :: "topology \<Rightarrow> gate list" where
  "Gates t = tp_gates t"

definition Gate :: "topology \<Rightarrow> int \<Rightarrow> gate option" where
  "Gate t i = List.find (\<lambda>g. gate_ID g = i) (tp_gates t)"

definition GatesInSector :: "topology \<Rightarrow> int \<Rightarrow> gate list" where
  "GatesInSector t sectorID = filter (\<lambda>g. gate_SectorA g = sectorID \<or> gate_SectorB g = sectorID) (tp_gates t)"

definition GateBetween :: "topology \<Rightarrow> int \<Rightarrow> int \<Rightarrow> gate option" where
  "GateBetween t a b = (case map_of (tp_adjacency t) a of None \<Rightarrow> None | Some m \<Rightarrow> map_of m b)"

fun removeFirst :: "int \<Rightarrow> gate list \<Rightarrow> gate list option" where
  "removeFirst i [] = None"
| "removeFirst i (g # gs) = (if gate_ID g \<noteq> i then map_option ((#) g) (removeFirst i gs) else Some gs)"

definition DestroyGate :: "topology \<Rightarrow> int \<Rightarrow> bool \<times> topology" where
  "DestroyGate t i = (case removeFirst i (tp_gates t) of
       None \<Rightarrow> (False, t)
     | Some gs \<Rightarrow> (True, t\<lparr>tp_gates := gs, tp_adjacency := rebuildAdjacency gs,
         tp_version := (tp_version t + 1) mod 2 ^ 64\<rparr>))"

definition neighbours :: "(int \<Rightarrow> int \<Rightarrow> int) \<Rightarrow> topology \<Rightarrow> int \<Rightarrow> int list" where
  "neighbours rank t a = sort_key (rank a) (remdups (map fst (adjOf (tp_adjacency t) a)))"

section \<open>Breadth-first search\<close>

record bfs_result =
  br_dist :: "(int, int) table"
  br_parent :: "(int, int) table"

text \<open>The inner loop over the neighbours of \<open>cur\<close>; the second component is what it appends to the queue.\<close>

fun visitAll :: "int list \<Rightarrow> int \<Rightarrow> int list \<Rightarrow> bfs_result \<Rightarrow> bfs_result \<times> int list" where
  "visitAll excluded cur [] res = (res, [])"
| "visitAll excluded cur (n # ns) res =
     (if n \<in> set excluded then visitAll excluded cur ns res
      else if map_of (br_dist res) n \<noteq> None then visitAll excluded cur ns res
      else (case visitAll excluded cur ns
          (res\<lparr>br_dist := AList.update n ((case map_of (br_dist res) cur of None \<Rightarrow> 0 | Some d \<Rightarrow> d) + 1) (br_dist res),
            br_parent := AList.update n cur (br_parent res)\<rparr>) of
        (res', q) \<Rightarrow> (res', n # q)))"

definition known :: "bfs_result \<Rightarrow> int set" where
  "known res = fst ` set (br_dist res)"

definition vertices :: "topology \<Rightarrow> int set" where
  "vertices t = (\<Union>(a, m) \<in> set (tp_adjacency t). insert a (fst ` set m))"

lemma finite_vertices [simp]: "finite (vertices t)"
  by (auto simp: vertices_def)

lemma known_lookup: "n \<in> known res \<longleftrightarrow> map_of (br_dist res) n \<noteq> None"
  by (simp add: known_def map_of_eq_None_iff)

lemma visitAll_known:
  assumes "visitAll excluded cur ns res = (res', q)"
  shows "known res' = known res \<union> set q" "set q \<inter> known res = {}" "distinct q" "set q \<subseteq> set ns"
proof -
  have "known res' = known res \<union> set q \<and> set q \<inter> known res = {} \<and> distinct q \<and> set q \<subseteq> set ns"
    using assms
  proof (induction excluded cur ns res arbitrary: res' q rule: visitAll.induct)
    case (2 excluded cur n ns res)
    show ?case
    proof (cases "n \<in> set excluded \<or> map_of (br_dist res) n \<noteq> None")
      case True
      with 2(4) have rec: "visitAll excluded cur ns res = (res', q)" by (simp split: if_splits)
      with True 2(1,2) show ?thesis by (metis insert_subset list.simps(15) subset_insertI2)
    next
      case False
      let ?r = "res\<lparr>br_dist := AList.update n ((case map_of (br_dist res) cur of None \<Rightarrow> 0 | Some d \<Rightarrow> d) + 1) (br_dist res),
            br_parent := AList.update n cur (br_parent res)\<rparr>"
      obtain r' q' where rec: "visitAll excluded cur ns ?r = (r', q')" by fastforce
      with False 2(4) have q: "r' = res'" "q = n # q'" by simp_all
      have "known ?r = insert n (known res)" by (auto simp: known_def dom_update)
      moreover have "n \<notin> known res" using False by (simp add: known_lookup)
      ultimately show ?thesis using 2(3) [OF _ _ rec] False q by auto
    qed
  qed (simp add: known_def)
  then show "known res' = known res \<union> set q" "set q \<inter> known res = {}" "distinct q" "set q \<subseteq> set ns" by auto
qed

lemma neighbours_vertices: "set (neighbours rank t a) \<subseteq> vertices t"
proof
  fix x assume "x \<in> set (neighbours rank t a)"
  then obtain m where "map_of (tp_adjacency t) a = Some m" "x \<in> fst ` set m"
    by (cases "map_of (tp_adjacency t) a") (auto simp: neighbours_def adjOf_def)
  then have "(a, m) \<in> set (tp_adjacency t)" "x \<in> fst ` set m" by (auto dest: map_of_SomeD)
  then show "x \<in> vertices t" unfolding vertices_def by blast
qed

lemma bfs_measure:
  assumes "visitAll excluded cur (neighbours rank t cur) res = (res', q)"
  shows "card (vertices t - known res') + length (queue @ q) = card (vertices t - known res) + length queue"
proof -
  note v = visitAll_known [OF assms]
  have "vertices t - known res' = (vertices t - known res) - set q" using v by auto
  moreover have "set q \<subseteq> vertices t - known res" using v neighbours_vertices by blast
  ultimately have "card (vertices t - known res') = card (vertices t - known res) - card (set q)"
    "card (set q) \<le> card (vertices t - known res)" by (simp_all add: card_Diff_subset card_mono)
  with v show ?thesis by (simp add: distinct_card)
qed

function bfsLoop :: "(int \<Rightarrow> int \<Rightarrow> int) \<Rightarrow> topology \<Rightarrow> int list \<Rightarrow> int list \<Rightarrow> bfs_result \<Rightarrow> bfs_result" where
  "bfsLoop rank t excluded [] res = res"
| "bfsLoop rank t excluded (cur # queue) res =
     (case visitAll excluded cur (neighbours rank t cur) res of (res', q) \<Rightarrow> bfsLoop rank t excluded (queue @ q) res')"
  by pat_completeness auto

termination
  by (relation "measure (\<lambda>(rank, t, excluded, queue, res). card (vertices t - known res) + length queue)")
    (auto dest: bfs_measure [OF sym])

definition runBFS :: "(int \<Rightarrow> int \<Rightarrow> int) \<Rightarrow> topology \<Rightarrow> int list \<Rightarrow> int \<Rightarrow> bfs_result" where
  "runBFS rank t excluded source =
     bfsLoop rank t excluded [source] \<lparr>br_dist = [(source, 0)], br_parent = [(source, source)]\<rparr>"

section \<open>The router\<close>

record path_router =
  pr_excluded :: "int list"
  pr_cache :: "(int, bfs_result) table"
  pr_version :: int

definition NewPathRouter :: "topology \<Rightarrow> int list \<Rightarrow> path_router" where
  "NewPathRouter t excluded = \<lparr>pr_excluded = excluded, pr_cache = [], pr_version = tp_version t\<rparr>"

definition isExcluded :: "path_router \<Rightarrow> int \<Rightarrow> bool" where
  "isExcluded r s \<longleftrightarrow> s \<in> set (pr_excluded r)"

definition bfsFrom :: "(int \<Rightarrow> int \<Rightarrow> int) \<Rightarrow> topology \<Rightarrow> int \<Rightarrow> path_router \<Rightarrow> bfs_result \<times> path_router" where
  "bfsFrom rank t source r =
     (let version = tp_version t in
      case (map_of (pr_cache r) source, pr_version r = version) of
        (Some res, True) \<Rightarrow> (res, r)
      | _ \<Rightarrow>
         (let r1 = (if pr_version r \<noteq> version then r\<lparr>pr_cache := [], pr_version := version\<rparr> else r) in
          case map_of (pr_cache r1) source of
            Some res \<Rightarrow> (res, r1)
          | None \<Rightarrow>
              (let res = runBFS rank t (pr_excluded r1) source in
               (res, r1\<lparr>pr_cache := AList.update source res (pr_cache r1)\<rparr>))))"

text \<open>
  The walk along parent pointers; \<open>None\<close> is a loop that never ends. A missing key reads as 0.
\<close>

partial_function (option) walkBack :: "(int, int) table \<Rightarrow> int \<Rightarrow> int \<Rightarrow> int option" where
  [code]: "walkBack parent from cur =
     (let prev = (case map_of parent cur of None \<Rightarrow> 0 | Some p \<Rightarrow> p) in
      if prev = from then Some cur else walkBack parent from prev)"

text \<open>
  The result is the pair the method returns, under the \<open>None\<close> of a walk that does not end; the router
  is returned with its cache.
\<close>

definition NextSector :: "(int \<Rightarrow> int \<Rightarrow> int) \<Rightarrow> topology \<Rightarrow> int \<Rightarrow> int \<Rightarrow> path_router \<Rightarrow> (int \<times> bool) option \<times> path_router" where
  "NextSector rank t from to r =
     (if from = to then (Some (from, True), r)
      else if isExcluded r from \<or> isExcluded r to then (Some (0, False), r)
      else (case bfsFrom rank t from r of (res, r') \<Rightarrow>
        if map_of (br_dist res) to = None then (Some (0, False), r')
        else (map_option (\<lambda>cur. (cur, True)) (walkBack (br_parent res) from to), r')))"

definition Hops :: "(int \<Rightarrow> int \<Rightarrow> int) \<Rightarrow> topology \<Rightarrow> int \<Rightarrow> int \<Rightarrow> path_router \<Rightarrow> (int \<times> bool) \<times> path_router" where
  "Hops rank t from to r =
     (if from = to then ((0, True), r)
      else if isExcluded r from \<or> isExcluded r to then ((0, False), r)
      else (case bfsFrom rank t from r of (res, r') \<Rightarrow>
        (case map_of (br_dist res) to of None \<Rightarrow> ((0, False), r') | Some d \<Rightarrow> ((d, True), r'))))"

definition GateSidePos :: "topology \<Rightarrow> int \<Rightarrow> int \<Rightarrow> (float64 \<times> float64) option" where
  "GateSidePos t from to = (case GateBetween t from to of
       None \<Rightarrow> None
     | Some g \<Rightarrow> if gate_SectorA g = from then Some (gate_PosA g) else Some (gate_PosB g))"

section \<open>Shortest routes\<close>

definition linked :: "topology \<Rightarrow> int \<Rightarrow> int \<Rightarrow> bool" where
  "linked t a b \<longleftrightarrow> list_ex (\<lambda>g. gate_SectorA g = a \<and> gate_SectorB g = b \<or> gate_SectorA g = b \<and> gate_SectorB g = a) (tp_gates t)"

definition hop :: "topology \<Rightarrow> int list \<Rightarrow> int \<Rightarrow> int \<Rightarrow> bool" where
  "hop t excluded a b \<longleftrightarrow> linked t a b \<and> b \<notin> set excluded"

text \<open>The adjacency index is the one built from the live gates, and it answers exactly for them.\<close>

definition indexed :: "topology \<Rightarrow> bool" where
  "indexed t \<longleftrightarrow> tp_adjacency t = rebuildAdjacency (tp_gates t)"

lemma addLink_adj: "map_of (adjOf (addLink a b g adj) x) y = (if x = a \<and> y = b then Some g else map_of (adjOf adj x) y)"
  by (auto simp: addLink_def adjOf_def)

lemma fold_addLink:
  "map_of (adjOf (fold (\<lambda>g adj. addLink (gate_SectorB g) (gate_SectorA g) g (addLink (gate_SectorA g) (gate_SectorB g) g adj)) gs adj) a) b \<noteq> None \<longleftrightarrow>
     map_of (adjOf adj a) b \<noteq> None \<or>
     list_ex (\<lambda>g. gate_SectorA g = a \<and> gate_SectorB g = b \<or> gate_SectorA g = b \<and> gate_SectorB g = a) gs"
  by (induction gs arbitrary: adj) (auto simp: addLink_adj)

lemma GateBetween_adj: "GateBetween t a b = map_of (adjOf (tp_adjacency t) a) b"
  by (simp add: GateBetween_def adjOf_def split: option.split)

lemma GateBetween_linked: "indexed t \<Longrightarrow> GateBetween t a b \<noteq> None \<longleftrightarrow> linked t a b"
  unfolding GateBetween_adj indexed_def linked_def rebuildAdjacency_def by (simp only: fold_addLink) (simp add: adjOf_def)

inductive route :: "topology \<Rightarrow> int list \<Rightarrow> nat \<Rightarrow> int \<Rightarrow> int \<Rightarrow> bool" for t excluded where
  here: "route t excluded 0 a a"
| jump: "route t excluded n a b \<Longrightarrow> hop t excluded b c \<Longrightarrow> route t excluded (Suc n) a c"

inductive_cases route_SucE: "route t excluded (Suc n) a c"
inductive_simps route_zero: "route t excluded 0 a c"

lemma neighbours_set: "indexed t \<Longrightarrow> set (neighbours rank t a) = {b. linked t a b}"
  using map_of_eq_None_iff [of "adjOf (tp_adjacency t) a"]
  by (auto simp: neighbours_def GateBetween_adj simp flip: GateBetween_linked)

lemma visitAll_effect:
  assumes "visitAll excluded cur ns res = (res', q)" "map_of (br_dist res) cur = Some d"
  shows "map_of (br_dist res') x = (if x \<in> set q then Some (d + 1) else map_of (br_dist res) x)"
    and "map_of (br_parent res') x = (if x \<in> set q then Some cur else map_of (br_parent res) x)"
    and "set q = {n \<in> set ns. n \<notin> set excluded \<and> n \<notin> known res}"
proof -
  have "(\<forall>x. map_of (br_dist res') x = (if x \<in> set q then Some (d + 1) else map_of (br_dist res) x)) \<and>
    (\<forall>x. map_of (br_parent res') x = (if x \<in> set q then Some cur else map_of (br_parent res) x)) \<and>
    set q = {n \<in> set ns. n \<notin> set excluded \<and> n \<notin> known res}"
    using assms
  proof (induction excluded cur ns res arbitrary: res' q rule: visitAll.induct)
    case (2 excluded cur n ns res)
    show ?case
    proof (cases "n \<in> set excluded \<or> map_of (br_dist res) n \<noteq> None")
      case True
      with 2(4) have rec: "visitAll excluded cur ns res = (res', q)" by (simp split: if_splits)
      have "{m \<in> set (n # ns). m \<notin> set excluded \<and> m \<notin> known res} = {m \<in> set ns. m \<notin> set excluded \<and> m \<notin> known res}"
        using True by (auto simp: known_lookup)
      moreover from True have "(\<forall>x. map_of (br_dist res') x = (if x \<in> set q then Some (d + 1) else map_of (br_dist res) x)) \<and>
        (\<forall>x. map_of (br_parent res') x = (if x \<in> set q then Some cur else map_of (br_parent res) x)) \<and>
        set q = {m \<in> set ns. m \<notin> set excluded \<and> m \<notin> known res}"
        using 2(1) [OF _ rec 2(5)] 2(2) [OF _ _ rec 2(5)] by blast
      ultimately show ?thesis by simp
    next
      case False
      let ?r = "res\<lparr>br_dist := AList.update n ((case map_of (br_dist res) cur of None \<Rightarrow> 0 | Some d \<Rightarrow> d) + 1) (br_dist res),
            br_parent := AList.update n cur (br_parent res)\<rparr>"
      obtain r' q' where rec: "visitAll excluded cur ns ?r = (r', q')" by fastforce
      with False 2(4) have q: "r' = res'" "q = n # q'" by simp_all
      have cur: "map_of (br_dist ?r) cur = Some d" using 2(5) False by auto
      have kn: "known ?r = insert n (known res)" by (auto simp: known_def dom_update)
      have "n \<notin> known res" using False by (simp add: known_lookup)
      with 2(3) [OF _ _ rec cur] False q 2(5) kn show ?thesis by auto
    qed
  qed (auto simp: known_def)
  then show "map_of (br_dist res') x = (if x \<in> set q then Some (d + 1) else map_of (br_dist res) x)"
    and "map_of (br_parent res') x = (if x \<in> set q then Some cur else map_of (br_parent res) x)"
    and "set q = {n \<in> set ns. n \<notin> set excluded \<and> n \<notin> known res}" by auto
qed

abbreviation distTo :: "bfs_result \<Rightarrow> int \<Rightarrow> int" where
  "distTo res v \<equiv> the (map_of (br_dist res) v)"

text \<open>
  What is true of every search: recorded distances are lengths of routes, recorded parents are the last
  stop before a sector.
\<close>

definition sound_result :: "topology \<Rightarrow> int list \<Rightarrow> int \<Rightarrow> bfs_result \<Rightarrow> bool" where
  "sound_result t ex src res \<longleftrightarrow> map_of (br_dist res) src = Some 0 \<and>
     (\<forall>v \<in> known res. 0 \<le> distTo res v \<and> route t ex (nat (distTo res v)) src v) \<and>
     (\<forall>v \<in> known res. v \<noteq> src \<longrightarrow> (\<exists>p \<in> known res. map_of (br_parent res) v = Some p \<and> distTo res v = distTo res p + 1 \<and> hop t ex p v))"

definition frontier_ok :: "topology \<Rightarrow> int list \<Rightarrow> int list \<Rightarrow> bfs_result \<Rightarrow> bool" where
  "frontier_ok t ex queue res \<longleftrightarrow> set queue \<subseteq> known res \<and> sorted (map (distTo res) queue) \<and>
     (queue \<noteq> [] \<longrightarrow> (\<forall>v \<in> known res. distTo res v \<le> distTo res (hd queue) + 1)) \<and>
     (\<forall>v \<in> known res - set queue. \<forall>w. hop t ex v w \<longrightarrow> w \<in> known res \<and> distTo res w \<le> distTo res v + 1)"

lemma bfs_step:
  assumes "indexed t" and inv: "sound_result t ex src res" "frontier_ok t ex (cur # queue) res"
    and step: "visitAll ex cur (neighbours rank t cur) res = (res', q)"
  shows "sound_result t ex src res'" "frontier_ok t ex (queue @ q) res'"
proof -
  from inv(2) have curk: "cur \<in> known res" by (simp add: frontier_ok_def)
  then obtain d where d: "map_of (br_dist res) cur = Some d" by (auto simp: known_lookup)
  note eff = visitAll_effect [OF step d] and kn = visitAll_known [OF step]
  have qs: "set q = {n. hop t ex cur n \<and> n \<notin> known res}" using eff(3) by (auto simp: neighbours_set [OF assms(1)] hop_def)
  have old: "v \<notin> set q" if "v \<in> known res" for v using that kn(2) by auto
  have D: "distTo res' v = (if v \<in> set q then d + 1 else distTo res v)" for v using eff(1) by simp
  have Dcur: "distTo res cur = d" using d by simp
  have rcur: "0 \<le> d" "route t ex (nat d) src cur" using inv(1) curk Dcur by (auto simp: sound_result_def)
  have bound: "distTo res v \<le> d + 1" if "v \<in> known res" for v using inv(2) that Dcur by (simp add: frontier_ok_def)
  show "sound_result t ex src res'"
    unfolding sound_result_def
  proof (intro conjI ballI impI)
    show "map_of (br_dist res') src = Some 0"
      using inv(1) old [of src] by (simp add: sound_result_def eff(1) known_lookup)
  next
    fix v assume v: "v \<in> known res'"
    show "0 \<le> distTo res' v" using v kn(1) inv(1) rcur(1) by (auto simp: D sound_result_def)
    show "route t ex (nat (distTo res' v)) src v"
    proof (cases "v \<in> set q")
      case True
      with qs rcur route.jump [OF rcur(2)] show ?thesis by (simp add: D nat_add_distrib)
    next
      case False
      with v kn(1) inv(1) show ?thesis by (simp add: D sound_result_def)
    qed
  next
    fix v assume v: "v \<in> known res'" "v \<noteq> src"
    show "\<exists>p \<in> known res'. map_of (br_parent res') v = Some p \<and> distTo res' v = distTo res' p + 1 \<and> hop t ex p v"
    proof (cases "v \<in> set q")
      case True
      with qs curk old [OF curk] kn(1) Dcur show ?thesis by (intro bexI [of _ cur]) (auto simp: eff(2) D)
    next
      case False
      with v kn(1) inv(1) obtain p where "p \<in> known res" "map_of (br_parent res) v = Some p" "distTo res v = distTo res p + 1" "hop t ex p v"
        by (auto simp: sound_result_def)
      with False old [of p] kn(1) show ?thesis by (intro bexI [of _ p]) (auto simp: eff(2) D)
    qed
  qed
  have sq: "sorted (map (distTo res) queue)" "\<forall>v \<in> set queue. d \<le> distTo res v" "set queue \<subseteq> known res"
    using inv(2) Dcur by (auto simp: frontier_ok_def)
  have mapq: "map (distTo res') queue = map (distTo res) queue" using sq(3) old by (auto simp: D)
  have q1: "map (distTo res') q = replicate (length q) (d + 1)" by (rule replicate_eqI [symmetric, THEN sym]) (auto simp: D)
  show "frontier_ok t ex (queue @ q) res'"
    unfolding frontier_ok_def
  proof (intro conjI impI ballI allI)
    show "set (queue @ q) \<subseteq> known res'" using sq(3) kn(1) by auto
    show "sorted (map (distTo res') (queue @ q))"
      using sq(1,3) bound by (auto simp: mapq q1 sorted_append)
  next
    fix v assume ne: "queue @ q \<noteq> []" and v: "v \<in> known res'"
    have "d \<le> distTo res' (hd (queue @ q))" using ne sq(2,3) old by (cases queue; cases q) (auto simp: D)
    moreover have "distTo res' v \<le> d + 1" using v kn(1) bound by (auto simp: D)
    ultimately show "distTo res' v \<le> distTo res' (hd (queue @ q)) + 1" by simp
  next
    fix v w assume v: "v \<in> known res' - set (queue @ q)" and h: "hop t ex v w"
    then have vk: "v \<in> known res" "v \<notin> set q" using kn(1) by auto
    have "w \<in> known res' \<and> distTo res' w \<le> distTo res v + 1"
    proof (cases "v = cur")
      case True
      with h qs kn(1) bound Dcur show ?thesis by (cases "w \<in> known res") (auto simp: D)
    next
      case False
      have "\<forall>v \<in> known res - set (cur # queue). \<forall>w. hop t ex v w \<longrightarrow> w \<in> known res \<and> distTo res w \<le> distTo res v + 1"
        using inv(2) unfolding frontier_ok_def by blast
      moreover have "v \<in> known res - set (cur # queue)" using v vk False by simp
      ultimately have "w \<in> known res" "distTo res w \<le> distTo res v + 1" using h by blast+
      with kn(1) old [of w] show ?thesis by (auto simp: D)
    qed
    with vk show "w \<in> known res'" "distTo res' w \<le> distTo res' v + 1" by (auto simp: D)
  qed
qed

lemma bfsLoop_inv:
  assumes "indexed t" "sound_result t ex src res" "frontier_ok t ex queue res"
  shows "sound_result t ex src (bfsLoop rank t ex queue res) \<and> frontier_ok t ex [] (bfsLoop rank t ex queue res)"
  using assms
proof (induction rank t ex queue res rule: bfsLoop.induct)
  case (2 rank t ex cur queue res)
  obtain res' q where step: "visitAll ex cur (neighbours rank t cur) res = (res', q)" by fastforce
  from 2(1) [OF step [symmetric]] bfs_step [OF 2(2-4) step] 2(2) step show ?case by simp
qed simp

definition valid_result :: "topology \<Rightarrow> int list \<Rightarrow> int \<Rightarrow> bfs_result \<Rightarrow> bool" where
  "valid_result t ex src res \<longleftrightarrow> sound_result t ex src res \<and> frontier_ok t ex [] res"

lemma runBFS_valid: "indexed t \<Longrightarrow> valid_result t ex src (runBFS rank t ex src)"
  unfolding runBFS_def valid_result_def
  by (rule bfsLoop_inv) (auto simp: sound_result_def frontier_ok_def known_def route_zero)

lemma valid_complete:
  assumes "valid_result t ex src res" "route t ex n src v"
  shows "v \<in> known res \<and> distTo res v \<le> int n"
  using assms(2)
proof (induction n arbitrary: v)
  case 0
  with assms(1) show ?case by (auto simp: route_zero valid_result_def sound_result_def known_lookup)
next
  case (Suc n)
  then obtain u where u: "route t ex n src u" "hop t ex u v" by (auto elim: route_SucE)
  from Suc.IH [OF u(1)] u(2) assms(1) have "v \<in> known res" "distTo res v \<le> distTo res u + 1"
    by (auto simp: valid_result_def frontier_ok_def)
  with Suc.IH [OF u(1)] show ?case by simp
qed

lemma valid_dist:
  assumes "valid_result t ex src res"
  shows "map_of (br_dist res) v = Some d \<longleftrightarrow> 0 \<le> d \<and> route t ex (nat d) src v \<and> (\<forall>n. route t ex n src v \<longrightarrow> d \<le> int n)"
    (is "?l \<longleftrightarrow> ?r")
proof
  assume l: ?l
  then have "v \<in> known res" "distTo res v = d" by (auto simp: known_lookup)
  with assms valid_complete [OF assms] show ?r by (auto simp: valid_result_def sound_result_def)
next
  assume r: ?r
  then have "v \<in> known res" "distTo res v \<le> d" using valid_complete [OF assms, of "nat d" v] by auto
  moreover have "d \<le> distTo res v"
    using r \<open>v \<in> known res\<close> assms by (force simp: valid_result_def sound_result_def)
  ultimately show ?l by (auto simp: known_lookup)
qed

lemma walkBack_first_hop:
  assumes "valid_result t ex src res" "v \<in> known res" "v \<noteq> src"
  shows "\<exists>c. walkBack (br_parent res) src v = Some c \<and> hop t ex src c \<and> route t ex (nat (distTo res v) - 1) c v \<and> 0 < distTo res v"
  using assms(2,3)
proof (induction "nat (distTo res v)" arbitrary: v rule: less_induct)
  case less
  from assms(1) less(2,3) obtain p where p: "p \<in> known res" "map_of (br_parent res) v = Some p" "distTo res v = distTo res p + 1"
    "hop t ex p v" "0 \<le> distTo res p" "map_of (br_dist res) src = Some 0" by (auto simp: valid_result_def sound_result_def)
  show ?case
  proof (cases "p = src")
    case True
    with p show ?thesis by (subst walkBack.simps) (simp add: route_zero)
  next
    case False
    from less(1) [OF _ p(1) False] p(3,5) obtain c where c: "walkBack (br_parent res) src p = Some c" "hop t ex src c"
      "route t ex (nat (distTo res p) - 1) c p" "0 < distTo res p" by auto
    have "Suc (nat (distTo res p) - 1) = nat (distTo res v) - 1" using p(3) c(4) by simp
    with route.jump [OF c(3) p(4)] have "route t ex (nat (distTo res v) - 1) c v" by simp
    with c p False show ?thesis by (subst walkBack.simps) simp
  qed
qed

section \<open>The cache\<close>

text \<open>All states a topology and its router can reach: lookups and destroyed gates, in any order.\<close>

inductive router_states :: "topology \<Rightarrow> path_router \<Rightarrow> bool" where
  start: "int (length gates) < 2 ^ 64 \<Longrightarrow> router_states (world_New sectors gates) (NewPathRouter (world_New sectors gates) excluded)"
| lookup: "router_states t r \<Longrightarrow> bfsFrom rank t src r = (res, r') \<Longrightarrow> router_states t r'"
| destroy: "router_states t r \<Longrightarrow> DestroyGate t i = (ok, t') \<Longrightarrow> router_states t' r"

definition router_ok :: "topology \<Rightarrow> path_router \<Rightarrow> bool" where
  "router_ok t r \<longleftrightarrow> indexed t \<and> pr_version r \<le> tp_version t \<and> tp_version t + int (length (tp_gates t)) < 2 ^ 64 \<and> 0 \<le> pr_version r \<and>
     (pr_version r = tp_version t \<longrightarrow> (\<forall>src res. map_of (pr_cache r) src = Some res \<longrightarrow> valid_result t (pr_excluded r) src res))"

lemma bfsFrom_valid:
  assumes "bfsFrom rank t src r = (res, r')" "router_ok t r"
  shows "valid_result t (pr_excluded r) src res" "router_ok t r'" "pr_excluded r' = pr_excluded r"
proof -
  have ix: "indexed t" using assms(2) by (simp add: router_ok_def)
  note new = runBFS_valid [OF ix, of "pr_excluded r" _ rank]
  show "valid_result t (pr_excluded r) src res" "router_ok t r'" "pr_excluded r' = pr_excluded r"
    using assms new
    by (auto simp: bfsFrom_def Let_def router_ok_def split: option.splits bool.splits if_splits)
qed

lemma removeFirst_length: "removeFirst i gs = Some gs' \<Longrightarrow> length gs = Suc (length gs')"
  by (induction gs arbitrary: gs') (auto split: if_splits)

lemma DestroyGate_ok:
  assumes "DestroyGate t i = (ok, t')" "router_ok t r"
  shows "router_ok t' r"
proof (cases "removeFirst i (tp_gates t)")
  case None
  with assms show ?thesis by (simp add: DestroyGate_def)
next
  case (Some gs)
  have "(tp_version t + 1) mod 2 ^ 64 = tp_version t + 1"
    using assms(2) removeFirst_length [OF Some] by (simp add: router_ok_def)
  with assms Some removeFirst_length [OF Some] show ?thesis by (auto simp: DestroyGate_def router_ok_def indexed_def)
qed

lemma router_states_ok: "router_states t r \<Longrightarrow> router_ok t r"
proof (induction rule: router_states.induct)
  case (start gates sectors excluded)
  then show ?case by (simp add: router_ok_def world_New_def NewPathRouter_def indexed_def)
qed (auto dest: bfsFrom_valid(2) DestroyGate_ok)

section \<open>Properties\<close>

text \<open>The distance the router answers with.\<close>

lemma hops_shortest:
  assumes "router_states t r" "from \<noteq> to" "\<not> isExcluded r from"
  shows "(fst (Hops rank t from to r) = (d, True) \<longleftrightarrow>
      0 \<le> d \<and> route t (pr_excluded r) (nat d) from to \<and> (\<forall>n. route t (pr_excluded r) n from to \<longrightarrow> d \<le> int n)) \<and>
    (fst (Hops rank t from to r) = (0, False) \<longleftrightarrow> \<not> (\<exists>n. route t (pr_excluded r) n from to))"
proof -
  obtain res r' where bf: "bfsFrom rank t from r = (res, r')" by fastforce
  note v = bfsFrom_valid(1) [OF bf router_states_ok [OF assms(1)]]
  have nex: "\<not> route t (pr_excluded r) n from to" if "isExcluded r to" for n
    using that assms(2) by (cases n) (auto simp: isExcluded_def route_zero hop_def elim: route_SucE)
  have none: "map_of (br_dist res) to = None \<longleftrightarrow> \<not> (\<exists>n. route t (pr_excluded r) n from to)"
    using valid_dist [OF v, of to] valid_complete [OF v, of _ to] by (cases "map_of (br_dist res) to") (auto simp: known_lookup)
  show ?thesis
  proof (cases "isExcluded r to")
    case True
    with nex assms show ?thesis by (simp add: Hops_def)
  next
    case False
    with assms bf none valid_dist [OF v, of to] show ?thesis
      by (cases "map_of (br_dist res) to") (auto simp: Hops_def)
  qed
qed

text \<open>
  C13: whatever was looked up before and whichever gates have been destroyed since, \<open>Hops\<close> is the length of
  the shortest route over the live gates that avoids the excluded sectors, and reports unreachable exactly
  when there is none.
\<close>

theorem hops_is_shortest:
  assumes "router_states t r" "from \<noteq> to" "\<not> isExcluded r from"
  shows "(fst (Hops rank t from to r) = (d, True) \<longleftrightarrow>
      0 \<le> d \<and> route t (pr_excluded r) (nat d) from to \<and> (\<forall>n. route t (pr_excluded r) n from to \<longrightarrow> d \<le> int n)) \<and>
    (fst (Hops rank t from to r) = (0, False) \<longleftrightarrow> \<not> (\<exists>n. route t (pr_excluded r) n from to))"
  by (rule hops_shortest [OF assms])

definition sample_gate :: "int \<Rightarrow> int \<Rightarrow> int \<Rightarrow> gate" where
  "sample_gate i a b = \<lparr>gate_ID = i, gate_SectorA = a, gate_PosA = (Fin 100, Fin 0), gate_SectorB = b, gate_PosB = (Fin 0, Fin 100),
     gate_HP = 1000, gate_Shield = 0, gate_MaxShield = 0, gate_ShieldRecharge = 0, gate_Destroyed = False\<rparr>"

text \<open>Sectors 1 to 4 in a row, 5 behind 2; sector 6 has no gate.\<close>

definition sample_topology :: topology where
  "sample_topology = world_New [] [sample_gate 10 1 2, sample_gate 11 2 3, sample_gate 12 3 4, sample_gate 13 2 5]"

lemma sample_router_states: "router_states sample_topology (NewPathRouter sample_topology excluded)"
  unfolding sample_topology_def by (rule router_states.start) simp

theorem hops_is_shortest_witness:
  "route sample_topology [] 3 1 4 \<and> \<not> (\<exists>n. route (snd (DestroyGate sample_topology 11)) [] n 1 4)"
proof -
  let ?r = "NewPathRouter sample_topology []" and ?t = "snd (DestroyGate sample_topology 11)"
  have a: "\<not> isExcluded ?r 1" "pr_excluded ?r = []" "fst (Hops (\<lambda>_ x. x) sample_topology 1 4 ?r) = (3, True)"
    "fst (Hops (\<lambda>_ x. x) ?t 1 4 ?r) = (0, False)" by code_simp+
  have "router_states ?t ?r" using sample_router_states by (rule router_states.destroy) (simp add: prod_eq_iff)
  from hops_is_shortest [OF this, of 1 4 "\<lambda>_ x. x"] hops_is_shortest [OF sample_router_states, of 1 4 "[]" "\<lambda>_ x. x" 3] a
  show ?thesis by auto
qed

text \<open>
  C14: the walk along parent pointers always ends, and the sector it names is the first stop of a shortest
  route: there is a live gate to it, it is not excluded, and the rest of the way is one jump shorter.
  So following \<open>NextSector\<close> reaches the destination.
\<close>

theorem next_sector_advances:
  assumes "router_states t r" "from \<noteq> to" "\<not> isExcluded r from"
  shows "\<exists>next found. fst (NextSector rank t from to r) = Some (next, found) \<and>
    (found \<longleftrightarrow> (\<exists>n. route t (pr_excluded r) n from to)) \<and>
    (found \<longrightarrow> GateBetween t from next \<noteq> None \<and> \<not> isExcluded r next \<and>
       (\<exists>n. route t (pr_excluded r) n next to \<and> (\<forall>m. route t (pr_excluded r) m from to \<longrightarrow> Suc n \<le> m)))"
proof -
  obtain res r' where bf: "bfsFrom rank t from r = (res, r')" by fastforce
  note ok = router_states_ok [OF assms(1)] and v = bfsFrom_valid(1) [OF bf router_states_ok [OF assms(1)]]
  have nex: "\<not> route t (pr_excluded r) n from to" if "isExcluded r to" for n
    using that assms(2) by (cases n) (auto simp: isExcluded_def route_zero hop_def elim: route_SucE)
  show ?thesis
  proof (cases "isExcluded r to \<or> map_of (br_dist res) to = None")
    case True
    then have "\<not> (\<exists>n. route t (pr_excluded r) n from to)" using nex valid_complete [OF v, of _ to] by (auto simp: known_lookup)
    with True assms bf show ?thesis by (auto simp: NextSector_def)
  next
    case False
    then have k: "to \<in> known res" by (simp add: known_lookup)
    from walkBack_first_hop [OF v k] assms(2) obtain c where c: "walkBack (br_parent res) from to = Some c"
      "hop t (pr_excluded r) from c" "route t (pr_excluded r) (nat (distTo res to) - 1) c to" "0 < distTo res to" by auto
    from c(2) ok have g: "GateBetween t from c \<noteq> None" "\<not> isExcluded r c"
      by (auto simp: hop_def isExcluded_def router_ok_def simp flip: GateBetween_linked)
    have "Suc (nat (distTo res to) - 1) \<le> m" if "route t (pr_excluded r) m from to" for m
      using valid_complete [OF v that] c(4) by (simp add: nat_le_iff)
    moreover have "\<exists>n. route t (pr_excluded r) n from to"
      using k v by (auto simp: valid_result_def sound_result_def)
    moreover have "fst (NextSector rank t from to r) = Some (c, True)" using False assms(2,3) bf c(1) by (simp add: NextSector_def)
    ultimately show ?thesis using c(3) g by blast
  qed
qed

theorem next_sector_advances_witness:
  "\<exists>next. fst (NextSector (\<lambda>_ x. x) sample_topology 1 4 (NewPathRouter sample_topology [])) = Some (next, True) \<and>
     GateBetween sample_topology 1 next \<noteq> None"
proof -
  let ?r = "NewPathRouter sample_topology []"
  have a: "\<not> isExcluded ?r 1" "pr_excluded ?r = []" and h: "hop sample_topology [] 1 2" "hop sample_topology [] 2 3" "hop sample_topology [] 3 4"
    by code_simp+
  have "route sample_topology [] (Suc (Suc (Suc 0))) 1 4" by (rule route.jump [OF route.jump [OF route.jump [OF route.here h(1)] h(2)] h(3)])
  then have r: "\<exists>n. route sample_topology (pr_excluded ?r) n 1 4" using a(2) by metis
  from next_sector_advances [OF sample_router_states _ a(1), of 4 "\<lambda>_ x. x"] obtain n f where
    "fst (NextSector (\<lambda>_ x. x) sample_topology 1 4 ?r) = Some (n, f)" "f" "GateBetween sample_topology 1 n \<noteq> None" using r by auto
  then show ?thesis by (intro exI [of _ n]) simp
qed

end
