(* ===== verification/Ai.thy ===== *)
theory Ai
  imports Domain
begin

text \<open>
  The controllers of non-player ships: \<open>internal/ai\<close> with the race, miner, passenger and trader
  controllers. A controller reads a view of its sector, changes its own state and returns one action;
  the sector worker applies the action. A state that \<open>json.Marshal\<close> has encoded is represented by
  the state itself: the encoding of these structs (integers, strings, booleans, finite floats) is read
  back exactly, and it fails on a float that is not finite. The configurations are arguments, as they
  are bound when a kind is registered.
\<close>

section \<open>View and actions\<close>

text \<open>What a controller sees: its ship, and the ships and asteroids of the sector by ascending id.\<close>

record world_view =
  v_Self :: ship
  v_Ships :: "ship list"
  v_Asteroids :: "asteroid list"

datatype ai_action =
    Idle
  | MoveTo vec2
  | AI_Attack entity_ref
  | MoveAndFire vec2 entity_ref
  | AI_SetCourse course
  | AI_Transfer entity_ref entity_ref int int
  | AI_Mine int int
  | BoardPassengers int
  | DropPassengers

abbreviation shipRef :: "ship \<Rightarrow> entity_ref" where
  "shipRef x \<equiv> EntityRef EntityKindShip (s_ID x)"

text \<open>One leg of a route, as the trader, miner and passenger packages declare it.\<close>

record leg =
  leg_Sector :: int
  leg_Pos :: vec2
  leg_Ref :: entity_ref

definition atLeg :: "float64 \<Rightarrow> ship \<Rightarrow> leg \<Rightarrow> bool" where
  "atLeg radius self l =
     (if s_SectorID self \<noteq> leg_Sector l \<or> \<not> vIsZero (s_Vel self) then False
      else f_le (vLength (vSub (s_Pos self) (leg_Pos l))) radius)"

definition courseSet :: "course option \<Rightarrow> int \<Rightarrow> vec2 \<Rightarrow> bool" where
  "courseSet ft sec pos = (case ft of None \<Rightarrow> False | Some c \<Rightarrow> crs_Sector c = sec \<and> vEq (crs_Pos c) pos)"

definition courseTo :: "ship \<Rightarrow> int \<Rightarrow> vec2 \<Rightarrow> entity_ref option \<Rightarrow> ai_action" where
  "courseTo self sec pos approach =
     (if courseSet (s_FinalTarget self) sec pos then Idle
      else AI_SetCourse \<lparr>crs_Sector = sec, crs_Pos = pos, crs_Approach = approach\<rparr>)"

section \<open>Trader\<close>

record trader_config =
  tc_ArriveRadius :: float64
  tc_HaulQty :: int

definition trader_withDefaults :: "trader_config \<Rightarrow> trader_config" where
  "trader_withDefaults c = \<lparr>
     tc_ArriveRadius = (if f_le (tc_ArriveRadius c) (Fin 0) then Fin 6 else tc_ArriveRadius c),
     tc_HaulQty = (if tc_HaulQty c \<le> 0 then 20 else tc_HaulQty c)\<rparr>"

record trader_state =
  ts_Phase :: string
  ts_Home :: leg
  ts_Dest :: leg
  ts_Goods :: int
  ts_HaulQty :: int

definition currentLeg :: "trader_state \<Rightarrow> leg" where
  "currentLeg st = (if ts_Phase st = ''dest'' then ts_Dest st else ts_Home st)"

definition haulQty :: "trader_config \<Rightarrow> trader_state \<Rightarrow> int" where
  "haulQty cfg st = (if 0 < ts_HaulQty st then ts_HaulQty st else tc_HaulQty cfg)"

definition transferAndAdvance :: "trader_config \<Rightarrow> ship \<Rightarrow> leg \<Rightarrow> trader_state \<Rightarrow> ai_action \<times> trader_state" where
  "transferAndAdvance cfg self l st =
     (if ts_Phase st = ''home''
      then (AI_Transfer (leg_Ref l) (shipRef self) (ts_Goods st) (haulQty cfg st), st\<lparr>ts_Phase := ''dest''\<rparr>)
      else (AI_Transfer (shipRef self) (leg_Ref l) (ts_Goods st) (haulQty cfg st), st\<lparr>ts_Phase := ''home''\<rparr>))"

definition trader_Tick :: "trader_config \<Rightarrow> world_view \<Rightarrow> trader_state \<Rightarrow> ai_action \<times> trader_state" where
  "trader_Tick cfg view st =
     (let self = v_Self view; l = currentLeg st in
      if atLeg (tc_ArriveRadius cfg) self l then transferAndAdvance cfg self l st
      else (courseTo self (leg_Sector l) (leg_Pos l) (Some (leg_Ref l)), st))"

section \<open>Passenger transport\<close>

record passenger_config =
  pc_ArriveRadius :: float64
  pc_DockWaitTicks :: int
  pc_MaxPassengers :: int

definition passenger_withDefaults :: "passenger_config \<Rightarrow> passenger_config" where
  "passenger_withDefaults c = \<lparr>
     pc_ArriveRadius = (if f_le (pc_ArriveRadius c) (Fin 0) then Fin 6 else pc_ArriveRadius c),
     pc_DockWaitTicks = (if pc_DockWaitTicks c \<le> 0 then 10 else pc_DockWaitTicks c),
     pc_MaxPassengers = (if pc_MaxPassengers c \<le> 0 then 33 else pc_MaxPassengers c)\<rparr>"

record passenger_state =
  ps_Phase :: string
  ps_Pool :: "leg list"
  ps_Dest :: leg
  ps_RouteIdx :: int
  ps_WaitLeft :: int

text \<open>The round-robin search, with \<open>k\<close> turns left; the cursor moves on with every turn.\<close>

fun pickFrom :: "leg list \<Rightarrow> leg \<Rightarrow> nat \<Rightarrow> int \<Rightarrow> leg option \<times> int" where
  "pickFrom legs dest 0 idx = (None, idx)"
| "pickFrom legs dest (Suc k) idx =
     (let n = int (length legs); l = legs ! nat (idx mod n); idx' = (idx + 1) mod n
      in if leg_Ref l \<noteq> leg_Ref dest then (Some l, idx') else pickFrom legs dest k idx')"

definition pickNext :: "passenger_state \<Rightarrow> leg option \<times> passenger_state" where
  "pickNext st = (let (l, idx) = pickFrom (ps_Pool st) (ps_Dest st) (length (ps_Pool st)) (ps_RouteIdx st)
     in (l, st\<lparr>ps_RouteIdx := idx\<rparr>))"

definition tickFlying :: "passenger_config \<Rightarrow> ship \<Rightarrow> passenger_state \<Rightarrow> ai_action \<times> passenger_state" where
  "tickFlying cfg self st =
     (if atLeg (pc_ArriveRadius cfg) self (ps_Dest st)
      then (DropPassengers, st\<lparr>ps_Phase := ''waiting'', ps_WaitLeft := pc_DockWaitTicks cfg\<rparr>)
      else (courseTo self (leg_Sector (ps_Dest st)) (leg_Pos (ps_Dest st)) (Some (leg_Ref (ps_Dest st))), st))"

definition tickWaiting :: "passenger_config \<Rightarrow> passenger_state \<Rightarrow> ai_action \<times> passenger_state" where
  "tickWaiting cfg st =
     (if 0 < ps_WaitLeft st then (Idle, st\<lparr>ps_WaitLeft := ps_WaitLeft st - 1\<rparr>)
      else (case pickNext st of
          (None, st) \<Rightarrow> (Idle, st)
        | (Some next, st) \<Rightarrow> (BoardPassengers (pc_MaxPassengers cfg), st\<lparr>ps_Dest := next, ps_Phase := ''flying''\<rparr>)))"

definition passenger_Tick :: "passenger_config \<Rightarrow> world_view \<Rightarrow> passenger_state \<Rightarrow> ai_action \<times> passenger_state" where
  "passenger_Tick cfg view st =
     (if ps_Phase st = ''flying'' then tickFlying cfg (v_Self view) st else tickWaiting cfg st)"

section \<open>Miner\<close>

record mine_target =
  mt_ID :: int
  mt_Sector :: int
  mt_Pos :: vec2

record miner_config =
  mc_ArriveRadius :: float64
  mc_MineRange :: float64
  mc_DrillRate :: int
  mc_LoadTarget :: int

definition miner_withDefaults :: "miner_config \<Rightarrow> miner_config" where
  "miner_withDefaults c = \<lparr>
     mc_ArriveRadius = (if f_le (mc_ArriveRadius c) (Fin 0) then Fin 6 else mc_ArriveRadius c),
     mc_MineRange = (if f_le (mc_MineRange c) (Fin 0) then Fin 12 else mc_MineRange c),
     mc_DrillRate = (if mc_DrillRate c \<le> 0 then 5 else mc_DrillRate c),
     mc_LoadTarget = (if mc_LoadTarget c \<le> 0 then 40 else mc_LoadTarget c)\<rparr>"

record miner_state =
  ms_Phase :: string
  ms_Home :: leg
  ms_Ore :: int
  ms_Target :: mine_target
  ms_Mined :: int

definition unloadAll :: int where "unloadAll = 2 ^ 30"

definition findAsteroid :: "world_view \<Rightarrow> int \<Rightarrow> asteroid option" where
  "findAsteroid view i = find (\<lambda>a. a_ID a = i) (v_Asteroids view)"

definition nearestOre :: "int \<Rightarrow> vec2 \<Rightarrow> (asteroid \<times> float64) option \<Rightarrow> asteroid \<Rightarrow> (asteroid \<times> float64) option" where
  "nearestOre ore from best a =
     (if a_OreType a \<noteq> ore \<or> a_Mass a \<le> 0 then best
      else (let d = vLength (vSub (a_Pos a) from) in
        case best of None \<Rightarrow> Some (a, d) | Some (_, bestDist) \<Rightarrow> if f_lt d bestDist then Some (a, d) else best))"

definition nearestAsteroid :: "miner_state \<Rightarrow> world_view \<Rightarrow> vec2 \<Rightarrow> asteroid option" where
  "nearestAsteroid st view from = map_option fst (foldl (nearestOre (ms_Ore st) from) None (v_Asteroids view))"

definition miner_mine :: "miner_config \<Rightarrow> miner_state \<Rightarrow> ai_action \<times> miner_state" where
  "miner_mine cfg st = (AI_Mine (mt_ID (ms_Target st)) (mc_DrillRate cfg), st\<lparr>ms_Mined := wrap64 (ms_Mined st + mc_DrillRate cfg)\<rparr>)"

definition tickToHome :: "miner_config \<Rightarrow> ship \<Rightarrow> miner_state \<Rightarrow> ai_action \<times> miner_state" where
  "tickToHome cfg self st =
     (let home = ms_Home st in
      if atLeg (mc_ArriveRadius cfg) self home
      then (AI_Transfer (shipRef self) (leg_Ref home) (ms_Ore st) unloadAll, st\<lparr>ms_Mined := 0, ms_Phase := ''idle''\<rparr>)
      else (courseTo self (leg_Sector home) (leg_Pos home) (Some (leg_Ref home)), st))"

definition goHome :: "miner_config \<Rightarrow> ship \<Rightarrow> miner_state \<Rightarrow> ai_action \<times> miner_state" where
  "goHome cfg self st = tickToHome cfg self (st\<lparr>ms_Phase := ''to_home''\<rparr>)"

definition courseToTarget :: "ship \<Rightarrow> miner_state \<Rightarrow> ai_action" where
  "courseToTarget self st = courseTo self (mt_Sector (ms_Target st)) (mt_Pos (ms_Target st)) None"

definition repickOrHome :: "miner_config \<Rightarrow> ship \<Rightarrow> world_view \<Rightarrow> miner_state \<Rightarrow> ai_action \<times> miner_state" where
  "repickOrHome cfg self view st =
     (case nearestAsteroid st view (s_Pos self) of
        Some a \<Rightarrow> (let st = st\<lparr>ms_Target := \<lparr>mt_ID = a_ID a, mt_Sector = s_SectorID self, mt_Pos = a_Pos a\<rparr>\<rparr>
                  in (courseToTarget self st, st))
      | None \<Rightarrow> goHome cfg self st)"

definition tickToAsteroid :: "miner_config \<Rightarrow> ship \<Rightarrow> world_view \<Rightarrow> miner_state \<Rightarrow> ai_action \<times> miner_state" where
  "tickToAsteroid cfg self view st =
     (if s_SectorID self = mt_Sector (ms_Target st) then
        (case findAsteroid view (mt_ID (ms_Target st)) of
           None \<Rightarrow> repickOrHome cfg self view st
         | Some a \<Rightarrow>
             if f_le (vLength (vSub (s_Pos self) (a_Pos a))) (mc_MineRange cfg)
             then miner_mine cfg (st\<lparr>ms_Phase := ''mining''\<rparr>)
             else (courseToTarget self st, st))
      else (courseToTarget self st, st))"

definition tickMining :: "miner_config \<Rightarrow> ship \<Rightarrow> world_view \<Rightarrow> miner_state \<Rightarrow> ai_action \<times> miner_state" where
  "tickMining cfg self view st =
     (case findAsteroid view (mt_ID (ms_Target st)) of
        None \<Rightarrow> goHome cfg self st
      | Some a \<Rightarrow>
          if a_Mass a \<le> 0 \<or> mc_LoadTarget cfg \<le> ms_Mined st then goHome cfg self st
          else if f_lt (mc_MineRange cfg) (vLength (vSub (s_Pos self) (a_Pos a)))
          then (let st = st\<lparr>ms_Phase := ''to_asteroid''\<rparr> in (courseToTarget self st, st))
          else miner_mine cfg st)"

definition tickIdle :: "miner_config \<Rightarrow> ship \<Rightarrow> world_view \<Rightarrow> miner_state \<Rightarrow> ai_action \<times> miner_state" where
  "tickIdle cfg self view st =
     (case nearestAsteroid st view (s_Pos self) of
        None \<Rightarrow> (Idle, st)
      | Some a \<Rightarrow> (let st = st\<lparr>ms_Target := \<lparr>mt_ID = a_ID a, mt_Sector = s_SectorID self, mt_Pos = a_Pos a\<rparr>,
                      ms_Mined := 0, ms_Phase := ''to_asteroid''\<rparr>
                  in (courseToTarget self st, st)))"

definition miner_Tick :: "miner_config \<Rightarrow> world_view \<Rightarrow> miner_state \<Rightarrow> ai_action \<times> miner_state" where
  "miner_Tick cfg view st =
     (let self = v_Self view in
      if ms_Phase st = ''mining'' then tickMining cfg self view st
      else if ms_Phase st = ''to_home'' then tickToHome cfg self st
      else if ms_Phase st = ''idle'' then tickIdle cfg self view st
      else tickToAsteroid cfg self view st)"

section \<open>Race fleets\<close>

record race_config =
  rcf_DetectionRange :: float64
  rcf_FleeThreshold :: float64
  rcf_PatrolRadius :: float64
  rcf_PatrolStep :: float64
  rcf_FormationSpacing :: float64
  rcf_SquadRetreatFraction :: float64
  rcf_PeakRebaseTicks :: int
  rcf_WarshipClassIDs :: "int \<Rightarrow> bool"

definition race_withDefaults :: "race_config \<Rightarrow> race_config" where
  "race_withDefaults c = c\<lparr>
     rcf_DetectionRange := (if f_le (rcf_DetectionRange c) (Fin 0) then Fin 600 else rcf_DetectionRange c),
     rcf_FleeThreshold := (if f_le (rcf_FleeThreshold c) (Fin 0) then f_lit (3 / 10) else rcf_FleeThreshold c),
     rcf_PatrolRadius := (if f_le (rcf_PatrolRadius c) (Fin 0) then Fin 150 else rcf_PatrolRadius c),
     rcf_PatrolStep := (if f_le (rcf_PatrolStep c) (Fin 0) then f_lit (1 / 10) else rcf_PatrolStep c),
     rcf_FormationSpacing := (if f_le (rcf_FormationSpacing c) (Fin 0) then Fin 50 else rcf_FormationSpacing c),
     rcf_SquadRetreatFraction := (if f_le (rcf_SquadRetreatFraction c) (Fin 0) then f_lit (1 / 2) else rcf_SquadRetreatFraction c),
     rcf_PeakRebaseTicks := (if rcf_PeakRebaseTicks c \<le> 0 then 10 else rcf_PeakRebaseTicks c)\<rparr>"

record race_state =
  rs_Race :: int
  rs_Order :: string
  rs_Anchor :: vec2
  rs_HasAnchor :: bool
  rs_Phase :: float64
  rs_SquadPeak :: int
  rs_NoEnemyTicks :: int
  rs_Standalone :: bool

definition squad :: "race_config \<Rightarrow> race_state \<Rightarrow> ship \<Rightarrow> ship list \<Rightarrow> int list" where
  "squad cfg st self ships =
     (if rs_Standalone st \<or> \<not> rcf_WarshipClassIDs cfg (s_ShipClassID self) then []
      else sort (s_ID self # map s_ID (filter (\<lambda>x. \<not> (s_ID x = s_ID self \<or> s_HP x \<le> 0 \<or> s_Race x \<noteq> s_Race self \<or>
             \<not> rcf_WarshipClassIDs cfg (s_ShipClassID x))) ships)))"

text \<open>\<open>slices.BinarySearch\<close> on a sorted slice: the first position that holds no smaller id.\<close>

definition rankIn :: "int list \<Rightarrow> int \<Rightarrow> int" where
  "rankIn ids i = int (length (takeWhile (\<lambda>k. k < i) ids))"

definition formationSlot :: "ship \<Rightarrow> int list \<Rightarrow> ship list \<Rightarrow> (vec2 \<times> int) option" where
  "formationSlot self sq ships =
     (if length sq < 2 \<or> hd sq = s_ID self then None
      else map_option (\<lambda>x. (s_Pos x, rankIn sq (s_ID self))) (find (\<lambda>x. s_ID x = hd sq) ships))"

definition formationOffset :: "race_config \<Rightarrow> int \<Rightarrow> vec2" where
  "formationOffset cfg rank =
     (let row = f_of_int ((rank + 1) div 2); side = (if rank mod 2 = 0 then Fin (-1) else Fin 1)
      in Vec2 (f_mul (f_neg row) (rcf_FormationSpacing cfg)) (f_mul (f_mul side row) (rcf_FormationSpacing cfg)))"

text \<open>\<open>math.MaxFloat64\<close>.\<close>

definition maxFloat64 :: rat where "maxFloat64 = (2 ^ 53 - 1) * 2 ^ 971"

definition lengthSq :: "vec2 \<Rightarrow> float64" where
  "lengthSq d = f_add (f_mul (vX d) (vX d)) (f_mul (vY d) (vY d))"

text \<open>One turn of the search loops: the candidate replaces the best so far when it is in range and strictly closer.\<close>

definition closer :: "(ship \<Rightarrow> bool) \<Rightarrow> vec2 \<Rightarrow> float64 \<Rightarrow> (ship \<times> float64) option \<Rightarrow> ship \<Rightarrow> (ship \<times> float64) option" where
  "closer eligible from rangeSq best x =
     (if \<not> eligible x then best
      else (let sq = lengthSq (vSub (s_Pos x) from) in
        if f_lt rangeSq sq \<or> f_le (case best of None \<Rightarrow> Fin maxFloat64 | Some (_, b) \<Rightarrow> b) sq then best else Some (x, sq)))"

definition nearestOf :: "race_config \<Rightarrow> (ship \<Rightarrow> bool) \<Rightarrow> ship \<Rightarrow> ship list \<Rightarrow> ship option" where
  "nearestOf cfg eligible self ships =
     map_option fst (foldl (closer eligible (s_Pos self) (f_mul (rcf_DetectionRange cfg) (rcf_DetectionRange cfg))) None ships)"

definition nearestHostile :: "race_config \<Rightarrow> (ship \<Rightarrow> ship \<Rightarrow> bool) \<Rightarrow> ship \<Rightarrow> ship list \<Rightarrow> ship option" where
  "nearestHostile cfg IsHostile self ships =
     nearestOf cfg (\<lambda>x. \<not> (s_ID x = s_ID self \<or> s_HP x \<le> 0) \<and> IsHostile self x) self ships"

definition engaged :: "(ship \<Rightarrow> ship \<Rightarrow> bool) \<Rightarrow> ship \<Rightarrow> ship list \<Rightarrow> int list" where
  "engaged IsHostile self ships = List.map_filter (\<lambda>x.
     if s_ID x = s_ID self \<or> s_HP x \<le> 0 \<or> IsHostile self x then None
     else (case s_AttackTarget x of None \<Rightarrow> None | Some r \<Rightarrow> if ref_kind r = EntityKindShip then Some (ref_id r) else None)) ships"

definition allyFocusTarget :: "race_config \<Rightarrow> (ship \<Rightarrow> ship \<Rightarrow> bool) \<Rightarrow> ship \<Rightarrow> ship list \<Rightarrow> ship option" where
  "allyFocusTarget cfg IsHostile self ships =
     (let eng = engaged IsHostile self ships in
      if eng = [] then None
      else nearestOf cfg (\<lambda>x. \<not> (s_ID x = s_ID self \<or> s_HP x \<le> 0 \<or> s_ID x \<notin> set eng \<or> \<not> IsHostile self x)) self ships)"

definition hullFraction :: "ship \<Rightarrow> float64" where
  "hullFraction self = (if s_MaxHP self \<le> 0 then Fin 1 else f_div (f_of_int (s_HP self)) (f_of_int (s_MaxHP self)))"

definition fleePoint :: "race_config \<Rightarrow> race_state \<Rightarrow> vec2 \<Rightarrow> vec2 \<Rightarrow> vec2" where
  "fleePoint cfg st selfPos threatPos =
     (let dir = vSub selfPos threatPos; len = vLength dir in
      if f_eq len (Fin 0) then rs_Anchor st
      else vAdd selfPos (vScale dir (f_div (rcf_PatrolRadius cfg) len)))"

definition patrolPoint :: "gomath \<Rightarrow> race_config \<Rightarrow> race_state \<Rightarrow> vec2" where
  "patrolPoint gm cfg st = vAdd (rs_Anchor st)
     (Vec2 (f_mul (rcf_PatrolRadius cfg) (m_Cos gm (rs_Phase st))) (f_mul (rcf_PatrolRadius cfg) (m_Sin gm (rs_Phase st))))"

definition dropAnchor :: "ship \<Rightarrow> race_state \<Rightarrow> race_state" where
  "dropAnchor self st = (if rs_HasAnchor st then st else st\<lparr>rs_Anchor := s_Pos self, rs_HasAnchor := True\<rparr>)"

text \<open>The branch with a hostile ship in range.\<close>

definition engageOrRetreat :: "race_config \<Rightarrow> (ship \<Rightarrow> ship \<Rightarrow> bool) \<Rightarrow> ship \<Rightarrow> ship list \<Rightarrow> int list \<Rightarrow> ship \<Rightarrow>
    race_state \<Rightarrow> ai_action \<times> race_state" where
  "engageOrRetreat cfg IsHostile self ships sq enemy st =
     (let n = int (length sq);
          st = st\<lparr>rs_NoEnemyTicks := 0, rs_SquadPeak := (if rs_SquadPeak st < n then n else rs_SquadPeak st)\<rparr> in
      if f_lt (hullFraction self) (rcf_FleeThreshold cfg)
      then (MoveTo (fleePoint cfg st (s_Pos self) (s_Pos enemy)), st\<lparr>rs_Order := ''retreat''\<rparr>)
      else if f_lt (f_of_int n) (f_mul (f_of_int (rs_SquadPeak st)) (rcf_SquadRetreatFraction cfg))
      then (MoveAndFire (rs_Anchor st) (shipRef enemy), st\<lparr>rs_Order := ''retreat''\<rparr>)
      else (AI_Attack (shipRef (case allyFocusTarget cfg IsHostile self ships of Some t \<Rightarrow> t | None \<Rightarrow> enemy)), st\<lparr>rs_Order := ''engage''\<rparr>))"

text \<open>The branch with none: a wingman keeps the formation, everybody else flies the patrol circle.\<close>

definition patrol :: "gomath \<Rightarrow> race_config \<Rightarrow> ship \<Rightarrow> ship list \<Rightarrow> int list \<Rightarrow> race_state \<Rightarrow> ai_action \<times> race_state" where
  "patrol gm cfg self ships sq st =
     (let t = (if rs_NoEnemyTicks st < rcf_PeakRebaseTicks cfg then rs_NoEnemyTicks st + 1 else rs_NoEnemyTicks st);
          st = st\<lparr>rs_NoEnemyTicks := t, rs_SquadPeak := (if rcf_PeakRebaseTicks cfg \<le> t then int (length sq) else rs_SquadPeak st),
            rs_Order := ''patrol''\<rparr> in
      case formationSlot self sq ships of
        Some (leaderPos, rank) \<Rightarrow> (MoveTo (vAdd leaderPos (formationOffset cfg rank)), st)
      | None \<Rightarrow> (let st = st\<lparr>rs_Phase := f_add (rs_Phase st) (rcf_PatrolStep cfg)\<rparr> in (MoveTo (patrolPoint gm cfg st), st)))"

definition race_Tick :: "gomath \<Rightarrow> race_config \<Rightarrow> (ship \<Rightarrow> ship \<Rightarrow> bool) \<Rightarrow> world_view \<Rightarrow> race_state \<Rightarrow> ai_action \<times> race_state" where
  "race_Tick gm cfg IsHostile view st =
     (let self = v_Self view; ships = v_Ships view; st = dropAnchor self st; sq = squad cfg st self ships in
      case nearestHostile cfg IsHostile self ships of
        Some enemy \<Rightarrow> engageOrRetreat cfg IsHostile self ships sq enemy st
      | None \<Rightarrow> patrol gm cfg self ships sq st)"

section \<open>Controllers and their registry\<close>

datatype controller =
    RaceController race_state
  | TraderController trader_state
  | MinerController miner_state
  | PassengerController passenger_state

primrec ct_Kind :: "controller \<Rightarrow> string" where
  "ct_Kind (RaceController _) = ''race''"
| "ct_Kind (TraderController _) = ''trader''"
| "ct_Kind (MinerController _) = ''miner''"
| "ct_Kind (PassengerController _) = ''passenger''"

text \<open>\<open>json.Marshal\<close> refuses a number that is not finite.\<close>

fun is_fin :: "float64 \<Rightarrow> bool" where
  "is_fin (Fin _) = True"
| "is_fin _ = False"

definition vec_fin :: "vec2 \<Rightarrow> bool" where
  "vec_fin v \<longleftrightarrow> is_fin (vX v) \<and> is_fin (vY v)"

definition ct_State :: "controller \<Rightarrow> controller option" where
  "ct_State c = (if (case c of RaceController st \<Rightarrow> vec_fin (rs_Anchor st) \<and> is_fin (rs_Phase st)
       | TraderController st \<Rightarrow> vec_fin (leg_Pos (ts_Home st)) \<and> vec_fin (leg_Pos (ts_Dest st))
       | MinerController st \<Rightarrow> vec_fin (leg_Pos (ms_Home st)) \<and> vec_fin (mt_Pos (ms_Target st))
       | PassengerController st \<Rightarrow> vec_fin (leg_Pos (ps_Dest st)) \<and> list_all (\<lambda>l. vec_fin (leg_Pos l)) (ps_Pool st))
     then Some c else None)"

definition zeroLeg :: leg where
  "zeroLeg = \<lparr>leg_Sector = 0, leg_Pos = zeroVec, leg_Ref = EntityRef 0 0\<rparr>"

text \<open>
  \<open>Registry.Build\<close> with the four kinds registered: a missing state is the zero state, an empty phase is
  replaced by the initial one, and a state of another kind is refused.
\<close>

definition registry_Build :: "string \<Rightarrow> controller option \<Rightarrow> controller option" where
  "registry_Build kind state =
     (if kind = ''race'' then
        (case state of
           None \<Rightarrow> Some (RaceController \<lparr>rs_Race = 0, rs_Order = ''patrol'', rs_Anchor = zeroVec, rs_HasAnchor = False, rs_Phase = Fin 0,
             rs_SquadPeak = 0, rs_NoEnemyTicks = 0, rs_Standalone = False\<rparr>)
         | Some (RaceController st) \<Rightarrow> Some (RaceController (if rs_Order st = [] then st\<lparr>rs_Order := ''patrol''\<rparr> else st))
         | _ \<Rightarrow> None)
      else if kind = ''trader'' then
        (case state of
           None \<Rightarrow> Some (TraderController \<lparr>ts_Phase = ''home'', ts_Home = zeroLeg, ts_Dest = zeroLeg, ts_Goods = 0, ts_HaulQty = 0\<rparr>)
         | Some (TraderController st) \<Rightarrow> Some (TraderController (if ts_Phase st = [] then st\<lparr>ts_Phase := ''home''\<rparr> else st))
         | _ \<Rightarrow> None)
      else if kind = ''miner'' then
        (case state of
           None \<Rightarrow> Some (MinerController \<lparr>ms_Phase = ''idle'', ms_Home = zeroLeg, ms_Ore = 0,
             ms_Target = \<lparr>mt_ID = 0, mt_Sector = 0, mt_Pos = zeroVec\<rparr>, ms_Mined = 0\<rparr>)
         | Some (MinerController st) \<Rightarrow> Some (MinerController (if ms_Phase st = [] then st\<lparr>ms_Phase := ''idle''\<rparr> else st))
         | _ \<Rightarrow> None)
      else if kind = ''passenger'' then
        (case state of
           None \<Rightarrow> Some (PassengerController \<lparr>ps_Phase = ''waiting'', ps_Pool = [], ps_Dest = zeroLeg, ps_RouteIdx = 0, ps_WaitLeft = 0\<rparr>)
         | Some (PassengerController st) \<Rightarrow> Some (PassengerController (if ps_Phase st = [] then st\<lparr>ps_Phase := ''waiting''\<rparr> else st))
         | _ \<Rightarrow> None)
      else None)"

record ai_configs =
  cfg_race :: race_config
  cfg_trader :: trader_config
  cfg_miner :: miner_config
  cfg_passenger :: passenger_config

definition controller_Tick :: "gomath \<Rightarrow> ai_configs \<Rightarrow> (ship \<Rightarrow> ship \<Rightarrow> bool) \<Rightarrow> world_view \<Rightarrow> controller \<Rightarrow> ai_action \<times> controller" where
  "controller_Tick gm cfg IsHostile view c =
     (case c of
        RaceController st \<Rightarrow> map_prod id RaceController (race_Tick gm (cfg_race cfg) IsHostile view st)
      | TraderController st \<Rightarrow> map_prod id TraderController (trader_Tick (cfg_trader cfg) view st)
      | MinerController st \<Rightarrow> map_prod id MinerController (miner_Tick (cfg_miner cfg) view st)
      | PassengerController st \<Rightarrow> map_prod id PassengerController (passenger_Tick (cfg_passenger cfg) view st))"

end
