(* ===== verification/Sector.thy ===== *)
theory Sector
  imports Projectiles World Ai
begin

text \<open>
  The state a sector worker owns (\<open>internal/sector/state.go\<close>), its collaborators, and the
  effects shared by the commands and the tick: destroying a static, a gate or a ship, spilling
  loot, knocking modules off.

  One worker goroutine writes a sector, so every operation is a function of the state. The
  collaborators the worker calls through interfaces (repositories, the bus, the reputation and
  police services) are one parameter, \<open>w_reply\<close>: the answer to a request, given the
  requests made before it. Requests are logged in \<open>ss_log\<close>, which makes the database writes and
  the published events observable. A Go map is a partial function, and each loop over a map
  takes the order in which it visits the keys; a key that is gone when its turn comes is skipped,
  as Go does. Logging and metrics are left out.
\<close>

section \<open>Events and requests\<close>

record killed_event =
  ke_Victim :: entity_ref
  ke_SectorID :: int
  ke_Pos :: vec2
  ke_Killer :: int
  ke_VictimPlayer :: int
  ke_VictimIsSpacesuit :: bool
  ke_VictimPassengers :: "int list"

record jump_event =
  je_Ship :: ship
  je_SourceSector :: int
  je_TargetSector :: int
  je_ExitPos :: vec2
  je_ControllerKind :: string
  je_ControllerState :: "controller option"

record captured_event =
  ce_ShipID :: int
  ce_SectorID :: int
  ce_Pos :: vec2
  ce_OldOwner :: int
  ce_Passengers :: "int list"

datatype request =
    SaveShip ship
  | SaveEquipment ship
  | DeleteShip int
  | ShipCargo int
  | RecordKill int int "container_drop list"
  | SpawnContainer int container_drop
  | PickupContainer int int
  | DeleteContainer int
  | DeleteTower int
  | DeleteSatellite int
  | DeleteJammer int
  | DeleteDrone int
  | DeleteTorpedo int
  | DeleteAsteroid int
  | MarkGateDestroyed int
  | UpsertAIState int int string "controller option"
  | OnRaceShipKilled int int
  | OnShipKilled int
  | OnShipCaptured int int
  | SpendMissile int int
  | InsertTorpedo int int torpedo
  | InsertDrones int int "drone list"
  | RecallDrones int int "int list"
  | AddOre int int int
  | HaulCargo entity_ref entity_ref int int
  | InstallJammer int int static_obj
  | InstallSatellite int int static_obj
  | DismantleJammer int int int
  | DismantleSatellite int int int
  | PublishKilled killed_event
  | PublishJump jump_event
  | PublishHandoff int int int int
  | PublishJumped int int
  | PublishDocked int int
  | PublishCaptured captured_event
  | PublishCapture int int int bool bool
  | PublishModuleKnocked int int int installed_equipment
  | PublishPoliceScan int int int int int bool
  | PublishHacked int int int int int int int
  | PoliceScan int int int
  | RobStation entity_ref int int int bool int vec2 int
  | BatchUpdateShips "ship list"
  | BatchUpdateDrones "drone list"
  | BatchUpdateTorpedos "torpedo list"
  | BatchUpdateAsteroids "asteroid list"
  | BatchUpsertAI "(int \<times> int \<times> string \<times> controller) list"

text \<open>
  Errors of the package, and the two foreign errors the worker tells apart; any other error of
  a collaborator is \<open>ErrOther\<close>.
\<close>

datatype sector_err =
    ErrShipNotFound | ErrForbidden | ErrShipExists | ErrShipDocked | ErrInvalidAttackTarget
  | ErrContainerNotFound | ErrContainerOutOfRange | ErrAsteroidNotFound | ErrAsteroidOutOfRange
  | ErrEquipmentRequired | ErrDroneCapReached | ErrNotEnoughEnergy | ErrInstallerUnavailable
  | ErrOrdnanceUnavailable | ErrAlreadyDocked | ErrNotDocked | ErrTargetSectorMismatch
  | ErrDockOutOfRange | ErrTargetNotFound | ErrInvalidDockTarget | ErrDockSelf | ErrDockNotOpen
  | ErrDockHostile | ErrNoHangar | ErrHangarFull | ErrInvalidGate | ErrGateOutOfRange
  | ErrHandoffUnavailable | ErrShieldRequired | ErrJumpOnCooldown | ErrJumpForbiddenSector
  | ErrInvalidSector | ErrJumpBlockedByAntijump | ErrCaptureOutOfRange | ErrCaptureShielded
  | ErrTransporterOutOfRange | ErrDeployedNotFound | ErrDeployedOutOfRange | ErrNotDismantlable
  | ErrHackOutOfRange | ErrHackTooLittleGoods | ErrOrdnanceIDCount | ErrContainerRowGone | ErrNoSpace | ErrOther

datatype reply =
    Done
  | Failed sector_err
  | CargoItems "(int \<times> int) list"
  | NewContainers "container list"
  | NewID int
  | NewIDs "int list"
  | Recalled "int list" int
  | Scanned bool int int bool
  | RobbedGoods int int "container option"

fun reply_err :: "reply \<Rightarrow> sector_err option" where
  "reply_err (Failed e) = Some e"
| "reply_err _ = None"

section \<open>The state of a sector\<close>

record missile_impact =
  mi_MissileID :: int
  mi_AttackerShipID :: int
  mi_Target :: entity_ref
  mi_Pos :: vec2
  mi_Damage :: int
  mi_Killed :: bool
  mi_Expired :: bool

record drone_impact =
  di_DroneID :: int
  di_OwnerShipID :: int
  di_Target :: entity_ref
  di_Pos :: vec2
  di_Damage :: int
  di_Killed :: bool
  di_Expired :: bool

record torpedo_impact =
  ti_TorpedoID :: int
  ti_OwnerShipID :: int
  ti_Target :: entity_ref
  ti_Pos :: vec2
  ti_SplashRadius :: float64
  ti_Hit :: bool
  ti_Killed :: bool
  ti_Expired :: bool

record sector_state =
  ss_sectorID :: int
  ss_ships :: "int \<rightharpoonup> ship"
  ss_dirty :: "int set"
  ss_statics :: sector_statics
  ss_tick :: int
  ss_outbound :: "int \<Rightarrow> int"
  ss_inbound :: "int \<Rightarrow> int"
  ss_laserEffects :: "laser_beam list"
  ss_missiles :: "int \<rightharpoonup> missile"
  ss_nextMissileID :: int
  ss_missileImpacts :: "missile_impact list"
  ss_drones :: "int \<rightharpoonup> drone"
  ss_dronesDirty :: "int set"
  ss_droneImpacts :: "drone_impact list"
  ss_torpedos :: "int \<rightharpoonup> torpedo"
  ss_torpedosDirty :: "int set"
  ss_torpedoImpacts :: "torpedo_impact list"
  ss_containers :: "int \<rightharpoonup> container"
  ss_containerHP :: int
  ss_asteroids :: "int \<rightharpoonup> asteroid"
  ss_asteroidsDirty :: "int set"
  ss_destructibles :: "entity_ref \<rightharpoonup> destructible_static"
  ss_destructiblesDirty :: "entity_ref set"
  ss_staticsRemoved :: "entity_ref list"
  ss_controllers :: "int \<rightharpoonup> controller"
  ss_policeScanCooldown :: "int \<rightharpoonup> int"
  ss_lastSnapshot :: int
  ss_lastDroneSnapshot :: int
  ss_lastTorpedoSnapshot :: int
  ss_lastAsteroidSnapshot :: int
  ss_lastAISnapshot :: int
  ss_timeScale :: float64
  ss_topology :: topology
  ss_rng :: rng
  ss_log :: "request list"

section \<open>The worker\<close>

datatype relation = RelationFriend | RelationNeutral | RelationHostile | RelationAtWar

record hanger =
  hg_Capital :: int
  hg_Small :: int
  hg_ShipType :: int
  hg_ShipSpace :: int

text \<open>
  The configuration values the operations read, the collaborators that are pure functions, and
  which of the optional collaborators are wired.
\<close>

record worker =
  w_GateRange :: float64
  w_DockRange :: float64
  w_ContainerTTL :: int
  w_PickupRange :: float64
  w_MineRange :: float64
  w_MineRate :: int
  w_MineEnergyCost :: int
  w_TransporterRange :: float64
  w_TransporterEnergyCost :: int
  w_ExternalDockTurns :: int
  w_Knock :: knock_config
  w_CaptureChance :: float64
  w_KhaakCaptureChance :: float64
  w_CaptureRange :: float64
  w_JumpDriveCooldownL1 :: int
  w_JumpDriveCooldownL2 :: int
  w_JumpDriveForbiddenSectors :: "int list"
  w_AntijumpRange :: float64
  w_JammerRange :: float64
  w_HackRange :: float64
  w_ScanRange :: float64
  w_ScanCooldownTicks :: int
  w_SnapshotInterval :: int
  w_TickInterval :: int
  w_now :: int
  w_gomath :: gomath
  w_hostile :: "int option \<Rightarrow> ship \<Rightarrow> bool"
  w_raceHostile :: "(int \<Rightarrow> ship \<Rightarrow> bool) option"
  w_relations :: "(entity_ref \<Rightarrow> entity_ref \<Rightarrow> relation) option"
  w_hangers :: "(int \<Rightarrow> hanger) option"
  w_refit :: "(ship \<Rightarrow> ship) option"
  w_policeRaces :: "int set"
  w_hasPolice :: bool
  w_hasRobber :: bool
  w_hasReputation :: bool
  w_hasRepo :: bool
  w_hasContainers :: bool
  w_hasTowers :: bool
  w_hasSatellites :: bool
  w_hasJammers :: bool
  w_hasGates :: bool
  w_hasDrones :: bool
  w_hasTorpedos :: bool
  w_hasAsteroids :: bool
  w_hasOrdnance :: bool
  w_hasInstaller :: bool
  w_hasMinerLogistics :: bool
  w_hasTraderLogistics :: bool
  w_hasBus :: bool
  w_hasTopology :: bool
  w_hasRouter :: bool
  w_hasAIState :: bool
  w_hasAIRegistry :: bool
  w_buildController :: "string \<Rightarrow> controller option \<Rightarrow> controller option"
  w_AIConfigs :: ai_configs
  w_AIHostile :: "ship \<Rightarrow> ship \<Rightarrow> bool"
  w_AOIRadius :: float64
  w_StealthDetectRange :: float64
  w_SatelliteRevealRadius :: float64
  w_nextSector :: "topology \<Rightarrow> int \<Rightarrow> int \<Rightarrow> int option"
  w_reply :: "request list \<Rightarrow> request \<Rightarrow> reply"

text \<open>\<open>dbCall\<close> and \<open>publish\<close>: hand a request over, and read the answer.\<close>

definition ask :: "worker \<Rightarrow> request \<Rightarrow> sector_state \<Rightarrow> reply \<times> sector_state" where
  "ask w r s = (w_reply w (ss_log s) r, s\<lparr>ss_log := ss_log s @ [r]\<rparr>)"

definition tell :: "worker \<Rightarrow> bool \<Rightarrow> request \<Rightarrow> sector_state \<Rightarrow> sector_state" where
  "tell w wired r s = (if wired then snd (ask w r s) else s)"

definition vec_of :: "float64 \<times> float64 \<Rightarrow> vec2" where
  "vec_of p = Vec2 (fst p) (snd p)"

section \<open>Small operations\<close>

definition markDirty :: "int \<Rightarrow> sector_state \<Rightarrow> sector_state" where
  "markDirty i s = s\<lparr>ss_dirty := insert i (ss_dirty s)\<rparr>"

definition putShip :: "int \<Rightarrow> ship \<Rightarrow> sector_state \<Rightarrow> sector_state" where
  "putShip i ship s = s\<lparr>ss_ships := (ss_ships s)(i \<mapsto> ship)\<rparr>"

definition addLaserEffect :: "laser_beam \<Rightarrow> sector_state \<Rightarrow> sector_state" where
  "addLaserEffect b s = s\<lparr>ss_laserEffects := ss_laserEffects s @ [b]\<rparr>"

definition addMissileImpact :: "missile_impact \<Rightarrow> sector_state \<Rightarrow> sector_state" where
  "addMissileImpact i s = s\<lparr>ss_missileImpacts := ss_missileImpacts s @ [i]\<rparr>"

definition addDroneImpact :: "drone_impact \<Rightarrow> sector_state \<Rightarrow> sector_state" where
  "addDroneImpact i s = s\<lparr>ss_droneImpacts := ss_droneImpacts s @ [i]\<rparr>"

definition addTorpedoImpact :: "torpedo_impact \<Rightarrow> sector_state \<Rightarrow> sector_state" where
  "addTorpedoImpact i s = s\<lparr>ss_torpedoImpacts := ss_torpedoImpacts s @ [i]\<rparr>"

definition allocMissileID :: "sector_state \<Rightarrow> int \<times> sector_state" where
  "allocMissileID s = (let i = wrap64 (ss_nextMissileID s + 1) in (i, s\<lparr>ss_nextMissileID := i\<rparr>))"

definition markDroneDirty :: "int \<Rightarrow> sector_state \<Rightarrow> sector_state" where
  "markDroneDirty i s = s\<lparr>ss_dronesDirty := insert i (ss_dronesDirty s)\<rparr>"

definition markTorpedoDirty :: "int \<Rightarrow> sector_state \<Rightarrow> sector_state" where
  "markTorpedoDirty i s = s\<lparr>ss_torpedosDirty := insert i (ss_torpedosDirty s)\<rparr>"

definition markAsteroidDirty :: "int \<Rightarrow> sector_state \<Rightarrow> sector_state" where
  "markAsteroidDirty i s = s\<lparr>ss_asteroidsDirty := insert i (ss_asteroidsDirty s)\<rparr>"

definition markDestructibleDirty :: "entity_ref \<Rightarrow> sector_state \<Rightarrow> sector_state" where
  "markDestructibleDirty r s = s\<lparr>ss_destructiblesDirty := insert r (ss_destructiblesDirty s)\<rparr>"

definition removeAsteroid :: "int \<Rightarrow> sector_state \<Rightarrow> sector_state" where
  "removeAsteroid i s = s\<lparr>ss_asteroids := (ss_asteroids s)(i := None), ss_asteroidsDirty := ss_asteroidsDirty s - {i}\<rparr>"

definition removeDestructible :: "entity_ref \<Rightarrow> sector_state \<Rightarrow> sector_state" where
  "removeDestructible r s = s\<lparr>ss_destructibles := (ss_destructibles s)(r := None),
     ss_destructiblesDirty := ss_destructiblesDirty s - {r}, ss_staticsRemoved := ss_staticsRemoved s @ [r]\<rparr>"

definition addContainer :: "container \<Rightarrow> sector_state \<Rightarrow> sector_state" where
  "addContainer c s = (let c = (if c_HP c \<le> 0 then c\<lparr>c_HP := ss_containerHP s\<rparr> else c)
     in s\<lparr>ss_containers := (ss_containers s)(c_ID c \<mapsto> c)\<rparr>)"

definition removeContainer :: "int \<Rightarrow> sector_state \<Rightarrow> sector_state" where
  "removeContainer i s = s\<lparr>ss_containers := (ss_containers s)(i := None)\<rparr>"

definition addSatellite :: "static_obj \<Rightarrow> sector_state \<Rightarrow> sector_state" where
  "addSatellite sat s = s\<lparr>ss_statics := (ss_statics s)\<lparr>Satellites := Satellites (ss_statics s) @ [sat]\<rparr>,
     ss_destructibles := (ss_destructibles s)(EntityRef EntityKindSatellite (so_ID sat) \<mapsto> destructible EntityKindSatellite sat)\<rparr>"

definition addJammer :: "static_obj \<Rightarrow> sector_state \<Rightarrow> sector_state" where
  "addJammer jam s = s\<lparr>ss_statics := (ss_statics s)\<lparr>Jammers := Jammers (ss_statics s) @ [jam]\<rparr>,
     ss_destructibles := (ss_destructibles s)(EntityRef EntityKindJammer (so_ID jam) \<mapsto> destructible EntityKindJammer jam)\<rparr>"

definition recordOutbound :: "int \<Rightarrow> sector_state \<Rightarrow> sector_state" where
  "recordOutbound to s = s\<lparr>ss_outbound := (ss_outbound s)(to := ss_outbound s to + 1)\<rparr>"

definition recordInbound :: "int \<Rightarrow> sector_state \<Rightarrow> sector_state" where
  "recordInbound from s = s\<lparr>ss_inbound := (ss_inbound s)(from := ss_inbound s from + 1)\<rparr>"

definition resolveTargetPos :: "sector_state \<Rightarrow> entity_ref \<Rightarrow> vec2 option" where
  "resolveTargetPos s ref =
     (if ref_kind ref = EntityKindShip then
        (case ss_ships s (ref_id ref) of Some ship \<Rightarrow> if 0 < s_HP ship then Some (s_Pos ship) else None | None \<Rightarrow> None)
      else if ref_kind ref = EntityKindContainer then
        (case ss_containers s (ref_id ref) of Some c \<Rightarrow> if 0 < c_HP c then Some (c_Pos c) else None | None \<Rightarrow> None)
      else
        (case ss_destructibles s ref of Some d \<Rightarrow> if 0 < ds_HP d then Some (ds_Pos d) else None | None \<Rightarrow> None))"

text \<open>The first fitted module of a type counts; a level below one is read as one.\<close>

fun equipmentLevel :: "installed_equipment list \<Rightarrow> string \<Rightarrow> int" where
  "equipmentLevel [] typ = 0"
| "equipmentLevel (m # ms) typ =
     (if eq_Type m = typ then (if eq_Level m < 1 then 1 else eq_Level m) else equipmentLevel ms typ)"

definition shipEquipmentLevel :: "ship \<Rightarrow> string \<Rightarrow> int" where
  "shipEquipmentLevel ship typ = equipmentLevel (s_Equipment ship) typ"

definition cloakEngagedFromEquipment :: "installed_equipment list \<Rightarrow> bool" where
  "cloakEngagedFromEquipment eq = list_ex (\<lambda>m. eq_Type m = ''up_hide'') eq"

definition IsStaticTargetKind :: "int \<Rightarrow> bool" where
  "IsStaticTargetKind k \<longleftrightarrow> k \<in> {EntityKindStation, EntityKindShipyard, EntityKindTradeStation, EntityKindPirbase,
     EntityKindLaserTower, EntityKindSatellite, EntityKindJammer, EntityKindGate}"

definition IsMissileTargetKind :: "int \<Rightarrow> bool" where
  "IsMissileTargetKind k \<longleftrightarrow> IsStaticTargetKind k \<or> k = EntityKindContainer"

definition isProjectileTargetKind :: "int \<Rightarrow> bool" where
  "isProjectileTargetKind k \<longleftrightarrow> k = EntityKindTorpedo"

definition shipsAreFriendly :: "worker \<Rightarrow> ship \<Rightarrow> ship \<Rightarrow> bool" where
  "shipsAreFriendly w a b = (case w_relations w of None \<Rightarrow> False
     | Some get \<Rightarrow> get (PlayerRef (s_PlayerID a)) (PlayerRef (s_PlayerID b)) = RelationFriend)"

text \<open>\<open>Relations.IsHostile\<close> reads the same relation: hostile or at war.\<close>

definition isHostile :: "worker \<Rightarrow> int \<Rightarrow> int \<Rightarrow> bool" where
  "isHostile w a b = (case w_relations w of None \<Rightarrow> False
     | Some get \<Rightarrow> get (PlayerRef a) (PlayerRef b) \<in> {RelationHostile, RelationAtWar})"

section \<open>Losing a static\<close>

text \<open>\<open>dropStatic\<close> removes the first match.\<close>

fun dropStatic :: "('a \<Rightarrow> bool) \<Rightarrow> 'a list \<Rightarrow> 'a list" where
  "dropStatic P [] = []"
| "dropStatic P (x # xs) = (if P x then xs else x # dropStatic P xs)"

definition removeStaticFromLayout :: "entity_ref \<Rightarrow> sector_statics \<Rightarrow> sector_statics" where
  "removeStaticFromLayout ref st =
     (let dropIt = dropStatic (\<lambda>x. so_ID x = ref_id ref); k = ref_kind ref in
      if k = EntityKindStation then st\<lparr>Stations := dropIt (Stations st)\<rparr>
      else if k = EntityKindShipyard then st\<lparr>Shipyards := dropIt (Shipyards st)\<rparr>
      else if k = EntityKindTradeStation then st\<lparr>TradeStations := dropIt (TradeStations st)\<rparr>
      else if k = EntityKindPirbase then st\<lparr>Pirbases := dropIt (Pirbases st)\<rparr>
      else if k = EntityKindLaserTower then st\<lparr>LaserTowers := dropIt (LaserTowers st)\<rparr>
      else if k = EntityKindSatellite then st\<lparr>Satellites := dropIt (Satellites st)\<rparr>
      else if k = EntityKindJammer then st\<lparr>Jammers := dropIt (Jammers st)\<rparr>
      else st)"

definition killGate :: "worker \<Rightarrow> int \<Rightarrow> sector_state \<Rightarrow> sector_state" where
  "killGate w gid s =
     (if \<not> w_hasTopology w then s
      else (case DestroyGate (ss_topology s) gid of (destroyed, topo) \<Rightarrow>
        if \<not> destroyed then s
        else tell w (w_hasGates w) (MarkGateDestroyed gid) (s\<lparr>ss_topology := topo\<rparr>)))"

definition publishKilled :: "worker \<Rightarrow> killed_event \<Rightarrow> sector_state \<Rightarrow> sector_state" where
  "publishKilled w ev s = tell w (w_hasBus w) (PublishKilled ev) s"

definition killStatic :: "worker \<Rightarrow> destructible_static \<Rightarrow> sector_state \<Rightarrow> sector_state" where
  "killStatic w d s =
     (let ref = ds_Ref d; k = ref_kind ref;
          s = removeDestructible ref s;
          s = s\<lparr>ss_statics := removeStaticFromLayout ref (ss_statics s)\<rparr>;
          s = tell w (k = EntityKindLaserTower \<and> w_hasTowers w) (DeleteTower (ref_id ref)) s;
          s = tell w (k = EntityKindSatellite \<and> w_hasSatellites w) (DeleteSatellite (ref_id ref)) s;
          s = tell w (k = EntityKindJammer \<and> w_hasJammers w) (DeleteJammer (ref_id ref)) s;
          s = (if k = EntityKindGate then killGate w (ref_id ref) s else s)
      in publishKilled w \<lparr>ke_Victim = ref, ke_SectorID = ss_sectorID s, ke_Pos = ds_Pos d, ke_Killer = 0,
           ke_VictimPlayer = 0, ke_VictimIsSpacesuit = False, ke_VictimPassengers = []\<rparr> s)"

section \<open>Losing a ship\<close>

definition MissileGoodsTypes :: "int list" where "MissileGoodsTypes = [10, 11, 12, 13, 14]"

abbreviation (input) slavesGoodsType :: int where "slavesGoodsType \<equiv> 323"

definition containerDropPos :: "gomath \<Rightarrow> vec2 \<Rightarrow> int \<Rightarrow> int \<Rightarrow> vec2" where
  "containerDropPos gm center i n =
     (if n \<le> 1 then center
      else (let a = f_div (f_mul (f_lit (2 * Pi_const)) (f_of_int i)) (f_of_int n)
            in vAdd center (Vec2 (f_mul (Fin 15) (m_Cos gm a)) (f_mul (Fin 15) (m_Sin gm a)))))"

text \<open>What a wreck will spill: the plan over its cargo, and the slaves of a passenger ship.\<close>

definition lootPlan :: "ship \<Rightarrow> (int \<times> int) list \<Rightarrow> rng \<Rightarrow> drop list \<times> rng" where
  "lootPlan ship items rng =
     (case PlanShipDrops items MissileGoodsTypes rng of (plan, rng) \<Rightarrow>
        if 0 < s_Passengers ship then
          (case PlanSlavesDrop (s_Passengers ship) rng of
             (Some n, rng) \<Rightarrow> (plan @ [\<lparr>dr_GoodsType = slavesGoodsType, dr_Quantity = n\<rparr>], rng)
           | (None, rng) \<Rightarrow> (plan, rng))
        else (plan, rng))"

definition containerDrops :: "worker \<Rightarrow> ship \<Rightarrow> drop list \<Rightarrow> container_drop list" where
  "containerDrops w ship plan = map (\<lambda>(i, d).
     \<lparr>cd_Pos = containerDropPos (w_gomath w) (s_Pos ship) (int i) (int (length plan)),
      cd_ExpiresAt = w_now w + w_ContainerTTL w, cd_GoodsType = dr_GoodsType d, cd_Quantity = dr_Quantity d\<rparr>)
     (enumerate 0 plan)"

definition dropLoot :: "worker \<Rightarrow> ship \<Rightarrow> sector_state \<Rightarrow> sector_state" where
  "dropLoot w ship s =
     (let (r, s) = ask w (ShipCargo (s_ID ship)) s;
          items = (case r of CargoItems xs \<Rightarrow> xs | _ \<Rightarrow> []);
          (plan, rng) = lootPlan ship items (ss_rng s);
          s = s\<lparr>ss_rng := rng\<rparr>;
          (r, s) = ask w (RecordKill (s_ID ship) (ss_sectorID s) (containerDrops w ship plan)) s
      in (case r of NewContainers cs \<Rightarrow> fold addContainer cs s | _ \<Rightarrow> s))"

definition publishEntityKilled :: "worker \<Rightarrow> ship \<Rightarrow> sector_state \<Rightarrow> sector_state" where
  "publishEntityKilled w ship s = publishKilled w
     \<lparr>ke_Victim = EntityRef EntityKindShip (s_ID ship), ke_SectorID = ss_sectorID s, ke_Pos = s_Pos ship,
      ke_Killer = s_LastAttacker ship, ke_VictimPlayer = s_PlayerID ship,
      ke_VictimIsSpacesuit = s_IsSpacesuit ship, ke_VictimPassengers = s_PassengerPlayers ship\<rparr> s"

definition removeKilled :: "int \<Rightarrow> sector_state \<Rightarrow> sector_state" where
  "removeKilled i s = s\<lparr>ss_ships := (ss_ships s)(i := None), ss_dirty := ss_dirty s - {i},
     ss_policeScanCooldown := (ss_policeScanCooldown s)(i := None)\<rparr>"

definition killShip :: "worker \<Rightarrow> ship \<Rightarrow> sector_state \<Rightarrow> sector_state" where
  "killShip w ship s =
     (let s = (if w_hasContainers w then dropLoot w ship s else s);
          s = tell w (w_hasPolice w \<and> s_Race ship \<in> w_policeRaces w \<and> s_LastAttacker ship \<noteq> 0)
                (OnRaceShipKilled (s_LastAttacker ship) (s_Race ship)) s;
          s = tell w (w_hasReputation w \<and> s_LastAttacker ship \<noteq> 0 \<and> s_LastAttacker ship \<noteq> s_PlayerID ship)
                (OnShipKilled (s_LastAttacker ship)) s
      in publishEntityKilled w ship (removeKilled (s_ID ship) s))"

definition isDead :: "ship \<Rightarrow> bool" where
  "isDead ship \<longleftrightarrow> s_HP ship \<le> 0 \<and> 0 < s_MaxHP ship"

definition sweepKilledShips :: "worker \<Rightarrow> int list \<Rightarrow> sector_state \<Rightarrow> sector_state" where
  "sweepKilledShips w order s =
     (let dead = filter (\<lambda>i. case ss_ships s i of Some ship \<Rightarrow> isDead ship | None \<Rightarrow> False) order
      in fold (\<lambda>i s. case ss_ships s i of Some ship \<Rightarrow> killShip w ship s | None \<Rightarrow> s) dead s)"

section \<open>Knocking modules off\<close>

definition immediateSave :: "worker \<Rightarrow> ship \<Rightarrow> sector_state \<Rightarrow> sector_state" where
  "immediateSave w ship s = tell w (w_hasRepo w) (SaveShip ship) s"

text \<open>\<open>saveShip\<close>: the error of the write, if any.\<close>

definition saveShip :: "worker \<Rightarrow> ship \<Rightarrow> sector_state \<Rightarrow> sector_err option \<times> sector_state" where
  "saveShip w ship s = (if w_hasRepo w then (case ask w (SaveShip ship) s of (r, s) \<Rightarrow> (reply_err r, s)) else (None, s))"

definition publishModuleKnocked :: "worker \<Rightarrow> ship \<Rightarrow> installed_equipment \<Rightarrow> sector_state \<Rightarrow> sector_state" where
  "publishModuleKnocked w ship m s = tell w (w_hasBus w \<and> s_PlayerID ship \<noteq> 0)
     (PublishModuleKnocked (s_PlayerID ship) (s_ID ship) (ss_sectorID s) m) s"

text \<open>\<open>float64(a) / float64(b)\<close> where \<open>b\<close> is positive, and zero otherwise.\<close>

definition fraction :: "int \<Rightarrow> int \<Rightarrow> float64" where
  "fraction a b = (if 0 < b then f_div (f_of_int a) (f_of_int b) else Fin 0)"

text \<open>What a knock-off does to the ship itself: the marker, the cloak cache, the refit, the lost shield.\<close>

definition refitKnocked :: "worker \<Rightarrow> installed_equipment list \<Rightarrow> ship \<Rightarrow> ship" where
  "refitKnocked w knocked ship =
     (let ship = (if list_ex (\<lambda>m. eq_Type m = ''up_shield'') knocked then ship\<lparr>s_ShieldGeneratorDestroyed := True\<rparr> else ship);
          ship = ship\<lparr>s_IsHidden := cloakEngagedFromEquipment (s_Equipment ship)\<rparr>;
          ship = (case w_refit w of Some f \<Rightarrow> f ship | None \<Rightarrow> ship)
      in if s_ShieldGeneratorDestroyed ship then ship\<lparr>s_MaxShield := 0, s_ShieldRecharge := 0, s_Shield := 0\<rparr> else ship)"

definition knockModules :: "worker \<Rightarrow> int \<Rightarrow> sector_state \<Rightarrow> sector_state" where
  "knockModules w i s =
     (case ss_ships s i of None \<Rightarrow> s
      | Some target \<Rightarrow>
        if s_Equipment target = [] then s
        else
          (case KnockModule target (fraction (s_Shield target) (s_MaxShield target))
                  (fraction (s_HP target) (s_MaxHP target)) (ss_rng s) (w_Knock w) of
             ((target, knocked), rng) \<Rightarrow>
               (let s = s\<lparr>ss_rng := rng\<rparr> in
                if knocked = [] then s
                else
                  (let target = refitKnocked w knocked target;
                       s = markDirty (s_ID target) (putShip i target s);
                       s = tell w (w_hasRepo w) (SaveEquipment target) s
                   in if ss_controllers s (s_ID target) = None
                      then fold (publishModuleKnocked w target) knocked s else s))))"

section \<open>A sector at start-up\<close>

text \<open>
  \<open>newSectorState\<close>: the rows loaded from the database become the live maps, later duplicates
  of a key winning. The topology, the random source and the log belong to the worker. The snapshot
  published for readers is not part of the model's state.
\<close>

definition coldShip :: "ship \<Rightarrow> ship" where
  "coldShip x = x\<lparr>s_CurrentTargetRef :=
       (case s_CurrentTargetRef x of Some r \<Rightarrow> Some r
        | None \<Rightarrow> (case s_FinalTarget x of Some c \<Rightarrow> crs_Approach c | None \<Rightarrow> None)),
     s_IsHidden := cloakEngagedFromEquipment (s_Equipment x)\<rparr>"

definition byKey :: "('a \<Rightarrow> 'k) \<Rightarrow> 'a list \<Rightarrow> 'k \<rightharpoonup> 'a" where
  "byKey key xs = map_of (rev (map (\<lambda>x. (key x, x)) xs))"

definition newSectorState :: "int \<Rightarrow> ship list \<Rightarrow> drone list \<Rightarrow> torpedo list \<Rightarrow> container list \<Rightarrow> asteroid list \<Rightarrow>
    sector_statics \<Rightarrow> int \<Rightarrow> topology \<Rightarrow> rng \<Rightarrow> sector_state" where
  "newSectorState i initial drones torpedos containers asteroids statics now topo rng =
     \<lparr>ss_sectorID = i, ss_ships = byKey s_ID (map coldShip initial), ss_dirty = {}, ss_statics = statics, ss_tick = 0,
      ss_outbound = (\<lambda>_. 0), ss_inbound = (\<lambda>_. 0), ss_laserEffects = [], ss_missiles = Map.empty, ss_nextMissileID = 0,
      ss_missileImpacts = [], ss_drones = byKey d_ID drones, ss_dronesDirty = {}, ss_droneImpacts = [],
      ss_torpedos = byKey t_ID torpedos, ss_torpedosDirty = {}, ss_torpedoImpacts = [],
      ss_containers = byKey c_ID containers, ss_containerHP = 0, ss_asteroids = byKey a_ID asteroids, ss_asteroidsDirty = {},
      ss_destructibles = byKey ds_Ref (DestructiblesFromStatics statics), ss_destructiblesDirty = {}, ss_staticsRemoved = [],
      ss_controllers = Map.empty, ss_policeScanCooldown = Map.empty,
      ss_lastSnapshot = now, ss_lastDroneSnapshot = now, ss_lastTorpedoSnapshot = now, ss_lastAsteroidSnapshot = now,
      ss_lastAISnapshot = now, ss_timeScale = Fin 1, ss_topology = topo, ss_rng = rng, ss_log = []\<rparr>"

lemma byKey_Some: "byKey key xs k = Some x \<Longrightarrow> x \<in> set xs \<and> key x = k"
  by (auto simp: byKey_def dest!: map_of_SomeD)

end
