(* ===== verification/SectorTick.thy ===== *)
theory SectorTick
  imports Sector
begin

text \<open>
  The combat part of a tick (\<open>tickSector\<close> in \<open>internal/sector/worker.go\<close>): recharge, gate sweep,
  lasers, towers, missiles, drones, torpedoes, the kill sweep and container expiry, in that
  order. The record \<open>orders\<close> holds the order in which each loop visits its map; the theorems
  hold for every order.
\<close>

section \<open>Recharge\<close>

definition chargeShieldOf :: "int \<Rightarrow> sector_state \<Rightarrow> sector_state" where
  "chargeShieldOf i s = (case ss_ships s i of None \<Rightarrow> s | Some ship \<Rightarrow>
     (case ChargeShield ship of (ship', changed) \<Rightarrow>
        if changed then markDirty i (putShip i ship' s) else putShip i ship' s))"

definition chargeShields :: "int list \<Rightarrow> sector_state \<Rightarrow> sector_state" where
  "chargeShields order s = fold chargeShieldOf order s"

definition chargeEnergyOf :: "int \<Rightarrow> sector_state \<Rightarrow> sector_state" where
  "chargeEnergyOf i s = (case ss_ships s i of None \<Rightarrow> s | Some ship \<Rightarrow>
     (case ChargeEnergy ship of (ship', changed) \<Rightarrow>
        if changed then markDirty i (putShip i ship' s) else putShip i ship' s))"

definition chargeEnergies :: "int list \<Rightarrow> sector_state \<Rightarrow> sector_state" where
  "chargeEnergies order s = fold chargeEnergyOf order s"

definition putStatic :: "entity_ref \<Rightarrow> destructible_static \<Rightarrow> sector_state \<Rightarrow> sector_state" where
  "putStatic ref d s = s\<lparr>ss_destructibles := (ss_destructibles s)(ref \<mapsto> d)\<rparr>"

definition chargeStaticOf :: "entity_ref \<Rightarrow> sector_state \<Rightarrow> sector_state" where
  "chargeStaticOf ref s = (case ss_destructibles s ref of None \<Rightarrow> s | Some d \<Rightarrow>
     (case static_ChargeShield d of (d', changed) \<Rightarrow>
        if changed then markDestructibleDirty ref (putStatic ref d' s) else putStatic ref d' s))"

definition chargeStatics :: "entity_ref list \<Rightarrow> sector_state \<Rightarrow> sector_state" where
  "chargeStatics order s = fold chargeStaticOf order s"

definition sweepGate :: "entity_ref \<Rightarrow> sector_state \<Rightarrow> sector_state" where
  "sweepGate ref s =
     (if ss_destructibles s ref = None \<or> ref_kind ref \<noteq> EntityKindGate then s
      else if Gate (ss_topology s) (ref_id ref) = None then removeDestructible ref s else s)"

definition sweepDestroyedGates :: "worker \<Rightarrow> entity_ref list \<Rightarrow> sector_state \<Rightarrow> sector_state" where
  "sweepDestroyedGates w order s = (if w_hasTopology w then fold sweepGate order s else s)"

definition seedGate :: "gate \<Rightarrow> sector_state \<Rightarrow> sector_state" where
  "seedGate g s = (case EndpointPos g (ss_sectorID s) of None \<Rightarrow> s | Some pos \<Rightarrow>
     putStatic (EntityRef EntityKindGate (gate_ID g))
       \<lparr>ds_Ref = EntityRef EntityKindGate (gate_ID g), ds_Pos = vec_of pos, ds_OwnerID = None, ds_HP = gate_HP g,
        ds_Shield = gate_Shield g, ds_MaxShield = gate_MaxShield g, ds_ShieldRecharge = gate_ShieldRecharge g\<rparr> s)"

definition seedGateEndpoints :: "worker \<Rightarrow> sector_state \<Rightarrow> sector_state" where
  "seedGateEndpoints w s =
     (if w_hasTopology w then fold seedGate (GatesInSector (ss_topology s) (ss_sectorID s)) s else s)"

section \<open>Lasers\<close>

definition ceaseFire :: "int \<Rightarrow> ship \<Rightarrow> sector_state \<Rightarrow> sector_state" where
  "ceaseFire i attacker s = markDirty i (putShip i (attacker\<lparr>s_AttackTarget := None\<rparr>) s)"

definition staticAttackable :: "worker \<Rightarrow> destructible_static \<Rightarrow> ship \<Rightarrow> bool" where
  "staticAttackable w d attacker \<longleftrightarrow> ref_kind (ds_Ref d) = EntityKindGate \<or> w_hostile w (ds_OwnerID d) attacker"

definition fireLaserAtStatic :: "worker \<Rightarrow> int \<Rightarrow> ship \<Rightarrow> entity_ref \<Rightarrow> sector_state \<Rightarrow> sector_state" where
  "fireLaserAtStatic w i attacker ref s =
     (case ss_destructibles s ref of
        None \<Rightarrow> ceaseFire i attacker s
      | Some d \<Rightarrow>
        if ds_HP d \<le> 0 \<or> \<not> staticAttackable w d attacker then ceaseFire i attacker s
        else
          (case FireLaserAt static_TakeDamage attacker ref (ds_Pos d) (ds_HP d) d of
             (_, None) \<Rightarrow> s
           | ((attacker', d'), Some beam) \<Rightarrow>
             (let s = markDestructibleDirty ref (markDirty i (addLaserEffect beam (putStatic ref d' (putShip i attacker' s))))
              in if lb_Killed beam
                 then killStatic w d' (putShip i (attacker'\<lparr>s_AttackTarget := None\<rparr>) s) else s)))"

definition putTorpedo :: "int \<Rightarrow> torpedo \<Rightarrow> sector_state \<Rightarrow> sector_state" where
  "putTorpedo i t s = s\<lparr>ss_torpedos := (ss_torpedos s)(i \<mapsto> t)\<rparr>"

definition fireLaserAtProjectile :: "int \<Rightarrow> ship \<Rightarrow> entity_ref \<Rightarrow> sector_state \<Rightarrow> sector_state" where
  "fireLaserAtProjectile i attacker ref s =
     (case ss_torpedos s (ref_id ref) of
        None \<Rightarrow> ceaseFire i attacker s
      | Some t \<Rightarrow>
        if t_HP t \<le> 0 then ceaseFire i attacker s
        else
          (case FireLaserAt torpedo_TakeDamage attacker ref (t_Pos t) (t_HP t) t of
             (_, None) \<Rightarrow> s
           | ((attacker', t'), Some beam) \<Rightarrow>
             (let s = markTorpedoDirty (t_ID t) (markDirty i (addLaserEffect beam (putTorpedo (ref_id ref) t' (putShip i attacker' s))))
              in if lb_Killed beam then putShip i (attacker'\<lparr>s_AttackTarget := None\<rparr>) s else s)))"

text \<open>
  A hit writes to the attacker and to the target; the two pointers are the same ship when a
  ship aims at itself.
\<close>

definition putHit :: "int \<Rightarrow> ship \<Rightarrow> int \<Rightarrow> ship \<Rightarrow> sector_state \<Rightarrow> sector_state" where
  "putHit i attacker j target s =
     (if i = j then putShip i (attacker\<lparr>s_HP := s_HP target, s_Shield := s_Shield target, s_LastAttacker := s_LastAttacker target\<rparr>) s
      else putShip j target (putShip i attacker s))"

definition clearAttack :: "int \<Rightarrow> sector_state \<Rightarrow> sector_state" where
  "clearAttack i s = (case ss_ships s i of None \<Rightarrow> s | Some ship \<Rightarrow> putShip i (ship\<lparr>s_AttackTarget := None\<rparr>) s)"

definition fireLaserAtShip :: "worker \<Rightarrow> int \<Rightarrow> ship \<Rightarrow> entity_ref \<Rightarrow> sector_state \<Rightarrow> sector_state" where
  "fireLaserAtShip w i attacker ref s =
     (case ss_ships s (ref_id ref) of
        None \<Rightarrow> ceaseFire i attacker s
      | Some target \<Rightarrow>
        if s_HP target \<le> 0 \<or> shipsAreFriendly w attacker target then ceaseFire i attacker s
        else
          (case FireLaser attacker target of
             (_, None) \<Rightarrow> s
           | ((attacker', target'), Some beam) \<Rightarrow>
             (let s = putHit i attacker' (ref_id ref) (target'\<lparr>s_LastAttacker := s_PlayerID attacker\<rparr>) s;
                  s = markDirty (s_ID target) (markDirty i (addLaserEffect beam s))
              in if lb_Killed beam then clearAttack i s else knockModules w (ref_id ref) s)))"

definition fireLaserOf :: "worker \<Rightarrow> int \<Rightarrow> sector_state \<Rightarrow> sector_state" where
  "fireLaserOf w i s =
     (case ss_ships s i of None \<Rightarrow> s
      | Some attacker \<Rightarrow>
        (case s_AttackTarget attacker of None \<Rightarrow> s
         | Some ref \<Rightarrow>
           if IsStaticTargetKind (ref_kind ref) then fireLaserAtStatic w i attacker ref s
           else if isProjectileTargetKind (ref_kind ref) then fireLaserAtProjectile i attacker ref s
           else if ref_kind ref \<noteq> EntityKindShip then ceaseFire i attacker s
           else fireLaserAtShip w i attacker ref s))"

definition fireLasers :: "worker \<Rightarrow> int list \<Rightarrow> sector_state \<Rightarrow> sector_state" where
  "fireLasers w order s = fold (fireLaserOf w) order s"

section \<open>Point defence and towers\<close>

definition MaxFloat64 :: float64 where
  "MaxFloat64 = Fin (of_int (2 ^ 1024 - 2 ^ 971))"

definition distSq :: "vec2 \<Rightarrow> vec2 \<Rightarrow> float64" where
  "distSq p q = (let diff = vSub p q in f_add (f_mul (vX diff) (vX diff)) (f_mul (vY diff) (vY diff)))"

text \<open>The body of the nearest-candidate loops: keep the first strictly nearest eligible object.\<close>

definition nearestStep :: "('a \<Rightarrow> bool) \<Rightarrow> ('a \<Rightarrow> vec2) \<Rightarrow> vec2 \<Rightarrow> float64 \<Rightarrow> 'a \<Rightarrow> 'a option \<times> float64 \<Rightarrow> 'a option \<times> float64" where
  "nearestStep eligible pos from r2 x acc = (case acc of (best, bestSq) \<Rightarrow>
     if \<not> eligible x then (best, bestSq)
     else (let sq = distSq (pos x) from in
           if f_lt r2 sq \<or> f_le bestSq sq then (best, bestSq) else (Some x, sq)))"

definition nearest :: "('a \<Rightarrow> bool) \<Rightarrow> ('a \<Rightarrow> vec2) \<Rightarrow> vec2 \<Rightarrow> float64 \<Rightarrow> 'a list \<Rightarrow> 'a option" where
  "nearest eligible pos from r2 xs = fst (fold (nearestStep eligible pos from r2) xs (None, MaxFloat64))"

definition entries :: "('k \<rightharpoonup> 'v) \<Rightarrow> 'k list \<Rightarrow> 'v list" where
  "entries m ks = List.map_filter m ks"

definition nearestHostileTorpedo :: "int list \<Rightarrow> sector_state \<Rightarrow> vec2 \<Rightarrow> float64 \<Rightarrow> (torpedo \<Rightarrow> bool) \<Rightarrow> torpedo option" where
  "nearestHostileTorpedo order s from radius hostile =
     nearest (\<lambda>t. 0 < t_HP t \<and> hostile t) t_Pos from (f_mul radius radius) (entries (ss_torpedos s) order)"

definition acquireDroneTorpedo :: "worker \<Rightarrow> int list \<Rightarrow> sector_state \<Rightarrow> drone \<Rightarrow> torpedo option" where
  "acquireDroneTorpedo w order s d =
     (if w_relations w = None then None
      else nearestHostileTorpedo order s (d_Pos d) (f_mul (dsp_FireRange DefaultDroneSpec) (Fin 4))
             (\<lambda>t. isHostile w (d_PlayerID d) (t_PlayerID t)))"

definition acquireTowerTorpedo :: "worker \<Rightarrow> int list \<Rightarrow> sector_state \<Rightarrow> static_obj \<Rightarrow> torpedo option" where
  "acquireTowerTorpedo w order s t =
     (let search = (\<lambda>judge. nearestHostileTorpedo order s (so_Pos t) (tw_Range DefaultTowerSpec)
            (\<lambda>tp. case ss_ships s (t_OwnerShipID tp) of None \<Rightarrow> False | Some launcher \<Rightarrow> judge launcher))
      in case so_OwnerID t of
           Some owner \<Rightarrow> search (w_hostile w (Some owner))
         | None \<Rightarrow> (case w_raceHostile w of Some f \<Rightarrow> search (f (so_Race t)) | None \<Rightarrow> None))"

definition towerBeam :: "static_obj \<Rightarrow> entity_ref \<Rightarrow> vec2 \<Rightarrow> int \<Rightarrow> bool \<Rightarrow> laser_beam" where
  "towerBeam t target to dmg killed = \<lparr>lb_AttackerShipID = 0, lb_Target = target, lb_From = so_Pos t, lb_To = to,
     lb_DamageDealt = dmg, lb_Killed = killed\<rparr>"

definition fireTowerAtTorpedo :: "static_obj \<Rightarrow> torpedo \<Rightarrow> sector_state \<Rightarrow> sector_state" where
  "fireTowerAtTorpedo t tp s =
     (case torpedo_TakeDamage tp (tw_Damage DefaultTowerSpec) of (tp', res) \<Rightarrow>
        addLaserEffect (towerBeam t (EntityRef EntityKindTorpedo (t_ID tp)) (t_Pos tp) (HPAbsorbed res) (Killed res))
          (markTorpedoDirty (t_ID tp) (putTorpedo (t_ID tp) tp' s)))"

definition tickTower :: "worker \<Rightarrow> (int \<Rightarrow> int list) \<Rightarrow> (int \<Rightarrow> int list) \<Rightarrow> static_obj \<Rightarrow> sector_state \<Rightarrow> sector_state" where
  "tickTower w shipOrder torpedoOrder t s =
     (case (case so_OwnerID t of Some _ \<Rightarrow> Some (w_hostile w)
            | None \<Rightarrow> map_option (\<lambda>f _. f (so_Race t)) (w_raceHostile w)) of
        None \<Rightarrow> s
      | Some pred \<Rightarrow>
        (case SelectTowerTarget t (entries (ss_ships s) (shipOrder (so_ID t))) DefaultTowerSpec pred of
           None \<Rightarrow> (case acquireTowerTorpedo w (torpedoOrder (so_ID t)) s t of
                     Some tp \<Rightarrow> fireTowerAtTorpedo t tp s | None \<Rightarrow> s)
         | Some target \<Rightarrow>
           (case ApplyDamage ship_TakeDamage target (tw_Damage DefaultTowerSpec) of (target', res) \<Rightarrow>
              (let target' = (case so_OwnerID t of Some owner \<Rightarrow> target'\<lparr>s_LastAttacker := owner\<rparr> | None \<Rightarrow> target');
                   s = markDirty (s_ID target) (putShip (s_ID target) target' s);
                   s = addLaserEffect (towerBeam t (EntityRef EntityKindShip (s_ID target)) (s_Pos target)
                         (wrap64 (ShieldAbsorbed res + HPAbsorbed res)) (Killed res)) s
               in if Killed res then s else knockModules w (s_ID target) s))))"

definition tickTowers :: "worker \<Rightarrow> (int \<Rightarrow> int list) \<Rightarrow> (int \<Rightarrow> int list) \<Rightarrow> sector_state \<Rightarrow> sector_state" where
  "tickTowers w shipOrder torpedoOrder s = fold (tickTower w shipOrder torpedoOrder) (LaserTowers (ss_statics s)) s"

section \<open>Missiles\<close>

definition hitContainer :: "worker \<Rightarrow> missile_impact \<Rightarrow> int \<Rightarrow> int \<Rightarrow> sector_state \<Rightarrow> sector_state" where
  "hitContainer w imp cid dmg s =
     (case ss_containers s cid of
        None \<Rightarrow> addMissileImpact (imp\<lparr>mi_Expired := True\<rparr>) s
      | Some c \<Rightarrow>
        (case container_TakeDamage c dmg of (c', res) \<Rightarrow>
           (let s = s\<lparr>ss_containers := (ss_containers s)(cid \<mapsto> c')\<rparr>;
                s = addMissileImpact (imp\<lparr>mi_Damage := HPAbsorbed res, mi_Killed := Killed res\<rparr>) s
            in if Killed res then tell w (w_hasContainers w) (DeleteContainer cid) (removeContainer cid s) else s)))"

definition applyMissileHit :: "worker \<Rightarrow> int \<Rightarrow> missile \<Rightarrow> sector_state \<Rightarrow> sector_state" where
  "applyMissileHit w mid m s =
     (let imp = \<lparr>mi_MissileID = mid, mi_AttackerShipID = m_OwnerShipID m, mi_Target = m_Target m, mi_Pos = m_Pos m,
            mi_Damage = 0, mi_Killed = False, mi_Expired = False\<rparr>
      in if ref_kind (m_Target m) = EntityKindShip then
           (case ss_ships s (ref_id (m_Target m)) of None \<Rightarrow> s
            | Some ship \<Rightarrow>
              (case ApplyDamage ship_TakeDamage ship (m_Damage m) of (ship', res) \<Rightarrow>
                 (let s = putShip (ref_id (m_Target m)) (ship'\<lparr>s_LastAttacker := m_PlayerID m\<rparr>) s;
                      s = addMissileImpact (imp\<lparr>mi_Damage := wrap64 (ShieldAbsorbed res + HPAbsorbed res), mi_Killed := Killed res\<rparr>) s;
                      s = markDirty (s_ID ship) s
                  in if Killed res then s else knockModules w (ref_id (m_Target m)) s)))
         else if ref_kind (m_Target m) = EntityKindContainer then
           hitContainer w imp (ref_id (m_Target m)) (m_Damage m) s
         else
           (case ss_destructibles s (m_Target m) of None \<Rightarrow> s
            | Some d \<Rightarrow>
              (case ApplyDamage static_TakeDamage d (m_Damage m) of (d', res) \<Rightarrow>
                 (let s = putStatic (m_Target m) d' s;
                      s = addMissileImpact (imp\<lparr>mi_Damage := wrap64 (ShieldAbsorbed res + HPAbsorbed res), mi_Killed := Killed res\<rparr>) s
                  in if Killed res then killStatic w d' s else markDestructibleDirty (m_Target m) s))))"

definition tickMissile :: "worker \<Rightarrow> float64 \<Rightarrow> int \<Rightarrow> int \<Rightarrow> sector_state \<Rightarrow> sector_state" where
  "tickMissile w dt now i s =
     (case ss_missiles s i of None \<Rightarrow> s
      | Some m \<Rightarrow>
        (let target = resolveTargetPos s (m_Target m);
             (m', outcome) = TickMissile (w_gomath w) m (case target of Some p \<Rightarrow> p | None \<Rightarrow> zeroVec) (target \<noteq> None) dt now;
             gone = (\<lambda>s. s\<lparr>ss_missiles := (ss_missiles s)(i := None)\<rparr>)
         in case outcome of
              MissileKeep \<Rightarrow> s\<lparr>ss_missiles := (ss_missiles s)(i \<mapsto> m')\<rparr>
            | MissileExpired \<Rightarrow> gone (addMissileImpact \<lparr>mi_MissileID = i, mi_AttackerShipID = m_OwnerShipID m',
                 mi_Target = m_Target m', mi_Pos = m_Pos m', mi_Damage = 0, mi_Killed = False, mi_Expired = True\<rparr> s)
            | MissileHit \<Rightarrow> gone (applyMissileHit w i m' s)))"

definition tickMissiles :: "worker \<Rightarrow> float64 \<Rightarrow> int \<Rightarrow> int list \<Rightarrow> sector_state \<Rightarrow> sector_state" where
  "tickMissiles w dt now order s = fold (tickMissile w dt now) order s"

section \<open>Drones\<close>

definition droneImpact :: "int \<Rightarrow> drone \<Rightarrow> entity_ref \<Rightarrow> int \<Rightarrow> bool \<Rightarrow> bool \<Rightarrow> drone_impact" where
  "droneImpact i d target dmg killed expired = \<lparr>di_DroneID = i, di_OwnerShipID = d_OwnerShipID d, di_Target = target,
     di_Pos = d_Pos d, di_Damage = dmg, di_Killed = killed, di_Expired = expired\<rparr>"

definition removeDrone :: "worker \<Rightarrow> int \<Rightarrow> drone_impact \<Rightarrow> sector_state \<Rightarrow> sector_state" where
  "removeDrone w i imp s =
     (let s = addDroneImpact imp s;
          s = s\<lparr>ss_drones := (ss_drones s)(i := None), ss_dronesDirty := ss_dronesDirty s - {i}\<rparr>
      in tell w (w_hasDrones w) (DeleteDrone i) s)"

definition acquireDroneTarget :: "worker \<Rightarrow> int list \<Rightarrow> sector_state \<Rightarrow> drone \<Rightarrow> ship option" where
  "acquireDroneTarget w order s d =
     (if w_relations w = None then None
      else (let r = f_mul (dsp_FireRange DefaultDroneSpec) (Fin 4) in
            nearest (\<lambda>x. 0 < s_HP x \<and> s_ID x \<noteq> d_OwnerShipID d \<and> isHostile w (d_PlayerID d) (s_PlayerID x))
              s_Pos (d_Pos d) (f_mul r r) (entries (ss_ships s) order)))"

definition aliveShip :: "sector_state \<Rightarrow> entity_ref \<Rightarrow> ship option" where
  "aliveShip s ref = (if ref_kind ref = EntityKindShip then
     (case ss_ships s (ref_id ref) of Some x \<Rightarrow> if 0 < s_HP x then Some x else None | None \<Rightarrow> None) else None)"

definition droneFiresAtTorpedo :: "int \<Rightarrow> drone \<Rightarrow> torpedo \<Rightarrow> sector_state \<Rightarrow> sector_state" where
  "droneFiresAtTorpedo i d tp s =
     (if DroneCanFire d (t_Pos tp) DefaultDroneSpec then
        (case torpedo_TakeDamage tp (d_Damage d) of (tp', res) \<Rightarrow>
           addDroneImpact (droneImpact i d (EntityRef EntityKindTorpedo (t_ID tp)) (HPAbsorbed res) (Killed res) False)
             (markTorpedoDirty (t_ID tp) (putTorpedo (t_ID tp) tp' s)))
      else s)"

definition droneFiresAtShip :: "worker \<Rightarrow> int \<Rightarrow> drone \<Rightarrow> entity_ref \<Rightarrow> ship \<Rightarrow> sector_state \<Rightarrow> sector_state" where
  "droneFiresAtShip w i d activeTarget target s =
     (if DroneCanFire d (s_Pos target) DefaultDroneSpec then
        (case ApplyDamage ship_TakeDamage target (d_Damage d) of (target', res) \<Rightarrow>
           (let s = putShip (s_ID target) (target'\<lparr>s_LastAttacker := d_PlayerID d\<rparr>) s;
                s = addDroneImpact (droneImpact i d activeTarget (wrap64 (ShieldAbsorbed res + HPAbsorbed res)) (Killed res) False) s;
                s = markDirty (s_ID target) s
            in if Killed res then s else knockModules w (s_ID target) s))
      else s)"

definition tickDrone :: "worker \<Rightarrow> float64 \<Rightarrow> int \<Rightarrow> (int \<Rightarrow> int list) \<Rightarrow> (int \<Rightarrow> int list) \<Rightarrow> int \<Rightarrow> sector_state \<Rightarrow> sector_state" where
  "tickDrone w dt now shipOrder torpedoOrder i s =
     (case ss_drones s i of None \<Rightarrow> s
      | Some d \<Rightarrow>
        (case ss_ships s (d_OwnerShipID d) of
           None \<Rightarrow> removeDrone w i (droneImpact i d (d_Target d) 0 False True) s
         | Some owner \<Rightarrow>
           if s_HP owner \<le> 0 then removeDrone w i (droneImpact i d (d_Target d) 0 False True) s
           else
             (let own = aliveShip s (d_Target d);
                  targetShip = (case own of Some _ \<Rightarrow> own | None \<Rightarrow> acquireDroneTarget w (shipOrder i) s d);
                  activeTarget = (case (own, targetShip) of (None, Some x) \<Rightarrow> EntityRef EntityKindShip (s_ID x) | _ \<Rightarrow> d_Target d);
                  targetTorpedo = (if targetShip = None then acquireDroneTorpedo w (torpedoOrder i) s d else None);
                  dest = (case targetShip of Some x \<Rightarrow> s_Pos x
                          | None \<Rightarrow> (case targetTorpedo of Some tp \<Rightarrow> t_Pos tp | None \<Rightarrow> s_Pos owner))
              in case TickDrone (w_gomath w) d dest DefaultDroneSpec dt now of
                   (d', DroneExpired) \<Rightarrow> removeDrone w i (droneImpact i d' (d_Target d') 0 False True) s
                 | (d', DroneKeep) \<Rightarrow>
                   (let s = markDroneDirty i (s\<lparr>ss_drones := (ss_drones s)(i \<mapsto> d')\<rparr>) in
                    case targetTorpedo of
                      Some tp \<Rightarrow> droneFiresAtTorpedo i d' tp s
                    | None \<Rightarrow> (case targetShip of Some x \<Rightarrow> droneFiresAtShip w i d' activeTarget x s | None \<Rightarrow> s)))))"

definition tickDrones :: "worker \<Rightarrow> float64 \<Rightarrow> int \<Rightarrow> (int \<Rightarrow> int list) \<Rightarrow> (int \<Rightarrow> int list) \<Rightarrow> int list \<Rightarrow> sector_state \<Rightarrow> sector_state" where
  "tickDrones w dt now shipOrder torpedoOrder order s = fold (tickDrone w dt now shipOrder torpedoOrder) order s"

section \<open>Torpedoes\<close>

definition removeTorpedo :: "worker \<Rightarrow> int \<Rightarrow> torpedo_impact \<Rightarrow> sector_state \<Rightarrow> sector_state" where
  "removeTorpedo w i imp s =
     (let s = addTorpedoImpact imp s;
          s = s\<lparr>ss_torpedos := (ss_torpedos s)(i := None), ss_torpedosDirty := ss_torpedosDirty s - {i}\<rparr>
      in tell w (w_hasTorpedos w) (DeleteTorpedo i) s)"

definition torpedoImpact :: "int \<Rightarrow> torpedo \<Rightarrow> float64 \<Rightarrow> bool \<Rightarrow> bool \<Rightarrow> bool \<Rightarrow> torpedo_impact" where
  "torpedoImpact i t splash hit killed expired = \<lparr>ti_TorpedoID = i, ti_OwnerShipID = t_OwnerShipID t, ti_Target = t_Target t,
     ti_Pos = t_Pos t, ti_SplashRadius = splash, ti_Hit = hit, ti_Killed = killed, ti_Expired = expired\<rparr>"

text \<open>What follows the blast for each object it reached.\<close>

definition afterBlast :: "worker \<Rightarrow> entity_ref \<Rightarrow> sector_state \<Rightarrow> sector_state" where
  "afterBlast w ref s =
     (if ref_kind ref = EntityKindShip then
        (let s = markDirty (ref_id ref) s in
         case ss_ships s (ref_id ref) of Some hit \<Rightarrow> if 0 < s_HP hit then knockModules w (ref_id ref) s else s | None \<Rightarrow> s)
      else
        (case ss_destructibles s ref of None \<Rightarrow> s
         | Some d \<Rightarrow> if ds_HP d \<le> 0 then killStatic w d s else markDestructibleDirty ref s))"

definition tickTorpedo :: "worker \<Rightarrow> float64 \<Rightarrow> int \<Rightarrow> (int \<Rightarrow> int list) \<Rightarrow> (int \<Rightarrow> entity_ref list) \<Rightarrow> int \<Rightarrow> sector_state \<Rightarrow> sector_state" where
  "tickTorpedo w dt now shipOrder staticOrder i s =
     (case ss_torpedos s i of None \<Rightarrow> s
      | Some t \<Rightarrow>
        if t_HP t \<le> 0 then removeTorpedo w i (torpedoImpact i t (Fin 0) False True False) s
        else if (case ss_ships s (t_OwnerShipID t) of None \<Rightarrow> True | Some owner \<Rightarrow> s_HP owner \<le> 0)
        then removeTorpedo w i (torpedoImpact i t (Fin 0) False False True) s
        else
          (let target = resolveTargetPos s (t_Target t);
               (t', outcome) = TickTorpedo (w_gomath w) t (case target of Some p \<Rightarrow> p | None \<Rightarrow> zeroVec) (target \<noteq> None) dt now
           in case outcome of
                TorpedoKeep \<Rightarrow> markTorpedoDirty i (putTorpedo i t' s)
              | TorpedoExpired \<Rightarrow> removeTorpedo w i (torpedoImpact i t' (Fin 0) False False True) s
              | TorpedoHit \<Rightarrow>
                  (case ApplyDamageInRadius (shipOrder i) (staticOrder i) (ss_ships s) (ss_destructibles s)
                          (t_Pos t') (t_SplashRadius t') (t_Damage t') (t_PlayerID t') of
                     ((ships', statics'), hits) \<Rightarrow>
                       (let s = s\<lparr>ss_ships := ships', ss_destructibles := statics'\<rparr>;
                            s = fold (afterBlast w) hits s
                        in removeTorpedo w i (torpedoImpact i t' (t_SplashRadius t') True False False) s))))"

definition tickTorpedos :: "worker \<Rightarrow> float64 \<Rightarrow> int \<Rightarrow> (int \<Rightarrow> int list) \<Rightarrow> (int \<Rightarrow> entity_ref list) \<Rightarrow> int list \<Rightarrow> sector_state \<Rightarrow> sector_state" where
  "tickTorpedos w dt now shipOrder staticOrder order s = fold (tickTorpedo w dt now shipOrder staticOrder) order s"

section \<open>Containers\<close>

definition expiredContainer :: "int \<Rightarrow> container \<Rightarrow> bool" where
  "expiredContainer now c = (case c_ExpiresAt c of None \<Rightarrow> False | Some t \<Rightarrow> \<not> now < t)"

definition tickContainers :: "worker \<Rightarrow> int \<Rightarrow> int list \<Rightarrow> sector_state \<Rightarrow> sector_state" where
  "tickContainers w now order s =
     (let expired = filter (\<lambda>i. case ss_containers s i of Some c \<Rightarrow> expiredContainer now c | None \<Rightarrow> False) order
      in fold (\<lambda>i s. tell w (w_hasContainers w) (DeleteContainer i) (removeContainer i s)) expired s)"

section \<open>The combat phases in order\<close>

record orders =
  o_shields :: "int list"
  o_statics :: "entity_ref list"
  o_gates :: "entity_ref list"
  o_energies :: "int list"
  o_lasers :: "int list"
  o_towerShips :: "int \<Rightarrow> int list"
  o_towerTorpedos :: "int \<Rightarrow> int list"
  o_missiles :: "int list"
  o_droneShips :: "int \<Rightarrow> int list"
  o_droneTorpedos :: "int \<Rightarrow> int list"
  o_drones :: "int list"
  o_blastShips :: "int \<Rightarrow> int list"
  o_blastStatics :: "int \<Rightarrow> entity_ref list"
  o_torpedos :: "int list"

text \<open>Everything that moves damage around, from the shield recharge to the torpedoes.\<close>

definition combatPhases :: "worker \<Rightarrow> orders \<Rightarrow> float64 \<Rightarrow> int \<Rightarrow> sector_state \<Rightarrow> sector_state" where
  "combatPhases w ord dt now s =
     tickTorpedos w dt now (o_blastShips ord) (o_blastStatics ord) (o_torpedos ord)
       (tickDrones w dt now (o_droneShips ord) (o_droneTorpedos ord) (o_drones ord)
         (tickMissiles w dt now (o_missiles ord)
           (tickTowers w (o_towerShips ord) (o_towerTorpedos ord)
             (fireLasers w (o_lasers ord)
               (chargeEnergies (o_energies ord)
                 (sweepDestroyedGates w (o_gates ord)
                   (chargeStatics (o_statics ord) (chargeShields (o_shields ord) s))))))))"

end
