(* ===== verification/Movement.thy ===== *)
theory Movement
  imports SectorTick
begin

text \<open>
  How ships travel inside a sector (\<open>internal/sector\<close>): one step of flight (\<open>movement.go\<close>,
  \<open>tick.go\<close>), the autopilot that turns a course into waypoints (\<open>autopilot.go\<close>), and the
  carrying of docked ships (\<open>carry.go\<close>).
\<close>

section \<open>One step of flight\<close>

definition clearTargetRefOnArrival :: "ship \<Rightarrow> ship" where
  "clearTargetRefOnArrival ship =
     (case s_FinalTarget ship of
        Some c \<Rightarrow> if crs_Approach c \<noteq> None then ship else ship\<lparr>s_CurrentTargetRef := None\<rparr>
      | None \<Rightarrow> ship\<lparr>s_CurrentTargetRef := None\<rparr>)"

text \<open>Parking on the waypoint.\<close>

definition arrive :: "vec2 \<Rightarrow> ship \<Rightarrow> ship" where
  "arrive p ship = clearTargetRefOnArrival (ship\<lparr>s_Pos := p, s_Vel := zeroVec, s_Target := None\<rparr>)"

text \<open>The heading after this step, and whether the ship is still turning.\<close>

definition steer :: "gomath \<Rightarrow> vec2 \<Rightarrow> vec2 \<Rightarrow> float64 \<Rightarrow> vec2 \<times> bool" where
  "steer gm targetDir dir turnRate =
     (let checkDirX = dot targetDir dir; checkDirY = crossOf targetDir dir in
      if f_lt (Fin 0) checkDirX \<and> f_lt (f_abs checkDirY) (f_lit (1 / 100)) then (targetDir, False)
      else if f_le turnRate (Fin 0) \<or> f_le f_Pi turnRate then (targetDir, False)
      else
        (let sign = (if f_lt checkDirY (Fin 0) then Fin (- 1) else Fin 1);
             cosStep = m_Cos gm turnRate;
             sinStep = m_Sin gm (f_mul sign turnRate);
             rotated = Vec2 (f_sub (f_mul cosStep (vX dir)) (f_mul sinStep (vY dir)))
                            (f_add (f_mul sinStep (vX dir)) (f_mul cosStep (vY dir)))
         in if f_le (f_mul sign (crossOf targetDir rotated)) (Fin 0) then (targetDir, False) else (rotated, True)))"

definition seedHeading :: "vec2 \<Rightarrow> vec2 \<Rightarrow> vec2" where
  "seedHeading targetDir dir =
     (if f_lt (f_add (f_mul (vX dir) (vX dir)) (f_mul (vY dir) (vY dir))) (f_lit (9 / 10)) then
        (if f_eq (vX targetDir) (Fin 0) \<and> f_eq (vY targetDir) (Fin 0) then Vec2 (Fin 1) (Fin 0) else targetDir)
      else dir)"

text \<open>The velocity after thrust, friction and the speed limit, with its length.\<close>

definition flightVelocity :: "ship \<Rightarrow> float64 \<Rightarrow> float64 \<Rightarrow> bool \<Rightarrow> vec2 \<times> float64" where
  "flightVelocity ship rangeEq speedEq turning =
     (let rub = (if f_lt (f_mul (f_lit (1 / 10)) (s_MaxSpeed ship)) speedEq
                 then f_mul (f_lit (- 1 / 10)) (s_MaxSpeed ship) else f_neg speedEq);
          stopDist = (if f_lt (Fin 0) (s_Acceleration ship)
                      then f_div (f_mul speedEq speedEq) (f_mul (Fin 2) (s_Acceleration ship)) else Fin 0);
          gas = (if f_le rangeEq stopDist then Fin (- 1) else Fin 1);
          gas = (if turning \<and> f_lt (Fin 100) rangeEq then Fin 0 else gas);
          accelMag = f_mul gas (s_Acceleration ship);
          thrustX = f_mul accelMag (vX (s_Direction ship));
          thrustY = f_mul accelMag (vY (s_Direction ship));
          rubX = (if f_lt (Fin 0) speedEq then f_div (f_mul rub (vX (s_Vel ship))) speedEq else Fin 0);
          rubY = (if f_lt (Fin 0) speedEq then f_div (f_mul rub (vY (s_Vel ship))) speedEq else Fin 0);
          newVel = Vec2 (f_add (f_add (vX (s_Vel ship)) thrustX) rubX) (f_add (f_add (vY (s_Vel ship)) thrustY) rubY);
          newVel = (if f_le (s_Acceleration ship) (Fin 0)
                    then Vec2 (f_mul (s_MaxSpeed ship) (vX (s_Direction ship))) (f_mul (s_MaxSpeed ship) (vY (s_Direction ship)))
                    else newVel);
          newSpeed = vLength newVel
      in if f_lt (s_MaxSpeed ship) newSpeed \<and> f_lt (Fin 0) newSpeed
         then (Vec2 (f_div (f_mul (vX newVel) (s_MaxSpeed ship)) newSpeed)
                    (f_div (f_mul (vY newVel) (s_MaxSpeed ship)) newSpeed), s_MaxSpeed ship)
         else (newVel, newSpeed))"

definition flyTo :: "gomath \<Rightarrow> vec2 \<Rightarrow> ship \<Rightarrow> ship \<times> bool" where
  "flyTo gm target ship =
     (let delta = vSub target (s_Pos ship);
          rangeEq = vLength delta;
          speedEq = vLength (s_Vel ship)
      in if f_lt rangeEq (Fin 1) \<and> f_lt speedEq (Fin 1) then (arrive target ship, True)
         else if f_le (s_MaxSpeed ship) (Fin 0) then
           (if vIsZero (s_Vel ship) then (ship, False) else (ship\<lparr>s_Vel := zeroVec\<rparr>, True))
         else
           (let targetDir = (if f_le (Fin 1) rangeEq then Vec2 (f_div (vX delta) rangeEq) (f_div (vY delta) rangeEq)
                             else s_Direction ship);
                dir = seedHeading targetDir (s_Direction ship);
                (newDir, turning) = steer gm targetDir dir (s_TurnRate ship);
                ship = ship\<lparr>s_Direction := newDir\<rparr>;
                (newVel, stepLen) = flightVelocity ship rangeEq speedEq turning
            in if f_le rangeEq stepLen \<and> f_lt (Fin 0) rangeEq then (arrive target ship, True)
               else (ship\<lparr>s_Vel := newVel, s_Pos := vAdd (s_Pos ship) newVel\<rparr>, True)))"

definition moveShip :: "gomath \<Rightarrow> ship \<Rightarrow> float64 \<Rightarrow> ship \<times> bool" where
  "moveShip gm ship dt =
     (let (ship', moved) =
        (if f_le dt (Fin 0) then (ship, False)
         else case s_Target ship of
           None \<Rightarrow> if vIsZero (s_Vel ship) then (ship, False)
                   else (ship\<lparr>s_Pos := vAdd (s_Pos ship) (s_Vel ship)\<rparr>, True)
         | Some target \<Rightarrow> flyTo gm target ship)
      in (ship'\<lparr>s_LastStep := vSub (s_Pos ship') (s_Pos ship)\<rparr>, moved))"

definition moveOf :: "worker \<Rightarrow> float64 \<Rightarrow> int \<Rightarrow> sector_state \<Rightarrow> sector_state" where
  "moveOf w dt i s =
     (case ss_ships s i of None \<Rightarrow> s
      | Some ship \<Rightarrow>
        if s_Docked ship \<noteq> None then s
        else (case moveShip (w_gomath w) ship dt of
          (ship, moved) \<Rightarrow> if moved then markDirty i (putShip i ship s) else putShip i ship s))"

definition applyMovement :: "worker \<Rightarrow> float64 \<Rightarrow> int list \<Rightarrow> sector_state \<Rightarrow> sector_state" where
  "applyMovement w dt order s = fold (moveOf w dt) order s"

section \<open>The autopilot\<close>

definition setWaypoint :: "ship \<Rightarrow> vec2 \<Rightarrow> int \<Rightarrow> sector_state \<Rightarrow> sector_state" where
  "setWaypoint ship pos i s =
     (if (case s_Target ship of Some t \<Rightarrow> vEq t pos | None \<Rightarrow> False) then s
      else markDirty i (putShip i (ship\<lparr>s_Target := Some pos\<rparr>) s))"

definition gateExitOn :: "gate \<Rightarrow> int \<Rightarrow> vec2" where
  "gateExitOn g sector = vec_of (if gate_SectorB g = sector then gate_PosB g else gate_PosA g)"

definition resolveApproach :: "worker \<Rightarrow> course \<Rightarrow> ship \<Rightarrow> int \<Rightarrow> sector_state \<Rightarrow> sector_state" where
  "resolveApproach w final ship i s =
     (let stopRadius = f_mul (w_DockRange w) (f_lit (1 / 2));
          delta = vSub (crs_Pos final) (s_Pos ship);
          dist = vLength delta
      in if f_le dist stopRadius then
           (if s_Target ship \<noteq> None \<or> \<not> vIsZero (s_Vel ship)
            then markDirty i (putShip i (ship\<lparr>s_Target := None, s_Vel := zeroVec\<rparr>) s) else s)
         else setWaypoint ship (vSub (crs_Pos final) (vScale (vScale delta (f_div (Fin 1) dist)) stopRadius)) i s)"

definition dropCourse :: "ship \<Rightarrow> int \<Rightarrow> sector_state \<Rightarrow> sector_state" where
  "dropCourse ship i s = markDirty i (putShip i (ship\<lparr>s_FinalTarget := None, s_Target := None\<rparr>) s)"

definition autopilotOf :: "worker \<Rightarrow> int \<Rightarrow> sector_state \<Rightarrow> sector_state" where
  "autopilotOf w i s =
     (case ss_ships s i of None \<Rightarrow> s
      | Some ship \<Rightarrow>
        if s_Docked ship \<noteq> None then s
        else case s_FinalTarget ship of None \<Rightarrow> s
          | Some final \<Rightarrow>
            if s_SectorID ship = crs_Sector final then
              (if crs_Approach final \<noteq> None then resolveApproach w final ship i s
               else setWaypoint ship (crs_Pos final) i s)
            else (case w_nextSector w (ss_topology s) (s_SectorID ship) (crs_Sector final) of
                    None \<Rightarrow> dropCourse ship i s
                  | Some next \<Rightarrow>
                    (case GateBetween (ss_topology s) (s_SectorID ship) next of
                       None \<Rightarrow> dropCourse ship i s
                     | Some gate \<Rightarrow> setWaypoint ship (gateExitOn gate (s_SectorID ship)) i s)))"

definition resolveAutopilot :: "worker \<Rightarrow> int list \<Rightarrow> sector_state \<Rightarrow> sector_state" where
  "resolveAutopilot w order s = (if w_hasRouter w then fold (autopilotOf w) order s else s)"

section \<open>Docked ships ride along\<close>

definition carryOf :: "int \<Rightarrow> sector_state \<Rightarrow> sector_state" where
  "carryOf i s =
     (case ss_ships s i of None \<Rightarrow> s
      | Some ship \<Rightarrow>
        (case s_Docked ship of None \<Rightarrow> s
         | Some ref \<Rightarrow>
           if ref_kind ref \<noteq> EntityKindShip then s
           else (case ss_ships s (ref_id ref) of None \<Rightarrow> s
             | Some host \<Rightarrow>
               if \<not> vEq (s_Pos ship) (s_Pos host)
               then markDirty i (putShip i (ship\<lparr>s_Pos := s_Pos host, s_LastStep := zeroVec\<rparr>) s) else s)))"

definition carryDockedShips :: "int list \<Rightarrow> sector_state \<Rightarrow> sector_state" where
  "carryDockedShips order s = fold carryOf order s"

end
