(* ===== verification/Docking.thy ===== *)
theory Docking
  imports Movement
begin

text \<open>
  Docking (\<open>internal/sector\<close>): at stations (\<open>docking.go\<close>, \<open>autodock.go\<close>), in the hangar
  of another ship (\<open>ship_docking.go\<close>) and on its outside (\<open>external_dock.go\<close>). A command
  returns the error of its reply, \<open>None\<close> on success; a pointer to a ship is its key in the map.
\<close>

section \<open>Shared steps\<close>

definition lookupStatic :: "sector_statics \<Rightarrow> entity_ref \<Rightarrow> sector_err + static_obj" where
  "lookupStatic st ref =
     (let look = (\<lambda>xs. case find (\<lambda>x. so_ID x = ref_id ref) xs of Some x \<Rightarrow> Inr x | None \<Rightarrow> Inl ErrTargetNotFound) in
      if ref_kind ref = EntityKindStation then look (Stations st)
      else if ref_kind ref = EntityKindShipyard then look (Shipyards st)
      else if ref_kind ref = EntityKindTradeStation then look (TradeStations st)
      else if ref_kind ref = EntityKindPirbase then look (Pirbases st)
      else Inl ErrInvalidDockTarget)"

definition lookupShip :: "sector_state \<Rightarrow> entity_ref \<Rightarrow> sector_err + ship" where
  "lookupShip s ref = (case ss_ships s (ref_id ref) of None \<Rightarrow> Inl ErrTargetNotFound | Some host \<Rightarrow> Inr host)"

text \<open>
  The change both kinds of docking make: clamp on, stop, and forget the course. The write comes
  first; when it fails the ship in RAM is as before.
\<close>

definition dockedAt :: "entity_ref \<Rightarrow> vec2 \<Rightarrow> ship \<Rightarrow> ship" where
  "dockedAt ref pos ship = ship\<lparr>s_Docked := Some ref, s_Pos := pos, s_Vel := zeroVec, s_LastStep := zeroVec,
     s_Target := None, s_FinalTarget := None, s_CurrentTargetRef := None, s_MiningTarget := None\<rparr>"

definition publishPlayerDocked :: "worker \<Rightarrow> ship \<Rightarrow> entity_ref \<Rightarrow> sector_state \<Rightarrow> sector_state" where
  "publishPlayerDocked w ship target s = tell w
     (w_hasBus w \<and> s_PlayerID ship \<noteq> 0 \<and> ss_controllers s (s_ID ship) = None \<and>
      (ref_kind target = EntityKindStation \<or> ref_kind target = EntityKindTradeStation))
     (PublishDocked (s_PlayerID ship) (ss_sectorID s)) s"

section \<open>Stations\<close>

definition executeDock :: "worker \<Rightarrow> int \<Rightarrow> int \<Rightarrow> static_obj \<Rightarrow> ship \<Rightarrow> sector_state \<Rightarrow> sector_err option \<times> sector_state" where
  "executeDock w i kind target ship s =
     (if s_Docked ship \<noteq> None then (Some ErrAlreadyDocked, s)
      else if so_SectorID target \<noteq> s_SectorID ship then (Some ErrTargetSectorMismatch, s)
      else if f_lt (w_DockRange w) (vLength (vSub (s_Pos ship) (so_Pos target))) then (Some ErrDockOutOfRange, s)
      else
        (let ref = EntityRef kind (so_ID target);
             ship = dockedAt ref (so_Pos target) ship;
             (err, s) = saveShip w ship s
         in case err of Some e \<Rightarrow> (Some e, s)
            | None \<Rightarrow> (None, publishPlayerDocked w ship ref (markDirty (s_ID ship) (putShip i ship s)))))"

definition executeUndock :: "worker \<Rightarrow> int \<Rightarrow> ship \<Rightarrow> sector_state \<Rightarrow> sector_err option \<times> sector_state" where
  "executeUndock w i ship s =
     (let ship = ship\<lparr>s_Docked := None, s_Vel := zeroVec, s_Target := None, s_FinalTarget := None, s_CurrentTargetRef := None\<rparr>;
          (err, s) = saveShip w ship s
      in case err of Some e \<Rightarrow> (Some e, s) | None \<Rightarrow> (None, markDirty (s_ID ship) (putShip i ship s)))"

section \<open>Hangars\<close>

definition hangarCapacityForSlot :: "hanger \<Rightarrow> int \<Rightarrow> int" where
  "hangarCapacityForSlot h slot = (if slot = 2 then hg_Small h else hg_Capital h)"

text \<open>
  The scan over the ships of the sector, in map order; the sum of machine integers does not
  depend on the order.
\<close>

definition usedHangarSpace :: "(int \<Rightarrow> hanger) \<Rightarrow> int list \<Rightarrow> sector_state \<Rightarrow> int \<Rightarrow> int \<Rightarrow> int" where
  "usedHangarSpace hangers order s host slot =
     fold (\<lambda>i used. case ss_ships s i of None \<Rightarrow> used
         | Some other \<Rightarrow>
           (case s_Docked other of None \<Rightarrow> used
            | Some ref \<Rightarrow>
              if ref_kind ref \<noteq> EntityKindShip then used
              else if ref_id ref \<noteq> host then used
              else if hg_ShipType (hangers (s_ShipClassID other)) = slot
              then wrap64 (used + hg_ShipSpace (hangers (s_ShipClassID other))) else used)) order 0"

definition checkHangarCapacity :: "worker \<Rightarrow> int list \<Rightarrow> sector_state \<Rightarrow> ship \<Rightarrow> ship \<Rightarrow> sector_err option" where
  "checkHangarCapacity w order s ship host =
     (case w_hangers w of None \<Rightarrow> Some ErrNoHangar
      | Some hangers \<Rightarrow>
        (let footprint = hangers (s_ShipClassID ship); slot = hg_ShipType footprint in
         if slot = 0 then Some ErrNoHangar
         else
           (let capacity = hangarCapacityForSlot (hangers (s_ShipClassID host)) slot in
            if capacity = 0 then Some ErrNoHangar
            else if wrap64 (capacity - wrap64 (hg_ShipSpace footprint + usedHangarSpace hangers order s (s_ID host) slot)) < 0
            then Some ErrHangarFull else None)))"

definition applyShipDock :: "worker \<Rightarrow> int \<Rightarrow> ship \<Rightarrow> ship \<Rightarrow> sector_state \<Rightarrow> sector_err option \<times> sector_state" where
  "applyShipDock w i ship host s =
     (let ship = dockedAt (EntityRef EntityKindShip (s_ID host)) (s_Pos host) ship;
          (err, s) = saveShip w ship s
      in case err of Some e \<Rightarrow> (Some e, s) | None \<Rightarrow> (None, markDirty (s_ID ship) (putShip i ship s)))"

definition executeDockToShip :: "worker \<Rightarrow> int list \<Rightarrow> int \<Rightarrow> ship \<Rightarrow> ship \<Rightarrow> sector_state \<Rightarrow> sector_err option \<times> sector_state" where
  "executeDockToShip w order i ship host s =
     (if s_Docked ship \<noteq> None then (Some ErrAlreadyDocked, s)
      else if s_ID host = s_ID ship then (Some ErrDockSelf, s)
      else if s_SectorID host \<noteq> s_SectorID ship then (Some ErrTargetSectorMismatch, s)
      else if f_lt (w_DockRange w) (vLength (vSub (s_Pos ship) (s_Pos host))) then (Some ErrDockOutOfRange, s)
      else if \<not> s_IsOpen host \<and> s_PlayerID host \<noteq> s_PlayerID ship then (Some ErrDockNotOpen, s)
      else if isHostile w (s_PlayerID ship) (s_PlayerID host) then (Some ErrDockHostile, s)
      else (case checkHangarCapacity w order s ship host of
              Some e \<Rightarrow> (Some e, s)
            | None \<Rightarrow> applyShipDock w i ship host s))"

definition dockToShip :: "worker \<Rightarrow> int list \<Rightarrow> int \<Rightarrow> ship \<Rightarrow> entity_ref \<Rightarrow> sector_state \<Rightarrow> sector_err option \<times> sector_state" where
  "dockToShip w order i ship target s =
     (case lookupShip s target of Inl e \<Rightarrow> (Some e, s) | Inr host \<Rightarrow> executeDockToShip w order i ship host s)"

section \<open>The commands\<close>

text \<open>The first two cases of every command on a ship: it is here, and it is the player's.\<close>

definition ownShip :: "int \<Rightarrow> int \<Rightarrow> sector_state \<Rightarrow> sector_err + ship" where
  "ownShip player i s =
     (case ss_ships s i of None \<Rightarrow> Inl ErrShipNotFound
      | Some ship \<Rightarrow> if s_PlayerID ship \<noteq> player then Inl ErrForbidden else Inr ship)"

definition DockCommand :: "worker \<Rightarrow> int list \<Rightarrow> int \<Rightarrow> int \<Rightarrow> entity_ref \<Rightarrow> sector_state \<Rightarrow> sector_err option \<times> sector_state" where
  "DockCommand w order player i target s =
     (case ownShip player i s of Inl e \<Rightarrow> (Some e, s)
      | Inr ship \<Rightarrow>
        if ref_kind target = EntityKindShip then dockToShip w order i ship target s
        else (case lookupStatic (ss_statics s) target of Inl e \<Rightarrow> (Some e, s)
          | Inr obj \<Rightarrow> executeDock w i (ref_kind target) obj ship s))"

definition UndockCommand :: "worker \<Rightarrow> int \<Rightarrow> int \<Rightarrow> sector_state \<Rightarrow> sector_err option \<times> sector_state" where
  "UndockCommand w player i s =
     (case ownShip player i s of Inl e \<Rightarrow> (Some e, s)
      | Inr ship \<Rightarrow> if s_Docked ship = None then (Some ErrNotDocked, s) else executeUndock w i ship s)"

section \<open>External docking\<close>

definition externalDockGates :: "worker \<Rightarrow> ship \<Rightarrow> ship \<Rightarrow> sector_err option" where
  "externalDockGates w ship host =
     (if s_ID host = s_ID ship then Some ErrDockSelf
      else if s_SectorID host \<noteq> s_SectorID ship then Some ErrTargetSectorMismatch
      else if f_lt (w_DockRange w) (vLength (vSub (s_Pos ship) (s_Pos host))) then Some ErrDockOutOfRange
      else if isHostile w (s_PlayerID ship) (s_PlayerID host) then Some ErrDockHostile
      else None)"

definition ExternalDockCommand :: "worker \<Rightarrow> int \<Rightarrow> int \<Rightarrow> entity_ref \<Rightarrow> sector_state \<Rightarrow> sector_err option \<times> sector_state" where
  "ExternalDockCommand w player i target s =
     (case ownShip player i s of Inl e \<Rightarrow> (Some e, s)
      | Inr ship \<Rightarrow>
        if s_Docked ship \<noteq> None then (Some ErrAlreadyDocked, s)
        else if shipEquipmentLevel ship ''up_exdocking'' < 1 then (Some ErrEquipmentRequired, s)
        else (case lookupShip s target of Inl e \<Rightarrow> (Some e, s)
          | Inr host \<Rightarrow>
            (case externalDockGates w ship host of Some e \<Rightarrow> (Some e, s)
             | None \<Rightarrow> (None, putShip i (ship\<lparr>s_ExternalDock := Some \<lparr>xd_Target = target, xd_TurnsLeft = w_ExternalDockTurns w\<rparr>\<rparr>) s))))"

definition executeExternalAttach :: "worker \<Rightarrow> int \<Rightarrow> ship \<Rightarrow> ship \<Rightarrow> sector_state \<Rightarrow> sector_err option \<times> sector_state" where
  "executeExternalAttach w i ship host s =
     (case externalDockGates w ship host of Some e \<Rightarrow> (Some e, s) | None \<Rightarrow> applyShipDock w i ship host s)"

definition completeExternalDock :: "worker \<Rightarrow> int \<Rightarrow> external_dock \<Rightarrow> ship \<Rightarrow> sector_state \<Rightarrow> sector_state" where
  "completeExternalDock w i xd ship s =
     (let ship = ship\<lparr>s_ExternalDock := None\<rparr>; s = putShip i ship s in
      case lookupShip s (xd_Target xd) of Inl _ \<Rightarrow> s
      | Inr host \<Rightarrow> snd (executeExternalAttach w i ship host s))"

definition externalDockOf :: "worker \<Rightarrow> int \<Rightarrow> sector_state \<Rightarrow> sector_state" where
  "externalDockOf w i s =
     (case ss_ships s i of None \<Rightarrow> s
      | Some ship \<Rightarrow>
        (case s_ExternalDock ship of None \<Rightarrow> s
         | Some xd \<Rightarrow>
           if s_Docked ship \<noteq> None then putShip i (ship\<lparr>s_ExternalDock := None\<rparr>) s
           else if 1 < xd_TurnsLeft xd
           then putShip i (ship\<lparr>s_ExternalDock := Some \<lparr>xd_Target = xd_Target xd, xd_TurnsLeft = xd_TurnsLeft xd - 1\<rparr>\<rparr>) s
           else completeExternalDock w i xd ship s))"

definition tickExternalDock :: "worker \<Rightarrow> int list \<Rightarrow> sector_state \<Rightarrow> sector_state" where
  "tickExternalDock w order s = fold (externalDockOf w) order s"

section \<open>The docking computer\<close>

definition autoDockOf :: "worker \<Rightarrow> int \<Rightarrow> sector_state \<Rightarrow> sector_state" where
  "autoDockOf w i s =
     (case ss_ships s i of None \<Rightarrow> s
      | Some ship \<Rightarrow>
        if s_Docked ship \<noteq> None then s
        else (case s_FinalTarget ship of None \<Rightarrow> s
          | Some final \<Rightarrow>
            (case crs_Approach final of None \<Rightarrow> s
             | Some ref \<Rightarrow>
               if s_SectorID ship \<noteq> crs_Sector final then s
               else if shipEquipmentLevel ship ''up_docking'' < 1 then s
               else (case lookupStatic (ss_statics s) ref of Inl _ \<Rightarrow> s
                 | Inr target \<Rightarrow>
                   if f_lt (w_DockRange w) (vLength (vSub (s_Pos ship) (so_Pos target))) then s
                   else snd (executeDock w i (ref_kind ref) target ship s)))))"

definition tryAutoDock :: "worker \<Rightarrow> int list \<Rightarrow> sector_state \<Rightarrow> sector_state" where
  "tryAutoDock w order s = fold (autoDockOf w) order s"

end
