(* ===== verification/Handoff.thy ===== *)
theory Handoff
  imports Docking
begin

text \<open>
  Leaving one sector for another (\<open>internal/sector\<close>): the handoff of a ship between workers
  (\<open>handoff.go\<close>), the jump drive (\<open>jumpdrive.go\<close>) and the autopilot's jumps
  (\<open>autojump.go\<close>). The source worker writes the relocated ship, publishes a jump event on the target's
  intake topic and drops the ship; the target worker takes the event in as a command.
\<close>

section \<open>The handoff\<close>

text \<open>\<open>json.Marshal\<close> refuses a ship with a number that is not finite.\<close>

definition marshals :: "ship \<Rightarrow> bool" where
  "marshals x \<longleftrightarrow> vec_fin (s_Pos x) \<and> vec_fin (s_Vel x) \<and> vec_fin (s_LastStep x) \<and> is_fin (s_MaxSpeed x) \<and>
     is_fin (s_Acceleration x) \<and> is_fin (s_TurnRate x) \<and> vec_fin (s_Direction x) \<and>
     (case s_Target x of None \<Rightarrow> True | Some v \<Rightarrow> vec_fin v) \<and>
     (case s_FinalTarget x of None \<Rightarrow> True | Some c \<Rightarrow> vec_fin (crs_Pos c)) \<and>
     is_fin (s_LaserRange x) \<and> is_fin (s_RadarRange x) \<and> is_fin (s_CargoBay x)"

definition relocate :: "int \<Rightarrow> vec2 \<Rightarrow> ship \<Rightarrow> ship" where
  "relocate targetSector exitPos ship = ship\<lparr>s_SectorID := targetSector, s_Pos := exitPos, s_Vel := zeroVec,
     s_LastStep := zeroVec, s_Target := None, s_AttackTarget := None, s_MiningTarget := None\<rparr>"

definition controllerOf :: "ship \<Rightarrow> sector_state \<Rightarrow> string \<times> controller option" where
  "controllerOf ship s = (case ss_controllers s (s_ID ship) of None \<Rightarrow> ([], None) | Some c \<Rightarrow> (ct_Kind c, ct_State c))"

definition publishPlayerJumped :: "worker \<Rightarrow> ship \<Rightarrow> int \<Rightarrow> sector_state \<Rightarrow> sector_state" where
  "publishPlayerJumped w ship targetSector s = tell w
     (w_hasBus w \<and> s_PlayerID ship \<noteq> 0 \<and> ss_controllers s (s_ID ship) = None)
     (PublishJumped (s_PlayerID ship) targetSector) s"

text \<open>The notices to the pilot and to the passengers; a failure to publish is only logged.\<close>

definition notifyHandoff :: "worker \<Rightarrow> ship \<Rightarrow> int \<Rightarrow> sector_state \<Rightarrow> sector_state" where
  "notifyHandoff w ship targetSector s =
     (let s = (if s_PlayerID ship \<noteq> 0 then
           publishPlayerJumped w ship targetSector
             (tell w True (PublishHandoff (s_PlayerID ship) (s_ID ship) (ss_sectorID s) targetSector) s)
         else s)
      in fold (\<lambda>pid s. tell w True (PublishHandoff pid (s_ID ship) (ss_sectorID s) targetSector) s) (s_PassengerPlayers ship) s)"

definition evict :: "ship \<Rightarrow> int \<Rightarrow> sector_state \<Rightarrow> sector_state" where
  "evict ship targetSector s = recordOutbound targetSector (s\<lparr>ss_ships := (ss_ships s)(s_ID ship := None),
     ss_dirty := ss_dirty s - {s_ID ship}, ss_controllers := (ss_controllers s)(s_ID ship := None)\<rparr>)"

definition jumpEvent :: "ship \<Rightarrow> int \<Rightarrow> vec2 \<Rightarrow> sector_state \<Rightarrow> jump_event" where
  "jumpEvent ship targetSector exitPos s = \<lparr>je_Ship = relocate targetSector exitPos ship, je_SourceSector = ss_sectorID s,
     je_TargetSector = targetSector, je_ExitPos = exitPos,
     je_ControllerKind = fst (controllerOf ship s), je_ControllerState = snd (controllerOf ship s)\<rparr>"

definition executeJump :: "worker \<Rightarrow> ship \<Rightarrow> int \<Rightarrow> vec2 \<Rightarrow> sector_state \<Rightarrow> sector_err option \<times> sector_state" where
  "executeJump w ship targetSector exitPos s =
     (let ev = jumpEvent ship targetSector exitPos s;
          (err, s) = saveShip w (je_Ship ev) s
      in case err of Some e \<Rightarrow> (Some e, s)
         | None \<Rightarrow>
           (let s = tell w (je_ControllerKind ev \<noteq> [] \<and> w_hasAIState w)
                  (UpsertAIState (s_ID ship) targetSector (je_ControllerKind ev) (je_ControllerState ev)) s
            in if \<not> marshals (je_Ship ev) then (Some ErrOther, s)
               else
                 (case ask w (PublishJump ev) s of
                    (r, s) \<Rightarrow>
                      (case reply_err r of
                         Some e \<Rightarrow> (Some e, snd (saveShip w ship s))
                       | None \<Rightarrow> (None, evict ship targetSector (notifyHandoff w ship targetSector s))))))"

definition attachController :: "worker \<Rightarrow> jump_event \<Rightarrow> sector_state \<Rightarrow> sector_state" where
  "attachController w ev s =
     (if je_ControllerKind ev = [] \<or> \<not> w_hasAIRegistry w then s
      else (case w_buildController w (je_ControllerKind ev) (je_ControllerState ev) of
              None \<Rightarrow> s
            | Some c \<Rightarrow> s\<lparr>ss_controllers := (ss_controllers s)(s_ID (je_Ship ev) \<mapsto> c)\<rparr>))"

definition JumpIntakeCommand :: "worker \<Rightarrow> jump_event \<Rightarrow> sector_state \<Rightarrow> sector_state" where
  "JumpIntakeCommand w ev s =
     (let ship = je_Ship ev; known = (ss_ships s (s_ID ship) \<noteq> None);
          s = attachController w ev (putShip (s_ID ship) ship s)
      in if known then s else recordInbound (je_SourceSector ev) s)"

section \<open>Gates\<close>

definition gateSides :: "gate \<Rightarrow> int \<Rightarrow> (vec2 \<times> int \<times> vec2) option" where
  "gateSides g sourceSector =
     (if sourceSector = gate_SectorA g then Some (vec_of (gate_PosA g), gate_SectorB g, vec_of (gate_PosB g))
      else if sourceSector = gate_SectorB g then Some (vec_of (gate_PosB g), gate_SectorA g, vec_of (gate_PosA g))
      else None)"

definition JumpCommand :: "worker \<Rightarrow> int \<Rightarrow> int \<Rightarrow> int \<Rightarrow> sector_state \<Rightarrow> sector_err option \<times> sector_state" where
  "JumpCommand w player i gateID s =
     (case ownShip player i s of Inl e \<Rightarrow> (Some e, s)
      | Inr ship \<Rightarrow>
        if \<not> w_hasTopology w \<or> \<not> w_hasBus w then (Some ErrHandoffUnavailable, s)
        else (case Gate (ss_topology s) gateID of None \<Rightarrow> (Some ErrInvalidGate, s)
          | Some gate \<Rightarrow>
            (case gateSides gate (ss_sectorID s) of None \<Rightarrow> (Some ErrInvalidGate, s)
             | Some (sourcePos, targetSector, exitPos) \<Rightarrow>
               if f_lt (w_GateRange w) (vLength (vSub (s_Pos ship) sourcePos)) then (Some ErrGateOutOfRange, s)
               else executeJump w ship targetSector exitPos s)))"

definition autoJumpOf :: "worker \<Rightarrow> int \<Rightarrow> sector_state \<Rightarrow> sector_state" where
  "autoJumpOf w i s =
     (case ss_ships s i of None \<Rightarrow> s
      | Some ship \<Rightarrow>
        if s_Docked ship \<noteq> None then s
        else (case s_FinalTarget ship of None \<Rightarrow> s
          | Some final \<Rightarrow>
            if s_SectorID ship = crs_Sector final then s
            else (case w_nextSector w (ss_topology s) (s_SectorID ship) (crs_Sector final) of None \<Rightarrow> s
              | Some next \<Rightarrow>
                (case GateBetween (ss_topology s) (s_SectorID ship) next of None \<Rightarrow> s
                 | Some gate \<Rightarrow>
                   (case gateSides gate (s_SectorID ship) of None \<Rightarrow> s
                    | Some (sourcePos, targetSector, exitPos) \<Rightarrow>
                      if f_lt (w_GateRange w) (vLength (vSub (s_Pos ship) sourcePos)) then s
                      else snd (executeJump w ship targetSector exitPos s))))))"

definition tryAutoJump :: "worker \<Rightarrow> int list \<Rightarrow> sector_state \<Rightarrow> sector_state" where
  "tryAutoJump w order s =
     (if w_hasRouter w \<and> w_hasTopology w \<and> w_hasBus w then fold (autoJumpOf w) order s else s)"

section \<open>The jump drive\<close>

definition jumpDriveCooldown :: "worker \<Rightarrow> int \<Rightarrow> int" where
  "jumpDriveCooldown w level = (if 2 \<le> level then w_JumpDriveCooldownL2 w else w_JumpDriveCooldownL1 w)"

definition sectorForbidden :: "worker \<Rightarrow> int \<Rightarrow> bool" where
  "sectorForbidden w i \<longleftrightarrow> i \<in> set (w_JumpDriveForbiddenSectors w)"

definition antijumpActive :: "worker \<Rightarrow> int list \<Rightarrow> sector_state \<Rightarrow> ship \<Rightarrow> bool" where
  "antijumpActive w order s jumper = list_ex (\<lambda>i. case ss_ships s i of None \<Rightarrow> False
     | Some other \<Rightarrow> i \<noteq> s_ID jumper \<and> s_PlayerID other \<noteq> 0 \<and> \<not> shipEquipmentLevel other ''up_antijump'' < 1 \<and>
         \<not> s_Energy other \<le> 0 \<and> f_le (vLength (vSub (s_Pos other) (s_Pos jumper))) (w_AntijumpRange w)) order"

definition jammerActive :: "worker \<Rightarrow> sector_state \<Rightarrow> ship \<Rightarrow> bool" where
  "jammerActive w s jumper = list_ex (\<lambda>jam. so_Built jam \<and>
     f_le (vLength (vSub (so_Pos jam) (s_Pos jumper))) (w_JammerRange w)) (Jammers (ss_statics s))"

definition sectorCenter :: "sector_state \<Rightarrow> int \<Rightarrow> vec2 option" where
  "sectorCenter s i = map_option (\<lambda>sec. let (lo, hi) = sec_Bounds sec in
       Vec2 (f_div (f_add (fst lo) (fst hi)) (Fin 2)) (f_div (f_add (snd lo) (snd hi)) (Fin 2)))
     (find (\<lambda>sec. sec_ID sec = i) (Sectors (ss_topology s)))"

definition jumpArrivalPos :: "vec2 \<Rightarrow> rng \<Rightarrow> vec2 \<times> rng" where
  "jumpArrivalPos center rng =
     (let (a, rng) = draw rng; (b, rng) = draw rng;
          spread = (\<lambda>c r. f_sub (f_add c (Fin 1600)) (f_mul (f_mul r (Fin 2)) (Fin 1600)))
      in (Vec2 (spread (vX center) a) (spread (vY center) b), rng))"

definition JumpDriveCommand :: "worker \<Rightarrow> int list \<Rightarrow> int \<Rightarrow> int \<Rightarrow> int \<Rightarrow> sector_state \<Rightarrow> sector_err option \<times> sector_state" where
  "JumpDriveCommand w order player i target s =
     (case ownShip player i s of Inl e \<Rightarrow> (Some e, s)
      | Inr ship \<Rightarrow>
        if \<not> w_hasTopology w \<or> \<not> w_hasBus w then (Some ErrHandoffUnavailable, s)
        else if s_Docked ship \<noteq> None then (Some ErrShipDocked, s)
        else if shipEquipmentLevel ship ''up_jump_drive'' < 1 then (Some ErrEquipmentRequired, s)
        else if s_MaxShield ship \<le> 0 then (Some ErrShieldRequired, s)
        else if (case s_LastJumpAt ship of None \<Rightarrow> False
                 | Some t \<Rightarrow> w_now w - t < jumpDriveCooldown w (shipEquipmentLevel ship ''up_jump_drive''))
        then (Some ErrJumpOnCooldown, s)
        else if sectorForbidden w (ss_sectorID s) then (Some ErrJumpForbiddenSector, s)
        else if target = ss_sectorID s then (Some ErrInvalidSector, s)
        else (case sectorCenter s target of None \<Rightarrow> (Some ErrInvalidSector, s)
          | Some center \<Rightarrow>
            if antijumpActive w order s ship \<or> jammerActive w s ship then (Some ErrJumpBlockedByAntijump, s)
            else
              (let paid = ship\<lparr>s_Shield := 0, s_LastJumpAt := Some (w_now w)\<rparr>;
                   (arrival, rng) = jumpArrivalPos center (ss_rng s);
                   (err, s') = executeJump w paid target arrival (putShip i paid (s\<lparr>ss_rng := rng\<rparr>))
               in case err of None \<Rightarrow> (None, s')
                  | Some e \<Rightarrow> (Some e, putShip i ship s'))))"

end
