(* ===== verification/Commands.thy ===== *)
theory Commands
  imports Handoff
begin

text \<open>
  The other player commands of a sector worker (\<open>internal/sector\<close>): flight and combat orders
  (\<open>command.go\<close>), ordnance (\<open>ordnance.go\<close>), capture (\<open>capture.go\<close>, \<open>ownership.go\<close>),
  cargo (\<open>pickup.go\<close>, \<open>transport.go\<close>, \<open>hack.go\<close>), deployed objects
  (\<open>satellite.go\<close>, \<open>jammer.go\<close>, \<open>dismantle.go\<close>), passengers and access
  (\<open>passenger.go\<close>, \<open>ship_access.go\<close>). A command returns the error of its reply with the
  new state; one that answers with a value returns \<open>Inl\<close> the error or \<open>Inr\<close> the value.
\<close>

section \<open>Flight orders\<close>

definition undockFirst :: "worker \<Rightarrow> int \<Rightarrow> ship \<Rightarrow> sector_state \<Rightarrow> sector_err option \<times> sector_state" where
  "undockFirst w i ship s = (if s_Docked ship \<noteq> None then executeUndock w i ship s else (None, s))"

definition updShip :: "int \<Rightarrow> (ship \<Rightarrow> ship) \<Rightarrow> sector_state \<Rightarrow> sector_state" where
  "updShip i f s = s\<lparr>ss_ships := (ss_ships s)(i := map_option f (ss_ships s i))\<rparr>"

definition MoveCommand :: "worker \<Rightarrow> int \<Rightarrow> int \<Rightarrow> vec2 \<Rightarrow> entity_ref option \<Rightarrow> sector_state \<Rightarrow> sector_err option \<times> sector_state" where
  "MoveCommand w player i target ref s =
     (case ownShip player i s of Inl e \<Rightarrow> (Some e, s)
      | Inr ship \<Rightarrow>
        (case undockFirst w i ship s of
           (Some e, s) \<Rightarrow> (Some e, s)
         | (None, s) \<Rightarrow> (None, markDirty i (updShip i (\<lambda>x. x\<lparr>s_Target := Some target, s_CurrentTargetRef := ref,
               s_MiningTarget := None, s_ExternalDock := None\<rparr>) s))))"

definition SetCourseCommand :: "worker \<Rightarrow> int \<Rightarrow> int \<Rightarrow> course option \<Rightarrow> sector_state \<Rightarrow> sector_err option \<times> sector_state" where
  "SetCourseCommand w player i crs s =
     (case ownShip player i s of Inl e \<Rightarrow> (Some e, s)
      | Inr ship \<Rightarrow>
        if crs \<noteq> None \<and> shipEquipmentLevel ship ''up_autopilot'' < 1 then (Some ErrEquipmentRequired, s)
        else (case undockFirst w i ship s of
           (Some e, s) \<Rightarrow> (Some e, s)
         | (None, s) \<Rightarrow> (None, markDirty i (updShip i (\<lambda>x. x\<lparr>s_FinalTarget := crs, s_Target := None,
               s_CurrentTargetRef := (case crs of Some c \<Rightarrow> crs_Approach c | None \<Rightarrow> None), s_ExternalDock := None\<rparr>) s))))"

section \<open>Ships come and go\<close>

definition AddShipCommand :: "worker \<Rightarrow> ship \<Rightarrow> string \<Rightarrow> controller option \<Rightarrow> sector_state \<Rightarrow> sector_err option \<times> sector_state" where
  "AddShipCommand w ship kind state s =
     (if ss_ships s (s_ID ship) \<noteq> None then (Some ErrShipExists, s)
      else
        (let ship = ship\<lparr>s_IsHidden := cloakEngagedFromEquipment (s_Equipment ship)\<rparr>;
             s = markDirty (s_ID ship) (putShip (s_ID ship) ship s)
         in if kind \<noteq> [] \<and> w_hasAIRegistry w then
              (case w_buildController w kind state of None \<Rightarrow> (None, s)
               | Some c \<Rightarrow> (None, s\<lparr>ss_controllers := (ss_controllers s)(s_ID ship \<mapsto> c)\<rparr>))
            else (None, s)))"

definition RemoveShipCommand :: "worker \<Rightarrow> int \<Rightarrow> sector_state \<Rightarrow> sector_state" where
  "RemoveShipCommand w i s =
     (if ss_ships s i = None then s
      else tell w (w_hasRepo w) (DeleteShip i)
        (s\<lparr>ss_ships := (ss_ships s)(i := None), ss_controllers := (ss_controllers s)(i := None),
           ss_dirty := ss_dirty s - {i}, ss_policeScanCooldown := (ss_policeScanCooldown s)(i := None)\<rparr>))"

text \<open>The values the equipment service computed for the ship.\<close>

record refit_values =
  rv_Equipment :: "installed_equipment list"
  rv_MaxSpeed :: float64
  rv_Acceleration :: float64
  rv_MaxShield :: int
  rv_ShieldRecharge :: int
  rv_MaxEnergy :: int
  rv_EnergyRecharge :: int
  rv_EnergyDelta :: int
  rv_LaserDamage :: int
  rv_RadarRange :: float64
  rv_TurnRate :: float64
  rv_CargoBay :: float64

definition refitted :: "refit_values \<Rightarrow> ship \<Rightarrow> ship" where
  "refitted v x = x\<lparr>s_Equipment := rv_Equipment v, s_IsHidden := cloakEngagedFromEquipment (rv_Equipment v),
     s_ShieldGeneratorDestroyed := False, s_MaxSpeed := rv_MaxSpeed v, s_Acceleration := rv_Acceleration v,
     s_MaxShield := rv_MaxShield v, s_ShieldRecharge := rv_ShieldRecharge v, s_MaxEnergy := rv_MaxEnergy v,
     s_EnergyRecharge := rv_EnergyRecharge v, s_EnergyDelta := rv_EnergyDelta v, s_LaserDamage := rv_LaserDamage v,
     s_RadarRange := rv_RadarRange v, s_TurnRate := rv_TurnRate v, s_CargoBay := rv_CargoBay v,
     s_Shield := min (s_Shield x) (rv_MaxShield v), s_Energy := min (s_Energy x) (rv_MaxEnergy v)\<rparr>"

definition UpdateShipEquipmentCommand :: "int \<Rightarrow> int \<Rightarrow> refit_values \<Rightarrow> sector_state \<Rightarrow> sector_err option \<times> sector_state" where
  "UpdateShipEquipmentCommand player i v s =
     (case ownShip player i s of Inl e \<Rightarrow> (Some e, s)
      | Inr ship \<Rightarrow> (None, markDirty i (putShip i (refitted v ship) s)))"

section \<open>Weapons\<close>

definition attackTargetable :: "int \<Rightarrow> entity_ref \<Rightarrow> bool" where
  "attackTargetable i ref = (if ref_kind ref = EntityKindShip then ref_id ref \<noteq> i else isProjectileTargetKind (ref_kind ref))"

definition AttackCommand :: "worker \<Rightarrow> int \<Rightarrow> int \<Rightarrow> entity_ref \<Rightarrow> sector_state \<Rightarrow> sector_err option \<times> sector_state" where
  "AttackCommand w player i target s =
     (case ownShip player i s of Inl e \<Rightarrow> (Some e, s)
      | Inr ship \<Rightarrow>
        if \<not> attackTargetable i target then (Some ErrInvalidAttackTarget, s)
        else (let ship = ship\<lparr>s_AttackTarget := Some target\<rparr> in (None, immediateSave w ship (markDirty i (putShip i ship s)))))"

definition CeaseFireCommand :: "worker \<Rightarrow> int \<Rightarrow> int \<Rightarrow> sector_state \<Rightarrow> sector_err option \<times> sector_state" where
  "CeaseFireCommand w player i s =
     (case ownShip player i s of Inl e \<Rightarrow> (Some e, s)
      | Inr ship \<Rightarrow>
        if s_AttackTarget ship \<noteq> None \<or> s_MiningTarget ship \<noteq> None then
          (let ship = ship\<lparr>s_AttackTarget := None, s_MiningTarget := None\<rparr>
           in (None, immediateSave w ship (markDirty i (putShip i ship s))))
        else (None, s))"

definition torpedoTargetable :: "int \<Rightarrow> entity_ref \<Rightarrow> bool" where
  "torpedoTargetable i ref = (if ref_kind ref = EntityKindShip then ref_id ref \<noteq> i else IsStaticTargetKind (ref_kind ref))"

definition missileTargetable :: "int \<Rightarrow> entity_ref \<Rightarrow> bool" where
  "missileTargetable i ref = (if ref_kind ref = EntityKindShip then ref_id ref \<noteq> i else IsMissileTargetKind (ref_kind ref))"

text \<open>What a collaborator's answer to a creating call means; a missing value is Go's zero value.\<close>

fun reply_id :: "reply \<Rightarrow> sector_err + int" where
  "reply_id (Failed e) = Inl e"
| "reply_id (NewID i) = Inr i"
| "reply_id _ = Inr 0"

fun reply_ids :: "reply \<Rightarrow> sector_err + int list" where
  "reply_ids (Failed e) = Inl e"
| "reply_ids (NewIDs is) = Inr is"
| "reply_ids _ = Inr []"

fun reply_recall :: "reply \<Rightarrow> sector_err + int list \<times> int" where
  "reply_recall (Failed e) = Inl e"
| "reply_recall (Recalled removed credited) = Inr (removed, credited)"
| "reply_recall _ = Inr ([], 0)"

definition spendMissile :: "worker \<Rightarrow> ship \<Rightarrow> int \<Rightarrow> sector_state \<Rightarrow> sector_err option \<times> sector_state" where
  "spendMissile w ship gtype s =
     (if w_hasOrdnance w then (case ask w (SpendMissile (s_ID ship) gtype) s of (r, s) \<Rightarrow> (reply_err r, s))
      else (Some ErrOrdnanceUnavailable, s))"

definition launchTorpedo :: "worker \<Rightarrow> ship \<Rightarrow> int \<Rightarrow> torpedo \<Rightarrow> sector_state \<Rightarrow> (sector_err + int) \<times> sector_state" where
  "launchTorpedo w ship gtype t s =
     (if w_hasOrdnance w then (case ask w (InsertTorpedo (s_ID ship) gtype t) s of (r, s) \<Rightarrow> (reply_id r, s))
      else (Inl ErrOrdnanceUnavailable, s))"

definition launchDrones :: "worker \<Rightarrow> ship \<Rightarrow> int \<Rightarrow> drone list \<Rightarrow> sector_state \<Rightarrow> (sector_err + int list) \<times> sector_state" where
  "launchDrones w ship gtype ds s =
     (if w_hasOrdnance w then
        (case ask w (InsertDrones (s_ID ship) gtype ds) s of (r, s) \<Rightarrow>
          (case reply_ids r of Inl e \<Rightarrow> (Inl e, s)
           | Inr ids \<Rightarrow> if length ds < length ids \<or> ids = [] then (Inl ErrOrdnanceIDCount, s) else (Inr ids, s)))
      else (Inl ErrOrdnanceUnavailable, s))"

definition recallDrones :: "worker \<Rightarrow> ship \<Rightarrow> int \<Rightarrow> int list \<Rightarrow> sector_state \<Rightarrow> (sector_err + int list \<times> int) \<times> sector_state" where
  "recallDrones w ship gtype ids s =
     (if w_hasOrdnance w then
        (if ids = [] then (Inr ([], 0), s)
         else (case ask w (RecallDrones (s_ID ship) gtype ids) s of (r, s) \<Rightarrow> (reply_recall r, s)))
      else (Inl ErrOrdnanceUnavailable, s))"

text \<open>Paying for a shot.\<close>

definition payEnergy :: "int \<Rightarrow> int \<Rightarrow> sector_state \<Rightarrow> sector_state" where
  "payEnergy i cost s = (if 0 < cost then markDirty i (updShip i (\<lambda>x. x\<lparr>s_Energy := wrap64 (s_Energy x - cost)\<rparr>) s) else s)"

definition LaunchMissileCommand :: "worker \<Rightarrow> int \<Rightarrow> int \<Rightarrow> entity_ref \<Rightarrow> int \<Rightarrow> int \<Rightarrow> int option \<Rightarrow> int \<Rightarrow>
    sector_state \<Rightarrow> (sector_err + int) \<times> sector_state" where
  "LaunchMissileCommand w player i target cls gtype now cost s =
     (case ownShip player i s of Inl e \<Rightarrow> (Inl e, s)
      | Inr ship \<Rightarrow>
        if s_Docked ship \<noteq> None then (Inl ErrShipDocked, s)
        else if shipEquipmentLevel ship ''up_launcher'' < 1 then (Inl ErrEquipmentRequired, s)
        else if \<not> missileTargetable i target then (Inl ErrInvalidAttackTarget, s)
        else (case resolveTargetPos s target of None \<Rightarrow> (Inl ErrInvalidAttackTarget, s)
          | Some targetPos \<Rightarrow>
            if s_Energy ship < cost then (Inl ErrNotEnoughEnergy, s)
            else (case spendMissile w ship gtype s of
                (Some e, s) \<Rightarrow> (Inl e, s)
              | (None, s) \<Rightarrow>
                (let (k, s) = allocMissileID s;
                     m = LaunchMissile k (DefaultMissileSpec cls) ship target targetPos (case now of Some t \<Rightarrow> t | None \<Rightarrow> w_now w);
                     s = payEnergy i cost (s\<lparr>ss_missiles := (ss_missiles s)(k \<mapsto> m)\<rparr>);
                     s = (if s_IsHidden ship then updShip i (\<lambda>x. x\<lparr>s_MissileJustFired := True\<rparr>) s else s)
                 in (Inr k, s)))))"

definition LaunchTorpedoCommand :: "worker \<Rightarrow> int \<Rightarrow> int \<Rightarrow> entity_ref \<Rightarrow> int \<Rightarrow> int \<Rightarrow> int \<Rightarrow>
    sector_state \<Rightarrow> (sector_err + int) \<times> sector_state" where
  "LaunchTorpedoCommand w player i target cls gtype cost s =
     (case ownShip player i s of Inl e \<Rightarrow> (Inl e, s)
      | Inr ship \<Rightarrow>
        if s_Docked ship \<noteq> None then (Inl ErrShipDocked, s)
        else if shipEquipmentLevel ship ''up_torpedo_launcher'' < 1 then (Inl ErrEquipmentRequired, s)
        else if \<not> torpedoTargetable i target then (Inl ErrInvalidAttackTarget, s)
        else (case resolveTargetPos s target of None \<Rightarrow> (Inl ErrInvalidAttackTarget, s)
          | Some targetPos \<Rightarrow>
            if s_Energy ship < cost then (Inl ErrNotEnoughEnergy, s)
            else
              (let t = LaunchTorpedo 0 cls (DefaultTorpedoSpec cls) ship target targetPos (w_now w) in
               case launchTorpedo w ship gtype t s of
                 (Inl e, s) \<Rightarrow> (Inl e, s)
               | (Inr k, s) \<Rightarrow>
                 (Inr k, payEnergy i cost (markTorpedoDirty k (s\<lparr>ss_torpedos := (ss_torpedos s)(k \<mapsto> t\<lparr>t_ID := k\<rparr>)\<rparr>))))))"

subsection \<open>Drones\<close>

definition liveDroneCount :: "int list \<Rightarrow> sector_state \<Rightarrow> int \<Rightarrow> int" where
  "liveDroneCount order s i = int (length (filter (\<lambda>k. case ss_drones s k of Some d \<Rightarrow> d_OwnerShipID d = i | None \<Rightarrow> False) order))"

definition nudgeDroneSpawn :: "gomath \<Rightarrow> nat \<Rightarrow> nat \<Rightarrow> drone \<Rightarrow> drone" where
  "nudgeDroneSpawn gm k n d =
     (let a = f_div (f_mul (mk_float (2 * Pi_const)) (f_of_int (int k))) (f_of_int (int n))
      in d\<lparr>d_Pos := vAdd (d_Pos d) (Vec2 (f_mul (Fin 12) (m_Cos gm a)) (f_mul (Fin 12) (m_Sin gm a)))\<rparr>)"

definition newDrones :: "gomath \<Rightarrow> nat \<Rightarrow> ship \<Rightarrow> entity_ref \<Rightarrow> int \<Rightarrow> drone list" where
  "newDrones gm n ship target now =
     map (\<lambda>k. nudgeDroneSpawn gm k n (LaunchDrone 0 DefaultDroneSpec ship target now)) [0..<n]"

definition addDrone :: "int \<times> drone \<Rightarrow> sector_state \<Rightarrow> sector_state" where
  "addDrone kd s = markDroneDirty (fst kd) (s\<lparr>ss_drones := (ss_drones s)(fst kd \<mapsto> (snd kd)\<lparr>d_ID := fst kd\<rparr>)\<rparr>)"

text \<open>How many drones a launch spawns: what the control unit allows, or fewer when asked for fewer.\<close>

definition toSpawn :: "int \<Rightarrow> int \<Rightarrow> int" where
  "toSpawn n allowed = (if 0 < n \<and> n < allowed then n else allowed)"

definition LaunchDroneCommand :: "worker \<Rightarrow> int list \<Rightarrow> int \<Rightarrow> int \<Rightarrow> entity_ref \<Rightarrow> int \<Rightarrow> int \<Rightarrow> int option \<Rightarrow>
    sector_state \<Rightarrow> (sector_err + int) \<times> sector_state" where
  "LaunchDroneCommand w order player i target n gtype now s =
     (case ownShip player i s of Inl e \<Rightarrow> (Inl e, s)
      | Inr ship \<Rightarrow>
        if s_Docked ship \<noteq> None then (Inl ErrShipDocked, s)
        else if shipEquipmentLevel ship ''up_drone_control'' < 1 then (Inl ErrEquipmentRequired, s)
        else if ref_kind target \<noteq> EntityKindShip then (Inl ErrInvalidAttackTarget, s)
        else if ref_id target = i then (Inl ErrInvalidAttackTarget, s)
        else if (case ss_ships s (ref_id target) of None \<Rightarrow> True | Some t \<Rightarrow> s_HP t \<le> 0) then (Inl ErrInvalidAttackTarget, s)
        else
          (let allowed = shipEquipmentLevel ship ''up_drone_control'' - liveDroneCount order s i in
           if allowed \<le> 0 then (Inl ErrDroneCapReached, s)
           else
             (let ds = newDrones (w_gomath w) (nat (toSpawn n allowed)) ship target (case now of Some t \<Rightarrow> t | None \<Rightarrow> w_now w) in
              case launchDrones w ship gtype ds s of
                (Inl e, s) \<Rightarrow> (Inl e, s)
              | (Inr ids, s) \<Rightarrow> (Inr (int (length ids)), fold addDrone (zip ids ds) s))))"

definition RecallDronesCommand :: "worker \<Rightarrow> int list \<Rightarrow> int \<Rightarrow> int \<Rightarrow> int \<Rightarrow> sector_state \<Rightarrow> (sector_err + int \<times> int) \<times> sector_state" where
  "RecallDronesCommand w order player i gtype s =
     (case ownShip player i s of Inl e \<Rightarrow> (Inl e, s)
      | Inr ship \<Rightarrow>
        (let ids = filter (\<lambda>k. case ss_drones s k of Some d \<Rightarrow> d_OwnerShipID d = i | None \<Rightarrow> False) order in
         case recallDrones w ship gtype ids s of
           (Inl e, s) \<Rightarrow> (Inl e, s)
         | (Inr (removed, credited), s) \<Rightarrow>
           (Inr (credited, int (length ids) - int (length removed)),
            s\<lparr>ss_drones := (\<lambda>k. if k \<in> set removed then None else ss_drones s k),
              ss_dronesDirty := ss_dronesDirty s - set removed\<rparr>)))"

end
