(* ===== verification/Actions.thy ===== *)
theory Actions
  imports Commands
begin

text \<open>
  The commands that involve a second object (\<open>internal/sector\<close>): mining orders, capture
  (\<open>command.go\<close>, \<open>capture.go\<close>, \<open>ownership.go\<close>), containers and cargo beams
  (\<open>pickup.go\<close>, \<open>transport.go\<close>), robbing stations (\<open>hack.go\<close>), deployed objects
  (\<open>satellite.go\<close>, \<open>jammer.go\<close>, \<open>dismantle.go\<close>), passengers and access
  (\<open>passenger.go\<close>, \<open>ship_access.go\<close>); and all player commands as one type.
\<close>

section \<open>Mining orders\<close>

definition MineCommand :: "worker \<Rightarrow> int \<Rightarrow> int \<Rightarrow> int option \<Rightarrow> sector_state \<Rightarrow> sector_err option \<times> sector_state" where
  "MineCommand w player i asteroid s =
     (case ownShip player i s of Inl e \<Rightarrow> (Some e, s)
      | Inr ship \<Rightarrow>
        (case asteroid of
           None \<Rightarrow> (None, if s_MiningTarget ship \<noteq> None then markDirty i (putShip i (ship\<lparr>s_MiningTarget := None\<rparr>) s) else s)
         | Some a \<Rightarrow>
           if s_Docked ship \<noteq> None then (Some ErrShipDocked, s)
           else if shipEquipmentLevel ship ''up_drill'' < 1 then (Some ErrEquipmentRequired, s)
           else (case ss_asteroids s a of None \<Rightarrow> (Some ErrAsteroidNotFound, s)
             | Some ast \<Rightarrow>
               if a_Mass ast \<le> 0 then (Some ErrAsteroidNotFound, s)
               else if f_lt (w_MineRange w) (vLength (vSub (s_Pos ship) (a_Pos ast))) then (Some ErrAsteroidOutOfRange, s)
               else (None, markDirty i (putShip i (ship\<lparr>s_MiningTarget := Some a, s_Target := None, s_FinalTarget := None,
                       s_AttackTarget := None, s_Vel := zeroVec\<rparr>) s)))))"

section \<open>Capture\<close>

definition publishShipCapture :: "worker \<Rightarrow> int \<Rightarrow> int \<Rightarrow> bool \<Rightarrow> bool \<Rightarrow> sector_state \<Rightarrow> sector_state" where
  "publishShipCapture w recipient i captor success s =
     tell w (w_hasBus w \<and> recipient \<noteq> 0) (PublishCapture recipient i (ss_sectorID s) captor success) s"

definition publishShipCaptured :: "worker \<Rightarrow> captured_event \<Rightarrow> sector_state \<Rightarrow> sector_state" where
  "publishShipCaptured w ev s = tell w (w_hasBus w) (PublishCaptured ev) s"

definition ownedBy :: "int \<Rightarrow> ship \<Rightarrow> ship" where
  "ownedBy newOwner ship = ship\<lparr>s_PlayerID := newOwner, s_Race := 0, s_AttackTarget := None, s_Target := None,
     s_Vel := zeroVec, s_LastStep := zeroVec, s_PassengerPlayers := []\<rparr>"

definition changeShipOwner :: "worker \<Rightarrow> int \<Rightarrow> ship \<Rightarrow> int \<Rightarrow> sector_state \<Rightarrow> sector_err option \<times> sector_state" where
  "changeShipOwner w i ship newOwner s =
     (let next = ownedBy newOwner ship; (err, s) = saveShip w next s in
      case err of Some e \<Rightarrow> (Some e, s)
      | None \<Rightarrow> (None, publishShipCaptured w \<lparr>ce_ShipID = s_ID ship, ce_SectorID = ss_sectorID s, ce_Pos = s_Pos ship,
            ce_OldOwner = s_PlayerID ship, ce_Passengers = s_PassengerPlayers ship\<rparr>
          (markDirty (s_ID ship) (putShip i next s))))"

definition boardingRefused :: "worker \<Rightarrow> ship \<Rightarrow> int \<Rightarrow> ship option \<Rightarrow> sector_err option" where
  "boardingRefused w ship cost target =
     (case target of None \<Rightarrow> Some ErrInvalidAttackTarget
      | Some t \<Rightarrow>
        if s_HP t \<le> 0 then Some ErrInvalidAttackTarget
        else if shipsAreFriendly w ship t then Some ErrInvalidAttackTarget
        else if f_lt (w_CaptureRange w) (vLength (vSub (s_Pos ship) (s_Pos t))) then Some ErrCaptureOutOfRange
        else if 0 < s_MaxShield t then Some ErrCaptureShielded
        else if s_Energy ship < cost then Some ErrNotEnoughEnergy
        else None)"

text \<open>A boarding party that was beaten back: a sixteenth of the hull, or the ship.\<close>

definition boardingFailed :: "worker \<Rightarrow> int \<Rightarrow> int \<Rightarrow> ship \<Rightarrow> sector_state \<Rightarrow> sector_state" where
  "boardingFailed w player j target s =
     (let hullDown = go_div (s_MaxHP target) 16 in
      if s_HP target \<le> hullDown then
        (let target = target\<lparr>s_LastAttacker := player\<rparr> in killShip w target (putShip j target s))
      else
        (let target = target\<lparr>s_HP := s_HP target - hullDown\<rparr>
         in immediateSave w target (markDirty (s_ID target) (putShip j target s))))"

definition CaptureShipCommand :: "worker \<Rightarrow> int \<Rightarrow> int \<Rightarrow> entity_ref \<Rightarrow> int \<Rightarrow> sector_state \<Rightarrow> (sector_err + bool) \<times> sector_state" where
  "CaptureShipCommand w player i target cost s =
     (case ownShip player i s of Inl e \<Rightarrow> (Inl e, s)
      | Inr ship \<Rightarrow>
        if s_Docked ship \<noteq> None then (Inl ErrShipDocked, s)
        else if shipEquipmentLevel ship ''up_capture'' < 1 then (Inl ErrEquipmentRequired, s)
        else if ref_kind target \<noteq> EntityKindShip then (Inl ErrInvalidAttackTarget, s)
        else if ref_id target = i then (Inl ErrInvalidAttackTarget, s)
        else
          (let j = ref_id target in
           case boardingRefused w ship cost (ss_ships s j) of Some e \<Rightarrow> (Inl e, s)
           | None \<Rightarrow>
             (let victim = the (ss_ships s j);
                  s = payEnergy i cost s;
                  threshold = (if s_Race victim = 8 then w_KhaakCaptureChance w else w_CaptureChance w);
                  (x, rng) = draw (ss_rng s);
                  s = s\<lparr>ss_rng := rng\<rparr>
              in if f_lt threshold (f_mul x (Fin 1000)) then
                   (case changeShipOwner w j victim player s of
                      (Some e, s) \<Rightarrow> (Inl e, s)
                    | (None, s) \<Rightarrow>
                      (let s = tell w (w_hasReputation w) (OnShipCaptured player (s_Race victim)) s;
                           s = publishShipCapture w player (s_ID victim) True True s;
                           s = publishShipCapture w (s_PlayerID victim) (s_ID victim) False True s
                       in (Inr True, s)))
                 else (Inr False, publishShipCapture w player (s_ID victim) True False (boardingFailed w player j victim s)))))"

section \<open>Containers and cargo\<close>

definition pointInRadius2 :: "vec2 \<Rightarrow> vec2 \<Rightarrow> float64 \<Rightarrow> bool" where
  "pointInRadius2 p center r2 = (let dx = f_sub (vX p) (vX center); dy = f_sub (vY p) (vY center)
     in f_le (f_add (f_mul dx dx) (f_mul dy dy)) r2)"

definition pickupContainer :: "worker \<Rightarrow> ship \<Rightarrow> int \<Rightarrow> sector_state \<Rightarrow> sector_err option \<times> sector_state" where
  "pickupContainer w ship k s =
     (case ss_containers s k of None \<Rightarrow> (Some ErrContainerNotFound, s)
      | Some c \<Rightarrow>
        if \<not> pointInRadius2 (s_Pos ship) (c_Pos c) (f_mul (w_PickupRange w) (w_PickupRange w)) then (Some ErrContainerOutOfRange, s)
        else if w_hasContainers w then
          (case ask w (PickupContainer k (s_ID ship)) s of (r, s) \<Rightarrow>
            (case reply_err r of
               Some e \<Rightarrow> if e = ErrContainerRowGone then (Some ErrContainerNotFound, removeContainer k s) else (Some e, s)
             | None \<Rightarrow> (None, removeContainer k s)))
        else (None, removeContainer k s))"

definition PickupContainerCommand :: "worker \<Rightarrow> int \<Rightarrow> int \<Rightarrow> int \<Rightarrow> sector_state \<Rightarrow> sector_err option \<times> sector_state" where
  "PickupContainerCommand w player i k s =
     (case ownShip player i s of Inl e \<Rightarrow> (Some e, s) | Inr ship \<Rightarrow> pickupContainer w ship k s)"

definition TransportCargoCommand :: "worker \<Rightarrow> int \<Rightarrow> int \<Rightarrow> int \<Rightarrow> int \<Rightarrow> int \<Rightarrow> sector_state \<Rightarrow> sector_err option \<times> sector_state" where
  "TransportCargoCommand w player i j gtype qty s =
     (case ownShip player i s of Inl e \<Rightarrow> (Some e, s)
      | Inr dest \<Rightarrow>
        if shipEquipmentLevel dest ''up_transporter'' < 1 then (Some ErrEquipmentRequired, s)
        else if j = i then (Some ErrForbidden, s)
        else (case ownShip player j s of Inl e \<Rightarrow> (Some e, s)
          | Inr src \<Rightarrow>
            if f_lt (w_TransporterRange w) (vLength (vSub (s_Pos dest) (s_Pos src))) then (Some ErrTransporterOutOfRange, s)
            else if s_Energy dest < w_TransporterEnergyCost w then (Some ErrNotEnoughEnergy, s)
            else if \<not> w_hasTraderLogistics w then (None, s)
            else (case ask w (HaulCargo (EntityRef EntityKindShip j) (EntityRef EntityKindShip i) gtype qty) s of (r, s) \<Rightarrow>
              (case reply_err r of Some e \<Rightarrow> (Some e, s)
               | None \<Rightarrow>
                 (let s = (if 0 < w_TransporterEnergyCost w
                           then updShip i (\<lambda>x. x\<lparr>s_Energy := wrap64 (s_Energy x - w_TransporterEnergyCost w)\<rparr>) s else s)
                  in (None, markDirty j (markDirty i s)))))))"

section \<open>Robbing a station\<close>

definition isHackableStationKind :: "int \<Rightarrow> bool" where
  "isHackableStationKind k \<longleftrightarrow> k = EntityKindTradeStation \<or> k = EntityKindStation"

definition resolveHackStation :: "sector_state \<Rightarrow> entity_ref \<Rightarrow> static_obj option" where
  "resolveHackStation s ref =
     (if ref_kind ref = EntityKindTradeStation then find (\<lambda>x. so_ID x = ref_id ref) (TradeStations (ss_statics s))
      else if ref_kind ref = EntityKindStation then find (\<lambda>x. so_ID x = ref_id ref) (Stations (ss_statics s))
      else None)"

fun reply_rob :: "reply \<Rightarrow> sector_err + int \<times> int \<times> container option" where
  "reply_rob (Failed e) = Inl e"
| "reply_rob (RobbedGoods g n c) = Inr (g, n, c)"
| "reply_rob _ = Inr (0, 0, None)"

definition HackStationCommand :: "worker \<Rightarrow> int \<Rightarrow> int \<Rightarrow> entity_ref \<Rightarrow> int \<Rightarrow> sector_state \<Rightarrow> (sector_err + int) \<times> sector_state" where
  "HackStationCommand w player i target cost s =
     (case ownShip player i s of Inl e \<Rightarrow> (Inl e, s)
      | Inr ship \<Rightarrow>
        if shipEquipmentLevel ship ''up_hack'' < 1 then (Inl ErrEquipmentRequired, s)
        else if \<not> isHackableStationKind (ref_kind target) then (Inl ErrInvalidAttackTarget, s)
        else (case resolveHackStation s target of None \<Rightarrow> (Inl ErrInvalidAttackTarget, s)
          | Some station \<Rightarrow>
            if \<not> so_Built station then (Inl ErrInvalidAttackTarget, s)
            else if so_Race station = 6 then (Inl ErrInvalidAttackTarget, s)
            else if f_lt (w_HackRange w) (vLength (vSub (s_Pos ship) (so_Pos station))) then (Inl ErrHackOutOfRange, s)
            else if s_Energy ship < cost then (Inl ErrNotEnoughEnergy, s)
            else if \<not> w_hasRobber w then (Inr 0, s)
            else (case ask w (RobStation target (so_Race station) player (s_ID ship)
                    (2 \<le> shipEquipmentLevel ship ''up_hack'') (ss_sectorID s)
                    (containerDropPos (w_gomath w) (so_Pos station) 1 2) (w_now w + w_ContainerTTL w)) s of (r, s) \<Rightarrow>
              (case reply_rob r of Inl e \<Rightarrow> (Inl e, s)
               | Inr (gtype, robbed, c) \<Rightarrow>
                 (let s = payEnergy i cost s;
                      s = (if s_IsHidden ship then updShip i (\<lambda>x. x\<lparr>s_MissileJustFired := True\<rparr>) s else s);
                      s = (case c of Some c \<Rightarrow> addContainer c s | None \<Rightarrow> s);
                      s = tell w (w_hasBus w \<and> player \<noteq> 0)
                            (PublishHacked player (s_ID ship) (ss_sectorID s) (ref_id target) (so_Race station) gtype robbed) s
                  in (Inr robbed, s))))))"

section \<open>Deployed objects\<close>

definition newSatellite :: "ship \<Rightarrow> static_obj" where
  "newSatellite ship = \<lparr>so_ID = 0, so_OwnerID = Some (s_PlayerID ship), so_Type = 0, so_SectorID = s_SectorID ship,
     so_Pos = s_Pos ship, so_HP = 5000, so_Shield = 2000, so_MaxShield = 2000, so_ShieldRecharge = 20,
     so_Race = s_Race ship, so_Built = True\<rparr>"

definition newJammer :: "ship \<Rightarrow> static_obj" where
  "newJammer ship = \<lparr>so_ID = 0, so_OwnerID = Some (s_PlayerID ship), so_Type = 0, so_SectorID = s_SectorID ship,
     so_Pos = s_Pos ship, so_HP = 7500, so_Shield = 4000, so_MaxShield = 4000, so_ShieldRecharge = 20,
     so_Race = s_Race ship, so_Built = True\<rparr>"

definition installSatellite :: "worker \<Rightarrow> ship \<Rightarrow> int \<Rightarrow> sector_state \<Rightarrow> (sector_err + int) \<times> sector_state" where
  "installSatellite w ship gtype s =
     (if w_hasInstaller w then
        (case ask w (InstallSatellite (s_ID ship) gtype (newSatellite ship)) s of (r, s) \<Rightarrow>
          (case reply_id r of Inl e \<Rightarrow> (Inl e, s) | Inr k \<Rightarrow> (Inr k, addSatellite ((newSatellite ship)\<lparr>so_ID := k\<rparr>) s)))
      else (Inl ErrInstallerUnavailable, s))"

definition installJammer :: "worker \<Rightarrow> ship \<Rightarrow> int \<Rightarrow> sector_state \<Rightarrow> (sector_err + int) \<times> sector_state" where
  "installJammer w ship gtype s =
     (if w_hasInstaller w then
        (case ask w (InstallJammer (s_ID ship) gtype (newJammer ship)) s of (r, s) \<Rightarrow>
          (case reply_id r of Inl e \<Rightarrow> (Inl e, s) | Inr k \<Rightarrow> (Inr k, addJammer ((newJammer ship)\<lparr>so_ID := k\<rparr>) s)))
      else (Inl ErrInstallerUnavailable, s))"

definition InstallSatelliteCommand :: "worker \<Rightarrow> int \<Rightarrow> int \<Rightarrow> int \<Rightarrow> sector_state \<Rightarrow> (sector_err + int) \<times> sector_state" where
  "InstallSatelliteCommand w player i gtype s =
     (case ownShip player i s of Inl e \<Rightarrow> (Inl e, s)
      | Inr ship \<Rightarrow> if s_Docked ship \<noteq> None then (Inl ErrShipDocked, s) else installSatellite w ship gtype s)"

definition InstallJammerCommand :: "worker \<Rightarrow> int \<Rightarrow> int \<Rightarrow> int \<Rightarrow> sector_state \<Rightarrow> (sector_err + int) \<times> sector_state" where
  "InstallJammerCommand w player i gtype s =
     (case ownShip player i s of Inl e \<Rightarrow> (Inl e, s)
      | Inr ship \<Rightarrow> if s_Docked ship \<noteq> None then (Inl ErrShipDocked, s) else installJammer w ship gtype s)"

definition isDismantlableKind :: "int \<Rightarrow> bool" where
  "isDismantlableKind k \<longleftrightarrow> k = EntityKindJammer \<or> k = EntityKindSatellite"

definition resolveDeployed :: "sector_state \<Rightarrow> entity_ref \<Rightarrow> static_obj option" where
  "resolveDeployed s ref =
     (if ref_kind ref = EntityKindJammer then find (\<lambda>x. so_ID x = ref_id ref) (Jammers (ss_statics s))
      else if ref_kind ref = EntityKindSatellite then find (\<lambda>x. so_ID x = ref_id ref) (Satellites (ss_statics s))
      else None)"

definition dismantleStatic :: "worker \<Rightarrow> ship \<Rightarrow> entity_ref \<Rightarrow> int \<Rightarrow> sector_state \<Rightarrow> sector_err option \<times> sector_state" where
  "dismantleStatic w ship ref gtype s =
     (if \<not> w_hasInstaller w then (Some ErrInstallerUnavailable, s)
      else if \<not> isDismantlableKind (ref_kind ref) then (Some ErrNotDismantlable, s)
      else (case ask w (if ref_kind ref = EntityKindJammer then DismantleJammer (s_ID ship) gtype (ref_id ref)
                        else DismantleSatellite (s_ID ship) gtype (ref_id ref)) s of (r, s) \<Rightarrow>
        (case reply_err r of Some e \<Rightarrow> (Some e, s)
         | None \<Rightarrow> (let s = removeDestructible ref s in
             (None, s\<lparr>ss_statics := removeStaticFromLayout ref (ss_statics s)\<rparr>)))))"

definition DismantleStaticCommand :: "worker \<Rightarrow> int \<Rightarrow> int \<Rightarrow> entity_ref \<Rightarrow> int \<Rightarrow> sector_state \<Rightarrow> sector_err option \<times> sector_state" where
  "DismantleStaticCommand w player i target gtype s =
     (case ownShip player i s of Inl e \<Rightarrow> (Some e, s)
      | Inr ship \<Rightarrow>
        if s_Docked ship \<noteq> None then (Some ErrShipDocked, s)
        else if \<not> isDismantlableKind (ref_kind target) then (Some ErrNotDismantlable, s)
        else (case resolveDeployed s target of None \<Rightarrow> (Some ErrDeployedNotFound, s)
          | Some obj \<Rightarrow>
            if so_OwnerID obj \<noteq> Some player then (Some ErrForbidden, s)
            else if f_lt (w_PickupRange w) (vLength (vSub (s_Pos ship) (so_Pos obj))) then (Some ErrDeployedOutOfRange, s)
            else dismantleStatic w ship target gtype s))"

section \<open>Passengers and access\<close>

definition AddPassengerCommand :: "int \<Rightarrow> int \<Rightarrow> sector_state \<Rightarrow> sector_err option \<times> sector_state" where
  "AddPassengerCommand i player s =
     (case ss_ships s i of None \<Rightarrow> (Some ErrShipNotFound, s)
      | Some host \<Rightarrow>
        if player \<in> set (s_PassengerPlayers host) then (None, s)
        else (None, markDirty i (putShip i (host\<lparr>s_PassengerPlayers := s_PassengerPlayers host @ [player]\<rparr>) s)))"

definition removePlayer :: "int list \<Rightarrow> int \<Rightarrow> int list" where
  "removePlayer xs p = filter (\<lambda>x. x \<noteq> p) xs"

definition RemovePassengerCommand :: "int \<Rightarrow> int \<Rightarrow> sector_state \<Rightarrow> sector_err option \<times> sector_state" where
  "RemovePassengerCommand i player s =
     (case ss_ships s i of None \<Rightarrow> (None, s)
      | Some host \<Rightarrow> (None, markDirty i (putShip i (host\<lparr>s_PassengerPlayers := removePlayer (s_PassengerPlayers host) player\<rparr>) s)))"

definition SetShipAccessCommand :: "worker \<Rightarrow> int \<Rightarrow> int \<Rightarrow> bool \<Rightarrow> sector_state \<Rightarrow> sector_err option \<times> sector_state" where
  "SetShipAccessCommand w player i isOpen s =
     (case ownShip player i s of Inl e \<Rightarrow> (Some e, s)
      | Inr ship \<Rightarrow>
        (let ship = ship\<lparr>s_IsOpen := isOpen\<rparr>; (err, s) = saveShip w ship s in
         case err of Some e \<Rightarrow> (Some e, s) | None \<Rightarrow> (None, markDirty i (putShip i ship s))))"

section \<open>Every command of a player\<close>

datatype command =
    Move int vec2 "entity_ref option"
  | SetCourse int "course option"
  | UpdateEquipment int refit_values
  | Attack int entity_ref
  | CeaseFire int
  | FireMissile int entity_ref int int "int option" int
  | FireTorpedo int entity_ref int int int
  | SendDrones int entity_ref int int "int option"
  | CallDrones int int
  | Mine int "int option"
  | Capture int entity_ref int
  | Dock int entity_ref
  | Undock int
  | ExternalDock int entity_ref
  | Jump int int
  | JumpDrive int int
  | Pickup int int
  | Transport int int int int
  | Hack int entity_ref int
  | PlaceSatellite int int
  | PlaceJammer int int
  | Dismantle int entity_ref int
  | SetAccess int bool

definition failing :: "('e + 'v) \<times> 's \<Rightarrow> 'e option \<times> 's" where
  "failing r = (case fst r of Inl e \<Rightarrow> Some e | Inr _ \<Rightarrow> None, snd r)"

text \<open>
  \<open>applyCommand w so dro p c s\<close>: command \<open>c\<close> of player \<open>p\<close>, with the orders in
  which the ship and the drone maps are visited.
\<close>

fun applyCommand :: "worker \<Rightarrow> int list \<Rightarrow> int list \<Rightarrow> int \<Rightarrow> command \<Rightarrow> sector_state \<Rightarrow> sector_err option \<times> sector_state" where
  "applyCommand w so dro p (Move i v r) s = MoveCommand w p i v r s"
| "applyCommand w so dro p (SetCourse i c) s = SetCourseCommand w p i c s"
| "applyCommand w so dro p (UpdateEquipment i v) s = UpdateShipEquipmentCommand p i v s"
| "applyCommand w so dro p (Attack i r) s = AttackCommand w p i r s"
| "applyCommand w so dro p (CeaseFire i) s = CeaseFireCommand w p i s"
| "applyCommand w so dro p (FireMissile i r c g n e) s = failing (LaunchMissileCommand w p i r c g n e s)"
| "applyCommand w so dro p (FireTorpedo i r c g e) s = failing (LaunchTorpedoCommand w p i r c g e s)"
| "applyCommand w so dro p (SendDrones i r n g t) s = failing (LaunchDroneCommand w dro p i r n g t s)"
| "applyCommand w so dro p (CallDrones i g) s = failing (RecallDronesCommand w dro p i g s)"
| "applyCommand w so dro p (Mine i a) s = MineCommand w p i a s"
| "applyCommand w so dro p (Capture i r e) s = failing (CaptureShipCommand w p i r e s)"
| "applyCommand w so dro p (Dock i r) s = DockCommand w so p i r s"
| "applyCommand w so dro p (Undock i) s = UndockCommand w p i s"
| "applyCommand w so dro p (ExternalDock i r) s = ExternalDockCommand w p i r s"
| "applyCommand w so dro p (Jump i g) s = JumpCommand w p i g s"
| "applyCommand w so dro p (JumpDrive i t) s = JumpDriveCommand w so p i t s"
| "applyCommand w so dro p (Pickup i k) s = PickupContainerCommand w p i k s"
| "applyCommand w so dro p (Transport i j g q) s = TransportCargoCommand w p i j g q s"
| "applyCommand w so dro p (Hack i r e) s = failing (HackStationCommand w p i r e s)"
| "applyCommand w so dro p (PlaceSatellite i g) s = failing (InstallSatelliteCommand w p i g s)"
| "applyCommand w so dro p (PlaceJammer i g) s = failing (InstallJammerCommand w p i g s)"
| "applyCommand w so dro p (Dismantle i r g) s = DismantleStaticCommand w p i r g s"
| "applyCommand w so dro p (SetAccess i b) s = SetShipAccessCommand w p i b s"

fun shipOf :: "command \<Rightarrow> int" where
  "shipOf (Move i _ _) = i" | "shipOf (SetCourse i _) = i" | "shipOf (UpdateEquipment i _) = i" | "shipOf (Attack i _) = i"
| "shipOf (CeaseFire i) = i" | "shipOf (FireMissile i _ _ _ _ _) = i" | "shipOf (FireTorpedo i _ _ _ _) = i"
| "shipOf (SendDrones i _ _ _ _) = i" | "shipOf (CallDrones i _) = i" | "shipOf (Mine i _) = i" | "shipOf (Capture i _ _) = i"
| "shipOf (Dock i _) = i" | "shipOf (Undock i) = i" | "shipOf (ExternalDock i _) = i" | "shipOf (Jump i _) = i"
| "shipOf (JumpDrive i _) = i" | "shipOf (Pickup i _) = i" | "shipOf (Transport i _ _ _) = i" | "shipOf (Hack i _ _) = i"
| "shipOf (PlaceSatellite i _) = i" | "shipOf (PlaceJammer i _) = i" | "shipOf (Dismantle i _ _) = i" | "shipOf (SetAccess i _) = i"

end
