(* ===== verification/CombatInvariant.thy ===== *)
theory CombatInvariant
  imports SectorTick
begin

text \<open>
  What the combat phases of a tick keep: the well-formedness of the sector's tables, and the
  frame of combat - no ship appears, vanishes, changes hands or moves, and hulls only shrink. The
  relation between the states before and after is a preorder kept by every step, so the loops
  inherit it whatever their order.
\<close>

section \<open>What combat may change\<close>

text \<open>A well-formed ship under its key: identified, with hull and shield in range.\<close>

definition ship_ok :: "int \<Rightarrow> ship \<Rightarrow> bool" where
  "ship_ok i x \<longleftrightarrow> s_ID x = i \<and> 0 \<le> s_HP x \<and> 0 \<le> s_Shield x \<and> 0 \<le> s_MaxShield x \<and>
     0 \<le> s_ShieldRecharge x \<and> in64 (s_MaxShield x + s_ShieldRecharge x)"

definition static_ok :: "entity_ref \<Rightarrow> destructible_static \<Rightarrow> bool" where
  "static_ok r d \<longleftrightarrow> ds_Ref d = r \<and> 0 \<le> ds_HP d \<and> 0 \<le> ds_Shield d \<and> 0 \<le> ds_MaxShield d \<and>
     0 \<le> ds_ShieldRecharge d \<and> in64 (ds_MaxShield d + ds_ShieldRecharge d)"

definition sector_ok :: "sector_state \<Rightarrow> bool" where
  "sector_ok s \<longleftrightarrow> (\<forall>i x. ss_ships s i = Some x \<longrightarrow> ship_ok i x) \<and>
     (\<forall>r d. ss_destructibles s r = Some d \<longrightarrow> static_ok r d) \<and>
     (\<forall>i t. ss_torpedos s i = Some t \<longrightarrow> t_ID t = i \<and> 0 \<le> t_HP t)"

text \<open>Combat wounds: who a ship is, whose it is and where it is stay; the hull only shrinks.\<close>

definition wounded :: "ship \<Rightarrow> ship \<Rightarrow> bool" where
  "wounded x y \<longleftrightarrow> s_ID y = s_ID x \<and> s_PlayerID y = s_PlayerID x \<and> s_SectorID y = s_SectorID x \<and> s_Pos y = s_Pos x \<and>
     s_Docked y = s_Docked x \<and> s_MaxHP y = s_MaxHP x \<and> s_HP y \<le> s_HP x"

definition worn :: "destructible_static \<Rightarrow> destructible_static \<Rightarrow> bool" where
  "worn d e \<longleftrightarrow> ds_Ref e = ds_Ref d \<and> ds_Pos e = ds_Pos d \<and> ds_OwnerID e = ds_OwnerID d \<and> ds_HP e \<le> ds_HP d"

definition fought :: "sector_state \<Rightarrow> sector_state \<Rightarrow> bool" where
  "fought s t \<longleftrightarrow> (\<forall>i. rel_option wounded (ss_ships s i) (ss_ships t i)) \<and>
     (\<forall>r e. ss_destructibles t r = Some e \<longrightarrow> (\<exists>d. ss_destructibles s r = Some d \<and> worn d e))"

definition step_ok :: "sector_state \<Rightarrow> sector_state \<Rightarrow> bool" where
  "step_ok s t \<longleftrightarrow> (sector_ok s \<longrightarrow> sector_ok t \<and> fought s t)"

text \<open>What the outfitter behind \<open>Refit\<close> keeps of a ship.\<close>

definition refit_ok :: "worker \<Rightarrow> bool" where
  "refit_ok w \<longleftrightarrow> (\<forall>f i x. w_refit w = Some f \<longrightarrow> ship_ok i x \<longrightarrow> ship_ok i (f x) \<and> wounded x (f x))"

lemma wounded_refl [simp]: "wounded x x"
  by (simp add: wounded_def)

lemma wounded_trans: "wounded x y \<Longrightarrow> wounded y z \<Longrightarrow> wounded x z"
  by (auto simp: wounded_def)

lemma worn_refl [simp]: "worn x x"
  by (simp add: worn_def)

lemma worn_trans: "worn x y \<Longrightarrow> worn y z \<Longrightarrow> worn x z"
  by (auto simp: worn_def)

lemma rel_option_wounded_trans:
  "rel_option wounded a b \<Longrightarrow> rel_option wounded b c \<Longrightarrow> rel_option wounded a c"
  by (cases a; cases b; cases c) (auto intro: wounded_trans)

interpretation combat: preorder_rel step_ok
proof unfold_locales
  show "step_ok s s" for s
    by (auto simp: step_ok_def fought_def intro: option.rel_refl)
  fix s t u
  assume "step_ok s t" "step_ok t u"
  moreover have "fought s t \<Longrightarrow> fought t u \<Longrightarrow> fought s u"
    unfolding fought_def by (meson rel_option_wounded_trans worn_trans)
  ultimately show "step_ok s u" by (simp add: step_ok_def)
qed

lemma step_same:
  "ss_ships t = ss_ships s \<Longrightarrow> ss_destructibles t = ss_destructibles s \<Longrightarrow> ss_torpedos t = ss_torpedos s \<Longrightarrow> step_ok s t"
  by (auto simp: step_ok_def sector_ok_def fought_def intro: option.rel_refl)

lemma step_then_same:
  "step_ok s t \<Longrightarrow> ss_ships u = ss_ships t \<Longrightarrow> ss_destructibles u = ss_destructibles t \<Longrightarrow> ss_torpedos u = ss_torpedos t \<Longrightarrow> step_ok s u"
  by (blast intro: combat.trans step_same)

lemma step_putShip:
  "ss_ships s i = Some x \<Longrightarrow> (ship_ok i x \<Longrightarrow> ship_ok i y \<and> wounded x y) \<Longrightarrow> step_ok s (putShip i y s)"
  by (auto simp: step_ok_def sector_ok_def fought_def putShip_def intro: option.rel_refl)

lemma step_putStatic:
  "ss_destructibles s r = Some d \<Longrightarrow> (static_ok r d \<Longrightarrow> static_ok r e \<and> worn d e) \<Longrightarrow> step_ok s (putStatic r e s)"
  by (auto simp: step_ok_def sector_ok_def fought_def putStatic_def intro: option.rel_refl)

lemma step_putTorpedo:
  "ss_torpedos s i = Some t \<Longrightarrow> (t_ID t = i \<Longrightarrow> 0 \<le> t_HP t \<Longrightarrow> t_ID u = i \<and> 0 \<le> t_HP u) \<Longrightarrow> step_ok s (putTorpedo i u s)"
  by (auto simp: step_ok_def sector_ok_def fought_def putTorpedo_def intro: option.rel_refl)

lemma step_removeDestructible: "step_ok s (removeDestructible r s)"
  by (auto simp: step_ok_def sector_ok_def fought_def removeDestructible_def intro: option.rel_refl)

lemma step_dropTorpedo: "ss_ships t = ss_ships s \<Longrightarrow> ss_destructibles t = ss_destructibles s \<Longrightarrow>
   ss_torpedos t = (ss_torpedos s)(i := None) \<Longrightarrow> step_ok s t"
  by (auto simp: step_ok_def sector_ok_def fought_def intro: option.rel_refl)

text \<open>The bookkeeping operations leave the three tables alone.\<close>

lemma tell_tables [simp]:
  "ss_ships (tell w b r s) = ss_ships s" "ss_destructibles (tell w b r s) = ss_destructibles s"
  "ss_torpedos (tell w b r s) = ss_torpedos s"
  by (auto simp: tell_def ask_def)

lemmas bookkeeping = markDirty_def addLaserEffect_def addMissileImpact_def addDroneImpact_def addTorpedoImpact_def
  markDroneDirty_def markTorpedoDirty_def markDestructibleDirty_def removeContainer_def publishKilled_def
  publishModuleKnocked_def killGate_def

lemma step_killStatic: "step_ok s (killStatic w d s)"
  by (rule step_then_same [OF step_removeDestructible [of s "ds_Ref d"]])
    (auto simp: killStatic_def bookkeeping removeDestructible_def Let_def split: prod.splits)

lemma ship_hit_ok:
  assumes hit: "ApplyDamage ship_TakeDamage x d = (y, res)" and ok: "ship_ok i x"
  shows "ship_ok i y \<and> wounded x y"
proof -
  have y: "y = x\<lparr>s_HP := s_HP y, s_Shield := s_Shield y\<rparr>"
    using hit by (auto simp: ApplyDamage_def ship_TakeDamage_def split: prod.splits if_splits)
  have "0 \<le> s_HP x" "0 \<le> s_Shield x" using ok by (simp_all add: ship_ok_def)
  note b = ship_dmg.apply_damage [OF hit this]
  have "0 \<le> s_HP y" "0 \<le> s_Shield y" "s_HP y \<le> s_HP x" using b(1,2) by auto
  moreover obtain h k where "y = x\<lparr>s_HP := h, s_Shield := k\<rparr>" using y by blast
  ultimately show ?thesis using ok by (simp add: ship_ok_def wounded_def)
qed

lemma static_hit_ok:
  assumes hit: "ApplyDamage static_TakeDamage d n = (e, res)" and ok: "static_ok r d"
  shows "static_ok r e \<and> worn d e"
proof -
  have e: "e = d\<lparr>ds_HP := ds_HP e, ds_Shield := ds_Shield e\<rparr>"
    using hit by (auto simp: ApplyDamage_def static_TakeDamage_def split: prod.splits if_splits)
  have "0 \<le> ds_HP d" "0 \<le> ds_Shield d" using ok by (simp_all add: static_ok_def)
  note b = static_dmg.apply_damage [OF hit this]
  have "0 \<le> ds_HP e" "0 \<le> ds_Shield e" "ds_HP e \<le> ds_HP d" using b(1,2) by auto
  moreover obtain h k where "e = d\<lparr>ds_HP := h, ds_Shield := k\<rparr>" using e by blast
  ultimately show ?thesis using ok by (simp add: static_ok_def worn_def)
qed

lemma torpedo_hit_ok:
  assumes "torpedo_TakeDamage t n = (u, res)" "0 \<le> t_HP t"
  shows "t_ID u = t_ID t \<and> 0 \<le> t_HP u"
proof -
  obtain h k r where a: "applyDamage (t_HP t) 0 n = ((h, k), r)" by (metis prod.exhaust)
  then show ?thesis using assms applyDamage_cases [OF a] by (auto simp: torpedo_TakeDamage_def)
qed

lemma torpedo_damage_ok:
  assumes "ApplyDamage torpedo_TakeDamage t n = (u, res)" "0 \<le> t_HP t"
  shows "t_ID u = t_ID t \<and> 0 \<le> t_HP u"
  using assms torpedo_hit_ok by (auto simp: ApplyDamage_def split: if_splits)

lemma ship_ok_fields [simp]:
  "ship_ok i (x\<lparr>s_Energy := e\<rparr>) = ship_ok i x" "ship_ok i (x\<lparr>s_AttackTarget := a\<rparr>) = ship_ok i x"
  "ship_ok i (x\<lparr>s_LastAttacker := l\<rparr>) = ship_ok i x" "ship_ok i (x\<lparr>s_Equipment := q\<rparr>) = ship_ok i x"
  "ship_ok i (x\<lparr>s_IsHidden := b\<rparr>) = ship_ok i x" "ship_ok i (x\<lparr>s_ShieldGeneratorDestroyed := g\<rparr>) = ship_ok i x"
  by (simp_all add: ship_ok_def)

lemma wounded_fields [simp]:
  "wounded x (y\<lparr>s_Energy := e\<rparr>) = wounded x y" "wounded x (y\<lparr>s_AttackTarget := a\<rparr>) = wounded x y"
  "wounded x (y\<lparr>s_LastAttacker := l\<rparr>) = wounded x y" "wounded x (y\<lparr>s_Equipment := q\<rparr>) = wounded x y"
  "wounded x (y\<lparr>s_IsHidden := b\<rparr>) = wounded x y" "wounded x (y\<lparr>s_ShieldGeneratorDestroyed := g\<rparr>) = wounded x y"
  "wounded x (y\<lparr>s_Shield := k\<rparr>) = wounded x y" "wounded x (y\<lparr>s_MaxShield := m\<rparr>) = wounded x y"
  "wounded x (y\<lparr>s_ShieldRecharge := c\<rparr>) = wounded x y" "wounded (x\<lparr>s_Equipment := q\<rparr>) y = wounded x y"
  "wounded (x\<lparr>s_Energy := e\<rparr>) y = wounded x y"
  by (simp_all add: wounded_def)

lemma putShip_same: "ss_ships s i = Some x \<Longrightarrow> putShip i x s = s"
  by (simp add: putShip_def map_upd_triv)

lemma step_chargeShieldOf: "step_ok s (chargeShieldOf i s)"
proof (cases "ss_ships s i")
  case (Some x)
  obtain sh where sh: "fst (ChargeShield x) = x\<lparr>s_Shield := sh\<rparr>" using ChargeShield_only by blast
  have "step_ok s (putShip i (fst (ChargeShield x)) s)"
    by (rule step_putShip [OF Some]) (use ChargeShield_bounds(1) [of x] sh in \<open>auto simp: ship_ok_def wounded_def\<close>)
  then show ?thesis
    by (rule step_then_same) (auto simp: chargeShieldOf_def Some markDirty_def split: prod.splits)
qed (simp add: chargeShieldOf_def combat.refl)

lemma step_chargeEnergyOf: "step_ok s (chargeEnergyOf i s)"
proof (cases "ss_ships s i")
  case (Some x)
  obtain e where e: "fst (ChargeEnergy x) = x\<lparr>s_Energy := e\<rparr>" using ChargeEnergy_only by blast
  have "step_ok s (putShip i (fst (ChargeEnergy x)) s)"
    by (rule step_putShip [OF Some]) (simp add: e)
  then show ?thesis
    by (rule step_then_same) (auto simp: chargeEnergyOf_def Some markDirty_def split: prod.splits)
qed (simp add: chargeEnergyOf_def combat.refl)

lemma static_charge_ok: "static_ok r d \<Longrightarrow> static_ok r (fst (static_ChargeShield d)) \<and> worn d (fst (static_ChargeShield d))"
proof -
  assume ok: "static_ok r d"
  have "ds_Shield d \<le> ds_MaxShield d \<Longrightarrow> wrap64 (ds_Shield d + ds_ShieldRecharge d) = ds_Shield d + ds_ShieldRecharge d"
    using ok by (intro wrap64_id) (simp add: static_ok_def in64_def)
  then show ?thesis using ok
    by (auto simp: static_ChargeShield_def static_ok_def worn_def Let_def)
qed

lemma step_chargeStaticOf: "step_ok s (chargeStaticOf r s)"
proof (cases "ss_destructibles s r")
  case (Some d)
  have "step_ok s (putStatic r (fst (static_ChargeShield d)) s)"
    by (rule step_putStatic [OF Some static_charge_ok])
  then show ?thesis
    by (rule step_then_same) (auto simp: chargeStaticOf_def Some markDestructibleDirty_def split: prod.splits)
qed (simp add: chargeStaticOf_def combat.refl)

lemma step_sweepGate: "step_ok s (sweepGate r s)"
  by (simp add: sweepGate_def combat.refl step_removeDestructible)

lemma refitKnocked_ok:
  assumes "refit_ok w" "ship_ok i x"
  shows "ship_ok i (refitKnocked w knocked x) \<and> wounded x (refitKnocked w knocked x)"
proof -
  define v where "v = (if list_ex (\<lambda>m. eq_Type m = ''up_shield'') knocked then x\<lparr>s_ShieldGeneratorDestroyed := True\<rparr> else x)"
  define y where "y = v\<lparr>s_IsHidden := cloakEngagedFromEquipment (s_Equipment v)\<rparr>"
  define z where "z = (case w_refit w of Some f \<Rightarrow> f y | None \<Rightarrow> y)"
  have y: "ship_ok i y" "wounded x y" using assms(2) by (auto simp: y_def v_def)
  then have z: "ship_ok i z" "wounded x z"
    using assms(1) wounded_trans by (auto simp: z_def refit_ok_def split: option.splits)
  have "refitKnocked w knocked x =
      (if s_ShieldGeneratorDestroyed z then z\<lparr>s_MaxShield := 0, s_ShieldRecharge := 0, s_Shield := 0\<rparr> else z)"
    unfolding refitKnocked_def Let_def v_def [symmetric] y_def [symmetric] z_def [symmetric] ..
  then show ?thesis using z by (auto simp: ship_ok_def)
qed

lemma publishModuleKnocked_tables:
  "ss_ships (fold (publishModuleKnocked w x) ms s) = ss_ships s \<and>
   ss_destructibles (fold (publishModuleKnocked w x) ms s) = ss_destructibles s \<and>
   ss_torpedos (fold (publishModuleKnocked w x) ms s) = ss_torpedos s"
  by (induction ms arbitrary: s) (simp_all add: publishModuleKnocked_def)

lemma step_knockModules:
  assumes "refit_ok w"
  shows "step_ok s (knockModules w i s)"
proof (cases "ss_ships s i")
  case (Some x)
  obtain y knocked r where k: "KnockModule x (fraction (s_Shield x) (s_MaxShield x)) (fraction (s_HP x) (s_MaxHP x)) (ss_rng s) (w_Knock w)
      = ((y, knocked), r)" by (metis prod.exhaust)
  have "y = x\<lparr>s_Equipment := s_Equipment y\<rparr>"
    using KnockModule_partition [of x _ _ _ "w_Knock w" y knocked] k by (metis fst_conv)
  then obtain e where y: "y = x\<lparr>s_Equipment := e\<rparr>" by blast
  have "step_ok s (putShip i (refitKnocked w knocked y) s)"
  proof (rule step_putShip [OF Some])
    assume "ship_ok i x"
    then show "ship_ok i (refitKnocked w knocked y) \<and> wounded x (refitKnocked w knocked y)"
      using refitKnocked_ok [OF assms, of i y knocked] y by simp
  qed
  moreover have "step_ok s (s\<lparr>ss_rng := r\<rparr>)" by (rule step_same) simp_all
  moreover note step_then_same [of s "putShip i (refitKnocked w knocked y) s"]
  ultimately show ?thesis
    by (auto simp: knockModules_def Some k Let_def combat.refl publishModuleKnocked_tables markDirty_def putShip_def)
qed (simp add: knockModules_def combat.refl)

subsection \<open>Lasers\<close>

lemma step_putShip2:
  "step_ok s t \<Longrightarrow> ss_ships t i = Some x \<Longrightarrow> (ship_ok i x \<Longrightarrow> ship_ok i y \<and> wounded x y) \<Longrightarrow> step_ok s (putShip i y t)"
  by (rule combat.trans, assumption, rule step_putShip)

lemma step_putStatic2:
  "step_ok s t \<Longrightarrow> ss_destructibles t r = Some d \<Longrightarrow> (static_ok r d \<Longrightarrow> static_ok r e \<and> worn d e) \<Longrightarrow> step_ok s (putStatic r e t)"
  by (rule combat.trans, assumption, rule step_putStatic)

lemma step_putTorpedo2:
  "step_ok s t \<Longrightarrow> ss_torpedos t i = Some tp \<Longrightarrow> (t_ID tp = i \<Longrightarrow> 0 \<le> t_HP tp \<Longrightarrow> t_ID u = i \<and> 0 \<le> t_HP u) \<Longrightarrow> step_ok s (putTorpedo i u t)"
  by (rule combat.trans, assumption, rule step_putTorpedo)

lemma put_tables [simp]:
  "ss_ships (putShip i x s) = (ss_ships s)(i \<mapsto> x)" "ss_destructibles (putShip i x s) = ss_destructibles s"
  "ss_torpedos (putShip i x s) = ss_torpedos s" "ss_ships (putStatic r d s) = ss_ships s"
  "ss_destructibles (putStatic r d s) = (ss_destructibles s)(r \<mapsto> d)" "ss_torpedos (putStatic r d s) = ss_torpedos s"
  "ss_ships (putTorpedo k t s) = ss_ships s" "ss_destructibles (putTorpedo k t s) = ss_destructibles s"
  "ss_torpedos (putTorpedo k t s) = (ss_torpedos s)(k \<mapsto> t)"
  by (simp_all add: putShip_def putStatic_def putTorpedo_def)

lemma bookkeeping_tables [simp]:
  "ss_ships (markDirty i s) = ss_ships s" "ss_destructibles (markDirty i s) = ss_destructibles s" "ss_torpedos (markDirty i s) = ss_torpedos s"
  "ss_ships (addLaserEffect b s) = ss_ships s" "ss_destructibles (addLaserEffect b s) = ss_destructibles s" "ss_torpedos (addLaserEffect b s) = ss_torpedos s"
  "ss_ships (addMissileImpact m s) = ss_ships s" "ss_destructibles (addMissileImpact m s) = ss_destructibles s" "ss_torpedos (addMissileImpact m s) = ss_torpedos s"
  "ss_ships (addDroneImpact d s) = ss_ships s" "ss_destructibles (addDroneImpact d s) = ss_destructibles s" "ss_torpedos (addDroneImpact d s) = ss_torpedos s"
  "ss_ships (addTorpedoImpact t s) = ss_ships s" "ss_destructibles (addTorpedoImpact t s) = ss_destructibles s" "ss_torpedos (addTorpedoImpact t s) = ss_torpedos s"
  "ss_ships (markDroneDirty i s) = ss_ships s" "ss_destructibles (markDroneDirty i s) = ss_destructibles s" "ss_torpedos (markDroneDirty i s) = ss_torpedos s"
  "ss_ships (markTorpedoDirty i s) = ss_ships s" "ss_destructibles (markTorpedoDirty i s) = ss_destructibles s" "ss_torpedos (markTorpedoDirty i s) = ss_torpedos s"
  "ss_ships (markDestructibleDirty r s) = ss_ships s" "ss_destructibles (markDestructibleDirty r s) = ss_destructibles s" "ss_torpedos (markDestructibleDirty r s) = ss_torpedos s"
  "ss_ships (removeContainer c s) = ss_ships s" "ss_destructibles (removeContainer c s) = ss_destructibles s" "ss_torpedos (removeContainer c s) = ss_torpedos s"
  by (simp_all add: bookkeeping)

lemma step_ceaseFire: "ss_ships s i = Some x \<Longrightarrow> step_ok s (ceaseFire i x s)"
  by (rule step_then_same [OF step_putShip [of s i x "x\<lparr>s_AttackTarget := None\<rparr>"]]) (simp_all add: ceaseFire_def)

lemma step_fireLaserAtStatic:
  assumes a: "ss_ships s i = Some a"
  shows "step_ok s (fireLaserAtStatic w i a r s)"
proof (cases "ss_destructibles s r")
  case (Some d)
  obtain a' d' beam where fire: "FireLaserAt static_TakeDamage a r (ds_Pos d) (ds_HP d) d = ((a', d'), beam)"
    by (metis prod.exhaust)
  show ?thesis
  proof (cases "ds_HP d \<le> 0 \<or> \<not> staticAttackable w d a \<or> beam = None")
    case True
    then show ?thesis using Some fire step_ceaseFire [OF a] combat.refl by (auto simp: fireLaserAtStatic_def)
  next
    case False
    then obtain b where b: "beam = Some b" by blast
    note hit = static_dmg.fire_hit [OF fire [unfolded b]]
    have d': "static_ok r d \<Longrightarrow> static_ok r d' \<and> worn d d'"
      using static_hit_ok [of d "s_LaserDamage a" d'] hit(2) by (metis prod.collapse)
    let ?s = "putStatic r d' (putShip i a' s)"
    have "step_ok s (putShip i a' s)" by (rule step_putShip [OF a]) (simp add: hit(1))
    then have s1: "step_ok s ?s" by (rule step_putStatic2 [where d = d]) (use Some d' in auto)
    let ?t = "markDestructibleDirty r (markDirty i (addLaserEffect b ?s))"
    have s2: "step_ok s ?t" by (rule step_then_same [OF s1]) simp_all
    have s3: "step_ok s (putShip i (a'\<lparr>s_AttackTarget := None\<rparr>) ?t)" by (rule step_putShip2 [OF s2, of i a']) simp_all
    show ?thesis using False Some fire b s2 combat.trans [OF s3 step_killStatic]
      by (simp add: fireLaserAtStatic_def Let_def)
  qed
qed (simp add: fireLaserAtStatic_def step_ceaseFire a)

lemma step_fireLaserAtProjectile:
  assumes a: "ss_ships s i = Some a"
  shows "step_ok s (fireLaserAtProjectile i a r s)"
proof (cases "ss_torpedos s (ref_id r)")
  case (Some t)
  obtain a' t' beam where fire: "FireLaserAt torpedo_TakeDamage a r (t_Pos t) (t_HP t) t = ((a', t'), beam)"
    by (metis prod.exhaust)
  show ?thesis
  proof (cases "t_HP t \<le> 0 \<or> beam = None")
    case True
    then show ?thesis using Some fire step_ceaseFire [OF a] combat.refl by (auto simp: fireLaserAtProjectile_def)
  next
    case False
    then obtain b where b: "beam = Some b" by blast
    note hit = torpedo_dmg.fire_hit [OF fire [unfolded b]]
    have t': "0 \<le> t_HP t \<Longrightarrow> t_ID t' = t_ID t \<and> 0 \<le> t_HP t'"
      using torpedo_damage_ok [of t "s_LaserDamage a" t'] hit(2) by (metis prod.collapse)
    let ?s = "putTorpedo (ref_id r) t' (putShip i a' s)"
    have "step_ok s (putShip i a' s)" by (rule step_putShip [OF a]) (simp add: hit(1))
    then have s1: "step_ok s ?s" by (rule step_putTorpedo2 [where tp = t]) (use Some t' in auto)
    let ?t = "markTorpedoDirty (t_ID t) (markDirty i (addLaserEffect b ?s))"
    have s2: "step_ok s ?t" by (rule step_then_same [OF s1]) simp_all
    have s3: "step_ok s (putShip i (a'\<lparr>s_AttackTarget := None\<rparr>) ?t)" by (rule step_putShip2 [OF s2, of i a']) simp_all
    show ?thesis using False Some fire b s2 s3 by (simp add: fireLaserAtProjectile_def Let_def)
  qed
qed (simp add: fireLaserAtProjectile_def step_ceaseFire a)

lemma step_clearAttack: "step_ok s (clearAttack i s)"
  by (cases "ss_ships s i") (auto simp: clearAttack_def combat.refl intro!: step_putShip)

lemma step_putHit:
  assumes a: "ss_ships s i = Some a" and x: "ss_ships s j = Some x"
    and hit: "a' = a\<lparr>s_Energy := e\<rparr>" "x' = (fst (ApplyDamage ship_TakeDamage x n))\<lparr>s_LastAttacker := p\<rparr>"
  shows "step_ok s (putHit i a' j x' s)"
proof -
  have ok: "ship_ok j x \<Longrightarrow> ship_ok j x' \<and> wounded x x'"
    using ship_hit_ok [of x n "fst (ApplyDamage ship_TakeDamage x n)" "snd (ApplyDamage ship_TakeDamage x n)" j] hit(2) by simp
  show ?thesis
  proof (cases "i = j")
    case True
    then have [simp]: "x = a" using a x by simp
    have "step_ok s (putShip i (a'\<lparr>s_HP := s_HP x', s_Shield := s_Shield x', s_LastAttacker := s_LastAttacker x'\<rparr>) s)"
      by (rule step_putShip [OF a]) (use ok True hit(1) in \<open>auto simp: ship_ok_def wounded_def\<close>)
    then show ?thesis using True by (simp add: putHit_def)
  next
    case False
    have "step_ok s (putShip i a' s)" by (rule step_putShip [OF a]) (simp add: hit(1))
    then have "step_ok s (putShip j x' (putShip i a' s))"
      by (rule step_putShip2 [where x = x]) (use x False ok in auto)
    then show ?thesis using False by (simp add: putHit_def)
  qed
qed

lemma step_fireLaserAtShip:
  assumes w: "refit_ok w" and a: "ss_ships s i = Some a"
  shows "step_ok s (fireLaserAtShip w i a r s)"
proof (cases "ss_ships s (ref_id r)")
  case (Some x)
  obtain a' x' beam where fire: "FireLaser a x = ((a', x'), beam)" by (metis prod.exhaust)
  show ?thesis
  proof (cases "s_HP x \<le> 0 \<or> shipsAreFriendly w a x \<or> beam = None")
    case True
    then show ?thesis using Some fire step_ceaseFire [OF a] combat.refl by (auto simp: fireLaserAtShip_def)
  next
    case False
    then obtain b where b: "beam = Some b" by blast
    note hit = ship_dmg.fire_hit [OF fire [unfolded b FireLaser_def]]
    let ?s = "putHit i a' (ref_id r) (x'\<lparr>s_LastAttacker := s_PlayerID a\<rparr>) s"
    have "step_ok s ?s" by (rule step_putHit [OF a Some hit(1)]) (simp add: hit(2))
    then have s1: "step_ok s (markDirty (s_ID x) (markDirty i (addLaserEffect b ?s)))"
      by (rule step_then_same) simp_all
    show ?thesis using False Some fire b combat.trans [OF s1 step_clearAttack] combat.trans [OF s1 step_knockModules [OF w]]
      by (simp add: fireLaserAtShip_def Let_def)
  qed
qed (simp add: fireLaserAtShip_def step_ceaseFire a)

lemma step_fireLaserOf: "refit_ok w \<Longrightarrow> step_ok s (fireLaserOf w i s)"
  by (auto simp: fireLaserOf_def combat.refl step_fireLaserAtStatic step_fireLaserAtProjectile step_ceaseFire step_fireLaserAtShip
      split: option.splits)

subsection \<open>Towers, missiles, drones, torpedoes\<close>

lemma step_okI: "(sector_ok s \<Longrightarrow> step_ok s t) \<Longrightarrow> step_ok s t"
  by (auto simp: step_ok_def)

lemma SelectTowerTarget_in: "SelectTowerTarget t xs spec hostile = Some y \<Longrightarrow> y \<in> set xs"
proof -
  have "fold (towerStep t spec hostile) xs b = Some (z, dz) \<Longrightarrow> z \<in> set xs \<or> b = Some (z, dz)" for z dz b
  proof (induction xs arbitrary: b)
    case (Cons x xs)
    then have "z \<in> set xs \<or> towerStep t spec hostile x b = Some (z, dz)" by simp
    moreover have "towerStep t spec hostile x b = Some (z, dz) \<Longrightarrow> z = x \<or> b = Some (z, dz)"
      by (auto simp: towerStep_def Let_def split: if_splits option.splits)
    ultimately show ?case by auto
  qed simp
  then show "SelectTowerTarget t xs spec hostile = Some y \<Longrightarrow> y \<in> set xs"
    by (fastforce simp: SelectTowerTarget_def)
qed

lemma nearest_in: "nearest P pos from r2 xs = Some y \<Longrightarrow> y \<in> set xs \<and> P y"
proof -
  have "fold (nearestStep P pos from r2) xs (b, q) = (Some z, q') \<Longrightarrow> z \<in> set xs \<and> P z \<or> b = Some z" for z b q q'
  proof (induction xs arbitrary: b q)
    case (Cons x xs)
    obtain b1 q1 where step: "nearestStep P pos from r2 x (b, q) = (b1, q1)" by fastforce
    then have "z \<in> set xs \<and> P z \<or> b1 = Some z" using Cons by simp
    moreover have "b1 = b \<or> b1 = Some x \<and> P x"
      using step by (auto simp: nearestStep_def Let_def split: if_splits)
    ultimately show ?case by auto
  qed simp
  then show "nearest P pos from r2 xs = Some y \<Longrightarrow> y \<in> set xs \<and> P y"
    by (fastforce simp: nearest_def fst_def split: prod.splits)
qed

lemma entries_in: "x \<in> set (entries m ks) \<Longrightarrow> \<exists>k. m k = Some x"
  by (induction ks) (auto simp: entries_def List.map_filter_def split: if_splits)

lemma ship_entry:
  assumes "sector_ok s" "x \<in> set (entries (ss_ships s) ks)"
  shows "ss_ships s (s_ID x) = Some x"
proof -
  obtain k where k: "ss_ships s k = Some x" using entries_in [OF assms(2)] by blast
  then have "s_ID x = k" using assms(1) by (simp add: sector_ok_def ship_ok_def)
  then show ?thesis using k by simp
qed

lemma torpedo_entry:
  assumes "sector_ok s" "t \<in> set (entries (ss_torpedos s) ks)"
  shows "ss_torpedos s (t_ID t) = Some t"
proof -
  obtain k where k: "ss_torpedos s k = Some t" using entries_in [OF assms(2)] by blast
  then have "t_ID t = k" using assms(1) by (simp add: sector_ok_def)
  then show ?thesis using k by simp
qed

lemma nearestHostileTorpedo_entry:
  "sector_ok s \<Longrightarrow> nearestHostileTorpedo order s from r h = Some tp \<Longrightarrow> ss_torpedos s (t_ID tp) = Some tp"
  unfolding nearestHostileTorpedo_def by (blast dest: nearest_in torpedo_entry)

lemma step_torpedoHit:
  assumes "ss_torpedos s i = Some tp" "torpedo_TakeDamage tp n = (u, res)"
  shows "step_ok s (putTorpedo i u s)"
  by (rule step_putTorpedo [OF assms(1)]) (use torpedo_hit_ok [OF assms(2)] in auto)

lemma step_shipHit:
  assumes "ss_ships s i = Some x" "ApplyDamage ship_TakeDamage x n = (y, res)"
    and "\<And>j. ship_ok j y' = ship_ok j y" "\<And>z. wounded z y' = wounded z y"
  shows "step_ok s (putShip i y' s)"
  by (rule step_putShip [OF assms(1)]) (use ship_hit_ok [OF assms(2)] assms(3,4) in auto)

lemma step_fireTowerAtTorpedo:
  assumes "ss_torpedos s (t_ID tp) = Some tp"
  shows "step_ok s (fireTowerAtTorpedo t tp s)"
proof -
  obtain u res where u: "torpedo_TakeDamage tp (tw_Damage DefaultTowerSpec) = (u, res)" by fastforce
  show ?thesis by (rule step_then_same [OF step_torpedoHit [OF assms u]]) (simp_all add: fireTowerAtTorpedo_def u)
qed

lemma step_tickTower:
  assumes w: "refit_ok w"
  shows "step_ok s (tickTower w so to t s)"
proof (rule step_okI)
  assume ok: "sector_ok s"
  show ?thesis
  proof (cases "case so_OwnerID t of Some _ \<Rightarrow> Some (w_hostile w) | None \<Rightarrow> map_option (\<lambda>f _. f (so_Race t)) (w_raceHostile w)")
    case (Some pred)
    show ?thesis
    proof (cases "SelectTowerTarget t (entries (ss_ships s) (so (so_ID t))) DefaultTowerSpec pred")
      case None
      have "acquireTowerTorpedo w (to (so_ID t)) s t = Some tp \<Longrightarrow> step_ok s (fireTowerAtTorpedo t tp s)" for tp
        by (rule step_fireTowerAtTorpedo)
          (auto simp: acquireTowerTorpedo_def Let_def split: option.splits intro: nearestHostileTorpedo_entry [OF ok])
      then show ?thesis using Some None by (auto simp: tickTower_def combat.refl split: option.splits)
    next
      case target: (Some x)
      have x: "ss_ships s (s_ID x) = Some x" using SelectTowerTarget_in [OF target] ship_entry [OF ok] by blast
      obtain y res where y: "ApplyDamage ship_TakeDamage x (tw_Damage DefaultTowerSpec) = (y, res)" by fastforce
      define z where "z = (case so_OwnerID t of Some owner \<Rightarrow> y\<lparr>s_LastAttacker := owner\<rparr> | None \<Rightarrow> y)"
      define u where "u = addLaserEffect (towerBeam t (EntityRef EntityKindShip (s_ID x)) (s_Pos x)
          (wrap64 (ShieldAbsorbed res + HPAbsorbed res)) (Killed res)) (markDirty (s_ID x) (putShip (s_ID x) z s))"
      have "step_ok s (putShip (s_ID x) z s)"
        by (rule step_shipHit [OF x y]) (simp_all add: z_def split: option.splits)
      then have s1: "step_ok s u" by (rule step_then_same) (simp_all add: u_def)
      have "tickTower w so to t s = (if Killed res then u else knockModules w (s_ID x) u)"
        using Some target y by (simp add: tickTower_def Let_def z_def u_def)
      then show ?thesis using s1 combat.trans [OF s1 step_knockModules [OF w]] by simp
    qed
  qed (simp add: tickTower_def combat.refl)
qed

lemma step_hitContainer: "step_ok s (hitContainer w imp c n s)"
  by (rule step_same) (auto simp: hitContainer_def Let_def split: option.splits prod.splits)

lemma step_applyMissileHit:
  assumes w: "refit_ok w"
  shows "step_ok s (applyMissileHit w i m s)"
proof -
  consider "ref_kind (m_Target m) = EntityKindShip" | "ref_kind (m_Target m) = EntityKindContainer"
    | "ref_kind (m_Target m) \<noteq> EntityKindShip" "ref_kind (m_Target m) \<noteq> EntityKindContainer" by blast
  then show ?thesis
  proof cases
    case 1
    show ?thesis
    proof (cases "ss_ships s (ref_id (m_Target m))")
      case (Some x)
      obtain y res where y: "ApplyDamage ship_TakeDamage x (m_Damage m) = (y, res)" by fastforce
      have "step_ok s (putShip (ref_id (m_Target m)) (y\<lparr>s_LastAttacker := m_PlayerID m\<rparr>) s)"
        by (rule step_shipHit [OF Some y]) simp_all
      then have s1: "step_ok s (markDirty (s_ID x) (addMissileImpact imp
          (putShip (ref_id (m_Target m)) (y\<lparr>s_LastAttacker := m_PlayerID m\<rparr>) s)))" for imp
        by (rule step_then_same) simp_all
      show ?thesis using 1 Some y s1 combat.trans [OF s1 step_knockModules [OF w]]
        by (simp add: applyMissileHit_def Let_def)
    qed (simp add: 1 applyMissileHit_def combat.refl)
  next
    case 2
    then show ?thesis by (simp add: applyMissileHit_def step_hitContainer)
  next
    case 3
    show ?thesis
    proof (cases "ss_destructibles s (m_Target m)")
      case (Some d)
      obtain e res where e: "ApplyDamage static_TakeDamage d (m_Damage m) = (e, res)" by fastforce
      have "step_ok s (putStatic (m_Target m) e s)" by (rule step_putStatic [OF Some]) (rule static_hit_ok [OF e])
      then have s1: "step_ok s (addMissileImpact imp (putStatic (m_Target m) e s))" for imp
        by (rule step_then_same) simp_all
      then have "step_ok s (markDestructibleDirty (m_Target m) (addMissileImpact imp (putStatic (m_Target m) e s)))" for imp
        by (rule step_then_same) simp_all
      then show ?thesis using 3 Some e combat.trans [OF s1 step_killStatic]
        by (simp add: applyMissileHit_def Let_def)
    qed (use 3 in \<open>simp add: applyMissileHit_def combat.refl\<close>)
  qed
qed

lemma step_tickMissile:
  assumes w: "refit_ok w"
  shows "step_ok s (tickMissile w dt now i s)"
proof (cases "ss_missiles s i")
  case (Some m)
  have gone: "step_ok s (t\<lparr>ss_missiles := (ss_missiles t)(i := None)\<rparr>)" if "step_ok s t" for t
    by (rule step_then_same [OF that]) simp_all
  have "step_ok s (addMissileImpact imp s)" "step_ok s (s\<lparr>ss_missiles := mm\<rparr>)" for imp mm
    by (rule step_same; simp)+
  then show ?thesis using Some gone step_applyMissileHit [OF w]
    by (auto simp: tickMissile_def Let_def split: prod.splits missile_outcome.splits)
qed (simp add: tickMissile_def combat.refl)

lemma step_removeDrone: "step_ok s (removeDrone w i imp s)"
  by (rule step_same) (simp_all add: removeDrone_def Let_def addDroneImpact_def)

lemma step_droneFiresAtTorpedo:
  assumes "ss_torpedos s (t_ID tp) = Some tp"
  shows "step_ok s (droneFiresAtTorpedo i d tp s)"
proof -
  obtain u res where u: "torpedo_TakeDamage tp (d_Damage d) = (u, res)" by fastforce
  have "step_ok s (addDroneImpact imp (markTorpedoDirty (t_ID tp) (putTorpedo (t_ID tp) u s)))" for imp
    by (rule step_then_same [OF step_torpedoHit [OF assms u]]) simp_all
  then show ?thesis by (simp add: droneFiresAtTorpedo_def u combat.refl)
qed

lemma step_droneFiresAtShip:
  assumes w: "refit_ok w" and x: "ss_ships s (s_ID x) = Some x"
  shows "step_ok s (droneFiresAtShip w i d r x s)"
proof -
  obtain y res where y: "ApplyDamage ship_TakeDamage x (d_Damage d) = (y, res)" by fastforce
  have "step_ok s (putShip (s_ID x) (y\<lparr>s_LastAttacker := d_PlayerID d\<rparr>) s)"
    by (rule step_shipHit [OF x y]) simp_all
  then have s1: "step_ok s (markDirty (s_ID x) (addDroneImpact imp (putShip (s_ID x) (y\<lparr>s_LastAttacker := d_PlayerID d\<rparr>) s)))" for imp
    by (rule step_then_same) simp_all
  show ?thesis using y s1 combat.trans [OF s1 step_knockModules [OF w]]
    by (simp add: droneFiresAtShip_def Let_def combat.refl)
qed

lemma step_tickDrone:
  assumes w: "refit_ok w"
  shows "step_ok s (tickDrone w dt now so to i s)"
proof (rule step_okI)
  assume ok: "sector_ok s"
  show ?thesis
  proof (cases "ss_drones s i")
    case (Some d)
    show ?thesis
    proof (cases "ss_ships s (d_OwnerShipID d)")
      case owner: (Some owner)
      define own where "own = aliveShip s (d_Target d)"
      define ts where "ts = (case own of Some _ \<Rightarrow> own | None \<Rightarrow> acquireDroneTarget w (so i) s d)"
      define act where "act = (case (own, ts) of (None, Some x) \<Rightarrow> EntityRef EntityKindShip (s_ID x) | _ \<Rightarrow> d_Target d)"
      define tt where "tt = (if ts = None then acquireDroneTorpedo w (to i) s d else None)"
      define dest where "dest = (case ts of Some x \<Rightarrow> s_Pos x | None \<Rightarrow> (case tt of Some tp \<Rightarrow> t_Pos tp | None \<Rightarrow> s_Pos owner))"
      obtain d' oc where tick: "TickDrone (w_gomath w) d dest DefaultDroneSpec dt now = (d', oc)" by fastforce
      define u where "u = markDroneDirty i (s\<lparr>ss_drones := (ss_drones s)(i \<mapsto> d')\<rparr>)"
      have su: "step_ok s u" by (rule step_same) (simp_all add: u_def)
      have same: "ss_ships u = ss_ships s" "ss_torpedos u = ss_torpedos s" by (simp_all add: u_def)
      have ships: "ss_ships u (s_ID x) = Some x" if "ts = Some x" for x
      proof (cases own)
        case None
        then show ?thesis using that
          by (auto simp: ts_def acquireDroneTarget_def Let_def same split: if_splits dest!: nearest_in intro: ship_entry [OF ok])
      next
        case (Some y)
        then have "ss_ships s (ref_id (d_Target d)) = Some x"
          using that by (auto simp: ts_def own_def aliveShip_def split: if_splits option.splits)
        then show ?thesis using ok by (auto simp: same sector_ok_def ship_ok_def)
      qed
      have torps: "ss_torpedos u (t_ID tp) = Some tp" if "tt = Some tp" for tp
        using that nearestHostileTorpedo_entry [OF ok] by (auto simp: tt_def acquireDroneTorpedo_def same split: if_splits)
      have "step_ok s (case oc of DroneExpired \<Rightarrow> removeDrone w i (droneImpact i d' (d_Target d') 0 False True) s
          | DroneKeep \<Rightarrow> (case tt of Some tp \<Rightarrow> droneFiresAtTorpedo i d' tp u
               | None \<Rightarrow> (case ts of Some x \<Rightarrow> droneFiresAtShip w i d' act x u | None \<Rightarrow> u)))"
        using combat.trans [OF su step_droneFiresAtTorpedo [OF torps]] combat.trans [OF su step_droneFiresAtShip [OF w ships]] su
        by (auto simp: step_removeDrone split: drone_outcome.splits option.splits)
      moreover have "tickDrone w dt now so to i s = (if s_HP owner \<le> 0 then removeDrone w i (droneImpact i d (d_Target d) 0 False True) s else
          (case oc of DroneExpired \<Rightarrow> removeDrone w i (droneImpact i d' (d_Target d') 0 False True) s
          | DroneKeep \<Rightarrow> (case tt of Some tp \<Rightarrow> droneFiresAtTorpedo i d' tp u
               | None \<Rightarrow> (case ts of Some x \<Rightarrow> droneFiresAtShip w i d' act x u | None \<Rightarrow> u))))"
        unfolding tickDrone_def Some owner option.case Let_def own_def [symmetric] ts_def [symmetric]
          tt_def [symmetric] dest_def [symmetric] tick prod.case u_def [symmetric] by (simp only: act_def prod.case)
      ultimately show ?thesis by (simp add: step_removeDrone)
    qed (simp add: Some tickDrone_def step_removeDrone)
  qed (simp add: tickDrone_def combat.refl)
qed

lemma step_removeTorpedo: "step_ok s (removeTorpedo w i imp s)"
  by (rule step_dropTorpedo [where i = i]) (simp_all add: removeTorpedo_def Let_def addTorpedoImpact_def)

lemma step_afterBlast: "refit_ok w \<Longrightarrow> step_ok s (afterBlast w r s)"
proof -
  assume w: "refit_ok w"
  have m: "step_ok s (markDirty k s)" "step_ok s (markDestructibleDirty r s)" for k by (rule step_same; simp)+
  show ?thesis
    using m combat.trans [OF m(1) step_knockModules [OF w]] step_killStatic
    by (auto simp: afterBlast_def Let_def combat.refl split: option.splits)
qed

lemma splash_tables:
  assumes "ApplyDamageInRadius so to ships statics c r n p = ((ships', statics'), hits)"
  shows "rel_option (\<lambda>x y. ship_ok i x \<longrightarrow> ship_ok i y \<and> wounded x y) (ships i) (ships' i)"
    and "rel_option (\<lambda>d e. static_ok q d \<longrightarrow> static_ok q e \<and> worn d e) (statics q) (statics' q)"
proof -
  have one: "rel_option (\<lambda>x y. ship_ok i x \<longrightarrow> ship_ok i y \<and> wounded x y) (m i) (fst (splashShip c r2 n p k (m, hs)) i)" for m r2 k hs
  proof (cases "m k")
    case (Some x)
    have "ship_ok k x \<Longrightarrow> ship_ok k (fst (ApplyDamage ship_TakeDamage x n)) \<and> wounded x (fst (ApplyDamage ship_TakeDamage x n))"
      using ship_hit_ok by (metis prod.collapse)
    then show ?thesis using Some by (auto simp: splashShip_def intro!: option.rel_refl)
  qed (auto simp: splashShip_def intro!: option.rel_refl)
  have ships: "rel_option (\<lambda>x y. ship_ok i x \<longrightarrow> ship_ok i y \<and> wounded x y) (m i) (fst (fold (splashShip c r2 n p) ks (m, hs)) i)" for m r2 ks hs
  proof (induction ks arbitrary: m hs)
    case (Cons k ks)
    obtain m1 hs1 where s1: "splashShip c r2 n p k (m, hs) = (m1, hs1)" by fastforce
    have "rel_option (\<lambda>x y. ship_ok i x \<longrightarrow> ship_ok i y \<and> wounded x y) (m i) (m1 i)" using one [of m r2 k hs] s1 by simp
    then show ?case using Cons [of m1 hs1] s1
      by (cases "m i"; cases "m1 i") (auto simp: option_rel_Some1 intro: wounded_trans)
  qed (auto intro!: option.rel_refl)
  have one': "rel_option (\<lambda>d e. static_ok q d \<longrightarrow> static_ok q e \<and> worn d e) (m q) (fst (splashStatic c r2 n k (m, hs)) q)" for m r2 k hs
  proof (cases "m k")
    case (Some d)
    have "static_ok k d \<Longrightarrow> static_ok k (fst (ApplyDamage static_TakeDamage d n)) \<and> worn d (fst (ApplyDamage static_TakeDamage d n))"
      using static_hit_ok by (metis prod.collapse)
    then show ?thesis using Some by (auto simp: splashStatic_def intro!: option.rel_refl)
  qed (auto simp: splashStatic_def intro!: option.rel_refl)
  have statics: "rel_option (\<lambda>d e. static_ok q d \<longrightarrow> static_ok q e \<and> worn d e) (m q) (fst (fold (splashStatic c r2 n) ks (m, hs)) q)" for m r2 ks hs
  proof (induction ks arbitrary: m hs)
    case (Cons k ks)
    obtain m1 hs1 where s1: "splashStatic c r2 n k (m, hs) = (m1, hs1)" by fastforce
    have "rel_option (\<lambda>d e. static_ok q d \<longrightarrow> static_ok q e \<and> worn d e) (m q) (m1 q)" using one' [of m r2 k hs] s1 by simp
    then show ?case using Cons [of m1 hs1] s1
      by (cases "m q"; cases "m1 q") (auto simp: option_rel_Some1 intro: worn_trans)
  qed (auto intro!: option.rel_refl)
  have A: "ships' = ships \<or> (\<exists>ks r2. ships' = fst (fold (splashShip c r2 n p) ks (ships, [])))"
    and B: "statics' = statics \<or> (\<exists>ks r2 hs. statics' = fst (fold (splashStatic c r2 n) ks (statics, hs)))"
    using assms by (auto simp: ApplyDamageInRadius_def Let_def split: if_splits prod.splits) (metis fst_conv)+
  show "rel_option (\<lambda>x y. ship_ok i x \<longrightarrow> ship_ok i y \<and> wounded x y) (ships i) (ships' i)"
    using A ships by (auto intro!: option.rel_refl)
  show "rel_option (\<lambda>d e. static_ok q d \<longrightarrow> static_ok q e \<and> worn d e) (statics q) (statics' q)"
    using B statics by (auto intro!: option.rel_refl)
qed

lemma step_blast:
  assumes "ApplyDamageInRadius so to (ss_ships s) (ss_destructibles s) c r n p = ((ships', statics'), hits)"
  shows "step_ok s (s\<lparr>ss_ships := ships', ss_destructibles := statics'\<rparr>)"
proof -
  have ships: "rel_option (\<lambda>x y. ship_ok i x \<longrightarrow> ship_ok i y \<and> wounded x y) (ss_ships s i) (ships' i)"
    and statics: "rel_option (\<lambda>d e. static_ok q d \<longrightarrow> static_ok q e \<and> worn d e) (ss_destructibles s q) (statics' q)" for i q
    using splash_tables [OF assms] by blast+
  show ?thesis
    unfolding step_ok_def
  proof (intro impI conjI)
    assume ok: "sector_ok s"
    have "ship_ok i y \<and> (\<exists>x. ss_ships s i = Some x \<and> wounded x y)" if "ships' i = Some y" for i y
      using that ok ships [of i] by (auto simp: option_rel_Some2 sector_ok_def)
    moreover have d: "static_ok q e \<and> (\<exists>d. ss_destructibles s q = Some d \<and> worn d e)" if "statics' q = Some e" for q e
      using that ok statics [of q] by (auto simp: option_rel_Some2 sector_ok_def)
    ultimately show "sector_ok (s\<lparr>ss_ships := ships', ss_destructibles := statics'\<rparr>)"
      using ok by (simp add: sector_ok_def)
    have "rel_option wounded (ss_ships s i) (ships' i)" for i
    proof (cases "ss_ships s i")
      case (Some x)
      then have "ship_ok i x" using ok by (simp add: sector_ok_def)
      then show ?thesis using Some ships [of i] by (auto simp: option_rel_Some1)
    qed (use ships [of i] in simp)
    then show "fought s (s\<lparr>ss_ships := ships', ss_destructibles := statics'\<rparr>)"
      using d by (simp add: fought_def)
  qed
qed

lemma TickTorpedo_keeps: "TickTorpedo gm t p b dt now = (u, oc) \<Longrightarrow> t_ID u = t_ID t \<and> t_HP u = t_HP t"
  by (auto simp: TickTorpedo_def Let_def split: prod.splits if_splits)

lemma step_tickTorpedo:
  assumes w: "refit_ok w"
  shows "step_ok s (tickTorpedo w dt now so to i s)"
proof (cases "ss_torpedos s i")
  case (Some t)
  define tp where "tp = resolveTargetPos s (t_Target t)"
  obtain u oc where tick: "TickTorpedo (w_gomath w) t (case tp of Some p \<Rightarrow> p | None \<Rightarrow> zeroVec) (tp \<noteq> None) dt now = (u, oc)"
    by fastforce
  obtain ships' statics' hits where blast: "ApplyDamageInRadius (so i) (to i) (ss_ships s) (ss_destructibles s)
      (t_Pos u) (t_SplashRadius u) (t_Damage u) (t_PlayerID u) = ((ships', statics'), hits)" by (metis prod.exhaust)
  have "step_ok s (putTorpedo i u s)"
    by (rule step_putTorpedo [OF Some]) (use TickTorpedo_keeps [OF tick] in auto)
  then have keep: "step_ok s (markTorpedoDirty i (putTorpedo i u s))" by (rule step_then_same) simp_all
  have "step_ok s (fold (afterBlast w) hits (s\<lparr>ss_ships := ships', ss_destructibles := statics'\<rparr>))"
    by (rule combat.trans [OF step_blast [OF blast] combat.fold_kept]) (rule step_afterBlast [OF w])
  note hit = combat.trans [OF this step_removeTorpedo]
  have "tickTorpedo w dt now so to i s =
     (if t_HP t \<le> 0 then removeTorpedo w i (torpedoImpact i t (Fin 0) False True False) s
      else if (case ss_ships s (t_OwnerShipID t) of None \<Rightarrow> True | Some owner \<Rightarrow> s_HP owner \<le> 0)
      then removeTorpedo w i (torpedoImpact i t (Fin 0) False False True) s
      else (case oc of TorpedoKeep \<Rightarrow> markTorpedoDirty i (putTorpedo i u s)
        | TorpedoExpired \<Rightarrow> removeTorpedo w i (torpedoImpact i u (Fin 0) False False True) s
        | TorpedoHit \<Rightarrow> removeTorpedo w i (torpedoImpact i u (t_SplashRadius u) True False False)
            (fold (afterBlast w) hits (s\<lparr>ss_ships := ships', ss_destructibles := statics'\<rparr>))))"
    unfolding tickTorpedo_def Some option.case Let_def tp_def [symmetric] tick prod.case blast ..
  then show ?thesis using keep hit by (simp add: step_removeTorpedo split: torpedo_outcome.split)
qed (simp add: tickTorpedo_def combat.refl)

lemma step_combatPhases:
  assumes w: "refit_ok w"
  shows "step_ok s (combatPhases w ord dt now s)"
proof -
  have r: "step_ok s (chargeShields a s)" "step_ok s (chargeStatics b s)" "step_ok s (sweepDestroyedGates w b s)"
    "step_ok s (chargeEnergies a s)" "step_ok s (fireLasers w a s)" "step_ok s (tickTowers w f g s)"
    "step_ok s (tickMissiles w dt now a s)" "step_ok s (tickDrones w dt now f g a s)" "step_ok s (tickTorpedos w dt now f h a s)"
    for s a b f g h
    unfolding chargeShields_def chargeStatics_def chargeEnergies_def fireLasers_def tickTowers_def
      tickMissiles_def tickDrones_def tickTorpedos_def
    subgoal by (rule combat.fold_kept) (rule step_chargeShieldOf)
    subgoal by (rule combat.fold_kept) (rule step_chargeStaticOf)
    subgoal by (auto simp: sweepDestroyedGates_def combat.refl intro: combat.fold_kept step_sweepGate)
    subgoal by (rule combat.fold_kept) (rule step_chargeEnergyOf)
    subgoal by (rule combat.fold_kept) (rule step_fireLaserOf [OF w])
    subgoal by (rule combat.fold_kept) (rule step_tickTower [OF w])
    subgoal by (rule combat.fold_kept) (rule step_tickMissile [OF w])
    subgoal by (rule combat.fold_kept) (rule step_tickDrone [OF w])
    subgoal by (rule combat.fold_kept) (rule step_tickTorpedo [OF w])
    done
  show ?thesis
    unfolding combatPhases_def
    by (rule combat.trans [OF _ r(9)], rule combat.trans [OF _ r(8)], rule combat.trans [OF _ r(7)],
        rule combat.trans [OF _ r(6)], rule combat.trans [OF _ r(5)], rule combat.trans [OF _ r(4)],
        rule combat.trans [OF _ r(3)], rule combat.trans [OF _ r(2)], rule r(1))
qed

lemma newSectorState_ok:
  assumes "\<forall>x \<in> set initial. 0 \<le> s_HP x \<and> 0 \<le> s_Shield x \<and> 0 \<le> s_MaxShield x \<and>
      0 \<le> s_ShieldRecharge x \<and> in64 (s_MaxShield x + s_ShieldRecharge x)"
    and "\<forall>t \<in> set torpedos. 0 \<le> t_HP t"
    and "\<forall>d \<in> set (DestructiblesFromStatics statics). static_ok (ds_Ref d) d"
  shows "sector_ok (newSectorState i initial drones torpedos containers asteroids statics now topo rng)"
  using assms by (auto simp: sector_ok_def newSectorState_def ship_ok_def coldShip_def dest!: byKey_Some)

section \<open>A concrete sector\<close>

text \<open>
  A worker with the default configuration and an event bus, whose collaborators answer every request,
  and a sector with two ships that attack each other and a wreck.
\<close>

definition demoAI :: ai_configs where
  "demoAI = \<lparr>cfg_race = race_withDefaults \<lparr>rcf_DetectionRange = Fin 0, rcf_FleeThreshold = Fin 0, rcf_PatrolRadius = Fin 0, rcf_PatrolStep = Fin 0,
       rcf_FormationSpacing = Fin 0, rcf_SquadRetreatFraction = Fin 0, rcf_PeakRebaseTicks = 0, rcf_WarshipClassIDs = (\<lambda>_. False)\<rparr>,
     cfg_trader = trader_withDefaults \<lparr>tc_ArriveRadius = Fin 100, tc_HaulQty = 0\<rparr>,
     cfg_miner = miner_withDefaults \<lparr>mc_ArriveRadius = Fin 100, mc_MineRange = Fin 0, mc_DrillRate = 0, mc_LoadTarget = 0\<rparr>,
     cfg_passenger = passenger_withDefaults \<lparr>pc_ArriveRadius = Fin 100, pc_DockWaitTicks = 17, pc_MaxPassengers = 33\<rparr>\<rparr>"

definition demoWorker :: worker where
  "demoWorker = \<lparr>w_GateRange = Fin 50, w_DockRange = Fin 50, w_ContainerTTL = 300, w_PickupRange = Fin 50,
     w_MineRange = Fin 50, w_MineRate = 10, w_MineEnergyCost = 1, w_TransporterRange = Fin 50,
     w_TransporterEnergyCost = 100, w_ExternalDockTurns = 1, w_Knock = DefaultKnockConfig,
     w_CaptureChance = Fin 819, w_KhaakCaptureChance = Fin 876, w_CaptureRange = Fin 50,
     w_JumpDriveCooldownL1 = 3600, w_JumpDriveCooldownL2 = 1800, w_JumpDriveForbiddenSectors = [],
     w_AntijumpRange = Fin 640, w_JammerRange = Fin 2000, w_HackRange = Fin 50, w_ScanRange = Fin 100, w_ScanCooldownTicks = 10,
     w_SnapshotInterval = 30, w_TickInterval = 3, w_now = 0,
     w_gomath = \<lparr>m_Cos = (\<lambda>_. Fin 1), m_Sin = (\<lambda>_. Fin 0)\<rparr>, w_hostile = (\<lambda>_ _. False), w_raceHostile = None,
     w_relations = None, w_hangers = None, w_refit = None, w_policeRaces = {}, w_hasPolice = False, w_hasRobber = False,
     w_hasReputation = False, w_hasRepo = True, w_hasContainers = False, w_hasTowers = False,
     w_hasSatellites = False, w_hasJammers = False, w_hasGates = False, w_hasDrones = False,
     w_hasTorpedos = False, w_hasAsteroids = False, w_hasOrdnance = False, w_hasInstaller = False,
     w_hasMinerLogistics = False, w_hasTraderLogistics = False, w_hasBus = True, w_hasTopology = False,
     w_hasRouter = False, w_hasAIState = False, w_hasAIRegistry = False, w_buildController = registry_Build,
     w_AIConfigs = demoAI, w_AIHostile = (\<lambda>_ _. False), w_AOIRadius = Fin 200, w_StealthDetectRange = Fin 50,
     w_SatelliteRevealRadius = Fin 1000, w_nextSector = (\<lambda>_ _ _. None), w_reply = (\<lambda>_ _. Done)\<rparr>"

definition demoShip :: "int \<Rightarrow> int \<Rightarrow> int \<Rightarrow> ship" where
  "demoShip i hp target = zeroShip\<lparr>s_ID := i, s_PlayerID := 10 * i, s_SectorID := 1, s_HP := hp, s_MaxHP := 100,
     s_Energy := 20, s_MaxEnergy := 20, s_LaserDamage := 7, s_LaserRange := Fin 100, s_LaserEnergyCost := 5,
     s_AttackTarget := Some (EntityRef EntityKindShip target)\<rparr>"

definition demoStatics :: sector_statics where
  "demoStatics = \<lparr>Stations = [], Shipyards = [], TradeStations = [], Pirbases = [], LaserTowers = [], Satellites = [], Jammers = []\<rparr>"

definition demoSector :: sector_state where
  "demoSector = newSectorState 1 [demoShip 1 50 2, demoShip 2 40 1, demoShip 3 0 1] [] [] [] []
     demoStatics 0 (world_New [] []) (\<lambda>_. Fin 0)"

definition demoOrders :: orders where
  "demoOrders = \<lparr>o_shields = [2, 1, 3], o_statics = [], o_gates = [], o_energies = [1, 2, 3], o_lasers = [1, 3, 2],
     o_towerShips = (\<lambda>_. []), o_towerTorpedos = (\<lambda>_. []), o_missiles = [], o_droneShips = (\<lambda>_. []),
     o_droneTorpedos = (\<lambda>_. []), o_drones = [], o_blastShips = (\<lambda>_. []), o_blastStatics = (\<lambda>_. []), o_torpedos = []\<rparr>"

lemma demoSector_ok: "sector_ok demoSector"
  unfolding demoSector_def
  by (rule newSectorState_ok) (simp_all add: demoShip_def zeroShip_def in64_def DestructiblesFromStatics_def demoStatics_def)

lemma demoWorker_refit: "refit_ok demoWorker"
  by (simp add: refit_ok_def demoWorker_def)

text \<open>
  C37: The combat phases of a tick, whatever the order in which the loops visit their maps, keep the
  sector well formed (keys match identities, hulls and shields are never negative), and they only
  wound: every ship that was there is still there, with the same owner, sector, position and
  dock, and with at most the hull it had; no ship appears; and a static that remains is one that was
  there, unmoved, with at most its old hull.
\<close>

theorem combat_only_wounds:
  assumes "sector_ok s" "refit_ok w"
  shows "sector_ok (combatPhases w ord dt now s) \<and>
    (\<forall>i. rel_option wounded (ss_ships s i) (ss_ships (combatPhases w ord dt now s) i)) \<and>
    (\<forall>r e. ss_destructibles (combatPhases w ord dt now s) r = Some e \<longrightarrow>
      (\<exists>d. ss_destructibles s r = Some d \<and> worn d e))"
  using assms step_combatPhases [OF assms(2), of s ord dt now] by (simp add: step_ok_def fought_def)

theorem combat_only_wounds_witness:
  "sector_ok demoSector \<and> refit_ok demoWorker \<and>
   sector_ok (combatPhases demoWorker demoOrders (Fin 1) 0 demoSector) \<and>
   rel_option wounded (Some (coldShip (demoShip 2 40 1)))
     (ss_ships (combatPhases demoWorker demoOrders (Fin 1) 0 demoSector) 2)"
proof -
  have "ss_ships demoSector 2 = Some (coldShip (demoShip 2 40 1))"
    by (simp add: demoSector_def newSectorState_def byKey_def coldShip_def demoShip_def)
  then show ?thesis
    using combat_only_wounds [OF demoSector_ok demoWorker_refit, of demoOrders "Fin 1" 0] demoSector_ok demoWorker_refit
    by metis
qed

section \<open>The kill sweep\<close>

definition kills :: "request list \<Rightarrow> killed_event list" where
  "kills reqs = List.map_filter (\<lambda>r. case r of PublishKilled ev \<Rightarrow> Some ev | _ \<Rightarrow> None) reqs"

lemma kills_append [simp]: "kills (a @ b) = kills a @ kills b"
  by (simp add: kills_def List.map_filter_def)

lemma kills_Nil [simp]: "kills [] = []"
  by (simp add: kills_def List.map_filter_def)

lemma kills_Cons [simp]: "kills (r # rs) = (case r of PublishKilled ev \<Rightarrow> ev # kills rs | _ \<Rightarrow> kills rs)"
  by (cases r) (simp_all add: kills_def List.map_filter_def)

definition killEvent :: "int \<Rightarrow> ship \<Rightarrow> killed_event" where
  "killEvent sector x = \<lparr>ke_Victim = EntityRef EntityKindShip (s_ID x), ke_SectorID = sector, ke_Pos = s_Pos x,
     ke_Killer = s_LastAttacker x, ke_VictimPlayer = s_PlayerID x,
     ke_VictimIsSpacesuit = s_IsSpacesuit x, ke_VictimPassengers = s_PassengerPlayers x\<rparr>"

lemma fold_addContainer:
  "ss_ships (fold addContainer cs s) = ss_ships s \<and> ss_log (fold addContainer cs s) = ss_log s \<and>
   ss_sectorID (fold addContainer cs s) = ss_sectorID s"
  by (induction cs arbitrary: s) (simp_all add: addContainer_def Let_def)

lemma dropLoot_frame:
  "ss_ships (dropLoot w x s) = ss_ships s \<and> kills (ss_log (dropLoot w x s)) = kills (ss_log s) \<and>
   ss_sectorID (dropLoot w x s) = ss_sectorID s"
  by (auto simp: dropLoot_def ask_def Let_def fold_addContainer split: prod.splits reply.splits)

lemma killShip_effect:
  "ss_ships (killShip w x s) = (ss_ships s)(s_ID x := None)"
  "ss_sectorID (killShip w x s) = ss_sectorID s"
  "kills (ss_log (killShip w x s)) = kills (ss_log s) @ (if w_hasBus w then [killEvent (ss_sectorID s) x] else [])"
  using dropLoot_frame [of w x s]
  by (auto simp: killShip_def publishEntityKilled_def publishKilled_def removeKilled_def tell_def ask_def killEvent_def Let_def)

abbreviation reap :: "worker \<Rightarrow> int list \<Rightarrow> sector_state \<Rightarrow> sector_state" where
  "reap w \<equiv> fold (\<lambda>i s. case ss_ships s i of Some x \<Rightarrow> killShip w x s | None \<Rightarrow> s)"

lemma sweep_list:
  assumes "distinct ds" "\<And>i. i \<in> set ds \<Longrightarrow> \<exists>x. ss_ships s i = Some x \<and> s_ID x = i"
  shows "ss_ships (reap w ds s) = (\<lambda>i. if i \<in> set ds then None else ss_ships s i) \<and>
    kills (ss_log (reap w ds s)) =
      kills (ss_log s) @ (if w_hasBus w then map (\<lambda>i. killEvent (ss_sectorID s) (the (ss_ships s i))) ds else [])"
  using assms
proof (induction ds arbitrary: s)
  case (Cons i ds)
  obtain x where x: "ss_ships s i = Some x" "s_ID x = i" using Cons.prems(2) by (metis list.set_intros(1))
  let ?s = "killShip w x s"
  have pre: "\<And>j. j \<in> set ds \<Longrightarrow> \<exists>y. ss_ships ?s j = Some y \<and> s_ID y = j"
    using Cons.prems x by (auto simp: killShip_effect)
  have d: "distinct ds" "i \<notin> set ds" using Cons.prems by auto
  note IH = Cons.IH [OF d(1) pre]
  have "ss_ships (reap w (i # ds) s) = (\<lambda>j. if j \<in> set (i # ds) then None else ss_ships s j)"
    using IH x by (auto simp: killShip_effect fun_eq_iff)
  moreover have "map (\<lambda>j. killEvent (ss_sectorID s) (the (ss_ships ?s j))) ds = map (\<lambda>j. killEvent (ss_sectorID s) (the (ss_ships s j))) ds"
    using d x by (auto simp: killShip_effect)
  ultimately show ?case using IH x by (simp add: killShip_effect)
qed simp

lemma sweep_tables:
  assumes "distinct order" "set order = dom (ss_ships s)" "sector_ok s" "w_hasBus w"
  shows "ss_ships (sweepKilledShips w order s) =
      (\<lambda>i. case ss_ships s i of Some x \<Rightarrow> if isDead x then None else Some x | None \<Rightarrow> None)"
    and "kills (ss_log (sweepKilledShips w order s)) = kills (ss_log s) @
      map (\<lambda>i. killEvent (ss_sectorID s) (the (ss_ships s i))) (filter (\<lambda>i. isDead (the (ss_ships s i))) order)"
proof -
  define ds where "ds = filter (\<lambda>i. case ss_ships s i of Some ship \<Rightarrow> isDead ship | None \<Rightarrow> False) order"
  have ds: "ds = filter (\<lambda>i. isDead (the (ss_ships s i))) order"
    unfolding ds_def by (rule filter_cong) (use assms(2) in \<open>auto split: option.split\<close>)
  have mem: "i \<in> set ds \<longleftrightarrow> (\<exists>x. ss_ships s i = Some x \<and> isDead x)" for i
    using assms(2) by (auto simp: ds_def split: option.splits)
  have "distinct ds" using assms(1) by (simp add: ds_def)
  moreover have "\<exists>x. ss_ships s i = Some x \<and> s_ID x = i" if "i \<in> set ds" for i
    using that mem assms(3) by (auto simp: sector_ok_def ship_ok_def)
  ultimately have run: "ss_ships (sweepKilledShips w order s) = (\<lambda>i. if i \<in> set ds then None else ss_ships s i)"
    "kills (ss_log (sweepKilledShips w order s)) = kills (ss_log s) @ map (\<lambda>i. killEvent (ss_sectorID s) (the (ss_ships s i))) ds"
    unfolding sweepKilledShips_def Let_def ds_def [symmetric] using sweep_list [of ds s w] assms(4) by auto
  show "ss_ships (sweepKilledShips w order s) =
      (\<lambda>i. case ss_ships s i of Some x \<Rightarrow> if isDead x then None else Some x | None \<Rightarrow> None)"
    unfolding run(1) mem by (auto simp: fun_eq_iff split: option.splits)
  show "kills (ss_log (sweepKilledShips w order s)) = kills (ss_log s) @
      map (\<lambda>i. killEvent (ss_sectorID s) (the (ss_ships s i))) (filter (\<lambda>i. isDead (the (ss_ships s i))) order)"
    using run(2) ds by simp
qed

text \<open>
  C38: The kill sweep removes exactly the ships whose hull is gone (a ship without hull data is left
  alone), keeps every other ship as it is, and announces each removed ship once, naming the player who
  last hit it as the killer.
\<close>

theorem sweep_removes_the_dead:
  assumes "distinct order" "set order = dom (ss_ships s)" "sector_ok s" "w_hasBus w"
  shows "ss_ships (sweepKilledShips w order s) =
      (\<lambda>i. case ss_ships s i of Some x \<Rightarrow> if isDead x then None else Some x | None \<Rightarrow> None) \<and>
    kills (ss_log (sweepKilledShips w order s)) = kills (ss_log s) @
      map (\<lambda>i. killEvent (ss_sectorID s) (the (ss_ships s i))) (filter (\<lambda>i. isDead (the (ss_ships s i))) order)"
  using sweep_tables [OF assms] by blast

lemma demoSector_dom: "dom (ss_ships demoSector) = {1, 2, 3}"
  by (auto simp: demoSector_def newSectorState_def byKey_def coldShip_def demoShip_def split: if_splits)

theorem sweep_removes_the_dead_witness:
  "distinct [3, 1, 2 :: int] \<and> set [3, 1, 2] = dom (ss_ships demoSector) \<and> sector_ok demoSector \<and> w_hasBus demoWorker \<and>
   ss_ships (sweepKilledShips demoWorker [3, 1, 2] demoSector) 3 = None \<and>
   ss_ships (sweepKilledShips demoWorker [3, 1, 2] demoSector) 1 = Some (coldShip (demoShip 1 50 2)) \<and>
   map ke_VictimPlayer (kills (ss_log (sweepKilledShips demoWorker [3, 1, 2] demoSector))) = [30]"
proof -
  have at: "ss_ships demoSector 1 = Some (coldShip (demoShip 1 50 2))" "ss_ships demoSector 2 = Some (coldShip (demoShip 2 40 1))"
    "ss_ships demoSector 3 = Some (coldShip (demoShip 3 0 1))" "ss_log demoSector = []"
    by (simp_all add: demoSector_def newSectorState_def byKey_def coldShip_def demoShip_def)
  have dead: "isDead (coldShip (demoShip 3 0 1))" "\<not> isDead (coldShip (demoShip 1 50 2))" "\<not> isDead (coldShip (demoShip 2 40 1))"
    "s_PlayerID (coldShip (demoShip 3 0 1)) = 30"
    by (simp_all add: isDead_def coldShip_def demoShip_def)
  have pre: "distinct [3, 1, 2 :: int]" "set [3, 1, 2] = dom (ss_ships demoSector)" "w_hasBus demoWorker"
    by (auto simp: demoSector_dom demoWorker_def)
  show ?thesis
    using sweep_removes_the_dead [OF pre(1,2) demoSector_ok pre(3)] pre demoSector_ok
    by (simp add: at dead killEvent_def)
qed

end
