(* ===== verification/Authority.thy ===== *)
theory Authority
  imports Actions CombatInvariant
begin

text \<open>
  What a player's command may touch: its own ship, and for a capture the victim. Every command is
  shown to leave all other ships of the sector as they were, and to leave the whole sector as it was when
  the ship is not the player's.
\<close>

definition only :: "int set \<Rightarrow> sector_state \<Rightarrow> sector_state \<Rightarrow> bool" where
  "only I s t \<longleftrightarrow> (\<forall>j. j \<notin> I \<longrightarrow> ss_ships t j = ss_ships s j)"

interpretation frame: preorder_rel "only I" for I
  by unfold_locales (auto simp: only_def)

lemma only_same: "ss_ships t = ss_ships s \<Longrightarrow> only I s t"
  by (simp add: only_def)

lemma only_mono: "only I s t \<Longrightarrow> I \<subseteq> J \<Longrightarrow> only J s t"
  by (auto simp: only_def)

text \<open>Bookkeeping does not touch the ships.\<close>

lemma ships_frame [simp]:
  "ss_ships (markDirty i s) = ss_ships s" "ss_ships (tell w b r s) = ss_ships s" "ss_ships (snd (ask w r s)) = ss_ships s"
  "ss_ships (immediateSave w x s) = ss_ships s" "ss_ships (snd (saveShip w x s)) = ss_ships s"
  "ss_ships (markTorpedoDirty i s) = ss_ships s" "ss_ships (markDroneDirty i s) = ss_ships s"
  "ss_ships (removeContainer k s) = ss_ships s" "ss_ships (addContainer c s) = ss_ships s"
  "ss_ships (addSatellite o' s) = ss_ships s" "ss_ships (addJammer o' s) = ss_ships s"
  "ss_ships (removeDestructible q s) = ss_ships s" "ss_ships (recordOutbound i s) = ss_ships s"
  "ss_ships (snd (allocMissileID s)) = ss_ships s"
  by (simp_all add: markDirty_def immediateSave_def saveShip_def ask_def markTorpedoDirty_def markDroneDirty_def
      removeContainer_def addContainer_def addSatellite_def addJammer_def removeDestructible_def recordOutbound_def
      allocMissileID_def Let_def split: prod.split)

lemma only_putShip [intro]: "only I s t \<Longrightarrow> i \<in> I \<Longrightarrow> only I s (putShip i x t)"
  by (auto simp: only_def putShip_def)

lemma only_updShip [intro]: "only I s t \<Longrightarrow> i \<in> I \<Longrightarrow> only I s (updShip i f t)"
  by (auto simp: only_def updShip_def)

lemma only_frame [simp]:
  "only I s (markDirty i t) = only I s t" "only I s (tell w b r t) = only I s t"
  "only I s (immediateSave w x t) = only I s t" "only I s (markTorpedoDirty i t) = only I s t"
  "only I s (removeContainer k t) = only I s t" "only I s (addContainer c t) = only I s t"
  "only I s (addSatellite o' t) = only I s t" "only I s (addJammer o' t) = only I s t"
  "only I s (removeDestructible q t) = only I s t"
  "only I s (t\<lparr>ss_missiles := m\<rparr>) = only I s t" "only I s (t\<lparr>ss_torpedos := tm\<rparr>) = only I s t"
  "only I s (t\<lparr>ss_drones := dm, ss_dronesDirty := dd\<rparr>) = only I s t" "only I s (t\<lparr>ss_rng := g\<rparr>) = only I s t"
  "only I s (t\<lparr>ss_statics := st\<rparr>) = only I s t"
  by (simp_all add: only_def)

lemma ownShip_Inr: "ownShip p i s = Inr x \<longleftrightarrow> ss_ships s i = Some x \<and> s_PlayerID x = p"
  by (auto simp: ownShip_def split: option.splits)

lemma ask_ships: "ask w r s = (a, t) \<Longrightarrow> ss_ships t = ss_ships s"
  by (auto simp: ask_def)

lemma saveShip_ships: "saveShip w x s = (e, t) \<Longrightarrow> ss_ships t = ss_ships s"
  by (metis ships_frame(5) snd_conv)

lemma only_executeUndock: "only {i} s (snd (executeUndock w i x s))"
  by (auto simp: executeUndock_def Let_def only_def putShip_def dest!: saveShip_ships split: prod.splits option.splits)

lemma only_executeDock: "only {i} s (snd (executeDock w i k o' x s))"
  by (auto simp: executeDock_def Let_def only_def putShip_def publishPlayerDocked_def dest!: saveShip_ships split: prod.splits option.splits)

lemma only_applyShipDock: "only {i} s (snd (applyShipDock w i x h s))"
  by (auto simp: applyShipDock_def Let_def only_def putShip_def dest!: saveShip_ships split: prod.splits option.splits)

lemma only_executeDockToShip: "only {i} s (snd (executeDockToShip w order i x h s))"
  by (auto simp: executeDockToShip_def only_applyShipDock only_same split: option.splits)

lemma only_Dock: "only {i} s (snd (DockCommand w order p i r s))"
  by (auto simp: DockCommand_def dockToShip_def only_executeDockToShip only_executeDock only_same split: sum.splits)

lemma only_Undock: "only {i} s (snd (UndockCommand w p i s))"
  by (auto simp: UndockCommand_def only_executeUndock only_same split: sum.splits)

lemma only_ExternalDock: "only {i} s (snd (ExternalDockCommand w p i r s))"
  by (auto simp: ExternalDockCommand_def only_same only_putShip split: sum.splits option.splits)

lemma undockFirst_ships: "undockFirst w i x s = (e, t) \<Longrightarrow> only {i} s t"
  using only_executeUndock [of i s w x] by (auto simp: undockFirst_def only_same split: if_splits)

lemma only_Move: "only {i} s (snd (MoveCommand w p i v r s))"
  by (auto simp: MoveCommand_def only_same dest!: undockFirst_ships split: sum.splits prod.splits option.splits)

lemma only_SetCourse: "only {i} s (snd (SetCourseCommand w p i c s))"
  by (auto simp: SetCourseCommand_def only_same dest!: undockFirst_ships split: sum.splits prod.splits option.splits)

lemma only_UpdateEquipment: "only {i} s (snd (UpdateShipEquipmentCommand p i v s))"
  by (auto simp: UpdateShipEquipmentCommand_def only_same only_putShip split: sum.splits)

lemma only_Attack: "only {i} s (snd (AttackCommand w p i r s))"
  by (auto simp: AttackCommand_def only_same only_putShip Let_def split: sum.splits)

lemma only_CeaseFire: "only {i} s (snd (CeaseFireCommand w p i s))"
  by (auto simp: CeaseFireCommand_def only_same only_putShip Let_def split: sum.splits)

lemma only_payEnergy: "only {i} s t \<Longrightarrow> only {i} s (payEnergy i c t)"
  by (simp add: payEnergy_def only_updShip)

lemma spendMissile_ships: "spendMissile w x g s = (e, t) \<Longrightarrow> ss_ships t = ss_ships s"
  by (auto simp: spendMissile_def dest: ask_ships split: if_splits prod.splits)

lemma launchTorpedo_ships: "launchTorpedo w x g t' s = (e, t) \<Longrightarrow> ss_ships t = ss_ships s"
  by (auto simp: launchTorpedo_def dest: ask_ships split: if_splits prod.splits)

lemma launchDrones_ships: "launchDrones w x g ds s = (e, t) \<Longrightarrow> ss_ships t = ss_ships s"
  by (auto simp: launchDrones_def dest: ask_ships split: if_splits prod.splits sum.splits)

lemma recallDrones_ships: "recallDrones w x g ds s = (e, t) \<Longrightarrow> ss_ships t = ss_ships s"
  by (auto simp: recallDrones_def dest: ask_ships split: if_splits prod.splits)

lemma allocMissileID_ships: "allocMissileID s = (k, t) \<Longrightarrow> ss_ships t = ss_ships s"
  by (auto simp: allocMissileID_def Let_def)

lemma only_LaunchMissile: "only {i} s (snd (LaunchMissileCommand w p i r c g n e s))"
  by (auto simp: LaunchMissileCommand_def Let_def only_same intro!: only_updShip only_payEnergy
      dest!: spendMissile_ships allocMissileID_ships split: sum.splits prod.splits option.splits)

lemma only_LaunchTorpedo: "only {i} s (snd (LaunchTorpedoCommand w p i r c g e s))"
  by (auto simp: LaunchTorpedoCommand_def Let_def only_same intro!: only_payEnergy
      dest!: launchTorpedo_ships split: sum.splits prod.splits option.splits)

lemma fold_addDrone_ships: "ss_ships (fold addDrone xs s) = ss_ships s"
  by (induction xs arbitrary: s) (simp_all add: addDrone_def)

lemma only_LaunchDrone: "only {i} s (snd (LaunchDroneCommand w order p i r n g t s))"
  by (auto simp: LaunchDroneCommand_def Let_def only_same fold_addDrone_ships
      dest!: launchDrones_ships split: sum.splits prod.splits option.splits)

lemma only_RecallDrones: "only {i} s (snd (RecallDronesCommand w order p i g s))"
  by (auto simp: RecallDronesCommand_def Let_def only_same dest!: recallDrones_ships split: sum.splits prod.splits)

lemma only_Mine: "only {i} s (snd (MineCommand w p i a s))"
  by (auto simp: MineCommand_def only_same only_putShip split: sum.splits option.splits)

lemma notifyHandoff_ships: "ss_ships (notifyHandoff w x t s) = ss_ships s"
proof -
  have "ss_ships (fold (\<lambda>pid s. tell w True (PublishHandoff pid a (ss_sectorID s) t) s) ps s) = ss_ships s" for a ps s
    by (induction ps arbitrary: s) simp_all
  then show ?thesis by (simp add: notifyHandoff_def publishPlayerJumped_def Let_def)
qed

lemma only_executeJump: "only {s_ID x} s (snd (executeJump w x t v s))"
  by (auto simp: executeJump_def Let_def only_same evict_def only_def notifyHandoff_ships recordOutbound_def
      dest!: saveShip_ships ask_ships split: prod.splits option.splits)

definition keyed :: "sector_state \<Rightarrow> bool" where
  "keyed s \<longleftrightarrow> (\<forall>i x. ss_ships s i = Some x \<longrightarrow> s_ID x = i)"

lemma executeJump_only: "executeJump w x t v s = (e, u) \<Longrightarrow> s_ID x = i \<Longrightarrow> only {i} s u"
  using only_executeJump [of x s w t v] by simp

lemma only_Jump:
  assumes "keyed s"
  shows "only {i} s (snd (JumpCommand w p i g s))"
proof -
  have "ss_ships s i = Some x \<Longrightarrow> only {i} s (snd (executeJump w x t v s))" for x t v
    using only_executeJump [of x s w t v] assms by (simp add: keyed_def)
  then show ?thesis
    by (auto simp: JumpCommand_def only_same ownShip_Inr split: sum.splits option.splits)
qed

lemma only_JumpDrive:
  assumes "keyed s"
  shows "only {i} s (snd (JumpDriveCommand w order p i t s))"
proof -
  have "only {i} s u" if "ss_ships s i = Some x"
    "executeJump w (x\<lparr>s_Shield := 0, s_LastJumpAt := Some n\<rparr>) t v (putShip i (x\<lparr>s_Shield := 0, s_LastJumpAt := Some n\<rparr>) (s\<lparr>ss_rng := g\<rparr>)) = (e, u)"
    for x v n g e u
  proof -
    have "s_ID (x\<lparr>s_Shield := 0, s_LastJumpAt := Some n\<rparr>) = i" using that(1) assms by (simp add: keyed_def)
    note executeJump_only [OF that(2) this]
    moreover have "only {i} s (putShip i (x\<lparr>s_Shield := 0, s_LastJumpAt := Some n\<rparr>) (s\<lparr>ss_rng := g\<rparr>))"
      by (rule only_putShip) (simp_all add: only_same)
    ultimately show ?thesis by (rule frame.trans [rotated])
  qed
  then show ?thesis
    by (auto simp: JumpDriveCommand_def only_same ownShip_Inr Let_def intro!: only_putShip split: sum.splits option.splits prod.splits)
qed

lemma only_Pickup: "only {i} s (snd (PickupContainerCommand w p i k s))"
  by (auto simp: PickupContainerCommand_def pickupContainer_def only_same dest!: ask_ships split: sum.splits option.splits prod.splits)

lemma only_Transport: "only {i} s (snd (TransportCargoCommand w p i j g q s))"
  by (auto simp: TransportCargoCommand_def only_same Let_def intro!: only_updShip dest!: ask_ships
      split: sum.splits option.splits prod.splits)

lemma only_Hack: "only {i} s (snd (HackStationCommand w p i r e s))"
  by (auto simp: HackStationCommand_def only_same Let_def intro!: only_updShip only_payEnergy dest!: ask_ships
      split: sum.splits option.splits prod.splits)

lemma only_InstallSatellite: "only {i} s (snd (InstallSatelliteCommand w p i g s))"
  by (auto simp: InstallSatelliteCommand_def installSatellite_def only_same dest!: ask_ships split: sum.splits prod.splits)

lemma only_InstallJammer: "only {i} s (snd (InstallJammerCommand w p i g s))"
  by (auto simp: InstallJammerCommand_def installJammer_def only_same dest!: ask_ships split: sum.splits prod.splits)

lemma only_Dismantle: "only {i} s (snd (DismantleStaticCommand w p i r g s))"
  by (auto simp: DismantleStaticCommand_def dismantleStatic_def only_same Let_def dest!: ask_ships split: sum.splits option.splits prod.splits)

lemma only_SetAccess: "only {i} s (snd (SetShipAccessCommand w p i b s))"
  by (auto simp: SetShipAccessCommand_def only_same Let_def dest!: saveShip_ships intro!: only_putShip
      split: sum.splits option.splits prod.splits)

lemma only_killShip: "only I s t \<Longrightarrow> s_ID x \<in> I \<Longrightarrow> only I s (killShip w x t)"
  by (auto simp: only_def killShip_effect)

lemma only_boardingFailed: "s_ID x = j \<Longrightarrow> only I s t \<Longrightarrow> j \<in> I \<Longrightarrow> only I s (boardingFailed w p j x t)"
  by (auto simp: boardingFailed_def Let_def intro!: only_killShip only_putShip)

lemma only_changeShipOwner:
  assumes "changeShipOwner w j x p t = (e, u)" "only I s t" "j \<in> I"
  shows "only I s u"
proof -
  have "only I t u"
    using assms(1,3) by (auto simp: changeShipOwner_def Let_def publishShipCaptured_def only_same intro!: only_putShip
        dest!: saveShip_ships split: prod.splits option.splits)
  then show ?thesis using assms(2) by (rule frame.trans [rotated])
qed

lemma only_Capture:
  assumes "keyed s"
  shows "only {i, ref_id r} s (snd (CaptureShipCommand w p i r e s))"
proof -
  have pay: "only {i, ref_id r} s ((payEnergy i e s)\<lparr>ss_rng := g\<rparr>)" for g
    using only_mono [OF only_payEnergy [OF frame.refl], of i "{i, ref_id r}" s e] by simp
  have id: "s_ID (the (ss_ships s (ref_id r))) = ref_id r" if "ss_ships s (ref_id r) \<noteq> None"
    using assms that by (auto simp: keyed_def)
  have "ss_ships s (ref_id r) \<noteq> None" if "boardingRefused w x c (ss_ships s (ref_id r)) = None" for x c
    using that by (auto simp: boardingRefused_def split: option.splits)
  then show ?thesis using pay id
    by (auto simp: CaptureShipCommand_def only_same Let_def publishShipCapture_def
        intro!: only_boardingFailed intro: only_changeShipOwner split: sum.splits option.splits prod.splits)
qed

text \<open>A ship that is not the player's: every command stops at its first check.\<close>

lemmas command_defs = MoveCommand_def SetCourseCommand_def UpdateShipEquipmentCommand_def AttackCommand_def CeaseFireCommand_def
  LaunchMissileCommand_def LaunchTorpedoCommand_def LaunchDroneCommand_def RecallDronesCommand_def MineCommand_def
  CaptureShipCommand_def DockCommand_def UndockCommand_def ExternalDockCommand_def JumpCommand_def JumpDriveCommand_def
  PickupContainerCommand_def TransportCargoCommand_def HackStationCommand_def InstallSatelliteCommand_def
  InstallJammerCommand_def DismantleStaticCommand_def SetShipAccessCommand_def

lemma command_refused: "ownShip p (shipOf c) s = Inl e \<Longrightarrow> applyCommand w so dro p c s = (Some e, s)"
  by (cases c) (simp_all add: command_defs failing_def)

fun victimOf :: "command \<Rightarrow> int option" where
  "victimOf (Capture _ r _) = Some (ref_id r)"
| "victimOf _ = None"

lemmas command_only = only_Move only_SetCourse only_UpdateEquipment only_Attack only_CeaseFire only_LaunchMissile
  only_LaunchTorpedo only_LaunchDrone only_RecallDrones only_Mine only_Dock only_Undock only_ExternalDock only_Jump
  only_JumpDrive only_Pickup only_Transport only_Hack only_InstallSatellite only_InstallJammer only_Dismantle only_SetAccess

lemma command_touches:
  assumes "keyed s"
  shows "only ({shipOf c} \<union> set_option (victimOf c)) s (snd (applyCommand w so dro p c s))"
  using only_Capture [OF assms] by (cases c) (simp_all add: command_only assms failing_def insert_commute)


lemma demoSector_keyed: "keyed demoSector"
  using demoSector_ok by (auto simp: keyed_def sector_ok_def ship_ok_def)


end
