(* ===== verification/Fleet.thy ===== *)
theory Fleet
  imports Authority
begin

text \<open>
  What a worker may do to the ships of its sector. Every command keeps the sector well-formed and hands
  ships over cleanly: a ship that left as a jump event on the bus is gone from the sector, was in it, and
  left once. The relation is a preorder, so loops and sequences inherit it.
\<close>

section \<open>What a sector sends\<close>

text \<open>The jump events the bus accepted, read off the log of requests and the answers to them.\<close>

definition accepted :: "worker \<Rightarrow> request list \<Rightarrow> request \<Rightarrow> jump_event list" where
  "accepted w pre r = (case r of PublishJump ev \<Rightarrow> if reply_err (w_reply w pre r) = None then [ev] else [] | _ \<Rightarrow> [])"

fun sentFrom :: "worker \<Rightarrow> request list \<Rightarrow> request list \<Rightarrow> jump_event list" where
  "sentFrom w pre [] = []"
| "sentFrom w pre (r # rs) = accepted w pre r @ sentFrom w (pre @ [r]) rs"

definition sent :: "worker \<Rightarrow> sector_state \<Rightarrow> jump_event list" where
  "sent w s = sentFrom w [] (ss_log s)"

lemma sentFrom_snoc: "sentFrom w pre (xs @ [r]) = sentFrom w pre xs @ accepted w (pre @ xs) r"
  by (induction xs arbitrary: pre) auto

lemma sent_ask: "sent w (snd (ask w r s)) = sent w s @ accepted w (ss_log s) r"
  by (simp add: sent_def ask_def sentFrom_snoc)

lemma sent_log: "ss_log t = ss_log s \<Longrightarrow> sent w t = sent w s"
  by (simp add: sent_def)

abbreviation shipID :: "jump_event \<Rightarrow> int" where
  "shipID ev \<equiv> s_ID (je_Ship ev)"

abbreviation wf_event :: "jump_event \<Rightarrow> bool" where
  "wf_event ev \<equiv> ship_ok (shipID ev) (je_Ship ev)"

text \<open>
  A sector may keep its ships, lose some, and send some away; a ship it sent is one it had and no
  longer has.
\<close>

definition handed :: "worker \<Rightarrow> sector_state \<Rightarrow> sector_state \<Rightarrow> bool" where
  "handed w s t \<longleftrightarrow> (sector_ok s \<longrightarrow> sector_ok t \<and> (\<exists>evs. sent w t = sent w s @ evs \<and> list_all wf_event evs \<and> distinct (map shipID evs) \<and>
     shipID ` set evs \<inter> dom (ss_ships t) = {} \<and> dom (ss_ships t) \<union> shipID ` set evs \<subseteq> dom (ss_ships s)))"

lemma disjoint_chain:
  "A \<inter> T = {} \<Longrightarrow> T \<union> A \<subseteq> S \<Longrightarrow> B \<inter> U = {} \<Longrightarrow> U \<union> B \<subseteq> T \<Longrightarrow> (A \<union> B) \<inter> U = {} \<and> U \<union> (A \<union> B) \<subseteq> S"
  by blast

interpretation transfer: preorder_rel "handed w" for w
proof unfold_locales
  show "handed w s s" for s by (auto simp: handed_def)
  fix s t u assume st: "handed w s t" and tu: "handed w t u"
  show "handed w s u"
    unfolding handed_def
  proof (intro impI)
    assume "sector_ok s"
    with st obtain a where a: "sector_ok t" "sent w t = sent w s @ a" "distinct (map shipID a)"
      "shipID ` set a \<inter> dom (ss_ships t) = {}" "dom (ss_ships t) \<union> shipID ` set a \<subseteq> dom (ss_ships s)" "list_all wf_event a"
      unfolding handed_def by blast
    with tu obtain b where b: "sector_ok u" "sent w u = sent w t @ b" "distinct (map shipID b)"
      "shipID ` set b \<inter> dom (ss_ships u) = {}" "dom (ss_ships u) \<union> shipID ` set b \<subseteq> dom (ss_ships t)" "list_all wf_event b"
      unfolding handed_def by blast
    have "shipID ` set a \<inter> shipID ` set b = {}" using a(4) b(5) by blast
    then have "distinct (map shipID (a @ b))" using a(3) b(3) by simp
    moreover have "shipID ` set (a @ b) \<inter> dom (ss_ships u) = {}"
      "dom (ss_ships u) \<union> shipID ` set (a @ b) \<subseteq> dom (ss_ships s)"
      unfolding set_append image_Un using disjoint_chain [OF a(4,5) b(4,5)] by blast+
    moreover have "list_all wf_event (a @ b)" using a(6) b(6) by simp
    ultimately show "sector_ok u \<and> (\<exists>evs. sent w u = sent w s @ evs \<and> list_all wf_event evs \<and> distinct (map shipID evs) \<and>
       shipID ` set evs \<inter> dom (ss_ships u) = {} \<and> dom (ss_ships u) \<union> shipID ` set evs \<subseteq> dom (ss_ships s))"
      using b(1,2) unfolding a(2) append.assoc by blast
  qed
qed

text \<open>Quiet steps: nothing sent, the same ships.\<close>

lemma handed_same:
  "ss_ships t = ss_ships s \<Longrightarrow> ss_destructibles t = ss_destructibles s \<Longrightarrow> ss_torpedos t = ss_torpedos s \<Longrightarrow>
   sent w t = sent w s \<Longrightarrow> handed w s t"
  by (auto simp: handed_def sector_ok_def)

lemma handed_putShip: "ss_ships s i = Some y \<Longrightarrow> (ship_ok i y \<Longrightarrow> ship_ok i x) \<Longrightarrow> handed w s (putShip i x s)"
  by (auto simp: handed_def sector_ok_def putShip_def sent_def)

lemma handed_updShip: "(\<And>x. ship_ok i x \<Longrightarrow> ship_ok i (f x)) \<Longrightarrow> handed w s (updShip i f s)"
  by (auto simp: handed_def sector_ok_def updShip_def sent_def split: if_splits)

lemma accepted_other: "\<forall>ev. r \<noteq> PublishJump ev \<Longrightarrow> accepted w pre r = []"
  by (cases r) (simp_all add: accepted_def)

lemma handed_tell: "\<forall>ev. r \<noteq> PublishJump ev \<Longrightarrow> handed w s (tell w b r s)"
  by (rule handed_same) (simp_all add: tell_def ask_def sent_ask [unfolded ask_def, simplified] accepted_other)

lemma ask_tables: "ask w r s = (a, t) \<Longrightarrow> ss_ships t = ss_ships s \<and> ss_destructibles t = ss_destructibles s \<and> ss_torpedos t = ss_torpedos s"
  by (auto simp: ask_def)

lemma handed_ask: "ask w r s = (a, t) \<Longrightarrow> \<forall>ev. r \<noteq> PublishJump ev \<Longrightarrow> handed w s t"
  using sent_ask [of w r s] by (intro handed_same) (auto simp: accepted_other dest: ask_tables)

lemma handed_saveShip:
  assumes "saveShip w x s = (e, t)"
  shows "handed w s t"
proof (cases "w_hasRepo w")
  case True
  obtain r u where u: "ask w (SaveShip x) s = (r, u)" by fastforce
  have "t = u" using assms True by (simp add: saveShip_def u)
  with handed_ask [OF u] show ?thesis by simp
qed (use assms in \<open>simp add: saveShip_def transfer.refl\<close>)

lemma handed_log:
  "ss_ships t = ss_ships s \<Longrightarrow> ss_destructibles t = ss_destructibles s \<Longrightarrow> ss_torpedos t = ss_torpedos s \<Longrightarrow>
   ss_log t = ss_log s \<Longrightarrow> handed w s t"
  by (rule handed_same) (auto simp: sent_def)

text \<open>The same, as continuations of a step.\<close>

lemma handed_then [intro]:
  "handed w s t \<Longrightarrow> handed w s (markDirty i t)"
  "handed w s t \<Longrightarrow> handed w s (markTorpedoDirty i t)"
  "handed w s t \<Longrightarrow> handed w s (removeContainer k t)"
  "handed w s t \<Longrightarrow> handed w s (addContainer c t)"
  "handed w s t \<Longrightarrow> handed w s (t\<lparr>ss_missiles := m\<rparr>)"
  "handed w s t \<Longrightarrow> handed w s (t\<lparr>ss_drones := dm, ss_dronesDirty := dd\<rparr>)"
  "handed w s t \<Longrightarrow> handed w s (t\<lparr>ss_rng := g\<rparr>)"
  "handed w s t \<Longrightarrow> handed w s (t\<lparr>ss_statics := st\<rparr>)"
  by (erule transfer.trans, rule handed_log, (simp_all add: markDirty_def markTorpedoDirty_def removeContainer_def
      addContainer_def Let_def)[4])+

lemma handed_removeDestructible [intro]: "handed w s t \<Longrightarrow> handed w s (removeDestructible q t)"
  by (erule transfer.trans) (auto simp: handed_def sector_ok_def removeDestructible_def sent_def)

lemma handed_deploy [intro]:
  "handed w s t \<Longrightarrow> static_ok (EntityRef EntityKindSatellite (so_ID x)) (destructible EntityKindSatellite x) \<Longrightarrow> handed w s (addSatellite x t)"
  "handed w s t \<Longrightarrow> static_ok (EntityRef EntityKindJammer (so_ID x)) (destructible EntityKindJammer x) \<Longrightarrow> handed w s (addJammer x t)"
  by (erule transfer.trans, force simp: handed_def sector_ok_def addSatellite_def addJammer_def sent_def)+

lemma handed_newTorpedo [intro]:
  "handed w s t \<Longrightarrow> t_ID x = k \<Longrightarrow> 0 \<le> t_HP x \<Longrightarrow> handed w s (t\<lparr>ss_torpedos := (ss_torpedos t)(k \<mapsto> x)\<rparr>)"
  by (erule transfer.trans) (auto simp: handed_def sector_ok_def sent_def)

lemma handed_put [intro]: "handed w s t \<Longrightarrow> ss_ships t i = Some y \<Longrightarrow> (ship_ok i y \<Longrightarrow> ship_ok i x) \<Longrightarrow> handed w s (putShip i x t)"
  by (erule transfer.trans, erule handed_putShip)

lemma handed_upd [intro]: "handed w s t \<Longrightarrow> (\<And>x. ship_ok i x \<Longrightarrow> ship_ok i (f x)) \<Longrightarrow> handed w s (updShip i f t)"
  by (erule transfer.trans, erule handed_updShip)

text \<open>The fields that a flying ship changes are none that make it well-formed.\<close>

lemma ship_ok_flight [simp]:
  "ship_ok i (x\<lparr>s_Pos := v\<rparr>) = ship_ok i x" "ship_ok i (x\<lparr>s_Vel := v\<rparr>) = ship_ok i x" "ship_ok i (x\<lparr>s_LastStep := v\<rparr>) = ship_ok i x"
  "ship_ok i (x\<lparr>s_Direction := v\<rparr>) = ship_ok i x" "ship_ok i (x\<lparr>s_Target := t\<rparr>) = ship_ok i x" "ship_ok i (x\<lparr>s_FinalTarget := c\<rparr>) = ship_ok i x"
  "ship_ok i (x\<lparr>s_CurrentTargetRef := r\<rparr>) = ship_ok i x" "ship_ok i (x\<lparr>s_MiningTarget := m\<rparr>) = ship_ok i x"
  "ship_ok i (x\<lparr>s_Docked := r\<rparr>) = ship_ok i x" "ship_ok i (x\<lparr>s_ExternalDock := d\<rparr>) = ship_ok i x"
  "ship_ok i (x\<lparr>s_MissileJustFired := b\<rparr>) = ship_ok i x" "ship_ok i (x\<lparr>s_PlayerID := p\<rparr>) = ship_ok i x"
  "ship_ok i (x\<lparr>s_Race := n\<rparr>) = ship_ok i x" "ship_ok i (x\<lparr>s_PassengerPlayers := ps\<rparr>) = ship_ok i x"
  "ship_ok i (x\<lparr>s_IsOpen := b\<rparr>) = ship_ok i x" "ship_ok i (x\<lparr>s_SectorID := k\<rparr>) = ship_ok i x"
  "ship_ok i (x\<lparr>s_LastJumpAt := j\<rparr>) = ship_ok i x" "ship_ok i (x\<lparr>s_Passengers := n\<rparr>) = ship_ok i x"
  by (simp_all add: ship_ok_def)

lemma handed_tells [intro]: "handed w s t \<Longrightarrow> \<forall>ev. r \<noteq> PublishJump ev \<Longrightarrow> handed w s (tell w b r t)"
  by (erule transfer.trans, erule handed_tell)

lemma handed_saved [intro]: "handed w s t \<Longrightarrow> handed w s (immediateSave w x t)"
  unfolding immediateSave_def by (rule handed_tells) simp_all

lemma handed_pays [intro]: "handed w s t \<Longrightarrow> handed w s (payEnergy i c t)"
  by (auto simp: payEnergy_def intro!: handed_then(1) handed_upd)

declare transfer.refl [intro]

section \<open>Every command\<close>

lemma handed_undock: "ss_ships s i = Some x \<Longrightarrow> executeUndock w i x s = (e, t) \<Longrightarrow> handed w s t"
  by (auto simp: executeUndock_def Let_def dest: handed_saveShip saveShip_ships intro!: handed_then(1) handed_put
      split: prod.splits option.splits)

lemma handed_undockFirst: "ss_ships s i = Some x \<Longrightarrow> undockFirst w i x s = (e, t) \<Longrightarrow> handed w s t"
  using handed_undock by (auto simp: undockFirst_def split: if_splits)

lemma handed_Move: "handed w s (snd (MoveCommand w p i v r s))"
  by (auto simp: MoveCommand_def ownShip_Inr dest: handed_undockFirst intro!: handed_then(1) handed_upd
      split: sum.splits prod.splits option.splits)

lemma handed_SetCourse: "handed w s (snd (SetCourseCommand w p i c s))"
  by (auto simp: SetCourseCommand_def ownShip_Inr dest: handed_undockFirst intro!: handed_then(1) handed_upd
      split: sum.splits prod.splits option.splits)

text \<open>Sane values of a refit: the shipyard computes them from the catalogue.\<close>

definition refit_sane :: "refit_values \<Rightarrow> bool" where
  "refit_sane v \<longleftrightarrow> 0 \<le> rv_MaxShield v \<and> 0 \<le> rv_ShieldRecharge v \<and> in64 (rv_MaxShield v + rv_ShieldRecharge v)"

lemma handed_UpdateEquipment: "refit_sane v \<Longrightarrow> handed w s (snd (UpdateShipEquipmentCommand p i v s))"
  by (auto simp: UpdateShipEquipmentCommand_def ownShip_Inr refitted_def refit_sane_def ship_ok_def intro!: handed_then(1) handed_put split: sum.splits)

lemma handed_Attack: "handed w s (snd (AttackCommand w p i r s))"
  by (auto simp: AttackCommand_def ownShip_Inr Let_def intro!: handed_saved handed_then(1) handed_put split: sum.splits)

lemma handed_CeaseFire: "handed w s (snd (CeaseFireCommand w p i s))"
  by (auto simp: CeaseFireCommand_def ownShip_Inr Let_def intro!: handed_saved handed_then(1) handed_put split: sum.splits)

lemma handed_spendMissile: "spendMissile w x g s = (e, t) \<Longrightarrow> handed w s t"
  by (auto simp: spendMissile_def dest: handed_ask split: if_splits prod.splits)

lemma handed_launchTorpedo: "launchTorpedo w x g t' s = (e, t) \<Longrightarrow> handed w s t"
  by (auto simp: launchTorpedo_def dest: handed_ask split: if_splits prod.splits)

lemma handed_launchDrones: "launchDrones w x g ds s = (e, t) \<Longrightarrow> handed w s t"
  by (auto simp: launchDrones_def dest: handed_ask split: if_splits prod.splits sum.splits)

lemma handed_recallDrones: "recallDrones w x g ds s = (e, t) \<Longrightarrow> handed w s t"
  by (auto simp: recallDrones_def dest: handed_ask split: if_splits prod.splits)

lemma handed_alloc: "allocMissileID s = (k, t) \<Longrightarrow> handed w s t"
  by (auto simp: allocMissileID_def Let_def intro!: handed_log)

lemma handed_LaunchMissile: "handed w s (snd (LaunchMissileCommand w p i r c g n e s))"
  by (auto simp: LaunchMissileCommand_def Let_def dest: handed_spendMissile handed_alloc
      intro!: handed_upd handed_pays handed_then(5) intro: transfer.trans split: sum.splits prod.splits option.splits)

lemma launched_torpedo_hull: "0 \<le> t_HP (LaunchTorpedo k c (DefaultTorpedoSpec c) x r v n)"
  by (auto simp: LaunchTorpedo_def DefaultTorpedoSpec_def torpedoSpecsByClass_def torpedoClass2_def torpedoClass3_def split: option.split if_splits)

lemma handed_LaunchTorpedo: "handed w s (snd (LaunchTorpedoCommand w p i r c g e s))"
  by (auto simp: LaunchTorpedoCommand_def Let_def launched_torpedo_hull dest: handed_launchTorpedo
      intro!: handed_pays handed_then(2) handed_newTorpedo split: sum.splits prod.splits option.splits)

lemma handed_addDrones: "handed w s t \<Longrightarrow> handed w s (fold addDrone xs t)"
proof (erule transfer.trans, rule handed_log)
  show "ss_ships (fold addDrone xs t) = ss_ships t" "ss_destructibles (fold addDrone xs t) = ss_destructibles t"
    "ss_torpedos (fold addDrone xs t) = ss_torpedos t" "ss_log (fold addDrone xs t) = ss_log t"
    by (induction xs arbitrary: t) (simp_all add: addDrone_def markDroneDirty_def)
qed

lemma handed_LaunchDrone: "handed w s (snd (LaunchDroneCommand w order p i r n g t s))"
  by (auto simp: LaunchDroneCommand_def Let_def dest: handed_launchDrones intro!: handed_addDrones
      split: sum.splits prod.splits option.splits)

lemma handed_RecallDrones: "handed w s (snd (RecallDronesCommand w order p i g s))"
  by (auto simp: RecallDronesCommand_def Let_def dest: handed_recallDrones split: sum.splits prod.splits)

lemma handed_Mine: "handed w s (snd (MineCommand w p i a s))"
  by (auto simp: MineCommand_def ownShip_Inr intro!: handed_then(1) handed_put split: sum.splits option.splits)

lemma handed_Undock: "handed w s (snd (UndockCommand w p i s))"
  by (auto simp: UndockCommand_def ownShip_Inr intro: handed_undock prod.collapse [symmetric] split: sum.splits)

lemma handed_executeDock:
  "ss_ships s i = Some x \<Longrightarrow> executeDock w i k o' x s = (e, t) \<Longrightarrow> handed w s t"
  by (auto simp: executeDock_def Let_def publishPlayerDocked_def dockedAt_def dest: handed_saveShip saveShip_ships
      intro!: handed_tells handed_then(1) handed_put split: prod.splits option.splits if_splits)

lemma handed_applyShipDock:
  "ss_ships s i = Some x \<Longrightarrow> applyShipDock w i x h s = (e, t) \<Longrightarrow> handed w s t"
  by (auto simp: applyShipDock_def Let_def dockedAt_def dest: handed_saveShip saveShip_ships
      intro!: handed_then(1) handed_put split: prod.splits option.splits)

lemma handed_executeDockToShip:
  "ss_ships s i = Some x \<Longrightarrow> executeDockToShip w order i x h s = (e, t) \<Longrightarrow> handed w s t"
  using handed_applyShipDock by (auto simp: executeDockToShip_def split: option.splits if_splits)

lemma handed_Dock: "handed w s (snd (DockCommand w order p i r s))"
  by (auto simp: DockCommand_def dockToShip_def ownShip_Inr split: sum.splits
      intro: handed_executeDockToShip handed_executeDock prod.collapse [symmetric])

lemma handed_ExternalDock: "handed w s (snd (ExternalDockCommand w p i r s))"
  by (auto simp: ExternalDockCommand_def ownShip_Inr intro!: handed_put split: sum.splits option.splits)

lemma handed_Pickup: "handed w s (snd (PickupContainerCommand w p i k s))"
  by (auto simp: PickupContainerCommand_def pickupContainer_def dest: handed_ask split: sum.splits option.splits prod.splits)

lemma handed_Transport: "handed w s (snd (TransportCargoCommand w p i j g q s))"
  by (auto simp: TransportCargoCommand_def Let_def intro!: handed_then(1) handed_upd dest: handed_ask
      split: sum.splits option.splits prod.splits)

lemma handed_Hack: "handed w s (snd (HackStationCommand w p i r e s))"
  by (auto simp: HackStationCommand_def Let_def intro!: handed_tells handed_then(4) handed_upd handed_pays dest: handed_ask
      split: sum.splits option.splits prod.splits)

lemma deployed_ok:
  "static_ok (EntityRef EntityKindSatellite (so_ID ((newSatellite x)\<lparr>so_ID := k\<rparr>))) (destructible EntityKindSatellite ((newSatellite x)\<lparr>so_ID := k\<rparr>))"
  "static_ok (EntityRef EntityKindJammer (so_ID ((newJammer x)\<lparr>so_ID := k\<rparr>))) (destructible EntityKindJammer ((newJammer x)\<lparr>so_ID := k\<rparr>))"
  by (simp_all add: static_ok_def destructible_def newSatellite_def newJammer_def in64_def)

lemma handed_InstallSatellite: "handed w s (snd (InstallSatelliteCommand w p i g s))"
  by (auto simp: InstallSatelliteCommand_def installSatellite_def dest: handed_ask intro!: handed_deploy deployed_ok split: sum.splits prod.splits)

lemma handed_InstallJammer: "handed w s (snd (InstallJammerCommand w p i g s))"
  by (auto simp: InstallJammerCommand_def installJammer_def dest: handed_ask intro!: handed_deploy deployed_ok split: sum.splits prod.splits)

lemma handed_Dismantle: "handed w s (snd (DismantleStaticCommand w p i r g s))"
  by (auto simp: DismantleStaticCommand_def dismantleStatic_def Let_def dest: handed_ask split: sum.splits option.splits prod.splits)

lemma handed_SetAccess: "handed w s (snd (SetShipAccessCommand w p i b s))"
  by (auto simp: SetShipAccessCommand_def ownShip_Inr Let_def dest: handed_saveShip saveShip_ships intro!: handed_then(1) handed_put
      split: sum.splits option.splits prod.splits)

subsection \<open>Jumps\<close>

lemma sent_tell: "\<forall>ev. r \<noteq> PublishJump ev \<Longrightarrow> sent w (tell w b r s) = sent w s"
  by (simp add: tell_def sent_ask accepted_other)

lemma sent_saveShip: "sent w (snd (saveShip w x s)) = sent w s"
  using sent_ask [of w "SaveShip x" s] by (auto simp: saveShip_def accepted_other split: prod.splits)

lemma sent_notifyHandoff: "sent w (notifyHandoff w x t s) = sent w s"
proof -
  have "sent w (fold (\<lambda>pid s. tell w True (PublishHandoff pid a (ss_sectorID s) t) s) ps s) = sent w s" for a ps s
    by (induction ps arbitrary: s) (simp_all add: sent_tell)
  then show ?thesis by (simp add: notifyHandoff_def publishPlayerJumped_def Let_def sent_tell)
qed

lemma saveShip_tables: "saveShip w x s = (e, t) \<Longrightarrow> ss_destructibles t = ss_destructibles s \<and> ss_torpedos t = ss_torpedos s"
  by (auto simp: saveShip_def ask_def split: if_splits)

lemma saveShip_tables' [simp]:
  "ss_destructibles (snd (saveShip w x s)) = ss_destructibles s" "ss_torpedos (snd (saveShip w x s)) = ss_torpedos s"
  by (simp_all add: saveShip_def ask_def)

lemma notifyHandoff_tables:
  "ss_destructibles (notifyHandoff w x t s) = ss_destructibles s" "ss_torpedos (notifyHandoff w x t s) = ss_torpedos s"
proof -
  have "ss_destructibles (fold (\<lambda>pid s. tell w True (PublishHandoff pid a (ss_sectorID s) t) s) ps s) = ss_destructibles s"
    "ss_torpedos (fold (\<lambda>pid s. tell w True (PublishHandoff pid a (ss_sectorID s) t) s) ps s) = ss_torpedos s" for a ps s
    by (induction ps arbitrary: s) simp_all
  then show "ss_destructibles (notifyHandoff w x t s) = ss_destructibles s" "ss_torpedos (notifyHandoff w x t s) = ss_torpedos s"
    by (simp_all add: notifyHandoff_def publishPlayerJumped_def Let_def)
qed

text \<open>
  A handoff either fails and leaves the ship in the sector with nothing sent, or succeeds: then the
  ship is gone from the sector and exactly one event that carries it was sent.
\<close>

lemma executeJump_cases:
  assumes "executeJump w x t v s = (e, u)"
  shows "ss_destructibles u = ss_destructibles s" "ss_torpedos u = ss_torpedos s"
    "(e \<noteq> None \<and> ss_ships u = ss_ships s \<and> sent w u = sent w s) \<or>
    (e = None \<and> ss_ships u = (ss_ships s)(s_ID x := None) \<and> sent w u = sent w s @ [jumpEvent x t v s])"
proof -
  define ev where "ev = jumpEvent x t v s"
  obtain e1 s1 where s1: "saveShip w (je_Ship ev) s = (e1, s1)" by fastforce
  have f1: "ss_ships s1 = ss_ships s" "sent w s1 = sent w s"
    using s1 saveShip_ships sent_saveShip [of w "je_Ship ev" s] by auto
  define s2 where "s2 = tell w (je_ControllerKind ev \<noteq> [] \<and> w_hasAIState w)
    (UpsertAIState (s_ID x) t (je_ControllerKind ev) (je_ControllerState ev)) s1"
  have f2: "ss_ships s2 = ss_ships s" "sent w s2 = sent w s" using f1 by (simp_all add: s2_def sent_tell)
  obtain r s3 where s3: "ask w (PublishJump ev) s2 = (r, s3)" by fastforce
  have r: "r = w_reply w (ss_log s2) (PublishJump ev)" using s3 by (simp add: ask_def)
  have f3: "ss_ships s3 = ss_ships s" "sent w s3 = sent w s @ (if reply_err r = None then [ev] else [])"
    using s3 ask_ships sent_ask [of w "PublishJump ev" s2] f2 r by (auto simp: accepted_def)
  have run: "executeJump w x t v s = (case e1 of Some e \<Rightarrow> (Some e, s1)
     | None \<Rightarrow> if \<not> marshals (je_Ship ev) then (Some ErrOther, s2)
        else (case reply_err r of Some e \<Rightarrow> (Some e, snd (saveShip w x s3)) | None \<Rightarrow> (None, evict x t (notifyHandoff w x t s3))))"
    unfolding executeJump_def Let_def ev_def [symmetric] s1 prod.case s2_def [symmetric] s3 ..
  have "ss_ships (evict x t (notifyHandoff w x t s3)) = (ss_ships s)(s_ID x := None)"
    "sent w (evict x t (notifyHandoff w x t s3)) = sent w (notifyHandoff w x t s3)"
    using f3(1) by (simp_all add: evict_def recordOutbound_def notifyHandoff_ships sent_def)
  then show "(e \<noteq> None \<and> ss_ships u = ss_ships s \<and> sent w u = sent w s) \<or>
    (e = None \<and> ss_ships u = (ss_ships s)(s_ID x := None) \<and> sent w u = sent w s @ [jumpEvent x t v s])"
    using assms f1 f2 f3 unfolding run ev_def [symmetric]
    by (auto simp: sent_saveShip sent_notifyHandoff split: option.splits if_splits)
  have other: "ss_destructibles s1 = ss_destructibles s" "ss_torpedos s1 = ss_torpedos s"
    "ss_destructibles s3 = ss_destructibles s2" "ss_torpedos s3 = ss_torpedos s2"
    using saveShip_tables [OF s1] ask_tables [OF s3] by simp_all
  then show "ss_destructibles u = ss_destructibles s" "ss_torpedos u = ss_torpedos s"
    using assms unfolding run
    by (auto simp: s2_def evict_def recordOutbound_def notifyHandoff_tables dest: saveShip_tables split: option.splits if_splits)
qed

lemma jumpEvent_id [simp]: "shipID (jumpEvent x t v s) = s_ID x"
  by (simp add: jumpEvent_def relocate_def)

lemma jumpEvent_wf: "ship_ok (s_ID x) x \<Longrightarrow> wf_event (jumpEvent x t v s)"
  by (simp add: jumpEvent_def relocate_def)

lemma handed_executeJump:
  assumes run: "executeJump w y t v s = (e, u)" and x: "ss_ships s i = Some x" and y: "ship_ok i x \<Longrightarrow> ship_ok i y"
  shows "handed w s u"
  using executeJump_cases(3) [OF run]
proof
  assume ok: "e = None \<and> ss_ships u = (ss_ships s)(s_ID y := None) \<and> sent w u = sent w s @ [jumpEvent y t v s]"
  show ?thesis
    unfolding handed_def
  proof (intro impI)
    assume s: "sector_ok s"
    then have "ship_ok i y" using x y by (simp add: sector_ok_def)
    then have "s_ID y = i" "ship_ok (s_ID y) y" by (simp_all add: ship_ok_def)
    moreover have "sector_ok u" using s ok executeJump_cases(1,2) [OF run] by (simp add: sector_ok_def)
    ultimately show "sector_ok u \<and> (\<exists>evs. sent w u = sent w s @ evs \<and> list_all wf_event evs \<and> distinct (map shipID evs) \<and>
       shipID ` set evs \<inter> dom (ss_ships u) = {} \<and> dom (ss_ships u) \<union> shipID ` set evs \<subseteq> dom (ss_ships s))"
      using ok x jumpEvent_wf [of y t v s] by auto
  qed
qed (use executeJump_cases(1,2) [OF run] in \<open>simp add: handed_same\<close>)

lemma handed_Jump: "handed w s (snd (JumpCommand w p i g s))"
  by (auto simp: JumpCommand_def ownShip_Inr intro: handed_executeJump prod.collapse [symmetric] split: sum.splits option.splits)

lemma handed_paidJump:
  fixes n
  defines "paid \<equiv> \<lambda>x. x\<lparr>s_Shield := 0, s_LastJumpAt := Some n\<rparr>"
  assumes x: "ss_ships s i = Some x" and run: "executeJump w (paid x) t v (putShip i (paid x) (s\<lparr>ss_rng := g\<rparr>)) = (e, u)"
  shows "handed w s u" and "e \<noteq> None \<Longrightarrow> handed w s (putShip i x u)"
proof -
  have first: "handed w s (putShip i (paid x) (s\<lparr>ss_rng := g\<rparr>))" using x by (auto simp: paid_def ship_ok_def intro!: handed_put)
  have "handed w (putShip i (paid x) (s\<lparr>ss_rng := g\<rparr>)) u"
    by (rule handed_executeJump [OF run, of i "paid x"]) (simp_all add: putShip_def)
  with first show u: "handed w s u" by (rule transfer.trans)
  assume "e \<noteq> None"
  then have "ss_ships u = (ss_ships s)(i \<mapsto> paid x)" "sent w u = sent w s"
    using executeJump_cases(3) [OF run] by (auto simp: putShip_def sent_def)
  then have "ss_ships (putShip i x u) = ss_ships s" "sent w (putShip i x u) = sent w s"
    using x by (simp_all add: putShip_def map_upd_triv sent_def)
  then show "handed w s (putShip i x u)"
    using executeJump_cases(1,2) [OF run] by (intro handed_same) (simp_all add: putShip_def)
qed

lemma handed_JumpDrive: "handed w s (snd (JumpDriveCommand w order p i t s))"
  by (auto simp: JumpDriveCommand_def ownShip_Inr Let_def dest: handed_paidJump split: sum.splits option.splits prod.splits)

lemma handed_autoJumpOf: "handed w s (autoJumpOf w i s)"
  by (auto simp: autoJumpOf_def intro: handed_executeJump prod.collapse [symmetric] split: option.splits)

lemma handed_tryAutoJump: "handed w s (tryAutoJump w order s)"
  by (auto simp: tryAutoJump_def intro: transfer.fold_kept handed_autoJumpOf)

subsection \<open>Captures and kills\<close>

lemma sent_dropLoot: "sent w (dropLoot w x s) = sent w s"
proof -
  obtain r s1 where s1: "ask w (ShipCargo (s_ID x)) s = (r, s1)" by fastforce
  define items where "items = (case r of CargoItems xs \<Rightarrow> xs | _ \<Rightarrow> [])"
  obtain plan g where plan: "lootPlan x items (ss_rng s1) = (plan, g)" by fastforce
  obtain r2 s2 where s2: "ask w (RecordKill (s_ID x) (ss_sectorID s1) (containerDrops w x plan)) (s1\<lparr>ss_rng := g\<rparr>) = (r2, s2)"
    by fastforce
  have "sent w s1 = sent w s" using sent_ask [of w "ShipCargo (s_ID x)" s] s1 by (simp add: accepted_other)
  moreover have "sent w s2 = sent w (s1\<lparr>ss_rng := g\<rparr>)"
    using sent_ask [of w "RecordKill (s_ID x) (ss_sectorID s1) (containerDrops w x plan)" "s1\<lparr>ss_rng := g\<rparr>"] s2
    by (simp add: accepted_other)
  moreover have "sent w (fold addContainer cs s2) = sent w s2" for cs by (simp add: sent_def fold_addContainer)
  moreover have "dropLoot w x s = (case r2 of NewContainers cs \<Rightarrow> fold addContainer cs s2 | _ \<Rightarrow> s2)"
    using s2 by (simp add: dropLoot_def s1 items_def [symmetric] plan Let_def)
  ultimately show ?thesis by (cases r2) (simp_all add: sent_def)
qed

lemma sent_killShip: "sent w (killShip w x s) = sent w s"
proof -
  have "sent w (removeKilled i t) = sent w t" for i t by (simp add: sent_def removeKilled_def)
  then show ?thesis by (simp add: killShip_def publishEntityKilled_def publishKilled_def sent_tell sent_dropLoot Let_def)
qed

lemma fold_addContainer_tables:
  "ss_destructibles (fold addContainer cs s) = ss_destructibles s" "ss_torpedos (fold addContainer cs s) = ss_torpedos s"
  by (induction cs arbitrary: s) (simp_all add: addContainer_def Let_def)

lemma killShip_tables:
  "ss_destructibles (killShip w x s) = ss_destructibles s" "ss_torpedos (killShip w x s) = ss_torpedos s"
proof -
  have "ss_destructibles (dropLoot w x s) = ss_destructibles s" "ss_torpedos (dropLoot w x s) = ss_torpedos s"
    by (auto simp: dropLoot_def ask_def Let_def fold_addContainer_tables split: prod.splits reply.splits)
  then show "ss_destructibles (killShip w x s) = ss_destructibles s" "ss_torpedos (killShip w x s) = ss_torpedos s"
    by (simp_all add: killShip_def publishEntityKilled_def publishKilled_def removeKilled_def Let_def)
qed

lemma handed_killShip: "handed w s (killShip w x s)"
proof -
  have "dom (ss_ships (killShip w x s)) \<subseteq> dom (ss_ships s)" by (auto simp: killShip_effect split: if_splits)
  moreover have "sector_ok s \<Longrightarrow> sector_ok (killShip w x s)" by (simp add: sector_ok_def killShip_effect killShip_tables)
  ultimately show ?thesis by (simp add: handed_def sent_killShip)
qed

lemma handed_sweep: "handed w s (sweepKilledShips w order s)"
  unfolding sweepKilledShips_def Let_def
  by (rule transfer.fold_kept) (auto intro: handed_killShip split: option.split)

lemma handed_boardingFailed:
  assumes "ss_ships t j = Some x" "handed w s t"
  shows "handed w s (boardingFailed w p j x t)"
  using assms by (auto simp: boardingFailed_def ship_ok_def Let_def intro!: handed_saved handed_then(1) handed_put transfer.trans [OF _ handed_killShip])

lemma handed_changeShipOwner:
  "ss_ships s j = Some x \<Longrightarrow> changeShipOwner w j x p s = (e, u) \<Longrightarrow> handed w s u"
  by (auto simp: changeShipOwner_def Let_def publishShipCaptured_def ownedBy_def intro!: handed_tells handed_then(1) handed_put
      dest: handed_saveShip saveShip_ships split: prod.splits option.splits)

lemma handed_Capture: "handed w s (snd (CaptureShipCommand w p i r c s))"
proof (cases "ss_ships s (ref_id r)")
  case (Some x)
  have s1: "handed w s ((payEnergy i c s)\<lparr>ss_rng := g\<rparr>)" for g by (intro handed_then(7) handed_pays transfer.refl)
  have at: "ref_id r \<noteq> i \<Longrightarrow> ss_ships ((payEnergy i c s)\<lparr>ss_rng := g\<rparr>) (ref_id r) = Some x" for g
    using Some by (simp add: payEnergy_def updShip_def)
  have own: "handed w s u" if "changeShipOwner w (ref_id r) x p ((payEnergy i c s)\<lparr>ss_rng := g\<rparr>) = (e, u)" "ref_id r \<noteq> i" for g e u
    using transfer.trans [OF s1 handed_changeShipOwner [OF at that(1)]] that(2) by simp
  have fail: "handed w s (boardingFailed w p (ref_id r) x ((payEnergy i c s)\<lparr>ss_rng := g\<rparr>))" if "ref_id r \<noteq> i" for g
    using handed_boardingFailed [OF at s1] that by simp
  show ?thesis
    unfolding CaptureShipCommand_def Some option.sel Let_def publishShipCapture_def
    by (auto split: sum.splits option.splits prod.splits intro!: handed_tells fail dest: own)
qed (simp add: CaptureShipCommand_def boardingRefused_def transfer.refl split: sum.splits)

lemmas command_handed = handed_Move handed_SetCourse handed_UpdateEquipment handed_Attack handed_CeaseFire handed_LaunchMissile
  handed_LaunchTorpedo handed_LaunchDrone handed_RecallDrones handed_Mine handed_Capture handed_Dock handed_Undock
  handed_ExternalDock handed_Jump handed_JumpDrive handed_Pickup handed_Transport handed_Hack handed_InstallSatellite
  handed_InstallJammer handed_Dismantle handed_SetAccess

definition command_sane :: "command \<Rightarrow> bool" where
  "command_sane c = (case c of UpdateEquipment i v \<Rightarrow> refit_sane v | _ \<Rightarrow> True)"

lemma handed_applyCommand: "command_sane c \<Longrightarrow> handed w s (snd (applyCommand w so dro p c s))"
  by (cases c) (simp_all add: command_handed failing_def command_sane_def)

end
