(* ===== verification/Tick.thy ===== *)
theory Tick
  imports Actions
begin

text \<open>
  One tick of a sector (\<open>worker.go\<close>, \<open>tickSector\<close>) with the passes that the other theories do not
  hold: the controllers' actions (\<open>ai.go\<close>), player mining (\<open>mining.go\<close>), police scans
  (\<open>police.go\<close>), the write-behind of dirty rows (\<open>snapshot.go\<close>, \<open>ai.go\<close>) and the time dilation
  (\<open>timescale.go\<close>). The clock is read once per tick. The production pass of a tick works on the
  production fields of the stations, which the theory Production models; it is left out here.
\<close>

section \<open>What a controller sees\<close>

definition snapshotShips :: "int list \<Rightarrow> sector_state \<Rightarrow> ship list" where
  "snapshotShips order s = sort_key s_ID (List.map_filter (ss_ships s) order)"

definition snapshotAsteroids :: "int list \<Rightarrow> sector_state \<Rightarrow> asteroid list" where
  "snapshotAsteroids order s = sort_key a_ID (List.map_filter (ss_asteroids s) order)"

definition sectorWorldView :: "int list \<Rightarrow> int list \<Rightarrow> sector_state \<Rightarrow> ship \<Rightarrow> world_view" where
  "sectorWorldView ships asteroids s self =
     \<lparr>v_Self = self, v_Ships = snapshotShips ships s, v_Asteroids = snapshotAsteroids asteroids s\<rparr>"

section \<open>Mining\<close>

text \<open>A drilling ship keeps its station: orders and velocity are dropped when there are any.\<close>

definition onStation :: "ship \<Rightarrow> bool" where
  "onStation x \<longleftrightarrow> s_Target x = None \<and> s_FinalTarget x = None \<and> s_AttackTarget x = None \<and> vIsZero (s_Vel x)"

definition parked :: "ship \<Rightarrow> ship" where
  "parked x = (if onStation x then x else x\<lparr>s_Target := None, s_FinalTarget := None, s_AttackTarget := None, s_Vel := zeroVec\<rparr>)"

definition holdStation :: "int \<Rightarrow> ship \<Rightarrow> sector_state \<Rightarrow> sector_state" where
  "holdStation i x s = (if onStation x then s else markDirty (s_ID x) (putShip i (parked x) s))"

definition depleteAsteroid :: "worker \<Rightarrow> asteroid \<Rightarrow> sector_state \<Rightarrow> sector_state" where
  "depleteAsteroid w a s = tell w (w_hasAsteroids w) (DeleteAsteroid (a_ID a)) (removeAsteroid (a_ID a) s)"

text \<open>Take ore off an asteroid; an asteroid without mass is deleted.\<close>

definition drillAsteroid :: "worker \<Rightarrow> asteroid \<Rightarrow> int \<Rightarrow> sector_state \<Rightarrow> sector_state" where
  "drillAsteroid w a amount s =
     (let a = a\<lparr>a_Mass := a_Mass a - amount\<rparr>;
          s = markAsteroidDirty (a_ID a) (s\<lparr>ss_asteroids := (ss_asteroids s)(a_ID a \<mapsto> a)\<rparr>)
      in if a_Mass a \<le> 0 then depleteAsteroid w a s else s)"

definition applyMine :: "worker \<Rightarrow> int \<Rightarrow> ship \<Rightarrow> int \<Rightarrow> int \<Rightarrow> sector_state \<Rightarrow> sector_state" where
  "applyMine w i x asteroid amt s =
     (let s = holdStation i x s in
      case ss_asteroids s asteroid of None \<Rightarrow> s
      | Some a \<Rightarrow>
        (let amount = (if a_Mass a < amt then a_Mass a else amt) in
         if amount \<le> 0 then depleteAsteroid w a s
         else if w_hasMinerLogistics w then
           (case ask w (AddOre (s_ID x) (a_OreType a) amount) s of (r, s) \<Rightarrow>
              if reply_err r \<noteq> None then s else drillAsteroid w a amount s)
         else drillAsteroid w a amount s))"

definition spawnOreContainer :: "worker \<Rightarrow> asteroid \<Rightarrow> int \<Rightarrow> sector_state \<Rightarrow> sector_state" where
  "spawnOreContainer w a amount s =
     (if \<not> w_hasContainers w then s
      else (case ask w (SpawnContainer (ss_sectorID s)
          \<lparr>cd_Pos = containerDropPos (w_gomath w) (a_Pos a) 1 2, cd_ExpiresAt = w_now w + w_ContainerTTL w,
           cd_GoodsType = a_OreType a, cd_Quantity = amount\<rparr>) s of
        (NewContainers (c # _), s) \<Rightarrow> addContainer c s
      | (_, s) \<Rightarrow> s))"

text \<open>Into the hold with a drill of level two; a full hold, and level one, give a container.\<close>

definition depositMinedOre :: "worker \<Rightarrow> ship \<Rightarrow> asteroid \<Rightarrow> int \<Rightarrow> int \<Rightarrow> sector_state \<Rightarrow> bool \<times> sector_state" where
  "depositMinedOre w x a level amount s =
     (if 2 \<le> level \<and> w_hasMinerLogistics w then
        (case ask w (AddOre (s_ID x) (a_OreType a) amount) s of (r, s) \<Rightarrow>
           (case reply_err r of None \<Rightarrow> (True, s)
            | Some e \<Rightarrow> if e \<noteq> ErrNoSpace then (False, s) else (True, spawnOreContainer w a amount s)))
      else (True, spawnOreContainer w a amount s))"

definition stopMining :: "int \<Rightarrow> ship \<Rightarrow> sector_state \<Rightarrow> sector_state" where
  "stopMining i x s = markDirty (s_ID x) (putShip i (x\<lparr>s_MiningTarget := None\<rparr>) s)"

definition mineForPlayer :: "worker \<Rightarrow> int \<Rightarrow> ship \<Rightarrow> int \<Rightarrow> sector_state \<Rightarrow> sector_state" where
  "mineForPlayer w i x asteroid s =
     (let level = shipEquipmentLevel x ''up_drill'' in
      if level < 1 then stopMining i x s
      else (case ss_asteroids s asteroid of None \<Rightarrow> stopMining i x s
      | Some a \<Rightarrow>
        (let s = holdStation i x s; x = parked x in
         if f_lt (w_MineRange w) (vLength (vSub (s_Pos x) (a_Pos a))) then s
         else if s_Energy x < w_MineEnergyCost w then s
         else (let amount = (if a_Mass a < w_MineRate w then a_Mass a else w_MineRate w) in
           if amount \<le> 0 then stopMining i x (depleteAsteroid w a s)
           else (case depositMinedOre w x a level amount s of
               (False, s) \<Rightarrow> s
             | (True, s) \<Rightarrow>
               (let x = (if 0 < w_MineEnergyCost w then x\<lparr>s_Energy := s_Energy x - w_MineEnergyCost w\<rparr> else x);
                    x = (if a_Mass a - amount \<le> 0 then x\<lparr>s_MiningTarget := None\<rparr> else x)
                in drillAsteroid w a amount (markDirty (s_ID x) (putShip i x s))))))))"

definition playerMiningOf :: "worker \<Rightarrow> int \<Rightarrow> sector_state \<Rightarrow> sector_state" where
  "playerMiningOf w i s =
     (case ss_ships s i of None \<Rightarrow> s
      | Some x \<Rightarrow> (case s_MiningTarget x of None \<Rightarrow> s | Some a \<Rightarrow> mineForPlayer w i x a s))"

definition tickPlayerMining :: "worker \<Rightarrow> int list \<Rightarrow> sector_state \<Rightarrow> sector_state" where
  "tickPlayerMining w order s = fold (playerMiningOf w) order s"

section \<open>The controllers' actions\<close>

definition rollPassengers :: "rng \<Rightarrow> int \<Rightarrow> int \<times> rng" where
  "rollPassengers rng m =
     (if m \<le> 1 then (1, rng)
      else (let (u, rng) = draw rng; n = wrap64 (1 + f_to_int64 (f_mul u (f_of_int m)))
            in (if m < n then m else n, rng)))"

definition applyAIAction :: "worker \<Rightarrow> int \<Rightarrow> ship \<Rightarrow> ai_action \<Rightarrow> sector_state \<Rightarrow> sector_state" where
  "applyAIAction w i x action s =
     (case action of
        Idle \<Rightarrow> s
      | MoveTo v \<Rightarrow> markDirty (s_ID x) (putShip i (x\<lparr>s_Target := Some v, s_AttackTarget := None\<rparr>) s)
      | AI_Attack ref \<Rightarrow>
          (let goal = (if ref_kind ref = EntityKindShip
                       then (case ss_ships s (ref_id ref) of Some t \<Rightarrow> Some (s_Pos t) | None \<Rightarrow> s_Target x) else s_Target x)
           in markDirty (s_ID x) (putShip i (x\<lparr>s_AttackTarget := Some ref, s_Target := goal\<rparr>) s))
      | MoveAndFire v fire \<Rightarrow> markDirty (s_ID x) (putShip i (x\<lparr>s_Target := Some v, s_AttackTarget := Some fire\<rparr>) s)
      | AI_SetCourse c \<Rightarrow> markDirty (s_ID x) (putShip i (x\<lparr>s_FinalTarget := Some c, s_Target := None,
          s_CurrentTargetRef := crs_Approach c, s_AttackTarget := None\<rparr>) s)
      | AI_Transfer from to gtype n \<Rightarrow> tell w (w_hasTraderLogistics w) (HaulCargo from to gtype n) s
      | AI_Mine asteroid amount \<Rightarrow> applyMine w i x asteroid amount s
      | BoardPassengers m \<Rightarrow>
          (let (n, rng) = rollPassengers (ss_rng s) m; x = x\<lparr>s_Passengers := n\<rparr>
           in immediateSave w x (markDirty (s_ID x) (putShip i x (s\<lparr>ss_rng := rng\<rparr>))))
      | DropPassengers \<Rightarrow>
          (if s_Passengers x = 0 then s
           else (let x = x\<lparr>s_Passengers := 0\<rparr> in immediateSave w x (markDirty (s_ID x) (putShip i x s)))))"

definition tickAIOf :: "worker \<Rightarrow> int list \<Rightarrow> int list \<Rightarrow> int \<Rightarrow> sector_state \<Rightarrow> sector_state" where
  "tickAIOf w ships asteroids i s =
     (case ss_controllers s i of None \<Rightarrow> s
      | Some c \<Rightarrow>
        (case ss_ships s i of None \<Rightarrow> s\<lparr>ss_controllers := (ss_controllers s)(i := None)\<rparr>
         | Some x \<Rightarrow>
           (case controller_Tick (w_gomath w) (w_AIConfigs w) (w_AIHostile w) (sectorWorldView ships asteroids s x) c of
              (action, c) \<Rightarrow> applyAIAction w i x action (s\<lparr>ss_controllers := (ss_controllers s)(i \<mapsto> c)\<rparr>))))"

definition tickAI :: "worker \<Rightarrow> int list \<Rightarrow> int list \<Rightarrow> int list \<Rightarrow> sector_state \<Rightarrow> sector_state" where
  "tickAI w ships asteroids order s = fold (tickAIOf w ships asteroids) order s"

definition buildControllers :: "worker \<Rightarrow> (int \<times> string \<times> controller option) list \<Rightarrow> sector_state \<Rightarrow> sector_state" where
  "buildControllers w states s =
     (let s = s\<lparr>ss_controllers := Map.empty\<rparr> in
      if \<not> w_hasAIRegistry w then s
      else fold (\<lambda>(i, kind, st) s. case w_buildController w kind st of None \<Rightarrow> s
        | Some c \<Rightarrow> s\<lparr>ss_controllers := (ss_controllers s)(i \<mapsto> c)\<rparr>) states s)"

section \<open>Police\<close>

definition wrap64u :: "int \<Rightarrow> int" where "wrap64u n = n mod 2 ^ 64"

definition publishPoliceScan :: "worker \<Rightarrow> int \<Rightarrow> int \<Rightarrow> int \<Rightarrow> int \<Rightarrow> bool \<Rightarrow> sector_state \<Rightarrow> sector_state" where
  "publishPoliceScan w player race gtype qty wanted s =
     tell w (w_hasBus w) (PublishPoliceScan player race (ss_sectorID s) gtype qty wanted) s"

definition scanTarget :: "worker \<Rightarrow> ship \<Rightarrow> int \<Rightarrow> sector_state \<Rightarrow> sector_state" where
  "scanTarget w police j s =
     (case ss_ships s j of None \<Rightarrow> s
      | Some target \<Rightarrow>
        if j = s_ID police \<or> s_HP target \<le> 0 then s
        else if ss_controllers s j \<noteq> None then s
        else if (case ss_policeScanCooldown s j of Some until \<Rightarrow> ss_tick s < until | None \<Rightarrow> False) then s
        else if f_lt (f_mul (w_ScanRange w) (w_ScanRange w)) (lengthSq (vSub (s_Pos target) (s_Pos police))) then s
        else (case ask w (PoliceScan (s_Race police) j (s_PlayerID target)) s of (r, s) \<Rightarrow>
          if reply_err r \<noteq> None then s
          else (let s = s\<lparr>ss_policeScanCooldown := (ss_policeScanCooldown s)(j \<mapsto> wrap64u (ss_tick s + w_ScanCooldownTicks w))\<rparr> in
            case r of Scanned True gtype qty wanted \<Rightarrow> publishPoliceScan w (s_PlayerID target) (s_Race police) gtype qty wanted s
            | _ \<Rightarrow> s)))"

definition policeScanOf :: "worker \<Rightarrow> (int \<Rightarrow> int list) \<Rightarrow> int \<Rightarrow> sector_state \<Rightarrow> sector_state" where
  "policeScanOf w inner i s =
     (case ss_ships s i of None \<Rightarrow> s
      | Some police \<Rightarrow> if s_HP police \<le> 0 \<or> s_Race police \<notin> w_policeRaces w then s
          else fold (scanTarget w police) (inner i) s)"

definition tickPoliceScan :: "worker \<Rightarrow> (int \<Rightarrow> int list) \<Rightarrow> int list \<Rightarrow> sector_state \<Rightarrow> sector_state" where
  "tickPoliceScan w inner order s =
     (if \<not> w_hasPolice w \<or> w_policeRaces w = {} then s else fold (policeScanOf w inner) order s)"

section \<open>Write-behind\<close>

definition collectDirty :: "int list \<Rightarrow> sector_state \<Rightarrow> ship list" where
  "collectDirty order s = List.map_filter (ss_ships s) order"

definition persistDirty :: "worker \<Rightarrow> int list \<Rightarrow> sector_state \<Rightarrow> sector_state" where
  "persistDirty w order s =
     (if \<not> w_hasRepo w \<or> w_now w - ss_lastSnapshot s < w_SnapshotInterval w then s
      else if ss_dirty s = {} then s\<lparr>ss_lastSnapshot := w_now w\<rparr>
      else (case ask w (BatchUpdateShips (collectDirty order s)) s of (r, s) \<Rightarrow>
        if reply_err r \<noteq> None then s else s\<lparr>ss_dirty := {}, ss_lastSnapshot := w_now w\<rparr>))"

definition persistDirtyDrones :: "worker \<Rightarrow> int list \<Rightarrow> sector_state \<Rightarrow> sector_state" where
  "persistDirtyDrones w order s =
     (if \<not> w_hasDrones w \<or> ss_dronesDirty s = {} \<or> w_now w - ss_lastDroneSnapshot s < w_SnapshotInterval w then s
      else (case ask w (BatchUpdateDrones (List.map_filter (ss_drones s) order)) s of (r, s) \<Rightarrow>
        if reply_err r \<noteq> None then s else s\<lparr>ss_dronesDirty := {}, ss_lastDroneSnapshot := w_now w\<rparr>))"

definition persistDirtyTorpedos :: "worker \<Rightarrow> int list \<Rightarrow> sector_state \<Rightarrow> sector_state" where
  "persistDirtyTorpedos w order s =
     (if \<not> w_hasTorpedos w \<or> ss_torpedosDirty s = {} \<or> w_now w - ss_lastTorpedoSnapshot s < w_SnapshotInterval w then s
      else (case ask w (BatchUpdateTorpedos (List.map_filter (ss_torpedos s) order)) s of (r, s) \<Rightarrow>
        if reply_err r \<noteq> None then s else s\<lparr>ss_torpedosDirty := {}, ss_lastTorpedoSnapshot := w_now w\<rparr>))"

definition persistAsteroids :: "worker \<Rightarrow> int list \<Rightarrow> sector_state \<Rightarrow> sector_state" where
  "persistAsteroids w order s =
     (if \<not> w_hasAsteroids w \<or> ss_asteroidsDirty s = {} \<or> w_now w - ss_lastAsteroidSnapshot s < w_SnapshotInterval w then s
      else (case ask w (BatchUpdateAsteroids (List.map_filter (ss_asteroids s) order)) s of (r, s) \<Rightarrow>
        if reply_err r \<noteq> None then s else s\<lparr>ss_asteroidsDirty := {}, ss_lastAsteroidSnapshot := w_now w\<rparr>))"

definition collectAIState :: "int list \<Rightarrow> sector_state \<Rightarrow> (int \<times> int \<times> string \<times> controller) list" where
  "collectAIState order s = List.map_filter (\<lambda>i. case ss_controllers s i of None \<Rightarrow> None
     | Some c \<Rightarrow> map_option (\<lambda>st. (i, ss_sectorID s, ct_Kind c, st)) (ct_State c)) order"

definition persistAIState :: "worker \<Rightarrow> int list \<Rightarrow> sector_state \<Rightarrow> sector_state" where
  "persistAIState w order s =
     (if \<not> w_hasAIState w \<or> ss_controllers s = Map.empty \<or> w_now w - ss_lastAISnapshot s < w_SnapshotInterval w then s
      else (let states = collectAIState order s in
        if states = [] then s\<lparr>ss_lastAISnapshot := w_now w\<rparr>
        else (case ask w (BatchUpsertAI states) s of (r, s) \<Rightarrow>
          if reply_err r \<noteq> None then s else s\<lparr>ss_lastAISnapshot := w_now w\<rparr>)))"

section \<open>Time dilation\<close>

fun f_Max :: "float64 \<Rightarrow> float64 \<Rightarrow> float64" where
  "f_Max PInf _ = PInf"
| "f_Max _ PInf = PInf"
| "f_Max NaN _ = NaN"
| "f_Max _ NaN = NaN"
| "f_Max x y = (if f_lt y x then x else y)"

fun f_Min :: "float64 \<Rightarrow> float64 \<Rightarrow> float64" where
  "f_Min NInf _ = NInf"
| "f_Min _ NInf = NInf"
| "f_Min NaN _ = NaN"
| "f_Min _ NaN = NaN"
| "f_Min x y = (if f_lt x y then x else y)"

definition minTimeScale :: float64 where "minTimeScale = f_lit (1 / 10)"

definition adjustTimeScale :: "float64 \<Rightarrow> int \<Rightarrow> int \<Rightarrow> float64" where
  "adjustTimeScale current elapsed interval =
     (if interval \<le> 0 then Fin 1
      else (let ratio = f_div (f_of_int elapsed) (f_of_int interval) in
        if f_lt (f_lit (12 / 10)) ratio then f_Max minTimeScale (f_mul current (f_lit (8 / 10)))
        else if f_lt ratio (f_lit (1 / 2)) then f_Min (Fin 1) (f_mul current (f_lit (12 / 10)))
        else current))"

section \<open>A tick\<close>

text \<open>The orders in which the map loops of one tick run.\<close>

record tick_orders =
  to_aiShips :: "int list"
  to_aiAsteroids :: "int list"
  to_ai :: "int list"
  to_mining :: "int list"
  to_autopilot :: "int list"
  to_move :: "int list"
  to_carry :: "int list"
  to_external :: "int list"
  to_jump :: "int list"
  to_dock :: "int list"
  to_combat :: orders
  to_police :: "int list"
  to_scan :: "int \<Rightarrow> int list"
  to_kill :: "int list"
  to_containers :: "int list"
  to_dirty :: "int list"
  to_dirtyDrones :: "int list"
  to_dirtyTorpedos :: "int list"
  to_dirtyAsteroids :: "int list"
  to_aiState :: "int list"

definition tickFlight :: "worker \<Rightarrow> tick_orders \<Rightarrow> float64 \<Rightarrow> sector_state \<Rightarrow> sector_state" where
  "tickFlight w ord dt s =
     (let s = tickAI w (to_aiShips ord) (to_aiAsteroids ord) (to_ai ord) s;
          s = tickPlayerMining w (to_mining ord) s;
          s = resolveAutopilot w (to_autopilot ord) s;
          s = applyMovement w dt (to_move ord) s;
          s = carryDockedShips (to_carry ord) s;
          s = tickExternalDock w (to_external ord) s;
          s = tryAutoJump w (to_jump ord) s
      in tryAutoDock w (to_dock ord) s)"

definition tickCombat :: "worker \<Rightarrow> tick_orders \<Rightarrow> float64 \<Rightarrow> int \<Rightarrow> sector_state \<Rightarrow> sector_state" where
  "tickCombat w ord dt now s =
     (let c = to_combat ord;
          s = chargeShields (o_shields c) s;
          s = chargeStatics (o_statics c) s;
          s = sweepDestroyedGates w (o_gates c) s;
          s = chargeEnergies (o_energies c) s;
          s = fireLasers w (o_lasers c) s;
          s = tickPoliceScan w (to_scan ord) (to_police ord) s;
          s = tickTowers w (o_towerShips c) (o_towerTorpedos c) s;
          s = tickMissiles w dt now (o_missiles c) s;
          s = tickDrones w dt now (o_droneShips c) (o_droneTorpedos c) (o_drones c) s;
          s = tickTorpedos w dt now (o_blastShips c) (o_blastStatics c) (o_torpedos c) s;
          s = sweepKilledShips w (to_kill ord) s
      in tickContainers w now (to_containers ord) s)"

definition tickPersist :: "worker \<Rightarrow> tick_orders \<Rightarrow> sector_state \<Rightarrow> sector_state" where
  "tickPersist w ord s =
     (let s = persistDirty w (to_dirty ord) s;
          s = persistDirtyDrones w (to_dirtyDrones ord) s;
          s = persistDirtyTorpedos w (to_dirtyTorpedos ord) s;
          s = persistAsteroids w (to_dirtyAsteroids ord) s
      in persistAIState w (to_aiState ord) s)"

text \<open>After the patches are out, what was for this tick only is dropped.\<close>

definition clearDeltas :: "sector_state \<Rightarrow> sector_state" where
  "clearDeltas s = s\<lparr>ss_laserEffects := [], ss_missileImpacts := [], ss_droneImpacts := [], ss_torpedoImpacts := [],
     ss_staticsRemoved := [], ss_destructiblesDirty := {},
     ss_ships := (\<lambda>i. map_option (\<lambda>x. x\<lparr>s_MissileJustFired := False\<rparr>) (ss_ships s i))\<rparr>"

definition tickWorld :: "worker \<Rightarrow> tick_orders \<Rightarrow> float64 \<Rightarrow> sector_state \<Rightarrow> sector_state" where
  "tickWorld w ord baseDt s =
     (let dt = f_mul baseDt (ss_timeScale s);
          s = tickPersist w ord (tickCombat w ord dt (w_now w) (tickFlight w ord dt s))
      in s\<lparr>ss_tick := wrap64u (ss_tick s + 1)\<rparr>)"

definition tickSector :: "worker \<Rightarrow> tick_orders \<Rightarrow> float64 \<Rightarrow> int \<Rightarrow> sector_state \<Rightarrow> sector_state" where
  "tickSector w ord baseDt totalDur s =
     (let s = clearDeltas (tickWorld w ord baseDt s)
      in s\<lparr>ss_timeScale := adjustTimeScale (ss_timeScale s) totalDur (w_TickInterval w)\<rparr>)"

end
