(* ===== verification/TickSafety.thy ===== *)
theory TickSafety
  imports Fleet Tick
begin

text \<open>
  A whole tick keeps the sector well-formed and hands its ships over cleanly, whatever the order of
  its map loops: each pass does. The combat passes come from the frame of combat; they send no jump.
\<close>

section \<open>Combat sends no jump\<close>

lemma sent_fields [simp]:
  "sent w (s\<lparr>ss_ships := a\<rparr>) = sent w s" "sent w (s\<lparr>ss_destructibles := b\<rparr>) = sent w s" "sent w (s\<lparr>ss_torpedos := c\<rparr>) = sent w s"
  "sent w (s\<lparr>ss_missiles := d\<rparr>) = sent w s" "sent w (s\<lparr>ss_drones := e\<rparr>) = sent w s" "sent w (s\<lparr>ss_containers := f\<rparr>) = sent w s"
  "sent w (s\<lparr>ss_statics := g\<rparr>) = sent w s" "sent w (s\<lparr>ss_rng := h\<rparr>) = sent w s" "sent w (s\<lparr>ss_topology := i\<rparr>) = sent w s"
  "sent w (s\<lparr>ss_dronesDirty := j\<rparr>) = sent w s" "sent w (s\<lparr>ss_torpedosDirty := k\<rparr>) = sent w s" "sent w (s\<lparr>ss_policeScanCooldown := l\<rparr>) = sent w s"
  "sent w (s\<lparr>ss_asteroids := m\<rparr>) = sent w s" "sent w (s\<lparr>ss_controllers := n\<rparr>) = sent w s"
  by (simp_all add: sent_def)

lemma sent_ops [simp]:
  "sent w (putShip i x s) = sent w s" "sent w (putStatic r d s) = sent w s" "sent w (putTorpedo i t s) = sent w s"
  "sent w (markDirty i s) = sent w s" "sent w (markDroneDirty i s) = sent w s" "sent w (markTorpedoDirty i s) = sent w s"
  "sent w (markDestructibleDirty r s) = sent w s" "sent w (addLaserEffect b s) = sent w s" "sent w (addMissileImpact mi s) = sent w s"
  "sent w (addDroneImpact di s) = sent w s" "sent w (addTorpedoImpact ti s) = sent w s" "sent w (removeDestructible r s) = sent w s"
  "sent w (removeContainer k s) = sent w s" "sent w (putHit i x j y s) = sent w s" "sent w (clearAttack i s) = sent w s"
  "sent w (ceaseFire i x s) = sent w s"
  by (simp_all add: sent_def putShip_def putStatic_def putTorpedo_def bookkeeping removeDestructible_def putHit_def clearAttack_def
      ceaseFire_def split: option.split)

lemma sent_fold: "(\<And>x s. sent w (f x s) = sent w s) \<Longrightarrow> sent w (fold f xs s) = sent w s"
  by (induction xs arbitrary: s) simp_all

text \<open>A choice whose branches all send nothing.\<close>

lemma sent_choice:
  "sent w a = c \<Longrightarrow> (\<And>y. sent w (f y) = c) \<Longrightarrow> sent w (case x of None \<Rightarrow> a | Some y \<Rightarrow> f y) = c"
  "(\<And>a b. sent w (g a b) = c) \<Longrightarrow> sent w (case p of (a, b) \<Rightarrow> g a b) = c"
  "sent w a = c \<Longrightarrow> sent w b = c \<Longrightarrow> sent w (if d then a else b) = c"
  "sent w a = c \<Longrightarrow> sent w b = c \<Longrightarrow> sent w (case od of DroneKeep \<Rightarrow> a | DroneExpired \<Rightarrow> b) = c"
  "sent w a = c \<Longrightarrow> sent w b = c \<Longrightarrow> sent w h = c \<Longrightarrow> sent w (case om of MissileKeep \<Rightarrow> a | MissileHit \<Rightarrow> b | MissileExpired \<Rightarrow> h) = c"
  by (simp_all split: option.split prod.split drone_outcome.split missile_outcome.split)

lemma sent_knockModules [simp]: "sent w (knockModules w i s) = sent w s"
proof -
  have "sent w (fold (publishModuleKnocked w x) ks t) = sent w t" for x ks t
    by (rule sent_fold) (simp add: publishModuleKnocked_def sent_tell)
  then show ?thesis by (simp add: knockModules_def Let_def sent_tell split: option.split prod.split)
qed

lemma sent_killStatic [simp]: "sent w (killStatic w d s) = sent w s"
  by (simp add: killStatic_def killGate_def publishKilled_def Let_def sent_tell split: prod.split)

lemma sent_fireLaserOf: "sent w (fireLaserOf w i s) = sent w s"
  by (simp add: fireLaserOf_def fireLaserAtStatic_def fireLaserAtProjectile_def fireLaserAtShip_def Let_def split: option.split prod.split)

lemma sent_tickTower: "sent w (tickTower w f g t s) = sent w s"
  by (simp add: tickTower_def fireTowerAtTorpedo_def Let_def split: option.split prod.split)

lemma sent_tickMissile: "sent w (tickMissile w dt now i s) = sent w s"
proof -
  have "sent w (applyMissileHit w i m u) = sent w u" for m u
    unfolding applyMissileHit_def hitContainer_def Let_def by (rule sent_choice | simp add: sent_tell)+
  then show ?thesis unfolding tickMissile_def Let_def by (intro sent_choice) simp_all
qed

lemma sent_tickDrone: "sent w (tickDrone w dt now f g i s) = sent w s"
proof -
  have fires: "sent w (droneFiresAtTorpedo j d t u) = sent w u" "sent w (droneFiresAtShip w j d r x u) = sent w u"
    "sent w (removeDrone w j imp u) = sent w u" for j d t u r x imp
    by (simp_all add: removeDrone_def droneFiresAtTorpedo_def droneFiresAtShip_def Let_def sent_tell split: prod.split)
  show ?thesis unfolding tickDrone_def Let_def by (rule sent_choice | simp add: fires)+
qed

lemma sent_tickTorpedo: "sent w (tickTorpedo w dt now f g i s) = sent w s"
proof -
  have "sent w (fold (afterBlast w) hits t) = sent w t" for hits t
    by (rule sent_fold) (simp add: afterBlast_def Let_def split: option.split)
  then show ?thesis
    by (simp add: tickTorpedo_def removeTorpedo_def Let_def sent_tell split: option.split prod.split torpedo_outcome.split)
qed

lemma handed_step: "step_ok s t \<Longrightarrow> sent w t = sent w s \<Longrightarrow> handed w s t"
proof -
  have "dom (ss_ships t) \<subseteq> dom (ss_ships s)" if "fought s t"
  proof (intro subsetI)
    fix i assume "i \<in> dom (ss_ships t)"
    moreover have "rel_option wounded (ss_ships s i) (ss_ships t i)" using that by (simp add: fought_def)
    ultimately show "i \<in> dom (ss_ships s)" by (auto elim: option.rel_cases)
  qed
  then show "step_ok s t \<Longrightarrow> sent w t = sent w s \<Longrightarrow> handed w s t" by (auto simp: step_ok_def handed_def)
qed

lemma handed_combat:
  assumes w: "refit_ok w"
  shows "handed w s (chargeShields a s)" "handed w s (chargeStatics b s)" "handed w s (sweepDestroyedGates w b s)"
    "handed w s (chargeEnergies a s)" "handed w s (fireLasers w a s)" "handed w s (tickTowers w f g s)"
    "handed w s (tickMissiles w dt now a s)" "handed w s (tickDrones w dt now f g a s)" "handed w s (tickTorpedos w dt now f h a s)"
  unfolding chargeShields_def chargeStatics_def chargeEnergies_def fireLasers_def tickTowers_def
    tickMissiles_def tickDrones_def tickTorpedos_def
  subgoal by (rule transfer.fold_kept, rule handed_step [OF step_chargeShieldOf]) (simp add: chargeShieldOf_def split: option.split prod.split)
  subgoal by (rule transfer.fold_kept, rule handed_step [OF step_chargeStaticOf]) (simp add: chargeStaticOf_def split: option.split prod.split)
  subgoal by (auto simp: sweepDestroyedGates_def sweepGate_def intro!: transfer.fold_kept handed_step [OF step_sweepGate])
  subgoal by (rule transfer.fold_kept, rule handed_step [OF step_chargeEnergyOf]) (simp add: chargeEnergyOf_def split: option.split prod.split)
  subgoal by (rule transfer.fold_kept, rule handed_step [OF step_fireLaserOf [OF w] sent_fireLaserOf])
  subgoal by (rule transfer.fold_kept, rule handed_step [OF step_tickTower [OF w] sent_tickTower])
  subgoal by (rule transfer.fold_kept, rule handed_step [OF step_tickMissile [OF w] sent_tickMissile])
  subgoal by (rule transfer.fold_kept, rule handed_step [OF step_tickDrone [OF w] sent_tickDrone])
  subgoal by (rule transfer.fold_kept, rule handed_step [OF step_tickTorpedo [OF w] sent_tickTorpedo])
  done

section \<open>Flight\<close>

lemma flyTo_ok: "ship_ok i (fst (flyTo gm v x)) = ship_ok i x"
proof -
  have "ship_ok i (arrive v y) = ship_ok i y" for y by (simp add: arrive_def clearTargetRefOnArrival_def split: option.split)
  then show ?thesis unfolding flyTo_def Let_def by (auto split: prod.split)
qed

lemma moveShip_ok: "ship_ok i (fst (moveShip gm x dt)) = ship_ok i x"
  using flyTo_ok by (auto simp: moveShip_def Let_def case_prod_beta split: option.split)

lemma handed_applyMovement: "handed w s (applyMovement w dt order s)"
  unfolding applyMovement_def
proof (rule transfer.fold_kept)
  fix i s
  show "handed w s (moveOf w dt i s)"
  proof (cases "ss_ships s i")
    case (Some x)
    obtain y b where y: "moveShip (w_gomath w) x dt = (y, b)" by fastforce
    then have "ship_ok i x \<Longrightarrow> ship_ok i y" using moveShip_ok [of i "w_gomath w" x dt] by simp
    with Some y show ?thesis by (auto simp: moveOf_def intro!: handed_then(1) handed_put)
  qed (simp add: moveOf_def transfer.refl)
qed

lemma handed_autopilot: "handed w s (resolveAutopilot w order s)"
proof -
  have "handed w s (setWaypoint x v i s)" "handed w s (dropCourse x i s)" "handed w s (resolveApproach w c x i s)"
    if "ss_ships s i = Some x" for i x v c s
    using that unfolding resolveApproach_def setWaypoint_def dropCourse_def Let_def by (auto intro!: handed_then(1) handed_put)
  then have "handed w s (autopilotOf w i s)" for i s
    by (simp add: autopilotOf_def transfer.refl split: option.split)
  then show ?thesis by (auto simp: resolveAutopilot_def intro: transfer.fold_kept)
qed

lemma handed_carry: "handed w s (carryDockedShips order s)"
  unfolding carryDockedShips_def
  by (rule transfer.fold_kept) (auto simp: carryOf_def intro!: handed_then(1) handed_put split: option.splits)

lemma handed_externalDock: "handed w s (tickExternalDock w order s)"
  unfolding tickExternalDock_def
proof (rule transfer.fold_kept)
  fix i s
  have attach: "handed w s (snd (applyShipDock w i x h t))" if "handed w s t" "ss_ships t i = Some x" for x h t
    using transfer.trans [OF that(1) handed_applyShipDock [OF that(2) prod.collapse [symmetric]]] .
  show "handed w s (externalDockOf w i s)"
    by (auto simp: externalDockOf_def completeExternalDock_def executeExternalAttach_def Let_def
        intro!: handed_put attach split: option.splits sum.splits) (auto simp: putShip_def)?
qed

lemma handed_autoDock: "handed w s (tryAutoDock w order s)"
  unfolding tryAutoDock_def
  by (rule transfer.fold_kept) (auto simp: autoDockOf_def intro: handed_executeDock prod.collapse [symmetric] split: option.splits sum.splits)

section \<open>Mining, controllers, police\<close>

lemma handed_deplete [intro]: "handed w s t \<Longrightarrow> handed w s (depleteAsteroid w a t)"
  by (auto simp: depleteAsteroid_def removeAsteroid_def intro!: handed_tells elim!: transfer.trans intro: handed_log)

lemma handed_drill [intro]: "handed w s t \<Longrightarrow> handed w s (drillAsteroid w a n t)"
  by (auto simp: drillAsteroid_def markAsteroidDirty_def Let_def intro!: handed_deplete elim!: transfer.trans intro: handed_log)

lemma ship_ok_parked [simp]: "ship_ok i (parked x) = ship_ok i x"
  by (simp add: parked_def)

lemma handed_holdStation: "ss_ships s i = Some x \<Longrightarrow> handed w s (holdStation i x s)"
  by (auto simp: holdStation_def intro!: handed_then(1) handed_put)

lemma holdStation_at: "ss_ships s i = Some x \<Longrightarrow> ss_ships (holdStation i x s) i = Some (parked x)"
  by (simp add: holdStation_def putShip_def parked_def)

lemma handed_applyMine: "ss_ships s i = Some x \<Longrightarrow> handed w s (applyMine w i x a n s)"
proof -
  assume "ss_ships s i = Some x"
  from handed_holdStation [OF this] show ?thesis
    by (auto simp: applyMine_def Let_def split: option.split prod.split
        intro: handed_deplete handed_drill transfer.trans [OF _ handed_ask])
qed

lemma handed_spawn: "handed w s (spawnOreContainer w a n s)"
  by (auto simp: spawnOreContainer_def dest: handed_ask intro: handed_then(4) split: prod.split reply.split list.split)

lemma handed_deposit: "depositMinedOre w x a l n s = (b, t) \<Longrightarrow> handed w s t"
  by (auto simp: depositMinedOre_def dest: handed_ask intro: handed_spawn transfer.trans [OF handed_ask handed_spawn] split: if_splits prod.splits option.splits)

lemma deposit_ships: "depositMinedOre w x a l n s = (b, t) \<Longrightarrow> ss_ships t = ss_ships s"
proof -
  have "ss_ships (spawnOreContainer w a n s) = ss_ships s" for a n s
    by (auto simp: spawnOreContainer_def ask_def addContainer_def Let_def split: reply.split list.split)
  then show "depositMinedOre w x a l n s = (b, t) \<Longrightarrow> ss_ships t = ss_ships s"
    by (auto simp: depositMinedOre_def ask_def split: if_splits option.splits)
qed

lemma handed_playerMining: "handed w s (playerMiningOf w i s)"
proof -
  have "handed w s (mineForPlayer w i x a s)" if at: "ss_ships s i = Some x" for x a
  proof -
    note hold = handed_holdStation [OF at] and pk = holdStation_at [OF at]
    have dep: "handed w s t \<and> ss_ships t i = Some (parked x)" if "depositMinedOre w y b l n (holdStation i x s) = (c, t)" for y b l n c t
      using transfer.trans [OF hold handed_deposit [OF that]] deposit_ships [OF that] pk by simp
    have "ss_ships (depleteAsteroid w b t) = ss_ships t" for b t by (simp add: depleteAsteroid_def removeAsteroid_def)
    then show ?thesis using at hold pk
      by (auto simp: mineForPlayer_def stopMining_def Let_def split: option.split prod.split bool.split
          intro!: handed_then(1) handed_put handed_drill dest!: dep)
  qed
  then show ?thesis by (simp add: playerMiningOf_def transfer.refl split: option.split)
qed

lemma handed_AIAction: "ss_ships s i = Some x \<Longrightarrow> handed w s (applyAIAction w i x a s)"
  by (cases a) (auto simp: applyAIAction_def Let_def split: prod.split
      intro!: handed_saved handed_then(1) handed_put handed_applyMine handed_tells)

lemma handed_tickAIOf: "handed w s (tickAIOf w f g i s)"
proof -
  have ctl: "handed w s (s\<lparr>ss_controllers := m\<rparr>)" for m by (rule handed_log) simp_all
  moreover have "handed w s (applyAIAction w i x a (s\<lparr>ss_controllers := m\<rparr>))" if "ss_ships s i = Some x" for x a m
    using transfer.trans [OF ctl handed_AIAction] that by simp
  ultimately show ?thesis by (simp add: tickAIOf_def split: option.split prod.split) (simp add: transfer.refl)
qed

lemma handed_scanTarget: "handed w s (scanTarget w x j s)"
proof -
  have cool: "handed w s t \<Longrightarrow> handed w s (t\<lparr>ss_policeScanCooldown := m\<rparr>)" for t m
    by (erule transfer.trans, rule handed_log) simp_all
  then show ?thesis
    by (auto simp: scanTarget_def publishPoliceScan_def Let_def dest: handed_ask intro!: handed_tells
        split: option.split prod.split reply.split bool.split)
qed

lemma handed_police: "handed w s (tickPoliceScan w inner order s)"
proof -
  have "handed w s (policeScanOf w inner i s)" for i s
    by (auto simp: policeScanOf_def split: option.split intro!: transfer.fold_kept handed_scanTarget)
  then show ?thesis by (auto simp: tickPoliceScan_def intro: transfer.fold_kept)
qed

section \<open>The rest of a tick\<close>

lemma handed_containers: "handed w s (tickContainers w now order s)"
  unfolding tickContainers_def Let_def by (rule transfer.fold_kept) (auto intro!: handed_tells handed_then(3))

lemma if_handed: "(b \<Longrightarrow> handed w s t) \<Longrightarrow> (\<not> b \<Longrightarrow> handed w s u) \<Longrightarrow> handed w s (if b then t else u)"
  by simp

lemma handed_persist: "handed w s (tickPersist w ord s)"
proof -
  have asked: "handed w s (case ask w r s of (a, t) \<Rightarrow> if reply_err a \<noteq> None then t else f t)"
    if "\<forall>ev. r \<noteq> PublishJump ev" "\<And>t. handed w t (f t)" for r f s
    by (cases "ask w r s") (auto intro: handed_ask [OF _ that(1)] transfer.trans [OF handed_ask [OF _ that(1)] that(2)])
  have p: "handed w s (persistDirty w a s)" "handed w s (persistDirtyDrones w a s)" "handed w s (persistDirtyTorpedos w a s)"
    "handed w s (persistAsteroids w a s)" "handed w s (persistAIState w a s)" for s a
    unfolding persistDirty_def persistDirtyDrones_def persistDirtyTorpedos_def persistAsteroids_def persistAIState_def Let_def
    by (rule if_handed asked transfer.refl handed_log | simp)+
  show ?thesis unfolding tickPersist_def Let_def
    by (rule transfer.trans [OF _ p(5)], rule transfer.trans [OF _ p(4)], rule transfer.trans [OF _ p(3)],
        rule transfer.trans [OF _ p(2)], rule p(1))
qed

lemma handed_clearDeltas: "handed w s (clearDeltas s)"
  by (auto simp: clearDeltas_def handed_def sector_ok_def sent_def)

lemma handed_flight: "handed w s (tickFlight w ord dt s)"
  unfolding tickFlight_def Let_def tickAI_def tickPlayerMining_def
  by (rule transfer.trans [OF _ handed_autoDock], rule transfer.trans [OF _ handed_tryAutoJump], rule transfer.trans [OF _ handed_externalDock],
      rule transfer.trans [OF _ handed_carry], rule transfer.trans [OF _ handed_applyMovement], rule transfer.trans [OF _ handed_autopilot],
      rule transfer.trans [OF transfer.fold_kept transfer.fold_kept], rule handed_tickAIOf, rule handed_playerMining)

lemma handed_tickCombat:
  assumes "refit_ok w"
  shows "handed w s (tickCombat w ord dt now s)"
  unfolding tickCombat_def Let_def
  by (rule transfer.trans [OF _ handed_containers], rule transfer.trans [OF _ handed_sweep], rule transfer.trans [OF _ handed_combat(9) [OF assms]],
      rule transfer.trans [OF _ handed_combat(8) [OF assms]], rule transfer.trans [OF _ handed_combat(7) [OF assms]],
      rule transfer.trans [OF _ handed_combat(6) [OF assms]], rule transfer.trans [OF _ handed_police], rule transfer.trans [OF _ handed_combat(5) [OF assms]],
      rule transfer.trans [OF _ handed_combat(4) [OF assms]], rule transfer.trans [OF _ handed_combat(3) [OF assms]],
      rule transfer.trans [OF handed_combat(1) [OF assms] handed_combat(2) [OF assms]])

theorem handed_tickSector:
  assumes "refit_ok w"
  shows "handed w s (tickSector w ord dt dur s)"
proof -
  have last: "handed w u (u\<lparr>ss_tick := n\<rparr>)" "handed w u (u\<lparr>ss_timeScale := f\<rparr>)" for u n f by (rule handed_log; simp)+
  show ?thesis unfolding tickSector_def tickWorld_def Let_def
    by (rule transfer.trans [OF _ last(2)], rule transfer.trans [OF _ handed_clearDeltas], rule transfer.trans [OF _ last(1)],
        rule transfer.trans [OF _ handed_persist], rule transfer.trans [OF handed_flight handed_tickCombat [OF assms]])
qed

end
