(* ===== verification/Galaxy.thy ===== *)
theory Galaxy
  imports TickSafety
begin

text \<open>
  Ships across sectors. Each sector is run by its worker; a ship leaves one as a jump event on the
  bus and enters another when the event is taken in. The theory puts the sectors and the events in
  flight together and shows what any interleaving of the workers keeps, and follows single handoffs
  from end to end.
\<close>

section \<open>The galaxy\<close>

text \<open>The live state of every sector, and the jump events on the bus that no worker took in yet.\<close>

record galaxy =
  gx_sector :: "int \<Rightarrow> sector_state"
  gx_flight :: "jump_event list"

definition newly :: "worker \<Rightarrow> sector_state \<Rightarrow> sector_state \<Rightarrow> jump_event list" where
  "newly w s t = drop (length (sent w s)) (sent w t)"

definition runIn :: "worker \<Rightarrow> int \<Rightarrow> sector_state \<Rightarrow> galaxy \<Rightarrow> galaxy" where
  "runIn w k t g = g\<lparr>gx_sector := (gx_sector g)(k := t), gx_flight := gx_flight g @ newly w (gx_sector g k) t\<rparr>"

definition takeIn :: "worker \<Rightarrow> jump_event \<Rightarrow> galaxy \<Rightarrow> galaxy" where
  "takeIn w ev g = g\<lparr>gx_sector := (gx_sector g)(je_TargetSector ev := JumpIntakeCommand w ev (gx_sector g (je_TargetSector ev))),
     gx_flight := remove1 ev (gx_flight g)\<rparr>"

text \<open>
  What the workers do, in any order: a player's command, a whole tick of a sector, and taking in an event
  from the bus, whichever of those in flight.
\<close>

inductive galaxy_step :: "worker \<Rightarrow> galaxy \<Rightarrow> galaxy \<Rightarrow> bool" for w where
  command: "command_sane c \<Longrightarrow> galaxy_step w g (runIn w k (snd (applyCommand w so dro p c (gx_sector g k))) g)"
| tick: "galaxy_step w g (runIn w k (tickSector w ord dt dur (gx_sector g k)) g)"
| intake: "ev \<in> set (gx_flight g) \<Longrightarrow> galaxy_step w g (takeIn w ev g)"

definition ships_in :: "galaxy \<Rightarrow> int \<Rightarrow> int set" where
  "ships_in g k = dom (ss_ships (gx_sector g k))"

definition located :: "galaxy \<Rightarrow> int set" where
  "located g = (\<Union>k. ships_in g k) \<union> shipID ` set (gx_flight g)"

definition settled :: "galaxy \<Rightarrow> bool" where
  "settled g \<longleftrightarrow> (\<forall>k. sector_ok (gx_sector g k)) \<and> list_all wf_event (gx_flight g) \<and> (\<forall>k l. k \<noteq> l \<longrightarrow> ships_in g k \<inter> ships_in g l = {}) \<and>
     distinct (map shipID (gx_flight g)) \<and> (\<forall>k. shipID ` set (gx_flight g) \<inter> ships_in g k = {})"

lemma handed_newly:
  assumes "handed w s t" "sector_ok s"
  shows "sector_ok t" "distinct (map shipID (newly w s t))" "shipID ` set (newly w s t) \<inter> dom (ss_ships t) = {}"
    "dom (ss_ships t) \<union> shipID ` set (newly w s t) \<subseteq> dom (ss_ships s)" "list_all wf_event (newly w s t)"
proof -
  obtain evs where e: "sector_ok t" "sent w t = sent w s @ evs" "distinct (map shipID evs)"
    "shipID ` set evs \<inter> dom (ss_ships t) = {}" "dom (ss_ships t) \<union> shipID ` set evs \<subseteq> dom (ss_ships s)" "list_all wf_event evs"
    using assms unfolding handed_def by blast
  then have "newly w s t = evs" by (simp add: newly_def)
  with e show "sector_ok t" "distinct (map shipID (newly w s t))" "shipID ` set (newly w s t) \<inter> dom (ss_ships t) = {}"
    "dom (ss_ships t) \<union> shipID ` set (newly w s t) \<subseteq> dom (ss_ships s)" "list_all wf_event (newly w s t)" by blast+
qed

lemma settled_runIn:
  assumes "handed w (gx_sector g k) t" "settled g"
  shows "settled (runIn w k t g) \<and> located (runIn w k t g) \<subseteq> located g"
proof -
  let ?new = "newly w (gx_sector g k) t"
  have ks: "sector_ok (gx_sector g k)" using assms(2) by (simp add: settled_def)
  note n = handed_newly [OF assms(1) ks]
  have dom: "dom (ss_ships t) \<subseteq> ships_in g k" "shipID ` set ?new \<subseteq> ships_in g k"
    using n(4) by (simp_all add: ships_in_def)
  have ins: "ships_in (runIn w k t g) l = (if l = k then dom (ss_ships t) else ships_in g l)" for l
    by (simp add: ships_in_def runIn_def)
  have fl: "gx_flight (runIn w k t g) = gx_flight g @ ?new" by (simp add: runIn_def)
  have old: "shipID ` set (gx_flight g) \<inter> ships_in g l = {}" and apart: "l \<noteq> m \<Longrightarrow> ships_in g l \<inter> ships_in g m = {}" for l m
    using assms(2) by (auto simp: settled_def)
  have "(shipID ` set (gx_flight g) \<union> shipID ` set ?new) \<inter> ships_in (runIn w k t g) l = {}" for l
  proof (cases "l = k")
    case True
    have "F \<inter> K = {} \<Longrightarrow> D \<subseteq> K \<Longrightarrow> N \<inter> D = {} \<Longrightarrow> (F \<union> N) \<inter> D = {}" for F K D N :: "int set" by blast
    from this [OF old [of k] dom(1) n(3)] show ?thesis unfolding ins using True by simp
  next
    case False
    have "F \<inter> L = {} \<Longrightarrow> K \<inter> L = {} \<Longrightarrow> N \<subseteq> K \<Longrightarrow> (F \<union> N) \<inter> L = {}" for F K L N :: "int set" by blast
    from this [OF old [of l] apart [of k l] dom(2)] show ?thesis unfolding ins using False by simp
  qed
  moreover have "shipID ` set (gx_flight g) \<inter> shipID ` set ?new = {}" using old [of k] dom(2) by blast
  moreover have shrink: "ships_in (runIn w k t g) l \<subseteq> ships_in g l" for l
    using dom(1) by (simp add: ins)
  moreover have "ships_in (runIn w k t g) l \<inter> ships_in (runIn w k t g) m = {}" if "l \<noteq> m" for l m
    using apart [OF that] shrink [of l] shrink [of m] by blast
  moreover have "list_all wf_event (gx_flight g @ ?new)" using n(5) assms(2) by (simp add: settled_def)
  moreover have "sector_ok (gx_sector (runIn w k t g) l)" for l
    using n(1) assms(2) by (simp add: runIn_def settled_def)
  ultimately have "settled (runIn w k t g)"
    using assms(2) n(2) unfolding settled_def fl by (auto simp: image_Un)
  moreover have "(\<Union>l. ships_in (runIn w k t g) l) \<subseteq> (\<Union>l. ships_in g l)" using shrink by (rule UN_mono [OF subset_refl])
  moreover have "shipID ` set ?new \<subseteq> (\<Union>l. ships_in g l)" using dom(2) by (rule order_trans) (rule UN_upper, rule UNIV_I)
  ultimately show ?thesis unfolding located_def fl set_append image_Un by (intro conjI Un_least) (erule le_supI1 | simp)+
qed

lemma intake_ships: "ss_ships (JumpIntakeCommand w ev s) = (ss_ships s)(shipID ev \<mapsto> je_Ship ev)"
  by (simp add: JumpIntakeCommand_def attachController_def recordInbound_def putShip_def Let_def split: option.split)

lemma intake_tables:
  "ss_destructibles (JumpIntakeCommand w ev s) = ss_destructibles s" "ss_torpedos (JumpIntakeCommand w ev s) = ss_torpedos s"
  by (simp_all add: JumpIntakeCommand_def attachController_def recordInbound_def putShip_def Let_def split: option.split)

lemma settled_intake:
  assumes ev: "ev \<in> set (gx_flight g)" and ok: "settled g"
  shows "settled (takeIn w ev g) \<and> located (takeIn w ev g) \<subseteq> located g"
proof -
  define g' where "g' = takeIn w ev g"
  let ?k = "je_TargetSector ev"
  have ins: "ships_in g' l = (if l = ?k then insert (shipID ev) (ships_in g ?k) else ships_in g l)" for l
    by (simp add: ships_in_def g'_def takeIn_def intake_ships)
  have dist: "distinct (map shipID (gx_flight g))" using ok by (simp add: settled_def)
  then have rest: "set (gx_flight g') = set (gx_flight g) - {ev}"
    by (simp add: g'_def takeIn_def distinct_map)
  have dist': "distinct (map shipID (gx_flight g'))"
    using dist by (auto simp: g'_def takeIn_def distinct_map inj_on_def)
  have gone: "shipID ev \<notin> shipID ` set (gx_flight g')"
    using dist ev unfolding rest by (auto simp: distinct_map inj_on_def)
  have old: "shipID ` set (gx_flight g) \<inter> ships_in g l = {}" and apart: "l \<noteq> m \<Longrightarrow> ships_in g l \<inter> ships_in g m = {}" for l m
    using ok by (auto simp: settled_def)
  have new: "shipID ev \<notin> ships_in g l" for l using old [of l] ev by blast
  have wf: "wf_event ev" "list_all wf_event (gx_flight g')"
    using ok ev unfolding list_all_iff rest by (simp_all add: settled_def list_all_iff)
  have "sector_ok (gx_sector g' l)" for l
    using ok wf(1) by (auto simp: g'_def takeIn_def settled_def sector_ok_def intake_ships intake_tables)
  moreover have "list_all wf_event (gx_flight g')" by (rule wf(2))
  moreover have "ships_in g' l \<inter> ships_in g' m = {}" if "l \<noteq> m" for l m
    using apart [OF that] apart [of ?k] new that unfolding ins by auto
  moreover have "shipID ` set (gx_flight g') \<inter> ships_in g' l = {}" for l
    using old [of l] gone unfolding ins rest by auto
  ultimately have "settled g'" using dist' by (simp add: settled_def)
  moreover have "located g' \<subseteq> located g"
    unfolding located_def rest using ev by (auto simp: ins split: if_splits)
  ultimately show ?thesis unfolding g'_def ..
qed

lemma galaxy_step_settled:
  "galaxy_step w g h \<Longrightarrow> refit_ok w \<Longrightarrow> settled g \<Longrightarrow> settled h \<and> located h \<subseteq> located g"
proof (induction rule: galaxy_step.induct)
  case (command c g k so dro p)
  then show ?case by (intro settled_runIn handed_applyCommand)
next
  case (tick g k ord dt dur)
  then show ?case by (intro settled_runIn handed_tickSector)
next
  case (intake ev g)
  then show ?case by (intro settled_intake)
qed

text \<open>
  C26: However commands, whole ticks and intakes of the sector workers interleave, in whatever order the
  map loops run and the bus delivers, every sector stays well-formed (each ship under its own id, hull
  and shield in range) and no ship is ever in two places: not in two sectors, not in a sector and on the
  bus, not on the bus twice. And no ship appears out of nowhere.
\<close>

theorem no_ship_in_two_places:
  assumes "(galaxy_step w)\<^sup>*\<^sup>* g h" "refit_ok w" "settled g"
  shows "settled h \<and> located h \<subseteq> located g"
  using assms(1)
proof induction
  case (step h h')
  then show ?case using galaxy_step_settled [of w h h'] assms(2) by blast
qed (simp add: assms(3))

section \<open>The life of one sector\<close>

text \<open>What the worker does to a sector it runs: commands, ticks and arrivals, in any order.\<close>

inductive sector_step :: "worker \<Rightarrow> sector_state \<Rightarrow> sector_state \<Rightarrow> bool" for w where
  obey: "command_sane c \<Longrightarrow> sector_step w s (snd (applyCommand w so dro p c s))"
| beat: "sector_step w s (tickSector w ord dt dur s)"
| arrival: "wf_event ev \<Longrightarrow> sector_step w s (JumpIntakeCommand w ev s)"

lemma handed_ok: "handed w s t \<Longrightarrow> sector_ok s \<Longrightarrow> sector_ok t"
  by (simp add: handed_def)

lemma sector_step_ok: "sector_step w s t \<Longrightarrow> refit_ok w \<Longrightarrow> sector_ok s \<Longrightarrow> sector_ok t"
proof (induction rule: sector_step.induct)
  case (obey c s so dro p)
  then show ?case using handed_ok [OF handed_applyCommand] by blast
next
  case (beat s ord dt dur)
  then show ?case using handed_ok [OF handed_tickSector] by blast
next
  case (arrival ev s)
  then show ?case by (auto simp: sector_ok_def intake_ships intake_tables)
qed


section \<open>One handoff from end to end\<close>

lemma tell_ok: "tell w b r s = (if b then s\<lparr>ss_log := ss_log s @ [r]\<rparr> else s)"
  by (simp add: tell_def ask_def)

text \<open>The handoff when every collaborator answers: the ship is gone here and on its way there.\<close>

lemma executeJump_succeeds:
  assumes "\<forall>pre r. reply_err (w_reply w pre r) = None" "marshals (relocate t v x)"
  shows "fst (executeJump w x t v s) = None"
proof -
  have "fst (saveShip w y u) = None" "reply_err (fst (ask w r u)) = None" for y r u
    using assms(1) by (simp_all add: saveShip_def ask_def)
  moreover have "je_Ship (jumpEvent x t v s) = relocate t v x" by (simp add: jumpEvent_def)
  ultimately show ?thesis using assms(2)
    by (simp add: executeJump_def Let_def split: prod.split option.split) (metis fst_conv option.distinct(1))
qed

lemma executeJump_refused:
  assumes "w_hasRepo w" "\<forall>pre y. reply_err (w_reply w pre (SaveShip y)) = None"
    "\<forall>pre ev. reply_err (w_reply w pre (PublishJump ev)) = Some e" "marshals (relocate t v x)"
  shows "\<exists>u. executeJump w x t v s = (Some e, u) \<and> last (ss_log u) = SaveShip x"
proof -
  have "je_Ship (jumpEvent x t v s) = relocate t v x" by (simp add: jumpEvent_def)
  then show ?thesis using assms
    by (simp add: executeJump_def Let_def saveShip_def ask_def)
qed

text \<open>
  C33: A jump through a gate, followed by the intake at the other side, moves the ship exactly: it
  leaves the source sector, one event is sent, and the target sector holds the same ship at the gate's
  exit, at rest, with its target, attack and mining orders dropped and everything else - hull, cargo
  bay, equipment, owner, course, passengers - as it was. Its dock is kept too: a docked ship arrives
  still docked to the object it left behind.
\<close>

theorem jump_arrives:
  assumes "ss_ships s i = Some x" "s_ID x = i" "w_hasTopology w" "w_hasBus w"
    and "Gate (ss_topology s) gid = Some gt" "gateSides gt (ss_sectorID s) = Some (a, t, b)"
    and "\<not> f_lt (w_GateRange w) (vLength (vSub (s_Pos x) a))"
    and "\<forall>pre r. reply_err (w_reply w pre r) = None" "marshals (relocate t b x)"
  shows "\<exists>s' ev. JumpCommand w (s_PlayerID x) i gid s = (None, s') \<and> ss_ships s' = (ss_ships s)(i := None) \<and>
    newly w s s' = [ev] \<and> je_TargetSector ev = t \<and>
    (\<forall>d. ss_ships (JumpIntakeCommand w ev d) = (ss_ships d)(i \<mapsto> x\<lparr>s_SectorID := t, s_Pos := b, s_Vel := zeroVec,
       s_LastStep := zeroVec, s_Target := None, s_AttackTarget := None, s_MiningTarget := None\<rparr>))"
proof -
  obtain e u where run: "executeJump w x t b s = (e, u)" by fastforce
  then have e: "e = None" using executeJump_succeeds [OF assms(8,9), of s] by simp
  have "JumpCommand w (s_PlayerID x) i gid s = (None, u)"
    using assms run e by (simp add: JumpCommand_def ownShip_def)
  moreover have "ss_ships u = (ss_ships s)(i := None)" "newly w s u = [jumpEvent x t b s]"
    using executeJump_cases(3) [OF run] e assms(2) by (auto simp: newly_def)
  moreover have "je_TargetSector (jumpEvent x t b s) = t" "je_Ship (jumpEvent x t b s) = relocate t b x"
    by (simp_all add: jumpEvent_def)
  moreover have "s_ID (relocate t b x) = i" using assms(2) by (simp add: relocate_def)
  ultimately show ?thesis unfolding intake_ships relocate_def by auto
qed

text \<open>
  When the bus refuses the jump event, a jump-drive command reports the error and restores the
  ship in memory with its shield and its cooldown. The row does not follow: the last write of the
  command is the compensating save, and it carries the drained shield and the new jump time.
\<close>

theorem failed_jump_drive_row:
  assumes "ss_ships s i = Some x" "s_ID x = i" "w_hasTopology w" "w_hasBus w" "w_hasRepo w"
    and "s_Docked x = None" "1 \<le> shipEquipmentLevel x ''up_jump_drive''" "0 < s_MaxShield x" "s_LastJumpAt x = None"
    and "\<not> sectorForbidden w (ss_sectorID s)" "t \<noteq> ss_sectorID s" "sectorCenter s t = Some c"
    and "\<not> antijumpActive w order s x" "\<not> jammerActive w s x"
    and "\<forall>pre y. reply_err (w_reply w pre (SaveShip y)) = None"
    and "\<forall>pre ev. reply_err (w_reply w pre (PublishJump ev)) = Some e"
    and "marshals (relocate t (fst (jumpArrivalPos c (ss_rng s))) x)"
  shows "\<exists>s'. JumpDriveCommand w order (s_PlayerID x) i t s = (Some e, s') \<and> ss_ships s' = ss_ships s \<and>
    last (ss_log s') = SaveShip (x\<lparr>s_Shield := 0, s_LastJumpAt := Some (w_now w)\<rparr>)"
proof -
  let ?paid = "x\<lparr>s_Shield := 0, s_LastJumpAt := Some (w_now w)\<rparr>"
  obtain v g where v: "jumpArrivalPos c (ss_rng s) = (v, g)" by fastforce
  have m: "marshals (relocate t v ?paid)" using assms(17) v by (simp add: marshals_def relocate_def)
  obtain u where u: "executeJump w ?paid t v (putShip i ?paid (s\<lparr>ss_rng := g\<rparr>)) = (Some e, u)" "last (ss_log u) = SaveShip ?paid"
    using executeJump_refused [OF assms(5,15,16) m] by blast
  have "ss_ships u = (ss_ships s)(i \<mapsto> ?paid)" using executeJump_cases(3) [OF u(1)] by (simp add: putShip_def)
  then have "ss_ships (putShip i x u) = ss_ships s" using assms(1) by (simp add: putShip_def map_upd_triv)
  moreover have "ss_log (putShip i x u) = ss_log u" by (simp add: putShip_def)
  moreover have "JumpDriveCommand w order (s_PlayerID x) i t s = (Some e, putShip i x u)"
    using assms(1,3,4,6-14) v u(1) by (simp add: JumpDriveCommand_def ownShip_def)
  ultimately show ?thesis using u(2) by simp
qed

text \<open>A controller with a phase: the initial states and every tick leave one.\<close>

definition has_phase :: "controller \<Rightarrow> bool" where
  "has_phase c = (case c of RaceController st \<Rightarrow> rs_Order st \<noteq> [] | TraderController st \<Rightarrow> ts_Phase st \<noteq> []
     | MinerController st \<Rightarrow> ms_Phase st \<noteq> [] | PassengerController st \<Rightarrow> ps_Phase st \<noteq> [])"

text \<open>
  The controller of a ship survives a handoff: what the source worker marshals into the jump event,
  the registry of the target worker builds back to exactly the same controller.
\<close>

theorem controller_follows_ship:
  assumes "ss_controllers s (s_ID x) = Some c" "ct_State c \<noteq> None" "has_phase c"
    and "w_hasAIRegistry w" "w_buildController w = registry_Build"
  shows "ss_controllers (JumpIntakeCommand w (jumpEvent x t v s) d) (s_ID x) = Some c"
proof -
  have "ct_State c = Some c" using assms(2) by (auto simp: ct_State_def split: if_splits)
  moreover have "registry_Build (ct_Kind c) (Some c) = Some c"
    using assms(3) by (cases c) (simp_all add: registry_Build_def has_phase_def)
  moreover have "ct_Kind c \<noteq> []" by (cases c) simp_all
  ultimately show ?thesis using assms(1,4,5)
    by (simp add: JumpIntakeCommand_def attachController_def jumpEvent_def controllerOf_def recordInbound_def putShip_def relocate_def Let_def)
qed

text \<open>A capture changes the owner, but leaves the course and the controller of the ship as they were.\<close>

lemma capture_keeps_controller:
  "changeShipOwner w j x p s = (None, t) \<Longrightarrow> ss_controllers t = ss_controllers s \<and>
     map_option s_FinalTarget (ss_ships t j) = Some (s_FinalTarget x)"
  by (auto simp: changeShipOwner_def Let_def publishShipCaptured_def saveShip_def tell_ok ask_def markDirty_def putShip_def
      ownedBy_def split: option.splits prod.splits if_splits)

section \<open>A flight\<close>

text \<open>
  Two sectors joined by a gate, and a ship of player 10 that sits at the gate docked to station 7, with a
  jump drive. \<open>flightWorker\<close> has the topology and answers every request; the bus of \<open>brokenBus\<close>
  refuses every jump event.
\<close>

definition flightTopology :: topology where
  "flightTopology = world_New [\<lparr>sec_ID = 2, sec_Name = [], sec_Bounds = ((Fin 0, Fin 0), (Fin 200, Fin 200)), sec_GridX = 0, sec_GridY = 1, sec_Race = 0\<rparr>]
     [sample_gate 5 1 2]"

definition flightShip :: "entity_ref option \<Rightarrow> ship" where
  "flightShip dock = (coldShip (demoShip 1 50 2))\<lparr>s_Pos := Vec2 (Fin 100) (Fin 0), s_Docked := dock, s_Shield := 30, s_MaxShield := 40,
     s_Equipment := [\<lparr>eq_EquipmentID = 9, eq_Type = ''up_jump_drive'', eq_Level = 1\<rparr>]\<rparr>"

definition flightSector :: "entity_ref option \<Rightarrow> sector_state" where
  "flightSector dock = demoSector\<lparr>ss_ships := [1 \<mapsto> flightShip dock], ss_topology := flightTopology\<rparr>"

definition emptySector :: "int \<Rightarrow> sector_state" where
  "emptySector k = newSectorState k [] [] [] [] [] demoStatics 0 flightTopology (\<lambda>_. Fin 0)"

definition flightGalaxy :: galaxy where
  "flightGalaxy = \<lparr>gx_sector = (emptySector)(1 := flightSector None), gx_flight = []\<rparr>"

definition flightWorker :: worker where
  "flightWorker = demoWorker\<lparr>w_hasTopology := True\<rparr>"

definition brokenBus :: worker where
  "brokenBus = flightWorker\<lparr>w_reply := (\<lambda>_ r. case r of PublishJump ev \<Rightarrow> Failed ErrHandoffUnavailable | _ \<Rightarrow> Done)\<rparr>"

lemmas flight_simps = flightTopology_def flightShip_def flightSector_def flightWorker_def demoSector_def demoWorker_def
  newSectorState_def world_New_def sample_gate_def coldShip_def demoShip_def zeroShip_def

lemma flight_at: "ss_ships (flightSector d) 1 = Some (flightShip d)" "s_ID (flightShip d) = 1" "s_PlayerID (flightShip d) = 10"
  "ss_sectorID (flightSector d) = 1" "s_Pos (flightShip d) = Vec2 (Fin 100) (Fin 0)" "s_Docked (flightShip d) = d"
  by (simp_all add: flight_simps)

lemma flight_marshals: "vec_fin v \<Longrightarrow> marshals (relocate 2 v (flightShip d))"
  by (simp add: marshals_def relocate_def flight_simps vec_fin_def zeroVec_def)

lemma flight_gate: "Gate (ss_topology (flightSector d)) 5 = Some (sample_gate 5 1 2)"
  by (simp add: Gate_def flight_simps)

lemma flightSector_ok: "sector_ok (flightSector d)"
  using demoSector_ok by (simp add: sector_ok_def flightSector_def ship_ok_def flightShip_def coldShip_def demoShip_def zeroShip_def in64_def)

lemma emptySector_ok: "sector_ok (emptySector k)"
  unfolding emptySector_def by (rule newSectorState_ok) (simp_all add: DestructiblesFromStatics_def demoStatics_def)

lemma flightWorker_refit: "refit_ok flightWorker"
  by (simp add: refit_ok_def flightWorker_def demoWorker_def)

lemma flightGalaxy_settled: "settled flightGalaxy"
proof -
  have "ships_in flightGalaxy k = (if k = 1 then {1} else {})" for k
    by (auto simp: ships_in_def flightGalaxy_def flightSector_def emptySector_def newSectorState_def byKey_def split: if_splits)
  moreover have "sector_ok (gx_sector flightGalaxy k)" for k
    using flightSector_ok [of None] emptySector_ok [of k] by (simp add: flightGalaxy_def)
  ultimately show ?thesis by (auto simp: settled_def flightGalaxy_def)
qed

text \<open>The docked ship jumps: it is in sector 2 and still docked to the station of sector 1.\<close>

theorem jump_arrives_witness:
  "\<exists>s' ev. JumpCommand flightWorker 10 1 5 (flightSector (Some (EntityRef EntityKindStation 7))) = (None, s') \<and> je_TargetSector ev = 2 \<and>
     map_option s_Docked (ss_ships (JumpIntakeCommand flightWorker ev (emptySector 2)) 1) = Some (Some (EntityRef EntityKindStation 7))"
proof -
  let ?d = "Some (EntityRef EntityKindStation 7)"
  have "w_hasTopology flightWorker" "w_hasBus flightWorker" "\<forall>pre r. reply_err (w_reply flightWorker pre r) = None"
    by (simp_all add: flightWorker_def demoWorker_def)
  moreover have "gateSides (sample_gate 5 1 2) (ss_sectorID (flightSector ?d)) = Some (Vec2 (Fin 100) (Fin 0), 2, Vec2 (Fin 0) (Fin 100))"
    unfolding flight_at by (simp add: gateSides_def sample_gate_def vec_of_def)
  moreover have "\<not> f_lt (w_GateRange flightWorker) (vLength (vSub (s_Pos (flightShip ?d)) (Vec2 (Fin 100) (Fin 0))))"
    unfolding flight_at by (simp add: flightWorker_def demoWorker_def) code_simp
  moreover have "marshals (relocate 2 (Vec2 (Fin 0) (Fin 100)) (flightShip ?d))" by (rule flight_marshals) (simp add: vec_fin_def)
  ultimately obtain s' ev where "JumpCommand flightWorker 10 1 5 (flightSector ?d) = (None, s')" "je_TargetSector ev = 2"
    "\<forall>e. ss_ships (JumpIntakeCommand flightWorker ev e) = (ss_ships e)(1 \<mapsto> (flightShip ?d)\<lparr>s_SectorID := 2, s_Pos := Vec2 (Fin 0) (Fin 100), s_Vel := zeroVec,
       s_LastStep := zeroVec, s_Target := None, s_AttackTarget := None, s_MiningTarget := None\<rparr>)"
    using jump_arrives [OF flight_at(1,2) _ _ flight_gate, of flightWorker ?d "Vec2 (Fin 100) (Fin 0)" 2 "Vec2 (Fin 0) (Fin 100)"]
    unfolding flight_at(3) by blast
  then show ?thesis by (intro exI [of _ s'] exI [of _ ev]) (simp add: flight_at)
qed

text \<open>A step of the flight: the jump of player 10's ship, which is then on the bus or in a sector, never both.\<close>

theorem no_ship_in_two_places_witness:
  "settled flightGalaxy \<and>
   settled (runIn flightWorker 1 (snd (applyCommand flightWorker [] [] 10 (Jump 1 5) (gx_sector flightGalaxy 1))) flightGalaxy)"
proof -
  have "(galaxy_step flightWorker)\<^sup>*\<^sup>* flightGalaxy
      (runIn flightWorker 1 (snd (applyCommand flightWorker [] [] 10 (Jump 1 5) (gx_sector flightGalaxy 1))) flightGalaxy)"
    by (rule r_into_rtranclp, rule galaxy_step.command) (simp add: command_sane_def)
  from no_ship_in_two_places [OF this flightWorker_refit flightGalaxy_settled] flightGalaxy_settled show ?thesis by blast
qed

theorem failed_jump_drive_row_witness:
  "\<exists>s'. JumpDriveCommand brokenBus [1] 10 1 2 (flightSector None) = (Some ErrHandoffUnavailable, s') \<and>
     ss_ships s' 1 = Some (flightShip None) \<and> s_Shield (flightShip None) = 30 \<and>
     last (ss_log s') = SaveShip ((flightShip None)\<lparr>s_Shield := 0, s_LastJumpAt := Some 0\<rparr>)"
proof -
  let ?s = "flightSector None" and ?x = "flightShip None"
  have w: "w_hasTopology brokenBus" "w_hasBus brokenBus" "w_hasRepo brokenBus" "w_now brokenBus = 0"
    "\<forall>pre y. reply_err (w_reply brokenBus pre (SaveShip y)) = None"
    "\<forall>pre ev. reply_err (w_reply brokenBus pre (PublishJump ev)) = Some ErrHandoffUnavailable"
    by (simp_all add: brokenBus_def flightWorker_def demoWorker_def)
  have x: "1 \<le> shipEquipmentLevel ?x ''up_jump_drive''" "0 < s_MaxShield ?x" "s_LastJumpAt ?x = None" "s_Shield ?x = 30"
    by (simp_all add: flight_simps shipEquipmentLevel_def)
  have s: "\<not> sectorForbidden brokenBus (ss_sectorID ?s)" "(2::int) \<noteq> ss_sectorID ?s"
    "sectorCenter ?s 2 = Some (Vec2 (f_div (f_add (Fin 0) (Fin 200)) (Fin 2)) (f_div (f_add (Fin 0) (Fin 200)) (Fin 2)))"
    "\<not> antijumpActive brokenBus [1] ?s ?x" "\<not> jammerActive brokenBus ?s ?x"
    by (simp_all add: flight_simps brokenBus_def sectorForbidden_def sectorCenter_def antijumpActive_def jammerActive_def demoStatics_def Sectors_def)
  have rng: "ss_rng ?s = (\<lambda>_. Fin 0)" by (simp add: flight_simps)
  have "vec_fin (fst (jumpArrivalPos (Vec2 (f_div (f_add (Fin 0) (Fin 200)) (Fin 2)) (f_div (f_add (Fin 0) (Fin 200)) (Fin 2))) (ss_rng ?s)))"
    unfolding rng jumpArrivalPos_def draw_def vec_fin_def by code_simp
  from flight_marshals [OF this] show ?thesis
    using failed_jump_drive_row [OF flight_at(1,2) w(1-3) flight_at(6) x(1-3) s(1-5) w(5,6)] w(4) x(4) flight_at(1) unfolding flight_at(3) by auto
qed

text \<open>A trader under way from its home.\<close>

theorem controller_follows_ship_witness:
  "\<exists>s. ss_controllers s 1 = Some (TraderController \<lparr>ts_Phase = ''dest'', ts_Home = zeroLeg, ts_Dest = zeroLeg, ts_Goods = 3, ts_HaulQty = 20\<rparr>) \<and>
     ss_controllers (JumpIntakeCommand (flightWorker\<lparr>w_hasAIRegistry := True\<rparr>) (jumpEvent (flightShip None) 2 zeroVec s) (emptySector 2)) 1 =
       Some (TraderController \<lparr>ts_Phase = ''dest'', ts_Home = zeroLeg, ts_Dest = zeroLeg, ts_Goods = 3, ts_HaulQty = 20\<rparr>)"
proof -
  define c where "c = TraderController \<lparr>ts_Phase = ''dest'', ts_Home = zeroLeg, ts_Dest = zeroLeg, ts_Goods = 3, ts_HaulQty = 20\<rparr>"
  define s where "s = (flightSector None)\<lparr>ss_controllers := [1 \<mapsto> c]\<rparr>"
  have "ss_controllers s (s_ID (flightShip None)) = Some c" "ct_State c \<noteq> None" "has_phase c"
    "w_hasAIRegistry (flightWorker\<lparr>w_hasAIRegistry := True\<rparr>)" "w_buildController (flightWorker\<lparr>w_hasAIRegistry := True\<rparr>) = registry_Build"
    by (simp_all add: s_def c_def flight_at ct_State_def has_phase_def zeroLeg_def vec_fin_def zeroVec_def flightWorker_def demoWorker_def)
  from controller_follows_ship [OF this] this(1) show ?thesis unfolding flight_at c_def by blast
qed


end
