(* ===== verification/Patches.thy ===== *)
theory Patches
  imports Tick
begin

text \<open>
  What the clients are sent: \<open>aoi.go\<close> (the spatial grid), \<open>patch.go\<close> and the \<open>InRadius\<close>, \<open>diff\<close>
  and \<open>filter\<close> functions (ship, missile, drone, torpedo, container, asteroid and static deltas),
  \<open>broadcastPatches\<close> with the stealth filter (\<open>snapshot.go\<close>, \<open>state.go\<close>) and the subscriptions
  (\<open>subscribe.go\<close>). A subscription remembers what it sent last; a patch is the difference to what
  is in view now, and a patch that finds the client's buffer full is dropped and not remembered.
\<close>

section \<open>The spatial grid\<close>

fun f_Floor :: "float64 \<Rightarrow> float64" where
  "f_Floor (Fin x) = Fin (of_int \<lfloor>x\<rfloor>)"
| "f_Floor x = x"

record spatial_grid =
  sg_cellSize :: float64
  sg_cells :: "(int \<times> int) \<Rightarrow> ship list"

definition newSpatialGrid :: "float64 \<Rightarrow> spatial_grid" where
  "newSpatialGrid cellSize = \<lparr>sg_cellSize = (if f_le cellSize (Fin 0) then Fin 1 else cellSize), sg_cells = (\<lambda>_. [])\<rparr>"

definition gridIndex :: "spatial_grid \<Rightarrow> float64 \<Rightarrow> int" where
  "gridIndex g x = f_to_int64 (f_Floor (f_div x (sg_cellSize g)))"

definition cellOf :: "spatial_grid \<Rightarrow> vec2 \<Rightarrow> int \<times> int" where
  "cellOf g p = (gridIndex g (vX p), gridIndex g (vY p))"

definition grid_insert :: "ship \<Rightarrow> spatial_grid \<Rightarrow> spatial_grid" where
  "grid_insert x g = (let k = cellOf g (s_Pos x) in g\<lparr>sg_cells := (sg_cells g)(k := sg_cells g k @ [x])\<rparr>)"

definition buildGrid :: "int list \<Rightarrow> (int \<rightharpoonup> ship) \<Rightarrow> float64 \<Rightarrow> spatial_grid" where
  "buildGrid order ships cellSize = fold grid_insert (List.map_filter ships order) (newSpatialGrid cellSize)"

definition queryIDs :: "spatial_grid \<Rightarrow> vec2 \<Rightarrow> float64 \<Rightarrow> int set" where
  "queryIDs g center radius =
     (if f_le radius (Fin 0) then {}
      else (let r2 = f_mul radius radius;
          xs = [gridIndex g (f_sub (vX center) radius) .. gridIndex g (f_add (vX center) radius)];
          ys = [gridIndex g (f_sub (vY center) radius) .. gridIndex g (f_add (vY center) radius)]
        in set (concat (map (\<lambda>cx. concat (map (\<lambda>cy.
             map s_ID (filter (\<lambda>x. pointInRadius2 (s_Pos x) center r2) (sg_cells g (cx, cy)))) ys)) xs))))"

section \<open>Go's equality of the sent values\<close>

text \<open>
  Comparable structs are equal when their fields are; a number that is not a number is not equal to
  itself.
\<close>

definition missile_eq :: "missile \<Rightarrow> missile \<Rightarrow> bool" where
  "missile_eq a b \<longleftrightarrow> a = b \<and> vEq (m_Pos a) (m_Pos b) \<and> vEq (m_Vel a) (m_Vel b) \<and> vEq (m_Direction a) (m_Direction b) \<and>
     vEq (m_LastTargetPos a) (m_LastTargetPos b) \<and> f_eq (m_Speed a) (m_Speed b) \<and> f_eq (m_Accel a) (m_Accel b) \<and>
     f_eq (m_TurnRate a) (m_TurnRate b) \<and> f_eq (m_HitRadius a) (m_HitRadius b)"

definition drone_eq :: "drone \<Rightarrow> drone \<Rightarrow> bool" where
  "drone_eq a b \<longleftrightarrow> a = b \<and> vEq (d_Pos a) (d_Pos b) \<and> vEq (d_Vel a) (d_Vel b) \<and> vEq (d_Direction a) (d_Direction b)"

definition torpedo_eq :: "torpedo \<Rightarrow> torpedo \<Rightarrow> bool" where
  "torpedo_eq a b \<longleftrightarrow> a = b \<and> vEq (t_Pos a) (t_Pos b) \<and> vEq (t_Vel a) (t_Vel b) \<and> vEq (t_Direction a) (t_Direction b) \<and>
     vEq (t_LastTargetPos a) (t_LastTargetPos b) \<and> f_eq (t_Speed a) (t_Speed b) \<and> f_eq (t_Accel a) (t_Accel b) \<and>
     f_eq (t_TurnRate a) (t_TurnRate b) \<and> f_eq (t_HitRadius a) (t_HitRadius b) \<and> f_eq (t_SplashRadius a) (t_SplashRadius b)"

definition asteroid_eq :: "asteroid \<Rightarrow> asteroid \<Rightarrow> bool" where
  "asteroid_eq a b \<longleftrightarrow> a = b \<and> vEq (a_Pos a) (a_Pos b)"

definition courseEqual :: "course option \<Rightarrow> course option \<Rightarrow> bool" where
  "courseEqual a b = (case (a, b) of (None, None) \<Rightarrow> True
     | (Some c, Some d) \<Rightarrow> crs_Sector c = crs_Sector d \<and> vEq (crs_Pos c) (crs_Pos d) \<and> crs_Approach c = crs_Approach d
     | _ \<Rightarrow> False)"

text \<open>The fields of a ship that the clients see; a change of any other field sends nothing.\<close>

definition shipEqual :: "ship \<Rightarrow> ship \<Rightarrow> bool" where
  "shipEqual a b \<longleftrightarrow> s_ID a = s_ID b \<and> s_PlayerID a = s_PlayerID b \<and> s_SectorID a = s_SectorID b \<and>
     vEq (s_Pos a) (s_Pos b) \<and> vEq (s_Vel a) (s_Vel b) \<and> vEq (s_Direction a) (s_Direction b) \<and> vEq (s_LastStep a) (s_LastStep b) \<and>
     s_HP a = s_HP b \<and> s_Shield a = s_Shield b \<and> f_eq (s_MaxSpeed a) (s_MaxSpeed b) \<and> s_Energy a = s_Energy b \<and>
     s_Docked a = s_Docked b \<and> s_CurrentTargetRef a = s_CurrentTargetRef b \<and> s_AttackTarget a = s_AttackTarget b \<and>
     s_MiningTarget a = s_MiningTarget b \<and> s_IsOpen a = s_IsOpen b \<and> s_IsHidden a = s_IsHidden b \<and> s_Equipment a = s_Equipment b \<and>
     courseEqual (s_FinalTarget a) (s_FinalTarget b) \<and>
     (case (s_Target a, s_Target b) of (None, None) \<Rightarrow> True | (Some v, Some u) \<Rightarrow> vEq v u | _ \<Rightarrow> False)"

section \<open>Differences\<close>

text \<open>
  The common loop: what is new in \<open>cur\<close> and what changed, in the order \<open>co\<close> of its keys, and which
  keys of \<open>prev\<close> are gone, in the order \<open>po\<close>.
\<close>

type_synonym ('k, 'a) delta = "'a list \<times> 'a list \<times> 'k list"

definition diffMap :: "('a \<Rightarrow> 'a \<Rightarrow> bool) \<Rightarrow> 'k list \<Rightarrow> 'k list \<Rightarrow> ('k \<rightharpoonup> 'a) \<Rightarrow> ('k \<rightharpoonup> 'a) \<Rightarrow> ('k, 'a) delta" where
  "diffMap same co po prev cur =
     (List.map_filter (\<lambda>k. if prev k = None then cur k else None) co,
      List.map_filter (\<lambda>k. case (prev k, cur k) of (Some p, Some c) \<Rightarrow> if same p c then None else Some c | _ \<Rightarrow> None) co,
      filter (\<lambda>k. prev k \<noteq> None \<and> cur k = None) po)"

definition buildPatch :: "int list \<Rightarrow> int list \<Rightarrow> (int \<rightharpoonup> ship) \<Rightarrow> (int \<rightharpoonup> ship) \<Rightarrow> (int, ship) delta" where
  "buildPatch = diffMap shipEqual"

definition diffMissiles :: "int list \<Rightarrow> int list \<Rightarrow> (int \<rightharpoonup> missile) \<Rightarrow> (int \<rightharpoonup> missile) \<Rightarrow> (int, missile) delta" where
  "diffMissiles = diffMap missile_eq"

definition diffDrones :: "int list \<Rightarrow> int list \<Rightarrow> (int \<rightharpoonup> drone) \<Rightarrow> (int \<rightharpoonup> drone) \<Rightarrow> (int, drone) delta" where
  "diffDrones = diffMap drone_eq"

definition diffTorpedos :: "int list \<Rightarrow> int list \<Rightarrow> (int \<rightharpoonup> torpedo) \<Rightarrow> (int \<rightharpoonup> torpedo) \<Rightarrow> (int, torpedo) delta" where
  "diffTorpedos = diffMap torpedo_eq"

definition diffAsteroids :: "int list \<Rightarrow> int list \<Rightarrow> (int \<rightharpoonup> asteroid) \<Rightarrow> (int \<rightharpoonup> asteroid) \<Rightarrow> (int, asteroid) delta" where
  "diffAsteroids = diffMap asteroid_eq"

text \<open>Containers have no update bucket.\<close>

definition diffContainers :: "int list \<Rightarrow> int list \<Rightarrow> (int \<rightharpoonup> container) \<Rightarrow> (int \<rightharpoonup> container) \<Rightarrow> container list \<times> int list" where
  "diffContainers co po prev cur = (List.map_filter (\<lambda>k. if prev k = None then cur k else None) co,
     filter (\<lambda>k. prev k \<noteq> None \<and> cur k = None) po)"

definition diffStaticRefs :: "entity_ref list \<Rightarrow> entity_ref set \<Rightarrow> entity_ref set \<Rightarrow> entity_ref list" where
  "diffStaticRefs co prev cur = filter (\<lambda>r. r \<in> cur \<and> r \<notin> prev) co"

section \<open>What is in view\<close>

definition inRadius :: "('a \<Rightarrow> vec2) \<Rightarrow> ('k \<rightharpoonup> 'a) \<Rightarrow> vec2 \<Rightarrow> float64 \<Rightarrow> 'k \<rightharpoonup> 'a" where
  "inRadius pos src center radius =
     (if f_le radius (Fin 0) then src
      else (\<lambda>k. case src k of None \<Rightarrow> None
        | Some x \<Rightarrow> if pointInRadius2 (pos x) center (f_mul radius radius) then Some x else None))"

definition missilesInRadius :: "(int \<rightharpoonup> missile) \<Rightarrow> vec2 \<Rightarrow> float64 \<Rightarrow> int \<rightharpoonup> missile" where
  "missilesInRadius = inRadius m_Pos"

definition dronesInRadius :: "(int \<rightharpoonup> drone) \<Rightarrow> vec2 \<Rightarrow> float64 \<Rightarrow> int \<rightharpoonup> drone" where
  "dronesInRadius = inRadius d_Pos"

definition torpedosInRadius :: "(int \<rightharpoonup> torpedo) \<Rightarrow> vec2 \<Rightarrow> float64 \<Rightarrow> int \<rightharpoonup> torpedo" where
  "torpedosInRadius = inRadius t_Pos"

definition containersInRadius :: "(int \<rightharpoonup> container) \<Rightarrow> vec2 \<Rightarrow> float64 \<Rightarrow> int \<rightharpoonup> container" where
  "containersInRadius = inRadius c_Pos"

definition asteroidsInRadius :: "(int \<rightharpoonup> asteroid) \<Rightarrow> vec2 \<Rightarrow> float64 \<Rightarrow> int \<rightharpoonup> asteroid" where
  "asteroidsInRadius = inRadius a_Pos"

definition filterForAOI :: "('a \<Rightarrow> vec2) \<Rightarrow> 'a list \<Rightarrow> vec2 \<Rightarrow> float64 \<Rightarrow> 'a list" where
  "filterForAOI pos imps center radius =
     (if f_le radius (Fin 0) then imps else filter (\<lambda>x. pointInRadius2 (pos x) center (f_mul radius radius)) imps)"

definition filterMissileImpactsForAOI :: "missile_impact list \<Rightarrow> vec2 \<Rightarrow> float64 \<Rightarrow> missile_impact list" where
  "filterMissileImpactsForAOI = filterForAOI mi_Pos"

definition filterDroneImpactsForAOI :: "drone_impact list \<Rightarrow> vec2 \<Rightarrow> float64 \<Rightarrow> drone_impact list" where
  "filterDroneImpactsForAOI = filterForAOI di_Pos"

definition filterTorpedoImpactsForAOI :: "torpedo_impact list \<Rightarrow> vec2 \<Rightarrow> float64 \<Rightarrow> torpedo_impact list" where
  "filterTorpedoImpactsForAOI = filterForAOI ti_Pos"

definition filterLaserEffectsForAOI :: "laser_beam list \<Rightarrow> vec2 \<Rightarrow> float64 \<Rightarrow> laser_beam list" where
  "filterLaserEffectsForAOI beams center radius =
     (if f_le radius (Fin 0) then beams
      else filter (\<lambda>b. pointInRadius2 (lb_From b) center (f_mul radius radius) \<or> pointInRadius2 (lb_To b) center (f_mul radius radius)) beams)"

definition radarOrFallback :: "float64 \<Rightarrow> float64 \<Rightarrow> float64" where
  "radarOrFallback r fallback = (if f_lt (Fin 0) r then r else fallback)"

definition playerShip :: "int list \<Rightarrow> (int \<rightharpoonup> ship) \<Rightarrow> int \<Rightarrow> ship option" where
  "playerShip order ships player = find (\<lambda>x. s_PlayerID x = player) (List.map_filter ships order)"

definition friendOf :: "worker \<Rightarrow> int \<Rightarrow> int \<Rightarrow> bool" where
  "friendOf w a b = (case w_relations w of None \<Rightarrow> False | Some get \<Rightarrow> get (PlayerRef a) (PlayerRef b) = RelationFriend)"

text \<open>A ship under its cloak: fitted, powered, and not giving itself away by fire.\<close>

definition cloaked :: "ship \<Rightarrow> bool" where
  "cloaked x \<longleftrightarrow> s_IsHidden x \<and> s_AttackTarget x = None \<and> \<not> s_MissileJustFired x \<and> 0 < s_Energy x"

definition hideStealthed :: "worker \<Rightarrow> (int \<rightharpoonup> ship) \<Rightarrow> int \<Rightarrow> vec2 \<Rightarrow> int set \<Rightarrow> int set" where
  "hideStealthed w ships player center visible =
     {i \<in> visible. case ships i of None \<Rightarrow> True
      | Some x \<Rightarrow> \<not> cloaked x \<or> s_PlayerID x = player \<or>
          pointInRadius2 (s_Pos x) center (f_mul (w_StealthDetectRange w) (w_StealthDetectRange w)) \<or>
          friendOf w (s_PlayerID x) player}"

definition satellitesPresent :: "sector_state \<Rightarrow> bool" where
  "satellitesPresent s = list_ex so_Built (Satellites (ss_statics s))"

definition satelliteRevealsFor :: "worker \<Rightarrow> sector_state \<Rightarrow> int \<Rightarrow> bool" where
  "satelliteRevealsFor w s player = list_ex (\<lambda>sat. so_Built sat \<and> (case so_OwnerID sat of None \<Rightarrow> False
     | Some owner \<Rightarrow> owner = player \<or> friendOf w owner player)) (Satellites (ss_statics s))"

definition alwaysVisibleStatic :: "int \<Rightarrow> bool" where
  "alwaysVisibleStatic k \<longleftrightarrow> k \<in> {EntityKindStation, EntityKindShipyard, EntityKindTradeStation, EntityKindPirbase}"

definition visibleStaticRefs :: "sector_state \<Rightarrow> vec2 \<Rightarrow> float64 \<Rightarrow> entity_ref set" where
  "visibleStaticRefs s center radius = {r. case ss_destructibles s r of None \<Rightarrow> False
     | Some d \<Rightarrow> alwaysVisibleStatic (ref_kind r) \<or>
         (\<not> f_le radius (Fin 0) \<and> pointInRadius2 (ds_Pos d) center (f_mul radius radius))}"

definition collectDirtyDestructibles :: "entity_ref list \<Rightarrow> sector_state \<Rightarrow> destructible_static list" where
  "collectDirtyDestructibles order s = List.map_filter (ss_destructibles s) order"

definition withLiveStatics :: "sector_state \<Rightarrow> destructible_static list \<Rightarrow> entity_ref list \<Rightarrow> destructible_static list" where
  "withLiveStatics s base refs = base @ List.map_filter (\<lambda>r. if r \<in> ds_Ref ` set base then None else ss_destructibles s r) refs"

definition collectStaticsByRefs :: "sector_state \<Rightarrow> entity_ref list \<Rightarrow> sector_statics" where
  "collectStaticsByRefs s refs =
     (let st = ss_statics s; pick = (\<lambda>k. filter (\<lambda>x. EntityRef k (so_ID x) \<in> set refs)) in
      \<lparr>Stations = pick EntityKindStation (Stations st), Shipyards = pick EntityKindShipyard (Shipyards st),
       TradeStations = pick EntityKindTradeStation (TradeStations st), Pirbases = pick EntityKindPirbase (Pirbases st),
       LaserTowers = pick EntityKindLaserTower (LaserTowers st), Satellites = pick EntityKindSatellite (Satellites st),
       Jammers = pick EntityKindJammer (Jammers st)\<rparr>)"

section \<open>Subscriptions and patches\<close>

record view =
  vw_ships :: "int \<rightharpoonup> ship"
  vw_missiles :: "int \<rightharpoonup> missile"
  vw_drones :: "int \<rightharpoonup> drone"
  vw_torpedos :: "int \<rightharpoonup> torpedo"
  vw_containers :: "int \<rightharpoonup> container"
  vw_asteroids :: "int \<rightharpoonup> asteroid"
  vw_statics :: "entity_ref set"

record subscription =
  sub_PlayerID :: int
  sub_Center :: vec2
  sub_Radius :: float64
  sub_last :: view

record patch =
  p_Tick :: int
  p_Ships :: "(int, ship) delta"
  p_LaserEffects :: "laser_beam list"
  p_Missiles :: "(int, missile) delta"
  p_MissileImpacts :: "missile_impact list"
  p_Drones :: "(int, drone) delta"
  p_DroneImpacts :: "drone_impact list"
  p_Torpedos :: "(int, torpedo) delta"
  p_TorpedoImpacts :: "torpedo_impact list"
  p_Containers :: "container list \<times> int list"
  p_Asteroids :: "(int, asteroid) delta"
  p_StaticsUpdated :: "destructible_static list"
  p_StaticsRemoved :: "entity_ref list"
  p_StaticsAdded :: sector_statics
  p_TimeScale :: float64

abbreviation no_delta :: "('k, 'a) delta \<Rightarrow> bool" where
  "no_delta d \<equiv> d = ([], [], [])"

definition statics_IsEmpty :: "sector_statics \<Rightarrow> bool" where
  "statics_IsEmpty st \<longleftrightarrow> Stations st = [] \<and> Shipyards st = [] \<and> TradeStations st = [] \<and> Pirbases st = [] \<and>
     LaserTowers st = [] \<and> Satellites st = [] \<and> Jammers st = []"

definition patch_IsEmpty :: "patch \<Rightarrow> bool" where
  "patch_IsEmpty p \<longleftrightarrow> no_delta (p_Ships p) \<and> p_LaserEffects p = [] \<and> no_delta (p_Missiles p) \<and> p_MissileImpacts p = [] \<and>
     no_delta (p_Drones p) \<and> p_DroneImpacts p = [] \<and> no_delta (p_Torpedos p) \<and> p_TorpedoImpacts p = [] \<and>
     p_Containers p = ([], []) \<and> no_delta (p_Asteroids p) \<and> p_StaticsUpdated p = [] \<and> p_StaticsRemoved p = [] \<and>
     statics_IsEmpty (p_StaticsAdded p)"

definition noStatics :: sector_statics where
  "noStatics = \<lparr>Stations = [], Shipyards = [], TradeStations = [], Pirbases = [], LaserTowers = [], Satellites = [], Jammers = []\<rparr>"

definition emptyView :: view where
  "emptyView = \<lparr>vw_ships = Map.empty, vw_missiles = Map.empty, vw_drones = Map.empty, vw_torpedos = Map.empty,
     vw_containers = Map.empty, vw_asteroids = Map.empty, vw_statics = {}\<rparr>"

text \<open>A fresh subscription has sent nothing but the statics of the snapshot published last.\<close>

definition subscribe :: "worker \<Rightarrow> int \<Rightarrow> entity_ref set \<Rightarrow> subscription" where
  "subscribe w player published = \<lparr>sub_PlayerID = player, sub_Center = zeroVec, sub_Radius = w_AOIRadius w,
     sub_last = emptyView\<lparr>vw_statics := published\<rparr>\<rparr>"

record patch_orders =
  po_grid :: "int list"
  po_player :: "int list"
  po_curr :: "int \<Rightarrow> int list"
  po_prev :: "int \<Rightarrow> int list"
  po_dirty :: "entity_ref list"
  po_staticsCurr :: "entity_ref list"
  po_staticsPrev :: "entity_ref list"

definition aimSub :: "worker \<Rightarrow> patch_orders \<Rightarrow> sector_state \<Rightarrow> subscription \<Rightarrow> subscription" where
  "aimSub w ord s sub =
     (let sub = (case playerShip (po_player ord) (ss_ships s) (sub_PlayerID sub) of
            Some x \<Rightarrow> sub\<lparr>sub_Center := s_Pos x, sub_Radius := radarOrFallback (s_RadarRange x) (w_AOIRadius w)\<rparr>
          | None \<Rightarrow> sub\<lparr>sub_Center := zeroVec, sub_Radius := w_AOIRadius w\<rparr>)
      in if satellitesPresent s \<and> f_lt (sub_Radius sub) (w_SatelliteRevealRadius w) \<and> satelliteRevealsFor w s (sub_PlayerID sub)
         then sub\<lparr>sub_Radius := w_SatelliteRevealRadius w\<rparr> else sub)"

definition currentView :: "worker \<Rightarrow> patch_orders \<Rightarrow> sector_state \<Rightarrow> subscription \<Rightarrow> view" where
  "currentView w ord s sub =
     (let center = sub_Center sub; radius = sub_Radius sub;
          grid = buildGrid (po_grid ord) (ss_ships s) (f_mul (w_AOIRadius w) (f_lit (15 / 10)));
          visible = hideStealthed w (ss_ships s) (sub_PlayerID sub) center (queryIDs grid center radius)
      in \<lparr>vw_ships = ss_ships s |` visible, vw_missiles = missilesInRadius (ss_missiles s) center radius,
          vw_drones = dronesInRadius (ss_drones s) center radius, vw_torpedos = torpedosInRadius (ss_torpedos s) center radius,
          vw_containers = containersInRadius (ss_containers s) center radius,
          vw_asteroids = asteroidsInRadius (ss_asteroids s) center (Fin 0),
          vw_statics = visibleStaticRefs s center radius\<rparr>)"

definition makePatch :: "patch_orders \<Rightarrow> sector_state \<Rightarrow> subscription \<Rightarrow> view \<Rightarrow> patch" where
  "makePatch ord s sub cur =
     (let prev = sub_last sub; center = sub_Center sub; radius = sub_Radius sub; co = po_curr ord; po = po_prev ord;
          dirty = collectDirtyDestructibles (po_dirty ord) s;
          addedRefs = diffStaticRefs (po_staticsCurr ord) (vw_statics prev) (vw_statics cur)
      in \<lparr>p_Tick = ss_tick s,
          p_Ships = buildPatch (co 0) (po 0) (vw_ships prev) (vw_ships cur),
          p_LaserEffects = filterLaserEffectsForAOI (ss_laserEffects s) center radius,
          p_Missiles = diffMissiles (co 1) (po 1) (vw_missiles prev) (vw_missiles cur),
          p_MissileImpacts = filterMissileImpactsForAOI (ss_missileImpacts s) center radius,
          p_Drones = diffDrones (co 2) (po 2) (vw_drones prev) (vw_drones cur),
          p_DroneImpacts = filterDroneImpactsForAOI (ss_droneImpacts s) center radius,
          p_Torpedos = diffTorpedos (co 3) (po 3) (vw_torpedos prev) (vw_torpedos cur),
          p_TorpedoImpacts = filterTorpedoImpactsForAOI (ss_torpedoImpacts s) center radius,
          p_Containers = diffContainers (co 4) (po 4) (vw_containers prev) (vw_containers cur),
          p_Asteroids = diffAsteroids (co 5) (po 5) (vw_asteroids prev) (vw_asteroids cur),
          p_StaticsUpdated = (if addedRefs = [] then dirty else withLiveStatics s dirty addedRefs),
          p_StaticsRemoved = ss_staticsRemoved s @ diffStaticRefs (po_staticsPrev ord) (vw_statics cur) (vw_statics prev),
          p_StaticsAdded = (if addedRefs = [] then noStatics else collectStaticsByRefs s addedRefs),
          p_TimeScale = ss_timeScale s\<rparr>)"

text \<open>
  One subscriber's part of \<open>broadcastPatches\<close>: \<open>free\<close> says whether the client's channel has room.
  The result is the patch that reached the channel, if any.
\<close>

definition broadcastTo :: "worker \<Rightarrow> patch_orders \<Rightarrow> bool \<Rightarrow> sector_state \<Rightarrow> subscription \<Rightarrow> patch option \<times> subscription" where
  "broadcastTo w ord free s sub =
     (let sub = aimSub w ord s sub; cur = currentView w ord s sub; p = makePatch ord s sub cur in
      if patch_IsEmpty p \<and> f_le (Fin 1) (ss_timeScale s) then (None, sub)
      else if free then (Some p, sub\<lparr>sub_last := cur\<rparr>)
      else (None, sub))"

end
