(* ===== verification/Mirror.thy ===== *)
theory Mirror
  imports Patches Authority
begin

text \<open>
  What the deltas of the theory Patches amount to: a client that applies the patches it receives holds
  the view the sector computed for it, whichever patches were dropped in between; a cloaked ship
  shows up in no patch of a stranger; and the spatial grid finds the ships a scan of all ships finds.
\<close>

section \<open>Applying a delta\<close>

text \<open>The meaning of a delta for whoever receives it: put what is added or updated, drop what is removed.\<close>

definition applyDelta :: "('a \<Rightarrow> 'k) \<Rightarrow> ('k, 'a) delta \<Rightarrow> ('k \<rightharpoonup> 'a) \<Rightarrow> 'k \<rightharpoonup> 'a" where
  "applyDelta key d m = (case d of (added, updated, removed) \<Rightarrow>
     (\<lambda>k. if k \<in> set removed then None else (m ++ byKey key (added @ updated)) k))"

text \<open>Two maps agree when they have the same keys and values that the comparison does not tell apart.\<close>

definition agree :: "('a \<Rightarrow> 'a \<Rightarrow> bool) \<Rightarrow> ('k \<rightharpoonup> 'a) \<Rightarrow> ('k \<rightharpoonup> 'a) \<Rightarrow> bool" where
  "agree same m n \<longleftrightarrow> (\<forall>k. rel_option (\<lambda>x y. x = y \<or> same x y) (m k) (n k))"

lemma agree_refl: "agree same m m"
  by (auto simp: agree_def intro: option.rel_refl)

lemma byKey_unique:
  assumes "x \<in> set xs" "key x = k" "\<And>y. y \<in> set xs \<Longrightarrow> key y = k \<Longrightarrow> y = x"
  shows "byKey key xs k = Some x"
proof (cases "byKey key xs k")
  case None
  then show ?thesis using assms(1,2) by (force simp: byKey_def map_of_eq_None_iff)
next
  case (Some y)
  then show ?thesis using byKey_Some [OF Some] assms(3) by simp
qed

lemma byKey_none: "k \<notin> key ` set xs \<Longrightarrow> byKey key xs k = None"
  by (force simp: byKey_def map_of_eq_None_iff)

locale comparison =
  fixes same :: "'a \<Rightarrow> 'a \<Rightarrow> bool" and key :: "'a \<Rightarrow> 'k"
  assumes trans: "same x y \<Longrightarrow> same y z \<Longrightarrow> same x z"
begin

lemma in_diff:
  assumes "diffMap same co po prev cur = (added, updated, removed)" and keyed: "\<And>k x. cur k = Some x \<Longrightarrow> key x = k"
  shows "c \<in> set added \<longleftrightarrow> key c \<in> set co \<and> prev (key c) = None \<and> cur (key c) = Some c"
    and "c \<in> set updated \<longleftrightarrow> key c \<in> set co \<and> cur (key c) = Some c \<and> (\<exists>p. prev (key c) = Some p \<and> \<not> same p c)"
proof -
  have added: "added = List.map_filter (\<lambda>k. if prev k = None then cur k else None) co"
    and updated: "updated = List.map_filter (\<lambda>k. case (prev k, cur k) of (Some p, Some c) \<Rightarrow> if same p c then None else Some c | _ \<Rightarrow> None) co"
    using assms(1) by (simp_all add: diffMap_def)
  have filt: "x \<in> set (List.map_filter f ks) \<longleftrightarrow> (\<exists>k \<in> set ks. f k = Some x)" for f :: "'k \<Rightarrow> 'a option" and ks x
    by (force simp: List.map_filter_def)
  show "c \<in> set added \<longleftrightarrow> key c \<in> set co \<and> prev (key c) = None \<and> cur (key c) = Some c"
    unfolding added filt using keyed by (auto split: if_splits)
  show "c \<in> set updated \<longleftrightarrow> key c \<in> set co \<and> cur (key c) = Some c \<and> (\<exists>p. prev (key c) = Some p \<and> \<not> same p c)"
  proof -
    have "(case (prev k, cur k) of (Some p, Some c) \<Rightarrow> if same p c then None else Some c | _ \<Rightarrow> None) = Some c \<longleftrightarrow>
        cur k = Some c \<and> (\<exists>p. prev k = Some p \<and> \<not> same p c)" for k
      by (cases "prev k"; cases "cur k") auto
    then show ?thesis unfolding updated filt using keyed by auto
  qed
qed

text \<open>Applying the difference to a map that agrees with the old one gives a map that agrees with the new one.\<close>

lemma diff_apply:
  assumes keyed: "\<And>k x. cur k = Some x \<Longrightarrow> key x = k" and cover: "dom cur \<subseteq> set co" "dom prev \<subseteq> set po"
    and m: "agree same m prev"
  shows "agree same (applyDelta key (diffMap same co po prev cur) m) cur"
proof -
  obtain added updated removed where d: "diffMap same co po prev cur = (added, updated, removed)" by (metis prod.exhaust)
  let ?new = "byKey key (added @ updated)"
  have removed: "k \<in> set removed \<longleftrightarrow> prev k \<noteq> None \<and> cur k = None" for k
    using d cover(2) by (auto simp: diffMap_def)
  note new = in_diff [OF d keyed]
  have at: "?new k = Some c" if "cur k = Some c" "prev k = None \<or> (\<exists>p. prev k = Some p \<and> \<not> same p c)" for k c
  proof (rule byKey_unique)
    show "key c = k" using that(1) keyed by simp
    then show "c \<in> set (added @ updated)" using that cover(1) by (auto simp: new)
    show "y = c" if "y \<in> set (added @ updated)" "key y = k" for y using that \<open>cur k = Some c\<close> by (auto simp: new)
  qed
  have old: "?new k = None" if "cur k = None \<or> (\<exists>p c. prev k = Some p \<and> cur k = Some c \<and> same p c)" for k
    using that by (intro byKey_none) (auto simp: new)
  show ?thesis
    unfolding agree_def d applyDelta_def prod.case
  proof
    fix k
    have mk: "rel_option (\<lambda>x y. x = y \<or> same x y) (m k) (prev k)" using m by (simp add: agree_def)
    show "rel_option (\<lambda>x y. x = y \<or> same x y) (if k \<in> set removed then None else (m ++ ?new) k) (cur k)"
    proof (cases "cur k")
      case None
      then show ?thesis using mk removed [of k] old [of k] by (cases "prev k") (auto simp: map_add_def)
    next
      case (Some c)
      show ?thesis
      proof (cases "\<exists>p. prev k = Some p \<and> same p c")
        case True
        then obtain p where p: "prev k = Some p" "same p c" by blast
        then obtain x where "m k = Some x" "x = p \<or> same x p" using mk by (auto elim: option.rel_cases)
        then show ?thesis using Some p removed [of k] old [of k] trans by (auto simp: map_add_def)
      next
        case False
        then have "?new k = Some c" using at [OF Some] by (cases "prev k") auto
        then show ?thesis using Some removed [of k] by (simp add: map_add_def)
      qed
    qed
  qed
qed

end

lemma f_eq_trans: "f_eq x y \<Longrightarrow> f_eq y z \<Longrightarrow> f_eq x z"
  by (cases x; cases y; cases z) simp_all

lemma vEq_trans: "vEq u v \<Longrightarrow> vEq v w \<Longrightarrow> vEq u w"
  unfolding vEq_def using f_eq_trans by blast

lemma courseEqual_trans: "courseEqual a b \<Longrightarrow> courseEqual b c \<Longrightarrow> courseEqual a c"
  unfolding courseEqual_def using vEq_trans by (cases a; cases b; cases c) (simp_all, blast)

lemma target_eq_trans:
  "(case (a, b) of (None, None) \<Rightarrow> True | (Some v, Some u) \<Rightarrow> vEq v u | _ \<Rightarrow> False) \<Longrightarrow>
   (case (b, c) of (None, None) \<Rightarrow> True | (Some v, Some u) \<Rightarrow> vEq v u | _ \<Rightarrow> False) \<Longrightarrow>
   (case (a, c) of (None, None) \<Rightarrow> True | (Some v, Some u) \<Rightarrow> vEq v u | _ \<Rightarrow> False)"
  by (cases a; cases b; cases c) (auto intro: vEq_trans)

lemma shipEqual_trans: "shipEqual a b \<Longrightarrow> shipEqual b c \<Longrightarrow> shipEqual a c"
proof -
  assume ab: "shipEqual a b" and bc: "shipEqual b c"
  note p = ab [unfolded shipEqual_def] and q = bc [unfolded shipEqual_def]
  have t: "case (s_Target a, s_Target c) of (None, None) \<Rightarrow> True | (Some v, Some u) \<Rightarrow> vEq v u | _ \<Rightarrow> False"
    by (rule target_eq_trans [where b = "s_Target b"]) (use p q in blast)+
  have "vEq (s_Pos a) (s_Pos c)" "vEq (s_Vel a) (s_Vel c)" "vEq (s_Direction a) (s_Direction c)" "vEq (s_LastStep a) (s_LastStep c)"
    "f_eq (s_MaxSpeed a) (s_MaxSpeed c)" "courseEqual (s_FinalTarget a) (s_FinalTarget c)"
    using p q vEq_trans f_eq_trans courseEqual_trans by blast+
  then show ?thesis
    unfolding shipEqual_def using t by (intro conjI) (use p q in \<open>simp_all only: simp_thms\<close>)
qed

interpretation ships: comparison shipEqual s_ID
  by unfold_locales (rule shipEqual_trans)

interpretation missiles: comparison missile_eq m_ID
  by unfold_locales (auto simp: missile_eq_def)

interpretation drones: comparison drone_eq d_ID
  by unfold_locales (auto simp: drone_eq_def)

interpretation torpedos: comparison torpedo_eq t_ID
  by unfold_locales (auto simp: torpedo_eq_def)

interpretation asteroids: comparison asteroid_eq a_ID
  by unfold_locales (auto simp: asteroid_eq_def)

text \<open>Containers are compared by their key only.\<close>

interpretation containers: comparison "\<lambda>_ _. True" c_ID
  by unfold_locales simp

lemma diffContainers_diff:
  "(case diffContainers co po prev cur of (added, removed) \<Rightarrow> (added, [], removed)) = diffMap (\<lambda>_ _. True) co po prev cur"
  by (auto simp: diffContainers_def diffMap_def List.map_filter_def split: option.split)

section \<open>A client's mirror\<close>

text \<open>A client applies the ship, projectile, container and asteroid deltas of every patch it receives.\<close>

definition applyPatch :: "patch \<Rightarrow> view \<Rightarrow> view" where
  "applyPatch p m = m\<lparr>vw_ships := applyDelta s_ID (p_Ships p) (vw_ships m),
     vw_missiles := applyDelta m_ID (p_Missiles p) (vw_missiles m),
     vw_drones := applyDelta d_ID (p_Drones p) (vw_drones m),
     vw_torpedos := applyDelta t_ID (p_Torpedos p) (vw_torpedos m),
     vw_containers := applyDelta c_ID (fst (p_Containers p), [], snd (p_Containers p)) (vw_containers m),
     vw_asteroids := applyDelta a_ID (p_Asteroids p) (vw_asteroids m)\<rparr>"

definition mirrors :: "view \<Rightarrow> view \<Rightarrow> bool" where
  "mirrors m v \<longleftrightarrow> agree shipEqual (vw_ships m) (vw_ships v) \<and> agree missile_eq (vw_missiles m) (vw_missiles v) \<and>
     agree drone_eq (vw_drones m) (vw_drones v) \<and> agree torpedo_eq (vw_torpedos m) (vw_torpedos v) \<and>
     agree (\<lambda>_ _. True) (vw_containers m) (vw_containers v) \<and> agree asteroid_eq (vw_asteroids m) (vw_asteroids v)"

text \<open>The maps of a sector are keyed by the identifiers of what they hold.\<close>

definition keyed_by :: "('a \<Rightarrow> 'k) \<Rightarrow> ('k \<rightharpoonup> 'a) \<Rightarrow> bool" where
  "keyed_by key m \<longleftrightarrow> (\<forall>k x. m k = Some x \<longrightarrow> key x = k)"

definition filed :: "sector_state \<Rightarrow> bool" where
  "filed s \<longleftrightarrow> keyed s \<and> keyed_by m_ID (ss_missiles s) \<and> keyed_by d_ID (ss_drones s) \<and> keyed_by t_ID (ss_torpedos s) \<and>
     keyed_by c_ID (ss_containers s) \<and> keyed_by a_ID (ss_asteroids s)"

text \<open>The loops over the maps visit every key.\<close>

definition visits :: "(int \<Rightarrow> int list) \<Rightarrow> view \<Rightarrow> bool" where
  "visits ks v \<longleftrightarrow> dom (vw_ships v) \<subseteq> set (ks 0) \<and> dom (vw_missiles v) \<subseteq> set (ks 1) \<and> dom (vw_drones v) \<subseteq> set (ks 2) \<and>
     dom (vw_torpedos v) \<subseteq> set (ks 3) \<and> dom (vw_containers v) \<subseteq> set (ks 4) \<and> dom (vw_asteroids v) \<subseteq> set (ks 5)"

definition inView :: "worker \<Rightarrow> patch_orders \<Rightarrow> sector_state \<Rightarrow> subscription \<Rightarrow> view" where
  "inView w ord s sub = currentView w ord s (aimSub w ord s sub)"

lemma aimSub_same: "sub_last (aimSub w ord s sub) = sub_last sub" "sub_PlayerID (aimSub w ord s sub) = sub_PlayerID sub"
  by (auto simp: aimSub_def Let_def split: option.split)

lemma inRadius_Some: "inRadius pos m c r k = Some x \<Longrightarrow> m k = Some x"
  by (auto simp: inRadius_def split: if_splits option.splits)

lemma filed_view:
  assumes "filed s"
  shows "keyed_by s_ID (vw_ships (currentView w ord s sub))" "keyed_by m_ID (vw_missiles (currentView w ord s sub))"
    "keyed_by d_ID (vw_drones (currentView w ord s sub))" "keyed_by t_ID (vw_torpedos (currentView w ord s sub))"
    "keyed_by c_ID (vw_containers (currentView w ord s sub))" "keyed_by a_ID (vw_asteroids (currentView w ord s sub))"
  using assms
  by (auto simp: filed_def keyed_def keyed_by_def currentView_def Let_def missilesInRadius_def dronesInRadius_def
    torpedosInRadius_def containersInRadius_def asteroidsInRadius_def restrict_map_def dest!: inRadius_Some split: if_splits)

lemma patch_mirrors:
  assumes "filed s" "visits (po_curr ord) (currentView w ord s sub)" "visits (po_prev ord) (sub_last sub)" "mirrors m (sub_last sub)"
  shows "mirrors (applyPatch (makePatch ord s sub (currentView w ord s sub)) m) (currentView w ord s sub)"
proof -
  note k = filed_view [OF assms(1), of w ord sub, unfolded keyed_by_def, rule_format]
  note old = assms(4) [unfolded mirrors_def] and c = assms(2) [unfolded visits_def] and p = assms(3) [unfolded visits_def]
  have cont: "(fst d, [], snd d) = diffMap (\<lambda>_ _. True) co po prev cur" if "d = diffContainers co po prev cur" for d co po prev cur
    using diffContainers_diff [of co po prev cur] that by (simp add: split_beta)
  show ?thesis
    unfolding mirrors_def applyPatch_def makePatch_def Let_def
    by (simp add: buildPatch_def diffMissiles_def diffDrones_def diffTorpedos_def diffAsteroids_def cont [OF refl],
      intro conjI ships.diff_apply missiles.diff_apply drones.diff_apply torpedos.diff_apply containers.diff_apply asteroids.diff_apply)
      (use k old c p in \<open>simp_all\<close>)
qed

text \<open>A patch without content changes no mirror.\<close>

lemma applyPatch_empty: "patch_IsEmpty p \<Longrightarrow> applyPatch p m = m"
  by (simp add: patch_IsEmpty_def applyPatch_def applyDelta_def byKey_def)

definition receive :: "patch option \<Rightarrow> view \<Rightarrow> view" where
  "receive sent m = (case sent of None \<Rightarrow> m | Some p \<Rightarrow> applyPatch p m)"

text \<open>
  A client and its subscription: it starts with nothing, and every tick the sector broadcasts,
  whatever happened to the sector in between and whether or not the client's channel has room.
\<close>

inductive listens :: "view \<Rightarrow> subscription \<Rightarrow> bool" where
  start: "listens emptyView (subscribe w player published)"
| round: "listens m sub \<Longrightarrow> filed s \<Longrightarrow> visits (po_curr ord) (inView w ord s sub) \<Longrightarrow> visits (po_prev ord) (sub_last sub) \<Longrightarrow>
    broadcastTo w ord free s sub = (sent, sub') \<Longrightarrow> listens (receive sent m) sub'"

lemma broadcast_cases:
  assumes "broadcastTo w ord free s sub = (sent, sub')"
  obtains (empty) "patch_IsEmpty (makePatch ord s (aimSub w ord s sub) (inView w ord s sub))" "sent = None" "sub_last sub' = sub_last sub"
  | (sent) "free" "sent = Some (makePatch ord s (aimSub w ord s sub) (inView w ord s sub))" "sub_last sub' = inView w ord s sub"
  | (dropped) "\<not> free" "sent = None" "sub_last sub' = sub_last sub"
  using assms by (auto simp: broadcastTo_def inView_def Let_def aimSub_same split: if_splits)

lemma round_mirrors:
  assumes "filed s" "visits (po_curr ord) (inView w ord s sub)" "visits (po_prev ord) (sub_last sub)" "mirrors m (sub_last sub)"
    "broadcastTo w ord free s sub = (sent, sub')"
  shows "mirrors (receive sent m) (sub_last sub')" and "free \<Longrightarrow> mirrors (receive sent m) (inView w ord s sub)"
proof -
  have new: "mirrors (applyPatch (makePatch ord s (aimSub w ord s sub) (inView w ord s sub)) m) (inView w ord s sub)"
    unfolding inView_def by (rule patch_mirrors) (use assms(1-4) in \<open>simp_all add: inView_def aimSub_same\<close>)
  from assms(5) show "mirrors (receive sent m) (sub_last sub')"
    by (cases rule: broadcast_cases) (use new assms(4) in \<open>simp_all add: receive_def\<close>)
  from assms(5) show "free \<Longrightarrow> mirrors (receive sent m) (inView w ord s sub)"
    by (cases rule: broadcast_cases) (use new in \<open>simp_all add: receive_def applyPatch_empty\<close>)
qed

lemma listens_mirrors: "listens m sub \<Longrightarrow> mirrors m (sub_last sub)"
proof (induction rule: listens.induct)
  case (start w player published)
  show ?case by (simp add: subscribe_def emptyView_def mirrors_def agree_refl)
next
  case (round m sub s ord w free sent sub')
  then show ?case by (intro round_mirrors(1))
qed


section \<open>Cloaked ships\<close>

lemma view_uncloaked:
  assumes "vw_ships (inView w ord s sub) i = Some x" "cloaked x"
  shows "s_PlayerID x = sub_PlayerID sub \<or> friendOf w (s_PlayerID x) (sub_PlayerID sub) \<or>
    pointInRadius2 (s_Pos x) (sub_Center (aimSub w ord s sub)) (f_mul (w_StealthDetectRange w) (w_StealthDetectRange w))"
  using assms
  by (auto simp: inView_def currentView_def Let_def restrict_map_def hideStealthed_def aimSub_same split: if_splits)


section \<open>The grid against a scan\<close>

lemma sg_cellSize_insert [simp]: "sg_cellSize (grid_insert x g) = sg_cellSize g"
  by (simp add: grid_insert_def Let_def)

lemma cellOf_insert [simp]: "cellOf (grid_insert x g) = cellOf g"
  by (simp add: cellOf_def gridIndex_def fun_eq_iff)

lemma sg_cells_insert: "sg_cells (grid_insert x g) k = sg_cells g k @ (if cellOf g (s_Pos x) = k then [x] else [])"
  by (simp add: grid_insert_def Let_def)

lemma fold_insert:
  "sg_cellSize (fold grid_insert xs g) = sg_cellSize g"
  "sg_cells (fold grid_insert xs g) k = sg_cells g k @ filter (\<lambda>x. cellOf g (s_Pos x) = k) xs"
proof (induction xs arbitrary: g)
  case (Cons x xs)
  { case 1 show ?case using Cons(1) by simp }
  { case 2 show ?case using Cons(2) by (simp add: sg_cells_insert) }
qed simp_all

lemma rnd_pow2_bound: "\<bar>q\<bar> \<le> pow2 n \<Longrightarrow> - 1074 \<le> n \<Longrightarrow> \<bar>rnd q\<bar> \<le> pow2 n"
  using rnd_mono [of q "pow2 n"] rnd_mono [of "- pow2 n" q] rnd_exact [of "pow2 n" 1 n] by (simp add: rnd_neg abs_le_iff)

lemma mk_float_small: "\<bar>q\<bar> \<le> pow2 n \<Longrightarrow> - 1074 \<le> n \<Longrightarrow> n < 1024 \<Longrightarrow> mk_float q = Fin (rnd q)"
proof -
  assume q: "\<bar>q\<bar> \<le> pow2 n" "- 1074 \<le> n" "n < 1024"
  have "\<bar>rnd q\<bar> < pow2 1024" using rnd_pow2_bound [OF q(1,2)] q(3) pow2_strict_mono [of n 1024] by linarith
  then show ?thesis by (simp add: mk_float_def Let_def pow2_def abs_less_iff)
qed

text \<open>A cell index is the floor of the rounded quotient, and grows with the coordinate.\<close>

lemma gridIndex_floor:
  assumes "sg_cellSize g = Fin c" "1 \<le> c" "\<bar>x\<bar> \<le> pow2 41"
  shows "gridIndex g (Fin x) = \<lfloor>rnd (x / c)\<rfloor>"
proof -
  have "\<bar>x / c\<bar> \<le> pow2 41"
    using assms(2,3) by (simp add: abs_divide divide_le_eq) (metis abs_ge_zero mult_left_mono mult_1_right order_trans pow2_nonneg)
  then have q: "mk_float (x / c) = Fin (rnd (x / c))" "\<bar>rnd (x / c)\<bar> \<le> pow2 41"
    using mk_float_small [of "x / c" 41] rnd_pow2_bound [of "x / c" 41] by simp_all
  have "- pow2 41 \<le> rnd (x / c)" "rnd (x / c) \<le> pow2 41" using q(2) by (simp_all add: abs_le_iff)
  then have "- (2 ^ 41) \<le> \<lfloor>rnd (x / c)\<rfloor>" "\<lfloor>rnd (x / c)\<rfloor> \<le> 2 ^ 41"
    by (simp_all add: pow2_def le_floor_iff floor_le_iff)
  then have "in64 \<lfloor>rnd (x / c)\<rfloor>" by (simp add: in64_def)
  moreover have "trunc_rat (of_int n) = n" for n by (simp add: trunc_rat_def)
  ultimately show ?thesis using assms(1,2) q(1) by (simp add: gridIndex_def)
qed

lemma gridIndex_mono:
  assumes "sg_cellSize g = Fin c" "1 \<le> c" "x \<le> y" "\<bar>x\<bar> \<le> pow2 41" "\<bar>y\<bar> \<le> pow2 41"
  shows "gridIndex g (Fin x) \<le> gridIndex g (Fin y)"
  using assms by (simp add: gridIndex_floor floor_mono rnd_mono divide_right_mono)

text \<open>A coordinate between the two ends of the window falls into a cell the query visits.\<close>

lemma window_index:
  assumes g: "sg_cellSize g = Fin c" "1 \<le> c" and a: "\<bar>a\<bar> \<le> pow2 40" "0 < r" "r \<le> pow2 40"
    and x: "f_le (f_sub (Fin a) (Fin r)) x" "f_le x (f_add (Fin a) (Fin r))"
  shows "gridIndex g (f_sub (Fin a) (Fin r)) \<le> gridIndex g x \<and> gridIndex g x \<le> gridIndex g (f_add (Fin a) (Fin r))"
proof -
  have "pow2 41 = 2 * pow2 40" by (simp add: pow2_def)
  then have "\<bar>a - r\<bar> \<le> pow2 41" "\<bar>a + r\<bar> \<le> pow2 41" using a by linarith+
  then have e: "f_sub (Fin a) (Fin r) = Fin (rnd (a - r))" "f_add (Fin a) (Fin r) = Fin (rnd (a + r))"
    "\<bar>rnd (a - r)\<bar> \<le> pow2 41" "\<bar>rnd (a + r)\<bar> \<le> pow2 41"
    using mk_float_small [of _ 41] rnd_pow2_bound [of _ 41] by (simp_all add: f_sub_def)
  then obtain q where q: "x = Fin q" "rnd (a - r) \<le> q" "q \<le> rnd (a + r)" using x by (cases x) simp_all
  moreover have "\<bar>q\<bar> \<le> pow2 41" using q e(3,4) by linarith
  ultimately show ?thesis using gridIndex_mono [OF g, of "rnd (a - r)" q] gridIndex_mono [OF g, of q "rnd (a + r)"] e by simp
qed

text \<open>A query sees the ships whose cell is in the window and whose distance is within the radius.\<close>

lemma queryIDs_cells:
  assumes "\<And>k. sg_cells g k = filter (\<lambda>x. cellOf g (s_Pos x) = k) xs" "\<not> f_le r (Fin 0)"
  shows "i \<in> queryIDs g c r \<longleftrightarrow> (\<exists>y. (y \<in> set xs \<and> s_ID y = i) \<and> pointInRadius2 (s_Pos y) c (f_mul r r) \<and>
    gridIndex g (f_sub (vX c) r) \<le> gridIndex g (vX (s_Pos y)) \<and> gridIndex g (vX (s_Pos y)) \<le> gridIndex g (f_add (vX c) r) \<and>
    gridIndex g (f_sub (vY c) r) \<le> gridIndex g (vY (s_Pos y)) \<and> gridIndex g (vY (s_Pos y)) \<le> gridIndex g (f_add (vY c) r))"
    (is "?l \<longleftrightarrow> ?r")
proof -
  have "?l \<longleftrightarrow> (\<exists>cx \<in> {gridIndex g (f_sub (vX c) r)..gridIndex g (f_add (vX c) r)}.
      \<exists>cy \<in> {gridIndex g (f_sub (vY c) r)..gridIndex g (f_add (vY c) r)}.
      \<exists>y \<in> set xs. s_ID y = i \<and> cellOf g (s_Pos y) = (cx, cy) \<and> pointInRadius2 (s_Pos y) c (f_mul r r))"
    unfolding queryIDs_def Let_def assms(1) using assms(2) by (simp add: image_iff) blast
  also have "\<dots> \<longleftrightarrow> ?r"
    unfolding cellOf_def prod.inject atLeastAtMost_iff Bex_def by blast
  finally show ?thesis .
qed


section \<open>Statics of a dropped patch\<close>

lemma updated_refs:
  assumes "sector_ok t" "r \<in> ds_Ref ` set (p_StaticsUpdated (makePatch ord t sub cur))"
  shows "r \<in> set (po_dirty ord) \<or> r \<notin> vw_statics (sub_last sub)"
proof -
  have k: "ds_Ref d = q" if "ss_destructibles t q = Some d" for q d using that assms(1) by (auto simp: sector_ok_def static_ok_def)
  then have dirty: "q \<in> set (po_dirty ord)" if "q \<in> ds_Ref ` set (collectDirtyDestructibles (po_dirty ord) t)" for q
    using that by (auto simp: collectDirtyDestructibles_def List.map_filter_def)
  have live: "q \<in> ds_Ref ` set base \<or> q \<in> set refs" if "q \<in> ds_Ref ` set (withLiveStatics t base refs)" for q base refs
    using that k by (auto simp: withLiveStatics_def List.map_filter_def split: if_splits)
  show ?thesis
    using assms(2) dirty live by (fastforce simp: makePatch_def Let_def diffStaticRefs_def split: if_splits)
qed

text \<open>
  What a dropped patch said about a static is not said again. When a station, gate or other
  static the client already has was hit in this tick, the patch of this tick carries its new hull
  and shield; when the client's channel is full that patch is dropped, the mark that the static
  changed is cleared all the same, and the next patch the client does receive does not mention the
  static, unless it was hit again: the client keeps the old values.
\<close>

theorem dropped_static_update:
  assumes "sector_ok t" "r \<in> ss_destructiblesDirty s" "ss_destructibles s r = Some d" "set (po_dirty ord) = ss_destructiblesDirty s"
    "r \<in> vw_statics (sub_last sub)" "r \<notin> ss_destructiblesDirty t" "set (po_dirty ord') = ss_destructiblesDirty t"
    "broadcastTo w ord' True t (snd (broadcastTo w ord False s sub)) = (Some p, sub')"
  shows "d \<in> set (p_StaticsUpdated (makePatch ord s (aimSub w ord s sub) (inView w ord s sub))) \<and> r \<notin> ds_Ref ` set (p_StaticsUpdated p)"
proof
  have "d \<in> set (collectDirtyDestructibles (po_dirty ord) s)"
    using assms(2-4) by (force simp: collectDirtyDestructibles_def List.map_filter_def)
  then show "d \<in> set (p_StaticsUpdated (makePatch ord s (aimSub w ord s sub) (inView w ord s sub)))"
    by (simp add: makePatch_def Let_def withLiveStatics_def)
  obtain sub1 where b: "broadcastTo w ord False s sub = (None, sub1)" "sub_last sub1 = sub_last sub"
    by (cases "broadcastTo w ord False s sub") (auto elim: broadcast_cases)
  from assms(8) [unfolded b(1) snd_conv] have "p = makePatch ord' t (aimSub w ord' t sub1) (inView w ord' t sub1)"
    by (auto elim: broadcast_cases)
  then show "r \<notin> ds_Ref ` set (p_StaticsUpdated p)"
    using updated_refs [OF assms(1), of r ord' "aimSub w ord' t sub1" "inView w ord' t sub1"] assms(5-7) b(2)
    by (metis aimSub_same(1))
qed

section \<open>A radar picture\<close>

text \<open>Player 10 at the origin, and a cloaked ship of player 20 a hundred units off.\<close>

definition hideModule :: installed_equipment where
  "hideModule = \<lparr>eq_EquipmentID = 1, eq_Type = ''up_hide'', eq_Level = 1\<rparr>"

definition radarSector :: sector_state where
  "radarSector = newSectorState 1 [demoShip 1 50 2,
     (demoShip 2 40 1)\<lparr>s_AttackTarget := None, s_Equipment := [hideModule], s_Pos := Vec2 (Fin 100) (Fin 0)\<rparr>] [] [] [] []
     demoStatics 0 (world_New [] []) (\<lambda>_. Fin 0)"

definition radarOrders :: patch_orders where
  "radarOrders = \<lparr>po_grid = [2, 1], po_player = [1, 2], po_curr = (\<lambda>_. [1, 2]), po_prev = (\<lambda>_. []), po_dirty = [],
     po_staticsCurr = [], po_staticsPrev = []\<rparr>"

definition radarSub :: subscription where
  "radarSub = subscribe demoWorker 10 {}"

lemma radar_filed: "filed radarSector"
  by (auto simp: radarSector_def filed_def keyed_def keyed_by_def newSectorState_def coldShip_def dest!: byKey_Some)

lemma radar_visits:
  assumes "sub_last sub = sub_last radarSub"
  shows "visits (po_curr radarOrders) (inView demoWorker radarOrders radarSector sub)" "visits (po_prev radarOrders) (sub_last sub)"
proof -
  have "dom (ss_ships radarSector) \<subseteq> {1, 2}"
    by (auto simp: radarSector_def newSectorState_def byKey_def coldShip_def demoShip_def split: if_splits)
  moreover have "ss_missiles radarSector = Map.empty" "ss_drones radarSector = Map.empty" "ss_torpedos radarSector = Map.empty"
    "ss_containers radarSector = Map.empty" "ss_asteroids radarSector = Map.empty"
    by (simp_all add: radarSector_def newSectorState_def byKey_def)
  ultimately show "visits (po_curr radarOrders) (inView demoWorker radarOrders radarSector sub)"
    by (auto simp: visits_def inView_def currentView_def Let_def radarOrders_def missilesInRadius_def dronesInRadius_def
      torpedosInRadius_def containersInRadius_def asteroidsInRadius_def dest!: inRadius_Some)
  show "visits (po_prev radarOrders) (sub_last sub)"
    by (simp add: assms radarSub_def subscribe_def emptyView_def visits_def)
qed

lemma radar_start: "listens emptyView radarSub"
  unfolding radarSub_def by (rule listens.start)




text \<open>A station of 500 hull points, just hit, in a sector whose time is dilated (so that every patch is sent).\<close>

definition hitStation :: destructible_static where
  "hitStation = \<lparr>ds_Ref = EntityRef EntityKindStation 7, ds_Pos = zeroVec, ds_OwnerID = None, ds_HP = 480, ds_Shield = 0,
     ds_MaxShield = 0, ds_ShieldRecharge = 0\<rparr>"

definition hitSector :: sector_state where
  "hitSector = radarSector\<lparr>ss_destructibles := [EntityRef EntityKindStation 7 \<mapsto> hitStation],
     ss_destructiblesDirty := {EntityRef EntityKindStation 7}, ss_timeScale := Fin (1 / 2)\<rparr>"

lemma hitSector_ok: "sector_ok (clearDeltas hitSector)"
proof -
  have "sector_ok radarSector"
    unfolding radarSector_def by (rule newSectorState_ok) (simp_all add: demoShip_def zeroShip_def in64_def DestructiblesFromStatics_def demoStatics_def)
  then show ?thesis
    by (auto simp: sector_ok_def clearDeltas_def hitSector_def static_ok_def hitStation_def ship_ok_def in64_def split: if_splits)
qed

theorem dropped_static_update_witness:
  "\<exists>p sub'. broadcastTo demoWorker radarOrders True (clearDeltas hitSector) (snd (broadcastTo demoWorker
       (radarOrders\<lparr>po_dirty := [EntityRef EntityKindStation 7]\<rparr>) False hitSector (subscribe demoWorker 10 {EntityRef EntityKindStation 7}))) = (Some p, sub') \<and>
     EntityRef EntityKindStation 7 \<notin> ds_Ref ` set (p_StaticsUpdated p)"
proof -
  let ?r = "EntityRef EntityKindStation 7" and ?o = "radarOrders\<lparr>po_dirty := [EntityRef EntityKindStation 7]\<rparr>"
  let ?sub = "subscribe demoWorker 10 {EntityRef EntityKindStation 7}"
  have "\<not> f_le (Fin 1) (ss_timeScale (clearDeltas hitSector))" by (simp add: clearDeltas_def hitSector_def)
  then obtain p sub' where p: "broadcastTo demoWorker radarOrders True (clearDeltas hitSector) (snd (broadcastTo demoWorker ?o False hitSector ?sub)) = (Some p, sub')"
    by (auto simp: broadcastTo_def Let_def)
  have "?r \<in> ss_destructiblesDirty hitSector" "ss_destructibles hitSector ?r = Some hitStation" "set (po_dirty ?o) = ss_destructiblesDirty hitSector"
    "?r \<in> vw_statics (sub_last ?sub)" "?r \<notin> ss_destructiblesDirty (clearDeltas hitSector)"
    "set (po_dirty radarOrders) = ss_destructiblesDirty (clearDeltas hitSector)"
    by (simp_all add: hitSector_def subscribe_def clearDeltas_def radarOrders_def)
  from dropped_static_update [OF hitSector_ok this p] p show ?thesis by blast
qed

end
