(* ===== verification/Dilation.thy ===== *)
theory Dilation
  imports Tick
begin

text \<open>
  Time dilation (\<open>timescale.go\<close>): the factor by which an overloaded sector slows game time stays
  between its floor and one in machine arithmetic, and a sector that is no longer overloaded is back at
  full speed after thirteen ticks.
\<close>

section \<open>The factor in rationals\<close>

definition scale_ok :: "float64 \<Rightarrow> bool" where
  "scale_ok x \<longleftrightarrow> f_le minTimeScale x \<and> f_le x (Fin 1)"

text \<open>A tick with headroom: it took less than half of the interval.\<close>

definition quiet :: "int \<Rightarrow> int \<Rightarrow> bool" where
  "quiet interval elapsed \<longleftrightarrow> f_lt (f_div (f_of_int elapsed) (f_of_int interval)) (f_lit (1 / 2))"

lemma floor_value: "minTimeScale = Fin (rnd (1 / 10))" "99 / 1000 \<le> rnd (1 / 10)" "rnd (1 / 10) \<le> 1"
  by code_simp+

lemma factors: "f_lit (6 / 5) = Fin (rnd (6 / 5))" "f_lit (4 / 5) = Fin (rnd (4 / 5))" "11999 / 10000 \<le> rnd (6 / 5)"
  "rnd (6 / 5) \<le> 2" "0 \<le> rnd (4 / 5)" "rnd (4 / 5) \<le> 1"
  by code_simp+

lemma rnd_1 [simp]: "rnd 1 = 1"
  using rnd_exact [of 1 1 0] by simp

lemma mk_float_unit: "0 \<le> q \<Longrightarrow> q \<le> 2 \<Longrightarrow> mk_float q = Fin (rnd q)"
proof -
  assume q: "0 \<le> q" "q \<le> 2"
  have "rnd q \<le> rnd 2" "0 \<le> rnd q" using q by (simp_all add: rnd_mono rnd_nonneg)
  moreover have "rnd 2 = 2" by code_simp
  moreover have "(2::rat) < of_int (2 ^ 1024)" by simp
  ultimately have "rnd q < of_int (2 ^ 1024)" "- of_int (2 ^ 1024) < rnd q" by linarith+
  then show ?thesis by (simp add: mk_float_def Let_def)
qed

lemma scale_Fin: "scale_ok x \<longleftrightarrow> (\<exists>q. x = Fin q \<and> rnd (1 / 10) \<le> q \<and> q \<le> 1)"
  by (cases x) (auto simp: scale_ok_def floor_value(1))

lemma slower:
  assumes "rnd (1 / 10) \<le> q" "q \<le> 1"
  shows "\<exists>p. f_Max minTimeScale (f_mul (Fin q) (f_lit (4 / 5))) = Fin p \<and> rnd (1 / 10) \<le> p \<and> p \<le> 1"
proof -
  have q: "0 \<le> q" using assms(1) floor_value(2) by linarith
  have "q * rnd (4 / 5) \<le> 1 * 1" using assms(2) q factors(5,6) by (intro mult_mono) simp_all
  then have "mk_float (q * rnd (4 / 5)) = Fin (rnd (q * rnd (4 / 5)))" "rnd (q * rnd (4 / 5)) \<le> 1"
    using q factors(5) rnd_mono [of "q * rnd (4 / 5)" 1] by (simp_all add: mk_float_unit)
  then show ?thesis using floor_value(3) by (auto simp: factors floor_value(1))
qed

lemma faster:
  assumes "rnd (1 / 10) \<le> q" "q \<le> 1"
  shows "\<exists>p. f_Min (Fin 1) (f_mul (Fin q) (f_lit (6 / 5))) = Fin p \<and> min 1 (q * (1199 / 1000)) \<le> p \<and> p \<le> 1"
proof -
  let ?c = "rnd (6 / 5)"
  have q: "99 / 1000 \<le> q" using assms(1) floor_value(2) by linarith
  have up: "q * ?c \<le> 1 * 2" using assms(2) q factors(3,4) by (intro mult_mono) simp_all
  have down: "q * (11999 / 10000) \<le> q * ?c" using q factors(3) by (intro mult_left_mono) simp_all
  have "pow2 (- 1022) \<le> pow2 (- 4)" by simp
  also have "pow2 (- 4) = 1 / 16" by (simp add: pow2_def)
  also have "1 / 16 \<le> q * ?c" using q down by linarith
  finally have "\<bar>rnd (q * ?c) - q * ?c\<bar> \<le> q * ?c * pow2 (- 53)" by (rule rnd_rel_error)
  moreover have "q * ?c * pow2 (- 53) \<le> q * ?c * (1 / 10000)" using down q by (intro mult_left_mono) (simp_all add: pow2_def)
  ultimately have "q * (1199 / 1000) \<le> rnd (q * ?c)" using down q by linarith
  moreover have "mk_float (q * ?c) = Fin (rnd (q * ?c))" using up down q by (intro mk_float_unit) linarith+
  ultimately show ?thesis by (auto simp: factors)
qed

lemma adjust_ok: "scale_ok x \<Longrightarrow> scale_ok (adjustTimeScale x elapsed interval)"
proof -
  assume "scale_ok x"
  then obtain q where q: "x = Fin q" "rnd (1 / 10) \<le> q" "q \<le> 1" by (auto simp: scale_Fin)
  have "min 1 (q * (1199 / 1000)) \<le> p \<Longrightarrow> rnd (1 / 10) \<le> p" for p using q(2) floor_value(2,3) by linarith
  then show ?thesis
    using slower [OF q(2,3)] faster [OF q(2,3)] q floor_value(3)
    by (auto simp: adjustTimeScale_def Let_def scale_Fin)
qed

lemma quiet_rises:
  assumes "rnd (1 / 10) \<le> q" "q \<le> 1" "0 < interval" "quiet interval elapsed"
  shows "\<exists>p. adjustTimeScale (Fin q) elapsed interval = Fin p \<and> min 1 (q * (1199 / 1000)) \<le> p \<and> p \<le> 1"
proof -
  let ?r = "f_div (f_of_int elapsed) (f_of_int interval)"
  have "\<not> f_lt (f_lit (6 / 5)) ?r"
  proof
    assume "f_lt (f_lit (6 / 5)) ?r"
    moreover have "f_lit (1 / 2) = Fin (1 / 2)" by code_simp
    ultimately show False using assms(4) factors(1,3) by (cases ?r) (auto simp: quiet_def)
  qed
  then show ?thesis using faster [OF assms(1,2)] assms(3,4) by (simp add: adjustTimeScale_def Let_def quiet_def)
qed

lemma quiet_ticks:
  assumes "rnd (1 / 10) \<le> q" "q \<le> 1" "0 < interval" "list_all (quiet interval) ds"
  shows "\<exists>p. foldl (\<lambda>x d. adjustTimeScale x d interval) (Fin q) ds = Fin p \<and> min 1 (q * (1199 / 1000) ^ length ds) \<le> p \<and> p \<le> 1"
  using assms
proof (induction ds arbitrary: q)
  case (Cons d ds)
  obtain p where p: "adjustTimeScale (Fin q) d interval = Fin p" "min 1 (q * (1199 / 1000)) \<le> p" "p \<le> 1"
    using quiet_rises [OF Cons.prems(1-3), of d] Cons.prems(4) by auto
  have "rnd (1 / 10) \<le> p" using p(2) Cons.prems(1) floor_value(2,3) by linarith
  then obtain r where r: "foldl (\<lambda>x d. adjustTimeScale x d interval) (Fin p) ds = Fin r" "min 1 (p * (1199 / 1000) ^ length ds) \<le> r" "r \<le> 1"
    using Cons.IH [of p] Cons.prems(3,4) p(3) by auto
  let ?k = "(1199 / 1000 :: rat) ^ length ds"
  have k: "1 \<le> ?k" by (rule one_le_power) simp
  have "min 1 (q * (1199 / 1000)) * ?k \<le> p * ?k" using p(2) k by (intro mult_right_mono) linarith+
  moreover have "min 1 (a * ?k) \<le> min 1 a * ?k" for a
    using k mult_mono [of 1 a 1 ?k] by (cases "1 \<le> a") (simp_all add: min_def)
  ultimately have "min 1 (q * (1199 / 1000) * ?k) \<le> r" using r(2,3) by (meson min.bounded_iff min.cobounded1 order_trans)
  then show ?case using p(1) r by (simp add: mult.assoc)
qed simp

text \<open>
  C35: Time dilation is bounded and recovers: from a factor between the floor and one every tick,
  however long it took, leaves a factor between the floor and one (rounding included); and once the
  ticks take less than half of the interval, thirteen of them bring any dilated sector back to full
  speed exactly.
\<close>

theorem time_scale_recovers:
  assumes "scale_ok x" "0 < interval"
  shows "scale_ok (adjustTimeScale x elapsed interval) \<and>
    (list_all (quiet interval) ds \<and> 13 \<le> length ds \<longrightarrow> foldl (\<lambda>x d. adjustTimeScale x d interval) x ds = Fin 1)"
proof (intro conjI impI)
  show "scale_ok (adjustTimeScale x elapsed interval)" by (rule adjust_ok [OF assms(1)])
  assume ds: "list_all (quiet interval) ds \<and> 13 \<le> length ds"
  obtain q where q: "x = Fin q" "rnd (1 / 10) \<le> q" "q \<le> 1" using assms(1) by (auto simp: scale_Fin)
  obtain p where p: "foldl (\<lambda>x d. adjustTimeScale x d interval) (Fin q) ds = Fin p" "min 1 (q * (1199 / 1000) ^ length ds) \<le> p" "p \<le> 1"
    using quiet_ticks [OF q(2,3) assms(2)] ds by blast
  have "(1199 / 1000) ^ 13 \<le> (1199 / 1000 :: rat) ^ length ds" using ds by (intro power_increasing) simp_all
  moreover have "1 \<le> 99 / 1000 * (1199 / 1000 :: rat) ^ 13" by code_simp
  moreover have "99 / 1000 * (1199 / 1000) ^ length ds \<le> q * (1199 / 1000) ^ length ds"
    using q(2) floor_value(2) by (intro mult_right_mono) (linarith, simp)
  ultimately have "1 \<le> q * (1199 / 1000) ^ length ds" by linarith
  then show "foldl (\<lambda>x d. adjustTimeScale x d interval) x ds = Fin 1" using p q(1) by simp
qed

text \<open>A sector at the floor, with a three-second interval and ticks of one second (durations in nanoseconds).\<close>

theorem time_scale_recovers_witness:
  "foldl (\<lambda>x d. adjustTimeScale x d 3000000000) minTimeScale (replicate 13 1000000000) = Fin 1"
proof -
  have "scale_ok minTimeScale" "quiet 3000000000 1000000000" by (unfold scale_ok_def quiet_def) code_simp+
  with time_scale_recovers [of minTimeScale 3000000000 0 "replicate 13 1000000000"] show ?thesis by (simp add: list_all_iff)
qed

end
