(* ===== verification/TxMonad.thy ===== *)
theory TxMonad
  imports Prelude
begin

text \<open>
  The effects of the services: a state-and-error monad for code that talks to the database,
  the combinators that stand for Go's \<open>if err != nil\<close> plumbing, and the proof rules over
  them. Nothing here mentions the schema: the state is a type parameter.
\<close>

section \<open>The monad\<close>

text \<open>
  A computation takes the state and returns a Go \<open>(value, error)\<close> pair with the state it
  leaves behind. Errors keep the state: a caller may inspect an error and go on with the
  same transaction, as \<open>auction.Close\<close> and \<open>rent.ProcessDue\<close> do.
\<close>

type_synonym ('s, 'e, 'a) comp = "'s \<Rightarrow> ('e + 'a) \<times> 's"

definition returnM :: "'a \<Rightarrow> ('s, 'e, 'a) comp" where
  "returnM x = (\<lambda>s. (Inr x, s))"

definition failM :: "'e \<Rightarrow> ('s, 'e, 'a) comp" where
  "failM e = (\<lambda>s. (Inl e, s))"

definition bindM :: "('s, 'e, 'a) comp \<Rightarrow> ('a \<Rightarrow> ('s, 'e, 'b) comp) \<Rightarrow> ('s, 'e, 'b) comp" where
  "bindM m f = (\<lambda>s. case m s of (r, s') \<Rightarrow> (case r of Inl e \<Rightarrow> (Inl e, s') | Inr x \<Rightarrow> f x s'))"

text \<open>\<open>if cond { return err }\<close> before the rest of the body.\<close>

definition checkM :: "bool \<Rightarrow> 'e \<Rightarrow> ('s, 'e, unit) comp" where
  "checkM ok e = (if ok then returnM () else failM e)"

text \<open>\<open>x, err := m\<close> with both results in hand.\<close>

definition tryM :: "('s, 'e, 'a) comp \<Rightarrow> ('s, 'e, 'e + 'a) comp" where
  "tryM m = (\<lambda>s. case m s of (r, s') \<Rightarrow> (Inr r, s'))"

text \<open>Translating an error: \<open>if errors.Is(err, a) { return b }; return err\<close>.\<close>

definition mapErr :: "('e \<Rightarrow> 'e) \<Rightarrow> ('s, 'e, 'a) comp \<Rightarrow> ('s, 'e, 'a) comp" where
  "mapErr g m = (\<lambda>s. case m s of (r, s') \<Rightarrow> (case r of Inl e \<Rightarrow> (Inl (g e), s') | Inr x \<Rightarrow> (Inr x, s')))"

text \<open>\<open>for _, x := range xs { if err := body(x); err != nil { return err } }\<close>\<close>

fun forM :: "'a list \<Rightarrow> ('a \<Rightarrow> ('s, 'e, unit) comp) \<Rightarrow> ('s, 'e, unit) comp" where
  "forM [] body = returnM ()"
| "forM (x # xs) body = bindM (body x) (\<lambda>_. forM xs body)"

section \<open>Inversion of successful runs\<close>

named_theorems run_simps \<open>what a successful run of a computation says of its parts\<close>

lemma returnM_run [run_simps]: "returnM x s = (r, s') \<longleftrightarrow> r = Inr x \<and> s' = s"
  by (auto simp: returnM_def)

lemma failM_run [run_simps]: "failM e s = (r, s') \<longleftrightarrow> r = Inl e \<and> s' = s"
  by (auto simp: failM_def)

lemma bindM_ok [run_simps]:
  "bindM m f s = (Inr y, s'') \<longleftrightarrow> (\<exists>x s'. m s = (Inr x, s') \<and> f x s' = (Inr y, s''))"
  by (auto simp: bindM_def split: prod.splits sum.splits)

lemma bindM_err:
  "bindM m f s = (Inl e, s'') \<longleftrightarrow>
     m s = (Inl e, s'') \<or> (\<exists>x s'. m s = (Inr x, s') \<and> f x s' = (Inl e, s''))"
  by (auto simp: bindM_def split: prod.splits sum.splits)

lemma checkM_ok [run_simps]: "checkM ok e s = (Inr x, s') \<longleftrightarrow> ok \<and> s' = s"
  by (auto simp: checkM_def returnM_def failM_def)

lemma checkM_err [run_simps]: "checkM ok e s = (Inl e', s') \<longleftrightarrow> \<not> ok \<and> e' = e \<and> s' = s"
  by (auto simp: checkM_def returnM_def failM_def)

lemma tryM_ok [run_simps]: "tryM m s = (Inr r, s') \<longleftrightarrow> m s = (r, s')"
  by (auto simp: tryM_def split: prod.splits)

lemma tryM_no_err [run_simps]: "tryM m s \<noteq> (Inl e, s')"
  by (auto simp: tryM_def split: prod.splits)

lemma mapErr_ok [run_simps]: "mapErr g m s = (Inr x, s') \<longleftrightarrow> m s = (Inr x, s')"
  by (auto simp: mapErr_def split: prod.splits sum.splits)

lemma mapErr_err [run_simps]: "mapErr g m s = (Inl e, s') \<longleftrightarrow> (\<exists>e'. m s = (Inl e', s') \<and> e = g e')"
  by (auto simp: mapErr_def split: prod.splits sum.splits)

lemma case_option_fail_ok [run_simps]:
  "(case v of None \<Rightarrow> failM e | Some x \<Rightarrow> f x) s = (Inr y, s') \<longleftrightarrow> (\<exists>x. v = Some x \<and> f x s = (Inr y, s'))"
  by (auto simp: failM_def split: option.splits)

text \<open>Forward evaluation, for witnesses and for proofs that a run succeeds.\<close>

named_theorems eval_simps \<open>symbolic execution of a computation from a known state\<close>

lemma bindM_Inr [eval_simps]: "m s = (Inr x, s') \<Longrightarrow> bindM m f s = f x s'"
  by (simp add: bindM_def)

lemma bindM_Inl [eval_simps]: "m s = (Inl e, s') \<Longrightarrow> bindM m f s = (Inl e, s')"
  by (simp add: bindM_def)

lemma bindM_returnM [simp]: "bindM (returnM x) f = f x"
  by (simp add: bindM_def returnM_def)

lemma bindM_failM [simp]: "bindM (failM e) f = failM e"
  by (simp add: bindM_def failM_def)

lemma bindM_checkM: "bindM (checkM ok e) f = (if ok then f () else failM e)"
  by (simp add: checkM_def)

lemma bindM_assoc: "bindM (bindM m f) g = bindM m (\<lambda>x. bindM (f x) g)"
  by (rule ext) (auto simp: bindM_def split: prod.splits sum.splits)

lemma returnM_apply [eval_simps]: "returnM x s = (Inr x, s)"
  by (simp add: returnM_def)

lemma failM_apply [eval_simps]: "failM e s = (Inl e, s)"
  by (simp add: failM_def)

lemma bindM_tryM: "bindM (tryM m) f s = (case m s of (r, s') \<Rightarrow> f r s')"
  by (simp add: bindM_def tryM_def split: prod.split)

lemma forM_append: "forM (xs @ ys) body = bindM (forM xs body) (\<lambda>_. forM ys body)"
  by (induction xs) (simp_all add: bindM_assoc)

lemma forM_skip:
  "forM xs (\<lambda>x. if P x then returnM () else f x) = forM (filter (\<lambda>x. \<not> P x) xs) f"
  by (induction xs) simp_all

lemma forM_map: "forM (map h xs) f = forM xs (\<lambda>x. f (h x))"
  by (induction xs) simp_all

text \<open>A run whose result is known, with the state it leaves.\<close>

lemma run_state: "fst p = r \<Longrightarrow> p = (r, snd p)"
  by (metis prod.collapse)

text \<open>An operation that changes nothing when it fails need only be judged on its successes.\<close>

lemma holds_after:
  assumes "\<And>x s'. m s = (Inr x, s') \<Longrightarrow> P s'" and "\<And>e s'. m s = (Inl e, s') \<Longrightarrow> s' = s" and "P s"
  shows "P (snd (m s))"
  using assms by (cases "m s"; cases "fst (m s)") auto

section \<open>Preservation\<close>

text \<open>
  \<open>keeps R m\<close>: whatever \<open>m\<close> returns, the state it leaves is related to the one it
  started from by \<open>R\<close>. With \<open>R s s' = (I s \<longrightarrow> I s')\<close> this is an invariant, with
  \<open>R s s' = (f s = f s')\<close> a frame condition; both are reflexive and transitive, which is
  all the rules need.
\<close>

definition keeps :: "('s \<Rightarrow> 's \<Rightarrow> bool) \<Rightarrow> ('s, 'e, 'a) comp \<Rightarrow> bool" where
  "keeps R m \<longleftrightarrow> (\<forall>s. R s (snd (m s)))"

lemma keepsD: "keeps R m \<Longrightarrow> m s = (r, s') \<Longrightarrow> R s s'"
  by (auto simp: keeps_def dest: spec [of _ s])

lemma keepsI: "(\<And>s r s'. m s = (r, s') \<Longrightarrow> R s s') \<Longrightarrow> keeps R m"
  by (simp add: keeps_def) (metis prod.collapse)

context preorder_rel
begin

lemma keeps_returnM: "keeps R (returnM x)"
  by (simp add: keeps_def returnM_def refl)

lemma keeps_failM: "keeps R (failM e)"
  by (simp add: keeps_def failM_def refl)

lemma keeps_checkM: "keeps R (checkM ok e)"
  by (simp add: checkM_def keeps_returnM keeps_failM)

lemma keeps_bindM:
  assumes "keeps R m" and "\<And>x. keeps R (f x)"
  shows "keeps R (bindM m f)"
proof -
  have "R s (snd (bindM m f s))" for s
  proof (cases "m s")
    case (Pair r s')
    with assms(1) have first: "R s s'" by (auto simp: keeps_def dest: spec [of _ s])
    show ?thesis
    proof (cases r)
      case (Inl e)
      with Pair first show ?thesis by (simp add: bindM_def)
    next
      case (Inr x)
      with assms(2) [of x] have "R s' (snd (f x s'))" by (simp add: keeps_def)
      with Pair Inr first show ?thesis by (auto simp: bindM_def intro: trans)
    qed
  qed
  then show ?thesis by (simp add: keeps_def)
qed

lemma keeps_tryM: "keeps R m \<Longrightarrow> keeps R (tryM m)"
  by (rule keepsI) (auto simp: tryM_def dest: keepsD split: prod.splits)

lemma keeps_mapErr: "keeps R m \<Longrightarrow> keeps R (mapErr g m)"
  by (rule keepsI) (auto simp: mapErr_def dest: keepsD split: prod.splits sum.splits)

lemma keeps_forM: "(\<And>x. x \<in> set xs \<Longrightarrow> keeps R (body x)) \<Longrightarrow> keeps R (forM xs body)"
  by (induction xs) (auto intro: keeps_returnM keeps_bindM)

lemma keeps_if: "keeps R m \<Longrightarrow> keeps R m' \<Longrightarrow> keeps R (if b then m else m')"
  by simp

lemma keeps_case_option:
  "keeps R m \<Longrightarrow> (\<And>x. keeps R (f x)) \<Longrightarrow> keeps R (case v of None \<Rightarrow> m | Some x \<Rightarrow> f x)"
  by (cases v) simp_all

lemma keeps_case_sum:
  "(\<And>e. keeps R (g e)) \<Longrightarrow> (\<And>x. keeps R (f x)) \<Longrightarrow> keeps R (case v of Inl e \<Rightarrow> g e | Inr x \<Rightarrow> f x)"
  by (cases v) simp_all

lemma keeps_let: "keeps R (f v) \<Longrightarrow> keeps R (let x = v in f x)"
  by simp

lemmas keeps_rules = keeps_returnM keeps_failM keeps_checkM keeps_bindM keeps_tryM keeps_mapErr
  keeps_forM keeps_if keeps_case_option keeps_case_sum keeps_let

end

end
