(* ===== verification/QuestDefs.thy ===== *)
theory QuestDefs
  imports Entities
begin

text \<open>
  Quest definitions (\<open>internal/quest/defs.go\<close>, \<open>event.go\<close>, \<open>state.go\<close>): the steps a quest consists of,
  when a polled step is satisfied, what an event contributes to a counted step, and the catalogue
  of quests. The texts shown to the player (titles and descriptions) are left out.
\<close>

section \<open>Steps, quests and their progress\<close>

abbreviation (input) StepDock :: string where "StepDock \<equiv> ''dock''"
abbreviation (input) StepAcquireCargo :: string where "StepAcquireCargo \<equiv> ''acquire_cargo''"
abbreviation (input) StepEarnCash :: string where "StepEarnCash \<equiv> ''earn_cash''"
abbreviation (input) StepGotoSector :: string where "StepGotoSector \<equiv> ''goto_sector''"
abbreviation (input) StepDockAt :: string where "StepDockAt \<equiv> ''dock_at''"
abbreviation (input) StepKill :: string where "StepKill \<equiv> ''kill''"
abbreviation (input) StepDeliver :: string where "StepDeliver \<equiv> ''deliver''"
abbreviation (input) StepTrade :: string where "StepTrade \<equiv> ''trade''"
abbreviation (input) StepEscortSurvive :: string where "StepEscortSurvive \<equiv> ''escort_survive''"

record step =
  stp_Kind :: string
  stp_Qty :: int
  stp_Amount :: int
  stp_Count :: int
  stp_Sector :: int
  stp_Target :: entity_ref
  stp_TargetRole :: string
  stp_Goods :: int
  stp_Side :: string
  stp_RewardCash :: int

record quest_spawn =
  qs_Role :: string
  qs_Race :: int
  qs_Sector :: int
  qs_Count :: int
  qs_FromGate :: bool

text \<open>Durations and instants are microseconds.\<close>

record quest_def =
  qd_ID :: string
  qd_Steps :: "step list"
  qd_Prerequisite :: string
  qd_Deadline :: int
  qd_Offerable :: bool
  qd_Spawns :: "quest_spawn list"

definition EventDriven :: "step \<Rightarrow> bool" where
  "EventDriven x \<longleftrightarrow> stp_Kind x \<in> {StepKill, StepDeliver, StepTrade}"

definition Goal :: "step \<Rightarrow> int" where
  "Goal x = (if stp_Count x \<le> 0 then 1 else stp_Count x)"

record quest_snapshot =
  sn_Docked :: bool
  sn_CargoUnits :: int
  sn_Cash :: int
  sn_CurrentSector :: int
  sn_DockedTarget :: entity_ref

definition Satisfied :: "step \<Rightarrow> quest_snapshot \<Rightarrow> bool" where
  "Satisfied x snap =
     (if stp_Kind x = StepDock then sn_Docked snap
      else if stp_Kind x = StepAcquireCargo then stp_Qty x \<le> sn_CargoUnits snap
      else if stp_Kind x = StepEarnCash then stp_Amount x \<le> sn_Cash snap
      else if stp_Kind x = StepGotoSector then sn_CurrentSector snap = stp_Sector x
      else if stp_Kind x = StepDockAt then sn_Docked snap \<and> sn_DockedTarget snap = stp_Target x
      else False)"

text \<open>An event of a player: a kill, a delivery or a trade.\<close>

record quest_event =
  ev_Player :: int
  ev_Kind :: string
  ev_Victim :: entity_ref
  ev_Target :: entity_ref
  ev_Goods :: int
  ev_Side :: string
  ev_Amount :: int

definition MatchEvent :: "step \<Rightarrow> quest_event \<Rightarrow> int option" where
  "MatchEvent x ev =
     (if stp_Kind x = StepKill then
        (if ev_Kind ev \<noteq> ''kill'' then None
         else if ref_kind (stp_Target x) \<noteq> 0 \<and> ev_Victim ev \<noteq> stp_Target x then None else Some 1)
      else if stp_Kind x = StepDeliver then
        (if ev_Kind ev \<noteq> ''deliver'' \<or> ev_Goods ev \<noteq> stp_Goods x then None
         else if ref_kind (stp_Target x) \<noteq> 0 \<and> ev_Target ev \<noteq> stp_Target x then None else Some (ev_Amount ev))
      else if stp_Kind x = StepTrade then
        (if ev_Kind ev \<noteq> ''trade'' \<or> ev_Goods ev \<noteq> stp_Goods x then None
         else if stp_Side x \<noteq> [] \<and> ev_Side ev \<noteq> stp_Side x then None else Some (ev_Amount ev))
      else None)"

text \<open>
  The counter of the current step and the ships spawned per role; the stored JSON is represented by
  the value it encodes (a missing state is the zero value).
\<close>

record quest_state =
  qst_Progress :: int
  qst_Spawned :: "(string, int list) table"

definition zeroState :: quest_state where
  "zeroState = \<lparr>qst_Progress = 0, qst_Spawned = []\<rparr>"

definition decodeState :: "quest_state option \<Rightarrow> quest_state" where
  "decodeState b = (case b of None \<Rightarrow> zeroState | Some st \<Rightarrow> st)"

definition spawnedOf :: "quest_state \<Rightarrow> string \<Rightarrow> int list" where
  "spawnedOf st role = (case map_of (qst_Spawned st) role of None \<Rightarrow> [] | Some ids \<Rightarrow> ids)"

definition spawnedSet :: "quest_state \<Rightarrow> string \<Rightarrow> int set" where
  "spawnedSet st role = set (spawnedOf st role)"

definition allSpawned :: "quest_state \<Rightarrow> int list" where
  "allSpawned st = concat (map snd (qst_Spawned st))"

section \<open>The catalogue\<close>

abbreviation (input) NoTarget :: entity_ref where "NoTarget \<equiv> EntityRef 0 0"

definition zeroStep :: step where
  "zeroStep = \<lparr>stp_Kind = [], stp_Qty = 0, stp_Amount = 0, stp_Count = 0, stp_Sector = 0, stp_Target = NoTarget, stp_TargetRole = [],
     stp_Goods = 0, stp_Side = [], stp_RewardCash = 0\<rparr>"

definition dockStep :: "int \<Rightarrow> step" where
  "dockStep reward = zeroStep\<lparr>stp_Kind := StepDock, stp_RewardCash := reward\<rparr>"

definition acquireStep :: "int \<Rightarrow> int \<Rightarrow> step" where
  "acquireStep qty reward = zeroStep\<lparr>stp_Kind := StepAcquireCargo, stp_Qty := qty, stp_RewardCash := reward\<rparr>"

definition earnStep :: "int \<Rightarrow> int \<Rightarrow> step" where
  "earnStep amount reward = zeroStep\<lparr>stp_Kind := StepEarnCash, stp_Amount := amount, stp_RewardCash := reward\<rparr>"

definition gotoStep :: "int \<Rightarrow> int \<Rightarrow> step" where
  "gotoStep sector reward = zeroStep\<lparr>stp_Kind := StepGotoSector, stp_Sector := sector, stp_RewardCash := reward\<rparr>"

definition killRoleStep :: "string \<Rightarrow> int \<Rightarrow> step" where
  "killRoleStep role reward = zeroStep\<lparr>stp_Kind := StepKill, stp_TargetRole := role, stp_RewardCash := reward\<rparr>"

definition deliverStep :: "int \<Rightarrow> int \<Rightarrow> int \<Rightarrow> step" where
  "deliverStep goods n reward = zeroStep\<lparr>stp_Kind := StepDeliver, stp_Goods := goods, stp_Count := n, stp_RewardCash := reward\<rparr>"

definition tradeStep :: "string \<Rightarrow> int \<Rightarrow> int \<Rightarrow> int \<Rightarrow> step" where
  "tradeStep side goods n reward = zeroStep\<lparr>stp_Kind := StepTrade, stp_Side := side, stp_Goods := goods, stp_Count := n, stp_RewardCash := reward\<rparr>"

definition escortStep :: "string \<Rightarrow> int \<Rightarrow> int \<Rightarrow> step" where
  "escortStep role n reward = zeroStep\<lparr>stp_Kind := StepEscortSurvive, stp_TargetRole := role, stp_Count := n, stp_RewardCash := reward\<rparr>"

definition spawns :: "string \<Rightarrow> int \<Rightarrow> int \<Rightarrow> int \<Rightarrow> quest_spawn" where
  "spawns role race sector n = \<lparr>qs_Role = role, qs_Race = race, qs_Sector = sector, qs_Count = n, qs_FromGate = False\<rparr>"

definition hours :: "int \<Rightarrow> int" where "hours n = n * 3600000000"

definition TutorialID :: string where "TutorialID = ''tutorial''"

definition Tutorial :: quest_def where
  "Tutorial = \<lparr>qd_ID = TutorialID, qd_Steps = [dockStep 500, acquireStep 1 500, earnStep 15000 5000],
     qd_Prerequisite = [], qd_Deadline = 0, qd_Offerable = False, qd_Spawns = []\<rparr>"

definition offer :: "string \<Rightarrow> step list \<Rightarrow> quest_spawn list \<Rightarrow> quest_def" where
  "offer i steps sps = \<lparr>qd_ID = i, qd_Steps = steps, qd_Prerequisite = [], qd_Deadline = 0, qd_Offerable = True, qd_Spawns = sps\<rparr>"

definition Patrol :: quest_def where
  "Patrol = (offer ''patrol'' [zeroStep\<lparr>stp_Kind := StepKill, stp_Count := 2, stp_RewardCash := 4000\<rparr>] [])\<lparr>qd_Deadline := hours 24\<rparr>"

definition Saga1 :: quest_def where
  "Saga1 = offer ''saga1'' [earnStep 20000 1000] []"

definition Saga2 :: quest_def where
  "Saga2 = (offer ''saga2'' [gotoStep 1 5000] [])\<lparr>qd_Prerequisite := ''saga1''\<rparr>"

definition KillFugitive :: quest_def where
  "KillFugitive = offer ''xt_6008000'' [gotoStep 1 0, killRoleStep ''target'' 5000] [spawns ''target'' 6 1 1]"

definition Siege :: quest_def where
  "Siege = offer ''xt_6002100'' [gotoStep 1 0, killRoleStep ''enemy'' 30000] [(spawns ''enemy'' 7 1 3)\<lparr>qs_FromGate := True\<rparr>]"

definition EscortTrader :: quest_def where
  "EscortTrader = offer ''xt_6002300'' [escortStep ''escortee'' 12 5000] [spawns ''escortee'' 1 1 1, spawns ''enemy'' 6 1 2]"

definition CombatMission1 :: quest_def where
  "CombatMission1 = offer ''xt_6000200'' [gotoStep 1 0, killRoleStep ''enemy'' 20000] [spawns ''enemy'' 6 1 3]"

definition SickPrincess :: quest_def where
  "SickPrincess = (offer ''xt_6000300'' [acquireStep 13 0, deliverStep 40 13 25000] [])\<lparr>qd_Deadline := hours 24\<rparr>"

definition DeliverPackage :: quest_def where
  "DeliverPackage = offer ''xt_6000400'' [dockStep 0, gotoStep 5 0, deliverStep 5 1 4500] [spawns ''ambush'' 7 5 2]"

definition SakraSyndicate :: quest_def where
  "SakraSyndicate = offer ''xt_6002500'' [dockStep 0, killRoleStep ''goon'' 8000] [spawns ''goon'' 6 1 1]"

definition PassengerRun :: quest_def where
  "PassengerRun = (offer ''xt_6004900'' [dockStep 0, gotoStep 5 0, dockStep 200000] [])\<lparr>qd_Deadline := hours 7\<rparr>"

definition Sabotage1 :: quest_def where
  "Sabotage1 = offer ''xt_6006200'' [gotoStep 1 0, dockStep 0, deliverStep 5 1 2000] []"

definition Sabotage2 :: quest_def where
  "Sabotage2 = (offer ''xt_6006300'' [gotoStep 5 0, deliverStep 5 1 50000] [])\<lparr>qd_Prerequisite := ''xt_6006200''\<rparr>"

definition ArgonFlu :: quest_def where
  "ArgonFlu = (offer ''xt_6008500'' [acquireStep 5 0, deliverStep 7 5 30000] [])\<lparr>qd_Deadline := hours 24\<rparr>"

definition ProtectTransport :: quest_def where
  "ProtectTransport = offer ''xt_6009000'' [escortStep ''escortee'' 16 5000]
     [spawns ''escortee'' 1 1 1, spawns ''ally'' 1 1 2, spawns ''enemy'' 6 1 3]"

definition ComplexTrade :: quest_def where
  "ComplexTrade = offer ''xt_6009700'' [tradeStep ''buy'' 4 5 0, gotoStep 5 0, tradeStep ''sell'' 4 5 6000] []"

definition microquests :: "quest_def list" where
  "microquests = [KillFugitive, Siege, EscortTrader, CombatMission1, SickPrincess, DeliverPackage, SakraSyndicate, PassengerRun,
     Sabotage1, Sabotage2, ArgonFlu, ProtectTransport, ComplexTrade]"

text \<open>A later entry of the map replaces an earlier one with the same id.\<close>

definition defs :: "string \<rightharpoonup> quest_def" where
  "defs = map_of (rev (map (\<lambda>d. (qd_ID d, d)) ([Tutorial, Patrol, Saga1, Saga2] @ microquests)))"

definition Lookup :: "string \<Rightarrow> quest_def option" where
  "Lookup i = defs i"

definition Offerable :: "quest_def list" where
  "Offerable = filter qd_Offerable (List.map_filter defs [qd_ID Patrol, qd_ID Saga1, qd_ID Saga2]) @ filter qd_Offerable microquests"

lemma Lookup_ID: "Lookup i = Some d \<Longrightarrow> qd_ID d = i"
  by (auto simp: Lookup_def defs_def dest!: map_of_SomeD split: if_splits)

end
