(* ===== verification/Schema.thy ===== *)
theory Schema
  imports TxMonad Float64 QuestDefs
begin

text \<open>
  The data of the program: the rows of the
  PostgreSQL tables the services read and write, the error values of every package, and the
  meaning of a statement and of a transaction (\<open>internal/pkg/database\<close>).

  Identifiers are Go \<open>int64\<close> values that are only stored and compared, instants are
  microseconds (the resolution of \<open>timestamptz\<close>), durations too. Errors are compared with
  \<open>errors.Is\<close> only, so wrapping with \<open>fmt.Errorf\<close> and \<open>%w\<close> is the identity here.
\<close>

section \<open>Rows\<close>

record player_row =
  pl_login :: runes
  pl_cash :: int
  pl_war :: int
  pl_trade :: int
  pl_active_ship :: "int option"
  pl_passenger_of :: "int option"

record ship_row =
  sh_player :: int
  sh_sector :: int
  sh_docked_kind :: "int option"
  sh_docked_id :: "int option"
  sh_cargobay :: float64

record station_row =
  st_owner :: "int option"
  st_type :: int
  st_sector :: int
  st_pos_x :: float64
  st_pos_y :: float64
  st_hp :: int
  st_shield :: int
  st_max_shield :: int
  st_shield_recharge :: int
  st_race :: int
  st_built :: bool
  st_cargobay :: float64
  st_in_progress :: bool
  st_next_cycle :: "int option"

record trade_station_row =
  ts_owner :: "int option"
  ts_cargobay :: float64

record goods_row =
  gt_name :: string
  gt_space :: float64

record market_row =
  mk_buy :: "int option"
  mk_sell :: "int option"
  mk_stock :: int
  mk_max :: int

text \<open>Auction lots: \<open>status\<close> 0 is active, 1 closed, 2 cancelled.\<close>

record lot_row =
  lot_seller :: int
  lot_goods :: int
  lot_quantity :: int
  lot_source :: entity_ref
  lot_start_price :: int
  lot_price :: int
  lot_bidder :: "int option"
  lot_ends :: int
  lot_status :: int
  lot_created :: int

record bid_row =
  bid_lot :: int
  bid_bidder :: int
  bid_amount :: int

record rent_row =
  rent_payer :: int
  rent_station :: entity_ref
  rent_amount :: int
  rent_unpaid :: int
  rent_last_paid :: "int option"
  rent_next_due :: int
  rent_created :: int

record policy_row =
  pol_ship :: int
  pol_player :: int
  pol_premium :: int
  pol_coverage :: int
  pol_status :: string
  pol_created :: int
  pol_expires :: int
  pol_claimed :: "int option"

record bounty_row =
  bt_target :: entity_ref
  bt_sponsor :: entity_ref
  bt_amount :: int
  bt_status :: string
  bt_created :: int
  bt_expires :: int
  bt_paid_to :: "int option"
  bt_paid_at :: "int option"

record clan_row =
  cl_name :: runes
  cl_tag :: runes
  cl_leader :: int
  cl_treasury :: int
  cl_created :: int

record member_row =
  mb_clan :: int
  mb_role :: string
  mb_joined :: int

record invite_row =
  inv_by :: int
  inv_created :: int

text \<open>
  A frozen quest definition is a JSON column: what it decodes to, or text that does not decode. The column
  is empty for the quests of the catalogue.
\<close>

datatype json_def = Malformed | Frozen quest_def

record quest_row =
  qr_step :: int
  qr_status :: string
  qr_state :: "quest_state option"
  qr_deadline :: "int option"
  qr_started :: int
  qr_completed :: "int option"
  qr_definition :: "json_def option"

record quest_offer =
  qo_Player :: int
  qo_TemplateID :: string
  qo_Definition :: "json_def option"
  qo_Source :: string
  qo_CreatedAt :: int
  qo_ExpiresAt :: int

record quest_counters =
  qc_Docks :: int
  qc_Jumps :: int
  qc_NextDocks :: int
  qc_NextJumps :: int

text \<open>
  The keys are the primary keys: a cargo stack is named by where it lies, its goods type and
  its depositor, a market row by the station and the goods type.
\<close>

type_synonym stack_key = "entity_ref \<times> int \<times> int"
type_synonym market_key = "entity_ref \<times> int"

record db =
  players :: "(int, player_row) table"
  ships :: "(int, ship_row) table"
  stations :: "(int, station_row) table"
  shipyards :: "(int, int option) table"
  trade_stations :: "(int, trade_station_row) table"
  goods_types :: "(int, goods_row) table"
  cargo :: "(stack_key, int) table"
  station_goods :: "(market_key, market_row) table"
  auction_lots :: "(int, lot_row) table"
  auction_bids :: "bid_row list"
  rents :: "(int, rent_row) table"
  insurance_policies :: "(int, policy_row) table"
  bounties :: "(int, bounty_row) table"
  clans :: "(int, clan_row) table"
  clan_members :: "(int, member_row) table"
  clan_invitations :: "(int \<times> int, invite_row) table"
  player_quests :: "(int \<times> string, quest_row) table"
  player_quest_offers :: "(int, quest_offer) table"
  player_quest_counters :: "(int, quest_counters) table"
  seq_lot :: int
  seq_rent :: int
  seq_policy :: int
  seq_bounty :: int
  seq_clan :: int
  seq_offer :: int
  db_now :: int
  tx_aborted :: bool

section \<open>Errors\<close>

text \<open>What PostgreSQL itself reports.\<close>

datatype pg_error =
    NumericOutOfRange
  | UniqueViolation string
  | CheckViolation string
  | ForeignKeyViolation string
  | InvalidByteSequence
  | InFailedTransaction
  | CommitRolledBack

datatype players_err = ErrPlayerNotFound | Players_ErrInsufficientCash | ErrUnexpectedNoRows

datatype cargorepo_err =
    CR_ErrGoodsTypeNotFound | CR_ErrOwnerNotFound | CR_ErrInsufficientQuantity
  | CR_ErrUnsupportedOwnerKind | CR_ErrShipNotFound

datatype cargo_err =
    CG_ErrSameOwner | CG_ErrNonPositiveQuantity | CG_ErrNoSpace | CG_ErrGoodsTypeNotFound
  | CG_ErrInsufficientQuantity | CG_ErrOwnerNotFound | CG_ErrUnsupportedOwnerKind
  | CG_ErrForbidden | CG_ErrShipNotFound | CG_ErrShipForbidden | CG_ErrNotDocked
  | CG_ErrWrongStation | CG_ErrInvalidTransfer

datatype traderepo_err =
    TR_ErrMarketEntryNotFound | TR_ErrShipNotFound | TR_ErrUnsupportedStationKind
  | TR_ErrInsufficientStock | TR_ErrStockOverflow | TR_ErrUnexpectedNoRows

datatype trade_err =
    TD_ErrShipNotFound | TD_ErrForbidden | TD_ErrNotDocked | TD_ErrWrongStation
  | TD_ErrInvalidStationKind | TD_ErrMarketEntryNotFound | TD_ErrStationDoesNotSell
  | TD_ErrStationDoesNotBuy | TD_ErrNonPositiveQuantity | TD_ErrInsufficientStock
  | TD_ErrStockOverflow | TD_ErrInsufficientCash | TD_ErrInsufficientCargo | TD_ErrNoCargoSpace
  | TD_ErrGoodsTypeNotFound | TD_ErrTooLittleGoods

datatype auctionrepo_err = AR_ErrLotNotFound | AR_ErrLotNotActive | AR_ErrShipNotFound

datatype auction_err =
    AU_ErrLotNotFound | AU_ErrLotNotActive | AU_ErrBidTooLow | AU_ErrInsufficientCash
  | AU_ErrSellerBid | AU_ErrInvalidQuantity | AU_ErrInvalidStartPrice | AU_ErrInvalidDuration
  | AU_ErrInsufficientCargo | AU_ErrNotDocked | AU_ErrForbidden | AU_ErrShipNotFound
  | AU_NoDeliveryShip

datatype insurance_err =
    IN_ErrInvalidInput | IN_ErrNotOwner | IN_ErrNotDocked | IN_ErrShipNotFound
  | IN_ErrAlreadyInsured | IN_ErrInsufficientFunds | INR_ErrAlreadyInsured | INR_ErrShipNotFound

datatype rent_err = RT_ErrStationOwned | RT_ErrInsufficientFunds | ST_UnsupportedKind | ST_ErrStationNotFound

datatype clans_err =
    CL_ErrNameTaken | CL_ErrTagTaken | CL_ErrAlreadyInClan | CL_ErrClanNotFound | CL_ErrNotMember
  | CL_ErrForbidden | CL_ErrTargetNotMember | CL_ErrCannotKickLeader | CL_ErrInvalidRole
  | CL_ErrCannotChangeLeader | CL_ErrLeaderMustTransfer | CL_ErrInvitationNotFound
  | CL_ErrAlreadyInvited | CL_ErrInvalidInput | CL_ErrInsufficientTreasury

datatype bounties_err =
    BT_ErrInvalidInput | BT_ErrSelfBounty | BT_ErrInsufficientFunds | BT_ErrNotInClan
  | BT_ErrNotClanLeader

datatype quests_err = QE_ErrNotOfferable | QE_ErrPrerequisiteNotMet | QE_NoRows | QE_BadDefinition

datatype err =
    EPg pg_error
  | EPlayers players_err
  | ECargoRepo cargorepo_err
  | ECargo cargo_err
  | ETradeRepo traderepo_err
  | ETrade trade_err
  | EAuctionRepo auctionrepo_err
  | EAuction auction_err
  | EInsurance insurance_err
  | ERent rent_err
  | EClans clans_err
  | EBounties bounties_err
  | EQuests quests_err

type_synonym 'a dbm = "(db, err, 'a) comp"

section \<open>Statements and transactions\<close>

text \<open>
  A statement reads and writes atomically, or is refused by PostgreSQL. After a refusal the
  transaction is aborted: every later statement of it fails (SQLSTATE 25P02).
\<close>

definition sql :: "(db \<Rightarrow> pg_error + ('a \<times> db)) \<Rightarrow> 'a dbm" where
  "sql q = (\<lambda>s. if tx_aborted s then (Inl (EPg InFailedTransaction), s)
     else (case q s of
         Inl e \<Rightarrow> (Inl (EPg e), s\<lparr>tx_aborted := True\<rparr>)
       | Inr (x, s') \<Rightarrow> (Inr x, s')))"

text \<open>A query: a statement that writes nothing.\<close>

definition query :: "(db \<Rightarrow> 'a) \<Rightarrow> 'a dbm" where
  "query f = sql (\<lambda>s. Inr (f s, s))"

text \<open>A \<open>bigint\<close> (or \<open>integer\<close>) result outside its range is an error, not a wrap-around.\<close>

definition pg_bigint :: "int \<Rightarrow> (int \<Rightarrow> pg_error + 'a) \<Rightarrow> pg_error + 'a" where
  "pg_bigint x k = (if in64 x then k x else Inl NumericOutOfRange)"

definition in32 :: "int \<Rightarrow> bool" where
  "in32 x \<longleftrightarrow> - (2 ^ 31) \<le> x \<and> x < 2 ^ 31"

definition pg_int4 :: "int \<Rightarrow> (int \<Rightarrow> pg_error + 'a) \<Rightarrow> pg_error + 'a" where
  "pg_int4 x k = (if in32 x then k x else Inl NumericOutOfRange)"

text \<open>
  \<open>TxManager.Do\<close>: run the body in a transaction; an error rolls every write back, success
  commits. PostgreSQL answers the commit of an aborted transaction with a rollback, which
  pgx reports as an error.
\<close>

definition tx_do :: "'a dbm \<Rightarrow> 'a dbm" where
  "tx_do body = (\<lambda>s. case body s of
       (Inl e, _) \<Rightarrow> (Inl e, s)
     | (Inr x, s') \<Rightarrow> if tx_aborted s' then (Inl (EPg CommitRolledBack), s) else (Inr x, s'))"

text \<open>A statement on the pool is a transaction of its own.\<close>

abbreviation pool :: "'a dbm \<Rightarrow> 'a dbm" where
  "pool \<equiv> tx_do"

section \<open>Their rules\<close>

lemma sql_ok [run_simps]:
  "sql q s = (Inr x, s') \<longleftrightarrow> \<not> tx_aborted s \<and> q s = Inr (x, s')"
  by (auto simp: sql_def split: sum.splits)

lemma query_ok [run_simps]:
  "query f s = (Inr x, s') \<longleftrightarrow> \<not> tx_aborted s \<and> x = f s \<and> s' = s"
  by (auto simp: query_def run_simps)

lemma query_err:
  "query f s = (Inl e, s') \<longleftrightarrow> tx_aborted s \<and> e = EPg InFailedTransaction \<and> s' = s"
  by (auto simp: query_def sql_def)

lemma query_live [eval_simps]: "\<not> tx_aborted s \<Longrightarrow> query f s = (Inr (f s), s)"
  by (simp add: query_def sql_def)

lemma sql_live [eval_simps]:
  "\<not> tx_aborted s \<Longrightarrow> q s = Inr (x, s') \<Longrightarrow> sql q s = (Inr x, s')"
  by (simp add: sql_def)

lemma pg_bigint_ok [run_simps]: "pg_bigint x k = Inr y \<longleftrightarrow> in64 x \<and> k x = Inr y"
  by (simp add: pg_bigint_def)

lemma pg_int4_ok [run_simps]: "pg_int4 x k = Inr y \<longleftrightarrow> in32 x \<and> k x = Inr y"
  by (simp add: pg_int4_def)

lemma tx_do_ok [run_simps]:
  "tx_do body s = (Inr x, s') \<longleftrightarrow> body s = (Inr x, s') \<and> \<not> tx_aborted s'"
  by (auto simp: tx_do_def split: prod.splits sum.splits)

text \<open>Atomicity: whatever the body did, an error leaves the database as it was.\<close>

lemma tx_do_err: "tx_do body s = (Inl e, s') \<Longrightarrow> s' = s"
  by (auto simp: tx_do_def split: prod.splits sum.splits if_splits)

lemma tx_do_live: "\<not> tx_aborted s \<Longrightarrow> \<not> tx_aborted (snd (tx_do body s))"
  by (simp add: tx_do_def split: prod.split sum.split)

lemma tx_do_eval [eval_simps]:
  "body s = (Inr x, s') \<Longrightarrow> \<not> tx_aborted s' \<Longrightarrow> tx_do body s = (Inr x, s')"
  "body s = (Inl e, s') \<Longrightarrow> tx_do body s = (Inl e, s)"
  by (simp_all add: tx_do_def)

text \<open>
  Invariants of the stored data: \<open>I\<close> must not depend on the abort flag, since a refused
  statement sets it.
\<close>

locale db_invariant =
  fixes I :: "db \<Rightarrow> bool"
  assumes abort_irrelevant: "I (s\<lparr>tx_aborted := b\<rparr>) = I s"
begin

lemma preorder: "preorder_rel (\<lambda>s s'. I s \<longrightarrow> I s')"
  by unfold_locales auto

lemmas keeps_rules = preorder_rel.keeps_rules [OF preorder]

lemma keeps_sql:
  assumes "\<And>s x s'. I s \<Longrightarrow> q s = Inr (x, s') \<Longrightarrow> I s'"
  shows "keeps (\<lambda>s s'. I s \<longrightarrow> I s') (sql q)"
  by (rule keepsI) (auto simp: sql_def abort_irrelevant intro: assms split: if_splits sum.splits)

lemma keeps_query: "keeps (\<lambda>s s'. I s \<longrightarrow> I s') (query f)"
  unfolding query_def by (rule keeps_sql) simp

lemma keeps_tx_do:
  assumes "keeps (\<lambda>s s'. I s \<longrightarrow> I s') body"
  shows "keeps (\<lambda>s s'. I s \<longrightarrow> I s') (tx_do body)"
  by (rule keepsI)
    (auto simp: tx_do_def dest: keepsD [OF assms] split: prod.splits sum.splits if_splits)

end

section \<open>A small universe\<close>

text \<open>
  A concrete database on which the properties are instantiated: three players, three ships, a
  factory (20), a shipyard (30), two trade stations (40, 41), a pirate base (50), two goods, and
  one row or more in every table the services touch.
\<close>

definition sample_db :: db where
  "sample_db = \<lparr>
     players =
       [(1, \<lparr>pl_login = runes_of ''ann'', pl_cash = 5000, pl_war = 0, pl_trade = 0, pl_active_ship = Some 10, pl_passenger_of = None\<rparr>),
        (2, \<lparr>pl_login = runes_of ''bob'', pl_cash = 800, pl_war = 0, pl_trade = 0, pl_active_ship = Some 11, pl_passenger_of = None\<rparr>),
        (3, \<lparr>pl_login = runes_of ''cat'', pl_cash = 0, pl_war = 0, pl_trade = 0, pl_active_ship = None, pl_passenger_of = None\<rparr>)],
     ships =
       [(10, \<lparr>sh_player = 1, sh_sector = 1, sh_docked_kind = Some 2, sh_docked_id = Some 20, sh_cargobay = Fin 100\<rparr>),
        (11, \<lparr>sh_player = 2, sh_sector = 1, sh_docked_kind = Some 4, sh_docked_id = Some 40, sh_cargobay = Fin 50\<rparr>),
        (12, \<lparr>sh_player = 3, sh_sector = 1, sh_docked_kind = None, sh_docked_id = None, sh_cargobay = Fin 10\<rparr>)],
     stations =
       [(20, \<lparr>st_owner = None, st_type = 7, st_sector = 1, st_pos_x = Fin 0, st_pos_y = Fin 0, st_hp = 1000, st_shield = 100,
              st_max_shield = 100, st_shield_recharge = 1, st_race = 0, st_built = True, st_cargobay = Fin 10000, st_in_progress = False, st_next_cycle = None\<rparr>)],
     shipyards = [(30, None)],
     trade_stations =
       [(40, \<lparr>ts_owner = Some 2, ts_cargobay = Fin 50000\<rparr>),
        (41, \<lparr>ts_owner = None, ts_cargobay = Fin 50000\<rparr>)],
     goods_types =
       [(1, \<lparr>gt_name = ''Batteries'', gt_space = Fin 1\<rparr>), (2, \<lparr>gt_name = ''Iron'', gt_space = Fin 2\<rparr>)],
     cargo =
       [((EntityRef 1 10, 2, 0), 8), ((EntityRef 2 20, 2, 1), 3), ((EntityRef 2 20, 2, 2), 4),
        ((EntityRef 2 20, 2, 0), 6)],
     station_goods =
       [((EntityRef 2 20, 1), \<lparr>mk_buy = None, mk_sell = Some 16, mk_stock = 60, mk_max = 100\<rparr>),
        ((EntityRef 2 20, 2), \<lparr>mk_buy = Some 50, mk_sell = None, mk_stock = 20, mk_max = 100\<rparr>),
        ((EntityRef 4 40, 1), \<lparr>mk_buy = Some 15, mk_sell = Some 20, mk_stock = 30, mk_max = 200\<rparr>)],
     auction_lots =
       [(1, \<lparr>lot_seller = 2, lot_goods = 1, lot_quantity = 5, lot_source = EntityRef 4 40, lot_start_price = 100,
              lot_price = 120, lot_bidder = Some 1, lot_ends = 2000, lot_status = 0, lot_created = 0\<rparr>)],
     auction_bids = [\<lparr>bid_lot = 1, bid_bidder = 1, bid_amount = 120\<rparr>],
     rents =
       [(1, \<lparr>rent_payer = 2, rent_station = EntityRef 4 40, rent_amount = 100, rent_unpaid = 0,
              rent_last_paid = None, rent_next_due = 900, rent_created = 0\<rparr>)],
     insurance_policies = [],
     bounties = [],
     clans = [(1, \<lparr>cl_name = runes_of ''Wolves'', cl_tag = runes_of ''WLF'', cl_leader = 1, cl_treasury = 300, cl_created = 0\<rparr>)],
     clan_members = [(1, \<lparr>mb_clan = 1, mb_role = ''leader'', mb_joined = 0\<rparr>)],
     clan_invitations = [],
     player_quests =
       [((1, ''tutorial''), \<lparr>qr_step = 0, qr_status = ''active'', qr_state = None, qr_deadline = None, qr_started = 0,
              qr_completed = None, qr_definition = None\<rparr>)],
     player_quest_offers = [],
     player_quest_counters = [],
     seq_lot = 2, seq_rent = 2, seq_policy = 1, seq_bounty = 1, seq_clan = 2, seq_offer = 1,
     db_now = 1000, tx_aborted = False\<rparr>"

end
