(* ===== verification/Players.thy ===== *)
theory Players
  imports Schema
begin

text \<open>
  \<open>internal/persistence/players/repo.go\<close>: the wallet, the active ship, the two reputation
  counters and the passenger link of a player. The contract other components rely on, a
  wallet that is never overdrawn and changes by exactly the amount asked, is the locale
  \<open>wallet\<close>; clan treasuries satisfy it too (theory \<open>Clans\<close>).
\<close>

section \<open>Operations\<close>

definition set_cash :: "int \<Rightarrow> int \<Rightarrow> db \<Rightarrow> db" where
  "set_cash p c s = (case map_of (players s) p of
       None \<Rightarrow> s
     | Some r \<Rightarrow> s\<lparr>players := AList.update p (r\<lparr>pl_cash := c\<rparr>) (players s)\<rparr>)"

definition GetCash :: "int \<Rightarrow> int dbm" where
  "GetCash playerID = bindM (query (\<lambda>s. map_of (players s) playerID)) (\<lambda>row. case row of
       None \<Rightarrow> failM (EPlayers ErrPlayerNotFound)
     | Some r \<Rightarrow> returnM (pl_cash r))"

text \<open>The conditional \<open>UPDATE ... RETURNING cash\<close>; \<open>None\<close> when it matched no row.\<close>

definition adjustCashSQL :: "int \<Rightarrow> int \<Rightarrow> db \<Rightarrow> pg_error + (int option \<times> db)" where
  "adjustCashSQL playerID delta s = (case map_of (players s) playerID of
       None \<Rightarrow> Inr (None, s)
     | Some r \<Rightarrow> pg_bigint (pl_cash r + delta) (\<lambda>c.
         if 0 \<le> c then Inr (Some c, set_cash playerID c s) else Inr (None, s)))"

definition AdjustCash :: "int \<Rightarrow> int \<Rightarrow> int dbm" where
  "AdjustCash playerID delta = bindM (sql (adjustCashSQL playerID delta)) (\<lambda>newCash. case newCash of
       Some c \<Rightarrow> returnM c
     | None \<Rightarrow> bindM (GetCash playerID) (\<lambda>current.
         if wrap64 (current + delta) < 0 then failM (EPlayers Players_ErrInsufficientCash)
         else failM (EPlayers ErrUnexpectedNoRows)))"

definition ActiveShip :: "int \<Rightarrow> (int \<times> bool) dbm" where
  "ActiveShip playerID = bindM (query (\<lambda>s. map_of (players s) playerID)) (\<lambda>row. case row of
       None \<Rightarrow> failM (EPlayers ErrPlayerNotFound)
     | Some r \<Rightarrow> (case pl_active_ship r of None \<Rightarrow> returnM (0, False) | Some i \<Rightarrow> returnM (i, True)))"

definition shipIDArg :: "int \<Rightarrow> int option" where
  "shipIDArg i = (if i = 0 then None else Some i)"

text \<open>\<open>active_ship_id\<close> and \<open>passenger_of_ship_id\<close> reference \<open>ships(id)\<close>.\<close>

definition ship_fk :: "int option \<Rightarrow> db \<Rightarrow> bool" where
  "ship_fk i s = (case i of None \<Rightarrow> True | Some j \<Rightarrow> map_of (ships s) j \<noteq> None)"

definition SetActiveShip :: "int \<Rightarrow> int \<Rightarrow> unit dbm" where
  "SetActiveShip playerID shipID = sql (\<lambda>s. case map_of (players s) playerID of
       None \<Rightarrow> Inr ((), s)
     | Some r \<Rightarrow> if ship_fk (shipIDArg shipID) s
         then Inr ((), s\<lparr>players := AList.update playerID (r\<lparr>pl_active_ship := shipIDArg shipID\<rparr>) (players s)\<rparr>)
         else Inl (ForeignKeyViolation ''players_active_ship_id_fkey''))"

definition CompareAndSetActiveShip :: "int \<Rightarrow> int \<Rightarrow> int \<Rightarrow> bool dbm" where
  "CompareAndSetActiveShip playerID expected nxt = sql (\<lambda>s. case map_of (players s) playerID of
       None \<Rightarrow> Inr (False, s)
     | Some r \<Rightarrow> if pl_active_ship r \<noteq> shipIDArg expected then Inr (False, s)
         else if ship_fk (shipIDArg nxt) s
         then Inr (True, s\<lparr>players := AList.update playerID (r\<lparr>pl_active_ship := shipIDArg nxt\<rparr>) (players s)\<rparr>)
         else Inl (ForeignKeyViolation ''players_active_ship_id_fkey''))"

record reputation =
  rep_war :: int
  rep_trade :: int

definition GetReputation :: "int \<Rightarrow> reputation dbm" where
  "GetReputation playerID = bindM (query (\<lambda>s. map_of (players s) playerID)) (\<lambda>row. case row of
       None \<Rightarrow> failM (EPlayers ErrPlayerNotFound)
     | Some r \<Rightarrow> returnM \<lparr>rep_war = pl_war r, rep_trade = pl_trade r\<rparr>)"

text \<open>The counters are \<open>integer\<close> columns, and so are the parameters added to them.\<close>

definition addReputationSQL :: "int \<Rightarrow> reputation \<Rightarrow> db \<Rightarrow> pg_error + (reputation option \<times> db)" where
  "addReputationSQL playerID delta s =
     pg_int4 (rep_war delta) (\<lambda>dw. pg_int4 (rep_trade delta) (\<lambda>dt.
       case map_of (players s) playerID of
         None \<Rightarrow> Inr (None, s)
       | Some r \<Rightarrow> pg_int4 (pl_war r + dw) (\<lambda>w. pg_int4 (pl_trade r + dt) (\<lambda>t.
           Inr (Some \<lparr>rep_war = w, rep_trade = t\<rparr>,
             s\<lparr>players := AList.update playerID (r\<lparr>pl_war := w, pl_trade := t\<rparr>) (players s)\<rparr>)))))"

definition AddReputation :: "int \<Rightarrow> reputation \<Rightarrow> reputation dbm" where
  "AddReputation playerID delta = bindM (sql (addReputationSQL playerID delta)) (\<lambda>rep. case rep of
       None \<Rightarrow> failM (EPlayers ErrPlayerNotFound)
     | Some r \<Rightarrow> returnM r)"

definition PassengerHost :: "int \<Rightarrow> (int \<times> bool) dbm" where
  "PassengerHost playerID = bindM (query (\<lambda>s. map_of (players s) playerID)) (\<lambda>row. case row of
       None \<Rightarrow> failM (EPlayers ErrPlayerNotFound)
     | Some r \<Rightarrow> (case pl_passenger_of r of None \<Rightarrow> returnM (0, False) | Some i \<Rightarrow> returnM (i, True)))"

definition SetPassengerHost :: "int \<Rightarrow> int \<Rightarrow> unit dbm" where
  "SetPassengerHost playerID hostID = sql (\<lambda>s. case map_of (players s) playerID of
       None \<Rightarrow> Inr ((), s)
     | Some r \<Rightarrow> if ship_fk (shipIDArg hostID) s
         then Inr ((), s\<lparr>players := AList.update playerID (r\<lparr>pl_passenger_of := shipIDArg hostID\<rparr>) (players s)\<rparr>)
         else Inl (ForeignKeyViolation ''players_passenger_of_ship_id_fkey''))"

definition PassengerLinks :: "(int \<times> int) list dbm" where
  "PassengerLinks = query (\<lambda>s. concat (map (\<lambda>(p, r). case pl_passenger_of r of
       None \<Rightarrow> [] | Some h \<Rightarrow> [(p, h)]) (players s)))"

section \<open>The wallet contract\<close>

text \<open>
  \<open>adjust k d\<close> succeeds exactly when the account exists, the statement is not refused and the
  new balance is a non-negative \<open>bigint\<close>; it then moves that account, and nothing else, by \<open>d\<close>.
\<close>

locale wallet =
  fixes adjust :: "int \<Rightarrow> int \<Rightarrow> int dbm"
    and balance :: "db \<Rightarrow> int \<Rightarrow> int option"
    and put :: "int \<Rightarrow> int \<Rightarrow> db \<Rightarrow> db"
    and total :: "db \<Rightarrow> int"
  assumes adjust_ok: "adjust k d s = (Inr c, s') \<longleftrightarrow> \<not> tx_aborted s \<and>
      (\<exists>b. balance s k = Some b \<and> c = b + d \<and> 0 \<le> c \<and> in64 c \<and> s' = put k c s)"
    and adjust_err: "adjust k d s = (Inl e, s') \<Longrightarrow> s' = s \<or> s' = s\<lparr>tx_aborted := True\<rparr>"
    and balance_put: "balance s k = Some b \<Longrightarrow> balance (put k c s) = (balance s)(k \<mapsto> c)"
    and total_put: "balance s k = Some b \<Longrightarrow> total (put k c s) = total s - b + c"
    and live_put: "tx_aborted (put k c s) = tx_aborted s"
begin

lemma adjust_total: "adjust k d s = (Inr c, s') \<Longrightarrow> total s' = total s + d"
  by (auto simp: adjust_ok total_put)

lemma adjust_live: "adjust k d s = (Inr c, s') \<Longrightarrow> \<not> tx_aborted s'"
  by (auto simp: adjust_ok live_put)

lemma adjust_balance:
  "adjust k d s = (Inr c, s') \<Longrightarrow> balance s' = (balance s)(k \<mapsto> c) \<and> 0 \<le> c \<and> balance s k = Some (c - d)"
  by (auto simp: adjust_ok balance_put)

lemma adjust_moves:
  assumes "adjust k d s = (Inr c, s')"
  shows "balance s' k' = (if k' = k then Some c else balance s k')"
  using adjust_balance [OF assms] by simp

text \<open>A debit of one account followed by a credit of another conserves the total.\<close>

lemma transfer_total:
  assumes "adjust k (- d) s = (Inr c, s1)" and "adjust k' d s1 = (Inr c', s')"
  shows "total s' = total s"
  using adjust_total [OF assms(1)] adjust_total [OF assms(2)] by simp

lemma adjust_exact: "balance s k = Some b \<Longrightarrow> \<not> tx_aborted s \<Longrightarrow> 0 \<le> b + d \<Longrightarrow> in64 (b + d) \<Longrightarrow>
    adjust k d s = (Inr (b + d), put k (b + d) s)"
  by (simp add: adjust_ok)

end

section \<open>Players satisfy it\<close>

definition cash_of :: "db \<Rightarrow> int \<Rightarrow> int option" where
  "cash_of s p = map_option pl_cash (map_of (players s) p)"

definition total_cash :: "db \<Rightarrow> int" where
  "total_cash s = tsum (\<lambda>_. pl_cash) (players s)"

definition cash_ok :: "db \<Rightarrow> bool" where
  "cash_ok s \<longleftrightarrow> tbl_wf (players s) \<and> all_rows (\<lambda>_ r. 0 \<le> pl_cash r \<and> in64 (pl_cash r)) (players s)"

lemma GetCash_ok [run_simps]:
  "GetCash p s = (Inr c, s') \<longleftrightarrow> \<not> tx_aborted s \<and> s' = s \<and> cash_of s p = Some c"
  by (auto simp: GetCash_def cash_of_def run_simps split: option.splits)

lemma GetCash_err:
  "GetCash p s = (Inl e, s') \<longleftrightarrow> s' = s \<and>
     (if tx_aborted s then e = EPg InFailedTransaction else cash_of s p = None \<and> e = EPlayers ErrPlayerNotFound)"
  by (auto simp: GetCash_def cash_of_def bindM_err query_err run_simps split: option.splits if_splits)

lemma AdjustCash_ok:
  "AdjustCash p d s = (Inr c, s') \<longleftrightarrow> \<not> tx_aborted s \<and>
     (\<exists>b. cash_of s p = Some b \<and> c = b + d \<and> 0 \<le> c \<and> in64 c \<and> s' = set_cash p c s)"
  by (auto simp: AdjustCash_def adjustCashSQL_def cash_of_def run_simps
      split: option.splits if_splits)

text \<open>Every way it fails, with the state it leaves.\<close>

lemma AdjustCash_err:
  "AdjustCash p d s = (Inl e, s') \<longleftrightarrow>
     (if tx_aborted s then e = EPg InFailedTransaction \<and> s' = s
      else case cash_of s p of
        None \<Rightarrow> e = EPlayers ErrPlayerNotFound \<and> s' = s
      | Some b \<Rightarrow>
          if \<not> in64 (b + d) then e = EPg NumericOutOfRange \<and> s' = s\<lparr>tx_aborted := True\<rparr>
          else b + d < 0 \<and> e = EPlayers Players_ErrInsufficientCash \<and> s' = s)"
  by (auto simp: AdjustCash_def adjustCashSQL_def cash_of_def sql_def bindM_err run_simps GetCash_err
      pg_bigint_def wrap64_id split: option.splits if_splits)

lemma set_cash_simps [simp]:
  "tx_aborted (set_cash p c s) = tx_aborted s"
  "ships (set_cash p c s) = ships s"
  "stations (set_cash p c s) = stations s"
  "shipyards (set_cash p c s) = shipyards s"
  "trade_stations (set_cash p c s) = trade_stations s"
  "goods_types (set_cash p c s) = goods_types s"
  "cargo (set_cash p c s) = cargo s"
  "station_goods (set_cash p c s) = station_goods s"
  "auction_lots (set_cash p c s) = auction_lots s"
  "auction_bids (set_cash p c s) = auction_bids s"
  "rents (set_cash p c s) = rents s"
  "insurance_policies (set_cash p c s) = insurance_policies s"
  "bounties (set_cash p c s) = bounties s"
  "clans (set_cash p c s) = clans s"
  "clan_members (set_cash p c s) = clan_members s"
  "clan_invitations (set_cash p c s) = clan_invitations s"
  "player_quests (set_cash p c s) = player_quests s"
  "player_quest_offers (set_cash p c s) = player_quest_offers s"
  "player_quest_counters (set_cash p c s) = player_quest_counters s"
  "seq_lot (set_cash p c s) = seq_lot s"
  "seq_rent (set_cash p c s) = seq_rent s"
  "seq_policy (set_cash p c s) = seq_policy s"
  "seq_bounty (set_cash p c s) = seq_bounty s"
  "seq_clan (set_cash p c s) = seq_clan s"
  "db_now (set_cash p c s) = db_now s"
  by (simp_all add: set_cash_def split: option.split)

lemma cash_of_set_cash: "cash_of s p = Some b \<Longrightarrow> cash_of (set_cash p c s) = (cash_of s)(p \<mapsto> c)"
  by (auto simp: cash_of_def set_cash_def fun_eq_iff split: option.splits)

lemma total_cash_set_cash: "cash_of s p = Some b \<Longrightarrow> total_cash (set_cash p c s) = total_cash s - b + c"
  by (auto simp: cash_of_def set_cash_def total_cash_def tsum_table split: option.splits)

interpretation cash: wallet AdjustCash cash_of set_cash total_cash
proof
  fix k d s e s'
  assume "AdjustCash k d s = (Inl e, s')"
  then show "s' = s \<or> s' = s\<lparr>tx_aborted := True\<rparr>"
    by (auto simp: AdjustCash_err split: if_splits option.splits)
qed (simp_all add: AdjustCash_ok cash_of_set_cash total_cash_set_cash)

text \<open>Every operation of the repository keeps the wallets well-formed and never negative.\<close>

lemma cash_ok_set_cash: "cash_ok s \<Longrightarrow> 0 \<le> c \<Longrightarrow> in64 c \<Longrightarrow> cash_ok (set_cash p c s)"
  by (auto simp: cash_ok_def set_cash_def split: option.split)

interpretation cash_inv: db_invariant cash_ok
  by unfold_locales (simp add: cash_ok_def)

lemma keeps_cash_AdjustCash: "keeps (\<lambda>s s'. cash_ok s \<longrightarrow> cash_ok s') (AdjustCash p d)"
  unfolding AdjustCash_def GetCash_def
  by (intro cash_inv.keeps_rules cash_inv.keeps_sql cash_inv.keeps_query)
    (auto simp: adjustCashSQL_def run_simps cash_ok_set_cash split: option.splits if_splits)

lemma cash_of_nonneg: "cash_ok s \<Longrightarrow> cash_of s p = Some b \<Longrightarrow> 0 \<le> b \<and> in64 b"
  by (auto simp: cash_ok_def cash_of_def dest: all_rowsD)

text \<open>
  An adjustment that fails on an existing account of a live transaction fails for one of two
  reasons: the balance would go negative, or it would not fit a \<open>bigint\<close>. The fallback error
  of the code is unreachable.
\<close>

lemma AdjustCash_no_unexpected: "AdjustCash p d s \<noteq> (Inl (EPlayers ErrUnexpectedNoRows), s')"
  by (auto simp: AdjustCash_err split: if_splits option.splits)

text \<open>The compare-and-set on the active ship: at most one of two racing callers wins.\<close>

lemma cas_ok:
  "CompareAndSetActiveShip p expected nxt s = (Inr ok, s') \<longleftrightarrow> \<not> tx_aborted s \<and>
     (case map_of (players s) p of
        None \<Rightarrow> \<not> ok \<and> s' = s
      | Some r \<Rightarrow> if pl_active_ship r = shipIDArg expected
          then ok \<and> ship_fk (shipIDArg nxt) s \<and>
            s' = s\<lparr>players := AList.update p (r\<lparr>pl_active_ship := shipIDArg nxt\<rparr>) (players s)\<rparr>
          else \<not> ok \<and> s' = s)"
  by (auto simp: CompareAndSetActiveShip_def run_simps split: option.splits if_splits)

end
