(* ===== verification/CargoRepo.thy ===== *)
theory CargoRepo
  imports Players
begin

text \<open>
  \<open>internal/persistence/cargo/repo.go\<close>: the cargo stacks, the goods catalogue and the
  cargobay of their owners. The contract of a pair of \<open>add\<close>/\<open>subtract\<close> statements over
  non-negative quantities is the locale \<open>stock_ledger\<close>.
\<close>

section \<open>Reads\<close>

text \<open>\<open>goods_types.space\<close> is a \<open>double precision\<close> column.\<close>

definition GoodsType :: "int \<Rightarrow> goods_row dbm" where
  "GoodsType gid = bindM (query (\<lambda>s. map_of (goods_types s) gid)) (\<lambda>row. case row of
       None \<Rightarrow> failM (ECargoRepo CR_ErrGoodsTypeNotFound)
     | Some g \<Rightarrow> returnM g)"

record ship_dock =
  dock_player :: int
  dock_docked :: "entity_ref option"

text \<open>Both columns must be set for the ship to count as docked.\<close>

definition docked_ref :: "ship_row \<Rightarrow> entity_ref option" where
  "docked_ref r = (case (sh_docked_kind r, sh_docked_id r) of
       (Some k, Some i) \<Rightarrow> Some (EntityRef k i)
     | _ \<Rightarrow> None)"

definition cargo_ShipDock :: "int \<Rightarrow> ship_dock dbm" where
  "cargo_ShipDock shipID = bindM (query (\<lambda>s. map_of (ships s) shipID)) (\<lambda>row. case row of
       None \<Rightarrow> failM (ECargoRepo CR_ErrShipNotFound)
     | Some r \<Rightarrow> returnM \<lparr>dock_player = sh_player r, dock_docked = docked_ref r\<rparr>)"

record cargo_item =
  item_goods :: int
  item_quantity :: int

definition visible_stack :: "entity_ref \<Rightarrow> int \<Rightarrow> stack_key \<Rightarrow> bool" where
  "visible_stack ownr viewer = (\<lambda>(o', g, d). o' = ownr \<and> (d = 0 \<or> d = viewer))"

text \<open>
  The listing groups by goods type, in increasing order; \<open>SUM\<close> of a \<open>bigint\<close> is a
  \<open>numeric\<close>, so a sum that does not fit \<open>int64\<close> fails in \<open>Scan\<close>.
\<close>

definition ListByOwner :: "entity_ref \<Rightarrow> int \<Rightarrow> cargo_item list dbm" where
  "ListByOwner ownr viewer = bindM (query (\<lambda>s.
       let rows = filter (\<lambda>(k, q). visible_stack ownr viewer k) (cargo s);
           types = sort (remdups (map (\<lambda>((o', g, d), q). g) rows))
       in map (\<lambda>g. \<lparr>item_goods = g,
            item_quantity = tsum (\<lambda>(o', g', d) q. if g' = g then q else 0) rows\<rparr>) types))
     (\<lambda>out. if list_all (\<lambda>i. in64 (item_quantity i)) out then returnM out
       else failM (EPg NumericOutOfRange))"

definition Quantity :: "entity_ref \<Rightarrow> int \<Rightarrow> int \<Rightarrow> int dbm" where
  "Quantity ownr gtype goodsOwner = query (\<lambda>s. case map_of (cargo s) (ownr, gtype, goodsOwner) of
       None \<Rightarrow> 0
     | Some q \<Rightarrow> q)"

definition HasOthersGoods :: "entity_ref \<Rightarrow> int \<Rightarrow> int \<Rightarrow> bool dbm" where
  "HasOthersGoods ownr gtype viewer = query (\<lambda>s.
     list_ex (\<lambda>((o', g, d), q). o' = ownr \<and> g = gtype \<and> d \<noteq> 0 \<and> d \<noteq> viewer \<and> 0 < q) (cargo s))"

text \<open>
  PostgreSQL's \<open>float8\<close> operators report an overflow instead of returning an infinity.
\<close>

fun f_finite :: "float64 \<Rightarrow> bool" where
  "f_finite (Fin q) = True"
| "f_finite _ = False"

definition pg_float8 :: "float64 \<Rightarrow> float64 \<Rightarrow> float64 \<Rightarrow> pg_error + float64" where
  "pg_float8 x y r = (if f_finite x \<and> f_finite y \<and> \<not> f_finite r then Inl NumericOutOfRange else Inr r)"

fun usedSpaceSQL :: "(int, goods_row) table \<Rightarrow> entity_ref \<Rightarrow> (stack_key, int) table \<Rightarrow> float64 \<Rightarrow> pg_error + float64"
where
  "usedSpaceSQL gts ownr [] acc = Inr acc"
| "usedSpaceSQL gts ownr (((o', g, d), q) # t) acc =
     (if o' = ownr then
        (case map_of gts g of
           None \<Rightarrow> usedSpaceSQL gts ownr t acc
         | Some gt \<Rightarrow>
             let v = f_mul (f_of_int q) (gt_space gt) in
             (case pg_float8 (f_of_int q) (gt_space gt) v of
                Inl e \<Rightarrow> Inl e
              | Inr _ \<Rightarrow>
                  (case pg_float8 acc v (f_add acc v) of
                     Inl e \<Rightarrow> Inl e
                   | Inr acc' \<Rightarrow> usedSpaceSQL gts ownr t acc')))
      else usedSpaceSQL gts ownr t acc)"

definition UsedSpace :: "entity_ref \<Rightarrow> float64 dbm" where
  "UsedSpace ownr = sql (\<lambda>s. case usedSpaceSQL (goods_types s) ownr (cargo s) (Fin 0) of
       Inl e \<Rightarrow> Inl e
     | Inr u \<Rightarrow> Inr (u, s))"

text \<open>The \<open>cargobay\<close> column of the owner's table.\<close>

definition cargobay :: "entity_ref \<Rightarrow> db \<Rightarrow> float64 option" where
  "cargobay ownr s =
     (if ref_kind ownr = EntityKindShip then map_option sh_cargobay (map_of (ships s) (ref_id ownr))
      else if ref_kind ownr = EntityKindStation then map_option st_cargobay (map_of (stations s) (ref_id ownr))
      else if ref_kind ownr = EntityKindTradeStation
        then map_option ts_cargobay (map_of (trade_stations s) (ref_id ownr))
      else None)"

definition Capacity :: "entity_ref \<Rightarrow> float64 dbm" where
  "Capacity ownr =
     (if ref_kind ownr \<in> {EntityKindShip, EntityKindStation, EntityKindTradeStation} then
        bindM (query (cargobay ownr)) (\<lambda>row. case row of
            None \<Rightarrow> failM (ECargoRepo CR_ErrOwnerNotFound)
          | Some c \<Rightarrow> returnM c)
      else failM (ECargoRepo CR_ErrUnsupportedOwnerKind))"

section \<open>Writes\<close>

text \<open>
  \<open>INSERT ... ON CONFLICT DO UPDATE\<close>. The column check applies to the row proposed for
  insertion, the foreign key to a row actually inserted.
\<close>

definition addSQL :: "stack_key \<Rightarrow> int \<Rightarrow> db \<Rightarrow> pg_error + (unit \<times> db)" where
  "addSQL key qty s =
     (if qty < 0 then Inl (CheckViolation ''cargo_quantity_check'')
      else (case map_of (cargo s) key of
          Some q \<Rightarrow> pg_bigint (q + qty) (\<lambda>n. Inr ((), s\<lparr>cargo := AList.update key n (cargo s)\<rparr>))
        | None \<Rightarrow>
            if map_of (goods_types s) (fst (snd key)) = None
            then Inl (ForeignKeyViolation ''cargo_goods_type_id_fkey'')
            else pg_bigint qty (\<lambda>n. Inr ((), s\<lparr>cargo := AList.update key n (cargo s)\<rparr>))))"

definition Add :: "entity_ref \<Rightarrow> int \<Rightarrow> int \<Rightarrow> int \<Rightarrow> unit dbm" where
  "Add ownr gtype qty goodsOwner = sql (addSQL (ownr, gtype, goodsOwner) qty)"

definition subtractSQL :: "stack_key \<Rightarrow> int \<Rightarrow> db \<Rightarrow> pg_error + (int option \<times> db)" where
  "subtractSQL key qty s = (case map_of (cargo s) key of
       None \<Rightarrow> Inr (None, s)
     | Some q \<Rightarrow>
         if qty \<le> q
         then pg_bigint (q - qty) (\<lambda>n. Inr (Some n, s\<lparr>cargo := AList.update key n (cargo s)\<rparr>))
         else Inr (None, s))"

definition deleteEmptySQL :: "stack_key \<Rightarrow> db \<Rightarrow> pg_error + (unit \<times> db)" where
  "deleteEmptySQL key s =
     Inr ((), if map_of (cargo s) key = Some 0 then s\<lparr>cargo := AList.delete key (cargo s)\<rparr> else s)"

definition Subtract :: "entity_ref \<Rightarrow> int \<Rightarrow> int \<Rightarrow> int \<Rightarrow> unit dbm" where
  "Subtract ownr gtype qty goodsOwner =
     (let key = (ownr, gtype, goodsOwner) in
      bindM (sql (subtractSQL key qty)) (\<lambda>res. case res of
          None \<Rightarrow> failM (ECargoRepo CR_ErrInsufficientQuantity)
        | Some remaining \<Rightarrow>
            if remaining = 0 then sql (deleteEmptySQL key) else returnM ()))"

section \<open>The ledger contract\<close>

text \<open>
  What the services rely on: an addition adds exactly what it was asked to the named stack and
  nothing elsewhere, a subtraction succeeds only if the stack holds enough, and the class
  totals (\<open>total c\<close> sums the stacks \<open>k\<close> with \<open>cls k = c\<close>) move by the same amount.
\<close>

locale stock_ledger =
  fixes add :: "'k \<Rightarrow> int \<Rightarrow> 'r dbm"
    and sub :: "'k \<Rightarrow> int \<Rightarrow> 'r dbm"
    and held :: "db \<Rightarrow> 'k \<Rightarrow> int"
    and cls :: "'k \<Rightarrow> 'c"
    and total :: "'c \<Rightarrow> db \<Rightarrow> int"
    and wf :: "db \<Rightarrow> bool"
  assumes add_held: "add k n s = (Inr x, s') \<Longrightarrow> held s' = (held s)(k := held s k + n)"
    and sub_held: "sub k n s = (Inr x, s') \<Longrightarrow> held s' = (held s)(k := held s k - n)"
    and sub_enough: "wf s \<Longrightarrow> 0 < n \<Longrightarrow> sub k n s = (Inr x, s') \<Longrightarrow> n \<le> held s k"
    and add_total: "add k n s = (Inr x, s') \<Longrightarrow> total c s' = total c s + (if c = cls k then n else 0)"
    and sub_total: "wf s \<Longrightarrow> sub k n s = (Inr x, s') \<Longrightarrow>
      total c s' = total c s - (if c = cls k then n else 0)"
    and add_wf: "wf s \<Longrightarrow> add k n s = (Inr x, s') \<Longrightarrow> wf s'"
    and sub_wf: "wf s \<Longrightarrow> sub k n s = (Inr x, s') \<Longrightarrow> wf s'"
begin

text \<open>Moving goods within a class conserves the class total.\<close>

lemma transfer_total:
  assumes "wf s" "sub k n s = (Inr x, s1)" "add k' n s1 = (Inr y, s')" "cls k' = cls k"
  shows "total c s' = total c s"
  using sub_total [OF assms(1,2), of c] add_total [OF assms(3), of c] assms(4) by simp

text \<open>Adding and taking back leaves every stack as it was.\<close>

lemma add_sub_held:
  assumes "add k n s = (Inr x, s1)" "sub k n s1 = (Inr y, s')"
  shows "held s' = held s"
  using add_held [OF assms(1)] sub_held [OF assms(2)] by simp

lemma transfer_held:
  assumes "sub k n s = (Inr x, s1)" "add k' n s1 = (Inr y, s')" "k \<noteq> k'"
  shows "held s' = (held s)(k := held s k - n, k' := held s k' + n)"
  using sub_held [OF assms(1)] add_held [OF assms(2)] assms(3) by simp

end

section \<open>Stacks satisfy it\<close>

definition stack_qty :: "db \<Rightarrow> stack_key \<Rightarrow> int" where
  "stack_qty s k = (case map_of (cargo s) k of None \<Rightarrow> 0 | Some q \<Rightarrow> q)"

definition goods_total :: "int \<Rightarrow> db \<Rightarrow> int" where
  "goods_total g s = tsum (\<lambda>(o', g', d) q. if g' = g then q else 0) (cargo s)"

definition cargo_ok :: "db \<Rightarrow> bool" where
  "cargo_ok s \<longleftrightarrow> tbl_wf (cargo s) \<and> all_rows (\<lambda>_ q. 0 \<le> q \<and> in64 q) (cargo s)"

lemma cargo_ok_abort [simp]: "cargo_ok (s\<lparr>tx_aborted := b\<rparr>) = cargo_ok s"
  by (simp add: cargo_ok_def)

lemma stack_qty_nonneg: "cargo_ok s \<Longrightarrow> 0 \<le> stack_qty s k"
  by (auto simp: cargo_ok_def stack_qty_def dest: all_rowsD split: option.split)

lemma stack_qty_in64: "cargo_ok s \<Longrightarrow> in64 (stack_qty s k)"
  by (auto simp: cargo_ok_def stack_qty_def dest: all_rowsD split: option.split)

lemma Quantity_ok [run_simps]:
  "Quantity ownr g d s = (Inr n, s') \<longleftrightarrow> \<not> tx_aborted s \<and> n = stack_qty s (ownr, g, d) \<and> s' = s"
  by (auto simp: Quantity_def run_simps stack_qty_def)

lemma GoodsType_ok [run_simps]:
  "GoodsType g s = (Inr r, s') \<longleftrightarrow> \<not> tx_aborted s \<and> map_of (goods_types s) g = Some r \<and> s' = s"
  by (auto simp: GoodsType_def run_simps split: option.splits)

lemma Capacity_ok [run_simps]:
  "Capacity ownr s = (Inr c, s') \<longleftrightarrow> \<not> tx_aborted s \<and> cargobay ownr s = Some c \<and> s' = s"
  by (auto simp: Capacity_def cargobay_def run_simps split: option.splits)

lemma UsedSpace_ok [run_simps]:
  "UsedSpace ownr s = (Inr u, s') \<longleftrightarrow> \<not> tx_aborted s \<and>
     usedSpaceSQL (goods_types s) ownr (cargo s) (Fin 0) = Inr u \<and> s' = s"
  by (auto simp: UsedSpace_def run_simps split: sum.splits)

lemma cargo_ShipDock_ok [run_simps]:
  "cargo_ShipDock i s = (Inr d, s') \<longleftrightarrow> \<not> tx_aborted s \<and> s' = s \<and>
     (\<exists>r. map_of (ships s) i = Some r \<and> d = \<lparr>dock_player = sh_player r, dock_docked = docked_ref r\<rparr>)"
  by (auto simp: cargo_ShipDock_def run_simps split: option.splits)

lemma Add_ok:
  "Add ownr g n d s = (Inr x, s') \<longleftrightarrow> \<not> tx_aborted s \<and> 0 \<le> n \<and> in64 (stack_qty s (ownr, g, d) + n) \<and>
     (map_of (cargo s) (ownr, g, d) = None \<longrightarrow> map_of (goods_types s) g \<noteq> None) \<and>
     s' = s\<lparr>cargo := AList.update (ownr, g, d) (stack_qty s (ownr, g, d) + n) (cargo s)\<rparr>"
  by (auto simp: Add_def addSQL_def run_simps stack_qty_def split: option.splits if_splits)

lemma Add_err: "Add ownr g n d s = (Inl e, s') \<Longrightarrow> s' = s \<or> s' = s\<lparr>tx_aborted := True\<rparr>"
  by (auto simp: Add_def sql_def split: if_splits sum.splits)

text \<open>The stack left by a subtraction; an emptied one is removed.\<close>

definition take_stack :: "stack_key \<Rightarrow> int \<Rightarrow> db \<Rightarrow> db" where
  "take_stack k n s = (if stack_qty s k = n
     then s\<lparr>cargo := AList.delete k (AList.update k 0 (cargo s))\<rparr>
     else s\<lparr>cargo := AList.update k (stack_qty s k - n) (cargo s)\<rparr>)"

lemma Subtract_ok:
  "Subtract ownr g n d s = (Inr x, s') \<longleftrightarrow> \<not> tx_aborted s \<and>
     map_of (cargo s) (ownr, g, d) \<noteq> None \<and> n \<le> stack_qty s (ownr, g, d) \<and>
     in64 (stack_qty s (ownr, g, d) - n) \<and> s' = take_stack (ownr, g, d) n s"
  by (cases "map_of (cargo s) (ownr, g, d)")
    (auto simp: Subtract_def subtractSQL_def deleteEmptySQL_def Let_def run_simps stack_qty_def
      take_stack_def split: if_splits)

text \<open>It fails for lack of goods, or because the difference does not fit.\<close>

lemma Subtract_err:
  "Subtract ownr g n d s = (Inl e, s') \<longleftrightarrow>
     (if tx_aborted s then e = EPg InFailedTransaction \<and> s' = s
      else if map_of (cargo s) (ownr, g, d) = None \<or> stack_qty s (ownr, g, d) < n
        then e = ECargoRepo CR_ErrInsufficientQuantity \<and> s' = s
      else \<not> in64 (stack_qty s (ownr, g, d) - n) \<and> e = EPg NumericOutOfRange \<and> s' = s\<lparr>tx_aborted := True\<rparr>)"
  by (auto simp: Subtract_def subtractSQL_def deleteEmptySQL_def Let_def sql_def bindM_err run_simps
      stack_qty_def pg_bigint_def split: option.splits if_splits)

lemma take_stack_frame: "\<exists>t. take_stack k n s = s\<lparr>cargo := t\<rparr>"
  by (simp add: take_stack_def) blast

lemma take_stack_other [simp]:
  "tx_aborted (take_stack k n s) = tx_aborted s"
  "players (take_stack k n s) = players s"
  "ships (take_stack k n s) = ships s"
  "stations (take_stack k n s) = stations s"
  "trade_stations (take_stack k n s) = trade_stations s"
  "goods_types (take_stack k n s) = goods_types s"
  "station_goods (take_stack k n s) = station_goods s"
  "auction_lots (take_stack k n s) = auction_lots s"
  by (simp_all add: take_stack_def)

lemma take_stack_qty: "stack_qty (take_stack k n s) = (stack_qty s)(k := stack_qty s k - n)"
  by (auto simp: take_stack_def stack_qty_def fun_eq_iff)

lemma update_qty:
  "stack_qty (s\<lparr>cargo := AList.update k n (cargo s)\<rparr>) = (stack_qty s)(k := n)"
  by (auto simp: stack_qty_def fun_eq_iff)

lemma goods_total_update:
  "goods_total g (s\<lparr>cargo := AList.update k n (cargo s)\<rparr>) =
     goods_total g s + (if g = fst (snd k) then n - stack_qty s k else 0)"
  by (cases k; cases "map_of (cargo s) k") (auto simp: goods_total_def stack_qty_def tsum_table)

lemma goods_total_take:
  "cargo_ok s \<Longrightarrow> goods_total g (take_stack k n s) = goods_total g s - (if g = fst (snd k) then n else 0)"
  using goods_total_update [of g k 0 s] goods_total_update [of g k "stack_qty s k - n" s]
  by (cases k) (auto simp: take_stack_def goods_total_def cargo_ok_def tsum_delete_Some [where v = 0]
      split: if_splits)

lemma cargo_ok_update: "cargo_ok s \<Longrightarrow> 0 \<le> n \<Longrightarrow> in64 n \<Longrightarrow> cargo_ok (s\<lparr>cargo := AList.update k n (cargo s)\<rparr>)"
  by (auto simp: cargo_ok_def)

lemma cargo_ok_take: "cargo_ok s \<Longrightarrow> n \<le> stack_qty s k \<Longrightarrow> in64 (stack_qty s k - n) \<Longrightarrow> cargo_ok (take_stack k n s)"
  by (auto simp: cargo_ok_def take_stack_def intro!: all_rows_delete all_rows_update)

interpretation stacks: stock_ledger
  "\<lambda>(o', g, d) n. Add o' g n d" "\<lambda>(o', g, d) n. Subtract o' g n d"
  stack_qty "\<lambda>k. fst (snd k)" goods_total cargo_ok
proof
  fix k :: stack_key and n s x s'
  obtain o' g d where k: "k = (o', g, d)" by (cases k)
  { assume "(case k of (o', g, d) \<Rightarrow> \<lambda>n. Add o' g n d) n s = (Inr x, s')"
    with k have a: "s' = s\<lparr>cargo := AList.update k (stack_qty s k + n) (cargo s)\<rparr>"
      and b: "0 \<le> n" "in64 (stack_qty s k + n)" by (auto simp: Add_ok)
    from a show "stack_qty s' = (stack_qty s)(k := stack_qty s k + n)" by (simp only: update_qty)
    from a show "goods_total c s' = goods_total c s + (if c = fst (snd k) then n else 0)" for c
      by (simp add: goods_total_update)
    from a b show "cargo_ok s' " if "cargo_ok s"
      using that by (auto intro!: cargo_ok_update simp: stack_qty_nonneg) }
  { assume "(case k of (o', g, d) \<Rightarrow> \<lambda>n. Subtract o' g n d) n s = (Inr x, s')"
    with k have a: "s' = take_stack k n s" "n \<le> stack_qty s k" "in64 (stack_qty s k - n)"
      by (auto simp: Subtract_ok)
    from a show "stack_qty s' = (stack_qty s)(k := stack_qty s k - n)" by (simp add: take_stack_qty)
    from a show "n \<le> stack_qty s k" by simp
    from a show "goods_total c s' = goods_total c s - (if c = fst (snd k) then n else 0)"
      if "cargo_ok s" for c using that by (simp add: goods_total_take)
    from a show "cargo_ok s'" if "cargo_ok s" using that by (simp add: cargo_ok_take) }
qed

interpretation cargo_inv: db_invariant cargo_ok
  by unfold_locales simp

lemma keeps_cargo_Add: "keeps (\<lambda>s s'. cargo_ok s \<longrightarrow> cargo_ok s') (Add ownr g n d)"
  by (rule keepsI, rename_tac s r s', case_tac r)
    (auto simp: Add_ok stack_qty_nonneg intro!: cargo_ok_update dest!: Add_err)

lemma keeps_cargo_Subtract: "keeps (\<lambda>s s'. cargo_ok s \<longrightarrow> cargo_ok s') (Subtract ownr g n d)"
  by (rule keepsI, rename_tac s r s', case_tac r)
    (auto simp: Subtract_ok Subtract_err cargo_ok_take split: if_splits)

section \<open>Occupied space\<close>

text \<open>
  Over a catalogue whose goods take a whole number of units, the floating-point sum that
  PostgreSQL computes is the exact occupied space as long as it stays within \<open>2 ^ 53\<close>.
\<close>

definition goods_space :: "(int, goods_row) table \<Rightarrow> int \<Rightarrow> int" where
  "goods_space gts g = (case map_of gts g of
       Some r \<Rightarrow> (case gt_space r of Fin q \<Rightarrow> \<lfloor>q\<rfloor> | _ \<Rightarrow> 0)
     | None \<Rightarrow> 0)"

definition whole_spaces :: "(int, goods_row) table \<Rightarrow> bool" where
  "whole_spaces gts \<longleftrightarrow> list_all (\<lambda>(g, r). case gt_space r of
       Fin q \<Rightarrow> 1 \<le> q \<and> of_int \<lfloor>q\<rfloor> = q | _ \<Rightarrow> False) gts"

definition stack_space :: "(int, goods_row) table \<Rightarrow> entity_ref \<Rightarrow> stack_key \<Rightarrow> int \<Rightarrow> int" where
  "stack_space gts ownr = (\<lambda>(o', g, d) q. if o' = ownr then q * goods_space gts g else 0)"

definition occupied :: "entity_ref \<Rightarrow> db \<Rightarrow> int" where
  "occupied ownr s = tsum (stack_space (goods_types s) ownr) (cargo s)"

lemma whole_spacesD:
  "whole_spaces gts \<Longrightarrow> map_of gts g = Some r \<Longrightarrow>
     gt_space r = Fin (of_int (goods_space gts g)) \<and> 1 \<le> goods_space gts g"
  using map_of_SomeD [of gts g r]
  by (cases "gt_space r") (fastforce simp: whole_spaces_def list_all_iff goods_space_def)+

lemma goods_space_nonneg: "whole_spaces gts \<Longrightarrow> 0 \<le> goods_space gts g"
  by (cases "map_of gts g") (auto dest: whole_spacesD simp: goods_space_def)

lemma stack_space_nonneg:
  "whole_spaces gts \<Longrightarrow> 0 \<le> q \<Longrightarrow> 0 \<le> stack_space gts ownr k q"
  by (auto simp: stack_space_def goods_space_nonneg split: prod.split)

lemma stack_space_0: "stack_space gts ownr k 0 = 0"
  by (simp add: stack_space_def split: prod.split)

lemma usedSpace_step:
  assumes "whole_spaces gts" "map_of gts g = Some r" "0 \<le> q" "0 \<le> a"
    and "a + q * goods_space gts g \<le> 2 ^ 53"
  shows "f_mul (f_of_int q) (gt_space r) = Fin (of_int (q * goods_space gts g))"
    and "f_add (Fin (of_int a)) (Fin (of_int (q * goods_space gts g))) =
      Fin (of_int (a + q * goods_space gts g))"
    and "f_finite (f_of_int q)"
proof -
  let ?n = "goods_space gts g"
  have r: "gt_space r = Fin (of_int ?n)" and n: "1 \<le> ?n" using whole_spacesD [OF assms(1,2)] by auto
  have nn: "0 \<le> q * ?n" using n assms(3) by simp
  have "q * 1 \<le> q * ?n" using n assms(3) by (intro mult_left_mono) auto
  then have q: "int53 q" and qn: "int53 (q * ?n)" and sm: "int53 (a + q * ?n)"
    using assms(3-5) nn by auto
  show "f_mul (f_of_int q) (gt_space r) = Fin (of_int (q * ?n))"
    unfolding r f_of_int_exact [OF q] by (rule f_mul_exact [OF qn])
  show "f_add (Fin (of_int a)) (Fin (of_int (q * ?n))) = Fin (of_int (a + q * ?n))"
    by (rule f_add_exact [OF sm])
  show "f_finite (f_of_int q)" by (simp add: f_of_int_exact [OF q])
qed

lemma usedSpaceSQL_exact:
  assumes "whole_spaces gts" "all_rows (\<lambda>_ q. 0 \<le> q) t" "0 \<le> a"
    and "a + tsum (stack_space gts ownr) t \<le> 2 ^ 53"
  shows "usedSpaceSQL gts ownr t (Fin (of_int a)) = Inr (Fin (of_int (a + tsum (stack_space gts ownr) t)))"
  using assms(2-)
proof (induction t arbitrary: a)
  case Nil
  then show ?case by simp
next
  case (Cons x t)
  obtain o' g d q where x: "x = ((o', g, d), q)" by (metis surj_pair)
  have q: "0 \<le> q" and rest: "all_rows (\<lambda>_ q. 0 \<le> q) t" using Cons.prems(1) x by (auto simp: all_rows_def)
  have tl: "0 \<le> tsum (stack_space gts ownr) t"
    using rest assms(1) by (intro tsum_nonneg stack_space_nonneg) (auto simp: all_rows_def)
  show ?case
  proof (cases "o' = ownr \<and> map_of gts g \<noteq> None")
    case False
    then have "stack_space gts ownr (o', g, d) q = 0" by (auto simp: stack_space_def goods_space_def)
    with False x Cons.IH [OF rest Cons.prems(2)] Cons.prems(3) show ?thesis by auto
  next
    case True
    then obtain r where r: "map_of gts g = Some r" by auto
    have sp: "stack_space gts ownr (o', g, d) q = q * goods_space gts g" using True by (simp add: stack_space_def)
    have le: "a + q * goods_space gts g \<le> 2 ^ 53" using Cons.prems(3) x sp tl by simp
    have "0 \<le> q * goods_space gts g" using q goods_space_nonneg [OF assms(1)] by simp
    then have "usedSpaceSQL gts ownr t (Fin (of_int (a + q * goods_space gts g))) =
        Inr (Fin (of_int (a + q * goods_space gts g + tsum (stack_space gts ownr) t)))"
      using Cons.prems x sp by (intro Cons.IH [OF rest]) auto
    with usedSpace_step [OF assms(1) r q Cons.prems(2) le] x True r sp show ?thesis
      by (simp add: pg_float8_def add.assoc del: of_int_add of_int_mult f_add.simps f_mul.simps)
  qed
qed

text \<open>The exact reading of \<open>UsedSpace\<close>.\<close>

lemma UsedSpace_exact:
  assumes "cargo_ok s" "whole_spaces (goods_types s)" "occupied ownr s \<le> 2 ^ 53"
  shows "usedSpaceSQL (goods_types s) ownr (cargo s) (Fin 0) = Inr (Fin (of_int (occupied ownr s)))"
  using usedSpaceSQL_exact [OF assms(2), of "cargo s" 0 ownr] assms
  by (auto simp: cargo_ok_def all_rows_def occupied_def)

lemma occupied_update:
  "occupied ownr (s\<lparr>cargo := AList.update k n (cargo s)\<rparr>) = occupied ownr s +
     (if fst k = ownr then (n - stack_qty s k) * goods_space (goods_types s) (fst (snd k)) else 0)"
  by (cases k; cases "map_of (cargo s) k")
    (auto simp: occupied_def stack_qty_def stack_space_def tsum_table left_diff_distrib)

lemma occupied_take:
  "cargo_ok s \<Longrightarrow> occupied ownr (take_stack k n s) = occupied ownr s -
     (if fst k = ownr then n * goods_space (goods_types s) (fst (snd k)) else 0)"
  using occupied_update [of ownr k 0 s] occupied_update [of ownr k "stack_qty s k - n" s]
  by (auto simp: take_stack_def occupied_def cargo_ok_def stack_space_0
      tsum_delete_Some [where v = 0] split: if_splits)

end
