(* ===== verification/Cargo.thy ===== *)
theory Cargo
  imports CargoRepo
begin

text \<open>
  \<open>internal/cargo/service.go\<close>: inventories, consumption and refunds, the capacity-checked
  \<open>Add\<close>, and the transfers \<open>Move\<close> and \<open>MoveByPlayer\<close> with their depositor rules and the
  docking gate.
\<close>

section \<open>Operations\<close>

abbreviation (input) unownedGoods :: int where "unownedGoods \<equiv> 0"

definition isStationLike :: "int \<Rightarrow> bool" where
  "isStationLike k \<longleftrightarrow> k = EntityKindStation \<or> k = EntityKindTradeStation \<or> k = EntityKindPirbase"

text \<open>The translations of repository errors.\<close>

definition goodsErr :: "err \<Rightarrow> err" where
  "goodsErr e = (if e = ECargoRepo CR_ErrGoodsTypeNotFound then ECargo CG_ErrGoodsTypeNotFound else e)"

definition capacityErr :: "err \<Rightarrow> err" where
  "capacityErr e =
     (if e = ECargoRepo CR_ErrOwnerNotFound then ECargo CG_ErrOwnerNotFound
      else if e = ECargoRepo CR_ErrUnsupportedOwnerKind then ECargo CG_ErrUnsupportedOwnerKind
      else e)"

definition subtractErr :: "err \<Rightarrow> err" where
  "subtractErr e = (if e = ECargoRepo CR_ErrInsufficientQuantity then ECargo CG_ErrInsufficientQuantity else e)"

definition shipErr :: "err \<Rightarrow> err" where
  "shipErr e = (if e = ECargoRepo CR_ErrShipNotFound then ECargo CG_ErrShipNotFound else e)"

record inventory =
  inv_owner :: entity_ref
  inv_capacity :: float64
  inv_used :: float64
  inv_items :: "cargo_item list"

definition Inventory :: "entity_ref \<Rightarrow> int \<Rightarrow> inventory dbm" where
  "Inventory ownr viewer =
     bindM (pool (mapErr capacityErr (Capacity ownr))) (\<lambda>capacity.
     bindM (pool (UsedSpace ownr)) (\<lambda>used.
     bindM (pool (ListByOwner ownr viewer)) (\<lambda>items.
     returnM \<lparr>inv_owner = ownr, inv_capacity = capacity, inv_used = used, inv_items = items\<rparr>)))"

definition ConsumeIn :: "entity_ref \<Rightarrow> int \<Rightarrow> int \<Rightarrow> unit dbm" where
  "ConsumeIn ownr gtype qty =
     bindM (checkM (0 < qty) (ECargo CG_ErrNonPositiveQuantity)) (\<lambda>_.
     bindM (mapErr goodsErr (GoodsType gtype)) (\<lambda>_.
     mapErr subtractErr (Subtract ownr gtype qty unownedGoods)))"

definition Consume :: "entity_ref \<Rightarrow> int \<Rightarrow> int \<Rightarrow> unit dbm" where
  "Consume ownr gtype qty =
     bindM (checkM (0 < qty) (ECargo CG_ErrNonPositiveQuantity)) (\<lambda>_.
     tx_do (ConsumeIn ownr gtype qty))"

definition FitsIn :: "entity_ref \<Rightarrow> int \<Rightarrow> int \<Rightarrow> int dbm" where
  "FitsIn ownr gtype limit =
     bindM (mapErr goodsErr (GoodsType gtype)) (\<lambda>gt.
     if f_le (gt_space gt) (Fin 0) then returnM limit
     else
       bindM (mapErr capacityErr (Capacity ownr)) (\<lambda>capacity.
       bindM (UsedSpace ownr) (\<lambda>used.
       let fits = f_to_int64 (f_div (f_sub capacity used) (gt_space gt)) in
       if fits < 0 then returnM 0
       else if limit < fits then returnM limit
       else returnM fits)))"

definition AvailableIn :: "entity_ref \<Rightarrow> int \<Rightarrow> int dbm" where
  "AvailableIn ownr gtype =
     bindM (mapErr goodsErr (GoodsType gtype)) (\<lambda>_. Quantity ownr gtype unownedGoods)"

definition RefundIn :: "entity_ref \<Rightarrow> int \<Rightarrow> int \<Rightarrow> unit dbm" where
  "RefundIn ownr gtype qty =
     bindM (checkM (0 < qty) (ECargo CG_ErrNonPositiveQuantity)) (\<lambda>_.
     Add ownr gtype qty unownedGoods)"

text \<open>\<open>Service.Add\<close>, as opposed to the repository's \<open>Add\<close>.\<close>

definition AddChecked :: "entity_ref \<Rightarrow> int \<Rightarrow> int \<Rightarrow> unit dbm" where
  "AddChecked ownr gtype qty =
     bindM (checkM (0 < qty) (ECargo CG_ErrNonPositiveQuantity)) (\<lambda>_.
     tx_do (
       bindM (mapErr goodsErr (GoodsType gtype)) (\<lambda>gt.
       bindM (mapErr capacityErr (Capacity ownr)) (\<lambda>capacity.
       bindM (UsedSpace ownr) (\<lambda>used.
       bindM (checkM (\<not> f_lt capacity (f_add used (f_mul (f_of_int qty) (gt_space gt)))) (ECargo CG_ErrNoSpace)) (\<lambda>_.
       Add ownr gtype qty unownedGoods))))))"

definition subtractFromSource :: "int \<Rightarrow> entity_ref \<Rightarrow> int \<Rightarrow> int \<Rightarrow> unit dbm" where
  "subtractFromSource actor from gtype qty =
     (if \<not> isStationLike (ref_kind from) \<or> actor = unownedGoods then
        mapErr subtractErr (Subtract from gtype qty unownedGoods)
      else
        bindM (Quantity from gtype actor) (\<lambda>own.
        bindM (Quantity from gtype unownedGoods) (\<lambda>free.
        if wrap64 (own + free) < qty then
          (if wrap64 (own + free) = 0 then
             bindM (HasOthersGoods from gtype actor) (\<lambda>hasOthers.
             if hasOthers then failM (ECargo CG_ErrForbidden)
             else failM (ECargo CG_ErrInsufficientQuantity))
           else failM (ECargo CG_ErrInsufficientQuantity))
        else
          let takeOwn = (if qty < own then qty else own) in
          bindM (if 0 < takeOwn then Subtract from gtype takeOwn actor else returnM ()) (\<lambda>_.
          let takeFree = wrap64 (qty - takeOwn) in
          if 0 < takeFree then Subtract from gtype takeFree unownedGoods else returnM ()))))"

definition moveIn :: "int \<Rightarrow> entity_ref \<Rightarrow> entity_ref \<Rightarrow> int \<Rightarrow> int \<Rightarrow> unit dbm" where
  "moveIn actor from to gtype qty =
     bindM (mapErr goodsErr (GoodsType gtype)) (\<lambda>gt.
     bindM (mapErr capacityErr (Capacity to)) (\<lambda>toCapacity.
     bindM (UsedSpace to) (\<lambda>toUsed.
     bindM (checkM (\<not> f_lt toCapacity (f_add toUsed (f_mul (f_of_int qty) (gt_space gt)))) (ECargo CG_ErrNoSpace)) (\<lambda>_.
     bindM (subtractFromSource actor from gtype qty) (\<lambda>_.
     Add to gtype qty (if isStationLike (ref_kind to) then actor else unownedGoods))))))"

definition Move :: "int \<Rightarrow> entity_ref \<Rightarrow> entity_ref \<Rightarrow> int \<Rightarrow> int \<Rightarrow> unit dbm" where
  "Move actor from to gtype qty =
     bindM (checkM (0 < qty) (ECargo CG_ErrNonPositiveQuantity)) (\<lambda>_.
     bindM (checkM (from \<noteq> to) (ECargo CG_ErrSameOwner)) (\<lambda>_.
     tx_do (moveIn actor from to gtype qty)))"

definition isTransferStation :: "int \<Rightarrow> bool" where
  "isTransferStation k \<longleftrightarrow> k = EntityKindStation \<or> k = EntityKindTradeStation"

definition transferEnds :: "entity_ref \<Rightarrow> entity_ref \<Rightarrow> (int \<times> entity_ref) dbm" where
  "transferEnds from to =
     (if ref_kind from = EntityKindShip \<and> isTransferStation (ref_kind to) then returnM (ref_id from, to)
      else if isTransferStation (ref_kind from) \<and> ref_kind to = EntityKindShip then returnM (ref_id to, from)
      else failM (ECargo CG_ErrInvalidTransfer))"

definition cargo_authorizeDocked :: "int \<Rightarrow> int \<Rightarrow> entity_ref \<Rightarrow> unit dbm" where
  "cargo_authorizeDocked actor shipID station =
     bindM (mapErr shipErr (cargo_ShipDock shipID)) (\<lambda>dock.
     bindM (checkM (dock_player dock = actor) (ECargo CG_ErrShipForbidden)) (\<lambda>_.
     bindM (checkM (dock_docked dock \<noteq> None) (ECargo CG_ErrNotDocked)) (\<lambda>_.
     checkM (dock_docked dock = Some station) (ECargo CG_ErrWrongStation))))"

definition MoveByPlayer :: "int \<Rightarrow> entity_ref \<Rightarrow> entity_ref \<Rightarrow> int \<Rightarrow> int \<Rightarrow> unit dbm" where
  "MoveByPlayer actor from to gtype qty =
     bindM (checkM (0 < qty) (ECargo CG_ErrNonPositiveQuantity)) (\<lambda>_.
     bindM (checkM (from \<noteq> to) (ECargo CG_ErrSameOwner)) (\<lambda>_.
     bindM (transferEnds from to) (\<lambda>(shipID, station).
     tx_do (
       bindM (cargo_authorizeDocked actor shipID station) (\<lambda>_.
       moveIn actor from to gtype qty)))))"

section \<open>What a transfer does to the stacks\<close>

text \<open>
  The abstract effect: \<open>draw\<close> takes \<open>n\<close> units that \<open>actor\<close> may take, its own deposit first,
  then the unowned pool; \<open>deposit\<close> puts them under the depositor the destination asks for.
\<close>

definition own_share :: "int \<Rightarrow> entity_ref \<Rightarrow> int \<Rightarrow> int \<Rightarrow> (stack_key \<Rightarrow> int) \<Rightarrow> int" where
  "own_share actor from g n h =
     (if isStationLike (ref_kind from) \<and> actor \<noteq> 0 then min n (h (from, g, actor)) else 0)"

definition draw :: "int \<Rightarrow> entity_ref \<Rightarrow> int \<Rightarrow> int \<Rightarrow> (stack_key \<Rightarrow> int) \<Rightarrow> stack_key \<Rightarrow> int" where
  "draw actor from g n h = (\<lambda>(o', g', d).
     if o' = from \<and> g' = g then
       h (o', g', d)
         - (if d = actor then own_share actor from g n h else 0)
         - (if d = 0 then n - own_share actor from g n h else 0)
     else h (o', g', d))"

definition deposit :: "int \<Rightarrow> entity_ref \<Rightarrow> int \<Rightarrow> int \<Rightarrow> (stack_key \<Rightarrow> int) \<Rightarrow> stack_key \<Rightarrow> int" where
  "deposit actor to g n h =
     (let k = (to, g, if isStationLike (ref_kind to) then actor else 0) in h(k := h k + n))"

text \<open>The part of the state a transfer may change.\<close>

definition only_cargo :: "db \<Rightarrow> db \<Rightarrow> bool" where
  "only_cargo s s' \<longleftrightarrow> (\<exists>t. s' = s\<lparr>cargo := t\<rparr>)"

lemma only_cargo_refl [simp]: "only_cargo s s"
  unfolding only_cargo_def by (rule exI [of _ "cargo s"]) simp

lemma only_cargo_trans: "only_cargo s t \<Longrightarrow> only_cargo t u \<Longrightarrow> only_cargo s u"
  by (auto simp: only_cargo_def)

lemma only_cargo_take [simp]: "only_cargo s (take_stack k n s)"
  by (auto simp: only_cargo_def take_stack_frame)

lemma only_cargo_upd [simp]: "only_cargo s (s\<lparr>cargo := t\<rparr>)"
  by (auto simp: only_cargo_def)

lemma wrap64_sum_ge:
  "0 \<le> a \<Longrightarrow> 0 \<le> b \<Longrightarrow> in64 a \<Longrightarrow> in64 b \<Longrightarrow> 0 \<le> wrap64 (a + b) \<Longrightarrow> wrap64 (a + b) = a + b"
proof (cases "a + b < 2 ^ 63")
  case False
  assume "0 \<le> a" "0 \<le> b" "in64 a" "in64 b" and nn: "0 \<le> wrap64 (a + b)"
  with False have "(a + b + 2 ^ 63 - 2 ^ 64) mod 2 ^ 64 = a + b + 2 ^ 63 - 2 ^ 64"
    by (intro mod_pos_pos_trivial) (auto simp: in64_def)
  moreover have "(a + b + 2 ^ 63 - 2 ^ 64) mod 2 ^ 64 = (a + b + 2 ^ 63) mod 2 ^ 64"
    by (rule minus_mod_self2)
  ultimately have "wrap64 (a + b) = a + b - 2 ^ 64" unfolding wrap64_def by linarith
  with nn \<open>in64 a\<close> \<open>in64 b\<close> show ?thesis by (simp add: in64_def)
qed (auto simp: in64_def intro: wrap64_id)

lemma min_if: "(if n < a then n else a) = min n (a::int)"
  by (simp add: min_def)

text \<open>What a successful step of the source side establishes.\<close>

definition drawn :: "int \<Rightarrow> entity_ref \<Rightarrow> int \<Rightarrow> int \<Rightarrow> db \<Rightarrow> db \<Rightarrow> bool" where
  "drawn actor from g n s s' \<longleftrightarrow>
     stack_qty s' = draw actor from g n (stack_qty s) \<and> cargo_ok s' \<and> only_cargo s s' \<and>
     \<not> tx_aborted s' \<and>
     (\<forall>g'. goods_total g' s' = goods_total g' s - (if g' = g then n else 0)) \<and>
     (\<forall>ownr. occupied ownr s' = occupied ownr s - (if from = ownr then n * goods_space (goods_types s) g else 0))"

lemma Subtract_drawn:
  assumes "cargo_ok s" "Subtract from g n 0 s = (Inr x, s')"
    and "own_share actor from g n (stack_qty s) = 0"
  shows "drawn actor from g n s s'"
  using assms
  by (auto simp: drawn_def Subtract_ok take_stack_qty draw_def cargo_ok_take goods_total_take
      occupied_take fun_eq_iff)

lemma Subtract_own_drawn:
  assumes "cargo_ok s" "Subtract from g n actor s = (Inr x, s')"
    and "own_share actor from g n (stack_qty s) = n"
  shows "drawn actor from g n s s'"
  using assms
  by (auto simp: drawn_def Subtract_ok take_stack_qty draw_def cargo_ok_take goods_total_take
      occupied_take fun_eq_iff)

lemma Subtract_both_drawn:
  assumes ok: "cargo_ok s" and own: "own_share actor from g n (stack_qty s) = m" "actor \<noteq> 0"
    and first: "Subtract from g m actor s = (Inr x, s1)"
    and second: "Subtract from g (n - m) 0 s1 = (Inr y, s')"
  shows "drawn actor from g n s s'"
proof -
  have s1: "s1 = take_stack (from, g, actor) m s" "cargo_ok s1"
    using ok first by (auto simp: Subtract_ok cargo_ok_take)
  have s': "s' = take_stack (from, g, 0) (n - m) s1" "cargo_ok s'" "\<not> tx_aborted s'"
    using s1 second by (auto simp: Subtract_ok cargo_ok_take)
  have q: "stack_qty s' = draw actor from g n (stack_qty s)"
    using own s1 s' by (auto simp: take_stack_qty draw_def fun_eq_iff)
  have fr: "only_cargo s s'"
    unfolding s' s1 by (rule only_cargo_trans) (rule only_cargo_take)+
  show ?thesis using q fr s' s1 ok
    by (auto simp: drawn_def goods_total_take occupied_take left_diff_distrib)
qed

lemma subtractFromSource_drawn:
  assumes ok: "cargo_ok s" and n: "0 < n"
    and run: "subtractFromSource actor from g n s = (Inr x, s')"
  shows "drawn actor from g n s s'"
proof (cases "\<not> isStationLike (ref_kind from) \<or> actor = 0")
  case True
  with run have "Subtract from g n 0 s = (Inr x, s')" by (auto simp: subtractFromSource_def run_simps)
  moreover have "own_share actor from g n (stack_qty s) = 0" using True by (auto simp: own_share_def)
  ultimately show ?thesis using ok by (rule_tac Subtract_drawn)
next
  case False
  let ?own = "stack_qty s (from, g, actor)" and ?free = "stack_qty s (from, g, 0)"
  have nn: "0 \<le> ?own" "0 \<le> ?free" "in64 ?own" "in64 ?free"
    using ok by (auto simp: stack_qty_nonneg stack_qty_in64)
  have os: "own_share actor from g n (stack_qty s) = min n ?own" using False by (simp add: own_share_def)
  from run False have enough: "n \<le> wrap64 (?own + ?free)"
    by (auto simp: subtractFromSource_def run_simps Let_def split: if_splits)
  with nn n have enough': "n \<le> ?own + ?free" using wrap64_sum_ge by fastforce
  from run False obtain s1 u where
    first: "(if 0 < min n ?own then Subtract from g (min n ?own) actor else returnM ()) s = (Inr u, s1)" and
    second: "(if 0 < wrap64 (n - min n ?own) then Subtract from g (wrap64 (n - min n ?own)) 0 else returnM ()) s1 = (Inr x, s')"
    unfolding subtractFromSource_def Let_def min_if by (auto simp: run_simps split: if_splits)
  have w: "wrap64 (n - min n ?own) = n - min n ?own"
    using n nn enough' by (intro wrap64_id) (auto simp: in64_def min_def)
  consider "?own = 0" | "0 < ?own" "n \<le> ?own" | "0 < ?own" "?own < n" using nn by linarith
  then show ?thesis
  proof cases
    case 1
    with first second w n ok os show ?thesis
      by (auto simp: returnM_run intro: Subtract_drawn)
  next
    case 2
    with first second w n ok os show ?thesis
      by (auto simp: returnM_run intro: Subtract_own_drawn)
  next
    case 3
    with first second w n ok os False show ?thesis
      by (auto intro: Subtract_both_drawn)
  qed
qed

section \<open>The transfer as a whole\<close>

lemma moveIn_ok:
  assumes "moveIn actor from to g n s = (Inr x, s')"
  shows "\<exists>s1 gt cap used. map_of (goods_types s) g = Some gt \<and> cargobay to s = Some cap \<and>
     usedSpaceSQL (goods_types s) to (cargo s) (Fin 0) = Inr used \<and>
     \<not> f_lt cap (f_add used (f_mul (f_of_int n) (gt_space gt))) \<and>
     subtractFromSource actor from g n s = (Inr (), s1) \<and>
     Add to g n (if isStationLike (ref_kind to) then actor else 0) s1 = (Inr (), s')"
  using assms by (auto simp: moveIn_def run_simps)

text \<open>Everything a successful transfer says of the stacks, in one place.\<close>

lemma moveIn_effect:
  assumes ok: "cargo_ok s" and n: "0 < n" and run: "moveIn actor from to g n s = (Inr x, s')"
  shows "stack_qty s' = deposit actor to g n (draw actor from g n (stack_qty s))"
    and "only_cargo s s'" and "cargo_ok s'"
    and "goods_total g' s' = goods_total g' s"
    and "occupied ownr s' = occupied ownr s
       - (if from = ownr then n * goods_space (goods_types s) g else 0)
       + (if to = ownr then n * goods_space (goods_types s) g else 0)"
proof -
  let ?k = "(to, g, if isStationLike (ref_kind to) then actor else 0)"
  obtain s1 where sub: "subtractFromSource actor from g n s = (Inr (), s1)"
    and add: "Add to g n (snd (snd ?k)) s1 = (Inr (), s')"
    using moveIn_ok [OF run] by auto
  note d = subtractFromSource_drawn [OF ok n sub, unfolded drawn_def]
  from d have gts: "goods_types s1 = goods_types s" by (auto simp: only_cargo_def)
  from add have s': "s' = s1\<lparr>cargo := AList.update ?k (stack_qty s1 ?k + n) (cargo s1)\<rparr>"
    and fit: "0 \<le> n" "in64 (stack_qty s1 ?k + n)" by (auto simp: Add_ok)
  show "stack_qty s' = deposit actor to g n (draw actor from g n (stack_qty s))"
    using d unfolding s' update_qty by (simp add: deposit_def Let_def)
  show "only_cargo s s'" using d s' by (auto intro: only_cargo_trans)
  show "cargo_ok s'" using d fit stack_qty_nonneg [of s1 ?k] unfolding s' by (intro cargo_ok_update) auto
  show "goods_total g' s' = goods_total g' s" using d unfolding s' goods_total_update by auto
  show "occupied ownr s' = occupied ownr s
       - (if from = ownr then n * goods_space (goods_types s) g else 0)
       + (if to = ownr then n * goods_space (goods_types s) g else 0)"
    using d gts unfolding s' occupied_update by simp
qed

text \<open>The capacity test of the code, read exactly on whole-number spaces.\<close>

lemma capacity_test:
  assumes "cargo_ok s" "whole_spaces (goods_types s)" "map_of (goods_types s) g = Some gt"
    and "usedSpaceSQL (goods_types s) to (cargo s) (Fin 0) = Inr used"
    and "\<not> f_lt (Fin c) (f_add used (f_mul (f_of_int n) (gt_space gt)))"
    and "0 < n" "occupied to s + n * goods_space (goods_types s) g \<le> 2 ^ 53"
  shows "of_int (occupied to s + n * goods_space (goods_types s) g) \<le> c"
proof -
  let ?sp = "goods_space (goods_types s) g"
  have nn: "0 \<le> n * ?sp" using goods_space_nonneg [OF assms(2)] assms(6) by simp
  then have occ: "occupied to s \<le> 2 ^ 53" using assms(7) by linarith
  have used: "used = Fin (of_int (occupied to s))"
    using UsedSpace_exact [OF assms(1,2) occ] assms(4) by simp
  have "0 \<le> occupied to s" unfolding occupied_def
    using assms(1,2) by (intro tsum_nonneg stack_space_nonneg) (auto simp: cargo_ok_def all_rows_def)
  then have "f_add used (f_mul (f_of_int n) (gt_space gt)) = Fin (of_int (occupied to s + n * ?sp))"
    using usedSpace_step [OF assms(2,3) _ _ assms(7)] assms(6) used by simp
  with assms(5) show ?thesis by simp
qed

lemma moveIn_capacity:
  assumes "cargo_ok s" "whole_spaces (goods_types s)" "0 < n" "from \<noteq> to"
    and "moveIn actor from to g n s = (Inr x, s')" and "cargobay to s = Some (Fin c)"
    and "occupied to s' \<le> 2 ^ 53"
  shows "of_int (occupied to s') \<le> c"
proof -
  from moveIn_ok [OF assms(5)] assms(6) obtain gt used where
    "map_of (goods_types s) g = Some gt" "usedSpaceSQL (goods_types s) to (cargo s) (Fin 0) = Inr used"
    "\<not> f_lt (Fin c) (f_add used (f_mul (f_of_int n) (gt_space gt)))" by auto
  moreover have "occupied to s' = occupied to s + n * goods_space (goods_types s) g"
    using moveIn_effect(5) [OF assms(1,3,5), of to] assms(4) by simp
  ultimately show ?thesis using capacity_test [OF assms(1,2) _ _ _ assms(3)] assms(7) by metis
qed

lemma authorizeDocked_ok:
  "cargo_authorizeDocked actor ship st s = (Inr x, s') \<longleftrightarrow> \<not> tx_aborted s \<and> s' = s \<and>
     (\<exists>r. map_of (ships s) ship = Some r \<and> sh_player r = actor \<and> docked_ref r = Some st)"
  by (auto simp: cargo_authorizeDocked_def run_simps)

definition ship_station_pair :: "entity_ref \<Rightarrow> entity_ref \<Rightarrow> int \<Rightarrow> entity_ref \<Rightarrow> bool" where
  "ship_station_pair from to ship st \<longleftrightarrow> isTransferStation (ref_kind st) \<and>
     (from = EntityRef EntityKindShip ship \<and> to = st \<or> to = EntityRef EntityKindShip ship \<and> from = st)"

lemma transferEnds_ok [run_simps]:
  "transferEnds from to s = (Inr (ship, st), s') \<longleftrightarrow> s' = s \<and> ship_station_pair from to ship st"
  by (cases "from"; cases "to")
    (auto simp: transferEnds_def ship_station_pair_def isTransferStation_def run_simps)

lemma MoveByPlayer_ok:
  "MoveByPlayer actor from to g n s = (Inr x, s') \<longleftrightarrow> 0 < n \<and> from \<noteq> to \<and> \<not> tx_aborted s \<and>
     (\<exists>ship st r. ship_station_pair from to ship st \<and> map_of (ships s) ship = Some r \<and>
        sh_player r = actor \<and> docked_ref r = Some st) \<and>
     moveIn actor from to g n s = (Inr x, s') \<and> \<not> tx_aborted s'"
  by (auto simp: MoveByPlayer_def run_simps authorizeDocked_ok split: prod.splits)

text \<open>What \<open>actor\<close> may take out of a hold.\<close>

definition takeable :: "int \<Rightarrow> entity_ref \<Rightarrow> int \<Rightarrow> db \<Rightarrow> int" where
  "takeable actor from g s =
     (if isStationLike (ref_kind from) \<and> actor \<noteq> 0
      then stack_qty s (from, g, actor) + stack_qty s (from, g, 0)
      else stack_qty s (from, g, 0))"

lemma Subtract_succeeds:
  assumes "cargo_ok s" "\<not> tx_aborted s" "0 < m" "m \<le> stack_qty s (o', g, d)"
  shows "Subtract o' g m d s = (Inr (), take_stack (o', g, d) m s)"
  using assms stack_qty_in64 [OF assms(1), of "(o', g, d)"]
  by (auto simp: Subtract_ok in64_def stack_qty_def split: option.splits)

lemma subtractFromSource_iff:
  assumes ok: "cargo_ok s" and live: "\<not> tx_aborted s" and n: "0 < n" and fit: "in64 (takeable actor from g s)"
  shows "(\<exists>s'. subtractFromSource actor from g n s = (Inr (), s')) \<longleftrightarrow> n \<le> takeable actor from g s"
proof (cases "isStationLike (ref_kind from) \<and> actor \<noteq> 0")
  case False
  then show ?thesis
    using Subtract_succeeds [OF ok live n, of "from" g 0]
    by (auto simp: subtractFromSource_def takeable_def run_simps Subtract_ok)
next
  case True
  let ?own = "stack_qty s (from, g, actor)" and ?free = "stack_qty s (from, g, 0)"
  have nn: "0 \<le> ?own" "0 \<le> ?free" using ok by (auto simp: stack_qty_nonneg)
  have w: "wrap64 (?own + ?free) = ?own + ?free" using fit True by (intro wrap64_id) (simp add: takeable_def)
  show ?thesis
  proof
    assume "\<exists>s'. subtractFromSource actor from g n s = (Inr (), s')"
    then show "n \<le> takeable actor from g s"
      using True by (auto simp: subtractFromSource_def takeable_def run_simps w Let_def split: if_splits)
  next
    assume le: "n \<le> takeable actor from g s"
    define m where "m = min n ?own"
    have w2: "wrap64 (n - m) = n - m"
      using le fit True n nn by (intro wrap64_id) (auto simp: in64_def takeable_def m_def min_def)
    define s1 where "s1 = (if 0 < m then take_stack (from, g, actor) m s else s)"
    have first: "(if 0 < m then Subtract from g m actor else returnM ()) s = (Inr (), s1)"
      using Subtract_succeeds [OF ok live, of m "from" g actor] by (auto simp: s1_def m_def returnM_def)
    have ok1: "cargo_ok s1" "\<not> tx_aborted s1" "stack_qty s1 (from, g, 0) = ?free"
      using ok live True stack_qty_in64 [OF ok, of "(from, g, actor)"]
      by (auto simp: s1_def take_stack_qty in64_def m_def intro!: cargo_ok_take)
    have "\<exists>s'. (if 0 < n - m then Subtract from g (n - m) 0 else returnM ()) s1 = (Inr (), s')"
      using Subtract_succeeds [OF ok1(1,2), of "n - m" "from" g 0] ok1(3) le True nn
      by (auto simp: returnM_def takeable_def m_def min_def)
    then show "\<exists>s'. subtractFromSource actor from g n s = (Inr (), s')"
      using True le w w2 first live unfolding subtractFromSource_def Let_def min_if
      by (auto simp: takeable_def run_simps simp flip: m_def split: if_splits)
  qed
qed

section \<open>Properties\<close>

text \<open>
  C4: a transfer takes the goods from the actor's own deposit first, then from the unowned pool,
  puts exactly as many under the destination's depositor, changes nothing but the cargo table,
  and conserves the total of every goods type.
\<close>

theorem move_conserves_goods:
  assumes "cargo_ok s" and "Move actor from to g n s = (Inr (), s')"
  shows "stack_qty s' = deposit actor to g n (draw actor from g n (stack_qty s)) \<and>
    only_cargo s s' \<and> cargo_ok s' \<and> (\<forall>g'. goods_total g' s' = goods_total g' s)"
proof -
  from assms(2) have n: "0 < n" and run: "moveIn actor from to g n s = (Inr (), s')"
    by (auto simp: Move_def run_simps)
  show ?thesis using moveIn_effect [OF assms(1) n run] by simp
qed

theorem move_conserves_goods_witness:
  "stack_qty (snd (Move 1 (EntityRef 1 10) (EntityRef 2 20) 2 5 sample_db)) (EntityRef 2 20, 2, 1) = 8"
proof -
  let ?m = "Move 1 (EntityRef 1 10) (EntityRef 2 20) 2 5"
  have "cargo_ok sample_db" and "fst (?m sample_db) = Inr ()" by code_simp+
  from move_conserves_goods [OF this(1) run_state [OF this(2)]]
  have "stack_qty (snd (?m sample_db)) (EntityRef 2 20, 2, 1) =
      deposit 1 (EntityRef 2 20) 2 5 (draw 1 (EntityRef 1 10) 2 5 (stack_qty sample_db)) (EntityRef 2 20, 2, 1)"
    by simp
  also have "\<dots> = 8" by code_simp
  finally show ?thesis .
qed

text \<open>
  C5: a player's transfer only happens between a ship of that player and the station this ship
  is docked to, and no stack deposited by another player changes anywhere.
\<close>

theorem player_move_authorized:
  assumes "cargo_ok s" and "MoveByPlayer actor from to g n s = (Inr (), s')"
  shows "(\<exists>ship st r. ship_station_pair from to ship st \<and> map_of (ships s) ship = Some r \<and>
        sh_player r = actor \<and> docked_ref r = Some st) \<and>
    (\<forall>o' g' d. d \<noteq> 0 \<longrightarrow> d \<noteq> actor \<longrightarrow> stack_qty s' (o', g', d) = stack_qty s (o', g', d))"
proof -
  from assms(2) have n: "0 < n" and run: "moveIn actor from to g n s = (Inr (), s')"
    by (auto simp: MoveByPlayer_ok)
  show ?thesis using assms(2) moveIn_effect(1) [OF assms(1) n run]
    by (auto simp: MoveByPlayer_ok deposit_def draw_def Let_def)
qed

theorem player_move_authorized_witness:
  "stack_qty (snd (MoveByPlayer 1 (EntityRef 2 20) (EntityRef 1 10) 2 7 sample_db)) (EntityRef 2 20, 2, 2) = 4"
proof -
  let ?p = "MoveByPlayer 1 (EntityRef 2 20) (EntityRef 1 10) 2 7 sample_db"
  have "cargo_ok sample_db" and "fst ?p = Inr ()" and d: "stack_qty sample_db (EntityRef 2 20, 2, 2) = 4"
    by code_simp+
  from player_move_authorized [OF this(1) run_state [OF this(2)]]
  have "\<forall>o' g' d. d \<noteq> 0 \<longrightarrow> d \<noteq> 1 \<longrightarrow> stack_qty (snd ?p) (o', g', d) = stack_qty sample_db (o', g', d)" by simp
  with d show ?thesis by simp
qed



lemma available_parts:
  assumes "cargo_ok s" and "AvailableIn ownr g s = (Inr a, s0)" and "0 < n"
  shows "(\<exists>s'. ConsumeIn ownr g n s = (Inr (), s')) \<longleftrightarrow> n \<le> a"
    and "ConsumeIn ownr g n s = (Inr (), s1) \<Longrightarrow> RefundIn ownr g n s1 = (Inr (), s2) \<Longrightarrow>
      stack_qty s2 = stack_qty s"
proof -
  from assms(2) have a: "a = stack_qty s (ownr, g, 0)" "\<not> tx_aborted s" "map_of (goods_types s) g \<noteq> None"
    by (auto simp: AvailableIn_def run_simps)
  show "(\<exists>s'. ConsumeIn ownr g n s = (Inr (), s')) \<longleftrightarrow> n \<le> a"
    using a assms(3) Subtract_succeeds [OF assms(1) a(2) assms(3), of ownr g 0]
    by (auto simp: ConsumeIn_def run_simps Subtract_ok)
  assume "ConsumeIn ownr g n s = (Inr (), s1)" "RefundIn ownr g n s1 = (Inr (), s2)"
  then have "Subtract ownr g n 0 s = (Inr (), s1)" "Add ownr g n 0 s1 = (Inr (), s2)"
    by (auto simp: ConsumeIn_def RefundIn_def run_simps)
  then show "stack_qty s2 = stack_qty s"
    using stacks.sub_held [of "(ownr, g, 0)" n s] stacks.add_held [of "(ownr, g, 0)" n s1] by auto
qed

text \<open>
  what \<open>AvailableIn\<close> reports is exactly what \<open>ConsumeIn\<close> can take, and a refund of the same
  quantity restores every stack.
\<close>

theorem available_is_consumable:
  assumes "cargo_ok s" and "AvailableIn ownr g s = (Inr a, s0)" and "0 < n"
  shows "((\<exists>s'. ConsumeIn ownr g n s = (Inr (), s')) \<longleftrightarrow> n \<le> a) \<and>
    (\<forall>s1 s2. ConsumeIn ownr g n s = (Inr (), s1) \<longrightarrow> RefundIn ownr g n s1 = (Inr (), s2) \<longrightarrow> stack_qty s2 = stack_qty s)"
  using available_parts [OF assms] by blast

theorem available_is_consumable_witness:
  "(\<exists>s'. ConsumeIn (EntityRef 1 10) 2 8 sample_db = (Inr (), s')) \<and>
   \<not> (\<exists>s'. ConsumeIn (EntityRef 1 10) 2 9 sample_db = (Inr (), s'))"
proof -
  have "cargo_ok sample_db" and "fst (AvailableIn (EntityRef 1 10) 2 sample_db) = Inr 8" by code_simp+
  note a = available_is_consumable [OF this(1) run_state [OF this(2)]]
  show ?thesis using a [of 8] a [of 9] by simp
qed

text \<open>
  A transfer that names two holds and a positive quantity succeeds exactly when the goods
  exist, the destination has a cargobay whose test passes, and the source holds enough that the
  actor may take; the only other refusal is a destination stack that would leave \<open>bigint\<close>.
\<close>

theorem move_succeeds_iff:
  assumes "cargo_ok s" "\<not> tx_aborted s" "in64 (takeable actor from g s)" "0 < n" "from \<noteq> to"
    and "in64 (stack_qty s (to, g, if isStationLike (ref_kind to) then actor else 0) + n)"
  shows "(\<exists>s'. Move actor from to g n s = (Inr (), s')) \<longleftrightarrow>
    (\<exists>gt cap used. map_of (goods_types s) g = Some gt \<and> cargobay to s = Some cap \<and>
       usedSpaceSQL (goods_types s) to (cargo s) (Fin 0) = Inr used \<and>
       \<not> f_lt cap (f_add used (f_mul (f_of_int n) (gt_space gt)))) \<and>
    n \<le> takeable actor from g s" (is "?L \<longleftrightarrow> ?R")
proof
  assume ?L
  then obtain s' where "moveIn actor from to g n s = (Inr (), s')" by (auto simp: Move_def run_simps)
  with moveIn_ok [OF this] subtractFromSource_iff [OF assms(1,2,4,3)] show ?R by blast
next
  let ?d = "if isStationLike (ref_kind to) then actor else 0"
  assume r: ?R
  then obtain s1 where sub: "subtractFromSource actor from g n s = (Inr (), s1)"
    using subtractFromSource_iff [OF assms(1,2,4,3)] by blast
  note d = subtractFromSource_drawn [OF assms(1,4) sub, unfolded drawn_def]
  have "stack_qty s1 (to, g, ?d) = stack_qty s (to, g, ?d)" using d assms(5) by (simp add: draw_def)
  moreover have "goods_types s1 = goods_types s" using d by (auto simp: only_cargo_def)
  ultimately obtain s' where "Add to g n ?d s1 = (Inr (), s')" "\<not> tx_aborted s'"
    using d r assms(4,6) by (auto simp: Add_ok)
  with r sub assms(2,4,5) show ?L by (auto simp: Move_def moveIn_def run_simps)
qed

theorem move_succeeds_iff_witness:
  "\<not> (\<exists>s'. Move 1 (EntityRef 2 20) (EntityRef 1 10) 2 10 sample_db = (Inr (), s'))"
proof -
  have "cargo_ok sample_db" "\<not> tx_aborted sample_db" "in64 (takeable 1 (EntityRef 2 20) 2 sample_db)"
    "in64 (stack_qty sample_db (EntityRef 1 10, 2, if isStationLike (ref_kind (EntityRef 1 10)) then 1 else 0) + 10)"
    and nine: "takeable 1 (EntityRef 2 20) 2 sample_db = 9" by code_simp+
  from move_succeeds_iff [OF this(1-3) _ _ this(4)] nine show ?thesis by simp
qed

text \<open>
  \<open>FitsIn\<close> computes, in floating point, the exact number of whole units that still fit,
  clipped to \<open>[0, limit]\<close>.
\<close>

theorem fits_in_exact:
  assumes "cargo_ok s" "\<not> tx_aborted s" "whole_spaces (goods_types s)" "map_of (goods_types s) g = Some gt"
    and "goods_space (goods_types s) g \<le> 2 ^ 53"
    and "cargobay ownr s = Some (Fin (of_int c))" "0 \<le> c" "c < 2 ^ 53" "occupied ownr s \<le> 2 ^ 53" "0 \<le> limit"
  shows "FitsIn ownr g limit s =
    (Inr (min limit (max 0 ((c - occupied ownr s) div goods_space (goods_types s) g))), s)"
proof -
  let ?m = "goods_space (goods_types s) g" and ?u = "occupied ownr s"
  have sp: "gt_space gt = Fin (of_int ?m)" "1 \<le> ?m" using whole_spacesD [OF assms(3,4)] by auto
  have used: "usedSpaceSQL (goods_types s) ownr (cargo s) (Fin 0) = Inr (Fin (of_int ?u))"
    by (rule UsedSpace_exact [OF assms(1,3,9)])
  have u: "0 \<le> ?u" unfolding occupied_def
    using assms(1,3) by (intro tsum_nonneg stack_space_nonneg) (auto simp: cargo_ok_def all_rows_def)
  have sub: "f_sub (Fin (of_int c)) (Fin (of_int ?u)) = Fin (of_int (c - ?u))"
    using u assms by (intro f_sub_exact) auto
  define fits where "fits = f_to_int64 (f_div (Fin (of_int (c - ?u))) (gt_space gt))"
  have fits: "max 0 fits = max 0 ((c - ?u) div ?m)"
  proof (cases "0 \<le> c - ?u")
    case True
    then show ?thesis unfolding fits_def sp using u assms sp by (subst f_div_floor) auto
  next
    case False
    then have "f_div (Fin (of_int (c - ?u))) (gt_space gt) = mk_float (of_int (c - ?u) / of_int ?m)"
      using sp by simp
    moreover have "(of_int (c - ?u) / of_int ?m :: rat) \<le> 0"
      using False sp by (simp add: divide_nonpos_pos)
    ultimately have "fits \<le> 0" unfolding fits_def by (simp add: f_to_int64_nonpos)
    moreover have "(c - ?u) div ?m < 0" using False sp by (simp add: pos_imp_zdiv_neg_iff)
    ultimately show ?thesis by simp
  qed
  have "FitsIn ownr g limit s = (Inr (if fits < 0 then 0 else if limit < fits then limit else fits), s)"
  proof -
    have "mapErr goodsErr (GoodsType g) s = (Inr gt, s)"
      "mapErr capacityErr (Capacity ownr) s = (Inr (Fin (of_int c)), s)"
      "UsedSpace ownr s = (Inr (Fin (of_int ?u)), s)"
      using assms(2,4,6) used by (simp_all add: run_simps)
    then show ?thesis
      using sp unfolding FitsIn_def fits_def by (simp add: bindM_def returnM_def Let_def sub del: of_int_diff)
  qed
  then show ?thesis using fits assms(10) by (auto simp: min_def max_def split: if_splits)
qed

theorem fits_in_exact_witness: "FitsIn (EntityRef 1 10) 2 100 sample_db = (Inr 42, sample_db)"
proof -
  have "cargo_ok sample_db" "\<not> tx_aborted sample_db" "whole_spaces (goods_types sample_db)"
    "map_of (goods_types sample_db) 2 = Some \<lparr>gt_name = ''Iron'', gt_space = Fin 2\<rparr>"
    "goods_space (goods_types sample_db) 2 \<le> 2 ^ 53"
    "cargobay (EntityRef 1 10) sample_db = Some (Fin (of_int 100))"
    "occupied (EntityRef 1 10) sample_db \<le> 2 ^ 53"
    and v: "(100 - occupied (EntityRef 1 10) sample_db) div goods_space (goods_types sample_db) 2 = 42"
    by code_simp+
  from fits_in_exact [OF this(1-6) _ _ this(7), of 100] v show ?thesis by simp
qed

end
