(* ===== verification/TradeRepo.thy ===== *)
theory TradeRepo
  imports CargoRepo
begin

text \<open>
  \<open>internal/persistence/trade/repo.go\<close>: station market rows (\<open>station_goods\<close>) and the docking
  view of a ship. Market stock obeys the same \<open>stock_ledger\<close> contract as cargo stacks.
\<close>

section \<open>Operations\<close>

record market_entry =
  me_owner :: entity_ref
  me_goods :: int
  me_buy :: "int option"
  me_sell :: "int option"
  me_stock :: int
  me_max :: int

definition entry_of :: "entity_ref \<Rightarrow> int \<Rightarrow> market_row \<Rightarrow> market_entry" where
  "entry_of ownr g r = \<lparr>me_owner = ownr, me_goods = g, me_buy = mk_buy r, me_sell = mk_sell r,
     me_stock = mk_stock r, me_max = mk_max r\<rparr>"

record trade_dock =
  td_player :: int
  td_sector :: int
  td_docked :: "entity_ref option"

definition isStationKind :: "int \<Rightarrow> bool" where
  "isStationKind k \<longleftrightarrow> k = EntityKindStation \<or> k = EntityKindTradeStation \<or> k = EntityKindPirbase"

definition LoadShipDock :: "int \<Rightarrow> trade_dock dbm" where
  "LoadShipDock shipID = bindM (query (\<lambda>s. map_of (ships s) shipID)) (\<lambda>row. case row of
       None \<Rightarrow> failM (ETradeRepo TR_ErrShipNotFound)
     | Some r \<Rightarrow> returnM \<lparr>td_player = sh_player r, td_sector = sh_sector r, td_docked = docked_ref r\<rparr>)"

text \<open>The rows of one owner, ordered by goods type.\<close>

definition market_rows :: "entity_ref \<Rightarrow> db \<Rightarrow> market_entry list" where
  "market_rows ownr s = sort_key me_goods
     (map (\<lambda>((o', g), r). entry_of o' g r) (filter (\<lambda>((o', g), r). o' = ownr) (station_goods s)))"

definition ListMarket :: "entity_ref \<Rightarrow> market_entry list dbm" where
  "ListMarket ownr =
     (if \<not> isStationKind (ref_kind ownr) then failM (ETradeRepo TR_ErrUnsupportedStationKind)
      else query (market_rows ownr))"

text \<open>
  The batch read: rows of the owners given, ordered by owner kind, owner id and goods type
  (stable sorts from the least significant key).
\<close>

definition ListMarketsByOwners :: "entity_ref list \<Rightarrow> market_entry list dbm" where
  "ListMarketsByOwners owners =
     (if owners = [] then returnM []
      else query (\<lambda>s.
        sort_key (\<lambda>e. ref_kind (me_owner e)) (sort_key (\<lambda>e. ref_id (me_owner e)) (sort_key me_goods
          (map (\<lambda>((o', g), r). entry_of o' g r)
            (filter (\<lambda>((o', g), r). o' \<in> set owners) (station_goods s)))))))"

fun ref_maxes :: "(market_key, market_row) table \<Rightarrow> (int, int) table \<Rightarrow> (int, int) table" where
  "ref_maxes [] acc = acc"
| "ref_maxes (((ownr, g), r) # t) acc =
     ref_maxes t (if ref_kind ownr = EntityKindStation
       then AList.update g (case map_of acc g of None \<Rightarrow> mk_max r | Some m \<Rightarrow> max m (mk_max r)) acc
       else acc)"

definition ProductionRefMaxes :: "(int, int) table dbm" where
  "ProductionRefMaxes = query (\<lambda>s. ref_maxes (station_goods s) [])"

definition GetMarketEntry :: "entity_ref \<Rightarrow> int \<Rightarrow> market_entry dbm" where
  "GetMarketEntry ownr gtype =
     (if \<not> isStationKind (ref_kind ownr) then failM (ETradeRepo TR_ErrUnsupportedStationKind)
      else bindM (query (\<lambda>s. map_of (station_goods s) (ownr, gtype))) (\<lambda>row. case row of
          None \<Rightarrow> failM (ETradeRepo TR_ErrMarketEntryNotFound)
        | Some r \<Rightarrow> returnM (entry_of ownr gtype r)))"

definition put_stock :: "market_key \<Rightarrow> int \<Rightarrow> db \<Rightarrow> db" where
  "put_stock k n s = (case map_of (station_goods s) k of
       None \<Rightarrow> s
     | Some r \<Rightarrow> s\<lparr>station_goods := AList.update k (r\<lparr>mk_stock := n\<rparr>) (station_goods s)\<rparr>)"

definition adjustStockSQL :: "market_key \<Rightarrow> int \<Rightarrow> db \<Rightarrow> pg_error + (int option \<times> db)" where
  "adjustStockSQL k delta s = (case map_of (station_goods s) k of
       None \<Rightarrow> Inr (None, s)
     | Some r \<Rightarrow> pg_bigint (mk_stock r + delta) (\<lambda>n.
         if 0 \<le> n \<and> n \<le> mk_max r then Inr (Some n, put_stock k n s) else Inr (None, s)))"

definition AdjustStock :: "entity_ref \<Rightarrow> int \<Rightarrow> int \<Rightarrow> int dbm" where
  "AdjustStock ownr gtype delta =
     (if \<not> isStationKind (ref_kind ownr) then failM (ETradeRepo TR_ErrUnsupportedStationKind)
      else bindM (sql (adjustStockSQL (ownr, gtype) delta)) (\<lambda>res. case res of
          Some n \<Rightarrow> returnM n
        | None \<Rightarrow> bindM (query (\<lambda>s. map_of (station_goods s) (ownr, gtype))) (\<lambda>row. case row of
            None \<Rightarrow> failM (ETradeRepo TR_ErrMarketEntryNotFound)
          | Some r \<Rightarrow>
              if wrap64 (mk_stock r + delta) < 0 then failM (ETradeRepo TR_ErrInsufficientStock)
              else if mk_max r < wrap64 (mk_stock r + delta) then failM (ETradeRepo TR_ErrStockOverflow)
              else failM (ETradeRepo TR_ErrUnexpectedNoRows))))"

section \<open>Market stock as a ledger\<close>

definition stock_of :: "db \<Rightarrow> market_key \<Rightarrow> int" where
  "stock_of s k = (case map_of (station_goods s) k of None \<Rightarrow> 0 | Some r \<Rightarrow> mk_stock r)"

definition stock_total :: "int \<Rightarrow> db \<Rightarrow> int" where
  "stock_total g s = tsum (\<lambda>(o', g') r. if g' = g then mk_stock r else 0) (station_goods s)"

text \<open>The table constraints of migration 0007.\<close>

definition price_ok :: "int option \<Rightarrow> bool" where
  "price_ok p = (case p of None \<Rightarrow> True | Some x \<Rightarrow> 0 < x \<and> in64 x)"

definition market_row_ok :: "market_row \<Rightarrow> bool" where
  "market_row_ok r \<longleftrightarrow> 0 \<le> mk_stock r \<and> mk_stock r \<le> mk_max r \<and> 0 < mk_max r \<and> in64 (mk_max r) \<and>
     price_ok (mk_buy r) \<and> price_ok (mk_sell r) \<and> (mk_buy r \<noteq> None \<or> mk_sell r \<noteq> None)"

definition market_ok :: "db \<Rightarrow> bool" where
  "market_ok s \<longleftrightarrow> tbl_wf (station_goods s) \<and> all_rows (\<lambda>_. market_row_ok) (station_goods s)"

lemma market_ok_abort [simp]: "market_ok (s\<lparr>tx_aborted := b\<rparr>) = market_ok s"
  by (simp add: market_ok_def)

lemma GetMarketEntry_ok [run_simps]:
  "GetMarketEntry ownr g s = (Inr e, s') \<longleftrightarrow> isStationKind (ref_kind ownr) \<and> \<not> tx_aborted s \<and> s' = s \<and>
     (\<exists>r. map_of (station_goods s) (ownr, g) = Some r \<and> e = entry_of ownr g r)"
  by (auto simp: GetMarketEntry_def run_simps split: option.splits if_splits)

lemma LoadShipDock_ok [run_simps]:
  "LoadShipDock i s = (Inr d, s') \<longleftrightarrow> \<not> tx_aborted s \<and> s' = s \<and>
     (\<exists>r. map_of (ships s) i = Some r \<and>
        d = \<lparr>td_player = sh_player r, td_sector = sh_sector r, td_docked = docked_ref r\<rparr>)"
  by (auto simp: LoadShipDock_def run_simps split: option.splits)

lemma AdjustStock_ok:
  "AdjustStock ownr g d s = (Inr n, s') \<longleftrightarrow> isStationKind (ref_kind ownr) \<and> \<not> tx_aborted s \<and>
     (\<exists>r. map_of (station_goods s) (ownr, g) = Some r \<and> n = mk_stock r + d \<and> in64 n \<and> 0 \<le> n \<and> n \<le> mk_max r \<and>
        s' = put_stock (ownr, g) n s)"
  by (auto simp: AdjustStock_def adjustStockSQL_def run_simps split: option.splits if_splits)

text \<open>Every way it fails; the error of the code's last branch never occurs.\<close>

lemma AdjustStock_err:
  "AdjustStock ownr g d s = (Inl e, s') \<longleftrightarrow>
     (if \<not> isStationKind (ref_kind ownr) then e = ETradeRepo TR_ErrUnsupportedStationKind \<and> s' = s
      else if tx_aborted s then e = EPg InFailedTransaction \<and> s' = s
      else case map_of (station_goods s) (ownr, g) of
        None \<Rightarrow> e = ETradeRepo TR_ErrMarketEntryNotFound \<and> s' = s
      | Some r \<Rightarrow>
          if \<not> in64 (mk_stock r + d) then e = EPg NumericOutOfRange \<and> s' = s\<lparr>tx_aborted := True\<rparr>
          else if mk_stock r + d < 0 then e = ETradeRepo TR_ErrInsufficientStock \<and> s' = s
          else mk_max r < mk_stock r + d \<and> e = ETradeRepo TR_ErrStockOverflow \<and> s' = s)"
  by (auto simp: AdjustStock_def adjustStockSQL_def sql_def bindM_err query_def run_simps
      pg_bigint_def wrap64_id split: option.splits if_splits)

lemma put_stock_simps [simp]:
  "tx_aborted (put_stock k n s) = tx_aborted s"
  "players (put_stock k n s) = players s"
  "ships (put_stock k n s) = ships s"
  "stations (put_stock k n s) = stations s"
  "trade_stations (put_stock k n s) = trade_stations s"
  "goods_types (put_stock k n s) = goods_types s"
  "cargo (put_stock k n s) = cargo s"
  "auction_lots (put_stock k n s) = auction_lots s"
  by (simp_all add: put_stock_def split: option.split)

lemma put_stock_stock:
  "map_of (station_goods s) k = Some r \<Longrightarrow> stock_of (put_stock k n s) = (stock_of s)(k := n)"
  by (auto simp: put_stock_def stock_of_def fun_eq_iff)

lemma put_stock_row:
  "map_of (station_goods (put_stock k n s)) k' =
     (if k' = k then map_option (mk_stock_update (\<lambda>_. n)) (map_of (station_goods s) k)
      else map_of (station_goods s) k')"
  by (auto simp: put_stock_def split: option.split)

lemma stock_total_put:
  "map_of (station_goods s) k = Some r \<Longrightarrow>
     stock_total g (put_stock k n s) = stock_total g s + (if g = snd k then n - mk_stock r else 0)"
  by (cases k) (auto simp: put_stock_def stock_total_def tsum_table)

lemma market_ok_put:
  "market_ok s \<Longrightarrow> map_of (station_goods s) k = Some r \<Longrightarrow> 0 \<le> n \<Longrightarrow> n \<le> mk_max r \<Longrightarrow> market_ok (put_stock k n s)"
  by (auto simp: market_ok_def put_stock_def market_row_ok_def dest: all_rowsD intro!: all_rows_update)

interpretation market: stock_ledger
  "\<lambda>(o', g) n. AdjustStock o' g n" "\<lambda>(o', g) n. AdjustStock o' g (- n)" stock_of snd stock_total market_ok
proof
  fix k :: market_key and n s x s'
  obtain o' g where k: "k = (o', g)" by (cases k)
  have key: "d = n \<or> d = - n \<Longrightarrow> AdjustStock o' g d s = (Inr x, s') \<Longrightarrow>
      stock_of s' = (stock_of s)(k := stock_of s k + d) \<and>
      (\<forall>c. stock_total c s' = stock_total c s + (if c = snd k then d else 0)) \<and>
      0 \<le> stock_of s k + d \<and> (market_ok s \<longrightarrow> market_ok s')" for d
    using k by (auto simp: AdjustStock_ok put_stock_stock stock_total_put market_ok_put stock_of_def)
  { assume "(case k of (o', g) \<Rightarrow> AdjustStock o' g) n s = (Inr x, s')"
    with k key [of n] have f: "stock_of s' = (stock_of s)(k := stock_of s k + n)"
      "\<forall>c. stock_total c s' = stock_total c s + (if c = snd k then n else 0)" "market_ok s \<longrightarrow> market_ok s'"
      by auto
    from f show "stock_of s' = (stock_of s)(k := stock_of s k + n)"
      and "stock_total c s' = stock_total c s + (if c = snd k then n else 0)" for c by auto
    from f show "market_ok s'" if "market_ok s" using that by simp }
  { assume "(case k of (o', g) \<Rightarrow> \<lambda>n. AdjustStock o' g (- n)) n s = (Inr x, s')"
    with k key [of "- n"] have f: "stock_of s' = (stock_of s)(k := stock_of s k - n)"
      "\<forall>c. stock_total c s' = stock_total c s + (if c = snd k then - n else 0)" "0 \<le> stock_of s k - n"
      "market_ok s \<longrightarrow> market_ok s'" by auto
    from f show "stock_of s' = (stock_of s)(k := stock_of s k - n)" and "n \<le> stock_of s k" by auto
    from f show "stock_total c s' = stock_total c s - (if c = snd k then n else 0)" if "market_ok s" for c by auto
    from f show "market_ok s'" if "market_ok s" using that by simp }
qed

interpretation market_inv: db_invariant market_ok
  by unfold_locales simp

lemma keeps_market_AdjustStock: "keeps (\<lambda>s s'. market_ok s \<longrightarrow> market_ok s') (AdjustStock ownr g d)"
  by (rule keepsI, rename_tac s r s', case_tac r)
    (auto simp: AdjustStock_ok AdjustStock_err intro: market_ok_put split: if_splits option.splits)

lemma market_ok_row: "market_ok s \<Longrightarrow> map_of (station_goods s) k = Some r \<Longrightarrow> market_row_ok r"
  by (auto simp: market_ok_def dest: all_rowsD)

text \<open>The reference capacity of a good is the largest shelf any production station has for it.\<close>

lemma ref_maxes_correct:
  "map_of (ref_maxes t acc) g = Some m \<Longrightarrow>
     map_of acc g = Some m \<or> (\<exists>o' r. ((o', g), r) \<in> set t \<and> ref_kind o' = EntityKindStation \<and> mk_max r = m)"
proof (induction t acc rule: ref_maxes.induct)
  case (2 ownr g' r t acc)
  from 2(1) [OF 2(2) [unfolded ref_maxes.simps]] show ?case
    by (auto simp: max_def split: if_splits option.splits)
qed simp

end
