(* ===== verification/Balance.thy ===== *)
theory Balance
  imports Prelude
begin

text \<open>
  \<open>internal/balance/balance.go\<close>: the immutable economy catalogue (goods with their price bands,
  production recipes) and the validation that builds it.
\<close>

section \<open>Data\<close>

record goods =
  g_ID :: int
  g_Name :: string
  g_MinWarRate :: int
  g_MinTradeRate :: int
  g_MinRaceRate :: int
  g_AvgPrice :: int
  g_MaxPrice :: int
  g_ProductionStd :: int
  g_Space :: int
  g_ObjectTypeID :: int

record recipe_line =
  rl_GoodsType :: int
  rl_Quantity :: int
  rl_Max :: int

record recipe =
  rc_StationType :: int
  rc_Inputs :: "recipe_line list"
  rc_Outputs :: "recipe_line list"
  rc_CycleTime :: int

record balance =
  goodsByID :: "(int, goods) table"
  goodsList :: "goods list"
  recipeByKey :: "(int, recipe) table"
  recipeList :: "recipe list"

datatype balance_err =
    ErrInvalidGoodsID int | ErrEmptyGoodsName int | ErrNegativeGoodsField int | ErrDuplicateGoodsID int
  | ErrInvalidRecipeCycle int | ErrEmptyRecipeOutputs int | ErrDuplicateRecipe int
  | ErrUnknownRecipeGoods int | ErrInvalidRecipeQuantity int | ErrInvalidRecipeMax int

section \<open>Construction\<close>

fun indexGoods :: "goods list \<Rightarrow> (int, goods) table \<Rightarrow> balance_err + (int, goods) table" where
  "indexGoods [] byID = Inr byID"
| "indexGoods (g # gs) byID =
     (if g_ID g \<le> 0 then Inl (ErrInvalidGoodsID (g_ID g))
      else if g_Name g = [] then Inl (ErrEmptyGoodsName (g_ID g))
      else if g_Space g < 0 \<or> g_AvgPrice g < 0 \<or> g_MaxPrice g < 0 then Inl (ErrNegativeGoodsField (g_ID g))
      else if map_of byID (g_ID g) \<noteq> None then Inl (ErrDuplicateGoodsID (g_ID g))
      else indexGoods gs (AList.update (g_ID g) g byID))"

text \<open>\<open>None\<close> is Go's nil error.\<close>

fun validateRecipeLines :: "(int, goods) table \<Rightarrow> recipe_line list \<Rightarrow> balance_err option" where
  "validateRecipeLines byID [] = None"
| "validateRecipeLines byID (l # ls) =
     (if map_of byID (rl_GoodsType l) = None then Some (ErrUnknownRecipeGoods (rl_GoodsType l))
      else if rl_Quantity l \<le> 0 then Some (ErrInvalidRecipeQuantity (rl_GoodsType l))
      else if rl_Max l < 0 then Some (ErrInvalidRecipeMax (rl_GoodsType l))
      else validateRecipeLines byID ls)"

fun indexRecipes :: "(int, goods) table \<Rightarrow> recipe list \<Rightarrow> (int, recipe) table \<Rightarrow> balance_err + (int, recipe) table" where
  "indexRecipes byID [] byKey = Inr byKey"
| "indexRecipes byID (r # rs) byKey =
     (if rc_CycleTime r \<le> 0 then Inl (ErrInvalidRecipeCycle (rc_StationType r))
      else if rc_Outputs r = [] then Inl (ErrEmptyRecipeOutputs (rc_StationType r))
      else (case validateRecipeLines byID (rc_Inputs r) of
          Some e \<Rightarrow> Inl e
        | None \<Rightarrow> (case validateRecipeLines byID (rc_Outputs r) of
            Some e \<Rightarrow> Inl e
          | None \<Rightarrow>
              if map_of byKey (rc_StationType r) \<noteq> None then Inl (ErrDuplicateRecipe (rc_StationType r))
              else indexRecipes byID rs (AList.update (rc_StationType r) r byKey))))"

definition balance_New :: "goods list \<Rightarrow> recipe list \<Rightarrow> balance_err + balance" where
  "balance_New gs rs = (case indexGoods gs [] of
       Inl e \<Rightarrow> Inl e
     | Inr byID \<Rightarrow> (case indexRecipes byID rs [] of
         Inl e \<Rightarrow> Inl e
       | Inr byKey \<Rightarrow> Inr \<lparr>goodsByID = byID, goodsList = gs, recipeByKey = byKey, recipeList = rs\<rparr>))"

definition balance_Get :: "balance \<Rightarrow> int \<Rightarrow> goods option" where
  "balance_Get b i = map_of (goodsByID b) i"

definition GoodsCount :: "balance \<Rightarrow> nat" where
  "GoodsCount b = length (goodsList b)"

definition AllGoods :: "balance \<Rightarrow> goods list" where
  "AllGoods b = goodsList b"

definition balance_Recipe :: "balance \<Rightarrow> int \<Rightarrow> recipe option" where
  "balance_Recipe b st = map_of (recipeByKey b) st"

definition RecipeCount :: "balance \<Rightarrow> nat" where
  "RecipeCount b = length (recipeList b)"

section \<open>What construction guarantees\<close>

definition goods_valid :: "goods \<Rightarrow> bool" where
  "goods_valid g \<longleftrightarrow> 0 < g_ID g \<and> g_Name g \<noteq> [] \<and> 0 \<le> g_Space g \<and> 0 \<le> g_AvgPrice g \<and> 0 \<le> g_MaxPrice g"

definition line_valid :: "(int, goods) table \<Rightarrow> recipe_line \<Rightarrow> bool" where
  "line_valid byID l \<longleftrightarrow> map_of byID (rl_GoodsType l) \<noteq> None \<and> 0 < rl_Quantity l \<and> 0 \<le> rl_Max l"

definition recipe_valid :: "(int, goods) table \<Rightarrow> recipe \<Rightarrow> bool" where
  "recipe_valid byID r \<longleftrightarrow> 0 < rc_CycleTime r \<and> rc_Outputs r \<noteq> [] \<and>
     list_all (line_valid byID) (rc_Inputs r) \<and> list_all (line_valid byID) (rc_Outputs r)"

definition balance_ok :: "balance \<Rightarrow> bool" where
  "balance_ok b \<longleftrightarrow>
     list_all (\<lambda>(k, g). goods_valid g \<and> k = g_ID g) (goodsByID b) \<and>
     list_all (\<lambda>(k, r). recipe_valid (goodsByID b) r \<and> k = rc_StationType r) (recipeByKey b)"

lemma validateRecipeLines_None: "validateRecipeLines byID ls = None \<longleftrightarrow> list_all (line_valid byID) ls"
  by (induction ls) (auto simp: line_valid_def)

lemma indexGoods_ok:
  "indexGoods gs acc = Inr byID \<longleftrightarrow>
     list_all goods_valid gs \<and> distinct (map g_ID gs) \<and> g_ID ` set gs \<inter> fst ` set acc = {} \<and>
     byID = acc @ map (\<lambda>g. (g_ID g, g)) gs"
proof (induction gs arbitrary: acc)
  case (Cons g gs)
  show ?case
    by (cases "g_ID g \<in> fst ` set acc")
      (auto simp: Cons.IH update_new goods_valid_def map_of_eq_None_iff simp del: not_None_eq)
qed auto

lemma indexRecipes_ok:
  "indexRecipes byID rs acc = Inr byKey \<longleftrightarrow>
     list_all (recipe_valid byID) rs \<and> distinct (map rc_StationType rs) \<and>
     rc_StationType ` set rs \<inter> fst ` set acc = {} \<and>
     byKey = acc @ map (\<lambda>r. (rc_StationType r, r)) rs"
proof (induction rs arbitrary: acc)
  case (Cons r rs)
  show ?case
    by (cases "rc_StationType r \<in> fst ` set acc")
      (auto simp: Cons.IH update_new recipe_valid_def map_of_eq_None_iff simp del: not_None_eq
        simp flip: validateRecipeLines_None split: option.splits)
qed auto

lemma balance_New_ok:
  "balance_New gs rs = Inr b \<longleftrightarrow>
     list_all goods_valid gs \<and> distinct (map g_ID gs) \<and>
     list_all (recipe_valid (map (\<lambda>g. (g_ID g, g)) gs)) rs \<and> distinct (map rc_StationType rs) \<and>
     b = \<lparr>goodsByID = map (\<lambda>g. (g_ID g, g)) gs, goodsList = gs,
          recipeByKey = map (\<lambda>r. (rc_StationType r, r)) rs, recipeList = rs\<rparr>"
proof (cases "indexGoods gs []")
  case (Inl e)
  then show ?thesis using indexGoods_ok [of gs "[]"] by (auto simp: balance_New_def)
next
  case (Inr byID)
  then have gs: "list_all goods_valid gs" "distinct (map g_ID gs)" "byID = map (\<lambda>g. (g_ID g, g)) gs"
    by (auto simp: indexGoods_ok)
  show ?thesis
  proof (cases "indexRecipes byID rs []")
    case (Inl e)
    then have "\<not> (list_all (recipe_valid byID) rs \<and> distinct (map rc_StationType rs))"
      using indexRecipes_ok [of byID rs "[]" "map (\<lambda>r. (rc_StationType r, r)) rs"] by auto
    with Inl Inr gs show ?thesis by (auto simp: balance_New_def)
  next
    case (Inr byKey)
    then have "list_all (recipe_valid byID) rs" "distinct (map rc_StationType rs)"
      "byKey = map (\<lambda>r. (rc_StationType r, r)) rs" by (auto simp: indexRecipes_ok)
    with Inr \<open>indexGoods gs [] = Inr byID\<close> gs show ?thesis by (auto simp: balance_New_def)
  qed
qed

lemma map_of_index: "distinct (map f xs) \<Longrightarrow> map_of (map (\<lambda>x. (f x, x)) xs) k = List.find (\<lambda>x. f x = k) xs"
  by (induction xs) auto

lemma balance_new_parts:
  "(\<exists>b. balance_New gs rs = Inr b) \<longleftrightarrow>
     list_all goods_valid gs \<and> distinct (map g_ID gs) \<and>
     list_all (recipe_valid (map (\<lambda>g. (g_ID g, g)) gs)) rs \<and> distinct (map rc_StationType rs)"
  "balance_New gs rs = Inr b \<Longrightarrow> balance_ok b \<and> AllGoods b = gs \<and>
     balance_Get b i = List.find (\<lambda>g. g_ID g = i) gs \<and>
     balance_Recipe b st = List.find (\<lambda>r. rc_StationType r = st) rs"
  by (auto simp: balance_New_ok balance_ok_def AllGoods_def balance_Get_def balance_Recipe_def
      map_of_index list_all_iff)

text \<open>
  a catalogue is built exactly from goods and recipes that pass every check (no duplicate,
  no reference to an unknown good), and then \<open>Get\<close> and \<open>Recipe\<close> return precisely the rows given:
  nothing is dropped and nothing is overwritten.
\<close>

theorem balance_new_exact:
  "((\<exists>b. balance_New gs rs = Inr b) \<longleftrightarrow>
     list_all goods_valid gs \<and> distinct (map g_ID gs) \<and>
     list_all (recipe_valid (map (\<lambda>g. (g_ID g, g)) gs)) rs \<and> distinct (map rc_StationType rs)) \<and>
   (\<forall>b. balance_New gs rs = Inr b \<longrightarrow> balance_ok b \<and> AllGoods b = gs \<and>
     (\<forall>i. balance_Get b i = List.find (\<lambda>g. g_ID g = i) gs) \<and>
     (\<forall>st. balance_Recipe b st = List.find (\<lambda>r. rc_StationType r = st) rs))"
  using balance_new_parts by blast

definition sample_goods :: "goods list" where
  "sample_goods =
     [\<lparr>g_ID = 1, g_Name = ''Batteries'', g_MinWarRate = 0, g_MinTradeRate = 0, g_MinRaceRate = 0,
       g_AvgPrice = 12, g_MaxPrice = 20, g_ProductionStd = 1, g_Space = 1, g_ObjectTypeID = 0\<rparr>,
      \<lparr>g_ID = 2, g_Name = ''Iron'', g_MinWarRate = 0, g_MinTradeRate = 0, g_MinRaceRate = 0,
       g_AvgPrice = 40, g_MaxPrice = 90, g_ProductionStd = 1, g_Space = 2, g_ObjectTypeID = 0\<rparr>]"

definition sample_recipe :: recipe where
  "sample_recipe = \<lparr>rc_StationType = 7,
     rc_Inputs = [\<lparr>rl_GoodsType = 2, rl_Quantity = 5, rl_Max = 0\<rparr>],
     rc_Outputs = [\<lparr>rl_GoodsType = 1, rl_Quantity = 10, rl_Max = 0\<rparr>], rc_CycleTime = 60\<rparr>"

definition sample_balance :: balance where
  "sample_balance = \<lparr>goodsByID = map (\<lambda>g. (g_ID g, g)) sample_goods, goodsList = sample_goods,
     recipeByKey = [(7, sample_recipe)], recipeList = [sample_recipe]\<rparr>"

theorem balance_new_exact_witness: "balance_ok sample_balance \<and> balance_Recipe sample_balance 7 = Some sample_recipe"
proof -
  have n: "balance_New sample_goods [sample_recipe] = Inr sample_balance" by code_simp
  with balance_new_exact [of sample_goods "[sample_recipe]"] show ?thesis by (simp add: sample_recipe_def)
qed

end
