(* ===== verification/Pricing.thy ===== *)
theory Pricing
  imports Balance
begin

text \<open>
  \<open>internal/trade/pricing.go\<close>: the price of a good as a function of the stock, and the coarse
  tier shown by the price scanner.
\<close>

section \<open>Operations\<close>

definition dynamicUnitPrice :: "goods \<Rightarrow> int \<Rightarrow> int \<Rightarrow> int option" where
  "dynamicUnitPrice g stock maxStock =
     (let avg = g_AvgPrice g; mx = g_MaxPrice g in
      if avg \<le> 0 \<or> mx \<le> avg \<or> maxStock \<le> 0 then None
      else
        let st = (if stock < 0 then 0 else stock);
            st = (if maxStock < st then maxStock else st);
            price = wrap64 (avg + go_div (wrap64 (wrap64 (mx - avg) * wrap64 (maxStock - st))) maxStock)
        in Some (if price < 1 then 1 else price))"

text \<open>A nil catalogue is \<open>None\<close>.\<close>

definition priceFor :: "balance option \<Rightarrow> int \<Rightarrow> int \<Rightarrow> int \<Rightarrow> int \<Rightarrow> int" where
  "priceFor bal gtype columnPrice stock maxStock = (case bal of
       None \<Rightarrow> columnPrice
     | Some b \<Rightarrow> (case balance_Get b gtype of
         None \<Rightarrow> columnPrice
       | Some g \<Rightarrow> (case dynamicUnitPrice g stock maxStock of None \<Rightarrow> columnPrice | Some p \<Rightarrow> p)))"

definition ProjectedUnitPrice :: "goods \<Rightarrow> int \<Rightarrow> int \<Rightarrow> int option" where
  "ProjectedUnitPrice g stock maxStock = dynamicUnitPrice g stock maxStock"

datatype tier = High | Medium | Low

definition PriceTier :: "int \<Rightarrow> int \<Rightarrow> int \<Rightarrow> tier" where
  "PriceTier price avg mx =
     (if avg \<le> 0 \<or> mx \<le> avg then (if avg \<le> price then High else Low)
      else
        let band = wrap64 (mx - avg); offset = wrap64 (price - avg) in
        if offset < 0 then Low
        else if wrap64 (2 * band) \<le> wrap64 (3 * offset) then High
        else if band \<le> wrap64 (3 * offset) then Medium
        else Low)"

section \<open>The price curve\<close>

text \<open>
  The formula without machine arithmetic. It is what the code computes whenever the product of
  band and shelf fits 63 bits.
\<close>

definition ideal_price :: "int \<Rightarrow> int \<Rightarrow> int \<Rightarrow> int \<Rightarrow> int" where
  "ideal_price avg mx stock maxStock = avg + (mx - avg) * (maxStock - stock) div maxStock"

definition no_overflow :: "goods \<Rightarrow> int \<Rightarrow> bool" where
  "no_overflow g maxStock \<longleftrightarrow> 0 < g_AvgPrice g \<and> g_AvgPrice g < g_MaxPrice g \<and> g_MaxPrice g < 2 ^ 63 \<and>
     0 < maxStock \<and> maxStock < 2 ^ 63 \<and> (g_MaxPrice g - g_AvgPrice g) * maxStock < 2 ^ 63"

lemma ideal_price_bounds:
  assumes "avg < mx" "0 \<le> stock" "stock \<le> maxStock" "0 < maxStock"
  shows "avg \<le> ideal_price avg mx stock maxStock" "ideal_price avg mx stock maxStock \<le> mx"
proof -
  have "(mx - avg) * (maxStock - stock) \<le> (mx - avg) * maxStock" using assms by (intro mult_left_mono) auto
  then have "(mx - avg) * (maxStock - stock) div maxStock \<le> (mx - avg) * maxStock div maxStock"
    using assms by (intro zdiv_mono1) auto
  also have "\<dots> = mx - avg" using assms by simp
  finally show "ideal_price avg mx stock maxStock \<le> mx" by (simp add: ideal_price_def)
  show "avg \<le> ideal_price avg mx stock maxStock"
    using assms by (simp add: ideal_price_def pos_imp_zdiv_nonneg_iff)
qed

lemma ideal_price_antimono:
  "avg \<le> mx \<Longrightarrow> 0 < maxStock \<Longrightarrow> a \<le> b \<Longrightarrow> ideal_price avg mx b maxStock \<le> ideal_price avg mx a maxStock"
  unfolding ideal_price_def by (intro add_left_mono zdiv_mono1 mult_left_mono) auto

lemma dynamic_is_ideal:
  assumes "no_overflow g maxStock" "0 \<le> stock" "stock \<le> maxStock"
  shows "dynamicUnitPrice g stock maxStock = Some (ideal_price (g_AvgPrice g) (g_MaxPrice g) stock maxStock)"
proof -
  let ?a = "g_AvgPrice g" and ?m = "g_MaxPrice g"
  have h: "0 < ?a" "?a < ?m" "?m < 2 ^ 63" "0 < maxStock" "maxStock < 2 ^ 63" "(?m - ?a) * maxStock < 2 ^ 63"
    using assms(1) by (auto simp: no_overflow_def)
  have p: "0 \<le> (?m - ?a) * (maxStock - stock)" "(?m - ?a) * (maxStock - stock) \<le> (?m - ?a) * maxStock"
    using h assms by (auto intro!: mult_left_mono)
  note b = ideal_price_bounds [of ?a ?m stock maxStock]
  have w: "wrap64 (?m - ?a) = ?m - ?a" "wrap64 (maxStock - stock) = maxStock - stock"
    "wrap64 (ideal_price ?a ?m stock maxStock) = ideal_price ?a ?m stock maxStock"
    using h assms b by (auto intro!: wrap64_id simp: in64_def)
  have w3: "wrap64 ((?m - ?a) * (maxStock - stock)) = (?m - ?a) * (maxStock - stock)"
    using h(6) p unfolding in64_def by (intro wrap64_id) (simp only: in64_def, linarith)
  show ?thesis
    using h assms p b w w3 unfolding dynamicUnitPrice_def
    by (simp add: go_div_nonneg Let_def flip: ideal_price_def)
qed

lemma dynamic_price_parts:
  assumes "no_overflow g maxStock"
  shows "dynamicUnitPrice g stock maxStock =
      Some (ideal_price (g_AvgPrice g) (g_MaxPrice g) (max 0 (min stock maxStock)) maxStock)"
    and "dynamicUnitPrice g maxStock maxStock = Some (g_AvgPrice g)"
    and "dynamicUnitPrice g 0 maxStock = Some (g_MaxPrice g)"
    and "dynamicUnitPrice g stock maxStock = Some p \<Longrightarrow> g_AvgPrice g \<le> p \<and> p \<le> g_MaxPrice g"
    and "a \<le> b \<Longrightarrow> dynamicUnitPrice g a maxStock = Some p \<Longrightarrow> dynamicUnitPrice g b maxStock = Some q \<Longrightarrow> q \<le> p"
proof -
  have h: "0 < maxStock" "0 < g_AvgPrice g" "g_AvgPrice g < g_MaxPrice g" using assms by (auto simp: no_overflow_def)
  have clamp: "dynamicUnitPrice g st maxStock = dynamicUnitPrice g (max 0 (min st maxStock)) maxStock" for st
    using h by (auto simp: dynamicUnitPrice_def Let_def min_def max_def)
  show main: "dynamicUnitPrice g stock maxStock =
      Some (ideal_price (g_AvgPrice g) (g_MaxPrice g) (max 0 (min stock maxStock)) maxStock)" for stock
    using h by (subst clamp, subst dynamic_is_ideal [OF assms]) auto
  show "dynamicUnitPrice g maxStock maxStock = Some (g_AvgPrice g)"
    and "dynamicUnitPrice g 0 maxStock = Some (g_MaxPrice g)"
    using h by (simp_all add: main ideal_price_def)
  show "dynamicUnitPrice g stock maxStock = Some p \<Longrightarrow> g_AvgPrice g \<le> p \<and> p \<le> g_MaxPrice g"
    using h ideal_price_bounds [of "g_AvgPrice g" "g_MaxPrice g" "max 0 (min stock maxStock)" maxStock]
    by (auto simp: main)
  show "a \<le> b \<Longrightarrow> dynamicUnitPrice g a maxStock = Some p \<Longrightarrow> dynamicUnitPrice g b maxStock = Some q \<Longrightarrow> q \<le> p"
    using h by (auto simp: main intro!: ideal_price_antimono)
qed

text \<open>
  within the price band the unit price lies between the average and the maximum price, is
  the average on a full shelf and the maximum on an empty one, and never rises when the stock does;
  out-of-range stocks are clamped.
\<close>

theorem dynamic_price_curve:
  assumes "no_overflow g maxStock"
  shows "dynamicUnitPrice g stock maxStock =
      Some (ideal_price (g_AvgPrice g) (g_MaxPrice g) (max 0 (min stock maxStock)) maxStock) \<and>
    dynamicUnitPrice g maxStock maxStock = Some (g_AvgPrice g) \<and>
    dynamicUnitPrice g 0 maxStock = Some (g_MaxPrice g) \<and>
    (\<forall>p. dynamicUnitPrice g stock maxStock = Some p \<longrightarrow> g_AvgPrice g \<le> p \<and> p \<le> g_MaxPrice g) \<and>
    (\<forall>a b p q. a \<le> b \<longrightarrow> dynamicUnitPrice g a maxStock = Some p \<longrightarrow> dynamicUnitPrice g b maxStock = Some q \<longrightarrow> q \<le> p)"
  using dynamic_price_parts [OF assms] by blast

theorem dynamic_price_curve_witness:
  "dynamicUnitPrice (hd sample_goods) 100 100 = Some 12 \<and> dynamicUnitPrice (hd sample_goods) 0 100 = Some 20"
proof -
  have "no_overflow (hd sample_goods) 100" and v: "g_AvgPrice (hd sample_goods) = 12" "g_MaxPrice (hd sample_goods) = 20"
    by code_simp+
  from dynamic_price_curve [OF this(1), of 0] v show ?thesis by (simp add: ideal_price_def)
qed

lemma price_tier_parts:
  assumes "0 < avg" "avg < mx" "3 * mx < 2 ^ 63" "0 \<le> price" "price \<le> mx"
  shows "PriceTier price avg mx =
      (if 2 * (mx - avg) \<le> 3 * (price - avg) then High
       else if mx - avg \<le> 3 * (price - avg) then Medium else Low)"
    and "2 \<le> mx - avg \<Longrightarrow>
      PriceTier mx avg mx = High \<and> PriceTier avg avg mx = Low \<and>
      PriceTier (avg + (mx - avg + 2) div 3) avg mx = Medium"
proof -
  have w: "\<bar>d\<bar> \<le> 3 * mx \<Longrightarrow> wrap64 d = d" for d using assms by (intro wrap64_id) (auto simp: in64_def)
  have main: "PriceTier p avg mx =
      (if 2 * (mx - avg) \<le> 3 * (p - avg) then High
       else if mx - avg \<le> 3 * (p - avg) then Medium else Low)" if "0 \<le> p" "p \<le> mx" for p
    using assms that w [of "mx - avg"] w [of "p - avg"] w [of "2 * (mx - avg)"] w [of "3 * (p - avg)"]
    by (auto simp: PriceTier_def Let_def)
  then show "PriceTier price avg mx =
      (if 2 * (mx - avg) \<le> 3 * (price - avg) then High
       else if mx - avg \<le> 3 * (price - avg) then Medium else Low)"
    using assms by blast
  assume two: "2 \<le> mx - avg"
  show "PriceTier mx avg mx = High \<and> PriceTier avg avg mx = Low \<and>
      PriceTier (avg + (mx - avg + 2) div 3) avg mx = Medium"
  proof -
    have "3 * ((mx - avg + 2) div 3) < 2 * (mx - avg)" "mx - avg \<le> 3 * ((mx - avg + 2) div 3)"
      "avg + (mx - avg + 2) div 3 \<le> mx" using two by presburger+
    then show ?thesis using two assms by (auto simp: main)
  qed
qed

text \<open>
  the tier is decided by exact thirds of the band, with no rounding of the boundaries: below
  one third of the band above the average is low, from two thirds up is high, and each of the three
  tiers is reached on every band at least two credits wide.
\<close>

theorem price_tier_thirds:
  assumes "0 < avg" "avg < mx" "3 * mx < 2 ^ 63" "0 \<le> price" "price \<le> mx"
  shows "PriceTier price avg mx =
      (if 2 * (mx - avg) \<le> 3 * (price - avg) then High
       else if mx - avg \<le> 3 * (price - avg) then Medium else Low) \<and>
    (2 \<le> mx - avg \<longrightarrow> PriceTier mx avg mx = High \<and> PriceTier avg avg mx = Low \<and>
      PriceTier (avg + (mx - avg + 2) div 3) avg mx = Medium)"
  using price_tier_parts [OF assms] by blast

theorem price_tier_thirds_witness:
  "PriceTier 102 100 102 = High \<and> PriceTier 101 100 102 = Medium \<and> PriceTier 100 100 102 = Low"
  using price_tier_thirds [of 100 102 102] by simp

end
