(* ===== verification/Trade.thy ===== *)
theory Trade
  imports TradeRepo Pricing
begin

text \<open>
  \<open>internal/trade/service.go\<close>: buying from and selling to a station while docked there, the
  market listing, and the hacker's robbery of a station shelf. \<open>RepoTxRunner\<close> (tx_runner.go) binds
  \<open>AddCargo\<close> and \<open>SubtractCargo\<close> to the unowned stack of the ship.
\<close>

section \<open>Operations\<close>

definition unitPrice :: "balance option \<Rightarrow> int \<Rightarrow> int \<Rightarrow> int \<Rightarrow> int \<Rightarrow> int \<Rightarrow> int" where
  "unitPrice bal stationKind gtype columnPrice stock maxStock =
     (if stationKind = EntityKindStation then priceFor bal gtype columnPrice stock maxStock else columnPrice)"

definition AddCargo :: "entity_ref \<Rightarrow> int \<Rightarrow> int \<Rightarrow> unit dbm" where
  "AddCargo ownr gtype qty = Add ownr gtype qty 0"

definition SubtractCargo :: "entity_ref \<Rightarrow> int \<Rightarrow> int \<Rightarrow> unit dbm" where
  "SubtractCargo ownr gtype qty = Subtract ownr gtype qty 0"

definition trade_authorizeDocked :: "int \<Rightarrow> int \<Rightarrow> entity_ref \<Rightarrow> unit dbm" where
  "trade_authorizeDocked playerID shipID station =
     bindM (mapErr (\<lambda>e. if e = ETradeRepo TR_ErrShipNotFound then ETrade TD_ErrShipNotFound else e)
       (LoadShipDock shipID)) (\<lambda>dock.
     bindM (checkM (td_player dock = playerID) (ETrade TD_ErrForbidden)) (\<lambda>_.
     case td_docked dock of
       None \<Rightarrow> failM (ETrade TD_ErrNotDocked)
     | Some d \<Rightarrow> checkM (ref_kind d = ref_kind station \<and> ref_id d = ref_id station) (ETrade TD_ErrWrongStation)))"

definition stationKindErr :: "err \<Rightarrow> err" where
  "stationKindErr e = (if e = ETradeRepo TR_ErrUnsupportedStationKind then ETrade TD_ErrInvalidStationKind else e)"

definition Market :: "balance option \<Rightarrow> entity_ref \<Rightarrow> market_entry list dbm" where
  "Market bal ownr =
     bindM (mapErr stationKindErr (pool (ListMarket ownr))) (\<lambda>entries.
     returnM (map (\<lambda>e.
       let quote = (\<lambda>p. unitPrice bal (ref_kind ownr) (me_goods e) p (me_stock e) (me_max e)) in
       e\<lparr>me_sell := map_option quote (me_sell e), me_buy := map_option quote (me_buy e)\<rparr>) entries))"

definition MarketDocked :: "balance option \<Rightarrow> int \<Rightarrow> int \<Rightarrow> entity_ref \<Rightarrow> market_entry list dbm" where
  "MarketDocked bal playerID shipID ownr =
     bindM (checkM (isStationKind (ref_kind ownr)) (ETrade TD_ErrInvalidStationKind)) (\<lambda>_.
     bindM (pool (trade_authorizeDocked playerID shipID ownr)) (\<lambda>_. Market bal ownr))"

abbreviation (input) tradeRateShift :: nat where "tradeRateShift \<equiv> 8"

text \<open>\<open>total >> 8\<close> is an arithmetic shift.\<close>

definition awardTradeReputation :: "int \<Rightarrow> int \<Rightarrow> unit dbm" where
  "awardTradeReputation playerID amount =
     (let delta = amount div 2 ^ tradeRateShift in
      if delta \<le> 0 then returnM ()
      else bindM (AddReputation playerID \<lparr>rep_war = 0, rep_trade = delta\<rparr>) (\<lambda>_. returnM ()))"

record trade_result =
  tr_NewCash :: int
  tr_NewStock :: int
  tr_UnitPrice :: int
  tr_TotalAmount :: int

definition entryErr :: "err \<Rightarrow> err" where
  "entryErr e =
     (if e = ETradeRepo TR_ErrMarketEntryNotFound then ETrade TD_ErrMarketEntryNotFound
      else if e = ETradeRepo TR_ErrUnsupportedStationKind then ETrade TD_ErrInvalidStationKind
      else e)"

definition tradeGoodsErr :: "err \<Rightarrow> err" where
  "tradeGoodsErr e = (if e = ECargoRepo CR_ErrGoodsTypeNotFound then ETrade TD_ErrGoodsTypeNotFound else e)"

definition Buy :: "balance option \<Rightarrow> int \<Rightarrow> int \<Rightarrow> entity_ref \<Rightarrow> int \<Rightarrow> int \<Rightarrow> trade_result dbm" where
  "Buy bal playerID shipID station gtype qty =
     bindM (checkM (0 < qty) (ETrade TD_ErrNonPositiveQuantity)) (\<lambda>_.
     bindM (checkM (isStationKind (ref_kind station)) (ETrade TD_ErrInvalidStationKind)) (\<lambda>_.
     tx_do (
       bindM (trade_authorizeDocked playerID shipID station) (\<lambda>_.
       bindM (mapErr entryErr (GetMarketEntry station gtype)) (\<lambda>entry.
       case me_sell entry of
         None \<Rightarrow> failM (ETrade TD_ErrStationDoesNotSell)
       | Some sellPrice \<Rightarrow>
           bindM (checkM (qty \<le> me_stock entry) (ETrade TD_ErrInsufficientStock)) (\<lambda>_.
           bindM (mapErr tradeGoodsErr (GoodsType gtype)) (\<lambda>gt.
           let shipRef = EntityRef EntityKindShip shipID in
           bindM (Capacity shipRef) (\<lambda>capacity.
           bindM (UsedSpace shipRef) (\<lambda>used.
           bindM (checkM (\<not> f_lt capacity (f_add used (f_mul (f_of_int qty) (gt_space gt)))) (ETrade TD_ErrNoCargoSpace)) (\<lambda>_.
           let unit = unitPrice bal (ref_kind station) gtype sellPrice (me_stock entry) (me_max entry);
               amount = wrap64 (unit * qty) in
           bindM (mapErr (\<lambda>e. if e = EPlayers Players_ErrInsufficientCash then ETrade TD_ErrInsufficientCash else e)
             (AdjustCash playerID (wrap64 (- amount)))) (\<lambda>newCash.
           bindM (mapErr (\<lambda>e. if e = ETradeRepo TR_ErrInsufficientStock then ETrade TD_ErrInsufficientStock else e)
             (AdjustStock station gtype (wrap64 (- qty)))) (\<lambda>newStock.
           bindM (AddCargo shipRef gtype qty) (\<lambda>_.
           bindM (awardTradeReputation playerID amount) (\<lambda>_.
           returnM \<lparr>tr_NewCash = newCash, tr_NewStock = newStock, tr_UnitPrice = unit, tr_TotalAmount = amount\<rparr>))))))))))))))"

definition Sell :: "balance option \<Rightarrow> int \<Rightarrow> int \<Rightarrow> entity_ref \<Rightarrow> int \<Rightarrow> int \<Rightarrow> trade_result dbm" where
  "Sell bal playerID shipID station gtype qty =
     bindM (checkM (0 < qty) (ETrade TD_ErrNonPositiveQuantity)) (\<lambda>_.
     bindM (checkM (isStationKind (ref_kind station)) (ETrade TD_ErrInvalidStationKind)) (\<lambda>_.
     tx_do (
       bindM (trade_authorizeDocked playerID shipID station) (\<lambda>_.
       bindM (mapErr entryErr (GetMarketEntry station gtype)) (\<lambda>entry.
       case me_buy entry of
         None \<Rightarrow> failM (ETrade TD_ErrStationDoesNotBuy)
       | Some buyPrice \<Rightarrow>
           bindM (checkM (wrap64 (me_stock entry + qty) \<le> me_max entry) (ETrade TD_ErrStockOverflow)) (\<lambda>_.
           let shipRef = EntityRef EntityKindShip shipID in
           bindM (mapErr (\<lambda>e. if e = ECargoRepo CR_ErrInsufficientQuantity then ETrade TD_ErrInsufficientCargo else e)
             (SubtractCargo shipRef gtype qty)) (\<lambda>_.
           bindM (mapErr (\<lambda>e. if e = ETradeRepo TR_ErrStockOverflow then ETrade TD_ErrStockOverflow else e)
             (AdjustStock station gtype qty)) (\<lambda>newStock.
           let unit = unitPrice bal (ref_kind station) gtype buyPrice (me_stock entry) (me_max entry);
               amount = wrap64 (unit * qty) in
           bindM (AdjustCash playerID amount) (\<lambda>newCash.
           bindM (awardTradeReputation playerID amount) (\<lambda>_.
           returnM \<lparr>tr_NewCash = newCash, tr_NewStock = newStock, tr_UnitPrice = unit, tr_TotalAmount = amount\<rparr>))))))))))"

subsection \<open>Robbing a shelf\<close>

text \<open>A nil \<open>prodRef\<close> map reads as empty.\<close>

definition hackBasis :: "market_entry \<Rightarrow> int \<Rightarrow> (int, int) table \<Rightarrow> int option" where
  "hackBasis e kind prodRef =
     (if kind = EntityKindTradeStation then
        (case map_of prodRef (me_goods e) of
           None \<Rightarrow> None
         | Some ref \<Rightarrow> if 0 < ref then Some ref else None)
      else Some (me_max e))"

fun richest_from ::
  "market_entry list \<Rightarrow> int \<Rightarrow> (int, int) table \<Rightarrow> (market_entry \<times> int) option \<Rightarrow> (market_entry \<times> int) option" where
  "richest_from [] kind prodRef best = best"
| "richest_from (e # es) kind prodRef best = (case hackBasis e kind prodRef of
       None \<Rightarrow> richest_from es kind prodRef best
     | Some basis \<Rightarrow> richest_from es kind prodRef (case best of
           None \<Rightarrow> Some (e, basis)
         | Some (b, bb) \<Rightarrow>
             if me_stock b < me_stock e \<or> me_stock e = me_stock b \<and> me_goods e < me_goods b
             then Some (e, basis) else Some (b, bb)))"

definition richestRobbable :: "market_entry list \<Rightarrow> int \<Rightarrow> (int, int) table \<Rightarrow> (market_entry \<times> int) option" where
  "richestRobbable entries kind prodRef = richest_from entries kind prodRef None"

record rob_outcome =
  ro_GoodsType :: int
  ro_Robbed :: int
  ro_Damaged :: int
  ro_Delivered :: bool
  ro_MaxStock :: int

text \<open>How much is taken and how much is destroyed.\<close>

definition rob_split :: "float64 \<Rightarrow> float64 \<Rightarrow> int \<Rightarrow> int \<times> int" where
  "rob_split robFrac damageFrac stock =
     (let robbed = f_to_int64 (f_mul robFrac (f_of_int stock));
          damaged = f_to_int64 (f_mul damageFrac (f_of_int stock));
          robbed = (if stock < wrap64 (robbed + damaged) then 0 else robbed);
          damaged = (if stock < damaged then 0 else damaged)
      in (robbed, damaged))"

definition depositLoot :: "entity_ref \<Rightarrow> int \<Rightarrow> int \<Rightarrow> bool dbm" where
  "depositLoot hackerShip gtype robbed =
     bindM (mapErr tradeGoodsErr (GoodsType gtype)) (\<lambda>gt.
     bindM (Capacity hackerShip) (\<lambda>capacity.
     bindM (UsedSpace hackerShip) (\<lambda>used.
     if f_le (f_add used (f_mul (f_of_int robbed) (gt_space gt))) capacity
     then bindM (AddCargo hackerShip gtype robbed) (\<lambda>_. returnM True)
     else returnM False)))"

definition RobIn :: "entity_ref \<Rightarrow> entity_ref \<Rightarrow> float64 \<Rightarrow> float64 \<Rightarrow> float64 \<Rightarrow> bool \<Rightarrow> rob_outcome dbm" where
  "RobIn station hackerShip robFrac damageFrac minFrac depositToHold =
     bindM (checkM (isStationKind (ref_kind station)) (ETrade TD_ErrInvalidStationKind)) (\<lambda>_.
     bindM (mapErr stationKindErr (ListMarket station)) (\<lambda>entries.
     bindM (if ref_kind station = EntityKindTradeStation then ProductionRefMaxes else returnM []) (\<lambda>prodRef.
     case richestRobbable entries (ref_kind station) prodRef of
       None \<Rightarrow> failM (ETrade TD_ErrTooLittleGoods)
     | Some (target, basis) \<Rightarrow>
         if basis \<le> 0 \<or> f_lt (f_of_int (me_stock target)) (f_mul minFrac (f_of_int basis))
         then failM (ETrade TD_ErrTooLittleGoods)
         else
           (case rob_split robFrac damageFrac (me_stock target) of (robbed, damaged) \<Rightarrow>
             let amount = wrap64 (robbed + damaged) in
             bindM (if 0 < amount
               then bindM (AdjustStock station (me_goods target) (wrap64 (- amount))) (\<lambda>_. returnM ())
               else returnM ()) (\<lambda>_.
             bindM (if depositToHold \<and> 0 < robbed
               then depositLoot hackerShip (me_goods target) robbed
               else returnM False) (\<lambda>delivered.
             returnM \<lparr>ro_GoodsType = me_goods target, ro_Robbed = robbed, ro_Damaged = damaged,
                      ro_Delivered = delivered, ro_MaxStock = basis\<rparr>))))))"

definition Rob :: "entity_ref \<Rightarrow> entity_ref \<Rightarrow> float64 \<Rightarrow> float64 \<Rightarrow> float64 \<Rightarrow> bool \<Rightarrow> rob_outcome dbm" where
  "Rob station hackerShip robFrac damageFrac minFrac depositToHold =
     tx_do (RobIn station hackerShip robFrac damageFrac minFrac depositToHold)"

section \<open>Helper facts\<close>

lemma trade_authorizeDocked_ok [run_simps]:
  "trade_authorizeDocked p ship st s = (Inr x, s') \<longleftrightarrow> \<not> tx_aborted s \<and> s' = s \<and>
     (\<exists>r. map_of (ships s) ship = Some r \<and> sh_player r = p \<and> docked_ref r = Some st)"
  by (cases st) (auto simp: trade_authorizeDocked_def run_simps)

text \<open>Awarding reputation touches no wallet, stack or shelf.\<close>

lemma AddReputation_cash:
  "AddReputation p d s = (Inr x, s') \<Longrightarrow>
     cash_of s' = cash_of s \<and> cargo s' = cargo s \<and> station_goods s' = station_goods s \<and>
     ships s' = ships s \<and> goods_types s' = goods_types s \<and> tx_aborted s' = tx_aborted s"
  by (auto simp: AddReputation_def addReputationSQL_def run_simps cash_of_def fun_eq_iff split: option.splits)

lemma awardTradeReputation_frame:
  "awardTradeReputation p amount s = (Inr x, s') \<Longrightarrow>
     cash_of s' = cash_of s \<and> cargo s' = cargo s \<and> station_goods s' = station_goods s \<and>
     ships s' = ships s \<and> goods_types s' = goods_types s \<and> tx_aborted s' = tx_aborted s"
  by (auto simp: awardTradeReputation_def Let_def run_simps dest!: AddReputation_cash split: if_splits)

lemma dynamicUnitPrice_pos: "dynamicUnitPrice g stock maxStock = Some p \<Longrightarrow> 1 \<le> p"
  by (auto simp: dynamicUnitPrice_def Let_def split: if_splits)

lemma unitPrice_pos: "0 < column \<Longrightarrow> 0 < unitPrice bal k g column stock maxStock"
  by (auto simp: unitPrice_def priceFor_def dest!: dynamicUnitPrice_pos split: option.splits)

text \<open>What a successful purchase went through.\<close>

lemma Buy_ok:
  assumes "Buy bal p ship st g n s = (Inr r, s')"
  shows "\<exists>row sh price unit s1 s2 s3. 0 < n \<and>
     map_of (ships s) ship = Some sh \<and> sh_player sh = p \<and> docked_ref sh = Some st \<and>
     map_of (station_goods s) (st, g) = Some row \<and> mk_sell row = Some price \<and> n \<le> mk_stock row \<and>
     unit = unitPrice bal (ref_kind st) g price (mk_stock row) (mk_max row) \<and>
     AdjustCash p (wrap64 (- wrap64 (unit * n))) s = (Inr (tr_NewCash r), s1) \<and>
     AdjustStock st g (wrap64 (- n)) s1 = (Inr (tr_NewStock r), s2) \<and>
     Add (EntityRef EntityKindShip ship) g n 0 s2 = (Inr (), s3) \<and>
     awardTradeReputation p (wrap64 (unit * n)) s3 = (Inr (), s') \<and>
     tr_UnitPrice r = unit \<and> tr_TotalAmount r = wrap64 (unit * n) \<and> \<not> tx_aborted s \<and> \<not> tx_aborted s'"
  using assms
  by (auto simp: Buy_def run_simps Let_def AddCargo_def entry_of_def)

lemma Sell_ok:
  assumes "Sell bal p ship st g n s = (Inr r, s')"
  shows "\<exists>row sh price unit s1 s2 s3. 0 < n \<and>
     map_of (ships s) ship = Some sh \<and> sh_player sh = p \<and> docked_ref sh = Some st \<and>
     map_of (station_goods s) (st, g) = Some row \<and> mk_buy row = Some price \<and>
     unit = unitPrice bal (ref_kind st) g price (mk_stock row) (mk_max row) \<and>
     Subtract (EntityRef EntityKindShip ship) g n 0 s = (Inr (), s1) \<and>
     AdjustStock st g n s1 = (Inr (tr_NewStock r), s2) \<and>
     AdjustCash p (wrap64 (unit * n)) s2 = (Inr (tr_NewCash r), s3) \<and>
     awardTradeReputation p (wrap64 (unit * n)) s3 = (Inr (), s') \<and>
     tr_UnitPrice r = unit \<and> tr_TotalAmount r = wrap64 (unit * n) \<and> \<not> tx_aborted s \<and> \<not> tx_aborted s'"
  using assms
  by (auto simp: Sell_def run_simps Let_def SubtractCargo_def entry_of_def)

definition docked_at :: "int \<Rightarrow> int \<Rightarrow> entity_ref \<Rightarrow> db \<Rightarrow> bool" where
  "docked_at p ship st s \<longleftrightarrow> (case map_of (ships s) ship of
       None \<Rightarrow> False
     | Some r \<Rightarrow> sh_player r = p \<and> docked_ref r = Some st)"

text \<open>All the goods of a type, in holds and on shelves.\<close>

definition goods_everywhere :: "int \<Rightarrow> db \<Rightarrow> int" where
  "goods_everywhere g s = goods_total g s + stock_total g s"

text \<open>
  The state after the money and the goods of a trade have moved: the wallet of \<open>p\<close> holds
  \<open>cash\<close>, the shelf \<open>stock\<close>, the ship's unowned stack \<open>hold\<close>, and nothing else differs.
\<close>

definition traded :: "int \<Rightarrow> int \<Rightarrow> market_key \<Rightarrow> int \<Rightarrow> stack_key \<Rightarrow> int \<Rightarrow> db \<Rightarrow> db \<Rightarrow> bool" where
  "traded p cash shelf stock hold held s s' \<longleftrightarrow>
     cash_of s' = (cash_of s)(p \<mapsto> cash) \<and>
     stock_of s' = (stock_of s)(shelf := stock) \<and>
     stack_qty s' = (stack_qty s)(hold := held) \<and>
     (\<forall>g. goods_everywhere g s' = goods_everywhere g s)"

lemmas books_defs = stack_qty_def goods_total_def stock_of_def stock_total_def cash_of_def
  goods_everywhere_def fun_eq_iff

text \<open>What each repository call contributes to a trade.\<close>

lemma cash_step:
  assumes "AdjustCash p d s = (Inr c, s1)"
  shows "cash_of s1 = (cash_of s)(p \<mapsto> c)" "stock_of s1 = stock_of s" "stack_qty s1 = stack_qty s"
    "goods_everywhere g' s1 = goods_everywhere g' s" "cash_of s p = Some (c - d)" "0 \<le> c"
    "station_goods s1 = station_goods s" "cargo s1 = cargo s"
proof -
  from assms have "station_goods s1 = station_goods s" "cargo s1 = cargo s" by (auto simp: AdjustCash_ok)
  then show "station_goods s1 = station_goods s" "cargo s1 = cargo s" "stock_of s1 = stock_of s"
    "stack_qty s1 = stack_qty s" "goods_everywhere g' s1 = goods_everywhere g' s"
    by (simp_all add: books_defs)
qed (use cash.adjust_balance [OF assms] in auto)

lemma stock_step:
  assumes "AdjustStock st g d s = (Inr m, s1)"
  shows "cash_of s1 = cash_of s" "stock_of s1 = (stock_of s)((st, g) := m)" "stack_qty s1 = stack_qty s"
    "goods_everywhere g' s1 = goods_everywhere g' s + (if g' = g then d else 0)"
    "stock_of s (st, g) = m - d" "0 \<le> m" "players s1 = players s" "cargo s1 = cargo s"
proof -
  from assms have fr: "players s1 = players s" "cargo s1 = cargo s"
    and m: "stock_of s (st, g) = m - d" "0 \<le> m" by (auto simp: AdjustStock_ok stock_of_def)
  then show "players s1 = players s" "cargo s1 = cargo s" "cash_of s1 = cash_of s" "stack_qty s1 = stack_qty s"
    "stock_of s (st, g) = m - d" "0 \<le> m" by (simp_all add: books_defs)
  show "stock_of s1 = (stock_of s)((st, g) := m)"
    using market.add_held [of "(st, g)" d s m s1] assms m by simp
  show "goods_everywhere g' s1 = goods_everywhere g' s + (if g' = g then d else 0)"
    using market.add_total [of "(st, g)" d s m s1 g'] assms fr by (simp add: goods_everywhere_def goods_total_def stock_total_def)
qed

lemma add_step:
  assumes "Add o' g n d s = (Inr x, s1)"
  shows "cash_of s1 = cash_of s" "stock_of s1 = stock_of s"
    "stack_qty s1 = (stack_qty s)((o', g, d) := stack_qty s (o', g, d) + n)"
    "goods_everywhere g' s1 = goods_everywhere g' s + (if g' = g then n else 0)"
proof -
  from assms have fr: "players s1 = players s" "station_goods s1 = station_goods s" by (auto simp: Add_ok)
  then show "cash_of s1 = cash_of s" "stock_of s1 = stock_of s" by (simp_all add: books_defs)
  show "stack_qty s1 = (stack_qty s)((o', g, d) := stack_qty s (o', g, d) + n)"
    using stacks.add_held [of "(o', g, d)" n s x s1] assms by simp
  show "goods_everywhere g' s1 = goods_everywhere g' s + (if g' = g then n else 0)"
    using stacks.add_total [of "(o', g, d)" n s x s1 g'] assms fr by (simp add: goods_everywhere_def goods_total_def stock_total_def)
qed

lemma sub_step:
  assumes "cargo_ok s" "Subtract o' g n d s = (Inr x, s1)"
  shows "cash_of s1 = cash_of s" "stock_of s1 = stock_of s"
    "stack_qty s1 = (stack_qty s)((o', g, d) := stack_qty s (o', g, d) - n)" "n \<le> stack_qty s (o', g, d)"
    "goods_everywhere g' s1 = goods_everywhere g' s - (if g' = g then n else 0)"
    "station_goods s1 = station_goods s"
proof -
  from assms have fr: "players s1 = players s" "station_goods s1 = station_goods s"
    and n: "n \<le> stack_qty s (o', g, d)" by (auto simp: Subtract_ok)
  then show "cash_of s1 = cash_of s" "stock_of s1 = stock_of s" "station_goods s1 = station_goods s"
    "n \<le> stack_qty s (o', g, d)" by (simp_all add: books_defs)
  show "stack_qty s1 = (stack_qty s)((o', g, d) := stack_qty s (o', g, d) - n)"
    using stacks.sub_held [of "(o', g, d)" n s x s1] assms by simp
  show "goods_everywhere g' s1 = goods_everywhere g' s - (if g' = g then n else 0)"
    using stacks.sub_total [of s "(o', g, d)" n x s1 g'] assms fr by (simp add: goods_everywhere_def goods_total_def stock_total_def)
qed

lemma award_step:
  assumes "awardTradeReputation p amount s = (Inr x, s1)"
  shows "cash_of s1 = cash_of s" "stock_of s1 = stock_of s" "stack_qty s1 = stack_qty s"
    "goods_everywhere g' s1 = goods_everywhere g' s"
  using awardTradeReputation_frame [OF assms] by (simp_all add: books_defs)

lemma wrap64_neg: "0 \<le> x \<Longrightarrow> x < 2 ^ 63 \<Longrightarrow> wrap64 (- x) = - x"
  by (rule wrap64_id) (simp add: in64_def)

lemma market_stock_bound:
  "market_ok s \<Longrightarrow> map_of (station_goods s) k = Some row \<Longrightarrow>
     0 \<le> mk_stock row \<and> mk_stock row < 2 ^ 63 \<and> mk_max row < 2 ^ 63"
  using market_ok_row [of s k row] by (auto simp: market_row_ok_def in64_def)

lemma unit_pos_sell:
  "market_ok s \<Longrightarrow> map_of (station_goods s) k = Some row \<Longrightarrow> mk_sell row = Some price \<or> mk_buy row = Some price \<Longrightarrow>
     0 < unitPrice bal kind g price stock maxStock"
  using market_ok_row [of s k row] by (intro unitPrice_pos) (auto simp: market_row_ok_def price_ok_def)

section \<open>Properties\<close>





lemma market_rows_mem:
  "market_ok s \<Longrightarrow> e \<in> set (market_rows st s) \<longleftrightarrow>
     (\<exists>g r. map_of (station_goods s) (st, g) = Some r \<and> e = entry_of st g r)"
  by (force simp: market_rows_def market_ok_def dest: map_of_SomeD tbl_wf_map_of)

lemma quoted_price_parts:
  assumes "market_ok s" "Market bal st s = (Inr es, s0)" "e \<in> set es"
  shows "Buy bal p ship st (me_goods e) n s = (Inr r, s') \<Longrightarrow> me_sell e = Some (tr_UnitPrice r)"
    and "Sell bal p ship st (me_goods e) n s = (Inr r, s') \<Longrightarrow> me_buy e = Some (tr_UnitPrice r)"
proof -
  from assms obtain g row where row: "map_of (station_goods s) (st, g) = Some row"
    and e: "me_goods e = g"
      "me_sell e = map_option (\<lambda>p. unitPrice bal (ref_kind st) g p (mk_stock row) (mk_max row)) (mk_sell row)"
      "me_buy e = map_option (\<lambda>p. unitPrice bal (ref_kind st) g p (mk_stock row) (mk_max row)) (mk_buy row)"
    by (auto simp: Market_def ListMarket_def run_simps market_rows_mem entry_of_def Let_def split: if_splits)
  show "Buy bal p ship st (me_goods e) n s = (Inr r, s') \<Longrightarrow> me_sell e = Some (tr_UnitPrice r)"
    using e row by (auto dest!: Buy_ok)
  show "Sell bal p ship st (me_goods e) n s = (Inr r, s') \<Longrightarrow> me_buy e = Some (tr_UnitPrice r)"
    using e row by (auto dest!: Sell_ok)
qed

text \<open>
  The price a market listing quotes is the price a purchase or sale on the same state charges.
\<close>

theorem quoted_price_is_charged:
  assumes "market_ok s" "Market bal st s = (Inr es, s0)" "e \<in> set es"
  shows "(\<forall>r s'. Buy bal p ship st (me_goods e) n s = (Inr r, s') \<longrightarrow> me_sell e = Some (tr_UnitPrice r)) \<and>
    (\<forall>r s'. Sell bal p ship st (me_goods e) n s = (Inr r, s') \<longrightarrow> me_buy e = Some (tr_UnitPrice r))"
  using quoted_price_parts [OF assms] by blast

theorem quoted_price_is_charged_witness:
  "\<exists>e. e \<in> set (projr (fst (Market (Some sample_balance) (EntityRef 2 20) sample_db))) \<and> me_sell e = Some 15"
proof -
  let ?e = "\<lparr>me_owner = EntityRef 2 20, me_goods = 1, me_buy = None, me_sell = Some 15, me_stock = 60, me_max = 100\<rparr>"
  let ?f = "\<lparr>me_owner = EntityRef 2 20, me_goods = 2, me_buy = Some 80, me_sell = None, me_stock = 20, me_max = 100\<rparr>"
  let ?p = "Buy (Some sample_balance) 1 10 (EntityRef 2 20) 1 3 sample_db"
  let ?r = "\<lparr>tr_NewCash = 4955, tr_NewStock = 57, tr_UnitPrice = 15, tr_TotalAmount = 45\<rparr>"
  have ok: "market_ok sample_db"
    and m: "fst (Market (Some sample_balance) (EntityRef 2 20) sample_db) = Inr [?e, ?f]"
    and b: "fst ?p = Inr ?r" by code_simp+
  have "me_sell ?e = Some (tr_UnitPrice ?r)"
    using quoted_price_is_charged [OF ok run_state [OF m], of ?e 1 10 3] run_state [OF b] by simp
  with m show ?thesis by (intro exI [of _ ?e]) simp
qed

section \<open>Robbery\<close>

definition preferred :: "market_entry \<Rightarrow> market_entry \<Rightarrow> bool" where
  "preferred t e \<longleftrightarrow> me_stock e < me_stock t \<or> me_stock e = me_stock t \<and> me_goods t \<le> me_goods e"

lemma preferred_trans: "preferred a b \<Longrightarrow> preferred b c \<Longrightarrow> preferred a c"
  by (auto simp: preferred_def)

lemma richest_from_correct:
  "richest_from es kind pr best = Some (t, b) \<Longrightarrow>
     (best = Some (t, b) \<or> t \<in> set es \<and> hackBasis t kind pr = Some b) \<and>
     (\<forall>e \<in> set es. hackBasis e kind pr \<noteq> None \<longrightarrow> preferred t e) \<and>
     (\<forall>t' b'. best = Some (t', b') \<longrightarrow> preferred t t')"
proof (induction es kind pr best rule: richest_from.induct)
  case (1 kind pr best)
  then show ?case by (auto simp: preferred_def)
next
  case (2 e es kind pr best)
  show ?case
  proof (cases "hackBasis e kind pr")
    case None
    with 2 show ?thesis by auto
  next
    case (Some basis)
    let ?best = "case best of None \<Rightarrow> Some (e, basis)
         | Some (b, bb) \<Rightarrow>
             if me_stock b < me_stock e \<or> me_stock e = me_stock b \<and> me_goods e < me_goods b
             then Some (e, basis) else Some (b, bb)"
    have "\<exists>t' b'. ?best = Some (t', b') \<and> preferred t' e \<and> (\<forall>u c. best = Some (u, c) \<longrightarrow> preferred t' u) \<and>
       (?best = best \<or> ?best = Some (e, basis))"
      by (cases best) (auto simp: preferred_def)
    then obtain t' b' where best': "?best = Some (t', b')" and e: "preferred t' e"
      and u: "\<forall>u c. best = Some (u, c) \<longrightarrow> preferred t' u" and alt: "?best = best \<or> ?best = Some (e, basis)"
      by blast
    from 2 Some best' have ih: "(t', b') = (t, b) \<or> t \<in> set es \<and> hackBasis t kind pr = Some b"
       "\<forall>e \<in> set es. hackBasis e kind pr \<noteq> None \<longrightarrow> preferred t e" "preferred t t'" by simp_all
    have "best = Some (t, b) \<or> t \<in> set (e # es) \<and> hackBasis t kind pr = Some b"
      using ih(1) alt Some unfolding best' by auto
    moreover have "preferred t e" "\<forall>t' b'. best = Some (t', b') \<longrightarrow> preferred t t'"
      using ih(3) e u preferred_trans by blast+
    ultimately show ?thesis using ih(2) by simp
  qed
qed

lemma frac_of_stock:
  assumes "0 \<le> q" "q \<le> 1" "0 \<le> n" "n \<le> 2 ^ 53"
  shows "0 \<le> f_to_int64 (f_mul (Fin q) (f_of_int n)) \<and> f_to_int64 (f_mul (Fin q) (f_of_int n)) \<le> n"
proof -
  have n: "f_of_int n = Fin (of_int n)" using assms by simp
  have lo: "0 \<le> rnd (q * of_int n)" using assms by (intro rnd_nonneg) simp
  have "q * of_int n \<le> of_int n" using assms by (simp add: mult_left_le_one_le)
  from rnd_mono [OF this] have hi: "rnd (q * of_int n) \<le> of_int n" using assms by (simp add: rnd_of_int)
  then have "rnd (q * of_int n) < of_int (2 ^ 1024)" using limit_large [of n] assms by simp
  moreover have fl: "0 \<le> \<lfloor>rnd (q * of_int n)\<rfloor>" "\<lfloor>rnd (q * of_int n)\<rfloor> \<le> n"
    using lo hi by (simp_all add: floor_le_iff)
  moreover have "in64 \<lfloor>rnd (q * of_int n)\<rfloor>"
    by (rule in64_nonneg_le [OF _ fl]) (use assms in \<open>simp add: in64_def\<close>)
  ultimately show ?thesis using lo assms by (auto simp: n mk_float_def Let_def trunc_rat_def)
qed

lemma rob_split_bounds:
  assumes "0 \<le> rf" "rf \<le> 1" "0 \<le> df" "df \<le> 1" "0 \<le> n" "n \<le> 2 ^ 53"
    and "rob_split (Fin rf) (Fin df) n = (robbed, damaged)"
  shows "0 \<le> robbed" "0 \<le> damaged" "robbed + damaged \<le> n" "wrap64 (robbed + damaged) = robbed + damaged"
proof -
  define x y where "x = f_to_int64 (f_mul (Fin rf) (f_of_int n))" and "y = f_to_int64 (f_mul (Fin df) (f_of_int n))"
  have b: "0 \<le> x" "x \<le> n" "0 \<le> y" "y \<le> n"
    using frac_of_stock [of rf n] frac_of_stock [of df n] assms by (auto simp: x_def y_def)
  then have w: "wrap64 (x + y) = x + y" using assms by (intro wrap64_id) (auto simp: in64_def)
  from assms(7) have eq: "robbed = (if n < x + y then 0 else x)" "damaged = y"
    using b unfolding rob_split_def Let_def x_def [symmetric] y_def [symmetric] w by auto
  then show "0 \<le> robbed" "0 \<le> damaged" "robbed + damaged \<le> n" using b by auto
  then show "wrap64 (robbed + damaged) = robbed + damaged"
    using assms by (intro wrap64_id) (auto simp: in64_def)
qed

lemma depositLoot_ok:
  assumes "depositLoot ship g n s = (Inr d, s1)"
  shows "(d \<longrightarrow> Add ship g n 0 s = (Inr (), s1)) \<and> (\<not> d \<longrightarrow> s1 = s)"
  using assms by (auto simp: depositLoot_def AddCargo_def run_simps split: if_splits)

text \<open>
  A robbery hits the fullest robbable shelf of the station (ties by the lower goods id), takes
  and destroys together no more than the shelf holds, removes exactly that much from it, credits
  the hacker's hold with exactly the robbed part if it is delivered, and touches no wallet.
\<close>

theorem rob_takes_from_richest:
  assumes ok: "market_ok s" and frac: "0 \<le> rf" "rf \<le> 1" "0 \<le> df" "df \<le> 1"
    and small: "\<forall>e \<in> set (market_rows st s). me_stock e \<le> 2 ^ 53"
    and run: "Rob st ship (Fin rf) (Fin df) mf dep s = (Inr out, s')"
  shows "\<exists>t. t \<in> set (market_rows st s) \<and> me_goods t = ro_GoodsType out \<and>
    (\<forall>e \<in> set (market_rows st s). ref_kind st \<noteq> EntityKindTradeStation \<longrightarrow> preferred t e) \<and>
    0 \<le> ro_Robbed out \<and> 0 \<le> ro_Damaged out \<and> ro_Robbed out + ro_Damaged out \<le> me_stock t \<and>
    stock_of s' = (stock_of s)((st, me_goods t) := me_stock t - (ro_Robbed out + ro_Damaged out)) \<and>
    stack_qty s' = (stack_qty s)((ship, me_goods t, 0) :=
      stack_qty s (ship, me_goods t, 0) + (if ro_Delivered out then ro_Robbed out else 0)) \<and>
    cash_of s' = cash_of s"
proof -
  from run obtain pr t basis robbed damaged s1 d where
    rich: "richestRobbable (market_rows st s) (ref_kind st) pr = Some (t, basis)" and
    split: "rob_split (Fin rf) (Fin df) (me_stock t) = (robbed, damaged)" and
    adj: "(if 0 < wrap64 (robbed + damaged)
       then bindM (AdjustStock st (me_goods t) (wrap64 (- wrap64 (robbed + damaged)))) (\<lambda>_. returnM ())
       else returnM ()) s = (Inr (), s1)" and
    dep: "(if dep \<and> 0 < robbed then depositLoot ship (me_goods t) robbed else returnM False) s1 = (Inr d, s')" and
    out: "out = \<lparr>ro_GoodsType = me_goods t, ro_Robbed = robbed, ro_Damaged = damaged,
                      ro_Delivered = d, ro_MaxStock = basis\<rparr>"
    by (auto simp: Rob_def RobIn_def ListMarket_def ProductionRefMaxes_def run_simps Let_def
        split: if_splits prod.splits)
  from richest_from_correct [OF rich [unfolded richestRobbable_def]]
  have t: "t \<in> set (market_rows st s)"
    and best: "\<forall>e \<in> set (market_rows st s). hackBasis e (ref_kind st) pr \<noteq> None \<longrightarrow> preferred t e" by auto
  from t ok obtain row where row: "map_of (station_goods s) (st, me_goods t) = Some row" "me_stock t = mk_stock row"
    by (auto simp: market_rows_mem entry_of_def)
  have stk: "stock_of s (st, me_goods t) = me_stock t" "0 \<le> me_stock t" "me_stock t \<le> 2 ^ 53"
    using row market_stock_bound [OF ok row(1)] small t by (auto simp: stock_of_def)
  note b = rob_split_bounds [OF frac stk(2,3) split]
  have w: "wrap64 (- (robbed + damaged)) = - (robbed + damaged)"
    using b stk by (intro wrap64_id) (auto simp: in64_def)
  have s1: "stock_of s1 = (stock_of s)((st, me_goods t) := me_stock t - (robbed + damaged))"
    "stack_qty s1 = stack_qty s" "cash_of s1 = cash_of s"
  proof -
    consider "robbed + damaged = 0" "s1 = s"
      | m where "AdjustStock st (me_goods t) (- (robbed + damaged)) s = (Inr m, s1)"
      using adj b w by (auto simp: run_simps split: if_splits)
    then have "stock_of s1 = (stock_of s)((st, me_goods t) := me_stock t - (robbed + damaged)) \<and>
      stack_qty s1 = stack_qty s \<and> cash_of s1 = cash_of s"
    proof cases
      case 1
      with stk(1) show ?thesis by (auto simp: fun_eq_iff)
    next
      case 2
      from stock_step(1,2,3,5) [OF 2] stk(1) show ?thesis by simp
    qed
    then show "stock_of s1 = (stock_of s)((st, me_goods t) := me_stock t - (robbed + damaged))"
      "stack_qty s1 = stack_qty s" "cash_of s1 = cash_of s" by simp_all
  qed
  have s': "stock_of s' = stock_of s1" "cash_of s' = cash_of s1"
    "stack_qty s' = (stack_qty s1)((ship, me_goods t, 0) :=
       stack_qty s1 (ship, me_goods t, 0) + (if d then robbed else 0))"
    using dep add_step(1-3) [of ship "me_goods t" robbed 0 s1 "()" s']
    by (auto simp: run_simps dest!: depositLoot_ok split: if_splits)
  have "\<forall>e \<in> set (market_rows st s). ref_kind st \<noteq> EntityKindTradeStation \<longrightarrow> preferred t e"
    using best by (simp add: hackBasis_def)
  then show ?thesis using t b s' s1 out by (intro exI [of _ t]) simp
qed

theorem rob_takes_from_richest_witness:
  "stock_of (snd (Rob (EntityRef 2 20) (EntityRef 1 10) (Fin (1/8)) (Fin (1/16)) (Fin (1/8)) True sample_db))
     (EntityRef 2 20, 1) = 50"
proof -
  let ?p = "Rob (EntityRef 2 20) (EntityRef 1 10) (Fin (1/8)) (Fin (1/16)) (Fin (1/8)) True sample_db"
  let ?o = "\<lparr>ro_GoodsType = 1, ro_Robbed = 7, ro_Damaged = 3, ro_Delivered = True, ro_MaxStock = 100\<rparr>"
  have ok: "market_ok sample_db" and small: "\<forall>e \<in> set (market_rows (EntityRef 2 20) sample_db). me_stock e \<le> 2 ^ 53"
    and run: "fst ?p = Inr ?o" by code_simp+
  have rows: "\<forall>t \<in> set (market_rows (EntityRef 2 20) sample_db). me_goods t = 1 \<longrightarrow> me_stock t = 60" by code_simp
  from rob_takes_from_richest [OF ok _ _ _ _ small run_state [OF run]] rows show ?thesis by auto
qed

end
