(* ===== verification/AuctionRepo.thy ===== *)
theory AuctionRepo
  imports CargoRepo
begin

text \<open>
  \<open>internal/persistence/auction/repo.go\<close>: the auction lots, the bid audit trail and the search
  for a delivery ship. \<open>FOR UPDATE\<close> has no counterpart: transactions are serial here.
\<close>

section \<open>Operations\<close>

type_synonym lot = "int \<times> lot_row"

abbreviation (input) StatusActive :: int where "StatusActive \<equiv> 0"
abbreviation (input) StatusClosed :: int where "StatusClosed \<equiv> 1"
abbreviation (input) StatusCancelled :: int where "StatusCancelled \<equiv> 2"

definition auction_LoadShipDock :: "int \<Rightarrow> ship_dock dbm" where
  "auction_LoadShipDock shipID = bindM (query (\<lambda>s. map_of (ships s) shipID)) (\<lambda>row. case row of
       None \<Rightarrow> failM (EAuctionRepo AR_ErrShipNotFound)
     | Some r \<Rightarrow> returnM \<lparr>dock_player = sh_player r, dock_docked = docked_ref r\<rparr>)"

text \<open>The column checks and foreign keys of \<open>auction_lots\<close>.\<close>

definition lot_checks :: "lot_row \<Rightarrow> db \<Rightarrow> pg_error option" where
  "lot_checks l s =
     (if \<not> 0 < lot_quantity l then Some (CheckViolation ''auction_lots_quantity_check'')
      else if \<not> 0 < lot_start_price l then Some (CheckViolation ''auction_lots_start_price_check'')
      else if \<not> 0 < lot_price l then Some (CheckViolation ''auction_lots_current_price_check'')
      else if lot_status l \<notin> {0, 1, 2} then Some (CheckViolation ''auction_lots_status_check'')
      else if lot_price l < lot_start_price l then Some (CheckViolation ''auction_lots_check'')
      else if lot_bidder l = Some (lot_seller l) then Some (CheckViolation ''auction_lots_check1'')
      else if map_of (players s) (lot_seller l) = None then Some (ForeignKeyViolation ''auction_lots_seller_id_fkey'')
      else if map_of (goods_types s) (lot_goods l) = None
        then Some (ForeignKeyViolation ''auction_lots_goods_type_id_fkey'')
      else (case lot_bidder l of
          None \<Rightarrow> None
        | Some b \<Rightarrow> if map_of (players s) b = None
            then Some (ForeignKeyViolation ''auction_lots_current_bidder_id_fkey'') else None))"

definition put_lot :: "int \<Rightarrow> lot_row \<Rightarrow> db \<Rightarrow> db" where
  "put_lot i l s = s\<lparr>auction_lots := AList.update i l (auction_lots s)\<rparr>"

definition createLotSQL :: "int \<Rightarrow> int \<Rightarrow> int \<Rightarrow> entity_ref \<Rightarrow> int \<Rightarrow> int \<Rightarrow> db \<Rightarrow> pg_error + (lot \<times> db)" where
  "createLotSQL seller gtype quantity source startPrice endsAt s =
     (let i = seq_lot s;
          l = \<lparr>lot_seller = seller, lot_goods = gtype, lot_quantity = quantity, lot_source = source,
               lot_start_price = startPrice, lot_price = startPrice, lot_bidder = None, lot_ends = endsAt,
               lot_status = StatusActive, lot_created = db_now s\<rparr>
      in case lot_checks l s of
           Some e \<Rightarrow> Inl e
         | None \<Rightarrow>
             if map_of (auction_lots s) i \<noteq> None then Inl (UniqueViolation ''auction_lots_pkey'')
             else Inr ((i, l), (put_lot i l s)\<lparr>seq_lot := i + 1\<rparr>))"

definition CreateLot :: "int \<Rightarrow> int \<Rightarrow> int \<Rightarrow> entity_ref \<Rightarrow> int \<Rightarrow> int \<Rightarrow> lot dbm" where
  "CreateLot seller gtype quantity source startPrice endsAt =
     sql (createLotSQL seller gtype quantity source startPrice endsAt)"

definition GetLot :: "int \<Rightarrow> lot dbm" where
  "GetLot i = bindM (query (\<lambda>s. map_of (auction_lots s) i)) (\<lambda>row. case row of
       None \<Rightarrow> failM (EAuctionRepo AR_ErrLotNotFound)
     | Some l \<Rightarrow> returnM (i, l))"

definition LockLot :: "int \<Rightarrow> lot dbm" where
  "LockLot i = bindM (GetLot i) (\<lambda>(i, l).
     if lot_status l \<noteq> StatusActive then failM (EAuctionRepo AR_ErrLotNotActive) else returnM (i, l))"

text \<open>\<open>ORDER BY ends_at, id\<close>; newest first for the participant's list.\<close>

definition ListActive :: "lot list dbm" where
  "ListActive = query (\<lambda>s. sort_key (\<lambda>(i, l). lot_ends l) (sort_key fst
     (filter (\<lambda>(i, l). lot_status l = StatusActive) (auction_lots s))))"

definition ListByParticipant :: "int \<Rightarrow> nat \<Rightarrow> lot list dbm" where
  "ListByParticipant player limit = query (\<lambda>s. take limit (sort_key (\<lambda>(i, l). - lot_created l)
     (filter (\<lambda>(i, l). lot_seller l = player \<or> lot_bidder l = Some player) (auction_lots s))))"

definition due_lots :: "int \<Rightarrow> nat \<Rightarrow> db \<Rightarrow> int list" where
  "due_lots now limit s = take limit (map fst (sort_key (\<lambda>(i, l). lot_ends l) (sort_key fst
     (filter (\<lambda>(i, l). lot_status l = StatusActive \<and> lot_ends l \<le> now) (auction_lots s)))))"

definition ListDue :: "int \<Rightarrow> nat \<Rightarrow> int list dbm" where
  "ListDue now limit = query (due_lots now limit)"

text \<open>An \<open>UPDATE\<close> of one lot by id: the checks apply to the new row; no row is not an error of SQL.\<close>

definition updateLotSQL :: "int \<Rightarrow> (lot_row \<Rightarrow> lot_row) \<Rightarrow> db \<Rightarrow> pg_error + (bool \<times> db)" where
  "updateLotSQL i f s = (case map_of (auction_lots s) i of
       None \<Rightarrow> Inr (False, s)
     | Some l \<Rightarrow> (case lot_checks (f l) s of
         Some e \<Rightarrow> Inl e
       | None \<Rightarrow> Inr (True, put_lot i (f l) s)))"

definition UpdateBid :: "int \<Rightarrow> int \<Rightarrow> int \<Rightarrow> unit dbm" where
  "UpdateBid lotID newPrice bidder =
     bindM (sql (updateLotSQL lotID (\<lambda>l. l\<lparr>lot_price := newPrice, lot_bidder := Some bidder\<rparr>)))
       (\<lambda>found. checkM found (EAuctionRepo AR_ErrLotNotFound))"

definition InsertBid :: "int \<Rightarrow> int \<Rightarrow> int \<Rightarrow> unit dbm" where
  "InsertBid lotID bidder amount = sql (\<lambda>s.
     if \<not> 0 < amount then Inl (CheckViolation ''auction_bids_amount_check'')
     else if map_of (auction_lots s) lotID = None then Inl (ForeignKeyViolation ''auction_bids_lot_id_fkey'')
     else if map_of (players s) bidder = None then Inl (ForeignKeyViolation ''auction_bids_bidder_id_fkey'')
     else Inr ((), s\<lparr>auction_bids := auction_bids s @ [\<lparr>bid_lot = lotID, bid_bidder = bidder, bid_amount = amount\<rparr>]\<rparr>))"

text \<open>
  The docked ships of the buyer, by id, whose free space covers the requirement. The space
  column of every candidate is computed, so an overflow in one of them fails the statement.
\<close>

fun deliveryShips :: "(int \<times> ship_row) list \<Rightarrow> db \<Rightarrow> float64 \<Rightarrow> pg_error + int list" where
  "deliveryShips [] s required = Inr []"
| "deliveryShips ((i, r) # rs) s required =
     (case usedSpaceSQL (goods_types s) (EntityRef EntityKindShip i) (cargo s) (Fin 0) of
        Inl e \<Rightarrow> Inl e
      | Inr used \<Rightarrow>
          (case pg_float8 (sh_cargobay r) used (f_sub (sh_cargobay r) used) of
             Inl e \<Rightarrow> Inl e
           | Inr free \<Rightarrow>
               (case deliveryShips rs s required of
                  Inl e \<Rightarrow> Inl e
                | Inr ids \<Rightarrow> Inr (if f_le required free then i # ids else ids))))"

definition FindDeliveryShip :: "int \<Rightarrow> float64 \<Rightarrow> int option dbm" where
  "FindDeliveryShip buyer required = sql (\<lambda>s.
     case deliveryShips (sort_key fst (filter (\<lambda>(i, r). sh_player r = buyer \<and> sh_docked_kind r \<noteq> None) (ships s)))
       s required of
       Inl e \<Rightarrow> Inl e
     | Inr ids \<Rightarrow> Inr (case ids of [] \<Rightarrow> None | i # _ \<Rightarrow> Some i, s))"

definition SetStatus :: "int \<Rightarrow> int \<Rightarrow> unit dbm" where
  "SetStatus lotID status =
     bindM (sql (updateLotSQL lotID (\<lambda>l. l\<lparr>lot_status := status\<rparr>)))
       (\<lambda>found. checkM found (EAuctionRepo AR_ErrLotNotFound))"

section \<open>Their effect\<close>

lemma put_lot_simps [simp]:
  "tx_aborted (put_lot i l s) = tx_aborted s"
  "players (put_lot i l s) = players s"
  "ships (put_lot i l s) = ships s"
  "goods_types (put_lot i l s) = goods_types s"
  "cargo (put_lot i l s) = cargo s"
  "station_goods (put_lot i l s) = station_goods s"
  "auction_lots (put_lot i l s) = AList.update i l (auction_lots s)"
  by (simp_all add: put_lot_def)

lemma LockLot_ok [run_simps]:
  "LockLot i s = (Inr r, s') \<longleftrightarrow> \<not> tx_aborted s \<and> s' = s \<and>
     (\<exists>l. map_of (auction_lots s) i = Some l \<and> lot_status l = StatusActive \<and> r = (i, l))"
  by (auto simp: LockLot_def GetLot_def run_simps split: option.splits if_splits)

lemma LockLot_err:
  "LockLot i s = (Inl e, s') \<longleftrightarrow> s' = s \<and>
     (if tx_aborted s then e = EPg InFailedTransaction
      else case map_of (auction_lots s) i of
        None \<Rightarrow> e = EAuctionRepo AR_ErrLotNotFound
      | Some l \<Rightarrow> lot_status l \<noteq> StatusActive \<and> e = EAuctionRepo AR_ErrLotNotActive)"
  by (auto simp: LockLot_def GetLot_def bindM_err query_err run_simps split: option.splits if_splits)

lemma UpdateBid_ok [run_simps]:
  "UpdateBid i p b s = (Inr x, s') \<longleftrightarrow> \<not> tx_aborted s \<and>
     (\<exists>l. map_of (auction_lots s) i = Some l \<and> lot_checks (l\<lparr>lot_price := p, lot_bidder := Some b\<rparr>) s = None \<and>
        s' = put_lot i (l\<lparr>lot_price := p, lot_bidder := Some b\<rparr>) s)"
  by (auto simp: UpdateBid_def updateLotSQL_def run_simps split: option.splits)

lemma SetStatus_ok [run_simps]:
  "SetStatus i st s = (Inr x, s') \<longleftrightarrow> \<not> tx_aborted s \<and>
     (\<exists>l. map_of (auction_lots s) i = Some l \<and> lot_checks (l\<lparr>lot_status := st\<rparr>) s = None \<and>
        s' = put_lot i (l\<lparr>lot_status := st\<rparr>) s)"
  by (auto simp: SetStatus_def updateLotSQL_def run_simps split: option.splits)

lemma SetStatus_aborted: "tx_aborted s \<Longrightarrow> SetStatus i st s = (Inl (EPg InFailedTransaction), s)"
  by (simp add: SetStatus_def bindM_def sql_def)

lemma InsertBid_ok [run_simps]:
  "InsertBid i b a s = (Inr x, s') \<longleftrightarrow> \<not> tx_aborted s \<and> 0 < a \<and> map_of (auction_lots s) i \<noteq> None \<and>
     map_of (players s) b \<noteq> None \<and>
     s' = s\<lparr>auction_bids := auction_bids s @ [\<lparr>bid_lot = i, bid_bidder = b, bid_amount = a\<rparr>]\<rparr>"
  by (auto simp: InsertBid_def run_simps split: if_splits)

lemma CreateLot_ok [run_simps]:
  "CreateLot seller g n src price ends s = (Inr r, s') \<longleftrightarrow> \<not> tx_aborted s \<and>
     createLotSQL seller g n src price ends s = Inr (r, s')"
  by (simp add: CreateLot_def run_simps)

lemma FindDeliveryShip_ok:
  "FindDeliveryShip b q s = (Inr r, s') \<Longrightarrow> \<not> tx_aborted s \<and> s' = s"
  by (auto simp: FindDeliveryShip_def run_simps split: sum.splits)

lemma auction_LoadShipDock_ok [run_simps]:
  "auction_LoadShipDock i s = (Inr d, s') \<longleftrightarrow> \<not> tx_aborted s \<and> s' = s \<and>
     (\<exists>r. map_of (ships s) i = Some r \<and> d = \<lparr>dock_player = sh_player r, dock_docked = docked_ref r\<rparr>)"
  by (auto simp: auction_LoadShipDock_def run_simps split: option.splits)

text \<open>The money held in escrow for the leading bids, and the goods held by the lots.\<close>

definition lot_escrow :: "lot_row \<Rightarrow> int" where
  "lot_escrow l = (if lot_status l = StatusActive \<and> lot_bidder l \<noteq> None then lot_price l else 0)"

definition lot_holds :: "int \<Rightarrow> lot_row \<Rightarrow> int" where
  "lot_holds g l = (if lot_status l = StatusActive \<and> lot_goods l = g then lot_quantity l else 0)"

definition escrow :: "db \<Rightarrow> int" where
  "escrow s = tsum (\<lambda>_. lot_escrow) (auction_lots s)"

definition goods_in_lots :: "int \<Rightarrow> db \<Rightarrow> int" where
  "goods_in_lots g s = tsum (\<lambda>_. lot_holds g) (auction_lots s)"

lemma escrow_put_lot:
  "map_of (auction_lots s) i = Some l \<Longrightarrow> escrow (put_lot i l' s) = escrow s - lot_escrow l + lot_escrow l'"
  by (simp add: escrow_def tsum_table)

lemma goods_in_lots_put_lot:
  "map_of (auction_lots s) i = Some l \<Longrightarrow>
     goods_in_lots g (put_lot i l' s) = goods_in_lots g s - lot_holds g l + lot_holds g l'"
  by (simp add: goods_in_lots_def tsum_table)

end
