(* ===== verification/Auction.thy ===== *)
theory Auction
  imports AuctionRepo
begin

text \<open>
  \<open>internal/economy/auction\<close>: creating a lot, bidding with escrow, settling a lot, and the background
  closer. The clock is the argument \<open>now\<close>; the error of \<open>deliverToBuyer\<close> for a missing ship is
  \<open>AU_NoDeliveryShip\<close>.
\<close>

section \<open>Operations\<close>

abbreviation (input) MinDuration :: int where "MinDuration \<equiv> 60 * 1000000"
abbreviation (input) MaxDuration :: int where "MaxDuration \<equiv> 7 * 24 * 3600 * 1000000"

definition requireDocked :: "int \<Rightarrow> int \<Rightarrow> unit dbm" where
  "requireDocked playerID shipID =
     bindM (mapErr (\<lambda>e. if e = EAuctionRepo AR_ErrShipNotFound then EAuction AU_ErrShipNotFound else e)
       (auction_LoadShipDock shipID)) (\<lambda>dock.
     bindM (checkM (dock_player dock = playerID) (EAuction AU_ErrForbidden)) (\<lambda>_.
     checkM (dock_docked dock \<noteq> None) (EAuction AU_ErrNotDocked)))"

record create_params =
  cp_Seller :: int
  cp_Source :: entity_ref
  cp_GoodsType :: int
  cp_Quantity :: int
  cp_StartPrice :: int
  cp_Duration :: int

definition auction_Create :: "int \<Rightarrow> create_params \<Rightarrow> lot dbm" where
  "auction_Create now p =
     bindM (checkM (0 < cp_Quantity p) (EAuction AU_ErrInvalidQuantity)) (\<lambda>_.
     bindM (checkM (0 < cp_StartPrice p) (EAuction AU_ErrInvalidStartPrice)) (\<lambda>_.
     bindM (checkM (MinDuration \<le> cp_Duration p \<and> cp_Duration p \<le> MaxDuration) (EAuction AU_ErrInvalidDuration)) (\<lambda>_.
     tx_do (
       bindM (if ref_kind (cp_Source p) = EntityKindShip
         then requireDocked (cp_Seller p) (ref_id (cp_Source p)) else returnM ()) (\<lambda>_.
       bindM (mapErr (\<lambda>e. if e = ECargoRepo CR_ErrInsufficientQuantity then EAuction AU_ErrInsufficientCargo else e)
         (Subtract (cp_Source p) (cp_GoodsType p) (cp_Quantity p) 0)) (\<lambda>_.
       CreateLot (cp_Seller p) (cp_GoodsType p) (cp_Quantity p) (cp_Source p) (cp_StartPrice p)
         (now + cp_Duration p)))))))"

record bid_result =
  br_NewPrice :: int
  br_NewLeader :: bool

definition Bid :: "int \<Rightarrow> int \<Rightarrow> int \<Rightarrow> int \<Rightarrow> int \<Rightarrow> bid_result dbm" where
  "Bid now bidder shipID lotID amount =
     bindM (checkM (0 < amount) (EAuction AU_ErrBidTooLow)) (\<lambda>_.
     tx_do (
       bindM (requireDocked bidder shipID) (\<lambda>_.
       bindM (LockLot lotID) (\<lambda>(_, lot).
       bindM (checkM (lot_seller lot \<noteq> bidder) (EAuction AU_ErrSellerBid)) (\<lambda>_.
       bindM (checkM (now < lot_ends lot) (EAuction AU_ErrLotNotActive)) (\<lambda>_.
       bindM (checkM (lot_price lot < amount) (EAuction AU_ErrBidTooLow)) (\<lambda>_.
       bindM (mapErr (\<lambda>e. if e = EPlayers Players_ErrInsufficientCash then EAuction AU_ErrInsufficientCash else e)
         (AdjustCash bidder (wrap64 (- amount)))) (\<lambda>_.
       bindM (case lot_bidder lot of
           None \<Rightarrow> returnM ()
         | Some prev \<Rightarrow> bindM (AdjustCash prev (lot_price lot)) (\<lambda>_. returnM ())) (\<lambda>_.
       bindM (UpdateBid lotID amount bidder) (\<lambda>_.
       bindM (InsertBid lotID bidder amount) (\<lambda>_.
       returnM \<lparr>br_NewPrice = amount, br_NewLeader = True\<rparr>)))))))))))"

definition refundSeller :: "lot_row \<Rightarrow> unit dbm" where
  "refundSeller lot = Add (lot_source lot) (lot_goods lot) (lot_quantity lot) 0"

definition deliverToBuyer :: "lot_row \<Rightarrow> int \<Rightarrow> unit dbm" where
  "deliverToBuyer lot buyer =
     bindM (GoodsType (lot_goods lot)) (\<lambda>gt.
     bindM (FindDeliveryShip buyer (f_mul (f_of_int (lot_quantity lot)) (gt_space gt))) (\<lambda>ship.
     case ship of
       None \<Rightarrow> failM (EAuction AU_NoDeliveryShip)
     | Some shipID \<Rightarrow> Add (EntityRef EntityKindShip shipID) (lot_goods lot) (lot_quantity lot) 0))"

text \<open>The body of \<open>Close\<close> once the lot is locked.\<close>

definition closeUnsold :: "int \<Rightarrow> lot_row \<Rightarrow> unit dbm" where
  "closeUnsold lotID lot = bindM (tryM (refundSeller lot)) (\<lambda>_. SetStatus lotID StatusCancelled)"

definition closeBidden :: "int \<Rightarrow> lot_row \<Rightarrow> int \<Rightarrow> unit dbm" where
  "closeBidden lotID lot buyer =
     bindM (tryM (deliverToBuyer lot buyer)) (\<lambda>delivered.
     case delivered of
       Inl _ \<Rightarrow>
         bindM (AdjustCash buyer (lot_price lot)) (\<lambda>_.
         bindM (refundSeller lot) (\<lambda>_.
         SetStatus lotID StatusClosed))
     | Inr _ \<Rightarrow>
         bindM (AdjustCash (lot_seller lot) (lot_price lot)) (\<lambda>_.
         SetStatus lotID StatusClosed))"

definition Close :: "int \<Rightarrow> unit dbm" where
  "Close lotID =
     tx_do (
       bindM (tryM (LockLot lotID)) (\<lambda>locked.
       case locked of
         Inl e \<Rightarrow>
           if e = EAuctionRepo AR_ErrLotNotActive then returnM ()
           else if e = EAuctionRepo AR_ErrLotNotFound then failM (EAuction AU_ErrLotNotFound)
           else failM e
       | Inr (_, lot) \<Rightarrow>
           (case lot_bidder lot of
              None \<Rightarrow> closeUnsold lotID lot
            | Some buyer \<Rightarrow> closeBidden lotID lot buyer)))"

definition svc_ListActive :: "lot list dbm" where
  "svc_ListActive = tx_do ListActive"

definition MyLots :: "int \<Rightarrow> lot list dbm" where
  "MyLots player = tx_do (ListByParticipant player 100)"

definition DueLots :: "int \<Rightarrow> nat \<Rightarrow> int list dbm" where
  "DueLots now limit = tx_do (ListDue now limit)"

text \<open>One pass of the closer: errors are logged and skipped.\<close>

abbreviation (input) CloserBatch :: nat where "CloserBatch \<equiv> 100"

definition closeAll :: "int list \<Rightarrow> unit dbm" where
  "closeAll ids = forM ids (\<lambda>i. bindM (tryM (Close i)) (\<lambda>_. returnM ()))"

definition closer_Tick :: "int \<Rightarrow> unit dbm" where
  "closer_Tick now =
     bindM (tryM (DueLots now CloserBatch)) (\<lambda>due. case due of
       Inl _ \<Rightarrow> returnM ()
     | Inr ids \<Rightarrow> closeAll ids)"

section \<open>Accounting\<close>

text \<open>All credits, in wallets and in escrow; all units of a good, in holds and in lots.\<close>

definition auction_money :: "db \<Rightarrow> int" where
  "auction_money s = total_cash s + escrow s"

definition auction_goods :: "int \<Rightarrow> db \<Rightarrow> int" where
  "auction_goods g s = goods_total g s + goods_in_lots g s"

lemmas auction_defs = auction_money_def auction_goods_def

lemma cash_acct:
  assumes "AdjustCash p d s = (Inr c, s1)"
  shows "auction_money s1 = auction_money s + d" "auction_goods g s1 = auction_goods g s"
    "auction_lots s1 = auction_lots s" "tx_aborted s1 = tx_aborted s" "goods_types s1 = goods_types s"
    "cargo s1 = cargo s"
proof -
  from assms show fr: "auction_lots s1 = auction_lots s" "tx_aborted s1 = tx_aborted s" "goods_types s1 = goods_types s"
    "cargo s1 = cargo s" by (auto simp: AdjustCash_ok)
  then show "auction_money s1 = auction_money s + d" "auction_goods g s1 = auction_goods g s"
    using cash.adjust_total [OF assms] by (simp_all add: auction_defs escrow_def goods_in_lots_def goods_total_def)
qed

lemma add_acct:
  assumes "Add o' g n d s = (Inr x, s1)"
  shows "auction_money s1 = auction_money s" "auction_goods g' s1 = auction_goods g' s + (if g' = g then n else 0)"
    "auction_lots s1 = auction_lots s" "tx_aborted s1 = tx_aborted s" "players s1 = players s"
proof -
  from assms show fr: "auction_lots s1 = auction_lots s" "tx_aborted s1 = tx_aborted s" "players s1 = players s"
    by (auto simp: Add_ok)
  then show "auction_money s1 = auction_money s" "auction_goods g' s1 = auction_goods g' s + (if g' = g then n else 0)"
    using stacks.add_total [of "(o', g, d)" n s x s1 g'] assms
    by (simp_all add: auction_defs total_cash_def escrow_def goods_in_lots_def)
qed

lemma sub_acct:
  assumes "cargo_ok s" "Subtract o' g n d s = (Inr x, s1)"
  shows "auction_money s1 = auction_money s" "auction_goods g' s1 = auction_goods g' s - (if g' = g then n else 0)"
    "auction_lots s1 = auction_lots s"
proof -
  from assms have "players s1 = players s" by (auto simp: Subtract_ok)
  moreover from assms show "auction_lots s1 = auction_lots s" by (auto simp: Subtract_ok)
  ultimately show "auction_money s1 = auction_money s"
    "auction_goods g' s1 = auction_goods g' s - (if g' = g then n else 0)"
    using stacks.sub_total [of s "(o', g, d)" n x s1 g'] assms
    by (simp_all add: auction_defs total_cash_def escrow_def goods_in_lots_def)
qed

lemma put_lot_acct:
  "map_of (auction_lots s) i = Some l \<Longrightarrow>
     auction_money (put_lot i l' s) = auction_money s - lot_escrow l + lot_escrow l'"
  "map_of (auction_lots s) i = Some l \<Longrightarrow>
     auction_goods g (put_lot i l' s) = auction_goods g s - lot_holds g l + lot_holds g l'"
  by (simp_all add: auction_defs escrow_put_lot goods_in_lots_put_lot total_cash_def goods_total_def)

lemma create_acct:
  assumes "CreateLot seller g n src price ends s = (Inr (i, l), s1)"
  shows "auction_money s1 = auction_money s" "auction_goods g' s1 = auction_goods g' s + (if g' = g then n else 0)"
    "map_of (auction_lots s) i = None" "auction_lots s1 = AList.update i l (auction_lots s)" "i = seq_lot s"
    "l = \<lparr>lot_seller = seller, lot_goods = g, lot_quantity = n, lot_source = src, lot_start_price = price,
      lot_price = price, lot_bidder = None, lot_ends = ends, lot_status = StatusActive, lot_created = db_now s\<rparr>"
proof -
  from assms have l: "l = \<lparr>lot_seller = seller, lot_goods = g, lot_quantity = n, lot_source = src, lot_start_price = price,
      lot_price = price, lot_bidder = None, lot_ends = ends, lot_status = StatusActive, lot_created = db_now s\<rparr>"
    and s1: "s1 = (put_lot i l s)\<lparr>seq_lot := i + 1\<rparr>" and new: "map_of (auction_lots s) i = None" "i = seq_lot s"
    by (auto simp: run_simps createLotSQL_def Let_def split: option.splits if_splits)
  show "map_of (auction_lots s) i = None" "i = seq_lot s" by (fact new)+
  show "auction_lots s1 = AList.update i l (auction_lots s)" by (simp add: s1)
  show "l = \<lparr>lot_seller = seller, lot_goods = g, lot_quantity = n, lot_source = src, lot_start_price = price,
      lot_price = price, lot_bidder = None, lot_ends = ends, lot_status = StatusActive, lot_created = db_now s\<rparr>"
    by (fact l)
  have "auction_lots s1 = AList.update i l (auction_lots s)" "players s1 = players s" "cargo s1 = cargo s"
    by (simp_all add: s1)
  then show "auction_money s1 = auction_money s" "auction_goods g' s1 = auction_goods g' s + (if g' = g then n else 0)"
    using new by (auto simp: auction_defs total_cash_def goods_total_def escrow_def goods_in_lots_def tsum_table l
        lot_escrow_def lot_holds_def)
qed

section \<open>What the operations do\<close>

lemma requireDocked_ok [run_simps]:
  "requireDocked p ship s = (Inr x, s') \<longleftrightarrow> \<not> tx_aborted s \<and> s' = s \<and>
     (\<exists>r. map_of (ships s) ship = Some r \<and> sh_player r = p \<and> docked_ref r \<noteq> None)"
  by (auto simp: requireDocked_def run_simps)

lemma Create_ok:
  assumes "auction_Create now p s = (Inr r, s')"
  shows "\<exists>s1. Subtract (cp_Source p) (cp_GoodsType p) (cp_Quantity p) 0 s = (Inr (), s1) \<and>
     CreateLot (cp_Seller p) (cp_GoodsType p) (cp_Quantity p) (cp_Source p) (cp_StartPrice p)
         (now + cp_Duration p) s1 = (Inr r, s') \<and>
     (ref_kind (cp_Source p) = EntityKindShip \<longrightarrow>
        (\<exists>sh. map_of (ships s) (ref_id (cp_Source p)) = Some sh \<and> sh_player sh = cp_Seller p \<and> docked_ref sh \<noteq> None))"
  using assms by (auto simp: auction_Create_def run_simps simp del: CreateLot_ok split: if_splits)

lemma Bid_ok:
  assumes "Bid now b ship i amount s = (Inr r, s')"
  shows "\<exists>l sh s1 s2 x. 0 < amount \<and> map_of (ships s) ship = Some sh \<and> sh_player sh = b \<and> docked_ref sh \<noteq> None \<and>
     map_of (auction_lots s) i = Some l \<and> lot_status l = StatusActive \<and> lot_seller l \<noteq> b \<and> now < lot_ends l \<and>
     lot_price l < amount \<and> AdjustCash b (wrap64 (- amount)) s = (Inr x, s1) \<and>
     (case lot_bidder l of None \<Rightarrow> s2 = s1 | Some prev \<Rightarrow> (\<exists>y. AdjustCash prev (lot_price l) s1 = (Inr y, s2))) \<and>
     s' = (put_lot i (l\<lparr>lot_price := amount, lot_bidder := Some b\<rparr>) s2)
       \<lparr>auction_bids := auction_bids s2 @ [\<lparr>bid_lot = i, bid_bidder = b, bid_amount = amount\<rparr>]\<rparr>"
proof -
  from assms obtain l sh s1 s2 x l2 where a: "0 < amount" "map_of (ships s) ship = Some sh" "sh_player sh = b"
    "docked_ref sh \<noteq> None" "map_of (auction_lots s) i = Some l" "lot_status l = StatusActive" "lot_seller l \<noteq> b"
    "now < lot_ends l" "lot_price l < amount" "AdjustCash b (wrap64 (- amount)) s = (Inr x, s1)"
    "(case lot_bidder l of None \<Rightarrow> returnM ()
         | Some prev \<Rightarrow> bindM (AdjustCash prev (lot_price l)) (\<lambda>_. returnM ())) s1 = (Inr (), s2)"
    "map_of (auction_lots s2) i = Some l2"
    "s' = (put_lot i (l2\<lparr>lot_price := amount, lot_bidder := Some b\<rparr>) s2)
       \<lparr>auction_bids := auction_bids s2 @ [\<lparr>bid_lot = i, bid_bidder = b, bid_amount = amount\<rparr>]\<rparr>"
    by (auto simp: Bid_def run_simps put_lot_def)
  have 2: "case lot_bidder l of None \<Rightarrow> s2 = s1 | Some prev \<Rightarrow> (\<exists>y. AdjustCash prev (lot_price l) s1 = (Inr y, s2))"
    using a(11) by (auto simp: run_simps split: option.splits)
  then have "auction_lots s2 = auction_lots s" using cash_acct(3) [OF a(10)] cash_acct(3) by (auto split: option.splits)
  with a have "l2 = l" by simp
  with a 2 show ?thesis by blast
qed

text \<open>The three ways an active lot \<open>l\<close> is settled.\<close>

inductive settles :: "int \<Rightarrow> lot_row \<Rightarrow> db \<Rightarrow> db \<Rightarrow> bool" where
  cancelled: "lot_bidder l = None \<Longrightarrow> refundSeller l s = (Inr (), s1) \<Longrightarrow>
    settles i l s (put_lot i (l\<lparr>lot_status := StatusCancelled\<rparr>) s1)"
| sold: "lot_bidder l = Some b \<Longrightarrow> deliverToBuyer l b s = (Inr (), s1) \<Longrightarrow>
    AdjustCash (lot_seller l) (lot_price l) s1 = (Inr c, s2) \<Longrightarrow>
    settles i l s (put_lot i (l\<lparr>lot_status := StatusClosed\<rparr>) s2)"
| no_sale: "lot_bidder l = Some b \<Longrightarrow> deliverToBuyer l b s = (Inl e, s) \<Longrightarrow>
    AdjustCash b (lot_price l) s = (Inr c, s1) \<Longrightarrow> refundSeller l s1 = (Inr (), s2) \<Longrightarrow>
    settles i l s (put_lot i (l\<lparr>lot_status := StatusClosed\<rparr>) s2)"

lemma deliverToBuyer_ok:
  "deliverToBuyer l b s = (Inr x, s') \<Longrightarrow>
     \<exists>ship. Add (EntityRef EntityKindShip ship) (lot_goods l) (lot_quantity l) 0 s = (Inr (), s')"
  by (auto simp: deliverToBuyer_def run_simps dest!: FindDeliveryShip_ok)

lemma deliverToBuyer_err:
  assumes "deliverToBuyer l b s = (Inl e, s')"
  shows "s' = s \<or> tx_aborted s'"
proof -
  have find: "FindDeliveryShip b q s = (Inl e', s1) \<Longrightarrow> tx_aborted s1" for q e' s1
    by (auto simp: FindDeliveryShip_def sql_def split: if_splits sum.splits)
  have gt: "GoodsType g s = (Inl e', s1) \<Longrightarrow> s1 = s" for g e' s1
    by (auto simp: GoodsType_def bindM_err query_err run_simps split: option.splits)
  show ?thesis
    using assms unfolding deliverToBuyer_def bindM_err
    by (auto simp: failM_run dest!: find gt FindDeliveryShip_ok Add_err split: option.splits simp: GoodsType_ok)
qed

lemma AdjustCash_aborted: "tx_aborted s \<Longrightarrow> fst (AdjustCash p d s) = Inl (EPg InFailedTransaction)"
  by (simp add: AdjustCash_def bindM_def sql_def)

lemma refundSeller_ok:
  "refundSeller l s = (Inr x, s') \<Longrightarrow>
     auction_money s' = auction_money s \<and> auction_lots s' = auction_lots s \<and>
     auction_goods g s' = auction_goods g s + (if g = lot_goods l then lot_quantity l else 0)"
  unfolding refundSeller_def by (auto simp: add_acct)

lemma refundSeller_fails: "refundSeller l s = (Inl e, s') \<Longrightarrow> tx_aborted s'"
  by (auto simp: refundSeller_def Add_def sql_def split: if_splits sum.splits)

lemma SetStatus_lot:
  "SetStatus i k t = (Inr u, s') \<Longrightarrow> map_of (auction_lots t) i = Some l \<Longrightarrow> s' = put_lot i (l\<lparr>lot_status := k\<rparr>) t"
  by (auto simp: SetStatus_ok)

text \<open>The refund of an unsold lot is fatal when it fails: the transaction is aborted by then.\<close>

lemma closeUnsold_settles:
  assumes "map_of (auction_lots s) i = Some l" "lot_bidder l = None" and run: "closeUnsold i l s = (Inr x, s')"
  shows "settles i l s s'"
proof -
  from run obtain r t where r: "refundSeller l s = (r, t)" and st: "SetStatus i StatusCancelled t = (Inr (), s')"
    by (auto simp: closeUnsold_def run_simps)
  show ?thesis
  proof (cases r)
    case (Inl e)
    with r st show ?thesis using refundSeller_fails SetStatus_aborted by fastforce
  next
    case (Inr u)
    with r st refundSeller_ok [of l s u t] SetStatus_lot [OF st, of l] assms(1,2) show ?thesis
      by (auto intro: settles.cancelled)
  qed
qed

lemma closeBidden_settles:
  assumes l: "map_of (auction_lots s) i = Some l" "lot_bidder l = Some b" and run: "closeBidden i l b s = (Inr x, s')"
  shows "settles i l s s'"
proof -
  obtain r t where r: "deliverToBuyer l b s = (r, t)" by (cases "deliverToBuyer l b s")
  show ?thesis
  proof (cases r)
    case (Inl e)
    with run r obtain c t1 t2 where a: "AdjustCash b (lot_price l) t = (Inr c, t1)" "refundSeller l t1 = (Inr (), t2)"
      "SetStatus i StatusClosed t2 = (Inr (), s')" by (auto simp: closeBidden_def bindM_ok tryM_ok)
    then have "t = s" using deliverToBuyer_err [of l b s e t] r Inl by (auto simp: AdjustCash_ok)
    with a Inl r l SetStatus_lot [OF a(3), of l] refundSeller_ok [OF a(2)] cash_acct(3) [OF a(1)] show ?thesis
      by (auto intro: settles.no_sale)
  next
    case (Inr u)
    with run r obtain c t1 where a: "AdjustCash (lot_seller l) (lot_price l) t = (Inr c, t1)"
      "SetStatus i StatusClosed t1 = (Inr (), s')" by (auto simp: closeBidden_def bindM_ok tryM_ok)
    moreover from Inr r have "auction_lots t = auction_lots s" by (auto dest!: deliverToBuyer_ok simp: add_acct)
    ultimately show ?thesis using Inr r l SetStatus_lot [OF a(2), of l] cash_acct(3) [OF a(1)]
      by (auto intro: settles.sold)
  qed
qed

text \<open>A successful \<open>Close\<close> either found the lot already settled or settles it.\<close>

lemma Close_ok:
  assumes "Close i s = (Inr x, s')"
  shows "\<exists>l. map_of (auction_lots s) i = Some l \<and>
     (if lot_status l = StatusActive then settles i l s s' else s' = s)"
proof -
  obtain r s1 where lock: "LockLot i s = (r, s1)" by (cases "LockLot i s")
  show ?thesis
  proof (cases r)
    case (Inl e)
    with assms lock show ?thesis
      by (auto simp: Close_def LockLot_err run_simps split: if_splits option.splits)
  next
    case (Inr il)
    with lock obtain l where l: "map_of (auction_lots s) i = Some l" "lot_status l = StatusActive" "il = (i, l)" "s1 = s"
      by (auto simp: LockLot_ok)
    with assms Inr lock have "(case lot_bidder l of None \<Rightarrow> closeUnsold i l | Some b \<Rightarrow> closeBidden i l b) s = (Inr (), s')"
      by (auto simp: Close_def run_simps)
    then have "settles i l s s'"
      using l closeUnsold_settles [OF l(1)] closeBidden_settles [OF l(1)] by (cases "lot_bidder l") auto
    with l show ?thesis by auto
  qed
qed

lemma settles_acct:
  assumes "settles i l s s'" "map_of (auction_lots s) i = Some l" "lot_status l = StatusActive"
  shows "auction_money s' = auction_money s \<and> auction_goods g s' = auction_goods g s"
  using assms
proof cases
  case (cancelled s1)
  then show ?thesis using assms refundSeller_ok [of l s "()" s1 g]
    by (auto simp: put_lot_acct lot_escrow_def lot_holds_def)
next
  case (sold b s1 c s2)
  from deliverToBuyer_ok [OF sold(3)] obtain ship where
    add: "Add (EntityRef EntityKindShip ship) (lot_goods l) (lot_quantity l) 0 s = (Inr (), s1)" by auto
  have "map_of (auction_lots s2) i = Some l" using assms(2) add_acct(3) [OF add] cash_acct(3) [OF sold(4)] by simp
  then show ?thesis using sold assms(3) add_acct(1,2) [OF add] cash_acct(1,2) [OF sold(4)]
    by (auto simp: put_lot_acct lot_escrow_def lot_holds_def)
next
  case (no_sale b e c s1 s2)
  note r = refundSeller_ok [OF no_sale(5), of g] and cs = cash_acct [OF no_sale(4)]
  have "map_of (auction_lots s2) i = Some l" using assms(2) r cs(3) by simp
  then show ?thesis using no_sale assms(3) r cs(1,2)
    by (auto simp: put_lot_acct lot_escrow_def lot_holds_def)
qed

lemma Close_acct:
  "auction_money (snd (Close i s)) = auction_money s \<and> auction_goods g (snd (Close i s)) = auction_goods g s"
proof (cases "Close i s")
  case (Pair r s')
  then show ?thesis
  proof (cases r)
    case (Inl e)
    with Pair show ?thesis by (auto simp: Close_def dest!: tx_do_err)
  next
    case (Inr x)
    with Pair Close_ok [of i s x s'] settles_acct show ?thesis by (auto split: if_splits)
  qed
qed

lemma Bid_err: "Bid now b ship i amount s = (Inl e, s') \<Longrightarrow> s' = s"
  by (auto simp: Bid_def bindM_err run_simps dest!: tx_do_err)

lemma Create_err: "auction_Create now p s = (Inl e, s') \<Longrightarrow> s' = s"
  by (auto simp: auction_Create_def bindM_err run_simps dest!: tx_do_err)

lemma Bid_acct:
  assumes "in64 amount"
  shows "auction_money (snd (Bid now b ship i amount s)) = auction_money s \<and>
    auction_goods g (snd (Bid now b ship i amount s)) = auction_goods g s"
proof (cases "Bid now b ship i amount s")
  case (Pair r s')
  show ?thesis
  proof (cases r)
    case (Inl e)
    with Pair show ?thesis by (auto dest!: Bid_err)
  next
    case (Inr x)
    with Pair Bid_ok [of now b ship i amount s x s'] obtain l s1 s2 y where
      l: "0 < amount" "map_of (auction_lots s) i = Some l" "lot_status l = StatusActive" and
      run: "AdjustCash b (wrap64 (- amount)) s = (Inr y, s1)"
        "case lot_bidder l of None \<Rightarrow> s2 = s1 | Some prev \<Rightarrow> (\<exists>z. AdjustCash prev (lot_price l) s1 = (Inr z, s2))" and
      s': "s' = (put_lot i (l\<lparr>lot_price := amount, lot_bidder := Some b\<rparr>) s2)
       \<lparr>auction_bids := auction_bids s2 @ [\<lparr>bid_lot = i, bid_bidder = b, bid_amount = amount\<rparr>]\<rparr>" by blast
    have w: "wrap64 (- amount) = - amount" using assms l(1) by (intro wrap64_id) (simp add: in64_def)
    note c1 = cash_acct [OF run(1)[unfolded w]]
    have c2: "auction_money s2 = auction_money s1 + lot_escrow l" "auction_goods g s2 = auction_goods g s1"
      "auction_lots s2 = auction_lots s1"
      using run(2) l(3) cash_acct(1,2,3) by (auto simp: lot_escrow_def split: option.splits)
    then have "map_of (auction_lots s2) i = Some l" using c1(3) l(2) by simp
    from put_lot_acct [OF this] c1 c2 l(3) have
      "auction_money (put_lot i (l\<lparr>lot_price := amount, lot_bidder := Some b\<rparr>) s2) = auction_money s"
      "auction_goods g (put_lot i (l\<lparr>lot_price := amount, lot_bidder := Some b\<rparr>) s2) = auction_goods g s"
      by (simp_all add: lot_escrow_def lot_holds_def)
    then show ?thesis using Pair
      by (simp add: s' auction_defs total_cash_def escrow_def goods_total_def goods_in_lots_def)
  qed
qed

lemma Create_acct:
  assumes "cargo_ok s"
  shows "auction_money (snd (auction_Create now p s)) = auction_money s \<and>
    auction_goods g (snd (auction_Create now p s)) = auction_goods g s"
proof (cases "auction_Create now p s")
  case (Pair r s')
  show ?thesis
  proof (cases r)
    case (Inl e)
    with Pair show ?thesis by (auto dest!: Create_err)
  next
    case (Inr x)
    then obtain i l where "r = Inr (i, l)" by (cases x) auto
    with Pair Create_ok [of now p s "(i, l)" s'] obtain s1 where
      "Subtract (cp_Source p) (cp_GoodsType p) (cp_Quantity p) 0 s = (Inr (), s1)"
      "CreateLot (cp_Seller p) (cp_GoodsType p) (cp_Quantity p) (cp_Source p) (cp_StartPrice p)
         (now + cp_Duration p) s1 = (Inr (i, l), s')" by auto
    with sub_acct(1,2) [OF assms this(1)] create_acct(1,2) [OF this(2)] Pair show ?thesis by auto
  qed
qed

section \<open>Properties\<close>

lemma auction_conserves_parts:
  assumes "cargo_ok s" "in64 amount"
  shows "auction_money (snd (auction_Create now p s)) = auction_money s \<and>
      auction_goods g (snd (auction_Create now p s)) = auction_goods g s"
    and "auction_money (snd (Bid now b ship i amount s)) = auction_money s \<and>
      auction_goods g (snd (Bid now b ship i amount s)) = auction_goods g s"
    and "auction_money (snd (Close i s)) = auction_money s \<and> auction_goods g (snd (Close i s)) = auction_goods g s"
    and "auction_money (snd (closer_Tick now s)) = auction_money s \<and>
      auction_goods g (snd (closer_Tick now s)) = auction_goods g s"
proof -
  let ?R = "\<lambda>s s'. auction_money s' = auction_money s \<and> auction_goods g s' = auction_goods g s"
  have pre: "preorder_rel ?R" by unfold_locales auto
  have close: "keeps ?R (Close j)" for j using Close_acct by (simp add: keeps_def)
  have due: "keeps ?R (DueLots now n)" for n
    by (rule keepsI) (auto simp: DueLots_def ListDue_def tx_do_def query_def sql_def split: prod.splits if_splits)
  have "keeps ?R (closer_Tick now)" unfolding closer_Tick_def closeAll_def
    by (intro preorder_rel.keeps_rules [OF pre] close due)
  then show "auction_money (snd (closer_Tick now s)) = auction_money s \<and>
      auction_goods g (snd (closer_Tick now s)) = auction_goods g s" by (simp add: keeps_def)
qed (use assms Create_acct Bid_acct Close_acct in blast)+


definition sample_lot :: create_params where
  "sample_lot = \<lparr>cp_Seller = 1, cp_Source = EntityRef 1 10, cp_GoodsType = 2, cp_Quantity = 5,
     cp_StartPrice = 100, cp_Duration = 3600000000\<rparr>"


text \<open>
  An accepted bid comes from the owner of a docked ship who is not the seller, before the lot
  ends, and is strictly higher than the current price; it becomes the price and its bidder the
  leader, the bidder pays it in full, and the previous leader gets exactly the previous price back.
\<close>

theorem bid_effect:
  assumes "Bid now b ship i amount s = (Inr r, s')" "in64 amount"
  shows "\<exists>l sh. map_of (auction_lots s) i = Some l \<and> lot_status l = StatusActive \<and> now < lot_ends l \<and>
    b \<noteq> lot_seller l \<and> lot_price l < amount \<and> br_NewPrice r = amount \<and>
    map_of (ships s) ship = Some sh \<and> sh_player sh = b \<and> docked_ref sh \<noteq> None \<and>
    map_of (auction_lots s') i = Some (l\<lparr>lot_price := amount, lot_bidder := Some b\<rparr>) \<and>
    (\<forall>j. j \<noteq> i \<longrightarrow> map_of (auction_lots s') j = map_of (auction_lots s) j) \<and>
    (\<forall>p. cash_of s' p = map_option (\<lambda>c. c - (if p = b then amount else 0)
       + (if lot_bidder l = Some p then lot_price l else 0)) (cash_of s p)) \<and>
    (\<exists>c. cash_of s b = Some c \<and> amount \<le> c)"
proof -
  from Bid_ok [OF assms(1)] obtain l sh s1 s2 y where
    l: "0 < amount" "map_of (ships s) ship = Some sh" "sh_player sh = b" "docked_ref sh \<noteq> None"
      "map_of (auction_lots s) i = Some l" "lot_status l = StatusActive" "lot_seller l \<noteq> b" "now < lot_ends l"
      "lot_price l < amount" and
    run: "AdjustCash b (wrap64 (- amount)) s = (Inr y, s1)"
      "case lot_bidder l of None \<Rightarrow> s2 = s1 | Some prev \<Rightarrow> (\<exists>z. AdjustCash prev (lot_price l) s1 = (Inr z, s2))" and
    s': "s' = (put_lot i (l\<lparr>lot_price := amount, lot_bidder := Some b\<rparr>) s2)
       \<lparr>auction_bids := auction_bids s2 @ [\<lparr>bid_lot = i, bid_bidder = b, bid_amount = amount\<rparr>]\<rparr>" by blast
  have w: "wrap64 (- amount) = - amount" using assms(2) l(1) by (intro wrap64_id) (simp add: in64_def)
  note c1 = cash.adjust_balance [OF run(1)[unfolded w]]
  have lots: "auction_lots s2 = auction_lots s"
    using run(2) cash_acct(3) [OF run(1)] cash_acct(3) by (auto split: option.splits)
  have c2: "cash_of s2 p = map_option (\<lambda>c. c + (if lot_bidder l = Some p then lot_price l else 0)) (cash_of s1 p)" for p
    using run(2) by (auto simp: option.map_ident dest!: cash.adjust_balance split: option.splits)
  have "cash_of s' p = map_option (\<lambda>c. c - (if p = b then amount else 0)
       + (if lot_bidder l = Some p then lot_price l else 0)) (cash_of s p)" for p
    using c1 c2 [of p] by (auto simp: s' cash_of_def option.map_comp o_def)
  moreover have "br_NewPrice r = amount" using assms(1) by (auto simp: Bid_def run_simps)
  ultimately show ?thesis using l c1 lots by (intro exI [of _ l] exI [of _ sh]) (auto simp: s')
qed

theorem bid_effect_witness: "cash_of (snd (Bid 1000 3 13 1 500 (sample_db
     \<lparr>players := AList.update 3 \<lparr>pl_login = runes_of ''cat'', pl_cash = 700, pl_war = 0, pl_trade = 0, pl_active_ship = None, pl_passenger_of = None\<rparr> (players sample_db),
      ships := (13, \<lparr>sh_player = 3, sh_sector = 1, sh_docked_kind = Some 4, sh_docked_id = Some 41, sh_cargobay = Fin 10\<rparr>) # ships sample_db\<rparr>))) 1
   = Some 5120"
proof -
  let ?s = "sample_db
     \<lparr>players := AList.update 3 \<lparr>pl_login = runes_of ''cat'', pl_cash = 700, pl_war = 0, pl_trade = 0, pl_active_ship = None, pl_passenger_of = None\<rparr> (players sample_db),
      ships := (13, \<lparr>sh_player = 3, sh_sector = 1, sh_docked_kind = Some 4, sh_docked_id = Some 41, sh_cargobay = Fin 10\<rparr>) # ships sample_db\<rparr>"
  let ?p = "Bid 1000 3 13 1 500 ?s"
  have run: "fst ?p = Inr \<lparr>br_NewPrice = 500, br_NewLeader = True\<rparr>" "in64 500"
    and v: "map_option (\<lambda>l. (lot_bidder l, lot_price l)) (map_of (auction_lots ?s) 1) = Some (Some 1, 120)"
      "cash_of ?s 1 = Some 5000" by code_simp+
  from bid_effect [OF run_state [OF run(1)] run(2)] v show ?thesis by auto
qed

lemma close_settles_parts:
  assumes "Close i s = (Inr (), s')"
  shows "\<exists>l. map_of (auction_lots s') i = Some l \<and> lot_status l \<noteq> StatusActive"
    and "\<not> tx_aborted s' \<Longrightarrow> Close i s' = (Inr (), s')"
proof -
  from Close_ok [OF assms] obtain l where l: "map_of (auction_lots s) i = Some l"
    "if lot_status l = StatusActive then settles i l s s' else s' = s" by auto
  show fin: "\<exists>l. map_of (auction_lots s') i = Some l \<and> lot_status l \<noteq> StatusActive"
  proof (cases "lot_status l = StatusActive")
    case True
    with l have "settles i l s s'" by simp
    then show ?thesis by cases auto
  next
    case False
    with l show ?thesis by auto
  qed
  assume "\<not> tx_aborted s'"
  with fin show "Close i s' = (Inr (), s')"
    by (auto simp: Close_def tx_do_def bindM_def tryM_def LockLot_def GetLot_def query_def sql_def returnM_def failM_def)
qed

text \<open>
  Settling a lot that ended without a sale or with one happens exactly once: a successful
  \<open>Close\<close> leaves the lot in a final state, and closing it again succeeds and changes nothing.
\<close>

theorem close_settles_once:
  assumes "Close i s = (Inr (), s')" and "\<not> tx_aborted s'"
  shows "(\<exists>l. map_of (auction_lots s') i = Some l \<and> lot_status l \<noteq> StatusActive) \<and> Close i s' = (Inr (), s')"
  using close_settles_parts [OF assms(1)] assms(2) by blast

theorem close_settles_once_witness:
  "\<exists>l. map_of (auction_lots (snd (Close 1 sample_db))) 1 = Some l \<and> lot_status l \<noteq> StatusActive"
proof -
  have "fst (Close 1 sample_db) = Inr ()" and live: "\<not> tx_aborted (snd (Close 1 sample_db))" by code_simp+
  from close_settles_once [OF run_state [OF this(1)] live] show ?thesis by blast
qed

definition lot_final :: "int \<Rightarrow> db \<Rightarrow> bool" where
  "lot_final i s = (case map_of (auction_lots s) i of None \<Rightarrow> False | Some l \<Rightarrow> lot_status l \<noteq> StatusActive)"

lemma settles_lots:
  "settles j l s s' \<Longrightarrow> map_of (auction_lots s) j = Some l \<Longrightarrow>
     lot_final j s' \<and> (\<forall>i. i \<noteq> j \<longrightarrow> map_of (auction_lots s') i = map_of (auction_lots s) i)"
  by (erule settles.cases)
    (auto simp: lot_final_def refundSeller_def add_acct(3) cash_acct(3) dest!: deliverToBuyer_ok)

lemma Close_final: "keeps (\<lambda>s s'. lot_final i s \<longrightarrow> lot_final i s') (Close j)"
proof (rule keepsI)
  fix s r s'
  assume run: "Close j s = (r, s')"
  show "lot_final i s \<longrightarrow> lot_final i s'"
  proof (cases r)
    case (Inl e)
    with run show ?thesis by (auto simp: Close_def dest!: tx_do_err)
  next
    case (Inr x)
    with run Close_ok [of j s x s'] settles_lots [of j _ s s'] show ?thesis
      by (cases "i = j") (auto simp: lot_final_def split: if_splits)
  qed
qed

lemma closeAll_total: "fst (closeAll ids s) = Inr ()"
  by (induction ids arbitrary: s)
    (simp_all add: closeAll_def bindM_def tryM_def returnM_def split: prod.split sum.split)

lemma closeAll_final: "lot_final i s \<Longrightarrow> lot_final i (snd (closeAll ids s))"
proof -
  have "preorder_rel (\<lambda>s s'. lot_final i s \<longrightarrow> lot_final i s')" by unfold_locales auto
  note k = preorder_rel.keeps_rules [OF this]
  have "keeps (\<lambda>s s'. lot_final i s \<longrightarrow> lot_final i s') (closeAll ids)"
    unfolding closeAll_def by (intro k Close_final)
  then show "lot_final i s \<Longrightarrow> lot_final i (snd (closeAll ids s))" by (simp add: keeps_def)
qed

lemma closeAll_split: "snd (closeAll (xs @ i # ys) s) = snd (closeAll ys (snd (Close i (snd (closeAll xs s)))))"
  using closeAll_total [of xs s]
  by (cases "closeAll xs s") (auto simp: closeAll_def forM_append bindM_def tryM_def returnM_def split: prod.splits sum.splits)

text \<open>
  One failing lot does not stop the closer: a pass always completes, and every due lot whose own
  \<open>Close\<close> succeeds at its turn is final afterwards, whatever happened to the lots before and after it.
\<close>

theorem closer_tick_settles:
  assumes "\<not> tx_aborted s" "due_lots now CloserBatch s = xs @ i # ys"
    and "fst (Close i (snd (closeAll xs s))) = Inr ()"
  shows "fst (closer_Tick now s) = Inr () \<and> lot_final i (snd (closer_Tick now s))"
proof -
  have run: "closer_Tick now s = closeAll (xs @ i # ys) s"
    using assms(1,2) by (simp add: closer_Tick_def DueLots_def ListDue_def tx_do_def query_def sql_def bindM_def tryM_def)
  have "lot_final i (snd (Close i (snd (closeAll xs s))))"
    using Close_ok [OF run_state [OF assms(3)]] settles_lots by (auto simp: lot_final_def split: if_splits)
  then show ?thesis by (simp add: run closeAll_split closeAll_final closeAll_total)
qed

theorem closer_tick_settles_witness: "lot_final 1 (snd (closer_Tick 3000 sample_db))"
proof -
  have a: "\<not> tx_aborted sample_db" "due_lots 3000 CloserBatch sample_db = [] @ 1 # []"
    "fst (Close 1 (snd (closeAll [] sample_db))) = Inr ()" by code_simp+
  from closer_tick_settles [OF this] show ?thesis by simp
qed

text \<open>
  listing from a hold that is not a ship checks nothing about the seller: a player with no docked
  ship can put the unowned goods of any station up for auction, although commerce is meant to happen
  at a dock only.
\<close>

theorem create_from_station_unchecked:
  "\<exists>lot. fst (auction_Create 1000 (sample_lot\<lparr>cp_Seller := 3, cp_Source := EntityRef 2 20, cp_Quantity := 6\<rparr>) sample_db)
     = Inr lot \<and> filter (\<lambda>(i, sh). sh_player sh = 3 \<and> docked_ref sh \<noteq> None) (ships sample_db) = []"
proof -
  let ?p = "auction_Create 1000 (sample_lot\<lparr>cp_Seller := 3, cp_Source := EntityRef 2 20, cp_Quantity := 6\<rparr>) sample_db"
  have "isl (fst ?p) = False" and "filter (\<lambda>(i, sh). sh_player sh = 3 \<and> docked_ref sh \<noteq> None) (ships sample_db) = []"
    by code_simp+
  then show ?thesis by (cases "fst ?p") auto
qed

text \<open>
  a lot that ended without bids stays active when its goods cannot be returned: the failed refund
  has aborted the transaction, so \<open>Close\<close> reports an error and changes nothing, although the code means
  to log the loss and cancel the lot.
\<close>

theorem close_refund_failure_is_fatal:
  assumes "\<not> tx_aborted s" "map_of (auction_lots s) i = Some l" "lot_status l = StatusActive" "lot_bidder l = None"
    and "\<not> in64 (stack_qty s (lot_source l, lot_goods l, 0) + lot_quantity l)"
  shows "\<exists>e. Close i s = (Inl e, s)"
proof (cases "Close i s")
  case (Pair r s')
  show ?thesis
  proof (cases r)
    case (Inl e)
    with Pair have "s' = s" by (auto simp: Close_def dest!: tx_do_err)
    with Pair Inl show ?thesis by auto
  next
    case (Inr x)
    with Pair Close_ok [of i s x s'] assms have "settles i l s s'" by auto
    then show ?thesis using assms by cases (auto simp: refundSeller_def Add_ok)
  qed
qed

theorem close_refund_failure_is_fatal_witness:
  "\<exists>e. Close 7 (sample_db\<lparr>cargo := [((EntityRef 1 10, 2, 0), 2 ^ 63 - 1)],
      auction_lots := [(7, \<lparr>lot_seller = 1, lot_goods = 2, lot_quantity = 5, lot_source = EntityRef 1 10,
         lot_start_price = 100, lot_price = 100, lot_bidder = None, lot_ends = 10, lot_status = 0, lot_created = 0\<rparr>)]\<rparr>)
     = (Inl e, sample_db\<lparr>cargo := [((EntityRef 1 10, 2, 0), 2 ^ 63 - 1)],
      auction_lots := [(7, \<lparr>lot_seller = 1, lot_goods = 2, lot_quantity = 5, lot_source = EntityRef 1 10,
         lot_start_price = 100, lot_price = 100, lot_bidder = None, lot_ends = 10, lot_status = 0, lot_created = 0\<rparr>)]\<rparr>)"
  by (rule close_refund_failure_is_fatal [where l = "\<lparr>lot_seller = 1, lot_goods = 2, lot_quantity = 5, lot_source = EntityRef 1 10,
         lot_start_price = 100, lot_price = 100, lot_bidder = None, lot_ends = 10, lot_status = 0, lot_created = 0\<rparr>"])
    (simp_all add: sample_db_def stack_qty_def in64_def)

end
