(* ===== verification/Insurance.thy ===== *)
theory Insurance
  imports CargoRepo
begin

text \<open>
  \<open>internal/persistence/insurance\<close> and \<open>internal/economy/insurance\<close>: buying cover for a docked ship
  and the payout when the ship is destroyed. \<open>now\<close> is the service clock.
\<close>

section \<open>Repository\<close>

type_synonym policy = "int \<times> policy_row"

abbreviation (input) PolicyActive :: string where "PolicyActive \<equiv> ''active''"
abbreviation (input) PolicyClaimed :: string where "PolicyClaimed \<equiv> ''claimed''"
abbreviation (input) PolicyExpired :: string where "PolicyExpired \<equiv> ''expired''"

text \<open>Column checks, the foreign key, and the partial unique index on active policies per ship.\<close>

definition createPolicySQL :: "policy_row \<Rightarrow> db \<Rightarrow> pg_error + (int \<times> db)" where
  "createPolicySQL p s =
     (let i = seq_policy s;
          row = p\<lparr>pol_status := PolicyActive, pol_created := db_now s, pol_claimed := None\<rparr>
      in if \<not> 0 < pol_premium p then Inl (CheckViolation ''insurance_policies_premium_paid_check'')
         else if \<not> 0 < pol_coverage p then Inl (CheckViolation ''insurance_policies_coverage_check'')
         else if map_of (insurance_policies s) i \<noteq> None then Inl (UniqueViolation ''insurance_policies_pkey'')
         else if list_ex (\<lambda>(_, q). pol_ship q = pol_ship p \<and> pol_status q = PolicyActive) (insurance_policies s)
           then Inl (UniqueViolation ''idx_insurance_active_ship'')
         else if map_of (players s) (pol_player p) = None
           then Inl (ForeignKeyViolation ''insurance_policies_player_id_fkey'')
         else Inr (i, s\<lparr>insurance_policies := AList.update i row (insurance_policies s), seq_policy := i + 1\<rparr>))"

fun isUniqueViolation :: "err \<Rightarrow> bool" where
  "isUniqueViolation (EPg (UniqueViolation _)) = True"
| "isUniqueViolation _ = False"

definition CreatePolicy :: "policy_row \<Rightarrow> int dbm" where
  "CreatePolicy p = mapErr (\<lambda>e. if isUniqueViolation e then EInsurance INR_ErrAlreadyInsured else e)
     (sql (createPolicySQL p))"

definition ExpireActiveForShip :: "int \<Rightarrow> int \<Rightarrow> unit dbm" where
  "ExpireActiveForShip shipID now = sql (\<lambda>s. Inr ((), s\<lparr>insurance_policies :=
     map (\<lambda>(i, q). (i, if pol_ship q = shipID \<and> pol_status q = PolicyActive \<and> pol_expires q \<le> now
       then q\<lparr>pol_status := PolicyExpired\<rparr> else q)) (insurance_policies s)\<rparr>))"

definition active_policy :: "int \<Rightarrow> int \<Rightarrow> db \<Rightarrow> policy option" where
  "active_policy shipID now s =
     find_row (\<lambda>_ q. pol_ship q = shipID \<and> pol_status q = PolicyActive \<and> now < pol_expires q) (insurance_policies s)"

definition ActiveForShip :: "int \<Rightarrow> int \<Rightarrow> policy option dbm" where
  "ActiveForShip shipID now = query (active_policy shipID now)"

definition ClaimPolicy :: "int \<Rightarrow> int \<Rightarrow> unit dbm" where
  "ClaimPolicy i claimedAt = sql (\<lambda>s. Inr ((), case map_of (insurance_policies s) i of
       None \<Rightarrow> s
     | Some q \<Rightarrow> if pol_status q = PolicyActive
         then s\<lparr>insurance_policies :=
           AList.update i (q\<lparr>pol_status := PolicyClaimed, pol_claimed := Some claimedAt\<rparr>) (insurance_policies s)\<rparr>
         else s))"

definition ListByPlayer :: "int \<Rightarrow> policy list dbm" where
  "ListByPlayer player = query (\<lambda>s. sort_key (\<lambda>(_, q). - pol_created q)
     (filter (\<lambda>(_, q). pol_player q = player) (insurance_policies s)))"

definition ShipOwnership :: "int \<Rightarrow> (int \<times> entity_ref option) dbm" where
  "ShipOwnership shipID = bindM (query (\<lambda>s. map_of (ships s) shipID)) (\<lambda>row. case row of
       None \<Rightarrow> failM (EInsurance INR_ErrShipNotFound)
     | Some r \<Rightarrow> returnM (sh_player r, docked_ref r))"

section \<open>Service\<close>

record insurance_config =
  ic_CoverageMultiplier :: int
  ic_MaxDurationDays :: int

text \<open>\<open>New\<close> replaces non-positive settings by the defaults.\<close>

definition insurance_New :: "insurance_config \<Rightarrow> insurance_config" where
  "insurance_New cfg = \<lparr>
     ic_CoverageMultiplier = (if ic_CoverageMultiplier cfg \<le> 0 then 10 else ic_CoverageMultiplier cfg),
     ic_MaxDurationDays = (if ic_MaxDurationDays cfg \<le> 0 then 90 else ic_MaxDurationDays cfg)\<rparr>"

abbreviation (input) day :: int where "day \<equiv> 24 * 3600 * 1000000"

definition insurance_Buy :: "insurance_config \<Rightarrow> int \<Rightarrow> int \<Rightarrow> int \<Rightarrow> int \<Rightarrow> int \<Rightarrow> int dbm" where
  "insurance_Buy cfg now player shipID premium durationDays =
     bindM (checkM (0 < premium \<and> 0 < durationDays) (EInsurance IN_ErrInvalidInput)) (\<lambda>_.
     let days = (if ic_MaxDurationDays cfg < durationDays then ic_MaxDurationDays cfg else durationDays) in
     bindM (mapErr (\<lambda>e. if e = EInsurance INR_ErrShipNotFound then EInsurance IN_ErrShipNotFound else e)
       (pool (ShipOwnership shipID))) (\<lambda>(owner, docked).
     bindM (checkM (owner = player) (EInsurance IN_ErrNotOwner)) (\<lambda>_.
     bindM (checkM (docked \<noteq> None) (EInsurance IN_ErrNotDocked)) (\<lambda>_.
     let policy = \<lparr>pol_ship = shipID, pol_player = player, pol_premium = premium,
           pol_coverage = wrap64 (premium * ic_CoverageMultiplier cfg), pol_status = PolicyActive,
           pol_created = now, pol_expires = now + days * day, pol_claimed = None\<rparr> in
     tx_do (
       bindM (ExpireActiveForShip shipID now) (\<lambda>_.
       bindM (mapErr (\<lambda>e. if e = EPlayers Players_ErrInsufficientCash then EInsurance IN_ErrInsufficientFunds else e)
         (AdjustCash player (wrap64 (- premium)))) (\<lambda>_.
       mapErr (\<lambda>e. if e = EInsurance INR_ErrAlreadyInsured then EInsurance IN_ErrAlreadyInsured else e)
         (CreatePolicy policy))))))))"

definition OnKill :: "int \<Rightarrow> int \<Rightarrow> unit dbm" where
  "OnKill now shipID = tx_do (
     bindM (ActiveForShip shipID now) (\<lambda>policy.
     case policy of
       None \<Rightarrow> returnM ()
     | Some (i, p) \<Rightarrow>
         bindM (AdjustCash (pol_player p) (pol_coverage p)) (\<lambda>_.
         ClaimPolicy i now)))"

definition MyPolicies :: "int \<Rightarrow> policy list dbm" where
  "MyPolicies player = pool (ListByPlayer player)"

section \<open>At most one active policy per ship\<close>

definition active_ships :: "(int, policy_row) table \<Rightarrow> int list" where
  "active_ships t = map (\<lambda>(_, q). pol_ship q) (filter (\<lambda>(_, q). pol_status q = PolicyActive) t)"

definition policies_ok :: "db \<Rightarrow> bool" where
  "policies_ok s \<longleftrightarrow> tbl_wf (insurance_policies s) \<and> distinct (active_ships (insurance_policies s))"

lemma policies_ok_abort [simp]: "policies_ok (s\<lparr>tx_aborted := b\<rparr>) = policies_ok s"
  by (simp add: policies_ok_def)

interpretation policy_inv: db_invariant policies_ok
  by unfold_locales simp

lemma active_ships_Nil [simp]: "active_ships [] = []"
  and active_ships_Cons [simp]: "active_ships ((i, q) # t) =
    (if pol_status q = PolicyActive then pol_ship q # active_ships t else active_ships t)"
  by (simp_all add: active_ships_def)

lemma active_ships_append [simp]: "active_ships (t @ u) = active_ships t @ active_ships u"
  by (simp add: active_ships_def)

lemma active_ships_set: "x \<in> set (active_ships t) \<longleftrightarrow> (\<exists>i q. (i, q) \<in> set t \<and> pol_status q = PolicyActive \<and> pol_ship q = x)"
  by (force simp: active_ships_def)

text \<open>Turning active rows into inactive ones can only remove ships from the list.\<close>

lemma active_ships_deactivate:
  assumes "\<And>i q. f i q = q \<or> pol_status (f i q) \<noteq> PolicyActive"
  shows "set (active_ships (map (\<lambda>(i, q). (i, f i q)) t)) \<subseteq> set (active_ships t) \<and>
    (distinct (active_ships t) \<longrightarrow> distinct (active_ships (map (\<lambda>(i, q). (i, f i q)) t)))"
proof (induction t)
  case Nil
  then show ?case by simp
next
  case (Cons x t)
  obtain i q where x: "x = (i, q)" by (cases x)
  from assms [of i q] Cons x show ?case by auto
qed

lemma update_as_map:
  "map_of t i = Some q \<Longrightarrow> tbl_wf t \<Longrightarrow> AList.update i v t = map (\<lambda>(j, r). (j, if j = i then v else r)) t"
proof (induction t)
  case (Cons x t)
  obtain j r where x: "x = (j, r)" by (cases x)
  have id: "\<forall>y \<in> set t. fst y \<noteq> i \<Longrightarrow> map (\<lambda>(j, r). (j, if j = i then v else r)) t = t"
    by (induction t) auto
  from Cons x show ?case by (auto simp: tbl_wf_def keys_def intro: id [symmetric])
qed simp

lemma tbl_wf_map_vals [simp]: "tbl_wf (map (\<lambda>(i, q). (i, f i q)) t) = tbl_wf t"
  by (simp add: tbl_wf_def keys_def comp_def case_prod_beta)

lemma keeps_policies_Expire: "keeps (\<lambda>s s'. policies_ok s \<longrightarrow> policies_ok s') (ExpireActiveForShip ship now)"
  unfolding ExpireActiveForShip_def
proof (rule policy_inv.keeps_sql)
  fix s x s'
  let ?f = "\<lambda>i q. if pol_ship q = ship \<and> pol_status q = PolicyActive \<and> pol_expires q \<le> now
       then q\<lparr>pol_status := PolicyExpired\<rparr> else q"
  assume ok: "policies_ok s" and "Inr ((), s\<lparr>insurance_policies := map (\<lambda>(i, q). (i, ?f i q)) (insurance_policies s)\<rparr>)
      = (Inr (x, s') :: pg_error + unit \<times> db)"
  then have s': "insurance_policies s' = map (\<lambda>(i, q). (i, ?f i q)) (insurance_policies s)" by auto
  have "distinct (active_ships (insurance_policies s'))"
    unfolding s' using ok active_ships_deactivate [of ?f "insurance_policies s"] by (simp add: policies_ok_def)
  then show "policies_ok s'" using ok by (simp add: policies_ok_def s')
qed

lemma keeps_policies_Claim: "keeps (\<lambda>s s'. policies_ok s \<longrightarrow> policies_ok s') (ClaimPolicy i now)"
  unfolding ClaimPolicy_def
proof (rule policy_inv.keeps_sql)
  fix s x s'
  assume ok: "policies_ok s" and run: "Inr ((), case map_of (insurance_policies s) i of
       None \<Rightarrow> s
     | Some q \<Rightarrow> if pol_status q = PolicyActive
         then s\<lparr>insurance_policies :=
           AList.update i (q\<lparr>pol_status := PolicyClaimed, pol_claimed := Some now\<rparr>) (insurance_policies s)\<rparr>
         else s) = (Inr (x, s') :: pg_error + unit \<times> db)"
  show "policies_ok s'"
  proof (cases "\<exists>q. map_of (insurance_policies s) i = Some q \<and> pol_status q = PolicyActive")
    case True
    then obtain q where q: "map_of (insurance_policies s) i = Some q" "pol_status q = PolicyActive" by blast
    then have s': "insurance_policies s' = AList.update i (q\<lparr>pol_status := PolicyClaimed, pol_claimed := Some now\<rparr>) (insurance_policies s)"
      using run by auto
    let ?f = "\<lambda>j r. if j = i then q\<lparr>pol_status := PolicyClaimed, pol_claimed := Some now\<rparr> else r"
    from q ok have "insurance_policies s' = map (\<lambda>(j, r). (j, ?f j r)) (insurance_policies s)"
      unfolding s' policies_ok_def by (intro update_as_map) auto
    then show ?thesis using ok active_ships_deactivate [of ?f "insurance_policies s"] by (simp add: policies_ok_def)
  next
    case False
    then have "s' = s" using run by (cases "map_of (insurance_policies s) i") auto
    then show ?thesis using ok by simp
  qed
qed

lemma keeps_policies_Create: "keeps (\<lambda>s s'. policies_ok s \<longrightarrow> policies_ok s') (CreatePolicy p)"
  unfolding CreatePolicy_def
proof (intro policy_inv.keeps_rules policy_inv.keeps_sql)
  fix s x s'
  assume ok: "policies_ok s" and run: "createPolicySQL p s = Inr (x, s')"
  let ?row = "p\<lparr>pol_status := PolicyActive, pol_created := db_now s, pol_claimed := None\<rparr>"
  from run have new: "map_of (insurance_policies s) (seq_policy s) = None" and
    free: "pol_ship p \<notin> set (active_ships (insurance_policies s))" and
    s': "insurance_policies s' = AList.update (seq_policy s) ?row (insurance_policies s)"
    by (auto simp: createPolicySQL_def Let_def list_ex_iff active_ships_set split: if_splits)
  from update_new [OF new] s' have "active_ships (insurance_policies s') = active_ships (insurance_policies s) @ [pol_ship p]"
    by (simp add: active_ships_def)
  with ok free s' show "policies_ok s'" by (simp add: policies_ok_def)
qed

lemma policies_AdjustCash: "keeps (\<lambda>s s'. policies_ok s \<longrightarrow> policies_ok s') (AdjustCash p d)"
  by (rule keepsI, rename_tac s r s', case_tac r)
    (auto simp: AdjustCash_ok policies_ok_def dest!: cash.adjust_err)

lemmas keeps_policies = policy_inv.keeps_rules policy_inv.keeps_tx_do policy_inv.keeps_query
  keeps_policies_Expire keeps_policies_Claim keeps_policies_Create policies_AdjustCash

section \<open>Properties\<close>

text \<open>
  No history of purchases and payouts ever leaves a ship with two active policies.
\<close>

theorem one_active_policy_per_ship:
  assumes "policies_ok s"
  shows "policies_ok (snd (insurance_Buy cfg now player ship premium days s)) \<and> policies_ok (snd (OnKill now ship s))"
proof -
  have "keeps (\<lambda>s s'. policies_ok s \<longrightarrow> policies_ok s') (ShipOwnership ship)"
    unfolding ShipOwnership_def by (intro keeps_policies)
  then have "keeps (\<lambda>s s'. policies_ok s \<longrightarrow> policies_ok s') (insurance_Buy cfg now player ship premium days)"
    unfolding insurance_Buy_def Let_def case_prod_beta by (intro keeps_policies)
  moreover have "keeps (\<lambda>s s'. policies_ok s \<longrightarrow> policies_ok s') (OnKill now ship)"
    unfolding OnKill_def ActiveForShip_def case_prod_beta by (intro keeps_policies)
  ultimately show ?thesis using assms by (simp add: keeps_def)
qed

theorem one_active_policy_per_ship_witness:
  "policies_ok (snd (insurance_Buy (insurance_New \<lparr>ic_CoverageMultiplier = 0, ic_MaxDurationDays = 0\<rparr>) 1000 1 10 50 7 sample_db))"
proof -
  have "policies_ok sample_db" by code_simp
  from one_active_policy_per_ship [OF this] show ?thesis by blast
qed

text \<open>
  Cover is sold only to the owner of the docked ship who has no unexpired policy on it; the
  premium is debited exactly, and the policy pays the premium times the multiplier if the ship is
  lost before the (capped) duration has passed.
\<close>

theorem insurance_buy_effect:
  assumes "insurance_Buy cfg now player ship premium days s = (Inr i, s')" "premium < 2 ^ 63"
    and "0 < ic_CoverageMultiplier cfg" "premium * ic_CoverageMultiplier cfg < 2 ^ 63"
  shows "(\<exists>r. map_of (ships s) ship = Some r \<and> sh_player r = player \<and> docked_ref r \<noteq> None) \<and>
    active_policy ship now s = None \<and>
    (\<exists>c. cash_of s player = Some c \<and> premium \<le> c \<and> cash_of s' = (cash_of s)(player \<mapsto> c - premium)) \<and>
    (\<exists>q. map_of (insurance_policies s') i = Some q \<and> pol_ship q = ship \<and> pol_player q = player \<and>
      pol_status q = PolicyActive \<and> pol_coverage q = premium * ic_CoverageMultiplier cfg \<and>
      pol_expires q = now + min days (ic_MaxDurationDays cfg) * day)"
proof -
  let ?d = "if ic_MaxDurationDays cfg < days then ic_MaxDurationDays cfg else days"
  let ?p = "\<lparr>pol_ship = ship, pol_player = player, pol_premium = premium,
           pol_coverage = wrap64 (premium * ic_CoverageMultiplier cfg), pol_status = PolicyActive,
           pol_created = now, pol_expires = now + ?d * day, pol_claimed = None\<rparr>"
  from assms(1) obtain r s1 s2 c where prem: "0 < premium" and
    r: "map_of (ships s) ship = Some r" "sh_player r = player" "docked_ref r \<noteq> None" and
    run: "ExpireActiveForShip ship now s = (Inr (), s1)" "AdjustCash player (wrap64 (- premium)) s1 = (Inr c, s2)"
      "createPolicySQL ?p s2 = Inr (i, s')"
    by (auto simp: insurance_Buy_def ShipOwnership_def CreatePolicy_def Let_def run_simps) metis
  have w: "wrap64 (- premium) = - premium" using assms(2) prem by (intro wrap64_id) (simp add: in64_def)
  have "0 < premium * ic_CoverageMultiplier cfg" using prem assms(3) by simp
  then have wc: "wrap64 (premium * ic_CoverageMultiplier cfg) = premium * ic_CoverageMultiplier cfg"
    using assms(4) by (intro wrap64_id) (simp add: in64_def)
  let ?f = "\<lambda>q. if pol_ship q = ship \<and> pol_status q = PolicyActive \<and> pol_expires q \<le> now
       then q\<lparr>pol_status := PolicyExpired\<rparr> else q"
  from run(1) have s1: "s1 = s\<lparr>insurance_policies := map (\<lambda>(i, q). (i, ?f q)) (insurance_policies s)\<rparr>"
    by (auto simp: ExpireActiveForShip_def run_simps)
  note cs = cash.adjust_balance [OF run(2)[unfolded w]]
  from run(2) have pol2: "insurance_policies s2 = insurance_policies s1" by (auto simp: AdjustCash_ok)
  from run(3) have free: "\<not> list_ex (\<lambda>(_, q). pol_ship q = ship \<and> pol_status q = PolicyActive) (insurance_policies s2)"
    and s': "s' = s2\<lparr>insurance_policies := AList.update i (?p\<lparr>pol_status := PolicyActive, pol_created := db_now s2, pol_claimed := None\<rparr>)
        (insurance_policies s2), seq_policy := i + 1\<rparr>"
    by (auto simp: createPolicySQL_def Let_def split: if_splits)
  have "active_policy ship now s = None"
    unfolding active_policy_def find_row_None_iff
  proof (intro ballI, clarify)
    fix j q assume q: "(j, q) \<in> set (insurance_policies s)" "pol_status q = PolicyActive" "ship = pol_ship q" "now < pol_expires q"
    then have "(j, q) \<in> set (insurance_policies s2)" unfolding pol2 s1 by force
    with free q show False by (auto simp: list_ex_iff)
  qed
  moreover have "cash_of s' = cash_of s2" "cash_of s1 = cash_of s" by (auto simp: s' s1 cash_of_def fun_eq_iff)
  ultimately show ?thesis using r cs wc by (auto simp: s' min_def)
qed

theorem insurance_buy_effect_witness:
  "cash_of (snd (insurance_Buy \<lparr>ic_CoverageMultiplier = 10, ic_MaxDurationDays = 90\<rparr> 1000 1 10 50 7 sample_db)) 1 = Some 4950"
proof -
  have run: "fst (insurance_Buy \<lparr>ic_CoverageMultiplier = 10, ic_MaxDurationDays = 90\<rparr> 1000 1 10 50 7 sample_db) = Inr 1"
    and c: "cash_of sample_db 1 = Some 5000" by code_simp+
  from insurance_buy_effect [OF run_state [OF run]] c show ?thesis by auto
qed

text \<open>
  C7: the payout happens at most once: a kill of an insured ship credits the holder with exactly the
  coverage, and a second kill of the same ship, at any time, pays nothing and changes nothing.
\<close>

theorem payout_once:
  assumes "policies_ok s" "OnKill now ship s = (Inr (), s')" "active_policy ship now s = Some (i, p)"
  shows "cash_of s' (pol_player p) = map_option (\<lambda>c. c + pol_coverage p) (cash_of s (pol_player p)) \<and>
    total_cash s' = total_cash s + pol_coverage p \<and> OnKill later ship s' = (Inr (), s')"
proof -
  from find_row_SomeD [OF assms(3) [unfolded active_policy_def]]
  have mem: "(i, p) \<in> set (insurance_policies s)" and act: "pol_ship p = ship" "pol_status p = PolicyActive" by auto
  from assms(1) mem have ip: "map_of (insurance_policies s) i = Some p"
    by (simp add: policies_ok_def tbl_wf_map_of)
  from assms(2,3) obtain c s1 where a: "AdjustCash (pol_player p) (pol_coverage p) s = (Inr c, s1)"
    and cl: "ClaimPolicy i now s1 = (Inr (), s')" and live: "\<not> tx_aborted s'"
    by (auto simp: OnKill_def ActiveForShip_def run_simps)
  from a have same: "insurance_policies s1 = insurance_policies s" by (auto simp: AdjustCash_ok)
  let ?p' = "p\<lparr>pol_status := PolicyClaimed, pol_claimed := Some now\<rparr>"
  from cl same ip act have s': "s' = s1\<lparr>insurance_policies := AList.update i ?p' (insurance_policies s)\<rparr>"
    by (auto simp: ClaimPolicy_def run_simps)
  have "pol_ship q \<noteq> ship \<or> pol_status q \<noteq> PolicyActive" if "(j, q) \<in> set (AList.update i ?p' (insurance_policies s))" for j q
  proof -
    let ?t = "insurance_policies s"
    have eq: "AList.update i ?p' ?t = map (\<lambda>(j, r). (j, if j = i then ?p' else r)) ?t"
      using ip assms(1) by (intro update_as_map) (auto simp: policies_ok_def)
    have one: "j = i" if "(j, q) \<in> set ?t" "pol_status q = PolicyActive" "pol_ship q = ship" for j q
      using distinct_map_eq_key [of "\<lambda>(_, q). pol_ship q" "filter (\<lambda>(_, q). pol_status q = PolicyActive) ?t" "(j, q)" "(i, p)"]
        assms(1) that mem act by (auto simp: policies_ok_def active_ships_def)
    from that one [of j q] show ?thesis unfolding eq by (cases "j = i") auto
  qed
  then have none: "active_policy ship later s' = None"
    unfolding active_policy_def find_row_None_iff s' by auto
  have "OnKill later ship s' = (Inr (), s')"
    using live none by (simp add: OnKill_def ActiveForShip_def tx_do_def bindM_def query_def sql_def returnM_def)
  moreover have "cash_of s' = cash_of s1" "total_cash s' = total_cash s1" by (auto simp: s' cash_of_def total_cash_def fun_eq_iff)
  ultimately show ?thesis using cash.adjust_balance [OF a] cash.adjust_total [OF a] by simp
qed

definition insured_db :: db where
  "insured_db = sample_db\<lparr>insurance_policies :=
     [(1, \<lparr>pol_ship = 10, pol_player = 1, pol_premium = 50, pol_coverage = 500, pol_status = PolicyActive,
            pol_created = 0, pol_expires = 9000, pol_claimed = None\<rparr>)]\<rparr>"

theorem payout_once_witness:
  "cash_of (snd (OnKill 1000 10 insured_db)) 1 = Some 5500 \<and>
   OnKill 2000 10 (snd (OnKill 1000 10 insured_db)) = (Inr (), snd (OnKill 1000 10 insured_db))"
proof -
  let ?q = "\<lparr>pol_ship = 10, pol_player = 1, pol_premium = 50, pol_coverage = 500, pol_status = PolicyActive,
            pol_created = 0, pol_expires = 9000, pol_claimed = None\<rparr>"
  have ok: "policies_ok insured_db" and run: "fst (OnKill 1000 10 insured_db) = Inr ()"
    and act: "active_policy 10 1000 insured_db = Some (1, ?q)" and c: "cash_of insured_db 1 = Some 5000" by code_simp+
  from payout_once [OF ok run_state [OF run] act] c show ?thesis by simp
qed

end
