(* ===== verification/Rent.thy ===== *)
theory Rent
  imports CargoRepo
begin

text \<open>
  \<open>internal/persistence/rents\<close>, the ownership part of \<open>internal/persistence/stations\<close> and
  \<open>internal/economy/rent\<close>: upkeep of player-owned stations, shipyards and trade stations, with
  confiscation after too many missed charges, and the purchase of an unowned station.
  The notifications published after commit are the result of \<open>ProcessDue\<close>.
\<close>

section \<open>Ownership of static objects\<close>

definition owner_of :: "db \<Rightarrow> entity_ref \<Rightarrow> int option" where
  "owner_of s ref =
     (if ref_kind ref = EntityKindStation then Option.bind (map_of (stations s) (ref_id ref)) st_owner
      else if ref_kind ref = EntityKindShipyard then Option.bind (map_of (shipyards s) (ref_id ref)) id
      else if ref_kind ref = EntityKindTradeStation then Option.bind (map_of (trade_stations s) (ref_id ref)) ts_owner
      else None)"

record owned_static =
  os_Ref :: entity_ref
  os_Owner :: int

definition owned_of :: "int \<Rightarrow> ('v \<Rightarrow> int option) \<Rightarrow> (int, 'v) table \<Rightarrow> owned_static list" where
  "owned_of kind own t = concat (map (\<lambda>(i, r). case own r of
       None \<Rightarrow> []
     | Some p \<Rightarrow> [\<lparr>os_Ref = EntityRef kind i, os_Owner = p\<rparr>]) (sort_key fst t))"

definition PlayerOwned :: "owned_static list dbm" where
  "PlayerOwned = query (\<lambda>s.
     owned_of EntityKindStation st_owner (stations s) @ owned_of EntityKindShipyard id (shipyards s) @
     owned_of EntityKindTradeStation ts_owner (trade_stations s))"

definition ClaimUnowned :: "entity_ref \<Rightarrow> int \<Rightarrow> bool dbm" where
  "ClaimUnowned ref owner =
     (if ref_kind ref \<noteq> EntityKindStation then failM (ERent ST_UnsupportedKind)
      else sql (\<lambda>s. case map_of (stations s) (ref_id ref) of
          None \<Rightarrow> Inr (False, s)
        | Some r \<Rightarrow>
            if st_owner r \<noteq> None then Inr (False, s)
            else if map_of (players s) owner = None then Inl (ForeignKeyViolation ''stations_owner_id_fkey'')
            else Inr (True, s\<lparr>stations := AList.update (ref_id ref) (r\<lparr>st_owner := Some owner\<rparr>) (stations s)\<rparr>)))"

definition ClearOwner :: "entity_ref \<Rightarrow> unit dbm" where
  "ClearOwner ref =
     (if ref_kind ref = EntityKindStation then
        sql (\<lambda>s. Inr ((), case map_of (stations s) (ref_id ref) of
            None \<Rightarrow> s
          | Some r \<Rightarrow> s\<lparr>stations := AList.update (ref_id ref) (r\<lparr>st_owner := None\<rparr>) (stations s)\<rparr>))
      else if ref_kind ref = EntityKindShipyard then
        sql (\<lambda>s. Inr ((), case map_of (shipyards s) (ref_id ref) of
            None \<Rightarrow> s
          | Some r \<Rightarrow> s\<lparr>shipyards := AList.update (ref_id ref) None (shipyards s)\<rparr>))
      else if ref_kind ref = EntityKindTradeStation then
        sql (\<lambda>s. Inr ((), case map_of (trade_stations s) (ref_id ref) of
            None \<Rightarrow> s
          | Some r \<Rightarrow> s\<lparr>trade_stations := AList.update (ref_id ref) (r\<lparr>ts_owner := None\<rparr>) (trade_stations s)\<rparr>))
      else failM (ERent ST_UnsupportedKind))"

section \<open>Rent rows\<close>

type_synonym rent = "int \<times> rent_row"

definition ensureSQL :: "int \<Rightarrow> entity_ref \<Rightarrow> int \<Rightarrow> int \<Rightarrow> db \<Rightarrow> pg_error + (unit \<times> db)" where
  "ensureSQL payer station amount nextDue s =
     (let i = seq_rent s in
      if amount < 0 then Inl (CheckViolation ''rents_amount_per_period_check'')
      else if list_ex (\<lambda>(_, r). rent_station r = station) (rents s) then Inr ((), s\<lparr>seq_rent := i + 1\<rparr>)
      else if map_of (rents s) i \<noteq> None then Inl (UniqueViolation ''rents_pkey'')
      else if map_of (players s) payer = None then Inl (ForeignKeyViolation ''rents_payer_id_fkey'')
      else Inr ((), s\<lparr>rents := AList.update i
          \<lparr>rent_payer = payer, rent_station = station, rent_amount = amount, rent_unpaid = 0,
           rent_last_paid = None, rent_next_due = nextDue, rent_created = db_now s\<rparr> (rents s),
        seq_rent := i + 1\<rparr>))"

definition Ensure :: "int \<Rightarrow> entity_ref \<Rightarrow> int \<Rightarrow> int \<Rightarrow> unit dbm" where
  "Ensure payer station amount nextDue = sql (ensureSQL payer station amount nextDue)"

definition due_rents :: "int \<Rightarrow> nat \<Rightarrow> db \<Rightarrow> rent list" where
  "due_rents now limit s = take limit (sort_key (\<lambda>(_, r). rent_next_due r)
     (filter (\<lambda>(_, r). rent_next_due r \<le> now) (rents s)))"

definition Due :: "int \<Rightarrow> nat \<Rightarrow> rent list dbm" where
  "Due now limit = query (due_rents now limit)"

definition updateRent :: "int \<Rightarrow> (rent_row \<Rightarrow> rent_row) \<Rightarrow> db \<Rightarrow> db" where
  "updateRent i f s = (case map_of (rents s) i of
       None \<Rightarrow> s
     | Some r \<Rightarrow> s\<lparr>rents := AList.update i (f r) (rents s)\<rparr>)"

definition MarkPaid :: "int \<Rightarrow> int \<Rightarrow> int \<Rightarrow> unit dbm" where
  "MarkPaid i paidAt nextDue = sql (\<lambda>s. Inr ((), updateRent i
     (\<lambda>r. r\<lparr>rent_unpaid := 0, rent_last_paid := Some paidAt, rent_next_due := nextDue\<rparr>) s))"

definition in16 :: "int \<Rightarrow> bool" where
  "in16 x \<longleftrightarrow> - (2 ^ 15) \<le> x \<and> x < 2 ^ 15"

definition MarkUnpaid :: "int \<Rightarrow> int \<Rightarrow> int \<Rightarrow> unit dbm" where
  "MarkUnpaid i unpaidPeriods nextDue = sql (\<lambda>s.
     if in16 unpaidPeriods
     then Inr ((), updateRent i (\<lambda>r. r\<lparr>rent_unpaid := unpaidPeriods, rent_next_due := nextDue\<rparr>) s)
     else Inl NumericOutOfRange)"

definition DeleteRent :: "int \<Rightarrow> unit dbm" where
  "DeleteRent i = sql (\<lambda>s. Inr ((), s\<lparr>rents := AList.delete i (rents s)\<rparr>))"

definition ListByPayer :: "int \<Rightarrow> rent list dbm" where
  "ListByPayer payer = query (\<lambda>s. sort_key (\<lambda>(_, r). rent_next_due r)
     (filter (\<lambda>(_, r). rent_payer r = payer) (rents s)))"

section \<open>Service\<close>

record rent_config =
  rc_Period :: int
  rc_MaxUnpaid :: int
  rc_DefaultAmount :: int
  rc_ClaimPrice :: int

definition rent_New :: "rent_config \<Rightarrow> rent_config" where
  "rent_New cfg = \<lparr>
     rc_Period = (if rc_Period cfg \<le> 0 then 24 * 3600 * 1000000 else rc_Period cfg),
     rc_MaxUnpaid = (if rc_MaxUnpaid cfg \<le> 0 then 3 else rc_MaxUnpaid cfg),
     rc_DefaultAmount = (if rc_DefaultAmount cfg \<le> 0 then 5000 else rc_DefaultAmount cfg),
     rc_ClaimPrice = (if rc_ClaimPrice cfg \<le> 0 then 100000 else rc_ClaimPrice cfg)\<rparr>"

definition Reconcile :: "rent_config \<Rightarrow> int \<Rightarrow> unit dbm" where
  "Reconcile cfg now = bindM (pool PlayerOwned) (\<lambda>owned.
     forM owned (\<lambda>o'. pool (Ensure (os_Owner o') (os_Ref o') (rc_DefaultAmount cfg) (now + rc_Period cfg))))"

record overdue_event =
  ov_RentID :: int
  ov_Payer :: int
  ov_Station :: entity_ref
  ov_Amount :: int
  ov_Unpaid :: int
  ov_Confiscated :: bool

definition chargeRent :: "rent_config \<Rightarrow> int \<Rightarrow> rent \<Rightarrow> overdue_event list dbm" where
  "chargeRent cfg now = (\<lambda>(i, r).
     bindM (tryM (AdjustCash (rent_payer r) (wrap64 (- rent_amount r)))) (\<lambda>res.
     case res of
       Inr _ \<Rightarrow> bindM (MarkPaid i now (now + rc_Period cfg)) (\<lambda>_. returnM [])
     | Inl e \<Rightarrow>
         if e = EPlayers Players_ErrInsufficientCash then
           (let count = rent_unpaid r + 1;
                ev = \<lparr>ov_RentID = i, ov_Payer = rent_payer r, ov_Station = rent_station r,
                      ov_Amount = rent_amount r, ov_Unpaid = count, ov_Confiscated = False\<rparr> in
            if rc_MaxUnpaid cfg \<le> count then
              bindM (ClearOwner (rent_station r)) (\<lambda>_.
              bindM (DeleteRent i) (\<lambda>_. returnM [ev\<lparr>ov_Confiscated := True\<rparr>]))
            else bindM (MarkUnpaid i count (now + rc_Period cfg)) (\<lambda>_. returnM [ev]))
         else failM e))"

fun chargeAll :: "rent_config \<Rightarrow> int \<Rightarrow> rent list \<Rightarrow> overdue_event list dbm" where
  "chargeAll cfg now [] = returnM []"
| "chargeAll cfg now (r # rs) =
     bindM (chargeRent cfg now r) (\<lambda>evs. bindM (chargeAll cfg now rs) (\<lambda>more. returnM (evs @ more)))"

definition ProcessDue :: "rent_config \<Rightarrow> int \<Rightarrow> nat \<Rightarrow> overdue_event list dbm" where
  "ProcessDue cfg now limit = tx_do (bindM (Due now limit) (chargeAll cfg now))"

definition MyRents :: "int \<Rightarrow> rent list dbm" where
  "MyRents player = pool (ListByPayer player)"

definition rent_Claim :: "rent_config \<Rightarrow> int \<Rightarrow> int \<Rightarrow> int \<Rightarrow> unit dbm" where
  "rent_Claim cfg now player stationID =
     (let station = EntityRef EntityKindStation stationID in
      tx_do (
        bindM (ClaimUnowned station player) (\<lambda>claimed.
        bindM (checkM claimed (ERent RT_ErrStationOwned)) (\<lambda>_.
        bindM (mapErr (\<lambda>e. if e = EPlayers Players_ErrInsufficientCash then ERent RT_ErrInsufficientFunds else e)
          (AdjustCash player (wrap64 (- rc_ClaimPrice cfg)))) (\<lambda>_.
        Ensure player station (rc_DefaultAmount cfg) (now + rc_Period cfg))))))"

definition rent_closer_Tick :: "rent_config \<Rightarrow> int \<Rightarrow> unit dbm" where
  "rent_closer_Tick cfg now =
     bindM (tryM (Reconcile cfg now)) (\<lambda>_. bindM (tryM (ProcessDue cfg now 200)) (\<lambda>_. returnM ()))"

section \<open>The payer of a rent is the owner of the object\<close>

definition rents_ok :: "db \<Rightarrow> bool" where
  "rents_ok s \<longleftrightarrow> tbl_wf (rents s) \<and> distinct (map (\<lambda>(_, r). rent_station r) (rents s)) \<and>
     all_rows (\<lambda>_ r. owner_of s (rent_station r) = Some (rent_payer r) \<and> 0 \<le> rent_amount r \<and> in64 (rent_amount r)) (rents s)"

lemma owner_of_cong:
  "stations s' = stations s \<Longrightarrow> shipyards s' = shipyards s \<Longrightarrow> trade_stations s' = trade_stations s \<Longrightarrow>
     owner_of s' ref = owner_of s ref"
  by (simp add: owner_of_def)

lemma rents_ok_cong:
  "rents s' = rents s \<Longrightarrow> stations s' = stations s \<Longrightarrow> shipyards s' = shipyards s \<Longrightarrow>
     trade_stations s' = trade_stations s \<Longrightarrow> rents_ok s' = rents_ok s"
  by (simp add: rents_ok_def owner_of_def)

interpretation rent_inv: db_invariant rents_ok
  by unfold_locales (rule rents_ok_cong, simp_all)

lemma rents_okD:
  assumes "rents_ok s" "map_of (rents s) i = Some r"
  shows "owner_of s (rent_station r) = Some (rent_payer r)" "0 \<le> rent_amount r" "in64 (rent_amount r)"
  using assms by (auto simp: rents_ok_def dest: all_rowsD)

lemma update_stations_distinct:
  "map_of t i = Some r \<Longrightarrow> tbl_wf t \<Longrightarrow> f r' = f r \<Longrightarrow> map (\<lambda>(_, r). f r) (AList.update i r' t) = map (\<lambda>(_, r). f r) t"
  by (induction t) (auto simp: tbl_wf_def keys_def)

lemma rents_ok_update:
  assumes "rents_ok s" "\<And>r. rent_station (f r) = rent_station r \<and> rent_payer (f r) = rent_payer r \<and> rent_amount (f r) = rent_amount r"
  shows "rents_ok (updateRent i f s)"
proof (cases "map_of (rents s) i")
  case (Some r)
  note k = rents_okD [OF assms(1) Some]
  from Some assms show ?thesis
    using update_stations_distinct [OF Some, of rent_station "f r"] k
    by (auto simp: rents_ok_def updateRent_def owner_of_cong [where s = s and s' = "s\<lparr>rents := t\<rparr>" for t]
        intro!: all_rows_update)
qed (use assms in \<open>simp add: updateRent_def\<close>)

lemma rents_ok_cash: "rents_ok (set_cash p c s) = rents_ok s"
  by (rule rents_ok_cong) simp_all

lemma ClearOwner_ok:
  assumes "ClearOwner ref s = (Inr x, s')"
  shows "owner_of s' = (owner_of s)(ref := None)" "rents s' = rents s" "players s' = players s" "\<not> tx_aborted s'"
  using assms
  by (cases ref; auto simp: ClearOwner_def owner_of_def run_simps fun_eq_iff split: if_splits option.splits)+

text \<open>Deleting the rent of an object together with its owner keeps the rest consistent.\<close>

lemma rents_ok_confiscate:
  assumes ok: "rents_ok s" and i: "map_of (rents s) i = Some r" and own: "owner_of s1 = (owner_of s)(rent_station r := None)"
    and rn: "rents s1 = rents s"
  shows "rents_ok (s1\<lparr>rents := AList.delete i (rents s)\<rparr>)"
proof -
  let ?t = "AList.delete i (rents s)"
  have "distinct (map (\<lambda>(_, r). rent_station r) ?t)"
    using ok by (simp add: rents_ok_def AList.delete_eq distinct_map_filter)
  moreover have "rent_station r' \<noteq> rent_station r" if "(j, r') \<in> set ?t" for j r'
  proof
    assume eq: "rent_station r' = rent_station r"
    from that have "(j, r') \<in> set (rents s)" "j \<noteq> i" by (auto simp: AList.delete_eq)
    with distinct_map_eq_key [of "\<lambda>(_, r). rent_station r" "rents s" "(j, r')" "(i, r)"] ok eq map_of_SomeD [OF i]
    show False by (auto simp: rents_ok_def)
  qed
  moreover have "all_rows (\<lambda>_ r. owner_of s (rent_station r) = Some (rent_payer r) \<and> 0 \<le> rent_amount r \<and> in64 (rent_amount r)) ?t"
    using ok by (simp add: rents_ok_def)
  ultimately show ?thesis
    using ok own rn owner_of_cong [of "s1\<lparr>rents := AList.delete i (rents s)\<rparr>" s1]
    by (auto simp: rents_ok_def all_rows_def)
qed

section \<open>One charge\<close>

text \<open>The three outcomes of charging rent \<open>i\<close>, with the state each leaves.\<close>

inductive charged :: "rent_config \<Rightarrow> int \<Rightarrow> int \<Rightarrow> rent_row \<Rightarrow> db \<Rightarrow> overdue_event list \<Rightarrow> db \<Rightarrow> bool" where
  paid: "cash_of s (rent_payer r) = Some c \<Longrightarrow> rent_amount r \<le> c \<Longrightarrow>
    s' = updateRent i (\<lambda>r. r\<lparr>rent_unpaid := 0, rent_last_paid := Some now, rent_next_due := now + rc_Period cfg\<rparr>)
      (set_cash (rent_payer r) (c - rent_amount r) s) \<Longrightarrow>
    charged cfg now i r s [] s'"
| missed: "cash_of s (rent_payer r) = Some c \<Longrightarrow> c < rent_amount r \<Longrightarrow> rent_unpaid r + 1 < rc_MaxUnpaid cfg \<Longrightarrow>
    s' = updateRent i (\<lambda>q. q\<lparr>rent_unpaid := rent_unpaid r + 1, rent_next_due := now + rc_Period cfg\<rparr>) s \<Longrightarrow>
    ov_RentID ev = i \<Longrightarrow> \<not> ov_Confiscated ev \<Longrightarrow>
    charged cfg now i r s [ev] s'"
| confiscated: "cash_of s (rent_payer r) = Some c \<Longrightarrow> c < rent_amount r \<Longrightarrow> rc_MaxUnpaid cfg \<le> rent_unpaid r + 1 \<Longrightarrow>
    owner_of s1 = (owner_of s)(rent_station r := None) \<Longrightarrow> rents s1 = rents s \<Longrightarrow> players s1 = players s \<Longrightarrow>
    s' = s1\<lparr>rents := AList.delete i (rents s1)\<rparr> \<Longrightarrow> ov_RentID ev = i \<Longrightarrow> ov_Confiscated ev \<Longrightarrow>
    charged cfg now i r s [ev] s'"

inductive_cases chargedE: "charged cfg now i r s evs s'"

lemma chargeRent_charged:
  assumes "chargeRent cfg now (i, r) s = (Inr evs, s')" "0 \<le> rent_amount r" "in64 (rent_amount r)"
  shows "charged cfg now i r s evs s'"
proof -
  have w: "wrap64 (- rent_amount r) = - rent_amount r" using assms(2,3) by (intro wrap64_id in64_uminus)
  obtain res s1 where adj: "AdjustCash (rent_payer r) (- rent_amount r) s = (res, s1)" by fastforce
  show ?thesis
  proof (cases res)
    case (Inr c)
    with assms(1) adj w have "MarkPaid i now (now + rc_Period cfg) s1 = (Inr (), s')" "evs = []"
      by (auto simp: chargeRent_def run_simps)
    with adj Inr show ?thesis by (auto simp: AdjustCash_ok MarkPaid_def run_simps intro!: charged.paid)
  next
    case (Inl e)
    with assms(1) adj w have e: "e = EPlayers Players_ErrInsufficientCash"
      by (auto simp: chargeRent_def run_simps split: if_splits)
    with adj Inl obtain c where c: "cash_of s (rent_payer r) = Some c" "c < rent_amount r" "s1 = s"
      by (auto simp: AdjustCash_err split: if_splits option.splits)
    show ?thesis
    proof (cases "rc_MaxUnpaid cfg \<le> rent_unpaid r + 1")
      case True
      with assms(1) adj w Inl e obtain s2 where a: "ClearOwner (rent_station r) s1 = (Inr (), s2)"
        "s' = s2\<lparr>rents := AList.delete i (rents s2)\<rparr>" "\<exists>ev. evs = [ev] \<and> ov_RentID ev = i \<and> ov_Confiscated ev"
        by (auto simp: chargeRent_def run_simps Let_def DeleteRent_def)
      with c True ClearOwner_ok [OF a(1)] show ?thesis by (auto intro!: charged.confiscated)
    next
      case False
      with assms(1) adj w Inl e have
        "s' = updateRent i (\<lambda>q. q\<lparr>rent_unpaid := rent_unpaid r + 1, rent_next_due := now + rc_Period cfg\<rparr>) s1"
        "\<exists>ev. evs = [ev] \<and> ov_RentID ev = i \<and> \<not> ov_Confiscated ev"
        by (auto simp: chargeRent_def run_simps Let_def MarkUnpaid_def split: if_splits)
      with c False show ?thesis by (auto intro!: charged.missed)
    qed
  qed
qed

lemma updateRent_rows: "map_of (rents (updateRent i f s)) j = (if j = i then map_option f (map_of (rents s) i) else map_of (rents s) j)"
  by (auto simp: updateRent_def split: option.split)

lemma charged_keeps:
  assumes "charged cfg now i r s evs s'" "rents_ok s" "map_of (rents s) i = Some r"
  shows "rents_ok s'" and "\<And>j. j \<noteq> i \<Longrightarrow> map_of (rents s') j = map_of (rents s) j"
    and "\<And>r'. map_of (rents s') i = Some r' \<Longrightarrow> rent_next_due r' = now + rc_Period cfg"
  using assms
  by (auto elim!: chargedE simp: updateRent_rows rents_ok_cash intro!: rents_ok_update rents_ok_confiscate)

text \<open>The loop: every rent of the batch is charged once, the rows still to be charged are untouched.\<close>

lemma chargeAll_keeps:
  assumes "rents_ok s" "\<forall>(i, r) \<in> set rs. map_of (rents s) i = Some r" "distinct (map fst rs)"
    and "chargeAll cfg now rs s = (Inr evs, s')"
  shows "rents_ok s' \<and> (\<forall>j. j \<notin> fst ` set rs \<longrightarrow> map_of (rents s') j = map_of (rents s) j) \<and>
    (\<forall>i r'. i \<in> fst ` set rs \<longrightarrow> map_of (rents s') i = Some r' \<longrightarrow> rent_next_due r' = now + rc_Period cfg)"
  using assms
proof (induction rs arbitrary: s evs)
  case Nil
  then show ?case by (auto simp: run_simps)
next
  case (Cons x rs)
  obtain i r where x: "x = (i, r)" by (cases x)
  from Cons.prems(4) x obtain e1 e2 s1 where one: "chargeRent cfg now (i, r) s = (Inr e1, s1)" and
    rest: "chargeAll cfg now rs s1 = (Inr e2, s')" by (auto simp: run_simps)
  have ir: "map_of (rents s) i = Some r" using Cons.prems(2) x by auto
  note k = rents_okD [OF Cons.prems(1) ir]
  note c = charged_keeps [OF chargeRent_charged [OF one k(2,3)] Cons.prems(1) ir]
  have "\<forall>(j, q) \<in> set rs. map_of (rents s1) j = Some q" using Cons.prems(2,3) x c(2) by fastforce
  from Cons.IH [OF c(1) this _ rest] Cons.prems(3) x
  have ih: "rents_ok s'" "\<forall>j. j \<notin> fst ` set rs \<longrightarrow> map_of (rents s') j = map_of (rents s1) j"
    "\<forall>i r'. i \<in> fst ` set rs \<longrightarrow> map_of (rents s') i = Some r' \<longrightarrow> rent_next_due r' = now + rc_Period cfg" by auto
  have "i \<notin> fst ` set rs" using Cons.prems(3) x by auto
  with ih c(2,3) x show ?case by (auto simp: image_iff)
qed

lemma due_rents_rows:
  assumes "rents_ok s"
  shows "\<forall>(i, r) \<in> set (due_rents now limit s). map_of (rents s) i = Some r \<and> rent_next_due r \<le> now"
    and "distinct (map fst (due_rents now limit s))"
proof -
  let ?l = "sort_key (\<lambda>(_, r). rent_next_due r) (filter (\<lambda>(_, r). rent_next_due r \<le> now) (rents s))"
  have wf: "tbl_wf (rents s)" using assms by (simp add: rents_ok_def)
  show "\<forall>(i, r) \<in> set (due_rents now limit s). map_of (rents s) i = Some r \<and> rent_next_due r \<le> now"
    unfolding due_rents_def using wf by (auto dest!: in_set_takeD simp: tbl_wf_map_of)
  have "distinct (map fst (rents s))" using wf by (simp add: tbl_wf_def keys_def)
  then have "distinct (map fst (filter (\<lambda>(_, r). rent_next_due r \<le> now) (rents s)))" by (rule distinct_map_filter)
  then have "distinct (map fst ?l)" by (auto simp: distinct_map)
  then show "distinct (map fst (due_rents now limit s))" by (simp add: due_rents_def flip: take_map)
qed

lemma ProcessDue_keeps:
  assumes "rents_ok s" "ProcessDue cfg now limit s = (Inr evs, s')"
  shows "rents_ok s'" "\<And>j. j \<notin> fst ` set (due_rents now limit s) \<Longrightarrow> map_of (rents s') j = map_of (rents s) j"
    "\<And>i r'. i \<in> fst ` set (due_rents now limit s) \<Longrightarrow> map_of (rents s') i = Some r' \<Longrightarrow> rent_next_due r' = now + rc_Period cfg"
proof -
  from assms(2) have "chargeAll cfg now (due_rents now limit s) s = (Inr evs, s')"
    by (auto simp: ProcessDue_def Due_def run_simps)
  from chargeAll_keeps [OF assms(1) _ due_rents_rows(2) [OF assms(1)] this] due_rents_rows(1) [OF assms(1)]
  show "rents_ok s'" "\<And>j. j \<notin> fst ` set (due_rents now limit s) \<Longrightarrow> map_of (rents s') j = map_of (rents s) j"
    "\<And>i r'. i \<in> fst ` set (due_rents now limit s) \<Longrightarrow> map_of (rents s') i = Some r' \<Longrightarrow> rent_next_due r' = now + rc_Period cfg"
    by fastforce+
qed

lemma Ensure_ok:
  assumes "Ensure p ref amount due s = (Inr x, s')" "rents_ok s" "owner_of s ref = Some p" "in64 amount"
  shows "rents_ok s'" "owner_of s' = owner_of s"
    "\<not> list_ex (\<lambda>(_, r). rent_station r = ref) (rents s) \<Longrightarrow> \<exists>i r. map_of (rents s') i = Some r \<and> rent_payer r = p \<and>
       rent_station r = ref \<and> rent_amount r = amount \<and> rent_next_due r = due"
proof -
  from assms(1) have run: "ensureSQL p ref amount due s = Inr (x, s')" by (auto simp: Ensure_def run_simps)
  show own: "owner_of s' = owner_of s"
    using run by (auto simp: ensureSQL_def Let_def owner_of_def fun_eq_iff split: if_splits)
  show "\<exists>i r. map_of (rents s') i = Some r \<and> rent_payer r = p \<and>
       rent_station r = ref \<and> rent_amount r = amount \<and> rent_next_due r = due"
    if "\<not> list_ex (\<lambda>(_, r). rent_station r = ref) (rents s)"
    using run that by (auto simp: ensureSQL_def Let_def split: if_splits)
  show "rents_ok s'"
  proof (cases "list_ex (\<lambda>(_, r). rent_station r = ref) (rents s)")
    case True
    with run assms(2) show ?thesis
      by (auto simp: ensureSQL_def Let_def split: if_splits intro: rents_ok_cong [THEN iffD2, rotated -1])
  next
    case False
    with run have "rents s' = rents s @ [(seq_rent s, \<lparr>rent_payer = p, rent_station = ref, rent_amount = amount, rent_unpaid = 0,
           rent_last_paid = None, rent_next_due = due, rent_created = db_now s\<rparr>)]" and "0 \<le> amount"
      and new: "map_of (rents s) (seq_rent s) = None"
      by (auto simp: ensureSQL_def Let_def update_new split: if_splits)
    with assms(2,3,4) own False show ?thesis
      by (auto simp: rents_ok_def all_rows_def tbl_wf_def keys_def list_ex_iff map_of_eq_None_iff)
  qed
qed

definition statics_wf :: "db \<Rightarrow> bool" where
  "statics_wf s \<longleftrightarrow> tbl_wf (stations s) \<and> tbl_wf (shipyards s) \<and> tbl_wf (trade_stations s)"

lemma owned_of_mem:
  "tbl_wf t \<Longrightarrow> x \<in> set (owned_of k own t) \<Longrightarrow>
     \<exists>i r. os_Ref x = EntityRef k i \<and> map_of t i = Some r \<and> own r = Some (os_Owner x)"
  by (force simp: owned_of_def tbl_wf_map_of split: option.splits)

lemma PlayerOwned_ok:
  assumes "PlayerOwned s = (Inr owned, s')" "statics_wf s" "x \<in> set owned"
  shows "owner_of s (os_Ref x) = Some (os_Owner x)"
  using assms by (auto simp: PlayerOwned_def run_simps statics_wf_def owner_of_def dest!: owned_of_mem)

lemma ensureLoop_keeps:
  assumes "rents_ok s" "\<forall>x \<in> set owned. owner_of s (os_Ref x) = Some (os_Owner x)" "in64 amount"
  shows "rents_ok (snd (forM owned (\<lambda>o'. pool (Ensure (os_Owner o') (os_Ref o') amount due)) s))"
  using assms(1,2)
proof (induction owned arbitrary: s)
  case Nil
  then show ?case by (simp add: returnM_def)
next
  case (Cons x xs)
  obtain r s1 where run: "pool (Ensure (os_Owner x) (os_Ref x) amount due) s = (r, s1)" by fastforce
  show ?case
  proof (cases r)
    case (Inl e)
    with run have "s1 = s" by (auto dest: tx_do_err)
    with run Inl Cons.prems show ?thesis by (simp add: bindM_def)
  next
    case (Inr u)
    with run have e: "Ensure (os_Owner x) (os_Ref x) amount due s = (Inr u, s1)" by (simp add: run_simps)
    note k = Ensure_ok [OF e Cons.prems(1) _ assms(3)]
    from k Cons.prems(2) Cons.IH [of s1] run Inr show ?thesis by (simp add: bindM_def)
  qed
qed

lemma Reconcile_keeps:
  assumes "rents_ok s" "statics_wf s" "in64 (rc_DefaultAmount cfg)"
  shows "rents_ok (snd (Reconcile cfg now s))"
proof -
  obtain r s1 where run: "pool PlayerOwned s = (r, s1)" by fastforce
  have s1: "s1 = s" using run by (auto simp: PlayerOwned_def tx_do_def query_def sql_def split: if_splits prod.splits)
  show ?thesis
  proof (cases r)
    case (Inr owned)
    with run s1 have "PlayerOwned s = (Inr owned, s)" by (simp add: run_simps)
    then have "\<forall>x \<in> set owned. owner_of s (os_Ref x) = Some (os_Owner x)" using PlayerOwned_ok [OF _ assms(2)] by blast
    from ensureLoop_keeps [OF assms(1) this assms(3)] Inr run s1 show ?thesis by (simp add: Reconcile_def bindM_def)
  qed (use run s1 assms in \<open>simp add: Reconcile_def bindM_def\<close>)
qed

lemma ClaimUnowned_ok:
  assumes "ClaimUnowned ref p s = (Inr True, s')"
  shows "owner_of s ref = None" "owner_of s' = (owner_of s)(ref \<mapsto> p)" "rents s' = rents s" "players s' = players s"
  using assms
  by (cases ref; auto simp: ClaimUnowned_def owner_of_def run_simps fun_eq_iff split: if_splits option.splits)+

lemma Claim_run:
  assumes "rent_Claim cfg now p st s = (Inr x, s')" "rents_ok s" "in64 (rc_DefaultAmount cfg)"
  shows "rents_ok s'" "owner_of s (EntityRef EntityKindStation st) = None"
    "owner_of s' = (owner_of s)(EntityRef EntityKindStation st \<mapsto> p)"
    "\<exists>i r. map_of (rents s') i = Some r \<and> rent_payer r = p \<and> rent_station r = EntityRef EntityKindStation st \<and>
       rent_next_due r = now + rc_Period cfg"
    "\<exists>c. cash_of s p = Some c \<and> cash_of s' = (cash_of s)(p \<mapsto> c + wrap64 (- rc_ClaimPrice cfg)) \<and> 0 \<le> c + wrap64 (- rc_ClaimPrice cfg)"
proof -
  let ?ref = "EntityRef EntityKindStation st"
  from assms(1) obtain s1 s2 c where run: "ClaimUnowned ?ref p s = (Inr True, s1)"
    "AdjustCash p (wrap64 (- rc_ClaimPrice cfg)) s1 = (Inr c, s2)"
    "Ensure p ?ref (rc_DefaultAmount cfg) (now + rc_Period cfg) s2 = (Inr (), s')"
    by (auto simp: rent_Claim_def Let_def run_simps)
  note cl = ClaimUnowned_ok [OF run(1)]
  have free: "rent_station r \<noteq> ?ref" if "(i, r) \<in> set (rents s)" for i r
    using that assms(2) cl(1) by (auto simp: rents_ok_def all_rows_def)
  have ok1: "rents_ok s1" using assms(2) cl free by (fastforce simp: rents_ok_def all_rows_def)
  from run(2) have s2: "s2 = set_cash p c s1" by (auto simp: AdjustCash_ok)
  have own2: "owner_of s2 = owner_of s1" by (auto simp: s2 owner_of_def fun_eq_iff)
  have ok2: "rents_ok s2" using ok1 by (simp add: s2 rents_ok_cash)
  have "owner_of s2 ?ref = Some p" using own2 cl by simp
  note e = Ensure_ok [OF run(3) ok2 this assms(3)]
  show "rents_ok s'" by (fact e)
  show "owner_of s ?ref = None" by (fact cl)
  show "owner_of s' = (owner_of s)(?ref \<mapsto> p)" using e own2 cl by simp
  have "\<not> list_ex (\<lambda>(_, r). rent_station r = ?ref) (rents s2)" using free cl by (auto simp: list_ex_iff s2)
  from e(3) [OF this] show "\<exists>i r. map_of (rents s') i = Some r \<and> rent_payer r = p \<and> rent_station r = ?ref \<and>
       rent_next_due r = now + rc_Period cfg" by blast
  have "cash_of s1 = cash_of s" "cash_of s' = cash_of s2"
    using cl(4) run(3) by (auto simp: cash_of_def fun_eq_iff Ensure_def run_simps ensureSQL_def Let_def split: if_splits)
  with cash.adjust_balance [OF run(2)]
  show "\<exists>c. cash_of s p = Some c \<and> cash_of s' = (cash_of s)(p \<mapsto> c + wrap64 (- rc_ClaimPrice cfg)) \<and> 0 \<le> c + wrap64 (- rc_ClaimPrice cfg)"
    by (intro exI [of _ "c - wrap64 (- rc_ClaimPrice cfg)"]) simp
qed

lemma ProcessDue_rents_ok: "rents_ok s \<Longrightarrow> rents_ok (snd (ProcessDue cfg now limit s))"
proof (cases "ProcessDue cfg now limit s")
  case (Pair r s')
  assume ok: "rents_ok s"
  with Pair show ?thesis
    using ProcessDue_keeps(1) [OF ok, of cfg now limit _ s'] by (cases r) (auto simp: ProcessDue_def dest!: tx_do_err)
qed

lemma Claim_rents_ok: "rents_ok s \<Longrightarrow> in64 (rc_DefaultAmount cfg) \<Longrightarrow> rents_ok (snd (rent_Claim cfg now p st s))"
proof (cases "rent_Claim cfg now p st s")
  case (Pair r s')
  assume ok: "rents_ok s" "in64 (rc_DefaultAmount cfg)"
  with Pair show ?thesis
    using Claim_run(1) [of cfg now p st s _ s'] by (cases r) (auto simp: rent_Claim_def Let_def dest!: tx_do_err)
qed

section \<open>Properties\<close>

text \<open>
  C8: whoever is charged rent for an object is its current owner: claiming a station, charging the due
  rents (with confiscations), reconciling and a pass of the closer keep every rent row's payer equal to
  the owner of its object, and keep at most one rent row per object.
\<close>

theorem rent_payer_is_owner:
  assumes "rents_ok s" "statics_wf s" "in64 (rc_DefaultAmount cfg)"
  shows "rents_ok (snd (Reconcile cfg now s)) \<and> rents_ok (snd (ProcessDue cfg now limit s)) \<and>
    rents_ok (snd (rent_Claim cfg now p st s)) \<and> rents_ok (snd (rent_closer_Tick cfg now s))"
proof -
  have "rents_ok (snd (rent_closer_Tick cfg now s))"
    using ProcessDue_rents_ok [OF Reconcile_keeps [OF assms, of now], of cfg now 200]
    by (cases "Reconcile cfg now s"; cases "ProcessDue cfg now 200 (snd (Reconcile cfg now s))")
      (simp add: rent_closer_Tick_def bindM_def tryM_def returnM_def)
  then show ?thesis using assms Reconcile_keeps ProcessDue_rents_ok Claim_rents_ok by blast
qed

theorem rent_payer_is_owner_witness:
  "rents_ok (snd (rent_Claim (rent_New \<lparr>rc_Period = 0, rc_MaxUnpaid = 0, rc_DefaultAmount = 0, rc_ClaimPrice = 900\<rparr>) 1000 1 20 sample_db))"
proof -
  have "rents_ok sample_db" "statics_wf sample_db"
    "in64 (rc_DefaultAmount (rent_New \<lparr>rc_Period = 0, rc_MaxUnpaid = 0, rc_DefaultAmount = 0, rc_ClaimPrice = 900\<rparr>))" by code_simp+
  from rent_payer_is_owner [OF this] show ?thesis by blast
qed

text \<open>
  Charging one due rent debits the owner exactly if the wallet covers it and clears the missed
  count; otherwise it only counts the miss, or, at the configured number of consecutive misses,
  takes the object away and deletes the rent. No wallet is ever overdrawn and nobody else pays.
\<close>

theorem rent_charge_effect:
  assumes "chargeRent cfg now (i, r) s = (Inr evs, s')" "map_of (rents s) i = Some r" "rents_ok s"
  shows "\<exists>c. cash_of s (rent_payer r) = Some c \<and>
    (if rent_amount r \<le> c then
       evs = [] \<and> cash_of s' = (cash_of s)(rent_payer r \<mapsto> c - rent_amount r) \<and> owner_of s' = owner_of s \<and>
       map_of (rents s') i = Some (r\<lparr>rent_unpaid := 0, rent_last_paid := Some now, rent_next_due := now + rc_Period cfg\<rparr>)
     else
       cash_of s' = cash_of s \<and> length evs = 1 \<and>
       (if rc_MaxUnpaid cfg \<le> rent_unpaid r + 1 then
          owner_of s' = (owner_of s)(rent_station r := None) \<and> map_of (rents s') i = None
        else owner_of s' = owner_of s \<and>
          map_of (rents s') i = Some (r\<lparr>rent_unpaid := rent_unpaid r + 1, rent_next_due := now + rc_Period cfg\<rparr>)))"
proof -
  have fr: "owner_of (updateRent i f t) = owner_of t" "cash_of (updateRent i f t) = cash_of t"
    "owner_of (set_cash p c t) = owner_of t" "owner_of (t\<lparr>rents := x\<rparr>) = owner_of t" "cash_of (t\<lparr>rents := x\<rparr>) = cash_of t"
    for f t p c x by (auto simp: updateRent_def owner_of_def cash_of_def fun_eq_iff split: option.splits)
  note k = rents_okD [OF assms(3,2)]
  from chargeRent_charged [OF assms(1) k(2,3)] show ?thesis
  proof cases
    case (paid c)
    with assms(2) show ?thesis by (simp add: fr updateRent_rows cash_of_set_cash)
  next
    case (missed c ev)
    with assms(2) show ?thesis by (simp add: fr updateRent_rows)
  next
    case (confiscated c s1 ev)
    then have "cash_of s1 = cash_of s" by (simp add: cash_of_def fun_eq_iff)
    with confiscated show ?thesis by (simp add: fr)
  qed
qed

theorem rent_charge_effect_witness:
  "\<exists>c. cash_of (snd (chargeRent \<lparr>rc_Period = 500, rc_MaxUnpaid = 3, rc_DefaultAmount = 1, rc_ClaimPrice = 1\<rparr> 1000
     (1, the (map_of (rents sample_db) 1)) sample_db)) 2 = Some c \<and> c = 700"
proof -
  let ?cfg = "\<lparr>rc_Period = 500, rc_MaxUnpaid = 3, rc_DefaultAmount = 1, rc_ClaimPrice = 1\<rparr>"
  let ?r = "the (map_of (rents sample_db) 1)"
  have run: "fst (chargeRent ?cfg 1000 (1, ?r) sample_db) = Inr []" and
    r: "map_of (rents sample_db) 1 = Some ?r" "rents_ok sample_db" and
    v: "rent_payer ?r = 2" "rent_amount ?r = 100" "cash_of sample_db 2 = Some 800" by code_simp+
  from rent_charge_effect [OF run_state [OF run] r] v show ?thesis by simp
qed

text \<open>
  No rent is charged twice for a period: after a billing run every rent of the batch is gone or due
  only one period later, and the rents outside the batch are untouched.
\<close>

theorem billed_once_per_period:
  assumes "rents_ok s" "ProcessDue cfg now limit s = (Inr evs, s')" "0 < rc_Period cfg"
  shows "(\<forall>i r'. i \<in> fst ` set (due_rents now limit s) \<longrightarrow> map_of (rents s') i = Some r' \<longrightarrow> now < rent_next_due r') \<and>
    (\<forall>j. j \<notin> fst ` set (due_rents now limit s) \<longrightarrow> map_of (rents s') j = map_of (rents s) j)"
  using ProcessDue_keeps(2,3) [OF assms(1,2)] assms(3) by auto

theorem billed_once_per_period_witness:
  "\<exists>s'. (\<forall>r'. map_of (rents s') 1 = Some r' \<longrightarrow> 1000 < rent_next_due r') \<and>
     s' = snd (ProcessDue \<lparr>rc_Period = 500, rc_MaxUnpaid = 3, rc_DefaultAmount = 1, rc_ClaimPrice = 1\<rparr> 1000 10 sample_db)"
proof -
  let ?p = "ProcessDue \<lparr>rc_Period = 500, rc_MaxUnpaid = 3, rc_DefaultAmount = 1, rc_ClaimPrice = 1\<rparr> 1000 10 sample_db"
  have ok: "rents_ok sample_db" and run: "fst ?p = Inr []" and m: "1 \<in> fst ` set (due_rents 1000 10 sample_db)" by code_simp+
  from billed_once_per_period [OF ok run_state [OF run]] m show ?thesis by auto
qed

text \<open>
  a station is claimed only while nobody owns it; the claimer pays, becomes the owner, and owes
  rent on it from the next period on.
\<close>

theorem claim_effect:
  assumes "rent_Claim cfg now p st s = (Inr (), s')" "rents_ok s" "in64 (rc_DefaultAmount cfg)"
    and "0 < rc_ClaimPrice cfg" "rc_ClaimPrice cfg < 2 ^ 63"
  shows "owner_of s (EntityRef EntityKindStation st) = None \<and>
    owner_of s' = (owner_of s)(EntityRef EntityKindStation st \<mapsto> p) \<and>
    (\<exists>c. cash_of s p = Some c \<and> rc_ClaimPrice cfg \<le> c \<and> cash_of s' = (cash_of s)(p \<mapsto> c - rc_ClaimPrice cfg)) \<and>
    (\<exists>i r. map_of (rents s') i = Some r \<and> rent_payer r = p \<and> rent_station r = EntityRef EntityKindStation st \<and>
       rent_next_due r = now + rc_Period cfg)"
proof -
  have "wrap64 (- rc_ClaimPrice cfg) = - rc_ClaimPrice cfg" using assms(4,5) by (intro wrap64_id) (simp add: in64_def)
  with Claim_run [OF assms(1-3)] show ?thesis by auto
qed

theorem claim_effect_witness:
  "owner_of (snd (rent_Claim \<lparr>rc_Period = 500, rc_MaxUnpaid = 3, rc_DefaultAmount = 10, rc_ClaimPrice = 900\<rparr> 1000 1 20 sample_db))
     (EntityRef 2 20) = Some 1"
proof -
  let ?cfg = "\<lparr>rc_Period = 500, rc_MaxUnpaid = 3, rc_DefaultAmount = 10, rc_ClaimPrice = 900\<rparr>"
  have run: "fst (rent_Claim ?cfg 1000 1 20 sample_db) = Inr ()" and ok: "rents_ok sample_db" "in64 (rc_DefaultAmount ?cfg)"
    by code_simp+
  from claim_effect [OF run_state [OF run] ok] show ?thesis by simp
qed

end
