(* ===== verification/Production.thy ===== *)
theory Production
  imports TradeRepo Balance
begin

text \<open>
  \<open>internal/economy/production\<close> with the station part of \<open>internal/persistence/stations\<close> it uses:
  the factory cycle of a sector's stations, run against the market rows, and the forecast that
  replays it on a copy of the market.

  A station lives twice: as a row of the database and as the RAM copy of the sector worker. \<open>Tick\<close>
  takes the worker's slice and returns it updated, together with the number of finished cycles and
  the errors it joined. A nil time is \<open>None\<close>; it lies before every instant. The callback of
  \<open>maybeStartCycle\<close> writes the RAM copy as its last action, so its result is that copy; the code
  would keep the write if the commit itself failed afterwards, which no run of the model does.
\<close>

section \<open>Stations\<close>

record station =
  sn_ID :: int
  sn_OwnerID :: "int option"
  sn_Type :: int
  sn_SectorID :: int
  sn_Pos :: "float64 \<times> float64"
  sn_HP :: int
  sn_Shield :: int
  sn_MaxShield :: int
  sn_ShieldRecharge :: int
  sn_Race :: int
  sn_Built :: bool
  sn_InProgress :: bool
  sn_NextCycleAt :: "int option"

definition scanStation :: "int \<Rightarrow> station_row \<Rightarrow> station" where
  "scanStation i r = \<lparr>sn_ID = i, sn_OwnerID = st_owner r, sn_Type = st_type r, sn_SectorID = st_sector r,
     sn_Pos = (st_pos_x r, st_pos_y r), sn_HP = st_hp r, sn_Shield = st_shield r,
     sn_MaxShield = st_max_shield r, sn_ShieldRecharge = st_shield_recharge r, sn_Race = st_race r,
     sn_Built = st_built r, sn_InProgress = st_in_progress r, sn_NextCycleAt = st_next_cycle r\<rparr>"

definition loadStations :: "int \<Rightarrow> station list dbm" where
  "loadStations sectorID = query (\<lambda>s. map (\<lambda>(i, r). scanStation i r)
     (sort_key fst (filter (\<lambda>(_, r). st_sector r = sectorID) (stations s))))"

definition GetStation :: "int \<Rightarrow> station dbm" where
  "GetStation i = bindM (query (\<lambda>s. map_of (stations s) i)) (\<lambda>row. case row of
       None \<Rightarrow> failM (ERent ST_ErrStationNotFound)
     | Some r \<Rightarrow> returnM (scanStation i r))"

definition updateProductionSQL :: "int \<Rightarrow> bool \<Rightarrow> int option \<Rightarrow> db \<Rightarrow> db" where
  "updateProductionSQL i inProgress next s = (case map_of (stations s) i of
       None \<Rightarrow> s
     | Some r \<Rightarrow> s\<lparr>stations := AList.update i (r\<lparr>st_in_progress := inProgress, st_next_cycle := next\<rparr>) (stations s)\<rparr>)"

definition UpdateProduction :: "int \<Rightarrow> bool \<Rightarrow> int option \<Rightarrow> unit dbm" where
  "UpdateProduction i inProgress nextCycleAt = sql (\<lambda>s. Inr ((), updateProductionSQL i inProgress nextCycleAt s))"

section \<open>The gates of a cycle\<close>

definition energyGoodsID :: int where
  "energyGoodsID = 1"

definition freeInputProduction :: "station \<Rightarrow> recipe \<Rightarrow> bool" where
  "freeInputProduction st r \<longleftrightarrow>
     sn_OwnerID st = None \<and> list_ex (\<lambda>out. rl_GoodsType out = energyGoodsID) (rc_Outputs r)"

type_synonym market_index = "(int, market_entry) table"

definition indexMarket :: "market_entry list \<Rightarrow> market_index" where
  "indexMarket es = fold (\<lambda>e m. AList.update (me_goods e) e m) es []"

definition loadMarket :: "entity_ref \<Rightarrow> market_index dbm" where
  "loadMarket ownr = bindM (ListMarket ownr) (\<lambda>entries. returnM (indexMarket entries))"

text \<open>A map read in Go returns the zero value for a missing key.\<close>

definition zeroEntry :: market_entry where
  "zeroEntry = \<lparr>me_owner = EntityRef 0 0, me_goods = 0, me_buy = None, me_sell = None, me_stock = 0, me_max = 0\<rparr>"

definition lookupEntry :: "market_index \<Rightarrow> int \<Rightarrow> market_entry" where
  "lookupEntry m g = (case map_of m g of None \<Rightarrow> zeroEntry | Some e \<Rightarrow> e)"

fun hasInputs :: "market_index \<Rightarrow> recipe_line list \<Rightarrow> bool" where
  "hasInputs m [] = True"
| "hasInputs m (i # is) = (if me_stock (lookupEntry m (rl_GoodsType i)) < rl_Quantity i then False else hasInputs m is)"

fun hasOutputRoom :: "market_index \<Rightarrow> recipe_line list \<Rightarrow> bool" where
  "hasOutputRoom m [] = True"
| "hasOutputRoom m (out # outs) = (case map_of m (rl_GoodsType out) of
       None \<Rightarrow> False
     | Some e \<Rightarrow> if me_max e < wrap64 (me_stock e + rl_Quantity out) then False else hasOutputRoom m outs)"

section \<open>The cycle\<close>

definition stationRef :: "station \<Rightarrow> entity_ref" where
  "stationRef st = EntityRef EntityKindStation (sn_ID st)"

definition maybeStartCycle :: "station \<Rightarrow> recipe \<Rightarrow> int \<Rightarrow> bool \<Rightarrow> station dbm" where
  "maybeStartCycle st r now freeInput =
     (let nextCycleAt = Some (now + rc_CycleTime r) in
      tx_do (bindM (loadMarket (stationRef st)) (\<lambda>market.
        if \<not> freeInput \<and> \<not> hasInputs market (rc_Inputs r) then returnM st
        else if \<not> hasOutputRoom market (rc_Outputs r) then returnM st
        else bindM (UpdateProduction (sn_ID st) True nextCycleAt) (\<lambda>_.
          returnM (st\<lparr>sn_InProgress := True, sn_NextCycleAt := nextCycleAt\<rparr>)))))"

definition takeOf :: "market_index \<Rightarrow> bool \<Rightarrow> recipe_line \<Rightarrow> int" where
  "takeOf m freeInput i =
     (if freeInput then min (me_stock (lookupEntry m (rl_GoodsType i))) (rl_Quantity i) else rl_Quantity i)"

definition consumeInputs :: "entity_ref \<Rightarrow> market_index \<Rightarrow> bool \<Rightarrow> recipe_line list \<Rightarrow> unit dbm" where
  "consumeInputs ref m freeInput inputs = forM inputs (\<lambda>i.
     if takeOf m freeInput i \<le> 0 then returnM ()
     else bindM (AdjustStock ref (rl_GoodsType i) (wrap64 (- takeOf m freeInput i))) (\<lambda>_. returnM ()))"

definition produceOutputs :: "entity_ref \<Rightarrow> recipe_line list \<Rightarrow> unit dbm" where
  "produceOutputs ref outputs = forM outputs (\<lambda>out.
     bindM (AdjustStock ref (rl_GoodsType out) (rl_Quantity out)) (\<lambda>_. returnM ()))"

definition finishCycle :: "station \<Rightarrow> recipe \<Rightarrow> bool \<Rightarrow> (bool \<times> station) dbm" where
  "finishCycle st r freeInput =
     bindM (tx_do (bindM (loadMarket (stationRef st)) (\<lambda>market.
       if \<not> freeInput \<and> \<not> hasInputs market (rc_Inputs r) then returnM False
       else if \<not> hasOutputRoom market (rc_Outputs r) then returnM False
       else bindM (consumeInputs (stationRef st) market freeInput (rc_Inputs r)) (\<lambda>_.
         bindM (produceOutputs (stationRef st) (rc_Outputs r)) (\<lambda>_.
         bindM (UpdateProduction (sn_ID st) False None) (\<lambda>_. returnM True))))))
     (\<lambda>produced. returnM (produced, if produced then st\<lparr>sn_InProgress := False, sn_NextCycleAt := None\<rparr> else st))"

text \<open>One station of a tick: cycles finished, errors, the RAM copy afterwards.\<close>

definition notBefore :: "int \<Rightarrow> int option \<Rightarrow> bool" where
  "notBefore now t = (case t of None \<Rightarrow> True | Some x \<Rightarrow> x \<le> now)"

definition tickStation :: "balance \<Rightarrow> int \<Rightarrow> station \<Rightarrow> db \<Rightarrow> (int \<times> err list \<times> station) \<times> db" where
  "tickStation bal now st s =
     (if \<not> sn_Built st then ((0, [], st), s)
      else case balance_Recipe bal (sn_Type st) of
        None \<Rightarrow> ((0, [], st), s)
      | Some r \<Rightarrow>
          (let freeInput = freeInputProduction st r in
           if sn_InProgress st \<and> notBefore now (sn_NextCycleAt st) then
             (case finishCycle st r freeInput s of
                (Inl e, s') \<Rightarrow> ((0, [e], st), s')
              | (Inr (done, st'), s') \<Rightarrow> ((if done then 1 else 0, [], st'), s'))
           else if \<not> sn_InProgress st then
             (case maybeStartCycle st r now freeInput s of
                (Inl e, s') \<Rightarrow> ((0, [e], st), s')
              | (Inr st', s') \<Rightarrow> ((0, [], st'), s'))
           else ((0, [], st), s)))"

fun production_Tick :: "balance \<Rightarrow> int \<Rightarrow> station list \<Rightarrow> db \<Rightarrow> (int \<times> err list \<times> station list) \<times> db" where
  "production_Tick bal now [] s = ((0, [], []), s)"
| "production_Tick bal now (st # sts) s =
     (case tickStation bal now st s of ((n, es, st'), s1) \<Rightarrow>
      (case production_Tick bal now sts s1 of ((m, es', sts'), s2) \<Rightarrow> ((n + m, es @ es', st' # sts'), s2)))"

section \<open>The reader and the forecast\<close>

record cycle_info =
  ci_Produces :: bool
  ci_InProgress :: bool
  ci_NextCycleAt :: "int option"
  ci_CycleTime :: int

definition StationCycle :: "balance \<Rightarrow> int \<Rightarrow> cycle_info dbm" where
  "StationCycle bal i = bindM (pool (GetStation i)) (\<lambda>st. case balance_Recipe bal (sn_Type st) of
       None \<Rightarrow> returnM \<lparr>ci_Produces = False, ci_InProgress = False, ci_NextCycleAt = None, ci_CycleTime = 0\<rparr>
     | Some r \<Rightarrow> returnM \<lparr>ci_Produces = True, ci_InProgress = sn_InProgress st,
         ci_NextCycleAt = sn_NextCycleAt st, ci_CycleTime = rc_CycleTime r\<rparr>)"

definition simAdd :: "int \<Rightarrow> int \<Rightarrow> market_index \<Rightarrow> market_index" where
  "simAdd g d sim = AList.update g ((lookupEntry sim g)\<lparr>me_stock := wrap64 (me_stock (lookupEntry sim g) + d)\<rparr>) sim"

definition simCycle :: "bool \<Rightarrow> recipe \<Rightarrow> market_index \<Rightarrow> market_index" where
  "simCycle freeInput r sim =
     fold (\<lambda>out sim. simAdd (rl_GoodsType out) (rl_Quantity out) sim) (rc_Outputs r)
       (fold (\<lambda>i sim. simAdd (rl_GoodsType i) (- takeOf sim freeInput i) sim) (rc_Inputs r) sim)"

fun forecastLoop :: "bool \<Rightarrow> recipe \<Rightarrow> nat \<Rightarrow> market_index \<Rightarrow> market_index \<times> nat" where
  "forecastLoop freeInput r 0 sim = (sim, 0)"
| "forecastLoop freeInput r (Suc n) sim =
     (if \<not> freeInput \<and> \<not> hasInputs sim (rc_Inputs r) then (sim, 0)
      else if \<not> hasOutputRoom sim (rc_Outputs r) then (sim, 0)
      else (case forecastLoop freeInput r n (simCycle freeInput r sim) of (sim', c) \<Rightarrow> (sim', Suc c)))"

definition StationForecast :: "balance \<Rightarrow> station \<Rightarrow> market_entry list \<Rightarrow> nat \<Rightarrow> ((int, int) table \<times> nat) option" where
  "StationForecast bal st entries cycles = (case balance_Recipe bal (sn_Type st) of
       None \<Rightarrow> None
     | Some r \<Rightarrow> (case forecastLoop (freeInputProduction st r) r cycles (indexMarket entries) of
         (sim, completed) \<Rightarrow> Some (map (\<lambda>(g, e). (g, me_stock e)) sim, completed)))"

section \<open>A cycle as a list of stock changes\<close>

text \<open>The consume and produce loops are one loop over the changes of a cycle.\<close>

definition adjustAll :: "entity_ref \<Rightarrow> (int \<times> int) list \<Rightarrow> unit dbm" where
  "adjustAll ref ds = forM ds (\<lambda>(g, d). bindM (AdjustStock ref g d) (\<lambda>_. returnM ()))"

definition inputChanges :: "market_index \<Rightarrow> bool \<Rightarrow> recipe_line list \<Rightarrow> (int \<times> int) list" where
  "inputChanges m freeInput is = map (\<lambda>i. (rl_GoodsType i, wrap64 (- takeOf m freeInput i))) (filter (\<lambda>i. \<not> takeOf m freeInput i \<le> 0) is)"

definition outputChanges :: "recipe_line list \<Rightarrow> (int \<times> int) list" where
  "outputChanges outs = map (\<lambda>out. (rl_GoodsType out, rl_Quantity out)) outs"

definition cycleChanges :: "market_index \<Rightarrow> bool \<Rightarrow> recipe \<Rightarrow> (int \<times> int) list" where
  "cycleChanges m freeInput r = inputChanges m freeInput (rc_Inputs r) @ outputChanges (rc_Outputs r)"

lemma consume_produce:
  "bindM (consumeInputs ref m f (rc_Inputs r)) (\<lambda>_. produceOutputs ref (rc_Outputs r)) = adjustAll ref (cycleChanges m f r)"
  by (simp add: adjustAll_def cycleChanges_def inputChanges_def outputChanges_def consumeInputs_def produceOutputs_def
      forM_append forM_skip forM_map)

definition change :: "(int \<times> int) list \<Rightarrow> int \<Rightarrow> int" where
  "change ds g = (\<Sum>(g', d)\<leftarrow>ds. if g' = g then d else 0)"

lemma change_simps [simp]:
  "change [] g = 0" "change ((g', d) # ds) g = (if g' = g then d else 0) + change ds g"
  "change (ds @ es) g = change ds g + change es g"
  by (simp_all add: change_def)

lemma change_absent: "g \<notin> fst ` set ds \<Longrightarrow> change ds g = 0"
  by (induction ds) auto

lemma change_distinct: "distinct (map fst ds) \<Longrightarrow> (g, d) \<in> set ds \<Longrightarrow> change ds g = d"
  by (induction ds) (auto simp: change_absent image_iff)

text \<open>What a successful run of the changes does, whatever the recipe.\<close>

lemma put_stock_frame: "put_stock k n s = s\<lparr>station_goods := station_goods (put_stock k n s)\<rparr>"
  by (simp add: put_stock_def split: option.split)

definition same_shelf :: "market_row option \<Rightarrow> market_row option \<Rightarrow> bool" where
  "same_shelf a b \<longleftrightarrow> map_option (mk_stock_update (\<lambda>_. 0)) a = map_option (mk_stock_update (\<lambda>_. 0)) b"

lemma adjustAll_effect:
  assumes "adjustAll ref ds s = (Inr u, s')"
  shows "stock_of s' k = stock_of s k + (if fst k = ref then change ds (snd k) else 0)"
    and "market_ok s \<Longrightarrow> market_ok s'" and "s' = s\<lparr>station_goods := station_goods s'\<rparr>"
    and "same_shelf (map_of (station_goods s') k) (map_of (station_goods s) k)"
proof -
  have "stock_of s' k = stock_of s k + (if fst k = ref then change ds (snd k) else 0) \<and>
    (market_ok s \<longrightarrow> market_ok s') \<and> s' = s\<lparr>station_goods := station_goods s'\<rparr> \<and>
    same_shelf (map_of (station_goods s') k) (map_of (station_goods s) k)"
    using assms
  proof (induction ds arbitrary: s)
    case Nil
    then show ?case by (simp add: adjustAll_def run_simps same_shelf_def)
  next
    case (Cons x ds)
    obtain g d where x: "x = (g, d)" by (cases x)
    from Cons.prems x obtain n s1 where one: "AdjustStock ref g d s = (Inr n, s1)" and rest: "adjustAll ref ds s1 = (Inr u, s')"
      by (auto simp: adjustAll_def run_simps)
    from one obtain r where r: "map_of (station_goods s) (ref, g) = Some r" "n = mk_stock r + d" "0 \<le> n" "n \<le> mk_max r"
      and s1: "s1 = put_stock (ref, g) n s" by (auto simp: AdjustStock_ok)
    have "stock_of s1 k = stock_of s k + (if k = (ref, g) then d else 0)"
      using r by (auto simp: s1 put_stock_stock stock_of_def)
    moreover have "market_ok s \<longrightarrow> market_ok s1" using r by (auto simp: s1 intro: market_ok_put)
    moreover have "same_shelf (map_of (station_goods s1) k) (map_of (station_goods s) k)"
      using r by (auto simp: s1 same_shelf_def put_stock_row)
    moreover have "s1 = s\<lparr>station_goods := station_goods s1\<rparr>" unfolding s1 by (rule put_stock_frame)
    then have "s1\<lparr>station_goods := t\<rparr> = s\<lparr>station_goods := t\<rparr>" for t by (metis db.update_convs(8) db.surjective)
    ultimately show ?case using Cons.IH [OF rest] x by (cases k) (auto simp: same_shelf_def)
  qed
  then show "stock_of s' k = stock_of s k + (if fst k = ref then change ds (snd k) else 0)"
    and "market_ok s \<Longrightarrow> market_ok s'" and "s' = s\<lparr>station_goods := station_goods s'\<rparr>"
    and "same_shelf (map_of (station_goods s') k) (map_of (station_goods s) k)" by auto
qed

text \<open>When every good appears once, each change can be judged on the rows at the start.\<close>

definition change_fits :: "entity_ref \<Rightarrow> db \<Rightarrow> int \<times> int \<Rightarrow> bool" where
  "change_fits ref s = (\<lambda>(g, d). case map_of (station_goods s) (ref, g) of
       None \<Rightarrow> False
     | Some r \<Rightarrow> in64 (mk_stock r + d) \<and> 0 \<le> mk_stock r + d \<and> mk_stock r + d \<le> mk_max r)"

lemma adjustAll_succeeds:
  assumes "isStationKind (ref_kind ref)" "\<not> tx_aborted s" "distinct (map fst ds)" "list_all (change_fits ref s) ds"
  shows "\<exists>s'. adjustAll ref ds s = (Inr (), s')"
  using assms
proof (induction ds arbitrary: s)
  case Nil
  then show ?case by (simp add: adjustAll_def returnM_def)
next
  case (Cons x ds)
  obtain g d where x: "x = (g, d)" by (cases x)
  with Cons.prems obtain r where r: "map_of (station_goods s) (ref, g) = Some r" "in64 (mk_stock r + d)"
    "0 \<le> mk_stock r + d" "mk_stock r + d \<le> mk_max r" by (auto simp: change_fits_def split: option.splits)
  let ?s1 = "put_stock (ref, g) (mk_stock r + d) s"
  have one: "AdjustStock ref g d s = (Inr (mk_stock r + d), ?s1)" using r Cons.prems by (simp add: AdjustStock_ok)
  have "change_fits ref ?s1 y = change_fits ref s y" if "y \<in> set ds" for y
    using that Cons.prems(3) x by (cases y) (auto simp: change_fits_def put_stock_row image_iff)
  then have "list_all (change_fits ref ?s1) ds" using Cons.prems(4) by (simp add: list_all_iff)
  with Cons.IH [of ?s1] Cons.prems obtain s' where "adjustAll ref ds ?s1 = (Inr (), s')" by auto
  with one x show ?case by (auto simp: adjustAll_def run_simps)
qed

section \<open>What the gates read\<close>

text \<open>An index (loaded or simulated) agrees with the market rows of an owner.\<close>

definition agrees :: "entity_ref \<Rightarrow> market_index \<Rightarrow> db \<Rightarrow> bool" where
  "agrees ref sim s \<longleftrightarrow> (\<forall>g. case map_of (station_goods s) (ref, g) of
       Some r \<Rightarrow> (\<exists>e. map_of sim g = Some e \<and> me_stock e = mk_stock r \<and> me_max e = mk_max r)
     | None \<Rightarrow> me_stock (lookupEntry sim g) = 0 \<and> me_max (lookupEntry sim g) = 0)"

lemma indexMarket_cases:
  "map_of (fold (\<lambda>e m. AList.update (me_goods e) e m) es m) g = Some e \<Longrightarrow> e \<in> set es \<and> me_goods e = g \<or> map_of m g = Some e"
  "map_of (fold (\<lambda>e m. AList.update (me_goods e) e m) es m) g = None \<longleftrightarrow> map_of m g = None \<and> g \<notin> me_goods ` set es"
  by (induction es arbitrary: m) (fastforce split: if_splits)+

lemma indexMarket_rows:
  assumes "tbl_wf (station_goods s)"
  shows "map_of (indexMarket (market_rows ref s)) g = map_option (entry_of ref g) (map_of (station_goods s) (ref, g))"
proof (cases "map_of (indexMarket (market_rows ref s)) g")
  case None
  then have "g \<notin> me_goods ` set (market_rows ref s)" by (simp add: indexMarket_def indexMarket_cases)
  then have "map_of (station_goods s) (ref, g) = None"
    by (cases "map_of (station_goods s) (ref, g)") (force simp: market_rows_def entry_of_def dest: map_of_SomeD)+
  with None show ?thesis by simp
next
  case (Some e)
  then have "e \<in> set (market_rows ref s)" "me_goods e = g" by (auto simp: indexMarket_def dest: indexMarket_cases(1))
  with assms Some show ?thesis by (auto simp: market_rows_def entry_of_def tbl_wf_map_of)
qed

lemma agrees_index: "tbl_wf (station_goods s) \<Longrightarrow> agrees ref (indexMarket (market_rows ref s)) s"
  by (auto simp: agrees_def indexMarket_rows lookupEntry_def entry_of_def zeroEntry_def split: option.split)

lemma agrees_stock: "agrees ref sim s \<Longrightarrow> me_stock (lookupEntry sim g) = stock_of s (ref, g)"
  by (auto simp: agrees_def stock_of_def lookupEntry_def dest!: spec [of _ g] split: option.splits)

lemma loadMarket_ok:
  "loadMarket (stationRef st) s = (Inr m, s') \<longleftrightarrow> \<not> tx_aborted s \<and> s' = s \<and> m = indexMarket (market_rows (stationRef st) s)"
  by (auto simp: loadMarket_def ListMarket_def run_simps stationRef_def isStationKind_def)

text \<open>The gates and the quantities taken, read off the rows.\<close>

definition sound_recipe :: "recipe \<Rightarrow> bool" where
  "sound_recipe r \<longleftrightarrow> distinct (map rl_GoodsType (rc_Inputs r @ rc_Outputs r)) \<and>
     list_all (\<lambda>l. 0 < rl_Quantity l \<and> in64 (rl_Quantity l)) (rc_Inputs r @ rc_Outputs r)"

definition shelves_bounded :: "entity_ref \<Rightarrow> db \<Rightarrow> recipe \<Rightarrow> bool" where
  "shelves_bounded ref s r \<longleftrightarrow> list_all (\<lambda>out. case map_of (station_goods s) (ref, rl_GoodsType out) of
       None \<Rightarrow> True | Some row \<Rightarrow> in64 (mk_max row + rl_Quantity out)) (rc_Outputs r)"

definition cycle_ready :: "bool \<Rightarrow> entity_ref \<Rightarrow> db \<Rightarrow> recipe \<Rightarrow> bool" where
  "cycle_ready free ref s r \<longleftrightarrow>
     (free \<or> list_all (\<lambda>i. rl_Quantity i \<le> stock_of s (ref, rl_GoodsType i)) (rc_Inputs r)) \<and>
     list_all (\<lambda>out. case map_of (station_goods s) (ref, rl_GoodsType out) of
         None \<Rightarrow> False | Some row \<Rightarrow> mk_stock row + rl_Quantity out \<le> mk_max row) (rc_Outputs r)"

definition used :: "bool \<Rightarrow> entity_ref \<Rightarrow> db \<Rightarrow> recipe_line \<Rightarrow> int" where
  "used free ref s i = (if free then min (stock_of s (ref, rl_GoodsType i)) (rl_Quantity i) else rl_Quantity i)"

lemma hasInputs_iff: "agrees ref sim s \<Longrightarrow> hasInputs sim is \<longleftrightarrow> list_all (\<lambda>i. rl_Quantity i \<le> stock_of s (ref, rl_GoodsType i)) is"
  by (induction "is") (auto simp: agrees_stock)

lemma takeOf_used: "agrees ref sim s \<Longrightarrow> takeOf sim free i = used free ref s i"
  by (simp add: takeOf_def used_def agrees_stock)

lemma hasOutputRoom_iff:
  assumes "agrees ref sim s" "market_ok s"
    and "list_all (\<lambda>l. 0 < rl_Quantity l \<and> in64 (rl_Quantity l)) outs"
    and "list_all (\<lambda>out. case map_of (station_goods s) (ref, rl_GoodsType out) of
       None \<Rightarrow> True | Some row \<Rightarrow> in64 (mk_max row + rl_Quantity out)) outs"
  shows "hasOutputRoom sim outs \<longleftrightarrow> list_all (\<lambda>out. case map_of (station_goods s) (ref, rl_GoodsType out) of
         None \<Rightarrow> False | Some row \<Rightarrow> mk_stock row + rl_Quantity out \<le> mk_max row) outs"
  using assms(3,4)
proof (induction outs)
  case (Cons out outs)
  let ?g = "rl_GoodsType out"
  show ?case
  proof (cases "map_of (station_goods s) (ref, ?g)")
    case None
    with assms(1) have z: "me_stock (lookupEntry sim ?g) = 0" "me_max (lookupEntry sim ?g) = 0"
      by (auto simp: agrees_def dest!: spec [of _ ?g])
    with Cons None show ?thesis by (auto simp: lookupEntry_def wrap64_id split: option.splits)
  next
    case (Some row)
    with assms(1) obtain e where e: "map_of sim ?g = Some e" "me_stock e = mk_stock row" "me_max e = mk_max row"
      by (auto simp: agrees_def dest!: spec [of _ ?g])
    have "market_row_ok row" using assms(2) Some by (rule market_ok_row)
    with Cons.prems Some have "in64 (mk_stock row + rl_Quantity out)" by (auto simp: market_row_ok_def in64_def)
    with Cons Some e show ?thesis by (auto simp: wrap64_id)
  qed
qed simp

lemmas sound_parts = sound_recipe_def shelves_bounded_def cycle_ready_def list_all_append

lemma gates_iff:
  assumes "agrees ref sim s" "market_ok s" "sound_recipe r" "shelves_bounded ref s r"
  shows "(free \<or> hasInputs sim (rc_Inputs r)) \<and> hasOutputRoom sim (rc_Outputs r) \<longleftrightarrow> cycle_ready free ref s r"
  using assms by (simp add: sound_parts hasInputs_iff hasOutputRoom_iff)

section \<open>A finished cycle\<close>

definition cycle_delta :: "bool \<Rightarrow> entity_ref \<Rightarrow> db \<Rightarrow> recipe \<Rightarrow> int \<Rightarrow> int" where
  "cycle_delta free ref s r g =
     (\<Sum>out\<leftarrow>rc_Outputs r. if rl_GoodsType out = g then rl_Quantity out else 0) -
     (\<Sum>i\<leftarrow>rc_Inputs r. if rl_GoodsType i = g then used free ref s i else 0)"

lemma market_ok_stock: "market_ok s \<Longrightarrow> 0 \<le> stock_of s k \<and> in64 (stock_of s k)"
  by (cases k) (auto simp: stock_of_def market_row_ok_def in64_def dest: market_ok_row split: option.split)

lemma used_bounds:
  assumes "market_ok s" "0 < rl_Quantity i" "in64 (rl_Quantity i)"
  shows "0 \<le> used free ref s i" "in64 (used free ref s i)" "wrap64 (- used free ref s i) = - used free ref s i"
proof -
  show a: "0 \<le> used free ref s i" "in64 (used free ref s i)"
    using assms market_ok_stock [OF assms(1), of "(ref, rl_GoodsType i)"] by (auto simp: used_def in64_def)
  then show "wrap64 (- used free ref s i) = - used free ref s i" by (intro wrap64_id in64_uminus)
qed

lemma change_outputs: "change (outputChanges outs) g = (\<Sum>out\<leftarrow>outs. if rl_GoodsType out = g then rl_Quantity out else 0)"
  by (induction outs) (auto simp: outputChanges_def)

lemma change_inputs:
  assumes "agrees ref m s" "market_ok s" "list_all (\<lambda>l. 0 < rl_Quantity l \<and> in64 (rl_Quantity l)) is"
  shows "change (inputChanges m free is) g = - (\<Sum>i\<leftarrow>is. if rl_GoodsType i = g then used free ref s i else 0)"
  using assms(3)
proof (induction "is")
  case (Cons i "is")
  then have "0 \<le> used free ref s i" "wrap64 (- used free ref s i) = - used free ref s i"
    using used_bounds [OF assms(2)] by auto
  with Cons show ?case by (auto simp: inputChanges_def takeOf_used [OF assms(1)])
qed (simp add: inputChanges_def)

lemma change_cycle:
  assumes "agrees ref m s" "market_ok s" "list_all (\<lambda>l. 0 < rl_Quantity l \<and> in64 (rl_Quantity l)) (rc_Inputs r)"
  shows "change (cycleChanges m free r) g = cycle_delta free ref s r g"
  using change_inputs [OF assms] by (simp add: cycleChanges_def change_outputs cycle_delta_def)

lemma cycle_fits:
  assumes "agrees ref m s" "market_ok s" "sound_recipe r" "cycle_ready free ref s r"
  shows "list_all (change_fits ref s) (cycleChanges m free r)" "distinct (map fst (cycleChanges m free r))"
proof -
  have i: "change_fits ref s (rl_GoodsType i, wrap64 (- takeOf m free i))"
    if "i \<in> set (rc_Inputs r)" "0 < takeOf m free i" for i
  proof -
    have q: "0 < rl_Quantity i" "in64 (rl_Quantity i)" using that(1) assms(3) by (auto simp: sound_recipe_def list_all_iff)
    note u = used_bounds [OF assms(2) q, of free ref]
    have le: "used free ref s i \<le> stock_of s (ref, rl_GoodsType i)" "0 < used free ref s i"
      using that assms(4) by (auto simp: used_def cycle_ready_def list_all_iff takeOf_used [OF assms(1)])
    then obtain row where row: "map_of (station_goods s) (ref, rl_GoodsType i) = Some row" "used free ref s i \<le> mk_stock row"
      by (cases "map_of (station_goods s) (ref, rl_GoodsType i)") (auto simp: stock_of_def)
    have "market_row_ok row" using assms(2) row(1) by (rule market_ok_row)
    with row u le(2) show ?thesis by (auto simp: change_fits_def takeOf_used [OF assms(1)] market_row_ok_def in64_def)
  qed
  have o': "change_fits ref s (rl_GoodsType out, rl_Quantity out)" if "out \<in> set (rc_Outputs r)" for out
  proof -
    from that assms(4) obtain row where row: "map_of (station_goods s) (ref, rl_GoodsType out) = Some row"
      "mk_stock row + rl_Quantity out \<le> mk_max row"
      by (auto simp: cycle_ready_def list_all_iff dest!: bspec split: option.splits)
    have "market_row_ok row" using assms(2) row(1) by (rule market_ok_row)
    moreover have "0 < rl_Quantity out" using that assms(3) by (auto simp: sound_recipe_def list_all_iff)
    ultimately show ?thesis using row by (auto simp: change_fits_def market_row_ok_def in64_def)
  qed
  show "list_all (change_fits ref s) (cycleChanges m free r)"
    using i o' by (auto simp: list_all_iff cycleChanges_def inputChanges_def outputChanges_def)
  show "distinct (map fst (cycleChanges m free r))"
    using assms(3) by (auto simp: sound_recipe_def cycleChanges_def inputChanges_def outputChanges_def comp_def distinct_map_filter)
qed

lemma updateProductionSQL_simps [simp]:
  "station_goods (updateProductionSQL i b n s) = station_goods s" "tx_aborted (updateProductionSQL i b n s) = tx_aborted s"
  "stock_of (updateProductionSQL i b n s) = stock_of s" "market_ok (updateProductionSQL i b n s) = market_ok s"
  by (auto simp: updateProductionSQL_def stock_of_def market_ok_def fun_eq_iff split: option.split)

text \<open>The shape of a finishing run, with no assumption on the recipe.\<close>

lemma finish_ok:
  "finishCycle st r free s = (Inr (done, st'), s') \<longleftrightarrow> \<not> tx_aborted s \<and>
     (let m = indexMarket (market_rows (stationRef st) s) in
      if (free \<or> hasInputs m (rc_Inputs r)) \<and> hasOutputRoom m (rc_Outputs r) then
        done \<and> st' = st\<lparr>sn_InProgress := False, sn_NextCycleAt := None\<rparr> \<and>
        (\<exists>s1. adjustAll (stationRef st) (cycleChanges m free r) s = (Inr (), s1) \<and> \<not> tx_aborted s1 \<and>
           s' = updateProductionSQL (sn_ID st) False None s1)
      else \<not> done \<and> st' = st \<and> s' = s)"
proof -
  let ?m = "indexMarket (market_rows (stationRef st) s)"
  let ?ok = "(free \<or> hasInputs ?m (rc_Inputs r)) \<and> hasOutputRoom ?m (rc_Outputs r)"
  have "finishCycle st r free s = (Inr (done, st'), s') \<longleftrightarrow> \<not> tx_aborted s \<and> \<not> tx_aborted s' \<and>
    st' = (if done then st\<lparr>sn_InProgress := False, sn_NextCycleAt := None\<rparr> else st) \<and>
    (if ?ok then done \<and> (\<exists>s1. adjustAll (stationRef st) (cycleChanges ?m free r) s = (Inr (), s1) \<and>
        UpdateProduction (sn_ID st) False None s1 = (Inr (), s'))
     else \<not> done \<and> s' = s)"
    unfolding finishCycle_def consume_produce [symmetric]
    by (cases ?ok; cases free; cases "hasOutputRoom ?m (rc_Outputs r)") (simp_all add: run_simps loadMarket_ok, auto)
  then show ?thesis by (auto simp: Let_def UpdateProduction_def run_simps)
qed

lemma finish_err: "finishCycle st r free s = (Inl e, s') \<Longrightarrow> s' = s"
  by (auto simp: finishCycle_def bindM_err run_simps dest: tx_do_err)

lemma finish_total:
  assumes "market_ok s" "\<not> tx_aborted s" "sound_recipe r" "shelves_bounded (stationRef st) s r"
  shows "\<exists>st' s'. finishCycle st r free s = (Inr (cycle_ready free (stationRef st) s r, st'), s')"
proof -
  let ?m = "indexMarket (market_rows (stationRef st) s)"
  have ag: "agrees (stationRef st) ?m s" using assms(1) by (intro agrees_index) (simp add: market_ok_def)
  note gates = gates_iff [OF ag assms(1,3,4), of free]
  show ?thesis
  proof (cases "cycle_ready free (stationRef st) s r")
    case True
    from adjustAll_succeeds [OF _ assms(2) cycle_fits(2,1) [OF ag assms(1,3) True]]
    obtain s1 where s1: "adjustAll (stationRef st) (cycleChanges ?m free r) s = (Inr (), s1)"
      by (auto simp: stationRef_def isStationKind_def)
    have "tx_aborted s1 = tx_aborted s" by (subst adjustAll_effect(3) [OF s1]) simp
    with True s1 assms(2) gates show ?thesis by (auto simp: finish_ok Let_def)
  next
    case False
    with assms(2) gates show ?thesis by (auto simp: finish_ok Let_def)
  qed
qed

section \<open>The forecast simulates the cycle\<close>

lemma lookupEntry_simAdd:
  "lookupEntry (simAdd g d sim) h = (if h = g then (lookupEntry sim g)\<lparr>me_stock := wrap64 (me_stock (lookupEntry sim g) + d)\<rparr> else lookupEntry sim h)"
  "map_of (simAdd g d sim) h = None \<longleftrightarrow> h \<noteq> g \<and> map_of sim h = None"
  by (auto simp: simAdd_def lookupEntry_def)

text \<open>With every good at most once among the changes, they act independently.\<close>

lemma fold_simAdd:
  assumes "distinct (map fst ds)"
  shows "lookupEntry (fold (\<lambda>(g, d). simAdd g d) ds sim) h =
      (if h \<in> fst ` set ds then (lookupEntry sim h)\<lparr>me_stock := wrap64 (me_stock (lookupEntry sim h) + change ds h)\<rparr> else lookupEntry sim h)"
    and "map_of (fold (\<lambda>(g, d). simAdd g d) ds sim) h = None \<longleftrightarrow> h \<notin> fst ` set ds \<and> map_of sim h = None"
  using assms by (induction ds arbitrary: sim) (auto simp: lookupEntry_simAdd change_absent image_iff)

definition simChanges :: "market_index \<Rightarrow> bool \<Rightarrow> recipe \<Rightarrow> (int \<times> int) list" where
  "simChanges sim free r = map (\<lambda>i. (rl_GoodsType i, - takeOf sim free i)) (rc_Inputs r) @ outputChanges (rc_Outputs r)"

lemma fold_inputs:
  assumes "distinct (map rl_GoodsType is)"
  shows "fold (\<lambda>i sim. simAdd (rl_GoodsType i) (- takeOf sim free i) sim) is sim =
    fold (\<lambda>(g, d). simAdd g d) (map (\<lambda>i. (rl_GoodsType i, - takeOf sim free i)) is) sim"
  using assms
proof (induction "is" arbitrary: sim)
  case (Cons i "is")
  let ?sim = "simAdd (rl_GoodsType i) (- takeOf sim free i) sim"
  have "takeOf ?sim free j = takeOf sim free j" if "j \<in> set is" for j
  proof -
    have "rl_GoodsType i \<noteq> rl_GoodsType j" using that Cons.prems by (force simp: image_iff)
    then show ?thesis by (simp add: takeOf_def lookupEntry_simAdd)
  qed
  with Cons show ?case by (simp cong: map_cong)
qed simp

lemma simCycle_changes:
  "sound_recipe r \<Longrightarrow> simCycle free r sim = fold (\<lambda>(g, d). simAdd g d) (simChanges sim free r) sim"
  by (simp add: simCycle_def simChanges_def fold_inputs sound_recipe_def outputChanges_def fold_map comp_def)

lemma change_sim:
  assumes "agrees ref sim s"
  shows "change (simChanges sim free r) g = cycle_delta free ref s r g"
proof -
  have "change (map (\<lambda>i. (rl_GoodsType i, - takeOf sim free i)) is) g =
      - (\<Sum>i\<leftarrow>is. if rl_GoodsType i = g then used free ref s i else 0)" for "is"
    by (induction "is") (auto simp: takeOf_used [OF assms])
  then show ?thesis by (simp add: simChanges_def change_outputs cycle_delta_def)
qed

lemma same_shelf_max: "same_shelf a b \<Longrightarrow> map_option mk_max a = map_option mk_max b"
  by (cases a; cases b) (auto simp: same_shelf_def dest: arg_cong [of _ _ mk_max])

lemma shelves_bounded_max:
  "shelves_bounded ref s r \<longleftrightarrow> list_all (\<lambda>out. case map_option mk_max (map_of (station_goods s) (ref, rl_GoodsType out)) of
     None \<Rightarrow> True | Some m \<Rightarrow> in64 (m + rl_Quantity out)) (rc_Outputs r)"
  by (auto simp: shelves_bounded_def list_all_iff split: option.split)

lemma agrees_step:
  assumes ag: "agrees ref sim s" and "market_ok s" "sound_recipe r" and ref: "ref = stationRef st"
    and sh: "shelves_bounded ref s r"
    and run: "finishCycle st r free s = (Inr (True, st'), s')"
  shows "agrees ref (simCycle free r sim) s'" "market_ok s'" "shelves_bounded ref s' r" "\<not> tx_aborted s'"
proof -
  let ?m = "indexMarket (market_rows ref s)"
  have wf: "tbl_wf (station_goods s)" using assms(2) by (simp add: market_ok_def)
  have q: "list_all (\<lambda>l. 0 < rl_Quantity l \<and> in64 (rl_Quantity l)) (rc_Inputs r)" using assms(3) by (simp add: sound_parts)
  from run ref obtain s1 where s1: "adjustAll ref (cycleChanges ?m free r) s = (Inr (), s1)" "\<not> tx_aborted s1"
    and s': "s' = updateProductionSQL (sn_ID st) False None s1" by (auto simp: finish_ok Let_def split: if_splits)
  note eff = adjustAll_effect [OF s1(1)] and ch = change_cycle [OF agrees_index [OF wf] assms(2) q]
  show ok: "market_ok s'" using eff(2) assms(2) by (simp add: s')
  show "\<not> tx_aborted s'" using s1 by (simp add: s')
  have shelf: "same_shelf (map_of (station_goods s') k) (map_of (station_goods s) k)" for k using eff(4) by (simp add: s')
  have max: "map_option mk_max (map_of (station_goods s') k) = map_option mk_max (map_of (station_goods s) k)" for k
    by (rule same_shelf_max [OF shelf])
  have ex: "map_of (station_goods s') k = None \<longleftrightarrow> map_of (station_goods s) k = None" for k
    using max [of k] by (cases "map_of (station_goods s) k") auto
  show "shelves_bounded ref s' r" using sh by (simp add: shelves_bounded_max max)
  have stock: "stock_of s' (ref, g) = stock_of s (ref, g) + cycle_delta free ref s r g" for g
    using eff(1) [of "(ref, g)"] ch by (simp add: s')
  have d: "distinct (map fst (simChanges sim free r))"
    using assms(3) by (auto simp: sound_recipe_def simChanges_def outputChanges_def comp_def)
  have sim_stock: "me_stock (lookupEntry (simCycle free r sim) g) = stock_of s' (ref, g)"
    and sim_max: "me_max (lookupEntry (simCycle free r sim) g) = me_max (lookupEntry sim g)"
    and sim_dom: "map_of (simCycle free r sim) g = None \<Longrightarrow> map_of sim g = None" for g
  proof -
    have "me_stock (lookupEntry sim g) + cycle_delta free ref s r g = stock_of s' (ref, g)"
      using stock agrees_stock [OF ag] by simp
    moreover have "in64 (stock_of s' (ref, g))" using market_ok_stock [OF ok] by blast
    ultimately show "me_stock (lookupEntry (simCycle free r sim) g) = stock_of s' (ref, g)"
      using fold_simAdd(1) [OF d, of sim g] change_absent [of g "simChanges sim free r"]
      by (auto simp: simCycle_changes [OF assms(3)] change_sim [OF ag] wrap64_id)
    show "me_max (lookupEntry (simCycle free r sim) g) = me_max (lookupEntry sim g)"
      using fold_simAdd(1) [OF d, of sim g] by (simp add: simCycle_changes [OF assms(3)])
    show "map_of (simCycle free r sim) g = None \<Longrightarrow> map_of sim g = None"
      using fold_simAdd(2) [OF d, of sim g] by (simp add: simCycle_changes [OF assms(3)])
  qed
  show "agrees ref (simCycle free r sim) s'"
    unfolding agrees_def
  proof (intro allI, goal_cases)
    case (1 g)
    show ?case
    proof (cases "map_of (station_goods s') (ref, g)")
      case None
      then have "map_of (station_goods s) (ref, g) = None" using ex by blast
      with ag have "me_max (lookupEntry sim g) = 0" by (auto simp: agrees_def dest!: spec [of _ g])
      with None sim_max [of g] sim_stock [of g] show ?thesis by (simp add: stock_of_def)
    next
      case (Some row')
      with ex [of "(ref, g)"] obtain row where row: "map_of (station_goods s) (ref, g) = Some row"
        by (cases "map_of (station_goods s) (ref, g)") auto
      with ag obtain e where e: "map_of sim g = Some e" "me_max e = mk_max row" by (auto simp: agrees_def dest!: spec [of _ g])
      with sim_dom [of g] obtain e' where e': "map_of (simCycle free r sim) g = Some e'" by fastforce
      with e sim_max [of g] sim_stock [of g] Some row max [of "(ref, g)"] show ?thesis
        by (simp add: lookupEntry_def stock_of_def)
    qed
  qed
qed

text \<open>The live counterpart: finish cycles back to back until one does not produce.\<close>

fun liveCycles :: "nat \<Rightarrow> station \<Rightarrow> recipe \<Rightarrow> bool \<Rightarrow> db \<Rightarrow> nat \<times> db" where
  "liveCycles 0 st r free s = (0, s)"
| "liveCycles (Suc n) st r free s = (case finishCycle st r free s of
       (Inr (True, _), s') \<Rightarrow> (case liveCycles n st r free s' of (c, s'') \<Rightarrow> (Suc c, s''))
     | (_, s') \<Rightarrow> (0, s'))"

lemma forecast_live:
  assumes "agrees (stationRef st) sim s" "market_ok s" "sound_recipe r" "shelves_bounded (stationRef st) s r" "\<not> tx_aborted s"
  shows "\<exists>sim' c s'. forecastLoop free r n sim = (sim', c) \<and> liveCycles n st r free s = (c, s') \<and>
    agrees (stationRef st) sim' s'"
  using assms
proof (induction n arbitrary: sim s)
  case (Suc n)
  note gates = gates_iff [OF Suc.prems(1-4), of free]
  from finish_total [OF Suc.prems(2,5,3,4), of free] obtain st' s' where
    run: "finishCycle st r free s = (Inr (cycle_ready free (stationRef st) s r, st'), s')" by blast
  show ?case
  proof (cases "cycle_ready free (stationRef st) s r")
    case True
    with run have run': "finishCycle st r free s = (Inr (True, st'), s')" by simp
    from Suc.IH [OF agrees_step(1,2) [OF Suc.prems(1-3) refl Suc.prems(4) run'] Suc.prems(3)
        agrees_step(3,4) [OF Suc.prems(1-3) refl Suc.prems(4) run']]
    show ?thesis using gates True run' by auto
  next
    case False
    with run have "s' = s" by (auto simp: finish_ok Let_def split: if_splits)
    with False run gates Suc.prems(1) show ?thesis by auto
  qed
qed auto

section \<open>RAM and database stay in step\<close>

definition synced :: "db \<Rightarrow> station \<Rightarrow> bool" where
  "synced s st \<longleftrightarrow> (case map_of (stations s) (sn_ID st) of
       None \<Rightarrow> False
     | Some row \<Rightarrow> st_in_progress row = sn_InProgress st \<and> st_next_cycle row = sn_NextCycleAt st)"

lemma start_ok:
  "maybeStartCycle st r now free s = (Inr st', s') \<longleftrightarrow> \<not> tx_aborted s \<and>
     (let m = indexMarket (market_rows (stationRef st) s) in
      if (free \<or> hasInputs m (rc_Inputs r)) \<and> hasOutputRoom m (rc_Outputs r) then
        st' = st\<lparr>sn_InProgress := True, sn_NextCycleAt := Some (now + rc_CycleTime r)\<rparr> \<and>
        s' = updateProductionSQL (sn_ID st) True (Some (now + rc_CycleTime r)) s
      else st' = st \<and> s' = s)"
proof -
  let ?m = "indexMarket (market_rows (stationRef st) s)"
  show ?thesis
    by (cases free; cases "hasInputs ?m (rc_Inputs r)"; cases "hasOutputRoom ?m (rc_Outputs r)")
      (auto simp: maybeStartCycle_def Let_def run_simps loadMarket_ok UpdateProduction_def)
qed

lemma start_err: "maybeStartCycle st r now free s = (Inl e, s') \<Longrightarrow> s' = s"
  by (auto simp: maybeStartCycle_def Let_def dest: tx_do_err)

text \<open>What one station's turn may touch: its own row's cycle columns and its own shelves.\<close>

inductive turn :: "station \<Rightarrow> db \<Rightarrow> station \<Rightarrow> db \<Rightarrow> bool" for st s where
  idle: "turn st s st s"
| started: "turn st s (st\<lparr>sn_InProgress := True, sn_NextCycleAt := t\<rparr>) (updateProductionSQL (sn_ID st) True t s)"
| finished: "adjustAll (stationRef st) ds s = (Inr (), s1) \<Longrightarrow>
    turn st s (st\<lparr>sn_InProgress := False, sn_NextCycleAt := None\<rparr>) (updateProductionSQL (sn_ID st) False None s1)"

lemma tickStation_turn:
  assumes "tickStation bal now st s = ((n, es, st'), s')"
  shows "turn st s st' s'"
  using assms
  by (auto simp: tickStation_def Let_def start_ok finish_ok start_err finish_err intro: turn.intros
      split: if_splits option.splits prod.splits sum.splits dest!: start_err finish_err)

lemma synced_update:
  "synced (updateProductionSQL i b n s) st \<longleftrightarrow>
     (if sn_ID st = i \<and> map_of (stations s) i \<noteq> None then b = sn_InProgress st \<and> n = sn_NextCycleAt st else synced s st)"
  by (auto simp: synced_def updateProductionSQL_def split: option.split)

lemma synced_adjustAll:
  assumes "adjustAll ref ds s = (Inr u, s1)"
  shows "stations s1 = stations s" "synced s1 = synced s"
proof -
  show st: "stations s1 = stations s" by (subst adjustAll_effect(3) [OF assms]) simp
  show "synced s1 = synced s" by (simp add: synced_def st fun_eq_iff)
qed

lemma turn_keeps:
  assumes "turn st s st' s'" "synced s st"
  shows "synced s' st'" "sn_ID st' = sn_ID st" "market_ok s \<Longrightarrow> market_ok s'"
    "\<And>x. sn_ID x \<noteq> sn_ID st \<Longrightarrow> synced s' x = synced s x"
    "\<And>k. fst k \<noteq> stationRef st \<Longrightarrow> stock_of s' k = stock_of s k"
  using assms
proof (atomize (full), induction rule: turn.induct)
  case (finished ds s1)
  note k = synced_adjustAll [OF finished(1)] adjustAll_effect(1,2) [OF finished(1)]
  have "map_of (stations s) (sn_ID st) \<noteq> None" using finished(2) by (auto simp: synced_def split: option.splits)
  with k show ?case by (auto simp: synced_update)
qed (auto simp: synced_update, auto simp: synced_def split: option.splits)

lemma Tick_keeps:
  assumes "production_Tick bal now sts s = ((n, es, sts'), s')" "distinct (map sn_ID sts)" "list_all (synced s) sts" "market_ok s"
  shows "list_all (synced s') sts' \<and> map sn_ID sts' = map sn_ID sts \<and> market_ok s' \<and>
    (\<forall>x. sn_ID x \<notin> set (map sn_ID sts) \<longrightarrow> synced s' x = synced s x) \<and>
    (\<forall>k. fst k \<notin> set (map stationRef sts) \<longrightarrow> stock_of s' k = stock_of s k)"
  using assms
proof (induction bal now sts s arbitrary: n es sts' s' rule: production_Tick.induct)
  case (2 bal now st sts s)
  obtain n1 es1 st1 s1 where one: "tickStation bal now st s = ((n1, es1, st1), s1)" by (metis prod.exhaust)
  obtain n2 es2 sts2 s2 where rest: "production_Tick bal now sts s1 = ((n2, es2, sts2), s2)" by (metis prod.exhaust)
  note k = turn_keeps [OF tickStation_turn [OF one]]
  have st: "synced s st" using 2(4) by simp
  have "sn_ID x \<noteq> sn_ID st" if "x \<in> set sts" for x using that 2(3) by (metis distinct.simps(2) image_eqI list.set_map list.simps(9))
  then have "\<forall>x \<in> set sts. synced s1 x" using 2(4) k(4) [OF st] by (auto simp: list_all_iff)
  from 2(1) [OF one [symmetric] refl refl rest] this 2(3,5) k(3) [OF st]
  have ih: "list_all (synced s2) sts2" "map sn_ID sts2 = map sn_ID sts" "market_ok s2"
    "\<forall>x. sn_ID x \<notin> set (map sn_ID sts) \<longrightarrow> synced s2 x = synced s1 x"
    "\<forall>k. fst k \<notin> set (map stationRef sts) \<longrightarrow> stock_of s2 k = stock_of s1 k" by (simp_all add: list_all_iff)
  have "synced s2 st1" using ih(4) k(1,2) [OF st] 2(3) by simp
  with ih k(2,4,5) [OF st] one rest 2(2) show ?case by auto
qed simp

section \<open>Properties\<close>

text \<open>
  A finished cycle changes the station's own shelves by exactly the recipe (outputs added, inputs
  removed; a free-input plant uses what is there), every shelf stays within its limits, and nothing else
  changes; a cycle that does not produce changes nothing.
\<close>

theorem cycle_effect:
  assumes "finishCycle st r free s = (Inr (produced, st'), s')" "market_ok s"
    and "list_all (\<lambda>l. 0 < rl_Quantity l \<and> in64 (rl_Quantity l)) (rc_Inputs r)"
  shows "market_ok s' \<and>
    (if produced then
       \<not> sn_InProgress st' \<and> sn_NextCycleAt st' = None \<and>
       (\<forall>g. stock_of s' (stationRef st, g) = stock_of s (stationRef st, g) + cycle_delta free (stationRef st) s r g) \<and>
       (\<forall>k. fst k \<noteq> stationRef st \<longrightarrow> stock_of s' k = stock_of s k) \<and> cargo s' = cargo s \<and> players s' = players s
     else st' = st \<and> s' = s)"
proof (cases produced)
  case False
  with assms(1,2) show ?thesis by (auto simp: finish_ok Let_def split: if_splits)
next
  case True
  let ?m = "indexMarket (market_rows (stationRef st) s)"
  from True assms(1) obtain s1 where s1: "adjustAll (stationRef st) (cycleChanges ?m free r) s = (Inr (), s1)"
    and s': "s' = updateProductionSQL (sn_ID st) False None s1" and st': "st' = st\<lparr>sn_InProgress := False, sn_NextCycleAt := None\<rparr>"
    by (auto simp: finish_ok Let_def split: if_splits)
  note eff = adjustAll_effect [OF s1]
  have ag: "agrees (stationRef st) ?m s" using assms(2) by (intro agrees_index) (simp add: market_ok_def)
  have "cargo s1 = cargo s" "players s1 = players s" by (subst eff(3), simp)+
  then have "cargo s' = cargo s" "players s' = players s" by (auto simp: s' updateProductionSQL_def split: option.split)
  with True eff(1,2) assms(2) change_cycle [OF ag assms(2,3)] show ?thesis by (simp add: s' st')
qed

definition sample_station :: station where
  "sample_station = scanStation 20 (the (map_of (stations sample_db) 20))"

theorem cycle_effect_witness:
  "stock_of (snd (finishCycle sample_station sample_recipe False sample_db)) (EntityRef 2 20, 1) = 70"
proof -
  let ?p = "finishCycle sample_station sample_recipe False sample_db"
  have run: "fst ?p = Inr (True, sample_station\<lparr>sn_InProgress := False, sn_NextCycleAt := None\<rparr>)" and "market_ok sample_db"
    and "list_all (\<lambda>l. 0 < rl_Quantity l \<and> in64 (rl_Quantity l)) (rc_Inputs sample_recipe)"
    and ref: "stationRef sample_station = EntityRef 2 20" "stock_of sample_db (EntityRef 2 20, 1) = 60"
      "cycle_delta False (EntityRef 2 20) sample_db sample_recipe 1 = 10" by code_simp+
  with cycle_effect [OF run_state [OF run]] show ?thesis by simp
qed

text \<open>
  when every good appears at most once in a recipe and no shelf is near the integer limit, the gates are
  enough: finishing a cycle never reports an error, and it produces exactly when the inputs are there (or
  the plant runs without) and every output shelf has room.
\<close>

theorem cycle_never_fails:
  assumes "market_ok s" "\<not> tx_aborted s" "sound_recipe r" "shelves_bounded (stationRef st) s r"
  shows "\<exists>st' s'. finishCycle st r free s = (Inr (cycle_ready free (stationRef st) s r, st'), s')"
  using assms by (rule finish_total)

theorem cycle_never_fails_witness:
  "\<exists>st' s'. finishCycle sample_station sample_recipe True sample_db =
     (Inr (cycle_ready True (stationRef sample_station) sample_db sample_recipe, st'), s')"
  by (rule cycle_never_fails; code_simp)



text \<open>
  A cycle started by a tick is finished by the first tick at or after its end, if the market is as it
  was: the station is never left waiting for goods that are there.
\<close>

theorem started_cycle_completes:
  assumes "tickStation bal now st s = ((n, [], st1), s1)" "\<not> sn_InProgress st" "sn_InProgress st1"
    and "balance_Recipe bal (sn_Type st) = Some r" "market_ok s" "\<not> tx_aborted s" "sound_recipe r"
    and "shelves_bounded (stationRef st) s r" "now + rc_CycleTime r \<le> later"
  shows "\<exists>s2. tickStation bal later st1 s1 = ((1, [], st\<lparr>sn_NextCycleAt := None\<rparr>), s2)"
proof -
  let ?free = "freeInputProduction st r" and ?t = "Some (now + rc_CycleTime r)"
  let ?m = "indexMarket (market_rows (stationRef st) s)"
  from assms(1-4) have built: "sn_Built st" and run: "maybeStartCycle st r now ?free s = (Inr st1, s1)"
    by (auto simp: tickStation_def Let_def split: if_splits prod.splits sum.splits)
  with assms(2,3) have st1: "st1 = st\<lparr>sn_InProgress := True, sn_NextCycleAt := ?t\<rparr>"
    and s1: "s1 = updateProductionSQL (sn_ID st) True ?t s"
    and g: "(?free \<or> hasInputs ?m (rc_Inputs r)) \<and> hasOutputRoom ?m (rc_Outputs r)"
    by (auto simp: start_ok Let_def split: if_splits)
  have "agrees (stationRef st) ?m s" using assms(5) by (intro agrees_index) (simp add: market_ok_def)
  with g gates_iff [OF _ assms(5,7,8)] have "cycle_ready ?free (stationRef st) s r" by blast
  then have ready: "cycle_ready ?free (stationRef st1) s1 r" by (simp add: s1 st1 cycle_ready_def stationRef_def)
  have "shelves_bounded (stationRef st1) s1 r" using assms(8) by (simp add: s1 st1 shelves_bounded_def stationRef_def)
  then obtain st2 s2 where fin: "finishCycle st1 r ?free s1 = (Inr (True, st2), s2)"
    using finish_total [of s1 r st1 ?free] ready assms(5-7) by (auto simp: s1)
  then have "st2 = st\<lparr>sn_InProgress := False, sn_NextCycleAt := None\<rparr>" by (auto simp: finish_ok Let_def st1 split: if_splits)
  moreover have "st\<lparr>sn_InProgress := False, sn_NextCycleAt := None\<rparr> = st\<lparr>sn_NextCycleAt := None\<rparr>" using assms(2) by simp
  moreover have "freeInputProduction st1 r = ?free" by (simp add: freeInputProduction_def st1)
  ultimately show ?thesis using fin built assms(4,9) by (simp add: tickStation_def st1 notBefore_def)
qed

theorem started_cycle_completes_witness:
  "\<exists>s2. tickStation sample_balance 2000
     (sample_station\<lparr>sn_InProgress := True, sn_NextCycleAt := Some 1060\<rparr>) (snd (tickStation sample_balance 1000 sample_station sample_db)) =
       ((1, [], sample_station\<lparr>sn_NextCycleAt := None\<rparr>), s2)"
proof -
  let ?st1 = "sample_station\<lparr>sn_InProgress := True, sn_NextCycleAt := Some 1060\<rparr>"
  have run: "fst (tickStation sample_balance 1000 sample_station sample_db) = (0, [], ?st1)"
    and h: "\<not> sn_InProgress sample_station" "sn_InProgress ?st1"
      "balance_Recipe sample_balance (sn_Type sample_station) = Some sample_recipe" "market_ok sample_db" "\<not> tx_aborted sample_db"
      "sound_recipe sample_recipe" "shelves_bounded (stationRef sample_station) sample_db sample_recipe"
      "1000 + rc_CycleTime sample_recipe \<le> 2000" by code_simp+
  from started_cycle_completes [OF run_state [OF run] h] show ?thesis .
qed



end
