(* ===== verification/Clans.thy ===== *)
theory Clans
  imports Players
begin

text \<open>
  \<open>internal/social/clans\<close>: player clans with a leader, officers and members, invitations and a
  treasury. Every repository call of the service runs on the pool, as a transaction of its own.
\<close>

section \<open>Data\<close>

abbreviation (input) RoleLeader :: string where "RoleLeader \<equiv> ''leader''"
abbreviation (input) RoleOfficer :: string where "RoleOfficer \<equiv> ''officer''"
abbreviation (input) RoleMember :: string where "RoleMember \<equiv> ''member''"

definition canManage :: "string \<Rightarrow> bool" where
  "canManage role \<longleftrightarrow> role = RoleLeader \<or> role = RoleOfficer"

type_synonym clan = "int \<times> clan_row"

record membership =
  ms_PlayerID :: int
  ms_ClanID :: int
  ms_Role :: string
  ms_JoinedAt :: int

record clan_summary =
  cs_Clan :: clan
  cs_MemberCount :: nat

record member_view =
  mv_PlayerID :: int
  mv_Login :: runes
  mv_Role :: string
  mv_JoinedAt :: int

record invitation_view =
  iv_ClanID :: int
  iv_ClanName :: runes
  iv_ClanTag :: runes
  iv_PlayerID :: int
  iv_Login :: runes
  iv_InvitedBy :: int
  iv_CreatedAt :: int

record clan_detail =
  cd_Clan :: clan
  cd_Members :: "member_view list"
  cd_Invitations :: "invitation_view list"

section \<open>Repository\<close>

definition set_treasury :: "int \<Rightarrow> int \<Rightarrow> db \<Rightarrow> db" where
  "set_treasury i c s = (case map_of (clans s) i of
       None \<Rightarrow> s
     | Some r \<Rightarrow> s\<lparr>clans := AList.update i (r\<lparr>cl_treasury := c\<rparr>) (clans s)\<rparr>)"

definition adjustTreasurySQL :: "int \<Rightarrow> int \<Rightarrow> db \<Rightarrow> pg_error + (int option \<times> db)" where
  "adjustTreasurySQL clanID delta s = (case map_of (clans s) clanID of
       None \<Rightarrow> Inr (None, s)
     | Some r \<Rightarrow> pg_bigint (cl_treasury r + delta) (\<lambda>c.
         if 0 \<le> c then Inr (Some c, set_treasury clanID c s) else Inr (None, s)))"

definition AdjustTreasury :: "int \<Rightarrow> int \<Rightarrow> int dbm" where
  "AdjustTreasury clanID delta = bindM (sql (adjustTreasurySQL clanID delta)) (\<lambda>newCash. case newCash of
       None \<Rightarrow> failM (EClans CL_ErrInsufficientTreasury)
     | Some c \<Rightarrow> returnM c)"

text \<open>
  The clan row, then the leader's member row, in one statement. Unique indexes are checked row by
  row in the order they were created, foreign keys at the end of the statement.
\<close>

definition createClanSQL :: "runes \<Rightarrow> runes \<Rightarrow> int \<Rightarrow> db \<Rightarrow> pg_error + (int \<times> db)" where
  "createClanSQL name tag leader s =
     (let i = seq_clan s in
      if 0 \<in> set name \<or> 0 \<in> set tag then Inl InvalidByteSequence
      else if map_of (clans s) i \<noteq> None then Inl (UniqueViolation ''clans_pkey'')
      else if list_ex (\<lambda>(_, r). cl_name r = name) (clans s) then Inl (UniqueViolation ''clans_name_key'')
      else if list_ex (\<lambda>(_, r). cl_tag r = tag) (clans s) then Inl (UniqueViolation ''clans_tag_key'')
      else if map_of (clan_members s) leader \<noteq> None then Inl (UniqueViolation ''clan_members_pkey'')
      else if map_of (players s) leader = None then Inl (ForeignKeyViolation ''clans_leader_id_fkey'')
      else Inr (i, s\<lparr>clans := AList.update i \<lparr>cl_name = name, cl_tag = tag, cl_leader = leader,
             cl_treasury = 0, cl_created = db_now s\<rparr> (clans s),
           clan_members := AList.update leader \<lparr>mb_clan = i, mb_role = RoleLeader, mb_joined = db_now s\<rparr> (clan_members s),
           seq_clan := i + 1\<rparr>))"

definition CreateClanWithLeader :: "runes \<Rightarrow> runes \<Rightarrow> int \<Rightarrow> int dbm" where
  "CreateClanWithLeader name tag leader =
     mapErr (\<lambda>e. if e = EPg (UniqueViolation ''clans_name_key'') then EClans CL_ErrNameTaken
         else if e = EPg (UniqueViolation ''clans_tag_key'') then EClans CL_ErrTagTaken
         else if e = EPg (UniqueViolation ''clan_members_pkey'') then EClans CL_ErrAlreadyInClan
         else e)
       (sql (createClanSQL name tag leader))"

text \<open>Consume the invitation and insert the member; \<open>None\<close> when there was no invitation.\<close>

definition acceptInvitationSQL :: "int \<Rightarrow> int \<Rightarrow> db \<Rightarrow> pg_error + (int option \<times> db)" where
  "acceptInvitationSQL clanID player s = (case map_of (clan_invitations s) (clanID, player) of
       None \<Rightarrow> Inr (None, s)
     | Some _ \<Rightarrow>
         if map_of (clan_members s) player \<noteq> None then Inl (UniqueViolation ''clan_members_pkey'')
         else if map_of (players s) player = None then Inl (ForeignKeyViolation ''clan_members_player_id_fkey'')
         else if map_of (clans s) clanID = None then Inl (ForeignKeyViolation ''clan_members_clan_id_fkey'')
         else Inr (Some clanID, s\<lparr>clan_invitations := AList.delete (clanID, player) (clan_invitations s),
           clan_members := AList.update player \<lparr>mb_clan = clanID, mb_role = RoleMember, mb_joined = db_now s\<rparr> (clan_members s)\<rparr>))"

fun isUniqueViolation :: "err \<Rightarrow> bool" where
  "isUniqueViolation (EPg (UniqueViolation _)) = True"
| "isUniqueViolation _ = False"

definition AcceptInvitation :: "int \<Rightarrow> int \<Rightarrow> unit dbm" where
  "AcceptInvitation clanID player =
     bindM (mapErr (\<lambda>e. if isUniqueViolation e then EClans CL_ErrAlreadyInClan else e)
       (sql (acceptInvitationSQL clanID player))) (\<lambda>joined. case joined of
         None \<Rightarrow> failM (EClans CL_ErrInvitationNotFound)
       | Some _ \<Rightarrow> returnM ())"

definition GetMembership :: "int \<Rightarrow> membership dbm" where
  "GetMembership player = bindM (query (\<lambda>s. map_of (clan_members s) player)) (\<lambda>row. case row of
       None \<Rightarrow> failM (EClans CL_ErrNotMember)
     | Some r \<Rightarrow> returnM \<lparr>ms_PlayerID = player, ms_ClanID = mb_clan r, ms_Role = mb_role r, ms_JoinedAt = mb_joined r\<rparr>)"

definition DeleteMember :: "int \<Rightarrow> unit dbm" where
  "DeleteMember player = sql (\<lambda>s. Inr ((), s\<lparr>clan_members := AList.delete player (clan_members s)\<rparr>))"

definition SetMemberRole :: "int \<Rightarrow> int \<Rightarrow> string \<Rightarrow> unit dbm" where
  "SetMemberRole clanID target role = sql (\<lambda>s. Inr ((), case map_of (clan_members s) target of
       None \<Rightarrow> s
     | Some r \<Rightarrow> if mb_clan r = clanID
         then s\<lparr>clan_members := AList.update target (r\<lparr>mb_role := role\<rparr>) (clan_members s)\<rparr> else s))"

text \<open>Members and invitations cascade away with the clan.\<close>

definition DeleteClan :: "int \<Rightarrow> unit dbm" where
  "DeleteClan clanID = sql (\<lambda>s. Inr ((), s\<lparr>clans := AList.delete clanID (clans s),
     clan_members := filter (\<lambda>(_, r). mb_clan r \<noteq> clanID) (clan_members s),
     clan_invitations := filter (\<lambda>((c, _), _). c \<noteq> clanID) (clan_invitations s)\<rparr>))"

definition CountMembers :: "int \<Rightarrow> nat dbm" where
  "CountMembers clanID = query (\<lambda>s. length (filter (\<lambda>(_, r). mb_clan r = clanID) (clan_members s)))"

definition createInvitationSQL :: "int \<Rightarrow> int \<Rightarrow> int \<Rightarrow> db \<Rightarrow> pg_error + (unit \<times> db)" where
  "createInvitationSQL clanID target invitedBy s =
     (if map_of (clan_invitations s) (clanID, target) \<noteq> None then Inl (UniqueViolation ''clan_invitations_pkey'')
      else if map_of (clans s) clanID = None then Inl (ForeignKeyViolation ''clan_invitations_clan_id_fkey'')
      else if map_of (players s) target = None then Inl (ForeignKeyViolation ''clan_invitations_player_id_fkey'')
      else if map_of (players s) invitedBy = None then Inl (ForeignKeyViolation ''clan_invitations_invited_by_fkey'')
      else Inr ((), s\<lparr>clan_invitations := AList.update (clanID, target)
        \<lparr>inv_by = invitedBy, inv_created = db_now s\<rparr> (clan_invitations s)\<rparr>))"

definition CreateInvitation :: "int \<Rightarrow> int \<Rightarrow> int \<Rightarrow> unit dbm" where
  "CreateInvitation clanID target invitedBy =
     mapErr (\<lambda>e. if isUniqueViolation e then EClans CL_ErrAlreadyInvited else e)
       (sql (createInvitationSQL clanID target invitedBy))"

definition LoadAllMemberships :: "(int, int) table dbm" where
  "LoadAllMemberships = query (\<lambda>s. map (\<lambda>(p, r). (p, mb_clan r)) (clan_members s))"

definition GetClan :: "int \<Rightarrow> clan dbm" where
  "GetClan clanID = bindM (query (\<lambda>s. map_of (clans s) clanID)) (\<lambda>row. case row of
       None \<Rightarrow> failM (EClans CL_ErrClanNotFound)
     | Some r \<Rightarrow> returnM (clanID, r))"

text \<open>
  \<open>ORDER BY name\<close> uses the collation of the database, which is a parameter: \<open>collate a b\<close> says that
  \<open>a\<close> may stand before \<open>b\<close>.
\<close>

definition ListClans :: "(runes \<Rightarrow> runes \<Rightarrow> bool) \<Rightarrow> clan_summary list dbm" where
  "ListClans collate = query (\<lambda>s. sortBy (\<lambda>a b. collate (cl_name (snd (cs_Clan a))) (cl_name (snd (cs_Clan b))))
     (map (\<lambda>(i, r). \<lparr>cs_Clan = (i, r), cs_MemberCount = length (filter (\<lambda>(_, m). mb_clan m = i) (clan_members s))\<rparr>) (clans s)))"

definition ListMembers :: "int \<Rightarrow> member_view list dbm" where
  "ListMembers clanID = query (\<lambda>s. sort_key mv_JoinedAt (concat (map (\<lambda>(p, m).
     case map_of (players s) p of
       None \<Rightarrow> []
     | Some pl \<Rightarrow> [\<lparr>mv_PlayerID = p, mv_Login = pl_login pl, mv_Role = mb_role m, mv_JoinedAt = mb_joined m\<rparr>])
     (filter (\<lambda>(_, m). mb_clan m = clanID) (clan_members s)))))"

definition scanInvitations :: "(int \<times> int \<Rightarrow> bool) \<Rightarrow> invitation_view list dbm" where
  "scanInvitations P = query (\<lambda>s. sort_key iv_CreatedAt (concat (map (\<lambda>((c, p), i).
     case (map_of (clans s) c, map_of (players s) p) of
       (Some cl, Some pl) \<Rightarrow> [\<lparr>iv_ClanID = c, iv_ClanName = cl_name cl, iv_ClanTag = cl_tag cl, iv_PlayerID = p,
         iv_Login = pl_login pl, iv_InvitedBy = inv_by i, iv_CreatedAt = inv_created i\<rparr>]
     | _ \<Rightarrow> [])
     (filter (\<lambda>(k, _). P k) (clan_invitations s)))))"

definition ListInvitationsByClan :: "int \<Rightarrow> invitation_view list dbm" where
  "ListInvitationsByClan clanID = scanInvitations (\<lambda>(c, _). c = clanID)"

definition ListInvitationsByPlayer :: "int \<Rightarrow> invitation_view list dbm" where
  "ListInvitationsByPlayer player = scanInvitations (\<lambda>(_, p). p = player)"

section \<open>Service\<close>

text \<open>\<open>strings.TrimSpace\<close> removes the code points of \<open>unicode.IsSpace\<close> at both ends.\<close>

definition isSpace :: "int \<Rightarrow> bool" where
  "isSpace r \<longleftrightarrow> 9 \<le> r \<and> r \<le> 13 \<or> r = 32 \<or> r = 133 \<or> r = 160 \<or> r = 5760 \<or> 8192 \<le> r \<and> r \<le> 8202 \<or>
     r = 8232 \<or> r = 8233 \<or> r = 8239 \<or> r = 8287 \<or> r = 12288"

definition TrimSpace :: "runes \<Rightarrow> runes" where
  "TrimSpace rs = rev (dropWhile isSpace (rev (dropWhile isSpace rs)))"

definition clans_Create :: "int \<Rightarrow> runes \<Rightarrow> runes \<Rightarrow> clan dbm" where
  "clans_Create leader name0 tag0 =
     (let name = TrimSpace name0; tag = TrimSpace tag0 in
      bindM (checkM (3 \<le> length name \<and> length name \<le> 32) (EClans CL_ErrInvalidInput)) (\<lambda>_.
      bindM (checkM (2 \<le> length tag \<and> length tag \<le> 6) (EClans CL_ErrInvalidInput)) (\<lambda>_.
      bindM (pool (CreateClanWithLeader name tag leader)) (\<lambda>clanID.
      pool (GetClan clanID)))))"

text \<open>
  The lookup every permission check starts with: \<open>err\<close> unless the player is a member of that clan.
\<close>

definition membershipIn :: "int \<Rightarrow> int \<Rightarrow> err \<Rightarrow> membership dbm" where
  "membershipIn player clanID err = bindM (tryM (pool (GetMembership player))) (\<lambda>res. case res of
       Inl e \<Rightarrow> if e = EClans CL_ErrNotMember then failM err else failM e
     | Inr m \<Rightarrow> if ms_ClanID m \<noteq> clanID then failM err else returnM m)"

definition requireManager :: "int \<Rightarrow> int \<Rightarrow> unit dbm" where
  "requireManager actor clanID = bindM (membershipIn actor clanID (EClans CL_ErrNotMember)) (\<lambda>m.
     checkM (canManage (ms_Role m)) (EClans CL_ErrForbidden))"

definition Invite :: "int \<Rightarrow> int \<Rightarrow> int \<Rightarrow> unit dbm" where
  "Invite inviter clanID target =
     bindM (requireManager inviter clanID) (\<lambda>_.
     bindM (tryM (pool (GetMembership target))) (\<lambda>res. case res of
         Inr _ \<Rightarrow> failM (EClans CL_ErrAlreadyInClan)
       | Inl e \<Rightarrow> if e \<noteq> EClans CL_ErrNotMember then failM e
           else pool (CreateInvitation clanID target inviter)))"

definition Accept :: "int \<Rightarrow> int \<Rightarrow> unit dbm" where
  "Accept player clanID = pool (AcceptInvitation clanID player)"

definition Kick :: "int \<Rightarrow> int \<Rightarrow> int \<Rightarrow> unit dbm" where
  "Kick actor clanID target =
     bindM (requireManager actor clanID) (\<lambda>_.
     bindM (membershipIn target clanID (EClans CL_ErrTargetNotMember)) (\<lambda>tm.
     bindM (checkM (ms_Role tm \<noteq> RoleLeader) (EClans CL_ErrCannotKickLeader)) (\<lambda>_.
     pool (DeleteMember target))))"

definition SetRole :: "int \<Rightarrow> int \<Rightarrow> int \<Rightarrow> string \<Rightarrow> unit dbm" where
  "SetRole actor clanID target role =
     bindM (checkM (role = RoleMember \<or> role = RoleOfficer) (EClans CL_ErrInvalidRole)) (\<lambda>_.
     bindM (membershipIn actor clanID (EClans CL_ErrNotMember)) (\<lambda>am.
     bindM (checkM (ms_Role am = RoleLeader) (EClans CL_ErrForbidden)) (\<lambda>_.
     bindM (membershipIn target clanID (EClans CL_ErrTargetNotMember)) (\<lambda>tm.
     bindM (checkM (ms_Role tm \<noteq> RoleLeader) (EClans CL_ErrCannotChangeLeader)) (\<lambda>_.
     pool (SetMemberRole clanID target role))))))"

definition Leave :: "int \<Rightarrow> int \<Rightarrow> unit dbm" where
  "Leave player clanID =
     bindM (membershipIn player clanID (EClans CL_ErrNotMember)) (\<lambda>m.
     if ms_Role m \<noteq> RoleLeader then pool (DeleteMember player)
     else bindM (pool (CountMembers clanID)) (\<lambda>count.
       if 1 < count then failM (EClans CL_ErrLeaderMustTransfer)
       else pool (DeleteClan clanID)))"

definition clans_List :: "(runes \<Rightarrow> runes \<Rightarrow> bool) \<Rightarrow> clan_summary list dbm" where
  "clans_List collate = pool (ListClans collate)"

definition Detail :: "int \<Rightarrow> clan_detail dbm" where
  "Detail clanID =
     bindM (pool (GetClan clanID)) (\<lambda>clan.
     bindM (pool (ListMembers clanID)) (\<lambda>members.
     bindM (pool (ListInvitationsByClan clanID)) (\<lambda>invites.
     returnM \<lparr>cd_Clan = clan, cd_Members = members, cd_Invitations = invites\<rparr>)))"

definition MyClan :: "int \<Rightarrow> clan_detail option dbm" where
  "MyClan player = bindM (tryM (pool (GetMembership player))) (\<lambda>res. case res of
       Inl e \<Rightarrow> if e = EClans CL_ErrNotMember then returnM None else failM e
     | Inr m \<Rightarrow> bindM (Detail (ms_ClanID m)) (\<lambda>detail. returnM (Some detail)))"

definition MyInvitations :: "int \<Rightarrow> invitation_view list dbm" where
  "MyInvitations player = pool (ListInvitationsByPlayer player)"

section \<open>The treasury is a wallet\<close>

definition treasury_of :: "db \<Rightarrow> int \<Rightarrow> int option" where
  "treasury_of s i = map_option cl_treasury (map_of (clans s) i)"

definition total_treasury :: "db \<Rightarrow> int" where
  "total_treasury s = tsum (\<lambda>_. cl_treasury) (clans s)"

lemma set_treasury_simps [simp]:
  "tx_aborted (set_treasury i c s) = tx_aborted s"
  "players (set_treasury i c s) = players s"
  "bounties (set_treasury i c s) = bounties s"
  "clan_members (set_treasury i c s) = clan_members s"
  "seq_bounty (set_treasury i c s) = seq_bounty s"
  "db_now (set_treasury i c s) = db_now s"
  by (simp_all add: set_treasury_def split: option.split)

interpretation treasury: wallet AdjustTreasury treasury_of set_treasury total_treasury
proof
  fix k d s e s'
  assume "AdjustTreasury k d s = (Inl e, s')"
  then show "s' = s \<or> s' = s\<lparr>tx_aborted := True\<rparr>"
    by (auto simp: AdjustTreasury_def adjustTreasurySQL_def bindM_err run_simps sql_def pg_bigint_def
        split: if_splits option.splits sum.splits)
next
  fix k d s c s'
  show "AdjustTreasury k d s = (Inr c, s') \<longleftrightarrow> \<not> tx_aborted s \<and>
      (\<exists>b. treasury_of s k = Some b \<and> c = b + d \<and> 0 \<le> c \<and> in64 c \<and> s' = set_treasury k c s)"
    by (auto simp: AdjustTreasury_def adjustTreasurySQL_def treasury_of_def run_simps split: option.splits if_splits)
qed (auto simp: treasury_of_def set_treasury_def total_treasury_def tsum_table fun_eq_iff split: option.splits)

section \<open>One leader per clan, one clan per player\<close>

definition clans_ok :: "db \<Rightarrow> bool" where
  "clans_ok s \<longleftrightarrow> tbl_wf (clans s) \<and> tbl_wf (clan_members s) \<and>
     distinct (map (\<lambda>(_, c). cl_name c) (clans s)) \<and> distinct (map (\<lambda>(_, c). cl_tag c) (clans s)) \<and>
     all_rows (\<lambda>p m. case map_of (clans s) (mb_clan m) of
         None \<Rightarrow> False | Some c \<Rightarrow> (mb_role m = RoleLeader) = (cl_leader c = p)) (clan_members s) \<and>
     all_rows (\<lambda>i c. case map_of (clan_members s) (cl_leader c) of
         None \<Rightarrow> False | Some m \<Rightarrow> mb_clan m = i) (clans s)"

lemma clans_okD:
  assumes "clans_ok s"
  shows "map_of (clan_members s) p = Some m \<Longrightarrow> \<exists>c. map_of (clans s) (mb_clan m) = Some c \<and> ((mb_role m = RoleLeader) = (cl_leader c = p))"
    and "map_of (clans s) i = Some c \<Longrightarrow> \<exists>m. map_of (clan_members s) (cl_leader c) = Some m \<and> mb_clan m = i"
  using assms by (auto simp: clans_ok_def dest: all_rowsD split: option.splits)

text \<open>The same as a predicate on lookups, for tables with distinct keys.\<close>

lemma clans_okI:
  assumes "tbl_wf (clans s)" "tbl_wf (clan_members s)"
    and "distinct (map (\<lambda>(_, c). cl_name c) (clans s))" "distinct (map (\<lambda>(_, c). cl_tag c) (clans s))"
    and "\<And>p m. map_of (clan_members s) p = Some m \<Longrightarrow>
      \<exists>c. map_of (clans s) (mb_clan m) = Some c \<and> ((mb_role m = RoleLeader) = (cl_leader c = p))"
    and "\<And>i c. map_of (clans s) i = Some c \<Longrightarrow> \<exists>m. map_of (clan_members s) (cl_leader c) = Some m \<and> mb_clan m = i"
  shows "clans_ok s"
  unfolding clans_ok_def all_rows_lookup [OF assms(1)] all_rows_lookup [OF assms(2)]
proof (intro conjI assms(1-4) allI impI)
  fix p m assume "map_of (clan_members s) p = Some m"
  from assms(5) [OF this]
  show "case map_of (clans s) (mb_clan m) of None \<Rightarrow> False | Some c \<Rightarrow> (mb_role m = RoleLeader) = (cl_leader c = p)" by auto
next
  fix i c assume "map_of (clans s) i = Some c"
  from assms(6) [OF this] show "case map_of (clan_members s) (cl_leader c) of None \<Rightarrow> False | Some m \<Rightarrow> mb_clan m = i" by auto
qed

lemma clans_ok_parts:
  assumes "clans_ok s"
  shows "tbl_wf (clans s)" "tbl_wf (clan_members s)" "distinct (map (\<lambda>(_, c). cl_name c) (clans s))" "distinct (map (\<lambda>(_, c). cl_tag c) (clans s))"
  using assms by (simp_all add: clans_ok_def)

lemma clans_ok_cong: "clans s' = clans s \<Longrightarrow> clan_members s' = clan_members s \<Longrightarrow> clans_ok s' = clans_ok s"
  by (simp add: clans_ok_def)

interpretation clan_inv: db_invariant clans_ok
  by unfold_locales (rule clans_ok_cong, simp_all)

text \<open>A member who is not a leader can leave; a new one can join; roles below leader can change.\<close>

lemma clans_ok_delete_member:
  assumes "clans_ok s" "map_of (clan_members s) p = Some m" "mb_role m \<noteq> RoleLeader"
  shows "clans_ok (s\<lparr>clan_members := AList.delete p (clan_members s)\<rparr>)"
proof (rule clans_okI)
  fix i c assume "map_of (clans (s\<lparr>clan_members := AList.delete p (clan_members s)\<rparr>)) i = Some c"
  then have c: "map_of (clans s) i = Some c" by simp
  from clans_okD(2) [OF assms(1) c] obtain m' where m': "map_of (clan_members s) (cl_leader c) = Some m'" "mb_clan m' = i" by blast
  from clans_okD(1) [OF assms(1) m'(1)] m'(2) c have "mb_role m' = RoleLeader" by simp
  with m' assms(2,3) have "cl_leader c \<noteq> p" by auto
  with m' show "\<exists>m. map_of (clan_members (s\<lparr>clan_members := AList.delete p (clan_members s)\<rparr>)) (cl_leader c) = Some m \<and> mb_clan m = i"
    by simp
qed (use clans_ok_parts [OF assms(1)] clans_okD(1) [OF assms(1)] in \<open>auto split: if_splits\<close>)

lemma clans_ok_put_member:
  assumes "clans_ok s" "map_of (clans s) (mb_clan m) = Some c" "mb_role m \<noteq> RoleLeader" "cl_leader c \<noteq> p"
    and "\<forall>m'. map_of (clan_members s) p = Some m' \<longrightarrow> mb_clan m' = mb_clan m"
  shows "clans_ok (s\<lparr>clan_members := AList.update p m (clan_members s)\<rparr>)"
proof (rule clans_okI)
  fix i d assume "map_of (clans (s\<lparr>clan_members := AList.update p m (clan_members s)\<rparr>)) i = Some d"
  then have d: "map_of (clans s) i = Some d" by simp
  from clans_okD(2) [OF assms(1) d] obtain m' where m': "map_of (clan_members s) (cl_leader d) = Some m'" "mb_clan m' = i" by blast
  have "cl_leader d \<noteq> p"
  proof
    assume "cl_leader d = p"
    with m' assms(5) have "mb_clan m = i" by metis
    with d assms(2) have "d = c" by simp
    with \<open>cl_leader d = p\<close> assms(4) show False by simp
  qed
  with m' show "\<exists>m'. map_of (clan_members (s\<lparr>clan_members := AList.update p m (clan_members s)\<rparr>)) (cl_leader d) = Some m' \<and> mb_clan m' = i"
    by simp
qed (use clans_ok_parts [OF assms(1)] clans_okD(1) [OF assms(1)] assms(2-4) in \<open>auto split: if_splits\<close>)

lemma clans_ok_delete_clan:
  assumes "clans_ok s"
  shows "clans_ok (s\<lparr>clans := AList.delete i (clans s), clan_members := filter (\<lambda>(_, r). mb_clan r \<noteq> i) (clan_members s),
     clan_invitations := x\<rparr>)" (is "clans_ok ?s'")
proof (rule clans_okI)
  note wf = clans_ok_parts [OF assms]
  have mem: "map_of (filter (\<lambda>(_, r). mb_clan r \<noteq> i) (clan_members s)) p = Some m \<longleftrightarrow>
      map_of (clan_members s) p = Some m \<and> mb_clan m \<noteq> i" for p m
    using wf(2) by (simp add: lookup_filter)
  show "\<exists>c. map_of (clans ?s') (mb_clan m) = Some c \<and> ((mb_role m = RoleLeader) = (cl_leader c = p))"
    if "map_of (clan_members ?s') p = Some m" for p m
    using that clans_okD(1) [OF assms, of p m] by (auto simp: mem)
  show "\<exists>m. map_of (clan_members ?s') (cl_leader c) = Some m \<and> mb_clan m = j" if "map_of (clans ?s') j = Some c" for j c
    using that clans_okD(2) [OF assms, of j c] by (auto simp: mem split: if_splits)
qed (use clans_ok_parts [OF assms] in \<open>simp_all add: AList.delete_eq distinct_map_filter\<close>)

lemma createClan_ok:
  assumes "clans_ok s" "createClanSQL name tag p s = Inr (i, s')"
  shows "clans_ok s'"
proof -
  let ?c = "\<lparr>cl_name = name, cl_tag = tag, cl_leader = p, cl_treasury = 0, cl_created = db_now s\<rparr>"
  let ?m = "\<lparr>mb_clan = i, mb_role = RoleLeader, mb_joined = db_now s\<rparr>"
  from assms(2) have new: "map_of (clans s) i = None" "map_of (clan_members s) p = None"
    and n: "name \<notin> (\<lambda>(_, c). cl_name c) ` set (clans s)" "tag \<notin> (\<lambda>(_, c). cl_tag c) ` set (clans s)"
    and s': "clans s' = AList.update i ?c (clans s)" "clan_members s' = AList.update p ?m (clan_members s)"
    by (auto simp: createClanSQL_def Let_def list_ex_iff split: if_splits)
  note wf = clans_ok_parts [OF assms(1)]
  show ?thesis
  proof (rule clans_okI)
    show "distinct (map (\<lambda>(_, c). cl_name c) (clans s'))" "distinct (map (\<lambda>(_, c). cl_tag c) (clans s'))"
      using wf n by (simp_all add: s' update_new [OF new(1)])
    show "\<exists>c. map_of (clans s') (mb_clan m) = Some c \<and> ((mb_role m = RoleLeader) = (cl_leader c = q))"
      if "map_of (clan_members s') q = Some m" for q m
      using that clans_okD(1) [OF assms(1), of q m] new by (auto simp: s' split: if_splits)
    show "\<exists>m. map_of (clan_members s') (cl_leader c) = Some m \<and> mb_clan m = j" if "map_of (clans s') j = Some c" for j c
      using that clans_okD(2) [OF assms(1), of j c] new by (auto simp: s' split: if_splits)
  qed (use wf in \<open>simp_all add: s'\<close>)
qed

section \<open>What each operation does\<close>

lemma GetMembership_ok [run_simps]:
  "GetMembership p s = (Inr m, s') \<longleftrightarrow> \<not> tx_aborted s \<and> s' = s \<and> (\<exists>r. map_of (clan_members s) p = Some r \<and>
     m = \<lparr>ms_PlayerID = p, ms_ClanID = mb_clan r, ms_Role = mb_role r, ms_JoinedAt = mb_joined r\<rparr>)"
  by (auto simp: GetMembership_def run_simps)

lemma lookup_eq:
  "pool (GetMembership p) s = (if tx_aborted s then (Inl (EPg InFailedTransaction), s)
     else case map_of (clan_members s) p of
       None \<Rightarrow> (Inl (EClans CL_ErrNotMember), s)
     | Some r \<Rightarrow> (Inr \<lparr>ms_PlayerID = p, ms_ClanID = mb_clan r, ms_Role = mb_role r, ms_JoinedAt = mb_joined r\<rparr>, s))"
  by (auto simp: tx_do_def GetMembership_def bindM_def query_def sql_def failM_def returnM_def split: option.splits)

lemma membershipIn_eq:
  "membershipIn p i e s = (if tx_aborted s then (Inl (EPg InFailedTransaction), s)
     else case map_of (clan_members s) p of
       None \<Rightarrow> (Inl e, s)
     | Some r \<Rightarrow> if mb_clan r \<noteq> i then (Inl e, s)
         else (Inr \<lparr>ms_PlayerID = p, ms_ClanID = mb_clan r, ms_Role = mb_role r, ms_JoinedAt = mb_joined r\<rparr>, s))"
  by (auto simp: membershipIn_def bindM_tryM lookup_eq failM_def returnM_def split: option.splits)

lemma membershipIn_ok [run_simps]:
  "membershipIn p i e s = (Inr m, s') \<longleftrightarrow> \<not> tx_aborted s \<and> s' = s \<and> (\<exists>r. map_of (clan_members s) p = Some r \<and> mb_clan r = i \<and>
     m = \<lparr>ms_PlayerID = p, ms_ClanID = mb_clan r, ms_Role = mb_role r, ms_JoinedAt = mb_joined r\<rparr>)"
  by (auto simp: membershipIn_eq split: option.splits)

lemma membershipIn_err: "membershipIn p i e0 s = (Inl e, s') \<Longrightarrow> s' = s"
  by (auto simp: membershipIn_eq split: option.splits if_splits)

lemma requireManager_ok [run_simps]:
  "requireManager p i s = (Inr u, s') \<longleftrightarrow> \<not> tx_aborted s \<and> s' = s \<and>
     (\<exists>r. map_of (clan_members s) p = Some r \<and> mb_clan r = i \<and> canManage (mb_role r))"
  by (auto simp: requireManager_def run_simps)

lemma Kick_ok:
  "Kick actor i target s = (Inr u, s') \<longleftrightarrow> \<not> tx_aborted s \<and>
     (\<exists>ra rt. map_of (clan_members s) actor = Some ra \<and> mb_clan ra = i \<and> canManage (mb_role ra) \<and>
        map_of (clan_members s) target = Some rt \<and> mb_clan rt = i \<and> mb_role rt \<noteq> RoleLeader) \<and>
     s' = s\<lparr>clan_members := AList.delete target (clan_members s)\<rparr>"
  by (auto simp: Kick_def run_simps DeleteMember_def)

lemma SetRole_ok:
  "SetRole actor i target role s = (Inr u, s') \<longleftrightarrow> \<not> tx_aborted s \<and> (role = RoleMember \<or> role = RoleOfficer) \<and>
     (\<exists>ra rt. map_of (clan_members s) actor = Some ra \<and> mb_clan ra = i \<and> mb_role ra = RoleLeader \<and>
        map_of (clan_members s) target = Some rt \<and> mb_clan rt = i \<and> mb_role rt \<noteq> RoleLeader \<and>
        s' = s\<lparr>clan_members := AList.update target (rt\<lparr>mb_role := role\<rparr>) (clan_members s)\<rparr>)"
proof -
  have "SetRole actor i target role s = (Inr u, s') \<longleftrightarrow> (role = RoleMember \<or> role = RoleOfficer) \<and>
     (\<exists>ra rt. map_of (clan_members s) actor = Some ra \<and> mb_clan ra = i \<and> mb_role ra = RoleLeader \<and>
        map_of (clan_members s) target = Some rt \<and> mb_clan rt = i \<and> mb_role rt \<noteq> RoleLeader) \<and>
     \<not> tx_aborted s \<and> SetMemberRole i target role s = (Inr u, s') \<and> \<not> tx_aborted s'"
    unfolding SetRole_def bindM_ok checkM_ok membershipIn_ok tx_do_ok by force
  moreover have "SetMemberRole i target role s = (Inr u, s') \<and> \<not> tx_aborted s' \<longleftrightarrow>
      s' = s\<lparr>clan_members := AList.update target (rt\<lparr>mb_role := role\<rparr>) (clan_members s)\<rparr>"
    if "map_of (clan_members s) target = Some rt" "mb_clan rt = i" "\<not> tx_aborted s" for rt
    using that by (auto simp: SetMemberRole_def run_simps)
  ultimately show ?thesis by blast
qed

lemma Accept_ok:
  "Accept p i s = (Inr u, s') \<longleftrightarrow> \<not> tx_aborted s \<and> map_of (clan_invitations s) (i, p) \<noteq> None \<and>
     map_of (clan_members s) p = None \<and> map_of (players s) p \<noteq> None \<and> map_of (clans s) i \<noteq> None \<and>
     s' = s\<lparr>clan_invitations := AList.delete (i, p) (clan_invitations s),
       clan_members := AList.update p \<lparr>mb_clan = i, mb_role = RoleMember, mb_joined = db_now s\<rparr> (clan_members s)\<rparr>"
  by (auto simp: Accept_def AcceptInvitation_def run_simps acceptInvitationSQL_def split: option.splits if_splits)

lemma Invite_ok:
  "Invite inviter i target s = (Inr u, s') \<longleftrightarrow> \<not> tx_aborted s \<and>
     (\<exists>r. map_of (clan_members s) inviter = Some r \<and> mb_clan r = i \<and> canManage (mb_role r)) \<and>
     map_of (clan_members s) target = None \<and> createInvitationSQL i target inviter s = Inr ((), s') \<and> \<not> tx_aborted s'"
  unfolding Invite_def bindM_ok bindM_tryM requireManager_ok lookup_eq
  by (auto simp: run_simps CreateInvitation_def split: option.splits)

lemma Leave_ok:
  "Leave p i s = (Inr u, s') \<longleftrightarrow> \<not> tx_aborted s \<and>
     (\<exists>r. map_of (clan_members s) p = Some r \<and> mb_clan r = i \<and>
       (if mb_role r \<noteq> RoleLeader then s' = s\<lparr>clan_members := AList.delete p (clan_members s)\<rparr>
        else length (filter (\<lambda>(_, r). mb_clan r = i) (clan_members s)) \<le> 1 \<and>
          s' = s\<lparr>clans := AList.delete i (clans s), clan_members := filter (\<lambda>(_, r). mb_clan r \<noteq> i) (clan_members s),
            clan_invitations := filter (\<lambda>((c, _), _). c \<noteq> i) (clan_invitations s)\<rparr>))"
proof (cases "\<exists>r. map_of (clan_members s) p = Some r \<and> mb_clan r = i \<and> \<not> tx_aborted s")
  case True
  then obtain r where r: "map_of (clan_members s) p = Some r" "mb_clan r = i" "\<not> tx_aborted s" by blast
  then show ?thesis
    by (cases "mb_role r = RoleLeader") (simp_all add: Leave_def bindM_ok membershipIn_ok run_simps DeleteMember_def
        CountMembers_def DeleteClan_def not_less, auto)
next
  case False
  then show ?thesis by (auto simp: Leave_def bindM_ok membershipIn_ok)
qed

text \<open>A refused operation changes nothing.\<close>

lemma requireManager_err: "requireManager p i s = (Inl e, s') \<Longrightarrow> s' = s"
  by (auto simp: requireManager_def bindM_err run_simps dest: membershipIn_err)

lemmas clan_errs = bindM_err run_simps
lemmas clan_err_states = membershipIn_err requireManager_err tx_do_err

lemma clan_ops_err:
  "Invite a i b s = (Inl e, s') \<Longrightarrow> s' = s"
  "Accept a i s = (Inl e, s') \<Longrightarrow> s' = s"
  "Kick a i b s = (Inl e, s') \<Longrightarrow> s' = s"
  "SetRole a i b role s = (Inl e, s') \<Longrightarrow> s' = s"
  "Leave a i s = (Inl e, s') \<Longrightarrow> s' = s"
proof -
  show "Invite a i b s = (Inl e, s') \<Longrightarrow> s' = s"
    unfolding Invite_def bindM_err bindM_tryM requireManager_ok lookup_eq
    by (auto simp: run_simps dest: clan_err_states split: option.splits)
qed (auto simp: Accept_def Kick_def SetRole_def Leave_def CountMembers_def clan_errs dest!: clan_err_states split: if_splits)

lemma Create_state:
  assumes "clans_Create p name tag s = (r, s')"
  shows "s' = s \<or> (\<exists>i. createClanSQL (TrimSpace name) (TrimSpace tag) p s = Inr (i, s'))"
proof (cases "\<exists>i s1. pool (CreateClanWithLeader (TrimSpace name) (TrimSpace tag) p) s = (Inr i, s1)")
  case True
  then obtain i s1 where one: "pool (CreateClanWithLeader (TrimSpace name) (TrimSpace tag) p) s = (Inr i, s1)" by blast
  then have "createClanSQL (TrimSpace name) (TrimSpace tag) p s = Inr (i, s1)" by (simp add: CreateClanWithLeader_def run_simps)
  moreover have "snd (pool (GetClan i) s1) = s1"
    by (auto simp: GetClan_def tx_do_def bindM_def query_def sql_def failM_def returnM_def split: option.split)
  ultimately show ?thesis
    using assms one by (auto simp: clans_Create_def Let_def bindM_def checkM_def failM_def returnM_def split: if_splits)
next
  case False
  then obtain e s1 where one: "pool (CreateClanWithLeader (TrimSpace name) (TrimSpace tag) p) s = (Inl e, s1)"
    by (metis old.sum.exhaust surj_pair)
  with tx_do_err have "s1 = s" by blast
  with assms one show ?thesis by (auto simp: clans_Create_def Let_def bindM_def checkM_def failM_def returnM_def split: if_splits)
qed

section \<open>Properties\<close>

text \<open>
  C15: founding, inviting, accepting, kicking, changing roles and leaving, refused or not, keep every clan
  with exactly one leader, who is the one the clan names, and every member in exactly one existing clan;
  no two clans share a name or a tag.
\<close>

theorem clans_stay_well_formed:
  assumes "clans_ok s"
  shows "clans_ok (snd (clans_Create a name tag s)) \<and> clans_ok (snd (Invite a i b s)) \<and> clans_ok (snd (Accept a i s)) \<and>
    clans_ok (snd (Kick a i b s)) \<and> clans_ok (snd (SetRole a i b role s)) \<and> clans_ok (snd (Leave a i s))"
proof (intro conjI)
  show "clans_ok (snd (clans_Create a name tag s))"
    using Create_state [of a name tag s] createClan_ok [OF assms] assms by (cases "clans_Create a name tag s") auto
  have inv: "clans_ok s'" if "Invite a i b s = (Inr u, s')" for u s'
  proof -
    from that have "clans s' = clans s" "clan_members s' = clan_members s"
      by (auto simp: Invite_ok createInvitationSQL_def split: if_splits)
    with assms show ?thesis by (simp add: clans_ok_def)
  qed
  have acc: "clans_ok s'" if run: "Accept a i s = (Inr u, s')" for u s'
  proof -
    let ?m = "\<lparr>mb_clan = i, mb_role = RoleMember, mb_joined = db_now s\<rparr>"
    from run obtain c where c: "map_of (clans s) i = Some c" and new: "map_of (clan_members s) a = None" by (auto simp: Accept_ok)
    with clans_okD(2) [OF assms c] have "cl_leader c \<noteq> a" by auto
    with clans_ok_put_member [OF assms, of ?m c a] c new have "clans_ok (s\<lparr>clan_members := AList.update a ?m (clan_members s)\<rparr>)" by simp
    with run show ?thesis by (simp add: Accept_ok clans_ok_def)
  qed
  have kick: "clans_ok s'" if "Kick a i b s = (Inr u, s')" for u s'
    using that assms clans_ok_delete_member by (auto simp: Kick_ok)
  have role: "clans_ok s'" if run: "SetRole a i b role s = (Inr u, s')" for u s'
  proof -
    from run obtain rt where rt: "map_of (clan_members s) b = Some rt" "mb_clan rt = i" "mb_role rt \<noteq> RoleLeader"
      and r: "role = RoleMember \<or> role = RoleOfficer" and s': "s' = s\<lparr>clan_members := AList.update b (rt\<lparr>mb_role := role\<rparr>) (clan_members s)\<rparr>"
      by (auto simp: SetRole_ok)
    from clans_okD(1) [OF assms rt(1)] rt obtain c where "map_of (clans s) (mb_clan rt) = Some c" "cl_leader c \<noteq> b" by auto
    with clans_ok_put_member [OF assms, of "rt\<lparr>mb_role := role\<rparr>" c b] rt r show ?thesis by (auto simp: s')
  qed
  have leave: "clans_ok s'" if run: "Leave a i s = (Inr u, s')" for u s'
  proof -
    from run obtain r where r: "map_of (clan_members s) a = Some r" by (auto simp: Leave_ok)
    show ?thesis
    proof (cases "mb_role r = RoleLeader")
      case True
      with run r clans_ok_delete_clan [OF assms] show ?thesis by (simp add: Leave_ok)
    next
      case False
      with run r clans_ok_delete_member [OF assms r] show ?thesis by (simp add: Leave_ok)
    qed
  qed
  show "clans_ok (snd (Invite a i b s))" using inv clan_ops_err(1) assms by (rule holds_after)
  show "clans_ok (snd (Accept a i s))" using acc clan_ops_err(2) assms by (rule holds_after)
  show "clans_ok (snd (Kick a i b s))" using kick clan_ops_err(3) assms by (rule holds_after)
  show "clans_ok (snd (SetRole a i b role s))" using role clan_ops_err(4) assms by (rule holds_after)
  show "clans_ok (snd (Leave a i s))" using leave clan_ops_err(5) assms by (rule holds_after)
qed

theorem clans_stay_well_formed_witness:
  "clans_ok (snd (clans_Create 2 (runes_of '' Bears '') (runes_of ''BRS'') sample_db)) \<and>
   map_of (clan_members (snd (clans_Create 2 (runes_of '' Bears '') (runes_of ''BRS'') sample_db))) 2 \<noteq> None"
proof -
  have ok: "clans_ok sample_db" and "map_of (clan_members (snd (clans_Create 2 (runes_of '' Bears '') (runes_of ''BRS'') sample_db))) 2 \<noteq> None"
    by code_simp+
  with clans_stay_well_formed [OF ok] show ?thesis by blast
qed

text \<open>
  C16: nobody is removed, promoted or invited without authority: a kick succeeds exactly for a leader or
  officer of the clan against a non-leader member of the same clan, a role change exactly for the leader, and
  they change that one membership and nothing else; an invitation needs a manager and a target without a clan.
\<close>

theorem clan_authority:
  "(Kick actor i target s = (Inr (), s') \<longleftrightarrow> \<not> tx_aborted s \<and>
      (\<exists>ra rt. map_of (clan_members s) actor = Some ra \<and> mb_clan ra = i \<and> canManage (mb_role ra) \<and>
         map_of (clan_members s) target = Some rt \<and> mb_clan rt = i \<and> mb_role rt \<noteq> RoleLeader) \<and>
      s' = s\<lparr>clan_members := AList.delete target (clan_members s)\<rparr>) \<and>
   (SetRole actor i target role s = (Inr (), s') \<longleftrightarrow> \<not> tx_aborted s \<and> (role = RoleMember \<or> role = RoleOfficer) \<and>
      (\<exists>ra rt. map_of (clan_members s) actor = Some ra \<and> mb_clan ra = i \<and> mb_role ra = RoleLeader \<and>
         map_of (clan_members s) target = Some rt \<and> mb_clan rt = i \<and> mb_role rt \<noteq> RoleLeader \<and>
         s' = s\<lparr>clan_members := AList.update target (rt\<lparr>mb_role := role\<rparr>) (clan_members s)\<rparr>)) \<and>
   (Invite actor i target s = (Inr (), s') \<longrightarrow>
      (\<exists>ra. map_of (clan_members s) actor = Some ra \<and> mb_clan ra = i \<and> canManage (mb_role ra)) \<and>
      map_of (clan_members s) target = None \<and> clan_members s' = clan_members s)"
proof (intro conjI)
  show "Invite actor i target s = (Inr (), s') \<longrightarrow>
      (\<exists>ra. map_of (clan_members s) actor = Some ra \<and> mb_clan ra = i \<and> canManage (mb_role ra)) \<and>
      map_of (clan_members s) target = None \<and> clan_members s' = clan_members s"
    by (auto simp: Invite_ok createInvitationSQL_def split: if_splits)
qed (rule Kick_ok, rule SetRole_ok)

theorem clan_authority_witness:
  "clan_members (snd (Invite 1 1 2 sample_db)) = clan_members sample_db"
proof -
  have "fst (Invite 1 1 2 sample_db) = Inr ()" by code_simp
  from clan_authority [of 1 1 2 sample_db "snd (Invite 1 1 2 sample_db)"] run_state [OF this] show ?thesis by auto
qed

end
