(* ===== verification/Bounties.thy ===== *)
theory Bounties
  imports Clans
begin

text \<open>
  \<open>internal/persistence/bounties\<close> and \<open>internal/social/bounties\<close>: a sponsor (player or clan) escrows
  credits on a target's head; the killer collects them, or the sponsor gets them back on expiry.
\<close>

section \<open>Repository\<close>

abbreviation (input) BountyActive :: string where "BountyActive \<equiv> ''active''"
abbreviation (input) BountyPaid :: string where "BountyPaid \<equiv> ''paid''"
abbreviation (input) BountyExpired :: string where "BountyExpired \<equiv> ''expired''"

type_synonym bounty = "int \<times> bounty_row"

definition createBountySQL :: "bounty_row \<Rightarrow> db \<Rightarrow> pg_error + (int \<times> db)" where
  "createBountySQL b s =
     (let i = seq_bounty s in
      if bt_amount b \<le> 0 then Inl (CheckViolation ''bounties_amount_check'')
      else if map_of (bounties s) i \<noteq> None then Inl (UniqueViolation ''bounties_pkey'')
      else Inr (i, s\<lparr>bounties := AList.update i (b\<lparr>bt_status := BountyActive, bt_created := db_now s,
          bt_paid_to := None, bt_paid_at := None\<rparr>) (bounties s), seq_bounty := i + 1\<rparr>))"

definition CreateBounty :: "bounty_row \<Rightarrow> int dbm" where
  "CreateBounty b = sql (createBountySQL b)"

definition ActiveForTargets :: "int \<Rightarrow> entity_ref list \<Rightarrow> bounty list dbm" where
  "ActiveForTargets now targets =
     (if targets = [] then returnM []
      else query (\<lambda>s. filter (\<lambda>(_, b). bt_status b = BountyActive \<and> now < bt_expires b \<and>
        list_ex (\<lambda>t. bt_target b = t) targets) (bounties s)))"

definition due_bounties :: "int \<Rightarrow> nat \<Rightarrow> db \<Rightarrow> bounty list" where
  "due_bounties now limit s = take limit (sort_key (\<lambda>(_, b). bt_expires b)
     (filter (\<lambda>(_, b). bt_status b = BountyActive \<and> bt_expires b \<le> now) (bounties s)))"

definition DueExpired :: "int \<Rightarrow> nat \<Rightarrow> bounty list dbm" where
  "DueExpired now limit = query (due_bounties now limit)"

definition settleBounty :: "int \<Rightarrow> (bounty_row \<Rightarrow> bounty_row) \<Rightarrow> db \<Rightarrow> db" where
  "settleBounty i f s = (case map_of (bounties s) i of
       None \<Rightarrow> s
     | Some b \<Rightarrow> if bt_status b = BountyActive then s\<lparr>bounties := AList.update i (f b) (bounties s)\<rparr> else s)"

definition bounty_MarkPaid :: "int \<Rightarrow> int \<Rightarrow> int \<Rightarrow> unit dbm" where
  "bounty_MarkPaid i paidTo paidAt = sql (\<lambda>s. Inr ((), settleBounty i
     (\<lambda>b. b\<lparr>bt_status := BountyPaid, bt_paid_to := Some paidTo, bt_paid_at := Some paidAt\<rparr>) s))"

definition MarkExpired :: "int \<Rightarrow> unit dbm" where
  "MarkExpired i = sql (\<lambda>s. Inr ((), settleBounty i (\<lambda>b. b\<lparr>bt_status := BountyExpired\<rparr>) s))"

record bounty_view =
  bv_Bounty :: bounty
  bv_TargetName :: runes
  bv_SponsorName :: runes

definition entityName :: "db \<Rightarrow> entity_ref \<Rightarrow> runes" where
  "entityName s ref =
     (if ref_kind ref = EntityKindPlayer then (case map_of (players s) (ref_id ref) of None \<Rightarrow> [] | Some p \<Rightarrow> pl_login p)
      else if ref_kind ref = EntityKindClan then (case map_of (clans s) (ref_id ref) of None \<Rightarrow> [] | Some c \<Rightarrow> cl_name c)
      else [])"

definition bountyView :: "db \<Rightarrow> bounty \<Rightarrow> bounty_view" where
  "bountyView s = (\<lambda>(i, b). \<lparr>bv_Bounty = (i, b), bv_TargetName = entityName s (bt_target b),
     bv_SponsorName = entityName s (bt_sponsor b)\<rparr>)"

definition bounties_ListActive :: "int \<Rightarrow> nat \<Rightarrow> bounty_view list dbm" where
  "bounties_ListActive now limit = query (\<lambda>s. map (bountyView s) (take limit
     (sort_key (\<lambda>(_, b). - bt_amount b) (sort_key (\<lambda>(_, b). bt_created b)
       (filter (\<lambda>(_, b). bt_status b = BountyActive \<and> now < bt_expires b) (bounties s))))))"

definition HistoryForTarget :: "entity_ref \<Rightarrow> nat \<Rightarrow> bounty_view list dbm" where
  "HistoryForTarget target limit = query (\<lambda>s. map (bountyView s) (take limit
     (sort_key (\<lambda>(_, b). - bt_created b) (filter (\<lambda>(_, b). bt_target b = target) (bounties s)))))"

section \<open>Service\<close>

record bounty_config =
  bc_DefaultTTL :: int
  bc_TopLimit :: int
  bc_HistoryLimit :: int
  bc_IgnoreKiller :: int

definition bounties_New :: "bounty_config \<Rightarrow> bounty_config" where
  "bounties_New cfg = cfg\<lparr>
     bc_DefaultTTL := (if bc_DefaultTTL cfg \<le> 0 then 7 * 24 * 3600 * 1000000 else bc_DefaultTTL cfg),
     bc_TopLimit := (if bc_TopLimit cfg \<le> 0 then 50 else bc_TopLimit cfg),
     bc_HistoryLimit := (if bc_HistoryLimit cfg \<le> 0 then 100 else bc_HistoryLimit cfg)\<rparr>"

definition validKind :: "int \<Rightarrow> bool" where
  "validKind k \<longleftrightarrow> k = EntityKindPlayer \<or> k = EntityKindClan"

definition ClanOf :: "int \<Rightarrow> int option dbm" where
  "ClanOf player = bindM (tryM (pool (GetMembership player))) (\<lambda>res. case res of
       Inl e \<Rightarrow> if e = EClans CL_ErrNotMember then returnM None else failM e
     | Inr m \<Rightarrow> returnM (Some (ms_ClanID m)))"

definition LeaderOf :: "int \<Rightarrow> int dbm" where
  "LeaderOf clan = bindM (pool (GetClan clan)) (\<lambda>(_, c). returnM (cl_leader c))"

definition resolveSponsor :: "int \<Rightarrow> bool \<Rightarrow> entity_ref dbm" where
  "resolveSponsor caller fromClan =
     (if \<not> fromClan then returnM (PlayerRef caller)
      else bindM (ClanOf caller) (\<lambda>res. case res of
          None \<Rightarrow> failM (EBounties BT_ErrNotInClan)
        | Some clanID \<Rightarrow>
            bindM (LeaderOf clanID) (\<lambda>leader.
            bindM (checkM (leader = caller) (EBounties BT_ErrNotClanLeader)) (\<lambda>_.
            returnM (ClanRef clanID)))))"

definition debit :: "entity_ref \<Rightarrow> int \<Rightarrow> unit dbm" where
  "debit who amount =
     (if ref_kind who = EntityKindPlayer then
        bindM (mapErr (\<lambda>e. if e = EPlayers Players_ErrInsufficientCash then EBounties BT_ErrInsufficientFunds else e)
          (AdjustCash (ref_id who) (wrap64 (- amount)))) (\<lambda>_. returnM ())
      else if ref_kind who = EntityKindClan then
        bindM (mapErr (\<lambda>e. if e = EClans CL_ErrInsufficientTreasury then EBounties BT_ErrInsufficientFunds else e)
          (AdjustTreasury (ref_id who) (wrap64 (- amount)))) (\<lambda>_. returnM ())
      else failM (EBounties BT_ErrInvalidInput))"

definition refund :: "entity_ref \<Rightarrow> int \<Rightarrow> unit dbm" where
  "refund who amount =
     (if ref_kind who = EntityKindPlayer then bindM (AdjustCash (ref_id who) amount) (\<lambda>_. returnM ())
      else if ref_kind who = EntityKindClan then bindM (AdjustTreasury (ref_id who) amount) (\<lambda>_. returnM ())
      else failM (EBounties BT_ErrInvalidInput))"

definition SetBounty :: "bounty_config \<Rightarrow> int \<Rightarrow> int \<Rightarrow> entity_ref \<Rightarrow> int \<Rightarrow> int \<Rightarrow> bool \<Rightarrow> int dbm" where
  "SetBounty cfg now caller target amount ttl0 fromClan =
     bindM (checkM (0 < amount \<and> validKind (ref_kind target)) (EBounties BT_ErrInvalidInput)) (\<lambda>_.
     bindM (resolveSponsor caller fromClan) (\<lambda>sponsor.
     bindM (checkM (sponsor \<noteq> target) (EBounties BT_ErrSelfBounty)) (\<lambda>_.
     let ttl = (if ttl0 \<le> 0 then bc_DefaultTTL cfg else ttl0);
         b = \<lparr>bt_target = target, bt_sponsor = sponsor, bt_amount = amount, bt_status = BountyActive,
              bt_created = now, bt_expires = now + ttl, bt_paid_to = None, bt_paid_at = None\<rparr> in
     tx_do (bindM (debit sponsor amount) (\<lambda>_. CreateBounty b)))))"

definition bounties_OnKill :: "bounty_config \<Rightarrow> int \<Rightarrow> int \<Rightarrow> int \<Rightarrow> unit dbm" where
  "bounties_OnKill cfg now killer victim =
     (if killer = 0 \<or> victim = 0 \<or> killer = victim then returnM ()
      else if bc_IgnoreKiller cfg \<noteq> 0 \<and> killer = bc_IgnoreKiller cfg then returnM ()
      else bindM (ClanOf victim) (\<lambda>clan.
        let targets = PlayerRef victim # (case clan of None \<Rightarrow> [] | Some clanID \<Rightarrow> [ClanRef clanID]) in
        tx_do (bindM (ActiveForTargets now targets) (\<lambda>bs.
          forM bs (\<lambda>(i, b). bindM (AdjustCash killer (bt_amount b)) (\<lambda>_. bounty_MarkPaid i killer now))))))"

definition ExpireDue :: "int \<Rightarrow> nat \<Rightarrow> nat dbm" where
  "ExpireDue now limit = tx_do (bindM (DueExpired now limit) (\<lambda>bs.
     bindM (forM bs (\<lambda>(i, b). bindM (refund (bt_sponsor b) (bt_amount b)) (\<lambda>_. MarkExpired i))) (\<lambda>_.
     returnM (length bs))))"

definition TopActive :: "bounty_config \<Rightarrow> int \<Rightarrow> bounty_view list dbm" where
  "TopActive cfg now = pool (bounties_ListActive now (nat (bc_TopLimit cfg)))"

definition History :: "bounty_config \<Rightarrow> int \<Rightarrow> bounty_view list dbm" where
  "History cfg player = pool (HistoryForTarget (PlayerRef player) (nat (bc_HistoryLimit cfg)))"

definition bounties_closer_Tick :: "int \<Rightarrow> unit dbm" where
  "bounties_closer_Tick now = bindM (tryM (ExpireDue now 100)) (\<lambda>_. returnM ())"

section \<open>Money in escrow\<close>

definition escrowed :: "db \<Rightarrow> int" where
  "escrowed s = tsum (\<lambda>_ b. if bt_status b = BountyActive then bt_amount b else 0) (bounties s)"

definition funds :: "db \<Rightarrow> int" where
  "funds s = total_cash s + total_treasury s"

lemma settle_escrowed:
  "map_of (bounties s) i = Some b \<Longrightarrow> bt_status b = BountyActive \<Longrightarrow> bt_status (f b) \<noteq> BountyActive \<Longrightarrow>
     escrowed (settleBounty i f s) = escrowed s - bt_amount b"
  by (simp add: escrowed_def settleBounty_def tsum_table)

lemma settle_rows:
  "map_of (bounties (settleBounty i f s)) j =
     (if j = i then map_option (\<lambda>b. if bt_status b = BountyActive then f b else b) (map_of (bounties s) i) else map_of (bounties s) j)"
  by (auto simp: settleBounty_def split: option.split)

lemma settle_frame [simp]:
  "funds (settleBounty i f s) = funds s" "players (settleBounty i f s) = players s" "clans (settleBounty i f s) = clans s"
  "tx_aborted (settleBounty i f s) = tx_aborted s" "cash_of (settleBounty i f s) = cash_of s"
  by (auto simp: settleBounty_def funds_def total_cash_def total_treasury_def cash_of_def fun_eq_iff split: option.split)

lemma settle_wf: "tbl_wf (bounties s) \<Longrightarrow> tbl_wf (bounties (settleBounty i f s))"
  by (simp add: settleBounty_def split: option.split)

text \<open>What both settlements of a bounty have in common: money goes out once, the row is closed.\<close>

locale settlement =
  fixes pay :: "bounty_row \<Rightarrow> unit dbm"
    and closed :: "bounty_row \<Rightarrow> bounty_row"
  assumes pay_funds: "pay b s = (Inr u, s') \<Longrightarrow> funds s' = funds s + bt_amount b"
    and pay_rows: "pay b s = (Inr u, s') \<Longrightarrow> bounties s' = bounties s"
    and closes: "bt_status (closed b) \<noteq> BountyActive"
begin

lemma settle_all:
  assumes "forM bs (\<lambda>(i, b). bindM (pay b) (\<lambda>_. sql (\<lambda>s. Inr ((), settleBounty i closed s)))) s = (Inr u, s')"
    and "distinct (map fst bs)" "\<forall>(i, b) \<in> set bs. map_of (bounties s) i = Some b \<and> bt_status b = BountyActive"
  shows "funds s' + escrowed s' = funds s + escrowed s \<and>
    (\<forall>(i, b) \<in> set bs. map_of (bounties s') i = Some (closed b)) \<and>
    (\<forall>j. j \<notin> fst ` set bs \<longrightarrow> map_of (bounties s') j = map_of (bounties s) j) \<and>
    (tbl_wf (bounties s) \<longrightarrow> tbl_wf (bounties s'))"
  using assms
proof (induction bs arbitrary: s)
  case Nil
  then show ?case by (simp add: run_simps)
next
  case (Cons x bs)
  obtain i b where x: "x = (i, b)" by (cases x)
  from Cons.prems(1) x obtain u1 s1 where p: "pay b s = (Inr u1, s1)" and
    rest: "forM bs (\<lambda>(i, b). bindM (pay b) (\<lambda>_. sql (\<lambda>s. Inr ((), settleBounty i closed s)))) (settleBounty i closed s1) = (Inr u, s')"
    by (auto simp: run_simps)
  let ?s2 = "settleBounty i closed s1"
  have b: "map_of (bounties s1) i = Some b" "bt_status b = BountyActive" and i: "i \<notin> fst ` set bs"
    using Cons.prems(2,3) x pay_rows [OF p] by auto
  have rows: "map_of (bounties ?s2) j = (if j = i then Some (closed b) else map_of (bounties s) j)" for j
    using b pay_rows [OF p] by (simp add: settle_rows)
  have others: "\<forall>(j, c) \<in> set bs. map_of (bounties ?s2) j = Some c \<and> bt_status c = BountyActive"
  proof (clarify, goal_cases)
    case (1 j c)
    with i have "j \<noteq> i" by force
    with 1 Cons.prems(3) show ?case by (auto simp: rows)
  qed
  have wf: "tbl_wf (bounties s) \<longrightarrow> tbl_wf (bounties ?s2)" using pay_rows [OF p] by (simp add: settle_wf)
  have e: "funds ?s2 + escrowed ?s2 = funds s + escrowed s"
    using settle_escrowed [OF b closes] pay_funds [OF p] pay_rows [OF p] by (simp add: escrowed_def)
  have ih: "funds s' + escrowed s' = funds ?s2 + escrowed ?s2" "\<forall>(j, c) \<in> set bs. map_of (bounties s') j = Some (closed c)"
    "\<forall>j. j \<notin> fst ` set bs \<longrightarrow> map_of (bounties s') j = map_of (bounties ?s2) j" "tbl_wf (bounties ?s2) \<longrightarrow> tbl_wf (bounties s')"
    using Cons.IH [OF rest _ others] Cons.prems(2) by auto
  with e wf x i show ?case by (auto simp: rows)
qed

end

lemma cash_funds: "AdjustCash p d s = (Inr c, s') \<Longrightarrow> funds s' = funds s + d \<and> bounties s' = bounties s \<and> clans s' = clans s"
  using cash.adjust_total [of p d s c s'] by (auto simp: funds_def total_treasury_def AdjustCash_ok)

lemma treasury_funds:
  "AdjustTreasury i d s = (Inr c, s') \<Longrightarrow> funds s' = funds s + d \<and> bounties s' = bounties s \<and> players s' = players s"
  using treasury.adjust_total [of i d s c s'] by (auto simp: funds_def total_cash_def treasury.adjust_ok)

interpretation payout: settlement "\<lambda>b. bindM (AdjustCash killer (bt_amount b)) (\<lambda>_. returnM ())"
    "\<lambda>b. b\<lparr>bt_status := BountyPaid, bt_paid_to := Some killer, bt_paid_at := Some now\<rparr>" for killer now
  by unfold_locales (auto simp: run_simps dest: cash_funds)

interpretation repayment: settlement "\<lambda>b. refund (bt_sponsor b) (bt_amount b)" "\<lambda>b. b\<lparr>bt_status := BountyExpired\<rparr>"
  by unfold_locales (auto simp: refund_def run_simps dest: cash_funds treasury_funds split: if_splits)

section \<open>Runs\<close>

lemma ClanOf_eq:
  "ClanOf p s = (if tx_aborted s then (Inl (EPg InFailedTransaction), s)
     else (Inr (map_option mb_clan (map_of (clan_members s) p)), s))"
  by (auto simp: ClanOf_def bindM_tryM lookup_eq failM_def returnM_def split: option.split)

lemma LeaderOf_state: "LeaderOf i s = (r, s') \<Longrightarrow> s' = s"
  by (auto simp: LeaderOf_def GetClan_def tx_do_def bindM_def query_def sql_def failM_def returnM_def split: option.splits if_splits)

lemma resolveSponsor_state: "resolveSponsor p fromClan s = (r, s') \<Longrightarrow> s' = s"
  by (cases r) (auto simp: resolveSponsor_def ClanOf_eq bindM_def checkM_def failM_def returnM_def
      dest: LeaderOf_state split: if_splits option.splits prod.splits sum.splits)

lemma debit_ok:
  assumes "debit who amount s = (Inr u, s')" "0 < amount" "in64 amount"
  shows "funds s' = funds s - amount" "bounties s' = bounties s"
proof -
  have "wrap64 (- amount) = - amount" using assms(2,3) by (intro wrap64_id in64_uminus) auto
  with assms(1) show "funds s' = funds s - amount" "bounties s' = bounties s"
    by (auto simp: debit_def run_simps dest!: cash_funds treasury_funds split: if_splits)
qed

lemma SetBounty_ok:
  assumes "SetBounty cfg now caller target amount ttl fromClan s = (Inr i, s')" "in64 amount"
  shows "0 < amount" "funds s' = funds s - amount" "escrowed s' = escrowed s + amount"
proof -
  from assms(1) show pos: "0 < amount" by (auto simp: SetBounty_def run_simps)
  let ?b = "\<lambda>sponsor. \<lparr>bt_target = target, bt_sponsor = sponsor, bt_amount = amount, bt_status = BountyActive, bt_created = now,
    bt_expires = now + (if ttl \<le> 0 then bc_DefaultTTL cfg else ttl), bt_paid_to = None, bt_paid_at = None\<rparr>"
  from assms(1) obtain sponsor s1 where d: "debit sponsor amount s = (Inr (), s1)" and c: "createBountySQL (?b sponsor) s1 = Inr (i, s')"
    by (auto simp: SetBounty_def run_simps Let_def CreateBounty_def dest!: resolveSponsor_state)
  have "funds s' = funds s1" using c
    by (auto simp: createBountySQL_def Let_def funds_def total_cash_def total_treasury_def split: if_splits)
  with debit_ok [OF d pos assms(2)] show "funds s' = funds s - amount" by simp
  have "escrowed s' = escrowed s1 + amount" using c
    by (auto simp: createBountySQL_def Let_def escrowed_def tsum_table split: if_splits)
  with debit_ok [OF d pos assms(2)] show "escrowed s' = escrowed s + amount" by (simp add: escrowed_def)
qed

lemma SetBounty_err: "SetBounty cfg now caller target amount ttl fromClan s = (Inl e, s') \<Longrightarrow> s' = s"
  by (auto simp: SetBounty_def bindM_err run_simps Let_def dest!: resolveSponsor_state tx_do_err)

text \<open>The bounties a kill pays out.\<close>

definition victim_targets :: "db \<Rightarrow> int \<Rightarrow> entity_ref list" where
  "victim_targets s victim = PlayerRef victim # (case map_of (clan_members s) victim of None \<Rightarrow> [] | Some r \<Rightarrow> [ClanRef (mb_clan r)])"

definition hunted :: "int \<Rightarrow> int \<Rightarrow> db \<Rightarrow> bounty list" where
  "hunted now victim s = filter (\<lambda>(_, b). bt_status b = BountyActive \<and> now < bt_expires b \<and>
     list_ex (\<lambda>t. bt_target b = t) (victim_targets s victim)) (bounties s)"

definition pays :: "bounty_config \<Rightarrow> int \<Rightarrow> int \<Rightarrow> bool" where
  "pays cfg killer victim \<longleftrightarrow> killer \<noteq> 0 \<and> victim \<noteq> 0 \<and> killer \<noteq> victim \<and> killer \<noteq> bc_IgnoreKiller cfg"

lemma OnKill_ok:
  assumes "pays cfg killer victim"
  shows "bounties_OnKill cfg now killer victim s = (Inr u, s') \<longleftrightarrow> \<not> tx_aborted s \<and> \<not> tx_aborted s' \<and>
    forM (hunted now victim s) (\<lambda>(i, b). bindM (AdjustCash killer (bt_amount b)) (\<lambda>_. bounty_MarkPaid i killer now)) s = (Inr u, s')"
  using assms
  by (auto simp: bounties_OnKill_def pays_def ActiveForTargets_def ClanOf_eq bindM_ok tx_do_ok query_ok Let_def
      hunted_def victim_targets_def split: option.splits if_splits)

lemma OnKill_noop: "\<not> pays cfg killer victim \<Longrightarrow> bc_IgnoreKiller cfg \<noteq> 0 \<Longrightarrow> bounties_OnKill cfg now killer victim = returnM ()"
  by (auto simp: bounties_OnKill_def pays_def)

lemma OnKill_err: "bounties_OnKill cfg now killer victim s = (Inl e, s') \<Longrightarrow> s' = s"
  by (auto simp: bounties_OnKill_def bindM_err ClanOf_eq returnM_def Let_def dest!: tx_do_err split: if_splits)

lemma hunted_rows:
  assumes "tbl_wf (bounties s)"
  shows "distinct (map fst (hunted now victim s))"
    "\<forall>(i, b) \<in> set (hunted now victim s). map_of (bounties s) i = Some b \<and> bt_status b = BountyActive"
  using assms tbl_wf_filter [OF assms] by (auto simp: hunted_def tbl_wf_map_of tbl_wf_def keys_def)

lemma payout_loop:
  "forM bs (\<lambda>(i, b). bindM (AdjustCash killer (bt_amount b)) (\<lambda>_. bounty_MarkPaid i killer now)) =
   forM bs (\<lambda>(i, b). bindM (bindM (AdjustCash killer (bt_amount b)) (\<lambda>_. returnM ())) (\<lambda>_. sql (\<lambda>s. Inr ((), settleBounty i
     (\<lambda>b. b\<lparr>bt_status := BountyPaid, bt_paid_to := Some killer, bt_paid_at := Some now\<rparr>) s))))"
  by (simp add: bindM_assoc bounty_MarkPaid_def)

lemma payout_cash:
  assumes "forM bs (\<lambda>(i, b). bindM (AdjustCash killer (bt_amount b)) (\<lambda>_. bounty_MarkPaid i killer now)) s = (Inr u, s')"
  shows "cash_of s' p = map_option (\<lambda>c. c + (if p = killer then \<Sum>(i, b)\<leftarrow>bs. bt_amount b else 0)) (cash_of s p)"
    and "clan_members s' = clan_members s"
proof -
  have "cash_of s' p = map_option (\<lambda>c. c + (if p = killer then \<Sum>(i, b)\<leftarrow>bs. bt_amount b else 0)) (cash_of s p) \<and>
    clan_members s' = clan_members s"
    using assms
  proof (induction bs arbitrary: s)
    case Nil
    then show ?case by (auto simp: run_simps option.map_ident)
  next
    case (Cons x bs)
    obtain i b where x: "x = (i, b)" by (cases x)
    let ?f = "\<lambda>b. b\<lparr>bt_status := BountyPaid, bt_paid_to := Some killer, bt_paid_at := Some now\<rparr>"
    from Cons.prems x obtain c s1 where a: "AdjustCash killer (bt_amount b) s = (Inr c, s1)" and
      rest: "forM bs (\<lambda>(i, b). bindM (AdjustCash killer (bt_amount b)) (\<lambda>_. bounty_MarkPaid i killer now)) (settleBounty i ?f s1) = (Inr u, s')"
      by (auto simp: run_simps bounty_MarkPaid_def)
    have m: "clan_members (settleBounty i ?f s1) = clan_members s"
      using a by (auto simp: settleBounty_def AdjustCash_ok split: option.split)
    from cash.adjust_balance [OF a] have "cash_of s1 = (cash_of s)(killer \<mapsto> c)" "cash_of s killer = Some (c - bt_amount b)" by auto
    with Cons.IH [OF rest] m x show ?case by (auto simp: option.map_comp comp_def algebra_simps intro: option.map_cong)
  qed
  then show "cash_of s' p = map_option (\<lambda>c. c + (if p = killer then \<Sum>(i, b)\<leftarrow>bs. bt_amount b else 0)) (cash_of s p)"
    and "clan_members s' = clan_members s" by auto
qed

lemma due_rows:
  assumes "tbl_wf (bounties s)"
  shows "distinct (map fst (due_bounties now limit s))"
    "\<forall>(i, b) \<in> set (due_bounties now limit s). map_of (bounties s) i = Some b \<and> bt_status b = BountyActive"
proof -
  let ?f = "filter (\<lambda>(_, b). bt_status b = BountyActive \<and> bt_expires b \<le> now) (bounties s)"
  have "distinct (map fst ?f)" using tbl_wf_filter [OF assms] by (simp add: tbl_wf_def keys_def)
  then have "distinct (map fst (sort_key (\<lambda>(_, b). bt_expires b) ?f))" by (auto simp: distinct_map)
  then show "distinct (map fst (due_bounties now limit s))" by (simp add: due_bounties_def flip: take_map)
  show "\<forall>(i, b) \<in> set (due_bounties now limit s). map_of (bounties s) i = Some b \<and> bt_status b = BountyActive"
    using assms by (auto simp: due_bounties_def tbl_wf_map_of dest!: in_set_takeD)
qed

lemma ExpireDue_ok:
  "ExpireDue now limit s = (Inr n, s') \<longleftrightarrow> \<not> tx_aborted s \<and> \<not> tx_aborted s' \<and> n = length (due_bounties now limit s) \<and>
     forM (due_bounties now limit s) (\<lambda>(i, b). bindM (refund (bt_sponsor b) (bt_amount b)) (\<lambda>_.
       sql (\<lambda>s. Inr ((), settleBounty i (\<lambda>b. b\<lparr>bt_status := BountyExpired\<rparr>) s)))) s = (Inr (), s')"
  by (auto simp: ExpireDue_def DueExpired_def MarkExpired_def bindM_ok tx_do_ok query_ok returnM_run)

lemma ExpireDue_err: "ExpireDue now limit s = (Inl e, s') \<Longrightarrow> s' = s"
  by (auto simp: ExpireDue_def dest: tx_do_err)

text \<open>A refund to a clan that no longer exists fails, and with it the whole batch.\<close>

lemma refund_missing_clan:
  assumes "\<exists>(i, b) \<in> set bs. bt_sponsor b = ClanRef c" "map_of (clans s) c = None"
  shows "forM bs (\<lambda>(i, b). bindM (refund (bt_sponsor b) (bt_amount b)) (\<lambda>_.
    sql (\<lambda>s. Inr ((), settleBounty i f s)))) s \<noteq> (Inr u, s')"
  using assms
proof (induction bs arbitrary: s)
  case (Cons x bs)
  obtain i b where x: "x = (i, b)" by (cases x)
  show ?case
  proof
    assume "forM (x # bs) (\<lambda>(i, b). bindM (refund (bt_sponsor b) (bt_amount b)) (\<lambda>_. sql (\<lambda>s. Inr ((), settleBounty i f s)))) s = (Inr u, s')"
    with x obtain u1 s1 where one: "refund (bt_sponsor b) (bt_amount b) s = (Inr u1, s1)" and
      rest: "forM bs (\<lambda>(i, b). bindM (refund (bt_sponsor b) (bt_amount b)) (\<lambda>_. sql (\<lambda>s. Inr ((), settleBounty i f s)))) (settleBounty i f s1) = (Inr u, s')"
      by (auto simp: run_simps)
    have "bt_sponsor b \<noteq> ClanRef c"
      using one Cons.prems(2) by (auto simp: refund_def ClanRef_def run_simps treasury.adjust_ok treasury_of_def)
    moreover have "map_of (clans s1) c = None"
      using one Cons.prems(2) by (auto simp: refund_def run_simps treasury.adjust_ok set_treasury_def treasury_of_def
          dest!: cash_funds split: if_splits option.splits)
    ultimately show False using Cons.IH [of "settleBounty i f s1"] Cons.prems(1) x rest by auto
  qed
qed simp

section \<open>Properties\<close>

text \<open>
  C11: bounties neither create nor destroy money: placing one, paying it to a killer, refunding it on expiry
  and a pass of the closer leave the sum of wallets, clan treasuries and active bounties unchanged,
  whatever they return.
\<close>

theorem bounty_money_conserved:
  assumes "tbl_wf (bounties s)" "in64 amount"
  shows "funds (snd (SetBounty cfg now caller target amount ttl fromClan s)) +
      escrowed (snd (SetBounty cfg now caller target amount ttl fromClan s)) = funds s + escrowed s \<and>
    funds (snd (bounties_OnKill cfg now killer victim s)) + escrowed (snd (bounties_OnKill cfg now killer victim s)) =
      funds s + escrowed s \<and>
    funds (snd (ExpireDue now limit s)) + escrowed (snd (ExpireDue now limit s)) = funds s + escrowed s \<and>
    funds (snd (bounties_closer_Tick now s)) + escrowed (snd (bounties_closer_Tick now s)) = funds s + escrowed s"
proof -
  let ?P = "\<lambda>s'. funds s' + escrowed s' = funds s + escrowed s"
  have set: "?P (snd (SetBounty cfg now caller target amount ttl fromClan s))"
  proof (rule holds_after)
    fix i s' assume "SetBounty cfg now caller target amount ttl fromClan s = (Inr i, s')"
    from SetBounty_ok [OF this assms(2)] show "?P s'" by simp
  qed (auto dest: SetBounty_err)
  have kill: "?P (snd (bounties_OnKill cfg now killer victim s))"
  proof (cases "pays cfg killer victim")
    case True
    show ?thesis
    proof (rule holds_after)
      fix u s' assume "bounties_OnKill cfg now killer victim s = (Inr u, s')"
      from payout.settle_all [OF OnKill_ok [OF True, THEN iffD1, OF this, THEN conjunct2, THEN conjunct2, unfolded payout_loop]
          hunted_rows [OF assms(1)]] show "?P s'" by blast
    qed (auto dest: OnKill_err)
  next
    case False
    then show ?thesis by (auto simp: pays_def bounties_OnKill_def returnM_def)
  qed
  have expire: "?P (snd (ExpireDue now limit s))" for limit
  proof (rule holds_after)
    fix n s' assume "ExpireDue now limit s = (Inr n, s')"
    then show "?P s'" using repayment.settle_all [OF _ due_rows [OF assms(1)]] by (auto simp: ExpireDue_ok)
  qed (auto dest: ExpireDue_err)
  have "?P (snd (bounties_closer_Tick now s))"
    using expire [of 100] by (cases "ExpireDue now 100 s") (simp add: bounties_closer_Tick_def bindM_tryM returnM_def)
  with set kill expire show ?thesis by blast
qed

definition sample_bounty_config :: bounty_config where
  "sample_bounty_config = bounties_New \<lparr>bc_DefaultTTL = 0, bc_TopLimit = 0, bc_HistoryLimit = 0, bc_IgnoreKiller = 99\<rparr>"

theorem bounty_money_conserved_witness:
  "let s' = snd (SetBounty sample_bounty_config 1000 1 (PlayerRef 2) 100 500 True sample_db) in
     funds s' = 5800 + 200 \<and> escrowed s' = 100"
proof -
  have h: "tbl_wf (bounties sample_db)" "in64 100" and v: "funds sample_db + escrowed sample_db = 6100"
    "escrowed (snd (SetBounty sample_bounty_config 1000 1 (PlayerRef 2) 100 500 True sample_db)) = 100" by code_simp+
  from bounty_money_conserved [OF h, THEN conjunct1, of sample_bounty_config 1000 1 "PlayerRef 2" 500 True] v show ?thesis by (simp add: Let_def)
qed

text \<open>
  C12: a kill pays every open bounty on the victim and the victim's clan to the killer, exactly once: the
  killer's wallet grows by their sum, no other wallet changes, each of them is marked as paid to the killer,
  and another kill of the same victim finds nothing left to pay.
\<close>

theorem bounty_paid_once:
  assumes "bounties_OnKill cfg now killer victim s = (Inr (), s')" "pays cfg killer victim" "tbl_wf (bounties s)" "now \<le> later"
  shows "(\<forall>p. cash_of s' p = map_option (\<lambda>c. c + (if p = killer then \<Sum>(i, b)\<leftarrow>hunted now victim s. bt_amount b else 0)) (cash_of s p)) \<and>
    (\<forall>(i, b) \<in> set (hunted now victim s). map_of (bounties s') i =
       Some (b\<lparr>bt_status := BountyPaid, bt_paid_to := Some killer, bt_paid_at := Some now\<rparr>)) \<and>
    hunted later victim s' = [] \<and> bounties_OnKill cfg later killer victim s' = (Inr (), s')"
proof -
  note run = OnKill_ok [OF assms(2), THEN iffD1, OF assms(1)]
  then have loop: "forM (hunted now victim s) (\<lambda>(i, b). bindM (AdjustCash killer (bt_amount b)) (\<lambda>_. bounty_MarkPaid i killer now)) s = (Inr (), s')"
    by simp
  note pc = payout_cash [OF loop]
  note all = payout.settle_all [OF loop [unfolded payout_loop] hunted_rows [OF assms(3)]]
  have none: "hunted later victim s' = []"
  proof (rule ccontr)
    assume "hunted later victim s' \<noteq> []"
    then obtain i b where ib: "(i, b) \<in> set (hunted later victim s')" by (metis list.set_intros(1) neq_Nil_conv surj_pair)
    then have act: "bt_status b = BountyActive" "later < bt_expires b" "list_ex (\<lambda>t. bt_target b = t) (victim_targets s victim)"
      by (auto simp: hunted_def victim_targets_def pc(2))
    from ib all assms(3) have row: "map_of (bounties s') i = Some b" by (auto simp: hunted_def tbl_wf_map_of)
    show False
    proof (cases "i \<in> fst ` set (hunted now victim s)")
      case True
      with all row act(1) show ?thesis by fastforce
    next
      case False
      with all row have "(i, b) \<in> set (bounties s)" by (auto dest: map_of_SomeD)
      with act assms(4) False show ?thesis by (force simp: hunted_def)
    qed
  qed
  moreover have "bounties_OnKill cfg later killer victim s' = (Inr (), s')"
    using run by (simp add: OnKill_ok [OF assms(2)] none returnM_def)
  ultimately show ?thesis using pc(1) all by blast
qed

theorem bounty_paid_once_witness:
  "let s = snd (SetBounty sample_bounty_config 1000 1 (PlayerRef 2) 100 500 True sample_db);
       s' = snd (bounties_OnKill sample_bounty_config 1200 3 2 s) in
     cash_of s' 3 = Some 100 \<and> bounties_OnKill sample_bounty_config 1300 3 2 s' = (Inr (), s')"
proof -
  let ?s = "snd (SetBounty sample_bounty_config 1000 1 (PlayerRef 2) 100 500 True sample_db)"
  have run: "fst (bounties_OnKill sample_bounty_config 1200 3 2 ?s) = Inr ()" and h: "pays sample_bounty_config 3 2" "tbl_wf (bounties ?s)"
    and v: "(\<Sum>(i, b)\<leftarrow>hunted 1200 2 ?s. bt_amount b) = 100" "cash_of ?s 3 = Some 0" by code_simp+
  from bounty_paid_once [OF run_state [OF run] h, of 1300] v show ?thesis by (simp add: Let_def)
qed

text \<open>
  one bounty whose sponsoring clan has been disbanded stops all expiry: as long as it is among the due
  bounties, \<open>ExpireDue\<close> fails and rolls every refund of the batch back. (The treasury update finds no row
  and reports insufficient funds.)
\<close>

theorem disbanded_sponsor_blocks_expiry:
  assumes "(i, b) \<in> set (due_bounties now limit s)" "bt_sponsor b = ClanRef c" "map_of (clans s) c = None"
  shows "\<exists>e. ExpireDue now limit s = (Inl e, s)"
proof (cases "ExpireDue now limit s")
  case (Pair r s')
  show ?thesis
  proof (cases r)
    case (Inl e)
    with Pair show ?thesis by (auto dest: ExpireDue_err)
  next
    case (Inr n)
    with Pair have "forM (due_bounties now limit s) (\<lambda>(i, b). bindM (refund (bt_sponsor b) (bt_amount b)) (\<lambda>_.
       sql (\<lambda>s. Inr ((), settleBounty i (\<lambda>b. b\<lparr>bt_status := BountyExpired\<rparr>) s)))) s = (Inr (), s')" by (simp add: ExpireDue_ok)
    with refund_missing_clan [of "due_bounties now limit s" c s] assms show ?thesis by fastforce
  qed
qed

theorem disbanded_sponsor_blocks_expiry_witness:
  "let s = snd (SetBounty sample_bounty_config 1000 1 (PlayerRef 2) 100 500 True sample_db);
       s' = snd (Leave 1 1 s) in
     \<exists>e. ExpireDue 2000 100 s' = (Inl e, s')"
proof -
  let ?s = "snd (Leave 1 1 (snd (SetBounty sample_bounty_config 1000 1 (PlayerRef 2) 100 500 True sample_db)))"
  have "map (\<lambda>(i, b). (i, bt_sponsor b)) (due_bounties 2000 100 ?s) = [(1, ClanRef 1)]" and c: "map_of (clans ?s) 1 = None"
    by code_simp+
  then obtain b where "(1, b) \<in> set (due_bounties 2000 100 ?s)" "bt_sponsor b = ClanRef 1" by (auto simp: map_eq_Cons_conv)
  note this c
  from disbanded_sponsor_blocks_expiry [OF this] show ?thesis by (simp add: Let_def)
qed

end
