(* ===== verification/QuestRepo.thy ===== *)
theory QuestRepo
  imports Players
begin

text \<open>
  \<open>internal/persistence/quests\<close>: the quests of the players, the offers that await an answer and the
  counters of the offer pacer. The text order of quest ids is the collation \<open>coll\<close> of the database.
\<close>

section \<open>Quests\<close>

abbreviation (input) QuestActive :: string where "QuestActive \<equiv> ''active''"
abbreviation (input) QuestCompleted :: string where "QuestCompleted \<equiv> ''completed''"
abbreviation (input) QuestFailed :: string where "QuestFailed \<equiv> ''failed''"
abbreviation (input) QuestAbandoned :: string where "QuestAbandoned \<equiv> ''abandoned''"

text \<open>A row as the code hands it around: player, quest id and the rest.\<close>

type_synonym progress = "(int \<times> string) \<times> quest_row"

definition ensureQuestSQL :: "int \<Rightarrow> string \<Rightarrow> int option \<Rightarrow> json_def option \<Rightarrow> db \<Rightarrow> pg_error + (bool \<times> db)" where
  "ensureQuestSQL player questID deadline definition s =
     (if map_of (player_quests s) (player, questID) \<noteq> None then Inr (False, s)
      else if map_of (players s) player = None then Inl (ForeignKeyViolation ''player_quests_player_id_fkey'')
      else Inr (True, s\<lparr>player_quests := AList.update (player, questID) \<lparr>qr_step = 0, qr_status = QuestActive, qr_state = None,
        qr_deadline = deadline, qr_started = db_now s, qr_completed = None, qr_definition = definition\<rparr> (player_quests s)\<rparr>))"

definition quest_Ensure :: "int \<Rightarrow> string \<Rightarrow> int option \<Rightarrow> unit dbm" where
  "quest_Ensure player questID deadline = bindM (sql (ensureQuestSQL player questID deadline None)) (\<lambda>_. returnM ())"

definition EnsureWithDefinition :: "int \<Rightarrow> string \<Rightarrow> int option \<Rightarrow> json_def option \<Rightarrow> bool dbm" where
  "EnsureWithDefinition player questID deadline definition = sql (ensureQuestSQL player questID deadline definition)"

text \<open>An \<open>UPDATE\<close> of the row of one quest, when it satisfies the condition.\<close>

definition updateQuest :: "int \<Rightarrow> string \<Rightarrow> (quest_row \<Rightarrow> bool) \<Rightarrow> (quest_row \<Rightarrow> quest_row) \<Rightarrow> db \<Rightarrow> db" where
  "updateQuest player questID cond f s = (case map_of (player_quests s) (player, questID) of
       None \<Rightarrow> s
     | Some r \<Rightarrow> if cond r then s\<lparr>player_quests := AList.update (player, questID) (f r) (player_quests s)\<rparr> else s)"

definition quest_Abandon :: "int \<Rightarrow> string \<Rightarrow> unit dbm" where
  "quest_Abandon player questID = sql (\<lambda>s. Inr ((), updateQuest player questID (\<lambda>r. qr_status r = QuestActive) (\<lambda>r. r\<lparr>qr_status := QuestAbandoned\<rparr>) s))"

definition quest_Get :: "int \<Rightarrow> string \<Rightarrow> progress option dbm" where
  "quest_Get player questID = query (\<lambda>s. map_option (\<lambda>r. ((player, questID), r)) (map_of (player_quests s) (player, questID)))"

text \<open>\<open>FOR UPDATE\<close>: the transactions that touch the row run one after another.\<close>

definition quest_Lock :: "int \<Rightarrow> string \<Rightarrow> progress option dbm" where
  "quest_Lock player questID = quest_Get player questID"

definition activeQuests :: "(string \<Rightarrow> string \<Rightarrow> bool) \<Rightarrow> nat \<Rightarrow> db \<Rightarrow> progress list" where
  "activeQuests coll limit s = take limit (sortBy (\<lambda>((p, q), _) ((p', q'), _). p < p' \<or> p = p' \<and> coll q q')
     (filter (\<lambda>(_, r). qr_status r = QuestActive) (player_quests s)))"

definition quest_ListActive :: "(string \<Rightarrow> string \<Rightarrow> bool) \<Rightarrow> nat \<Rightarrow> progress list dbm" where
  "quest_ListActive coll limit = query (activeQuests coll limit)"

definition activeQuestsOf :: "(string \<Rightarrow> string \<Rightarrow> bool) \<Rightarrow> int \<Rightarrow> db \<Rightarrow> progress list" where
  "activeQuestsOf coll player s = sortBy (\<lambda>((_, q), _) ((_, q'), _). coll q q')
     (filter (\<lambda>((p, _), r). p = player \<and> qr_status r = QuestActive) (player_quests s))"

definition ListActiveByPlayer :: "(string \<Rightarrow> string \<Rightarrow> bool) \<Rightarrow> int \<Rightarrow> progress list dbm" where
  "ListActiveByPlayer coll player = query (activeQuestsOf coll player)"

text \<open>\<open>step_index\<close> is a \<open>smallint\<close>.\<close>

definition pg_int2 :: "int \<Rightarrow> (int \<Rightarrow> pg_error + 'a) \<Rightarrow> pg_error + 'a" where
  "pg_int2 x k = (if - (2 ^ 15) \<le> x \<and> x < 2 ^ 15 then k x else Inl NumericOutOfRange)"

definition SetStep :: "int \<Rightarrow> string \<Rightarrow> int \<Rightarrow> unit dbm" where
  "SetStep player questID n = sql (\<lambda>s. pg_int2 n (\<lambda>n.
     Inr ((), updateQuest player questID (\<lambda>_. True) (\<lambda>r. r\<lparr>qr_step := n, qr_state := Some zeroState\<rparr>) s)))"

definition quest_SetState :: "int \<Rightarrow> string \<Rightarrow> quest_state \<Rightarrow> unit dbm" where
  "quest_SetState player questID st = sql (\<lambda>s. Inr ((), updateQuest player questID (\<lambda>_. True) (\<lambda>r. r\<lparr>qr_state := Some st\<rparr>) s))"

definition quest_Complete :: "int \<Rightarrow> string \<Rightarrow> int \<Rightarrow> int \<Rightarrow> unit dbm" where
  "quest_Complete player questID finalStep ended = sql (\<lambda>s. pg_int2 finalStep (\<lambda>n.
     Inr ((), updateQuest player questID (\<lambda>_. True) (\<lambda>r. r\<lparr>qr_status := QuestCompleted, qr_step := n, qr_completed := Some ended\<rparr>) s)))"

definition quest_Fail :: "int \<Rightarrow> string \<Rightarrow> int \<Rightarrow> unit dbm" where
  "quest_Fail player questID ended = sql (\<lambda>s. Inr ((), updateQuest player questID (\<lambda>r. qr_status r = QuestActive)
     (\<lambda>r. r\<lparr>qr_status := QuestFailed, qr_completed := Some ended\<rparr>) s))"

section \<open>The player's state\<close>

definition cargoUnits :: "int \<Rightarrow> db \<Rightarrow> int" where
  "cargoUnits shipID s = tsum (\<lambda>(ref, _, _) q. if ref = EntityRef EntityKindShip shipID then q else 0) (cargo s)"

definition firstShip :: "int \<Rightarrow> db \<Rightarrow> (int \<times> ship_row) option" where
  "firstShip player s = (case sort_key fst (filter (\<lambda>(_, r). sh_player r = player) (ships s)) of [] \<Rightarrow> None | x # _ \<Rightarrow> Some x)"

definition PlayerState :: "int \<Rightarrow> quest_snapshot dbm" where
  "PlayerState player =
     bindM (query (firstShip player)) (\<lambda>ship.
     bindM (case ship of None \<Rightarrow> returnM 0 | Some (i, _) \<Rightarrow> sql (\<lambda>s. pg_bigint (cargoUnits i s) (\<lambda>n. Inr (n, s)))) (\<lambda>units.
     bindM (query (\<lambda>s. cash_of s player)) (\<lambda>money. case money of
         None \<Rightarrow> failM (EQuests QE_NoRows)
       | Some c \<Rightarrow> returnM (case ship of
             None \<Rightarrow> \<lparr>sn_Docked = False, sn_CargoUnits = 0, sn_Cash = c, sn_CurrentSector = 0, sn_DockedTarget = EntityRef 0 0\<rparr>
           | Some (_, r) \<Rightarrow> \<lparr>sn_Docked = sh_docked_kind r \<noteq> None, sn_CargoUnits = units, sn_Cash = c, sn_CurrentSector = sh_sector r,
               sn_DockedTarget = (case sh_docked_kind r of None \<Rightarrow> EntityRef 0 0
                 | Some k \<Rightarrow> EntityRef k (case sh_docked_id r of None \<Rightarrow> 0 | Some i \<Rightarrow> i))\<rparr>))))"

section \<open>Offers\<close>

type_synonym offer_view = "int \<times> quest_offer"

definition InsertOffer :: "quest_offer \<Rightarrow> int dbm" where
  "InsertOffer o' = sql (\<lambda>s. if map_of (players s) (qo_Player o') = None then Inl (ForeignKeyViolation ''player_quest_offers_player_id_fkey'')
     else Inr (seq_offer s, s\<lparr>player_quest_offers := AList.update (seq_offer s) o' (player_quest_offers s), seq_offer := seq_offer s + 1\<rparr>))"

definition ListActiveOffersByPlayer :: "int \<Rightarrow> int \<Rightarrow> offer_view list dbm" where
  "ListActiveOffersByPlayer player now = query (\<lambda>s. sort_key (\<lambda>(_, x). qo_CreatedAt x)
     (filter (\<lambda>(_, x). qo_Player x = player \<and> now < qo_ExpiresAt x) (player_quest_offers s)))"

definition GetOffer :: "int \<Rightarrow> int \<Rightarrow> offer_view option dbm" where
  "GetOffer i player = query (\<lambda>s. case map_of (player_quest_offers s) i of None \<Rightarrow> None
     | Some x \<Rightarrow> if qo_Player x = player then Some (i, x) else None)"

definition DeleteOffer :: "int \<Rightarrow> int \<Rightarrow> bool dbm" where
  "DeleteOffer i player = sql (\<lambda>s. case map_of (player_quest_offers s) i of None \<Rightarrow> Inr (False, s)
     | Some x \<Rightarrow> if qo_Player x = player then Inr (True, s\<lparr>player_quest_offers := AList.delete i (player_quest_offers s)\<rparr>) else Inr (False, s))"

definition CountActiveOffers :: "int \<Rightarrow> int \<Rightarrow> nat dbm" where
  "CountActiveOffers player now = query (\<lambda>s. length (filter (\<lambda>(_, x). qo_Player x = player \<and> now < qo_ExpiresAt x) (player_quest_offers s)))"

definition DeleteExpiredOffers :: "int \<Rightarrow> nat dbm" where
  "DeleteExpiredOffers now = sql (\<lambda>s. Inr (length (filter (\<lambda>(_, x). qo_ExpiresAt x \<le> now) (player_quest_offers s)),
     s\<lparr>player_quest_offers := filter (\<lambda>(_, x). now < qo_ExpiresAt x) (player_quest_offers s)\<rparr>))"

section \<open>Counters\<close>

definition GetCounters :: "int \<Rightarrow> quest_counters option dbm" where
  "GetCounters player = query (\<lambda>s. map_of (player_quest_counters s) player)"

definition UpsertCounters :: "int \<Rightarrow> quest_counters \<Rightarrow> unit dbm" where
  "UpsertCounters player c = sql (\<lambda>s.
     pg_int4 (qc_Docks c) (\<lambda>_. pg_int4 (qc_Jumps c) (\<lambda>_. pg_int4 (qc_NextDocks c) (\<lambda>_. pg_int4 (qc_NextJumps c) (\<lambda>_.
     if map_of (players s) player = None then Inl (ForeignKeyViolation ''player_quest_counters_player_id_fkey'')
     else Inr ((), s\<lparr>player_quest_counters := AList.update player c (player_quest_counters s)\<rparr>))))))"

end
