(* ===== verification/Quests.thy ===== *)
theory Quests
  imports QuestRepo
begin

text \<open>
  \<open>internal/quest/service.go\<close> and \<open>closer.go\<close>: quests are accepted from the catalogue or from an offer,
  advanced by a poller (state of the player), by events (kills, deliveries, trades) and by the
  destruction of the ships a quest spawned, and end completed, failed or abandoned. The spawner of quest
  ships is a collaborator: a parameter that answers each call, with the calls recorded.
\<close>

section \<open>The service and its collaborators\<close>

datatype spawner_call = SpawnCall quest_spawn | DespawnCall "int list"

record quest_world =
  qw_db :: db
  qw_calls :: "spawner_call list"

type_synonym 'a qm = "(quest_world, err, 'a) comp"

text \<open>The collation, the clock of one operation, and the spawner (none in a server without it).\<close>

record quest_env =
  qe_coll :: "string \<Rightarrow> string \<Rightarrow> bool"
  qe_now :: int
  qe_spawner :: "(spawner_call list \<Rightarrow> quest_spawn \<Rightarrow> err + int list) option"

definition onDb :: "'a dbm \<Rightarrow> 'a qm" where
  "onDb m = (\<lambda>s. case m (qw_db s) of (r, d) \<Rightarrow> (r, s\<lparr>qw_db := d\<rparr>))"

definition callSpawner :: "spawner_call \<Rightarrow> unit qm" where
  "callSpawner c = (\<lambda>s. (Inr (), s\<lparr>qw_calls := qw_calls s @ [c]\<rparr>))"

section \<open>Definitions of progress rows\<close>

definition resolveDef :: "progress \<Rightarrow> quest_def option" where
  "resolveDef prog = (case qr_definition (snd prog) of
       Some (Frozen d) \<Rightarrow> Some d
     | Some Malformed \<Rightarrow> None
     | None \<Rightarrow> Lookup (snd (fst prog)))"

text \<open>The current step: none when the index is past the last one.\<close>

definition currentStep :: "quest_def \<Rightarrow> quest_row \<Rightarrow> step option" where
  "currentStep d r = (if nat (qr_step r) < length (qd_Steps d) then Some (qd_Steps d ! nat (qr_step r)) else None)"

record active_view =
  av_QuestID :: string
  av_Status :: string
  av_StepIndex :: int
  av_TotalSteps :: int
  av_StepReward :: int
  av_StepGoal :: int
  av_StepProgress :: int
  av_Deadline :: "int option"
  av_Done :: bool
  av_Failed :: bool

definition quest_view :: "progress \<Rightarrow> active_view option" where
  "quest_view prog = (case resolveDef prog of None \<Rightarrow> None
     | Some d \<Rightarrow>
       (let p = snd prog;
            v = \<lparr>av_QuestID = qd_ID d, av_Status = qr_status p, av_StepIndex = qr_step p, av_TotalSteps = int (length (qd_Steps d)),
                 av_StepReward = 0, av_StepGoal = 0, av_StepProgress = 0, av_Deadline = qr_deadline p,
                 av_Done = (qr_status p = QuestCompleted), av_Failed = (qr_status p = QuestFailed)\<rparr>
        in case (if qr_status p = QuestActive then currentStep d p else None) of
             None \<Rightarrow> Some v
           | Some x \<Rightarrow>
             (let v = v\<lparr>av_StepReward := stp_RewardCash x\<rparr>; st = decodeState (qr_state p) in
              Some (if EventDriven x \<or> stp_Kind x = StepEscortSurvive
                then v\<lparr>av_StepGoal := (if stp_Kind x = StepKill \<and> stp_TargetRole x \<noteq> [] then int (length (spawnedOf st (stp_TargetRole x))) else Goal x),
                       av_StepProgress := qst_Progress st\<rparr>
                else v))))"

definition ActiveList :: "quest_env \<Rightarrow> int \<Rightarrow> active_view list qm" where
  "ActiveList env player =
     bindM (onDb (pool (quest_Get player TutorialID))) (\<lambda>started.
     bindM (if started = None then onDb (pool (quest_Ensure player TutorialID None)) else returnM ()) (\<lambda>_.
     bindM (onDb (pool (ListActiveByPlayer (qe_coll env) player))) (\<lambda>active.
     returnM (List.map_filter quest_view active))))"

section \<open>Spawning\<close>

definition addSpawned :: "string \<Rightarrow> int list \<Rightarrow> (string, int list) table \<Rightarrow> (string, int list) table" where
  "addSpawned role ids m = (if ids = [] then m
     else AList.update role ((case map_of m role of None \<Rightarrow> [] | Some old \<Rightarrow> old) @ ids) m)"

text \<open>A group that cannot be spawned is skipped.\<close>

fun spawnAll :: "(spawner_call list \<Rightarrow> quest_spawn \<Rightarrow> err + int list) \<Rightarrow> quest_spawn list \<Rightarrow> (string, int list) table \<Rightarrow> (string, int list) table qm" where
  "spawnAll reply [] spawned = returnM spawned"
| "spawnAll reply (spec # specs) spawned = (\<lambda>s.
     let r = reply (qw_calls s) spec; s = s\<lparr>qw_calls := qw_calls s @ [SpawnCall spec]\<rparr> in
     case r of Inl _ \<Rightarrow> spawnAll reply specs spawned s
     | Inr ids \<Rightarrow> spawnAll reply specs (addSpawned (qs_Role spec) ids spawned) s)"

definition spawnFor :: "quest_env \<Rightarrow> int \<Rightarrow> quest_def \<Rightarrow> unit qm" where
  "spawnFor env player d = (case qe_spawner env of None \<Rightarrow> returnM ()
     | Some reply \<Rightarrow>
       if qd_Spawns d = [] then returnM ()
       else bindM (spawnAll reply (qd_Spawns d) []) (\<lambda>spawned.
         if spawned = [] then returnM ()
         else onDb (pool (quest_SetState player (qd_ID d) \<lparr>qst_Progress = 0, qst_Spawned = spawned\<rparr>))))"

definition despawn :: "quest_env \<Rightarrow> quest_state \<Rightarrow> unit qm" where
  "despawn env st = (if qe_spawner env = None \<or> allSpawned st = [] then returnM () else callSpawner (DespawnCall (allSpawned st)))"

section \<open>Accepting and abandoning\<close>

text \<open>\<open>strconv.ParseInt\<close> in base ten for 64 bits: an optional sign and digits.\<close>

definition digit :: "char \<Rightarrow> bool" where
  "digit c \<longleftrightarrow> 48 \<le> (of_char c :: int) \<and> (of_char c :: int) \<le> 57"

definition parseNat :: "string \<Rightarrow> int option" where
  "parseNat cs = (if cs = [] \<or> \<not> list_all digit cs then None
     else Some (foldl (\<lambda>n c. n * 10 + (of_char c - 48)) 0 cs))"

definition ParseInt :: "string \<Rightarrow> int option" where
  "ParseInt cs = (let r = (case cs of c # cs' \<Rightarrow>
         if c = CHR ''-'' then map_option uminus (parseNat cs') else if c = CHR ''+'' then parseNat cs' else parseNat cs
       | [] \<Rightarrow> None)
     in case r of None \<Rightarrow> None | Some n \<Rightarrow> if in64 n then Some n else None)"

definition procIDPrefix :: string where "procIDPrefix = ''proc:''"

definition parseProcID :: "string \<Rightarrow> int option" where
  "parseProcID questID =
     (if take 5 questID \<noteq> procIDPrefix then None
      else (case ParseInt (drop 5 questID) of None \<Rightarrow> None | Some i \<Rightarrow> if i \<le> 0 then None else Some i))"

definition deadlineOf :: "quest_env \<Rightarrow> quest_def \<Rightarrow> int option" where
  "deadlineOf env d = (if 0 < qd_Deadline d then Some (qe_now env + qd_Deadline d) else None)"

text \<open>What an offer turns into: the id of the quest, its definition, and the frozen definition to store.\<close>

definition offeredDef :: "string \<Rightarrow> quest_offer \<Rightarrow> err + (string \<times> quest_def \<times> json_def option)" where
  "offeredDef questID x = (case qo_Definition x of
       Some Malformed \<Rightarrow> Inl (EQuests QE_BadDefinition)
     | Some (Frozen d) \<Rightarrow> (let d = d\<lparr>qd_ID := questID\<rparr> in Inr (questID, d, Some (Frozen d)))
     | None \<Rightarrow> (case Lookup (qo_TemplateID x) of None \<Rightarrow> Inl (EQuests QE_ErrNotOfferable)
         | Some d \<Rightarrow> if qd_Offerable d then Inr (qd_ID d, d, None) else Inl (EQuests QE_ErrNotOfferable)))"

definition acceptOffer :: "quest_env \<Rightarrow> int \<Rightarrow> string \<Rightarrow> int \<Rightarrow> unit qm" where
  "acceptOffer env player questID offerID =
     bindM (onDb (pool (GetOffer offerID player))) (\<lambda>found. case found of
         None \<Rightarrow> failM (EQuests QE_ErrNotOfferable)
       | Some (_, x) \<Rightarrow>
         if qo_ExpiresAt x \<le> qe_now env then failM (EQuests QE_ErrNotOfferable)
         else (case offeredDef questID x of Inl e \<Rightarrow> failM e
           | Inr (activeID, d, frozen) \<Rightarrow>
             bindM (onDb (tx_do (bindM (EnsureWithDefinition player activeID (deadlineOf env d) frozen) (\<lambda>inserted.
               bindM (DeleteOffer offerID player) (\<lambda>_. returnM inserted))))) (\<lambda>inserted.
             if inserted then spawnFor env player d else returnM ())))"

definition quest_Accept :: "quest_env \<Rightarrow> int \<Rightarrow> string \<Rightarrow> unit qm" where
  "quest_Accept env player questID = (case parseProcID questID of
       Some offerID \<Rightarrow> acceptOffer env player questID offerID
     | None \<Rightarrow>
       (case Lookup questID of None \<Rightarrow> failM (EQuests QE_ErrNotOfferable)
        | Some d \<Rightarrow>
          bindM (checkM (qd_Offerable d) (EQuests QE_ErrNotOfferable)) (\<lambda>_.
          bindM (if qd_Prerequisite d = [] then returnM ()
                 else bindM (onDb (pool (quest_Get player (qd_Prerequisite d)))) (\<lambda>prog.
                   checkM (case prog of None \<Rightarrow> False | Some (_, r) \<Rightarrow> qr_status r = QuestCompleted) (EQuests QE_ErrPrerequisiteNotMet))) (\<lambda>_.
          bindM (onDb (pool (quest_Get player questID))) (\<lambda>existed.
          bindM (onDb (pool (quest_Ensure player questID (deadlineOf env d)))) (\<lambda>_.
          if existed = None then spawnFor env player d else returnM ()))))))"

definition Abandon :: "quest_env \<Rightarrow> int \<Rightarrow> string \<Rightarrow> unit qm" where
  "Abandon env player questID =
     bindM (onDb (pool (quest_Get player questID))) (\<lambda>prog.
     bindM (onDb (pool (quest_Abandon player questID))) (\<lambda>_. case prog of
         None \<Rightarrow> returnM ()
       | Some (_, r) \<Rightarrow> despawn env (decodeState (qr_state r))))"

section \<open>Offers as shown\<close>

definition offerReward :: "quest_def \<Rightarrow> int" where
  "offerReward d = foldl (\<lambda>n x. wrap64 (n + stp_RewardCash x)) 0 (qd_Steps d)"

definition offerDef :: "quest_offer \<Rightarrow> quest_def option" where
  "offerDef x = (case qo_Definition x of Some (Frozen d) \<Rightarrow> Some d | Some Malformed \<Rightarrow> None | None \<Rightarrow> Lookup (qo_TemplateID x))"

record offer_shown =
  ov_OfferID :: int
  ov_Source :: string
  ov_Expires :: int
  ov_RewardCash :: int

definition OfferableList :: "quest_env \<Rightarrow> int \<Rightarrow> offer_shown list qm" where
  "OfferableList env player = bindM (onDb (pool (ListActiveOffersByPlayer player (qe_now env)))) (\<lambda>xs.
     returnM (List.map_filter (\<lambda>(i, x). map_option (\<lambda>d. \<lparr>ov_OfferID = i, ov_Source = qo_Source x, ov_Expires = qo_ExpiresAt x,
       ov_RewardCash = offerReward d\<rparr>) (offerDef x)) xs))"

section \<open>Advancing\<close>

definition advanceStep :: "int \<Rightarrow> string \<Rightarrow> int \<Rightarrow> (string, int list) table \<Rightarrow> unit dbm" where
  "advanceStep player questID fromStep spawned =
     bindM (SetStep player questID (fromStep + 1)) (\<lambda>_.
     if spawned = [] then returnM () else quest_SetState player questID \<lparr>qst_Progress = 0, qst_Spawned = spawned\<rparr>)"

definition payReward :: "int \<Rightarrow> step \<Rightarrow> unit dbm" where
  "payReward player x = (if 0 < stp_RewardCash x then bindM (AdjustCash player (stp_RewardCash x)) (\<lambda>_. returnM ()) else returnM ())"

text \<open>
  The end of a step whose goal is reached: the reward, then the next step or, after the last one, the
  end of the quest; the result is the state whose ships are to be removed.
\<close>

definition passStep :: "int \<Rightarrow> int \<Rightarrow> string \<Rightarrow> quest_def \<Rightarrow> step \<Rightarrow> quest_state \<Rightarrow> int \<Rightarrow> quest_state option dbm" where
  "passStep now player questID d x st i =
     bindM (payReward player x) (\<lambda>_.
     if i = int (length (qd_Steps d)) - 1 then bindM (quest_Complete player questID i now) (\<lambda>_. returnM (Some st))
     else bindM (advanceStep player questID i (qst_Spawned st)) (\<lambda>_. returnM None))"

text \<open>What the three transactions that lock the row have in common: they act on an active quest only.\<close>

definition withActive :: "int \<Rightarrow> string \<Rightarrow> quest_def \<Rightarrow> (quest_row \<Rightarrow> step \<Rightarrow> quest_state option dbm) \<Rightarrow> quest_state option dbm" where
  "withActive player questID d body = bindM (quest_Lock player questID) (\<lambda>cur. case cur of
       None \<Rightarrow> returnM None
     | Some (_, r) \<Rightarrow> if qr_status r \<noteq> QuestActive then returnM None
         else (case currentStep d r of None \<Rightarrow> returnM None | Some x \<Rightarrow> body r x))"

definition thenDespawn :: "quest_env \<Rightarrow> quest_state option dbm \<Rightarrow> unit qm" where
  "thenDespawn env body = bindM (onDb (tx_do body)) (\<lambda>st. case st of None \<Rightarrow> returnM () | Some st \<Rightarrow> despawn env st)"

text \<open>The transactions of an event and of a destroyed ship, on an active quest at step \<open>x\<close>.\<close>

definition countEvent :: "int \<Rightarrow> int \<Rightarrow> string \<Rightarrow> quest_def \<Rightarrow> quest_event \<Rightarrow> quest_row \<Rightarrow> step \<Rightarrow> quest_state option dbm" where
  "countEvent now player questID d ev r x = (case MatchEvent x ev of
       None \<Rightarrow> returnM None
     | Some delta \<Rightarrow>
       (let st = decodeState (qr_state r); st = st\<lparr>qst_Progress := wrap64 (qst_Progress st + delta)\<rparr> in
        if qst_Progress st < Goal x then bindM (quest_SetState player questID st) (\<lambda>_. returnM None)
        else passStep now player questID d x st (qr_step r)))"

definition applyEvent :: "quest_env \<Rightarrow> progress \<Rightarrow> quest_event \<Rightarrow> unit qm" where
  "applyEvent env prog ev = (case resolveDef prog of None \<Rightarrow> returnM ()
     | Some d \<Rightarrow> (case fst prog of (player, questID) \<Rightarrow>
         thenDespawn env (withActive player questID d (countEvent (qe_now env) player questID d ev))))"

definition OnEvent :: "quest_env \<Rightarrow> quest_event \<Rightarrow> unit qm" where
  "OnEvent env ev =
     (if ev_Player ev = 0 then returnM ()
      else bindM (onDb (pool (ListActiveByPlayer (qe_coll env) (ev_Player ev)))) (\<lambda>active.
        forM active (\<lambda>prog. case resolveDef prog of None \<Rightarrow> returnM ()
          | Some d \<Rightarrow> (case currentStep d (snd prog) of None \<Rightarrow> returnM ()
            | Some x \<Rightarrow>
              if stp_Kind x = StepKill \<and> stp_TargetRole x \<noteq> [] then returnM ()
              else if MatchEvent x ev = None then returnM ()
              else bindM (tryM (applyEvent env prog ev)) (\<lambda>_. returnM ())))))"

definition countLoss :: "int \<Rightarrow> int \<Rightarrow> string \<Rightarrow> quest_def \<Rightarrow> int \<Rightarrow> quest_row \<Rightarrow> step \<Rightarrow> quest_state option dbm" where
  "countLoss now player questID d victim r x =
     (let st = decodeState (qr_state r) in
      if victim \<notin> spawnedSet st (stp_TargetRole x) then returnM None
      else if stp_Kind x = StepEscortSurvive then bindM (quest_Fail player questID now) (\<lambda>_. returnM (Some st))
      else (let goal = int (length (spawnedOf st (stp_TargetRole x))); st = st\<lparr>qst_Progress := wrap64 (qst_Progress st + 1)\<rparr> in
        if qst_Progress st < goal then bindM (quest_SetState player questID st) (\<lambda>_. returnM None)
        else passStep now player questID d x st (qr_step r)))"

definition applyDestroyed :: "quest_env \<Rightarrow> progress \<Rightarrow> int \<Rightarrow> unit qm" where
  "applyDestroyed env prog victim = (case resolveDef prog of None \<Rightarrow> returnM ()
     | Some d \<Rightarrow> (case fst prog of (player, questID) \<Rightarrow>
         thenDespawn env (withActive player questID d (countLoss (qe_now env) player questID d victim))))"

definition CloserBatch :: nat where "CloserBatch = 500"

definition OnShipDestroyed :: "quest_env \<Rightarrow> entity_ref \<Rightarrow> unit qm" where
  "OnShipDestroyed env victim =
     (if ref_kind victim \<noteq> EntityKindShip then returnM ()
      else bindM (onDb (pool (quest_ListActive (qe_coll env) CloserBatch))) (\<lambda>active.
        forM active (\<lambda>prog. case resolveDef prog of None \<Rightarrow> returnM ()
          | Some d \<Rightarrow> (case currentStep d (snd prog) of None \<Rightarrow> returnM ()
            | Some x \<Rightarrow>
              if \<not> (stp_TargetRole x \<noteq> [] \<and> (stp_Kind x = StepKill \<or> stp_Kind x = StepEscortSurvive)) then returnM ()
              else if ref_id victim \<notin> spawnedSet (decodeState (qr_state (snd prog))) (stp_TargetRole x) then returnM ()
              else bindM (tryM (applyDestroyed env prog (ref_id victim))) (\<lambda>_. returnM ())))))"

definition advanceEscort :: "quest_env \<Rightarrow> progress \<Rightarrow> quest_def \<Rightarrow> step \<Rightarrow> unit qm" where
  "advanceEscort env prog d x = (case fst prog of (player, questID) \<Rightarrow>
     thenDespawn env (bindM (quest_Lock player questID) (\<lambda>cur. case cur of None \<Rightarrow> returnM None
       | Some (_, r) \<Rightarrow>
         if qr_status r \<noteq> QuestActive \<or> qr_step r \<noteq> qr_step (snd prog) then returnM None
         else (let st = decodeState (qr_state r); st = st\<lparr>qst_Progress := wrap64 (qst_Progress st + 1)\<rparr> in
           if qst_Progress st < Goal x then bindM (quest_SetState player (qd_ID d) st) (\<lambda>_. returnM None)
           else passStep (qe_now env) player (qd_ID d) d x st (qr_step r)))))"

text \<open>
  The loop over the polled steps, from step \<open>i\<close> on: each satisfied step is paid and passed in a
  transaction of its own, which does not look at the row again.
\<close>

fun pollSteps :: "quest_env \<Rightarrow> progress \<Rightarrow> quest_def \<Rightarrow> quest_snapshot \<Rightarrow> int \<Rightarrow> step list \<Rightarrow> unit qm" where
  "pollSteps env prog d snap i [] = returnM ()"
| "pollSteps env prog d snap i (x # xs) =
     (if EventDriven x \<or> stp_Kind x = StepEscortSurvive \<or> \<not> Satisfied x snap then returnM ()
      else (let player = fst (fst prog); st = decodeState (qr_state (snd prog)) in
        bindM (onDb (tx_do (bindM (payReward player x) (\<lambda>_.
          if xs = [] then quest_Complete player (qd_ID d) i (qe_now env) else advanceStep player (qd_ID d) i (qst_Spawned st))))) (\<lambda>_.
        if xs = [] then despawn env st else pollSteps env prog d snap (i + 1) xs)))"

definition failExpired :: "quest_env \<Rightarrow> progress \<Rightarrow> unit qm" where
  "failExpired env prog = (case fst prog of (player, questID) \<Rightarrow>
     thenDespawn env (bindM (quest_Lock player questID) (\<lambda>cur. case cur of None \<Rightarrow> returnM None
       | Some (_, r) \<Rightarrow>
         if qr_status r \<noteq> QuestActive then returnM None
         else bindM (quest_Fail player questID (qe_now env)) (\<lambda>_. returnM (Some (decodeState (qr_state r)))))))"

definition quest_advance :: "quest_env \<Rightarrow> progress \<Rightarrow> unit qm" where
  "quest_advance env prog =
     (if (case qr_deadline (snd prog) of None \<Rightarrow> False | Some t \<Rightarrow> t < qe_now env) then failExpired env prog
      else (case resolveDef prog of None \<Rightarrow> returnM ()
        | Some d \<Rightarrow>
          (case currentStep d (snd prog) of
             Some x \<Rightarrow> if stp_Kind x = StepEscortSurvive then advanceEscort env prog d x
               else bindM (onDb (pool (PlayerState (fst (fst prog))))) (\<lambda>snap.
                 pollSteps env prog d snap (qr_step (snd prog)) (drop (nat (qr_step (snd prog))) (qd_Steps d)))
           | None \<Rightarrow> bindM (onDb (pool (PlayerState (fst (fst prog))))) (\<lambda>_. returnM ()))))"

definition ProcessAll :: "quest_env \<Rightarrow> nat \<Rightarrow> unit qm" where
  "ProcessAll env limit = bindM (onDb (pool (quest_ListActive (qe_coll env) limit))) (\<lambda>active.
     forM active (\<lambda>prog. bindM (tryM (quest_advance env prog)) (\<lambda>_. returnM ())))"

definition quest_closer_Tick :: "quest_env \<Rightarrow> unit qm" where
  "quest_closer_Tick env =
     bindM (tryM (ProcessAll env CloserBatch)) (\<lambda>_.
     bindM (tryM (onDb (pool (DeleteExpiredOffers (qe_now env))))) (\<lambda>_. returnM ()))"

end
