(* ===== verification/QuestLedger.thy ===== *)
theory QuestLedger
  imports Quests
begin

text \<open>
  What the quest service guarantees over the rows and the wallets: every reward is paid exactly once,
  rows only move forward, and a quest that ended stays as it ended; and where it falls short.
\<close>

section \<open>The ledger\<close>

definition reward :: "step \<Rightarrow> int" where
  "reward x = (if 0 < stp_RewardCash x then stp_RewardCash x else 0)"

text \<open>How many steps of its quest a row has passed, and what they were worth.\<close>

definition passed :: "quest_row \<Rightarrow> nat" where
  "passed r = nat (qr_step r) + (if qr_status r = QuestCompleted then 1 else 0)"

definition earned :: "progress \<Rightarrow> int" where
  "earned prog = (case resolveDef prog of None \<Rightarrow> 0 | Some d \<Rightarrow> sum_list (map reward (take (passed (snd prog)) (qd_Steps d))))"

definition paidTo :: "int \<Rightarrow> db \<Rightarrow> int" where
  "paidTo p s = tsum (\<lambda>k r. if fst k = p then earned (k, r) else 0) (player_quests s)"

definition money :: "int \<Rightarrow> db \<Rightarrow> int" where
  "money p s = (case cash_of s p of None \<Rightarrow> 0 | Some c \<Rightarrow> c)"

definition quest_row_ok :: "int \<times> string \<Rightarrow> quest_row \<Rightarrow> bool" where
  "quest_row_ok k r \<longleftrightarrow> 0 \<le> qr_step r \<and> (\<forall>d. qr_definition r = Some (Frozen d) \<longrightarrow> qd_ID d = snd k)"

definition quests_ok :: "db \<Rightarrow> bool" where
  "quests_ok s \<longleftrightarrow> tbl_wf (player_quests s) \<and> all_rows quest_row_ok (player_quests s)"

text \<open>How the row of a quest may change, and which rows changed.\<close>

definition grown :: "quest_row \<Rightarrow> quest_row \<Rightarrow> bool" where
  "grown r r' \<longleftrightarrow> qr_definition r' = qr_definition r \<and> qr_deadline r' = qr_deadline r \<and> qr_started r' = qr_started r \<and>
     qr_step r \<le> qr_step r' \<and> (qr_status r \<noteq> QuestActive \<longrightarrow> r' = r)"

definition rows_grow :: "('k \<rightharpoonup> quest_row) \<Rightarrow> ('k \<rightharpoonup> quest_row) \<Rightarrow> bool" where
  "rows_grow m m' \<longleftrightarrow> (\<forall>k r. m k = Some r \<longrightarrow> (\<exists>r'. m' k = Some r' \<and> grown r r'))"

definition rows_fixed :: "'k set \<Rightarrow> ('k \<rightharpoonup> quest_row) \<Rightarrow> ('k \<rightharpoonup> quest_row) \<Rightarrow> bool" where
  "rows_fixed K m m' \<longleftrightarrow> (\<forall>k. k \<notin> K \<longrightarrow> m' k = m k)"

definition lawful :: "(int \<times> string) set \<Rightarrow> db \<Rightarrow> db \<Rightarrow> bool" where
  "lawful K s s' \<longleftrightarrow> (quests_ok s \<longrightarrow> quests_ok s' \<and> (\<forall>p. money p s' - paidTo p s' = money p s - paidTo p s) \<and>
     rows_grow (map_of (player_quests s)) (map_of (player_quests s')) \<and>
     rows_fixed K (map_of (player_quests s)) (map_of (player_quests s')))"

lemma grown_refl: "grown r r"
  by (simp add: grown_def)

lemma grown_trans: "grown a b \<Longrightarrow> grown b c \<Longrightarrow> grown a c"
  by (auto simp: grown_def)

lemma rows_grow_refl: "rows_grow m m"
  by (simp add: rows_grow_def grown_refl)

lemma rows_grow_trans: "rows_grow a b \<Longrightarrow> rows_grow b c \<Longrightarrow> rows_grow a c"
  unfolding rows_grow_def using grown_trans by blast

lemma rows_fixed_trans: "rows_fixed K a b \<Longrightarrow> rows_fixed K b c \<Longrightarrow> rows_fixed K a c"
  by (simp add: rows_fixed_def)

interpretation lawful: preorder_rel "lawful K" for K
proof unfold_locales
  show "lawful K s s" for s by (simp add: lawful_def rows_grow_refl rows_fixed_def)
  show "lawful K s u" if "lawful K s t" "lawful K t u" for s t u
    using that unfolding lawful_def by (auto intro: rows_grow_trans rows_fixed_trans)
qed

lemma lawful_mono: "lawful K s s' \<Longrightarrow> K \<subseteq> L \<Longrightarrow> lawful L s s'"
  unfolding lawful_def rows_fixed_def by blast

lemma lawful_ok: "lawful K s s' \<Longrightarrow> quests_ok s \<Longrightarrow> quests_ok s'"
  by (simp add: lawful_def)

lemma lawful_fixed: "lawful K s s' \<Longrightarrow> quests_ok s \<Longrightarrow> k \<notin> K \<Longrightarrow> map_of (player_quests s') k = map_of (player_quests s) k"
  unfolding lawful_def rows_fixed_def by blast

text \<open>Nothing but the quests of players and their wallets matters.\<close>

lemma lawful_same: "player_quests s' = player_quests s \<Longrightarrow> cash_of s' = cash_of s \<Longrightarrow> lawful K s s'"
  by (simp add: lawful_def quests_ok_def paidTo_def money_def rows_grow_refl rows_fixed_def)

lemma resolveDef_cong: "qr_definition r' = qr_definition r \<Longrightarrow> resolveDef (k, r') = resolveDef (k, r)"
  unfolding resolveDef_def fst_conv snd_conv by (rule arg_cong)

lemma quests_ok_row: "quests_ok s \<Longrightarrow> map_of (player_quests s) k = Some r \<Longrightarrow> quest_row_ok k r"
  unfolding quests_ok_def using all_rowsD [of quest_row_ok] by blast

lemma quests_ok_step: "quests_ok s \<Longrightarrow> map_of (player_quests s) k = Some r \<Longrightarrow> 0 \<le> qr_step r"
  using quests_ok_row unfolding quest_row_ok_def by blast

lemma quests_ok_ID: "quests_ok s \<Longrightarrow> map_of (player_quests s) k = Some r \<Longrightarrow> resolveDef (k, r) = Some d \<Longrightarrow> qd_ID d = snd k"
proof -
  assume "quests_ok s" "map_of (player_quests s) k = Some r" and d: "resolveDef (k, r) = Some d"
  then have "quest_row_ok k r" by (blast intro: quests_ok_row)
  with d show ?thesis by (auto simp: resolveDef_def quest_row_ok_def dest: Lookup_ID split: option.splits json_def.splits)
qed

text \<open>One row changes, and the wallet of its player by what the row earned.\<close>

lemma lawful_update:
  assumes row: "map_of (player_quests s) k = Some r" and grown: "grown r r'"
    and rows: "player_quests s' = AList.update k r' (player_quests s)"
    and cash: "\<And>p. money p s' = money p s + (if p = fst k then earned (k, r') - earned (k, r) else 0)"
  shows "lawful {k} s s'"
  unfolding lawful_def
proof (intro impI conjI allI)
  assume ok: "quests_ok s"
  have "quest_row_ok k r" using ok row by (rule quests_ok_row)
  then have "quest_row_ok k r'" using grown by (auto simp: grown_def quest_row_ok_def)
  then show "quests_ok s'" using ok unfolding quests_ok_def rows by auto
  have "paidTo p s' = paidTo p s + (if p = fst k then earned (k, r') - earned (k, r) else 0)" for p
    using row by (simp add: paidTo_def rows tsum_update_Some)
  then show "money p s' - paidTo p s' = money p s - paidTo p s" for p using cash [of p] by simp
  show "rows_grow (map_of (player_quests s)) (map_of (player_quests s'))"
    using row grown grown_refl by (auto simp: rows_grow_def rows simp del: split_paired_All)
  show "rows_fixed {k} (map_of (player_quests s)) (map_of (player_quests s'))"
    by (simp add: rows_fixed_def rows)
qed

lemma lawful_insert:
  assumes "map_of (player_quests s) k = None" "player_quests s' = AList.update k r (player_quests s)" "cash_of s' = cash_of s"
    "qr_step r = 0" "qr_status r = QuestActive" "quest_row_ok k r"
  shows "lawful {k} s s'"
  unfolding lawful_def
proof (intro impI conjI allI)
  assume ok: "quests_ok s"
  show "quests_ok s'" using ok assms(6) unfolding quests_ok_def assms(2) by auto
  have "earned (k, r) = 0" using assms(4,5) by (simp add: earned_def passed_def split: option.split)
  then have "paidTo p s' = paidTo p s" for p
    using assms(1) by (simp add: paidTo_def assms(2) tsum_update_None)
  then show "money p s' - paidTo p s' = money p s - paidTo p s" for p using assms(3) by (simp add: money_def)
  show "rows_grow (map_of (player_quests s)) (map_of (player_quests s'))"
    using assms(1) grown_refl by (auto simp: rows_grow_def assms(2) simp del: split_paired_All)
  show "rows_fixed {k} (map_of (player_quests s)) (map_of (player_quests s'))"
    by (simp add: rows_fixed_def assms(2))
qed

section \<open>Steps of the transactions\<close>

lemma updateQuest_fields [simp]:
  "tx_aborted (updateQuest p q c f s) = tx_aborted s" "cash_of (updateQuest p q c f s) = cash_of s" "players (updateQuest p q c f s) = players s"
  by (simp_all add: updateQuest_def cash_of_def fun_eq_iff split: option.split)

lemma updateQuest_rows:
  "map_of (player_quests s) (p, q) = Some r \<Longrightarrow> c r \<Longrightarrow> player_quests (updateQuest p q c f s) = AList.update (p, q) (f r) (player_quests s)"
  by (simp add: updateQuest_def)

lemma payReward_ok:
  assumes "payReward p x s = (Inr u, s')"
  shows "player_quests s' = player_quests s" "money j s' = money j s + (if j = p then reward x else 0)"
  using assms by (auto simp: payReward_def reward_def run_simps AdjustCash_ok money_def cash_of_set_cash split: if_splits)

lemma earned_pass:
  assumes "resolveDef (k, r) = Some d" "currentStep d r = Some x" "0 \<le> qr_step r" "qr_status r = QuestActive"
    "qr_definition r' = qr_definition r" "passed r' = Suc (nat (qr_step r))"
  shows "earned (k, r') = earned (k, r) + reward x"
proof -
  have i: "nat (qr_step r) < length (qd_Steps d)" and x: "x = qd_Steps d ! nat (qr_step r)"
    using assms(2) by (auto simp: currentStep_def split: if_splits)
  have "passed r = nat (qr_step r)" using assms(4) by (simp add: passed_def)
  then show ?thesis
    using assms(1,5,6) i x by (simp add: earned_def resolveDef_cong [of r' r] take_Suc_conv_app_nth)
qed

text \<open>A reward and the end of its step.\<close>

lemma lawful_pass:
  assumes ok: "quests_ok s" and row: "map_of (player_quests s) k = Some r" "qr_status r = QuestActive"
    and d: "resolveDef (k, r) = Some d" "currentStep d r = Some x"
    and pay: "payReward (fst k) x s = (Inr u, s1)"
    and rows: "player_quests s' = AList.update k r' (player_quests s1)" "cash_of s' = cash_of s1"
    and r': "qr_definition r' = qr_definition r" "qr_deadline r' = qr_deadline r" "qr_started r' = qr_started r"
      "qr_step r \<le> qr_step r'" "passed r' = Suc (nat (qr_step r))"
  shows "lawful {k} s s'"
proof (rule lawful_update [OF row(1)])
  show "grown r r'" using r' row(2) by (simp add: grown_def)
  show "player_quests s' = AList.update k r' (player_quests s)" using rows(1) payReward_ok(1) [OF pay] by simp
  have "earned (k, r') = earned (k, r) + reward x"
    by (rule earned_pass [OF d quests_ok_step [OF ok row(1)] row(2) r'(1,5)])
  then show "money p s' = money p s + (if p = fst k then earned (k, r') - earned (k, r) else 0)" for p
    using payReward_ok(2) [OF pay, of p] rows(2) by (simp add: money_def)
qed

text \<open>A change of the row that passes no step.\<close>

lemma lawful_touch:
  assumes "map_of (player_quests s) k = Some r" "qr_status r = QuestActive" "player_quests s' = AList.update k r' (player_quests s)"
    "cash_of s' = cash_of s" "qr_definition r' = qr_definition r" "qr_deadline r' = qr_deadline r" "qr_started r' = qr_started r"
    "qr_step r' = qr_step r" "qr_status r' \<noteq> QuestCompleted"
  shows "lawful {k} s s'"
proof (rule lawful_update [OF assms(1) _ assms(3)])
  show "grown r r'" using assms by (simp add: grown_def)
  have "earned (k, r') = earned (k, r)"
    using assms(2,5,8,9) by (simp add: earned_def passed_def resolveDef_cong [of r' r] split: option.split)
  then show "money p s' = money p s + (if p = fst k then earned (k, r') - earned (k, r) else 0)" for p
    using assms(4) by (simp add: money_def)
qed

lemma Complete_ok:
  "quest_Complete p q i t s = (Inr u, s') \<Longrightarrow> map_of (player_quests s) (p, q) = Some r \<Longrightarrow>
     player_quests s' = AList.update (p, q) (r\<lparr>qr_status := QuestCompleted, qr_step := i, qr_completed := Some t\<rparr>) (player_quests s) \<and> cash_of s' = cash_of s"
  by (auto simp: quest_Complete_def run_simps pg_int2_def updateQuest_rows split: if_splits)

lemma advanceStep_ok:
  assumes "advanceStep p q i sp s = (Inr u, s')" "map_of (player_quests s) (p, q) = Some r"
  shows "\<exists>st. player_quests s' = AList.update (p, q) (r\<lparr>qr_step := i + 1, qr_state := Some st\<rparr>) (player_quests s) \<and> cash_of s' = cash_of s"
proof -
  let ?s1 = "updateQuest p q (\<lambda>_. True) (\<lambda>r. r\<lparr>qr_step := i + 1, qr_state := Some zeroState\<rparr>) s"
  have rows: "player_quests ?s1 = AList.update (p, q) (r\<lparr>qr_step := i + 1, qr_state := Some zeroState\<rparr>) (player_quests s)"
    using assms(2) by (rule updateQuest_rows) simp
  from assms(1) consider "s' = ?s1" | "s' = updateQuest p q (\<lambda>_. True) (\<lambda>r. r\<lparr>qr_state := Some \<lparr>qst_Progress = 0, qst_Spawned = sp\<rparr>\<rparr>) ?s1"
    by (auto simp: advanceStep_def SetStep_def quest_SetState_def run_simps pg_int2_def split: if_splits)
  then show ?thesis
  proof cases
    case 1
    then show ?thesis using rows by (intro exI [of _ zeroState]) simp
  next
    case 2
    have "player_quests s' = AList.update (p, q) (r\<lparr>qr_step := i + 1, qr_state := Some \<lparr>qst_Progress = 0, qst_Spawned = sp\<rparr>\<rparr>) (player_quests s)"
      unfolding 2 by (subst updateQuest_rows [where r = "r\<lparr>qr_step := i + 1, qr_state := Some zeroState\<rparr>"]) (simp_all add: rows)
    then show ?thesis using 2 by (intro exI [of _ "\<lparr>qst_Progress = 0, qst_Spawned = sp\<rparr>"]) simp
  qed
qed

text \<open>Reward, and the next step or the end: the tail of every advance.\<close>

lemma pass_body:
  assumes ok: "quests_ok s" and row: "map_of (player_quests s) (p, q) = Some r" "qr_status r = QuestActive" "i = qr_step r"
    and d: "resolveDef ((p, q), r) = Some d" "currentStep d r = Some x"
    and run: "bindM (payReward p x) (\<lambda>_. if fin then quest_Complete p q i t else advanceStep p q i sp) s = (Inr u, s')"
  shows "lawful {(p, q)} s s'"
    and "\<not> fin \<Longrightarrow> \<exists>r'. map_of (player_quests s') (p, q) = Some r' \<and> qr_status r' = QuestActive \<and> qr_step r' = i + 1 \<and> qr_definition r' = qr_definition r"
proof -
  obtain u1 s1 where pay: "payReward p x s = (Inr u1, s1)" and rest: "(if fin then quest_Complete p q i t else advanceStep p q i sp) s1 = (Inr u, s')"
    using run by (auto simp: run_simps)
  have row1: "map_of (player_quests s1) (p, q) = Some r" using row(1) payReward_ok(1) [OF pay] by simp
  have i: "0 \<le> i" using quests_ok_step [OF ok row(1)] row(3) by simp
  have pay': "payReward (fst (p, q)) x s = (Inr u1, s1)" using pay by simp
  note lp = lawful_pass [OF ok row(1,2) d pay']
  show "lawful {(p, q)} s s'"
  proof (cases fin)
    case True
    with rest have "quest_Complete p q i t s1 = (Inr u, s')" by simp
    from Complete_ok [OF this row1] show ?thesis
      using row(3) i by (intro lp [where r' = "r\<lparr>qr_status := QuestCompleted, qr_step := i, qr_completed := Some t\<rparr>"]) (simp_all add: passed_def)
  next
    case False
    with rest have "advanceStep p q i sp s1 = (Inr u, s')" by simp
    from advanceStep_ok [OF this row1] obtain st where
      "player_quests s' = AList.update (p, q) (r\<lparr>qr_step := i + 1, qr_state := Some st\<rparr>) (player_quests s1)" "cash_of s' = cash_of s1" by blast
    then show ?thesis
      using row(2,3) i by (intro lp [where r' = "r\<lparr>qr_step := i + 1, qr_state := Some st\<rparr>"]) (simp_all add: passed_def nat_add_distrib)
  qed
  assume "\<not> fin"
  with rest have "advanceStep p q i sp s1 = (Inr u, s')" by simp
  from advanceStep_ok [OF this row1] show "\<exists>r'. map_of (player_quests s') (p, q) = Some r' \<and> qr_status r' = QuestActive \<and> qr_step r' = i + 1 \<and> qr_definition r' = qr_definition r"
    using row(2) by auto
qed

lemma passStep_lawful:
  assumes "quests_ok s" "map_of (player_quests s) (p, q) = Some r" "qr_status r = QuestActive" "i = qr_step r"
    "resolveDef ((p, q), r) = Some d" "currentStep d r = Some x" "passStep t p q d x st i s = (Inr y, s')"
  shows "lawful {(p, q)} s s'"
proof -
  have "bindM (payReward p x) (\<lambda>_. if i = int (length (qd_Steps d)) - 1 then quest_Complete p q i t else advanceStep p q i (qst_Spawned st)) s = (Inr (), s')"
    using assms(7) by (auto simp: passStep_def run_simps split: if_splits)
  from pass_body(1) [OF assms(1-6) this] show ?thesis .
qed

lemma SetState_lawful:
  assumes "map_of (player_quests s) (p, q) = Some r" "qr_status r = QuestActive" "quest_SetState p q st s = (Inr u, s')"
  shows "lawful {(p, q)} s s'"
proof -
  have s': "s' = updateQuest p q (\<lambda>_. True) (\<lambda>r. r\<lparr>qr_state := Some st\<rparr>) s" using assms(3) by (simp add: quest_SetState_def run_simps)
  show ?thesis
    by (rule lawful_touch [OF assms(1,2), of _ "r\<lparr>qr_state := Some st\<rparr>"]) (use assms(1,2) in \<open>simp_all add: s' updateQuest_rows\<close>)
qed

lemma Fail_lawful:
  assumes "map_of (player_quests s) (p, q) = Some r" "qr_status r = QuestActive" "quest_Fail p q t s = (Inr u, s')"
  shows "lawful {(p, q)} s s'"
proof -
  have s': "s' = updateQuest p q (\<lambda>r. qr_status r = QuestActive) (\<lambda>r. r\<lparr>qr_status := QuestFailed, qr_completed := Some t\<rparr>) s"
    using assms(3) by (simp add: quest_Fail_def run_simps)
  show ?thesis
    by (rule lawful_touch [OF assms(1,2), of _ "r\<lparr>qr_status := QuestFailed, qr_completed := Some t\<rparr>"])
      (use assms(1,2) in \<open>simp_all add: s' updateQuest_rows\<close>)
qed

section \<open>Operations of the service\<close>

lemma lawfulI: "(quests_ok s \<Longrightarrow> lawful K s s') \<Longrightarrow> lawful K s s'"
  by (auto simp: lawful_def)

lemma onDb_ok [run_simps]: "onDb m s = (r, s') \<longleftrightarrow> (\<exists>d. m (qw_db s) = (r, d) \<and> s' = s\<lparr>qw_db := d\<rparr>)"
  by (auto simp: onDb_def split: prod.splits)

text \<open>The database before and after an operation of the service, whether it returned an error or not.\<close>

definition lawfulOp :: "(int \<times> string) set \<Rightarrow> 'a qm \<Rightarrow> quest_world \<Rightarrow> bool" where
  "lawfulOp K m s \<longleftrightarrow> lawful K (qw_db s) (qw_db (snd (m s)))"

lemma lawfulOp_return [simp]: "lawfulOp K (returnM x) s"
  by (simp add: lawfulOp_def returnM_def lawful.refl)

lemma lawfulOp_fail [simp]: "lawfulOp K (failM x) s"
  by (simp add: lawfulOp_def failM_def lawful.refl)

lemma lawfulOp_bind:
  assumes "lawfulOp K m s" "\<And>x s'. m s = (Inr x, s') \<Longrightarrow> lawfulOp K (f x) s'"
  shows "lawfulOp K (bindM m f) s"
proof (cases "m s")
  case (Pair r s')
  then show ?thesis
    using assms by (cases r) (auto simp: lawfulOp_def bindM_def intro: lawful.trans)
qed

lemma lawfulOp_tryM: "lawfulOp K m s \<Longrightarrow> lawfulOp K (tryM m) s"
  by (auto simp: lawfulOp_def tryM_def split: prod.splits)

lemma lawfulOp_tx:
  assumes "\<And>x d. m (qw_db s) = (Inr x, d) \<Longrightarrow> lawful K (qw_db s) d"
  shows "lawfulOp K (onDb (tx_do m)) s"
  using assms
  by (auto simp: lawfulOp_def onDb_def tx_do_def lawful.refl split: prod.splits sum.splits)

lemma lawfulOp_query: "lawfulOp K (onDb (tx_do (query f))) s"
  by (rule lawfulOp_tx) (auto simp: run_simps lawful.refl)

lemma lawfulOp_despawn [simp]: "lawfulOp K (despawn env st) s"
  by (simp add: lawfulOp_def despawn_def callSpawner_def returnM_def lawful.refl)

lemma lawfulOp_thenDespawn:
  assumes "\<And>x d. quests_ok (qw_db s) \<Longrightarrow> body (qw_db s) = (Inr x, d) \<Longrightarrow> lawful K (qw_db s) d"
  shows "lawfulOp K (thenDespawn env body) s"
  unfolding thenDespawn_def
  by (rule lawfulOp_bind [OF lawfulOp_tx]) (auto intro: lawfulI assms split: option.split)

text \<open>A row read earlier, when other operations may have run since, still has the definition of the quest.\<close>

definition seen :: "progress \<Rightarrow> db \<Rightarrow> bool" where
  "seen prog s \<longleftrightarrow> (\<exists>r. map_of (player_quests s) (fst prog) = Some r \<and> qr_definition r = qr_definition (snd prog))"

lemma seen_resolve: "seen prog s \<Longrightarrow> map_of (player_quests s) (fst prog) = Some r \<Longrightarrow> resolveDef (fst prog, r) = resolveDef prog"
  using resolveDef_cong [of r "snd prog" "fst prog"] by (auto simp: seen_def)

lemma withActive_lawful:
  assumes "seen ((p, q), r0) s" "resolveDef ((p, q), r0) = Some d" "withActive p q d body s = (Inr y, s')"
    and "\<And>r x. map_of (player_quests s) (p, q) = Some r \<Longrightarrow> qr_status r = QuestActive \<Longrightarrow> resolveDef ((p, q), r) = Some d \<Longrightarrow>
      currentStep d r = Some x \<Longrightarrow> body r x s = (Inr y, s') \<Longrightarrow> lawful {(p, q)} s s'"
  shows "lawful {(p, q)} s s'"
proof -
  obtain r where r: "map_of (player_quests s) (p, q) = Some r" using assms(1) by (auto simp: seen_def)
  have "resolveDef ((p, q), r) = Some d" using seen_resolve [OF assms(1)] r assms(2) by simp
  with assms(3) assms(4) [OF r] show ?thesis
    by (auto simp: withActive_def quest_Lock_def quest_Get_def run_simps r lawful.refl split: if_splits option.splits)
qed

text \<open>What the transactions may rely on once they hold an active row.\<close>

definition holds_row :: "db \<Rightarrow> int \<times> string \<Rightarrow> quest_def \<Rightarrow> quest_row \<Rightarrow> step \<Rightarrow> bool" where
  "holds_row s k d r x \<longleftrightarrow> quests_ok s \<and> map_of (player_quests s) k = Some r \<and> qr_status r = QuestActive \<and>
     resolveDef (k, r) = Some d \<and> currentStep d r = Some x"

lemma holds_row_pass: "holds_row s (p, q) d r x \<Longrightarrow> passStep t p q d x st (qr_step r) s = (Inr y, s') \<Longrightarrow> lawful {(p, q)} s s'"
  unfolding holds_row_def using passStep_lawful by blast

lemma holds_row_state: "holds_row s (p, q) d r x \<Longrightarrow> quest_SetState p q st s = (Inr y, s') \<Longrightarrow> lawful {(p, q)} s s'"
  unfolding holds_row_def using SetState_lawful by blast

lemma holds_row_fail: "holds_row s (p, q) d r x \<Longrightarrow> quest_Fail p q t s = (Inr y, s') \<Longrightarrow> lawful {(p, q)} s s'"
  unfolding holds_row_def using Fail_lawful by blast

lemmas holds_row_steps = holds_row_pass holds_row_state holds_row_fail

lemma countEvent_lawful:
  "holds_row s (p, q) d r x \<Longrightarrow> countEvent t p q d ev r x s = (Inr y, s') \<Longrightarrow> lawful {(p, q)} s s'"
  unfolding countEvent_def Let_def
  by (auto simp: run_simps lawful.refl split: option.splits if_splits intro: holds_row_steps)

lemma countLoss_lawful:
  "holds_row s (p, q) d r x \<Longrightarrow> countLoss t p q d v r x s = (Inr y, s') \<Longrightarrow> lawful {(p, q)} s s'"
  unfolding countLoss_def Let_def
  by (auto simp: run_simps lawful.refl split: if_splits intro: holds_row_steps)

lemma lockedOp_lawful:
  assumes "seen ((p, q), r0) (qw_db s)" "resolveDef ((p, q), r0) = Some d"
    and "\<And>s r x y s'. holds_row s (p, q) d r x \<Longrightarrow> body r x s = (Inr y, s') \<Longrightarrow> lawful {(p, q)} s s'"
  shows "lawfulOp {(p, q)} (thenDespawn env (withActive p q d body)) s"
proof (rule lawfulOp_thenDespawn)
  fix y s1
  assume ok: "quests_ok (qw_db s)" and run: "withActive p q d body (qw_db s) = (Inr y, s1)"
  show "lawful {(p, q)} (qw_db s) s1"
  proof (rule withActive_lawful [OF assms(1,2) run])
    fix r x
    assume "map_of (player_quests (qw_db s)) (p, q) = Some r" "qr_status r = QuestActive" "resolveDef ((p, q), r) = Some d" "currentStep d r = Some x"
    then have "holds_row (qw_db s) (p, q) d r x" using ok unfolding holds_row_def by blast
    moreover assume "body r x (qw_db s) = (Inr y, s1)"
    ultimately show "lawful {(p, q)} (qw_db s) s1" by (rule assms(3))
  qed
qed

lemma applyEvent_lawful:
  assumes "seen prog (qw_db s)"
  shows "lawfulOp {fst prog} (applyEvent env prog ev) s"
proof -
  obtain p q r0 where prog: "prog = ((p, q), r0)" by (cases prog) auto
  show ?thesis
    using assms unfolding prog applyEvent_def
    by (cases "resolveDef ((p, q), r0)") (auto intro: lockedOp_lawful countEvent_lawful)
qed

lemma applyDestroyed_lawful:
  assumes "seen prog (qw_db s)"
  shows "lawfulOp {fst prog} (applyDestroyed env prog v) s"
proof -
  obtain p q r0 where prog: "prog = ((p, q), r0)" by (cases prog) auto
  show ?thesis
    using assms unfolding prog applyDestroyed_def
    by (cases "resolveDef ((p, q), r0)") (auto intro: lockedOp_lawful countLoss_lawful)
qed

lemma failExpired_lawful: "lawfulOp {fst prog} (failExpired env prog) s"
proof -
  obtain p q r0 where prog: "prog = ((p, q), r0)" by (cases prog) auto
  show ?thesis
    unfolding prog failExpired_def fst_conv prod.case
    by (rule lawfulOp_thenDespawn)
      (auto simp: quest_Lock_def quest_Get_def run_simps lawful.refl split: option.splits if_splits intro: Fail_lawful)
qed

lemma advanceEscort_lawful:
  assumes "seen prog (qw_db s)" "resolveDef prog = Some d" "currentStep d (snd prog) = Some x"
  shows "lawfulOp {fst prog} (advanceEscort env prog d x) s"
proof -
  obtain p q r0 where prog: "prog = ((p, q), r0)" by (cases prog) auto
  show ?thesis
    unfolding prog advanceEscort_def fst_conv snd_conv prod.case
  proof (rule lawfulOp_thenDespawn)
    fix y s1
    assume ok: "quests_ok (qw_db s)"
      and run: "bindM (quest_Lock p q) (\<lambda>cur. case cur of None \<Rightarrow> returnM None
       | Some (_, r) \<Rightarrow>
         if qr_status r \<noteq> QuestActive \<or> qr_step r \<noteq> qr_step r0 then returnM None
         else (let st = decodeState (qr_state r); st = st\<lparr>qst_Progress := wrap64 (qst_Progress st + 1)\<rparr> in
           if qst_Progress st < Goal x then bindM (quest_SetState p (qd_ID d) st) (\<lambda>_. returnM None)
           else passStep (qe_now env) p (qd_ID d) d x st (qr_step r))) (qw_db s) = (Inr y, s1)"
    obtain r where r: "map_of (player_quests (qw_db s)) (p, q) = Some r" using assms(1) by (auto simp: seen_def prog)
    have d: "resolveDef ((p, q), r) = Some d" using seen_resolve [OF assms(1)] r assms(2) by (simp add: prog)
    have ID: "qd_ID d = q" using quests_ok_ID [OF ok r d] by simp
    have "holds_row (qw_db s) (p, q) d r x" if "qr_status r = QuestActive" "qr_step r = qr_step r0"
      using that ok r d assms(3) by (simp add: holds_row_def currentStep_def prog split: if_splits)
    with run show "lawful {(p, q)} (qw_db s) s1"
      by (auto simp: quest_Lock_def quest_Get_def run_simps r ID lawful.refl Let_def split: if_splits intro: holds_row_steps)
  qed
qed

text \<open>
  The poller reads the row, then pays and passes step after step without reading it again; it is lawful
  when the row it read is the row that is there.
\<close>

lemma drop_is_Cons:
  assumes "drop n ys = x # xs"
  shows "n < length ys \<and> x = ys ! n \<and> xs = drop (Suc n) ys"
proof -
  have n: "n < length ys" using assms by (metis drop_eq_Nil linorder_not_le list.distinct(1))
  with assms show ?thesis using Cons_nth_drop_Suc [OF n] by simp
qed

lemma pollSteps_lawful:
  assumes "quests_ok (qw_db s)" "map_of (player_quests (qw_db s)) (fst prog) = Some r" "qr_status r = QuestActive" "qr_step r = i"
    "qr_definition r = qr_definition (snd prog)" "resolveDef prog = Some d" "xs = drop (nat i) (qd_Steps d)"
  shows "lawfulOp {fst prog} (pollSteps env prog d snap i xs) s"
  using assms
proof (induction xs arbitrary: i r s)
  case (Cons x xs)
  obtain p q r0 where prog: "prog = ((p, q), r0)" by (cases prog) auto
  let ?st = "decodeState (qr_state r0)"
  let ?body = "bindM (payReward p x) (\<lambda>_. if xs = [] then quest_Complete p (qd_ID d) i (qe_now env) else advanceStep p (qd_ID d) i (qst_Spawned ?st))"
  have row: "map_of (player_quests (qw_db s)) (p, q) = Some r" using Cons.prems(2) by (simp add: prog)
  have d: "resolveDef ((p, q), r) = Some d" using Cons.prems(5,6) resolveDef_cong [of r r0 "(p, q)"] by (simp add: prog)
  have ID: "qd_ID d = q" using quests_ok_ID [OF Cons.prems(1) row d] by simp
  have i: "0 \<le> i" using quests_ok_step [OF Cons.prems(1) row] Cons.prems(4) by simp
  have xs: "nat i < length (qd_Steps d)" "x = qd_Steps d ! nat i" "xs = drop (Suc (nat i)) (qd_Steps d)"
    using drop_is_Cons [OF Cons.prems(7) [symmetric]] by blast+
  have step: "currentStep d r = Some x" using xs Cons.prems(4) by (simp add: currentStep_def)
  note body = pass_body [OF Cons.prems(1) row Cons.prems(3) Cons.prems(4) [symmetric] d step]
  have "lawfulOp {(p, q)} (bindM (onDb (tx_do ?body)) (\<lambda>_. if xs = [] then despawn env ?st else pollSteps env prog d snap (i + 1) xs)) s"
  proof (rule lawfulOp_bind [OF lawfulOp_tx])
    show "lawful {(p, q)} (qw_db s) s1" if "?body (qw_db s) = (Inr u, s1)" for u s1
      using that unfolding ID by (rule body(1))
    fix u s1
    assume "onDb (tx_do ?body) s = (Inr u, s1)"
    then have run: "?body (qw_db s) = (Inr u, qw_db s1)" by (auto simp: run_simps)
    show "lawfulOp {(p, q)} (if xs = [] then despawn env ?st else pollSteps env prog d snap (i + 1) xs) s1"
    proof (cases "xs = []")
      case False
      obtain r' where r': "map_of (player_quests (qw_db s1)) (p, q) = Some r'" "qr_status r' = QuestActive" "qr_step r' = i + 1" "qr_definition r' = qr_definition r"
        using body(2) [OF run [unfolded ID] False] by blast
      have "quests_ok (qw_db s1)" using body(1) [OF run [unfolded ID]] Cons.prems(1) by (rule lawful_ok)
      then have "lawfulOp {fst prog} (pollSteps env prog d snap (i + 1) xs) s1"
        using r' Cons.prems(5,6) xs(3) i by (intro Cons.IH [where r = r']) (simp_all add: prog nat_add_distrib)
      with False show ?thesis by (simp add: prog)
    qed simp
  qed
  then show ?case by (cases "xs = []") (simp_all add: prog Let_def)
qed simp

lemma fresh_seen: "map_of (player_quests s) (fst prog) = Some (snd prog) \<Longrightarrow> seen prog s"
  by (simp add: seen_def)

lemma PlayerState_lawful: "lawfulOp K (onDb (tx_do (PlayerState p))) s"
  by (rule lawfulOp_tx)
    (auto simp: PlayerState_def run_simps lawful.refl split: option.splits)

lemma quest_advance_lawful:
  assumes "map_of (player_quests (qw_db s)) (fst prog) = Some (snd prog)" "qr_status (snd prog) = QuestActive" "quests_ok (qw_db s)"
  shows "lawfulOp {fst prog} (quest_advance env prog) s"
proof -
  have poll: "lawfulOp {fst prog} (pollSteps env prog d snap (qr_step (snd prog)) (drop (nat (qr_step (snd prog))) (qd_Steps d))) s'"
    if "resolveDef prog = Some d" "onDb (tx_do (PlayerState (fst (fst prog)))) s = (Inr snap, s')" for d snap s'
  proof -
    have "qw_db s' = qw_db s" using that(2) by (auto simp: PlayerState_def run_simps split: option.splits)
    with assms that(1) show ?thesis by (intro pollSteps_lawful) simp_all
  qed
  show ?thesis
    unfolding quest_advance_def
    by (auto split: option.split intro: failExpired_lawful advanceEscort_lawful [OF fresh_seen [OF assms(1)]]
        lawfulOp_bind [OF PlayerState_lawful] poll)
qed

text \<open>The loops visit every quest once, and a step on one quest leaves the rows of the others alone.\<close>

lemma lawfulOp_mono: "lawfulOp K m s \<Longrightarrow> K \<subseteq> L \<Longrightarrow> lawfulOp L m s"
  unfolding lawfulOp_def by (rule lawful_mono)

lemma lawfulOp_loop:
  assumes "distinct (map fst xs)" "\<And>x. x \<in> set xs \<Longrightarrow> P x (qw_db s)" "quests_ok (qw_db s)"
    and body: "\<And>x s. x \<in> set xs \<Longrightarrow> P x (qw_db s) \<Longrightarrow> quests_ok (qw_db s) \<Longrightarrow> lawfulOp (L \<inter> {fst x}) (body x) s"
    and frame: "\<And>x K s s'. P x s \<Longrightarrow> quests_ok s \<Longrightarrow> lawful K s s' \<Longrightarrow> fst x \<notin> K \<Longrightarrow> P x s'"
  shows "lawfulOp L (forM xs body) s"
  using assms(1-3) body
proof (induction xs arbitrary: s)
  case (Cons x xs)
  have first: "lawfulOp (L \<inter> {fst x}) (body x) s" using Cons.prems(2-4) by simp
  show ?case
    unfolding forM.simps
  proof (rule lawfulOp_bind)
    show "lawfulOp L (body x) s" using first by (rule lawfulOp_mono) simp
    fix u s1
    assume "body x s = (Inr u, s1)"
    then have s1: "lawful (L \<inter> {fst x}) (qw_db s) (qw_db s1)" using first by (simp add: lawfulOp_def)
    show "lawfulOp L (forM xs body) s1"
    proof (rule Cons.IH)
      show "quests_ok (qw_db s1)" using s1 Cons.prems(3) by (rule lawful_ok)
      show "P y (qw_db s1)" if "y \<in> set xs" for y
      proof (rule frame [OF Cons.prems(2) Cons.prems(3) s1])
        show "fst y \<notin> L \<inter> {fst x}" using Cons.prems(1) that by (metis IntD2 distinct.simps(2) imageI list.set_map list.simps(9) singletonD)
      qed (use that in simp)
    qed (use Cons.prems(1,4) in auto)
  qed
qed simp

definition fresh :: "progress \<Rightarrow> db \<Rightarrow> bool" where
  "fresh prog s \<longleftrightarrow> map_of (player_quests s) (fst prog) = Some (snd prog) \<and> qr_status (snd prog) = QuestActive"

lemma lawful_fresh: "fresh x s \<Longrightarrow> quests_ok s \<Longrightarrow> lawful K s s' \<Longrightarrow> fst x \<notin> K \<Longrightarrow> fresh x s'"
  unfolding fresh_def using lawful_fixed [of K s s' "fst x"] by simp

lemma fresh_row: "quests_ok s \<Longrightarrow> x \<in> set (player_quests s) \<Longrightarrow> qr_status (snd x) = QuestActive \<Longrightarrow> fresh x s"
  by (cases x) (simp add: fresh_def quests_ok_def tbl_wf_def keys_def)

lemma activeQuests_fresh: "quests_ok s \<Longrightarrow> x \<in> set (activeQuests coll n s) \<Longrightarrow> fresh x s"
  unfolding activeQuests_def by (rule fresh_row) (auto dest!: in_set_takeD)

lemma activeQuestsOf_fresh: "quests_ok s \<Longrightarrow> x \<in> set (activeQuestsOf coll p s) \<Longrightarrow> fresh x s"
  unfolding activeQuestsOf_def by (rule fresh_row) auto

lemma activeQuests_distinct: "quests_ok s \<Longrightarrow> distinct (map fst (activeQuests coll n s))"
  unfolding activeQuests_def take_map [symmetric]
  by (intro distinct_take) (simp add: quests_ok_def tbl_wf_def keys_def distinct_map_filter)

lemma activeQuestsOf_distinct: "quests_ok s \<Longrightarrow> distinct (map fst (activeQuestsOf coll p s))"
  unfolding activeQuestsOf_def by (simp add: quests_ok_def tbl_wf_def keys_def distinct_map_filter)

lemma lawfulOpI: "(quests_ok (qw_db s) \<Longrightarrow> lawfulOp K m s) \<Longrightarrow> lawfulOp K m s"
  unfolding lawfulOp_def by (rule lawfulI)

text \<open>
  Reading the active quests, then a loop over them; quests outside \<open>L\<close> keep their rows when the body has
  nothing to do on them.
\<close>

lemma lawfulOp_forActive:
  assumes rows: "\<And>x. quests_ok (qw_db s) \<Longrightarrow> x \<in> set (f (qw_db s)) \<Longrightarrow> fresh x (qw_db s)"
    and dist: "quests_ok (qw_db s) \<Longrightarrow> distinct (map fst (f (qw_db s)))"
    and body: "\<And>x s. fresh x (qw_db s) \<Longrightarrow> quests_ok (qw_db s) \<Longrightarrow> lawfulOp {fst x} (body x) s"
    and idle: "\<And>x s'. fresh x (qw_db s) \<Longrightarrow> fst x \<notin> L \<Longrightarrow> lawfulOp {} (body x) s'"
  shows "lawfulOp L (bindM (onDb (tx_do (query f))) (\<lambda>active. forM active body)) s"
proof (rule lawfulOpI, rule lawfulOp_bind [OF lawfulOp_query])
  fix active s1
  assume ok: "quests_ok (qw_db s)" and "onDb (tx_do (query f)) s = (Inr active, s1)"
  then have eqs: "active = f (qw_db s)" "s1 = s" by (auto simp: run_simps)
  show "lawfulOp L (forM active body) s1"
    unfolding eqs
  proof (rule lawfulOp_loop [where P = fresh])
    show "fresh x s'" if "fresh x s" "quests_ok s" "lawful K s s'" "fst x \<notin> K" for x K s s'
      using that by (rule lawful_fresh)
    show "lawfulOp (L \<inter> {fst x}) (body x) s'" if "x \<in> set (f (qw_db s))" "fresh x (qw_db s')" "quests_ok (qw_db s')" for x s'
      using body [OF that(2,3)] idle [OF rows [OF ok that(1)], of s'] by (cases "fst x \<in> L") simp_all
  qed (use ok in \<open>blast intro: rows dist\<close>)+
qed

lemma fresh_imp_seen: "fresh x s \<Longrightarrow> seen x s"
  by (simp add: fresh_def seen_def)

lemma ProcessAll_lawful:
  assumes "\<And>x s'. fresh x (qw_db s) \<Longrightarrow> fst x \<notin> K \<Longrightarrow> lawfulOp {} (quest_advance env x) s'"
  shows "lawfulOp K (ProcessAll env n) s"
  unfolding ProcessAll_def quest_ListActive_def
proof (rule lawfulOp_forActive)
  show "lawfulOp {fst x} (bindM (tryM (quest_advance env x)) (\<lambda>_. returnM ())) s" if "fresh x (qw_db s)" "quests_ok (qw_db s)" for x s
    using that quest_advance_lawful [of s x env] by (auto simp: fresh_def intro!: lawfulOp_bind lawfulOp_tryM)
  show "lawfulOp {} (bindM (tryM (quest_advance env x)) (\<lambda>_. returnM ())) s'" if "fresh x (qw_db s)" "fst x \<notin> K" for x s'
    using assms [OF that, of s'] by (auto intro!: lawfulOp_bind lawfulOp_tryM)
qed (blast intro: activeQuests_fresh activeQuests_distinct)+

text \<open>The quests the two subscriptions act on.\<close>

definition hears :: "quest_event \<Rightarrow> progress \<Rightarrow> bool" where
  "hears ev prog \<longleftrightarrow> (\<exists>d x. resolveDef prog = Some d \<and> currentStep d (snd prog) = Some x \<and> \<not> (stp_Kind x = StepKill \<and> stp_TargetRole x \<noteq> []))"

definition loses :: "int \<Rightarrow> progress \<Rightarrow> bool" where
  "loses v prog \<longleftrightarrow> (\<exists>d x. resolveDef prog = Some d \<and> currentStep d (snd prog) = Some x \<and> v \<in> spawnedSet (decodeState (qr_state (snd prog))) (stp_TargetRole x))"

lemma OnEvent_lawful:
  assumes "\<And>x. fresh x (qw_db s) \<Longrightarrow> fst x \<notin> K \<Longrightarrow> \<not> hears ev x"
  shows "lawfulOp K (OnEvent env ev) s"
proof -
  have step: "lawfulOp L (case resolveDef prog of None \<Rightarrow> returnM () | Some d \<Rightarrow> (case currentStep d (snd prog) of None \<Rightarrow> returnM ()
      | Some x \<Rightarrow> if stp_Kind x = StepKill \<and> stp_TargetRole x \<noteq> [] then returnM ()
          else if MatchEvent x ev = None then returnM () else bindM (tryM (applyEvent env prog ev)) (\<lambda>_. returnM ()))) s'"
    if "hears ev prog \<Longrightarrow> lawfulOp L (applyEvent env prog ev) s'" for L prog s'
    using that by (auto simp: hears_def split: option.split intro!: lawfulOp_bind lawfulOp_tryM)
  show ?thesis
    unfolding OnEvent_def ListActiveByPlayer_def
    using assms by (auto intro!: lawfulOp_forActive activeQuestsOf_fresh activeQuestsOf_distinct step applyEvent_lawful fresh_imp_seen
        simp del: split_paired_All)
qed

lemma OnShipDestroyed_lawful:
  assumes "\<And>x. fresh x (qw_db s) \<Longrightarrow> fst x \<notin> K \<Longrightarrow> \<not> loses (ref_id v) x"
  shows "lawfulOp K (OnShipDestroyed env v) s"
proof -
  have step: "lawfulOp L (case resolveDef prog of None \<Rightarrow> returnM () | Some d \<Rightarrow> (case currentStep d (snd prog) of None \<Rightarrow> returnM ()
      | Some x \<Rightarrow> if \<not> (stp_TargetRole x \<noteq> [] \<and> (stp_Kind x = StepKill \<or> stp_Kind x = StepEscortSurvive)) then returnM ()
          else if ref_id v \<notin> spawnedSet (decodeState (qr_state (snd prog))) (stp_TargetRole x) then returnM ()
          else bindM (tryM (applyDestroyed env prog (ref_id v))) (\<lambda>_. returnM ()))) s'"
    if "loses (ref_id v) prog \<Longrightarrow> lawfulOp L (applyDestroyed env prog (ref_id v)) s'" for L prog s'
    using that by (auto simp: loses_def split: option.split intro!: lawfulOp_bind lawfulOp_tryM)
  show ?thesis
    unfolding OnShipDestroyed_def quest_ListActive_def
    using assms by (auto intro!: lawfulOp_forActive activeQuests_fresh activeQuests_distinct step applyDestroyed_lawful fresh_imp_seen
        simp del: split_paired_All)
qed

lemma spawnAll_run: "\<exists>m s'. spawnAll reply specs sp s = (Inr m, s') \<and> qw_db s' = qw_db s"
proof (induction specs arbitrary: sp s)
  case (Cons spec specs)
  let ?s = "s\<lparr>qw_calls := qw_calls s @ [SpawnCall spec]\<rparr>"
  show ?case using Cons.IH [of _ ?s] by (auto simp: Let_def split: sum.split)
qed (simp add: returnM_def)

lemma spawnFor_lawful:
  assumes "map_of (player_quests (qw_db s)) (p, qd_ID d) = Some r" "qr_status r = QuestActive" "(p, qd_ID d) \<in> K"
  shows "lawfulOp K (spawnFor env p d) s"
proof (cases "qe_spawner env")
  case (Some reply)
  obtain m s' where run: "spawnAll reply (qd_Spawns d) [] s = (Inr m, s')" and db: "qw_db s' = qw_db s"
    using spawnAll_run by blast
  have "lawfulOp K (onDb (tx_do (quest_SetState p (qd_ID d) st))) s'" for st
    using assms db by (intro lawfulOp_tx) (auto dest: SetState_lawful intro: lawful_mono)
  moreover have "lawfulOp K (spawnAll reply (qd_Spawns d) []) s"
    by (simp add: lawfulOp_def run db lawful.refl)
  ultimately show ?thesis
    using run unfolding spawnFor_def Some by (auto intro: lawfulOp_bind)
qed (simp add: spawnFor_def)

text \<open>An accepted quest takes a key that had no row.\<close>

definition open_keys :: "(int \<times> string) set \<Rightarrow> db \<Rightarrow> bool" where
  "open_keys K s \<longleftrightarrow> - dom (map_of (player_quests s)) \<subseteq> K"

lemma open_keysD: "open_keys K s \<Longrightarrow> map_of (player_quests s) k = None \<Longrightarrow> k \<in> K"
  by (auto simp: open_keys_def)

lemma open_keys_UNIV [simp]: "open_keys UNIV s"
  by (simp add: open_keys_def)

lemma ensure_lawful:
  assumes "ensureQuestSQL p q t f s = Inr (b, s')" "\<And>d. f = Some (Frozen d) \<Longrightarrow> qd_ID d = q"
  shows "open_keys K s \<Longrightarrow> lawful K s s'"
    and "b \<Longrightarrow> \<exists>r. map_of (player_quests s) (p, q) = None \<and> map_of (player_quests s') (p, q) = Some r \<and> qr_status r = QuestActive"
    and "map_of (player_quests s) (p, q) = None \<Longrightarrow> b"
  using assms
  by (auto simp: ensureQuestSQL_def lawful.refl quest_row_ok_def split: if_splits
      intro!: lawful_mono [OF lawful_insert [of s "(p, q)"]] simp: cash_of_def dest: open_keysD)

lemma acceptOffer_lawful:
  assumes "open_keys K (qw_db s)"
  shows "lawfulOp K (acceptOffer env p q i) s"
proof -
  have "lawfulOp K (bindM (onDb (tx_do (bindM (EnsureWithDefinition p a t f) (\<lambda>inserted.
      bindM (DeleteOffer i p) (\<lambda>_. returnM inserted))))) (\<lambda>inserted. if inserted then spawnFor env p d else returnM ())) s"
    if off: "offeredDef q x = Inr (a, d, f)" for x a d f t
  proof -
    have a: "a = qd_ID d" and f: "\<And>d. f = Some (Frozen d) \<Longrightarrow> qd_ID d = a"
      using off by (auto simp: offeredDef_def Let_def dest: Lookup_ID split: option.splits json_def.splits if_splits)
    have del: "lawful K s s' \<and> player_quests s' = player_quests s" if "DeleteOffer i p s = (Inr b, s')" for s b s'
      using that by (auto simp: DeleteOffer_def run_simps cash_of_def fun_eq_iff lawful.refl split: option.splits if_splits intro!: lawful_same)
    show ?thesis
    proof (rule lawfulOp_bind [OF lawfulOp_tx])
      fix b s'
      assume "bindM (EnsureWithDefinition p a t f) (\<lambda>inserted. bindM (DeleteOffer i p) (\<lambda>_. returnM inserted)) (qw_db s) = (Inr b, s')"
      then obtain x s2 where "ensureQuestSQL p a t f (qw_db s) = Inr (b, s2)" "DeleteOffer i p s2 = (Inr x, s')"
        by (auto simp: EnsureWithDefinition_def run_simps)
      then show "lawful K (qw_db s) s'"
        using lawful.trans [OF ensure_lawful(1) [OF _ f assms]] del by blast
    next
      fix b s'
      assume "onDb (tx_do (bindM (EnsureWithDefinition p a t f) (\<lambda>inserted. bindM (DeleteOffer i p) (\<lambda>_. returnM inserted)))) s = (Inr b, s')"
      then obtain x s2 where "ensureQuestSQL p a t f (qw_db s) = Inr (b, s2)" "DeleteOffer i p s2 = (Inr x, qw_db s')"
        by (auto simp: EnsureWithDefinition_def run_simps)
      then have "(p, a) \<in> K \<and> (\<exists>r. map_of (player_quests (qw_db s')) (p, a) = Some r \<and> qr_status r = QuestActive)" if b
        using ensure_lawful(2) [OF _ f that] del open_keysD [OF assms] by fastforce
      then show "lawfulOp K (if b then spawnFor env p d else returnM ()) s'"
        using spawnFor_lawful a by auto
    qed
  qed
  then show ?thesis
    unfolding acceptOffer_def GetOffer_def
    by (intro lawfulOp_bind [OF lawfulOp_query]) (auto simp: run_simps split: option.split sum.split prod.split)
qed

lemma quest_Accept_lawful:
  assumes "open_keys K (qw_db s)"
  shows "lawfulOp K (quest_Accept env p q) s"
proof -
  have plain: "lawfulOp K (bindM (onDb (tx_do (quest_Get p q))) (\<lambda>existed. bindM (onDb (tx_do (quest_Ensure p q t))) (\<lambda>_.
      if existed = None then spawnFor env p d else returnM ()))) s" if d: "Lookup q = Some d" for d t
    unfolding quest_Get_def
  proof (rule lawfulOp_bind [OF lawfulOp_query], rule lawfulOp_bind [OF lawfulOp_tx])
    fix existed s2
    assume 1: "onDb (tx_do (query (\<lambda>s. map_option (Pair (p, q)) (map_of (player_quests s) (p, q))))) s = (Inr existed, s2)"
    then have s2: "s2 = s" and existed: "existed = None \<longleftrightarrow> map_of (player_quests (qw_db s)) (p, q) = None" by (auto simp: run_simps)
    show "lawful K (qw_db s2) s3" if "quest_Ensure p q t (qw_db s2) = (Inr u, s3)" for u s3
      using that ensure_lawful(1) [of p q t None _ _ _ K] assms s2 by (auto simp: quest_Ensure_def run_simps)
    fix u s3
    assume 2: "onDb (tx_do (quest_Ensure p q t)) s2 = (Inr u, s3)"
    have "(p, q) \<in> K \<and> (\<exists>r. map_of (player_quests (qw_db s3)) (p, q) = Some r \<and> qr_status r = QuestActive)" if "existed = None"
      using 2 that s2 existed open_keysD [OF assms] ensure_lawful(2,3) [of p q t None] by (fastforce simp: quest_Ensure_def run_simps)
    then show "lawfulOp K (if existed = None then spawnFor env p d else returnM ()) s3"
      using spawnFor_lawful [of s3 p d] Lookup_ID [OF d] by auto
  qed
  have need: "lawfulOp K (bindM (onDb (tx_do (quest_Get p a))) (\<lambda>prog. checkM (c prog) e)) s" for a c e
    unfolding quest_Get_def by (rule lawfulOp_bind [OF lawfulOp_query]) (simp add: checkM_def)
  have "lawfulOp K (bindM (if qd_Prerequisite d = [] then returnM () else bindM (onDb (tx_do (quest_Get p a))) (\<lambda>prog. checkM (c prog) e))
      (\<lambda>_. bindM (onDb (tx_do (quest_Get p q))) (\<lambda>existed. bindM (onDb (tx_do (quest_Ensure p q t))) (\<lambda>_.
      if existed = None then spawnFor env p d else returnM ())))) s" if "Lookup q = Some d" for a c d e t
  proof (rule lawfulOp_bind)
    fix u s'
    assume "(if qd_Prerequisite d = [] then returnM () else bindM (onDb (tx_do (quest_Get p a))) (\<lambda>prog. checkM (c prog) e)) s = (Inr u, s')"
    then have "s' = s" by (auto simp: run_simps quest_Get_def split: if_splits)
    then show "lawfulOp K (bindM (onDb (tx_do (quest_Get p q))) (\<lambda>existed. bindM (onDb (tx_do (quest_Ensure p q t))) (\<lambda>_.
      if existed = None then spawnFor env p d else returnM ()))) s'" using plain [OF that] by simp
  qed (simp add: need)
  then show ?thesis
    using assms unfolding quest_Accept_def bindM_checkM by (simp add: acceptOffer_lawful split: option.split)
qed

lemma Abandon_lawful:
  assumes "(p, q) \<in> K"
  shows "lawfulOp K (Abandon env p q) s"
proof -
  have "lawful K s s'" if "quest_Abandon p q s = (Inr u, s')" for s u s'
  proof (cases "\<exists>r. map_of (player_quests s) (p, q) = Some r \<and> qr_status r = QuestActive")
    case True
    then obtain r where r: "map_of (player_quests s) (p, q) = Some r" "qr_status r = QuestActive" by blast
    have s': "s' = updateQuest p q (\<lambda>r. qr_status r = QuestActive) (\<lambda>r. r\<lparr>qr_status := QuestAbandoned\<rparr>) s"
      using that by (simp add: quest_Abandon_def run_simps)
    have "lawful {(p, q)} s s'"
      by (rule lawful_touch [OF r, of _ "r\<lparr>qr_status := QuestAbandoned\<rparr>"]) (use r in \<open>simp_all add: s' updateQuest_rows\<close>)
    then show ?thesis by (rule lawful_mono) (simp add: assms)
  next
    case False
    then have "s' = s" using that by (auto simp: quest_Abandon_def run_simps updateQuest_def split: option.splits)
    then show ?thesis by (simp add: lawful.refl)
  qed
  then show ?thesis
    unfolding Abandon_def quest_Get_def
    by (intro lawfulOp_bind [OF lawfulOp_query] lawfulOp_bind [OF lawfulOp_tx]) (auto split: option.split)
qed

lemma ActiveList_lawful:
  assumes "open_keys K (qw_db s)"
  shows "lawfulOp K (ActiveList env p) s"
proof -
  have ensure: "lawfulOp K (onDb (tx_do (quest_Ensure p q t))) s" for q t
    by (rule lawfulOp_tx) (use ensure_lawful(1) [of p q t None _ _ _ K] assms in \<open>auto simp: quest_Ensure_def run_simps\<close>)
  show ?thesis
    unfolding ActiveList_def quest_Get_def ListActiveByPlayer_def
    by (rule lawfulOp_bind [OF lawfulOp_query]) (auto simp: run_simps intro!: lawfulOp_bind lawfulOp_query ensure)
qed

lemma OfferableList_lawful: "lawfulOp K (OfferableList env p) s"
  unfolding OfferableList_def ListActiveOffersByPlayer_def by (auto intro!: lawfulOp_bind lawfulOp_query)

lemma quest_closer_Tick_lawful:
  assumes "\<And>x s'. fresh x (qw_db s) \<Longrightarrow> fst x \<notin> K \<Longrightarrow> lawfulOp {} (quest_advance env x) s'"
  shows "lawfulOp K (quest_closer_Tick env) s"
proof -
  have "lawfulOp K (onDb (tx_do (DeleteExpiredOffers t))) s" for t s
    by (rule lawfulOp_tx) (auto simp: DeleteExpiredOffers_def run_simps cash_of_def fun_eq_iff intro: lawful_same)
  moreover have "lawfulOp K (tryM (ProcessAll env n)) s" for n
    by (intro lawfulOp_tryM ProcessAll_lawful assms)
  ultimately show ?thesis
    unfolding quest_closer_Tick_def by (auto intro!: lawfulOp_bind intro: lawfulOp_tryM)
qed

section \<open>Sequences of operations\<close>

datatype quest_op =
    QActive int
  | QOffers int
  | QAccept int string
  | QAbandon int string
  | QEvent quest_event
  | QDestroyed entity_ref
  | QTick

definition runQuestOp :: "quest_env \<times> quest_op \<Rightarrow> quest_world \<Rightarrow> quest_world" where
  "runQuestOp c s = (case c of (env, op) \<Rightarrow> (case op of
       QActive p \<Rightarrow> snd (ActiveList env p s)
     | QOffers p \<Rightarrow> snd (OfferableList env p s)
     | QAccept p q \<Rightarrow> snd (quest_Accept env p q s)
     | QAbandon p q \<Rightarrow> snd (Abandon env p q s)
     | QEvent ev \<Rightarrow> snd (OnEvent env ev s)
     | QDestroyed v \<Rightarrow> snd (OnShipDestroyed env v s)
     | QTick \<Rightarrow> snd (quest_closer_Tick env s)))"

definition runQuestOps :: "(quest_env \<times> quest_op) list \<Rightarrow> quest_world \<Rightarrow> quest_world" where
  "runQuestOps ops s = foldl (\<lambda>s c. runQuestOp c s) s ops"

lemma runQuestOp_lawful: "lawful UNIV (qw_db s) (qw_db (runQuestOp c s))"
proof (cases c)
  case (Pair env op)
  show ?thesis
    unfolding runQuestOp_def Pair prod.case
    using ActiveList_lawful [of UNIV s env] OfferableList_lawful [of UNIV env _ s] quest_Accept_lawful [of UNIV s env]
      Abandon_lawful [of _ _ UNIV env s] OnEvent_lawful [of s UNIV _ env] OnShipDestroyed_lawful [of s UNIV _ env] quest_closer_Tick_lawful [of s UNIV env]
    by (cases op) (simp_all add: lawfulOp_def)
qed

lemma runQuestOps_lawful: "lawful UNIV (qw_db s) (qw_db (runQuestOps ops s))"
  unfolding runQuestOps_def
  by (induction ops arbitrary: s) (auto intro: lawful.refl lawful.trans runQuestOp_lawful)

section \<open>Rewards\<close>

definition sample_quest_env :: quest_env where
  "sample_quest_env = \<lparr>qe_coll = (\<lambda>_ _. True), qe_now = 2000, qe_spawner = Some (\<lambda>_ spec. Inr [77])\<rparr>"

definition sample_quest_world :: quest_world where
  "sample_quest_world = \<lparr>qw_db = sample_db, qw_calls = []\<rparr>"

text \<open>
  C17: whatever sequence of operations the quest service runs (accepting, abandoning, listing, events,
  destroyed ships, ticks of the closer), whichever of them fail: the cash of every player changes by
  exactly the rewards of the steps that the rows of the player moved past, each paid once, and rows only
  move forward: a definition, deadline or start never changes, and a quest that was completed, failed or
  abandoned is never touched again.
\<close>

theorem quest_rewards_exact:
  assumes "quests_ok (qw_db s)"
  shows "quests_ok (qw_db (runQuestOps ops s)) \<and>
    money p (qw_db (runQuestOps ops s)) - money p (qw_db s) = paidTo p (qw_db (runQuestOps ops s)) - paidTo p (qw_db s) \<and>
    rows_grow (map_of (player_quests (qw_db s))) (map_of (player_quests (qw_db (runQuestOps ops s))))"
proof -
  have "money p (qw_db (runQuestOps ops s)) - paidTo p (qw_db (runQuestOps ops s)) = money p (qw_db s) - paidTo p (qw_db s)"
    using runQuestOps_lawful [of s ops] assms unfolding lawful_def by blast
  moreover have "quests_ok (qw_db (runQuestOps ops s))"
    "rows_grow (map_of (player_quests (qw_db s))) (map_of (player_quests (qw_db (runQuestOps ops s))))"
    using runQuestOps_lawful [of s ops] assms unfolding lawful_def by blast+
  ultimately show ?thesis by (simp add: algebra_simps)
qed

lemma sample_quests_ok: "quests_ok (qw_db sample_quest_world)"
  by (simp add: sample_quest_world_def sample_db_def quests_ok_def tbl_wf_def keys_def all_rows_def quest_row_ok_def)

theorem quest_rewards_exact_witness:
  "quests_ok (qw_db sample_quest_world) \<and>
   money 1 (qw_db (runQuestOps [(sample_quest_env, QTick)] sample_quest_world)) - money 1 (qw_db sample_quest_world) =
     paidTo 1 (qw_db (runQuestOps [(sample_quest_env, QTick)] sample_quest_world)) - paidTo 1 (qw_db sample_quest_world) \<and>
   money 1 (qw_db sample_quest_world) = 5000 \<and> money 1 (qw_db (runQuestOps [(sample_quest_env, QTick)] sample_quest_world)) = 6000"
proof (intro conjI)
  show "money 1 (qw_db (runQuestOps [(sample_quest_env, QTick)] sample_quest_world)) - money 1 (qw_db sample_quest_world) =
     paidTo 1 (qw_db (runQuestOps [(sample_quest_env, QTick)] sample_quest_world)) - paidTo 1 (qw_db sample_quest_world)"
    using quest_rewards_exact [OF sample_quests_ok, of "[(sample_quest_env, QTick)]" 1] by blast
  show "money 1 (qw_db sample_quest_world) = 5000" by code_simp
  show "money 1 (qw_db (runQuestOps [(sample_quest_env, QTick)] sample_quest_world)) = 6000" by code_simp
qed (rule sample_quests_ok)

section \<open>A step that needs its targets dead\<close>

text \<open>A quest without a deadline, at a step that asks for the death of the ships it spawned.\<close>

definition hunts :: "int \<times> string \<Rightarrow> quest_row \<Rightarrow> step \<Rightarrow> bool" where
  "hunts k r x \<longleftrightarrow> qr_status r = QuestActive \<and> qr_deadline r = None \<and>
     (\<exists>d. resolveDef (k, r) = Some d \<and> currentStep d r = Some x) \<and> stp_Kind x = StepKill \<and> stp_TargetRole x \<noteq> []"

text \<open>Operations that neither abandon it nor report the death of one of those ships.\<close>

definition spares :: "int \<times> string \<Rightarrow> quest_row \<Rightarrow> step \<Rightarrow> quest_op \<Rightarrow> bool" where
  "spares k r x op = (case op of
       QAbandon p q \<Rightarrow> (p, q) \<noteq> k
     | QDestroyed v \<Rightarrow> ref_id v \<notin> spawnedSet (decodeState (qr_state r)) (stp_TargetRole x)
     | _ \<Rightarrow> True)"

lemma hunts_idle:
  assumes "hunts k r x"
  shows "\<not> hears ev (k, r)" "loses v (k, r) \<longleftrightarrow> v \<in> spawnedSet (decodeState (qr_state r)) (stp_TargetRole x)" "lawfulOp {} (quest_advance env (k, r)) s"
proof -
  obtain d where d: "resolveDef (k, r) = Some d" "currentStep d r = Some x" using assms by (auto simp: hunts_def)
  have x: "stp_Kind x = StepKill" "stp_TargetRole x \<noteq> []" "qr_deadline r = None" "EventDriven x"
    using assms by (simp_all add: hunts_def EventDriven_def)
  have drop: "\<exists>xs. drop (nat (qr_step r)) (qd_Steps d) = x # xs"
  proof -
    have "nat (qr_step r) < length (qd_Steps d)" "x = qd_Steps d ! nat (qr_step r)"
      using d(2) by (auto simp: currentStep_def split: if_splits)
    then show ?thesis using Cons_nth_drop_Suc [of "nat (qr_step r)" "qd_Steps d"] by metis
  qed
  show "\<not> hears ev (k, r)" using d x by (simp add: hears_def)
  show "loses v (k, r) \<longleftrightarrow> v \<in> spawnedSet (decodeState (qr_state r)) (stp_TargetRole x)" using d by (simp add: loses_def)
  show "lawfulOp {} (quest_advance env (k, r)) s"
    unfolding quest_advance_def using d x drop by (auto intro!: lawfulOp_bind [OF PlayerState_lawful])
qed

lemma hunted_row:
  assumes "quests_ok (qw_db s)" "map_of (player_quests (qw_db s)) k = Some r" "hunts k r x" "spares k r x op"
  shows "map_of (player_quests (qw_db (runQuestOp (env, op) s))) k = Some r"
proof -
  have keys: "open_keys (- {k}) (qw_db s)" using assms(2) by (auto simp: open_keys_def)
  have only: "y = (k, r)" if "fresh y (qw_db s)" "fst y \<notin> - {k}" for y
    using that assms(2) by (cases y) (auto simp: fresh_def)
  note idle = hunts_idle [OF assms(3)]
  have "lawfulOp (- {k}) (quest_closer_Tick env) s"
    by (rule quest_closer_Tick_lawful) (use only idle(3) in metis)
  moreover have "lawfulOp (- {k}) (OnEvent env ev) s" for ev
    by (rule OnEvent_lawful) (use only idle(1) in metis)
  moreover have "lawfulOp (- {k}) (OnShipDestroyed env v) s" if "op = QDestroyed v" for v
  proof (rule OnShipDestroyed_lawful)
    have "\<not> loses (ref_id v) (k, r)" using assms(4) that by (simp add: idle(2) spares_def)
    then show "\<not> loses (ref_id v) y" if "fresh y (qw_db s)" "fst y \<notin> - {k}" for y using only [OF that] by simp
  qed
  moreover have "lawfulOp (- {k}) (Abandon env p q) s" if "op = QAbandon p q" for p q
    by (rule Abandon_lawful) (use assms(4) that in \<open>auto simp: spares_def\<close>)
  ultimately have "lawful (- {k}) (qw_db s) (qw_db (runQuestOp (env, op) s))"
    using ActiveList_lawful [OF keys] OfferableList_lawful [of "- {k}" env _ s] quest_Accept_lawful [OF keys]
    unfolding runQuestOp_def prod.case by (cases op) (simp_all add: lawfulOp_def)
  then show ?thesis using lawful_fixed [OF _ assms(1), of "- {k}" _ k] assms(2) by simp
qed

text \<open>
  a step that asks for the death of the ships a quest spawned ends only by their death. As long as the
  player does not abandon the quest and no further death of one of its ships is reported, no sequence of
  operations (other kills, polls, events, other quests) changes anything in the row. A ship that was lost
  before the quest reached the step was not counted, and its death is not reported twice: such a quest,
  when it has no deadline, stays active for ever.
\<close>

theorem kill_step_needs_targets:
  assumes "quests_ok (qw_db s)" "map_of (player_quests (qw_db s)) k = Some r" "hunts k r x"
    "list_all (\<lambda>(env, op). spares k r x op) ops"
  shows "map_of (player_quests (qw_db (runQuestOps ops s))) k = Some r"
  using assms
proof (induction ops arbitrary: s)
  case (Cons c ops)
  obtain env op where c: "c = (env, op)" by (cases c)
  have "map_of (player_quests (qw_db (runQuestOp (env, op) s))) k = Some r"
    using Cons.prems by (intro hunted_row [OF _ _ Cons.prems(3)]) (simp_all add: c)
  moreover have "quests_ok (qw_db (runQuestOp (env, op) s))" using runQuestOp_lawful Cons.prems(1) by (rule lawful_ok)
  ultimately show ?case using Cons.IH [of "runQuestOp (env, op) s"] Cons.prems(3,4) by (simp add: runQuestOps_def c)
qed (simp add: runQuestOps_def)

text \<open>
  The fugitive of quest \<open>xt_6008000\<close> dies between the acceptance and the first poll: the quest moves on to
  the kill, and neither polls nor deaths of other ships end it.
\<close>

definition lost_fugitive :: quest_world where
  "lost_fugitive = runQuestOps [(sample_quest_env, QAccept 1 ''xt_6008000''),
     (sample_quest_env, QDestroyed (EntityRef EntityKindShip 77)), (sample_quest_env, QTick)] sample_quest_world"

definition fugitive_row :: quest_row where
  "fugitive_row = \<lparr>qr_step = 1, qr_status = QuestActive, qr_state = Some \<lparr>qst_Progress = 0, qst_Spawned = [(''target'', [77])]\<rparr>,
     qr_deadline = None, qr_started = 1000, qr_completed = None, qr_definition = None\<rparr>"

theorem kill_step_needs_targets_witness:
  "map_of (player_quests (qw_db (runQuestOps [(sample_quest_env, QTick), (sample_quest_env, QDestroyed (EntityRef EntityKindShip 78))]
     lost_fugitive))) (1, ''xt_6008000'') = Some fugitive_row"
proof (rule kill_step_needs_targets [where x = "killRoleStep ''target'' 5000"])
  show "quests_ok (qw_db lost_fugitive)"
    unfolding lost_fugitive_def by (rule lawful_ok [OF runQuestOps_lawful sample_quests_ok])
  show "map_of (player_quests (qw_db lost_fugitive)) (1, ''xt_6008000'') = Some fugitive_row"
    by code_simp
  have "resolveDef ((1, ''xt_6008000''), fugitive_row) = Some KillFugitive" by code_simp
  moreover have "currentStep KillFugitive fugitive_row = Some (killRoleStep ''target'' 5000)" by code_simp
  ultimately show "hunts (1, ''xt_6008000'') fugitive_row (killRoleStep ''target'' 5000)"
    by (auto simp: hunts_def fugitive_row_def killRoleStep_def)
  show "list_all (\<lambda>(env, op). spares (1, ''xt_6008000'') fugitive_row (killRoleStep ''target'' 5000) op)
     [(sample_quest_env, QTick), (sample_quest_env, QDestroyed (EntityRef EntityKindShip 78))]" by code_simp
qed

section \<open>Abandoned and paid\<close>

text \<open>A player with enough cash for every step of the tutorial.\<close>

definition rich_world :: quest_world where
  "rich_world = \<lparr>qw_db = set_cash 1 20000 sample_db, qw_calls = []\<rparr>"

definition tutorial_row :: quest_row where
  "tutorial_row = \<lparr>qr_step = 0, qr_status = QuestActive, qr_state = None, qr_deadline = None, qr_started = 0, qr_completed = None, qr_definition = None\<rparr>"


end
