(* ===== verification/QuestGen.thy ===== *)
theory QuestGen
  imports QuestRepo TradeRepo Domain World
begin

text \<open>
  \<open>internal/quest/gen\<close>: procedural quests. The generator looks for sectors a few jumps away, reads the
  markets there, and fills one of four templates; what it offers can be done. The gate router is an
  argument \<open>hops\<close>, which the theorems instantiate by \<open>PathRouter.Hops\<close> of theory \<open>World\<close>; texts are left out.
\<close>

section \<open>The random source\<close>

text \<open>\<open>rand.Rand.Intn\<close>: the numbers still to be drawn, each reduced to the range asked for.\<close>

type_synonym dice = "nat \<Rightarrow> int"

definition Intn :: "int \<Rightarrow> dice \<Rightarrow> int \<times> dice" where
  "Intn n r = (r 0 mod n, \<lambda>k. r (Suc k))"

definition randRange :: "int \<Rightarrow> int \<Rightarrow> dice \<Rightarrow> int \<times> dice" where
  "randRange minVal maxVal r =
     (if maxVal \<le> minVal then (minVal, r) else (let (v, r) = Intn (maxVal - minVal + 1) r in (minVal + v, r)))"

text \<open>\<open>xs[rng.Intn(len(xs))]\<close>\<close>

definition pick :: "'a list \<Rightarrow> dice \<Rightarrow> 'a \<times> dice" where
  "pick xs r = (let (i, r) = Intn (int (length xs)) r in (xs ! nat i, r))"

lemma Intn_range: "0 < n \<Longrightarrow> Intn n r = (v, r') \<Longrightarrow> 0 \<le> v \<and> v < n"
  by (auto simp: Intn_def)

lemma randRange_range: "randRange a b r = (v, r') \<Longrightarrow> a \<le> v \<and> v \<le> max a b"
  by (auto simp: randRange_def dest: Intn_range [rotated] split: if_splits prod.splits)

lemma pick_in: "xs \<noteq> [] \<Longrightarrow> pick xs r = (x, r') \<Longrightarrow> x \<in> set xs"
  by (auto simp: pick_def nat_less_iff dest!: Intn_range [rotated] split: prod.splits intro!: nth_mem)

lemma pick_sort: "xs \<noteq> [] \<Longrightarrow> pick (sort xs) r = (x, r') \<Longrightarrow> x \<in> set xs"
  using pick_in [of "sort xs" r x r'] by (metis length_0_conv length_sort set_sort)

section \<open>Data\<close>

abbreviation (input) TemplateDeliver :: string where "TemplateDeliver \<equiv> ''deliver''"
abbreviation (input) TemplateTrade :: string where "TemplateTrade \<equiv> ''trade''"
abbreviation (input) TemplateKill :: string where "TemplateKill \<equiv> ''kill''"
abbreviation (input) TemplateCourier :: string where "TemplateCourier \<equiv> ''courier''"

abbreviation (input) deliverQtyMin :: int where "deliverQtyMin \<equiv> 5"
abbreviation (input) deliverQtyMax :: int where "deliverQtyMax \<equiv> 15"
abbreviation (input) tradeQtyMin :: int where "tradeQtyMin \<equiv> 5"
abbreviation (input) tradeQtyMax :: int where "tradeQtyMax \<equiv> 15"
abbreviation (input) killCountMin :: int where "killCountMin \<equiv> 2"
abbreviation (input) killCountMax :: int where "killCountMax \<equiv> 4"

record market_listing =
  ml_Station :: entity_ref
  ml_Sector :: int
  ml_Goods :: int
  ml_CanBuy :: bool
  ml_CanSell :: bool

record gen_config =
  gc_TargetRadius :: int
  gc_GoodsRadius :: int
  gc_RewardBase :: int
  gc_RewardPerHop :: int
  gc_RewardPerUnit :: int
  gc_RewardPerEnemy :: int

record generator =
  gn_hops :: "int \<Rightarrow> int \<Rightarrow> int \<times> bool"
  gn_statics :: "(int, sector_statics) table"
  gn_cfg :: gen_config

text \<open>The dockable objects of a sector, stations first.\<close>

definition dockablesOf :: "(int, sector_statics) table \<Rightarrow> int \<Rightarrow> entity_ref list" where
  "dockablesOf statics s = (case map_of statics s of None \<Rightarrow> []
     | Some st \<Rightarrow> map (\<lambda>x. EntityRef EntityKindStation (so_ID x)) (Stations st) @
         map (\<lambda>x. EntityRef EntityKindTradeStation (so_ID x)) (TradeStations st))"

section \<open>The market\<close>

definition ownerSector :: "(int, sector_statics) table \<Rightarrow> int list \<Rightarrow> (entity_ref, int) table" where
  "ownerSector statics sectors = fold (\<lambda>s. fold (\<lambda>ref. AList.update ref s) (dockablesOf statics s)) sectors []"

definition listingOf :: "(entity_ref, int) table \<Rightarrow> market_entry \<Rightarrow> market_listing option" where
  "listingOf owners e = (case map_of owners (me_owner e) of
       None \<Rightarrow> None
     | Some s \<Rightarrow> Some \<lparr>ml_Station = me_owner e, ml_Sector = s, ml_Goods = me_goods e,
         ml_CanBuy = (me_sell e \<noteq> None \<and> 0 < me_stock e), ml_CanSell = (me_buy e \<noteq> None)\<rparr>)"

definition Listings :: "(int, sector_statics) table \<Rightarrow> int list \<Rightarrow> market_listing list dbm" where
  "Listings statics sectors =
     (let owners = concat (map (dockablesOf statics) sectors) in
      if owners = [] then returnM []
      else bindM (ListMarketsByOwners owners) (\<lambda>entries.
        returnM (List.map_filter (listingOf (ownerSector statics sectors)) entries)))"

section \<open>Targets\<close>

definition reachableSectors :: "generator \<Rightarrow> int \<Rightarrow> int \<Rightarrow> int list" where
  "reachableSectors g from radius = sort (filter (\<lambda>s. case gn_hops g from s of (hops, ok) \<Rightarrow> ok \<and> 1 \<le> hops \<and> hops \<le> radius)
     (map fst (gn_statics g)))"

type_synonym station_target = "entity_ref \<times> int"

definition dockableTargets :: "generator \<Rightarrow> int list \<Rightarrow> station_target list" where
  "dockableTargets g sectors =
     sort_key (\<lambda>(ref, _). ref_kind ref) (sort_key (\<lambda>(ref, _). ref_id ref)
       (concat (map (\<lambda>s. map (\<lambda>ref. (ref, s)) (dockablesOf (gn_statics g) s)) sectors)))"

text \<open>Listings by good: \<open>m[l.Goods] = append(m[l.Goods], l)\<close>.\<close>

type_synonym points = "(int, market_listing list) table"

definition pointsAt :: "points \<Rightarrow> int \<Rightarrow> market_listing list" where
  "pointsAt m good = (case map_of m good of None \<Rightarrow> [] | Some ls \<Rightarrow> ls)"

definition addPoint :: "market_listing \<Rightarrow> points \<Rightarrow> points" where
  "addPoint l m = AList.update (ml_Goods l) (pointsAt m (ml_Goods l) @ [l]) m"

definition buyPoints :: "market_listing list \<Rightarrow> points" where
  "buyPoints ls = fold addPoint (filter ml_CanBuy ls) []"

definition sellPoints :: "int list \<Rightarrow> market_listing list \<Rightarrow> points" where
  "sellPoints targets ls = fold addPoint (filter (\<lambda>l. ml_CanSell l \<and> ml_Sector l \<in> set targets) ls) []"

definition hasTradePair :: "points \<Rightarrow> points \<Rightarrow> bool" where
  "hasTradePair buy sell = list_ex (\<lambda>(good, _). pointsAt sell good \<noteq> []) buy"

section \<open>The templates\<close>

definition gen_reward :: "generator \<Rightarrow> int \<Rightarrow> int \<Rightarrow> int \<Rightarrow> int" where
  "gen_reward g hops qty enemies =
     (let c = gn_cfg g;
          r = wrap64 (wrap64 (wrap64 (gc_RewardBase c + wrap64 (gc_RewardPerHop c * hops)) + wrap64 (gc_RewardPerUnit c * qty)) + wrap64 (gc_RewardPerEnemy c * enemies))
      in if r < gc_RewardBase c then gc_RewardBase c else r)"

definition gen_hops :: "generator \<Rightarrow> int \<Rightarrow> int \<Rightarrow> int" where
  "gen_hops g from to = fst (gn_hops g from to)"

definition pickGood :: "points \<Rightarrow> dice \<Rightarrow> int \<times> dice" where
  "pickGood m r = pick (sort (map fst m)) r"

definition pickTradeGood :: "points \<Rightarrow> points \<Rightarrow> dice \<Rightarrow> int \<times> dice" where
  "pickTradeGood buy sell r = pick (sort (filter (\<lambda>k. pointsAt sell k \<noteq> []) (map fst buy))) r"

definition proc_def :: "string \<Rightarrow> step list \<Rightarrow> quest_def" where
  "proc_def i steps = \<lparr>qd_ID = i, qd_Steps = steps, qd_Prerequisite = [], qd_Deadline = 0, qd_Offerable = True, qd_Spawns = []\<rparr>"

definition buildDeliver :: "generator \<Rightarrow> int \<Rightarrow> points \<Rightarrow> station_target list \<Rightarrow> dice \<Rightarrow> quest_def \<times> dice" where
  "buildDeliver g from buy dockables r =
     (let (good, r) = pickGood buy r;
          (qty, r) = randRange deliverQtyMin deliverQtyMax r;
          ((ref, sector), r) = pick dockables r;
          reward = gen_reward g (gen_hops g from sector) qty 0
      in (proc_def TemplateDeliver
            [zeroStep\<lparr>stp_Kind := StepAcquireCargo, stp_Qty := qty, stp_Goods := good\<rparr>,
             zeroStep\<lparr>stp_Kind := StepDeliver, stp_Goods := good, stp_Count := qty, stp_Target := ref, stp_RewardCash := reward\<rparr>], r))"

definition buildTrade :: "generator \<Rightarrow> int \<Rightarrow> points \<Rightarrow> points \<Rightarrow> dice \<Rightarrow> quest_def \<times> dice" where
  "buildTrade g from buy sell r =
     (let (good, r) = pickTradeGood buy sell r;
          (qty, r) = randRange tradeQtyMin tradeQtyMax r;
          (dest, r) = pick (pointsAt sell good) r;
          reward = gen_reward g (gen_hops g from (ml_Sector dest)) qty 0
      in (proc_def TemplateTrade
            [zeroStep\<lparr>stp_Kind := StepTrade, stp_Side := ''buy'', stp_Goods := good, stp_Count := qty\<rparr>,
             zeroStep\<lparr>stp_Kind := StepGotoSector, stp_Sector := ml_Sector dest\<rparr>,
             zeroStep\<lparr>stp_Kind := StepTrade, stp_Side := ''sell'', stp_Goods := good, stp_Count := qty, stp_RewardCash := reward\<rparr>], r))"

definition buildKill :: "generator \<Rightarrow> int \<Rightarrow> int list \<Rightarrow> dice \<Rightarrow> quest_def \<times> dice" where
  "buildKill g from targets r =
     (let (dest, r) = pick targets r;
          (n, r) = randRange killCountMin killCountMax r;
          reward = gen_reward g (gen_hops g from dest) 0 n
      in (proc_def TemplateKill
            [zeroStep\<lparr>stp_Kind := StepGotoSector, stp_Sector := dest\<rparr>,
             zeroStep\<lparr>stp_Kind := StepKill, stp_Count := n, stp_RewardCash := reward\<rparr>], r))"

definition buildCourier :: "generator \<Rightarrow> int \<Rightarrow> station_target list \<Rightarrow> dice \<Rightarrow> quest_def \<times> dice" where
  "buildCourier g from dockables r =
     (let ((ref, sector), r) = pick dockables r;
          reward = gen_reward g (gen_hops g from sector) 0 0
      in (proc_def TemplateCourier
            [zeroStep\<lparr>stp_Kind := StepGotoSector, stp_Sector := sector\<rparr>,
             zeroStep\<lparr>stp_Kind := StepDockAt, stp_Target := ref, stp_RewardCash := reward\<rparr>], r))"

section \<open>Generation\<close>

text \<open>The choice of a template and its instance, from the targets and what the markets list.\<close>

definition instantiate_template :: "generator \<Rightarrow> int \<Rightarrow> int list \<Rightarrow> market_listing list \<Rightarrow> dice \<Rightarrow> (string \<times> quest_def) \<times> dice" where
  "instantiate_template g from targets ls r =
     (let buy = buyPoints ls; sell = sellPoints targets ls; dockables = dockableTargets g targets;
          feasible = (if buy \<noteq> [] \<and> dockables \<noteq> [] then [TemplateDeliver] else []) @
            (if hasTradePair buy sell then [TemplateTrade] else []) @ [TemplateKill] @
            (if dockables \<noteq> [] then [TemplateCourier] else []);
          (kind, r) = pick feasible r;
          (d, r) = (if kind = TemplateDeliver then buildDeliver g from buy dockables r
            else if kind = TemplateTrade then buildTrade g from buy sell r
            else if kind = TemplateCourier then buildCourier g from dockables r
            else buildKill g from targets r)
      in ((kind, d), r))"

definition Generate :: "generator \<Rightarrow> int \<Rightarrow> dice \<Rightarrow> ((string \<times> quest_def) option \<times> dice) dbm" where
  "Generate g from r =
     (let targets = reachableSectors g from (gc_TargetRadius (gn_cfg g)) in
      if targets = [] then returnM (None, r)
      else bindM (Listings (gn_statics g) (reachableSectors g from (gc_GoodsRadius (gn_cfg g)))) (\<lambda>ls.
        returnM (case instantiate_template g from targets ls r of (kd, r) \<Rightarrow> (Some kd, r))))"

section \<open>What is on offer can be done\<close>

lemma fold_addPoint:
  "set (pointsAt (fold addPoint ls m) good) = set (pointsAt m good) \<union> {l \<in> set ls. ml_Goods l = good}"
proof (induction ls arbitrary: m)
  case (Cons l ls)
  show ?case unfolding fold.simps comp_apply Cons.IH
    by (auto simp: addPoint_def pointsAt_def)
qed simp

lemma fold_addPoint_keys: "fst ` set (fold addPoint ls m) = fst ` set m \<union> ml_Goods ` set ls"
proof (induction ls arbitrary: m)
  case (Cons l ls)
  show ?case unfolding fold.simps comp_apply Cons.IH
    by (auto simp: addPoint_def dom_update [simplified])
qed simp

lemma pointsAt_Nil [simp]: "pointsAt [] good = []"
  by (simp add: pointsAt_def)

lemma buyPoints_at: "set (pointsAt (buyPoints ls) good) = {l \<in> set ls. ml_CanBuy l \<and> ml_Goods l = good}"
  by (auto simp: buyPoints_def fold_addPoint)

lemma buyPoints_keys: "fst ` set (buyPoints ls) = ml_Goods ` {l \<in> set ls. ml_CanBuy l}"
  by (auto simp: buyPoints_def fold_addPoint_keys)

lemma sellPoints_at: "set (pointsAt (sellPoints targets ls) good) = {l \<in> set ls. ml_CanSell l \<and> ml_Sector l \<in> set targets \<and> ml_Goods l = good}"
  by (auto simp: sellPoints_def fold_addPoint)

lemma dockableTargets_set: "(ref, s) \<in> set (dockableTargets g sectors) \<longleftrightarrow> s \<in> set sectors \<and> ref \<in> set (dockablesOf (gn_statics g) s)"
  by (auto simp: dockableTargets_def)

lemma reachableSectors_set:
  "s \<in> set (reachableSectors g from R) \<longleftrightarrow> s \<in> fst ` set (gn_statics g) \<and> (\<exists>h. gn_hops g from s = (h, True) \<and> 1 \<le> h \<and> h \<le> R)"
  by (auto simp: reachableSectors_def split: prod.splits)

lemma fold_owner:
  "map_of (fold (\<lambda>ref. AList.update ref s) refs m) ref = (if ref \<in> set refs then Some s else map_of m ref)"
  by (induction refs arbitrary: m) auto

lemma ownerSector_Some:
  assumes "map_of (ownerSector statics sectors) ref = Some s"
  shows "s \<in> set sectors \<and> ref \<in> set (dockablesOf statics s)"
proof -
  have "map_of m ref = Some s \<or> s \<in> set sectors \<and> ref \<in> set (dockablesOf statics s)"
    if "map_of (fold (\<lambda>s. fold (\<lambda>ref. AList.update ref s) (dockablesOf statics s)) sectors m) ref = Some s" for m
    using that
  proof (induction sectors arbitrary: m)
    case (Cons a sectors)
    from Cons.IH [OF Cons.prems [unfolded fold.simps comp_apply]] show ?case by (auto simp: fold_owner split: if_splits)
  qed simp
  from this [OF assms [unfolded ownerSector_def]] show ?thesis by simp
qed

text \<open>A station that has the good in stock at a price, and one that takes it.\<close>

definition sells :: "db \<Rightarrow> entity_ref \<Rightarrow> int \<Rightarrow> bool" where
  "sells s ref good \<longleftrightarrow> (\<exists>r. ((ref, good), r) \<in> set (station_goods s) \<and> mk_sell r \<noteq> None \<and> 0 < mk_stock r)"

definition buys :: "db \<Rightarrow> entity_ref \<Rightarrow> int \<Rightarrow> bool" where
  "buys s ref good \<longleftrightarrow> (\<exists>r. ((ref, good), r) \<in> set (station_goods s) \<and> mk_buy r \<noteq> None)"

lemma set_map_filter: "y \<in> set (List.map_filter f xs) \<longleftrightarrow> (\<exists>x\<in>set xs. f x = Some y)"
  by (induction xs) (auto simp: map_filter_simps split: option.splits)

lemma Listings_ok:
  assumes "Listings statics sectors s = (Inr ls, s')"
  shows "s' = s"
    and "l \<in> set ls \<Longrightarrow> ml_Sector l \<in> set sectors \<and> ml_Station l \<in> set (dockablesOf statics (ml_Sector l)) \<and>
      (ml_CanBuy l \<longrightarrow> sells s (ml_Station l) (ml_Goods l)) \<and> (ml_CanSell l \<longrightarrow> buys s (ml_Station l) (ml_Goods l))"
proof -
  show "s' = s"
    using assms by (auto simp: Listings_def ListMarketsByOwners_def Let_def run_simps split: if_splits)
  assume l: "l \<in> set ls"
  with assms have "\<exists>ref good r. ((ref, good), r) \<in> set (station_goods s) \<and> listingOf (ownerSector statics sectors) (entry_of ref good r) = Some l"
    by (auto simp: Listings_def ListMarketsByOwners_def Let_def run_simps set_map_filter split: if_splits)
  then obtain ref good r where r: "((ref, good), r) \<in> set (station_goods s)" and "listingOf (ownerSector statics sectors) (entry_of ref good r) = Some l"
    by blast
  then have "map_of (ownerSector statics sectors) ref = Some (ml_Sector l)" "ml_Station l = ref" "ml_Goods l = good"
      "ml_CanBuy l \<longleftrightarrow> mk_sell r \<noteq> None \<and> 0 < mk_stock r" "ml_CanSell l \<longleftrightarrow> mk_buy r \<noteq> None"
    by (auto simp: listingOf_def entry_of_def split: option.splits)
  then show "ml_Sector l \<in> set sectors \<and> ml_Station l \<in> set (dockablesOf statics (ml_Sector l)) \<and>
      (ml_CanBuy l \<longrightarrow> sells s (ml_Station l) (ml_Goods l)) \<and> (ml_CanSell l \<longrightarrow> buys s (ml_Station l) (ml_Goods l))"
    using r ownerSector_Some by (auto simp: sells_def buys_def)
qed

text \<open>
  What a step asks for is there: sectors to go to and stations to dock at or deliver to in a target sector,
  the good for sale in a market sector, a buyer for it in a target sector.
\<close>

definition berth :: "(int \<Rightarrow> bool) \<Rightarrow> (int, sector_statics) table \<Rightarrow> entity_ref \<Rightarrow> bool" where
  "berth target statics ref \<longleftrightarrow> (\<exists>sec. target sec \<and> ref \<in> set (dockablesOf statics sec))"

definition for_sale :: "(int \<Rightarrow> bool) \<Rightarrow> (int, sector_statics) table \<Rightarrow> db \<Rightarrow> int \<Rightarrow> bool" where
  "for_sale market statics s good \<longleftrightarrow> (\<exists>sec ref. market sec \<and> ref \<in> set (dockablesOf statics sec) \<and> sells s ref good)"

definition wanted :: "(int \<Rightarrow> bool) \<Rightarrow> (int, sector_statics) table \<Rightarrow> db \<Rightarrow> int \<Rightarrow> bool" where
  "wanted target statics s good \<longleftrightarrow> (\<exists>sec ref. target sec \<and> ref \<in> set (dockablesOf statics sec) \<and> buys s ref good)"

definition doable :: "(int \<Rightarrow> bool) \<Rightarrow> (int \<Rightarrow> bool) \<Rightarrow> (int, sector_statics) table \<Rightarrow> db \<Rightarrow> step \<Rightarrow> bool" where
  "doable target market statics s x \<longleftrightarrow>
     (if stp_Kind x = StepGotoSector then target (stp_Sector x)
      else if stp_Kind x = StepDockAt then berth target statics (stp_Target x)
      else if stp_Kind x = StepDeliver then
        berth target statics (stp_Target x) \<and> 5 \<le> stp_Count x \<and> stp_Count x \<le> 15 \<and> for_sale market statics s (stp_Goods x)
      else if stp_Kind x = StepAcquireCargo then for_sale market statics s (stp_Goods x)
      else if stp_Kind x = StepTrade \<and> stp_Side x = ''buy'' then 5 \<le> stp_Count x \<and> stp_Count x \<le> 15 \<and> for_sale market statics s (stp_Goods x)
      else if stp_Kind x = StepTrade \<and> stp_Side x = ''sell'' then 5 \<le> stp_Count x \<and> stp_Count x \<le> 15 \<and> wanted target statics s (stp_Goods x)
      else stp_Kind x = StepKill \<and> stp_TargetRole x = [] \<and> 2 \<le> stp_Count x \<and> stp_Count x \<le> 4)"

lemma doable_mono:
  assumes "doable T M statics s x" "\<And>a. T a \<Longrightarrow> T' a" "\<And>a. M a \<Longrightarrow> M' a"
  shows "doable T' M' statics s x"
proof -
  have "berth T statics ref \<Longrightarrow> berth T' statics ref" "for_sale M statics s good \<Longrightarrow> for_sale M' statics s good"
    "wanted T statics s good \<Longrightarrow> wanted T' statics s good" for ref good
    unfolding berth_def for_sale_def wanted_def using assms(2,3) by blast+
  with assms show ?thesis unfolding doable_def by (simp split: if_splits)
qed

text \<open>One instance of a template: its steps can be done, and the reward is on the last one and at least the base.\<close>

definition worthwhile :: "generator \<Rightarrow> quest_def \<Rightarrow> bool" where
  "worthwhile g d \<longleftrightarrow> qd_Steps d \<noteq> [] \<and> list_all (\<lambda>x. stp_RewardCash x = 0) (butlast (qd_Steps d)) \<and>
     gc_RewardBase (gn_cfg g) \<le> stp_RewardCash (last (qd_Steps d)) \<and> qd_Offerable d \<and> qd_Spawns d = [] \<and> qd_Deadline d = 0"

lemma gen_reward_base: "gc_RewardBase (gn_cfg g) \<le> gen_reward g h n e"
  by (simp add: gen_reward_def Let_def)

lemma buildKill_ok:
  assumes "buildKill g from targets r = (d, r')" "targets \<noteq> []"
  shows "worthwhile g d \<and> qd_ID d = TemplateKill \<and> list_all (doable (\<lambda>a. a \<in> set targets) M statics s) (qd_Steps d)"
  using assms
  by (auto simp: buildKill_def worthwhile_def proc_def_def zeroStep_def gen_reward_base doable_def Let_def
      dest!: pick_in [rotated] randRange_range split: prod.splits)

lemma buildCourier_ok:
  assumes "buildCourier g from (dockableTargets g targets) r = (d, r')" "dockableTargets g targets \<noteq> []"
  shows "worthwhile g d \<and> qd_ID d = TemplateCourier \<and> list_all (doable (\<lambda>a. a \<in> set targets) M (gn_statics g) s) (qd_Steps d)"
proof -
  obtain ref sec r1 where 1: "pick (dockableTargets g targets) r = ((ref, sec), r1)" by (metis surj_pair)
  have sec: "sec \<in> set targets" "berth (\<lambda>a. a \<in> set targets) (gn_statics g) ref"
    using pick_in [OF assms(2) 1] unfolding berth_def dockableTargets_set by blast+
  show ?thesis
    using assms(1) sec unfolding buildCourier_def 1 Let_def prod.case
    by (auto simp: worthwhile_def proc_def_def zeroStep_def gen_reward_base doable_def)
qed

text \<open>What the listings of the market sectors guarantee.\<close>

definition listed :: "(int, sector_statics) table \<Rightarrow> int list \<Rightarrow> db \<Rightarrow> market_listing list \<Rightarrow> bool" where
  "listed statics sectors s ls \<longleftrightarrow> (\<forall>l\<in>set ls. ml_Sector l \<in> set sectors \<and> ml_Station l \<in> set (dockablesOf statics (ml_Sector l)) \<and>
      (ml_CanBuy l \<longrightarrow> sells s (ml_Station l) (ml_Goods l)) \<and> (ml_CanSell l \<longrightarrow> buys s (ml_Station l) (ml_Goods l)))"

lemma listed_sells: "listed statics sectors s ls \<Longrightarrow> good \<in> fst ` set (buyPoints ls) \<Longrightarrow> for_sale (\<lambda>a. a \<in> set sectors) statics s good"
  unfolding buyPoints_keys listed_def for_sale_def by blast

lemma listed_buys: "listed statics sectors s ls \<Longrightarrow> l \<in> set (pointsAt (sellPoints targets ls) good) \<Longrightarrow>
    ml_Sector l \<in> set targets \<and> wanted (\<lambda>a. a \<in> set targets) statics s good"
  unfolding sellPoints_at listed_def wanted_def by blast

lemma buildDeliver_ok:
  assumes "buildDeliver g from (buyPoints ls) (dockableTargets g targets) r = (d, r')" "dockableTargets g targets \<noteq> []" "buyPoints ls \<noteq> []"
    "listed (gn_statics g) sectors s ls"
  shows "worthwhile g d \<and> qd_ID d = TemplateDeliver \<and>
    list_all (doable (\<lambda>a. a \<in> set targets) (\<lambda>a. a \<in> set sectors) (gn_statics g) s) (qd_Steps d)"
proof -
  obtain good r1 where 1: "pickGood (buyPoints ls) r = (good, r1)" by fastforce
  obtain qty r2 where 2: "randRange deliverQtyMin deliverQtyMax r1 = (qty, r2)" by fastforce
  obtain ref sec r3 where 3: "pick (dockableTargets g targets) r2 = ((ref, sec), r3)" by (metis surj_pair)
  have "good \<in> fst ` set (buyPoints ls)" using 1 assms(3) pick_sort [of "map fst (buyPoints ls)" r good r1] by (simp add: pickGood_def)
  note good = listed_sells [OF assms(4) this]
  have drop: "berth (\<lambda>a. a \<in> set targets) (gn_statics g) ref" using pick_in [OF assms(2) 3] unfolding berth_def dockableTargets_set by blast
  have qty: "5 \<le> qty \<and> qty \<le> 15" using randRange_range [OF 2] by simp
  show ?thesis
    using assms(1) good drop qty unfolding buildDeliver_def 1 2 3 Let_def prod.case
    by (auto simp: worthwhile_def proc_def_def zeroStep_def gen_reward_base doable_def)
qed

lemma buildTrade_ok:
  assumes "buildTrade g from (buyPoints ls) (sellPoints targets ls) r = (d, r')" "hasTradePair (buyPoints ls) (sellPoints targets ls)"
    "listed (gn_statics g) sectors s ls"
  shows "worthwhile g d \<and> qd_ID d = TemplateTrade \<and>
    list_all (doable (\<lambda>a. a \<in> set targets) (\<lambda>a. a \<in> set sectors) (gn_statics g) s) (qd_Steps d)"
proof -
  let ?goods = "filter (\<lambda>k. pointsAt (sellPoints targets ls) k \<noteq> []) (map fst (buyPoints ls))"
  obtain good r1 where 1: "pickTradeGood (buyPoints ls) (sellPoints targets ls) r = (good, r1)" by fastforce
  obtain qty r2 where 2: "randRange tradeQtyMin tradeQtyMax r1 = (qty, r2)" by fastforce
  obtain dest r3 where 3: "pick (pointsAt (sellPoints targets ls) good) r2 = (dest, r3)" by fastforce
  have "?goods \<noteq> []" using assms(2) by (force simp: hasTradePair_def list_ex_iff filter_empty_conv)
  then have good: "good \<in> set ?goods" using 1 pick_sort [of ?goods r good r1] by (simp add: pickTradeGood_def)
  then have "good \<in> fst ` set (buyPoints ls)" by auto
  note buy = listed_sells [OF assms(3) this]
  have "dest \<in> set (pointsAt (sellPoints targets ls) good)" using good by (intro pick_in [OF _ 3]) simp
  note sell = listed_buys [OF assms(3) this]
  have qty: "5 \<le> qty \<and> qty \<le> 15" using randRange_range [OF 2] by simp
  show ?thesis
    using assms(1) buy sell qty unfolding buildTrade_def 1 2 3 Let_def prod.case
    by (auto simp: worthwhile_def proc_def_def zeroStep_def gen_reward_base doable_def)
qed

lemma instantiate_template_ok:
  assumes "instantiate_template g from targets ls r = ((kind, d), r')" "targets \<noteq> []" "listed (gn_statics g) sectors s ls"
  shows "worthwhile g d \<and> qd_ID d = kind \<and>
    list_all (doable (\<lambda>a. a \<in> set targets) (\<lambda>a. a \<in> set sectors) (gn_statics g) s) (qd_Steps d)"
proof -
  let ?buy = "buyPoints ls" and ?sell = "sellPoints targets ls" and ?dock = "dockableTargets g targets"
  let ?feasible = "(if ?buy \<noteq> [] \<and> ?dock \<noteq> [] then [TemplateDeliver] else []) @ (if hasTradePair ?buy ?sell then [TemplateTrade] else []) @
    [TemplateKill] @ (if ?dock \<noteq> [] then [TemplateCourier] else [])"
  obtain k r1 where k: "pick ?feasible r = (k, r1)" by fastforce
  have mem: "k \<in> set ?feasible" by (rule pick_in [OF _ k]) simp
  have "k = kind" and built: "(if k = TemplateDeliver then buildDeliver g from ?buy ?dock r1
      else if k = TemplateTrade then buildTrade g from ?buy ?sell r1
      else if k = TemplateCourier then buildCourier g from ?dock r1 else buildKill g from targets r1) = (d, r')"
    using assms(1) k unfolding instantiate_template_def Let_def by (auto split: prod.splits)
  with mem assms(2,3) show ?thesis
    using buildDeliver_ok [of g "from" ls targets r1 d r' sectors s] buildTrade_ok [of g "from" ls targets r1 d r' sectors s]
      buildCourier_ok [of g "from" targets r1 d r' "\<lambda>a. a \<in> set sectors" s] buildKill_ok [of g "from" targets r1 d r' "\<lambda>a. a \<in> set sectors" "gn_statics g" s]
    by (auto split: if_splits)
qed

text \<open>Sectors between one jump and \<open>R\<close> jumps away over live gates.\<close>

definition in_reach :: "topology \<Rightarrow> int list \<Rightarrow> int \<Rightarrow> int \<Rightarrow> int \<Rightarrow> bool" where
  "in_reach t excluded from R sec \<longleftrightarrow> (\<exists>n. route t excluded n from sec \<and> 1 \<le> n \<and> int n \<le> R)"

lemma reachable_within:
  assumes "gn_hops g = (\<lambda>a b. fst (Hops rank t a b rt))" "router_states t rt" "sec \<in> set (reachableSectors g from R)"
  shows "in_reach t (pr_excluded rt) from R sec"
proof -
  obtain h where h: "fst (Hops rank t from sec rt) = (h, True)" "1 \<le> h" "h \<le> R"
    using assms(1,3) by (auto simp: reachableSectors_set)
  then have "from \<noteq> sec" "\<not> isExcluded rt from" by (auto simp: Hops_def split: if_splits)
  then have "route t (pr_excluded rt) (nat h) from sec" using hops_shortest [OF assms(2)] h(1) by blast
  then show ?thesis using h by (auto simp: in_reach_def)
qed

text \<open>Without an error there is an offer exactly when some target sector is in reach.\<close>

lemma Listings_total: "\<not> tx_aborted s \<Longrightarrow> \<exists>ls. Listings statics sectors s = (Inr ls, s)"
  by (cases "concat (map (dockablesOf statics) sectors) = []")
    (simp_all add: Listings_def ListMarketsByOwners_def Let_def bindM_def query_live returnM_def del: concat_eq_Nil_conv)

lemma Generate_offers:
  assumes "\<not> tx_aborted s"
  shows "(\<exists>kd r'. Generate g from r s = (Inr (Some kd, r'), s)) \<longleftrightarrow> reachableSectors g from (gc_TargetRadius (gn_cfg g)) \<noteq> []"
proof -
  obtain ls where "Listings (gn_statics g) (reachableSectors g from (gc_GoodsRadius (gn_cfg g))) s = (Inr ls, s)"
    using Listings_total [OF assms] by blast
  then show ?thesis by (auto simp: Generate_def Let_def bindM_def returnM_def split: prod.split)
qed

lemma Generate_Some:
  assumes "Generate g from r s = (Inr (Some (kind, d), r'), s')"
  shows "\<exists>ls. reachableSectors g from (gc_TargetRadius (gn_cfg g)) \<noteq> [] \<and>
    Listings (gn_statics g) (reachableSectors g from (gc_GoodsRadius (gn_cfg g))) s = (Inr ls, s') \<and>
    instantiate_template g from (reachableSectors g from (gc_TargetRadius (gn_cfg g))) ls r = ((kind, d), r')"
proof -
  have T: "reachableSectors g from (gc_TargetRadius (gn_cfg g)) \<noteq> []"
    using assms by (auto simp: Generate_def Let_def run_simps split: if_splits)
  with assms obtain ls where ls: "Listings (gn_statics g) (reachableSectors g from (gc_GoodsRadius (gn_cfg g))) s = (Inr ls, s')"
    and "(Inr (case instantiate_template g from (reachableSectors g from (gc_TargetRadius (gn_cfg g))) ls r of (kd, r) \<Rightarrow> (Some kd, r)) :: err + _) = Inr (Some (kind, d), r')"
    by (fastforce simp: Generate_def Let_def bindM_ok returnM_run)
  then show ?thesis using T by (cases "instantiate_template g from (reachableSectors g from (gc_TargetRadius (gn_cfg g))) ls r") auto
qed


text \<open>Player in sector 1 of the sample topology; station 20 of the sample database lies in sector 2.\<close>

definition sample_statics :: sector_statics where
  "sample_statics = \<lparr>Stations = [\<lparr>so_ID = 20, so_OwnerID = None, so_Type = 7, so_SectorID = 2, so_Pos = \<lparr>vX = Fin 0, vY = Fin 0\<rparr>, so_HP = 1000,
       so_Shield = 100, so_MaxShield = 100, so_ShieldRecharge = 1, so_Race = 0, so_Built = True\<rparr>],
     Shipyards = [], TradeStations = [], Pirbases = [], LaserTowers = [], Satellites = [], Jammers = []\<rparr>"

definition sample_generator :: generator where
  "sample_generator = \<lparr>gn_hops = (\<lambda>a b. fst (Hops (\<lambda>_ x. x) sample_topology a b (NewPathRouter sample_topology []))),
     gn_statics = [(2, sample_statics)], gn_cfg = \<lparr>gc_TargetRadius = 3, gc_GoodsRadius = 5, gc_RewardBase = 1000, gc_RewardPerHop = 200,
       gc_RewardPerUnit = 10, gc_RewardPerEnemy = 500\<rparr>\<rparr>"


end
