(* ===== verification/QuestPacer.thy ===== *)
theory QuestPacer
  imports QuestGen Quests
begin

text \<open>
  \<open>internal/quest/pacer\<close>: docks and jumps of a player turn into offers, one per randomised interval and at
  most so many at a time. The three random sources, the topic of offers and the clock of one trigger are
  part of the state; the mutex of the pacer makes each trigger one step.
\<close>

section \<open>State\<close>

record pacer_config =
  pc_DocksMin :: int
  pc_DocksMax :: int
  pc_JumpsMin :: int
  pc_JumpsMax :: int
  pc_MaxPendingOffers :: int
  pc_StoryShare :: float64
  pc_OfferTTL :: int

datatype triggerKind = triggerDock | triggerJump

record offer_event =
  oe_Player :: int
  oe_OfferID :: int
  oe_Source :: string
  oe_Expires :: int
  oe_RewardCash :: int

record pacer_world =
  pw_db :: db
  pw_dice :: dice
  pw_coins :: "nat \<Rightarrow> float64"
  pw_genDice :: dice
  pw_storyDice :: dice
  pw_published :: "offer_event list"

type_synonym 'a pm = "(pacer_world, err, 'a) comp"

record pacer =
  pp_cfg :: pacer_config
  pp_generator :: generator
  pp_now :: int
  pp_publish :: "offer_event \<Rightarrow> bool"

definition atDb :: "'a dbm \<Rightarrow> 'a pm" where
  "atDb m = (\<lambda>s. case m (pw_db s) of (r, d) \<Rightarrow> (r, s\<lparr>pw_db := d\<rparr>))"

definition rollDice :: "(dice \<Rightarrow> 'a \<times> dice) \<Rightarrow> 'a pm" where
  "rollDice f = (\<lambda>s. case f (pw_dice s) of (x, r) \<Rightarrow> (Inr x, s\<lparr>pw_dice := r\<rparr>))"

definition rollStory :: "(dice \<Rightarrow> 'a \<times> dice) \<Rightarrow> 'a pm" where
  "rollStory f = (\<lambda>s. case f (pw_storyDice s) of (x, r) \<Rightarrow> (Inr x, s\<lparr>pw_storyDice := r\<rparr>))"

definition tossCoin :: "float64 pm" where
  "tossCoin = (\<lambda>s. (Inr (pw_coins s 0), s\<lparr>pw_coins := (\<lambda>n. pw_coins s (Suc n))\<rparr>))"

definition useGenerator :: "(dice \<Rightarrow> ('a \<times> dice) dbm) \<Rightarrow> 'a pm" where
  "useGenerator f = (\<lambda>s. case tx_do (f (pw_genDice s)) (pw_db s) of
       (Inl e, d) \<Rightarrow> (Inl e, s\<lparr>pw_db := d\<rparr>)
     | (Inr (x, r), d) \<Rightarrow> (Inr x, s\<lparr>pw_db := d, pw_genDice := r\<rparr>))"

section \<open>The story picker\<close>

text \<open>A read error skips the candidate.\<close>

definition eligible :: "int \<Rightarrow> quest_def \<Rightarrow> bool pm" where
  "eligible player d =
     bindM (tryM (atDb (pool (quest_Get player (qd_ID d))))) (\<lambda>started. case started of
         Inl _ \<Rightarrow> returnM False
       | Inr (Some _) \<Rightarrow> returnM False
       | Inr None \<Rightarrow>
         if qd_Prerequisite d = [] then returnM True
         else bindM (tryM (atDb (pool (quest_Get player (qd_Prerequisite d))))) (\<lambda>prog. case prog of
             Inl _ \<Rightarrow> returnM False
           | Inr None \<Rightarrow> returnM False
           | Inr (Some (_, r)) \<Rightarrow> returnM (qr_status r = QuestCompleted)))"

fun eligibles :: "int \<Rightarrow> string list \<Rightarrow> quest_def list \<Rightarrow> quest_def list pm" where
  "eligibles player pending [] = returnM []"
| "eligibles player pending (d # ds) =
     (if qd_ID d \<in> set pending then eligibles player pending ds
      else bindM (eligible player d) (\<lambda>ok. bindM (eligibles player pending ds) (\<lambda>rest. returnM (if ok then d # rest else rest))))"

definition story_Pick :: "int \<Rightarrow> int \<Rightarrow> (string \<times> quest_def) option pm" where
  "story_Pick now player =
     bindM (tryM (atDb (pool (ListActiveOffersByPlayer player now)))) (\<lambda>live. case live of
         Inl _ \<Rightarrow> returnM None
       | Inr xs \<Rightarrow> bindM (eligibles player (map (\<lambda>(_, x). qo_TemplateID x) xs) Offerable) (\<lambda>ds.
           if ds = [] then returnM None
           else bindM (rollStory (pick ds)) (\<lambda>d. returnM (Some (qd_ID d, d)))))"

section \<open>Triggers\<close>

text \<open>\<open>fields\<close>: the counter, its threshold, and the range of the threshold, by kind of trigger.\<close>

definition countOf :: "triggerKind \<Rightarrow> quest_counters \<Rightarrow> int" where
  "countOf kind c = (case kind of triggerJump \<Rightarrow> qc_Jumps c | triggerDock \<Rightarrow> qc_Docks c)"

definition thresholdOf :: "triggerKind \<Rightarrow> quest_counters \<Rightarrow> int" where
  "thresholdOf kind c = (case kind of triggerJump \<Rightarrow> qc_NextJumps c | triggerDock \<Rightarrow> qc_NextDocks c)"

definition setFields :: "triggerKind \<Rightarrow> int \<Rightarrow> int \<Rightarrow> quest_counters \<Rightarrow> quest_counters" where
  "setFields kind n th c = (case kind of
       triggerJump \<Rightarrow> c\<lparr>qc_Jumps := n, qc_NextJumps := th\<rparr>
     | triggerDock \<Rightarrow> c\<lparr>qc_Docks := n, qc_NextDocks := th\<rparr>)"

definition minOf :: "triggerKind \<Rightarrow> pacer_config \<Rightarrow> int" where
  "minOf kind c = (case kind of triggerJump \<Rightarrow> pc_JumpsMin c | triggerDock \<Rightarrow> pc_DocksMin c)"

definition maxOf :: "triggerKind \<Rightarrow> pacer_config \<Rightarrow> int" where
  "maxOf kind c = (case kind of triggerJump \<Rightarrow> pc_JumpsMax c | triggerDock \<Rightarrow> pc_DocksMax c)"

definition sourceOf :: "triggerKind \<Rightarrow> string" where
  "sourceOf kind = (case kind of triggerJump \<Rightarrow> ''space'' | triggerDock \<Rightarrow> ''dock'')"

definition resetAndUpsert :: "pacer \<Rightarrow> int \<Rightarrow> triggerKind \<Rightarrow> quest_counters \<Rightarrow> unit pm" where
  "resetAndUpsert p player kind c =
     bindM (rollDice (randRange (minOf kind (pp_cfg p)) (maxOf kind (pp_cfg p)))) (\<lambda>th.
     atDb (pool (UpsertCounters player (setFields kind 0 th c))))"

text \<open>The template id, the definition, and what the offer stores of it: nothing for a story quest.\<close>

definition produce :: "pacer \<Rightarrow> int \<Rightarrow> int \<Rightarrow> (string \<times> quest_def \<times> json_def option) option pm" where
  "produce p player sector =
     bindM tossCoin (\<lambda>u.
     bindM (if f_lt u (pc_StoryShare (pp_cfg p)) then story_Pick (pp_now p) player else returnM None) (\<lambda>story. case story of
         Some (i, d) \<Rightarrow> returnM (Some (i, d, None))
       | None \<Rightarrow> bindM (useGenerator (Generate (pp_generator p) sector)) (\<lambda>made.
           returnM (map_option (\<lambda>(kind, d). (kind, d, Some (Frozen d))) made))))"

definition zeroCounters :: quest_counters where
  "zeroCounters = \<lparr>qc_Docks = 0, qc_Jumps = 0, qc_NextDocks = 0, qc_NextJumps = 0\<rparr>"

text \<open>The counters with the trigger counted and a first threshold rolled where there was none.\<close>

definition countTrigger :: "pacer \<Rightarrow> triggerKind \<Rightarrow> quest_counters \<Rightarrow> quest_counters pm" where
  "countTrigger p kind c = bindM (if thresholdOf kind c = 0 then rollDice (randRange (minOf kind (pp_cfg p)) (maxOf kind (pp_cfg p)))
       else returnM (thresholdOf kind c)) (\<lambda>th. returnM (setFields kind (countOf kind c + 1) th c))"

text \<open>The threshold is reached: store the offer, unless there are too many, and start counting afresh.\<close>

definition storeOffer :: "pacer \<Rightarrow> int \<Rightarrow> triggerKind \<Rightarrow> quest_counters \<Rightarrow> string \<times> quest_def \<times> json_def option \<Rightarrow> offer_event option pm" where
  "storeOffer p player kind c made = (case made of (templateID, d, frozen) \<Rightarrow>
     bindM (atDb (pool (InsertOffer \<lparr>qo_Player = player, qo_TemplateID = templateID, qo_Definition = frozen, qo_Source = sourceOf kind,
       qo_CreatedAt = pp_now p, qo_ExpiresAt = pp_now p + pc_OfferTTL (pp_cfg p)\<rparr>))) (\<lambda>i.
     bindM (resetAndUpsert p player kind c) (\<lambda>_.
     returnM (Some \<lparr>oe_Player = player, oe_OfferID = i, oe_Source = sourceOf kind, oe_Expires = pp_now p + pc_OfferTTL (pp_cfg p),
       oe_RewardCash = offerReward d\<rparr>))))"

definition issueOffer :: "pacer \<Rightarrow> int \<Rightarrow> int \<Rightarrow> triggerKind \<Rightarrow> quest_counters \<Rightarrow> offer_event option pm" where
  "issueOffer p player sector kind c =
     bindM (atDb (pool (CountActiveOffers player (pp_now p)))) (\<lambda>active.
     if pc_MaxPendingOffers (pp_cfg p) \<le> int active then bindM (resetAndUpsert p player kind c) (\<lambda>_. returnM None)
     else bindM (produce p player sector) (\<lambda>made. case made of
         None \<Rightarrow> bindM (resetAndUpsert p player kind c) (\<lambda>_. returnM None)
       | Some m \<Rightarrow> storeOffer p player kind c m))"

definition triggerLocked :: "pacer \<Rightarrow> int \<Rightarrow> int \<Rightarrow> triggerKind \<Rightarrow> offer_event option pm" where
  "triggerLocked p player sector kind =
     bindM (atDb (pool (GetCounters player))) (\<lambda>found.
     bindM (countTrigger p kind (case found of None \<Rightarrow> zeroCounters | Some c \<Rightarrow> c)) (\<lambda>c.
     if countOf kind c < thresholdOf kind c then bindM (atDb (pool (UpsertCounters player c))) (\<lambda>_. returnM None)
     else issueOffer p player sector kind c))"

text \<open>The publication comes after the offer is stored; a failure of the bus is only logged.\<close>

definition publishOffer :: "pacer \<Rightarrow> offer_event \<Rightarrow> unit pm" where
  "publishOffer p ev = (\<lambda>s. (Inr (), if pp_publish p ev then s\<lparr>pw_published := pw_published s @ [ev]\<rparr> else s))"

definition trigger :: "pacer \<Rightarrow> int \<Rightarrow> int \<Rightarrow> triggerKind \<Rightarrow> unit pm" where
  "trigger p player sector kind = bindM (triggerLocked p player sector kind) (\<lambda>pub. case pub of
       None \<Rightarrow> returnM () | Some ev \<Rightarrow> publishOffer p ev)"

definition OnDock :: "pacer \<Rightarrow> int \<Rightarrow> int \<Rightarrow> unit pm" where
  "OnDock p player sector = trigger p player sector triggerDock"

definition OnJump :: "pacer \<Rightarrow> int \<Rightarrow> int \<Rightarrow> unit pm" where
  "OnJump p player sector = trigger p player sector triggerJump"

section \<open>What a trigger does to the database\<close>

definition counters :: "int \<Rightarrow> db \<Rightarrow> quest_counters" where
  "counters player d = (case map_of (player_quest_counters d) player of None \<Rightarrow> zeroCounters | Some c \<Rightarrow> c)"

definition putCounters :: "int \<Rightarrow> quest_counters \<Rightarrow> db \<Rightarrow> db" where
  "putCounters player c d = d\<lparr>player_quest_counters := AList.update player c (player_quest_counters d)\<rparr>"

definition putOffer :: "quest_offer \<Rightarrow> db \<Rightarrow> db" where
  "putOffer x d = d\<lparr>player_quest_offers := AList.update (seq_offer d) x (player_quest_offers d), seq_offer := seq_offer d + 1\<rparr>"

definition live :: "int \<Rightarrow> int \<Rightarrow> db \<Rightarrow> nat" where
  "live player now d = length (filter (\<lambda>(_, x). qo_Player x = player \<and> now < qo_ExpiresAt x) (player_quest_offers d))"

text \<open>The possible outcomes: nothing, the counters alone, or an offer with the counters started afresh.\<close>

inductive paced :: "pacer \<Rightarrow> int \<Rightarrow> triggerKind \<Rightarrow> db \<Rightarrow> db \<Rightarrow> bool" for p player kind d where
  nothing: "paced p player kind d d"
| counted: "n = countOf kind (counters player d) + 1 \<Longrightarrow> n < th \<Longrightarrow>
    th = thresholdOf kind (counters player d) \<or> minOf kind (pp_cfg p) \<le> th \<and> th \<le> max (minOf kind (pp_cfg p)) (maxOf kind (pp_cfg p)) \<Longrightarrow>
    paced p player kind d (putCounters player (setFields kind n th (counters player d)) d)"
| restarted: "minOf kind (pp_cfg p) \<le> th \<Longrightarrow> th \<le> max (minOf kind (pp_cfg p)) (maxOf kind (pp_cfg p)) \<Longrightarrow>
    paced p player kind d (putCounters player (setFields kind 0 th (counters player d)) d)"
| offered: "th = thresholdOf kind (counters player d) \<and> th \<noteq> 0 \<or> minOf kind (pp_cfg p) \<le> th \<Longrightarrow> th \<le> countOf kind (counters player d) + 1 \<Longrightarrow>
    int (live player (pp_now p) d) < pc_MaxPendingOffers (pp_cfg p) \<Longrightarrow>
    qo_Player x = player \<Longrightarrow> qo_Source x = sourceOf kind \<Longrightarrow>
    minOf kind (pp_cfg p) \<le> th' \<Longrightarrow> th' \<le> max (minOf kind (pp_cfg p)) (maxOf kind (pp_cfg p)) \<Longrightarrow>
    paced p player kind d (putCounters player (setFields kind 0 th' (counters player d)) (putOffer x d))"

text \<open>Every state a computation may stop in, with or without an error.\<close>

definition ends :: "(db \<Rightarrow> bool) \<Rightarrow> 'a pm \<Rightarrow> pacer_world \<Rightarrow> bool" where
  "ends P m s \<longleftrightarrow> P (pw_db (snd (m s)))"

lemma ends_return [simp]: "ends P (returnM x) s \<longleftrightarrow> P (pw_db s)"
  by (simp add: ends_def returnM_def)

lemma ends_bind:
  assumes "\<And>e s'. m s = (Inl e, s') \<Longrightarrow> P (pw_db s')" "\<And>x s'. m s = (Inr x, s') \<Longrightarrow> ends P (f x) s'"
  shows "ends P (bindM m f) s"
  using assms by (cases "m s"; cases "fst (m s)") (auto simp: ends_def bindM_def)

lemma atDb_err: "atDb (tx_do m) s = (Inl e, s') \<Longrightarrow> pw_db s' = pw_db s"
  by (auto simp: atDb_def tx_do_def split: prod.splits sum.splits if_splits)

lemma atDb_ok: "atDb (tx_do m) s = (Inr x, s') \<Longrightarrow> m (pw_db s) = (Inr x, pw_db s')"
  by (auto simp: atDb_def tx_do_def split: prod.splits sum.splits if_splits)

text \<open>Reading and rolling leave the database as it is.\<close>

definition reads :: "'a pm \<Rightarrow> bool" where
  "reads m \<longleftrightarrow> (\<forall>s. pw_db (snd (m s)) = pw_db s)"

lemma readsD: "reads m \<Longrightarrow> m s = (r, s') \<Longrightarrow> pw_db s' = pw_db s"
  unfolding reads_def by (metis snd_conv)

lemma reads_tryM: "reads m \<Longrightarrow> reads (tryM m)"
  by (auto simp: reads_def tryM_def split: prod.split) (metis snd_conv)

lemma reads_rules:
  "reads (returnM x)" "reads (rollDice f)" "reads (rollStory f)" "reads tossCoin" "reads (atDb (tx_do (query g)))"
  by (auto simp: reads_def returnM_def rollDice_def rollStory_def tossCoin_def atDb_def tx_do_def query_def sql_def
      split: prod.split sum.splits)

lemma reads_bind: "reads m \<Longrightarrow> (\<And>x. reads (f x)) \<Longrightarrow> reads (bindM m f)"
  by (auto simp: reads_def bindM_def split: prod.split sum.split) (metis snd_conv)+

lemma reads_cases:
  "reads m \<Longrightarrow> reads m' \<Longrightarrow> reads (if b then m else m')"
  "(\<And>e. reads (g e)) \<Longrightarrow> (\<And>x. reads (f x)) \<Longrightarrow> reads (case v of Inl e \<Rightarrow> g e | Inr x \<Rightarrow> f x)"
  "reads m \<Longrightarrow> (\<And>x. reads (h x)) \<Longrightarrow> reads (case w of None \<Rightarrow> m | Some x \<Rightarrow> h x)"
  "(\<And>a b. reads (k a b)) \<Longrightarrow> reads (case u of (a, b) \<Rightarrow> k a b)"
  by (simp_all split: sum.split option.split prod.split)

lemmas reads_intros = reads_bind reads_rules reads_tryM reads_cases

lemma eligible_reads: "reads (eligible player d)"
  unfolding eligible_def quest_Get_def by (intro reads_intros)

lemma eligibles_reads: "reads (eligibles player pending ds)"
  by (induction ds) (simp_all add: reads_intros eligible_reads)

lemma story_Pick_reads: "reads (story_Pick now player)"
  unfolding story_Pick_def ListActiveOffersByPlayer_def by (intro reads_intros eligibles_reads)

lemma useGenerator_reads:
  assumes "\<And>r d x d'. f r d = (Inr x, d') \<Longrightarrow> d' = d"
  shows "reads (useGenerator f)"
  using assms by (auto simp: reads_def useGenerator_def tx_do_def split: prod.splits sum.splits)

lemma Generate_db: "Generate g from r s = (Inr x, s') \<Longrightarrow> s' = s"
  by (auto simp: Generate_def Let_def run_simps dest: Listings_ok(1) split: if_splits)

lemma produce_reads: "reads (produce p player sector)"
  unfolding produce_def
  by (intro reads_intros story_Pick_reads useGenerator_reads) (rule Generate_db)

lemma reads_query_ok: "atDb (tx_do (query g)) s = (Inr x, s') \<Longrightarrow> x = g (pw_db s) \<and> pw_db s' = pw_db s"
  by (drule atDb_ok) (simp add: run_simps)

lemma setFields_fields [simp]:
  "countOf k (setFields k' n th c) = (if k = k' then n else countOf k c)"
  "thresholdOf k (setFields k' n th c) = (if k = k' then th else thresholdOf k c)"
  by (cases k; cases k'; simp add: countOf_def thresholdOf_def setFields_def)+

lemma setFields_setFields [simp]: "setFields k n th (setFields k n' th' c) = setFields k n th c"
  by (cases k) (simp_all add: setFields_def)

definition counters_fit :: "quest_counters \<Rightarrow> bool" where
  "counters_fit c \<longleftrightarrow> in32 (qc_Docks c) \<and> in32 (qc_Jumps c) \<and> in32 (qc_NextDocks c) \<and> in32 (qc_NextJumps c)"

lemma Upsert_run:
  assumes "UpsertCounters player c d = (Inr u, d')"
  shows "d' = putCounters player c d"
  using assms by (auto simp: UpsertCounters_def run_simps putCounters_def split: if_splits)

lemma Upsert_succeeds:
  assumes "\<not> tx_aborted d" "map_of (players d) player \<noteq> None" "counters_fit c"
  shows "UpsertCounters player c d = (Inr (), putCounters player c d)"
  using assms by (simp add: UpsertCounters_def sql_def pg_int4_def counters_fit_def putCounters_def)

lemma countTrigger_run:
  assumes "countTrigger p kind c s = (Inr c', s')"
  shows "\<exists>th. c' = setFields kind (countOf kind c + 1) th c \<and> pw_db s' = pw_db s \<and>
    (th = thresholdOf kind c \<and> th \<noteq> 0 \<or> minOf kind (pp_cfg p) \<le> th \<and> th \<le> max (minOf kind (pp_cfg p)) (maxOf kind (pp_cfg p)))"
  using assms
  by (auto simp: countTrigger_def run_simps rollDice_def dest!: randRange_range split: if_splits prod.splits)

lemma countTrigger_no_err: "countTrigger p kind c s \<noteq> (Inl e, s')"
  by (auto simp: countTrigger_def bindM_def rollDice_def returnM_def split: prod.splits if_splits)

lemma InsertOffer_run:
  assumes "InsertOffer x d = (Inr i, d')"
  shows "d' = putOffer x d" "\<not> tx_aborted d" "map_of (players d) (qo_Player x) \<noteq> None"
  using assms by (auto simp: InsertOffer_def run_simps putOffer_def split: if_splits)

lemma putOffer_fields [simp]:
  "tx_aborted (putOffer x d) = tx_aborted d" "players (putOffer x d) = players d" "player_quest_counters (putOffer x d) = player_quest_counters d"
  by (simp_all add: putOffer_def)

text \<open>Restarting the counter, from the database as it is or with the offer just stored.\<close>

lemma reset_ends:
  assumes "\<And>th. minOf kind (pp_cfg p) \<le> th \<Longrightarrow> th \<le> max (minOf kind (pp_cfg p)) (maxOf kind (pp_cfg p)) \<Longrightarrow> P (putCounters player (setFields kind 0 th c) (pw_db s))"
    and "P (pw_db s) \<or> \<not> tx_aborted (pw_db s) \<and> map_of (players (pw_db s)) player \<noteq> None \<and>
      (\<forall>th. minOf kind (pp_cfg p) \<le> th \<and> th \<le> max (minOf kind (pp_cfg p)) (maxOf kind (pp_cfg p)) \<longrightarrow> counters_fit (setFields kind 0 th c))"
  shows "ends P (bindM (resetAndUpsert p player kind c) (\<lambda>_. returnM x)) s"
proof -
  obtain th r where th: "randRange (minOf kind (pp_cfg p)) (maxOf kind (pp_cfg p)) (pw_dice s) = (th, r)" by fastforce
  have range: "minOf kind (pp_cfg p) \<le> th" "th \<le> max (minOf kind (pp_cfg p)) (maxOf kind (pp_cfg p))" using randRange_range [OF th] by auto
  let ?d = "pw_db s" and ?c = "setFields kind 0 th c"
  have run: "snd (bindM (resetAndUpsert p player kind c) (\<lambda>_. returnM x) s) = s\<lparr>pw_dice := r, pw_db := snd (tx_do (UpsertCounters player ?c) ?d)\<rparr>"
    by (simp add: resetAndUpsert_def bindM_def rollDice_def th atDb_def returnM_def split: prod.split sum.split)
  show ?thesis
  proof (cases "tx_do (UpsertCounters player ?c) ?d")
    case (Pair y d')
    show ?thesis
    proof (cases y)
      case (Inl e)
      then have d': "d' = ?d" using Pair tx_do_err by blast
      have "\<not> (\<not> tx_aborted ?d \<and> map_of (players ?d) player \<noteq> None \<and> counters_fit ?c)"
        using Pair Inl Upsert_succeeds [of ?d player ?c] by (auto simp: tx_do_def putCounters_def)
      with assms(2) range have "P ?d" by blast
      then show ?thesis using Pair d' unfolding ends_def run by simp
    next
      case (Inr u)
      then have "d' = putCounters player ?c ?d" using Pair Upsert_run by (auto simp: run_simps)
      then show ?thesis using Pair assms(1) [OF range] unfolding ends_def run by simp
    qed
  qed
qed

lemma issueOffer_paced:
  assumes fit: "\<And>th. minOf kind (pp_cfg p) \<le> th \<Longrightarrow> th \<le> max (minOf kind (pp_cfg p)) (maxOf kind (pp_cfg p)) \<Longrightarrow>
      counters_fit (setFields kind 0 th (counters player d))"
    and s: "pw_db s = d" and c: "c = setFields kind n th (counters player d)" "n = countOf kind (counters player d) + 1" "th \<le> n"
      "th = thresholdOf kind (counters player d) \<and> th \<noteq> 0 \<or> minOf kind (pp_cfg p) \<le> th"
  shows "ends (paced p player kind d) (issueOffer p player sector kind c) s"
  unfolding issueOffer_def CountActiveOffers_def
proof (rule ends_bind)
  let ?count = "atDb (tx_do (query (\<lambda>s. length (filter (\<lambda>(_, x). qo_Player x = player \<and> pp_now p < qo_ExpiresAt x) (player_quest_offers s)))))"
  have reset: "ends (paced p player kind d) (bindM (resetAndUpsert p player kind c) (\<lambda>_. returnM y)) s1" if "pw_db s1 = d" for s1 and y :: "offer_event option"
    by (rule reset_ends) (use that c in \<open>auto intro: paced.intros\<close>)
  show "paced p player kind d (pw_db s1)" if "?count s = (Inl e, s1)" for e s1
    using atDb_err [OF that] s by (simp add: paced.nothing)
  fix active s1
  assume "?count s = (Inr active, s1)"
  then have s1: "pw_db s1 = d" and active: "active = live player (pp_now p) d" using s by (auto dest!: reads_query_ok simp: live_def)
  have store: "ends (paced p player kind d) (storeOffer p player kind c m) s2"
    if s2: "pw_db s2 = d" and few: "int active < pc_MaxPendingOffers (pp_cfg p)" for m s2
  proof -
    obtain templateID q frozen where m: "m = (templateID, q, frozen)" by (cases m)
    let ?x = "\<lparr>qo_Player = player, qo_TemplateID = templateID, qo_Definition = frozen, qo_Source = sourceOf kind,
       qo_CreatedAt = pp_now p, qo_ExpiresAt = pp_now p + pc_OfferTTL (pp_cfg p)\<rparr>"
    show ?thesis
      unfolding storeOffer_def m prod.case
    proof (rule ends_bind)
      show "paced p player kind d (pw_db s3)" if "atDb (tx_do (InsertOffer ?x)) s2 = (Inl e, s3)" for e s3
        using atDb_err [OF that] s2 by (simp add: paced.nothing)
      fix i s3
      assume "atDb (tx_do (InsertOffer ?x)) s2 = (Inr i, s3)"
      note ins = InsertOffer_run [OF atDb_ok [OF this]]
      show "ends (paced p player kind d) (bindM (resetAndUpsert p player kind c) (\<lambda>_. returnM (Some \<lparr>oe_Player = player, oe_OfferID = i,
          oe_Source = sourceOf kind, oe_Expires = pp_now p + pc_OfferTTL (pp_cfg p), oe_RewardCash = offerReward q\<rparr>))) s3"
      proof (rule reset_ends)
        show "paced p player kind d (putCounters player (setFields kind 0 th' c) (pw_db s3))"
          if "minOf kind (pp_cfg p) \<le> th'" "th' \<le> max (minOf kind (pp_cfg p)) (maxOf kind (pp_cfg p))" for th'
          unfolding ins(1) s2 c(1) setFields_setFields using that c few active by (intro paced.offered [of th]) auto
      qed (use ins s2 fit c in auto)
    qed
  qed
  show "ends (paced p player kind d) (if pc_MaxPendingOffers (pp_cfg p) \<le> int active then bindM (resetAndUpsert p player kind c) (\<lambda>_. returnM None)
     else bindM (produce p player sector) (\<lambda>made. case made of
         None \<Rightarrow> bindM (resetAndUpsert p player kind c) (\<lambda>_. returnM None)
       | Some m \<Rightarrow> storeOffer p player kind c m)) s1"
  proof (cases "pc_MaxPendingOffers (pp_cfg p) \<le> int active")
    case False
    have "ends (paced p player kind d) (bindM (produce p player sector) (\<lambda>made. case made of
         None \<Rightarrow> bindM (resetAndUpsert p player kind c) (\<lambda>_. returnM None) | Some m \<Rightarrow> storeOffer p player kind c m)) s1"
    proof (rule ends_bind)
      note same = readsD [OF produce_reads [of p player sector]]
      show "paced p player kind d (pw_db s2)" if "produce p player sector s1 = (Inl e, s2)" for e s2
        using same [OF that] s1 by (simp add: paced.nothing)
      show "ends (paced p player kind d) (case made of
         None \<Rightarrow> bindM (resetAndUpsert p player kind c) (\<lambda>_. returnM None) | Some m \<Rightarrow> storeOffer p player kind c m) s2"
        if "produce p player sector s1 = (Inr made, s2)" for made s2
        using same [OF that] s1 False reset store by (simp split: option.split)
    qed
    with False show ?thesis by simp
  qed (simp add: reset s1)
qed

lemma triggerLocked_paced:
  assumes fit: "\<And>th. minOf kind (pp_cfg p) \<le> th \<Longrightarrow> th \<le> max (minOf kind (pp_cfg p)) (maxOf kind (pp_cfg p)) \<Longrightarrow>
    counters_fit (setFields kind 0 th (counters player (pw_db s)))"
  shows "ends (paced p player kind (pw_db s)) (triggerLocked p player sector kind) s"
  unfolding triggerLocked_def GetCounters_def
proof (rule ends_bind)
  let ?d = "pw_db s" and ?c0 = "counters player (pw_db s)"
  let ?get = "atDb (tx_do (query (\<lambda>s. map_of (player_quest_counters s) player)))"
  show "paced p player kind ?d (pw_db s1)" if "?get s = (Inl e, s1)" for e s1
    using atDb_err [OF that] by (simp add: paced.nothing)
  fix found s1
  assume "?get s = (Inr found, s1)"
  then have s1: "pw_db s1 = ?d" and found: "(case found of None \<Rightarrow> zeroCounters | Some c \<Rightarrow> c) = ?c0"
    by (auto dest!: reads_query_ok simp: counters_def)
  show "ends (paced p player kind ?d) (bindM (countTrigger p kind (case found of None \<Rightarrow> zeroCounters | Some c \<Rightarrow> c)) (\<lambda>c.
     if countOf kind c < thresholdOf kind c then bindM (atDb (tx_do (UpsertCounters player c))) (\<lambda>_. returnM None)
     else issueOffer p player sector kind c)) s1"
    unfolding found
  proof (rule ends_bind)
    fix c s2
    assume "countTrigger p kind ?c0 s1 = (Inr c, s2)"
    from countTrigger_run [OF this] s1 obtain th where c: "c = setFields kind (countOf kind ?c0 + 1) th ?c0" and s2: "pw_db s2 = ?d"
      and th: "th = thresholdOf kind ?c0 \<and> th \<noteq> 0 \<or> minOf kind (pp_cfg p) \<le> th \<and> th \<le> max (minOf kind (pp_cfg p)) (maxOf kind (pp_cfg p))" by auto
    have "ends (paced p player kind ?d) (bindM (atDb (tx_do (UpsertCounters player c))) (\<lambda>_. returnM None)) s2" if "countOf kind ?c0 + 1 < th"
      by (rule ends_bind) (use that th s2 c in \<open>auto dest!: atDb_err atDb_ok Upsert_run intro: paced.intros simp: c\<close>)
    moreover have "ends (paced p player kind ?d) (issueOffer p player sector kind c) s2" if "th \<le> countOf kind ?c0 + 1"
      by (rule issueOffer_paced [OF fit s2 c]) (use that th in auto)
    ultimately show "ends (paced p player kind ?d) (if countOf kind c < thresholdOf kind c then bindM (atDb (tx_do (UpsertCounters player c))) (\<lambda>_. returnM None)
        else issueOffer p player sector kind c) s2"
      by (cases "countOf kind ?c0 + 1 < th") (simp_all add: c)
  qed (simp add: countTrigger_no_err)
qed

section \<open>Doses\<close>

definition pacer_ok :: "pacer_config \<Rightarrow> bool" where
  "pacer_ok cfg \<longleftrightarrow> list_all (\<lambda>k. 1 \<le> minOf k cfg \<and> minOf k cfg \<le> maxOf k cfg \<and> maxOf k cfg < 2 ^ 31) [triggerDock, triggerJump]"

text \<open>A counter is below its threshold, and the threshold is in its range.\<close>

definition counters_ok :: "pacer_config \<Rightarrow> quest_counters \<Rightarrow> bool" where
  "counters_ok cfg c \<longleftrightarrow> list_all (\<lambda>k. 0 \<le> countOf k c \<and>
     (thresholdOf k c = 0 \<and> countOf k c = 0 \<or> minOf k cfg \<le> thresholdOf k c \<and> thresholdOf k c \<le> maxOf k cfg \<and> countOf k c < thresholdOf k c)) [triggerDock, triggerJump]"

definition pacing_ok :: "pacer_config \<Rightarrow> db \<Rightarrow> bool" where
  "pacing_ok cfg d \<longleftrightarrow> (\<forall>player. counters_ok cfg (counters player d)) \<and> (\<forall>i \<in> fst ` set (player_quest_offers d). i < seq_offer d)"

definition issued :: "int \<Rightarrow> triggerKind \<Rightarrow> db \<Rightarrow> int" where
  "issued player kind d = int (length (filter (\<lambda>(_, x). qo_Player x = player \<and> qo_Source x = sourceOf kind) (player_quest_offers d)))"

lemma all_kinds: "list_all P [triggerDock, triggerJump] \<longleftrightarrow> (\<forall>k. P k)"
  by (simp add: list_all_iff) (metis triggerKind.exhaust)

lemma counters_ok_setFields:
  "counters_ok cfg c \<Longrightarrow> 0 \<le> n \<Longrightarrow> n < th \<Longrightarrow> minOf kind cfg \<le> th \<Longrightarrow> th \<le> maxOf kind cfg \<Longrightarrow> counters_ok cfg (setFields kind n th c)"
  unfolding counters_ok_def all_kinds by simp

lemma counters_ok_fit:
  assumes "pacer_ok cfg" "counters_ok cfg c"
  shows "counters_fit c"
proof -
  have cfg: "1 \<le> minOf k cfg \<and> maxOf k cfg < 2 ^ 31" for k using assms(1) unfolding pacer_ok_def all_kinds by blast
  have c: "0 \<le> countOf k c \<and> (thresholdOf k c = 0 \<and> countOf k c = 0 \<or>
      minOf k cfg \<le> thresholdOf k c \<and> thresholdOf k c \<le> maxOf k cfg \<and> countOf k c < thresholdOf k c)" for k
    using assms(2) unfolding counters_ok_def all_kinds by blast
  have "in32 (countOf k c) \<and> in32 (thresholdOf k c)" for k
    using cfg [of k] c [of k] unfolding in32_def by auto
  from this [of triggerDock] this [of triggerJump] show ?thesis by (simp add: counters_fit_def countOf_def thresholdOf_def)
qed

lemma counters_put [simp]: "counters pl (putCounters player c d) = (if pl = player then c else counters pl d)"
  by (simp add: counters_def putCounters_def)

lemma counters_putOffer [simp]: "counters pl (putOffer x d) = counters pl d"
  by (simp add: counters_def)

lemma putCounters_offers [simp]:
  "player_quest_offers (putCounters player c d) = player_quest_offers d" "seq_offer (putCounters player c d) = seq_offer d"
  "issued pl k (putCounters player c d) = issued pl k d" "live pl now (putCounters player c d) = live pl now d"
  by (simp_all add: putCounters_def issued_def live_def)

lemma putOffer_new:
  assumes "pacing_ok cfg d"
  shows "player_quest_offers (putOffer x d) = player_quest_offers d @ [(seq_offer d, x)]"
proof -
  have "seq_offer d \<notin> fst ` set (player_quest_offers d)" using assms unfolding pacing_ok_def by blast
  then show ?thesis by (simp add: putOffer_def update_new map_of_eq_None_iff)
qed

lemma sourceOf_inj: "sourceOf k = sourceOf k' \<longleftrightarrow> k = k'"
  by (cases k; cases k') (simp_all add: sourceOf_def)

lemma issued_putOffer:
  "pacing_ok cfg d \<Longrightarrow> qo_Player x = player \<Longrightarrow> qo_Source x = sourceOf kind \<Longrightarrow> issued pl k (putOffer x d) = issued pl k d + (if pl = player \<and> k = kind then 1 else 0)"
  by (auto simp: issued_def putOffer_new sourceOf_inj)

lemma live_putOffer: "pacing_ok cfg d \<Longrightarrow> live pl T (putOffer x d) \<le> live pl T d + (if pl = qo_Player x then 1 else 0)"
  by (simp add: live_def putOffer_new)

lemma filter_le: "(\<And>x. P x \<Longrightarrow> Q x) \<Longrightarrow> length (filter P xs) \<le> length (filter Q xs)"
  by (induction xs) (auto simp: le_SucI)

lemma live_later: "now \<le> T \<Longrightarrow> live pl T d \<le> live pl now d"
  unfolding live_def by (rule filter_le) auto

text \<open>One trigger: an offer uses up at least a full interval of the counter.\<close>

lemma paced_step:
  assumes "paced p player kind d d'" "pacer_ok (pp_cfg p)" "pacing_ok (pp_cfg p) d"
  shows "pacing_ok (pp_cfg p) d' \<and>
    minOf k (pp_cfg p) * issued pl k d' + countOf k (counters pl d') \<le>
      minOf k (pp_cfg p) * issued pl k d + countOf k (counters pl d) + (if pl = player \<and> k = kind then 1 else 0) \<and>
    (pp_now p \<le> T \<longrightarrow> int (live pl T d') \<le> max (pc_MaxPendingOffers (pp_cfg p)) (int (live pl T d)))"
proof -
  let ?cfg = "pp_cfg p" and ?c = "counters player d"
  have cfg: "1 \<le> minOf k ?cfg \<and> minOf k ?cfg \<le> maxOf k ?cfg" for k using assms(2) unfolding pacer_ok_def all_kinds by blast
  have ok: "counters_ok ?cfg (counters pl d)" for pl using assms(3) unfolding pacing_ok_def by blast
  then have c: "0 \<le> countOf k (counters pl d) \<and> (thresholdOf k (counters pl d) = 0 \<or> minOf k ?cfg \<le> thresholdOf k (counters pl d) \<and> thresholdOf k (counters pl d) \<le> maxOf k ?cfg)" for pl k
    unfolding counters_ok_def all_kinds by blast
  have put: "pacing_ok ?cfg (putCounters player (setFields kind n th ?c) d)" if "0 \<le> n" "n < th" "minOf kind ?cfg \<le> th" "th \<le> maxOf kind ?cfg" for n th
    using assms(3) counters_ok_setFields [OF ok that] unfolding pacing_ok_def by simp
  from assms(1) show ?thesis
  proof cases
    case nothing
    then show ?thesis using assms(3) by simp
  next
    case (counted n th)
    then show ?thesis using put [of n th] c [of kind player] cfg [of kind] by (auto simp: max_def)
  next
    case (restarted th)
    then show ?thesis using put [of 0 th] c [of kind player] c [of k pl] cfg [of kind] by (auto simp: max_def)
  next
    case (offered th x th')
    have "pacing_ok ?cfg (putOffer x d)"
      using assms(3) unfolding pacing_ok_def by (auto simp: putOffer_new [OF assms(3)]) (auto simp: putOffer_def)
    then have "pacing_ok ?cfg d'"
      using counters_ok_setFields [OF ok [of player], of 0 th' kind] offered cfg [of kind] unfolding pacing_ok_def by (simp add: max_def)
    moreover have "minOf k ?cfg * issued pl k d' + countOf k (counters pl d') \<le>
      minOf k ?cfg * issued pl k d + countOf k (counters pl d) + (if pl = player \<and> k = kind then 1 else 0)"
      using offered c [of kind player] issued_putOffer [OF assms(3), of x player kind pl k] by (auto simp: algebra_simps)
    moreover have "int (live pl T d') \<le> max (pc_MaxPendingOffers ?cfg) (int (live pl T d))" if "pp_now p \<le> T"
      using offered live_putOffer [OF assms(3), of pl T x] live_later [OF that, of pl d] by (auto split: if_splits)
    ultimately show ?thesis by blast
  qed
qed

text \<open>Sequences of triggers, of any players and kinds.\<close>

type_synonym trig = "pacer \<times> int \<times> int \<times> triggerKind"

definition runTrigger :: "pacer_world \<Rightarrow> trig \<Rightarrow> pacer_world" where
  "runTrigger s = (\<lambda>(p, player, sector, kind). snd (trigger p player sector kind s))"

definition runTriggers :: "trig list \<Rightarrow> pacer_world \<Rightarrow> pacer_world" where
  "runTriggers ts s = foldl runTrigger s ts"

lemma trigger_db: "pw_db (snd (trigger p player sector kind s)) = pw_db (snd (triggerLocked p player sector kind s))"
  by (auto simp: trigger_def bindM_def publishOffer_def returnM_def split: prod.split sum.split option.split)

lemma trigger_paced:
  assumes "pacer_ok (pp_cfg p)" "pacing_ok (pp_cfg p) (pw_db s)"
  shows "paced p player kind (pw_db s) (pw_db (runTrigger s (p, player, sector, kind)))"
proof -
  have "counters_fit (setFields kind 0 th (counters player (pw_db s)))"
    if "minOf kind (pp_cfg p) \<le> th" "th \<le> max (minOf kind (pp_cfg p)) (maxOf kind (pp_cfg p))" for th
  proof (rule counters_ok_fit [OF assms(1) counters_ok_setFields])
    show "counters_ok (pp_cfg p) (counters player (pw_db s))" using assms(2) unfolding pacing_ok_def by blast
    have "1 \<le> minOf kind (pp_cfg p) \<and> minOf kind (pp_cfg p) \<le> maxOf kind (pp_cfg p)" using assms(1) unfolding pacer_ok_def all_kinds by blast
    then show "0 < th" "th \<le> maxOf kind (pp_cfg p)" using that by auto
  qed (use that in auto)
  from triggerLocked_paced [OF this] show ?thesis by (simp add: ends_def runTrigger_def trigger_db)
qed

text \<open>
  C19: offers come in doses. Through any sequence of docks and jumps of any players, whichever of them fail:
  the offers of a kind that a player receives, times the least interval of that kind, are at most the
  triggers the player had counted plus the new ones; and at the end the player has no more live offers than
  the configured maximum, or than there were before.
\<close>

theorem offers_are_dosed:
  assumes "pacer_ok cfg" "pacing_ok cfg (pw_db s)" "list_all (\<lambda>(p, _). pp_cfg p = cfg \<and> pp_now p \<le> T) ts"
  shows "pacing_ok cfg (pw_db (runTriggers ts s)) \<and>
    minOf k cfg * (issued pl k (pw_db (runTriggers ts s)) - issued pl k (pw_db s)) + countOf k (counters pl (pw_db (runTriggers ts s))) \<le>
      countOf k (counters pl (pw_db s)) + int (length (filter (\<lambda>(_, pl', _, k'). pl' = pl \<and> k' = k) ts)) \<and>
    int (live pl T (pw_db (runTriggers ts s))) \<le> max (pc_MaxPendingOffers cfg) (int (live pl T (pw_db s)))"
  using assms(2,3)
proof (induction ts arbitrary: s)
  case Nil
  then show ?case by (simp add: runTriggers_def)
next
  case (Cons t ts)
  obtain p player sector kind where t: "t = (p, player, sector, kind)" by (cases t)
  let ?s = "runTrigger s t"
  have p: "pp_cfg p = cfg" "pp_now p \<le> T" using Cons.prems(2) by (auto simp: t)
  have "paced p player kind (pw_db s) (pw_db ?s)" unfolding t by (rule trigger_paced) (use p Cons.prems(1) assms(1) in simp_all)
  note step = paced_step [OF this, of k pl T, unfolded p(1), OF assms(1) Cons.prems(1)]
  have run: "runTriggers (t # ts) s = runTriggers ts ?s" by (simp add: runTriggers_def)
  have "pacing_ok cfg (pw_db ?s)" "list_all (\<lambda>(p, _). pp_cfg p = cfg \<and> pp_now p \<le> T) ts" using step Cons.prems(2) by auto
  from Cons.IH [OF this] step p(2) show ?case
    unfolding run by (auto simp: t algebra_simps split: if_splits)
qed

definition sample_pacer :: pacer where
  "sample_pacer = \<lparr>pp_cfg = \<lparr>pc_DocksMin = 2, pc_DocksMax = 4, pc_JumpsMin = 3, pc_JumpsMax = 5, pc_MaxPendingOffers = 3, pc_StoryShare = Fin 0, pc_OfferTTL = 1000\<rparr>,
     pp_generator = sample_generator, pp_now = 50, pp_publish = (\<lambda>_. True)\<rparr>"

definition sample_pacer_world :: pacer_world where
  "sample_pacer_world = \<lparr>pw_db = sample_db, pw_dice = (\<lambda>_. 0), pw_coins = (\<lambda>_. Fin 0), pw_genDice = (\<lambda>_. 0), pw_storyDice = (\<lambda>_. 0), pw_published = []\<rparr>"

definition five_docks :: "trig list" where
  "five_docks = replicate 5 (sample_pacer, 1, 1, triggerDock)"

theorem offers_are_dosed_witness:
  "2 * (issued 1 triggerDock (pw_db (runTriggers five_docks sample_pacer_world)) - 0) + countOf triggerDock (counters 1 (pw_db (runTriggers five_docks sample_pacer_world))) \<le> 0 + 5 \<and>
   int (live 1 60 (pw_db (runTriggers five_docks sample_pacer_world))) \<le> 3 \<and>
   issued 1 triggerDock (pw_db (runTriggers five_docks sample_pacer_world)) = 2"
proof (intro conjI)
  have ok: "pacer_ok (pp_cfg sample_pacer)" by code_simp
  have none: "player_quest_counters sample_db = []" "player_quest_offers sample_db = []" by code_simp+
  have "counters_ok (pp_cfg sample_pacer) zeroCounters" by code_simp
  then have start: "pacing_ok (pp_cfg sample_pacer) (pw_db sample_pacer_world)"
    by (simp add: pacing_ok_def sample_pacer_world_def counters_def none)
  have docks: "list_all (\<lambda>(p, _). pp_cfg p = pp_cfg sample_pacer \<and> pp_now p \<le> 60) five_docks"
    by (simp add: five_docks_def list_all_iff sample_pacer_def)
  have num: "minOf triggerDock (pp_cfg sample_pacer) = 2" "pc_MaxPendingOffers (pp_cfg sample_pacer) = 3"
    "issued 1 triggerDock (pw_db sample_pacer_world) = 0" "countOf triggerDock (counters 1 (pw_db sample_pacer_world)) = 0" "live 1 60 (pw_db sample_pacer_world) = 0"
    "length (filter (\<lambda>(_, pl', _, k'). pl' = 1 \<and> k' = triggerDock) five_docks) = 5" by code_simp+
  note dosed = offers_are_dosed [OF ok start docks, of triggerDock 1, unfolded num]
  show "2 * (issued 1 triggerDock (pw_db (runTriggers five_docks sample_pacer_world)) - 0) + countOf triggerDock (counters 1 (pw_db (runTriggers five_docks sample_pacer_world))) \<le> 0 + 5"
    using dosed by simp
  show "int (live 1 60 (pw_db (runTriggers five_docks sample_pacer_world))) \<le> 3" using dosed by simp
  show "issued 1 triggerDock (pw_db (runTriggers five_docks sample_pacer_world)) = 2" by code_simp
qed

end
