(* ===== verification/Equipment.thy ===== *)
theory Equipment
  imports Combat
begin

text \<open>
  \<open>internal/balance\<close>: the catalogues of ship classes, equipment modules and base loadouts, what installed
  modules do to the values of a ship, and the rules for installing one.
\<close>

section \<open>Ship classes\<close>

datatype balance_err =
    ErrInvalidShipClassID | ErrEmptyShipClassName | ErrDuplicateShipClassID
  | ErrInvalidEquipmentID | ErrEmptyEquipmentType | ErrDuplicateEquipmentID
  | ErrDuplicateShipLoadout | ErrInvalidLoadoutEquipmentID | ErrEmptyLoadoutModuleType
  | ErrEquipmentNotFound | ErrEquipmentWrongClass | ErrEquipmentWrongRace | ErrRankTooLow | ErrEquipmentLevel
  | ErrEquipmentAlreadyInstalled | ErrEquipmentDependency | ErrEquipmentNotInstalled

datatype shipClassCategory = CategoryCarrier | CategoryDestroyer | CategoryHeavyFighter | CategoryFighter | CategoryScout
  | CategoryCorvette | CategoryFreighter | CategorySpecial | CategoryTransport

record ship_class =
  cl_ID :: int
  cl_Race :: int
  cl_Type :: int
  cl_Class :: int
  cl_Name :: runes
  cl_Speed :: float64
  cl_Acceleration :: float64
  cl_Laser :: int
  cl_Shield :: int
  cl_Hull :: int
  cl_ShieldCharge :: int
  cl_MaxEnergy :: int
  cl_EnergyRecharge :: int
  cl_CargoBay :: int
  cl_BasePrice :: int
  cl_Radar :: int

definition Category :: "ship_class \<Rightarrow> shipClassCategory" where
  "Category c = (case map_of [(1, CategoryCarrier), (2, CategoryDestroyer), (3, CategoryHeavyFighter), (4, CategoryFighter), (5, CategoryScout),
       (6, CategoryCorvette), (7, CategoryFreighter), (8, CategorySpecial), (9, CategoryTransport)] (cl_Class c) of
     Some k \<Rightarrow> k | None \<Rightarrow> CategorySpecial)"

definition IsWarship :: "ship_class \<Rightarrow> bool" where
  "IsWarship c \<longleftrightarrow> cl_Class c \<in> {2, 3, 4, 5, 6}"

fun radarForCategory :: "shipClassCategory \<Rightarrow> int" where
  "radarForCategory CategoryScout = 500"
| "radarForCategory CategoryCorvette = 420"
| "radarForCategory CategoryHeavyFighter = 450"
| "radarForCategory CategoryFighter = 450"
| "radarForCategory CategoryFreighter = 350"
| "radarForCategory CategoryCarrier = 450"
| "radarForCategory CategoryDestroyer = 450"
| "radarForCategory CategoryTransport = 380"
| "radarForCategory CategorySpecial = 450"

text \<open>A catalogue: the rows by id, and in their order.\<close>

record ship_classes =
  sc_byID :: "(int, ship_class) table"
  sc_list :: "ship_class list"

fun indexClasses :: "ship_class list \<Rightarrow> (int, ship_class) table \<Rightarrow> balance_err + (int, ship_class) table" where
  "indexClasses [] m = Inr m"
| "indexClasses (c # cs) m =
     (if cl_ID c \<le> 0 then Inl ErrInvalidShipClassID
      else if cl_Name c = [] then Inl ErrEmptyShipClassName
      else if map_of m (cl_ID c) \<noteq> None then Inl ErrDuplicateShipClassID
      else indexClasses cs (AList.update (cl_ID c) c m))"

definition NewShipClasses :: "ship_class list \<Rightarrow> balance_err + ship_classes" where
  "NewShipClasses cs = (case indexClasses cs [] of Inl e \<Rightarrow> Inl e | Inr m \<Rightarrow> Inr \<lparr>sc_byID = m, sc_list = cs\<rparr>)"

definition GetShipClass :: "ship_classes \<Rightarrow> int \<Rightarrow> ship_class option" where
  "GetShipClass c i = map_of (sc_byID c) i"

definition ShipClassesByRace :: "ship_classes \<Rightarrow> int \<Rightarrow> ship_class list" where
  "ShipClassesByRace c race = filter (\<lambda>x. cl_Race x = race) (sc_list c)"

definition ScoutForRace :: "ship_classes \<Rightarrow> int \<Rightarrow> ship_class option" where
  "ScoutForRace c race = List.find (\<lambda>x. cl_Race x = race \<and> Category x = CategoryScout) (sc_list c)"

definition TSForRace :: "ship_classes \<Rightarrow> int \<Rightarrow> ship_class option" where
  "TSForRace c race = List.find (\<lambda>x. cl_Race x = race \<and> Category x = CategoryTransport) (sc_list c)"

section \<open>Equipment\<close>

record equipment =
  em_ID :: int
  em_Type :: string
  em_MaxLevel :: int
  em_Race :: int
  em_ShipClass :: int
  em_Price :: int
  em_PricePerLevel :: int
  em_MinWarRate :: int
  em_MinTradeRate :: int
  em_MinRaceRate :: int
  em_Dependance :: string
  em_EnergyUseType :: string
  em_EnergyUsage :: int

record equipments =
  es_byID :: "(int, equipment) table"
  es_list :: "equipment list"

fun indexEquipments :: "equipment list \<Rightarrow> (int, equipment) table \<Rightarrow> balance_err + (int, equipment) table" where
  "indexEquipments [] m = Inr m"
| "indexEquipments (e # es) m =
     (if em_ID e \<le> 0 then Inl ErrInvalidEquipmentID
      else if em_Type e = [] then Inl ErrEmptyEquipmentType
      else if map_of m (em_ID e) \<noteq> None then Inl ErrDuplicateEquipmentID
      else indexEquipments es (AList.update (em_ID e) e m))"

definition NewEquipments :: "equipment list \<Rightarrow> balance_err + equipments" where
  "NewEquipments es = (case indexEquipments es [] of Inl e \<Rightarrow> Inl e | Inr m \<Rightarrow> Inr \<lparr>es_byID = m, es_list = es\<rparr>)"

definition GetEquipment :: "equipments \<Rightarrow> int \<Rightarrow> equipment option" where
  "GetEquipment c i = map_of (es_byID c) i"

definition EquipmentByType :: "equipments \<Rightarrow> string \<Rightarrow> equipment list" where
  "EquipmentByType c t = filter (\<lambda>e. em_Type e = t) (es_list c)"

definition EquipmentByShipClass :: "equipments \<Rightarrow> int \<Rightarrow> equipment list" where
  "EquipmentByShipClass c n = filter (\<lambda>e. em_ShipClass e = n) (es_list c)"

section \<open>Base loadouts\<close>

record ship_loadout =
  lo_Race :: int
  lo_Type :: int
  lo_Modules :: "installed_equipment list"

record ship_loadouts =
  ls_byRaceType :: "(int \<times> int, installed_equipment list) table"
  ls_nonEmpty :: int

fun checkModules :: "installed_equipment list \<Rightarrow> balance_err option" where
  "checkModules [] = None"
| "checkModules (m # ms) = (if eq_EquipmentID m \<le> 0 then Some ErrInvalidLoadoutEquipmentID
     else if eq_Type m = [] then Some ErrEmptyLoadoutModuleType else checkModules ms)"

fun indexLoadouts :: "ship_loadout list \<Rightarrow> ship_loadouts \<Rightarrow> balance_err + ship_loadouts" where
  "indexLoadouts [] c = Inr c"
| "indexLoadouts (l # ls) c =
     (if map_of (ls_byRaceType c) (lo_Race l, lo_Type l) \<noteq> None then Inl ErrDuplicateShipLoadout
      else (case checkModules (lo_Modules l) of Some e \<Rightarrow> Inl e
        | None \<Rightarrow> indexLoadouts ls (c\<lparr>ls_byRaceType := AList.update (lo_Race l, lo_Type l) (lo_Modules l) (ls_byRaceType c),
            ls_nonEmpty := ls_nonEmpty c + (if lo_Modules l \<noteq> [] then 1 else 0)\<rparr>)))"

definition NewShipLoadouts :: "ship_loadout list \<Rightarrow> balance_err + ship_loadouts" where
  "NewShipLoadouts ls = indexLoadouts ls \<lparr>ls_byRaceType = [], ls_nonEmpty = 0\<rparr>"

definition BaseLoadout :: "ship_loadouts \<Rightarrow> int \<Rightarrow> int \<Rightarrow> installed_equipment list" where
  "BaseLoadout c race typ = (case map_of (ls_byRaceType c) (race, typ) of None \<Rightarrow> [] | Some ms \<Rightarrow> ms)"

section \<open>What modules do\<close>

record ship_stats =
  sp_MaxSpeed :: float64
  sp_Acceleration :: float64
  sp_TurnRate :: float64
  sp_MaxShield :: int
  sp_ShieldRecharge :: int
  sp_MaxEnergy :: int
  sp_EnergyRecharge :: int
  sp_LaserDamage :: int
  sp_RadarRange :: float64
  sp_CargoBay :: float64

text \<open>\<open>float64(n) * k * l\<close> and its rounding to an int; \<open>2 ^ l\<close> of a whole level is exact.\<close>

definition scaled :: "float64 \<Rightarrow> rat \<Rightarrow> float64 \<Rightarrow> float64" where
  "scaled x k l = f_mul (f_mul x (mk_float k)) l"

definition scaledInt :: "int \<Rightarrow> rat \<Rightarrow> float64 \<Rightarrow> int" where
  "scaledInt n k l = f_to_int64 (f_Round (scaled (f_of_int n) k l))"

definition moduleLevel :: "installed_equipment \<Rightarrow> int" where
  "moduleLevel m = (if eq_Level m < 1 then 1 else eq_Level m)"

definition applyModule :: "ship_stats \<Rightarrow> installed_equipment \<Rightarrow> ship_stats \<Rightarrow> ship_stats" where
  "applyModule base m out =
     (let l = f_of_int (moduleLevel m); t = eq_Type m in
      if t = ''up_engine'' then out\<lparr>sp_MaxSpeed := f_add (sp_MaxSpeed out) (scaled (sp_MaxSpeed base) (8 / 100) l),
        sp_Acceleration := f_add (sp_Acceleration out) (scaled (sp_Acceleration base) (8 / 100) l)\<rparr>
      else if t = ''up_rudder'' then out\<lparr>sp_TurnRate := f_add (sp_TurnRate out) (scaled (sp_TurnRate base) (5 / 100) l)\<rparr>
      else if t = ''up_cargobay'' then out\<lparr>sp_CargoBay := f_add (sp_CargoBay out) (scaled (sp_CargoBay base) (5 / 100) l)\<rparr>
      else if t = ''up_shield'' then out\<lparr>sp_MaxShield := wrap64 (sp_MaxShield out + scaledInt (sp_MaxShield base) (15 / 100) l),
        sp_ShieldRecharge := wrap64 (sp_ShieldRecharge out + scaledInt (sp_ShieldRecharge base) (10 / 100) l)\<rparr>
      else if t = ''up_pro'' then out\<lparr>sp_MaxShield := wrap64 (sp_MaxShield out + scaledInt (sp_MaxShield base) (10 / 100) l)\<rparr>
      else if t = ''up_generator'' then out\<lparr>sp_EnergyRecharge := wrap64 (sp_EnergyRecharge out + scaledInt (sp_EnergyRecharge base) (25 / 100) l)\<rparr>
      else if t = ''up_accumulator'' then out\<lparr>sp_MaxEnergy := wrap64 (sp_MaxEnergy out +
        f_to_int64 (f_Round (f_mul (f_of_int (sp_MaxEnergy base)) (f_sub (f_of_int (2 ^ nat (moduleLevel m))) (Fin 1)))))\<rparr>
      else if t = ''up_lb'' then out\<lparr>sp_LaserDamage := wrap64 (sp_LaserDamage out + scaledInt (sp_LaserDamage base) (10 / 100) l)\<rparr>
      else if t = ''up_weapon_control'' \<or> t = ''up_turret_control'' then
        out\<lparr>sp_LaserDamage := wrap64 (sp_LaserDamage out + scaledInt (sp_LaserDamage base) (8 / 100) l)\<rparr>
      else if t = ''up_scanner'' then out\<lparr>sp_RadarRange := f_add (sp_RadarRange out) (f_mul (Fin 50) l)\<rparr>
      else out)"

definition ApplyEquipmentEffects :: "ship_stats \<Rightarrow> installed_equipment list \<Rightarrow> ship_stats" where
  "ApplyEquipmentEffects base eq = fold (applyModule base) eq base"

definition EnergyDelta :: "equipments \<Rightarrow> installed_equipment list \<Rightarrow> int" where
  "EnergyDelta c eq = fold (\<lambda>m delta. case map_of (es_byID c) (eq_EquipmentID m) of None \<Rightarrow> delta
     | Some row \<Rightarrow> if em_EnergyUseType row = ''reverse'' then wrap64 (delta + em_EnergyUsage row)
         else if em_EnergyUseType row = ''always'' then wrap64 (delta - em_EnergyUsage row) else delta) eq 0"

definition InstallPrice :: "equipment \<Rightarrow> int \<Rightarrow> int" where
  "InstallPrice e level = wrap64 (em_Price e + wrap64 ((if level < 1 then 1 else level) * em_PricePerLevel e))"

record balance_reputation =
  rp_War :: int
  rp_Trade :: int
  rp_Race :: int

definition hasEquipmentType :: "installed_equipment list \<Rightarrow> string \<Rightarrow> bool" where
  "hasEquipmentType eq t = list_ex (\<lambda>m. eq_Type m = t) eq"

definition ResolveInstall :: "equipments \<Rightarrow> int \<Rightarrow> int \<Rightarrow> int \<Rightarrow> int \<Rightarrow> installed_equipment list \<Rightarrow> balance_reputation \<Rightarrow> balance_err + equipment" where
  "ResolveInstall c i shipClassNum shipRace level installed rep = (case GetEquipment c i of
       None \<Rightarrow> Inl ErrEquipmentNotFound
     | Some e \<Rightarrow>
       if em_ShipClass e \<noteq> 0 \<and> em_ShipClass e \<noteq> shipClassNum then Inl ErrEquipmentWrongClass
       else if em_Race e \<noteq> 0 \<and> em_Race e \<noteq> shipRace then Inl ErrEquipmentWrongRace
       else if rp_War rep < em_MinWarRate e \<or> rp_Trade rep < em_MinTradeRate e \<or> rp_Race rep < em_MinRaceRate e then Inl ErrRankTooLow
       else if level < 1 \<or> (if em_MaxLevel e < 1 then 1 else em_MaxLevel e) < level then Inl ErrEquipmentLevel
       else if hasEquipmentType installed (em_Type e) then Inl ErrEquipmentAlreadyInstalled
       else if em_Dependance e \<noteq> [] \<and> em_Dependance e \<noteq> ''none'' \<and> \<not> hasEquipmentType installed (em_Dependance e) then Inl ErrEquipmentDependency
       else Inr e)"

end
