(* ===== verification/Shipyard.thy ===== *)
theory Shipyard
  imports Commands Equipment Players CombatInvariant
begin

text \<open>
  \<open>internal/app\<close>: buying, fitting and selling ships at a shipyard, with the operations of
  \<open>internal/persistence/ships\<close> they use and the lookups of \<open>sector.Pool\<close>. A request reads the snapshot a
  sector last published, writes the database in a transaction, and sends the change to the worker of the
  sector; the snapshot follows with the next tick.
\<close>

section \<open>The spawn configuration\<close>

record spawner_config =
  cf_SectorID :: int
  cf_SpawnHalfX :: float64
  cf_SpawnHalfY :: float64
  cf_StartMaxSpeed :: float64
  cf_StartAccel :: float64
  cf_StartTurnRate :: float64
  cf_StartHP :: int
  cf_StartShld :: int
  cf_StartShldCharge :: int
  cf_StartEnergy :: int
  cf_StartEnergyChrg :: int
  cf_StartLaserDamage :: int
  cf_StartLaserRange :: float64
  cf_StartLaserECost :: int
  cf_StartMissiles :: int
  cf_SpacesuitHP :: int
  cf_SpacesuitLaserDamage :: int
  cf_SpacesuitMaxSpeed :: float64
  cf_TradeInRatio :: float64

text \<open>The defaults of unset values; \<open>math.Pi / 4\<close> is the nearest binary64 value.\<close>

definition orDefault :: "int \<Rightarrow> int \<Rightarrow> int" where
  "orDefault d x = (if x \<le> 0 then d else x)"

definition orDefaultF :: "float64 \<Rightarrow> float64 \<Rightarrow> float64" where
  "orDefaultF d x = (if f_le x (Fin 0) then d else x)"

definition spawner_withDefaults :: "spawner_config \<Rightarrow> spawner_config" where
  "spawner_withDefaults c = (let speed = orDefaultF (Fin 20) (cf_StartMaxSpeed c) in c\<lparr>
     cf_SpawnHalfX := orDefaultF (Fin 100) (cf_SpawnHalfX c), cf_SpawnHalfY := orDefaultF (Fin 100) (cf_SpawnHalfY c),
     cf_StartMaxSpeed := speed, cf_StartAccel := orDefaultF (Fin 10) (cf_StartAccel c),
     cf_StartTurnRate := orDefaultF (Fin (884279719003555 / 1125899906842624)) (cf_StartTurnRate c),
     cf_StartHP := orDefault 100 (cf_StartHP c), cf_StartShld := orDefault 100 (cf_StartShld c), cf_StartShldCharge := orDefault 1 (cf_StartShldCharge c),
     cf_StartEnergy := orDefault 100 (cf_StartEnergy c), cf_StartEnergyChrg := orDefault 2 (cf_StartEnergyChrg c),
     cf_StartLaserDamage := orDefault 10 (cf_StartLaserDamage c), cf_StartLaserRange := orDefaultF (Fin 400) (cf_StartLaserRange c),
     cf_StartLaserECost := orDefault 5 (cf_StartLaserECost c), cf_StartMissiles := orDefault 5 (cf_StartMissiles c),
     cf_SpacesuitHP := orDefault 30 (cf_SpacesuitHP c), cf_SpacesuitLaserDamage := orDefault 5 (cf_SpacesuitLaserDamage c),
     cf_SpacesuitMaxSpeed := orDefaultF speed (cf_SpacesuitMaxSpeed c), cf_TradeInRatio := orDefaultF (Fin (1 / 2)) (cf_TradeInRatio c)\<rparr>)"

definition warshipLaserDivisor :: int where "warshipLaserDivisor = 10"

definition classEnergy :: "ship_class \<Rightarrow> spawner_config \<Rightarrow> int" where
  "classEnergy cls cfg = (if 0 < cl_MaxEnergy cls then cl_MaxEnergy cls else cf_StartEnergy cfg)"

definition classEnergyRecharge :: "ship_class \<Rightarrow> spawner_config \<Rightarrow> int" where
  "classEnergyRecharge cls cfg = (if 0 < cl_EnergyRecharge cls then cl_EnergyRecharge cls else cf_StartEnergyChrg cfg)"

text \<open>Go's division of integers truncates.\<close>

definition baseShipStats :: "ship_class \<Rightarrow> spawner_config \<Rightarrow> ship_stats" where
  "baseShipStats cls cfg =
     (let laser = (if 0 \<le> cl_Laser cls then cl_Laser cls div warshipLaserDivisor else - ((- cl_Laser cls) div warshipLaserDivisor)) in
      \<lparr>sp_MaxSpeed = cl_Speed cls, sp_Acceleration = cl_Acceleration cls, sp_TurnRate = cf_StartTurnRate cfg, sp_MaxShield = cl_Shield cls,
       sp_ShieldRecharge = cl_ShieldCharge cls, sp_MaxEnergy = classEnergy cls cfg, sp_EnergyRecharge = classEnergyRecharge cls cfg,
       sp_LaserDamage = (if laser < cf_StartLaserDamage cfg then cf_StartLaserDamage cfg else laser),
       sp_RadarRange = f_of_int (cl_Radar cls), sp_CargoBay = f_of_int (cl_CargoBay cls)\<rparr>)"

section \<open>The world of a request\<close>

record yard_snapshot =
  yn_Ships :: "ship list"
  yn_Shipyards :: "static_obj list"

record yard_world =
  yw_db :: db
  yw_ships :: "(int, ship) table"
  yw_seq :: int
  yw_snaps :: "(int, yard_snapshot) table"
  yw_sectors :: "(int, sector_state) table"

datatype yard_err = YDb err | YShipNotFound

type_synonym 'a ym = "(yard_world, yard_err, 'a) comp"

record yard_env =
  ye_classes :: ship_classes
  ye_equipment :: equipments
  ye_loadouts :: ship_loadouts
  ye_playerRace :: "int \<Rightarrow> int"
  ye_standing :: "(int \<Rightarrow> int \<Rightarrow> int) option"
  ye_cfg :: spawner_config
  ye_worker :: worker

text \<open>A transaction over the players and the ships.\<close>

definition yard_tx :: "'a ym \<Rightarrow> 'a ym" where
  "yard_tx body = (\<lambda>s. case body s of (Inl e, _) \<Rightarrow> (Inl e, s)
     | (Inr x, s') \<Rightarrow> if tx_aborted (yw_db s') then (Inl (YDb (EPg CommitRolledBack)), s) else (Inr x, s'))"

definition onPlayers :: "'a dbm \<Rightarrow> 'a ym" where
  "onPlayers m = (\<lambda>s. case m (yw_db s) of (r, d) \<Rightarrow> (case r of Inl e \<Rightarrow> Inl (YDb e) | Inr x \<Rightarrow> Inr x, s\<lparr>yw_db := d\<rparr>))"

section \<open>The ships repository\<close>

text \<open>
  A ship's row is kept whole in \<open>yw_ships\<close>, the columns that other services read also in the table \<open>ships\<close>
  of the database. Deleting a row clears the references of the players to it (\<open>ON DELETE SET NULL\<close>).
\<close>

definition shipColumns :: "ship \<Rightarrow> ship_row" where
  "shipColumns x = \<lparr>sh_player = s_PlayerID x, sh_sector = s_SectorID x, sh_docked_kind = map_option ref_kind (s_Docked x),
     sh_docked_id = map_option ref_id (s_Docked x), sh_cargobay = s_CargoBay x\<rparr>"

definition putRow :: "int \<Rightarrow> ship \<Rightarrow> yard_world \<Rightarrow> yard_world" where
  "putRow i x s = s\<lparr>yw_ships := AList.update i x (yw_ships s), yw_db := (yw_db s)\<lparr>ships := AList.update i (shipColumns x) (ships (yw_db s))\<rparr>\<rparr>"

definition forgetShip :: "int \<Rightarrow> player_row \<Rightarrow> player_row" where
  "forgetShip i r = r\<lparr>pl_active_ship := (if pl_active_ship r = Some i then None else pl_active_ship r),
     pl_passenger_of := (if pl_passenger_of r = Some i then None else pl_passenger_of r)\<rparr>"

definition dropRow :: "int \<Rightarrow> yard_world \<Rightarrow> yard_world" where
  "dropRow i s = s\<lparr>yw_ships := AList.delete i (yw_ships s),
     yw_db := (yw_db s)\<lparr>ships := AList.delete i (ships (yw_db s)), players := map (\<lambda>(p, r). (p, forgetShip i r)) (players (yw_db s))\<rparr>\<rparr>"

definition ships_Create :: "ship \<Rightarrow> int ym" where
  "ships_Create x = (\<lambda>s. if tx_aborted (yw_db s) then (Inl (YDb (EPg InFailedTransaction)), s)
     else if map_of (players (yw_db s)) (s_PlayerID x) = None then
       (Inl (YDb (EPg (ForeignKeyViolation ''ships_player_id_fkey''))), s\<lparr>yw_db := (yw_db s)\<lparr>tx_aborted := True\<rparr>\<rparr>)
     else (Inr (yw_seq s), (putRow (yw_seq s) (x\<lparr>s_ID := yw_seq s\<rparr>) s)\<lparr>yw_seq := yw_seq s + 1\<rparr>))"

text \<open>\<open>outfitShip\<close> and \<open>SaveEquipment\<close>: the new fit, with the shield and the energy cut to the new maxima.\<close>

definition fitted :: "refit_values \<Rightarrow> ship \<Rightarrow> ship" where
  "fitted v x = x\<lparr>s_Equipment := rv_Equipment v, s_MaxSpeed := rv_MaxSpeed v, s_Acceleration := rv_Acceleration v, s_MaxShield := rv_MaxShield v,
     s_ShieldRecharge := rv_ShieldRecharge v, s_MaxEnergy := rv_MaxEnergy v, s_EnergyRecharge := rv_EnergyRecharge v, s_EnergyDelta := rv_EnergyDelta v,
     s_LaserDamage := rv_LaserDamage v, s_RadarRange := rv_RadarRange v, s_TurnRate := rv_TurnRate v, s_CargoBay := rv_CargoBay v,
     s_ShieldGeneratorDestroyed := False, s_Shield := min (s_Shield x) (rv_MaxShield v), s_Energy := min (s_Energy x) (rv_MaxEnergy v)\<rparr>"

definition SaveEquipment :: "int \<Rightarrow> refit_values \<Rightarrow> unit ym" where
  "SaveEquipment i v = (\<lambda>s. if tx_aborted (yw_db s) then (Inl (YDb (EPg InFailedTransaction)), s)
     else (case map_of (yw_ships s) i of None \<Rightarrow> (Inl YShipNotFound, s)
       | Some x \<Rightarrow> (Inr (), putRow i (fitted v x) s)))"

definition ships_Delete :: "int \<Rightarrow> unit ym" where
  "ships_Delete i = (\<lambda>s. if tx_aborted (yw_db s) then (Inl (YDb (EPg InFailedTransaction)), s)
     else if map_of (yw_ships s) i = None then (Inl YShipNotFound, s)
     else (Inr (), dropRow i s))"

section \<open>The pool\<close>

definition Snapshot :: "yard_world \<Rightarrow> int \<Rightarrow> yard_snapshot" where
  "Snapshot s sec = (case map_of (yw_snaps s) sec of None \<Rightarrow> \<lparr>yn_Ships = [], yn_Shipyards = []\<rparr> | Some n \<Rightarrow> n)"

definition ShipsByPlayer :: "yard_world \<Rightarrow> int \<Rightarrow> ship list" where
  "ShipsByPlayer s player = filter (\<lambda>x. s_PlayerID x = player) (concat (map (\<lambda>(_, n). yn_Ships n) (yw_snaps s)))"

text \<open>The ship of the player with the least id.\<close>

definition LookupPrimaryShipByPlayer :: "yard_world \<Rightarrow> int \<Rightarrow> (int \<times> int) option" where
  "LookupPrimaryShipByPlayer s player = (case ShipsByPlayer s player of [] \<Rightarrow> None
     | x # xs \<Rightarrow> Some (fold (\<lambda>y (i, sec). if s_ID y < i then (s_ID y, s_SectorID y) else (i, sec)) xs (s_ID x, s_SectorID x)))"

text \<open>A command that the worker of the sector takes; an unknown sector takes none.\<close>

definition yard_Send :: "int \<Rightarrow> (sector_state \<Rightarrow> sector_state) \<Rightarrow> yard_world \<Rightarrow> yard_world" where
  "yard_Send sec cmd s = (case map_of (yw_sectors s) sec of None \<Rightarrow> s
     | Some st \<Rightarrow> s\<lparr>yw_sectors := AList.update sec (cmd st) (yw_sectors s)\<rparr>)"

section \<open>Guards\<close>

datatype yard_reply = Refused int | Bought int int | Outfitted int "installed_equipment list" | Sold int

definition dockedAtShipyard :: "entity_ref option \<Rightarrow> int \<Rightarrow> bool" where
  "dockedAtShipyard docked yard = (case docked of None \<Rightarrow> False | Some ref \<Rightarrow> ref_kind ref = EntityKindShipyard \<and> ref_id ref = yard)"

definition activeDockedShip :: "yard_world \<Rightarrow> int \<Rightarrow> int \<Rightarrow> yard_reply + (ship \<times> int)" where
  "activeDockedShip s player yard = (case LookupPrimaryShipByPlayer s player of None \<Rightarrow> Inl (Refused 409)
     | Some (i, sec) \<Rightarrow> (case List.find (\<lambda>x. s_ID x = i) (yn_Ships (Snapshot s sec)) of None \<Rightarrow> Inl (Refused 409)
         | Some x \<Rightarrow> if dockedAtShipyard (s_Docked x) yard then Inr (x, sec) else Inl (Refused 409)))"

definition ownedDockedShip :: "yard_world \<Rightarrow> int \<Rightarrow> int \<Rightarrow> int \<Rightarrow> yard_reply + ship" where
  "ownedDockedShip s player yard i = (case LookupPrimaryShipByPlayer s player of None \<Rightarrow> Inl (Refused 409)
     | Some (_, sec) \<Rightarrow> (case List.find (\<lambda>x. s_ID x = i) (yn_Ships (Snapshot s sec)) of None \<Rightarrow> Inl (Refused 409)
         | Some x \<Rightarrow> if s_PlayerID x \<noteq> player then Inl (Refused 403)
             else if dockedAtShipyard (s_Docked x) yard then Inr x else Inl (Refused 409)))"

definition findShipyardRace :: "yard_snapshot \<Rightarrow> int \<Rightarrow> int" where
  "findShipyardRace n yard = (case List.find (\<lambda>y. so_ID y = yard) (yn_Shipyards n) of None \<Rightarrow> 0 | Some y \<Rightarrow> so_Race y)"

definition shipyardRace :: "yard_world \<Rightarrow> int \<Rightarrow> int \<Rightarrow> int" where
  "shipyardRace s player yard = (case LookupPrimaryShipByPlayer s player of None \<Rightarrow> 0
     | Some (_, sec) \<Rightarrow> findShipyardRace (Snapshot s sec) yard)"

definition gatedInstall :: "yard_env \<Rightarrow> int \<Rightarrow> int \<Rightarrow> int \<Rightarrow> int \<Rightarrow> installed_equipment list \<Rightarrow> int \<Rightarrow> reputation \<Rightarrow> int \<Rightarrow> balance_err + equipment" where
  "gatedInstall env i shipClass shipRace level installed player rep yardRace =
     ResolveInstall (ye_equipment env) i shipClass shipRace level installed
       \<lparr>rp_War = rep_war rep, rp_Trade = rep_trade rep, rp_Race = (case ye_standing env of None \<Rightarrow> 0 | Some get \<Rightarrow> get player yardRace)\<rparr>"

definition balanceStatus :: "balance_err \<Rightarrow> int" where
  "balanceStatus e = (if e = ErrEquipmentNotFound then 404 else if e = ErrEquipmentLevel then 400
     else if e \<in> {ErrEquipmentWrongClass, ErrEquipmentWrongRace, ErrEquipmentDependency, ErrEquipmentAlreadyInstalled, ErrEquipmentNotInstalled} then 409
     else if e = ErrRankTooLow then 422 else 400)"

text \<open>The wallet sentinel becomes 409, every other error 500.\<close>

definition txStatus :: "yard_err \<Rightarrow> int" where
  "txStatus e = (if e = YDb (EPlayers Players_ErrInsufficientCash) then 409 else 500)"

section \<open>Buying\<close>

text \<open>The values of a fit: the base of the class with the modules folded on top.\<close>

definition fitValues :: "yard_env \<Rightarrow> ship_class \<Rightarrow> installed_equipment list \<Rightarrow> refit_values" where
  "fitValues env cls eq =
     (let eff = ApplyEquipmentEffects (baseShipStats cls (ye_cfg env)) eq in
      \<lparr>rv_Equipment = eq, rv_MaxSpeed = sp_MaxSpeed eff, rv_Acceleration = sp_Acceleration eff, rv_MaxShield = sp_MaxShield eff,
       rv_ShieldRecharge = sp_ShieldRecharge eff, rv_MaxEnergy = sp_MaxEnergy eff, rv_EnergyRecharge = sp_EnergyRecharge eff,
       rv_EnergyDelta = EnergyDelta (ye_equipment env) eq, rv_LaserDamage = sp_LaserDamage eff, rv_RadarRange = sp_RadarRange eff,
       rv_TurnRate = sp_TurnRate eff, rv_CargoBay = sp_CargoBay eff\<rparr>)"

definition buildPurchasedShip :: "yard_env \<Rightarrow> int \<Rightarrow> ship_class \<Rightarrow> int \<Rightarrow> int \<Rightarrow> vec2 \<Rightarrow> int \<Rightarrow> ship" where
  "buildPurchasedShip env player cls race sector pos yard =
     (let lo = BaseLoadout (ye_loadouts env) (cl_Race cls) (cl_Type cls); v = fitValues env cls lo;
          hp = (if cl_Hull cls \<le> 0 then cf_StartHP (ye_cfg env) else cl_Hull cls)
      in zeroShip\<lparr>s_PlayerID := player, s_Race := race, s_Name := cl_Name cls, s_ShipClassID := cl_ID cls, s_SectorID := sector, s_Pos := pos,
           s_Direction := \<lparr>vX = Fin 1, vY = Fin 0\<rparr>, s_MaxSpeed := rv_MaxSpeed v, s_Acceleration := rv_Acceleration v, s_TurnRate := rv_TurnRate v,
           s_HP := hp, s_MaxHP := hp, s_Shield := rv_MaxShield v, s_MaxShield := rv_MaxShield v, s_ShieldRecharge := rv_ShieldRecharge v,
           s_Energy := rv_MaxEnergy v, s_MaxEnergy := rv_MaxEnergy v, s_EnergyRecharge := rv_EnergyRecharge v, s_EnergyDelta := rv_EnergyDelta v,
           s_LaserDamage := rv_LaserDamage v, s_LaserRange := cf_StartLaserRange (ye_cfg env), s_LaserEnergyCost := cf_StartLaserECost (ye_cfg env),
           s_RadarRange := rv_RadarRange v, s_CargoBay := rv_CargoBay v, s_Equipment := lo,
           s_Docked := Some (EntityRef EntityKindShipyard yard)\<rparr>)"

definition mirrorAddShip :: "yard_env \<Rightarrow> int \<Rightarrow> ship \<Rightarrow> yard_world \<Rightarrow> yard_world" where
  "mirrorAddShip env sector x s = yard_Send sector (\<lambda>st. snd (AddShipCommand (ye_worker env) x [] None st)) s"

definition handleBuyShip :: "yard_env \<Rightarrow> int \<Rightarrow> int \<Rightarrow> int \<Rightarrow> yard_world \<Rightarrow> yard_reply \<times> yard_world" where
  "handleBuyShip env player yard classID s = (case GetShipClass (ye_classes env) classID of
       None \<Rightarrow> (Refused 404, s)
     | Some cls \<Rightarrow> (case activeDockedShip s player yard of Inl e \<Rightarrow> (e, s)
       | Inr (active, sector) \<Rightarrow>
         (let x = buildPurchasedShip env player cls (ye_playerRace env player) sector (s_Pos active) yard in
          case yard_tx (bindM (onPlayers (AdjustCash player (wrap64 (- cl_BasePrice cls)))) (\<lambda>cash.
            bindM (ships_Create x) (\<lambda>i. returnM (i, cash)))) s of
            (Inl e, s) \<Rightarrow> (Refused (txStatus e), s)
          | (Inr (i, cash), s) \<Rightarrow> (Bought i cash, mirrorAddShip env sector (x\<lparr>s_ID := i\<rparr>) s))))"

section \<open>Fitting\<close>

definition mirrorEquipment :: "int \<Rightarrow> int \<Rightarrow> refit_values \<Rightarrow> yard_world \<Rightarrow> yard_world" where
  "mirrorEquipment player i v s = (case LookupPrimaryShipByPlayer s player of None \<Rightarrow> s
     | Some (_, sector) \<Rightarrow> yard_Send sector (\<lambda>st. snd (UpdateShipEquipmentCommand player i v st)) s)"

definition persistOutfit :: "int \<Rightarrow> int \<Rightarrow> refit_values \<Rightarrow> int \<Rightarrow> yard_world \<Rightarrow> (yard_err + int) \<times> yard_world" where
  "persistOutfit player i v price s =
     (case yard_tx (bindM (onPlayers (AdjustCash player (wrap64 (- price)))) (\<lambda>cash. bindM (SaveEquipment i v) (\<lambda>_. returnM cash))) s of
        (Inl e, s) \<Rightarrow> (Inl e, s)
      | (Inr cash, s) \<Rightarrow> (Inr cash, mirrorEquipment player i v s))"

definition installed :: "ship \<Rightarrow> equipment \<Rightarrow> int \<Rightarrow> installed_equipment list" where
  "installed x row level = s_Equipment x @ [\<lparr>eq_EquipmentID = em_ID row, eq_Type = em_Type row, eq_Level = (if level < 1 then 1 else level)\<rparr>]"

definition handleInstall :: "yard_env \<Rightarrow> int \<Rightarrow> int \<Rightarrow> int \<Rightarrow> int \<Rightarrow> int \<Rightarrow> yard_world \<Rightarrow> yard_reply \<times> yard_world" where
  "handleInstall env player yard shipID equipmentID level s = (case ownedDockedShip s player yard shipID of Inl e \<Rightarrow> (e, s)
     | Inr target \<Rightarrow> (case GetShipClass (ye_classes env) (s_ShipClassID target) of None \<Rightarrow> (Refused 409, s)
       | Some cls \<Rightarrow> (case yard_tx (onPlayers (GetReputation player)) s of (Inl e, s) \<Rightarrow> (Refused 500, s)
         | (Inr rep, s) \<Rightarrow>
           (case gatedInstall env equipmentID (cl_Class cls) (s_Race target) level (s_Equipment target) player rep (shipyardRace s player yard) of
              Inl e \<Rightarrow> (Refused (balanceStatus e), s)
            | Inr row \<Rightarrow>
              (let eq = installed target row level in
               case persistOutfit player (s_ID target) (fitValues env cls eq) (InstallPrice row (if level < 1 then 1 else level)) s of
                 (Inl e, s) \<Rightarrow> (Refused (txStatus e), s)
               | (Inr cash, s) \<Rightarrow> (Outfitted cash eq, s))))))"

definition removeEquipment :: "installed_equipment list \<Rightarrow> int \<Rightarrow> (installed_equipment \<times> installed_equipment list) option" where
  "removeEquipment eq i = (case filter (\<lambda>m. eq_EquipmentID m = i) eq of [] \<Rightarrow> None
     | ms \<Rightarrow> Some (last ms, filter (\<lambda>m. eq_EquipmentID m \<noteq> i) eq))"

definition isDependedOn :: "yard_env \<Rightarrow> string \<Rightarrow> installed_equipment list \<Rightarrow> bool" where
  "isDependedOn env typ eq = list_ex (\<lambda>m. case GetEquipment (ye_equipment env) (eq_EquipmentID m) of None \<Rightarrow> False | Some row \<Rightarrow> em_Dependance row = typ) eq"

definition handleUninstall :: "yard_env \<Rightarrow> int \<Rightarrow> int \<Rightarrow> int \<Rightarrow> int \<Rightarrow> yard_world \<Rightarrow> yard_reply \<times> yard_world" where
  "handleUninstall env player yard shipID equipmentID s = (case ownedDockedShip s player yard shipID of Inl e \<Rightarrow> (e, s)
     | Inr target \<Rightarrow> (case GetShipClass (ye_classes env) (s_ShipClassID target) of None \<Rightarrow> (Refused 409, s)
       | Some cls \<Rightarrow> (case removeEquipment (s_Equipment target) equipmentID of None \<Rightarrow> (Refused (balanceStatus ErrEquipmentNotInstalled), s)
         | Some (removed, eq) \<Rightarrow>
           if isDependedOn env (eq_Type removed) eq then (Refused 409, s)
           else (let v = fitValues env cls eq in
             case yard_tx (SaveEquipment (s_ID target) v) s of (Inl e, s) \<Rightarrow> (Refused 500, s)
             | (Inr _, s) \<Rightarrow>
               (let s = mirrorEquipment player (s_ID target) v s in
                case yard_tx (onPlayers (GetCash player)) s of (Inl _, s) \<Rightarrow> (Outfitted 0 eq, s) | (Inr cash, s) \<Rightarrow> (Outfitted cash eq, s))))))"

text \<open>\<open>equipmentRefitter.Refit\<close>, which the worker calls after a module was shot off.\<close>

definition Refit :: "yard_env \<Rightarrow> ship \<Rightarrow> ship" where
  "Refit env x = (case GetShipClass (ye_classes env) (s_ShipClassID x) of None \<Rightarrow> x
     | Some cls \<Rightarrow>
       (let v = fitValues env cls (s_Equipment x) in
        x\<lparr>s_MaxSpeed := rv_MaxSpeed v, s_Acceleration := rv_Acceleration v, s_MaxShield := rv_MaxShield v, s_ShieldRecharge := rv_ShieldRecharge v,
          s_MaxEnergy := rv_MaxEnergy v, s_EnergyRecharge := rv_EnergyRecharge v, s_EnergyDelta := rv_EnergyDelta v, s_LaserDamage := rv_LaserDamage v,
          s_RadarRange := rv_RadarRange v, s_TurnRate := rv_TurnRate v, s_CargoBay := rv_CargoBay v,
          s_Shield := min (s_Shield x) (rv_MaxShield v), s_Energy := min (s_Energy x) (rv_MaxEnergy v)\<rparr>))"

section \<open>Selling\<close>

datatype sell_err = ErrSellLastShip | ErrSellActiveShip

definition sellDecision :: "int \<Rightarrow> float64 \<Rightarrow> int \<Rightarrow> bool \<Rightarrow> sell_err + int" where
  "sellDecision basePrice ratio shipCount isActive =
     (if shipCount \<le> 1 then Inl ErrSellLastShip
      else if isActive then Inl ErrSellActiveShip
      else (let credit = f_to_int64 (f_mul (f_of_int basePrice) ratio) in Inr (if credit < 0 then 0 else credit)))"

definition isActiveShip :: "int \<Rightarrow> int \<Rightarrow> yard_world \<Rightarrow> bool" where
  "isActiveShip player i s = (case tx_do (ActiveShip player) (yw_db s) of
       (Inr (j, True), _) \<Rightarrow> j = i
     | _ \<Rightarrow> (case LookupPrimaryShipByPlayer s player of None \<Rightarrow> False | Some (j, _) \<Rightarrow> j = i))"

definition mirrorRemoveShip :: "yard_env \<Rightarrow> int \<Rightarrow> int \<Rightarrow> yard_world \<Rightarrow> yard_world" where
  "mirrorRemoveShip env sector i s = yard_Send sector (RemoveShipCommand (ye_worker env) i) s"

definition handleSellShip :: "yard_env \<Rightarrow> int \<Rightarrow> int \<Rightarrow> int \<Rightarrow> yard_world \<Rightarrow> yard_reply \<times> yard_world" where
  "handleSellShip env player yard shipID s = (case ownedDockedShip s player yard shipID of Inl e \<Rightarrow> (e, s)
     | Inr target \<Rightarrow> (case GetShipClass (ye_classes env) (s_ShipClassID target) of None \<Rightarrow> (Refused 409, s)
       | Some cls \<Rightarrow>
         (case sellDecision (cl_BasePrice cls) (cf_TradeInRatio (ye_cfg env)) (int (length (ShipsByPlayer s player))) (isActiveShip player (s_ID target) s) of
            Inl e \<Rightarrow> (Refused 409, s)
          | Inr credit \<Rightarrow>
            (case yard_tx (bindM (onPlayers (AdjustCash player credit)) (\<lambda>cash. bindM (ships_Delete (s_ID target)) (\<lambda>_. returnM cash))) s of
               (Inl e, s) \<Rightarrow> (Refused 500, s)
             | (Inr cash, s) \<Rightarrow> (Sold cash, case LookupPrimaryShipByPlayer s player of None \<Rightarrow> s
                 | Some (_, sector) \<Rightarrow> mirrorRemoveShip env sector (s_ID target) s)))))"

section \<open>What a request leaves behind\<close>

lemma onPlayers_ok [run_simps]:
  "onPlayers m s = (Inr x, s') \<longleftrightarrow> (\<exists>d. m (yw_db s) = (Inr x, d) \<and> s' = s\<lparr>yw_db := d\<rparr>)"
  by (auto simp: onPlayers_def split: prod.splits sum.splits)

lemma yard_tx_ok [run_simps]:
  "yard_tx body s = (Inr x, s') \<longleftrightarrow> body s = (Inr x, s') \<and> \<not> tx_aborted (yw_db s')"
  by (auto simp: yard_tx_def split: prod.splits sum.splits)

lemma yard_tx_err: "yard_tx body s = (Inl e, s') \<Longrightarrow> s' = s"
  by (auto simp: yard_tx_def split: prod.splits sum.splits if_splits)

lemma SaveEquipment_ok [run_simps]:
  "SaveEquipment i v s = (Inr u, s') \<longleftrightarrow> \<not> tx_aborted (yw_db s) \<and> (\<exists>x. map_of (yw_ships s) i = Some x \<and> s' = putRow i (fitted v x) s)"
  by (auto simp: SaveEquipment_def split: option.splits)

lemma ships_Delete_ok [run_simps]:
  "ships_Delete i s = (Inr u, s') \<longleftrightarrow> \<not> tx_aborted (yw_db s) \<and> map_of (yw_ships s) i \<noteq> None \<and> s' = dropRow i s"
  by (auto simp: ships_Delete_def)

lemma putRow_simps [simp]:
  "yw_ships (putRow i x s) = AList.update i x (yw_ships s)" "yw_snaps (putRow i x s) = yw_snaps s"
  "players (yw_db (putRow i x s)) = players (yw_db s)" "tx_aborted (yw_db (putRow i x s)) = tx_aborted (yw_db s)"
  "yw_sectors (putRow i x s) = yw_sectors s"
  by (simp_all add: putRow_def)

lemma dropRow_simps [simp]:
  "yw_ships (dropRow i s) = AList.delete i (yw_ships s)" "yw_snaps (dropRow i s) = yw_snaps s"
  "tx_aborted (yw_db (dropRow i s)) = tx_aborted (yw_db s)" "yw_sectors (dropRow i s) = yw_sectors s"
  by (simp_all add: dropRow_def)

lemma cash_of_dropRow [simp]: "cash_of (yw_db (dropRow i s)) = cash_of (yw_db s)"
proof
  fix p :: int
  have "map_of (map (\<lambda>(p, r). (p, forgetShip i r)) t) p = map_option (forgetShip i) (map_of t p)" for t
    by (induction t) auto
  then show "cash_of (yw_db (dropRow i s)) p = cash_of (yw_db s) p"
    by (cases "map_of (players (yw_db s)) p") (simp_all add: cash_of_def dropRow_def forgetShip_def)
qed

lemma cash_of_putRow [simp]: "cash_of (yw_db (putRow i x s)) = cash_of (yw_db s)"
  by (simp add: cash_of_def fun_eq_iff)

lemma yard_Send_simps [simp]:
  "yw_db (yard_Send sec c s) = yw_db s" "yw_ships (yard_Send sec c s) = yw_ships s" "yw_snaps (yard_Send sec c s) = yw_snaps s"
  by (simp_all add: yard_Send_def split: option.split)

lemma mirrorEquipment_simps [simp]:
  "yw_db (mirrorEquipment p i v s) = yw_db s" "yw_ships (mirrorEquipment p i v s) = yw_ships s" "yw_snaps (mirrorEquipment p i v s) = yw_snaps s"
  by (simp_all add: mirrorEquipment_def split: option.split prod.split)

text \<open>The lookups read the published snapshots alone.\<close>

lemma lookups_cong:
  assumes "yw_snaps s' = yw_snaps s"
  shows "LookupPrimaryShipByPlayer s' p = LookupPrimaryShipByPlayer s p" "ownedDockedShip s' p yard i = ownedDockedShip s p yard i"
    "ShipsByPlayer s' p = ShipsByPlayer s p" "shipyardRace s' p yard = shipyardRace s p yard"
proof -
  have n: "Snapshot s' = Snapshot s" by (rule ext) (simp add: Snapshot_def assms)
  show fleet: "ShipsByPlayer s' p = ShipsByPlayer s p" by (simp add: ShipsByPlayer_def assms)
  show "LookupPrimaryShipByPlayer s' p = LookupPrimaryShipByPlayer s p" by (simp add: LookupPrimaryShipByPlayer_def fleet)
  then show "ownedDockedShip s' p yard i = ownedDockedShip s p yard i" "shipyardRace s' p yard = shipyardRace s p yard"
    unfolding ownedDockedShip_def shipyardRace_def n by simp_all
qed

lemma ownedDockedShip_err: "ownedDockedShip s player yard i = Inl e \<Longrightarrow> \<exists>c. e = Refused c"
  by (auto simp: ownedDockedShip_def split: option.splits prod.splits if_splits)

lemma ownedDockedShip_ok:
  assumes "ownedDockedShip s player yard i = Inr x"
  shows "s_ID x = i \<and> s_PlayerID x = player \<and> dockedAtShipyard (s_Docked x) yard"
  using assms by (auto simp: ownedDockedShip_def find_Some_iff split: option.splits prod.splits if_splits)

lemma readReputation:
  "yard_tx (onPlayers (GetReputation p)) s = (Inr rep, s') \<longleftrightarrow> s' = s \<and> \<not> tx_aborted (yw_db s) \<and>
     (\<exists>r. map_of (players (yw_db s)) p = Some r \<and> rep = \<lparr>rep_war = pl_war r, rep_trade = pl_trade r\<rparr>)"
  by (auto simp: GetReputation_def run_simps split: option.splits)

lemma persistOutfit_ok:
  assumes "persistOutfit player i v price s = (Inr cash, s')"
  shows "\<exists>x. map_of (yw_ships s) i = Some x \<and> map_of (yw_ships s') = (map_of (yw_ships s))(i \<mapsto> fitted v x) \<and>
    cash_of (yw_db s) player = Some (cash - wrap64 (- price)) \<and> 0 \<le> cash \<and>
    cash_of (yw_db s') = (cash_of (yw_db s))(player \<mapsto> cash) \<and> yw_snaps s' = yw_snaps s"
  using assms
  by (auto simp: persistOutfit_def run_simps AdjustCash_ok cash_of_set_cash split: prod.splits sum.splits)

text \<open>Every gate of an installation, as the catalogue states it.\<close>

definition admits :: "equipment \<Rightarrow> ship_class \<Rightarrow> ship \<Rightarrow> int \<Rightarrow> balance_reputation \<Rightarrow> bool" where
  "admits row cls x level rep \<longleftrightarrow>
     em_ShipClass row \<in> {0, cl_Class cls} \<and> em_Race row \<in> {0, s_Race x} \<and>
     em_MinWarRate row \<le> rp_War rep \<and> em_MinTradeRate row \<le> rp_Trade rep \<and> em_MinRaceRate row \<le> rp_Race rep \<and>
     1 \<le> level \<and> level \<le> max 1 (em_MaxLevel row) \<and>
     em_Type row \<notin> eq_Type ` set (s_Equipment x) \<and>
     em_Dependance row \<in> {[], ''none''} \<union> eq_Type ` set (s_Equipment x)"

lemma hasEquipmentType_iff: "hasEquipmentType q t \<longleftrightarrow> t \<in> eq_Type ` set q"
  by (auto simp: hasEquipmentType_def list_ex_iff)

lemma ResolveInstall_iff:
  "ResolveInstall c i (cl_Class cls) (s_Race x) level (s_Equipment x) rep = Inr row \<longleftrightarrow>
     GetEquipment c i = Some row \<and> admits row cls x level rep"
proof (cases "GetEquipment c i")
  case (Some e)
  have gate: "(if P then Inl b else z) = Inr row \<longleftrightarrow> \<not> P \<and> z = Inr row" for P and b :: balance_err and z :: "balance_err + equipment"
    by simp
  have lvl: "(if em_MaxLevel e < 1 then 1 else em_MaxLevel e) = max 1 (em_MaxLevel e)" by simp
  show ?thesis
    unfolding ResolveInstall_def admits_def hasEquipmentType_iff Some option.case gate lvl de_Morgan_disj not_less by blast
qed (simp add: ResolveInstall_def)

definition yardStanding :: "yard_env \<Rightarrow> yard_world \<Rightarrow> int \<Rightarrow> int \<Rightarrow> player_row \<Rightarrow> balance_reputation" where
  "yardStanding env s player yard r = \<lparr>rp_War = pl_war r, rp_Trade = pl_trade r,
     rp_Race = (case ye_standing env of None \<Rightarrow> 0 | Some get \<Rightarrow> get player (shipyardRace s player yard))\<rparr>"

lemma handleInstall_ok:
  assumes "handleInstall env player yard i e level s = (Outfitted cash q, s')"
  shows "\<exists>x cls r row. ownedDockedShip s player yard i = Inr x \<and> GetShipClass (ye_classes env) (s_ShipClassID x) = Some cls \<and>
    map_of (players (yw_db s)) player = Some r \<and> GetEquipment (ye_equipment env) e = Some row \<and>
    admits row cls x level (yardStanding env s player yard r) \<and> q = installed x row level \<and>
    persistOutfit player i (fitValues env cls q) (InstallPrice row level) s = (Inr cash, s')"
proof -
  obtain x cls where x: "ownedDockedShip s player yard i = Inr x" and cls: "GetShipClass (ye_classes env) (s_ShipClassID x) = Some cls"
    using assms by (auto simp: handleInstall_def dest: ownedDockedShip_err split: sum.splits option.splits)
  obtain r where r: "map_of (players (yw_db s)) player = Some r" "\<not> tx_aborted (yw_db s)"
    using assms x cls by (auto simp: handleInstall_def readReputation split: prod.splits sum.splits)
  then have rep: "yard_tx (onPlayers (GetReputation player)) s = (Inr \<lparr>rep_war = pl_war r, rep_trade = pl_trade r\<rparr>, s)"
    by (simp add: readReputation)
  show ?thesis
    using assms x cls r ownedDockedShip_ok [OF x]
    by (auto simp: handleInstall_def rep gatedInstall_def yardStanding_def ResolveInstall_iff Let_def admits_def
        split: prod.splits sum.splits)
qed

lemma handleInstall_replies: "handleInstall env player yard i e level s = (reply, s') \<Longrightarrow> \<exists>c q. reply \<in> {Refused c, Outfitted c q}"
  by (auto simp: handleInstall_def Let_def dest: ownedDockedShip_err split: sum.splits option.splits prod.splits)

lemma handleInstall_refused: "handleInstall env player yard i e level s = (Refused c, s') \<Longrightarrow> s' = s"
  by (auto simp: handleInstall_def persistOutfit_def Let_def readReputation split: sum.splits option.splits prod.splits
      dest!: yard_tx_err)

definition outfitted :: "int \<Rightarrow> int \<Rightarrow> refit_values \<Rightarrow> int \<Rightarrow> ship \<Rightarrow> yard_world \<Rightarrow> yard_world" where
  "outfitted player i v c x s = mirrorEquipment player i v (putRow i (fitted v x) (s\<lparr>yw_db := set_cash player c (yw_db s)\<rparr>))"

lemma persistOutfit_run:
  assumes "cash_of (yw_db s) player = Some b" "\<not> tx_aborted (yw_db s)" "0 \<le> b + wrap64 (- price)" "in64 (b + wrap64 (- price))"
    and "map_of (yw_ships s) i = Some x"
  shows "persistOutfit player i v price s = (Inr (b + wrap64 (- price)), outfitted player i v (b + wrap64 (- price)) x s)"
proof -
  have "AdjustCash player (wrap64 (- price)) (yw_db s) = (Inr (b + wrap64 (- price)), set_cash player (b + wrap64 (- price)) (yw_db s))"
    using assms by (simp add: AdjustCash_ok)
  then have "yard_tx (bindM (onPlayers (AdjustCash player (wrap64 (- price)))) (\<lambda>cash. bindM (SaveEquipment i v) (\<lambda>_. returnM cash))) s =
      (Inr (b + wrap64 (- price)), putRow i (fitted v x) (s\<lparr>yw_db := set_cash player (b + wrap64 (- price)) (yw_db s)\<rparr>))"
    using assms by (simp add: run_simps)
  then show ?thesis by (simp add: persistOutfit_def outfitted_def)
qed

lemma handleInstall_run:
  assumes "ownedDockedShip s player yard i = Inr x" "GetShipClass (ye_classes env) (s_ShipClassID x) = Some cls"
    "map_of (players (yw_db s)) player = Some r" "\<not> tx_aborted (yw_db s)" "GetEquipment (ye_equipment env) e = Some row"
    "admits row cls x level (yardStanding env s player yard r)"
    and "map_of (yw_ships s) i = Some z" "c = pl_cash r + wrap64 (- InstallPrice row level)" "0 \<le> c" "in64 c"
  shows "handleInstall env player yard i e level s =
    (Outfitted c (installed x row level), outfitted player i (fitValues env cls (installed x row level)) c z s)"
proof -
  have rep: "yard_tx (onPlayers (GetReputation player)) s = (Inr \<lparr>rep_war = pl_war r, rep_trade = pl_trade r\<rparr>, s)"
    using assms(3,4) by (simp add: readReputation)
  have gate: "gatedInstall env e (cl_Class cls) (s_Race x) level (s_Equipment x) player \<lparr>rep_war = pl_war r, rep_trade = pl_trade r\<rparr>
      (shipyardRace s player yard) = Inr row"
    using assms(5,6) by (simp add: gatedInstall_def yardStanding_def ResolveInstall_iff)
  have b: "cash_of (yw_db s) player = Some (pl_cash r)" using assms(3) by (simp add: cash_of_def)
  have "1 \<le> level" using assms(6) by (simp add: admits_def)
  with persistOutfit_run [OF b assms(4) _ _ assms(7), of "InstallPrice row level"] assms(8-10) gate rep
  show ?thesis using assms(1,2) ownedDockedShip_ok [OF assms(1)] by (simp add: handleInstall_def Let_def)
qed

section \<open>A yard\<close>

definition yardClass :: ship_class where
  "yardClass = \<lparr>cl_ID = 1, cl_Race = 1, cl_Type = 1, cl_Class = 5, cl_Name = runes_of ''Scout'', cl_Speed = Fin 100, cl_Acceleration = Fin 10,
     cl_Laser = 50, cl_Shield = 200, cl_Hull = 100, cl_ShieldCharge = 10, cl_MaxEnergy = 300, cl_EnergyRecharge = 5, cl_CargoBay = 40,
     cl_BasePrice = 400, cl_Radar = 500\<rparr>"

definition yardModule :: "int \<Rightarrow> string \<Rightarrow> int \<Rightarrow> equipment" where
  "yardModule i typ price = \<lparr>em_ID = i, em_Type = typ, em_MaxLevel = 3, em_Race = 0, em_ShipClass = 0, em_Price = price, em_PricePerLevel = 10,
     em_MinWarRate = 0, em_MinTradeRate = 0, em_MinRaceRate = 0, em_Dependance = ''none'', em_EnergyUseType = ''always'', em_EnergyUsage = 1\<rparr>"

definition yardEnv :: yard_env where
  "yardEnv = \<lparr>ye_classes = \<lparr>sc_byID = [(1, yardClass)], sc_list = [yardClass]\<rparr>,
     ye_equipment = \<lparr>es_byID = [(1, yardModule 1 ''up_engine'' 100), (2, yardModule 2 ''up_rudder'' 50)],
       es_list = [yardModule 1 ''up_engine'' 100, yardModule 2 ''up_rudder'' 50]\<rparr>,
     ye_loadouts = \<lparr>ls_byRaceType = [], ls_nonEmpty = 0\<rparr>, ye_playerRace = (\<lambda>_. 1), ye_standing = None,
     ye_cfg = \<lparr>cf_SectorID = 1, cf_SpawnHalfX = Fin 100, cf_SpawnHalfY = Fin 100, cf_StartMaxSpeed = Fin 20, cf_StartAccel = Fin 10,
       cf_StartTurnRate = Fin 1, cf_StartHP = 100, cf_StartShld = 100, cf_StartShldCharge = 1, cf_StartEnergy = 100, cf_StartEnergyChrg = 1,
       cf_StartLaserDamage = 5, cf_StartLaserRange = Fin 100, cf_StartLaserECost = 1, cf_StartMissiles = 5, cf_SpacesuitHP = 30,
       cf_SpacesuitLaserDamage = 5, cf_SpacesuitMaxSpeed = Fin 20, cf_TradeInRatio = Fin (1 / 2)\<rparr>,
     ye_worker = demoWorker\<rparr>"

definition yardShip :: "int \<Rightarrow> ship" where
  "yardShip i = zeroShip\<lparr>s_ID := i, s_PlayerID := 1, s_Race := 1, s_ShipClassID := 1, s_SectorID := 3, s_HP := 100, s_MaxHP := 100,
     s_Docked := Some (EntityRef EntityKindShipyard 5)\<rparr>"

definition yardWorld :: yard_world where
  "yardWorld = \<lparr>yw_db = sample_db\<lparr>ships := [(10, shipColumns (yardShip 10)), (13, shipColumns (yardShip 13))]\<rparr>,
     yw_ships = [(10, yardShip 10), (13, yardShip 13)], yw_seq = 14,
     yw_snaps = [(3, \<lparr>yn_Ships = [yardShip 10, yardShip 13], yn_Shipyards = []\<rparr>)], yw_sectors = []\<rparr>"

lemma yardDocked: "i \<in> {10, 13} \<Longrightarrow> yw_snaps s = yw_snaps yardWorld \<Longrightarrow> ownedDockedShip s 1 5 i = Inr (yardShip i)"
  by (auto simp: ownedDockedShip_def LookupPrimaryShipByPlayer_def ShipsByPlayer_def Snapshot_def yardWorld_def yardShip_def zeroShip_def
      dockedAtShipyard_def)

lemma yardInstalls:
  assumes "yw_snaps s = yw_snaps yardWorld" "map_of (players (yw_db s)) 1 = Some r" "\<not> tx_aborted (yw_db s)" "map_of (yw_ships s) 10 = Some z"
    and "pl_war r = 0" "pl_trade r = 0" "c = pl_cash r - (if e = 1 then 120 else 70)" "0 \<le> c" "in64 c" "e \<in> {1, 2}"
    and "row = (if e = 1 then yardModule 1 ''up_engine'' 100 else yardModule 2 ''up_rudder'' 50)"
  shows "handleInstall yardEnv 1 5 10 e 2 s = (Outfitted c (installed (yardShip 10) row 2),
    outfitted 1 10 (fitValues yardEnv yardClass (installed (yardShip 10) row 2)) c z s)"
proof (rule handleInstall_run [where row = row])
  show "ownedDockedShip s 1 5 10 = Inr (yardShip 10)" using assms(1) by (simp add: yardDocked)
  show "GetShipClass (ye_classes yardEnv) (s_ShipClassID (yardShip 10)) = Some yardClass"
    by (simp add: GetShipClass_def yardEnv_def yardShip_def)
  show "GetEquipment (ye_equipment yardEnv) e = Some row" using assms by (auto simp: GetEquipment_def yardEnv_def)
  show "admits row yardClass (yardShip 10) 2 (yardStanding yardEnv s 1 5 r)"
    using assms by (auto simp: admits_def yardModule_def yardStanding_def yardEnv_def yardShip_def zeroShip_def)
  show "c = pl_cash r + wrap64 (- InstallPrice row 2)"
    using assms by (auto simp: InstallPrice_def yardModule_def wrap64_def)
qed (use assms in simp_all)

text \<open>
  C20: An installation that succeeds passed every gate of the catalogue (class, race, ranks, level, no module of
  the type yet, the module it depends on), costs the player the list price of the level and no more than there
  is, and leaves in the row of the ship the new kit with the values of the class under it; no other wallet and
  no other ship changes. A refused one changes nothing at all.
\<close>

theorem install_exact:
  assumes "handleInstall env player yard i e level s = (reply, s')"
  shows "case reply of
      Outfitted cash q \<Rightarrow> \<exists>x cls r row z. ownedDockedShip s player yard i = Inr x \<and>
        GetShipClass (ye_classes env) (s_ShipClassID x) = Some cls \<and> map_of (players (yw_db s)) player = Some r \<and>
        GetEquipment (ye_equipment env) e = Some row \<and> admits row cls x level (yardStanding env s player yard r) \<and>
        q = s_Equipment x @ [\<lparr>eq_EquipmentID = em_ID row, eq_Type = em_Type row, eq_Level = level\<rparr>] \<and>
        map_of (yw_ships s) i = Some z \<and> map_of (yw_ships s') = (map_of (yw_ships s))(i \<mapsto> fitted (fitValues env cls q) z) \<and>
        cash = pl_cash r + wrap64 (- InstallPrice row level) \<and> 0 \<le> cash \<and> cash_of (yw_db s') = (cash_of (yw_db s))(player \<mapsto> cash)
    | Refused c \<Rightarrow> s' = s
    | _ \<Rightarrow> False"
proof (cases reply)
  case (Outfitted cash q)
  from handleInstall_ok [OF assms [unfolded Outfitted]] show ?thesis
    by (auto simp: Outfitted installed_def admits_def cash_of_def dest!: persistOutfit_ok)
next
  case (Refused c)
  with assms handleInstall_refused show ?thesis by auto
qed (use assms handleInstall_replies in force)+

lemma yardStart: "\<exists>r. map_of (players (yw_db yardWorld)) 1 = Some r \<and> pl_cash r = 5000 \<and> pl_war r = 0 \<and> pl_trade r = 0 \<and> pl_active_ship r = Some 10"
  "\<not> tx_aborted (yw_db yardWorld)" "map_of (yw_ships yardWorld) 10 = Some (yardShip 10)"
  by (simp_all add: yardWorld_def sample_db_def)

lemma yardFirst:
  "handleInstall yardEnv 1 5 10 1 2 yardWorld = (Outfitted 4880 (installed (yardShip 10) (yardModule 1 ''up_engine'' 100) 2),
     outfitted 1 10 (fitValues yardEnv yardClass (installed (yardShip 10) (yardModule 1 ''up_engine'' 100) 2)) 4880 (yardShip 10) yardWorld)"
  using yardStart(1) by (auto intro!: yardInstalls yardStart(2,3) simp: in64_def)

lemma outfitted_simps:
  "yw_snaps (outfitted p i v c x s) = yw_snaps s" "tx_aborted (yw_db (outfitted p i v c x s)) = tx_aborted (yw_db s)"
  "map_of (yw_ships (outfitted p i v c x s)) = (map_of (yw_ships s))(i \<mapsto> fitted v x)"
  "map_of (players (yw_db s)) p = Some r \<Longrightarrow> map_of (players (yw_db (outfitted p i v c x s))) p = Some (r\<lparr>pl_cash := c\<rparr>)"
  by (simp_all add: outfitted_def set_cash_def split: option.split)

theorem install_exact_witness:
  "handleInstall yardEnv 1 5 10 1 2 yardWorld =
     (Outfitted 4880 (installed (yardShip 10) (yardModule 1 ''up_engine'' 100) 2), snd (handleInstall yardEnv 1 5 10 1 2 yardWorld)) \<and>
   cash_of (yw_db (snd (handleInstall yardEnv 1 5 10 1 2 yardWorld))) 1 = Some 4880"
proof -
  have run: "handleInstall yardEnv 1 5 10 1 2 yardWorld =
     (Outfitted 4880 (installed (yardShip 10) (yardModule 1 ''up_engine'' 100) 2), snd (handleInstall yardEnv 1 5 10 1 2 yardWorld))"
    by (simp add: yardFirst)
  from install_exact [OF run] run show ?thesis by auto
qed

text \<open>
  The kit of a ship is read from the published snapshot and written to its row as a whole. Of two
  installations between two snapshots both are charged, and the second overwrites the first: the row ends with
  the kit of the snapshot and the second module, and the first module is paid for and lost.
\<close>

theorem hasty_install_is_lost:
  assumes "handleInstall env player yard i e level s = (Outfitted cash q, s')"
    and "handleInstall env player yard i e' level' s' = (Outfitted cash' q', s'')"
  shows "\<exists>x row row' b. ownedDockedShip s player yard i = Inr x \<and> GetEquipment (ye_equipment env) e = Some row \<and>
    GetEquipment (ye_equipment env) e' = Some row' \<and> cash_of (yw_db s) player = Some b \<and>
    cash_of (yw_db s'') player = Some (b + wrap64 (- InstallPrice row level) + wrap64 (- InstallPrice row' level')) \<and>
    map_option s_Equipment (map_of (yw_ships s'') i) =
      Some (s_Equipment x @ [\<lparr>eq_EquipmentID = em_ID row', eq_Type = em_Type row', eq_Level = level'\<rparr>])"
proof -
  from handleInstall_ok [OF assms(1)] obtain x cls row where one: "ownedDockedShip s player yard i = Inr x"
      "GetEquipment (ye_equipment env) e = Some row" "persistOutfit player i (fitValues env cls q) (InstallPrice row level) s = (Inr cash, s')"
    by blast
  note paid = persistOutfit_ok [OF one(3)]
  from handleInstall_ok [OF assms(2)] obtain y cls' row' r where two: "ownedDockedShip s' player yard i = Inr y"
      "GetEquipment (ye_equipment env) e' = Some row'" "q' = installed y row' level'" "admits row' cls' y level' r"
      "persistOutfit player i (fitValues env cls' q') (InstallPrice row' level') s' = (Inr cash', s'')"
    by blast
  have "y = x" using paid two(1) one(1) lookups_cong(2) [of s' s] by auto
  with one two paid persistOutfit_ok [OF two(5)] show ?thesis
    by (auto simp: installed_def admits_def fitted_def fitValues_def Let_def)
qed

theorem hasty_install_is_lost_witness:
  "\<exists>s' s''. handleInstall yardEnv 1 5 10 1 2 yardWorld = (Outfitted 4880 (installed (yardShip 10) (yardModule 1 ''up_engine'' 100) 2), s') \<and>
    handleInstall yardEnv 1 5 10 2 2 s' = (Outfitted 4810 (installed (yardShip 10) (yardModule 2 ''up_rudder'' 50) 2), s'') \<and>
    map_option s_Equipment (map_of (yw_ships s'') 10) = Some [\<lparr>eq_EquipmentID = 2, eq_Type = ''up_rudder'', eq_Level = 2\<rparr>]"
proof -
  let ?s = "snd (handleInstall yardEnv 1 5 10 1 2 yardWorld)"
  have first: "handleInstall yardEnv 1 5 10 1 2 yardWorld = (Outfitted 4880 (installed (yardShip 10) (yardModule 1 ''up_engine'' 100) 2), ?s)"
    by (simp add: yardFirst)
  from yardStart(1) obtain r where r: "map_of (players (yw_db yardWorld)) 1 = Some r" "pl_war r = 0" "pl_trade r = 0" by blast
  have "\<exists>t. handleInstall yardEnv 1 5 10 2 2 ?s = (Outfitted 4810 (installed (yardShip 10) (yardModule 2 ''up_rudder'' 50) 2), t)"
    unfolding yardFirst snd_conv
    by (rule exI, rule yardInstalls [where r = "r\<lparr>pl_cash := 4880\<rparr>"]) (simp_all add: r outfitted_simps yardStart in64_def)
  then obtain t where second: "handleInstall yardEnv 1 5 10 2 2 ?s = (Outfitted 4810 (installed (yardShip 10) (yardModule 2 ''up_rudder'' 50) 2), t)" ..
  have "ownedDockedShip yardWorld 1 5 10 = Inr (yardShip 10)" "s_Equipment (yardShip 10) = []"
    "GetEquipment (ye_equipment yardEnv) 2 = Some (yardModule 2 ''up_rudder'' 50)"
    by (simp_all add: yardDocked yardShip_def zeroShip_def GetEquipment_def yardEnv_def)
  with hasty_install_is_lost [OF first second] first second show ?thesis by (auto simp: yardModule_def)
qed

section \<open>A sale\<close>

lemma handleSellShip_ok:
  assumes "handleSellShip env player yard i s = (Sold cash, s')"
  shows "\<exists>x cls credit b. ownedDockedShip s player yard i = Inr x \<and> GetShipClass (ye_classes env) (s_ShipClassID x) = Some cls \<and>
    sellDecision (cl_BasePrice cls) (cf_TradeInRatio (ye_cfg env)) (int (length (ShipsByPlayer s player))) (isActiveShip player i s) = Inr credit \<and>
    map_of (yw_ships s) i \<noteq> None \<and> map_of (yw_ships s') = (map_of (yw_ships s))(i := None) \<and>
    cash_of (yw_db s) player = Some b \<and> cash = b + credit \<and> cash_of (yw_db s') = (cash_of (yw_db s))(player \<mapsto> cash)"
proof -
  obtain x cls where x: "ownedDockedShip s player yard i = Inr x" and cls: "GetShipClass (ye_classes env) (s_ShipClassID x) = Some cls"
    using assms by (auto simp: handleSellShip_def dest: ownedDockedShip_err split: sum.splits option.splits)
  have i: "s_ID x = i" using ownedDockedShip_ok [OF x] by simp
  obtain credit where credit: "sellDecision (cl_BasePrice cls) (cf_TradeInRatio (ye_cfg env)) (int (length (ShipsByPlayer s player))) (isActiveShip player i s) = Inr credit"
    using assms by (auto simp: handleSellShip_def x cls i split: sum.splits)
  obtain t where t: "yard_tx (bindM (onPlayers (AdjustCash player credit)) (\<lambda>cash. bindM (ships_Delete i) (\<lambda>_. returnM cash))) s = (Inr cash, t)"
    and s': "yw_db s' = yw_db t" "yw_ships s' = yw_ships t"
    using assms by (auto simp: handleSellShip_def x cls i credit mirrorRemoveShip_def split: prod.splits sum.splits option.splits)
  from t obtain b where "cash_of (yw_db s) player = Some b" "cash = b + credit" "map_of (yw_ships s) i \<noteq> None"
      "t = dropRow i (s\<lparr>yw_db := set_cash player cash (yw_db s)\<rparr>)"
    by (auto simp: run_simps AdjustCash_ok)
  then show ?thesis
    by (intro exI [of _ x] exI [of _ cls] exI [of _ credit] exI [of _ b]) (simp add: x cls credit s' cash_of_set_cash)
qed

lemma handleSellShip_gone:
  assumes "map_of (yw_ships s) i = None"
  shows "\<exists>c. handleSellShip env player yard i s = (Refused c, s)"
proof -
  have "\<nexists>cash t. yard_tx (bindM (onPlayers (AdjustCash player credit)) (\<lambda>cash. bindM (ships_Delete i) (\<lambda>_. returnM cash))) s = (Inr cash, t)" for credit
    using assms by (auto simp: run_simps)
  then have rolled: "\<exists>e. yard_tx (bindM (onPlayers (AdjustCash player credit)) (\<lambda>cash. bindM (ships_Delete i) (\<lambda>_. returnM cash))) s = (Inl e, s)" for credit
    by (metis yard_tx_err prod.exhaust_sel sum.exhaust_sel)
  show ?thesis
  proof (cases "ownedDockedShip s player yard i")
    case (Inl e)
    then show ?thesis using ownedDockedShip_err by (fastforce simp: handleSellShip_def)
  next
    case (Inr x)
    then have "s_ID x = i" using ownedDockedShip_ok by blast
    moreover obtain e where "yard_tx (bindM (onPlayers (AdjustCash player credit)) (\<lambda>cash. bindM (ships_Delete i) (\<lambda>_. returnM cash))) s = (Inl (e credit), s)" for credit
      using rolled by metis
    ultimately show ?thesis by (simp add: handleSellShip_def Inr split: sum.split option.split)
  qed
qed

text \<open>
  C21: A sale takes the ship out of the database and credits its owner the trade-in share of the price of its
  class, which is never negative; it needs a second ship, and never takes the active one. A ship is sold once:
  every later attempt, by whoever and at whichever yard, is refused and moves no money, although the snapshot
  still shows the ship.
\<close>

theorem ship_sold_once:
  assumes "handleSellShip env player yard i s = (Sold cash, s')"
  shows "(\<exists>x cls b. ownedDockedShip s player yard i = Inr x \<and> GetShipClass (ye_classes env) (s_ShipClassID x) = Some cls \<and>
      2 \<le> length (ShipsByPlayer s player) \<and> \<not> isActiveShip player i s \<and> cash_of (yw_db s) player = Some b \<and>
      cash = b + max 0 (f_to_int64 (f_mul (f_of_int (cl_BasePrice cls)) (cf_TradeInRatio (ye_cfg env)))) \<and>
      cash_of (yw_db s') = (cash_of (yw_db s))(player \<mapsto> cash) \<and> map_of (yw_ships s') = (map_of (yw_ships s))(i := None)) \<and>
    (\<exists>c. handleSellShip env player' yard' i s' = (Refused c, s'))"
proof (rule conjI)
  show "\<exists>c. handleSellShip env player' yard' i s' = (Refused c, s')"
    using handleSellShip_ok [OF assms] by (intro handleSellShip_gone) auto
qed (use handleSellShip_ok [OF assms] in \<open>auto simp: sellDecision_def Let_def max_def split: if_splits\<close>)

lemma yardSells: "handleSellShip yardEnv 1 5 13 yardWorld = (Sold 5200, snd (handleSellShip yardEnv 1 5 13 yardWorld))"
proof -
  have active: "\<not> isActiveShip 1 13 yardWorld"
    by (simp add: isActiveShip_def tx_do_def ActiveShip_def bindM_def query_def sql_def returnM_def yardWorld_def sample_db_def)
  have fleet: "length (ShipsByPlayer yardWorld 1) = 2"
    by (simp add: ShipsByPlayer_def yardWorld_def yardShip_def zeroShip_def)
  have "f_to_int64 (f_mul (f_of_int 400) (Fin (1 / 2))) = 200" by code_simp
  then have credit: "sellDecision (cl_BasePrice yardClass) (cf_TradeInRatio (ye_cfg yardEnv)) 2 False = Inr 200"
    by (simp add: sellDecision_def yardClass_def yardEnv_def)
  have cls: "GetShipClass (ye_classes yardEnv) (s_ShipClassID (yardShip 13)) = Some yardClass" and i: "s_ID (yardShip 13) = 13"
    by (simp_all add: GetShipClass_def yardEnv_def yardShip_def)
  have "AdjustCash 1 200 (yw_db yardWorld) = (Inr 5200, set_cash 1 5200 (yw_db yardWorld))"
    using yardStart by (auto simp: AdjustCash_ok cash_of_def in64_def)
  moreover have "map_of (yw_ships yardWorld) 13 = Some (yardShip 13)" by (simp add: yardWorld_def)
  ultimately have "yard_tx (bindM (onPlayers (AdjustCash 1 200)) (\<lambda>cash. bindM (ships_Delete 13) (\<lambda>_. returnM cash))) yardWorld =
      (Inr 5200, dropRow 13 (yardWorld\<lparr>yw_db := set_cash 1 5200 (yw_db yardWorld)\<rparr>))"
    using yardStart(2) by (simp add: run_simps)
  with active fleet credit cls i show ?thesis by (simp add: handleSellShip_def yardDocked split: option.split)
qed

theorem ship_sold_once_witness:
  "handleSellShip yardEnv 1 5 13 yardWorld = (Sold 5200, snd (handleSellShip yardEnv 1 5 13 yardWorld)) \<and>
   (\<exists>c. handleSellShip yardEnv 1 5 13 (snd (handleSellShip yardEnv 1 5 13 yardWorld)) = (Refused c, snd (handleSellShip yardEnv 1 5 13 yardWorld)))"
  using yardSells ship_sold_once [OF yardSells, of 1 5] by blast

end
