(* ===== verification/Pilots.thy ===== *)
theory Pilots
  imports Shipyard Actions CargoRepo
begin

text \<open>
  \<open>internal/app\<close>: the starter ship of a player and the spacesuit (\<open>spawner.go\<close>), leaving and boarding ships
  (\<open>eva.go\<close>), and what becomes of the pilot of a destroyed or captured ship (\<open>respawn.go\<close>). The world is that of the
  shipyard, with the events of moved players. Every statement outside a transaction commits by itself; a worker
  that knows the sector takes a command and answers in time.
\<close>

section \<open>The spawner\<close>

record home_yard =
  hy_Sector :: int
  hy_Pos :: vec2

text \<open>The statics of the sectors, in the order in which the loop over the map visits them.\<close>

definition considerYard :: "static_obj \<Rightarrow> (int \<rightharpoonup> home_yard) \<Rightarrow> (int \<rightharpoonup> home_yard)" where
  "considerYard sy out =
     (if so_Race sy = 0 then out
      else if (case out (so_Race sy) of None \<Rightarrow> True | Some cur \<Rightarrow> so_SectorID sy < hy_Sector cur)
      then out(so_Race sy \<mapsto> \<lparr>hy_Sector = so_SectorID sy, hy_Pos = so_Pos sy\<rparr>) else out)"

definition buildHomeShipyards :: "static_obj list list \<Rightarrow> int \<rightharpoonup> home_yard" where
  "buildHomeShipyards statics = fold considerYard (concat statics) Map.empty"

record pilot_env =
  pv_yard :: yard_env
  pv_homes :: "int \<rightharpoonup> home_yard"
  pv_playerRace :: "int \<Rightarrow> int option"
  pv_npc :: int
  pv_home :: int
  pv_BoardRange :: float64
  pv_hasBus :: bool

abbreviation (input) pv_cfg :: "pilot_env \<Rightarrow> spawner_config" where
  "pv_cfg env \<equiv> ye_cfg (pv_yard env)"

text \<open>Two draws of \<open>rng.Float64\<close> give the offset.\<close>

definition scatter :: "float64 \<Rightarrow> float64 \<Rightarrow> float64" where
  "scatter u half = f_mul (f_sub (f_mul u (Fin 2)) (Fin 1)) half"

definition homeSpawn :: "pilot_env \<Rightarrow> int \<Rightarrow> float64 \<Rightarrow> float64 \<Rightarrow> int \<times> vec2" where
  "homeSpawn env race ux uy =
     (let dx = scatter ux (cf_SpawnHalfX (pv_cfg env)); dy = scatter uy (cf_SpawnHalfY (pv_cfg env)) in
      case pv_homes env race of
        Some yard \<Rightarrow> (hy_Sector yard, \<lparr>vX = f_add (vX (hy_Pos yard)) dx, vY = f_add (vY (hy_Pos yard)) dy\<rparr>)
      | None \<Rightarrow> (cf_SectorID (pv_cfg env), \<lparr>vX = dx, vY = dy\<rparr>))"

definition starterClass :: "pilot_env \<Rightarrow> int \<Rightarrow> ship_class option" where
  "starterClass env race = ScoutForRace (ye_classes (pv_yard env)) race"

definition starterName :: "pilot_env \<Rightarrow> int \<Rightarrow> runes" where
  "starterName env race = (case ScoutForRace (ye_classes (pv_yard env)) race of None \<Rightarrow> [] | Some sc \<Rightarrow> cl_Name sc)"

text \<open>
  The class of the scout overrides the configured values when it has a hull, and its base loadout the values of
  the class. With an empty loadout the values of \<open>fitValues\<close> are those of the class.
\<close>

definition bareShip :: "pilot_env \<Rightarrow> int \<Rightarrow> int \<Rightarrow> runes \<Rightarrow> int \<Rightarrow> vec2 \<Rightarrow> ship" where
  "bareShip env player race name sector pos = (let cfg = pv_cfg env in
     zeroShip\<lparr>s_PlayerID := player, s_Race := race, s_Name := name, s_SectorID := sector, s_Pos := pos, s_Direction := \<lparr>vX = Fin 1, vY = Fin 0\<rparr>,
       s_MaxSpeed := cf_StartMaxSpeed cfg, s_Acceleration := cf_StartAccel cfg, s_TurnRate := cf_StartTurnRate cfg, s_HP := cf_StartHP cfg,
       s_MaxHP := cf_StartHP cfg, s_Shield := cf_StartShld cfg, s_MaxShield := cf_StartShld cfg, s_ShieldRecharge := cf_StartShldCharge cfg,
       s_Energy := cf_StartEnergy cfg, s_MaxEnergy := cf_StartEnergy cfg, s_EnergyRecharge := cf_StartEnergyChrg cfg, s_EnergyDelta := 0,
       s_LaserDamage := cf_StartLaserDamage cfg, s_LaserRange := cf_StartLaserRange cfg, s_LaserEnergyCost := cf_StartLaserECost cfg,
       s_RadarRange := Fin 0, s_CargoBay := Fin 100, s_ShipClassID := 0, s_Equipment := []\<rparr>)"

definition buildStarterShip :: "pilot_env \<Rightarrow> int \<Rightarrow> int \<Rightarrow> runes \<Rightarrow> int \<Rightarrow> vec2 \<Rightarrow> ship" where
  "buildStarterShip env player race name sector pos =
     (let x = bareShip env player race name sector pos in
      case starterClass env race of
        Some cls \<Rightarrow>
          if 0 < cl_Hull cls then
            (let lo = BaseLoadout (ye_loadouts (pv_yard env)) (cl_Race cls) (cl_Type cls); v = fitValues (pv_yard env) cls lo in
             x\<lparr>s_ShipClassID := cl_ID cls, s_HP := cl_Hull cls, s_MaxHP := cl_Hull cls, s_MaxSpeed := rv_MaxSpeed v, s_Acceleration := rv_Acceleration v,
               s_TurnRate := rv_TurnRate v, s_Shield := rv_MaxShield v, s_MaxShield := rv_MaxShield v, s_ShieldRecharge := rv_ShieldRecharge v,
               s_Energy := rv_MaxEnergy v, s_MaxEnergy := rv_MaxEnergy v, s_EnergyRecharge := rv_EnergyRecharge v, s_EnergyDelta := rv_EnergyDelta v,
               s_LaserDamage := rv_LaserDamage v, s_RadarRange := rv_RadarRange v, s_CargoBay := rv_CargoBay v, s_Equipment := lo\<rparr>)
          else x
      | None \<Rightarrow> x)"

text \<open>The command to the worker; an unknown sector refuses it, a ship that is there already is no error.\<close>

definition sendAddShip :: "pilot_env \<Rightarrow> int \<Rightarrow> ship \<Rightarrow> yard_world \<Rightarrow> bool \<times> yard_world" where
  "sendAddShip env sector x s = (map_of (yw_sectors s) sector \<noteq> None, mirrorAddShip (pv_yard env) sector x s)"

definition MissileGoodsType :: int where "MissileGoodsType = 10"

definition spawnStarter :: "pilot_env \<Rightarrow> int \<Rightarrow> int \<Rightarrow> runes \<Rightarrow> int \<Rightarrow> vec2 \<Rightarrow> yard_world \<Rightarrow> bool \<times> yard_world" where
  "spawnStarter env player race name sector pos s =
     (let x = buildStarterShip env player race name sector pos in
      case yard_tx (ships_Create x) s of (Inl _, s) \<Rightarrow> (False, s)
      | (Inr i, s) \<Rightarrow>
        (let n = cf_StartMissiles (pv_cfg env) in
         case (if 0 < n then yard_tx (onPlayers (Add (EntityRef EntityKindShip i) MissileGoodsType n 0)) s else (Inr (), s)) of
           (Inl _, s) \<Rightarrow> (False, s)
         | (Inr _, s) \<Rightarrow> sendAddShip env sector (x\<lparr>s_ID := i\<rparr>) s))"

definition SpawnFor :: "pilot_env \<Rightarrow> float64 \<Rightarrow> float64 \<Rightarrow> int \<Rightarrow> yard_world \<Rightarrow> bool \<times> yard_world" where
  "SpawnFor env ux uy player s = (case pv_playerRace env player of None \<Rightarrow> (False, s)
     | Some race \<Rightarrow> (case homeSpawn env race ux uy of (sector, pos) \<Rightarrow> spawnStarter env player race (starterName env race) sector pos s))"

definition SpawnStarterAt :: "pilot_env \<Rightarrow> int \<Rightarrow> int \<Rightarrow> vec2 \<Rightarrow> yard_world \<Rightarrow> bool \<times> yard_world" where
  "SpawnStarterAt env player sector pos s = (case pv_playerRace env player of None \<Rightarrow> (False, s)
     | Some race \<Rightarrow> spawnStarter env player race (starterName env race) sector pos s)"

definition suitShip :: "pilot_env \<Rightarrow> int \<Rightarrow> int \<Rightarrow> vec2 \<Rightarrow> entity_ref option \<Rightarrow> ship" where
  "suitShip env player sector pos docked = (let cfg = pv_cfg env in
     zeroShip\<lparr>s_PlayerID := player, s_SectorID := sector, s_Pos := pos, s_Direction := \<lparr>vX = Fin 1, vY = Fin 0\<rparr>, s_MaxSpeed := cf_SpacesuitMaxSpeed cfg,
       s_Acceleration := cf_StartAccel cfg, s_TurnRate := cf_StartTurnRate cfg, s_HP := cf_SpacesuitHP cfg, s_MaxHP := cf_SpacesuitHP cfg,
       s_Energy := cf_StartEnergy cfg, s_MaxEnergy := cf_StartEnergy cfg, s_EnergyRecharge := cf_StartEnergyChrg cfg,
       s_LaserDamage := cf_SpacesuitLaserDamage cfg, s_LaserRange := cf_StartLaserRange cfg, s_LaserEnergyCost := cf_StartLaserECost cfg,
       s_IsSpacesuit := True, s_Docked := docked\<rparr>)"

definition SpawnSpacesuit :: "pilot_env \<Rightarrow> int \<Rightarrow> int \<Rightarrow> vec2 \<Rightarrow> entity_ref option \<Rightarrow> yard_world \<Rightarrow> int option \<times> yard_world" where
  "SpawnSpacesuit env player sector pos docked s =
     (let x = suitShip env player sector pos docked in
      case yard_tx (ships_Create x) s of (Inl _, s) \<Rightarrow> (None, s)
      | (Inr i, s) \<Rightarrow> (case sendAddShip env sector (x\<lparr>s_ID := i\<rparr>) s of (ok, s) \<Rightarrow> (if ok then Some i else None, s)))"

section \<open>Leaving and boarding ships\<close>

record player_handoff =
  ph_PlayerID :: int
  ph_ShipID :: int
  ph_SourceSector :: int
  ph_TargetSector :: int

record pilot_world =
  pw_yard :: yard_world
  pw_handoffs :: "player_handoff list"

datatype eva_reply = EvaRefused int | EvaShip int | EvaAccess bool | EvaControl | EvaPassenger

text \<open>One call of the players repository.\<close>

definition playersCall :: "'a dbm \<Rightarrow> pilot_world \<Rightarrow> (yard_err + 'a) \<times> pilot_world" where
  "playersCall m s = (case yard_tx (onPlayers m) (pw_yard s) of (r, y) \<Rightarrow> (r, s\<lparr>pw_yard := y\<rparr>))"

definition publishPlayerHandoff :: "pilot_env \<Rightarrow> player_handoff \<Rightarrow> pilot_world \<Rightarrow> pilot_world" where
  "publishPlayerHandoff env h s = (if pv_hasBus env then s\<lparr>pw_handoffs := pw_handoffs s @ [h]\<rparr> else s)"

definition LookupShipSector :: "yard_world \<Rightarrow> int \<Rightarrow> int option" where
  "LookupShipSector s i = map_option s_SectorID (List.find (\<lambda>x. s_ID x = i) (concat (map (\<lambda>(_, n). yn_Ships n) (yw_snaps s))))"

definition shipByID :: "yard_world \<Rightarrow> int \<Rightarrow> (ship \<times> int) option" where
  "shipByID s i = (case LookupShipSector s i of None \<Rightarrow> None
     | Some sec \<Rightarrow> map_option (\<lambda>x. (x, sec)) (List.find (\<lambda>x. s_ID x = i) (yn_Ships (Snapshot s sec))))"

definition IsSpacesuit :: "int \<Rightarrow> yard_world \<Rightarrow> bool option" where
  "IsSpacesuit i s = map_option s_IsSpacesuit (map_of (yw_ships s) i)"

text \<open>\<open>RemoveShipCommand\<close> deletes the row as well, when the worker has the ship.\<close>

definition eva_mirrorRemoveShip :: "pilot_env \<Rightarrow> int \<Rightarrow> int \<Rightarrow> pilot_world \<Rightarrow> pilot_world" where
  "eva_mirrorRemoveShip env sec i s =
     (let y = mirrorRemoveShip (pv_yard env) sec i (pw_yard s) in
      case map_of (yw_sectors (pw_yard s)) sec of None \<Rightarrow> s
      | Some st \<Rightarrow> s\<lparr>pw_yard := (if ss_ships st i \<noteq> None \<and> w_hasRepo (ye_worker (pv_yard env)) then dropRow i y else y)\<rparr>)"

definition mirrorPassenger :: "int \<Rightarrow> int \<Rightarrow> int \<Rightarrow> pilot_world \<Rightarrow> pilot_world" where
  "mirrorPassenger sec host player s = s\<lparr>pw_yard := yard_Send sec (\<lambda>st. snd (AddPassengerCommand host player st)) (pw_yard s)\<rparr>"

definition mirrorPassengerRemove :: "int \<Rightarrow> int \<Rightarrow> int \<Rightarrow> pilot_world \<Rightarrow> pilot_world" where
  "mirrorPassengerRemove sec host player s = s\<lparr>pw_yard := yard_Send sec (\<lambda>st. snd (RemovePassengerCommand host player st)) (pw_yard s)\<rparr>"

definition spawnSuit :: "pilot_env \<Rightarrow> int \<Rightarrow> int \<Rightarrow> vec2 \<Rightarrow> entity_ref option \<Rightarrow> pilot_world \<Rightarrow> int option \<times> pilot_world" where
  "spawnSuit env player sector pos docked s = (case SpawnSpacesuit env player sector pos docked (pw_yard s) of (r, y) \<Rightarrow> (r, s\<lparr>pw_yard := y\<rparr>))"

subsection \<open>Leaving\<close>

record controlled =
  ct_id :: int
  ct_isSuit :: bool
  ct_prev :: int

definition resolveControlledShip :: "int \<Rightarrow> pilot_world \<Rightarrow> eva_reply + controlled" where
  "resolveControlledShip player s = (case fst (playersCall (PassengerHost player) s) of Inl _ \<Rightarrow> Inl (EvaRefused 500)
     | Inr (host, riding) \<Rightarrow>
       if riding \<and> host \<noteq> 0 then Inl (EvaRefused 409)
       else (case fst (playersCall (ActiveShip player) s) of Inl _ \<Rightarrow> Inl (EvaRefused 500)
         | Inr (i, has) \<Rightarrow>
           (case (if \<not> has \<or> i = 0 then map_option (\<lambda>(j, _). (j, 0)) (LookupPrimaryShipByPlayer (pw_yard s) player) else Some (i, i)) of
              None \<Rightarrow> Inl (EvaRefused 409)
            | Some (j, prev) \<Rightarrow> (case IsSpacesuit j (pw_yard s) of None \<Rightarrow> Inl (EvaRefused 500)
                | Some suit \<Rightarrow> Inr \<lparr>ct_id = j, ct_isSuit = suit, ct_prev = prev\<rparr>))))"

definition findOwnedShip :: "int \<Rightarrow> int \<Rightarrow> pilot_world \<Rightarrow> eva_reply + (ship \<times> int)" where
  "findOwnedShip player i s = (case shipByID (pw_yard s) i of None \<Rightarrow> Inl (EvaRefused 404)
     | Some (x, sec) \<Rightarrow> if s_PlayerID x \<noteq> player then Inl (EvaRefused 403) else Inr (x, sec))"

text \<open>A request first reads, then spawns the suit and swaps the pointer to the active ship.\<close>

definition exitRead :: "int \<Rightarrow> int \<Rightarrow> pilot_world \<Rightarrow> eva_reply + (ship \<times> int)" where
  "exitRead player i s = (case resolveControlledShip player s of Inl e \<Rightarrow> Inl e
     | Inr flown \<Rightarrow>
       if ct_isSuit flown then Inl (EvaShip (ct_id flown))
       else (case findOwnedShip player i s of Inl e \<Rightarrow> Inl e
         | Inr (x, _) \<Rightarrow> if s_ID x \<noteq> ct_id flown then Inl (EvaRefused 409) else Inr (x, ct_prev flown)))"

definition lostRace :: "pilot_env \<Rightarrow> int \<Rightarrow> int \<Rightarrow> int \<Rightarrow> pilot_world \<Rightarrow> eva_reply \<times> pilot_world" where
  "lostRace env player sec suit s =
     (let s = eva_mirrorRemoveShip env sec suit s in
      case fst (playersCall (ActiveShip player) s) of Inr (winner, True) \<Rightarrow> (EvaShip winner, s) | _ \<Rightarrow> (EvaRefused 500, s))"

definition exitWrite :: "pilot_env \<Rightarrow> int \<Rightarrow> ship \<Rightarrow> int \<Rightarrow> pilot_world \<Rightarrow> eva_reply \<times> pilot_world" where
  "exitWrite env player x prev s = (case spawnSuit env player (s_SectorID x) (s_Pos x) (s_Docked x) s of (None, s) \<Rightarrow> (EvaRefused 500, s)
     | (Some suit, s) \<Rightarrow> (case playersCall (CompareAndSetActiveShip player prev suit) s of
           (Inl _, s) \<Rightarrow> (EvaRefused 500, eva_mirrorRemoveShip env (s_SectorID x) suit s)
         | (Inr won, s) \<Rightarrow> if won then (EvaShip suit, s) else lostRace env player (s_SectorID x) suit s))"

definition handleExitShip :: "pilot_env \<Rightarrow> int \<Rightarrow> int \<Rightarrow> pilot_world \<Rightarrow> eva_reply \<times> pilot_world" where
  "handleExitShip env player i s = (case exitRead player i s of Inl e \<Rightarrow> (e, s) | Inr (x, prev) \<Rightarrow> exitWrite env player x prev s)"

definition handleDisembark :: "pilot_env \<Rightarrow> int \<Rightarrow> pilot_world \<Rightarrow> eva_reply \<times> pilot_world" where
  "handleDisembark env player s = (case playersCall (PassengerHost player) s of (Inl _, s) \<Rightarrow> (EvaRefused 500, s)
     | (Inr (host, riding), s) \<Rightarrow>
       if \<not> riding \<or> host = 0 then (EvaRefused 409, s)
       else (case shipByID (pw_yard s) host of None \<Rightarrow> (EvaRefused 409, snd (playersCall (SetPassengerHost player 0) s))
         | Some (x, hostSec) \<Rightarrow> (case playersCall (ActiveShip player) s of (Inl _, s) \<Rightarrow> (EvaRefused 500, s)
             | (Inr (i, has), s) \<Rightarrow>
               (let prev = (if has then i else 0) in
                case spawnSuit env player (s_SectorID x) (s_Pos x) (s_Docked x) s of (None, s) \<Rightarrow> (EvaRefused 500, s)
                | (Some suit, s) \<Rightarrow> (case playersCall (CompareAndSetActiveShip player prev suit) s of
                      (Inl _, s) \<Rightarrow> (EvaRefused 500, eva_mirrorRemoveShip env (s_SectorID x) suit s)
                    | (Inr won, s) \<Rightarrow>
                      if \<not> won then lostRace env player (s_SectorID x) suit s
                      else (case playersCall (SetPassengerHost player 0) s of
                          (Inl _, s) \<Rightarrow> (EvaRefused 500, eva_mirrorRemoveShip env (s_SectorID x) suit (snd (playersCall (SetActiveShip player prev) s)))
                        | (Inr _, s) \<Rightarrow> (EvaShip suit, publishPlayerHandoff env
                            \<lparr>ph_PlayerID = player, ph_ShipID = suit, ph_SourceSector = 0, ph_TargetSector = s_SectorID x\<rparr>
                            (mirrorPassengerRemove hostSec host player s))))))))"

subsection \<open>Access and boarding\<close>

definition handleShipAccess :: "pilot_env \<Rightarrow> int \<Rightarrow> int \<Rightarrow> bool \<Rightarrow> pilot_world \<Rightarrow> eva_reply \<times> pilot_world" where
  "handleShipAccess env player i isOpen s = (case LookupShipSector (pw_yard s) i of None \<Rightarrow> (EvaRefused 404, s)
     | Some sec \<Rightarrow> (case map_of (yw_sectors (pw_yard s)) sec of None \<Rightarrow> (EvaRefused 503, s)
         | Some st \<Rightarrow> (case SetShipAccessCommand (ye_worker (pv_yard env)) player i isOpen st of (err, st) \<Rightarrow>
             (case err of None \<Rightarrow> EvaAccess isOpen
              | Some e \<Rightarrow> EvaRefused (if e = ErrShipNotFound then 404 else if e = ErrForbidden then 403 else 500),
              s\<lparr>pw_yard := (pw_yard s)\<lparr>yw_sectors := AList.update sec st (yw_sectors (pw_yard s))\<rparr>\<rparr>))))"

definition resolveSuit :: "int \<Rightarrow> pilot_world \<Rightarrow> eva_reply + (ship \<times> int)" where
  "resolveSuit player s =
     (case (case fst (playersCall (ActiveShip player) s) of
              Inr (i, True) \<Rightarrow> if i = 0 then map_option fst (LookupPrimaryShipByPlayer (pw_yard s) player) else Some i
            | _ \<Rightarrow> map_option fst (LookupPrimaryShipByPlayer (pw_yard s) player)) of
        None \<Rightarrow> Inl (EvaRefused 409)
      | Some i \<Rightarrow> (case shipByID (pw_yard s) i of None \<Rightarrow> Inl (EvaRefused 409)
          | Some (x, sec) \<Rightarrow> if s_IsSpacesuit x then Inr (x, sec) else Inl (EvaRefused 409)))"

definition coLocated :: "ship \<Rightarrow> ship \<Rightarrow> float64 \<Rightarrow> bool" where
  "coLocated a b rng = (case (s_Docked a, s_Docked b) of
       (Some p, Some q) \<Rightarrow> p = q
     | (None, None) \<Rightarrow> f_le (vLength (vSub (s_Pos a) (s_Pos b))) rng
     | _ \<Rightarrow> False)"

definition boardOwn :: "pilot_env \<Rightarrow> int \<Rightarrow> ship \<Rightarrow> ship \<Rightarrow> int \<Rightarrow> pilot_world \<Rightarrow> pilot_world" where
  "boardOwn env player suit target targetSec s =
     publishPlayerHandoff env \<lparr>ph_PlayerID = player, ph_ShipID = s_ID target, ph_SourceSector = 0, ph_TargetSector = targetSec\<rparr>
       (snd (playersCall (SetPassengerHost player 0) (snd (playersCall (SetActiveShip player (s_ID target))
         (eva_mirrorRemoveShip env (s_SectorID suit) (s_ID suit) s)))))"

definition boardAsPassenger :: "pilot_env \<Rightarrow> int \<Rightarrow> ship \<Rightarrow> ship \<Rightarrow> int \<Rightarrow> pilot_world \<Rightarrow> pilot_world" where
  "boardAsPassenger env player suit host hostSec s =
     publishPlayerHandoff env \<lparr>ph_PlayerID = player, ph_ShipID = s_ID host, ph_SourceSector = 0, ph_TargetSector = hostSec\<rparr>
       (mirrorPassenger hostSec (s_ID host) player
         (snd (playersCall (SetPassengerHost player (s_ID host)) (snd (playersCall (SetActiveShip player 0)
           (eva_mirrorRemoveShip env (s_SectorID suit) (s_ID suit) s))))))"

definition handleBoardShip :: "pilot_env \<Rightarrow> int \<Rightarrow> int \<Rightarrow> pilot_world \<Rightarrow> eva_reply \<times> pilot_world" where
  "handleBoardShip env player i s = (case resolveSuit player s of Inl e \<Rightarrow> (e, s)
     | Inr (suit, suitSec) \<Rightarrow>
       if i = s_ID suit then (EvaRefused 400, s)
       else (case LookupShipSector (pw_yard s) i of None \<Rightarrow> (EvaRefused 404, s)
         | Some targetSec \<Rightarrow> (case List.find (\<lambda>x. s_ID x = i) (yn_Ships (Snapshot (pw_yard s) targetSec)) of None \<Rightarrow> (EvaRefused 409, s)
           | Some target \<Rightarrow>
             if targetSec \<noteq> suitSec \<or> \<not> coLocated suit target (pv_BoardRange env) then (EvaRefused 409, s)
             else if s_PlayerID target = player \<and> \<not> s_IsSpacesuit target then (EvaControl, boardOwn env player suit target targetSec s)
             else if s_PlayerID target = pv_npc env \<or> (s_PlayerID target \<noteq> player \<and> s_IsOpen target \<and> \<not> s_IsSpacesuit target)
             then (EvaPassenger, boardAsPassenger env player suit target targetSec s)
             else if s_PlayerID target \<noteq> player \<and> \<not> s_IsOpen target then (EvaRefused 403, s)
             else (EvaRefused 400, s))))"

section \<open>The pilot of a lost ship\<close>

text \<open>The events are those a sector publishes when a ship is destroyed or captured.\<close>

definition ejectPassenger :: "pilot_env \<Rightarrow> int \<Rightarrow> int \<Rightarrow> vec2 \<Rightarrow> pilot_world \<Rightarrow> pilot_world" where
  "ejectPassenger env player sector pos s = (case spawnSuit env player sector pos None s of (None, s) \<Rightarrow> s
     | (Some suit, s) \<Rightarrow> publishPlayerHandoff env
         \<lparr>ph_PlayerID = player, ph_ShipID = suit, ph_SourceSector = sector, ph_TargetSector = sector\<rparr>
         (snd (playersCall (SetActiveShip player suit) (snd (playersCall (SetPassengerHost player 0) s)))))"

definition ejectAll :: "pilot_env \<Rightarrow> int list \<Rightarrow> int \<Rightarrow> vec2 \<Rightarrow> pilot_world \<Rightarrow> pilot_world" where
  "ejectAll env pids sector pos s = fold (\<lambda>pid s. if pid = 0 then s else ejectPassenger env pid sector pos s) pids s"

definition respawn_OnKill :: "pilot_env \<Rightarrow> float64 \<Rightarrow> float64 \<Rightarrow> killed_event \<Rightarrow> pilot_world \<Rightarrow> pilot_world" where
  "respawn_OnKill env ux uy ev s =
     (let s = ejectAll env (ke_VictimPassengers ev) (ke_SectorID ev) (ke_Pos ev) s; player = ke_VictimPlayer ev in
      if ref_kind (ke_Victim ev) \<noteq> EntityKindShip \<or> player = 0 \<or> player = pv_npc env then s
      else if \<not> ke_VictimIsSpacesuit ev then
        (case spawnSuit env player (ke_SectorID ev) (ke_Pos ev) None s of (None, s) \<Rightarrow> s
         | (Some suit, s) \<Rightarrow> snd (playersCall (SetActiveShip player suit) s))
      else (case SpawnFor env ux uy player (pw_yard s) of (ok, y) \<Rightarrow>
        (let s = s\<lparr>pw_yard := y\<rparr> in
         if \<not> ok then s
         else publishPlayerHandoff env
           \<lparr>ph_PlayerID = player, ph_ShipID = 0, ph_SourceSector = ke_SectorID ev, ph_TargetSector = pv_home env\<rparr> s)))"

definition respawn_OnShipCaptured :: "pilot_env \<Rightarrow> captured_event \<Rightarrow> pilot_world \<Rightarrow> pilot_world" where
  "respawn_OnShipCaptured env ev s =
     (let s = ejectAll env (ce_Passengers ev) (ce_SectorID ev) (ce_Pos ev) s; owner = ce_OldOwner ev in
      if owner = 0 \<or> owner = pv_npc env then s
      else (case playersCall (ActiveShip owner) s of
          (Inr (i, True), s) \<Rightarrow> if i = ce_ShipID ev then ejectPassenger env owner (ce_SectorID ev) (ce_Pos ev) s else s
        | (_, s) \<Rightarrow> s))"

section \<open>One suit per pilot\<close>

text \<open>Where a pilot's pointer to the active ship stands.\<close>

definition activeOf :: "pilot_world \<Rightarrow> int \<Rightarrow> int option" where
  "activeOf s p = Option.bind (map_of (players (yw_db (pw_yard s))) p) pl_active_ship"

text \<open>The next id is new to the rows and to the memory of the workers.\<close>

definition fresh_ids :: "yard_world \<Rightarrow> bool" where
  "fresh_ids s \<longleftrightarrow> 0 < yw_seq s \<and> (\<forall>i. map_of (yw_ships s) i \<noteq> None \<longrightarrow> i < yw_seq s) \<and>
     (\<forall>sec st i. map_of (yw_sectors s) sec = Some st \<longrightarrow> ss_ships st i \<noteq> None \<longrightarrow> i < yw_seq s)"

lemma playersCall_run: "m (yw_db (pw_yard s)) = (Inr x, d) \<Longrightarrow> \<not> tx_aborted d \<Longrightarrow>
    playersCall m s = (Inr x, s\<lparr>pw_yard := (pw_yard s)\<lparr>yw_db := d\<rparr>\<rparr>)"
  by (simp add: playersCall_def yard_tx_def onPlayers_def)

lemma playersCall_read: "m (yw_db (pw_yard s)) = (r, yw_db (pw_yard s)) \<Longrightarrow> \<not> tx_aborted (yw_db (pw_yard s)) \<Longrightarrow>
    fst (playersCall m s) = (case r of Inl e \<Rightarrow> Inl (YDb e) | Inr x \<Rightarrow> Inr x)"
  by (simp add: playersCall_def yard_tx_def onPlayers_def split: sum.split prod.split)

text \<open>A suit that is spawned has a row and a place in the sector.\<close>

definition suited :: "pilot_env \<Rightarrow> int \<Rightarrow> ship \<Rightarrow> yard_world \<Rightarrow> yard_world" where
  "suited env sector x y = mirrorAddShip (pv_yard env) sector (x\<lparr>s_ID := yw_seq y\<rparr>) ((putRow (yw_seq y) (x\<lparr>s_ID := yw_seq y\<rparr>) y)\<lparr>yw_seq := yw_seq y + 1\<rparr>)"

lemma spawnSuit_run:
  assumes "\<not> tx_aborted (yw_db (pw_yard s))" "map_of (players (yw_db (pw_yard s))) player \<noteq> None" "map_of (yw_sectors (pw_yard s)) sector \<noteq> None"
  shows "spawnSuit env player sector pos docked s =
    (Some (yw_seq (pw_yard s)), s\<lparr>pw_yard := suited env sector (suitShip env player sector pos docked) (pw_yard s)\<rparr>)"
proof -
  let ?x = "suitShip env player sector pos docked"
  have "s_PlayerID ?x = player" by (simp add: suitShip_def Let_def)
  then have "yard_tx (ships_Create ?x) (pw_yard s) = (Inr (yw_seq (pw_yard s)),
      (putRow (yw_seq (pw_yard s)) (?x\<lparr>s_ID := yw_seq (pw_yard s)\<rparr>) (pw_yard s))\<lparr>yw_seq := yw_seq (pw_yard s) + 1\<rparr>)"
    using assms(1,2) by (simp add: yard_tx_def ships_Create_def)
  then show ?thesis using assms(3) by (simp add: spawnSuit_def SpawnSpacesuit_def sendAddShip_def suited_def Let_def)
qed

lemma suited_simps [simp]:
  "yw_seq (suited env sector x y) = yw_seq y + 1" "players (yw_db (suited env sector x y)) = players (yw_db y)"
  "tx_aborted (yw_db (suited env sector x y)) = tx_aborted (yw_db y)" "yw_snaps (suited env sector x y) = yw_snaps y"
  "map_of (yw_ships (suited env sector x y)) = (map_of (yw_ships y))(yw_seq y \<mapsto> x\<lparr>s_ID := yw_seq y\<rparr>)"
  "map_of (ships (yw_db (suited env sector x y))) (yw_seq y) \<noteq> None"
  by (simp_all add: suited_def mirrorAddShip_def yard_Send_def putRow_def split: option.split)

lemma suited_sector:
  assumes "map_of (yw_sectors y) sector = Some st" "ss_ships st (yw_seq y) = None"
  shows "\<exists>st' x'. map_of (yw_sectors (suited env sector x y)) sector = Some st' \<and> ss_ships st' = (ss_ships st)(yw_seq y \<mapsto> x')"
  using assms by (auto simp: suited_def mirrorAddShip_def yard_Send_def AddShipCommand_def Let_def putShip_def markDirty_def putRow_def)

lemma CAS_wins:
  assumes "map_of (players d) p = Some r" "pl_active_ship r = shipIDArg prev" "map_of (ships d) n \<noteq> None" "n \<noteq> 0" "\<not> tx_aborted d"
  shows "CompareAndSetActiveShip p prev n d = (Inr True, d\<lparr>players := AList.update p (r\<lparr>pl_active_ship := Some n\<rparr>) (players d)\<rparr>)"
  using assms by (simp add: CompareAndSetActiveShip_def sql_def ship_fk_def shipIDArg_def)

lemma CAS_loses:
  assumes "map_of (players d) p = Some r" "pl_active_ship r \<noteq> shipIDArg prev" "\<not> tx_aborted d"
  shows "CompareAndSetActiveShip p prev n d = (Inr False, d)"
  using assms by (simp add: CompareAndSetActiveShip_def sql_def)

lemma ActiveShip_run: "map_of (players d) p = Some r \<Longrightarrow> \<not> tx_aborted d \<Longrightarrow>
    ActiveShip p d = (Inr (case pl_active_ship r of None \<Rightarrow> (0, False) | Some i \<Rightarrow> (i, True)), d)"
  by (simp add: ActiveShip_def bindM_def query_live returnM_def split: option.split)

lemma PassengerHost_run: "\<not> tx_aborted d \<Longrightarrow> PassengerHost p d = (case map_of (players d) p of None \<Rightarrow> Inl (EPlayers ErrPlayerNotFound)
    | Some r \<Rightarrow> Inr (case pl_passenger_of r of None \<Rightarrow> (0, False) | Some i \<Rightarrow> (i, True)), d)"
  by (simp add: PassengerHost_def bindM_def query_live returnM_def failM_def split: option.split)

text \<open>What a request to leave has read.\<close>

lemma exitRead_ok:
  assumes "exitRead player i s = Inr (x, prev)" "\<not> tx_aborted (yw_db (pw_yard s))" "activeOf s player \<noteq> Some 0"
  shows "\<exists>r. map_of (players (yw_db (pw_yard s))) player = Some r \<and> pl_active_ship r = shipIDArg prev \<and>
    (prev \<noteq> 0 \<longrightarrow> map_of (yw_ships (pw_yard s)) prev \<noteq> None)"
proof -
  from assms(1) obtain flown where flown: "resolveControlledShip player s = Inr flown" "prev = ct_prev flown"
    by (auto simp: exitRead_def split: sum.splits if_splits)
  have host: "fst (playersCall (PassengerHost player) s) = (case map_of (players (yw_db (pw_yard s))) player of None \<Rightarrow> Inl (YDb (EPlayers ErrPlayerNotFound))
      | Some r \<Rightarrow> Inr (case pl_passenger_of r of None \<Rightarrow> (0, False) | Some i \<Rightarrow> (i, True)))"
    using playersCall_read [where m = "PassengerHost player", OF PassengerHost_run [OF assms(2)] assms(2)] by (simp split: option.split)
  then obtain r where r: "map_of (players (yw_db (pw_yard s))) player = Some r"
    using flown(1) by (auto simp: resolveControlledShip_def split: option.splits)
  have active: "fst (playersCall (ActiveShip player) s) = Inr (case pl_active_ship r of None \<Rightarrow> (0, False) | Some i \<Rightarrow> (i, True))"
    using playersCall_read [where m = "ActiveShip player", OF ActiveShip_run [OF r assms(2)] assms(2)] by simp
  have "pl_active_ship r \<noteq> Some 0" using assms(3) r by (simp add: activeOf_def)
  then show ?thesis
    using flown r unfolding resolveControlledShip_def host active
    by (auto simp: IsSpacesuit_def shipIDArg_def split: option.splits if_splits)
qed

lemma exit_wins:
  assumes "\<not> tx_aborted (yw_db (pw_yard s))" "map_of (players (yw_db (pw_yard s))) player = Some r" "pl_active_ship r = shipIDArg prev"
    and "map_of (yw_sectors (pw_yard s)) (s_SectorID x) \<noteq> None" "0 < yw_seq (pw_yard s)"
    and "y = suited env (s_SectorID x) (suitShip env player (s_SectorID x) (s_Pos x) (s_Docked x)) (pw_yard s)"
  shows "exitWrite env player x prev s = (EvaShip (yw_seq (pw_yard s)),
    s\<lparr>pw_yard := y\<lparr>yw_db := (yw_db y)\<lparr>players := AList.update player (r\<lparr>pl_active_ship := Some (yw_seq (pw_yard s))\<rparr>) (players (yw_db y))\<rparr>\<rparr>\<rparr>)"
proof -
  have p: "map_of (players (yw_db (pw_yard s))) player \<noteq> None" using assms(2) by simp
  note suit = spawnSuit_run [OF assms(1) p assms(4), of env "s_Pos x" "s_Docked x", folded assms(6)]
  have "CompareAndSetActiveShip player prev (yw_seq (pw_yard s)) (yw_db y) =
      (Inr True, (yw_db y)\<lparr>players := AList.update player (r\<lparr>pl_active_ship := Some (yw_seq (pw_yard s))\<rparr>) (players (yw_db y))\<rparr>)"
    using assms by (intro CAS_wins) (simp_all del: not_None_eq)
  then have "playersCall (CompareAndSetActiveShip player prev (yw_seq (pw_yard s))) (s\<lparr>pw_yard := y\<rparr>) = (Inr True,
      s\<lparr>pw_yard := y\<lparr>yw_db := (yw_db y)\<lparr>players := AList.update player (r\<lparr>pl_active_ship := Some (yw_seq (pw_yard s))\<rparr>) (players (yw_db y))\<rparr>\<rparr>\<rparr>)"
    using assms(1,6) by (subst playersCall_run) simp_all
  then show ?thesis by (simp add: exitWrite_def suit)
qed

lemma forgetShip_lookup: "map_of (map (\<lambda>(p, r). (p, forgetShip i r)) t) p = map_option (forgetShip i) (map_of t p)"
  by (induction t) auto

lemma exit_loses:
  assumes "\<not> tx_aborted (yw_db (pw_yard s))" "map_of (players (yw_db (pw_yard s))) player = Some r" "pl_active_ship r = Some n" "shipIDArg prev \<noteq> Some n"
    and "map_of (yw_sectors (pw_yard s)) (s_SectorID x) = Some st" "fresh_ids (pw_yard s)" "n < yw_seq (pw_yard s)" "w_hasRepo (ye_worker (pv_yard env))"
  shows "\<exists>s' st'. exitWrite env player x prev s = (EvaShip n, s') \<and> activeOf s' player = Some n \<and>
    map_of (yw_ships (pw_yard s')) = map_of (yw_ships (pw_yard s)) \<and>
    map_of (yw_sectors (pw_yard s')) (s_SectorID x) = Some st' \<and> ss_ships st' = ss_ships st"
proof -
  let ?m = "yw_seq (pw_yard s)" and ?sec = "s_SectorID x"
  define y where "y = suited env ?sec (suitShip env player ?sec (s_Pos x) (s_Docked x)) (pw_yard s)"
  have new: "map_of (yw_ships (pw_yard s)) ?m = None" "ss_ships st ?m = None"
    using assms(5,6) unfolding fresh_ids_def by force+
  have p: "map_of (players (yw_db (pw_yard s))) player \<noteq> None" and sec: "map_of (yw_sectors (pw_yard s)) ?sec \<noteq> None" using assms by simp_all
  note suit = spawnSuit_run [OF assms(1) p sec, of env "s_Pos x" "s_Docked x", folded y_def]
  have py: "map_of (players (yw_db y)) player = Some r" and live: "\<not> tx_aborted (yw_db y)" using assms(1,2) by (simp_all add: y_def)
  have lose: "playersCall (CompareAndSetActiveShip player prev ?m) (s\<lparr>pw_yard := y\<rparr>) = (Inr False, s\<lparr>pw_yard := y\<rparr>)"
    using CAS_loses [OF py _ live, of prev ?m] assms(3,4) live by (subst playersCall_run) auto
  obtain st' x' where st': "map_of (yw_sectors y) ?sec = Some st'" "ss_ships st' = (ss_ships st)(?m \<mapsto> x')"
    using suited_sector [OF assms(5) new(2), of env] unfolding y_def by blast
  define z where "z = eva_mirrorRemoveShip env ?sec ?m (s\<lparr>pw_yard := y\<rparr>)"
  have z: "pw_yard z = dropRow ?m (mirrorRemoveShip (pv_yard env) ?sec ?m y)"
    using st' assms(8) by (simp add: z_def eva_mirrorRemoveShip_def)
  have rows: "map_of (yw_ships (pw_yard z)) = map_of (yw_ships (pw_yard s))"
    using new(1) by (auto simp: z mirrorRemoveShip_def y_def)
  have pz: "map_of (players (yw_db (pw_yard z))) player = Some (forgetShip ?m r)"
    using py by (simp add: z dropRow_def mirrorRemoveShip_def forgetShip_lookup)
  have keep: "pl_active_ship (forgetShip ?m r) = Some n" using assms(3,7) by (simp add: forgetShip_def)
  have "\<not> tx_aborted (yw_db (pw_yard z))" using live by (simp add: z mirrorRemoveShip_def)
  from playersCall_read [where m = "ActiveShip player", OF ActiveShip_run [OF pz this] this]
  have act: "fst (playersCall (ActiveShip player) z) = Inr (n, True)" using keep by simp
  have "\<exists>st2. map_of (yw_sectors (pw_yard z)) ?sec = Some st2 \<and> ss_ships st2 = ss_ships st"
    using st' new(2) by (auto simp: z mirrorRemoveShip_def yard_Send_def RemoveShipCommand_def tell_def ask_def split: prod.split)
  moreover have "exitWrite env player x prev s = (EvaShip n, z)"
    by (simp add: exitWrite_def suit lose lostRace_def act flip: z_def)
  moreover have "activeOf z player = Some n" using pz keep by (simp add: activeOf_def)
  ultimately show ?thesis using rows by blast
qed

lemma AddShip_ids: "ss_ships (snd (AddShipCommand w x [] None st)) i \<noteq> None \<Longrightarrow> i = s_ID x \<or> ss_ships st i \<noteq> None"
  by (auto simp: AddShipCommand_def Let_def putShip_def markDirty_def split: if_splits)

lemma fresh_suited:
  assumes "fresh_ids y"
  shows "fresh_ids (suited env sector x y)"
proof -
  have "i < yw_seq y + 1" if "map_of (yw_sectors (suited env sector x y)) sec = Some st" "ss_ships st i \<noteq> None" for sec st i
  proof -
    have old: "i < yw_seq y" if "map_of (yw_sectors y) sec = Some st" "ss_ships st i \<noteq> None" for sec st
      using that assms unfolding fresh_ids_def by blast
    from that(1) consider "map_of (yw_sectors y) sec = Some st"
      | st0 where "map_of (yw_sectors y) sec = Some st0" "st = snd (AddShipCommand (ye_worker (pv_yard env)) (x\<lparr>s_ID := yw_seq y\<rparr>) [] None st0)"
      by (auto simp: suited_def mirrorAddShip_def yard_Send_def putRow_def split: option.splits if_splits)
    then show ?thesis
    proof cases
      case 2
      with AddShip_ids [of "ye_worker (pv_yard env)" "x\<lparr>s_ID := yw_seq y\<rparr>" st0 i] that(2) old [OF 2(1)] show ?thesis by fastforce
    qed (use old that(2) in fastforce)
  qed
  moreover have "i < yw_seq y + 1" if "map_of (yw_ships (suited env sector x y)) i \<noteq> None" for i
  proof (cases "i = yw_seq y")
    case False
    then have "map_of (yw_ships y) i \<noteq> None" using that by simp
    then have "i < yw_seq y" using assms unfolding fresh_ids_def by blast
    then show ?thesis by simp
  qed simp
  ultimately show ?thesis using assms by (auto simp: fresh_ids_def)
qed


definition pilotEnv :: pilot_env where
  "pilotEnv = \<lparr>pv_yard = yardEnv, pv_homes = [1 \<mapsto> \<lparr>hy_Sector = 3, hy_Pos = Vec2 (Fin 0) (Fin 0)\<rparr>], pv_playerRace = (\<lambda>_. Some 1), pv_npc = 99,
     pv_home = 1, pv_BoardRange = Fin 3, pv_hasBus = True\<rparr>"

definition pilotWorld :: pilot_world where
  "pilotWorld = \<lparr>pw_yard = yardWorld\<lparr>yw_sectors := [(3, demoSector)],
       yw_db := (yw_db yardWorld)\<lparr>goods_types := [(10, \<lparr>gt_name = ''Mosquito'', gt_space = Fin 1\<rparr>)]\<rparr>\<rparr>, pw_handoffs = []\<rparr>"

lemma pilotWorld_ok:
  "\<not> tx_aborted (yw_db (pw_yard pilotWorld))" "fresh_ids (pw_yard pilotWorld)" "activeOf pilotWorld 1 \<noteq> Some 0"
  "map_of (yw_sectors (pw_yard pilotWorld)) 3 = Some demoSector" "w_hasRepo (ye_worker (pv_yard pilotEnv))"
proof -
  have "ss_ships demoSector i = Some x \<Longrightarrow> i < 14" for i x using demoSector_dom domI [of "ss_ships demoSector" i x] by auto
  then show "\<not> tx_aborted (yw_db (pw_yard pilotWorld))" "fresh_ids (pw_yard pilotWorld)" "activeOf pilotWorld 1 \<noteq> Some 0"
    "map_of (yw_sectors (pw_yard pilotWorld)) 3 = Some demoSector" "w_hasRepo (ye_worker (pv_yard pilotEnv))"
    by (auto simp: pilotWorld_def fresh_ids_def yardWorld_def sample_db_def activeOf_def pilotEnv_def yardEnv_def demoWorker_def split: if_splits)
qed

lemma pilotRead: "exitRead 1 10 pilotWorld = Inr (yardShip 10, 10)"
proof -
  have "fst (playersCall (PassengerHost 1) pilotWorld) = Inr (0, False)" "fst (playersCall (ActiveShip 1) pilotWorld) = Inr (10, True)"
    by (simp_all add: playersCall_def yard_tx_def onPlayers_def PassengerHost_def ActiveShip_def bindM_def query_def sql_def returnM_def
        pilotWorld_def yardWorld_def sample_db_def)
  moreover have "IsSpacesuit 10 (pw_yard pilotWorld) = Some False"
    by (simp add: IsSpacesuit_def pilotWorld_def yardWorld_def yardShip_def zeroShip_def)
  ultimately have "resolveControlledShip 1 pilotWorld = Inr \<lparr>ct_id = 10, ct_isSuit = False, ct_prev = 10\<rparr>"
    by (simp add: resolveControlledShip_def)
  moreover have "shipByID (pw_yard pilotWorld) 10 = Some (yardShip 10, 3)"
    by (simp add: shipByID_def LookupShipSector_def Snapshot_def pilotWorld_def yardWorld_def yardShip_def)
  ultimately show ?thesis by (simp add: exitRead_def findOwnedShip_def) (simp add: yardShip_def)
qed


section \<open>Waking up in the wrong sector\<close>

lemma Add_frame: "Add ownr g n own d = (Inr u, d') \<Longrightarrow> players d' = players d \<and> tx_aborted d' = tx_aborted d"
  by (auto simp: Add_ok)

lemma starter_fields:
  "s_PlayerID (buildStarterShip env p race name sector pos) = p" "s_SectorID (buildStarterShip env p race name sector pos) = sector"
  "s_Race (buildStarterShip env p race name sector pos) = race"
  by (simp_all add: buildStarterShip_def bareShip_def Let_def split: option.split)

lemma spawnStarter_row:
  assumes "spawnStarter env p race name sector pos y = (True, y')"
  shows "\<exists>x. map_of (yw_ships y') (yw_seq y) = Some x \<and> s_PlayerID x = p \<and> s_SectorID x = sector \<and> players (yw_db y') = players (yw_db y)"
proof -
  let ?x = "buildStarterShip env p race name sector pos"
  from assms obtain i z where create: "yard_tx (ships_Create ?x) y = (Inr i, z)"
    by (auto simp: spawnStarter_def Let_def split: prod.splits sum.splits)
  then have z: "i = yw_seq y" "z = (putRow i (?x\<lparr>s_ID := i\<rparr>) y)\<lparr>yw_seq := i + 1\<rparr>"
    by (auto simp: run_simps ships_Create_def split: if_splits)
  have "yw_ships y' = yw_ships z \<and> players (yw_db y') = players (yw_db z)"
    using assms create
    by (auto simp: spawnStarter_def Let_def sendAddShip_def mirrorAddShip_def run_simps dest!: Add_frame split: prod.splits sum.splits if_splits)
  then show ?thesis using z by (simp add: starter_fields)
qed

text \<open>
  The pilot of a destroyed spacesuit wakes up at the home yard of the race, but the event that moves the
  player's connection names the configured sector, whatever the race, and the pointer to the active ship is
  left as it was: a player of a race with its yard elsewhere is shown a sector without the new ship.
\<close>

theorem respawn_misdirects:
  assumes "ref_kind (ke_Victim ev) = EntityKindShip" "ke_VictimPlayer ev = p" "p \<noteq> 0" "p \<noteq> pv_npc env"
    and "ke_VictimIsSpacesuit ev" "ke_VictimPassengers ev = []" "pv_playerRace env p = Some race" "pv_homes env race = Some yard" "pv_hasBus env"
    and "SpawnFor env ux uy p (pw_yard s) = (True, y)" "s' = respawn_OnKill env ux uy ev s"
  shows "(\<exists>x. map_of (yw_ships (pw_yard s')) (yw_seq (pw_yard s)) = Some x \<and> s_PlayerID x = p \<and> s_SectorID x = hy_Sector yard) \<and>
    pw_handoffs s' = pw_handoffs s @ [\<lparr>ph_PlayerID = p, ph_ShipID = 0, ph_SourceSector = ke_SectorID ev, ph_TargetSector = pv_home env\<rparr>] \<and>
    activeOf s' p = activeOf s p"
proof -
  have "s' = publishPlayerHandoff env \<lparr>ph_PlayerID = p, ph_ShipID = 0, ph_SourceSector = ke_SectorID ev, ph_TargetSector = pv_home env\<rparr> (s\<lparr>pw_yard := y\<rparr>)"
    using assms by (simp add: respawn_OnKill_def ejectAll_def Let_def)
  moreover have "\<exists>x. map_of (yw_ships y) (yw_seq (pw_yard s)) = Some x \<and> s_PlayerID x = p \<and> s_SectorID x = hy_Sector yard \<and>
      players (yw_db y) = players (yw_db (pw_yard s))"
    using assms(7,8,10) spawnStarter_row by (auto simp: SpawnFor_def homeSpawn_def Let_def)
  ultimately show ?thesis using assms(9) by (auto simp: publishPlayerHandoff_def activeOf_def)
qed

definition suitKilled :: killed_event where
  "suitKilled = \<lparr>ke_Victim = EntityRef EntityKindShip 12, ke_SectorID = 7, ke_Pos = Vec2 (Fin 0) (Fin 0), ke_Killer = 2, ke_VictimPlayer = 1,
     ke_VictimIsSpacesuit = True, ke_VictimPassengers = []\<rparr>"

lemma spawnStarter_run:
  assumes "yard_tx (ships_Create (buildStarterShip env p race name sector pos)) y = (Inr i, y1)" "0 < cf_StartMissiles (pv_cfg env)"
    and "yard_tx (onPlayers (Add (EntityRef EntityKindShip i) MissileGoodsType (cf_StartMissiles (pv_cfg env)) 0)) y1 = (Inr (), y2)"
    and "map_of (yw_sectors y2) sector \<noteq> None"
  shows "fst (spawnStarter env p race name sector pos y)"
  using assms by (simp add: spawnStarter_def Let_def sendAddShip_def)

lemma pilotWakes: "SpawnFor pilotEnv (Fin 0) (Fin 0) 1 (pw_yard pilotWorld) = (True, snd (SpawnFor pilotEnv (Fin 0) (Fin 0) 1 (pw_yard pilotWorld)))"
proof -
  have n: "cf_StartMissiles (pv_cfg pilotEnv) = 5" by (simp add: pilotEnv_def yardEnv_def)
  have "fst (spawnStarter pilotEnv 1 race name 3 pos (pw_yard pilotWorld))" for race name pos
  proof -
    let ?y = "snd (yard_tx (ships_Create (buildStarterShip pilotEnv 1 race name 3 pos)) (pw_yard pilotWorld))"
    have create: "yard_tx (ships_Create (buildStarterShip pilotEnv 1 race name 3 pos)) (pw_yard pilotWorld) = (Inr 14, ?y)"
      by (simp add: yard_tx_def ships_Create_def starter_fields pilotWorld_def yardWorld_def sample_db_def putRow_def)
    have y: "cargo (yw_db ?y) = cargo sample_db" "goods_types (yw_db ?y) = [(10, \<lparr>gt_name = ''Mosquito'', gt_space = Fin 1\<rparr>)]"
        "\<not> tx_aborted (yw_db ?y)" "yw_sectors ?y = [(3, demoSector)]"
      by (simp_all add: yard_tx_def ships_Create_def starter_fields pilotWorld_def yardWorld_def sample_db_def putRow_def)
    have "\<exists>z. yard_tx (onPlayers (Add (EntityRef EntityKindShip 14) MissileGoodsType 5 0)) ?y = (Inr (), z) \<and> yw_sectors z = yw_sectors ?y"
      using y by (simp add: run_simps Add_ok stack_qty_def in64_def MissileGoodsType_def sample_db_def)
    then obtain z where z: "yard_tx (onPlayers (Add (EntityRef EntityKindShip 14) MissileGoodsType 5 0)) ?y = (Inr (), z)" "yw_sectors z = yw_sectors ?y" by blast
    then have "map_of (yw_sectors z) 3 \<noteq> None" by (simp add: y(4))
    then show ?thesis by (intro spawnStarter_run [OF create _ z(1) [folded n]]) (simp_all add: n)
  qed
  moreover have "pv_playerRace pilotEnv 1 = Some 1" "pv_homes pilotEnv 1 = Some \<lparr>hy_Sector = 3, hy_Pos = Vec2 (Fin 0) (Fin 0)\<rparr>"
    by (simp_all add: pilotEnv_def)
  ultimately have "fst (SpawnFor pilotEnv (Fin 0) (Fin 0) 1 (pw_yard pilotWorld))" by (simp add: SpawnFor_def homeSpawn_def Let_def)
  then show ?thesis by (simp add: prod_eq_iff)
qed

theorem respawn_misdirects_witness:
  "\<exists>s' x. s' = respawn_OnKill pilotEnv (Fin 0) (Fin 0) suitKilled pilotWorld \<and>
     map_of (yw_ships (pw_yard s')) (yw_seq (pw_yard pilotWorld)) = Some x \<and> s_SectorID x = 3 \<and> map ph_TargetSector (pw_handoffs s') = [1]"
proof -
  have "ref_kind (ke_Victim suitKilled) = EntityKindShip" "ke_VictimPlayer suitKilled = 1" "(1 :: int) \<noteq> 0" "1 \<noteq> pv_npc pilotEnv"
      "ke_VictimIsSpacesuit suitKilled" "ke_VictimPassengers suitKilled = []" "pv_playerRace pilotEnv 1 = Some 1"
      "pv_homes pilotEnv 1 = Some \<lparr>hy_Sector = 3, hy_Pos = Vec2 (Fin 0) (Fin 0)\<rparr>" "pv_hasBus pilotEnv"
    by (simp_all add: suitKilled_def pilotEnv_def)
  from respawn_misdirects [OF this pilotWakes refl] show ?thesis by (auto simp: pilotWorld_def pilotEnv_def)
qed

end
