(* ===== verification/Spawners.thy ===== *)
theory Spawners
  imports Shipyard Balance World Cargo
begin

text \<open>
  \<open>internal/app\<close>: the ships that belong to no player. At a cold start \<open>npc_spawner.go\<close> gives every factory its
  traders and miners and every civilian trade station its passenger ships, \<open>race_fleet_spawner.go\<close> anchors the
  warships of the races; while the server runs \<open>invasion_spawner.go\<close> sends waves of Xenon and Kha'ak. The rows
  are those of \<open>internal/persistence/ships\<close>, \<open>aistate\<close> and \<open>npcships\<close>. A map over sectors is the list of its
  values in the order in which the loop visits them. Every statement commits by itself.
\<close>

section \<open>The tables\<close>

record ai_row =
  ar_SectorID :: int
  ar_ControllerKind :: string
  ar_StateJSON :: controller

record npc_row =
  nr_Home :: entity_ref
  nr_Kind :: string

record spawn_world =
  nw_yard :: yard_world
  nw_ai :: "(int, ai_row) table"
  nw_npc :: "(int, npc_row) table"

datatype spawn_err = SYard yard_err | SMarshal | SSend | ErrSystemPlayerMissing

type_synonym 'a nm = "(spawn_world, spawn_err, 'a) comp"

abbreviation (input) nw_ships :: "spawn_world \<Rightarrow> (int, ship) table" where
  "nw_ships s \<equiv> yw_ships (nw_yard s)"

definition onShips :: "'a ym \<Rightarrow> 'a nm" where
  "onShips m = (\<lambda>s. case yard_tx m (nw_yard s) of (r, y) \<Rightarrow> (case r of Inl e \<Rightarrow> Inl (SYard e) | Inr x \<Rightarrow> Inr x, s\<lparr>nw_yard := y\<rparr>))"

definition SystemPlayerLogin :: runes where
  "SystemPlayerLogin = runes_of ''__npc__''"

definition SystemPlayerID :: "int nm" where
  "SystemPlayerID = (\<lambda>s. case List.find (\<lambda>(_, r). pl_login r = SystemPlayerLogin) (players (yw_db (nw_yard s))) of
     None \<Rightarrow> (Inl ErrSystemPlayerMissing, s) | Some (p, _) \<Rightarrow> (Inr p, s))"

text \<open>\<open>npc_ships\<close>: the ship is the primary key and a reference. The count of an absent key is zero.\<close>

definition npcships_Create :: "int \<Rightarrow> entity_ref \<Rightarrow> string \<Rightarrow> unit nm" where
  "npcships_Create i home kind = (\<lambda>s.
     if map_of (nw_npc s) i \<noteq> None then (Inl (SYard (YDb (EPg (UniqueViolation ''npc_ships_pkey'')))), s)
     else if map_of (nw_ships s) i = None then (Inl (SYard (YDb (EPg (ForeignKeyViolation ''npc_ships_ship_id_fkey'')))), s)
     else (Inr (), s\<lparr>nw_npc := AList.update i \<lparr>nr_Home = home, nr_Kind = kind\<rparr> (nw_npc s)\<rparr>))"

definition CountByHome :: "spawn_world \<Rightarrow> entity_ref \<Rightarrow> string \<Rightarrow> int" where
  "CountByHome s home kind = int (length (filter (\<lambda>(_, r). nr_Home r = home \<and> nr_Kind r = kind) (nw_npc s)))"

text \<open>\<open>ai_state\<close>: a statement for the whole batch; one ship twice in it is refused.\<close>

definition aistate_BatchUpsert :: "(int \<times> ai_row) list \<Rightarrow> unit nm" where
  "aistate_BatchUpsert rows = (\<lambda>s.
     if \<not> distinct (map fst rows) then (Inl (SYard (YDb (EPg (UniqueViolation ''ai_state_pkey'')))), s)
     else if list_ex (\<lambda>(i, _). map_of (nw_ships s) i = None) rows then (Inl (SYard (YDb (EPg (ForeignKeyViolation ''ai_state_ship_id_fkey'')))), s)
     else (Inr (), s\<lparr>nw_ai := fold (\<lambda>(i, r). AList.update i r) rows (nw_ai s)\<rparr>))"

definition aistate_LoadAll :: "spawn_world \<Rightarrow> int \<Rightarrow> (int \<times> ai_row) list" where
  "aistate_LoadAll s sector = sort_key fst (filter (\<lambda>(_, r). ar_SectorID r = sector) (nw_ai s))"

definition CountByRace :: "spawn_world \<Rightarrow> int \<Rightarrow> int" where
  "CountByRace s race = int (length (filter (\<lambda>(_, x). s_Race x = race) (nw_ships s)))"

text \<open>Deleting a ship deletes its rows in both tables (\<open>ON DELETE CASCADE\<close>).\<close>

definition loseShip :: "int \<Rightarrow> unit nm" where
  "loseShip i = bindM (onShips (ships_Delete i)) (\<lambda>_ s. (Inr (), s\<lparr>nw_ai := AList.delete i (nw_ai s), nw_npc := AList.delete i (nw_npc s)\<rparr>))"

section \<open>Configuration\<close>

record npc_config =
  nc_TradersPerFactory :: int
  nc_MinersPerFactory :: int
  nc_PassengersPerTradeStation :: int
  nc_PassengerRouteRadius :: int
  nc_HaulQty :: int

definition npc_withDefaults :: "npc_config \<Rightarrow> npc_config" where
  "npc_withDefaults c = \<lparr>nc_TradersPerFactory = orDefault 1 (nc_TradersPerFactory c), nc_MinersPerFactory = orDefault 1 (nc_MinersPerFactory c),
     nc_PassengersPerTradeStation = orDefault 5 (nc_PassengersPerTradeStation c), nc_PassengerRouteRadius = orDefault 2 (nc_PassengerRouteRadius c),
     nc_HaulQty = orDefault 20 (nc_HaulQty c)\<rparr>"

record fleet_config =
  fc_WarshipsPerRace :: "(int, int) table option"
  fc_MaxPerSector :: int

definition fleet_withDefaults :: "fleet_config \<Rightarrow> fleet_config" where
  "fleet_withDefaults c = \<lparr>
     fc_WarshipsPerRace = (case fc_WarshipsPerRace c of None \<Rightarrow> Some [(1, 24), (2, 35), (3, 28), (4, 23), (5, 24), (6, 37)] | Some m \<Rightarrow> Some m),
     fc_MaxPerSector = orDefault 6 (fc_MaxPerSector c)\<rparr>"

definition budgetOf :: "fleet_config \<Rightarrow> int \<Rightarrow> int" where
  "budgetOf c race = (case fc_WarshipsPerRace c of None \<Rightarrow> 0 | Some m \<Rightarrow> (case map_of m race of None \<Rightarrow> 0 | Some n \<Rightarrow> n))"

text \<open>Durations in nanoseconds.\<close>

record invasion_config =
  ic_Interval :: int
  ic_XenonMaxActive :: int
  ic_KhaakMaxActive :: int
  ic_XenonGroupSize :: int
  ic_KhaakGroupSize :: int
  ic_AckTimeout :: int

definition invasion_withDefaults :: "invasion_config \<Rightarrow> invasion_config" where
  "invasion_withDefaults c = \<lparr>ic_Interval = orDefault (300 * 10 ^ 9) (ic_Interval c), ic_XenonMaxActive = orDefault 12 (ic_XenonMaxActive c),
     ic_KhaakMaxActive = orDefault 8 (ic_KhaakMaxActive c), ic_XenonGroupSize = orDefault 3 (ic_XenonGroupSize c),
     ic_KhaakGroupSize = orDefault 4 (ic_KhaakGroupSize c), ic_AckTimeout = orDefault (10 ^ 9) (ic_AckTimeout c)\<rparr>"

text \<open>
  The spawners are built once. The gate router is a function here, which the theorems instantiate by \<open>Hops\<close> of
  theory \<open>World\<close>; its answers do not depend on what it has cached.
\<close>

record spawn_env =
  se_bal :: balance
  se_classes :: "ship_classes option"
  se_ship :: spawner_config
  se_hops :: "int \<Rightarrow> int \<Rightarrow> int \<times> bool"
  se_npc :: npc_config
  se_fleet :: fleet_config
  se_invasion :: invasion_config
  se_npcPlayer :: int
  se_gomath :: gomath
  se_worker :: worker

definition allShipClasses :: "spawn_env \<Rightarrow> ship_class list" where
  "allShipClasses env = (case se_classes env of None \<Rightarrow> [] | Some c \<Rightarrow> sc_list c)"

section \<open>Saving one ship\<close>

text \<open>
  The steps the cold-start spawners share: the ship's row, the serialised state of its controller (which
  \<open>json.Marshal\<close> may refuse), and the identity row, in this order and without a common transaction.
\<close>

definition persistNPC :: "ship \<Rightarrow> int \<Rightarrow> controller \<Rightarrow> entity_ref \<Rightarrow> unit nm" where
  "persistNPC x sector ctrl home =
     bindM (onShips (ships_Create x)) (\<lambda>i.
       case ct_State ctrl of None \<Rightarrow> failM SMarshal
       | Some st \<Rightarrow> bindM (aistate_BatchUpsert [(i, \<lparr>ar_SectorID = sector, ar_ControllerKind = ct_Kind ctrl, ar_StateJSON = st\<rparr>)]) (\<lambda>_.
           npcships_Create i home (ct_Kind ctrl)))"

definition trader_NewInitialState :: "leg \<Rightarrow> leg \<Rightarrow> int \<Rightarrow> int \<Rightarrow> controller" where
  "trader_NewInitialState home dest goods qty =
     TraderController \<lparr>ts_Phase = ''home'', ts_Home = home, ts_Dest = dest, ts_Goods = goods, ts_HaulQty = qty\<rparr>"

definition miner_NewInitialState :: "leg \<Rightarrow> int \<Rightarrow> mine_target \<Rightarrow> controller" where
  "miner_NewInitialState home ore target =
     MinerController \<lparr>ms_Phase = ''to_asteroid'', ms_Home = home, ms_Ore = ore, ms_Target = target, ms_Mined = 0\<rparr>"

definition passenger_NewInitialState :: "leg \<Rightarrow> leg list \<Rightarrow> int \<Rightarrow> controller" where
  "passenger_NewInitialState home legs routeIdx =
     PassengerController \<lparr>ps_Phase = ''waiting'', ps_Pool = legs, ps_Dest = home, ps_RouteIdx = routeIdx, ps_WaitLeft = 0\<rparr>"

definition race_NewInitialState :: "int \<Rightarrow> vec2 \<Rightarrow> controller" where
  "race_NewInitialState race anchor = RaceController \<lparr>rs_Race = race, rs_Order = ''patrol'', rs_Anchor = anchor, rs_HasAnchor = True,
     rs_Phase = Fin 0, rs_SquadPeak = 0, rs_NoEnemyTicks = 0, rs_Standalone = False\<rparr>"

section \<open>Traders, miners and passenger ships\<close>

definition passengerRaceMax :: int where "passengerRaceMax = 4"

definition civilian :: "int \<Rightarrow> bool" where
  "civilian race \<longleftrightarrow> \<not> (race < 1 \<or> race > passengerRaceMax)"

definition tsName :: "spawn_env \<Rightarrow> int \<Rightarrow> runes" where
  "tsName env race = (case se_classes env of None \<Rightarrow> [] | Some c \<Rightarrow> (case TSForRace c race of None \<Rightarrow> [] | Some sc \<Rightarrow> cl_Name sc))"

definition tsClassID :: "spawn_env \<Rightarrow> int \<Rightarrow> int" where
  "tsClassID env race = (case se_classes env of None \<Rightarrow> 0 | Some c \<Rightarrow> (case TSForRace c race of None \<Rightarrow> 0 | Some sc \<Rightarrow> cl_ID sc))"

definition besides :: "vec2 \<Rightarrow> int \<Rightarrow> vec2" where
  "besides pos idx = Vec2 (f_add (vX pos) (f_mul (f_of_int idx) (Fin 5))) (vY pos)"

definition newNPCShip :: "spawn_env \<Rightarrow> int \<Rightarrow> int \<Rightarrow> vec2 \<Rightarrow> int \<Rightarrow> int \<Rightarrow> ship" where
  "newNPCShip env owner sector pos race idx =
     (let ts = (case se_classes env of None \<Rightarrow> None | Some c \<Rightarrow> TSForRace c race); cfg = se_ship env in
      zeroShip\<lparr>s_PlayerID := owner, s_Race := race, s_Name := tsName env race, s_ShipClassID := tsClassID env race, s_SectorID := sector,
        s_Pos := besides pos idx, s_Direction := Vec2 (Fin 1) (Fin 0), s_MaxSpeed := cf_StartMaxSpeed cfg, s_Acceleration := cf_StartAccel cfg,
        s_TurnRate := cf_StartTurnRate cfg, s_HP := cf_StartHP cfg, s_MaxHP := cf_StartHP cfg, s_Shield := cf_StartShld cfg,
        s_MaxShield := cf_StartShld cfg, s_ShieldRecharge := cf_StartShldCharge cfg, s_Energy := cf_StartEnergy cfg,
        s_MaxEnergy := cf_StartEnergy cfg, s_EnergyRecharge := cf_StartEnergyChrg cfg, s_LaserDamage := cf_StartLaserDamage cfg,
        s_LaserRange := cf_StartLaserRange cfg, s_LaserEnergyCost := cf_StartLaserECost cfg,
        s_RadarRange := (case ts of None \<Rightarrow> Fin 0 | Some sc \<Rightarrow> f_of_int (cl_Radar sc)),
        s_CargoBay := (case ts of None \<Rightarrow> Fin 100 | Some sc \<Rightarrow> f_of_int (cl_CargoBay sc))\<rparr>)"

text \<open>The statics of a sector, flattened over the sectors; a trade station's id is that of its reference.\<close>

record station_ref =
  sr_sector :: int
  sr_pos :: vec2
  sr_ref :: entity_ref
  sr_race :: int

definition refOf :: "int \<Rightarrow> static_obj \<Rightarrow> station_ref" where
  "refOf kind x = \<lparr>sr_sector = so_SectorID x, sr_pos = so_Pos x, sr_ref = EntityRef kind (so_ID x), sr_race = so_Race x\<rparr>"

definition legOf :: "station_ref \<Rightarrow> leg" where
  "legOf r = \<lparr>leg_Sector = sr_sector r, leg_Pos = sr_pos r, leg_Ref = sr_ref r\<rparr>"

definition collectTradeStations :: "sector_statics list \<Rightarrow> station_ref list" where
  "collectTradeStations statics = concat (map (\<lambda>st. map (refOf EntityKindTradeStation) (TradeStations st)) statics)"

definition collectPassengerDests :: "sector_statics list \<Rightarrow> station_ref list" where
  "collectPassengerDests statics = concat (map (\<lambda>st. map (refOf EntityKindStation) (Stations st) @ map (refOf EntityKindTradeStation) (TradeStations st)) statics)"

definition collectAsteroids :: "asteroid list list \<Rightarrow> asteroid list" where
  "collectAsteroids asteroids = concat asteroids"

definition collectFactories :: "sector_statics list \<Rightarrow> static_obj list" where
  "collectFactories statics = sort_key so_SectorID (sort_key so_ID (concat (map Stations statics)))"

text \<open>The loop of the two searches: fewest jumps first, then the least id.\<close>

definition nearer :: "(int \<Rightarrow> int \<times> bool) \<Rightarrow> ('a \<Rightarrow> int) \<Rightarrow> ('a \<Rightarrow> int) \<Rightarrow> 'a \<Rightarrow> ('a \<times> int) option \<Rightarrow> ('a \<times> int) option" where
  "nearer hopsTo sector ident c best = (case hopsTo (sector c) of (hops, ok) \<Rightarrow>
     if \<not> ok then best
     else if (case best of None \<Rightarrow> True | Some (b, bestHops) \<Rightarrow> hops < bestHops \<or> hops = bestHops \<and> ident c < ident b) then Some (c, hops)
     else best)"

definition nearestTradeStation :: "spawn_env \<Rightarrow> int \<Rightarrow> station_ref list \<Rightarrow> station_ref option" where
  "nearestTradeStation env from candidates = map_option fst (fold (nearer (se_hops env from) sr_sector (\<lambda>r. ref_id (sr_ref r))) candidates None)"

definition spawner_nearestAsteroid :: "spawn_env \<Rightarrow> int \<Rightarrow> int \<Rightarrow> asteroid list \<Rightarrow> mine_target option" where
  "spawner_nearestAsteroid env from ore candidates =
     map_option (\<lambda>(a, _). \<lparr>mt_ID = a_ID a, mt_Sector = a_SectorID a, mt_Pos = a_Pos a\<rparr>)
       (fold (\<lambda>a best. if a_OreType a \<noteq> ore then best else nearer (se_hops env from) a_SectorID a_ID a best) candidates None)"

definition passengerPool :: "spawn_env \<Rightarrow> int \<Rightarrow> station_ref list \<Rightarrow> leg list" where
  "passengerPool env homeSector dests =
     sort_key (\<lambda>l. ref_kind (leg_Ref l)) (sort_key (\<lambda>l. ref_id (leg_Ref l))
       (map legOf (filter (\<lambda>d. civilian (sr_race d) \<and> (case se_hops env homeSector (sr_sector d) of (hops, ok) \<Rightarrow> ok \<and> hops \<le> nc_PassengerRouteRadius (se_npc env))) dests)))"

definition poolHasOtherThan :: "leg list \<Rightarrow> entity_ref \<Rightarrow> bool" where
  "poolHasOtherThan legs ref = list_ex (\<lambda>l. leg_Ref l \<noteq> ref) legs"

definition spawnTrader :: "spawn_env \<Rightarrow> int \<Rightarrow> static_obj \<Rightarrow> leg \<Rightarrow> leg \<Rightarrow> int \<Rightarrow> int \<Rightarrow> unit nm" where
  "spawnTrader env owner f home dest goods idx =
     persistNPC (newNPCShip env owner (so_SectorID f) (so_Pos f) (so_Race f) idx) (so_SectorID f)
       (trader_NewInitialState home dest goods (nc_HaulQty (se_npc env))) (leg_Ref home)"

definition spawnMiner :: "spawn_env \<Rightarrow> int \<Rightarrow> static_obj \<Rightarrow> leg \<Rightarrow> int \<Rightarrow> mine_target \<Rightarrow> int \<Rightarrow> unit nm" where
  "spawnMiner env owner f home ore target idx =
     persistNPC (newNPCShip env owner (so_SectorID f) (so_Pos f) (so_Race f) idx) (so_SectorID f)
       (miner_NewInitialState home ore target) (leg_Ref home)"

definition spawnPassenger :: "spawn_env \<Rightarrow> int \<Rightarrow> leg \<Rightarrow> leg list \<Rightarrow> int \<Rightarrow> int \<Rightarrow> unit nm" where
  "spawnPassenger env owner home legs race idx =
     persistNPC (newNPCShip env owner (leg_Sector home) (leg_Pos home) race idx) (leg_Sector home)
       (passenger_NewInitialState home legs idx) (leg_Ref home)"

text \<open>Topping up one home; \<open>served\<close> was counted once, before the first ship was created.\<close>

type_synonym served = "entity_ref \<Rightarrow> string \<Rightarrow> int"

definition spawnTradersFor :: "spawn_env \<Rightarrow> int \<Rightarrow> static_obj \<Rightarrow> recipe \<Rightarrow> station_ref list \<Rightarrow> served \<Rightarrow> unit nm" where
  "spawnTradersFor env owner f recipe tradeStations served =
     (let home = legOf (refOf EntityKindStation f); have = served (leg_Ref home) ''trader''; want = nc_TradersPerFactory (se_npc env) in
      case rc_Outputs recipe of [] \<Rightarrow> returnM ()
      | output # _ \<Rightarrow>
        if want \<le> have then returnM ()
        else (case nearestTradeStation env (so_SectorID f) tradeStations of None \<Rightarrow> returnM ()
          | Some dest \<Rightarrow> forM [have..want - 1] (\<lambda>i. spawnTrader env owner f home (legOf dest) (rl_GoodsType output) i)))"

definition spawnMinersFor :: "spawn_env \<Rightarrow> int \<Rightarrow> static_obj \<Rightarrow> recipe \<Rightarrow> asteroid list \<Rightarrow> served \<Rightarrow> unit nm" where
  "spawnMinersFor env owner f recipe oreBodies served =
     (let home = legOf (refOf EntityKindStation f); have = served (leg_Ref home) ''miner''; want = nc_MinersPerFactory (se_npc env) in
      case rc_Inputs recipe of [] \<Rightarrow> returnM ()
      | input # _ \<Rightarrow>
        if want \<le> have then returnM ()
        else (case spawner_nearestAsteroid env (so_SectorID f) (rl_GoodsType input) oreBodies of None \<Rightarrow> returnM ()
          | Some target \<Rightarrow> forM [have..want - 1] (\<lambda>i. spawnMiner env owner f home (rl_GoodsType input) target i)))"

definition spawnPassengersFor :: "spawn_env \<Rightarrow> int \<Rightarrow> station_ref \<Rightarrow> station_ref list \<Rightarrow> served \<Rightarrow> unit nm" where
  "spawnPassengersFor env owner ts dests served =
     (let have = served (sr_ref ts) ''passenger''; want = nc_PassengersPerTradeStation (se_npc env); legs = passengerPool env (sr_sector ts) dests in
      if want \<le> have then returnM ()
      else if \<not> poolHasOtherThan legs (sr_ref ts) then returnM ()
      else forM [have..want - 1] (\<lambda>i. spawnPassenger env owner (legOf ts) legs (sr_race ts) i))"

definition npc_EnsureSpawned :: "spawn_env \<Rightarrow> sector_statics list \<Rightarrow> asteroid list list \<Rightarrow> unit nm" where
  "npc_EnsureSpawned env statics asteroids =
     bindM SystemPlayerID (\<lambda>owner s.
       (let served = CountByHome s; tradeStations = collectTradeStations statics; oreBodies = collectAsteroids asteroids;
            dests = collectPassengerDests statics in
        bindM (forM (collectFactories statics) (\<lambda>f. case balance_Recipe (se_bal env) (so_Type f) of None \<Rightarrow> returnM ()
            | Some recipe \<Rightarrow> bindM (spawnTradersFor env owner f recipe tradeStations served) (\<lambda>_. spawnMinersFor env owner f recipe oreBodies served)))
          (\<lambda>_. forM tradeStations (\<lambda>ts. if \<not> civilian (sr_race ts) then returnM () else spawnPassengersFor env owner ts dests served)) s))"

section \<open>Logistics\<close>

text \<open>
  What the controllers of the two kinds of ship do when they arrive: a trader hauls from the unowned pool of one hold to
  another what is there, at most \<open>maxUnits\<close>, and nothing when it does not fit; a miner's ore goes into its hold.
\<close>

definition hauledUnits :: "cargo_item list \<Rightarrow> int \<Rightarrow> int \<Rightarrow> int" where
  "hauledUnits items gtype maxUnits =
     (let have = (case List.find (\<lambda>x. item_goods x = gtype) items of None \<Rightarrow> 0 | Some x \<Rightarrow> item_quantity x) in
      if have > maxUnits then maxUnits else have)"

definition traderHauler_Haul :: "entity_ref \<Rightarrow> entity_ref \<Rightarrow> int \<Rightarrow> int \<Rightarrow> unit dbm" where
  "traderHauler_Haul from to gtype maxUnits =
     bindM (Inventory from 0) (\<lambda>stock.
       if hauledUnits (inv_items stock) gtype maxUnits \<le> 0 then returnM ()
       else bindM (tryM (Move 0 from to gtype (hauledUnits (inv_items stock) gtype maxUnits))) (\<lambda>res. case res of Inr _ \<Rightarrow> returnM ()
         | Inl e \<Rightarrow> if e = ECargo CG_ErrNoSpace then returnM () else failM e))"

definition minerHauler_AddOre :: "entity_ref \<Rightarrow> int \<Rightarrow> int \<Rightarrow> unit dbm" where
  "minerHauler_AddOre ship ore qty = AddChecked ship ore qty"

section \<open>Race fleets\<close>

definition raceFleetMaxRace :: int where "raceFleetMaxRace = 6"
definition warshipEnergy :: int where "warshipEnergy = 100000"
definition warshipEnergyRecharge :: int where "warshipEnergyRecharge = 50"

definition buildWarship :: "int \<Rightarrow> int \<Rightarrow> ship_class \<Rightarrow> spawner_config \<Rightarrow> ship" where
  "buildWarship owner race cls cfg =
     (let laser = go_div (cl_Laser cls) warshipLaserDivisor in
      zeroShip\<lparr>s_PlayerID := owner, s_Race := race, s_ShipClassID := cl_ID cls, s_Direction := Vec2 (Fin 1) (Fin 0), s_MaxSpeed := cl_Speed cls,
        s_Acceleration := cl_Acceleration cls, s_TurnRate := cf_StartTurnRate cfg, s_HP := cl_Hull cls, s_MaxHP := cl_Hull cls,
        s_Shield := cl_Shield cls, s_MaxShield := cl_Shield cls, s_ShieldRecharge := cl_ShieldCharge cls, s_Energy := warshipEnergy,
        s_MaxEnergy := warshipEnergy, s_EnergyRecharge := warshipEnergyRecharge,
        s_LaserDamage := (if laser < cf_StartLaserDamage cfg then cf_StartLaserDamage cfg else laser),
        s_LaserRange := cf_StartLaserRange cfg, s_LaserEnergyCost := cf_StartLaserECost cfg, s_RadarRange := f_of_int (cl_Radar cls),
        s_CargoBay := f_of_int (cl_CargoBay cls)\<rparr>)"

record warship_spawn =
  wp_race :: int
  wp_anchor :: station_ref
  wp_class :: ship_class
  wp_idx :: int

definition newWarship :: "spawn_env \<Rightarrow> int \<Rightarrow> warship_spawn \<Rightarrow> ship" where
  "newWarship env owner p = (buildWarship owner (wp_race p) (wp_class p) (se_ship env))\<lparr>s_SectorID := sr_sector (wp_anchor p),
     s_Pos := besides (sr_pos (wp_anchor p)) (wp_idx p)\<rparr>"

definition spawnWarship :: "spawn_env \<Rightarrow> int \<Rightarrow> warship_spawn \<Rightarrow> unit nm" where
  "spawnWarship env owner p =
     persistNPC (newWarship env owner p) (sr_sector (wp_anchor p)) (race_NewInitialState (wp_race p) (sr_pos (wp_anchor p))) (sr_ref (wp_anchor p))"

text \<open>One anchor for each race and sector: the object with the least id, the first visited among equals.\<close>

definition considerAnchor :: "station_ref \<Rightarrow> (int \<times> int, station_ref) table \<Rightarrow> (int \<times> int, station_ref) table" where
  "considerAnchor a best =
     (if sr_race a < 1 \<or> sr_race a > raceFleetMaxRace then best
      else if (case map_of best (sr_race a, sr_sector a) of None \<Rightarrow> True | Some cur \<Rightarrow> ref_id (sr_ref a) < ref_id (sr_ref cur))
      then AList.update (sr_race a, sr_sector a) a best else best)"

definition builtObjects :: "sector_statics list \<Rightarrow> station_ref list" where
  "builtObjects statics = concat (map (\<lambda>st. map (refOf EntityKindStation) (filter so_Built (Stations st)) @
     map (refOf EntityKindPirbase) (filter so_Built (Pirbases st))) statics)"

definition appendAt :: "'k \<Rightarrow> 'v \<Rightarrow> ('k, 'v list) table \<Rightarrow> ('k, 'v list) table" where
  "appendAt k v t = AList.update k ((case map_of t k of None \<Rightarrow> [] | Some vs \<Rightarrow> vs) @ [v]) t"

definition collectRaceAnchors :: "sector_statics list \<Rightarrow> (int, station_ref list) table" where
  "collectRaceAnchors statics =
     map (\<lambda>(rc, as). (rc, sort_key sr_sector as))
       (fold (\<lambda>((rc, _), a). appendAt rc a) (fold considerAnchor (builtObjects statics) []) [])"

definition warshipClassesByRace :: "ship_class list \<Rightarrow> (int, ship_class list) table" where
  "warshipClassesByRace all =
     map (\<lambda>(rc, cs). (rc, sort_key cl_Class (sort_key cl_ID cs)))
       (fold (\<lambda>c. if cl_Class c \<in> {3, 4, 6} then appendAt (cl_Race c) c else id) all [])"

text \<open>One turn over the bins, and turns until the budget is placed or no bin has room.\<close>

fun fillTurn :: "int \<Rightarrow> int \<Rightarrow> int list \<Rightarrow> int \<Rightarrow> int list \<times> int \<times> bool" where
  "fillTurn budget ceil [] placed = ([], placed, False)"
| "fillTurn budget ceil (q # qs) placed =
     (if budget \<le> placed then (q # qs, placed, False)
      else if q < ceil then (case fillTurn budget ceil qs (placed + 1) of (qs', p, _) \<Rightarrow> ((q + 1) # qs', p, True))
      else (case fillTurn budget ceil qs placed of (qs', p, progressed) \<Rightarrow> (q # qs', p, progressed)))"

lemma fillTurn_progress:
  "fillTurn budget ceil qs placed = (qs', p, progressed) \<Longrightarrow> placed \<le> p \<and> (progressed \<longrightarrow> placed < p)"
  by (induction qs arbitrary: placed qs' p progressed) (fastforce split: if_splits prod.splits)+

function fillTurns :: "int \<Rightarrow> int \<Rightarrow> int list \<Rightarrow> int \<Rightarrow> int list" where
  "fillTurns budget ceil q placed =
     (if budget \<le> placed then q
      else case fillTurn budget ceil q placed of (q', p, progressed) \<Rightarrow>
        if \<not> progressed then q' else fillTurns budget ceil q' p)"
  by pat_completeness auto

termination
  by (relation "measure (\<lambda>(budget, _, _, placed). nat (budget - placed))") (auto dest: fillTurn_progress [OF sym])

declare fillTurns.simps [simp del]

definition distributeEven :: "int \<Rightarrow> nat \<Rightarrow> int \<Rightarrow> int list" where
  "distributeEven budget n ceil = (if n = 0 then [] else fillTurns budget ceil (replicate n 0) 0)"

definition planAnchor :: "served \<Rightarrow> int \<Rightarrow> ship_class list \<Rightarrow> station_ref \<Rightarrow> int \<Rightarrow> warship_spawn list" where
  "planAnchor served rc classes a quota =
     map (\<lambda>j. \<lparr>wp_race = rc, wp_anchor = a, wp_class = classes ! nat (j mod int (length classes)), wp_idx = j\<rparr>)
       [served (sr_ref a) ''race''..quota - 1]"

text \<open>The anchors of a race with their quotas; nothing for a race without ships to build, anchors or budget.\<close>

definition raceQuotas :: "(int, station_ref list) table \<Rightarrow> (int, ship_class list) table \<Rightarrow> fleet_config \<Rightarrow> int \<Rightarrow> (station_ref \<times> int) list" where
  "raceQuotas anchorsByRace classesByRace cfg rc =
     (let anchors = (case map_of anchorsByRace rc of None \<Rightarrow> [] | Some as \<Rightarrow> as) in
      if map_of classesByRace rc \<in> {None, Some []} \<or> anchors = [] \<or> budgetOf cfg rc \<le> 0 then []
      else zip anchors (distributeEven (budgetOf cfg rc) (length anchors) (fc_MaxPerSector cfg)))"

definition planRaceFleets :: "(int, station_ref list) table \<Rightarrow> (int, ship_class list) table \<Rightarrow> served \<Rightarrow> fleet_config \<Rightarrow> warship_spawn list" where
  "planRaceFleets anchorsByRace classesByRace served cfg =
     concat (map (\<lambda>rc. concat (map (\<lambda>(a, quota). planAnchor served rc (the (map_of classesByRace rc)) a quota) (raceQuotas anchorsByRace classesByRace cfg rc)))
       (sort (map fst anchorsByRace)))"

definition fleet_EnsureSpawned :: "spawn_env \<Rightarrow> sector_statics list \<Rightarrow> unit nm" where
  "fleet_EnsureSpawned env statics =
     bindM SystemPlayerID (\<lambda>owner s.
       forM (planRaceFleets (collectRaceAnchors statics) (warshipClassesByRace (allShipClasses env)) (CountByHome s) (se_fleet env))
         (spawnWarship env owner) s)"

text \<open>The two steps of \<open>app.Run\<close> before the workers load their ships.\<close>

definition coldStart :: "spawn_env \<Rightarrow> sector_statics list \<Rightarrow> asteroid list list \<Rightarrow> unit nm" where
  "coldStart env statics asteroids = bindM (npc_EnsureSpawned env statics asteroids) (\<lambda>_. fleet_EnsureSpawned env statics)"

section \<open>Invasions\<close>

definition xenonRace :: int where "xenonRace = 7"
definition khaakRace :: int where "khaakRace = 8"
definition invasionSpawnRing :: float64 where "invasionSpawnRing = Fin 15"

record invasion_point =
  ip_sector :: int
  ip_pos :: vec2

definition populatedSectors :: "(int \<times> sector_statics) list \<Rightarrow> int list" where
  "populatedSectors statics = map fst (filter (\<lambda>(_, st). Stations st \<noteq> [] \<or> Shipyards st \<noteq> [] \<or> TradeStations st \<noteq> [] \<or> Pirbases st \<noteq> []) statics)"

definition pointBefore :: "invasion_point \<Rightarrow> invasion_point \<Rightarrow> bool" where
  "pointBefore a b = (if ip_sector a \<noteq> ip_sector b then ip_sector a < ip_sector b
     else if \<not> f_eq (vX (ip_pos a)) (vX (ip_pos b)) then f_lt (vX (ip_pos a)) (vX (ip_pos b)) else f_lt (vY (ip_pos a)) (vY (ip_pos b)))"

definition gateExitsInto :: "gate list \<Rightarrow> int list \<Rightarrow> invasion_point list" where
  "gateExitsInto gates populated =
     sortBy (\<lambda>a b. \<not> pointBefore b a) (concat (map (\<lambda>g.
       (if gate_SectorA g \<in> set populated then [\<lparr>ip_sector = gate_SectorA g, ip_pos = Vec2 (fst (gate_PosA g)) (snd (gate_PosA g))\<rparr>] else []) @
       (if gate_SectorB g \<in> set populated then [\<lparr>ip_sector = gate_SectorB g, ip_pos = Vec2 (fst (gate_PosB g)) (snd (gate_PosB g))\<rparr>] else [])) gates))"

definition sectorCentres :: "int list \<Rightarrow> invasion_point list" where
  "sectorCentres populated = map (\<lambda>i. \<lparr>ip_sector = i, ip_pos = zeroVec\<rparr>) (sort populated)"

definition combatClassesForRace :: "ship_class list \<Rightarrow> int \<Rightarrow> int list \<Rightarrow> ship_class list" where
  "combatClassesForRace all race wanted =
     (let any = filter (\<lambda>c. cl_Race c = race) all; filtered = filter (\<lambda>c. cl_Class c \<in> set wanted) any in
      sort_key cl_Class (sort_key cl_ID (if filtered = [] then any else filtered)))"

definition ringOffset :: "gomath \<Rightarrow> vec2 \<Rightarrow> int \<Rightarrow> int \<Rightarrow> float64 \<Rightarrow> vec2" where
  "ringOffset gm center i n r = (if n \<le> 1 then center
     else (let a = f_div (f_mul (mk_float (2 * Pi_const)) (f_of_int i)) (f_of_int n) in vAdd center (Vec2 (f_mul r (m_Cos gm a)) (f_mul r (m_Sin gm a)))))"

definition spawnInvader :: "spawn_env \<Rightarrow> int \<Rightarrow> ship_class \<Rightarrow> int \<Rightarrow> vec2 \<Rightarrow> vec2 \<Rightarrow> unit nm" where
  "spawnInvader env race cls sector pos anchor =
     (let x = (buildWarship (se_npcPlayer env) race cls (se_ship env))\<lparr>s_SectorID := sector, s_Pos := pos\<rparr> in
      bindM (onShips (ships_Create x)) (\<lambda>i.
        case ct_State (race_NewInitialState race anchor) of None \<Rightarrow> failM SMarshal
        | Some st \<Rightarrow> bindM (aistate_BatchUpsert [(i, \<lparr>ar_SectorID = sector, ar_ControllerKind = ''race'', ar_StateJSON = st\<rparr>)]) (\<lambda>_ s.
            if map_of (yw_sectors (nw_yard s)) sector = None then (Inl SSend, s)
            else (Inr (), s\<lparr>nw_yard := yard_Send sector (\<lambda>w. snd (AddShipCommand (se_worker env) (x\<lparr>s_ID := i\<rparr>) ''race'' (Some st) w)) (nw_yard s)\<rparr>))))"

text \<open>\<open>die\<close> is the number drawn by \<open>rng.IntN\<close>. An error ends the wave and is only logged.\<close>

definition maybeSpawn :: "spawn_env \<Rightarrow> int \<Rightarrow> int \<Rightarrow> int \<Rightarrow> int \<Rightarrow> int \<Rightarrow> invasion_point list \<Rightarrow> ship_class list \<Rightarrow> bool \<Rightarrow> spawn_world \<Rightarrow> spawn_world" where
  "maybeSpawn env die race active maxActive groupSize points classes fromGate s =
     (if points = [] \<or> classes = [] then s
      else if maxActive - active \<le> 0 then s
      else
        (let n = min groupSize (maxActive - active); point = points ! nat (die mod int (length points)) in
         snd (forM [0..n - 1] (\<lambda>i. spawnInvader env race (classes ! nat (i mod int (length classes))) (ip_sector point)
             (ringOffset (se_gomath env) (ip_pos point) i n invasionSpawnRing) (if fromGate then zeroVec else ip_pos point)) s)))"

definition invasion_Tick :: "spawn_env \<Rightarrow> gate list \<Rightarrow> (int \<times> sector_statics) list \<Rightarrow> int \<Rightarrow> int \<Rightarrow> spawn_world \<Rightarrow> spawn_world" where
  "invasion_Tick env gates statics dieX dieK s =
     (let counts = CountByRace s; populated = populatedSectors statics; all = allShipClasses env; cfg = se_invasion env;
          s = maybeSpawn env dieX xenonRace (counts xenonRace) (ic_XenonMaxActive cfg) (ic_XenonGroupSize cfg)
                (gateExitsInto gates populated) (combatClassesForRace all xenonRace [3, 4, 5]) True s
      in maybeSpawn env dieK khaakRace (counts khaakRace) (ic_KhaakMaxActive cfg) (ic_KhaakGroupSize cfg)
           (sectorCentres populated) (combatClassesForRace all khaakRace [2, 3]) False s)"

section \<open>Spreading a budget\<close>

lemma fillTurn_full: "m \<ge> ceil \<Longrightarrow> fillTurn budget ceil (replicate n m) placed = (replicate n m, placed, False)"
  by (induction n arbitrary: placed) auto

lemma fillTurn_even:
  assumes "m < ceil" "placed \<le> budget"
  shows "fillTurn budget ceil (replicate n m) placed =
    (let k = min n (nat (budget - placed)) in (replicate k (m + 1) @ replicate (n - k) m, placed + int k, 0 < k))"
  using assms(2)
proof (induction n arbitrary: placed)
  case (Suc n)
  show ?case
  proof (cases "placed = budget")
    case False
    with Suc.prems have "nat (budget - placed) = Suc (nat (budget - (placed + 1)))" by simp
    with Suc.IH [of "placed + 1"] Suc.prems False assms(1) show ?thesis by (simp add: Let_def)
  qed simp
qed simp

text \<open>The share of the bins is the quotient, and the first ones take one more each until the remainder is placed.\<close>

definition evenShares :: "int \<Rightarrow> nat \<Rightarrow> int \<Rightarrow> int list" where
  "evenShares budget n ceil =
     (if int n * ceil \<le> budget then replicate n ceil
      else (let k = nat (budget mod int n) in replicate k (budget div int n + 1) @ replicate (n - k) (budget div int n)))"

lemma fillTurns_even:
  assumes "0 < n" "m \<le> ceil" "int n * m \<le> budget"
  shows "fillTurns budget ceil (replicate n m) (int n * m) = evenShares budget n ceil"
  using assms(2,3)
proof (induction "nat (ceil - m)" arbitrary: m)
  case 0
  then have "ceil = m" by simp
  with 0 show ?case by (subst fillTurns.simps) (simp add: fillTurn_full evenShares_def)
next
  case (Suc d)
  then have m: "m < ceil" by simp
  show ?case
  proof (cases "budget < int n * (m + 1)")
    case True
    define k where "k = nat (budget - int n * m)"
    have k: "int k = budget - int n * m" "k < n" using True Suc.prems(2) by (simp_all add: k_def algebra_simps)
    then have b: "budget = int n * m + int k" by simp
    have q: "budget div int n = m" "budget mod int n = int k" using k(2) assms(1) by (simp_all add: b)
    have turn: "fillTurn budget ceil (replicate n m) (int n * m) = (replicate k (m + 1) @ replicate (n - k) m, budget, 0 < k)"
      using fillTurn_even [OF m Suc.prems(2), of n] k by (simp add: Let_def min_absorb2 flip: k_def)
    have filled: "fillTurns budget ceil xs budget = xs" for xs by (subst fillTurns.simps) simp
    have "int n * (m + 1) \<le> int n * ceil" using m by (intro mult_left_mono) simp_all
    then have "budget < int n * ceil" using True by linarith
    moreover have "fillTurns budget ceil (replicate n m) (int n * m) = replicate k (m + 1) @ replicate (n - k) m"
    proof (cases "k = 0")
      case True
      then have "int n * m = budget" using k(1) by simp
      with True filled [of "replicate n m"] show ?thesis by simp
    next
      case False
      then have "int n * m < budget" using k(1) by simp
      with False turn filled show ?thesis by (subst fillTurns.simps) simp
    qed
    ultimately show ?thesis by (simp add: evenShares_def Let_def q)
  next
    case False
    then have "min n (nat (budget - int n * m)) = n" by (simp add: min_def algebra_simps)
    with False m assms(1) Suc.prems(2) have "fillTurns budget ceil (replicate n m) (int n * m) = fillTurns budget ceil (replicate n (m + 1)) (int n * (m + 1))"
      by (subst fillTurns.simps) (simp add: fillTurn_even Let_def algebra_simps)
    also have "\<dots> = evenShares budget n ceil" using Suc False by simp
    finally show ?thesis .
  qed
qed

section \<open>What a cold start adds\<close>

text \<open>The system player is there, the connection is usable, and the sequence is ahead of the ids in use.\<close>

definition alive :: "spawn_world \<Rightarrow> bool" where
  "alive s \<longleftrightarrow> \<not> tx_aborted (yw_db (nw_yard s)) \<and> list_ex (\<lambda>(_, r). pl_login r = SystemPlayerLogin) (players (yw_db (nw_yard s))) \<and>
     list_all (\<lambda>i. i < yw_seq (nw_yard s)) (map fst (nw_ships s) @ map fst (nw_npc s))"

definition identities :: "spawn_world \<Rightarrow> (entity_ref \<times> string) list" where
  "identities s = map (\<lambda>(_, r). (nr_Home r, nr_Kind r)) (nw_npc s)"

text \<open>The step from \<open>s\<close> to \<open>s'\<close> added ships of these homes and kinds.\<close>

definition seeds :: "(entity_ref \<times> string) list \<Rightarrow> spawn_world \<Rightarrow> spawn_world \<Rightarrow> bool" where
  "seeds hs s s' \<longleftrightarrow> alive s' \<and> players (yw_db (nw_yard s')) = players (yw_db (nw_yard s)) \<and> identities s' = identities s @ hs"

lemma CountByHome_identities: "CountByHome s h k = int (count_list (identities s) (h, k))"
proof -
  have "length (filter (\<lambda>(_, r). nr_Home r = h \<and> nr_Kind r = k) t) = count_list (map (\<lambda>(_, r). (nr_Home r, nr_Kind r)) t) (h, k)" for t :: "(int, npc_row) table"
    by (induction t) auto
  then show ?thesis by (simp add: CountByHome_def identities_def)
qed

lemma seeds_refl: "alive s \<Longrightarrow> seeds [] s s"
  by (simp add: seeds_def)

lemma seeds_trans: "seeds hs s t \<Longrightarrow> seeds hs' t u \<Longrightarrow> seeds (hs @ hs') s u"
  by (simp add: seeds_def)

lemma seeds_count: "seeds hs s s' \<Longrightarrow> CountByHome s' h k = CountByHome s h k + int (count_list hs (h, k))"
  by (simp add: seeds_def CountByHome_identities)

lemma update_fresh: "k \<notin> fst ` set t \<Longrightarrow> AList.update k v t = t @ [(k, v)]"
  by (induction t) auto

lemma SystemPlayerID_run:
  assumes "alive s"
  obtains p where "SystemPlayerID s = (Inr p, s)" "map_of (players (yw_db (nw_yard s))) p \<noteq> None"
    "\<And>s'. players (yw_db (nw_yard s')) = players (yw_db (nw_yard s)) \<Longrightarrow> SystemPlayerID s' = (Inr p, s')"
proof -
  obtain p r where f: "List.find (\<lambda>(_, r). pl_login r = SystemPlayerLogin) (players (yw_db (nw_yard s))) = Some (p, r)"
    using assms by (cases "List.find (\<lambda>(_, r). pl_login r = SystemPlayerLogin) (players (yw_db (nw_yard s)))")
      (auto simp: alive_def list_ex_iff find_None_iff)
  then have "(p, r) \<in> set (players (yw_db (nw_yard s)))" by (auto simp: find_Some_iff dest: nth_mem)
  then have "map_of (players (yw_db (nw_yard s))) p \<noteq> None" by (metis weak_map_of_SomeI option.distinct(1))
  with f show ?thesis by (intro that) (simp_all add: SystemPlayerID_def)
qed

lemma persistNPC_seeds:
  assumes "alive s" "map_of (players (yw_db (nw_yard s))) (s_PlayerID x) \<noteq> None" "ct_State ctrl = Some st"
  shows "\<exists>s'. persistNPC x sector ctrl home s = (Inr (), s') \<and> seeds [(home, ct_Kind ctrl)] s s'"
proof -
  let ?i = "yw_seq (nw_yard s)" and ?y = "nw_yard s"
  define y where "y = (putRow ?i (x\<lparr>s_ID := ?i\<rparr>) ?y)\<lparr>yw_seq := ?i + 1\<rparr>"
  have fresh: "?i \<notin> fst ` set (yw_ships ?y)" "?i \<notin> fst ` set (nw_npc s)" "map_of (nw_npc s) ?i = None"
    using assms(1) by (auto simp: alive_def list_all_iff map_of_eq_None_iff)
  have "ships_Create x ?y = (Inr ?i, y)" using assms by (simp add: ships_Create_def y_def alive_def)
  moreover have na: "\<not> tx_aborted (yw_db y)" "players (yw_db y) = players (yw_db ?y)" "yw_seq y = ?i + 1"
    "yw_ships y = yw_ships ?y @ [(?i, x\<lparr>s_ID := ?i\<rparr>)]"
    using assms(1) fresh by (simp_all add: y_def putRow_def alive_def update_fresh)
  ultimately have "onShips (ships_Create x) s = (Inr ?i, s\<lparr>nw_yard := y\<rparr>)" by (simp add: onShips_def yard_tx_def)
  moreover have "map_of (yw_ships y) ?i = Some (x\<lparr>s_ID := ?i\<rparr>)" by (simp add: y_def putRow_def)
  ultimately have run: "persistNPC x sector ctrl home s = (Inr (), s\<lparr>nw_yard := y,
      nw_ai := AList.update ?i \<lparr>ar_SectorID = sector, ar_ControllerKind = ct_Kind ctrl, ar_StateJSON = st\<rparr> (nw_ai s),
      nw_npc := nw_npc s @ [(?i, \<lparr>nr_Home = home, nr_Kind = ct_Kind ctrl\<rparr>)]\<rparr>)"
    using assms(3) fresh by (simp add: persistNPC_def bindM_def aistate_BatchUpsert_def npcships_Create_def update_fresh)
  have "alive (snd (persistNPC x sector ctrl home s))"
    using assms(1) na by (auto simp: run alive_def list_all_iff dest!: bspec intro: order.strict_implies_order)
  then show ?thesis using na by (auto simp: run seeds_def identities_def)
qed

text \<open>A loop whose every turn adds one ship.\<close>

lemma forM_seeds:
  assumes "alive s" and step: "\<And>x t. x \<in> set xs \<Longrightarrow> alive t \<Longrightarrow> players (yw_db (nw_yard t)) = players (yw_db (nw_yard s)) \<Longrightarrow>
      \<exists>t'. body x t = (Inr (), t') \<and> seeds (h x) t t'"
  shows "\<exists>s'. forM xs body s = (Inr (), s') \<and> seeds (concat (map h xs)) s s'"
proof -
  have "\<exists>t'. forM ys body t = (Inr (), t') \<and> seeds (concat (map h ys)) t t'"
    if "set ys \<subseteq> set xs" "alive t" "players (yw_db (nw_yard t)) = players (yw_db (nw_yard s))" for ys t
    using that
  proof (induction ys arbitrary: t)
    case Nil
    then show ?case by (auto simp: returnM_def seeds_refl)
  next
    case (Cons y ys)
    obtain u where u: "body y t = (Inr (), u)" "seeds (h y) t u" using step [of y t] Cons.prems by auto
    with Cons.IH [of u] Cons.prems obtain t' where "forM ys body u = (Inr (), t')" "seeds (concat (map h ys)) u t'"
      by (auto simp: seeds_def)
    with u show ?case by (auto simp: bindM_def intro: seeds_trans)
  qed
  from this [of xs s] assms(1) show ?thesis by simp
qed

section \<open>Topping up\<close>

text \<open>The ships still missing when each home is to have a number of ships of a kind.\<close>

definition missing :: "((entity_ref \<times> string) \<times> int) list \<Rightarrow> served \<Rightarrow> (entity_ref \<times> string) list" where
  "missing quotas served = concat (map (\<lambda>((h, k), q). replicate (nat (q - served h k)) (h, k)) quotas)"

lemma count_missing:
  "distinct (map fst quotas) \<Longrightarrow> int (count_list (missing quotas served) (h, k)) = (case map_of quotas (h, k) of None \<Rightarrow> 0 | Some q \<Rightarrow> max 0 (q - served h k))"
proof (induction quotas)
  case (Cons c quotas)
  obtain h' k' q where c: "c = ((h', k'), q)" by (metis prod.exhaust)
  have rep: "count_list (replicate n x) y = (if x = y then n else 0)" for n and x y :: "entity_ref \<times> string"
    by (induction n) auto
  have "count_list (missing (c # quotas) served) (h, k) = count_list (replicate (nat (q - served h' k')) (h', k')) (h, k) + count_list (missing quotas served) (h, k)"
    by (simp add: missing_def c)
  moreover have "map_of quotas (h, k) = None" if "(h', k') = (h, k)" using Cons.prems that by (auto simp: c map_of_eq_None_iff)
  ultimately show ?case using Cons by (auto simp: rep c)
qed (simp add: missing_def)

lemma missing_none: "missing quotas served = [] \<longleftrightarrow> (\<forall>((h, k), q) \<in> set quotas. q \<le> served h k)"
  by (auto simp: missing_def)

text \<open>
  A spawner that brings every home up to its quota. It counts what is there, then adds exactly what is missing.
\<close>

locale top_up =
  fixes ensure :: "unit nm" and quotas :: "((entity_ref \<times> string) \<times> int) list" and layout_ok :: bool
  assumes quotas_distinct: "layout_ok \<Longrightarrow> distinct (map fst quotas)"
    and adds_missing: "layout_ok \<Longrightarrow> alive s \<Longrightarrow> \<exists>s'. ensure s = (Inr (), s') \<and> seeds (missing quotas (CountByHome s)) s s'"
    and idle: "alive s \<Longrightarrow> missing quotas (CountByHome s) = [] \<Longrightarrow> ensure s = (Inr (), s)"
begin

lemma counts_after:
  assumes "layout_ok" "alive s" "ensure s = (Inr (), s')"
  shows "CountByHome s' h k = (case map_of quotas (h, k) of None \<Rightarrow> CountByHome s h k | Some q \<Rightarrow> max (CountByHome s h k) q)"
proof -
  have "seeds (missing quotas (CountByHome s)) s s'" using adds_missing [OF assms(1,2)] assms(3) by auto
  then show ?thesis
    by (auto simp: seeds_count count_missing quotas_distinct [OF assms(1)] split: option.split)
qed

lemma nothing_missing:
  assumes "layout_ok" "alive s" "ensure s = (Inr (), s')"
  shows "missing quotas (CountByHome s') = []"
proof -
  have "q \<le> CountByHome s' h k" if "((h, k), q) \<in> set quotas" for h k q
    using counts_after [OF assms, of h k] that quotas_distinct [OF assms(1)] by simp
  then show ?thesis by (auto simp: missing_none)
qed

lemma again:
  assumes "layout_ok" "alive s" "ensure s = (Inr (), s')"
  shows "ensure s' = (Inr (), s')"
  using idle [OF _ nothing_missing [OF assms]] adds_missing [OF assms(1,2)] assms(3) by (auto simp: seeds_def)

end

lemma distinct_concat_map:
  "distinct xs \<Longrightarrow> (\<And>x. x \<in> set xs \<Longrightarrow> distinct (f x)) \<Longrightarrow>
   (\<And>x y. x \<in> set xs \<Longrightarrow> y \<in> set xs \<Longrightarrow> x \<noteq> y \<Longrightarrow> set (f x) \<inter> set (f y) = {}) \<Longrightarrow> distinct (concat (map f xs))"
  by (induction xs) fastforce+

lemma missing_append: "missing (xs @ ys) served = missing xs served @ missing ys served"
  by (simp add: missing_def)

lemma missing_concat: "missing (concat (map q xs)) served = concat (map (\<lambda>x. missing (q x) served) xs)"
  by (induction xs) (simp_all add: missing_append, simp add: missing_def)

lemma forM_idle: "(\<And>x. x \<in> set xs \<Longrightarrow> body x s = (Inr (), s)) \<Longrightarrow> forM xs body s = (Inr (), s)"
  by (induction xs) (simp_all add: returnM_def bindM_def)

lemma one_each: "concat (map (\<lambda>_. [h]) [have..want - 1]) = replicate (nat (want - have)) h"
  by (simp add: map_replicate_const)

section \<open>The layout of the galaxy\<close>

text \<open>Ids are primary keys of their tables, and positions are numbers.\<close>

definition layout_ok :: "sector_statics list \<Rightarrow> asteroid list list \<Rightarrow> bool" where
  "layout_ok statics asteroids \<longleftrightarrow>
     distinct (map so_ID (concat (map Stations statics))) \<and> distinct (map so_ID (concat (map TradeStations statics))) \<and>
     distinct (map so_ID (concat (map Pirbases statics))) \<and>
     list_all (\<lambda>st. list_all (\<lambda>x. vec_fin (so_Pos x)) (Stations st @ TradeStations st @ Pirbases st)) statics \<and>
     list_all (list_all (\<lambda>a. vec_fin (a_Pos a))) asteroids"

subsection \<open>Fleets\<close>

definition fleetQuotas :: "spawn_env \<Rightarrow> sector_statics list \<Rightarrow> ((entity_ref \<times> string) \<times> int) list" where
  "fleetQuotas env statics =
     (let anchors = collectRaceAnchors statics in
      concat (map (\<lambda>rc. map (\<lambda>(a, q). ((sr_ref a, ''race''), q)) (raceQuotas anchors (warshipClassesByRace (allShipClasses env)) (se_fleet env) rc))
        (sort (map fst anchors))))"

lemma plan_missing:
  "map (\<lambda>p. (sr_ref (wp_anchor p), ''race'')) (planRaceFleets (collectRaceAnchors statics) (warshipClassesByRace (allShipClasses env)) served (se_fleet env)) =
   missing (fleetQuotas env statics) served"
proof -
  have one: "map (\<lambda>p. (sr_ref (wp_anchor p), ''race'')) (planAnchor served rc cs a q) = replicate (nat (q - served (sr_ref a) ''race'')) (sr_ref a, ''race'')"
    for rc cs a q by (simp add: planAnchor_def map_replicate_const comp_def)
  show ?thesis
    by (simp add: planRaceFleets_def fleetQuotas_def Let_def missing_concat map_concat comp_def case_prod_beta one)
      (simp add: missing_def comp_def case_prod_beta)
qed

text \<open>Every anchor is a built object filed under its own race and sector.\<close>

lemma update_mem: "x \<in> set (AList.update k v t) \<Longrightarrow> x = (k, v) \<or> x \<in> set t"
  by (induction t) (auto split: if_splits)

lemma considerAnchor_inv:
  assumes "tbl_wf best" "\<forall>(k, a) \<in> set best. a \<in> A \<and> k = (sr_race a, sr_sector a)" "x \<in> A"
  shows "tbl_wf (considerAnchor x best) \<and> (\<forall>(k, a) \<in> set (considerAnchor x best). a \<in> A \<and> k = (sr_race a, sr_sector a))"
  using assms by (auto simp: considerAnchor_def dest!: update_mem)

lemma bestAnchors:
  "tbl_wf (fold considerAnchor xs []) \<and> (\<forall>(k, a) \<in> set (fold considerAnchor xs []). a \<in> set xs \<and> k = (sr_race a, sr_sector a))"
proof -
  have "tbl_wf (fold considerAnchor ys b) \<and> (\<forall>(k, a) \<in> set (fold considerAnchor ys b). a \<in> set xs \<and> k = (sr_race a, sr_sector a))"
    if "set ys \<subseteq> set xs" "tbl_wf b" "\<forall>(k, a) \<in> set b. a \<in> set xs \<and> k = (sr_race a, sr_sector a)" for ys b
    using that
  proof (induction ys arbitrary: b)
    case (Cons y ys)
    then have "y \<in> set xs" by simp
    from considerAnchor_inv [OF Cons.prems(2,3) this] Cons.IH [of "considerAnchor y b"] Cons.prems(1) show ?case by simp
  qed simp
  from this [of xs "[]"] show ?thesis by simp
qed

lemma group_lookup:
  "map_of (fold (\<lambda>((r, _), a). appendAt r a) best t) rc =
    (let new = map snd (filter (\<lambda>((r, _), _). r = rc) best) in
     case map_of t rc of None \<Rightarrow> if new = [] then None else Some new | Some as \<Rightarrow> Some (as @ new))"
  by (induction best arbitrary: t) (auto simp: appendAt_def Let_def split: option.splits if_splits)

lemma group_wf: "tbl_wf t \<Longrightarrow> tbl_wf (fold (\<lambda>((r, _), a). appendAt r a) best t)"
  by (induction best arbitrary: t) (auto simp: appendAt_def)

lemma anchors_lookup:
  assumes "map_of (collectRaceAnchors statics) rc = Some as"
  shows "as = sort_key sr_sector (map snd (filter (\<lambda>((r, _), _). r = rc) (fold considerAnchor (builtObjects statics) [])))"
proof -
  have "map_of (map (\<lambda>(k, v). (k, f v)) t) k = map_option f (map_of t k)" for f :: "station_ref list \<Rightarrow> station_ref list" and t and k :: int
    by (induction t) auto
  with assms show ?thesis by (auto simp: collectRaceAnchors_def group_lookup Let_def split: if_splits)
qed

lemma refOf_simps [simp]: "sr_ref (refOf k x) = EntityRef k (so_ID x)" "sr_sector (refOf k x) = so_SectorID x"
  "sr_pos (refOf k x) = so_Pos x" "sr_race (refOf k x) = so_Race x"
  by (simp_all add: refOf_def)

lemma builtObjects_inj:
  assumes "layout_ok statics asteroids"
  shows "inj_on sr_ref (set (builtObjects statics))"
proof (rule inj_onI)
  fix a b
  assume ab: "a \<in> set (builtObjects statics)" "b \<in> set (builtObjects statics)" "sr_ref a = sr_ref b"
  have m: "(\<exists>x \<in> set (concat (map Stations statics)). c = refOf EntityKindStation x) \<or> (\<exists>x \<in> set (concat (map Pirbases statics)). c = refOf EntityKindPirbase x)"
    if "c \<in> set (builtObjects statics)" for c using that by (auto simp: builtObjects_def)
  have inj: "inj_on so_ID (set (concat (map Stations statics)))" "inj_on so_ID (set (concat (map Pirbases statics)))"
    using assms unfolding layout_ok_def distinct_map by blast+
  from m [OF ab(1)] m [OF ab(2)] ab(3) show "a = b"
    by (auto simp del: set_concat dest: inj_onD [OF inj(1)] inj_onD [OF inj(2)])
qed

lemma anchors_distinct:
  assumes "layout_ok statics asteroids" "map_of (collectRaceAnchors statics) rc = Some as"
  shows "distinct (map sr_ref as)" "a \<in> set as \<Longrightarrow> a \<in> set (builtObjects statics) \<and> sr_race a = rc"
proof -
  let ?best = "fold considerAnchor (builtObjects statics) []"
  have inj: "inj_on sr_ref (set (builtObjects statics))" using assms(1) by (rule builtObjects_inj)
  have b: "distinct (map fst ?best)" "\<forall>(k, a) \<in> set ?best. a \<in> set (builtObjects statics) \<and> k = (sr_race a, sr_sector a)"
    using bestAnchors [of "builtObjects statics"] by (auto simp: tbl_wf_def keys_def)
  then have "inj_on (\<lambda>x. sr_ref (snd x)) (set ?best)"
  proof (intro inj_onI)
    fix x y
    assume "x \<in> set ?best" "y \<in> set ?best" "sr_ref (snd x) = sr_ref (snd y)"
    moreover from this b(2) have "snd x = snd y" by (intro inj_onD [OF inj]) auto
    ultimately show "x = y" using b(2) by (auto simp: split_beta prod_eq_iff)
  qed
  then have "distinct (map (\<lambda>x. sr_ref (snd x)) ?best)" using b(1) by (auto simp: distinct_map)
  then have "distinct (map (\<lambda>x. sr_ref (snd x)) (filter P ?best))" for P by (rule distinct_map_filter)
  then show "distinct (map sr_ref as)"
    unfolding anchors_lookup [OF assms(2)] by (auto simp: distinct_map inj_on_def)
  show "a \<in> set (builtObjects statics) \<and> sr_race a = rc" if "a \<in> set as"
    using that b(2) unfolding anchors_lookup [OF assms(2)] by auto
qed

lemma raceQuotas_from:
  "(a, q) \<in> set (raceQuotas anchors cs cfg rc) \<Longrightarrow> \<exists>as. map_of anchors rc = Some as \<and> a \<in> set as"
  by (auto simp: raceQuotas_def Let_def dest: set_zip_leftD split: if_splits option.splits)

lemma fleetQuotas_distinct:
  assumes "layout_ok statics asteroids"
  shows "distinct (map fst (fleetQuotas env statics))"
proof -
  let ?A = "collectRaceAnchors statics" and ?C = "warshipClassesByRace (allShipClasses env)"
  have keys: "distinct (sort (map fst ?A))"
    using group_wf [of "[]" "fold considerAnchor (builtObjects statics) []"]
    by (simp add: collectRaceAnchors_def tbl_wf_def keys_def comp_def case_prod_beta)
  have "distinct (map (\<lambda>x. (sr_ref (fst x), ''race'')) (raceQuotas ?A ?C (se_fleet env) rc))" for rc
  proof -
    have "distinct (map sr_ref (map fst (zip as qs)))" if "map_of ?A rc = Some as" for as qs
      using anchors_distinct(1) [OF assms that] by (simp add: map_fst_zip_take take_map [symmetric] distinct_take)
    moreover have "distinct (map (\<lambda>x. (sr_ref (fst x), ''race'')) zs) = distinct (map sr_ref (map fst zs))" for zs :: "(station_ref \<times> int) list"
      by (induction zs) force+
    ultimately show ?thesis by (auto simp: raceQuotas_def Let_def split: option.splits)
  qed
  moreover have "(sr_ref a, ''race'') \<noteq> (sr_ref b, ''race'')"
    if "(a, q) \<in> set (raceQuotas ?A ?C (se_fleet env) rc)" "(b, q') \<in> set (raceQuotas ?A ?C (se_fleet env) rc')" "rc \<noteq> rc'" for a b q q' rc rc'
    using raceQuotas_from [OF that(1)] raceQuotas_from [OF that(2)] that(3) anchors_distinct(2) [OF assms]
      inj_onD [OF builtObjects_inj [OF assms], of a b] by blast
  ultimately show ?thesis
    unfolding fleetQuotas_def Let_def map_concat map_map comp_def
    by (intro distinct_concat_map) (use keys in \<open>auto simp: case_prod_beta\<close>)
qed

lemma built_finite: "layout_ok statics asteroids \<Longrightarrow> a \<in> set (builtObjects statics) \<Longrightarrow> vec_fin (sr_pos a)"
  by (auto simp: layout_ok_def builtObjects_def refOf_def list_all_iff)

lemma plan_anchors:
  "p \<in> set (planRaceFleets A C served cfg) \<Longrightarrow> \<exists>rc as. map_of A rc = Some as \<and> wp_anchor p \<in> set as"
  by (fastforce simp: planRaceFleets_def planAnchor_def dest!: raceQuotas_from)

lemma spawnWarship_seeds:
  assumes "alive s" "map_of (players (yw_db (nw_yard s))) owner \<noteq> None" "vec_fin (sr_pos (wp_anchor p))"
  shows "\<exists>s'. spawnWarship env owner p s = (Inr (), s') \<and> seeds [(sr_ref (wp_anchor p), ''race'')] s s'"
proof -
  have "ct_State (race_NewInitialState (wp_race p) (sr_pos (wp_anchor p))) = Some (race_NewInitialState (wp_race p) (sr_pos (wp_anchor p)))"
    using assms(3) by (simp add: ct_State_def race_NewInitialState_def)
  from persistNPC_seeds [OF assms(1) _ this, of "newWarship env owner p" "sr_sector (wp_anchor p)" "sr_ref (wp_anchor p)"] assms(2)
  show ?thesis by (simp add: spawnWarship_def newWarship_def buildWarship_def race_NewInitialState_def Let_def)
qed

interpretation fleets: top_up "fleet_EnsureSpawned env statics" "fleetQuotas env statics" "layout_ok statics asteroids" for env statics asteroids
proof
  let ?plan = "\<lambda>s. planRaceFleets (collectRaceAnchors statics) (warshipClassesByRace (allShipClasses env)) (CountByHome s) (se_fleet env)"
  show "layout_ok statics asteroids \<Longrightarrow> distinct (map fst (fleetQuotas env statics))" by (rule fleetQuotas_distinct)
  fix s
  assume al: "alive s"
  then obtain p where p: "SystemPlayerID s = (Inr p, s)" "map_of (players (yw_db (nw_yard s))) p \<noteq> None" by (rule SystemPlayerID_run)
  then have run: "fleet_EnsureSpawned env statics s = forM (?plan s) (spawnWarship env p) s" by (simp add: fleet_EnsureSpawned_def bindM_def)
  show "\<exists>s'. fleet_EnsureSpawned env statics s = (Inr (), s') \<and> seeds (missing (fleetQuotas env statics) (CountByHome s)) s s'"
    if ok: "layout_ok statics asteroids"
  proof -
    have "vec_fin (sr_pos (wp_anchor x))" if "x \<in> set (?plan s)" for x
      using plan_anchors [OF that] anchors_distinct(2) [OF ok] built_finite [OF ok] by blast
    then have "\<exists>s'. forM (?plan s) (spawnWarship env p) s = (Inr (), s') \<and> seeds (concat (map (\<lambda>x. [(sr_ref (wp_anchor x), ''race'')]) (?plan s))) s s'"
      using p(2) by (intro forM_seeds [OF al] spawnWarship_seeds) simp_all
    then show ?thesis by (simp add: run flip: plan_missing)
  qed
  show "fleet_EnsureSpawned env statics s = (Inr (), s)" if "missing (fleetQuotas env statics) (CountByHome s) = []"
    using that unfolding plan_missing [symmetric] by (simp add: run returnM_def)
qed

subsection \<open>Traders, miners and passenger ships\<close>

text \<open>A producer with a trade station in reach, a consumer with an asteroid of its ore in reach, a civilian trade
  station with somewhere to go.\<close>

definition traderQuota :: "spawn_env \<Rightarrow> station_ref list \<Rightarrow> static_obj \<Rightarrow> recipe \<Rightarrow> ((entity_ref \<times> string) \<times> int) list" where
  "traderQuota env tss f recipe = (if rc_Outputs recipe = [] \<or> nearestTradeStation env (so_SectorID f) tss = None then []
     else [((EntityRef EntityKindStation (so_ID f), ''trader''), nc_TradersPerFactory (se_npc env))])"

definition minerQuota :: "spawn_env \<Rightarrow> asteroid list \<Rightarrow> static_obj \<Rightarrow> recipe \<Rightarrow> ((entity_ref \<times> string) \<times> int) list" where
  "minerQuota env ores f recipe = (case rc_Inputs recipe of [] \<Rightarrow> []
     | input # _ \<Rightarrow> if spawner_nearestAsteroid env (so_SectorID f) (rl_GoodsType input) ores = None then []
         else [((EntityRef EntityKindStation (so_ID f), ''miner''), nc_MinersPerFactory (se_npc env))])"

definition passengerQuota :: "spawn_env \<Rightarrow> station_ref list \<Rightarrow> station_ref \<Rightarrow> ((entity_ref \<times> string) \<times> int) list" where
  "passengerQuota env dests ts = (if \<not> civilian (sr_race ts) \<or> \<not> poolHasOtherThan (passengerPool env (sr_sector ts) dests) (sr_ref ts) then []
     else [((sr_ref ts, ''passenger''), nc_PassengersPerTradeStation (se_npc env))])"

definition factoryQuota :: "spawn_env \<Rightarrow> station_ref list \<Rightarrow> asteroid list \<Rightarrow> static_obj \<Rightarrow> ((entity_ref \<times> string) \<times> int) list" where
  "factoryQuota env tss ores f = (case balance_Recipe (se_bal env) (so_Type f) of None \<Rightarrow> []
     | Some recipe \<Rightarrow> traderQuota env tss f recipe @ minerQuota env ores f recipe)"

definition npcQuotas :: "spawn_env \<Rightarrow> sector_statics list \<Rightarrow> asteroid list list \<Rightarrow> ((entity_ref \<times> string) \<times> int) list" where
  "npcQuotas env statics asteroids =
     concat (map (factoryQuota env (collectTradeStations statics) (collectAsteroids asteroids)) (collectFactories statics)) @
     concat (map (passengerQuota env (collectPassengerDests statics)) (collectTradeStations statics))"

lemma nearer_mem: "fold (nearer hopsTo sector ident) cs best = Some (c, n) \<Longrightarrow> c \<in> set cs \<or> best = Some (c, n)"
  by (induction cs arbitrary: best) (fastforce simp: nearer_def split: prod.splits if_splits)+

lemma asteroid_search:
  "fold (\<lambda>a best. if a_OreType a \<noteq> ore then best else nearer hopsTo a_SectorID a_ID a best) cs best =
   fold (nearer hopsTo a_SectorID a_ID) (filter (\<lambda>a. a_OreType a = ore) cs) best"
  by (induction cs arbitrary: best) simp_all

lemma nearestTradeStation_mem: "nearestTradeStation env from cs = Some c \<Longrightarrow> c \<in> set cs"
  by (auto simp: nearestTradeStation_def dest!: nearer_mem)

lemma nearestAsteroid_pos:
  "spawner_nearestAsteroid env from ore cs = Some t \<Longrightarrow> list_all (\<lambda>a. vec_fin (a_Pos a)) cs \<Longrightarrow> vec_fin (mt_Pos t)"
  by (auto simp: spawner_nearestAsteroid_def asteroid_search list_all_iff dest!: nearer_mem)

text \<open>One home of each kind.\<close>

lemma missing_one: "missing [((h, k), q)] served = replicate (nat (q - served h k)) (h, k)"
  by (simp add: missing_def)

lemma missing_Nil [simp]: "missing [] served = []"
  by (simp add: missing_def)

lemma topUpHome:
  assumes "alive s" "map_of (players (yw_db (nw_yard s))) owner \<noteq> None"
    and "\<And>i. s_PlayerID (ship i) = owner" "\<And>i. ct_State (ctrl i) \<noteq> None" "\<And>i. ct_Kind (ctrl i) = kind"
  shows "\<exists>s'. forM [served home kind..want - 1] (\<lambda>i. persistNPC (ship i) sector (ctrl i) home) s = (Inr (), s') \<and>
    seeds (missing [((home, kind), want)] served) s s'"
proof -
  have "\<exists>t'. persistNPC (ship i) sector (ctrl i) home t = (Inr (), t') \<and> seeds [(home, kind)] t t'"
    if "alive t" "players (yw_db (nw_yard t)) = players (yw_db (nw_yard s))" for i t
    using persistNPC_seeds [of t "ship i" "ctrl i"] assms that by (metis not_Some_eq)
  then show ?thesis unfolding missing_one one_each [symmetric]
    by (intro forM_seeds [OF assms(1)])
qed

lemma newNPCShip_owner [simp]: "s_PlayerID (newNPCShip env owner sector pos race idx) = owner"
  by (simp add: newNPCShip_def Let_def)

lemma missing_served: "want \<le> served h k \<Longrightarrow> missing [((h, k), want)] served = []"
  by (simp add: missing_one)

lemma spawnTradersFor_seeds:
  assumes "alive s" "map_of (players (yw_db (nw_yard s))) owner \<noteq> None" "vec_fin (so_Pos f)" "\<forall>r \<in> set tss. vec_fin (sr_pos r)"
  shows "\<exists>s'. spawnTradersFor env owner f recipe tss served s = (Inr (), s') \<and> seeds (missing (traderQuota env tss f recipe) served) s s'"
proof (cases "rc_Outputs recipe = [] \<or> nearestTradeStation env (so_SectorID f) tss = None \<or>
    nc_TradersPerFactory (se_npc env) \<le> served (EntityRef EntityKindStation (so_ID f)) ''trader''")
  case True
  then show ?thesis using assms(1)
    by (auto simp: spawnTradersFor_def traderQuota_def Let_def returnM_def legOf_def missing_served seeds_refl split: list.split)
next
  case False
  then obtain dest where d: "nearestTradeStation env (so_SectorID f) tss = Some dest" by auto
  let ?ctrl = "trader_NewInitialState (legOf (refOf EntityKindStation f)) (legOf dest) (rl_GoodsType (hd (rc_Outputs recipe))) (nc_HaulQty (se_npc env))"
  have "ct_State ?ctrl \<noteq> None"
    using assms(3,4) nearestTradeStation_mem [OF d] by (simp add: ct_State_def trader_NewInitialState_def legOf_def)
  from topUpHome [where kind = "''trader''" and ctrl = "\<lambda>_. ?ctrl" and home = "EntityRef EntityKindStation (so_ID f)" and served = served and want = "nc_TradersPerFactory (se_npc env)"
      and ship = "newNPCShip env owner (so_SectorID f) (so_Pos f) (so_Race f)" and sector = "so_SectorID f", OF assms(1,2) _ this] False d
  show ?thesis
    by (cases "rc_Outputs recipe") (simp_all add: spawnTradersFor_def traderQuota_def spawnTrader_def [abs_def] Let_def legOf_def trader_NewInitialState_def)
qed

lemma spawnMinersFor_seeds:
  assumes "alive s" "map_of (players (yw_db (nw_yard s))) owner \<noteq> None" "vec_fin (so_Pos f)" "list_all (\<lambda>a. vec_fin (a_Pos a)) ores"
  shows "\<exists>s'. spawnMinersFor env owner f recipe ores served s = (Inr (), s') \<and> seeds (missing (minerQuota env ores f recipe) served) s s'"
proof (cases "rc_Inputs recipe")
  case Nil
  then show ?thesis using assms(1) by (auto simp: spawnMinersFor_def minerQuota_def returnM_def seeds_refl)
next
  case (Cons input rest)
  show ?thesis
  proof (cases "spawner_nearestAsteroid env (so_SectorID f) (rl_GoodsType input) ores = None \<or>
      nc_MinersPerFactory (se_npc env) \<le> served (EntityRef EntityKindStation (so_ID f)) ''miner''")
    case True
    then show ?thesis using assms(1) Cons
      by (auto simp: spawnMinersFor_def minerQuota_def Let_def returnM_def legOf_def missing_served seeds_refl)
  next
    case False
    then obtain target where d: "spawner_nearestAsteroid env (so_SectorID f) (rl_GoodsType input) ores = Some target" by auto
    let ?ctrl = "miner_NewInitialState (legOf (refOf EntityKindStation f)) (rl_GoodsType input) target"
    have "ct_State ?ctrl \<noteq> None"
      using assms(3) nearestAsteroid_pos [OF d assms(4)] by (simp add: ct_State_def miner_NewInitialState_def legOf_def)
    from topUpHome [where kind = "''miner''" and ctrl = "\<lambda>_. ?ctrl" and home = "EntityRef EntityKindStation (so_ID f)" and served = served and want = "nc_MinersPerFactory (se_npc env)"
        and ship = "newNPCShip env owner (so_SectorID f) (so_Pos f) (so_Race f)" and sector = "so_SectorID f", OF assms(1,2) _ this] False d Cons
    show ?thesis by (simp add: spawnMinersFor_def minerQuota_def spawnMiner_def [abs_def] Let_def legOf_def miner_NewInitialState_def)
  qed
qed

lemma spawnPassengersFor_seeds:
  assumes "alive s" "map_of (players (yw_db (nw_yard s))) owner \<noteq> None" "vec_fin (sr_pos ts)" "\<forall>r \<in> set dests. vec_fin (sr_pos r)" "civilian (sr_race ts)"
  shows "\<exists>s'. spawnPassengersFor env owner ts dests served s = (Inr (), s') \<and> seeds (missing (passengerQuota env dests ts) served) s s'"
proof (cases "nc_PassengersPerTradeStation (se_npc env) \<le> served (sr_ref ts) ''passenger'' \<or> \<not> poolHasOtherThan (passengerPool env (sr_sector ts) dests) (sr_ref ts)")
  case True
  then show ?thesis using assms(1,5)
    by (auto simp: spawnPassengersFor_def passengerQuota_def Let_def returnM_def missing_served seeds_refl)
next
  case False
  have "ct_State (passenger_NewInitialState (legOf ts) (passengerPool env (sr_sector ts) dests) i) \<noteq> None" for i
    using assms(3,4) by (auto simp: ct_State_def passenger_NewInitialState_def legOf_def passengerPool_def list_all_iff)
  from topUpHome [where kind = "''passenger''" and ctrl = "passenger_NewInitialState (legOf ts) (passengerPool env (sr_sector ts) dests)" and home = "sr_ref ts" and served = served and want = "nc_PassengersPerTradeStation (se_npc env)"
      and ship = "newNPCShip env owner (sr_sector ts) (sr_pos ts) (sr_race ts)" and sector = "sr_sector ts", OF assms(1,2) _ this] False assms(5)
  show ?thesis by (simp add: spawnPassengersFor_def passengerQuota_def spawnPassenger_def [abs_def] Let_def legOf_def passenger_NewInitialState_def)
qed

lemma factoryQuota_keys: "x \<in> fst ` set (factoryQuota env tss ores f) \<Longrightarrow> fst x = EntityRef EntityKindStation (so_ID f)"
  by (auto simp: factoryQuota_def traderQuota_def minerQuota_def split: option.splits list.splits if_splits)

lemma factoryQuota_distinct: "distinct (map fst (factoryQuota env tss ores f))"
  by (auto simp: factoryQuota_def traderQuota_def minerQuota_def split: option.split list.split)

lemma npcQuotas_kinds:
  "fst ` set (npcQuotas env statics asteroids) \<subseteq> UNIV \<times> {''trader'', ''miner'', ''passenger''}"
  by (auto simp: npcQuotas_def factoryQuota_def traderQuota_def minerQuota_def passengerQuota_def split: option.splits list.splits if_splits)

lemma npcQuotas_distinct:
  assumes "layout_ok statics asteroids"
  shows "distinct (map fst (npcQuotas env statics asteroids))"
proof -
  let ?F = "collectFactories statics" and ?T = "collectTradeStations statics"
  have F: "distinct ?F" "inj_on so_ID (set ?F)"
    using assms by (auto simp: collectFactories_def layout_ok_def distinct_map)
  have T: "distinct ?T" "inj_on sr_ref (set ?T)"
  proof -
    have T: "?T = map (refOf EntityKindTradeStation) (concat (map TradeStations statics))"
      by (simp add: collectTradeStations_def map_concat comp_def)
    have d: "distinct (concat (map TradeStations statics))" "inj_on so_ID (set (concat (map TradeStations statics)))"
      using assms unfolding layout_ok_def distinct_map by blast+
    then have "inj_on (refOf EntityKindTradeStation) (set (concat (map TradeStations statics)))"
      by (intro inj_onI) (auto simp del: set_concat dest!: arg_cong [of "refOf _ _" _ sr_ref] dest: inj_onD)
    with d(1) show "distinct ?T" by (simp only: T distinct_map)
    from d(2) show "inj_on sr_ref (set ?T)" unfolding T by (intro inj_onI) (auto simp del: set_concat dest: inj_onD)
  qed
  have "distinct (concat (map (\<lambda>f. map fst (factoryQuota env ?T (collectAsteroids asteroids) f)) ?F))"
  proof (intro distinct_concat_map F(1) factoryQuota_distinct)
    fix f g
    assume "f \<in> set ?F" "g \<in> set ?F" "f \<noteq> g"
    then have "so_ID f \<noteq> so_ID g" using F(2) by (auto dest: inj_onD)
    then show "set (map fst (factoryQuota env ?T (collectAsteroids asteroids) f)) \<inter> set (map fst (factoryQuota env ?T (collectAsteroids asteroids) g)) = {}"
      by (auto dest!: factoryQuota_keys [OF imageI])
  qed
  moreover have "distinct (concat (map (\<lambda>t. map fst (passengerQuota env (collectPassengerDests statics) t)) ?T))"
  proof (intro distinct_concat_map T(1))
    fix a b
    assume "a \<in> set ?T" "b \<in> set ?T" "a \<noteq> b"
    then have "sr_ref a \<noteq> sr_ref b" using T(2) by (auto dest: inj_onD)
    then show "set (map fst (passengerQuota env (collectPassengerDests statics) a)) \<inter> set (map fst (passengerQuota env (collectPassengerDests statics) b)) = {}"
      by (auto simp: passengerQuota_def)
  qed (simp add: passengerQuota_def)
  moreover have "(h, k) \<notin> fst ` set (passengerQuota env (collectPassengerDests statics) t)"
    if "(h, k) \<in> fst ` set (factoryQuota env ?T (collectAsteroids asteroids) f)" for h k f t
    using that by (auto simp: passengerQuota_def factoryQuota_def traderQuota_def minerQuota_def split: option.splits list.splits if_splits)
  ultimately show ?thesis by (fastforce simp: npcQuotas_def map_concat comp_def)
qed

lemma factory_idle:
  assumes "missing (factoryQuota env tss ores f) served = []" "balance_Recipe (se_bal env) (so_Type f) = Some recipe"
  shows "spawnTradersFor env owner f recipe tss served s = (Inr (), s)" "spawnMinersFor env owner f recipe ores served s = (Inr (), s)"
  using assms by (auto simp: factoryQuota_def missing_append traderQuota_def minerQuota_def missing_one spawnTradersFor_def spawnMinersFor_def
      legOf_def Let_def returnM_def split: list.splits if_splits option.splits)

lemma passenger_idle:
  "missing (passengerQuota env dests ts) served = [] \<Longrightarrow> civilian (sr_race ts) \<Longrightarrow> spawnPassengersFor env owner ts dests served s = (Inr (), s)"
  by (auto simp: passengerQuota_def missing_one spawnPassengersFor_def Let_def returnM_def split: if_splits)

lemma collected_finite:
  assumes "layout_ok statics asteroids"
  shows "\<forall>r \<in> set (collectTradeStations statics). vec_fin (sr_pos r)" "\<forall>r \<in> set (collectPassengerDests statics). vec_fin (sr_pos r)"
    "list_all (\<lambda>a. vec_fin (a_Pos a)) (collectAsteroids asteroids)" "\<forall>f \<in> set (collectFactories statics). vec_fin (so_Pos f)"
  using assms by (auto simp: layout_ok_def collectTradeStations_def collectPassengerDests_def collectAsteroids_def collectFactories_def list_all_iff)

interpretation npcs: top_up "npc_EnsureSpawned env statics asteroids" "npcQuotas env statics asteroids" "layout_ok statics asteroids"
  for env statics asteroids
proof
  let ?T = "collectTradeStations statics" and ?O = "collectAsteroids asteroids" and ?D = "collectPassengerDests statics" and ?F = "collectFactories statics"
  show "layout_ok statics asteroids \<Longrightarrow> distinct (map fst (npcQuotas env statics asteroids))" by (rule npcQuotas_distinct)
  fix s
  assume al: "alive s"
  then obtain p where p: "SystemPlayerID s = (Inr p, s)" "map_of (players (yw_db (nw_yard s))) p \<noteq> None" by (rule SystemPlayerID_run)
  let ?f = "\<lambda>f. case balance_Recipe (se_bal env) (so_Type f) of None \<Rightarrow> returnM ()
    | Some recipe \<Rightarrow> bindM (spawnTradersFor env p f recipe ?T (CountByHome s)) (\<lambda>_. spawnMinersFor env p f recipe ?O (CountByHome s))"
  let ?g = "\<lambda>ts. if \<not> civilian (sr_race ts) then returnM () else spawnPassengersFor env p ts ?D (CountByHome s)"
  have run: "npc_EnsureSpawned env statics asteroids s = bindM (forM ?F ?f) (\<lambda>_. forM ?T ?g) s"
    using p(1) by (simp add: npc_EnsureSpawned_def bindM_def Let_def)
  show "\<exists>s'. npc_EnsureSpawned env statics asteroids s = (Inr (), s') \<and> seeds (missing (npcQuotas env statics asteroids) (CountByHome s)) s s'"
    if ok: "layout_ok statics asteroids"
  proof -
    note fin = collected_finite [OF ok]
    have f: "\<exists>t'. ?f f t = (Inr (), t') \<and> seeds (missing (factoryQuota env ?T ?O f) (CountByHome s)) t t'"
      if t: "f \<in> set ?F" "alive t" "players (yw_db (nw_yard t)) = players (yw_db (nw_yard s))" for f t
    proof (cases "balance_Recipe (se_bal env) (so_Type f)")
      case None
      then show ?thesis using t by (simp add: factoryQuota_def returnM_def seeds_refl)
    next
      case (Some recipe)
      have P: "map_of (players (yw_db (nw_yard t))) p \<noteq> None" using t(3) p(2) by simp
      obtain u where u: "spawnTradersFor env p f recipe ?T (CountByHome s) t = (Inr (), u)" "seeds (missing (traderQuota env ?T f recipe) (CountByHome s)) t u"
        using spawnTradersFor_seeds [OF t(2) P] fin(1,4) t(1) by blast
      then have "alive u" "map_of (players (yw_db (nw_yard u))) p \<noteq> None" using P by (simp_all add: seeds_def)
      then obtain t' where "spawnMinersFor env p f recipe ?O (CountByHome s) u = (Inr (), t')" "seeds (missing (minerQuota env ?O f recipe) (CountByHome s)) u t'"
        using spawnMinersFor_seeds fin(3,4) t(1) by blast
      with u Some show ?thesis by (auto simp: bindM_def factoryQuota_def missing_append intro: seeds_trans)
    qed
    have g: "\<exists>t'. ?g ts t = (Inr (), t') \<and> seeds (missing (passengerQuota env ?D ts) (CountByHome s)) t t'"
      if "ts \<in> set ?T" "alive t" "players (yw_db (nw_yard t)) = players (yw_db (nw_yard s))" for ts t
      using spawnPassengersFor_seeds [OF that(2), of p ts ?D env] fin(1,2) that p(2)
      by (cases "civilian (sr_race ts)") (simp_all add: passengerQuota_def returnM_def seeds_refl)
    obtain u where u: "forM ?F ?f s = (Inr (), u)" "seeds (concat (map (\<lambda>f. missing (factoryQuota env ?T ?O f) (CountByHome s)) ?F)) s u"
      using f forM_seeds [OF al, of ?F ?f "\<lambda>f. missing (factoryQuota env ?T ?O f) (CountByHome s)"] by auto
    then have "alive u" "players (yw_db (nw_yard u)) = players (yw_db (nw_yard s))" by (simp_all add: seeds_def)
    with g obtain s' where "forM ?T ?g u = (Inr (), s')" "seeds (concat (map (\<lambda>ts. missing (passengerQuota env ?D ts) (CountByHome s)) ?T)) u s'"
      using forM_seeds [OF \<open>alive u\<close>, of ?T ?g "\<lambda>ts. missing (passengerQuota env ?D ts) (CountByHome s)"] by auto
    with u show ?thesis by (auto simp: run bindM_def npcQuotas_def missing_append missing_concat intro: seeds_trans)
  qed
  show "npc_EnsureSpawned env statics asteroids s = (Inr (), s)" if "missing (npcQuotas env statics asteroids) (CountByHome s) = []"
  proof -
    have "?f f s = (Inr (), s)" if "f \<in> set ?F" for f
      using \<open>missing (npcQuotas env statics asteroids) (CountByHome s) = []\<close> that factory_idle [of env ?T ?O f "CountByHome s"]
      by (auto simp: npcQuotas_def missing_append missing_concat bindM_def returnM_def split: option.split)
    moreover have "?g ts s = (Inr (), s)" if "ts \<in> set ?T" for ts
      using \<open>missing (npcQuotas env statics asteroids) (CountByHome s) = []\<close> that passenger_idle [of env ?D ts "CountByHome s"]
      by (auto simp: npcQuotas_def missing_append missing_concat returnM_def)
    ultimately show ?thesis by (simp add: run bindM_def forM_idle)
  qed
qed

section \<open>The life of the galaxy\<close>

lemma seeds_grow: "seeds hs s s' \<Longrightarrow> missing quotas (CountByHome s) = [] \<Longrightarrow> missing quotas (CountByHome s') = []"
  by (fastforce simp: missing_none seeds_count)

lemma coldStart_run:
  assumes "layout_ok statics asteroids" "alive s"
  obtains s1 s' where "npc_EnsureSpawned env statics asteroids s = (Inr (), s1)" "fleet_EnsureSpawned env statics s1 = (Inr (), s')"
    "coldStart env statics asteroids s = (Inr (), s')" "alive s1" "alive s'"
    "seeds (missing (fleetQuotas env statics) (CountByHome s1)) s1 s'"
proof -
  obtain s1 where s1: "npc_EnsureSpawned env statics asteroids s = (Inr (), s1)" "alive s1"
    using npcs.adds_missing [OF assms] by (auto simp: seeds_def)
  obtain s' where "fleet_EnsureSpawned env statics s1 = (Inr (), s')" "seeds (missing (fleetQuotas env statics) (CountByHome s1)) s1 s'"
    using fleets.adds_missing [OF assms(1) s1(2)] by blast
  with s1 that show ?thesis by (simp add: coldStart_def bindM_def seeds_def)
qed

lemma fleetQuotas_kind: "map_of (fleetQuotas env statics) (h, k) = Some q \<Longrightarrow> k = ''race''"
  by (auto simp: fleetQuotas_def Let_def dest!: map_of_SomeD)

lemma npcQuotas_kind: "map_of (npcQuotas env statics asteroids) (h, ''race'') = None"
  using npcQuotas_kinds [of env statics asteroids] by (auto simp: map_of_eq_None_iff)

lemma coldStart_counts:
  assumes "layout_ok statics asteroids" "alive s" "coldStart env statics asteroids s = (Inr (), s')"
  shows "CountByHome s' h k = (case map_of (npcQuotas env statics asteroids @ fleetQuotas env statics) (h, k) of
    None \<Rightarrow> CountByHome s h k | Some q \<Rightarrow> max (CountByHome s h k) q)"
proof -
  obtain s1 where r: "npc_EnsureSpawned env statics asteroids s = (Inr (), s1)" "fleet_EnsureSpawned env statics s1 = (Inr (), s')" "alive s1"
    using coldStart_run [OF assms(1,2), of env] assms(3) by (metis Pair_inject)
  show ?thesis
    using npcs.counts_after [OF assms(1,2) r(1), of h k] fleets.counts_after [OF assms(1) r(3,2), of h k]
    by (auto simp: map_add_def npcQuotas_kind dest: fleetQuotas_kind split: option.splits)
qed

lemma coldStart_again:
  assumes "layout_ok statics asteroids" "alive s" "coldStart env statics asteroids s = (Inr (), s')"
  shows "missing (npcQuotas env statics asteroids) (CountByHome s') = []" "missing (fleetQuotas env statics) (CountByHome s') = []" "alive s'"
proof -
  obtain s1 where r: "npc_EnsureSpawned env statics asteroids s = (Inr (), s1)" "fleet_EnsureSpawned env statics s1 = (Inr (), s')" "alive s1" "alive s'"
    "seeds (missing (fleetQuotas env statics) (CountByHome s1)) s1 s'"
    using coldStart_run [OF assms(1,2), of env] assms(3) by (metis Pair_inject)
  show "alive s'" "missing (fleetQuotas env statics) (CountByHome s') = []" "missing (npcQuotas env statics asteroids) (CountByHome s') = []"
    using r(4) fleets.nothing_missing [OF assms(1) r(3,2)] seeds_grow [OF r(5) npcs.nothing_missing [OF assms(1,2) r(1)]] by simp_all
qed

lemma coldStart_idle:
  assumes "alive s" "missing (npcQuotas env statics asteroids) (CountByHome s) = []" "missing (fleetQuotas env statics) (CountByHome s) = []"
  shows "coldStart env statics asteroids s = (Inr (), s)"
  using npcs.idle [OF assms(1,2)] fleets.idle [OF assms(1,3)] by (simp add: coldStart_def bindM_def)

text \<open>Ships are lost with their rows, and ships change hands: the row is written over.\<close>

lemma loseShip_run:
  "alive s \<Longrightarrow> loseShip i s = (if map_of (nw_ships s) i = None then (Inl (SYard YShipNotFound), s)
     else (Inr (), s\<lparr>nw_yard := dropRow i (nw_yard s), nw_ai := AList.delete i (nw_ai s), nw_npc := AList.delete i (nw_npc s)\<rparr>))"
  by (simp add: loseShip_def bindM_def onShips_def yard_tx_def ships_Delete_def alive_def dropRow_def)

lemma alive_loseShip:
  assumes "alive s" "loseShip i s = (r, s')"
  shows "alive s'"
proof (cases "map_of (nw_ships s) i = None")
  case False
  have login: "list_ex (\<lambda>(_, r). pl_login r = l) (map (\<lambda>(p, r). (p, forgetShip i r)) t) = list_ex (\<lambda>(_, r). pl_login r = l) t" for l and t :: "(int, player_row) table"
    by (induction t) (auto simp: forgetShip_def)
  have "s' = s\<lparr>nw_yard := dropRow i (nw_yard s), nw_ai := AList.delete i (nw_ai s), nw_npc := AList.delete i (nw_npc s)\<rparr>"
    using assms(2) False by (simp add: loseShip_run [OF assms(1)])
  then show ?thesis using assms(1) by (simp add: alive_def dropRow_def login list_all_iff delete_keys) blast
qed (use assms in \<open>simp add: loseShip_run\<close>)

definition saveRow :: "int \<Rightarrow> ship \<Rightarrow> spawn_world \<Rightarrow> spawn_world" where
  "saveRow i x s = (if map_of (nw_ships s) i = None then s else s\<lparr>nw_yard := putRow i x (nw_yard s)\<rparr>)"

lemma saveRow_keeps: "alive s \<Longrightarrow> alive (saveRow i x s)" "CountByHome (saveRow i x s) = CountByHome s"
proof -
  have "fst ` set (AList.update i y t) = fst ` set t" if "map_of t i \<noteq> None" for t and y :: ship
    using that by (induction t) (auto split: if_splits)
  then show "alive s \<Longrightarrow> alive (saveRow i x s)" by (auto simp: saveRow_def alive_def putRow_def list_all_iff)
qed (auto simp: saveRow_def CountByHome_def fun_eq_iff)

section \<open>Waves\<close>

definition races :: "spawn_world \<Rightarrow> int list" where
  "races s = map (\<lambda>(_, x). s_Race x) (nw_ships s)"

text \<open>A step that added these races to the ships, and nothing to the sectors known.\<close>

definition joins :: "int list \<Rightarrow> spawn_world \<Rightarrow> spawn_world \<Rightarrow> bool" where
  "joins rs s s' \<longleftrightarrow> alive s' \<and> players (yw_db (nw_yard s')) = players (yw_db (nw_yard s)) \<and> races s' = races s @ rs \<and>
     dom (map_of (yw_sectors (nw_yard s'))) = dom (map_of (yw_sectors (nw_yard s))) \<and> nw_npc s' = nw_npc s"

lemma CountByRace_races: "CountByRace s r = int (count_list (races s) r)"
proof -
  have "length (filter (\<lambda>(_, x). s_Race x = r) t) = count_list (map (\<lambda>(_, x). s_Race x) t) r" for t :: "(int, ship) table"
    by (induction t) auto
  then show ?thesis by (simp add: CountByRace_def races_def)
qed

lemma joins_trans: "joins rs s t \<Longrightarrow> joins rs' t u \<Longrightarrow> joins (rs @ rs') s u"
  by (simp add: joins_def)

lemma joins_refl: "alive s \<Longrightarrow> joins [] s s"
  by (simp add: joins_def)

lemma spawnInvader_joins:
  assumes "alive s" "map_of (players (yw_db (nw_yard s))) (se_npcPlayer env) \<noteq> None" "vec_fin anchor" "map_of (yw_sectors (nw_yard s)) sector \<noteq> None"
  shows "\<exists>s'. spawnInvader env race cls sector pos anchor s = (Inr (), s') \<and> joins [race] s s'"
proof -
  let ?i = "yw_seq (nw_yard s)" and ?y = "nw_yard s"
  define x where "x = (buildWarship (se_npcPlayer env) race cls (se_ship env))\<lparr>s_SectorID := sector, s_Pos := pos\<rparr>"
  have x: "s_PlayerID x = se_npcPlayer env" "s_Race x = race" by (simp_all add: x_def buildWarship_def Let_def)
  define y where "y = (putRow ?i (x\<lparr>s_ID := ?i\<rparr>) ?y)\<lparr>yw_seq := ?i + 1\<rparr>"
  define st where "st = race_NewInitialState race anchor"
  have st: "ct_State (race_NewInitialState race anchor) = Some st" using assms(3) by (simp add: ct_State_def race_NewInitialState_def st_def)
  have fresh: "?i \<notin> fst ` set (yw_ships ?y)" using assms(1) by (auto simp: alive_def list_all_iff)
  have na: "\<not> tx_aborted (yw_db y)" "players (yw_db y) = players (yw_db ?y)" "yw_seq y = ?i + 1" "yw_ships y = yw_ships ?y @ [(?i, x\<lparr>s_ID := ?i\<rparr>)]"
    "yw_sectors y = yw_sectors ?y"
    using assms(1) fresh by (simp_all add: y_def putRow_def alive_def update_fresh)
  have "ships_Create x ?y = (Inr ?i, y)" using assms(1,2) by (simp add: ships_Create_def y_def alive_def x)
  with na have c: "onShips (ships_Create x) s = (Inr ?i, s\<lparr>nw_yard := y\<rparr>)" by (simp add: onShips_def yard_tx_def)
  have m: "map_of (yw_ships y) ?i \<noteq> None" by (simp add: y_def putRow_def)
  define z where "z = yard_Send sector (\<lambda>w. snd (AddShipCommand (se_worker env) (x\<lparr>s_ID := ?i\<rparr>) ''race'' (Some st) w)) y"
  have z: "yw_db z = yw_db y" "yw_ships z = yw_ships y" "yw_seq z = yw_seq y" "dom (map_of (yw_sectors z)) = dom (map_of (yw_sectors ?y))"
    using assms(4) na(5) by (auto simp: z_def yard_Send_def split: option.splits)
  have run: "spawnInvader env race cls sector pos anchor s = (Inr (), s\<lparr>nw_yard := z,
      nw_ai := AList.update ?i \<lparr>ar_SectorID = sector, ar_ControllerKind = ''race'', ar_StateJSON = st\<rparr> (nw_ai s)\<rparr>)"
    unfolding spawnInvader_def Let_def x_def [symmetric] bindM_def c using m assms(4) na(5)
    by (simp add: st aistate_BatchUpsert_def z_def)
  show ?thesis
    unfolding run using assms(1) na z x by (auto simp: joins_def alive_def list_all_iff races_def dest!: bspec intro: order.strict_implies_order)
qed

lemma wave_joins:
  assumes "alive s" "map_of (players (yw_db (nw_yard s))) (se_npcPlayer env) \<noteq> None" "vec_fin anchor" "map_of (yw_sectors (nw_yard s)) sector \<noteq> None"
  shows "\<exists>s'. forM is (\<lambda>i. spawnInvader env race (cls i) sector (pos i) anchor) s = (Inr (), s') \<and> joins (replicate (length is) race) s s'"
  using assms
proof (induction "is" arbitrary: s)
  case Nil
  then show ?case by (simp add: returnM_def joins_refl)
next
  case (Cons i "is")
  obtain t where t: "spawnInvader env race (cls i) sector (pos i) anchor s = (Inr (), t)" "joins [race] s t"
    using spawnInvader_joins [OF Cons.prems] by blast
  then have "alive t" "map_of (players (yw_db (nw_yard t))) (se_npcPlayer env) \<noteq> None" "map_of (yw_sectors (nw_yard t)) sector \<noteq> None"
    using Cons.prems by (auto simp: joins_def dom_def set_eq_iff)
  from Cons.IH [OF this(1,2) Cons.prems(3) this(3)] t show ?case by (auto simp: bindM_def dest: joins_trans)
qed

text \<open>The size of a wave.\<close>

definition waveSize :: "int \<Rightarrow> int \<Rightarrow> int \<Rightarrow> 'a list \<Rightarrow> 'b list \<Rightarrow> int" where
  "waveSize active maxActive groupSize points classes = (if points = [] \<or> classes = [] then 0 else max 0 (min groupSize (maxActive - active)))"

lemma maybeSpawn_joins:
  assumes "alive s" "map_of (players (yw_db (nw_yard s))) (se_npcPlayer env) \<noteq> None"
    and "\<forall>p \<in> set points. map_of (yw_sectors (nw_yard s)) (ip_sector p) \<noteq> None \<and> (fromGate \<or> vec_fin (ip_pos p))"
  shows "joins (replicate (nat (waveSize active maxActive groupSize points classes)) race) s
    (maybeSpawn env die race active maxActive groupSize points classes fromGate s)"
proof (cases "points = [] \<or> classes = [] \<or> maxActive - active \<le> 0")
  case True
  then show ?thesis using assms(1) by (auto simp: maybeSpawn_def waveSize_def joins_refl)
next
  case False
  define point where "point = points ! nat (die mod int (length points))"
  have "nat (die mod int (length points)) < length points" using False by (simp add: nat_less_iff)
  then have p: "point \<in> set points" by (simp add: point_def)
  have fin: "vec_fin (if fromGate then zeroVec else ip_pos point)" using assms(3) p by (auto simp: vec_fin_def zeroVec_def)
  let ?n = "min groupSize (maxActive - active)"
  have len: "nat (waveSize active maxActive groupSize points classes) = nat ?n" using False by (simp add: waveSize_def)
  from wave_joins [OF assms(1,2) fin, of "ip_sector point" "[0..?n - 1]" race "\<lambda>i. classes ! nat (i mod int (length classes))"
      "\<lambda>i. ringOffset (se_gomath env) (ip_pos point) i ?n invasionSpawnRing"] assms(3) p
  show ?thesis using False by (auto simp: maybeSpawn_def Let_def len simp flip: point_def)
qed

lemma points_populated:
  "p \<in> set (gateExitsInto gates populated) \<Longrightarrow> ip_sector p \<in> set populated"
  "p \<in> set (sectorCentres populated) \<Longrightarrow> ip_sector p \<in> set populated \<and> vec_fin (ip_pos p)"
  by (auto simp: gateExitsInto_def sectorCentres_def vec_fin_def zeroVec_def split: if_splits)

lemma invasion_joins:
  assumes "alive s" "map_of (players (yw_db (nw_yard s))) (se_npcPlayer env) \<noteq> None"
    and "\<forall>i \<in> set (populatedSectors statics). map_of (yw_sectors (nw_yard s)) i \<noteq> None"
  shows "joins (replicate (nat (waveSize (CountByRace s xenonRace) (ic_XenonMaxActive (se_invasion env)) (ic_XenonGroupSize (se_invasion env))
        (gateExitsInto gates (populatedSectors statics)) (combatClassesForRace (allShipClasses env) xenonRace [3, 4, 5]))) xenonRace @
      replicate (nat (waveSize (CountByRace s khaakRace) (ic_KhaakMaxActive (se_invasion env)) (ic_KhaakGroupSize (se_invasion env))
        (sectorCentres (populatedSectors statics)) (combatClassesForRace (allShipClasses env) khaakRace [2, 3]))) khaakRace)
    s (invasion_Tick env gates statics dieX dieK s)"
proof -
  let ?X = "maybeSpawn env dieX xenonRace (CountByRace s xenonRace) (ic_XenonMaxActive (se_invasion env)) (ic_XenonGroupSize (se_invasion env))
    (gateExitsInto gates (populatedSectors statics)) (combatClassesForRace (allShipClasses env) xenonRace [3, 4, 5]) True s"
  have x: "joins (replicate (nat (waveSize (CountByRace s xenonRace) (ic_XenonMaxActive (se_invasion env)) (ic_XenonGroupSize (se_invasion env))
      (gateExitsInto gates (populatedSectors statics)) (combatClassesForRace (allShipClasses env) xenonRace [3, 4, 5]))) xenonRace) s ?X"
    using assms by (intro maybeSpawn_joins) (auto dest: points_populated)
  then have d: "alive ?X" "players (yw_db (nw_yard ?X)) = players (yw_db (nw_yard s))" "dom (map_of (yw_sectors (nw_yard ?X))) = dom (map_of (yw_sectors (nw_yard s)))"
    by (simp_all add: joins_def)
  then have "joins (replicate (nat (waveSize (CountByRace s khaakRace) (ic_KhaakMaxActive (se_invasion env)) (ic_KhaakGroupSize (se_invasion env))
      (sectorCentres (populatedSectors statics)) (combatClassesForRace (allShipClasses env) khaakRace [2, 3]))) khaakRace) ?X
      (invasion_Tick env gates statics dieX dieK s)"
    unfolding invasion_Tick_def Let_def
  proof (intro maybeSpawn_joins)
    show "\<forall>p \<in> set (sectorCentres (populatedSectors statics)). map_of (yw_sectors (nw_yard ?X)) (ip_sector p) \<noteq> None \<and> (False \<or> vec_fin (ip_pos p))"
    proof
      fix p
      assume "p \<in> set (sectorCentres (populatedSectors statics))"
      from points_populated(2) [OF this] have "ip_sector p \<in> dom (map_of (yw_sectors (nw_yard s)))" "vec_fin (ip_pos p)" using assms(3) by auto
      then show "map_of (yw_sectors (nw_yard ?X)) (ip_sector p) \<noteq> None \<and> (False \<or> vec_fin (ip_pos p))" using d by (simp add: domD domIff)
    qed
  qed (use assms(2) in simp_all)
  with x show ?thesis by (rule joins_trans)
qed

section \<open>Properties\<close>

text \<open>
  The histories of a database: it is restarted, loses ships, has ships written over (by a worker, or because they
  change hands), and meets waves of invaders.
\<close>

inductive galaxy_run :: "spawn_env \<Rightarrow> gate list \<Rightarrow> (int \<times> sector_statics) list \<Rightarrow> asteroid list list \<Rightarrow> spawn_world \<Rightarrow> bool"
  for env gates statics asteroids where
  founded: "alive s \<Longrightarrow> galaxy_run env gates statics asteroids s"
| restart: "galaxy_run env gates statics asteroids s \<Longrightarrow> coldStart env (map snd statics) asteroids s = (r, s') \<Longrightarrow> galaxy_run env gates statics asteroids s'"
| lost: "galaxy_run env gates statics asteroids s \<Longrightarrow> loseShip i s = (r, s') \<Longrightarrow> galaxy_run env gates statics asteroids s'"
| written: "galaxy_run env gates statics asteroids s \<Longrightarrow> galaxy_run env gates statics asteroids (saveRow i x s)"
| wave: "galaxy_run env gates statics asteroids s \<Longrightarrow> map_of (players (yw_db (nw_yard s))) (se_npcPlayer env) \<noteq> None \<Longrightarrow>
    \<forall>i \<in> set (populatedSectors statics). map_of (yw_sectors (nw_yard s)) i \<noteq> None \<Longrightarrow>
    galaxy_run env gates statics asteroids (invasion_Tick env gates statics dieX dieK s)"

lemma run_alive:
  assumes "galaxy_run env gates statics asteroids s" "layout_ok (map snd statics) asteroids"
  shows "alive s"
  using assms
proof (induction rule: galaxy_run.induct)
  case (restart s r s')
  then obtain u where "coldStart env (map snd statics) asteroids s = (Inr (), u)" "alive u" using coldStart_run by blast
  with restart.hyps(2) show ?case by simp
next
  case (wave s dieX dieK)
  then show ?case using invasion_joins [of s env statics gates dieX dieK] by (simp add: joins_def)
qed (auto intro: alive_loseShip saveRow_keeps)


text \<open>
  The rows of a ship that was captured stay: it goes on counting for the home it was taken from, and no restart
  replaces it.
\<close>

theorem captured_not_replaced:
  assumes "galaxy_run env gates statics asteroids s" "layout_ok (map snd statics) asteroids" "coldStart env (map snd statics) asteroids s = (Inr (), s')"
  shows "coldStart env (map snd statics) asteroids (saveRow i x s') = (Inr (), saveRow i x s')"
  using coldStart_again [OF assms(2) run_alive [OF assms(1,2)] assms(3)] by (intro coldStart_idle) (simp_all add: saveRow_keeps)

text \<open>
  The budget of a race is spread evenly over its anchors: the shares differ by at most one, none exceeds the
  ceiling, and together they are the budget, or all the ceilings when the budget is larger.
\<close>

theorem budget_spread_evenly:
  assumes "0 \<le> budget" "0 \<le> ceil" "0 < n"
  shows "length (distributeEven budget n ceil) = n \<and> sum_list (distributeEven budget n ceil) = min budget (int n * ceil) \<and>
    (\<forall>q \<in> set (distributeEven budget n ceil). 0 \<le> q \<and> q \<le> ceil \<and> (\<forall>q' \<in> set (distributeEven budget n ceil). \<bar>q - q'\<bar> \<le> 1))"
proof -
  have shares: "distributeEven budget n ceil = evenShares budget n ceil"
    using fillTurns_even [OF assms(3), of 0 ceil budget] assms by (simp add: distributeEven_def)
  show ?thesis
  proof (cases "int n * ceil \<le> budget")
    case True
    then show ?thesis using assms by (auto simp: shares evenShares_def sum_list_replicate)
  next
    case False
    define k d where "k = nat (budget mod int n)" and "d = budget div int n"
    have k: "int k = budget mod int n" "k < n" using assms(3) by (simp_all add: k_def nat_less_iff)
    have e: "distributeEven budget n ceil = replicate k (d + 1) @ replicate (n - k) d"
      using False by (simp add: shares evenShares_def Let_def k_def d_def)
    have b: "int n * d + int k = budget" using k(1) by (simp add: d_def)
    have d: "0 \<le> d" "d < ceil"
    proof -
      show "0 \<le> d" using assms by (simp add: d_def pos_imp_zdiv_nonneg_iff)
      have "int n * ceil \<le> int n * d" if "ceil \<le> d" using that by (intro mult_left_mono) simp_all
      then show "d < ceil" using b False by linarith
    qed
    have "sum_list (replicate k (d + 1) @ replicate (n - k) d) = budget"
      using b k(2) by (simp add: sum_list_replicate of_nat_diff algebra_simps)
    then show ?thesis using False k(2) d unfolding e by auto
  qed
qed

definition xenonWave :: "spawn_env \<Rightarrow> gate list \<Rightarrow> (int \<times> sector_statics) list \<Rightarrow> spawn_world \<Rightarrow> int" where
  "xenonWave env gates statics s = waveSize (CountByRace s xenonRace) (ic_XenonMaxActive (se_invasion env)) (ic_XenonGroupSize (se_invasion env))
     (gateExitsInto gates (populatedSectors statics)) (combatClassesForRace (allShipClasses env) xenonRace [3, 4, 5])"

definition khaakWave :: "spawn_env \<Rightarrow> (int \<times> sector_statics) list \<Rightarrow> spawn_world \<Rightarrow> int" where
  "khaakWave env statics s = waveSize (CountByRace s khaakRace) (ic_KhaakMaxActive (se_invasion env)) (ic_KhaakGroupSize (se_invasion env))
     (sectorCentres (populatedSectors statics)) (combatClassesForRace (allShipClasses env) khaakRace [2, 3])"

text \<open>
  C32: a pass of the invasion spawner adds exactly one wave of each faction, of the configured size cut to the room
  under its cap, and no other ship; so a faction never grows beyond its cap.
\<close>

theorem invasion_capped:
  assumes "galaxy_run env gates statics asteroids s" "layout_ok (map snd statics) asteroids"
    and "map_of (players (yw_db (nw_yard s))) (se_npcPlayer env) \<noteq> None"
    and "\<forall>i \<in> set (populatedSectors statics). map_of (yw_sectors (nw_yard s)) i \<noteq> None"
    and "s' = invasion_Tick env gates statics dieX dieK s"
  shows "CountByRace s' r = CountByRace s r + (if r = xenonRace then xenonWave env gates statics s else if r = khaakRace then khaakWave env statics s else 0) \<and>
    CountByRace s' xenonRace \<le> max (CountByRace s xenonRace) (ic_XenonMaxActive (se_invasion env)) \<and>
    CountByRace s' khaakRace \<le> max (CountByRace s khaakRace) (ic_KhaakMaxActive (se_invasion env)) \<and>
    CountByHome s' = CountByHome s"
proof -
  have j: "joins (replicate (nat (xenonWave env gates statics s)) xenonRace @ replicate (nat (khaakWave env statics s)) khaakRace) s s'"
    unfolding xenonWave_def khaakWave_def assms(5) using run_alive [OF assms(1,2)] assms(3,4) by (rule invasion_joins)
  have rep: "count_list (replicate n a) b = (if a = b then n else 0)" for n and a b :: int by (induction n) auto
  have pos: "0 \<le> xenonWave env gates statics s" "0 \<le> khaakWave env statics s" by (simp_all add: xenonWave_def khaakWave_def waveSize_def)
  have ne: "xenonRace \<noteq> khaakRace" by (simp add: xenonRace_def khaakRace_def)
  have c: "CountByRace s' q = CountByRace s q + (if q = xenonRace then xenonWave env gates statics s else if q = khaakRace then khaakWave env statics s else 0)" for q
    using j ne pos by (auto simp: joins_def CountByRace_races rep)
  have "xenonWave env gates statics s \<le> max 0 (ic_XenonMaxActive (se_invasion env) - CountByRace s xenonRace)"
    "khaakWave env statics s \<le> max 0 (ic_KhaakMaxActive (se_invasion env) - CountByRace s khaakRace)"
    by (auto simp: xenonWave_def khaakWave_def waveSize_def)
  moreover have "CountByHome s' = CountByHome s" using j by (auto simp: joins_def CountByHome_def fun_eq_iff)
  ultimately show ?thesis using ne by (auto simp: c)
qed

text \<open>
  A haul moves at most what was asked for, from unowned goods to unowned goods, and no good is made or lost; when the
  other hold is full nothing moves.
\<close>

lemma Inventory_reads: "Inventory ownr viewer s = (Inr stock, s') \<Longrightarrow> s' = s"
  by (auto simp: Inventory_def ListByOwner_def run_simps split: if_splits)

lemma Move_err: "Move actor from to g n s = (Inl e, s') \<Longrightarrow> s' = s"
  by (auto simp: Move_def bindM_err checkM_err failM_def run_simps dest: tx_do_err)

theorem haul_exact:
  assumes "cargo_ok s" "traderHauler_Haul from to g maxUnits s = (Inr (), s')"
  shows "cargo_ok s' \<and> (\<forall>g'. goods_total g' s' = goods_total g' s) \<and>
    (s' = s \<or> (\<exists>n. 0 < n \<and> n \<le> maxUnits \<and> stack_qty s' = deposit 0 to g n (draw 0 from g n (stack_qty s))))"
proof -
  obtain stock where i: "Inventory from 0 s = (Inr stock, s)"
    using assms(2) by (auto simp: traderHauler_Haul_def run_simps dest: Inventory_reads)
  define n where "n = hauledUnits (inv_items stock) g maxUnits"
  have le: "n \<le> maxUnits" by (simp add: n_def hauledUnits_def Let_def)
  have run: "(if n \<le> 0 then returnM () else bindM (tryM (Move 0 from to g n)) (\<lambda>res. case res of Inr _ \<Rightarrow> returnM ()
      | Inl e \<Rightarrow> if e = ECargo CG_ErrNoSpace then returnM () else failM e)) s = (Inr (), s')"
    using assms(2) i unfolding traderHauler_Haul_def n_def by (subst (asm) bindM_Inr) simp_all
  show ?thesis
  proof (cases "n \<le> 0 \<or> (\<exists>e t. Move 0 from to g n s = (Inl e, t))")
    case True
    then have "n \<le> 0 \<or> (\<exists>e. Move 0 from to g n s = (Inl e, s))" using Move_err by blast
    then have "s' = s" using run by (auto simp: bindM_tryM failM_def returnM_def split: if_splits)
    then show ?thesis using assms(1) by simp
  next
    case False
    then obtain t where t: "Move 0 from to g n s = (Inr (), t)" by (cases "Move 0 from to g n s"; cases "fst (Move 0 from to g n s)") auto
    then have "t = s'" "0 < n" using run False by (simp_all add: bindM_tryM returnM_def)
    with t have m: "moveIn 0 from to g n s = (Inr (), s')" by (auto simp: Move_def run_simps)
    show ?thesis using moveIn_effect [OF assms(1) \<open>0 < n\<close> m] \<open>0 < n\<close> le by auto
  qed
qed

section \<open>A small galaxy\<close>

text \<open>A chip factory of race 1 and a trade station of race 2 in sector 1, an asteroid, a pirate base in sector 2, one gate.\<close>

definition tinyObj :: "int \<Rightarrow> int \<Rightarrow> int \<Rightarrow> int \<Rightarrow> static_obj" where
  "tinyObj i typ sector race = \<lparr>so_ID = i, so_OwnerID = None, so_Type = typ, so_SectorID = sector, so_Pos = Vec2 (Fin 10) (Fin 20), so_HP = 100,
     so_Shield = 0, so_MaxShield = 0, so_ShieldRecharge = 0, so_Race = race, so_Built = True\<rparr>"

definition tinyStatics :: "(int \<times> sector_statics) list" where
  "tinyStatics =
     [(1, \<lparr>Stations = [tinyObj 1 7 1 1], Shipyards = [], TradeStations = [tinyObj 4 0 1 2], Pirbases = [], LaserTowers = [], Satellites = [], Jammers = []\<rparr>),
      (2, \<lparr>Stations = [], Shipyards = [], TradeStations = [], Pirbases = [tinyObj 1 0 2 6], LaserTowers = [], Satellites = [], Jammers = []\<rparr>)]"

definition tinyClass :: "int \<Rightarrow> int \<Rightarrow> int \<Rightarrow> ship_class" where
  "tinyClass i race cls = yardClass\<lparr>cl_ID := i, cl_Race := race, cl_Class := cls\<rparr>"

definition tinyEnv :: spawn_env where
  "tinyEnv = \<lparr>se_bal = \<lparr>goodsByID = [], goodsList = [], recipeByKey = [(7, \<lparr>rc_StationType = 7, rc_Inputs = [\<lparr>rl_GoodsType = 2, rl_Quantity = 1, rl_Max = 0\<rparr>],
       rc_Outputs = [\<lparr>rl_GoodsType = 3, rl_Quantity = 1, rl_Max = 0\<rparr>], rc_CycleTime = 1\<rparr>)], recipeList = []\<rparr>,
     se_classes = Some \<lparr>sc_byID = [], sc_list = [tinyClass 1 1 3, tinyClass 2 6 4, tinyClass 3 7 5, tinyClass 4 8 3]\<rparr>,
     se_ship = ye_cfg yardEnv, se_hops = (\<lambda>a b. (if a = b then 0 else 1, True)),
     se_npc = npc_withDefaults \<lparr>nc_TradersPerFactory = 0, nc_MinersPerFactory = 0, nc_PassengersPerTradeStation = 0, nc_PassengerRouteRadius = 0, nc_HaulQty = 0\<rparr>,
     se_fleet = fleet_withDefaults \<lparr>fc_WarshipsPerRace = None, fc_MaxPerSector = 0\<rparr>,
     se_invasion = invasion_withDefaults \<lparr>ic_Interval = 0, ic_XenonMaxActive = 0, ic_KhaakMaxActive = 0, ic_XenonGroupSize = 0, ic_KhaakGroupSize = 0, ic_AckTimeout = 0\<rparr>,
     se_npcPlayer = 9, se_gomath = \<lparr>m_Cos = (\<lambda>x. x), m_Sin = (\<lambda>x. x)\<rparr>, se_worker = demoWorker\<rparr>"

definition tinyWorld :: spawn_world where
  "tinyWorld = \<lparr>nw_yard = yardWorld\<lparr>yw_db := (yw_db yardWorld)\<lparr>players := AList.update 9 \<lparr>pl_login = SystemPlayerLogin, pl_cash = 0, pl_war = 0, pl_trade = 0,
       pl_active_ship = None, pl_passenger_of = None\<rparr> (players (yw_db yardWorld))\<rparr>\<rparr>, nw_ai = [], nw_npc = []\<rparr>"

definition tinyAsteroids :: "asteroid list list" where
  "tinyAsteroids = [[\<lparr>a_ID = 1, a_SectorID = 2, a_Pos = zeroVec, a_Mass = 200, a_OreType = 2\<rparr>]]"

lemma tinyWorld_ok: "galaxy_run tinyEnv gates tinyStatics tinyAsteroids tinyWorld" "layout_ok (map snd tinyStatics) tinyAsteroids"
proof -
  have "alive tinyWorld" by code_simp
  then show "galaxy_run tinyEnv gates tinyStatics tinyAsteroids tinyWorld" by (rule founded)
  show "layout_ok (map snd tinyStatics) tinyAsteroids" by code_simp
qed

lemma tinyQuotas: "npcQuotas tinyEnv (map snd tinyStatics) tinyAsteroids @ fleetQuotas tinyEnv (map snd tinyStatics) =
  [((EntityRef 2 1, ''trader''), 1), ((EntityRef 2 1, ''miner''), 1), ((EntityRef 4 4, ''passenger''), 5), ((EntityRef 2 1, ''race''), 6), ((EntityRef 5 1, ''race''), 6)]"
  by code_simp


text \<open>The same world with sectors 1 and 2 running.\<close>

definition invadedWorld :: spawn_world where
  "invadedWorld = tinyWorld\<lparr>nw_yard := (nw_yard tinyWorld)\<lparr>yw_sectors := [(1, demoSector), (2, demoSector)]\<rparr>\<rparr>"

lemma invadedWorld_ok: "galaxy_run tinyEnv gates tinyStatics tinyAsteroids invadedWorld"
  "\<forall>i \<in> set (populatedSectors tinyStatics). map_of (yw_sectors (nw_yard invadedWorld)) i \<noteq> None"
  "map_of (players (yw_db (nw_yard invadedWorld))) (se_npcPlayer tinyEnv) \<noteq> None" "CountByRace invadedWorld xenonRace = 0" "CountByRace invadedWorld khaakRace = 0"
proof -
  have "alive tinyWorld" by code_simp
  then have "alive invadedWorld" by (simp add: alive_def invadedWorld_def)
  then show "galaxy_run tinyEnv gates tinyStatics tinyAsteroids invadedWorld" by (rule founded)
qed (simp_all add: invadedWorld_def tinyWorld_def tinyEnv_def populatedSectors_def tinyStatics_def CountByRace_def xenonRace_def khaakRace_def yardWorld_def yardShip_def zeroShip_def)

theorem invasion_capped_witness:
  "\<exists>s'. s' = invasion_Tick tinyEnv [sample_gate 10 1 2] tinyStatics 0 0 invadedWorld \<and> CountByRace s' xenonRace = 3 \<and> CountByRace s' khaakRace = 4"
proof -
  have "waveSize 0 (ic_XenonMaxActive (se_invasion tinyEnv)) (ic_XenonGroupSize (se_invasion tinyEnv))
      (gateExitsInto [sample_gate 10 1 2] (populatedSectors tinyStatics)) (combatClassesForRace (allShipClasses tinyEnv) xenonRace [3, 4, 5]) = 3"
    "waveSize 0 (ic_KhaakMaxActive (se_invasion tinyEnv)) (ic_KhaakGroupSize (se_invasion tinyEnv))
      (sectorCentres (populatedSectors tinyStatics)) (combatClassesForRace (allShipClasses tinyEnv) khaakRace [2, 3]) = 4" by code_simp+
  then have w: "xenonWave tinyEnv [sample_gate 10 1 2] tinyStatics invadedWorld = 3" "khaakWave tinyEnv tinyStatics invadedWorld = 4"
    by (simp_all add: xenonWave_def khaakWave_def invadedWorld_ok)
  note inv = invasion_capped [OF invadedWorld_ok(1) tinyWorld_ok(2) invadedWorld_ok(3,2) refl, where gates = "[sample_gate 10 1 2]" and dieX = 0 and dieK = 0]
  have "xenonRace \<noteq> khaakRace" by (simp add: xenonRace_def khaakRace_def)
  with inv [where r = xenonRace] inv [where r = khaakRace] w invadedWorld_ok(4,5) show ?thesis by simp
qed

end
