(* ===== verification/Standing.thy ===== *)
theory Standing
  imports Cargo Clans Sector
begin

text \<open>
  Who may shoot at whom: the declared relations between players and clans (\<open>internal/social/relations\<close>),
  the standing of players with the races (\<open>internal/social/racestanding\<close>), the standings of the races among
  each other and their contraband (\<open>internal/reference\<close>), and the police, the awards and the targeting of
  \<open>internal/app\<close> built on them. Both services answer from a cache in memory and write through to a table.
\<close>

section \<open>Relations\<close>

fun severity :: "relation \<Rightarrow> nat" where
  "severity RelationFriend = 0"
| "severity RelationNeutral = 1"
| "severity RelationHostile = 2"
| "severity RelationAtWar = 3"

definition relation_IsHostile :: "relation \<Rightarrow> bool" where
  "relation_IsHostile r \<longleftrightarrow> severity RelationHostile \<le> severity r"

fun relation_String :: "relation \<Rightarrow> string" where
  "relation_String RelationFriend = ''friend''"
| "relation_String RelationNeutral = ''neutral''"
| "relation_String RelationHostile = ''hostile''"
| "relation_String RelationAtWar = ''at_war''"

definition parseStatus :: "string \<Rightarrow> relation option" where
  "parseStatus t = (if t = ''friend'' then Some RelationFriend else if t = ''hostile'' then Some RelationHostile
     else if t = ''at_war'' then Some RelationAtWar else None)"

text \<open>
  The database, the two tables of these services and their caches. A statement outside a transaction either
  takes effect or fails and changes nothing.
\<close>

type_synonym pair_key = "entity_ref \<times> entity_ref"

record social =
  sl_db :: db
  sl_relations :: "(pair_key, string) table"
  sl_standings :: "(int \<times> int, int) table"
  sl_declared :: "pair_key \<rightharpoonup> relation"
  sl_playerClan :: "int \<rightharpoonup> int"
  sl_standing :: "int \<times> int \<rightharpoonup> int"

type_synonym 'a sm = "(social, err, 'a) comp"

definition onTables :: "'a dbm \<Rightarrow> 'a sm" where
  "onTables m = (\<lambda>s. case m (sl_db s) of (r, d) \<Rightarrow> (r, s\<lparr>sl_db := d\<rparr>))"

text \<open>Rows with an unknown status are skipped.\<close>

definition relations_LoadAll :: "(pair_key \<times> relation) list sm" where
  "relations_LoadAll = (\<lambda>s. (Inr (List.map_filter (\<lambda>(k, t). map_option (Pair k) (parseStatus t)) (sl_relations s)), s))"

definition relations_Upsert :: "entity_ref \<Rightarrow> entity_ref \<Rightarrow> relation \<Rightarrow> unit sm" where
  "relations_Upsert a b status = (\<lambda>s. (Inr (), s\<lparr>sl_relations := AList.update (a, b) (relation_String status) (sl_relations s)\<rparr>))"

definition relations_Delete :: "entity_ref \<Rightarrow> entity_ref \<Rightarrow> unit sm" where
  "relations_Delete a b = (\<lambda>s. (Inr (), s\<lparr>sl_relations := AList.delete (a, b) (sl_relations s)\<rparr>))"

definition relations_Precount :: "unit sm" where
  "relations_Precount =
     bindM relations_LoadAll (\<lambda>rows.
     bindM (onTables (pool LoadAllMemberships)) (\<lambda>members.
     (\<lambda>s. (Inr (), s\<lparr>sl_declared := fold (\<lambda>(k, r) m. m(k \<mapsto> r)) rows Map.empty, sl_playerClan := map_of members\<rparr>))))"

definition clanRefOf :: "social \<Rightarrow> entity_ref \<Rightarrow> entity_ref option" where
  "clanRefOf s ref = (if ref_kind ref \<noteq> EntityKindPlayer then None else map_option ClanRef (sl_playerClan s (ref_id ref)))"

definition declaredBetween :: "social \<Rightarrow> entity_ref \<Rightarrow> entity_ref \<Rightarrow> relation option" where
  "declaredBetween s x y = (case (sl_declared s (x, y), sl_declared s (y, x)) of
       (None, None) \<Rightarrow> None
     | (Some v, None) \<Rightarrow> Some v
     | (None, Some v) \<Rightarrow> Some v
     | (Some v, Some w) \<Rightarrow> Some (if severity v < severity w then w else v))"

text \<open>The fold of \<open>Get\<close>: the worst hostile relation, and whether a hostile and a friendly one were met.\<close>

record verdict =
  vd_worst :: relation
  vd_hostile :: bool
  vd_friend :: bool

definition considerPair :: "social \<Rightarrow> entity_ref \<times> entity_ref \<Rightarrow> verdict \<Rightarrow> verdict" where
  "considerPair s p v = (case declaredBetween s (fst p) (snd p) of None \<Rightarrow> v
     | Some r \<Rightarrow> if relation_IsHostile r then v\<lparr>vd_hostile := True, vd_worst := (if severity (vd_worst v) < severity r then r else vd_worst v)\<rparr>
         else if r = RelationFriend then v\<lparr>vd_friend := True\<rparr> else v)"

definition judge :: "social \<Rightarrow> (entity_ref \<times> entity_ref) list \<Rightarrow> relation" where
  "judge s pairs = (let v = fold (considerPair s) pairs \<lparr>vd_worst = RelationNeutral, vd_hostile = False, vd_friend = False\<rparr> in
     if vd_hostile v then vd_worst v else if vd_friend v then RelationFriend else RelationNeutral)"

definition relations_Get :: "social \<Rightarrow> entity_ref \<Rightarrow> entity_ref \<Rightarrow> relation" where
  "relations_Get s a b =
     (if a = b then RelationFriend
      else (case (clanRefOf s a, clanRefOf s b) of
          (Some ca, Some cb) \<Rightarrow> if ca = cb then RelationFriend else judge s [(a, b), (ca, cb)]
        | _ \<Rightarrow> judge s [(a, b)]))"

definition relations_IsHostile :: "social \<Rightarrow> entity_ref \<Rightarrow> entity_ref \<Rightarrow> bool" where
  "relations_IsHostile s a b = relation_IsHostile (relations_Get s a b)"

definition relations_Set :: "entity_ref \<Rightarrow> entity_ref \<Rightarrow> relation \<Rightarrow> unit sm" where
  "relations_Set a b status =
     (if status = RelationNeutral then
        bindM (relations_Delete a b) (\<lambda>_ s. (Inr (), s\<lparr>sl_declared := (sl_declared s)((a, b) := None)\<rparr>))
      else
        bindM (relations_Upsert a b status) (\<lambda>_ s. (Inr (), s\<lparr>sl_declared := (sl_declared s)((a, b) \<mapsto> status)\<rparr>)))"

section \<open>Standing with the races\<close>

record standing_config =
  st_WantedThreshold :: int
  st_DecayStep :: int

definition standing_withDefaults :: "standing_config \<Rightarrow> standing_config" where
  "standing_withDefaults c = c\<lparr>st_WantedThreshold := (if st_WantedThreshold c = 0 then - 10 else st_WantedThreshold c),
     st_DecayStep := (if st_DecayStep c \<le> 0 then 1 else st_DecayStep c)\<rparr>"

definition standing_LoadAll :: "((int \<times> int) \<times> int) list sm" where
  "standing_LoadAll = (\<lambda>s. (Inr (sl_standings s), s))"

text \<open>The column is an \<open>integer\<close>, its player must exist.\<close>

definition standing_Upsert :: "int \<Rightarrow> int \<Rightarrow> int \<Rightarrow> unit sm" where
  "standing_Upsert player race standing = (\<lambda>s.
     if \<not> in32 standing then (Inl (EPg NumericOutOfRange), s)
     else if map_of (players (sl_db s)) player = None then (Inl (EPg (ForeignKeyViolation ''player_race_standing_player_id_fkey'')), s)
     else (Inr (), s\<lparr>sl_standings := AList.update (player, race) standing (sl_standings s)\<rparr>))"

definition decayed :: "int \<Rightarrow> int \<Rightarrow> int" where
  "decayed step v = (if 0 < v then v - min step v else if v < 0 then v + min step (- v) else 0)"

text \<open>One statement: the negation of the least \<open>integer\<close> overflows, and then no row changes.\<close>

definition DecayAll :: "int \<Rightarrow> unit sm" where
  "DecayAll step = (\<lambda>s.
     if \<not> in32 step \<or> list_ex (\<lambda>(k, v). v = - (2 ^ 31)) (sl_standings s) then (Inl (EPg NumericOutOfRange), s)
     else (Inr (), s\<lparr>sl_standings := map (\<lambda>(k, v). (k, decayed step v)) (sl_standings s)\<rparr>))"

text \<open>The last statement of \<open>Precount\<close>, under the write lock: the rows read before become the cache.\<close>

definition swapStanding :: "((int \<times> int) \<times> int) list \<Rightarrow> social \<Rightarrow> social" where
  "swapStanding rows s = s\<lparr>sl_standing := fold (\<lambda>(k, v) m. m(k \<mapsto> v)) rows Map.empty\<rparr>"

definition standing_Precount :: "unit sm" where
  "standing_Precount = bindM standing_LoadAll (\<lambda>rows s. (Inr (), swapStanding rows s))"

definition standing_Get :: "social \<Rightarrow> int \<Rightarrow> int \<Rightarrow> int" where
  "standing_Get s player race = (case sl_standing s (player, race) of None \<Rightarrow> 0 | Some v \<Rightarrow> v)"

definition IsWanted :: "standing_config \<Rightarrow> social \<Rightarrow> int \<Rightarrow> int \<Rightarrow> bool" where
  "IsWanted cfg s player race \<longleftrightarrow> standing_Get s player race \<le> st_WantedThreshold cfg"

definition standing_Adjust :: "int \<Rightarrow> int \<Rightarrow> int \<Rightarrow> int sm" where
  "standing_Adjust player race delta = (\<lambda>s.
     let v = wrap64 (standing_Get s player race + delta) in
     bindM (standing_Upsert player race v) (\<lambda>_ s. (Inr v, s\<lparr>sl_standing := (sl_standing s)((player, race) \<mapsto> v)\<rparr>)) s)"

definition standing_Decay :: "standing_config \<Rightarrow> unit sm" where
  "standing_Decay cfg = bindM (DecayAll (st_DecayStep cfg)) (\<lambda>_. standing_Precount)"

text \<open>The closer logs an error and goes on.\<close>

definition standing_Tick :: "standing_config \<Rightarrow> social \<Rightarrow> social" where
  "standing_Tick cfg s = snd (standing_Decay cfg s)"

section \<open>The races among each other, and contraband\<close>

definition mainStandings :: "int \<Rightarrow> (int, int) table" where
  "mainStandings from = (if from \<in> {1, 2} then [(1, 10), (2, 10), (3, 1), (4, 1), (5, 5), (6, - 5), (7, - 10), (8, - 10)]
     else if from \<in> {3, 4, 5} then [(1, 1), (2, 1), (3, 10), (4, 10), (5, 10), (6, - 5), (7, - 10), (8, - 10)]
     else if from = 7 then [(1, - 10), (2, - 10), (3, - 10), (4, - 10), (5, - 10), (6, - 10), (7, 10), (8, 10)]
     else if from = 8 then [(1, - 10), (2, - 10), (3, - 10), (4, - 10), (5, - 10), (6, - 10), (7, - 10), (8, 10)]
     else [])"

definition DefaultStanding :: "int \<Rightarrow> int \<Rightarrow> int" where
  "DefaultStanding from to =
     (if from = to then 10
      else (case map_of (mainStandings from) to of Some v \<Rightarrow> v
        | None \<Rightarrow> (case map_of [(6, - 5), (7, - 10), (8, - 10)] from of Some h \<Rightarrow> h | None \<Rightarrow> 0)))"

definition raceref_IsHostile :: "int \<Rightarrow> int \<Rightarrow> bool" where
  "raceref_IsHostile from to \<longleftrightarrow> DefaultStanding from to < 0"

definition Slaves :: int where "Slaves = 323"

definition Illegal :: "int \<Rightarrow> int list" where
  "Illegal race = (if race \<in> {1, 2, 3, 4, 5} then [Slaves] else [])"

definition IsIllegal :: "int \<Rightarrow> int \<Rightarrow> bool" where
  "IsIllegal race goods = list_ex (\<lambda>g. g = goods) (Illegal race)"

section \<open>Police, awards and targets\<close>

definition isMainRace :: "int \<Rightarrow> bool" where
  "isMainRace r \<longleftrightarrow> 1 \<le> r \<and> r \<le> 5"

record police_config =
  pc_ContrabandPenalty :: int
  pc_KillPenalty :: int

definition police_withDefaults :: "police_config \<Rightarrow> police_config" where
  "police_withDefaults c = c\<lparr>pc_ContrabandPenalty := (if pc_ContrabandPenalty c \<le> 0 then 5 else pc_ContrabandPenalty c),
     pc_KillPenalty := (if pc_KillPenalty c \<le> 0 then 10 else pc_KillPenalty c)\<rparr>"

record scan_result =
  sr_Confiscated :: bool
  sr_GoodsType :: int
  sr_Quantity :: int
  sr_Wanted :: bool

definition noScan :: scan_result where
  "noScan = \<lparr>sr_Confiscated = False, sr_GoodsType = 0, sr_Quantity = 0, sr_Wanted = False\<rparr>"

text \<open>The loop over the items of the hold, with its running total and the last good it took.\<close>

fun confiscate :: "entity_ref \<Rightarrow> int \<Rightarrow> cargo_item list \<Rightarrow> int \<times> int \<Rightarrow> (int \<times> int) dbm" where
  "confiscate ref race [] acc = returnM acc"
| "confiscate ref race (item # items) acc =
     (if item_quantity item \<le> 0 \<or> \<not> IsIllegal race (item_goods item) then confiscate ref race items acc
      else bindM (Consume ref (item_goods item) (item_quantity item)) (\<lambda>_.
        confiscate ref race items (wrap64 (fst acc + item_quantity item), item_goods item)))"

definition police_Scan :: "standing_config \<Rightarrow> police_config \<Rightarrow> int \<Rightarrow> int \<Rightarrow> int \<Rightarrow> int \<Rightarrow> scan_result sm" where
  "police_Scan scfg cfg npc policeRace target targetPlayer =
     (if targetPlayer = 0 \<or> targetPlayer = npc then returnM noScan
      else
        bindM (onTables (Inventory (EntityRef EntityKindShip target) 0)) (\<lambda>inv.
        bindM (onTables (confiscate (EntityRef EntityKindShip target) policeRace (inv_items inv) (0, 0))) (\<lambda>(total, lastGood).
        if total = 0 then returnM noScan
        else bindM (standing_Adjust targetPlayer policeRace (- pc_ContrabandPenalty cfg)) (\<lambda>_ s.
          (Inr \<lparr>sr_Confiscated = True, sr_GoodsType = lastGood, sr_Quantity = total, sr_Wanted = IsWanted scfg s targetPlayer policeRace\<rparr>, s)))))"

definition OnRaceShipKilled :: "police_config \<Rightarrow> int \<Rightarrow> int \<Rightarrow> int \<Rightarrow> unit sm" where
  "OnRaceShipKilled cfg npc killer race =
     (if killer = 0 \<or> killer = npc then returnM ()
      else bindM (standing_Adjust killer race (- pc_KillPenalty cfg)) (\<lambda>_. returnM ()))"

definition warRatePerKill :: int where "warRatePerKill = 1"

definition captureRacePenalty :: int where "captureRacePenalty = 10"

definition OnShipKilled :: "int \<Rightarrow> int \<Rightarrow> unit sm" where
  "OnShipKilled npc killer =
     (if killer = 0 \<or> killer = npc then returnM ()
      else bindM (onTables (pool (AddReputation killer \<lparr>rep_war = warRatePerKill, rep_trade = 0\<rparr>))) (\<lambda>_. returnM ()))"

definition OnShipCaptured :: "int \<Rightarrow> int \<Rightarrow> int \<Rightarrow> unit sm" where
  "OnShipCaptured npc capturer race =
     (if capturer = 0 \<or> capturer = npc then returnM ()
      else bindM (onTables (pool (AddReputation capturer \<lparr>rep_war = warRatePerKill, rep_trade = 0\<rparr>))) (\<lambda>_.
        if isMainRace race then bindM (standing_Adjust capturer race (- captureRacePenalty)) (\<lambda>_. returnM ()) else returnM ()))"

definition matrix_IsHostile :: "ship \<Rightarrow> ship \<Rightarrow> bool" where
  "matrix_IsHostile self other = raceref_IsHostile (s_Race self) (s_Race other)"

definition overlay_IsHostile :: "standing_config \<Rightarrow> int \<Rightarrow> social \<Rightarrow> ship \<Rightarrow> ship \<Rightarrow> bool" where
  "overlay_IsHostile cfg npc s self other \<longleftrightarrow> matrix_IsHostile self other \<or>
     (isMainRace (s_Race self) \<and> s_Race other = 0 \<and> s_PlayerID other \<noteq> 0 \<and> s_PlayerID other \<noteq> npc \<and>
      IsWanted cfg s (s_PlayerID other) (s_Race self))"

section \<open>Hostility follows the declarations\<close>

lemma onTables_ok [run_simps]: "onTables m s = (Inr x, s') \<longleftrightarrow> (\<exists>d. m (sl_db s) = (Inr x, d) \<and> s' = s\<lparr>sl_db := d\<rparr>)"
  by (auto simp: onTables_def split: prod.splits)

text \<open>A hostile relation is declared in one of the two directions.\<close>

definition hostileEntry :: "social \<Rightarrow> entity_ref \<times> entity_ref \<Rightarrow> bool" where
  "hostileEntry s k \<longleftrightarrow> (case sl_declared s k of None \<Rightarrow> False | Some r \<Rightarrow> relation_IsHostile r)"

lemma declaredBetween_hostile:
  "(case declaredBetween s x y of None \<Rightarrow> False | Some r \<Rightarrow> relation_IsHostile r) \<longleftrightarrow> hostileEntry s (x, y) \<or> hostileEntry s (y, x)"
  by (auto simp: declaredBetween_def hostileEntry_def relation_IsHostile_def split: option.split)

lemma severity_inj: "severity a = severity b \<longleftrightarrow> a = b"
  by (cases a; cases b) simp_all

lemma declaredBetween_sym: "declaredBetween s x y = declaredBetween s y x"
  by (auto simp: declaredBetween_def severity_inj split: option.split)

lemma considerPair_hostile:
  "vd_hostile (considerPair s p v) \<longleftrightarrow> vd_hostile v \<or> hostileEntry s p \<or> hostileEntry s (prod.swap p)"
  "(vd_hostile v \<Longrightarrow> relation_IsHostile (vd_worst v)) \<Longrightarrow> vd_hostile (considerPair s p v) \<Longrightarrow> relation_IsHostile (vd_worst (considerPair s p v))"
  using declaredBetween_hostile [of s "fst p" "snd p"]
  by (cases p; auto simp: considerPair_def relation_IsHostile_def split: option.splits)+

lemma fold_consider_hostile:
  "vd_hostile (fold (considerPair s) ps v) \<longleftrightarrow> vd_hostile v \<or> (\<exists>p \<in> set ps. hostileEntry s p \<or> hostileEntry s (prod.swap p))"
  by (induction ps arbitrary: v) (auto simp: considerPair_hostile)

lemma fold_consider_worst:
  "(vd_hostile v \<Longrightarrow> relation_IsHostile (vd_worst v)) \<Longrightarrow> vd_hostile (fold (considerPair s) ps v) \<Longrightarrow>
     relation_IsHostile (vd_worst (fold (considerPair s) ps v))"
proof (induction ps arbitrary: v)
  case (Cons p ps)
  from Cons.IH [of "considerPair s p v"] considerPair_hostile(2) [OF Cons.prems(1)] Cons.prems(2) show ?case by simp
qed simp

lemma judge_hostile: "relation_IsHostile (judge s ps) \<longleftrightarrow> (\<exists>p \<in> set ps. hostileEntry s p \<or> hostileEntry s (prod.swap p))"
  using fold_consider_hostile [where ps = ps and s = s and v = "\<lparr>vd_worst = RelationNeutral, vd_hostile = False, vd_friend = False\<rparr>"]
    fold_consider_worst [where ps = ps and s = s and v = "\<lparr>vd_worst = RelationNeutral, vd_hostile = False, vd_friend = False\<rparr>"]
  by (auto simp: judge_def Let_def relation_IsHostile_def)

text \<open>The pairs whose declarations count between two parties: themselves, and their clans.\<close>

definition disputants :: "social \<Rightarrow> entity_ref \<Rightarrow> entity_ref \<Rightarrow> (entity_ref \<times> entity_ref) set" where
  "disputants s a b = {(a, b), (b, a)} \<union>
     (case (clanRefOf s a, clanRefOf s b) of (Some ca, Some cb) \<Rightarrow> {(ca, cb), (cb, ca)} | _ \<Rightarrow> {})"

definition clanmates :: "social \<Rightarrow> entity_ref \<Rightarrow> entity_ref \<Rightarrow> bool" where
  "clanmates s a b \<longleftrightarrow> clanRefOf s a \<noteq> None \<and> clanRefOf s a = clanRefOf s b"

lemma IsHostile_iff:
  "relations_IsHostile s a b \<longleftrightarrow> a \<noteq> b \<and> \<not> clanmates s a b \<and> (\<exists>k \<in> disputants s a b. hostileEntry s k)"
proof -
  have friend: "\<not> relation_IsHostile RelationFriend" by (simp add: relation_IsHostile_def)
  show ?thesis
    by (cases "clanRefOf s a"; cases "clanRefOf s b")
      (auto simp: relations_IsHostile_def relations_Get_def judge_hostile disputants_def clanmates_def friend)
qed

lemma considerPair_swap: "considerPair s (x, y) v = considerPair s (y, x) v"
  by (simp add: considerPair_def declaredBetween_sym [of s x y])

lemma Get_sym: "relations_Get s a b = relations_Get s b a"
proof (cases "clanRefOf s a = None \<or> clanRefOf s b = None")
  case False
  then obtain ca cb where "clanRefOf s a = Some ca" "clanRefOf s b = Some cb" by auto
  then show ?thesis by (auto simp: relations_Get_def judge_def considerPair_swap [of s a b] considerPair_swap [of s ca cb])
qed (auto simp: relations_Get_def judge_def considerPair_swap [of s a b] split: option.split)

text \<open>The cache holds what the stored rows say, after every operation of the service.\<close>

definition declared_in_step :: "social \<Rightarrow> bool" where
  "declared_in_step s \<longleftrightarrow> tbl_wf (sl_relations s) \<and> (\<forall>k. sl_declared s k = Option.bind (map_of (sl_relations s) k) parseStatus)"

lemma fold_rows: "distinct (map fst rows) \<Longrightarrow> fold (\<lambda>(k, v) m. m(k \<mapsto> v)) rows m k = (case map_of rows k of None \<Rightarrow> m k | Some v \<Rightarrow> Some v)"
  by (induction rows arbitrary: m) (auto split: option.splits dest: map_of_SomeD simp: map_of_eq_None_iff rev_image_eqI)

lemma parse_String: "status \<noteq> RelationNeutral \<Longrightarrow> parseStatus (relation_String status) = Some status"
  by (cases status) (simp_all add: parseStatus_def)

definition known_rows :: "(pair_key, string) table \<Rightarrow> (pair_key \<times> relation) list" where
  "known_rows t = List.map_filter (\<lambda>(k, t). map_option (Pair k) (parseStatus t)) t"

lemma known_rows_simps [simp]: "known_rows [] = []"
  "known_rows ((k, x) # t) = (case parseStatus x of None \<Rightarrow> known_rows t | Some r \<Rightarrow> (k, r) # known_rows t)"
  by (simp_all add: known_rows_def List.map_filter_simps split: option.split)

lemma known_rows_keys: "fst ` set (known_rows t) \<subseteq> fst ` set t"
proof (induction t)
  case (Cons row t)
  then show ?case by (cases row; cases "parseStatus (snd row)") (simp_all add: subset_insertI2 insert_mono)
qed simp

lemma known_rows_distinct: "distinct (map fst t) \<Longrightarrow> distinct (map fst (known_rows t))"
proof (induction t)
  case (Cons row t)
  then show ?case using known_rows_keys [of t] by (cases row; cases "parseStatus (snd row)") auto
qed simp

lemma known_rows_lookup: "distinct (map fst t) \<Longrightarrow> map_of (known_rows t) k = Option.bind (map_of t k) parseStatus"
proof (induction t)
  case (Cons row t)
  then have "map_of (known_rows t) (fst row) = None"
    using known_rows_keys [of t] by (auto simp: map_of_eq_None_iff)
  with Cons show ?case by (cases row; cases "parseStatus (snd row)") auto
qed simp

lemma Precount_run:
  assumes "\<not> tx_aborted (sl_db s)" "tbl_wf (sl_relations s)"
  shows "declared_in_step (snd (relations_Precount s)) \<and> fst (relations_Precount s) = Inr () \<and>
    sl_relations (snd (relations_Precount s)) = sl_relations s \<and> sl_db (snd (relations_Precount s)) = sl_db s"
proof -
  have "relations_Precount s = (Inr (), s\<lparr>sl_declared := fold (\<lambda>(k, r) m. m(k \<mapsto> r)) (known_rows (sl_relations s)) Map.empty,
      sl_playerClan := map_of (map (\<lambda>(p, r). (p, mb_clan r)) (clan_members (sl_db s)))\<rparr>)"
    using assms(1) by (simp add: relations_Precount_def relations_LoadAll_def known_rows_def bindM_def onTables_def tx_do_def LoadAllMemberships_def query_live)
  moreover have "fold (\<lambda>(k, r) m. m(k \<mapsto> r)) (known_rows (sl_relations s)) Map.empty k = Option.bind (map_of (sl_relations s) k) parseStatus" for k
    using assms(2) known_rows_lookup [of "sl_relations s"] known_rows_distinct [of "sl_relations s"] by (simp add: fold_rows tbl_wf_def keys_def split: option.split)
  ultimately show ?thesis using assms(2) by (simp add: declared_in_step_def)
qed

lemma Set_in_step: "declared_in_step s \<Longrightarrow> declared_in_step (snd (relations_Set a b status s))"
  by (auto simp: declared_in_step_def relations_Set_def bindM_def relations_Delete_def relations_Upsert_def parse_String)

inductive relation_step :: "social \<Rightarrow> social \<Rightarrow> bool" where
  declare_relation: "relation_step s (snd (relations_Set a b status s))"
| recount: "\<not> tx_aborted (sl_db s) \<Longrightarrow> relation_step s (snd (relations_Precount s))"

lemma relation_step_in_step: "relation_step s t \<Longrightarrow> declared_in_step s \<Longrightarrow> declared_in_step t"
proof (induction rule: relation_step.induct)
  case (recount s)
  then show ?case using Precount_run by (simp add: declared_in_step_def [of s])
qed (rule Set_in_step)

definition storedHostile :: "social \<Rightarrow> entity_ref \<times> entity_ref \<Rightarrow> bool" where
  "storedHostile s k \<longleftrightarrow> map_of (sl_relations s) k \<in> {Some ''hostile'', Some ''at_war''}"

lemma hostileEntry_stored:
  assumes "declared_in_step s"
  shows "hostileEntry s k \<longleftrightarrow> storedHostile s k"
proof -
  have "sl_declared s k = Option.bind (map_of (sl_relations s) k) parseStatus" using assms unfolding declared_in_step_def by blast
  then show ?thesis
    by (cases "map_of (sl_relations s) k") (auto simp: hostileEntry_def storedHostile_def parseStatus_def relation_IsHostile_def)
qed


section \<open>Standings decay, and what a refresh loses\<close>

lemma Adjust_ok [run_simps]:
  "standing_Adjust p r d s = (Inr v, s') \<longleftrightarrow> v = wrap64 (standing_Get s p r + d) \<and> in32 v \<and> map_of (players (sl_db s)) p \<noteq> None \<and>
     s' = s\<lparr>sl_standings := AList.update (p, r) v (sl_standings s), sl_standing := (sl_standing s)((p, r) \<mapsto> v)\<rparr>"
  by (auto simp: standing_Adjust_def standing_Upsert_def Let_def bindM_def split: if_splits)

lemma Adjust_err: "standing_Adjust p r d s = (Inl e, s') \<Longrightarrow> s' = s"
  by (auto simp: standing_Adjust_def standing_Upsert_def Let_def bindM_def split: if_splits)

definition standing_in_step :: "social \<Rightarrow> bool" where
  "standing_in_step s \<longleftrightarrow> tbl_wf (sl_standings s) \<and> (\<forall>k. sl_standing s k = map_of (sl_standings s) k)"

lemma Adjust_in_step: "standing_in_step s \<Longrightarrow> standing_in_step (snd (standing_Adjust p r d s))"
  by (auto simp: standing_in_step_def standing_Adjust_def standing_Upsert_def Let_def bindM_def)

lemma swap_in_step: "tbl_wf (sl_standings s) \<Longrightarrow> standing_in_step (swapStanding (sl_standings s) s)"
  by (simp add: standing_in_step_def swapStanding_def fold_rows tbl_wf_def keys_def split: option.split)

text \<open>
  \<open>Precount\<close> reads the rows before it takes the lock. An adjustment made in between is in the table, but the
  cache forgets it, and the next adjustment starts from the forgotten value: it overwrites the row, and
  the first one is lost for good.
\<close>

theorem penalty_lost_in_refresh:
  assumes "standing_LoadAll s = (Inr rows, s)" "standing_in_step s"
    and "standing_Adjust p r d s = (Inr v, s1)"
    and "standing_Adjust p r d' (swapStanding rows s1) = (Inr v', s2)"
  shows "map_of (sl_standings s1) (p, r) = Some v \<and> standing_Get (swapStanding rows s1) p r = standing_Get s p r \<and>
    map_of (sl_standings s2) (p, r) = Some (wrap64 (standing_Get s p r + d'))"
proof -
  have "sl_standing (swapStanding rows s1) = sl_standing s"
    using assms(1,2) by (auto simp: swapStanding_def standing_LoadAll_def standing_in_step_def fold_rows tbl_wf_def keys_def fun_eq_iff split: option.split)
  then have "standing_Get (swapStanding rows s1) p r = standing_Get s p r" by (simp add: standing_Get_def)
  with assms(3,4) show ?thesis by (auto simp: Adjust_ok)
qed

lemma decayed_bound:
  assumes "0 < step" "\<bar>v\<bar> \<le> int (Suc n) * step"
  shows "\<bar>decayed step v\<bar> \<le> int n * step"
proof -
  have "0 \<le> int n * step" using assms(1) by simp
  with assms show ?thesis by (auto simp: decayed_def algebra_simps min_def)
qed

lemma decayed_small: "v \<noteq> - (2 ^ 31) \<Longrightarrow> - (2 ^ 31) \<le> v \<Longrightarrow> 0 < step \<Longrightarrow> - (2 ^ 31) < decayed step v"
  by (auto simp: decayed_def)

lemma Decay_run:
  assumes "tbl_wf (sl_standings s)" "in32 (st_DecayStep cfg)" "all_rows (\<lambda>_ v. - (2 ^ 31) < v) (sl_standings s)"
  shows "standing_Tick cfg s = swapStanding (map (\<lambda>(k, v). (k, decayed (st_DecayStep cfg) v)) (sl_standings s))
    (s\<lparr>sl_standings := map (\<lambda>(k, v). (k, decayed (st_DecayStep cfg) v)) (sl_standings s)\<rparr>)"
proof -
  have "\<not> list_ex (\<lambda>(k, v). v = - (2 ^ 31)) (sl_standings s)" using assms(3) by (auto simp: all_rows_def list_ex_iff)
  with assms(2) show ?thesis
    by (simp add: standing_Tick_def standing_Decay_def DecayAll_def bindM_def standing_Precount_def standing_LoadAll_def)
qed

definition standings_below :: "int \<Rightarrow> social \<Rightarrow> bool" where
  "standings_below b s \<longleftrightarrow> tbl_wf (sl_standings s) \<and> all_rows (\<lambda>_ v. - (2 ^ 31) < v \<and> \<bar>v\<bar> \<le> b) (sl_standings s)"

lemma Tick_below:
  assumes "standings_below (int (Suc n) * st_DecayStep cfg) s" "0 < st_DecayStep cfg" "in32 (st_DecayStep cfg)"
  shows "standings_below (int n * st_DecayStep cfg) (standing_Tick cfg s)" "standing_in_step (standing_Tick cfg s)"
proof -
  let ?t = "map (\<lambda>(k, v). (k, decayed (st_DecayStep cfg) v)) (sl_standings s)"
  have run: "standing_Tick cfg s = swapStanding ?t (s\<lparr>sl_standings := ?t\<rparr>)"
    using assms by (intro Decay_run) (auto simp: standings_below_def all_rows_def)
  have same: "map fst ?t = map fst (sl_standings s)" by (simp add: case_prod_beta)
  have wf: "tbl_wf ?t" unfolding tbl_wf_def keys_def same using assms(1) by (simp add: standings_below_def tbl_wf_def keys_def)
  have "all_rows (\<lambda>_ v. - (2 ^ 31) < v \<and> \<bar>v\<bar> \<le> int n * st_DecayStep cfg) ?t"
    using assms decayed_bound [of "st_DecayStep cfg" _ n] decayed_small [of _ "st_DecayStep cfg"]
    by (fastforce simp: standings_below_def all_rows_def)
  with wf show "standings_below (int n * st_DecayStep cfg) (standing_Tick cfg s)"
    by (simp add: run standings_below_def swapStanding_def)
  show "standing_in_step (standing_Tick cfg s)"
    using swap_in_step [of "s\<lparr>sl_standings := ?t\<rparr>"] wf by (simp add: run)
qed

lemma Ticks_below:
  assumes "0 < st_DecayStep cfg" "in32 (st_DecayStep cfg)" "standings_below (int n * st_DecayStep cfg) s" "standing_in_step s"
  shows "standings_below 0 ((standing_Tick cfg ^^ n) s) \<and> standing_in_step ((standing_Tick cfg ^^ n) s)"
  using assms(3,4)
proof (induction n arbitrary: s)
  case (Suc n)
  from Suc.IH [OF Tick_below [OF Suc.prems(1) assms(1,2)]] show ?case by (simp add: funpow_swap1)
qed simp

text \<open>
  C25: Whatever a player did, the closer forgives: after as many passes as the worst standing has steps, the
  standing of everybody with every race is neutral, and nobody is wanted.
\<close>

theorem nobody_stays_wanted:
  assumes "cfg = standing_withDefaults c" "st_WantedThreshold c \<le> 0" "in32 (st_DecayStep cfg)"
    and "standings_below (int n * st_DecayStep cfg) s" "standing_in_step s"
  shows "standing_Get ((standing_Tick cfg ^^ n) s) p r = 0 \<and> \<not> IsWanted cfg ((standing_Tick cfg ^^ n) s) p r"
proof -
  have cfg: "0 < st_DecayStep cfg" "st_WantedThreshold cfg < 0" using assms(1,2) by (auto simp: standing_withDefaults_def)
  let ?t = "(standing_Tick cfg ^^ n) s"
  have "sl_standing ?t (p, r) = map_of (sl_standings ?t) (p, r)" "all_rows (\<lambda>_ v. v = 0) (sl_standings ?t)"
    using Ticks_below [OF cfg(1) assms(3-5)] by (auto simp: standing_in_step_def standings_below_def all_rows_def)
  then have "standing_Get ?t p r = 0" by (auto simp: standing_Get_def dest: all_rowsD split: option.split)
  then show ?thesis using cfg(2) by (simp add: IsWanted_def)
qed

section \<open>What a scan takes\<close>

lemma wrap64_add: "wrap64 (wrap64 a + b) = wrap64 (a + b)"
proof -
  have "((a + 2 ^ 63) mod 2 ^ 64 - 2 ^ 63 + b + 2 ^ 63) mod 2 ^ 64 = (((a + 2 ^ 63) mod 2 ^ 64 + b)) mod (2 ^ 64 :: int)" by simp
  also have "\<dots> = (a + 2 ^ 63 + b) mod 2 ^ 64" by (rule mod_add_left_eq)
  also have "a + 2 ^ 63 + b = a + b + 2 ^ 63" by simp
  finally show ?thesis by (simp add: wrap64_def)
qed

lemma Consume_effect:
  assumes "Consume ref g q d = (Inr u, d')"
  shows "\<not> tx_aborted d \<and> 0 < q \<and> q \<le> stack_qty d (ref, g, 0) \<and> d' = take_stack (ref, g, 0) q d"
  using assms by (auto simp: Consume_def ConsumeIn_def run_simps Subtract_ok checkM_def split: if_splits)

text \<open>The loop takes every illegal stack that the listing shows, and nothing else.\<close>

definition seized :: "entity_ref \<Rightarrow> int \<Rightarrow> int set \<Rightarrow> (stack_key \<Rightarrow> int) \<Rightarrow> stack_key \<Rightarrow> int" where
  "seized ref race gs q = (\<lambda>(o', g, own). if o' = ref \<and> own = 0 \<and> g \<in> gs \<and> IsIllegal race g then 0 else q (o', g, own))"

lemma confiscate_effect:
  assumes "confiscate ref race items acc d = (Inr (amount, lastGood), d')"
    and "distinct (map item_goods items)" "\<And>i. i \<in> set items \<Longrightarrow> item_quantity i = stack_qty d (ref, item_goods i, 0) \<and> 0 \<le> item_quantity i"
    and "wrap64 (fst acc) = fst acc"
  shows "stack_qty d' = seized ref race (item_goods ` set items) (stack_qty d) \<and> only_cargo d d' \<and>
    amount = wrap64 (fst acc + (\<Sum>i \<leftarrow> filter (\<lambda>i. IsIllegal race (item_goods i)) items. item_quantity i))"
  using assms
proof (induction items arbitrary: acc d)
  case Nil
  then show ?case by (auto simp: run_simps seized_def)
next
  case (Cons i items)
  show ?case
  proof (cases "item_quantity i \<le> 0 \<or> \<not> IsIllegal race (item_goods i)")
    case True
    then have run: "confiscate ref race items acc d = (Inr (amount, lastGood), d')" using Cons.prems(1) by auto
    have none: "IsIllegal race (item_goods i) \<Longrightarrow> item_quantity i = 0 \<and> stack_qty d (ref, item_goods i, 0) = 0"
      using True Cons.prems(3) [of i] by auto
    have "seized ref race (item_goods ` set (i # items)) (stack_qty d) = seized ref race (item_goods ` set items) (stack_qty d)"
      using none by (auto simp: seized_def fun_eq_iff)
    moreover have "stack_qty d' = seized ref race (item_goods ` set items) (stack_qty d) \<and> only_cargo d d' \<and>
        amount = wrap64 (fst acc + (\<Sum>i \<leftarrow> filter (\<lambda>i. IsIllegal race (item_goods i)) items. item_quantity i))"
      using Cons.prems(2,4) by (intro Cons.IH [OF run] Cons.prems(3)) simp_all
    ultimately show ?thesis using none by simp
  next
    case False
    then obtain d1 where one: "Consume ref (item_goods i) (item_quantity i) d = (Inr (), d1)"
      and rest: "confiscate ref race items (wrap64 (fst acc + item_quantity i), item_goods i) d1 = (Inr (amount, lastGood), d')"
      using Cons.prems(1) by (auto simp: run_simps)
    have d1: "d1 = take_stack (ref, item_goods i, 0) (item_quantity i) d" using Consume_effect [OF one] by simp
    then have q1: "stack_qty d1 = (stack_qty d)((ref, item_goods i, 0) := 0)"
      using Cons.prems(3) [of i] by (simp add: take_stack_qty)
    have "item_quantity j = stack_qty d1 (ref, item_goods j, 0) \<and> 0 \<le> item_quantity j" if "j \<in> set items" for j
    proof -
      have "item_goods j \<noteq> item_goods i" using that Cons.prems(2) by (auto simp: image_iff)
      then show ?thesis using that Cons.prems(3) [of j] by (simp add: q1)
    qed
    from Cons.IH [OF rest _ this] Cons.prems(2)
    have IH: "stack_qty d' = seized ref race (item_goods ` set items) (stack_qty d1)" "only_cargo d1 d'"
        "amount = wrap64 (wrap64 (fst acc + item_quantity i) + (\<Sum>i \<leftarrow> filter (\<lambda>i. IsIllegal race (item_goods i)) items. item_quantity i))"
      by auto
    have "only_cargo d d'" using IH(2) only_cargo_take only_cargo_trans unfolding d1 by blast
    moreover have "stack_qty d' = seized ref race (item_goods ` set (i # items)) (stack_qty d)"
      using False by (auto simp: IH(1) q1 seized_def fun_eq_iff)
    ultimately show ?thesis using False by (simp add: IH(3) wrap64_add add.assoc)
  qed
qed

lemma tsum_single:
  assumes "tbl_wf t" "map_of t k = Some v" "\<And>k' v'. (k', v') \<in> set t \<Longrightarrow> k' \<noteq> k \<Longrightarrow> f k' v' = 0"
  shows "tsum f t = f k v"
  using assms
proof (induction t)
  case (Cons row t)
  obtain k' v' where row: "row = (k', v')" by (cases row)
  show ?case
  proof (cases "k' = k")
    case True
    have "tsum f t = tsum (\<lambda>_ _. 0) t"
      using Cons.prems(1,3) True row by (intro tsum_cong) (force simp: tbl_wf_def keys_def)
    also have "\<dots> = 0" by (induction t) auto
    finally show ?thesis using Cons.prems(2) True row by simp
  next
    case False
    then show ?thesis using Cons row by (simp add: tbl_wf_def keys_def)
  qed
qed simp

lemma hold_listing:
  assumes "cargo_ok d" "Inventory ref 0 d = (Inr hold, d')"
  shows "d' = d" "distinct (map item_goods (inv_items hold))"
    and "i \<in> set (inv_items hold) \<Longrightarrow> item_quantity i = stack_qty d (ref, item_goods i, 0) \<and> 0 \<le> item_quantity i"
    and "g \<notin> item_goods ` set (inv_items hold) \<Longrightarrow> stack_qty d (ref, g, 0) = 0"
proof -
  let ?rows = "filter (\<lambda>(k, q). visible_stack ref 0 k) (cargo d)"
  let ?types = "sort (remdups (map (\<lambda>((o', g, d), q). g) ?rows))"
  have d': "d' = d" and items: "inv_items hold = map (\<lambda>g. \<lparr>item_goods = g, item_quantity = tsum (\<lambda>(o', g', d) q. if g' = g then q else 0) ?rows\<rparr>) ?types"
    using assms(2) by (auto simp: Inventory_def run_simps ListByOwner_def Let_def split: if_splits)
  show "d' = d" by (rule d')
  show "distinct (map item_goods (inv_items hold))" by (simp add: items comp_def)
  have wf: "tbl_wf ?rows" using assms(1) by (simp add: cargo_ok_def)
  have listed: "g \<in> set ?types \<longleftrightarrow> map_of (cargo d) (ref, g, 0) \<noteq> None" for g
    using assms(1) by (force simp: visible_stack_def cargo_ok_def row_iff)
  have "tsum (\<lambda>(o', g', d) q. if g' = g then q else 0) ?rows = stack_qty d (ref, g, 0)" if "g \<in> set ?types" for g
  proof -
    from that obtain q where q: "map_of (cargo d) (ref, g, 0) = Some q" using listed by auto
    then have "map_of ?rows (ref, g, 0) = Some q" using assms(1) by (simp add: lookup_filter cargo_ok_def visible_stack_def)
    from tsum_single [OF wf this, of "\<lambda>(o', g', d) q. if g' = g then q else 0"] show ?thesis
      using q by (auto simp: stack_qty_def visible_stack_def)
  qed
  then show "i \<in> set (inv_items hold) \<Longrightarrow> item_quantity i = stack_qty d (ref, item_goods i, 0) \<and> 0 \<le> item_quantity i"
    using stack_qty_nonneg [OF assms(1)] by (auto simp: items simp del: set_sort)
  show "g \<notin> item_goods ` set (inv_items hold) \<Longrightarrow> stack_qty d (ref, g, 0) = 0"
    using listed [of g] by (force simp: items image_image stack_qty_def simp del: set_sort split: option.split)
qed

lemma sum_of_good:
  assumes "distinct (map item_goods xs)" "\<And>i. i \<in> set xs \<Longrightarrow> item_quantity i = q (item_goods i)"
  shows "(\<Sum>i \<leftarrow> filter (\<lambda>i. item_goods i = c) xs. item_quantity i) = (if c \<in> item_goods ` set xs then q c else (0 :: int))"
  using assms
proof (induction xs)
  case (Cons x xs)
  then have "(\<Sum>i \<leftarrow> filter (\<lambda>i. item_goods i = c) xs. item_quantity i) = (if c \<in> item_goods ` set xs then q c else 0)" by simp
  with Cons.prems show ?case by auto
qed simp

text \<open>At most one good is illegal, so the amount does not overflow.\<close>

lemma illegal_amount:
  assumes "cargo_ok d" "Inventory ref 0 d = (Inr hold, d')"
  shows "wrap64 (\<Sum>i \<leftarrow> filter (\<lambda>i. IsIllegal race (item_goods i)) (inv_items hold). item_quantity i) =
    (\<Sum>g \<leftarrow> Illegal race. stack_qty d (ref, g, 0))"
proof (cases "race \<in> {1, 2, 3, 4, 5}")
  case True
  then have "IsIllegal race g \<longleftrightarrow> g = Slaves" for g by (auto simp: IsIllegal_def Illegal_def)
  then show ?thesis
    using True hold_listing [OF assms] stack_qty_in64 [OF assms(1)]
    by (simp add: sum_of_good [where q = "\<lambda>g. stack_qty d (ref, g, 0)"] Illegal_def wrap64_id)
next
  case False
  then show ?thesis by (simp add: IsIllegal_def Illegal_def wrap64_id)
qed

text \<open>
  C23: A police scan of a player takes from the hold every illegal stack to the last piece and nothing else,
  reports their sum, and, exactly when there was something to take, lowers the standing of the player
  with the race of the police by the penalty, in the table and in the cache.
\<close>

theorem police_scan_exact:
  assumes "cargo_ok (sl_db s)" "police_Scan scfg cfg npc race i p s = (Inr r, s')" "p \<noteq> 0" "p \<noteq> npc"
  shows "let ref = EntityRef EntityKindShip i; loot = (\<Sum>g \<leftarrow> Illegal race. stack_qty (sl_db s) (ref, g, 0)) in
    stack_qty (sl_db s') = (\<lambda>(o', g, own). if o' = ref \<and> own = 0 \<and> IsIllegal race g then 0 else stack_qty (sl_db s) (o', g, own)) \<and>
    only_cargo (sl_db s) (sl_db s') \<and> sr_Quantity r = loot \<and> sr_Confiscated r = (0 < loot) \<and>
    (if 0 < loot then map_of (sl_standings s') (p, race) = Some (wrap64 (standing_Get s p race - pc_ContrabandPenalty cfg)) \<and>
        standing_Get s' p race = wrap64 (standing_Get s p race - pc_ContrabandPenalty cfg) \<and> sr_Wanted r = IsWanted scfg s' p race
     else sl_standings s' = sl_standings s \<and> sl_standing s' = sl_standing s)"
proof -
  let ?ref = "EntityRef EntityKindShip i"
  let ?loot = "\<Sum>g \<leftarrow> Illegal race. stack_qty (sl_db s) (?ref, g, 0)"
  from assms(2-4) obtain hold d amount lastGood d' where hold: "Inventory ?ref 0 (sl_db s) = (Inr hold, d)"
      and took: "confiscate ?ref race (inv_items hold) (0, 0) d = (Inr (amount, lastGood), d')"
      and rest: "(if amount = 0 then returnM noScan
        else bindM (standing_Adjust p race (- pc_ContrabandPenalty cfg)) (\<lambda>_ s.
          (Inr \<lparr>sr_Confiscated = True, sr_GoodsType = lastGood, sr_Quantity = amount, sr_Wanted = IsWanted scfg s p race\<rparr>, s)))
        (s\<lparr>sl_db := d'\<rparr>) = (Inr r, s')"
    by (auto simp: police_Scan_def run_simps split: prod.splits)
  have d: "d = sl_db s" by (rule hold_listing(1) [OF assms(1) hold])
  note eff = confiscate_effect [OF took [unfolded d] hold_listing(2) [OF assms(1) hold] hold_listing(3) [OF assms(1) hold]]
  have amount: "amount = ?loot" using eff illegal_amount [OF assms(1) hold, of race] by (simp add: wrap64_def)
  have "0 \<le> ?loot" using stack_qty_nonneg [OF assms(1)] by (simp add: Illegal_def)
  moreover have "stack_qty d' = (\<lambda>(o', g, own). if o' = ?ref \<and> own = 0 \<and> IsIllegal race g then 0 else stack_qty (sl_db s) (o', g, own))"
    using eff hold_listing(4) [OF assms(1) hold] by (auto simp: seized_def fun_eq_iff wrap64_def)
  moreover have "only_cargo (sl_db s) d'" using eff by (simp add: wrap64_def)
  ultimately show ?thesis
    using rest amount by (auto simp: Let_def run_simps noScan_def standing_Get_def split: if_splits)
qed

section \<open>Examples\<close>

definition sampleSocial :: social where
  "sampleSocial = \<lparr>sl_db = sample_db\<lparr>goods_types := (323, \<lparr>gt_name = ''Slaves'', gt_space = Fin 1\<rparr>) # goods_types sample_db,
       cargo := [((EntityRef EntityKindShip 10, 323, 0), 4), ((EntityRef EntityKindShip 10, 1, 0), 7)]\<rparr>,
     sl_relations = [((ClanRef 1, ClanRef 2), ''at_war'')], sl_standings = [((1, 1), - 12)],
     sl_declared = [(ClanRef 1, ClanRef 2) \<mapsto> RelationAtWar], sl_playerClan = [1 \<mapsto> 1, 2 \<mapsto> 2], sl_standing = [(1, 1) \<mapsto> - 12]\<rparr>"

definition samplePolice :: "standing_config \<times> police_config" where
  "samplePolice = (standing_withDefaults \<lparr>st_WantedThreshold = 0, st_DecayStep = 0\<rparr>, police_withDefaults \<lparr>pc_ContrabandPenalty = 0, pc_KillPenalty = 0\<rparr>)"

lemma sampleSocial_ok: "cargo_ok (sl_db sampleSocial)" "standing_in_step sampleSocial" "declared_in_step sampleSocial"
  "standings_below 12 sampleSocial"
  by (auto simp: sampleSocial_def cargo_ok_def standing_in_step_def declared_in_step_def standings_below_def tbl_wf_def keys_def all_rows_def in64_def
      parseStatus_def ClanRef_def)


theorem nobody_stays_wanted_witness:
  "standings_below 12 sampleSocial \<and> standing_in_step sampleSocial \<and> IsWanted (fst samplePolice) sampleSocial 1 1 \<and>
   \<not> IsWanted (fst samplePolice) ((standing_Tick (fst samplePolice) ^^ 12) sampleSocial) 1 1"
proof -
  have "IsWanted (fst samplePolice) sampleSocial 1 1"
    by (simp add: IsWanted_def samplePolice_def standing_withDefaults_def standing_Get_def sampleSocial_def)
  moreover have "\<not> IsWanted (fst samplePolice) ((standing_Tick (fst samplePolice) ^^ 12) sampleSocial) 1 1"
    using nobody_stays_wanted [of "fst samplePolice" "\<lparr>st_WantedThreshold = 0, st_DecayStep = 0\<rparr>" 12 sampleSocial 1 1] sampleSocial_ok
    by (simp add: samplePolice_def standing_withDefaults_def in32_def)
  ultimately show ?thesis using sampleSocial_ok by simp
qed

theorem penalty_lost_in_refresh_witness:
  "\<exists>s1 s2. standing_Adjust 1 1 (- 10) sampleSocial = (Inr (- 22), s1) \<and>
     standing_Adjust 1 1 (- 5) (swapStanding (sl_standings sampleSocial) s1) = (Inr (- 17), s2) \<and> map_of (sl_standings s2) (1, 1) = Some (- 17)"
proof -
  let ?s1 = "snd (standing_Adjust 1 1 (- 10) sampleSocial)"
  let ?s2 = "snd (standing_Adjust 1 1 (- 5) (swapStanding (sl_standings sampleSocial) ?s1))"
  have 1: "standing_Adjust 1 1 (- 10) sampleSocial = (Inr (- 22), ?s1)"
    by (simp add: standing_Adjust_def standing_Upsert_def bindM_def standing_Get_def sampleSocial_def sample_db_def wrap64_def in32_def)
  have 2: "standing_Adjust 1 1 (- 5) (swapStanding (sl_standings sampleSocial) ?s1) = (Inr (- 17), ?s2)"
    by (simp add: standing_Adjust_def standing_Upsert_def bindM_def standing_Get_def swapStanding_def sampleSocial_def sample_db_def wrap64_def in32_def)
  have "wrap64 (standing_Get sampleSocial 1 1 + - 5) = - 17" by (simp add: standing_Get_def sampleSocial_def wrap64_def)
  with penalty_lost_in_refresh [OF _ sampleSocial_ok(2) 1 2] 1 2 show ?thesis by (auto simp: standing_LoadAll_def)
qed

theorem police_scan_exact_witness:
  "\<exists>r s'. police_Scan (fst samplePolice) (snd samplePolice) 99 1 10 1 sampleSocial = (Inr r, s') \<and> sr_Quantity r = 4 \<and> sr_Wanted r \<and>
     map_of (sl_standings s') (1, 1) = Some (- 17) \<and> stack_qty (sl_db s') (EntityRef EntityKindShip 10, 323, 0) = 0 \<and>
     stack_qty (sl_db s') (EntityRef EntityKindShip 10, 1, 0) = 7"
proof -
  let ?run = "police_Scan (fst samplePolice) (snd samplePolice) 99 1 10 1 sampleSocial"
  have fst_run: "fst ?run = Inr \<lparr>sr_Confiscated = True, sr_GoodsType = 323, sr_Quantity = 4, sr_Wanted = True\<rparr>" by code_simp
  then have run: "?run = (Inr \<lparr>sr_Confiscated = True, sr_GoodsType = 323, sr_Quantity = 4, sr_Wanted = True\<rparr>, snd ?run)"
    by (metis prod.collapse)
  have loot: "(\<Sum>g \<leftarrow> Illegal 1. stack_qty (sl_db sampleSocial) (EntityRef EntityKindShip 10, g, 0)) = 4"
      "stack_qty (sl_db sampleSocial) (EntityRef EntityKindShip 10, 1, 0) = 7" "\<not> IsIllegal 1 1" "IsIllegal 1 323"
      "wrap64 (standing_Get sampleSocial 1 1 - pc_ContrabandPenalty (snd samplePolice)) = - 17"
    by code_simp+
  from police_scan_exact [OF sampleSocial_ok(1) run] loot show ?thesis
    by (intro exI [of _ "\<lparr>sr_Confiscated = True, sr_GoodsType = 323, sr_Quantity = 4, sr_Wanted = True\<rparr>"] exI [of _ "snd ?run"])
      (simp add: Let_def run [symmetric])
qed

end
