(* ===== verification/Spec2Isabelle.thy ===== *)
theory Spec2Isabelle
  imports Galaxy Mirror Dilation Cargo Trade Auction Insurance Rent Production Bounties World QuestLedger QuestPacer Pilots Spawners Standing
begin

text \<open>
  \<^bold>\<open>The program.\<close> The repository is the server of a space trading game. The galaxy is a graph of sectors joined
  by gates (\<open>internal/world\<close>). Each sector is run by one worker goroutine (\<open>internal/sector\<close>) that owns its ships,
  projectiles, containers, asteroids and statics in memory, applies the commands of players, and every few seconds
  computes a tick: controllers of non-player ships (\<open>internal/ai\<close>), movement, docking, jumps, combat
  (\<open>internal/combat\<close>), the sweep of the dead, write-behind of changed rows, and the patches sent to the clients. A ship
  changes sectors as an event on a bus. Around the workers, services over PostgreSQL (\<open>internal/persistence\<close>) hold what
  must survive: wallets, cargo, markets, auctions, insurance, rents, production, clans, bounties, relations, standings
  and quests. The package \<open>internal/app\<close> puts the parts together and holds the requests that touch several of them: the
  shipyard, the spacesuits, the police.

  \<^bold>\<open>How it is modelled.\<close>
  \<^item> A Go integer is an \<open>int\<close> with \<open>wrap64\<close> written where an operation may overflow; columns keep the range of their SQL
    type and report an overflow as an error. A \<open>float64\<close> is \<open>Float64.float64\<close>: rationals rounded to binary64 after every
    operation, with infinities and NaN. \<open>math.Sin\<close> and \<open>math.Cos\<close> are parameters.
  \<^item> A database operation is a state-and-error computation (theory TxMonad) over the tables of the theory Schema. A failed
    statement aborts its transaction, a transaction that returns an error is undone (\<open>tx_do\<close>). Every \<open>return err\<close> is a value
    of a sum; errors are compared as \<open>errors.Is\<close> does, so wrapping adds nothing.
  \<^item> A sector worker is a function of its state; the collaborators it calls through interfaces answer through the parameter
    \<open>w_reply\<close>, which sees the log of all requests so far, so that failing collaborators are covered. The loop over a Go map
    takes the order of its keys as an argument, and theorems hold for every order. A random source is the sequence of
    numbers it will give.
  \<^item> A JSON state is represented by the value it decodes to. Log lines, metrics and texts for display are left out.

  \<^bold>\<open>The theories and their sources\<close>, in the order of the layers.
  \<^item> Prelude, TxMonad, Float64: integers, tables, loops over maps, the monad with its inversion rules, binary64.
  \<^item> Entities, Domain: \<open>internal/domain\<close>. Schema: the tables and their constraints (\<open>migrations\<close>), errors, transactions.
  \<^item> Players, CargoRepo, TradeRepo, AuctionRepo, QuestRepo: \<open>internal/persistence\<close>. The locale \<open>wallet\<close> states what a wallet
    promises (player cash and clan treasuries interpret it), \<open>stock_ledger\<close> what a pair of add and subtract statements
    promises (cargo stacks and market stock), \<open>db_invariant\<close> how an invariant of the tables passes through transactions.
  \<^item> Cargo, Balance, Pricing, Trade, Auction, Insurance, Rent, Production: \<open>internal/cargo\<close>, \<open>internal/balance\<close>,
    \<open>internal/trade\<close>, \<open>internal/economy\<close>. Clans, Bounties: \<open>internal/social\<close>, with the locale \<open>settlement\<close> for paying out and
    refunding.
  \<^item> World: \<open>internal/world\<close>. Ai: \<open>internal/ai\<close>. Combat, Projectiles: \<open>internal/combat\<close>, with the locale \<open>damageable\<close>.
  \<^item> Sector, SectorTick, Movement, Docking, Handoff, Commands, Actions, Tick, Patches: the files of \<open>internal/sector\<close> they name.
  \<^item> CombatInvariant, Authority, Fleet, TickSafety, Galaxy, Mirror, Dilation: what those keep. Each states a relation between
    the state before and after as a preorder (locale \<open>preorder_rel\<close>), so that loops inherit it.
  \<^item> QuestDefs, Quests, QuestLedger, QuestGen, QuestPacer: \<open>internal/quest\<close>.
  \<^item> Equipment, Shipyard, Pilots: the equipment catalogue of \<open>internal/balance\<close>, and \<open>shipyard_outfit.go\<close>, \<open>sell_ship.go\<close>,
    \<open>refit.go\<close>, \<open>spawner.go\<close>, \<open>eva.go\<close>, \<open>respawn.go\<close> of \<open>internal/app\<close> with the operations of \<open>persistence/ships\<close> they use.
  \<^item> Spawners: \<open>npc_spawner.go\<close>, \<open>race_fleet_spawner.go\<close>, \<open>invasion_spawner.go\<close> of \<open>internal/app\<close>, with \<open>persistence/npcships\<close> and
    \<open>persistence/aistate\<close>. The locale \<open>top_up\<close> states what a spawner that fills quotas promises; both cold-start spawners
    interpret it.
  \<^item> Standing: \<open>internal/social/relations\<close>, \<open>internal/social/racestanding\<close>, \<open>internal/reference\<close>, and \<open>police.go\<close>,
    \<open>reputation.go\<close>, \<open>targeter.go\<close> of \<open>internal/app\<close>.

  \<^bold>\<open>What is shown.\<close>
  \<^item> Money and goods: purchases, sales, auctions, bounties, claims, insurance, rents, quests, installations and sales of
    ships move exactly what they should, once, under the right authority; what is escrowed is conserved; holds are
    never overfilled; the police take exactly the contraband.
  \<^item> Production: the forecast finishes the cycles the live code would finish, memory and rows stay in step.
  \<^item> The galaxy: through any interleaving of commands, ticks, jumps and intakes no ship is in two places, sectors stay
    well-formed, a command touches only the ships it may touch, combat only wounds and the sweep removes exactly the
    dead, a jump arrives unchanged, routes are shortest. A restart refills the ships of factories, stations and fleets
    exactly to their quotas, and invaders stay under their caps.
  \<^item> Clients: whatever patches are dropped, a client catches up; cloaked ships stay unseen; the grid finds what a scan finds.
  \<^item> Society: one leader per clan, authority in clans, hostility exactly as declared, standings decay to neutral, one
    spacesuit per pilot.
  \<^item> Where the code falls short of what it means to do, a theorem states the behaviour it has instead: lost installations,
    lost penalties, quests paid after they were abandoned, respawned pilots sent to the wrong sector, captured ships
    that are never replaced at their home, wanted players whom nobody pursues (below), and others named in the theories.

  \<^bold>\<open>Bounds and fuel.\<close> Every recursion of the model terminates by structure or by a proved measure. The breadth-first
  search is total by the number of unseen vertices. \<open>SimulateFireTicks\<close> is a \<open>while\<close> loop that is shown to return within the
  shots that empty the battery; no theorem assumes that a loop returns.

  \<^bold>\<open>Assumptions.\<close> Transactions are serial: row locks and isolation levels have no counterpart, and interleavings are modelled
  where a request reads before its transaction (shipyard, spacesuits, quests, the standing cache) or where workers
  exchange events. Sequences go back with their transaction, which only makes ids denser. The clock is read once per
  operation or tick. A bus that refuses an event does not deliver it. Workers acknowledge a command in time. Fused
  multiply-add, which the Go compiler does not use on amd64, is not modelled. The orders of text are
  the collation of the database, a parameter.

  \<^bold>\<open>Not modelled.\<close> The HTTP and websocket layer (\<open>internal/api\<close>, the \<open>server.go\<close> and \<open>dto.go\<close> files), login and sessions
  (\<open>internal/auth\<close>), the bus and the metrics (\<open>internal/bus\<close>, \<open>internal/observ\<close>), configuration, clocks and loaders,
  the wiring in \<open>app.go\<close>, the spawner of quest ships, and the loading and saving of rows in the
  other packages of \<open>internal/persistence\<close>: they move data without deciding anything, or talk to the outside. Of
  \<open>worker.go\<close> the goroutine loop, the inbox and the timeouts are left out; \<open>tickSector\<close> is modelled with every pass but
  the call of production, which has its own theory. The converters under \<open>cmd\<close> prepare data once.
\<close>

section \<open>Wanted players and their ships\<close>

text \<open>
  The navy of a race fires at a wanted player only when the ship of the player has no race. Players choose one of the
  races 1 to 5 when they register, and the ships they are given and the ships they buy carry it: whatever the
  standing of the player, no ship of a main race counts such a ship as hostile.
\<close>

lemma main_races_at_peace: "isMainRace a \<Longrightarrow> isMainRace b \<Longrightarrow> 0 < DefaultStanding a b"
proof -
  assume "isMainRace a" "isMainRace b"
  then have "a \<in> {1, 2, 3, 4, 5}" "b \<in> {1, 2, 3, 4, 5}" by (auto simp: isMainRace_def)
  then show ?thesis by (auto simp: DefaultStanding_def mainStandings_def)
qed

theorem wanted_player_unpursued:
  assumes "isMainRace (s_Race navy)" "isMainRace race"
  shows "\<not> overlay_IsHostile cfg npc s navy (buildStarterShip env player race name sector pos) \<and>
    \<not> overlay_IsHostile cfg npc s navy (buildPurchasedShip (pv_yard env) player cls race sector pos yard)"
proof -
  have "s_Race (buildPurchasedShip (pv_yard env) player cls race sector pos yard) = race"
    by (simp add: buildPurchasedShip_def Let_def)
  moreover have "race \<noteq> 0" using assms(2) by (auto simp: isMainRace_def)
  moreover have "\<not> DefaultStanding (s_Race navy) race < 0" using main_races_at_peace [OF assms] by simp
  ultimately show ?thesis by (simp add: overlay_IsHostile_def matrix_IsHostile_def raceref_IsHostile_def starter_fields)
qed

end
